(* ===== verification/Kite_Prelude.thy ===== *)
theory Kite_Prelude
  imports Complex_Main "HOL-Library.Multiset"
begin

text \<open>
  Shared vocabulary of the development.

  The kernel of kite-code (packages/agent-kernel/src) is pure TypeScript over JSON-safe data.
  This theory holds what every component theory needs of that language:
  \<^item> JavaScript values (\<open>jval\<close>), ordinary objects with their property order, and ES
    \<open>Map\<close>s, both as association lists without duplicate keys;
  \<^item> thrown errors as values of a sum type;
  \<^item> \<open>JSON.stringify\<close>, \<open>String.prototype.trim\<close> and the truth value of a JavaScript value;
  \<^item> the accessors of src/packages/agent-kernel/src/reducer-utils.ts;
  \<^item> the locale \<open>key_store\<close>, the contract of a keyed container, proved for both containers.

  Strings are sequences of code units below 256, numbers are rationals (every finite double is
  one) plus the three non-finite values. Behaviour of the language that its standard leaves to
  the host (\<open>Date.parse\<close> outside the ISO format, \<open>localeCompare\<close>, the digits of a
  non-integral number) is the parameter \<open>js_host\<close>; no theorem assumes anything about it
  unless it says so.
\<close>

named_theorems js_simps \<open>equations of the JavaScript accessors\<close>
named_theorems res_simps \<open>inversion of results that did not throw\<close>

section \<open>Results: thrown errors as values\<close>

datatype js_error = JsError string

type_synonym 'a res = "js_error + 'a"

abbreviation throw :: "string \<Rightarrow> 'a res" where
  "throw m \<equiv> Inl (JsError m)"

abbreviation ok :: "unit res" where
  "ok \<equiv> Inr ()"

fun and_then :: "unit res \<Rightarrow> 'a res \<Rightarrow> 'a res" where
  "and_then (Inl e) r = Inl e"
| "and_then (Inr u) r = r"

fun bind_res :: "'a res \<Rightarrow> ('a \<Rightarrow> 'b res) \<Rightarrow> 'b res" where
  "bind_res (Inl e) f = Inl e"
| "bind_res (Inr x) f = f x"

fun check_all :: "('a \<Rightarrow> unit res) \<Rightarrow> 'a list \<Rightarrow> unit res" where
  "check_all f [] = ok"
| "check_all f (x # xs) = and_then (f x) (check_all f xs)"

lemma and_then_Inr [res_simps]: "and_then a r = Inr y \<longleftrightarrow> a = ok \<and> r = Inr y"
  by (cases a) auto

lemma bind_res_Inr [res_simps]: "bind_res a f = Inr y \<longleftrightarrow> (\<exists>x. a = Inr x \<and> f x = Inr y)"
  by (cases a) auto

lemma bind_res_Inl: "bind_res a f = Inl e \<longleftrightarrow> a = Inl e \<or> (\<exists>x. a = Inr x \<and> f x = Inl e)"
  by (cases a) auto

lemma check_all_ok [res_simps]: "check_all f xs = ok \<longleftrightarrow> (\<forall>x \<in> set xs. f x = ok)"
  by (induction xs) (auto simp: and_then_Inr)

lemma if_throw_Inr [res_simps]: "(if b then Inl e else r) = Inr y \<longleftrightarrow> \<not> b \<and> r = Inr y"
  by simp

section \<open>Ordinary objects and ES maps\<close>

type_synonym 'v jsobj = "(string \<times> 'v) list"

abbreviation obj_get :: "'v jsobj \<Rightarrow> string \<Rightarrow> 'v option" where
  "obj_get o' k \<equiv> map_of o' k"

definition obj_keys :: "('k \<times> 'v) list \<Rightarrow> 'k list" where
  "obj_keys o' = map fst o'"

definition obj_values :: "('k \<times> 'v) list \<Rightarrow> 'v list" where
  "obj_values o' = map snd o'"

definition is_digit_char :: "char \<Rightarrow> bool" where
  "is_digit_char c \<longleftrightarrow> c \<in> set ''0123456789''"

definition digit_value :: "char \<Rightarrow> nat" where
  "digit_value c = of_char c - 48"

definition decimal_value :: "string \<Rightarrow> nat" where
  "decimal_value s = foldl (\<lambda>n c. 10 * n + digit_value c) 0 s"

text \<open>
  A property key is an array index when it is the canonical decimal of a number below
  \<open>2^32 - 1\<close>. Own properties are enumerated indices first, in ascending order, then the
  other string keys in the order of their creation.
\<close>

definition is_index_key :: "string \<Rightarrow> bool" where
  "is_index_key k \<longleftrightarrow>
     (case k of [] \<Rightarrow> False
      | c # cs \<Rightarrow> is_digit_char c \<and> (c = CHR ''0'' \<longrightarrow> cs = []) \<and>
          list_all is_digit_char cs \<and> length cs < 10 \<and> decimal_value k < 4294967295)"

fun insert_index :: "string \<Rightarrow> 'v \<Rightarrow> 'v jsobj \<Rightarrow> 'v jsobj" where
  "insert_index k v [] = [(k, v)]"
| "insert_index k v ((k', v') # o') =
     (if is_index_key k' \<and> decimal_value k' < decimal_value k
      then (k', v') # insert_index k v o' else (k, v) # (k', v') # o')"

fun replace_entry :: "'k \<Rightarrow> 'v \<Rightarrow> ('k \<times> 'v) list \<Rightarrow> ('k \<times> 'v) list" where
  "replace_entry k v [] = []"
| "replace_entry k v ((k', v') # o') =
     (if k' = k then (k', v) # o' else (k', v') # replace_entry k v o')"

definition obj_set :: "string \<Rightarrow> 'v \<Rightarrow> 'v jsobj \<Rightarrow> 'v jsobj" where
  "obj_set k v o' =
     (if k \<in> set (obj_keys o') then replace_entry k v o'
      else if is_index_key k then insert_index k v o'
      else o' @ [(k, v)])"

definition obj_delete :: "'k \<Rightarrow> ('k \<times> 'v) list \<Rightarrow> ('k \<times> 'v) list" where
  "obj_delete k o' = filter (\<lambda>(k', v). k' \<noteq> k) o'"

definition map_set :: "'k \<Rightarrow> 'v \<Rightarrow> ('k \<times> 'v) list \<Rightarrow> ('k \<times> 'v) list" where
  "map_set k v m = (if k \<in> set (obj_keys m) then replace_entry k v m else m @ [(k, v)])"

definition distinct_keys :: "('k \<times> 'v) list \<Rightarrow> bool" where
  "distinct_keys o' \<longleftrightarrow> distinct (obj_keys o')"

lemma obj_keys_simps [simp]:
  "obj_keys [] = []" "obj_keys (kv # o') = fst kv # obj_keys o'"
  "obj_keys (o1 @ o2) = obj_keys o1 @ obj_keys o2"
  by (simp_all add: obj_keys_def)

lemma obj_values_simps [simp]:
  "obj_values [] = []" "obj_values (kv # o') = snd kv # obj_values o'"
  "obj_values (o1 @ o2) = obj_values o1 @ obj_values o2"
  by (simp_all add: obj_values_def)

lemma in_obj_keys_iff: "k \<in> set (obj_keys o') \<longleftrightarrow> map_of o' k \<noteq> None"
  by (induction o') auto

lemma map_of_replace_entry:
  "map_of (replace_entry k v o') k' =
     (if k' = k \<and> k \<in> set (obj_keys o') then Some v else map_of o' k')"
  by (induction o') auto

lemma map_of_insert_index:
  "k \<notin> set (obj_keys o') \<Longrightarrow> map_of (insert_index k v o') k' = (if k' = k then Some v else map_of o' k')"
  by (induction o') auto

lemma obj_get_set [simp]: "obj_get (obj_set k v o') k' = (if k' = k then Some v else obj_get o' k')"
  by (auto simp: obj_set_def map_of_replace_entry map_of_insert_index in_obj_keys_iff
      map_add_def split: option.splits)

lemma map_get_set [simp]: "map_of (map_set k v m) k' = (if k' = k then Some v else map_of m k')"
  by (auto simp: map_set_def map_of_replace_entry in_obj_keys_iff map_add_def
      split: option.splits)

lemma obj_get_delete [simp]: "map_of (obj_delete k o') k' = (if k' = k then None else map_of o' k')"
  by (induction o') (auto simp: obj_delete_def)

lemma obj_keys_replace_entry [simp]: "obj_keys (replace_entry k v o') = obj_keys o'"
  by (induction o') auto

lemma set_keys_insert_index [simp]:
  "set (obj_keys (insert_index k v o')) = insert k (set (obj_keys o'))"
  by (induction k v o' rule: insert_index.induct) (simp_all add: insert_commute)

lemma distinct_keys_insert_index:
  "k \<notin> set (obj_keys o') \<Longrightarrow> distinct (obj_keys o') \<Longrightarrow> distinct (obj_keys (insert_index k v o'))"
  by (induction o') auto

lemma distinct_keys_set [simp]: "distinct_keys o' \<Longrightarrow> distinct_keys (obj_set k v o')"
  by (auto simp: distinct_keys_def obj_set_def distinct_keys_insert_index)

lemma distinct_keys_map_set [simp]: "distinct_keys m \<Longrightarrow> distinct_keys (map_set k v m)"
  by (auto simp: distinct_keys_def map_set_def)

lemma distinct_keys_delete [simp]: "distinct_keys o' \<Longrightarrow> distinct_keys (obj_delete k o')"
  by (induction o') (auto simp: distinct_keys_def obj_delete_def obj_keys_def)

lemma distinct_keys_Nil [simp]: "distinct_keys []"
  by (simp add: distinct_keys_def)

lemma distinct_keys_map_of: "distinct_keys o' \<Longrightarrow> map_of o' k = Some v \<longleftrightarrow> (k, v) \<in> set o'"
  by (simp add: distinct_keys_def obj_keys_def)

section \<open>The contract of a keyed container\<close>

text \<open>
  Components use the containers only through lookup, store and removal. \<open>key_store\<close> is that
  contract; a client invariant of the form "every stored entry satisfies \<open>P\<close>" is proved once
  here and used through the two interpretations.
\<close>

locale key_store =
  fixes get :: "'m \<Rightarrow> 'k \<Rightarrow> 'v option"
    and put :: "'k \<Rightarrow> 'v \<Rightarrow> 'm \<Rightarrow> 'm"
    and del :: "'k \<Rightarrow> 'm \<Rightarrow> 'm"
    and entries :: "'m \<Rightarrow> ('k \<times> 'v) list"
    and wf :: "'m \<Rightarrow> bool"
  assumes get_put: "get (put k v m) k' = (if k' = k then Some v else get m k')"
    and get_del: "get (del k m) k' = (if k' = k then None else get m k')"
    and wf_put: "wf m \<Longrightarrow> wf (put k v m)"
    and wf_del: "wf m \<Longrightarrow> wf (del k m)"
    and entries_get: "wf m \<Longrightarrow> (k, v) \<in> set (entries m) \<longleftrightarrow> get m k = Some v"
begin

definition every :: "('k \<Rightarrow> 'v \<Rightarrow> bool) \<Rightarrow> 'm \<Rightarrow> bool" where
  "every P m \<longleftrightarrow> (\<forall>k v. get m k = Some v \<longrightarrow> P k v)"

lemma every_put: "every P m \<Longrightarrow> P k v \<Longrightarrow> every P (put k v m)"
  by (simp add: every_def get_put)

lemma every_del: "every P m \<Longrightarrow> every P (del k m)"
  by (simp add: every_def get_del)

lemma every_entries: "wf m \<Longrightarrow> every P m \<longleftrightarrow> (\<forall>(k, v) \<in> set (entries m). P k v)"
  by (auto simp: every_def entries_get)

lemma entries_put:
  assumes "wf m"
  shows "set (entries (put k v m)) = insert (k, v) {(k', v') \<in> set (entries m). k' \<noteq> k}"
  using assms by (auto simp: entries_get wf_put get_put split: if_splits)

lemma put_same: "get m k = Some v \<Longrightarrow> get (put k v m) = get m"
  by (auto simp: get_put fun_eq_iff)

end

interpretation js_object: key_store
  "map_of :: 'v jsobj \<Rightarrow> string \<Rightarrow> 'v option" obj_set obj_delete "\<lambda>o'. o'" distinct_keys
  by unfold_locales (simp_all add: distinct_keys_map_of)

interpretation es_map: key_store
  "map_of :: ('k \<times> 'v) list \<Rightarrow> 'k \<Rightarrow> 'v option" map_set obj_delete "\<lambda>m. m" distinct_keys
  by unfold_locales (simp_all add: distinct_keys_map_of)

section \<open>JavaScript values\<close>

datatype jval =
    JUndef
  | JNull
  | JBool bool
  | JNum rat
  | JNaN
  | JInf bool
  | JStr string
  | JArr "jval list"
  | JObj "(string \<times> jval) list"

type_synonym jobj = "jval jsobj"

text \<open>Member access \<open>o.f\<close>: \<open>undefined\<close> when the property is absent.\<close>

definition fld :: "jobj \<Rightarrow> string \<Rightarrow> jval" where
  "fld o' f = (case map_of o' f of None \<Rightarrow> JUndef | Some v \<Rightarrow> v)"

text \<open>Member access on an arbitrary value; \<open>v?.f\<close> on \<open>null\<close> and \<open>undefined\<close>.\<close>

definition vfld :: "jval \<Rightarrow> string \<Rightarrow> jval" where
  "vfld v f = (case v of JObj o' \<Rightarrow> fld o' f | _ \<Rightarrow> JUndef)"

fun nullish :: "jval \<Rightarrow> bool" where
  "nullish JUndef = True"
| "nullish JNull = True"
| "nullish _ = False"

text \<open>\<open>a ?? b\<close>\<close>

definition coalesce :: "jval \<Rightarrow> jval \<Rightarrow> jval" where
  "coalesce a b = (if nullish a then b else a)"

fun truthy :: "jval \<Rightarrow> bool" where
  "truthy JUndef = False"
| "truthy JNull = False"
| "truthy (JBool b) = b"
| "truthy (JNum r) = (r \<noteq> 0)"
| "truthy JNaN = False"
| "truthy (JInf b) = True"
| "truthy (JStr s) = (s \<noteq> [])"
| "truthy (JArr vs) = True"
| "truthy (JObj o') = True"

text \<open>\<open>Number.isInteger\<close> and \<open>Number.isSafeInteger\<close>\<close>

definition is_integer :: "jval \<Rightarrow> bool" where
  "is_integer v = (case v of JNum r \<Rightarrow> of_int \<lfloor>r\<rfloor> = r | _ \<Rightarrow> False)"

definition max_safe_integer :: int where
  "max_safe_integer = 9007199254740991"

definition is_safe_integer :: "jval \<Rightarrow> bool" where
  "is_safe_integer v = (case v of JNum r \<Rightarrow> of_int \<lfloor>r\<rfloor> = r \<and> \<bar>\<lfloor>r\<rfloor>\<bar> \<le> max_safe_integer | _ \<Rightarrow> False)"

definition jint :: "int \<Rightarrow> jval" where
  "jint i = JNum (of_int i)"

definition int_of :: "jval \<Rightarrow> int" where
  "int_of v = (case v of JNum r \<Rightarrow> \<lfloor>r\<rfloor> | _ \<Rightarrow> 0)"

lemma fld_simps [simp]:
  "fld [] f = JUndef"
  "fld ((k, v) # o') f = (if k = f then v else fld o' f)"
  "fld (obj_set k v o') f = (if f = k then v else fld o' f)"
  by (simp_all add: fld_def)

lemma fld_append:
  "fld (a @ b) f = (if f \<in> set (obj_keys a) then fld a f else fld b f)"
  by (auto simp: fld_def in_obj_keys_iff map_add_def split: option.splits)

lemma vfld_simps [simp]:
  "vfld JUndef f = JUndef" "vfld JNull f = JUndef" "vfld (JBool b) f = JUndef"
  "vfld (JNum r) f = JUndef" "vfld (JStr s) f = JUndef" "vfld (JArr vs) f = JUndef"
  "vfld JNaN f = JUndef" "vfld (JInf b) f = JUndef"
  "vfld (JObj o') f = fld o' f"
  by (simp_all add: vfld_def)

lemma int_of_jint [simp]: "int_of (jint i) = i"
  by (simp add: int_of_def jint_def)

lemma is_safe_integer_jint [simp]: "is_safe_integer (jint i) \<longleftrightarrow> \<bar>i\<bar> \<le> max_safe_integer"
  by (simp add: is_safe_integer_def jint_def)

lemma is_safe_integerE:
  assumes "is_safe_integer v"
  obtains i where "v = jint i" "\<bar>i\<bar> \<le> max_safe_integer"
  using assms by (cases v) (auto simp: is_safe_integer_def jint_def)

section \<open>Strings\<close>

definition is_js_space :: "char \<Rightarrow> bool" where
  "is_js_space c \<longleftrightarrow> (of_char c :: nat) \<in> {9, 10, 11, 12, 13, 32, 160}"

definition js_trim :: "string \<Rightarrow> string" where
  "js_trim s = rev (dropWhile is_js_space (rev (dropWhile is_js_space s)))"

fun starts_with :: "string \<Rightarrow> string \<Rightarrow> bool" where
  "starts_with [] s = True"
| "starts_with (p # ps) [] = False"
| "starts_with (p # ps) (c # cs) = (p = c \<and> starts_with ps cs)"

fun nat_digits :: "nat \<Rightarrow> string" where
  "nat_digits n =
     (if n < 10 then [char_of (48 + n)] else nat_digits (n div 10) @ [char_of (48 + n mod 10)])"

declare nat_digits.simps [simp del]

definition int_string :: "int \<Rightarrow> string" where
  "int_string i = (if i < 0 then CHR ''-'' # nat_digits (nat (- i)) else nat_digits (nat i))"

text \<open>
  What the language leaves to its host: \<open>Date.parse\<close> (milliseconds, or \<open>None\<close> for
  \<open>NaN\<close>), the collation behind \<open>localeCompare\<close> (as \<open>left <= right\<close>), and the digits
  of a number that is not an integer below \<open>10^21\<close>, and the number a string denotes
  (\<open>None\<close> for \<open>NaN\<close>).
\<close>

record js_host =
  date_parse :: "string \<Rightarrow> rat option"
  locale_le :: "string \<Rightarrow> string \<Rightarrow> bool"
  number_string :: "rat \<Rightarrow> string"
  string_number :: "string \<Rightarrow> rat option"

definition num_string :: "js_host \<Rightarrow> rat \<Rightarrow> string" where
  "num_string h r =
     (if of_int \<lfloor>r\<rfloor> = r \<and> \<bar>r\<bar> < 10 ^ 21 then int_string \<lfloor>r\<rfloor> else number_string h r)"

text \<open>
  \<open>String(v)\<close>, \<open>Number(v)\<close>, \<open>Date.parse(v)\<close> and \<open>typeof v === 'object'\<close> for a value other
  than \<open>null\<close>. \<open>js_String\<close> is the text where the conversion gives one; the conversion itself is
  \<open>to_string\<close> below, which throws where the language does.
\<close>

fun join_with :: "string \<Rightarrow> string list \<Rightarrow> string" where
  "join_with sep [] = []"
| "join_with sep [s] = s"
| "join_with sep (s # t # ts) = s @ sep @ join_with sep (t # ts)"

fun js_String :: "js_host \<Rightarrow> jval \<Rightarrow> string"
  and js_element_strings :: "js_host \<Rightarrow> jval list \<Rightarrow> string list" where
  "js_String h JUndef = ''undefined''"
| "js_String h JNull = ''null''"
| "js_String h (JBool b) = (if b then ''true'' else ''false'')"
| "js_String h (JNum r) = num_string h r"
| "js_String h JNaN = ''NaN''"
| "js_String h (JInf b) = (if b then ''Infinity'' else ''-Infinity'')"
| "js_String h (JStr s) = s"
| "js_String h (JArr vs) = join_with '','' (js_element_strings h vs)"
| "js_String h (JObj o') = ''[object Object]''"
| "js_element_strings h [] = []"
| "js_element_strings h (v # vs) =
     (if nullish v then [] else js_String h v) # js_element_strings h vs"

text \<open>
  The conversion of an object looks up its \<open>toString\<close>. A property of that name shadows the inherited
  method; no value of the model is callable and the inherited \<open>valueOf\<close> gives the object back, so
  the language throws a \<open>TypeError\<close>. A list converts its elements.
\<close>

fun string_throws :: "jval \<Rightarrow> bool"
  and element_throws :: "jval list \<Rightarrow> bool" where
  "string_throws (JObj o') = (''toString'' \<in> set (map fst o'))"
| "string_throws (JArr vs) = element_throws vs"
| "string_throws JUndef = False"
| "string_throws JNull = False"
| "string_throws (JBool b) = False"
| "string_throws (JNum r) = False"
| "string_throws JNaN = False"
| "string_throws (JInf b) = False"
| "string_throws (JStr s) = False"
| "element_throws [] = False"
| "element_throws (v # vs) = (string_throws v \<or> element_throws vs)"

definition conversion_error :: js_error where
  "conversion_error = JsError ''Cannot convert object to primitive value''"

definition to_string :: "js_host \<Rightarrow> jval \<Rightarrow> string res" where
  "to_string h v = (if string_throws v then Inl conversion_error else Inr (js_String h v))"

text \<open>\<open>allowed.includes(String(v))\<close>, and a condition that is tested only where the value is present.\<close>

definition spelled :: "js_host \<Rightarrow> string list \<Rightarrow> jval \<Rightarrow> bool res" where
  "spelled h allowed v = bind_res (to_string h v) (\<lambda>text. Inr (text \<in> set allowed))"

definition if_present :: "(jval \<Rightarrow> bool res) \<Rightarrow> jval \<Rightarrow> bool res" where
  "if_present check v = (if v = JUndef then Inr True else check v)"

text \<open>Conditions joined by \<open>&&\<close>: the first that is false, or that throws, decides.\<close>

fun all_of :: "bool res list \<Rightarrow> bool res" where
  "all_of [] = Inr True"
| "all_of (c # cs) = bind_res c (\<lambda>b. if b then all_of cs else Inr False)"

lemma all_of_Cons_true [simp]: "all_of (c # cs) = Inr True \<longleftrightarrow> c = Inr True \<and> all_of cs = Inr True"
  by (auto simp: bind_res_Inr split: if_splits)

declare all_of.simps(2) [simp del]

lemma all_of_true [res_simps]: "all_of cs = Inr True \<longleftrightarrow> list_all (\<lambda>c. c = Inr True) cs"
  by (induction cs) simp_all

lemma all_of_throws: "all_of cs = Inl e \<Longrightarrow> list_ex (\<lambda>c. c = Inl e) cs"
proof (induction cs)
  case (Cons c cs)
  then show ?case by (cases c) (auto simp: all_of.simps(2) split: if_splits)
qed simp

lemma spelled_true [res_simps]: "spelled h allowed v = Inr True \<longleftrightarrow> \<not> string_throws v \<and> js_String h v \<in> set allowed"
  by (simp add: spelled_def to_string_def)

lemma spelled_throws [res_simps]: "spelled h allowed v = Inl e \<longleftrightarrow> string_throws v \<and> e = conversion_error"
  by (auto simp: spelled_def to_string_def)

lemma spelled_word [simp]: "spelled h allowed (JStr s) = Inr (s \<in> set allowed)"
  by (simp add: spelled_def to_string_def)

lemma if_present_true [res_simps]: "if_present check v = Inr True \<longleftrightarrow> v = JUndef \<or> check v = Inr True"
  by (simp add: if_present_def)

lemma if_present_throws: "if_present check v = Inl e \<Longrightarrow> check v = Inl e"
  by (simp add: if_present_def split: if_splits)

definition js_Number :: "js_host \<Rightarrow> jval \<Rightarrow> jval" where
  "js_Number h v =
     (case v of
        JNum r \<Rightarrow> v
      | JNaN \<Rightarrow> v
      | JInf b \<Rightarrow> v
      | JUndef \<Rightarrow> JNaN
      | JNull \<Rightarrow> JNum 0
      | JBool b \<Rightarrow> JNum (if b then 1 else 0)
      | _ \<Rightarrow> (case string_number h (js_String h v) of None \<Rightarrow> JNaN | Some r \<Rightarrow> JNum r))"

definition js_date_parse :: "js_host \<Rightarrow> jval \<Rightarrow> rat option" where
  "js_date_parse h v = date_parse h (js_String h v)"

definition typeof_object :: "jval \<Rightarrow> bool" where
  "typeof_object v = (case v of JObj o' \<Rightarrow> True | JArr vs \<Rightarrow> True | _ \<Rightarrow> False)"

text \<open>\<open>a <= b\<close> and \<open>a > b\<close> on numbers that may be \<open>NaN\<close>: such a comparison is false.\<close>

definition num_le :: "rat option \<Rightarrow> rat option \<Rightarrow> bool" where
  "num_le a b = (case (a, b) of (Some x, Some y) \<Rightarrow> x \<le> y | _ \<Rightarrow> False)"

definition num_gt :: "rat option \<Rightarrow> rat option \<Rightarrow> bool" where
  "num_gt a b = (case (a, b) of (Some x, Some y) \<Rightarrow> x > y | _ \<Rightarrow> False)"

section \<open>JSON.stringify\<close>

definition hex_digit :: "nat \<Rightarrow> char" where
  "hex_digit n = (''0123456789abcdef'' ! (n mod 16))"

definition json_char :: "char \<Rightarrow> string" where
  "json_char c =
     (let n = (of_char c :: nat) in
      if n = 34 then [char_of (92 :: nat), c]
      else if n = 92 then [c, c]
      else if n = 8 then [char_of (92 :: nat), CHR ''b'']
      else if n = 9 then [char_of (92 :: nat), CHR ''t'']
      else if n = 10 then [char_of (92 :: nat), CHR ''n'']
      else if n = 12 then [char_of (92 :: nat), CHR ''f'']
      else if n = 13 then [char_of (92 :: nat), CHR ''r'']
      else if n < 32 then char_of (92 :: nat) # ''u00'' @ [hex_digit (n div 16), hex_digit n]
      else [c])"

definition json_string :: "string \<Rightarrow> string" where
  "json_string s = char_of (34 :: nat) # concat (map json_char s) @ [char_of (34 :: nat)]"

text \<open>The result is \<open>None\<close> where \<open>JSON.stringify\<close> returns \<open>undefined\<close>.\<close>

fun json_stringify :: "js_host \<Rightarrow> jval \<Rightarrow> string option"
  and json_elements :: "js_host \<Rightarrow> jval list \<Rightarrow> string list"
  and json_members :: "js_host \<Rightarrow> (string \<times> jval) list \<Rightarrow> string list" where
  "json_stringify h JUndef = None"
| "json_stringify h JNull = Some ''null''"
| "json_stringify h (JBool b) = Some (if b then ''true'' else ''false'')"
| "json_stringify h (JNum r) = Some (num_string h r)"
| "json_stringify h JNaN = Some ''null''"
| "json_stringify h (JInf b) = Some ''null''"
| "json_stringify h (JStr s) = Some (json_string s)"
| "json_stringify h (JArr vs) = Some (''['' @ join_with '','' (json_elements h vs) @ '']'')"
| "json_stringify h (JObj o') = Some (''{'' @ join_with '','' (json_members h o') @ ''}'')"
| "json_elements h [] = []"
| "json_elements h (v # vs) =
     (case json_stringify h v of None \<Rightarrow> ''null'' | Some s \<Rightarrow> s) # json_elements h vs"
| "json_members h [] = []"
| "json_members h ((k, v) # o') =
     (case json_stringify h v of None \<Rightarrow> json_members h o'
      | Some s \<Rightarrow> (json_string k @ '':'' @ s) # json_members h o')"

section \<open>Accessors of reducer-utils.ts\<close>

definition isRecord :: "jval \<Rightarrow> bool" where
  "isRecord v = (case v of JObj o' \<Rightarrow> True | _ \<Rightarrow> False)"

definition as_record :: "jval \<Rightarrow> jobj option" where
  "as_record v = (case v of JObj o' \<Rightarrow> Some o' | _ \<Rightarrow> None)"

definition as_string :: "jval \<Rightarrow> string option" where
  "as_string v = (case v of JStr s \<Rightarrow> Some s | _ \<Rightarrow> None)"

definition stringField :: "jobj \<Rightarrow> string \<Rightarrow> string option" where
  "stringField o' f = as_string (fld o' f)"

definition nonEmptyStringField :: "jobj \<Rightarrow> string \<Rightarrow> string option" where
  "nonEmptyStringField o' f =
     (case stringField o' f of None \<Rightarrow> None | Some s \<Rightarrow> if length s > 0 then Some s else None)"

definition numberField :: "jobj \<Rightarrow> string \<Rightarrow> rat option" where
  "numberField o' f = (case fld o' f of JNum r \<Rightarrow> Some r | _ \<Rightarrow> None)"

definition booleanField :: "jobj \<Rightarrow> string \<Rightarrow> bool option" where
  "booleanField o' f = (case fld o' f of JBool b \<Rightarrow> Some b | _ \<Rightarrow> None)"

definition recordField :: "jobj \<Rightarrow> string \<Rightarrow> jobj option" where
  "recordField o' f = as_record (fld o' f)"

definition arrayField :: "jobj \<Rightarrow> string \<Rightarrow> jval list option" where
  "arrayField o' f = (case fld o' f of JArr vs \<Rightarrow> Some vs | _ \<Rightarrow> None)"

definition replaceStringInList :: "string list \<Rightarrow> string \<Rightarrow> bool \<Rightarrow> string list" where
  "replaceStringInList values value present =
     filter (\<lambda>candidate. candidate \<noteq> value) values @ (if present then [value] else [])"

text \<open>\<open>s || t\<close> and \<open>s ?? t\<close> on optional strings, and the truth value of one.\<close>

definition or_string :: "string option \<Rightarrow> string option \<Rightarrow> string option" where
  "or_string a b = (case a of None \<Rightarrow> b | Some s \<Rightarrow> if s = [] then b else a)"

definition else_string :: "string option \<Rightarrow> string option \<Rightarrow> string option" where
  "else_string a b = (case a of None \<Rightarrow> b | Some s \<Rightarrow> a)"

definition or_default :: "'a option \<Rightarrow> 'a \<Rightarrow> 'a" where
  "or_default a d = (case a of None \<Rightarrow> d | Some s \<Rightarrow> s)"

definition non_empty :: "string option \<Rightarrow> bool" where
  "non_empty a \<longleftrightarrow> (case a of None \<Rightarrow> False | Some s \<Rightarrow> s \<noteq> [])"

lemma or_default_simps [simp]: "or_default None d = d" "or_default (Some x) d = x"
  by (simp_all add: or_default_def)

lemma as_string_simps [simp]:
  "as_string (JStr s) = Some s" "as_string JUndef = None" "as_string JNull = None"
  "as_string (JNum r) = None" "as_string (JBool b) = None" "as_string (JArr vs) = None"
  "as_string (JObj o') = None"
  by (simp_all add: as_string_def)

lemma as_record_simps [simp]:
  "as_record (JStr s) = None" "as_record JUndef = None" "as_record JNull = None"
  "as_record (JNum r) = None" "as_record (JBool b) = None" "as_record (JArr vs) = None"
  "as_record (JObj o') = Some o'"
  by (simp_all add: as_record_def)

lemma as_string_Some [simp]: "as_string v = Some s \<longleftrightarrow> v = JStr s"
  by (auto simp: as_string_def split: jval.splits)

lemma as_record_Some [simp]: "as_record v = Some r \<longleftrightarrow> v = JObj r"
  by (auto simp: as_record_def split: jval.splits)

lemma nonEmptyStringField_Some:
  "nonEmptyStringField o' f = Some s \<longleftrightarrow> stringField o' f = Some s \<and> s \<noteq> []"
  by (auto simp: nonEmptyStringField_def split: option.splits)

lemma set_replaceStringInList:
  "set (replaceStringInList vs v p) = (set vs - {v}) \<union> (if p then {v} else {})"
  by (auto simp: replaceStringInList_def)

lemma distinct_replaceStringInList: "distinct vs \<Longrightarrow> distinct (replaceStringInList vs v p)"
  by (auto simp: replaceStringInList_def)

section \<open>Stable sorting by a comparison\<close>

text \<open>\<open>Array.prototype.sort\<close> is stable: equal elements keep their order.\<close>

fun insert_by :: "('a \<Rightarrow> 'a \<Rightarrow> bool) \<Rightarrow> 'a \<Rightarrow> 'a list \<Rightarrow> 'a list" where
  "insert_by le x [] = [x]"
| "insert_by le x (y # ys) = (if le x y then x # y # ys else y # insert_by le x ys)"

fun sort_by :: "('a \<Rightarrow> 'a \<Rightarrow> bool) \<Rightarrow> 'a list \<Rightarrow> 'a list" where
  "sort_by le [] = []"
| "sort_by le (x # xs) = insert_by le x (sort_by le xs)"

lemma set_insert_by [simp]: "set (insert_by le x xs) = insert x (set xs)"
  by (induction xs) auto

lemma set_sort_by [simp]: "set (sort_by le xs) = set xs"
  by (induction xs) auto

lemma length_insert_by [simp]: "length (insert_by le x xs) = Suc (length xs)"
  by (induction xs) auto

lemma length_sort_by [simp]: "length (sort_by le xs) = length xs"
  by (induction xs) auto

lemma mset_insert_by [simp]: "mset (insert_by le x xs) = add_mset x (mset xs)"
  by (induction xs) auto

lemma mset_sort_by [simp]: "mset (sort_by le xs) = mset xs"
  by (induction xs) auto

lemma insert_by_sorted:
  assumes "\<And>a b. le a b \<or> le b a" "\<And>a b c. le a b \<Longrightarrow> le b c \<Longrightarrow> le a c" "sorted_wrt le xs"
  shows "sorted_wrt le (insert_by le x xs)"
  using assms(3)
proof (induction xs)
  case (Cons y ys)
  then show ?case using assms(1) [of x y] assms(2) by auto
qed simp

lemma sort_by_sorted:
  assumes "\<And>a b. le a b \<or> le b a" "\<And>a b c. le a b \<Longrightarrow> le b c \<Longrightarrow> le a c"
  shows "sorted_wrt le (sort_by le xs)"
  by (induction xs) (simp_all add: insert_by_sorted assms)

end
