(* ===== verification/Kite_State.thy ===== *)
theory Kite_State
  imports Kite_Prelude
begin

text \<open>
  The persisted State 27 shape of src/packages/agent-kernel/src/state.ts: one record or datatype
  per interface or union of the source, with the source's field names behind a short prefix.
  An optional property is an \<open>option\<close> field (an absent property and one set to
  \<open>undefined\<close> read alike and serialise alike). Payloads that the kernel only carries, or
  validates again each time it reads them (plan documents, approval payloads, artifacts), stay
  JSON objects. Also here: the selectors of state.ts, the initial state, and \<open>KernelEvent\<close> as
  its discriminant and its remaining properties, which is how the reducers read it.
\<close>

section \<open>Enumerations\<close>

datatype turn_status = TurnActive | TurnCompleted | TurnAborted

datatype tool_status =
    TQueued | TAwaitingUserInput | TAwaitingReview | TAwaitingApproval | TAwaitingAutoReview
  | TApproved | TAuthorizedQueued | TRunning | TSucceeded | TFailed | TRejected | TCancelled
  | TExhausted

datatype effect_class = ReadOnly | PlanOnly | WorkspaceWrite | ExternalSideEffect | UnknownEffect

datatype interaction_mode = AcceptEdits | AutoMode | FullMode

datatype task_status = TaskActive | TaskCompleted | TaskCancelled

datatype approval_status =
    QueuedAuto | AutoReviewing | AuthorizedQueued | QueuedUser | AwaitingUser | Approving
  | ARunning | ASucceeded | AFailed | ACancelled | ARejected | AExpired

datatype approval_route = RouteUser | RouteAuto

datatype verification_mode = NotRequired | BestEffort | Required

datatype verification_status =
    VPending | VRunning | VRepairPending | VPassed | VFailed | VInconclusive | VWaived
  | VCompensating | VCompensated | VBudgetExhausted

datatype outcome_status =
    OutSuccess | OutFailed | OutRejected | OutCancelled | OutTimedOut | OutExhausted | OutUnknown

datatype disposition = Never | CorrectArgs | RetryOnce | Alternative | UserAction

datatype failure_status = Unresolved | Recovered | Exhausted

datatype resolution =
    ResRecovered | ResTerminal | ResNextResponseElapsed | ResTaskClosed | ResTurnClosed
  | ResSkipped | ResReplanned | ResUserAction | ResProviderRevision

datatype quality_reason = NoProgress | JournalInvalid

datatype attempt_mode = ModelCorrection | AutomaticRetry

datatype terminal_status =
    TermCompleted | TermAborted | TermBlocked | TermUnknown | TermBudgetExhausted
  | TermResourceSaturated

datatype known_effects = EffNone | EffKnown | EffUnknown

datatype recovery_entry = EntNone | EntRetry | EntReconcile | EntNewRun | EntOperatorAction

section \<open>Parts of the state\<close>

record session_state =
  se_threadId :: string
  se_userId :: string
  se_workspace :: string
  se_projectId :: "string option"
  se_canonicalWorkspaceDigest :: "string option"

record turn_state =
  tn_turnId :: string
  tn_turnIndex :: int
  tn_status :: turn_status
  tn_abortReason :: "string option"
  tn_abortCause :: "string option"

text \<open>\<open>ToolOutcome\<close> of normalization.ts.\<close>

record tool_recovery_advice =
  rc_disposition :: disposition
  rc_maximumAdditionalCalls :: nat
  rc_requiresNewModelResponse :: bool
  rc_safeAutomaticRetry :: bool
  rc_retryAfterMs :: "rat option"
  rc_capabilityIntent :: jval

record tool_outcome =
  oc_status :: outcome_status
  oc_failureKind :: "string option"
  oc_detailCode :: "string option"
  oc_dispatchState :: string
  oc_externalEffects :: known_effects
  oc_replaySafety :: "string option"
  oc_recovery :: tool_recovery_advice
  oc_failureInstanceId :: "string option"
  oc_recoveryOf :: "string option"
  oc_timing :: jobj
  oc_unknownFields :: "jobj option"
  oc_diagnosticCodes :: "jval list"

text \<open>\<open>ToolRecoveryFailure\<close> and \<open>ToolRecoveryJournal\<close> of recovery.ts.\<close>

record recovery_failure =
  rf_failureInstanceId :: string
  rf_toolCallId :: string
  rf_toolName :: string
  rf_invocationFingerprint :: string
  rf_modelMessageId :: string
  rf_taskId :: "string option"
  rf_turnId :: "string option"
  rf_eligibleAfterModelMessageId :: "string option"
  rf_eligibleModelMessageId :: "string option"
  rf_eligibleToolCallId :: "string option"
  rf_status :: failure_status
  rf_resolution :: "resolution option"
  rf_outcome :: tool_outcome
  rf_modelCorrectionAttempts :: nat
  rf_automaticRetryAttempts :: nat
  rf_progressRevision :: int

record quality_guard =
  qg_blocked :: bool
  qg_reasonCode :: "quality_reason option"
  qg_observedFailures :: nat
  qg_taskId :: "string option"
  qg_turnId :: "string option"

record recovery_journal =
  rj_identityKey :: string
  rj_failures :: "recovery_failure jsobj"
  rj_order :: "string list"
  rj_progressRevision :: int
  rj_qualityGuard :: quality_guard

record tool_result =
  tr_ok :: bool
  tr_summary :: string
  tr_exitCode :: "rat option"
  tr_resultMeta :: "jobj option"

record tool_call =
  tc_toolCallId :: string
  tc_name :: string
  tc_displayLabel :: "string option"
  tc_modelMessageId :: string
  tc_args :: jval
  tc_modelInvocationId :: "string option"
  tc_ordinal :: "rat option"
  tc_createdAtTurnId :: string
  tc_taskId :: "string option"
  tc_queuedAt :: "string option"
  tc_startedAt :: "string option"
  tc_approvalRequestedAt :: "string option"
  tc_approvalWaitMs :: "rat option"
  tc_invocationFingerprint :: "string option"
  tc_recoveryOf :: "string option"
  tc_recoveryMode :: "attempt_mode option"
  tc_recoveryAdmission :: "string option"
  tc_result :: "tool_result option"
  tc_error :: "string option"
  tc_failure :: "jobj option"
  tc_outcome :: "tool_outcome option"
  tc_bindingId :: "string option"
  tc_capabilityId :: "string option"
  tc_capabilityRevision :: "string option"
  tc_unknownFields :: "jobj option"
  tc_approvalHash :: "string option"
  tc_approvalGrant :: "string option"
  tc_effectClass :: "effect_class option"
  tc_sideEffect :: "bool option"
  tc_classificationReason :: "string option"
  tc_presentation :: "string option"
  tc_networkDecisions :: "jval list option"
  tc_status :: tool_status

record tools_state =
  to_calls :: "tool_call jsobj"
  to_queue :: "string list"
  to_active :: "string list"

text \<open>\<open>AgentTranscriptMessage\<close>: the shared metadata and the four kinds.\<close>

record message_meta =
  mm_messageId :: string
  mm_turnId :: string
  mm_ordinal :: nat
  mm_createdAt :: string

datatype transcript_message =
    UserMessage message_meta string
  | RuntimeMessage message_meta string
  | AssistantMessage message_meta "string option" "string option" "jval list"
  | ToolMessage message_meta string string string bool "jobj option"

record transcript_state =
  ts_messages :: "transcript_message list"
  ts_final :: "string option"

text \<open>\<open>PlanningState\<close> of domains/planning/state.ts; documents are revalidated JSON objects.\<close>

datatype planning_state =
    BuildingWithoutPlan
  | PlanningEmpty
  | PlanningDraft jobj "string option"
  | ReplanningDraft jobj int string "string option"
  | AwaitingReview jobj string string
  | Executing jobj string string
  | PlanCompleted jobj string
  | PlanCancelled "jobj option" string string

record task_state =
  tk_taskId :: string
  tk_userGoal :: string
  tk_status :: task_status
  tk_startedAtTurnId :: string
  tk_completedAtTurnId :: "string option"
  tk_sideEffectsStarted :: bool
  tk_planning :: planning_state
  tk_executionMode :: "interaction_mode option"
  tk_planHistory :: "jobj list"

text \<open>\<open>AgentInteractionState\<close>\<close>

datatype interaction =
    Idle
  | AwaitingUserInput string string jobj
  | AwaitingPlanReview string string string int string jobj string "jobj option"
  | AwaitingToolApproval string string jobj
  | AwaitingAutoReview string string string string jobj
  | AwaitingProviderAction string string jval string string
  | AwaitingProviderAdmission jobj

record capability_invocation =
  ci_invocationId :: string
  ci_toolCallId :: string
  ci_capabilityId :: string
  ci_capabilityRevision :: string
  ci_taskId :: "string option"
  ci_status :: string
  ci_subagentLifecycleStatus :: "string option"
  ci_facts :: jobj

record skill_frame =
  sf_activationId :: string
  sf_taskId :: string
  sf_status :: string
  sf_facts :: jobj

record verification_record =
  vr_verificationId :: string
  vr_taskId :: "string option"
  vr_mode :: verification_mode
  vr_status :: verification_status
  vr_spec :: jobj
  vr_requestedAt :: string
  vr_repairAttempts :: rat
  vr_facts :: jobj

datatype model_budget = BudgetReservation string "string option" | NoBudget

record model_invocation =
  mi_invocationId :: string
  mi_purpose :: string
  mi_status :: string
  mi_budget :: model_budget
  mi_modelEvidenceUnavailable :: "string option"
  mi_facts :: jobj

record plan_identity =
  pi_planId :: jval
  pi_version :: jval
  pi_structuralDigest :: jval

record completion_guard =
  cg_correctionAttempts :: int
  cg_guardVersion :: "string option"
  cg_planIdentity :: "plan_identity option"

record terminal_outcome =
  out_status :: terminal_status
  out_reasonCode :: string
  out_knownExternalEffects :: known_effects
  out_safeRetry :: bool
  out_recoveryEntry :: recovery_entry
  out_pendingVerification :: bool

section \<open>Resource leases and provider readiness\<close>

text \<open>
  \<open>ResourceUsage\<close> with its counters and gauges. A \<open>ResourceBudget\<close>, \<open>ResourceReservation\<close>
  or \<open>ResourceWaiter\<close> is stored as the JSON object the event carried, because the reducer
  compares the stored object with a repeated one by \<open>JSON.stringify\<close>.
\<close>

datatype usage_source = Actual | VersionedUpperBound

record resource_usage =
  u_turns :: int
  u_modelRequests :: int
  u_toolInvocations :: int
  u_inputTokens :: int
  u_outputTokens :: int
  u_artifactBytes :: int
  u_elapsedRunMs :: int
  u_activeSubagents :: int
  u_activeWriters :: int
  u_activeToolInvocations :: int
  u_activeShellInvocations :: int
  u_source :: usage_source
  u_estimatorVersion :: "string option"

record budget_active =
  ba_runId :: string
  ba_startedAt :: string
  ba_deadlineAt :: string
  ba_budget :: jobj
  ba_reconciledUsage :: resource_usage
  ba_reservations :: "jobj jsobj"
  ba_waiters :: "jobj jsobj"
  ba_nextWaiterSequence :: int

datatype resource_budget_state = BudgetUnconfigured | BudgetActive budget_active

record readiness_waiter =
  rw_waiterId :: string
  rw_toolCallId :: string
  rw_registeredAt :: string

datatype readiness_status = Prepared | Attempted | Ready | ReadinessFailed

record provider_readiness =
  pr_readinessKey :: string
  pr_lifecycleId :: string
  pr_providerId :: string
  pr_routeRevision :: string
  pr_executionBoundaryDigest :: string
  pr_status :: readiness_status
  pr_requestedAt :: string
  pr_expiresAt :: string
  pr_maxAttempts :: jval
  pr_attempts :: jval
  pr_waiters :: "readiness_waiter jsobj"
  pr_readyAt :: "string option"
  pr_providerDirectoryRevision :: "string option"
  pr_failure :: jval
  pr_dispatchCertainty :: "string option"

section \<open>Approvals\<close>

record command_identity =
  id_sessionId :: string
  id_threadId :: string
  id_workspace :: string
  id_canonicalWorkspaceIdentity :: string
  id_cwd :: string
  id_executor :: string
  id_environment :: string
  id_scope :: string
  id_effects :: string
  id_parserRevision :: string
  id_executorRevision :: "string option"
  id_commandDigest :: string

record pending_approval =
  pa_interactionId :: string
  pa_toolCallId :: string
  pa_parentToolCallId :: "string option"
  pa_childSubagentId :: "string option"
  pa_childToolCallId :: "string option"
  pa_runtimeToolCallId :: "string option"
  pa_route :: approval_route
  pa_fullModeBypassEligible :: bool
  pa_fullModePolicyBypassAllowed :: bool
  pa_bindingDigest :: string
  pa_approval :: jobj
  pa_invocation :: jobj
  pa_commandIdentity :: "command_identity option"
  pa_commandKey :: "string option"
  pa_approvalHash :: "string option"
  pa_sequence :: int
  pa_generation :: int
  pa_createdAt :: string
  pa_status :: approval_status
  pa_receiptId :: "string option"
  pa_authorizationSource :: "string option"
  pa_dispatchState :: "string option"

record session_command_grant =
  sg_identity :: command_identity
  sg_grantKey :: string
  sg_createdAt :: string
  sg_generation :: int
  sg_expiresAt :: "string option"

record approval_receipt =
  ar_receiptId :: string
  ar_interactionId :: string
  ar_toolCallId :: string
  ar_generation :: int
  ar_grant :: string
  ar_status :: string
  ar_dispatchState :: "string option"

record rejection_entry =
  re_timestamp :: rat
  re_toolName :: string
  re_reason :: string

record auto_review_state =
  av_pendingWarnings :: "string jsobj"
  av_consecutiveRejects :: int
  av_rejectionHistory :: "rejection_entry list"
  av_circuitBreakerTripped :: bool

record doom_entry =
  dl_count :: int
  dl_lastSeenAt :: rat

datatype recovery_state =
    RecoveryNormal
  | RecoveryCorrupted string
  | RecoveryIncompatible "int option" "string option"

section \<open>The whole state\<close>

record agent_state =
  st_activeTaskId :: "string option"
  st_tasks :: "task_state jsobj"
  st_schemaVersion :: nat
  st_formatEpoch :: string
  st_revision :: nat
  st_lastAppliedEventId :: "string option"
  st_appliedEventIds :: "string list"
  st_recoveryState :: recovery_state
  st_session :: session_state
  st_turn :: turn_state
  st_transcript :: transcript_state
  st_context :: jobj
  st_resourceBudget :: resource_budget_state
  st_modelInvocations :: "model_invocation jsobj"
  st_providerReadiness :: "provider_readiness jsobj"
  st_terminalOutcome :: "terminal_outcome option"
  st_completionGuard :: completion_guard
  st_interactions :: interaction
  st_tools :: tools_state
  st_toolRecovery :: recovery_journal
  st_capabilities :: jobj
  st_invocations :: "capability_invocation jsobj"
  st_skillFrames :: "skill_frame jsobj"
  st_skillCatalogRevision :: string
  st_verification :: "verification_record jsobj"
  st_providerAdmission :: jobj
  st_suspendedSubagents :: "jobj jsobj"
  st_mode :: interaction_mode
  st_interactionModeRevision :: int
  st_workspaceAccess :: string
  st_autoReview :: auto_review_state
  st_doomLoop :: "doom_entry jsobj"
  st_pendingApprovals :: "(string \<times> pending_approval) list"
  st_activeApprovalId :: "string option"
  st_nextQueueSequence :: int
  st_approvalGeneration :: int
  st_sessionCommandGrants :: "(string \<times> session_command_grant) list"
  st_approvalReceipts :: "(string \<times> approval_receipt) list"

text \<open>A \<open>KernelEvent\<close>: its discriminant and its other properties (\<open>eventData\<close>).\<close>

record kernel_event =
  ev_type :: string
  ev_data :: jobj

section \<open>Selectors\<close>

text \<open>\<open>state.activeTaskId ? (state.tasks[state.activeTaskId] ?? null) : null\<close>\<close>

definition getActiveTask :: "agent_state \<Rightarrow> task_state option" where
  "getActiveTask s =
     (case st_activeTaskId s of None \<Rightarrow> None
      | Some i \<Rightarrow> if i = [] then None else obj_get (st_tasks s) i)"

definition getActivePlanning :: "agent_state \<Rightarrow> planning_state" where
  "getActivePlanning s =
     (case getActiveTask s of None \<Rightarrow> BuildingWithoutPlan | Some t \<Rightarrow> tk_planning t)"

definition getEffectiveInteractionMode :: "agent_state \<Rightarrow> interaction_mode" where
  "getEffectiveInteractionMode s =
     (case getActiveTask s of None \<Rightarrow> st_mode s
      | Some t \<Rightarrow> or_default (tk_executionMode t) (st_mode s))"

section \<open>The initial state\<close>

record create_input =
  in_threadId :: string
  in_userId :: string
  in_workspace :: string
  in_projectId :: "string option"
  in_canonicalWorkspaceDigest :: "string option"
  in_turnId :: string
  in_recoveryIdentityKey :: string
  in_interactionMode :: "interaction_mode option"
  in_workspaceAccess :: "string option"

definition is_lower_hex :: "char \<Rightarrow> bool" where
  "is_lower_hex c \<longleftrightarrow> c \<in> set ''0123456789abcdef''"

definition is_sha256_hex :: "string \<Rightarrow> bool" where
  "is_sha256_hex s \<longleftrightarrow> length s = 64 \<and> list_all is_lower_hex s"

definition truthy_option :: "string option \<Rightarrow> string option" where
  "truthy_option a = (case a of None \<Rightarrow> None | Some s \<Rightarrow> if s = [] then None else Some s)"

definition RUNTIME_STATE_SCHEMA_VERSION :: nat where
  "RUNTIME_STATE_SCHEMA_VERSION = 27"

definition RUNTIME_STATE_FORMAT_EPOCH :: string where
  "RUNTIME_STATE_FORMAT_EPOCH = ''kite-runtime-saq-v2-2026-09-05''"

definition APPLIED_EVENT_ID_TAIL_LIMIT :: nat where
  "APPLIED_EVENT_ID_TAIL_LIMIT = 4096"

definition empty_guard :: quality_guard where
  "empty_guard = \<lparr>qg_blocked = False, qg_reasonCode = None, qg_observedFailures = 0,
     qg_taskId = None, qg_turnId = None\<rparr>"

definition empty_auto_review :: auto_review_state where
  "empty_auto_review = \<lparr>av_pendingWarnings = [], av_consecutiveRejects = 0,
     av_rejectionHistory = [], av_circuitBreakerTripped = False\<rparr>"

definition createInitialAgentState :: "create_input \<Rightarrow> agent_state res" where
  "createInitialAgentState i =
     (if in_threadId i = [] \<or> in_userId i = [] \<or> in_workspace i = [] \<or> in_turnId i = []
      then throw ''State constructor requires non-empty Host session and turn facts.''
      else if \<not> is_sha256_hex (in_recoveryIdentityKey i)
      then throw ''State tool recovery recoveryIdentityKey must be a 64-character lowercase hex value.''
      else Inr \<lparr>
        st_activeTaskId = None,
        st_tasks = [],
        st_schemaVersion = RUNTIME_STATE_SCHEMA_VERSION,
        st_formatEpoch = RUNTIME_STATE_FORMAT_EPOCH,
        st_revision = 0,
        st_lastAppliedEventId = None,
        st_appliedEventIds = [],
        st_recoveryState = RecoveryNormal,
        st_session = \<lparr>se_threadId = in_threadId i, se_userId = in_userId i,
          se_workspace = in_workspace i, se_projectId = truthy_option (in_projectId i),
          se_canonicalWorkspaceDigest = truthy_option (in_canonicalWorkspaceDigest i)\<rparr>,
        st_turn = \<lparr>tn_turnId = in_turnId i, tn_turnIndex = 0, tn_status = TurnActive,
          tn_abortReason = None, tn_abortCause = None\<rparr>,
        st_transcript = \<lparr>ts_messages = [], ts_final = None\<rparr>,
        st_context = [(''history'', JArr []),
          (''autoGuard'', JObj [(''recentAutomaticCompactions'', JArr []),
            (''consecutiveLowGain'', JNum 0), (''disabledUntilManualAction'', JBool False),
            (''recoveryAttempted'', JBool False)])],
        st_resourceBudget = BudgetUnconfigured,
        st_modelInvocations = [],
        st_providerReadiness = [],
        st_terminalOutcome = None,
        st_completionGuard = \<lparr>cg_correctionAttempts = 0, cg_guardVersion = None,
          cg_planIdentity = None\<rparr>,
        st_interactions = Idle,
        st_tools = \<lparr>to_calls = [], to_queue = [], to_active = []\<rparr>,
        st_toolRecovery = \<lparr>rj_identityKey = in_recoveryIdentityKey i, rj_failures = [],
          rj_order = [], rj_progressRevision = 0, rj_qualityGuard = empty_guard\<rparr>,
        st_capabilities = [(''catalogRevision'', JStr []), (''bindings'', JObj []),
          (''disclosures'', JObj []), (''loadedCapabilities'', JObj [])],
        st_invocations = [],
        st_skillFrames = [],
        st_skillCatalogRevision = [],
        st_verification = [],
        st_providerAdmission = [(''pending'', JArr []), (''waivers'', JObj [])],
        st_suspendedSubagents = [],
        st_mode = or_default (in_interactionMode i) AcceptEdits,
        st_interactionModeRevision = 0,
        st_workspaceAccess = or_default (in_workspaceAccess i) ''write'',
        st_autoReview = empty_auto_review,
        st_doomLoop = [],
        st_pendingApprovals = [],
        st_activeApprovalId = None,
        st_nextQueueSequence = 0,
        st_approvalGeneration = 0,
        st_sessionCommandGrants = [],
        st_approvalReceipts = []
      \<rparr>)"

section \<open>A fresh session\<close>

text \<open>A concrete session and host, the common ground of the witnesses of later theories.\<close>

definition sample_input :: create_input where
  "sample_input = \<lparr>in_threadId = ''thread'', in_userId = ''user'', in_workspace = ''/work'',
     in_projectId = None, in_canonicalWorkspaceDigest = None, in_turnId = ''turn-1'',
     in_recoveryIdentityKey = replicate 64 CHR ''a'', in_interactionMode = None,
     in_workspaceAccess = None\<rparr>"

definition fresh_state :: agent_state where
  "fresh_state = projr (createInitialAgentState sample_input)"

definition sample_host :: js_host where
  "sample_host = \<lparr>date_parse = (\<lambda>s. Some (of_nat (decimal_value s))),
     locale_le = (\<lambda>a b. a = b \<or> length a < length b), number_string = (\<lambda>r. []),
     string_number = (\<lambda>s. None)\<rparr>"

lemma fresh_state_created: "createInitialAgentState sample_input = Inr fresh_state"
proof -
  have "is_sha256_hex (in_recoveryIdentityKey sample_input)"
    by (simp add: sample_input_def is_sha256_hex_def is_lower_hex_def list_all_iff)
  then show ?thesis
    by (simp add: fresh_state_def createInitialAgentState_def sample_input_def)
qed

end
