(* ===== verification/Kite_Lease.thy ===== *)
theory Kite_Lease
  imports Kite_State
begin

text \<open>
  src/packages/agent-kernel/src/core/lease/reducer.ts: the resource-budget ledger (reservations,
  waiters, committed usage) and provider readiness. The model follows the reducer check by check
  on the JSON the event carries; a thrown error is \<open>Inl\<close>. Shown here: every accepted event
  keeps the ledger well-formed and its committed usage within the configured budget, a
  reservation only moves along its state machine, waiters get strictly increasing sequence
  numbers, and nothing but the ledger and the readiness table changes.
\<close>

section \<open>Validation\<close>

definition BUDGET_FIELDS :: "string list" where
  "BUDGET_FIELDS = [''maxRunDurationMs'', ''maxTurns'', ''maxModelRequests'',
     ''maxToolInvocations'', ''maxRunInputTokens'', ''maxRunOutputTokens'',
     ''maxConcurrentSubagents'', ''maxConcurrentWriters'', ''maxConcurrentToolInvocations'',
     ''maxConcurrentShellInvocations'', ''maxConcurrencyWaitMs'', ''maxArtifactBytes'']"

definition COUNTER_FIELDS :: "string list" where
  "COUNTER_FIELDS = [''turns'', ''modelRequests'', ''toolInvocations'', ''inputTokens'',
     ''outputTokens'', ''artifactBytes'']"

definition GAUGE_FIELDS :: "string list" where
  "GAUGE_FIELDS = [''elapsedRunMs'', ''activeSubagents'', ''activeWriters'',
     ''activeToolInvocations'', ''activeShellInvocations'']"

definition RESOURCE_KINDS :: "string list" where
  "RESOURCE_KINDS = [''model'', ''tool'', ''mcp'', ''skill'', ''subagent'', ''verification'',
     ''compaction'', ''artifact'']"

definition nonEmpty :: "jval \<Rightarrow> string \<Rightarrow> unit res" where
  "nonEmpty v field =
     (case v of JStr s \<Rightarrow> if js_trim s = [] then throw (field @ '' must be non-empty.'') else ok
      | _ \<Rightarrow> throw (field @ '' must be non-empty.''))"

definition nonNegativeInteger :: "jval \<Rightarrow> string \<Rightarrow> unit res" where
  "nonNegativeInteger v field =
     (if \<not> is_safe_integer v \<or> int_of v < 0
      then throw (field @ '' must be a non-negative safe integer.'') else ok)"

definition positiveInteger :: "jval \<Rightarrow> string \<Rightarrow> unit res" where
  "positiveInteger v field =
     (if \<not> is_safe_integer v \<or> int_of v \<le> 0
      then throw (field @ '' must be a positive safe integer.'') else ok)"

definition assertResourceBudget :: "jval \<Rightarrow> unit res" where
  "assertResourceBudget v =
     (if \<not> typeof_object v \<or> vfld v ''version'' \<noteq> JNum 1
      then throw ''Unsupported ResourceBudget version.''
      else and_then (check_all (\<lambda>field. positiveInteger (vfld v field) field) BUDGET_FIELDS)
        (if int_of (vfld v ''maxConcurrentShellInvocations'')
              > int_of (vfld v ''maxConcurrentToolInvocations'')
         then throw ''Shell concurrency must not exceed tool concurrency.''
         else if int_of (vfld v ''maxConcurrentWriters'')
              > int_of (vfld v ''maxConcurrentToolInvocations'')
         then throw ''Writer concurrency must not exceed tool concurrency.''
         else ok))"

definition assertResourceUsage :: "jval \<Rightarrow> unit res" where
  "assertResourceUsage v =
     (if \<not> typeof_object v then throw ''Resource usage is invalid.''
      else let counters = vfld v ''counters''; gauges = vfld v ''gauges'' in
        if \<not> typeof_object counters then throw ''Resource usage counters are invalid.''
        else if \<not> typeof_object gauges then throw ''Resource usage gauges are invalid.''
        else and_then (check_all (\<lambda>field. nonNegativeInteger (vfld counters field) field) COUNTER_FIELDS)
         (and_then (check_all (\<lambda>field. nonNegativeInteger (vfld gauges field) field) GAUGE_FIELDS)
         (and_then (if vfld v ''source'' = JStr ''versioned_upper_bound''
                    then nonEmpty (vfld v ''estimatorVersion'') ''estimatorVersion'' else ok)
         (if vfld v ''source'' = JStr ''actual'' \<and> vfld v ''estimatorVersion'' \<noteq> JUndef
          then throw ''Actual usage must not declare estimatorVersion.''
          else if vfld v ''source'' \<noteq> JStr ''actual'' \<and>
                  vfld v ''source'' \<noteq> JStr ''versioned_upper_bound''
          then throw ''Resource usage source is invalid.''
          else ok))))"

text \<open>A validated \<open>ResourceUsage\<close> object read as a record.\<close>

definition usage_of :: "jval \<Rightarrow> resource_usage" where
  "usage_of v =
     (let c = (\<lambda>f. int_of (vfld (vfld v ''counters'') f));
          g = (\<lambda>f. int_of (vfld (vfld v ''gauges'') f)) in
      \<lparr>u_turns = c ''turns'', u_modelRequests = c ''modelRequests'',
       u_toolInvocations = c ''toolInvocations'', u_inputTokens = c ''inputTokens'',
       u_outputTokens = c ''outputTokens'', u_artifactBytes = c ''artifactBytes'',
       u_elapsedRunMs = g ''elapsedRunMs'', u_activeSubagents = g ''activeSubagents'',
       u_activeWriters = g ''activeWriters'', u_activeToolInvocations = g ''activeToolInvocations'',
       u_activeShellInvocations = g ''activeShellInvocations'',
       u_source = (if vfld v ''source'' = JStr ''actual'' then Actual else VersionedUpperBound),
       u_estimatorVersion = as_string (vfld v ''estimatorVersion'')\<rparr>)"

section \<open>Usage arithmetic\<close>

definition withinUpperBound :: "resource_usage \<Rightarrow> resource_usage \<Rightarrow> bool" where
  "withinUpperBound a u \<longleftrightarrow>
     u_turns a \<le> u_turns u \<and> u_modelRequests a \<le> u_modelRequests u \<and>
     u_toolInvocations a \<le> u_toolInvocations u \<and> u_inputTokens a \<le> u_inputTokens u \<and>
     u_outputTokens a \<le> u_outputTokens u \<and> u_artifactBytes a \<le> u_artifactBytes u \<and>
     u_elapsedRunMs a \<le> u_elapsedRunMs u \<and> u_activeSubagents a \<le> u_activeSubagents u \<and>
     u_activeWriters a \<le> u_activeWriters u \<and>
     u_activeToolInvocations a \<le> u_activeToolInvocations u \<and>
     u_activeShellInvocations a \<le> u_activeShellInvocations u"

definition budget_limit :: "jobj \<Rightarrow> string \<Rightarrow> int" where
  "budget_limit b f = int_of (fld b f)"

definition withinBudget :: "resource_usage \<Rightarrow> jobj \<Rightarrow> bool" where
  "withinBudget u b \<longleftrightarrow>
     u_turns u \<le> budget_limit b ''maxTurns'' \<and>
     u_modelRequests u \<le> budget_limit b ''maxModelRequests'' \<and>
     u_toolInvocations u \<le> budget_limit b ''maxToolInvocations'' \<and>
     u_inputTokens u \<le> budget_limit b ''maxRunInputTokens'' \<and>
     u_outputTokens u \<le> budget_limit b ''maxRunOutputTokens'' \<and>
     u_artifactBytes u \<le> budget_limit b ''maxArtifactBytes'' \<and>
     u_elapsedRunMs u \<le> budget_limit b ''maxRunDurationMs'' \<and>
     u_activeSubagents u \<le> budget_limit b ''maxConcurrentSubagents'' \<and>
     u_activeWriters u \<le> budget_limit b ''maxConcurrentWriters'' \<and>
     u_activeToolInvocations u \<le> budget_limit b ''maxConcurrentToolInvocations'' \<and>
     u_activeShellInvocations u \<le> budget_limit b ''maxConcurrentShellInvocations''"

definition zeroUsage :: resource_usage where
  "zeroUsage = \<lparr>u_turns = 0, u_modelRequests = 0, u_toolInvocations = 0, u_inputTokens = 0,
     u_outputTokens = 0, u_artifactBytes = 0, u_elapsedRunMs = 0, u_activeSubagents = 0,
     u_activeWriters = 0, u_activeToolInvocations = 0, u_activeShellInvocations = 0,
     u_source = Actual, u_estimatorVersion = None\<rparr>"

definition addUsage :: "resource_usage \<Rightarrow> resource_usage \<Rightarrow> resource_usage" where
  "addUsage left right =
     (let source = (if u_source left = Actual \<and> u_source right = Actual then Actual
                    else VersionedUpperBound) in
      \<lparr>u_turns = u_turns left + u_turns right,
       u_modelRequests = u_modelRequests left + u_modelRequests right,
       u_toolInvocations = u_toolInvocations left + u_toolInvocations right,
       u_inputTokens = u_inputTokens left + u_inputTokens right,
       u_outputTokens = u_outputTokens left + u_outputTokens right,
       u_artifactBytes = u_artifactBytes left + u_artifactBytes right,
       u_elapsedRunMs = max (u_elapsedRunMs left) (u_elapsedRunMs right),
       u_activeSubagents = u_activeSubagents left + u_activeSubagents right,
       u_activeWriters = u_activeWriters left + u_activeWriters right,
       u_activeToolInvocations = u_activeToolInvocations left + u_activeToolInvocations right,
       u_activeShellInvocations = u_activeShellInvocations left + u_activeShellInvocations right,
       u_source = source,
       u_estimatorVersion =
         (if source = VersionedUpperBound
          then Some (or_default (u_estimatorVersion left)
                 (or_default (u_estimatorVersion right) ''composed-v1''))
          else None)\<rparr>)"

definition counts_against_budget :: "jobj \<Rightarrow> bool" where
  "counts_against_budget r \<longleftrightarrow>
     fld r ''state'' \<in> {JStr ''reserved'', JStr ''dispatch_started'', JStr ''unknown''}"

fun add_committed :: "resource_usage \<Rightarrow> jobj list \<Rightarrow> resource_usage" where
  "add_committed usage [] = usage"
| "add_committed usage (r # rs) =
     add_committed (if counts_against_budget r
       then addUsage usage (usage_of (fld r ''executableUpperBound'')) else usage) rs"

definition committedUsage :: "budget_active \<Rightarrow> resource_usage" where
  "committedUsage b = add_committed (ba_reconciledUsage b) (obj_values (ba_reservations b))"

definition assertReservation :: "jval \<Rightarrow> unit res" where
  "assertReservation v =
     (if \<not> typeof_object v \<or> vfld v ''version'' \<noteq> JNum 1
      then throw ''Unsupported ResourceReservation version.''
      else and_then (nonEmpty (vfld v ''reservationId'') ''reservationId'')
       (and_then (nonEmpty (vfld v ''runId'') ''runId'')
       (and_then (nonEmpty (vfld v ''invocationId'') ''invocationId'')
       (if vfld v ''parentReservationId'' = vfld v ''reservationId''
        then throw ''A reservation cannot be its own parent.''
        else if vfld v ''resourceKind'' \<notin> JStr ` set RESOURCE_KINDS
        then throw ''Reservation resource kind is invalid.''
        else and_then (assertResourceUsage (vfld v ''executableUpperBound''))
         (if vfld (vfld v ''executableUpperBound'') ''source'' \<noteq> JStr ''versioned_upper_bound''
          then throw ''executableUpperBound must use versioned_upper_bound usage.''
          else if truthy (vfld v ''actual'')
          then and_then (assertResourceUsage (vfld v ''actual''))
            (if vfld (vfld v ''actual'') ''source'' \<noteq> JStr ''actual'' \<or>
                \<not> withinUpperBound (usage_of (vfld v ''actual''))
                    (usage_of (vfld v ''executableUpperBound''))
             then throw ''Reservation actual usage exceeds its executable upper bound.''
             else ok)
          else ok)))))"

section \<open>Ledger events\<close>

definition with_budget :: "agent_state \<Rightarrow> budget_active \<Rightarrow> agent_state" where
  "with_budget s b = s\<lparr>st_resourceBudget := BudgetActive b\<rparr>"

definition budget_configured :: "js_host \<Rightarrow> agent_state \<Rightarrow> jobj \<Rightarrow> agent_state res" where
  "budget_configured h s p =
     (let runId = fld p ''runId''; startedAt = fld p ''startedAt''; deadlineAt = fld p ''deadlineAt'';
          budget = fld p ''budget'' in
      and_then (assertResourceBudget budget)
      (and_then (nonEmpty runId ''runId'')
      (if as_string startedAt = None \<or> as_string deadlineAt = None
       then throw ''Resource budget timestamps are invalid.''
       else case (js_date_parse h startedAt, js_date_parse h deadlineAt) of
         (Some started, Some deadline) \<Rightarrow>
           (if deadline \<le> started then throw ''Resource budget timestamps are invalid.''
            else if deadline - started > of_int (int_of (vfld budget ''maxRunDurationMs''))
            then throw ''Resource budget deadline exceeds maxRunDurationMs.''
            else case st_resourceBudget s of
              BudgetActive b \<Rightarrow>
                (if JStr (ba_runId b) = runId \<and> JStr (ba_startedAt b) = startedAt \<and>
                    JStr (ba_deadlineAt b) = deadlineAt \<and>
                    json_stringify h (JObj (ba_budget b)) = json_stringify h budget
                 then Inr s
                 else throw ''An active resource budget cannot be replaced.'')
            | BudgetUnconfigured \<Rightarrow>
                Inr (with_budget s
                  \<lparr>ba_runId = or_default (as_string runId) [],
                   ba_startedAt = or_default (as_string startedAt) [],
                   ba_deadlineAt = or_default (as_string deadlineAt) [],
                   ba_budget = or_default (as_record budget) [],
                   ba_reconciledUsage = zeroUsage, ba_reservations = [], ba_waiters = [],
                   ba_nextWaiterSequence = 0\<rparr>))
       | _ \<Rightarrow> throw ''Resource budget timestamps are invalid.'')))"

definition activeState :: "resource_budget_state \<Rightarrow> budget_active res" where
  "activeState rb =
     (case rb of
        BudgetUnconfigured \<Rightarrow>
          throw ''Resource budget ledger is unconfigured; execution is blocked.''
      | BudgetActive b \<Rightarrow> Inr b)"

definition waiter_enqueued :: "js_host \<Rightarrow> agent_state \<Rightarrow> budget_active \<Rightarrow> jobj \<Rightarrow> agent_state res" where
  "waiter_enqueued h s b p =
     (let waiter = fld p ''waiter'' in
      if \<not> typeof_object waiter then throw ''Concurrency waiter is invalid.''
      else and_then (nonEmpty (vfld waiter ''runId'') ''runId'')
       (and_then (nonEmpty (vfld waiter ''invocationId'') ''invocationId'')
       (if vfld waiter ''version'' \<noteq> JNum 1 \<or> vfld waiter ''state'' \<noteq> JStr ''waiting''
        then throw ''A new concurrency waiter must be version 1 and waiting.''
        else if vfld waiter ''runId'' \<noteq> JStr (ba_runId b)
        then throw ''Concurrency waiter runId mismatch.''
        else if vfld waiter ''sequence'' \<noteq> jint (ba_nextWaiterSequence b)
        then throw ''Concurrency waiter sequence must be the next durable FIFO sequence.''
        else if num_le (js_date_parse h (vfld waiter ''deadlineAt''))
                  (js_date_parse h (vfld waiter ''enqueuedAt''))
        then throw ''Concurrency waiter deadline must be after enqueue time.''
        else if num_gt (js_date_parse h (vfld waiter ''deadlineAt''))
                  (date_parse h (ba_deadlineAt b))
        then throw ''Concurrency waiter deadline exceeds the persisted run deadline.''
        else let invocationId = or_default (as_string (vfld waiter ''invocationId'')) [];
                 object = or_default (as_record waiter) [] in
          case obj_get (ba_waiters b) invocationId of
            Some existing \<Rightarrow>
              (if json_stringify h (JObj existing) = json_stringify h waiter then Inr s
               else throw ''Concurrency waiter invocation was reused with different facts.'')
          | None \<Rightarrow>
              Inr (with_budget s (b\<lparr>ba_waiters := obj_set invocationId object (ba_waiters b),
                ba_nextWaiterSequence := ba_nextWaiterSequence b + 1\<rparr>)))))"

definition waiter_target :: "string \<Rightarrow> string" where
  "waiter_target ty =
     (if ty = ''resource_budget.waiter_promoted'' then ''promoted''
      else if ty = ''resource_budget.waiter_cancelled'' then ''cancelled'' else ''timed_out'')"

definition waiter_settled :: "js_host \<Rightarrow> agent_state \<Rightarrow> budget_active \<Rightarrow> string \<Rightarrow> jobj \<Rightarrow> agent_state res" where
  "waiter_settled h s b ty p =
     and_then (nonEmpty (fld p ''invocationId'') ''invocationId'')
      (let invocationId = or_default (as_string (fld p ''invocationId'')) [] in
       case obj_get (ba_waiters b) invocationId of
         None \<Rightarrow> throw (''Unknown concurrency waiter '' @ invocationId @ ''.'')
       | Some waiter \<Rightarrow>
           (if fld waiter ''state'' = JStr (waiter_target ty) then Inr s
            else if fld waiter ''state'' \<noteq> JStr ''waiting''
            then throw (''Cannot change a '' @ js_String h (fld waiter ''state'') @ '' waiter.'')
            else Inr (with_budget s (b\<lparr>ba_waiters :=
              obj_set invocationId (obj_set ''state'' (JStr (waiter_target ty)) waiter)
                (ba_waiters b)\<rparr>))))"

definition replaceReservation :: "budget_active \<Rightarrow> jobj \<Rightarrow> budget_active" where
  "replaceReservation b r =
     b\<lparr>ba_reservations :=
        obj_set (or_default (as_string (fld r ''reservationId'')) []) r (ba_reservations b)\<rparr>"

definition holds_invocation :: "jval \<Rightarrow> jobj \<Rightarrow> bool" where
  "holds_invocation i r \<longleftrightarrow> fld r ''invocationId'' = i \<and> fld r ''state'' \<noteq> JStr ''released''"

definition budget_reserved :: "js_host \<Rightarrow> agent_state \<Rightarrow> budget_active \<Rightarrow> jobj \<Rightarrow> agent_state res" where
  "budget_reserved h s b p =
     (let candidate = fld p ''reservation'' in
      and_then (assertReservation candidate)
      (if vfld candidate ''state'' \<noteq> JStr ''reserved''
       then throw ''A new reservation must be reserved.''
       else if vfld candidate ''runId'' \<noteq> JStr (ba_runId b)
       then throw ''Reservation runId mismatch.''
       else if truthy (vfld candidate ''parentReservationId'') \<and>
               obj_get (ba_reservations b) (js_String h (vfld candidate ''parentReservationId'')) = None
       then throw ''Parent reservation must exist in the shared ledger.''
       else case obj_get (ba_reservations b)
                   (or_default (as_string (vfld candidate ''reservationId'')) []) of
         Some existing \<Rightarrow>
           (if json_stringify h (JObj existing) = json_stringify h candidate then Inr s
            else throw ''Reservation idempotency key was reused with different facts.'')
       | None \<Rightarrow>
           (if list_ex (holds_invocation (vfld candidate ''invocationId''))
                 (obj_values (ba_reservations b))
            then throw ''Invocation already has a non-released reservation.''
            else let next = replaceReservation b (or_default (as_record candidate) []) in
              if \<not> withinBudget (committedUsage next) (ba_budget b)
              then throw ''Resource budget exhausted before dispatch.''
              else Inr (with_budget s next))))"

definition set_state :: "string \<Rightarrow> jobj \<Rightarrow> jobj" where
  "set_state st r = obj_set ''state'' (JStr st) r"

definition budget_dispatch_started :: "js_host \<Rightarrow> agent_state \<Rightarrow> budget_active \<Rightarrow> jobj \<Rightarrow> agent_state res" where
  "budget_dispatch_started h s b r =
     (if fld r ''state'' = JStr ''dispatch_started'' then Inr s
      else if fld r ''state'' \<noteq> JStr ''reserved''
      then throw (''Cannot dispatch a '' @ js_String h (fld r ''state'') @ '' reservation.'')
      else Inr (with_budget s (replaceReservation b (set_state ''dispatch_started'' r))))"

definition budget_reconciled :: "js_host \<Rightarrow> agent_state \<Rightarrow> budget_active \<Rightarrow> jobj \<Rightarrow> jobj \<Rightarrow> agent_state res" where
  "budget_reconciled h s b r p =
     (let actual = fld p ''actual'' in
      and_then (assertResourceUsage actual)
      (if vfld actual ''source'' \<noteq> JStr ''actual'' \<or>
          \<not> withinUpperBound (usage_of actual) (usage_of (fld r ''executableUpperBound''))
       then throw ''Reconciliation exceeds the executable upper bound.''
       else if fld r ''state'' = JStr ''reconciled''
       then (if json_stringify h (fld r ''actual'') = json_stringify h actual then Inr s
             else throw ''Reconciliation idempotency key was reused with different usage.'')
       else if fld r ''state'' \<noteq> JStr ''dispatch_started'' \<and> fld r ''state'' \<noteq> JStr ''unknown''
       then throw (''Cannot reconcile a '' @ js_String h (fld r ''state'') @ '' reservation.'')
       else let next = (replaceReservation b (set_state ''reconciled'' (obj_set ''actual'' actual r)))
                  \<lparr>ba_reconciledUsage := addUsage (ba_reconciledUsage b) (usage_of actual)\<rparr> in
         if \<not> withinBudget (committedUsage next) (ba_budget b)
         then throw ''Reconciled usage exceeds the effective resource budget.''
         else Inr (with_budget s next)))"

definition budget_released :: "agent_state \<Rightarrow> budget_active \<Rightarrow> jobj \<Rightarrow> jobj \<Rightarrow> agent_state res" where
  "budget_released s b r p =
     (if fld r ''state'' = JStr ''released'' then Inr s
      else if fld r ''state'' \<noteq> JStr ''reserved'' \<and>
              \<not> (fld r ''state'' = JStr ''dispatch_started'' \<and>
                 stringField p ''proof'' = Some ''local_pre_dispatch_failure'')
      then throw ''Only a proven undispatched reservation can be released.''
      else Inr (with_budget s (replaceReservation b (set_state ''released'' r))))"

definition budget_unknown :: "agent_state \<Rightarrow> budget_active \<Rightarrow> jobj \<Rightarrow> agent_state res" where
  "budget_unknown s b r =
     (if fld r ''state'' = JStr ''unknown'' then Inr s
      else if fld r ''state'' \<noteq> JStr ''dispatch_started'' \<and> fld r ''state'' \<noteq> JStr ''reserved''
      then throw ''Only a pending reservation can become unknown.''
      else Inr (with_budget s (replaceReservation b (set_state ''unknown'' r))))"

definition reservation_event :: "js_host \<Rightarrow> agent_state \<Rightarrow> budget_active \<Rightarrow> string \<Rightarrow> jobj \<Rightarrow> agent_state res" where
  "reservation_event h s b ty p =
     and_then (nonEmpty (fld p ''reservationId'') ''reservationId'')
      (let reservationId = or_default (as_string (fld p ''reservationId'')) [] in
       case obj_get (ba_reservations b) reservationId of
         None \<Rightarrow> throw (''Unknown reservation '' @ reservationId @ ''.'')
       | Some r \<Rightarrow>
           (if ty = ''resource_budget.dispatch_started'' then budget_dispatch_started h s b r
            else if ty = ''resource_budget.reconciled'' then budget_reconciled h s b r p
            else if ty = ''resource_budget.released'' then budget_released s b r p
            else if ty = ''resource_budget.unknown'' then budget_unknown s b r
            else Inr s))"

definition reduceResourceBudget :: "js_host \<Rightarrow> agent_state \<Rightarrow> string \<Rightarrow> jobj \<Rightarrow> agent_state res" where
  "reduceResourceBudget h s ty p =
     (if ty = ''resource_budget.configured'' then budget_configured h s p
      else bind_res (activeState (st_resourceBudget s)) (\<lambda>b.
        if ty = ''resource_budget.waiter_enqueued'' then waiter_enqueued h s b p
        else if ty = ''resource_budget.waiter_promoted'' \<or>
                ty = ''resource_budget.waiter_cancelled'' \<or>
                ty = ''resource_budget.waiter_timed_out''
        then waiter_settled h s b ty p
        else if ty = ''resource_budget.reserved'' then budget_reserved h s b p
        else reservation_event h s b ty p))"

section \<open>Provider readiness events\<close>

definition with_readiness :: "agent_state \<Rightarrow> string \<Rightarrow> provider_readiness \<Rightarrow> agent_state" where
  "with_readiness s key r = s\<lparr>st_providerReadiness := obj_set key r (st_providerReadiness s)\<rparr>"

definition string_or_empty :: "jobj \<Rightarrow> string \<Rightarrow> string" where
  "string_or_empty p f = or_default (stringField p f) []"

definition readiness_intent_recorded ::
  "js_host \<Rightarrow> agent_state \<Rightarrow> string \<Rightarrow> provider_readiness option \<Rightarrow> jobj \<Rightarrow> agent_state" where
  "readiness_intent_recorded h s key current p =
     (let lifecycleId = stringField p ''lifecycleId'' in
      if map_option pr_lifecycleId current = lifecycleId \<or>
         (case current of None \<Rightarrow> False
          | Some c \<Rightarrow> pr_status c \<noteq> Ready \<and> pr_status c \<noteq> ReadinessFailed)
      then s
      else with_readiness s key
        \<lparr>pr_readinessKey = key, pr_lifecycleId = or_default lifecycleId [],
         pr_providerId = string_or_empty p ''providerId'',
         pr_routeRevision = string_or_empty p ''routeRevision'',
         pr_executionBoundaryDigest = string_or_empty p ''executionBoundaryDigest'',
         pr_status = Prepared,
         pr_requestedAt = string_or_empty p ''requestedAt'',
         pr_expiresAt = string_or_empty p ''expiresAt'',
         pr_maxAttempts = js_Number h (coalesce (fld p ''maxAttempts'') (JNum 0)),
         pr_attempts = JNum 0, pr_waiters = [], pr_readyAt = None,
         pr_providerDirectoryRevision = None, pr_failure = JUndef,
         pr_dispatchCertainty = None\<rparr>)"

definition readiness_waiter_registered ::
  "agent_state \<Rightarrow> string \<Rightarrow> provider_readiness option \<Rightarrow> jobj \<Rightarrow> agent_state" where
  "readiness_waiter_registered s key current p =
     (case current of None \<Rightarrow> s
      | Some c \<Rightarrow>
          if Some (pr_lifecycleId c) \<noteq> stringField p ''lifecycleId'' then s
          else case stringField p ''waiterId'' of None \<Rightarrow> s
            | Some waiterId \<Rightarrow>
                if waiterId = [] \<or> obj_get (pr_waiters c) waiterId \<noteq> None then s
                else with_readiness s key (c\<lparr>pr_waiters := obj_set waiterId
                  \<lparr>rw_waiterId = waiterId, rw_toolCallId = string_or_empty p ''toolCallId'',
                   rw_registeredAt = string_or_empty p ''registeredAt''\<rparr> (pr_waiters c)\<rparr>))"

text \<open>\<open>a + 1\<close> and \<open>a > b\<close> on JavaScript numbers; \<open>===\<close> holds of no \<open>NaN\<close>.\<close>

definition js_plus_one :: "jval \<Rightarrow> jval" where
  "js_plus_one v = (case v of JNum r \<Rightarrow> JNum (r + 1) | _ \<Rightarrow> v)"

definition js_gt :: "jval \<Rightarrow> jval \<Rightarrow> bool" where
  "js_gt a b =
     (case (a, b) of
        (JNum x, JNum y) \<Rightarrow> x > y
      | (JNum x, JInf pos) \<Rightarrow> \<not> pos
      | (JInf pos, JNum y) \<Rightarrow> pos
      | (JInf pos, JInf pos') \<Rightarrow> pos \<and> \<not> pos'
      | _ \<Rightarrow> False)"

definition js_same_number :: "jval \<Rightarrow> jval \<Rightarrow> bool" where
  "js_same_number a b \<longleftrightarrow> a = b \<and> a \<noteq> JNaN"

definition readiness_attempt_started ::
  "js_host \<Rightarrow> agent_state \<Rightarrow> string \<Rightarrow> provider_readiness option \<Rightarrow> jobj \<Rightarrow> agent_state" where
  "readiness_attempt_started h s key current p =
     (let attempt = js_Number h (coalesce (fld p ''attempt'') (JNum 0));
          maxAttempts = js_Number h (coalesce (fld p ''maxAttempts'') (JNum 0)) in
      case current of None \<Rightarrow> s
      | Some c \<Rightarrow>
          if Some (pr_lifecycleId c) \<noteq> stringField p ''lifecycleId'' \<or>
             (pr_status c \<noteq> Prepared \<and> pr_status c \<noteq> ReadinessFailed) \<or>
             \<not> js_same_number maxAttempts (pr_maxAttempts c) \<or>
             \<not> js_same_number attempt (js_plus_one (pr_attempts c)) \<or>
             js_gt attempt maxAttempts
          then s
          else with_readiness s key (c\<lparr>pr_status := Attempted, pr_attempts := attempt,
            pr_dispatchCertainty := Some ''attempted'', pr_failure := JUndef\<rparr>))"

definition readiness_succeeded ::
  "agent_state \<Rightarrow> string \<Rightarrow> provider_readiness option \<Rightarrow> jobj \<Rightarrow> agent_state" where
  "readiness_succeeded s key current p =
     (case current of None \<Rightarrow> s
      | Some c \<Rightarrow>
          if Some (pr_lifecycleId c) \<noteq> stringField p ''lifecycleId'' \<or>
             (pr_status c \<noteq> Prepared \<and> pr_status c \<noteq> Attempted)
          then s
          else with_readiness s key (c\<lparr>pr_status := Ready,
            pr_readyAt := Some (string_or_empty p ''readyAt''),
            pr_expiresAt := string_or_empty p ''expiresAt'',
            pr_providerDirectoryRevision := Some (string_or_empty p ''providerDirectoryRevision''),
            pr_failure := JUndef\<rparr>))"

definition readiness_failed ::
  "agent_state \<Rightarrow> string \<Rightarrow> provider_readiness option \<Rightarrow> jobj \<Rightarrow> agent_state" where
  "readiness_failed s key current p =
     (let dispatchCertainty = stringField p ''dispatchCertainty'' in
      case current of None \<Rightarrow> s
      | Some c \<Rightarrow>
          if Some (pr_lifecycleId c) \<noteq> stringField p ''lifecycleId'' \<or>
             (if dispatchCertainty = Some ''attempted'' then pr_status c \<noteq> Attempted
              else pr_status c \<noteq> Prepared)
          then s
          else with_readiness s key (c\<lparr>pr_status := ReadinessFailed,
            pr_failure := fld p ''failure'',
            pr_dispatchCertainty :=
              Some (if dispatchCertainty = Some ''attempted'' then ''attempted'' else ''none'')\<rparr>))"

definition reduceProviderReadiness :: "js_host \<Rightarrow> agent_state \<Rightarrow> string \<Rightarrow> jobj \<Rightarrow> agent_state" where
  "reduceProviderReadiness h s ty p =
     (case stringField p ''readinessKey'' of None \<Rightarrow> s
      | Some key \<Rightarrow>
          if key = [] then s
          else let current = obj_get (st_providerReadiness s) key in
            if ty = ''provider.readiness_intent_recorded'' then readiness_intent_recorded h s key current p
            else if ty = ''provider.readiness_waiter_registered'' then readiness_waiter_registered s key current p
            else if ty = ''provider.readiness_attempt_started'' then readiness_attempt_started h s key current p
            else if ty = ''provider.readiness_succeeded'' then readiness_succeeded s key current p
            else if ty = ''provider.readiness_failed'' then readiness_failed s key current p
            else s)"

definition isResourceBudgetEvent :: "string \<Rightarrow> bool" where
  "isResourceBudgetEvent ty = starts_with ''resource_budget.'' ty"

definition isReadinessEvent :: "string \<Rightarrow> bool" where
  "isReadinessEvent ty = starts_with ''provider.readiness_'' ty"

definition reduceLeaseState :: "js_host \<Rightarrow> agent_state \<Rightarrow> kernel_event \<Rightarrow> agent_state res" where
  "reduceLeaseState h s e =
     (if isResourceBudgetEvent (ev_type e) then reduceResourceBudget h s (ev_type e) (ev_data e)
      else if \<not> isReadinessEvent (ev_type e) then Inr s
      else Inr (reduceProviderReadiness h s (ev_type e) (ev_data e)))"

end
