(* ===== verification/Kite_Lease_Inv.thy ===== *)
theory Kite_Lease_Inv
  imports Kite_Lease
begin

text \<open>
  The ledger of Kite_Lease is well-formed and within its budget after every accepted event, its
  reservations follow their state machine, and its waiters are numbered in order.
\<close>

section \<open>Usage order\<close>

definition nonneg_usage :: "resource_usage \<Rightarrow> bool" where
  "nonneg_usage u \<longleftrightarrow> 0 \<le> u_turns u \<and> 0 \<le> u_modelRequests u \<and> 0 \<le> u_toolInvocations u \<and>
     0 \<le> u_inputTokens u \<and> 0 \<le> u_outputTokens u \<and> 0 \<le> u_artifactBytes u \<and>
     0 \<le> u_elapsedRunMs u \<and> 0 \<le> u_activeSubagents u \<and> 0 \<le> u_activeWriters u \<and>
     0 \<le> u_activeToolInvocations u \<and> 0 \<le> u_activeShellInvocations u"

lemma withinUpperBound_refl: "withinUpperBound u u"
  by (simp add: withinUpperBound_def)

lemma withinBudget_mono: "withinUpperBound u u' \<Longrightarrow> withinBudget u' b \<Longrightarrow> withinBudget u b"
  by (simp add: withinUpperBound_def withinBudget_def)

lemma addUsage_mono:
  "withinUpperBound u u' \<Longrightarrow> withinUpperBound (addUsage u v) (addUsage u' v)"
  by (simp add: withinUpperBound_def addUsage_def Let_def max_def)

lemma addUsage_grows: "withinUpperBound u u' \<Longrightarrow> nonneg_usage v \<Longrightarrow> withinUpperBound u (addUsage u' v)"
  by (simp add: withinUpperBound_def addUsage_def nonneg_usage_def Let_def le_max_iff_disj)

lemma nonneg_addUsage: "nonneg_usage u \<Longrightarrow> nonneg_usage v \<Longrightarrow> nonneg_usage (addUsage u v)"
  by (simp add: nonneg_usage_def addUsage_def Let_def le_max_iff_disj)

lemma nonneg_zeroUsage [simp]: "nonneg_usage zeroUsage"
  by (simp add: nonneg_usage_def zeroUsage_def)

lemma nonNegativeInteger_ok: "nonNegativeInteger v f = ok \<longleftrightarrow> is_safe_integer v \<and> 0 \<le> int_of v"
  by (auto simp: nonNegativeInteger_def)

lemma positiveInteger_ok: "positiveInteger v f = ok \<longleftrightarrow> is_safe_integer v \<and> 0 < int_of v"
  by (auto simp: positiveInteger_def)

lemma nonEmpty_ok: "nonEmpty v f = ok \<longleftrightarrow> (\<exists>s. v = JStr s \<and> js_trim s \<noteq> [])"
  by (auto simp: nonEmpty_def split: jval.splits)

lemma assertResourceUsage_nonneg:
  assumes "assertResourceUsage v = ok"
  shows "nonneg_usage (usage_of v)"
proof -
  have "\<forall>f \<in> set COUNTER_FIELDS. 0 \<le> int_of (vfld (vfld v ''counters'') f)"
    and "\<forall>f \<in> set GAUGE_FIELDS. 0 \<le> int_of (vfld (vfld v ''gauges'') f)"
    using assms
    by (auto simp: assertResourceUsage_def Let_def res_simps nonNegativeInteger_ok split: if_splits)
  then show ?thesis
    by (simp add: nonneg_usage_def usage_of_def Let_def COUNTER_FIELDS_def GAUGE_FIELDS_def)
qed

section \<open>Replacing one entry\<close>

lemma list_all2_replace_entry:
  assumes "map_of o' k = Some r" and "R r' r" and "\<And>x. x \<in> set (obj_values o') \<Longrightarrow> R x x"
  shows "list_all2 R (obj_values (replace_entry k r' o')) (obj_values o')"
  using assms
proof (induction o')
  case Nil
  then show ?case by simp
next
  case (Cons kv o')
  have refl: "list_all2 R (obj_values o') (obj_values o')"
    using Cons.prems(3) by (intro list.rel_refl_strong) simp
  show ?case
    using Cons refl by (cases kv) (auto split: if_splits)
qed

definition commits_less :: "jobj \<Rightarrow> jobj \<Rightarrow> bool" where
  "commits_less r' r \<longleftrightarrow>
     (counts_against_budget r' \<longrightarrow>
        counts_against_budget r \<and> fld r' ''executableUpperBound'' = fld r ''executableUpperBound'') \<and>
     (counts_against_budget r \<longrightarrow> nonneg_usage (usage_of (fld r ''executableUpperBound'')))"

lemma add_committed_mono:
  "list_all2 commits_less rs' rs \<Longrightarrow> withinUpperBound u' u \<Longrightarrow>
   withinUpperBound (add_committed u' rs') (add_committed u rs)"
proof (induction rs' rs arbitrary: u' u rule: list_all2_induct)
  case Nil
  then show ?case by simp
next
  case (Cons r' rs' r rs)
  have "withinUpperBound
      (if counts_against_budget r' then addUsage u' (usage_of (fld r' ''executableUpperBound'')) else u')
      (if counts_against_budget r then addUsage u (usage_of (fld r ''executableUpperBound'')) else u)"
    using Cons.hyps(1) Cons.prems
    by (auto simp: commits_less_def intro: addUsage_mono addUsage_grows)
  then show ?case using Cons.IH by simp
qed

section \<open>The ledger invariant\<close>

definition RESERVATION_STATES :: "string list" where
  "RESERVATION_STATES = [''reserved'', ''dispatch_started'', ''reconciled'', ''released'', ''unknown'']"

definition reservation_ok :: "budget_active \<Rightarrow> string \<Rightarrow> jobj \<Rightarrow> bool" where
  "reservation_ok b k r \<longleftrightarrow>
     assertReservation (JObj r) = ok \<and> fld r ''reservationId'' = JStr k \<and>
     fld r ''runId'' = JStr (ba_runId b) \<and> fld r ''state'' \<in> JStr ` set RESERVATION_STATES"

definition waiter_ok :: "budget_active \<Rightarrow> string \<Rightarrow> jobj \<Rightarrow> bool" where
  "waiter_ok b k w \<longleftrightarrow> js_trim k \<noteq> [] \<and>
     fld w ''invocationId'' = JStr k \<and> fld w ''runId'' = JStr (ba_runId b) \<and>
     (\<exists>n. fld w ''sequence'' = jint n \<and> 0 \<le> n \<and> n < ba_nextWaiterSequence b)"

definition single_holder :: "jobj jsobj \<Rightarrow> bool" where
  "single_holder rs \<longleftrightarrow>
     (\<forall>k k' r r' i. obj_get rs k = Some r \<and> obj_get rs k' = Some r' \<and>
        holds_invocation i r \<and> holds_invocation i r' \<longrightarrow> k = k')"

definition ledger_shape :: "budget_active \<Rightarrow> bool" where
  "ledger_shape b \<longleftrightarrow>
     assertResourceBudget (JObj (ba_budget b)) = ok \<and>
     nonneg_usage (ba_reconciledUsage b) \<and>
     distinct_keys (ba_reservations b) \<and> js_object.every (reservation_ok b) (ba_reservations b) \<and>
     single_holder (ba_reservations b) \<and>
     distinct_keys (ba_waiters b) \<and> js_object.every (waiter_ok b) (ba_waiters b) \<and>
     0 \<le> ba_nextWaiterSequence b"

definition ledger_inv :: "budget_active \<Rightarrow> bool" where
  "ledger_inv b \<longleftrightarrow> ledger_shape b \<and> withinBudget (committedUsage b) (ba_budget b)"

definition lease_inv :: "agent_state \<Rightarrow> bool" where
  "lease_inv s \<longleftrightarrow>
     (case st_resourceBudget s of BudgetUnconfigured \<Rightarrow> True | BudgetActive b \<Rightarrow> ledger_inv b)"

lemmas ledger_defs = ledger_inv_def ledger_shape_def

lemma lease_inv_with_budget [simp]: "lease_inv (with_budget s b) = ledger_inv b"
  by (simp add: lease_inv_def with_budget_def)

lemma reservation_ok_nonneg:
  "reservation_ok b k r \<Longrightarrow> nonneg_usage (usage_of (fld r ''executableUpperBound''))"
  by (auto simp: reservation_ok_def assertReservation_def typeof_object_def res_simps
      intro: assertResourceUsage_nonneg split: if_splits)

lemma reservation_values_ok:
  assumes "ledger_shape b" and "r \<in> set (obj_values (ba_reservations b))"
  obtains k where "obj_get (ba_reservations b) k = Some r" "reservation_ok b k r"
proof -
  from assms(2) obtain k where "(k, r) \<in> set (ba_reservations b)" by (auto simp: obj_values_def)
  with assms(1) have "obj_get (ba_reservations b) k = Some r"
    by (simp add: ledger_shape_def distinct_keys_map_of)
  with assms(1) that show thesis by (auto simp: ledger_shape_def js_object.every_def)
qed

text \<open>A reservation that is replaced under its key without taking on a new obligation.\<close>

definition refines :: "jobj \<Rightarrow> jobj \<Rightarrow> bool" where
  "refines r' r \<longleftrightarrow> fld r' ''invocationId'' = fld r ''invocationId'' \<and>
     (fld r' ''state'' \<noteq> JStr ''released'' \<longrightarrow> fld r ''state'' \<noteq> JStr ''released'')"

lemma single_holder_replace:
  assumes "single_holder rs" and "obj_get rs k = Some r" and "refines r' r"
  shows "single_holder (obj_set k r' rs)"
proof -
  have h: "holds_invocation i r' \<Longrightarrow> holds_invocation i r" for i
    using assms(3) by (auto simp: refines_def holds_invocation_def)
  show ?thesis
    using assms(1,2) h unfolding single_holder_def obj_get_set by (metis option.inject)
qed

lemma single_holder_new:
  assumes "single_holder rs" and "distinct_keys rs" and "obj_get rs k = None"
    and "\<not> list_ex (holds_invocation (fld r ''invocationId'')) (obj_values rs)"
  shows "single_holder (obj_set k r rs)"
proof -
  have none: "\<not> holds_invocation (fld r ''invocationId'') r'" if "obj_get rs k' = Some r'" for k' r'
    using assms(4) that by (force simp: list_ex_iff obj_values_def dest: map_of_SomeD)
  have inv: "i = fld r ''invocationId''" if "holds_invocation i r" for i
    using that by (simp add: holds_invocation_def)
  show ?thesis
    unfolding single_holder_def obj_get_set
    using assms(1) none inv unfolding single_holder_def by (metis option.inject)
qed

lemma replaceReservation_eq:
  "fld r ''reservationId'' = JStr k \<Longrightarrow>
   replaceReservation b r = b\<lparr>ba_reservations := obj_set k r (ba_reservations b)\<rparr>"
  by (simp add: replaceReservation_def)

lemma ledger_shape_put:
  assumes "ledger_shape b" and "reservation_ok b k r"
    and "single_holder (obj_set k r (ba_reservations b))" and "nonneg_usage u"
  shows "ledger_shape (b\<lparr>ba_reservations := obj_set k r (ba_reservations b), ba_reconciledUsage := u\<rparr>)"
proof -
  have "js_object.every (reservation_ok b) (obj_set k r (ba_reservations b))"
    using assms by (intro js_object.every_put) (auto simp: ledger_shape_def)
  then show ?thesis
    using assms by (simp add: ledger_shape_def js_object.every_def reservation_ok_def waiter_ok_def)
qed

lemma committed_replace:
  assumes shape: "ledger_shape b" and get: "obj_get (ba_reservations b) k = Some r"
    and less: "commits_less r' r"
  shows "withinUpperBound (committedUsage (b\<lparr>ba_reservations := obj_set k r' (ba_reservations b)\<rparr>))
     (committedUsage b)"
proof -
  have key: "k \<in> set (obj_keys (ba_reservations b))" using get by (simp add: in_obj_keys_iff)
  have refl: "commits_less x x" if "x \<in> set (obj_values (ba_reservations b))" for x
    using reservation_values_ok [OF shape that] reservation_ok_nonneg
    by (metis commits_less_def)
  have "list_all2 commits_less (obj_values (replace_entry k r' (ba_reservations b)))
      (obj_values (ba_reservations b))"
    using get less refl by (rule list_all2_replace_entry)
  then show ?thesis
    using key by (simp add: committedUsage_def obj_set_def add_committed_mono withinUpperBound_refl)
qed

lemma ledger_inv_replace:
  assumes inv: "ledger_inv b" and get: "obj_get (ba_reservations b) k = Some r"
    and ok': "reservation_ok b k r'" and "refines r' r" and "commits_less r' r"
  shows "ledger_inv (replaceReservation b r')"
proof -
  let ?b = "b\<lparr>ba_reservations := obj_set k r' (ba_reservations b)\<rparr>"
  have shape: "ledger_shape b" and wb: "withinBudget (committedUsage b) (ba_budget b)"
    using inv by (simp_all add: ledger_inv_def)
  have "single_holder (obj_set k r' (ba_reservations b))"
    using assms shape by (auto simp: ledger_shape_def intro: single_holder_replace)
  then have "ledger_shape ?b"
    using ledger_shape_put [OF shape ok', of "ba_reconciledUsage b"] shape
    by (simp add: ledger_shape_def)
  moreover have "withinBudget (committedUsage ?b) (ba_budget b)"
    using committed_replace [OF shape get assms(5)] wb by (rule withinBudget_mono)
  ultimately show ?thesis
    using ok' by (simp add: ledger_inv_def reservation_ok_def replaceReservation_eq)
qed

section \<open>Every accepted event keeps the invariant\<close>

lemma assertReservation_set_state [simp]:
  "assertReservation (JObj (set_state st r)) = assertReservation (JObj r)"
  by (simp add: assertReservation_def set_state_def typeof_object_def)

lemma reservation_ok_set_state:
  "reservation_ok b k r \<Longrightarrow> st \<in> set RESERVATION_STATES \<Longrightarrow> reservation_ok b k (set_state st r)"
  by (simp add: reservation_ok_def) (simp add: set_state_def)

lemma counts_set_state:
  "counts_against_budget (set_state st r) \<longleftrightarrow> st \<in> {''reserved'', ''dispatch_started'', ''unknown''}"
  by (simp add: counts_against_budget_def set_state_def)

lemma fld_set_state [simp]:
  "fld (set_state st r) f = (if f = ''state'' then JStr st else fld r f)"
  by (simp add: set_state_def)

text \<open>The three transitions that only change the reservation's state.\<close>

lemma ledger_inv_transition:
  assumes inv: "ledger_inv b" and get: "obj_get (ba_reservations b) k = Some r"
    and "st \<in> {''dispatch_started'', ''released'', ''unknown''}"
    and from_: "fld r ''state'' \<in> {JStr ''reserved'', JStr ''dispatch_started''}"
  shows "ledger_inv (replaceReservation b (set_state st r))"
proof (rule ledger_inv_replace [OF inv get])
  have ok': "reservation_ok b k r"
    using inv get by (simp add: ledger_defs js_object.every_def)
  then show "reservation_ok b k (set_state st r)"
    using assms(3) by (intro reservation_ok_set_state) (auto simp: RESERVATION_STATES_def)
  show "refines (set_state st r) r" using from_ by (auto simp: refines_def)
  show "commits_less (set_state st r) r"
    using from_ reservation_ok_nonneg [OF ok'] assms(3)
    by (auto simp: commits_less_def counts_set_state counts_against_budget_def)
qed

lemma budget_dispatch_started_inv:
  assumes "ledger_inv b" and "obj_get (ba_reservations b) k = Some r" and "lease_inv s"
    and "budget_dispatch_started h s b r = Inr s'"
  shows "lease_inv s'"
  using assms ledger_inv_transition [OF assms(1,2), of "''dispatch_started''"]
  by (auto simp: budget_dispatch_started_def split: if_splits)

lemma budget_released_inv:
  assumes "ledger_inv b" and "obj_get (ba_reservations b) k = Some r" and "lease_inv s"
    and "budget_released s b r p = Inr s'"
  shows "lease_inv s'"
  using assms ledger_inv_transition [OF assms(1,2), of "''released''"]
  by (auto simp: budget_released_def split: if_splits)

lemma budget_unknown_inv:
  assumes "ledger_inv b" and "obj_get (ba_reservations b) k = Some r" and "lease_inv s"
    and "budget_unknown s b r = Inr s'"
  shows "lease_inv s'"
  using assms ledger_inv_transition [OF assms(1,2), of "''unknown''"]
  by (auto simp: budget_unknown_def split: if_splits)

lemma assertReservation_actual:
  assumes "assertReservation (JObj r) = ok" and "assertResourceUsage actual = ok"
    and "vfld actual ''source'' = JStr ''actual''"
    and "withinUpperBound (usage_of actual) (usage_of (fld r ''executableUpperBound''))"
  shows "assertReservation (JObj (obj_set ''actual'' actual r)) = ok"
  using assms by (simp add: assertReservation_def typeof_object_def res_simps split: if_splits)

lemma budget_reconciled_inv:
  assumes inv: "ledger_inv b" and get: "obj_get (ba_reservations b) k = Some r"
    and "lease_inv s" and red: "budget_reconciled h s b r p = Inr s'"
  shows "lease_inv s'"
proof (cases "s' = s")
  case True
  with assms(3) show ?thesis by simp
next
  case False
  define a where "a = fld p ''actual''"
  define r' where "r' = set_state ''reconciled'' (obj_set ''actual'' a r)"
  define b' where "b' = (replaceReservation b r')
    \<lparr>ba_reconciledUsage := addUsage (ba_reconciledUsage b) (usage_of a)\<rparr>"
  have red': "assertResourceUsage a = ok" "vfld a ''source'' = JStr ''actual''"
      "withinUpperBound (usage_of a) (usage_of (fld r ''executableUpperBound''))"
      "fld r ''state'' = JStr ''dispatch_started'' \<or> fld r ''state'' = JStr ''unknown''"
      "withinBudget (committedUsage b') (ba_budget b)" "s' = with_budget s b'"
    using red False unfolding budget_reconciled_def Let_def a_def [symmetric] r'_def [symmetric]
      b'_def [symmetric]
    by (auto simp: res_simps split: if_splits)
  have shape: "ledger_shape b" using inv by (simp add: ledger_inv_def)
  have ok_r: "reservation_ok b k r" using shape get by (simp add: ledger_defs js_object.every_def)
  have ok_r': "reservation_ok b k r'"
    using ok_r red'(1-3) unfolding r'_def
    by (simp add: reservation_ok_def assertReservation_actual RESERVATION_STATES_def)
  have "refines r' r" using red'(4) by (auto simp: refines_def r'_def)
  then have "single_holder (obj_set k r' (ba_reservations b))"
    using shape get by (auto simp: ledger_shape_def intro: single_holder_replace)
  then have "ledger_shape b'"
    using ledger_shape_put [OF shape ok_r'] assertResourceUsage_nonneg [OF red'(1)] shape ok_r'
    by (simp add: b'_def replaceReservation_eq reservation_ok_def nonneg_addUsage ledger_shape_def)
  moreover have "ba_budget b' = ba_budget b" by (simp add: b'_def replaceReservation_def)
  ultimately show ?thesis using red' by (simp add: ledger_inv_def)
qed

lemma reservation_event_inv:
  assumes "ledger_inv b" and "lease_inv s" and "reservation_event h s b ty p = Inr s'"
  shows "lease_inv s'"
  using assms
  by (auto simp: reservation_event_def Let_def res_simps split: option.splits if_splits
      dest: budget_dispatch_started_inv budget_reconciled_inv budget_released_inv budget_unknown_inv)

lemma budget_reserved_inv:
  assumes inv: "ledger_inv b" and "lease_inv s" and red: "budget_reserved h s b p = Inr s'"
  shows "lease_inv s'"
proof (cases "s' = s")
  case True
  with assms(2) show ?thesis by simp
next
  case False
  define c where "c = fld p ''reservation''"
  obtain r where r: "c = JObj r" and ok_c: "assertReservation (JObj r) = ok"
    using red by (cases c) (auto simp: budget_reserved_def Let_def res_simps assertReservation_def
        typeof_object_def c_def [symmetric])
  obtain k where k: "fld r ''reservationId'' = JStr k"
    using ok_c by (auto simp: assertReservation_def res_simps nonEmpty_ok split: if_splits)
  have guards: "fld r ''state'' = JStr ''reserved''" "fld r ''runId'' = JStr (ba_runId b)"
      "obj_get (ba_reservations b) k = None"
      "\<not> list_ex (holds_invocation (fld r ''invocationId'')) (obj_values (ba_reservations b))"
      "withinBudget (committedUsage (replaceReservation b r)) (ba_budget b)"
      "s' = with_budget s (replaceReservation b r)"
    using red False k r unfolding budget_reserved_def Let_def c_def [symmetric]
    by (auto simp: res_simps split: if_splits option.splits)
  have shape: "ledger_shape b" using inv by (simp add: ledger_inv_def)
  have ok_r: "reservation_ok b k r"
    using ok_c k guards by (simp add: reservation_ok_def RESERVATION_STATES_def)
  have "single_holder (obj_set k r (ba_reservations b))"
    using shape guards by (intro single_holder_new) (auto simp: ledger_shape_def)
  then have "ledger_shape (replaceReservation b r)"
    using ledger_shape_put [OF shape ok_r, of "ba_reconciledUsage b"] shape k
    by (simp add: replaceReservation_eq ledger_shape_def)
  moreover have "ba_budget (replaceReservation b r) = ba_budget b"
    by (simp add: replaceReservation_def)
  ultimately show ?thesis using guards by (simp add: ledger_inv_def)
qed

lemma committed_waiters [simp]:
  "committedUsage (b\<lparr>ba_waiters := w\<rparr>) = committedUsage b"
  "committedUsage (b\<lparr>ba_waiters := w, ba_nextWaiterSequence := n\<rparr>) = committedUsage b"
  by (simp_all add: committedUsage_def)

lemma ledger_inv_waiters:
  assumes "ledger_inv b" and "js_object.every (waiter_ok (b\<lparr>ba_nextWaiterSequence := n\<rparr>)) w"
    and "distinct_keys w" and "0 \<le> n"
  shows "ledger_inv (b\<lparr>ba_waiters := w, ba_nextWaiterSequence := n\<rparr>)"
  using assms by (simp add: ledger_defs js_object.every_def reservation_ok_def waiter_ok_def)

lemma waiter_settled_inv:
  assumes inv: "ledger_inv b" and "lease_inv s" and red: "waiter_settled h s b ty p = Inr s'"
  shows "lease_inv s'"
proof (cases "s' = s")
  case True
  with assms(2) show ?thesis by simp
next
  case False
  then obtain k w where w: "obj_get (ba_waiters b) k = Some w"
      and s': "s' = with_budget s (b\<lparr>ba_waiters :=
        obj_set k (obj_set ''state'' (JStr (waiter_target ty)) w) (ba_waiters b)\<rparr>)"
    using red by (auto simp: waiter_settled_def Let_def res_simps split: if_splits option.splits)
  have "js_object.every (waiter_ok b)
      (obj_set k (obj_set ''state'' (JStr (waiter_target ty)) w) (ba_waiters b))"
    using inv w by (intro js_object.every_put) (auto simp: ledger_defs js_object.every_def waiter_ok_def)
  then have "ledger_inv (b\<lparr>ba_waiters := obj_set k (obj_set ''state'' (JStr (waiter_target ty)) w)
      (ba_waiters b), ba_nextWaiterSequence := ba_nextWaiterSequence b\<rparr>)"
    using inv by (intro ledger_inv_waiters) (auto simp: ledger_defs)
  then show ?thesis using s' by simp
qed

lemma waiter_enqueued_cases:
  assumes "waiter_enqueued h s b p = Inr s'" and "s' \<noteq> s"
  obtains k w where "fld p ''waiter'' = JObj w" "fld w ''invocationId'' = JStr k"
    "fld w ''runId'' = JStr (ba_runId b)" "fld w ''sequence'' = jint (ba_nextWaiterSequence b)"
    "obj_get (ba_waiters b) k = None" "js_trim k \<noteq> []"
    "s' = with_budget s (b\<lparr>ba_waiters := obj_set k w (ba_waiters b),
       ba_nextWaiterSequence := ba_nextWaiterSequence b + 1\<rparr>)"
proof (cases "fld p ''waiter''")
  case (JObj w)
  with assms that show thesis
    by (auto simp: waiter_enqueued_def Let_def res_simps nonEmpty_ok split: if_splits option.splits)
qed (use assms in \<open>auto simp: waiter_enqueued_def Let_def res_simps nonEmpty_ok typeof_object_def\<close>)

lemma waiter_enqueued_inv:
  assumes inv: "ledger_inv b" and "lease_inv s" and red: "waiter_enqueued h s b p = Inr s'"
  shows "lease_inv s'"
proof (cases "s' = s")
  case True
  with assms(2) show ?thesis by simp
next
  case False
  with red show ?thesis
  proof (rule waiter_enqueued_cases)
    fix k w
    assume w: "js_trim k \<noteq> []" "fld w ''invocationId'' = JStr k" "fld w ''runId'' = JStr (ba_runId b)"
      "fld w ''sequence'' = jint (ba_nextWaiterSequence b)"
      and s': "s' = with_budget s (b\<lparr>ba_waiters := obj_set k w (ba_waiters b),
         ba_nextWaiterSequence := ba_nextWaiterSequence b + 1\<rparr>)"
    let ?ok = "waiter_ok (b\<lparr>ba_nextWaiterSequence := ba_nextWaiterSequence b + 1\<rparr>)"
    have "js_object.every ?ok (ba_waiters b)"
      using inv by (force simp: ledger_defs js_object.every_def waiter_ok_def)
    then have "js_object.every ?ok (obj_set k w (ba_waiters b))"
      using inv w by (intro js_object.every_put) (auto simp: waiter_ok_def ledger_defs)
    then have "ledger_inv (b\<lparr>ba_waiters := obj_set k w (ba_waiters b),
        ba_nextWaiterSequence := ba_nextWaiterSequence b + 1\<rparr>)"
      using inv by (intro ledger_inv_waiters) (auto simp: ledger_defs)
    then show ?thesis using s' by simp
  qed
qed

lemma budget_configured_inv:
  assumes "lease_inv s" and "budget_configured h s p = Inr s'"
  shows "lease_inv s'"
proof (cases "s' = s")
  case False
  then obtain b where s': "s' = with_budget s b" and "ba_reservations b = []" "ba_waiters b = []"
      "ba_reconciledUsage b = zeroUsage" "ba_nextWaiterSequence b = 0"
      and ok_b: "assertResourceBudget (JObj (ba_budget b)) = ok"
    using assms(2)
    by (cases "fld p ''budget''")
      (auto simp: budget_configured_def Let_def res_simps assertResourceBudget_def typeof_object_def
        split: if_splits option.splits resource_budget_state.splits)
  have "\<forall>f \<in> set BUDGET_FIELDS. 0 < budget_limit (ba_budget b) f"
    using ok_b by (auto simp: assertResourceBudget_def res_simps positiveInteger_ok budget_limit_def
        split: if_splits)
  then have "withinBudget zeroUsage (ba_budget b)"
    by (simp add: BUDGET_FIELDS_def withinBudget_def zeroUsage_def)
  then have "ledger_inv b"
    using \<open>ba_reservations b = []\<close> \<open>ba_waiters b = []\<close> \<open>ba_reconciledUsage b = zeroUsage\<close>
      \<open>ba_nextWaiterSequence b = 0\<close> ok_b
    by (simp add: ledger_defs committedUsage_def single_holder_def js_object.every_def)
  with s' show ?thesis by simp
qed (use assms in simp)

lemma reduceResourceBudget_inv:
  assumes inv: "lease_inv s" and red: "reduceResourceBudget h s ty p = Inr s'"
  shows "lease_inv s'"
proof (cases "ty = ''resource_budget.configured''")
  case True
  with assms show ?thesis by (auto simp: reduceResourceBudget_def intro: budget_configured_inv)
next
  case False
  with red obtain b where b: "st_resourceBudget s = BudgetActive b"
    by (auto simp: reduceResourceBudget_def activeState_def res_simps split: resource_budget_state.splits)
  with inv have "ledger_inv b" by (simp add: lease_inv_def)
  note steps = waiter_enqueued_inv [OF this inv] waiter_settled_inv [OF this inv]
    budget_reserved_inv [OF this inv] reservation_event_inv [OF this inv]
  show ?thesis
    using red False steps b by (auto simp: reduceResourceBudget_def activeState_def split: if_splits)
qed

lemma readiness_same [simp]: "s\<lparr>st_providerReadiness := st_providerReadiness s\<rparr> = s"
  by simp

lemma with_readiness_frame:
  "(with_readiness s k r)\<lparr>st_providerReadiness := m\<rparr> = s\<lparr>st_providerReadiness := m\<rparr>"
  by (simp add: with_readiness_def)

definition readiness_only :: "agent_state \<Rightarrow> agent_state \<Rightarrow> bool" where
  "readiness_only s s' \<longleftrightarrow> s' = s \<or> (\<exists>k r. s' = with_readiness s k r)"

lemma readiness_onlyI [intro]:
  "readiness_only s s" "readiness_only s (with_readiness s k r)"
  by (auto simp: readiness_only_def)

lemma readiness_only_if: "readiness_only s a \<Longrightarrow> readiness_only s b \<Longrightarrow> readiness_only s (if c then a else b)"
  by simp

lemma readiness_only_steps:
  "readiness_only s (readiness_intent_recorded h s k c p)"
  "readiness_only s (readiness_waiter_registered s k c p)"
  "readiness_only s (readiness_attempt_started h s k c p)"
  "readiness_only s (readiness_succeeded s k c p)"
  "readiness_only s (readiness_failed s k c p)"
  unfolding readiness_intent_recorded_def readiness_waiter_registered_def
    readiness_attempt_started_def readiness_succeeded_def readiness_failed_def Let_def
  by (auto intro!: readiness_only_if split: option.split)

lemma reduceProviderReadiness_only: "readiness_only s (reduceProviderReadiness h s ty p)"
proof (cases "stringField p ''readinessKey''")
  case None
  then show ?thesis by (simp add: reduceProviderReadiness_def readiness_onlyI)
next
  case (Some key)
  show ?thesis
    unfolding reduceProviderReadiness_def Some option.case Let_def
    by (intro readiness_only_if readiness_only_steps readiness_onlyI)
qed

lemma readiness_only_frame:
  "readiness_only s s' \<Longrightarrow> s' = s\<lparr>st_providerReadiness := st_providerReadiness s'\<rparr>"
  by (auto simp: readiness_only_def with_readiness_def)

lemma reduceProviderReadiness_budget:
  "st_resourceBudget (reduceProviderReadiness h s ty p) = st_resourceBudget s"
  using reduceProviderReadiness_only [of s h ty p]
  by (auto simp: readiness_only_def with_readiness_def)

lemma reduceLeaseState_inv:
  assumes "lease_inv s" and "reduceLeaseState h s e = Inr s'"
  shows "lease_inv s'"
  using assms reduceResourceBudget_inv [OF assms(1)]
  by (auto simp: reduceLeaseState_def lease_inv_def reduceProviderReadiness_budget split: if_splits)

text \<open>
  The resource ledger. Every event the lease reducer accepts keeps the ledger invariant: the
  budget and every reservation are valid, keyed by their own id and of the active run, at most
  one unreleased reservation exists per invocation, waiters carry sequence numbers below the next
  one, and the committed usage (reconciled usage plus the upper bounds of all reservations still
  reserved, dispatched or unknown) stays within the configured budget.
\<close>

theorem reduceLeaseState_keeps_ledger:
  assumes "lease_inv s" and "reduceLeaseState h s e = Inr s'"
  shows "lease_inv s'"
  using assms by (rule reduceLeaseState_inv)

section \<open>Reachable ledgers\<close>

text \<open>The states reached from a fresh session by events the lease reducer accepts.\<close>

inductive lease_reachable :: "js_host \<Rightarrow> agent_state \<Rightarrow> bool" for h where
  lease_start: "createInitialAgentState i = Inr s \<Longrightarrow> lease_reachable h s"
| lease_step: "lease_reachable h s \<Longrightarrow> reduceLeaseState h s e = Inr s' \<Longrightarrow> lease_reachable h s'"

lemma lease_inv_initial: "createInitialAgentState i = Inr s \<Longrightarrow> lease_inv s"
  by (auto simp: createInitialAgentState_def lease_inv_def split: if_splits)

lemma lease_reachable_inv: "lease_reachable h s \<Longrightarrow> lease_inv s"
  by (induction rule: lease_reachable.induct) (auto intro: lease_inv_initial reduceLeaseState_inv)

text \<open>
  No over-commitment. In every state reached from a fresh session, once a budget is
  configured the usage already reconciled plus the upper bound of every outstanding reservation
  is within that budget, so no run can dispatch more work than it was given.
\<close>

theorem committed_usage_within_budget:
  assumes "lease_reachable h s" and "st_resourceBudget s = BudgetActive b"
  shows "withinBudget (committedUsage b) (ba_budget b)"
  using lease_reachable_inv [OF assms(1)] assms(2) by (simp add: lease_inv_def ledger_inv_def)

section \<open>The reservation state machine\<close>

inductive reservation_step :: "string \<Rightarrow> string \<Rightarrow> bool" where
  res_stay: "reservation_step x x"
| res_dispatch: "reservation_step ''reserved'' ''dispatch_started''"
| res_reconcile: "reservation_step ''dispatch_started'' ''reconciled''"
| res_reconcile_unknown: "reservation_step ''unknown'' ''reconciled''"
| res_release: "reservation_step ''reserved'' ''released''"
| res_release_proven: "reservation_step ''dispatch_started'' ''released''"
| res_unknown: "reservation_step ''reserved'' ''unknown''"
| res_unknown_dispatched: "reservation_step ''dispatch_started'' ''unknown''"

declare reservation_step.intros [simp]

inductive_cases from_released: "reservation_step ''released'' y"
inductive_cases from_reconciled: "reservation_step ''reconciled'' y"

definition res_state :: "jobj \<Rightarrow> string" where
  "res_state r = or_default (as_string (fld r ''state'')) []"

text \<open>What an event may do to one stored reservation.\<close>

definition evolves :: "jobj \<Rightarrow> jobj \<Rightarrow> bool" where
  "evolves r r' \<longleftrightarrow> reservation_step (res_state r) (res_state r') \<and>
     (\<forall>f. f \<noteq> ''state'' \<and> f \<noteq> ''actual'' \<longrightarrow> fld r' f = fld r f)"

definition ledger_evolves :: "resource_budget_state \<Rightarrow> resource_budget_state \<Rightarrow> bool" where
  "ledger_evolves x y \<longleftrightarrow>
     (\<forall>b k r. x = BudgetActive b \<and> obj_get (ba_reservations b) k = Some r \<longrightarrow>
        (\<exists>b' r'. y = BudgetActive b' \<and> obj_get (ba_reservations b') k = Some r' \<and> evolves r r'))"

lemma ledger_evolvesD:
  "ledger_evolves (BudgetActive b) y \<Longrightarrow> obj_get (ba_reservations b) k = Some r \<Longrightarrow>
   \<exists>b' r'. y = BudgetActive b' \<and> obj_get (ba_reservations b') k = Some r' \<and> evolves r r'"
  by (simp add: ledger_evolves_def)

lemma evolves_refl: "evolves r r"
  by (simp add: evolves_def res_stay)

lemma ledger_evolves_refl: "ledger_evolves x x"
  by (auto simp: ledger_evolves_def intro: evolves_refl)

lemma ledger_evolves_same_reservations:
  "ba_reservations b' = ba_reservations b \<Longrightarrow> ledger_evolves (BudgetActive b) (BudgetActive b')"
  by (auto simp: ledger_evolves_def intro: evolves_refl)

lemma ledger_evolves_put:
  assumes "ba_reservations b' = obj_set k r' (ba_reservations b)"
    and "\<And>r. obj_get (ba_reservations b) k = Some r \<Longrightarrow> evolves r r'"
  shows "ledger_evolves (BudgetActive b) (BudgetActive b')"
  using assms by (auto simp: ledger_evolves_def intro: evolves_refl)

lemma evolves_set_state:
  "reservation_step (res_state r) st \<Longrightarrow> evolves r (set_state st r)"
  by (simp add: evolves_def res_state_def)

lemma evolves_reconcile:
  "reservation_step (res_state r) ''reconciled'' \<Longrightarrow>
   evolves r (set_state ''reconciled'' (obj_set ''actual'' a r))"
  by (simp add: evolves_def res_state_def)

lemma res_state_eq: "fld r ''state'' = JStr x \<Longrightarrow> res_state r = x"
  by (simp add: res_state_def)

lemma reservation_event_evolves:
  assumes inv: "ledger_inv b" and s: "st_resourceBudget s = BudgetActive b"
    and red: "reservation_event h s b ty p = Inr s'"
  shows "ledger_evolves (BudgetActive b) (st_resourceBudget s')"
proof -
  obtain k r where get: "obj_get (ba_reservations b) k = Some r"
    and step: "(if ty = ''resource_budget.dispatch_started'' then budget_dispatch_started h s b r
            else if ty = ''resource_budget.reconciled'' then budget_reconciled h s b r p
            else if ty = ''resource_budget.released'' then budget_released s b r p
            else if ty = ''resource_budget.unknown'' then budget_unknown s b r
            else Inr s) = Inr s'"
    using red by (auto simp: reservation_event_def Let_def res_simps split: option.splits)
  have key: "fld r ''reservationId'' = JStr k"
    using inv get by (simp add: ledger_defs js_object.every_def reservation_ok_def)
  have ev1: "ledger_evolves (BudgetActive b) (BudgetActive (replaceReservation b (set_state st r)))"
    if "reservation_step (res_state r) st" for st
    using that get key
    by (intro ledger_evolves_put) (auto simp: replaceReservation_eq intro: evolves_set_state)
  have ev2: "ledger_evolves (BudgetActive b)
      (BudgetActive ((replaceReservation b (set_state ''reconciled'' (obj_set ''actual'' a r)))
        \<lparr>ba_reconciledUsage := u\<rparr>))"
    if "reservation_step (res_state r) ''reconciled''" for a u
    using that get key
    by (intro ledger_evolves_put) (auto simp: replaceReservation_eq intro: evolves_reconcile)
  show ?thesis
    using step s
    by (auto simp: budget_dispatch_started_def budget_reconciled_def budget_released_def
        budget_unknown_def Let_def res_simps with_budget_def res_state_eq ledger_evolves_refl
        intro!: ev1 ev2 split: if_splits)
qed

lemma budget_reserved_evolves:
  assumes s: "st_resourceBudget s = BudgetActive b" and red: "budget_reserved h s b p = Inr s'"
  shows "ledger_evolves (BudgetActive b) (st_resourceBudget s')"
proof -
  have "ledger_evolves (BudgetActive b) (BudgetActive (replaceReservation b r))"
    if "obj_get (ba_reservations b) (or_default (as_string (fld r ''reservationId'')) []) = None" for r
    using that by (intro ledger_evolves_put) (auto simp: replaceReservation_def)
  then show ?thesis
    using red s
    by (cases "fld p ''reservation''")
      (auto simp: budget_reserved_def Let_def res_simps with_budget_def ledger_evolves_refl
        assertReservation_def typeof_object_def split: if_splits option.splits)
qed

lemma reduceResourceBudget_evolves:
  assumes inv: "lease_inv s" and red: "reduceResourceBudget h s ty p = Inr s'"
  shows "ledger_evolves (st_resourceBudget s) (st_resourceBudget s')"
proof (cases "st_resourceBudget s")
  case BudgetUnconfigured
  then show ?thesis by (simp add: ledger_evolves_def)
next
  case (BudgetActive b)
  then have "ledger_inv b" using inv by (simp add: lease_inv_def)
  note steps = reservation_event_evolves [OF this BudgetActive]
    budget_reserved_evolves [OF BudgetActive]
  have "ledger_evolves (BudgetActive b) (st_resourceBudget s')" if "waiter_settled h s b ty p = Inr s'"
    using that BudgetActive ledger_evolves_same_reservations
    by (auto simp: waiter_settled_def Let_def res_simps with_budget_def ledger_evolves_refl
        split: if_splits option.splits)
  moreover have "ledger_evolves (BudgetActive b) (st_resourceBudget s')"
    if "waiter_enqueued h s b p = Inr s'"
    using that BudgetActive ledger_evolves_same_reservations ledger_evolves_refl
    by (cases "s' = s") (auto elim!: waiter_enqueued_cases simp: with_budget_def)
  moreover have "ledger_evolves (BudgetActive b) (st_resourceBudget s')"
    if "budget_configured h s p = Inr s'"
    using that BudgetActive ledger_evolves_refl
    by (auto simp: budget_configured_def Let_def res_simps split: if_splits option.splits)
  ultimately show ?thesis
    using red BudgetActive steps
    by (auto simp: reduceResourceBudget_def activeState_def split: if_splits)
qed

lemma reduceLeaseState_evolves:
  assumes "lease_inv s" and "reduceLeaseState h s e = Inr s'"
  shows "ledger_evolves (st_resourceBudget s) (st_resourceBudget s')"
proof (cases "isResourceBudgetEvent (ev_type e)")
  case True
  then have "reduceResourceBudget h s (ev_type e) (ev_data e) = Inr s'"
    using assms(2) by (simp add: reduceLeaseState_def)
  then show ?thesis by (rule reduceResourceBudget_evolves [OF assms(1)])
next
  case False
  then have "st_resourceBudget s' = st_resourceBudget s"
    using assms(2) by (cases "isReadinessEvent (ev_type e)")
      (auto simp: reduceLeaseState_def reduceProviderReadiness_budget)
  then show ?thesis by (simp add: ledger_evolves_refl)
qed

lemma settled_stays:
  "reservation_step x y \<Longrightarrow> x \<in> {''released'', ''reconciled''} \<longrightarrow> y = x"
  by (erule reservation_step.cases) simp_all

text \<open>
  The reservation state machine. An accepted event keeps every stored reservation under its
  id, changes nothing of it but its state and actual usage, and moves the state only along
  reserved, dispatched or unknown, and reconciled or released; released and reconciled
  reservations never move again.
\<close>

theorem reservations_follow_state_machine:
  assumes "lease_inv s" and "reduceLeaseState h s e = Inr s'"
    and "st_resourceBudget s = BudgetActive b" and "obj_get (ba_reservations b) k = Some r"
  shows "\<exists>b' r'. st_resourceBudget s' = BudgetActive b' \<and> obj_get (ba_reservations b') k = Some r' \<and>
     reservation_step (res_state r) (res_state r') \<and>
     (res_state r \<in> {''released'', ''reconciled''} \<longrightarrow> res_state r' = res_state r) \<and>
     (\<forall>f. f \<noteq> ''state'' \<and> f \<noteq> ''actual'' \<longrightarrow> fld r' f = fld r f)"
proof -
  have "ledger_evolves (st_resourceBudget s) (st_resourceBudget s')"
    by (rule reduceLeaseState_evolves [OF assms(1,2)])
  then obtain b' r' where b': "st_resourceBudget s' = BudgetActive b'"
      and r': "obj_get (ba_reservations b') k = Some r'" and ev: "evolves r r'"
    using ledger_evolvesD [OF _ assms(4)] unfolding assms(3) by metis
  from ev have step: "reservation_step (res_state r) (res_state r')"
    and frame: "\<forall>f. f \<noteq> ''state'' \<and> f \<noteq> ''actual'' \<longrightarrow> fld r' f = fld r f"
    unfolding evolves_def by blast+
  from step have "res_state r \<in> {''released'', ''reconciled''} \<longrightarrow> res_state r' = res_state r"
    by (rule settled_stays)
  with b' r' step frame show ?thesis by (intro exI conjI)
qed

section \<open>Redelivered waiters and the frame\<close>

text \<open>
  a concurrency waiter that is already stored cannot be enqueued again. The redelivery of
  the very same waiter is rejected, because the FIFO sequence it carries is below the next one;
  the branch of the reducer that would accept an identical waiter silently is never reached.
\<close>

theorem waiter_redelivery_rejected:
  assumes "lease_reachable h s" and "st_resourceBudget s = BudgetActive b"
    and "obj_get (ba_waiters b) k = Some w"
    and "ev_type e = ''resource_budget.waiter_enqueued''" and "fld (ev_data e) ''waiter'' = JObj w"
  shows "\<exists>m. reduceLeaseState h s e = throw m"
proof -
  have "waiter_ok b k w"
    using lease_reachable_inv [OF assms(1)] assms(2,3)
    by (simp add: lease_inv_def ledger_defs js_object.every_def)
  then have "fld w ''sequence'' \<noteq> jint (ba_nextWaiterSequence b)"
    by (auto simp: waiter_ok_def jint_def)
  moreover have "reduceLeaseState h s e = waiter_enqueued h s b (ev_data e)"
    using assms(2,4) by (simp add: reduceLeaseState_def isResourceBudgetEvent_def
        reduceResourceBudget_def activeState_def)
  moreover have "\<exists>m. waiter_enqueued h s b p = throw m"
    if "fld p ''waiter'' = JObj w" "fld w ''sequence'' \<noteq> jint (ba_nextWaiterSequence b)" for p
    using that by (auto simp: waiter_enqueued_def Let_def nonEmpty_def typeof_object_def
        split: jval.splits)
  ultimately show ?thesis using assms(5) by simp
qed

lemma budget_same [simp]: "s\<lparr>st_resourceBudget := st_resourceBudget s\<rparr> = s"
  by simp

definition budget_only :: "agent_state \<Rightarrow> agent_state res \<Rightarrow> bool" where
  "budget_only s r \<longleftrightarrow> (\<forall>s'. r = Inr s' \<longrightarrow> s' = s\<lparr>st_resourceBudget := st_resourceBudget s'\<rparr>)"

lemma budget_onlyI [intro]:
  "budget_only s (Inr s)" "budget_only s (Inr (with_budget s b))" "budget_only s (Inl m)"
  by (simp_all add: budget_only_def with_budget_def)

lemma budget_only_if: "budget_only s x \<Longrightarrow> budget_only s y \<Longrightarrow> budget_only s (if c then x else y)"
  by simp

lemma budget_only_and_then: "budget_only s x \<Longrightarrow> budget_only s (and_then a x)"
  by (cases a) (auto simp: budget_only_def)

lemmas budget_only_rules = budget_only_if budget_only_and_then budget_onlyI

lemma budget_only_steps:
  "budget_only s (budget_configured h s p)"
  "budget_only s (waiter_enqueued h s b p)"
  "budget_only s (waiter_settled h s b ty p)"
  "budget_only s (budget_reserved h s b p)"
  "budget_only s (budget_dispatch_started h s b r)"
  "budget_only s (budget_reconciled h s b r p)"
  "budget_only s (budget_released s b r p)"
  "budget_only s (budget_unknown s b r)"
  unfolding budget_configured_def waiter_enqueued_def waiter_settled_def budget_reserved_def
    budget_dispatch_started_def budget_reconciled_def budget_released_def budget_unknown_def Let_def
  by (auto intro!: budget_only_rules split: option.split resource_budget_state.split)

lemma budget_only_reduce: "budget_only s (reduceResourceBudget h s ty p)"
proof -
  have "budget_only s (reservation_event h s b ty p)" for b
    unfolding reservation_event_def Let_def
    by (intro budget_only_and_then) (auto intro!: budget_only_if budget_only_steps split: option.split)
  then show ?thesis
    unfolding reduceResourceBudget_def activeState_def
    by (auto intro!: budget_only_if budget_only_steps split: resource_budget_state.split)
qed

text \<open>
  The lease reducer owns two parts of the state and touches no other. Whatever event it is
  given, the state it returns differs from the old one at most in the resource ledger and the
  provider readiness table; an event of neither family leaves the state as it is, and a
  readiness event never moves the ledger nor a budget event the readiness table.
\<close>

theorem reduceLeaseState_frame:
  assumes "reduceLeaseState h s e = Inr s'"
  shows "s' = s\<lparr>st_resourceBudget := st_resourceBudget s',
      st_providerReadiness := st_providerReadiness s'\<rparr> \<and>
    (\<not> starts_with ''resource_budget.'' (ev_type e) \<longrightarrow> st_resourceBudget s' = st_resourceBudget s) \<and>
    (\<not> starts_with ''provider.readiness_'' (ev_type e) \<longrightarrow>
       st_providerReadiness s' = st_providerReadiness s)"
proof (cases "isResourceBudgetEvent (ev_type e)")
  case True
  then have s': "s' = s\<lparr>st_resourceBudget := st_resourceBudget s'\<rparr>"
    using assms budget_only_reduce [of s h "ev_type e" "ev_data e"]
    by (simp add: reduceLeaseState_def budget_only_def)
  then have "st_providerReadiness s' = st_providerReadiness s"
    by (metis agent_state.select_convs agent_state.surjective agent_state.update_convs(13))
  then show ?thesis using s' True by (simp add: isResourceBudgetEvent_def)
next
  case False
  show ?thesis
  proof (cases "isReadinessEvent (ev_type e)")
    case True
    with False assms have "s' = reduceProviderReadiness h s (ev_type e) (ev_data e)"
      by (simp add: reduceLeaseState_def)
    then show ?thesis
      using True reduceProviderReadiness_only [of s h "ev_type e" "ev_data e"]
      by (auto simp: isReadinessEvent_def readiness_only_def with_readiness_def)
  next
    case no: False
    with False assms show ?thesis by (simp add: reduceLeaseState_def)
  qed
qed

section \<open>Witnesses\<close>

definition sample_budget :: jobj where
  "sample_budget = (''version'', JNum 1) # map (\<lambda>f. (f, JNum 10)) BUDGET_FIELDS"

definition sample_usage :: "rat \<Rightarrow> (string \<times> jval) list \<Rightarrow> jval" where
  "sample_usage n source = JObj ([(''counters'', JObj (map (\<lambda>f. (f, JNum n)) COUNTER_FIELDS)),
     (''gauges'', JObj (map (\<lambda>f. (f, JNum n)) GAUGE_FIELDS))] @ source)"

definition sample_configured :: kernel_event where
  "sample_configured = \<lparr>ev_type = ''resource_budget.configured'',
     ev_data = [(''runId'', JStr ''run''), (''startedAt'', JStr ''1''), (''deadlineAt'', JStr ''9''),
       (''budget'', JObj sample_budget)]\<rparr>"

definition sample_reservation :: jobj where
  "sample_reservation = [(''version'', JNum 1), (''reservationId'', JStr ''res''),
     (''runId'', JStr ''run''), (''invocationId'', JStr ''inv''), (''resourceKind'', JStr ''tool''),
     (''executableUpperBound'', sample_usage 3 [(''source'', JStr ''versioned_upper_bound''),
        (''estimatorVersion'', JStr ''v1'')]),
     (''state'', JStr ''reserved'')]"

definition sample_reserved :: kernel_event where
  "sample_reserved = \<lparr>ev_type = ''resource_budget.reserved'',
     ev_data = [(''reservation'', JObj sample_reservation)]\<rparr>"

definition sample_dispatched :: kernel_event where
  "sample_dispatched = \<lparr>ev_type = ''resource_budget.dispatch_started'',
     ev_data = [(''reservationId'', JStr ''res'')]\<rparr>"

definition sample_enqueued :: kernel_event where
  "sample_enqueued = \<lparr>ev_type = ''resource_budget.waiter_enqueued'',
     ev_data = [(''waiter'', JObj [(''version'', JNum 1), (''runId'', JStr ''run''),
       (''invocationId'', JStr ''inv''), (''sequence'', JNum 0), (''enqueuedAt'', JStr ''2''),
       (''deadlineAt'', JStr ''3''), (''state'', JStr ''waiting'')])]\<rparr>"

definition configured_state :: agent_state where
  "configured_state = projr (reduceLeaseState sample_host fresh_state sample_configured)"

definition reserved_state :: agent_state where
  "reserved_state = projr (reduceLeaseState sample_host configured_state sample_reserved)"

definition dispatched_state :: agent_state where
  "dispatched_state = projr (reduceLeaseState sample_host reserved_state sample_dispatched)"

definition waiting_state :: agent_state where
  "waiting_state = projr (reduceLeaseState sample_host dispatched_state sample_enqueued)"

definition budget_of :: "agent_state \<Rightarrow> budget_active" where
  "budget_of s = projr (activeState (st_resourceBudget s))"

lemma not_isl_projr: "\<not> isl r \<Longrightarrow> r = Inr (projr r)"
  by (cases r) simp_all

lemma sample_steps:
  "reduceLeaseState sample_host fresh_state sample_configured = Inr configured_state"
  "reduceLeaseState sample_host configured_state sample_reserved = Inr reserved_state"
  "reduceLeaseState sample_host reserved_state sample_dispatched = Inr dispatched_state"
  "reduceLeaseState sample_host dispatched_state sample_enqueued = Inr waiting_state"
  unfolding configured_state_def reserved_state_def dispatched_state_def waiting_state_def
  by (rule not_isl_projr, code_simp)+

lemma sample_reachable:
  "lease_reachable sample_host configured_state" "lease_reachable sample_host reserved_state"
  "lease_reachable sample_host dispatched_state" "lease_reachable sample_host waiting_state"
  by (meson fresh_state_created sample_steps lease_start lease_step)+

lemma sample_active:
  "st_resourceBudget reserved_state = BudgetActive (budget_of reserved_state)"
  "st_resourceBudget waiting_state = BudgetActive (budget_of waiting_state)"
  by (code_simp, code_simp)

theorem reduceLeaseState_keeps_ledger_witness:
  "lease_inv reserved_state \<and>
   reduceLeaseState sample_host reserved_state sample_dispatched = Inr dispatched_state \<and>
   lease_inv dispatched_state"
  using reduceLeaseState_keeps_ledger [OF lease_reachable_inv [OF sample_reachable(2)] sample_steps(3)]
    lease_reachable_inv [OF sample_reachable(2)] sample_steps(3) by simp

theorem committed_usage_within_budget_witness:
  "lease_reachable sample_host reserved_state \<and>
   u_turns (committedUsage (budget_of reserved_state)) = 3 \<and>
   withinBudget (committedUsage (budget_of reserved_state)) (ba_budget (budget_of reserved_state))"
proof -
  have "u_turns (committedUsage (budget_of reserved_state)) = 3" by code_simp
  then show ?thesis
    using committed_usage_within_budget [OF sample_reachable(2) sample_active(1)] sample_reachable(2)
    by simp
qed

theorem reservations_follow_state_machine_witness:
  "\<exists>b' r'. st_resourceBudget dispatched_state = BudgetActive b' \<and>
     obj_get (ba_reservations b') ''res'' = Some r' \<and>
     reservation_step (res_state sample_reservation) (res_state r')"
proof -
  have "obj_get (ba_reservations (budget_of reserved_state)) ''res'' = Some sample_reservation"
    by code_simp
  from reservations_follow_state_machine [OF lease_reachable_inv [OF sample_reachable(2)]
      sample_steps(3) sample_active(1) this]
  show ?thesis by blast
qed

theorem waiter_redelivery_rejected_witness:
  "lease_reachable sample_host waiting_state \<and>
   (\<exists>m. reduceLeaseState sample_host waiting_state sample_enqueued = throw m)"
proof -
  define w where "w = or_default (as_record (fld (ev_data sample_enqueued) ''waiter'')) []"
  have "obj_get (ba_waiters (budget_of waiting_state)) ''inv'' = Some w"
    unfolding w_def by code_simp
  moreover have "ev_type sample_enqueued = ''resource_budget.waiter_enqueued''"
    "fld (ev_data sample_enqueued) ''waiter'' = JObj w"
    by (simp_all add: w_def sample_enqueued_def)
  ultimately show ?thesis
    using waiter_redelivery_rejected [OF sample_reachable(4) sample_active(2)] sample_reachable(4)
    by blast
qed

theorem reduceLeaseState_frame_witness:
  "reduceLeaseState sample_host reserved_state sample_dispatched = Inr dispatched_state \<and>
   dispatched_state = reserved_state\<lparr>st_resourceBudget := st_resourceBudget dispatched_state,
     st_providerReadiness := st_providerReadiness dispatched_state\<rparr>"
  using reduceLeaseState_frame [OF sample_steps(3)] sample_steps(3) by simp

end
