(* ===== verification/Kite_Hash.thy ===== *)
theory Kite_Hash
  imports Kite_State "HOL-Library.Word"
begin

text \<open>
  src/packages/agent-kernel/src/hash.ts: the kernel's own SHA-256 over UTF-8 text. Code units and
  bytes are natural numbers as in the source's number arrays, the 32-bit arithmetic of the
  compression loop is \<open>32 word\<close> arithmetic (the source cuts every sum back with
  \<open>>>> 0\<close>, and its intermediate sums stay far below \<open>2^53\<close>). The array loops are modelled with
  the array the source reuses from block to block; they are proved equal to the recurrences of
  FIPS 180-4, and the UTF-8 encoder to the encoding of Unicode scalar values.
\<close>

unbundle bit_operations_syntax

section \<open>Constants\<close>

definition K_const :: "32 word list" where
  "K_const = concat [
     [0x428a2f98, 0x71374491, 0xb5c0fbcf, 0xe9b5dba5, 0x3956c25b, 0x59f111f1, 0x923f82a4, 0xab1c5ed5],
     [0xd807aa98, 0x12835b01, 0x243185be, 0x550c7dc3, 0x72be5d74, 0x80deb1fe, 0x9bdc06a7, 0xc19bf174],
     [0xe49b69c1, 0xefbe4786, 0x0fc19dc6, 0x240ca1cc, 0x2de92c6f, 0x4a7484aa, 0x5cb0a9dc, 0x76f988da],
     [0x983e5152, 0xa831c66d, 0xb00327c8, 0xbf597fc7, 0xc6e00bf3, 0xd5a79147, 0x06ca6351, 0x14292967],
     [0x27b70a85, 0x2e1b2138, 0x4d2c6dfc, 0x53380d13, 0x650a7354, 0x766a0abb, 0x81c2c92e, 0x92722c85],
     [0xa2bfe8a1, 0xa81a664b, 0xc24b8b70, 0xc76c51a3, 0xd192e819, 0xd6990624, 0xf40e3585, 0x106aa070],
     [0x19a4c116, 0x1e376c08, 0x2748774c, 0x34b0bcb5, 0x391c0cb3, 0x4ed8aa4a, 0x5b9cca4f, 0x682e6ff3],
     [0x748f82ee, 0x78a5636f, 0x84c87814, 0x8cc70208, 0x90befffa, 0xa4506ceb, 0xbef9a3f7, 0xc67178f2]]"

definition INITIAL :: "32 word list" where
  "INITIAL = [0x6a09e667, 0xbb67ae85, 0x3c6ef372, 0xa54ff53a,
     0x510e527f, 0x9b05688c, 0x1f83d9ab, 0x5be0cd19]"

section \<open>UTF-8\<close>

fun utf8Bytes :: "nat list \<Rightarrow> nat list" where
  "utf8Bytes [] = []"
| "utf8Bytes (code # rest) =
     (if code < 0x80 then code # utf8Bytes rest
      else if code < 0x800 then
        [0xc0 OR drop_bit 6 code, 0x80 OR (code AND 0x3f)] @ utf8Bytes rest
      else if code \<ge> 0xd800 \<and> code \<le> 0xdbff \<and> rest \<noteq> [] then
        (case rest of
           low # rest' \<Rightarrow>
             if low \<ge> 0xdc00 \<and> low \<le> 0xdfff then
               (let scalar = 0x10000 + push_bit 10 (code - 0xd800) + (low - 0xdc00) in
                [0xf0 OR drop_bit 18 scalar, 0x80 OR (drop_bit 12 scalar AND 0x3f),
                 0x80 OR (drop_bit 6 scalar AND 0x3f), 0x80 OR (scalar AND 0x3f)]
                @ utf8Bytes rest')
             else [0xef, 0xbf, 0xbd] @ utf8Bytes rest
         | [] \<Rightarrow> [])
      else if code \<ge> 0xdc00 \<and> code \<le> 0xdfff then [0xef, 0xbf, 0xbd] @ utf8Bytes rest
      else [0xe0 OR drop_bit 12 code, 0x80 OR (drop_bit 6 code AND 0x3f),
            0x80 OR (code AND 0x3f)] @ utf8Bytes rest)"

section \<open>SHA-256\<close>

definition rotr :: "32 word \<Rightarrow> nat \<Rightarrow> 32 word" where
  "rotr value amount = drop_bit amount value OR push_bit (32 - amount) value"

text \<open>\<open>while (bytes.length % 64 !== 56) bytes.push(0)\<close>\<close>

function pad_zeros :: "nat list \<Rightarrow> nat list" where
  "pad_zeros bytes = (if length bytes mod 64 \<noteq> 56 then pad_zeros (bytes @ [0]) else bytes)"
  by pat_completeness auto
termination
  by (relation "measure (\<lambda>bytes. if length bytes mod 64 \<le> 56 then 56 - length bytes mod 64
        else 120 - length bytes mod 64)")
    (auto simp: mod_Suc)

declare pad_zeros.simps [simp del]

definition padded :: "nat list \<Rightarrow> nat list" where
  "padded input =
     (let bitLength = length input * 8 in
      pad_zeros (input @ [0x80]) @
      map (\<lambda>shift. (bitLength div 2 ^ shift) AND 0xff) [56, 48, 40, 32, 24, 16, 8, 0])"

definition load_word :: "nat list \<Rightarrow> nat \<Rightarrow> 32 word" where
  "load_word bytes base =
     push_bit 24 (of_nat (bytes ! base)) OR push_bit 16 (of_nat (bytes ! (base + 1))) OR
     push_bit 8 (of_nat (bytes ! (base + 2))) OR of_nat (bytes ! (base + 3))"

definition schedule_load :: "nat list \<Rightarrow> nat \<Rightarrow> 32 word list \<Rightarrow> 32 word list" where
  "schedule_load bytes offset schedule =
     foldl (\<lambda>sch index. sch[index := load_word bytes (offset + index * 4)]) schedule [0..<16]"

definition schedule_step :: "32 word list \<Rightarrow> nat \<Rightarrow> 32 word list" where
  "schedule_step sch index =
     (let valueA = sch ! (index - 15); valueB = sch ! (index - 2);
          sigma0 = rotr valueA 7 XOR rotr valueA 18 XOR drop_bit 3 valueA;
          sigma1 = rotr valueB 17 XOR rotr valueB 19 XOR drop_bit 10 valueB in
      sch[index := sch ! (index - 16) + sigma0 + sch ! (index - 7) + sigma1])"

definition schedule_expand :: "32 word list \<Rightarrow> 32 word list" where
  "schedule_expand sch = foldl schedule_step sch [16..<64]"

datatype working =
  Working "32 word" "32 word" "32 word" "32 word" "32 word" "32 word" "32 word" "32 word"

fun round_step :: "32 word list \<Rightarrow> working \<Rightarrow> nat \<Rightarrow> working" where
  "round_step schedule (Working a b c d e f g h) index =
     (let sigma1 = rotr e 6 XOR rotr e 11 XOR rotr e 25;
          choice = (e AND f) XOR (NOT e AND g);
          temp1 = h + sigma1 + choice + K_const ! index + schedule ! index;
          sigma0 = rotr a 2 XOR rotr a 13 XOR rotr a 22;
          majority = (a AND b) XOR (a AND c) XOR (b AND c);
          temp2 = sigma0 + majority in
      Working (temp1 + temp2) a b c (d + temp1) e f g)"

definition working_of :: "32 word list \<Rightarrow> working" where
  "working_of hash = Working (hash ! 0) (hash ! 1) (hash ! 2) (hash ! 3)
     (hash ! 4) (hash ! 5) (hash ! 6) (hash ! 7)"

fun add_working :: "32 word list \<Rightarrow> working \<Rightarrow> 32 word list" where
  "add_working hash (Working a b c d e f g h) =
     [hash ! 0 + a, hash ! 1 + b, hash ! 2 + c, hash ! 3 + d,
      hash ! 4 + e, hash ! 5 + f, hash ! 6 + g, hash ! 7 + h]"

text \<open>One iteration of the block loop: the hash and the reused schedule array.\<close>

definition process_block ::
  "nat list \<Rightarrow> 32 word list \<times> 32 word list \<Rightarrow> nat \<Rightarrow> 32 word list \<times> 32 word list" where
  "process_block bytes st offset =
     (let hash = fst st;
          schedule = schedule_expand (schedule_load bytes offset (snd st));
          w = foldl (round_step schedule) (working_of hash) [0..<64] in
      (add_working hash w, schedule))"

definition block_offsets :: "nat list \<Rightarrow> nat list" where
  "block_offsets bytes = map (\<lambda>i. 64 * i) [0..<(length bytes + 63) div 64]"

definition hex_word :: "32 word \<Rightarrow> string" where
  "hex_word w = map (\<lambda>i. hex_digit (unat (drop_bit (4 * i) w))) [7, 6, 5, 4, 3, 2, 1, 0]"

definition sha256_words :: "nat list \<Rightarrow> 32 word list" where
  "sha256_words input =
     (let bytes = padded input in
      fst (foldl (process_block bytes) (INITIAL, replicate 64 0) (block_offsets bytes)))"

definition sha256HexBytes :: "nat list \<Rightarrow> string" where
  "sha256HexBytes input = concat (map hex_word (sha256_words input))"

definition code_units :: "string \<Rightarrow> nat list" where
  "code_units s = map of_char s"

definition sha256Hex :: "string \<Rightarrow> string" where
  "sha256Hex s = sha256HexBytes (utf8Bytes (code_units s))"

section \<open>The digest\<close>

lemma pad_zeros_eq: "\<exists>n. pad_zeros bytes = bytes @ replicate n 0 \<and> (length bytes + n) mod 64 = 56 \<and> n < 64"
proof (induction bytes rule: pad_zeros.induct)
  case (1 bytes)
  show ?case
  proof (cases "length bytes mod 64 = 56")
    case True
    then show ?thesis by (intro exI [of _ 0]) (simp add: pad_zeros.simps)
  next
    case False
    with 1 obtain n where n: "pad_zeros (bytes @ [0]) = (bytes @ [0]) @ replicate n 0"
      "(length (bytes @ [0]) + n) mod 64 = 56" "n < 64"
      by blast
    have "n \<noteq> 63"
    proof
      assume "n = 63"
      with n(2) have "(length bytes + 64) mod 64 = 56" by (simp add: add.commute)
      with False show False by simp
    qed
    then show ?thesis using n False
      by (intro exI [of _ "Suc n"]) (simp add: pad_zeros.simps [of bytes])
  qed
qed

lemma length_padded: "length (padded input) mod 64 = 0"
proof -
  have "length (pad_zeros (input @ [0x80])) mod 64 = 56"
    using pad_zeros_eq [of "input @ [0x80]"] by auto
  moreover have "(8 + x) mod 64 = 0" if "x mod 64 = 56" for x :: nat
    using that by (subst mod_add_right_eq [symmetric]) simp
  ultimately show ?thesis by (simp add: padded_def Let_def)
qed

lemma length_add_working [simp]: "length (add_working hash w) = 8"
  by (cases w) simp

lemma length_foldl_process:
  "length hash = 8 \<Longrightarrow> length (fst (foldl (process_block bytes) (hash, sch) offs)) = 8"
  by (induction offs arbitrary: hash sch) (simp_all add: process_block_def Let_def)

lemma length_sha256_words: "length (sha256_words input) = 8"
  unfolding sha256_words_def Let_def by (rule length_foldl_process) (simp add: INITIAL_def)

lemma is_lower_hex_hex_digit: "is_lower_hex (hex_digit n)"
  unfolding is_lower_hex_def hex_digit_def by (rule nth_mem) simp

lemma length_concat_const: "\<forall>x \<in> set xs. length (f x) = k \<Longrightarrow> length (concat (map f xs)) = k * length xs"
  by (induction xs) simp_all

lemma length_hex_word [simp]: "length (hex_word w) = 8"
  by (simp add: hex_word_def)

lemma sha256HexBytes_hex: "is_sha256_hex (sha256HexBytes input)"
proof -
  have "length (sha256HexBytes input) = 64"
    unfolding sha256HexBytes_def
    by (subst length_concat_const [where k = 8]) (simp_all add: length_sha256_words)
  moreover have "list_all is_lower_hex (sha256HexBytes input)"
    by (auto simp: list_all_iff sha256HexBytes_def hex_word_def is_lower_hex_hex_digit)
  ultimately show ?thesis by (simp add: is_sha256_hex_def)
qed

section \<open>FIPS 180-4\<close>

text \<open>The standard's functions, with the library's rotation, and its recurrences.\<close>

definition ssig0 :: "32 word \<Rightarrow> 32 word" where
  "ssig0 x = word_rotr 7 x XOR word_rotr 18 x XOR drop_bit 3 x"

definition ssig1 :: "32 word \<Rightarrow> 32 word" where
  "ssig1 x = word_rotr 17 x XOR word_rotr 19 x XOR drop_bit 10 x"

definition bsig0 :: "32 word \<Rightarrow> 32 word" where
  "bsig0 x = word_rotr 2 x XOR word_rotr 13 x XOR word_rotr 22 x"

definition bsig1 :: "32 word \<Rightarrow> 32 word" where
  "bsig1 x = word_rotr 6 x XOR word_rotr 11 x XOR word_rotr 25 x"

fun fips_W :: "(nat \<Rightarrow> 32 word) \<Rightarrow> nat \<Rightarrow> 32 word" where
  "fips_W M t =
     (if t < 16 then M t
      else ssig1 (fips_W M (t - 2)) + fips_W M (t - 7) + ssig0 (fips_W M (t - 15)) + fips_W M (t - 16))"

declare fips_W.simps [simp del]

fun fips_round :: "(nat \<Rightarrow> 32 word) \<Rightarrow> working \<Rightarrow> nat \<Rightarrow> working" where
  "fips_round W (Working a b c d e f g h) t =
     (let t1 = h + bsig1 e + ((e AND f) XOR (NOT e AND g)) + K_const ! t + W t;
          t2 = bsig0 a + ((a AND b) XOR (a AND c) XOR (b AND c)) in
      Working (t1 + t2) a b c (d + t1) e f g)"

definition fips_block :: "nat list \<Rightarrow> 32 word list \<Rightarrow> nat \<Rightarrow> 32 word list" where
  "fips_block message hash i =
     (let M = (\<lambda>j. load_word message (64 * i + 4 * j)) in
      add_working hash (foldl (fips_round (fips_W M)) (working_of hash) [0..<64]))"

definition fips_padding :: "nat list \<Rightarrow> nat list" where
  "fips_padding message =
     message @ [0x80] @ replicate (nat ((55 - int (length message)) mod 64)) 0 @
     map (\<lambda>i. (8 * length message) div 256 ^ i mod 256) (rev [0..<8])"

definition fips_sha256 :: "nat list \<Rightarrow> string" where
  "fips_sha256 message =
     (let m = fips_padding message in
      concat (map hex_word (foldl (fips_block m) INITIAL [0..<length m div 64])))"

lemma rotr_word_rotr:
  assumes "0 < n" "n < 32"
  shows "rotr v n = word_rotr n v"
proof (rule bit_eqI)
  fix i
  assume "possible_bit TYPE(32 word) i"
  then have i: "i < 32" by (simp add: possible_bit_def)
  show "bit (rotr v n) i = bit (word_rotr n v) i"
  proof (cases "i + n < 32")
    case True
    then have "\<not> 32 - n \<le> i" using assms by linarith
    with True show ?thesis using assms i
      by (simp add: rotr_def bit_or_iff bit_drop_bit_eq bit_push_bit_iff bit_word_rotr_iff
          not_le add.commute)
  next
    case False
    then have "(i + n) mod 32 = i + n - 32" using assms i by (simp add: mod_if)
    moreover have "\<not> bit v (i + n)" using False bit_imp_le_length by fastforce
    moreover have "32 - n \<le> i" using False by linarith
    ultimately show ?thesis using assms i False
      by (simp add: rotr_def bit_or_iff bit_drop_bit_eq bit_push_bit_iff bit_word_rotr_iff
          add.commute)
  qed
qed

lemma pad_unique:
  assumes "(l + 1 + n) mod 64 = 56" and "n < (64 :: nat)"
  shows "n = nat ((55 - int l) mod 64)"
proof -
  have "(int l + 1 + int n) mod 64 = 56"
    using arg_cong [OF assms(1), of int] by (simp add: zmod_int ac_simps)
  then have "(int l + 1 + int n - (int l + 1)) mod 64 = (56 - (int l + 1)) mod 64"
    by (metis mod_diff_left_eq)
  then have "int n mod 64 = (55 - int l) mod 64" by (simp add: algebra_simps)
  then show ?thesis using assms(2) by simp
qed

lemma padded_fips: "padded input = fips_padding input"
proof -
  obtain n where n: "pad_zeros (input @ [0x80]) = (input @ [0x80]) @ replicate n 0"
    "(length (input @ [0x80]) + n) mod 64 = 56" "n < 64"
    using pad_zeros_eq by blast
  then have "n = nat ((55 - int (length input)) mod 64)" by (intro pad_unique) auto
  moreover have "(x :: nat) AND 255 = x mod 256" for x
    using take_bit_eq_mask [of 8 x] by (simp add: take_bit_eq_mod mask_eq_exp_minus_1)
  ultimately show ?thesis
    using n by (simp add: padded_def fips_padding_def Let_def upt_rec mult.commute)
qed

lemma schedule_load_spec:
  assumes "length sch = 64"
  shows "length (schedule_load bytes off sch) = 64 \<and>
    (\<forall>i < 16. schedule_load bytes off sch ! i = load_word bytes (off + 4 * i))"
proof -
  have "length (foldl (\<lambda>s i. s[i := load_word bytes (off + i * 4)]) sch [0..<n]) = 64 \<and>
    (\<forall>i < n. foldl (\<lambda>s i. s[i := load_word bytes (off + i * 4)]) sch [0..<n] ! i =
       load_word bytes (off + 4 * i))" if "n \<le> 16" for n
    using that by (induction n) (use assms in \<open>auto simp: nth_list_update less_Suc_eq mult.commute\<close>)
  then show ?thesis unfolding schedule_load_def by blast
qed

lemma schedule_step_spec:
  assumes "length sch = 64" "\<forall>i < n. sch ! i = fips_W M i" "16 \<le> n" "n < 64"
  shows "length (schedule_step sch n) = 64 \<and> (\<forall>i < Suc n. schedule_step sch n ! i = fips_W M i)"
  using assms fips_W.simps [of M n]
  by (auto simp: schedule_step_def Let_def nth_list_update less_Suc_eq rotr_word_rotr ssig0_def
      ssig1_def ac_simps)

lemma schedule_expand_spec:
  assumes "length sch = 64" "\<forall>i < 16. sch ! i = M i"
  shows "length (schedule_expand sch) = 64 \<and> (\<forall>i < 64. schedule_expand sch ! i = fips_W M i)"
proof -
  have "length (foldl schedule_step sch [16..<16 + n]) = 64 \<and>
    (\<forall>i < 16 + n. foldl schedule_step sch [16..<16 + n] ! i = fips_W M i)" if "n \<le> 48" for n
    using that
  proof (induction n)
    case 0
    then show ?case using assms by (simp add: fips_W.simps)
  next
    case (Suc n)
    then show ?case
      using schedule_step_spec [of "foldl schedule_step sch [16..<16 + n]" "16 + n" M]
        upt_Suc_append [of 16 "16 + n"] by simp
  qed
  from this [of 48] show ?thesis by (simp add: schedule_expand_def)
qed

lemma round_step_fips:
  "sch ! t = W t \<Longrightarrow> round_step sch w t = fips_round W w t"
  by (cases w) (simp add: Let_def rotr_word_rotr bsig0_def bsig1_def)

lemma process_block_fips:
  assumes "length (snd st) = 64"
  shows "fst (process_block bytes st (64 * i)) = fips_block bytes (fst st) i \<and>
    length (snd (process_block bytes st (64 * i))) = 64"
proof -
  define M where "M = (\<lambda>j. load_word bytes (64 * i + 4 * j))"
  define sch where "sch = schedule_expand (schedule_load bytes (64 * i) (snd st))"
  have sch: "length sch = 64" "\<And>t. t < 64 \<Longrightarrow> sch ! t = fips_W M t"
    using schedule_load_spec [OF assms] schedule_expand_spec [of _ M]
    by (auto simp: sch_def M_def)
  have "foldl (round_step sch) w [0..<64] = foldl (fips_round (fips_W M)) w [0..<64]" for w
    by (rule foldl_cong) (auto intro: round_step_fips sch)
  then show ?thesis using sch
    by (simp add: process_block_def fips_block_def Let_def M_def sch_def)
qed

lemma process_blocks_fips:
  "length (snd st) = 64 \<Longrightarrow>
   fst (foldl (process_block bytes) st (map (\<lambda>i. 64 * i) is)) = foldl (fips_block bytes) (fst st) is"
  by (induction "is" arbitrary: st) (simp_all add: process_block_fips)

text \<open>
  C36: the kernel's SHA-256 is the standard's. The digest computed by the array loops of
  \<open>sha256HexBytes\<close> (shift-or rotations, an appended padding loop, one schedule array reused for
  all blocks) is the FIPS 180-4 digest of the bytes: standard padding, message schedule
  recurrence, word rotations and compression.
\<close>

theorem sha256HexBytes_fips: "sha256HexBytes input = fips_sha256 input"
proof -
  define m where "m = padded input"
  obtain q where "length m = 64 * q"
    using length_padded [of input] by (auto simp: m_def)
  then have "(length m + 63) div 64 = length m div 64" by simp
  then show ?thesis
    using process_blocks_fips [of "(INITIAL, replicate 64 0)" m "[0..<length m div 64]"]
    by (simp add: sha256HexBytes_def sha256_words_def fips_sha256_def Let_def block_offsets_def
        m_def [symmetric] padded_fips [symmetric])
qed

text \<open>
  Every digest is an identity key the kernel accepts: 64 lowercase hexadecimal characters.
\<close>

theorem sha256Hex_is_identity: "is_sha256_hex (sha256Hex s)"
  unfolding sha256Hex_def by (rule sha256HexBytes_hex)

section \<open>UTF-8 text\<close>

text \<open>
  The scalar values of a UTF-16 string, an unpaired surrogate read as the replacement character,
  and the encoding of one scalar value (RFC 3629).
\<close>

fun utf16_scalars :: "nat list \<Rightarrow> nat list" where
  "utf16_scalars [] = []"
| "utf16_scalars [c] = [if 0xd800 \<le> c \<and> c \<le> 0xdfff then 0xfffd else c]"
| "utf16_scalars (c # d # cs) =
     (if 0xd800 \<le> c \<and> c \<le> 0xdbff \<and> 0xdc00 \<le> d \<and> d \<le> 0xdfff
      then (0x10000 + 1024 * (c - 0xd800) + (d - 0xdc00)) # utf16_scalars cs
      else (if 0xd800 \<le> c \<and> c \<le> 0xdfff then 0xfffd else c) # utf16_scalars (d # cs))"

definition utf8_encode :: "nat \<Rightarrow> nat list" where
  "utf8_encode n =
     (if n < 0x80 then [n]
      else if n < 0x800 then [0xc0 + n div 64, 0x80 + n mod 64]
      else if n < 0x10000 then [0xe0 + n div 4096, 0x80 + n div 64 mod 64, 0x80 + n mod 64]
      else [0xf0 + n div 262144, 0x80 + n div 4096 mod 64, 0x80 + n div 64 mod 64, 0x80 + n mod 64])"

lemma or_plus: "(x :: nat) < 2 ^ k \<Longrightarrow> push_bit k c OR x = push_bit k c + x"
proof -
  assume "x < 2 ^ k"
  then have "take_bit k x = x" by (simp add: take_bit_nat_eq_self)
  then have "\<not> bit x n" if "k \<le> n" for n using that by (metis bit_take_bit_iff not_le)
  then have "push_bit k c AND x = 0"
    by (intro bit_eqI) (auto simp: bit_and_iff bit_push_bit_iff)
  then show ?thesis by (simp add: disjunctive_add_eq_or)
qed

lemma and_63: "(x :: nat) AND 63 = x mod 64"
  using take_bit_eq_mask [of 6 x] by (simp add: take_bit_eq_mod mask_eq_exp_minus_1)

lemma lead_bytes:
  "(x :: nat) < 64 \<Longrightarrow> 0x80 OR x = 0x80 + x"
  "(x :: nat) < 32 \<Longrightarrow> 0xc0 OR x = 0xc0 + x"
  "(x :: nat) < 16 \<Longrightarrow> 0xe0 OR x = 0xe0 + x"
  "(x :: nat) < 8 \<Longrightarrow> 0xf0 OR x = 0xf0 + x"
  using or_plus [of x 6 2] or_plus [of x 5 6] or_plus [of x 4 14] or_plus [of x 3 30]
  by (simp_all add: push_bit_eq_mult)

lemma two_bytes: "0x80 \<le> c \<Longrightarrow> c < 0x800 \<Longrightarrow>
    [0xc0 OR drop_bit 6 c, 0x80 OR (c AND 0x3f)] = utf8_encode c"
  by (simp add: utf8_encode_def drop_bit_eq_div and_63 lead_bytes less_mult_imp_div_less)

lemma three_bytes: "0x800 \<le> c \<Longrightarrow> c < 0x10000 \<Longrightarrow>
    [0xe0 OR drop_bit 12 c, 0x80 OR (drop_bit 6 c AND 0x3f), 0x80 OR (c AND 0x3f)] = utf8_encode c"
  by (simp add: utf8_encode_def drop_bit_eq_div and_63 lead_bytes less_mult_imp_div_less)

lemma four_bytes: "0x10000 \<le> c \<Longrightarrow> c < 0x200000 \<Longrightarrow>
    [0xf0 OR drop_bit 18 c, 0x80 OR (drop_bit 12 c AND 0x3f), 0x80 OR (drop_bit 6 c AND 0x3f),
     0x80 OR (c AND 0x3f)] = utf8_encode c"
  by (simp add: utf8_encode_def drop_bit_eq_div and_63 lead_bytes less_mult_imp_div_less)

definition high_surrogate :: "nat \<Rightarrow> bool" where
  "high_surrogate c \<longleftrightarrow> 0xd800 \<le> c \<and> c \<le> 0xdbff"

lemma replacement_bytes: "utf8_encode 0xfffd = [0xef, 0xbf, 0xbd]"
  by (simp add: utf8_encode_def)

lemma utf8Bytes_single:
  assumes "c < 0x10000" "\<not> high_surrogate c"
  shows "utf8Bytes (c # rest) =
    utf8_encode (if 0xd800 \<le> c \<and> c \<le> 0xdfff then 0xfffd else c) @ utf8Bytes rest"
proof -
  consider "c < 0x80" | "0x80 \<le> c" "c < 0x800" | "0x800 \<le> c" "c < 0xd800"
    | "0xdc00 \<le> c" "c \<le> 0xdfff" | "0xe000 \<le> c"
    using assms(2) unfolding high_surrogate_def by linarith
  then show ?thesis
  proof cases
    case 1
    then show ?thesis by (simp add: utf8_encode_def)
  next
    case 2
    then show ?thesis using two_bytes [of c] by simp
  next
    case 3
    then show ?thesis using three_bytes [of c] by simp
  next
    case 4
    then show ?thesis by (simp add: replacement_bytes)
  next
    case 5
    then show ?thesis using assms(1) three_bytes [of c] by simp
  qed
qed

text \<open>
  the text hashed is the UTF-8 encoding of the string. For every sequence of UTF-16 code
  units that does not end in an unpaired high surrogate, \<open>utf8Bytes\<close> is the concatenated
  encoding of its scalar values, unpaired surrogates replaced by U+FFFD.
\<close>

theorem utf8Bytes_correct:
  assumes "\<forall>c \<in> set cs. c < 0x10000" and "cs = [] \<or> \<not> high_surrogate (last cs)"
  shows "utf8Bytes cs = concat (map utf8_encode (utf16_scalars cs))"
  using assms
proof (induction cs rule: utf16_scalars.induct)
  case 1
  then show ?case by simp
next
  case (2 c)
  then show ?case using utf8Bytes_single [of c "[]"] by simp
next
  case (3 c d cs)
  let ?pair = "0xd800 \<le> c \<and> c \<le> 0xdbff \<and> 0xdc00 \<le> d \<and> d \<le> 0xdfff"
  have tail: "\<not> high_surrogate (last (d # cs))" "\<forall>x \<in> set (d # cs). x < 0x10000" "c < 0x10000"
    using 3(3,4) by simp_all
  show ?case
  proof (cases ?pair)
    case True
    let ?s = "0x10000 + 1024 * (c - 0xd800) + (d - 0xdc00)"
    have s: "0x10000 \<le> ?s" "?s < 0x200000" using True by linarith+
    have "cs = [] \<or> \<not> high_surrogate (last cs)" using tail(1) by (cases cs) simp_all
    with 3(1) [OF True] tail(2) have "utf8Bytes cs = concat (map utf8_encode (utf16_scalars cs))"
      by simp
    then show ?thesis using True four_bytes [OF s]
      by (simp add: Let_def push_bit_eq_mult mult.commute)
  next
    case False
    from 3(2) [OF False] tail
    have rest: "utf8Bytes (d # cs) = concat (map utf8_encode (utf16_scalars (d # cs)))" by simp
    have scalars: "utf16_scalars (c # d # cs) =
        (if 0xd800 \<le> c \<and> c \<le> 0xdfff then 0xfffd else c) # utf16_scalars (d # cs)"
      unfolding utf16_scalars.simps(3) if_not_P [OF False] by (rule refl)
    show ?thesis
    proof (cases "high_surrogate c")
      case high: True
      with False have "\<not> (0xdc00 \<le> d \<and> d \<le> 0xdfff)" by (simp add: high_surrogate_def)
      with high have "utf8Bytes (c # d # cs) = utf8_encode 0xfffd @ utf8Bytes (d # cs)"
        by (simp add: high_surrogate_def replacement_bytes del: utf8Bytes.simps(2)
            add: utf8Bytes.simps(2) [of c]) blast
      with rest high show ?thesis unfolding scalars by (simp add: high_surrogate_def)
    next
      case low: False
      show ?thesis
        unfolding scalars using utf8Bytes_single [OF tail(3) low, of "d # cs"] rest
        by (simp del: utf8Bytes.simps)
    qed
  qed
qed

theorem utf8Bytes_correct_witness:
  "utf8Bytes [97, 0xe9, 0xd83d, 0xde00, 0xdc00, 98] =
   concat (map utf8_encode (utf16_scalars [97, 0xe9, 0xd83d, 0xde00, 0xdc00, 98]))"
  using utf8Bytes_correct [of "[97, 0xe9, 0xd83d, 0xde00, 0xdc00, 98]"]
  by (simp only: list.set ball_simps last.simps high_surrogate_def) simp

text \<open>
  A high surrogate at the very end of the string is the exception: its three-byte encoding is
  emitted although it is no scalar value, where an unpaired surrogate anywhere else becomes
  U+FFFD, so the hashed bytes are then not well-formed UTF-8.
\<close>

theorem utf8Bytes_trailing_surrogate:
  assumes "high_surrogate c"
  shows "utf8Bytes [c] = utf8_encode c \<and> utf8Bytes [c] \<noteq> utf8_encode 0xfffd \<and>
    utf8Bytes [c, 97] = utf8_encode 0xfffd @ [97]"
proof -
  have "utf8Bytes [c] = utf8_encode c"
    using assms three_bytes [of c] by (auto simp: high_surrogate_def)
  moreover have "c div 4096 = 13" using assms by (auto simp: high_surrogate_def)
  then have "hd (utf8_encode c) \<noteq> hd (utf8_encode 0xfffd)"
    using assms by (auto simp: utf8_encode_def high_surrogate_def)
  moreover have "utf8Bytes [c, 97] = utf8_encode 0xfffd @ [97]"
    using assms by (simp add: high_surrogate_def replacement_bytes)
  ultimately show ?thesis by auto
qed

theorem utf8Bytes_trailing_surrogate_witness:
  "high_surrogate 0xd800 \<and> utf8Bytes [0xd800] = utf8_encode 0xd800 \<and>
   utf8Bytes [0xd800] \<noteq> utf8_encode 0xfffd"
proof -
  have "high_surrogate 0xd800" by (simp add: high_surrogate_def)
  with utf8Bytes_trailing_surrogate [OF this] show ?thesis by blast
qed

end
