(* ===== verification/Kite_Approval.thy ===== *)
theory Kite_Approval
  imports Kite_Hash
begin

text \<open>
  src/packages/agent-kernel/src/approval-queue.ts: the identity a standing same-command grant is
  keyed by, the normal form of approval payloads, and the choice of the one approval that has the
  user's focus. Shown: the hashed grant text determines every field of the identity, the focus is
  the pending approval of least sequence number, and normalisation is idempotent and fails safe.
\<close>

section \<open>Definitions\<close>

definition requiredString :: "jval \<Rightarrow> string \<Rightarrow> string" where
  "requiredString v fallback =
     (case v of JStr s \<Rightarrow> if length s > 0 then s else fallback | _ \<Rightarrow> fallback)"

text \<open>\<open>Array.prototype.sort\<close> without a comparator orders strings by code units.\<close>

fun code_unit_le :: "string \<Rightarrow> string \<Rightarrow> bool" where
  "code_unit_le [] t = True"
| "code_unit_le (c # s) [] = False"
| "code_unit_le (c # s) (d # t) =
     ((of_char c :: nat) < of_char d \<or> c = d \<and> code_unit_le s t)"

fun stableJson :: "js_host \<Rightarrow> jval \<Rightarrow> string"
  and stable_elements :: "js_host \<Rightarrow> jval list \<Rightarrow> string list"
  and stable_members :: "js_host \<Rightarrow> (string \<times> jval) list \<Rightarrow> (string \<times> string) list" where
  "stableJson h (JArr vs) = ''['' @ join_with '','' (stable_elements h vs) @ '']''"
| "stableJson h (JObj o') =
     ''{'' @ join_with '',''
       (map (\<lambda>(key, item). json_string key @ '':'' @ item)
         (sort_by (\<lambda>a b. code_unit_le (fst a) (fst b)) (stable_members h o'))) @ ''}''"
| "stableJson h v = or_default (json_stringify h v) ''null''"
| "stable_elements h [] = []"
| "stable_elements h (v # vs) = stableJson h v # stable_elements h vs"
| "stable_members h [] = []"
| "stable_members h ((k, v) # o') = (k, stableJson h v) # stable_members h o'"

definition grant_subject :: "command_identity \<Rightarrow> jobj" where
  "grant_subject i = [
     (''sessionId'', JStr (id_sessionId i)),
     (''threadId'', JStr (id_threadId i)),
     (''workspace'', JStr (id_workspace i)),
     (''canonicalWorkspaceIdentity'', JStr (id_canonicalWorkspaceIdentity i)),
     (''cwd'', JStr (id_cwd i)),
     (''executor'', JStr (id_executor i)),
     (''environment'', JStr (id_environment i)),
     (''scope'', JStr (id_scope i)),
     (''effects'', JStr (id_effects i)),
     (''parserRevision'', JStr (id_parserRevision i)),
     (''executorRevision'', JStr (or_default (id_executorRevision i) [])),
     (''commandDigest'', JStr (id_commandDigest i))]"

definition grant_text :: "js_host \<Rightarrow> command_identity \<Rightarrow> string" where
  "grant_text h i = ''same_command:v2:'' @ stableJson h (JObj (grant_subject i))"

definition approvalCommandGrantKey :: "js_host \<Rightarrow> command_identity \<Rightarrow> string" where
  "approvalCommandGrantKey h i = sha256Hex (grant_text h i)"

definition digestCommand :: "string \<Rightarrow> string" where
  "digestCommand command = ''sha256:'' @ sha256Hex (js_trim command)"

definition commandIdentityFromApproval :: "js_host \<Rightarrow> agent_state \<Rightarrow> jobj \<Rightarrow> command_identity" where
  "commandIdentityFromApproval h s approval =
     (let session = st_session s;
          supplied = (case as_record (fld approval ''commandIdentity'') of
              Some r \<Rightarrow> JObj r
            | None \<Rightarrow> (if as_string (fld approval ''sessionId'') \<noteq> None then JObj approval else JUndef));
          expectedEffects = (case fld approval ''expectedEffects'' of
              JArr vs \<Rightarrow> join_with '','' (sort_by code_unit_le (map (js_String h) vs))
            | _ \<Rightarrow> js_String h (coalesce (fld approval ''effects'') (JStr ''unknown'')));
          digest = (case se_canonicalWorkspaceDigest session of None \<Rightarrow> JUndef | Some d \<Rightarrow> JStr d) in
      \<lparr>id_sessionId = requiredString (coalesce (vfld supplied ''sessionId'') (fld approval ''threadId''))
         (se_threadId session),
       id_threadId = requiredString (coalesce (vfld supplied ''threadId'') (fld approval ''threadId''))
         (se_threadId session),
       id_workspace = requiredString (vfld supplied ''workspace'') (se_workspace session),
       id_canonicalWorkspaceIdentity =
         requiredString (coalesce (vfld supplied ''canonicalWorkspaceIdentity'') digest)
           (se_workspace session),
       id_cwd = requiredString (coalesce (vfld supplied ''cwd'') (fld approval ''cwd''))
         (se_workspace session),
       id_executor = requiredString (coalesce (vfld supplied ''executor'') (fld approval ''tool''))
         ''unknown'',
       id_environment = requiredString (vfld supplied ''environment'') ''unknown'',
       id_scope = requiredString (coalesce (vfld supplied ''scope'') (fld approval ''scope'')) ''unknown'',
       id_effects = requiredString (coalesce (vfld supplied ''effects'') (JStr expectedEffects)) ''unknown'',
       id_parserRevision = requiredString (vfld supplied ''parserRevision'') ''unknown'',
       id_executorRevision = as_string (vfld supplied ''executorRevision''),
       id_commandDigest = requiredString (vfld supplied ''commandDigest'')
         (digestCommand (js_String h (coalesce (fld approval ''command'') (JStr []))))\<rparr>)"

fun pendingNeedsFocus :: "approval_status \<Rightarrow> bool" where
  "pendingNeedsFocus QueuedAuto = True"
| "pendingNeedsFocus AutoReviewing = True"
| "pendingNeedsFocus QueuedUser = True"
| "pendingNeedsFocus AwaitingUser = True"
| "pendingNeedsFocus Approving = True"
| "pendingNeedsFocus _ = False"

text \<open>The loop of \<open>chooseApprovalFocus\<close> with its variable \<open>selected\<close>.\<close>

fun select_focus :: "pending_approval option \<Rightarrow> pending_approval list \<Rightarrow> pending_approval option" where
  "select_focus selected [] = selected"
| "select_focus selected (pending # rest) =
     (if \<not> pendingNeedsFocus (pa_status pending) then select_focus selected rest
      else if (case selected of None \<Rightarrow> True | Some b \<Rightarrow> pa_sequence pending < pa_sequence b)
      then select_focus (Some pending) rest
      else select_focus selected rest)"

definition chooseApprovalFocus :: "(string \<times> pending_approval) list \<Rightarrow> string option" where
  "chooseApprovalFocus pendings = map_option pa_interactionId (select_focus None (obj_values pendings))"

definition focusedInteraction ::
  "(string \<times> pending_approval) list \<Rightarrow> string option \<Rightarrow> interaction" where
  "focusedInteraction pendings activeApprovalId =
     (case truthy_option activeApprovalId of None \<Rightarrow> Idle
      | Some i \<Rightarrow>
          (case map_of pendings i of None \<Rightarrow> Idle
           | Some pending \<Rightarrow>
               if \<not> pendingNeedsFocus (pa_status pending) then Idle
               else let approval = pa_approval pending in
                 if pa_route pending = RouteAuto
                 then AwaitingAutoReview (pa_interactionId pending) (pa_toolCallId pending)
                   (requiredString (coalesce (fld approval ''tool'') (fld approval ''toolName''))
                      ''shell_execute'')
                   (requiredString (fld approval ''reason'') ''auto-review'') approval
                 else AwaitingToolApproval (pa_interactionId pending) (pa_toolCallId pending) approval))"

text \<open>\<open>{ ...pending, ...extras, status }\<close>; the extras are given as the update they make.\<close>

definition pendingWithStatus ::
  "pending_approval \<Rightarrow> approval_status \<Rightarrow> (pending_approval \<Rightarrow> pending_approval) \<Rightarrow> pending_approval" where
  "pendingWithStatus pending status extras = (extras pending)\<lparr>pa_status := status\<rparr>"

definition eventRecord :: "jval \<Rightarrow> jobj" where
  "eventRecord v = or_default (as_record v) []"

definition approvalPayloadFromEvent :: "jval \<Rightarrow> jobj" where
  "approvalPayloadFromEvent e = or_default (as_record (vfld e ''approval'')) []"

definition stringOrUndefined :: "jval \<Rightarrow> string option" where
  "stringOrUndefined v = (case v of JStr s \<Rightarrow> if length s > 0 then Some s else None | _ \<Rightarrow> None)"

definition RISK_VALUES :: "string list" where
  "RISK_VALUES = [''read'', ''plan'', ''write_file'', ''execute_code'', ''destructive'', ''network'',
     ''vcs_mutation'', ''mcp'', ''unknown'']"

definition is_grant :: "jval \<Rightarrow> bool" where
  "is_grant v \<longleftrightarrow> v = JStr ''approve_once'' \<or> v = JStr ''same_command''"

definition normalizedGrants :: "jobj \<Rightarrow> jval list" where
  "normalizedGrants v =
     (let grantOptions = (case fld v ''grantOptions'' of JArr gs \<Rightarrow> filter is_grant gs | _ \<Rightarrow> []) in
      if length grantOptions > 0 then grantOptions else [JStr ''approve_once''])"

definition is_string :: "jval \<Rightarrow> bool" where
  "is_string v \<longleftrightarrow> as_string v \<noteq> None"

definition optional_entry :: "bool \<Rightarrow> string \<Rightarrow> jval \<Rightarrow> jobj" where
  "optional_entry present k v = (if present then [(k, v)] else [])"

definition normalizeApprovalPayload :: "jobj \<Rightarrow> jobj" where
  "normalizeApprovalPayload v =
     (let command = requiredString (fld v ''command'') [];
          grants = normalizedGrants v in
      [(''scope'', JStr ''once'')] @
      optional_entry (is_string (fld v ''callId'')) ''callId'' (fld v ''callId'') @
      [(''cwd'', JStr (requiredString (fld v ''cwd'') [])),
       (''threadId'', JStr (requiredString (fld v ''threadId'') [])),
       (''tool'', JStr (requiredString (coalesce (fld v ''tool'') (fld v ''toolName'')) ''shell_execute'')),
       (''command'', JStr command),
       (''risk'', if fld v ''risk'' \<in> JStr ` set RISK_VALUES then fld v ''risk'' else JStr ''unknown''),
       (''approvalHash'', JStr (requiredString (fld v ''approvalHash'') (digestCommand command))),
       (''summary'', JStr (requiredString (fld v ''summary'') command)),
       (''reason'', JStr (requiredString (fld v ''reason'') ''approval required'')),
       (''expectedEffects'', JArr (case fld v ''expectedEffects'' of
            JArr es \<Rightarrow> filter is_string es | _ \<Rightarrow> [])),
       (''grantOptions'', JArr grants),
       (''recommendedGrant'',
          if fld v ''recommendedGrant'' \<in> set grants then fld v ''recommendedGrant''
          else JStr ''approve_once'')] @
      optional_entry (fld v ''plan'' \<noteq> JUndef) ''plan'' (fld v ''plan'') @
      optional_entry (is_string (fld v ''subagentId'')) ''subagentId'' (fld v ''subagentId'') @
      optional_entry (is_string (fld v ''reviewFailure'')) ''reviewFailure'' (fld v ''reviewFailure''))"

section \<open>The focused approval\<close>

lemma select_focus_spec:
  assumes "select_focus sel ps = Some p"
  shows "(sel = Some p \<or> p \<in> set ps \<and> pendingNeedsFocus (pa_status p)) \<and>
    (\<forall>q \<in> set ps. pendingNeedsFocus (pa_status q) \<longrightarrow> pa_sequence p \<le> pa_sequence q) \<and>
    (\<forall>b. sel = Some b \<longrightarrow> pa_sequence p \<le> pa_sequence b)"
  using assms
  by (induction ps arbitrary: sel) (fastforce split: if_splits option.splits)+

lemma select_focus_None:
  "select_focus sel ps = None \<longleftrightarrow> sel = None \<and> (\<forall>q \<in> set ps. \<not> pendingNeedsFocus (pa_status q))"
  by (induction ps arbitrary: sel) (auto split: if_splits option.splits)

text \<open>
  First come, first served. The approval given focus is one that is still waiting for a
  decision and has the least queue sequence number of all that are; no approval is focused only
  when none is waiting. A state with a focused pending approval that is keyed by its own
  interaction id therefore never shows the idle interaction.
\<close>

theorem chooseApprovalFocus_least:
  assumes "\<forall>(k, p) \<in> set pendings. pa_interactionId p = k \<and> k \<noteq> []" and "distinct_keys pendings"
  shows "case chooseApprovalFocus pendings of
      None \<Rightarrow> (\<forall>q \<in> set (obj_values pendings). \<not> pendingNeedsFocus (pa_status q))
    | Some i \<Rightarrow> (\<exists>p. map_of pendings i = Some p \<and> pendingNeedsFocus (pa_status p) \<and>
        (\<forall>q \<in> set (obj_values pendings). pendingNeedsFocus (pa_status q) \<longrightarrow>
           pa_sequence p \<le> pa_sequence q) \<and>
        focusedInteraction pendings (Some i) \<noteq> Idle)"
proof (cases "select_focus None (obj_values pendings)")
  case None
  then have "chooseApprovalFocus pendings = None" by (simp add: chooseApprovalFocus_def)
  then show ?thesis using iffD1 [OF select_focus_None None] by simp
next
  case (Some p)
  note spec = select_focus_spec [OF Some]
  then obtain k where k: "(k, p) \<in> set pendings" by (auto simp: obj_values_def)
  then have "pa_interactionId p = k" "k \<noteq> []" using assms(1) by auto
  moreover have "map_of pendings k = Some p"
    using k assms(2) by (simp add: distinct_keys_map_of)
  ultimately show ?thesis
    using spec Some
    by (simp add: chooseApprovalFocus_def focusedInteraction_def truthy_option_def Let_def)
qed

definition sample_pending :: "string \<Rightarrow> int \<Rightarrow> approval_status \<Rightarrow> pending_approval" where
  "sample_pending i n st = \<lparr>pa_interactionId = i, pa_toolCallId = ''call'', pa_parentToolCallId = None,
     pa_childSubagentId = None, pa_childToolCallId = None, pa_runtimeToolCallId = None,
     pa_route = RouteUser, pa_fullModeBypassEligible = False, pa_fullModePolicyBypassAllowed = False,
     pa_bindingDigest = [], pa_approval = [], pa_invocation = [], pa_commandIdentity = None,
     pa_commandKey = None, pa_approvalHash = None, pa_sequence = n, pa_generation = 0,
     pa_createdAt = [], pa_status = st, pa_receiptId = None, pa_authorizationSource = None,
     pa_dispatchState = None\<rparr>"

definition sample_pendings :: "(string \<times> pending_approval) list" where
  "sample_pendings = [(''a'', sample_pending ''a'' 1 ASucceeded), (''b'', sample_pending ''b'' 3 QueuedUser),
     (''c'', sample_pending ''c'' 2 QueuedAuto)]"

theorem chooseApprovalFocus_least_witness:
  "chooseApprovalFocus sample_pendings = Some ''c'' \<and>
   (\<exists>p. map_of sample_pendings ''c'' = Some p \<and>
      (\<forall>q \<in> set (obj_values sample_pendings). pendingNeedsFocus (pa_status q) \<longrightarrow>
         pa_sequence p \<le> pa_sequence q))"
proof -
  have "chooseApprovalFocus sample_pendings = Some ''c''"
    by (simp add: chooseApprovalFocus_def sample_pendings_def sample_pending_def)
  moreover have "\<forall>(k, p) \<in> set sample_pendings. pa_interactionId p = k \<and> k \<noteq> []"
    "distinct_keys sample_pendings"
    by (simp_all add: sample_pendings_def sample_pending_def distinct_keys_def)
  ultimately show ?thesis using chooseApprovalFocus_least [of sample_pendings] by auto
qed

section \<open>What a grant key binds\<close>

text \<open>The quoted form of a string is a prefix code, so quoted fields can be read back in turn.\<close>

definition quote_char :: char where
  "quote_char = CHR 0x22"

definition backslash :: char where
  "backslash = CHR 0x5C"

lemma char_codes:
  "char_of (34 :: nat) = quote_char" "char_of (92 :: nat) = backslash"
  "char_of (8 :: nat) = CHR 0x08" "char_of (9 :: nat) = CHR 0x09" "char_of (10 :: nat) = CHR 0x0A"
  "char_of (12 :: nat) = CHR 0x0C" "char_of (13 :: nat) = CHR 0x0D"
  by code_simp+

definition short_escapes :: "(char \<times> char) set" where
  "short_escapes = {(quote_char, quote_char), (backslash, backslash), (CHR 0x08, CHR ''b''),
     (CHR 0x09, CHR ''t''), (CHR 0x0A, CHR ''n''), (CHR 0x0C, CHR ''f''), (CHR 0x0D, CHR ''r'')}"

definition escaped :: "nat \<Rightarrow> char option" where
  "escaped n = map_of [(34, quote_char), (92, backslash), (8, CHR ''b''), (9, CHR ''t''),
     (10, CHR ''n''), (12, CHR ''f''), (13, CHR ''r'')] n"

lemma json_char_escaped: "escaped (of_char c) = Some e \<Longrightarrow> json_char c = [backslash, e]"
proof -
  assume e: "escaped (of_char c) = Some e"
  have c: "c = char_of (of_char c :: nat)" by simp
  from e show ?thesis
    unfolding escaped_def json_char_def Let_def
    by (auto simp: char_codes split: if_splits) (metis c char_codes)+
qed

lemma json_char_cases:
  fixes c :: char
  defines "n \<equiv> of_char c :: nat"
  obtains (plain) "json_char c = [c]" "c \<noteq> backslash" "c \<noteq> quote_char"
  | (short) e where "json_char c = [backslash, e]" "(c, e) \<in> short_escapes"
  | (long) "json_char c = [backslash, CHR ''u'', CHR ''0'', CHR ''0'', hex_digit (n div 16), hex_digit n]"
      "n < 32"
proof -
  have c: "c = char_of n" by (simp add: n_def)
  consider "n = 34" | "n = 92" | "n = 8" | "n = 9" | "n = 10" | "n = 12" | "n = 13"
    | "n < 32" "n \<notin> {8, 9, 10, 12, 13}" | "n \<ge> 32" "n \<noteq> 34" "n \<noteq> 92"
    by fastforce
  moreover have esc: thesis if "escaped n = Some e" "(c, e) \<in> short_escapes" for e
    using that short [of e] by (simp add: json_char_escaped n_def)
  ultimately show thesis
  proof cases
    case 9
    moreover have "c \<noteq> backslash" "c \<noteq> quote_char"
      using 9 by (auto simp: n_def char_codes [symmetric])
    ultimately show thesis by (intro plain) (simp_all add: json_char_def n_def [symmetric] Let_def)
  next
    case 8
    then show thesis by (intro long) (simp_all add: json_char_def n_def [symmetric] Let_def char_codes)
  next
    case 1
    then have "c = quote_char" using c by (simp add: char_codes)
    with 1 show thesis by (intro esc [of "quote_char"]) (simp_all add: escaped_def short_escapes_def)
  next
    case 2
    then have "c = backslash" using c by (simp add: char_codes)
    with 2 show thesis by (intro esc [of "backslash"]) (simp_all add: escaped_def short_escapes_def)
  next
    case 3
    then have "c = CHR 0x08" using c by (simp add: char_codes)
    with 3 show thesis by (intro esc [of "CHR ''b''"]) (simp_all add: escaped_def short_escapes_def)
  next
    case 4
    then have "c = CHR 0x09" using c by (simp add: char_codes)
    with 4 show thesis by (intro esc [of "CHR ''t''"]) (simp_all add: escaped_def short_escapes_def)
  next
    case 5
    then have "c = CHR 0x0A" using c by (simp add: char_codes)
    with 5 show thesis by (intro esc [of "CHR ''n''"]) (simp_all add: escaped_def short_escapes_def)
  next
    case 6
    then have "c = CHR 0x0C" using c by (simp add: char_codes)
    with 6 show thesis by (intro esc [of "CHR ''f''"]) (simp_all add: escaped_def short_escapes_def)
  next
    case 7
    then have "c = CHR 0x0D" using c by (simp add: char_codes)
    with 7 show thesis by (intro esc [of "CHR ''r''"]) (simp_all add: escaped_def short_escapes_def)
  qed
qed

lemma hex_digit_inj: "hex_digit m = hex_digit n \<Longrightarrow> m mod 16 = n mod 16"
proof -
  assume "hex_digit m = hex_digit n"
  moreover have "distinct ''0123456789abcdef''" by simp
  ultimately show ?thesis
    unfolding hex_digit_def by (subst (asm) nth_eq_iff_index_eq) simp_all
qed

lemma json_char_prefix:
  assumes "json_char c @ x = json_char d @ y"
  shows "c = d \<and> x = y"
proof (cases c rule: json_char_cases)
  case plain
  with assms show ?thesis by (cases d rule: json_char_cases) auto
next
  case c: (short e)
  show ?thesis
  proof (cases d rule: json_char_cases)
    case plain
    with c assms show ?thesis by auto
  next
    case (short e')
    with c(1) assms have "e' = e" "x = y" by simp_all
    moreover have "c = d" using c(2) short(2) \<open>e' = e\<close> by (auto simp: quote_char_def backslash_def short_escapes_def)
    ultimately show ?thesis by simp
  next
    case long
    with c assms show ?thesis by (auto simp: quote_char_def backslash_def short_escapes_def)
  qed
next
  case c: long
  show ?thesis
  proof (cases d rule: json_char_cases)
    case plain
    with c assms show ?thesis by auto
  next
    case (short e')
    with c assms show ?thesis by (auto simp: quote_char_def backslash_def short_escapes_def)
  next
    case long
    let ?n = "of_char c :: nat" and ?m = "of_char d :: nat"
    have "?n div 16 mod 16 = ?m div 16 mod 16" "?n mod 16 = ?m mod 16" "x = y"
      using c(1) long(1) assms by (auto dest: hex_digit_inj)
    moreover have "?n div 16 < 16" "?m div 16 < 16" using c(2) long(2) by auto
    ultimately have "?n div 16 = ?m div 16" "?n mod 16 = ?m mod 16" "x = y" by simp_all
    then have "?n = ?m" "x = y" by (metis div_mult_mod_eq)+
    then show ?thesis by simp
  qed
qed

lemma json_char_not_quote:
  "json_char c \<noteq> []" "json_char c \<noteq> quote_char # xs" "quote_char # xs \<noteq> json_char c"
  by (cases c rule: json_char_cases; auto simp: backslash_def quote_char_def)+

lemma json_chars_prefix:
  "concat (map json_char s) @ quote_char # x = concat (map json_char t) @ quote_char # y \<Longrightarrow>
   s = t \<and> x = y"
proof (induction s arbitrary: t)
  case Nil
  then show ?case
    using json_char_not_quote by (cases t) (auto simp: Cons_eq_append_conv)
next
  case (Cons c s)
  then obtain d t' where t: "t = d # t'"
    using json_char_not_quote by (cases t) (auto simp: append_eq_Cons_conv)
  with Cons.prems have "c = d \<and> concat (map json_char s) @ quote_char # x =
      concat (map json_char t') @ quote_char # y"
    by (intro json_char_prefix) simp
  with Cons.IH [of t'] t show ?case by simp
qed

lemma json_string_prefix: "json_string s @ x = json_string t @ y \<longleftrightarrow> s = t \<and> x = y"
proof -
  have "json_string s @ x = quote_char # concat (map json_char s) @ quote_char # x" for s x
    by (simp add: json_string_def char_codes)
  then show ?thesis using json_chars_prefix [of s x t y] by auto
qed

lemma json_string_inj: "json_string s = json_string t \<longleftrightarrow> s = t"
  using json_string_prefix [of s "[]" t "[]"] by simp

text \<open>The subject text with its keys in code-unit order.\<close>

lemma stableJson_subject:
  "stableJson h (JObj (grant_subject i)) =
     ''{'' @ json_string ''canonicalWorkspaceIdentity'' @ '':'' @ json_string (id_canonicalWorkspaceIdentity i) @ '','' @
     json_string ''commandDigest'' @ '':'' @ json_string (id_commandDigest i) @ '','' @
     json_string ''cwd'' @ '':'' @ json_string (id_cwd i) @ '','' @
     json_string ''effects'' @ '':'' @ json_string (id_effects i) @ '','' @
     json_string ''environment'' @ '':'' @ json_string (id_environment i) @ '','' @
     json_string ''executor'' @ '':'' @ json_string (id_executor i) @ '','' @
     json_string ''executorRevision'' @ '':'' @ json_string (or_default (id_executorRevision i) []) @ '','' @
     json_string ''parserRevision'' @ '':'' @ json_string (id_parserRevision i) @ '','' @
     json_string ''scope'' @ '':'' @ json_string (id_scope i) @ '','' @
     json_string ''sessionId'' @ '':'' @ json_string (id_sessionId i) @ '','' @
     json_string ''threadId'' @ '':'' @ json_string (id_threadId i) @ '','' @
     json_string ''workspace'' @ '':'' @ json_string (id_workspace i) @ ''}''"
  by (simp add: grant_subject_def)

text \<open>
  C38: a same-command grant binds its whole subject. The text that is hashed into a grant key is
  the same for two commands only when session, thread, workspace, canonical workspace, working
  directory, executor, environment, scope, effects, parser revision, executor revision and
  command digest all agree (an absent executor revision counting as the empty one), whatever
  quotes, commas or braces the fields contain. A key granted for one command can thus cover
  another only through a SHA-256 collision.
\<close>

theorem grant_text_binds_identity:
  "grant_text h i = grant_text h j \<longleftrightarrow>
     i\<lparr>id_executorRevision := Some (or_default (id_executorRevision i) [])\<rparr> =
     j\<lparr>id_executorRevision := Some (or_default (id_executorRevision j) [])\<rparr>"
  unfolding grant_text_def stableJson_subject
  by (cases i, cases j) (auto simp: json_string_prefix json_string_inj)

section \<open>Normalised payloads\<close>

lemma requiredString_simps [simp]:
  "requiredString JUndef d = d" "requiredString (JStr (requiredString v [])) d = requiredString v d"
  "requiredString (JStr (requiredString v d)) d = requiredString v d"
  "d \<noteq> [] \<Longrightarrow> requiredString v d \<noteq> []"
  by (auto simp: requiredString_def split: jval.splits)

lemma fld_optional [simp]:
  "fld (optional_entry p k v) f = (if p \<and> f = k then v else JUndef)"
  "set (obj_keys (optional_entry p k v)) = (if p then {k} else {})"
  by (simp_all add: optional_entry_def)

lemma digestCommand_nonempty [simp]: "digestCommand c \<noteq> []"
  by (simp add: digestCommand_def)

lemma requiredString_nonempty:
  "s \<noteq> [] \<Longrightarrow> requiredString (JStr s) d = s"
  by (simp add: requiredString_def)

lemma normalizedGrants_valid:
  "normalizedGrants v \<noteq> [] \<and> (\<forall>g \<in> set (normalizedGrants v). is_grant g)"
  by (auto simp: normalizedGrants_def Let_def is_grant_def split: jval.splits)

lemma normalize_fields:
  "fld (normalizeApprovalPayload v) ''scope'' = JStr ''once''"
  "fld (normalizeApprovalPayload v) ''callId'' =
     (if is_string (fld v ''callId'') then fld v ''callId'' else JUndef)"
  "fld (normalizeApprovalPayload v) ''cwd'' = JStr (requiredString (fld v ''cwd'') [])"
  "fld (normalizeApprovalPayload v) ''threadId'' = JStr (requiredString (fld v ''threadId'') [])"
  "fld (normalizeApprovalPayload v) ''tool'' =
     JStr (requiredString (coalesce (fld v ''tool'') (fld v ''toolName'')) ''shell_execute'')"
  "fld (normalizeApprovalPayload v) ''command'' = JStr (requiredString (fld v ''command'') [])"
  "fld (normalizeApprovalPayload v) ''risk'' =
     (if fld v ''risk'' \<in> JStr ` set RISK_VALUES then fld v ''risk'' else JStr ''unknown'')"
  "fld (normalizeApprovalPayload v) ''approvalHash'' =
     JStr (requiredString (fld v ''approvalHash'') (digestCommand (requiredString (fld v ''command'') [])))"
  "fld (normalizeApprovalPayload v) ''summary'' =
     JStr (requiredString (fld v ''summary'') (requiredString (fld v ''command'') []))"
  "fld (normalizeApprovalPayload v) ''reason'' =
     JStr (requiredString (fld v ''reason'') ''approval required'')"
  "fld (normalizeApprovalPayload v) ''expectedEffects'' =
     JArr (case fld v ''expectedEffects'' of JArr es \<Rightarrow> filter is_string es | _ \<Rightarrow> [])"
  "fld (normalizeApprovalPayload v) ''grantOptions'' = JArr (normalizedGrants v)"
  "fld (normalizeApprovalPayload v) ''recommendedGrant'' =
     (if fld v ''recommendedGrant'' \<in> set (normalizedGrants v) then fld v ''recommendedGrant''
      else JStr ''approve_once'')"
  "fld (normalizeApprovalPayload v) ''plan'' = fld v ''plan''"
  "fld (normalizeApprovalPayload v) ''subagentId'' =
     (if is_string (fld v ''subagentId'') then fld v ''subagentId'' else JUndef)"
  "fld (normalizeApprovalPayload v) ''reviewFailure'' =
     (if is_string (fld v ''reviewFailure'') then fld v ''reviewFailure'' else JUndef)"
  unfolding normalizeApprovalPayload_def Let_def
  by (simp_all add: fld_append)

lemma is_string_simps [simp]: "is_string (JStr s)" "\<not> is_string JUndef"
  by (simp_all add: is_string_def)

lemma normalizedGrants_idem: "normalizedGrants (normalizeApprovalPayload v) = normalizedGrants v"
proof -
  have "filter is_grant (normalizedGrants v) = normalizedGrants v"
    using normalizedGrants_valid by (simp add: filter_id_conv)
  then show ?thesis
    using normalizedGrants_valid [of v]
    by (simp add: normalizedGrants_def [of "normalizeApprovalPayload v"] normalize_fields)
qed

lemma nested_required:
  "requiredString (JStr (requiredString a (requiredString b []))) (requiredString b []) =
   requiredString a (requiredString b [])"
  by (auto simp: requiredString_def split: jval.splits)

lemma approve_once_recommended:
  "(if (if g \<in> S then g else d) \<in> S then (if g \<in> S then g else d) else d) = (if g \<in> S then g else d)"
  by simp

lemma known_risk: "JStr ''unknown'' \<in> JStr ` set RISK_VALUES"
  by (simp add: RISK_VALUES_def)

text \<open>
  normalising an approval payload is idempotent and fails safe. A second normalisation
  changes nothing; the scope of a normalised payload is a single use, its risk one of the known
  classes, its hash, tool and reason are non-empty, and the grants it offers are non-empty and
  only the two grants a user can give, whatever the payload proposed.
\<close>

theorem normalizeApprovalPayload_idempotent:
  "normalizeApprovalPayload (normalizeApprovalPayload v) = normalizeApprovalPayload v \<and>
   fld (normalizeApprovalPayload v) ''scope'' = JStr ''once'' \<and>
   fld (normalizeApprovalPayload v) ''risk'' \<in> JStr ` set RISK_VALUES \<and>
   (\<exists>hash tool reason. fld (normalizeApprovalPayload v) ''approvalHash'' = JStr hash \<and> hash \<noteq> [] \<and>
      fld (normalizeApprovalPayload v) ''tool'' = JStr tool \<and> tool \<noteq> [] \<and>
      fld (normalizeApprovalPayload v) ''reason'' = JStr reason \<and> reason \<noteq> []) \<and>
   (\<exists>gs. fld (normalizeApprovalPayload v) ''grantOptions'' = JArr gs \<and> gs \<noteq> [] \<and>
      set gs \<subseteq> {JStr ''approve_once'', JStr ''same_command''})"
proof -
  let ?n = "normalizeApprovalPayload v"
  have "normalizeApprovalPayload ?n = ?n"
    unfolding normalizeApprovalPayload_def [of ?n] normalize_fields normalizedGrants_idem
      approve_once_recommended
    using known_risk unfolding normalizeApprovalPayload_def Let_def
    by (simp add: nested_required coalesce_def requiredString_nonempty optional_entry_def
        split: jval.split)
  moreover have "fld ?n ''risk'' \<in> JStr ` set RISK_VALUES"
    using known_risk by (simp add: normalize_fields)
  ultimately show ?thesis
    using normalizedGrants_valid [of v] by (auto simp: normalize_fields is_grant_def)
qed

end
