(* ===== verification/Kite_Review.thy ===== *)
theory Kite_Review
  imports Kite_Approval
begin

text \<open>
  The deterministic policies that guard tool execution:
  src/packages/agent-kernel/src/auto-review.ts (whether the facts of an automatic review authorise
  an operation, and the circuit breaker over rejections), doom-loop.ts (the repeat detector) and
  verification-policy.ts (the effective verification mode).
\<close>

section \<open>Auto-review\<close>

datatype review_decision =
    AcceptedApproval string string string "string option"
  | ReviewRejected string string string
  | RequestUserApproval "string option" "string option" string "string option"

record breaker_config =
  cb_maxRejections :: int
  cb_windowMs :: rat
  cb_maxTotalBlocks :: int

definition DEFAULT_CIRCUIT_BREAKER_CONFIG :: breaker_config where
  "DEFAULT_CIRCUIT_BREAKER_CONFIG =
     \<lparr>cb_maxRejections = 3, cb_windowMs = 30000, cb_maxTotalBlocks = 20\<rparr>"

record breaker_result =
  br_tripped :: bool
  br_reason :: "string option"
  br_newConsecutiveRejects :: int
  br_newRejectionHistory :: "rejection_entry list"
  br_open :: bool

definition evaluateAutoReviewCircuitBreaker ::
  "js_host \<Rightarrow> int \<Rightarrow> rejection_entry list \<Rightarrow> breaker_config \<Rightarrow> bool \<Rightarrow> rejection_entry option \<Rightarrow>
   rat option \<Rightarrow> breaker_result" where
  "evaluateAutoReviewCircuitBreaker h consecutiveRejects rejectionHistory config isRejection
     rejectionEntry observedAt =
     (let now = or_default observedAt (or_default (map_option re_timestamp rejectionEntry) 0);
          windowStart = now - cb_windowMs config;
          pruned = filter (\<lambda>entry. re_timestamp entry \<ge> windowStart) rejectionHistory in
      if \<not> isRejection
      then \<lparr>br_tripped = False, br_reason = None, br_newConsecutiveRejects = 0,
        br_newRejectionHistory = pruned, br_open = False\<rparr>
      else let newConsecutiveRejects = consecutiveRejects + 1;
               newRejectionHistory = (case rejectionEntry of None \<Rightarrow> pruned | Some e \<Rightarrow> pruned @ [e]) in
        if newConsecutiveRejects \<ge> cb_maxRejections config
        then \<lparr>br_tripped = True,
          br_reason = Some (''Circuit breaker tripped: '' @ int_string newConsecutiveRejects @
            '' consecutive rejections (threshold: '' @ int_string (cb_maxRejections config) @ '')''),
          br_newConsecutiveRejects = newConsecutiveRejects,
          br_newRejectionHistory = newRejectionHistory, br_open = True\<rparr>
        else if int (length newRejectionHistory) \<ge> cb_maxTotalBlocks config
        then \<lparr>br_tripped = True,
          br_reason = Some (''Circuit breaker tripped: '' @ int_string (int (length newRejectionHistory)) @
            '' rejections within '' @ num_string h (cb_windowMs config) @ ''ms (limit: '' @
            int_string (cb_maxTotalBlocks config) @ '')''),
          br_newConsecutiveRejects = newConsecutiveRejects,
          br_newRejectionHistory = newRejectionHistory, br_open = True\<rparr>
        else \<lparr>br_tripped = False, br_reason = None,
          br_newConsecutiveRejects = newConsecutiveRejects,
          br_newRejectionHistory = newRejectionHistory, br_open = False\<rparr>)"

definition MAX_IDENTITY_LENGTH :: nat where "MAX_IDENTITY_LENGTH = 256"
definition MAX_REASON_LENGTH :: nat where "MAX_REASON_LENGTH = 4096"

definition INVALID_FACTS_REASON :: string where
  "INVALID_FACTS_REASON = ''Auto-review facts are malformed; user approval is required.''"

definition REVIEWER_FAILURE_REASON :: string where
  "REVIEWER_FAILURE_REASON = ''Auto-review could not produce a valid reviewer decision.''"

definition REVIEWER_REJECTION_REASON :: string where
  "REVIEWER_REJECTION_REASON = ''Auto-review did not approve this operation.''"

text \<open>JSON data has neither accessors, symbols nor foreign prototypes.\<close>

definition plainRecord :: "jval \<Rightarrow> bool" where
  "plainRecord v = isRecord v"

definition boundedString :: "jval \<Rightarrow> nat \<Rightarrow> bool" where
  "boundedString v maximum = (case v of JStr s \<Rightarrow> length s > 0 \<and> length s \<le> maximum | _ \<Rightarrow> False)"

definition exactKeys :: "jobj \<Rightarrow> string list \<Rightarrow> string list \<Rightarrow> bool" where
  "exactKeys v req opt \<longleftrightarrow>
     list_all (\<lambda>key. key \<in> set (obj_keys v)) req \<and>
     list_all (\<lambda>key. key \<in> set (req @ opt)) (obj_keys v)"

definition validFacts :: "jval \<Rightarrow> bool" where
  "validFacts value \<longleftrightarrow>
     plainRecord value \<and>
     exactKeys (or_default (as_record value) [])
       [''reviewId'', ''toolCallId'', ''ok'', ''approved'']
       [''grant'', ''reason'', ''failureType'', ''requiresUserApproval''] \<and>
     boundedString (vfld value ''reviewId'') MAX_IDENTITY_LENGTH \<and>
     boundedString (vfld value ''toolCallId'') MAX_IDENTITY_LENGTH \<and>
     (case vfld value ''ok'' of JBool b \<Rightarrow> True | _ \<Rightarrow> False) \<and>
     (case vfld value ''approved'' of JBool b \<Rightarrow> True | _ \<Rightarrow> False) \<and>
     (vfld value ''requiresUserApproval'' = JUndef \<or> vfld value ''requiresUserApproval'' = JBool True) \<and>
     \<not> (vfld value ''approved'' = JBool True \<and> vfld value ''requiresUserApproval'' = JBool True) \<and>
     (vfld value ''grant'' = JUndef \<or> vfld value ''grant'' = JStr ''approve_once'') \<and>
     (vfld value ''reason'' = JUndef \<or> boundedString (vfld value ''reason'') MAX_REASON_LENGTH) \<and>
     (vfld value ''failureType'' = JUndef \<or> vfld value ''failureType'' = JStr ''technical'' \<or>
      vfld value ''failureType'' = JStr ''invalid_response'')"

definition safeIdentity :: "jval \<Rightarrow> string option" where
  "safeIdentity v = (if boundedString v MAX_IDENTITY_LENGTH then as_string v else None)"

definition requestUserApproval :: "jval \<Rightarrow> string \<Rightarrow> string option \<Rightarrow> review_decision" where
  "requestUserApproval input reason failureType =
     RequestUserApproval (safeIdentity (vfld input ''reviewId''))
       (safeIdentity (vfld input ''toolCallId'')) reason failureType"

definition decideAutoReview :: "jval \<Rightarrow> review_decision" where
  "decideAutoReview value =
     (let text = (\<lambda>f. or_default (as_string (vfld value f)) []);
          reason = (\<lambda>d. or_default (as_string (vfld value ''reason'')) d) in
      if \<not> validFacts value
      then requestUserApproval (if plainRecord value then value else JUndef)
        INVALID_FACTS_REASON (Some ''invalid_response'')
      else if vfld value ''ok'' \<noteq> JBool True
      then requestUserApproval value (reason REVIEWER_FAILURE_REASON)
        (Some (or_default (as_string (vfld value ''failureType'')) ''technical''))
      else if vfld value ''failureType'' \<noteq> JUndef
      then requestUserApproval value
        (reason ''Auto-review result carried contradictory failure facts.'') (Some ''invalid_response'')
      else if vfld value ''approved'' \<noteq> JBool True
      then (if vfld value ''requiresUserApproval'' = JBool True
            then requestUserApproval value (reason ''Auto-review requested user approval.'') None
            else ReviewRejected (text ''reviewId'') (text ''toolCallId'') (reason REVIEWER_REJECTION_REASON))
      else if vfld value ''grant'' \<noteq> JStr ''approve_once''
      then requestUserApproval value
        ''Auto-review can only issue approve_once; user approval is required for another grant.''
        (Some ''invalid_response'')
      else AcceptedApproval (text ''reviewId'') (text ''toolCallId'') ''approve_once''
        (truthy_option (as_string (vfld value ''reason''))))"

section \<open>Doom loops\<close>

fun stableStringify :: "js_host \<Rightarrow> jval \<Rightarrow> string"
  and stringify_elements :: "js_host \<Rightarrow> jval list \<Rightarrow> string list"
  and stringify_entries :: "js_host \<Rightarrow> (string \<times> jval) list \<Rightarrow> (string \<times> string) list" where
  "stableStringify h (JArr vs) = ''['' @ join_with '','' (stringify_elements h vs) @ '']''"
| "stableStringify h (JObj o') =
     ''{'' @ join_with '',''
       (map (\<lambda>(key, item). json_string key @ '':'' @ item)
         (sort_by (\<lambda>a b. locale_le h (fst a) (fst b)) (stringify_entries h o'))) @ ''}''"
| "stableStringify h v = or_default (json_stringify h v) ''undefined''"
| "stringify_elements h [] = []"
| "stringify_elements h (v # vs) = stableStringify h v # stringify_elements h vs"
| "stringify_entries h [] = []"
| "stringify_entries h ((k, v) # o') = (k, stableStringify h v) # stringify_entries h o'"

definition kernelToolDoomLoopFingerprint :: "js_host \<Rightarrow> string \<Rightarrow> jval \<Rightarrow> string" where
  "kernelToolDoomLoopFingerprint h name args =
     (let record' = or_default (as_record args) [];
          identityArgs =
            (if name = ''shell_execute''
             then JObj [(''command'', fld record' ''command''), (''cwd'', fld record' ''cwd'')]
             else if name = ''write_file'' \<or> name = ''edit_file''
             then JObj [(''path'', fld record' ''path'')]
             else args) in
      sha256Hex (stableStringify h (JObj [(''tool'', JStr name), (''args'', identityArgs)])))"

record doom_check =
  dc_blocked :: bool
  dc_reason :: "string option"
  dc_fingerprint :: string
  dc_count :: int

definition kernelCheckDoomLoopFingerprint ::
  "js_host \<Rightarrow> doom_entry jsobj \<Rightarrow> string \<Rightarrow> int \<Rightarrow> rat \<Rightarrow> rat \<Rightarrow> doom_check" where
  "kernelCheckDoomLoopFingerprint h tracker fingerprint threshold windowMs observedAt =
     (case obj_get tracker fingerprint of
        Some entry \<Rightarrow>
          (let elapsed = observedAt - dl_lastSeenAt entry in
           if elapsed \<ge> 0 \<and> elapsed \<le> windowMs
           then (if dl_count entry \<ge> threshold
                 then \<lparr>dc_blocked = True,
                   dc_reason = Some (''Doom loop detected: same private call repeated '' @
                     int_string (dl_count entry) @ '' times within '' @ num_string h windowMs @ ''ms.''),
                   dc_fingerprint = fingerprint, dc_count = dl_count entry\<rparr>
                 else \<lparr>dc_blocked = False, dc_reason = None, dc_fingerprint = fingerprint,
                   dc_count = dl_count entry\<rparr>)
           else \<lparr>dc_blocked = False, dc_reason = None, dc_fingerprint = fingerprint, dc_count = 0\<rparr>)
      | None \<Rightarrow> \<lparr>dc_blocked = False, dc_reason = None, dc_fingerprint = fingerprint, dc_count = 0\<rparr>)"

definition kernelUpdateDoomLoopTracker ::
  "doom_entry jsobj \<Rightarrow> string \<Rightarrow> rat \<Rightarrow> rat \<Rightarrow> doom_entry jsobj" where
  "kernelUpdateDoomLoopTracker tracker fingerprint observedAt windowMs =
     (let next = filter (\<lambda>(key, entry). \<not> observedAt - dl_lastSeenAt entry > 120000) tracker;
          count = (case obj_get next fingerprint of
              Some existing \<Rightarrow>
                (let elapsed = observedAt - dl_lastSeenAt existing in
                 if elapsed \<ge> 0 \<and> elapsed \<le> windowMs then dl_count existing + 1 else 1)
            | None \<Rightarrow> 1) in
      obj_set fingerprint \<lparr>dl_count = count, dl_lastSeenAt = observedAt\<rparr> next)"

section \<open>Verification mode\<close>

datatype effect_level = EffectNone | EffectRead | EffectWrite | EffectDestructive | EffectUnknownLevel

record verification_effects =
  ve_filesystem :: effect_level
  ve_network :: effect_level
  ve_externalState :: effect_level

record verification_facts =
  vf_baseline :: "verification_mode option"
  vf_capabilityEffects :: "verification_effects option"
  vf_skillMode :: "verification_mode option"
  vf_userMode :: "verification_mode option"

fun VERIFICATION_STRENGTH :: "verification_mode \<Rightarrow> nat" where
  "VERIFICATION_STRENGTH NotRequired = 0"
| "VERIFICATION_STRENGTH BestEffort = 1"
| "VERIFICATION_STRENGTH Required = 2"

definition kernelEffectsRequireVerification :: "verification_effects \<Rightarrow> bool" where
  "kernelEffectsRequireVerification effects \<longleftrightarrow>
     list_ex (\<lambda>effect. effect = EffectWrite \<or> effect = EffectDestructive \<or> effect = EffectUnknownLevel)
       [ve_filesystem effects, ve_network effects, ve_externalState effects]"

definition verification_sources :: "verification_facts \<Rightarrow> verification_mode list" where
  "verification_sources facts =
     [or_default (vf_baseline facts) NotRequired] @
     (case vf_skillMode facts of None \<Rightarrow> [] | Some m \<Rightarrow> [m]) @
     (case vf_userMode facts of None \<Rightarrow> [] | Some m \<Rightarrow> [m]) @
     (case vf_capabilityEffects facts of None \<Rightarrow> []
      | Some e \<Rightarrow> if kernelEffectsRequireVerification e then [Required] else [])"

definition resolveKernelVerificationMode :: "verification_facts \<Rightarrow> verification_mode" where
  "resolveKernelVerificationMode facts =
     (case verification_sources facts of [] \<Rightarrow> NotRequired
      | m # ms \<Rightarrow> foldl (\<lambda>strongest mode.
          if VERIFICATION_STRENGTH mode > VERIFICATION_STRENGTH strongest then mode else strongest) m ms)"

section \<open>Properties\<close>

lemma decideAutoReview_accepts_iff:
  "(\<exists>r c g m. decideAutoReview v = AcceptedApproval r c g m) \<longleftrightarrow>
     validFacts v \<and> vfld v ''ok'' = JBool True \<and> vfld v ''approved'' = JBool True \<and>
     vfld v ''failureType'' = JUndef \<and> vfld v ''grant'' = JStr ''approve_once''"
  by (simp add: decideAutoReview_def Let_def requestUserApproval_def)

text \<open>
  An automatic review authorises an operation only on complete, well-formed evidence.
  \<open>decideAutoReview\<close> accepts exactly when the facts have the canonical shape, the review
  succeeded without failure facts, and it approved with the single-use grant. What it accepts or
  rejects carries the review id and tool call id of the facts, non-empty and of bounded length;
  what it accepts is a single use only; a terminal rejection needs valid facts that decline.
\<close>

theorem decideAutoReview_sound:
  "(\<exists>r c g m. decideAutoReview v = AcceptedApproval r c g m) =
     (validFacts v \<and> vfld v ''ok'' = JBool True \<and> vfld v ''approved'' = JBool True \<and>
      vfld v ''failureType'' = JUndef \<and> vfld v ''grant'' = JStr ''approve_once'') \<and>
   (case decideAutoReview v of
     AcceptedApproval r c g m \<Rightarrow> vfld v ''reviewId'' = JStr r \<and> vfld v ''toolCallId'' = JStr c \<and>
       r \<noteq> [] \<and> c \<noteq> [] \<and> length r \<le> 256 \<and> length c \<le> 256 \<and> g = ''approve_once''
   | ReviewRejected r c m \<Rightarrow> vfld v ''reviewId'' = JStr r \<and> vfld v ''toolCallId'' = JStr c \<and>
       r \<noteq> [] \<and> c \<noteq> [] \<and> validFacts v \<and> vfld v ''approved'' = JBool False
   | RequestUserApproval r c m f \<Rightarrow> True)"
proof (cases "validFacts v")
  case False
  then show ?thesis
    unfolding decideAutoReview_accepts_iff
    by (simp add: decideAutoReview_def Let_def requestUserApproval_def)
next
  case True
  have ids: "\<exists>s. vfld v f = JStr s \<and> s \<noteq> [] \<and> length s \<le> 256"
    if "boundedString (vfld v f) MAX_IDENTITY_LENGTH" for f
    using that by (cases "vfld v f") (auto simp: boundedString_def MAX_IDENTITY_LENGTH_def)
  obtain r c where "vfld v ''reviewId'' = JStr r" "r \<noteq> []" "length r \<le> 256"
    "vfld v ''toolCallId'' = JStr c" "c \<noteq> []" "length c \<le> 256"
    using True ids [of "''reviewId''"] ids [of "''toolCallId''"] by (auto simp: validFacts_def)
  moreover obtain b where "vfld v ''approved'' = JBool b"
    using True by (cases "vfld v ''approved''") (auto simp: validFacts_def)
  ultimately show ?thesis
    using True unfolding decideAutoReview_accepts_iff
    by (auto simp: decideAutoReview_def Let_def requestUserApproval_def)
qed

text \<open>Consecutive rejections, each observed at its own time.\<close>

definition reject :: "js_host \<Rightarrow> breaker_config \<Rightarrow> breaker_result \<Rightarrow> rejection_entry \<Rightarrow> breaker_result" where
  "reject h cfg r e = evaluateAutoReviewCircuitBreaker h (br_newConsecutiveRejects r)
     (br_newRejectionHistory r) cfg True (Some e) (Some (re_timestamp e))"

lemma reject_fields:
  "br_newConsecutiveRejects (reject h cfg r e) = br_newConsecutiveRejects r + 1"
  "br_newRejectionHistory (reject h cfg r e) =
     filter (\<lambda>x. re_timestamp x \<ge> re_timestamp e - cb_windowMs cfg) (br_newRejectionHistory r) @ [e]"
  "br_tripped (reject h cfg r e) \<longleftrightarrow> br_newConsecutiveRejects r + 1 \<ge> cb_maxRejections cfg \<or>
     int (length (br_newRejectionHistory (reject h cfg r e))) \<ge> cb_maxTotalBlocks cfg"
  by (simp_all add: reject_def evaluateAutoReviewCircuitBreaker_def Let_def)

lemma reject_run_count:
  "br_newConsecutiveRejects (foldl (reject h cfg) r es) = br_newConsecutiveRejects r + int (length es)"
  by (induction es arbitrary: r) (simp_all add: reject_fields)

lemma reject_window:
  assumes "0 \<le> cb_windowMs cfg" and "x \<in> set (br_newRejectionHistory (reject h cfg r e))"
  shows "re_timestamp x \<ge> re_timestamp e - cb_windowMs cfg"
  using assms by (auto simp: reject_fields)

text \<open>
  The circuit breaker. After any run of consecutive rejections the breaker is open exactly
  when the run (continuing the earlier count) has reached the rejection threshold or the window
  holds the block limit; while it is closed the retained history is shorter than that limit, so
  it never grows without bound, and it only keeps rejections inside the time window.
\<close>

theorem circuit_breaker_trips:
  assumes "es \<noteq> []" and "0 \<le> cb_windowMs cfg"
    and "r' = foldl (reject h cfg) r es"
  shows "(br_tripped r' \<longleftrightarrow> br_newConsecutiveRejects r + int (length es) \<ge> cb_maxRejections cfg \<or>
            int (length (br_newRejectionHistory r')) \<ge> cb_maxTotalBlocks cfg) \<and>
         (\<forall>x \<in> set (br_newRejectionHistory r').
            re_timestamp x \<ge> re_timestamp (last es) - cb_windowMs cfg)"
proof -
  obtain fs e where es: "es = fs @ [e]" using assms(1) by (cases es rule: rev_cases) auto
  then show ?thesis
    using reject_window [OF assms(2)] reject_run_count [of h cfg r fs]
    by (simp add: assms(3) reject_fields(3) ac_simps)
qed

definition closed_breaker :: breaker_result where
  "closed_breaker = \<lparr>br_tripped = False, br_reason = None, br_newConsecutiveRejects = 0,
     br_newRejectionHistory = [], br_open = False\<rparr>"

definition sample_rejections :: "rejection_entry list" where
  "sample_rejections = map (\<lambda>t. \<lparr>re_timestamp = t, re_toolName = ''shell_execute'', re_reason = ''no''\<rparr>) [1, 2, 3]"

theorem circuit_breaker_trips_witness:
  "br_tripped (foldl (reject sample_host DEFAULT_CIRCUIT_BREAKER_CONFIG) closed_breaker sample_rejections)"
  using circuit_breaker_trips [of sample_rejections DEFAULT_CIRCUIT_BREAKER_CONFIG _ sample_host closed_breaker]
  by (simp add: sample_rejections_def DEFAULT_CIRCUIT_BREAKER_CONFIG_def closed_breaker_def)

lemma map_of_filter_keep: "map_of o' k = Some v \<Longrightarrow> P (k, v) \<Longrightarrow> map_of (filter P o') k = Some v"
  by (induction o') (auto split: if_splits)

lemma map_of_filter_None: "map_of o' k = None \<Longrightarrow> map_of (filter P o') k = None"
  by (induction o') (auto split: if_splits)

lemma map_of_filter_distinct:
  "distinct_keys o' \<Longrightarrow> map_of (filter P o') k =
     (case map_of o' k of None \<Rightarrow> None | Some v \<Rightarrow> if P (k, v) then Some v else None)"
  by (induction o') (auto simp: distinct_keys_def in_obj_keys_iff map_of_filter_None split: option.splits)

definition record_calls :: "doom_entry jsobj \<Rightarrow> string \<Rightarrow> rat \<Rightarrow> rat list \<Rightarrow> doom_entry jsobj" where
  "record_calls tracker fp w stamps = foldl (\<lambda>tr t. kernelUpdateDoomLoopTracker tr fp t w) tracker stamps"

fun gaps_within :: "rat \<Rightarrow> rat list \<Rightarrow> bool" where
  "gaps_within w (a # b # ts) = (0 \<le> b - a \<and> b - a \<le> w \<and> gaps_within w (b # ts))"
| "gaps_within w ts = True"

lemma update_next:
  assumes "obj_get tr fp = Some \<lparr>dl_count = n, dl_lastSeenAt = a\<rparr>" "0 \<le> b - a" "b - a \<le> w" "w \<le> 120000"
  shows "obj_get (kernelUpdateDoomLoopTracker tr fp b w) fp = Some \<lparr>dl_count = n + 1, dl_lastSeenAt = b\<rparr>"
  using assms map_of_filter_keep [OF assms(1), of "\<lambda>(k, e). \<not> b - dl_lastSeenAt e > 120000"]
  by (simp add: kernelUpdateDoomLoopTracker_def Let_def)

lemma record_calls_count:
  "obj_get tr fp = Some \<lparr>dl_count = n, dl_lastSeenAt = a\<rparr> \<Longrightarrow> gaps_within w (a # ts) \<Longrightarrow> w \<le> 120000 \<Longrightarrow>
   obj_get (record_calls tr fp w ts) fp =
     Some \<lparr>dl_count = n + int (length ts), dl_lastSeenAt = last (a # ts)\<rparr>"
proof (induction ts arbitrary: tr n a)
  case Nil
  then show ?case by (simp add: record_calls_def)
next
  case (Cons b ts)
  then show ?case
    using update_next [of tr fp n a b w] Cons.IH [of "kernelUpdateDoomLoopTracker tr fp b w" "n + 1" b]
    by (simp add: record_calls_def)
qed

text \<open>
  The repeat detector. When a call with a new fingerprint is recorded n times with gaps of at
  most the window (itself at most two minutes), the next check inside the window counts n
  repeats and blocks exactly when n has reached the threshold; a check after the window has
  passed never blocks.
\<close>

theorem doom_loop_blocks_at_threshold:
  assumes "obj_get tr fp = None" and "gaps_within w (a # ts)" and "w \<le> 120000"
  shows "let c = kernelCheckDoomLoopFingerprint h (record_calls tr fp w (a # ts)) fp threshold w now;
             elapsed = now - last (a # ts) in
      (0 \<le> elapsed \<and> elapsed \<le> w \<longrightarrow> dc_count c = 1 + int (length ts) \<and>
         (dc_blocked c \<longleftrightarrow> threshold \<le> 1 + int (length ts))) \<and>
      (elapsed > w \<longrightarrow> \<not> dc_blocked c)"
proof -
  have "obj_get (kernelUpdateDoomLoopTracker tr fp a w) fp = Some \<lparr>dl_count = 1, dl_lastSeenAt = a\<rparr>"
    using assms(1) by (simp add: kernelUpdateDoomLoopTracker_def map_of_filter_None Let_def)
  from record_calls_count [OF this assms(2,3)]
  have "obj_get (record_calls tr fp w (a # ts)) fp =
      Some \<lparr>dl_count = 1 + int (length ts), dl_lastSeenAt = last (a # ts)\<rparr>"
    by (simp add: record_calls_def)
  then show ?thesis by (simp add: kernelCheckDoomLoopFingerprint_def Let_def)
qed

theorem doom_loop_blocks_at_threshold_witness:
  "dc_blocked (kernelCheckDoomLoopFingerprint sample_host
     (record_calls [] ''fp'' 60000 (1 # [2, 5])) ''fp'' 3 60000 9)"
  using doom_loop_blocks_at_threshold [of "[]" "''fp''" 60000 1 "[2, 5]" sample_host 3 9]
  by (simp add: Let_def)

text \<open>
  Recording one call never disturbs another. Every other fingerprint keeps its entry, except
  that entries last seen more than two minutes before the recorded call are dropped; the tracker
  keeps one entry per fingerprint.
\<close>

theorem doom_loop_isolated:
  assumes "distinct_keys tr" and "g \<noteq> fp"
  shows "distinct_keys (kernelUpdateDoomLoopTracker tr fp t w) \<and>
    obj_get (kernelUpdateDoomLoopTracker tr fp t w) g =
      (case obj_get tr g of None \<Rightarrow> None
       | Some e \<Rightarrow> if t - dl_lastSeenAt e > 120000 then None else Some e)"
proof -
  have "distinct_keys (filter P tr)" for P
    using assms(1) by (simp add: distinct_keys_def obj_keys_def distinct_map_filter)
  then show ?thesis
    using assms by (auto simp: kernelUpdateDoomLoopTracker_def Let_def map_of_filter_distinct
        split: option.splits)
qed

theorem doom_loop_isolated_witness:
  "obj_get (kernelUpdateDoomLoopTracker [(''old'', \<lparr>dl_count = 2, dl_lastSeenAt = 0\<rparr>),
       (''new'', \<lparr>dl_count = 4, dl_lastSeenAt = 150000\<rparr>)] ''fp'' 150001 60000) ''new'' =
     Some \<lparr>dl_count = 4, dl_lastSeenAt = 150000\<rparr>"
  using doom_loop_isolated [of "[(''old'', \<lparr>dl_count = 2, dl_lastSeenAt = 0\<rparr>),
      (''new'', \<lparr>dl_count = 4, dl_lastSeenAt = 150000\<rparr>)]" "''new''" "''fp''" 150001 60000]
  by (simp add: distinct_keys_def)

lemma strongest_fold:
  fixes f :: "'a \<Rightarrow> nat"
  shows "let r = foldl (\<lambda>s x. if f x > f s then x else s) m ms in
    r \<in> set (m # ms) \<and> (\<forall>x \<in> set (m # ms). f x \<le> f r)"
proof (induction ms arbitrary: m)
  case Nil
  then show ?case by simp
next
  case (Cons x xs)
  then show ?case using Cons.IH [of x] Cons.IH [of m] by (fastforce simp: Let_def)
qed

text \<open>
  verification sources can only raise the requirement. The effective mode is at least as
  strong as the baseline, the skill's and the user's mode, it is required whenever the capability
  may write, destroy or has unknown effects, and it is never stronger than its strongest source.
\<close>

theorem resolveKernelVerificationMode_strongest:
  "let r = resolveKernelVerificationMode facts in
     r \<in> set (verification_sources facts) \<and>
     (\<forall>m \<in> set (verification_sources facts). VERIFICATION_STRENGTH m \<le> VERIFICATION_STRENGTH r) \<and>
     (\<forall>e. vf_capabilityEffects facts = Some e \<and> kernelEffectsRequireVerification e \<longrightarrow> r = Required)"
proof -
  obtain m ms where src: "verification_sources facts = m # ms"
    by (auto simp: verification_sources_def)
  define r where "r = resolveKernelVerificationMode facts"
  have r: "r \<in> set (verification_sources facts)"
    "\<And>x. x \<in> set (verification_sources facts) \<Longrightarrow> VERIFICATION_STRENGTH x \<le> VERIFICATION_STRENGTH r"
    using strongest_fold [where f = VERIFICATION_STRENGTH and m = m and ms = ms] src
    unfolding r_def resolveKernelVerificationMode_def Let_def by auto
  have "r = Required" if "vf_capabilityEffects facts = Some e" "kernelEffectsRequireVerification e" for e
  proof -
    have "Required \<in> set (verification_sources facts)" using that by (simp add: verification_sources_def)
    from r(2) [OF this] show ?thesis by (cases r) simp_all
  qed
  with r show ?thesis unfolding Let_def r_def [symmetric] by blast
qed

definition sample_facts :: verification_facts where
  "sample_facts = \<lparr>vf_baseline = None, vf_capabilityEffects = Some \<lparr>ve_filesystem = EffectRead,
     ve_network = EffectNone, ve_externalState = EffectUnknownLevel\<rparr>, vf_skillMode = Some BestEffort,
     vf_userMode = Some NotRequired\<rparr>"

theorem resolveKernelVerificationMode_strongest_witness:
  "resolveKernelVerificationMode sample_facts = Required"
  using resolveKernelVerificationMode_strongest [of sample_facts]
  by (simp add: Let_def sample_facts_def kernelEffectsRequireVerification_def)

end
