(* ===== verification/Kite_Work.thy ===== *)
theory Kite_Work
  imports Kite_Lease_Inv
begin

text \<open>
  Who owns a tool call, and what a restart does with unfinished work:
  src/packages/agent-kernel/src/work-scope.ts, interaction-governance.ts and restart-recovery.ts.
  Shown: the events projected for a restart settle the resource ledger (every one of them is
  accepted by the lease reducer, and afterwards no reservation is outstanding as reserved or
  dispatched), and calls suspended behind a user interaction survive a restart.
\<close>

section \<open>Work scope\<close>

fun terminal_tool_status :: "tool_status \<Rightarrow> bool" where
  "terminal_tool_status TSucceeded = True"
| "terminal_tool_status TFailed = True"
| "terminal_tool_status TRejected = True"
| "terminal_tool_status TCancelled = True"
| "terminal_tool_status TExhausted = True"
| "terminal_tool_status _ = False"

fun interaction_owned_status :: "tool_status \<Rightarrow> bool" where
  "interaction_owned_status TAwaitingUserInput = True"
| "interaction_owned_status TAwaitingReview = True"
| "interaction_owned_status TAwaitingApproval = True"
| "interaction_owned_status TAwaitingAutoReview = True"
| "interaction_owned_status _ = False"

definition toolCallBelongsToCurrentWork :: "agent_state \<Rightarrow> tool_call \<Rightarrow> bool" where
  "toolCallBelongsToCurrentWork s call =
     (case tc_taskId call of
        Some t \<Rightarrow> Some t = st_activeTaskId s
      | None \<Rightarrow> tc_createdAtTurnId call = tn_turnId (st_turn s))"

fun interaction_tool_call_id :: "interaction \<Rightarrow> string option" where
  "interaction_tool_call_id (AwaitingUserInput i c q) = Some c"
| "interaction_tool_call_id (AwaitingPlanReview i c t r d p g a) = Some c"
| "interaction_tool_call_id (AwaitingToolApproval i c a) = Some c"
| "interaction_tool_call_id (AwaitingAutoReview i c n r a) = Some c"
| "interaction_tool_call_id _ = None"

definition interactionToolCall :: "agent_state \<Rightarrow> tool_call option" where
  "interactionToolCall s =
     (case interaction_tool_call_id (st_interactions s) of None \<Rightarrow> None
      | Some c \<Rightarrow> obj_get (to_calls (st_tools s)) c)"

fun provider_interaction :: "interaction \<Rightarrow> bool" where
  "provider_interaction (AwaitingProviderAction a b c d e) = True"
| "provider_interaction (AwaitingProviderAdmission a) = True"
| "provider_interaction _ = False"

definition interactionBelongsToCurrentWork :: "agent_state \<Rightarrow> bool" where
  "interactionBelongsToCurrentWork s =
     (if st_interactions s = Idle then False
      else if provider_interaction (st_interactions s) then True
      else case interactionToolCall s of None \<Rightarrow> False
        | Some call \<Rightarrow> toolCallBelongsToCurrentWork s call)"

definition hasCurrentSuspendedSubagent :: "agent_state \<Rightarrow> bool" where
  "hasCurrentSuspendedSubagent s =
     list_ex (\<lambda>toolCallId.
       case obj_get (to_calls (st_tools s)) toolCallId of None \<Rightarrow> False
       | Some call \<Rightarrow> tc_name call = ''task'' \<and> \<not> terminal_tool_status (tc_status call) \<and>
           toolCallBelongsToCurrentWork s call)
       (obj_keys (st_suspendedSubagents s))"

definition activeSkillFramesForCurrentWork :: "agent_state \<Rightarrow> skill_frame list" where
  "activeSkillFramesForCurrentWork s =
     filter (\<lambda>frame. sf_status frame = ''active'' \<and> Some (sf_taskId frame) = st_activeTaskId s)
       (obj_values (st_skillFrames s))"

definition findStrandedInteractionTool :: "agent_state \<Rightarrow> tool_call option" where
  "findStrandedInteractionTool s =
     (if st_interactions s \<noteq> Idle then None
      else find (\<lambda>call. toolCallBelongsToCurrentWork s call \<and> interaction_owned_status (tc_status call))
        (obj_values (to_calls (st_tools s))))"

section \<open>Plan review siblings\<close>

definition PLAN_REVIEW_SIBLING_CANCELLATION_REASON :: string where
  "PLAN_REVIEW_SIBLING_CANCELLATION_REASON =
     ''Cancelled because an earlier tool call opened an interaction.''"

definition decidePlanReviewSiblingCancellations :: "agent_state \<Rightarrow> string \<Rightarrow> (string \<times> string) list" where
  "decidePlanReviewSiblingCancellations s openingToolCallId =
     (case obj_get (to_calls (st_tools s)) openingToolCallId of None \<Rightarrow> []
      | Some opening \<Rightarrow>
          map (\<lambda>candidate. (tc_toolCallId candidate, PLAN_REVIEW_SIBLING_CANCELLATION_REASON))
            (filter (\<lambda>candidate.
               tc_toolCallId candidate \<noteq> openingToolCallId \<and> tc_status candidate = TQueued \<and>
               tc_modelMessageId candidate = tc_modelMessageId opening \<and>
               or_default (tc_ordinal candidate) 0 > or_default (tc_ordinal opening) 0)
             (obj_values (to_calls (st_tools s)))))"

section \<open>Restart recovery\<close>

record restart_facts =
  rs_capabilityFinishedAt :: "string jsobj"
  rs_pendingModelEvidenceFailures :: "string jsobj"
  rs_completedModelEvidenceFailures :: "string jsobj"

definition needs_restart_recovery :: "agent_state \<Rightarrow> capability_invocation \<Rightarrow> bool" where
  "needs_restart_recovery s invocation \<longleftrightarrow>
     (ci_status invocation = ''recorded'' \<or> ci_status invocation = ''running'') \<and>
     (case ci_subagentLifecycleStatus invocation of None \<Rightarrow> True | Some st \<Rightarrow> st = ''cleanup_completed'') \<and>
     obj_get (st_suspendedSubagents s) (ci_toolCallId invocation) = None \<and>
     (case obj_get (to_calls (st_tools s)) (ci_toolCallId invocation) of None \<Rightarrow> True
      | Some call \<Rightarrow> \<not> interaction_owned_status (tc_status call))"

definition stateRestartRecoveryCapabilityInvocationIds :: "agent_state \<Rightarrow> string list" where
  "stateRestartRecoveryCapabilityInvocationIds s =
     map ci_invocationId (filter (needs_restart_recovery s) (obj_values (st_invocations s)))"

text \<open>The timestamp pattern \<open>YYYY-MM-DDTHH:MM:SS(.mmm)?Z\<close>; \<open>D\<close> stands for a digit.\<close>

fun matches_mask :: "string \<Rightarrow> string \<Rightarrow> bool" where
  "matches_mask [] [] = True"
| "matches_mask (m # ms) (c # cs) =
     ((if m = CHR ''D'' then is_digit_char c else m = c) \<and> matches_mask ms cs)"
| "matches_mask _ _ = False"

definition is_host_timestamp :: "string \<Rightarrow> bool" where
  "is_host_timestamp s \<longleftrightarrow>
     matches_mask ''DDDD-DD-DDTDD:DD:DDZ'' s \<or> matches_mask ''DDDD-DD-DDTDD:DD:DD.DDDZ'' s"

definition event :: "string \<Rightarrow> jobj \<Rightarrow> kernel_event" where
  "event ty d = \<lparr>ev_type = ty, ev_data = d\<rparr>"

fun capability_restart_events ::
  "restart_facts \<Rightarrow> string list \<Rightarrow> capability_invocation list \<Rightarrow> kernel_event list res" where
  "capability_restart_events facts ids [] = Inr []"
| "capability_restart_events facts ids (invocation # rest) =
     (if ci_invocationId invocation \<notin> set ids then capability_restart_events facts ids rest
      else case obj_get (rs_capabilityFinishedAt facts) (ci_invocationId invocation) of
          None \<Rightarrow> throw (''State restart recovery requires a valid Host timestamp for '' @
              ci_invocationId invocation @ ''.'')
        | Some finishedAt \<Rightarrow>
            (if \<not> is_host_timestamp finishedAt
             then throw (''State restart recovery requires a valid Host timestamp for '' @
               ci_invocationId invocation @ ''.'')
             else bind_res (capability_restart_events facts ids rest) (\<lambda>es.
               Inr (event ''capability.execution_unknown''
                 [(''invocationId'', JStr (ci_invocationId invocation)),
                  (''reason'', JStr ''Runtime recovered after invocation intent was persisted without a terminal result.''),
                  (''finishedAt'', JStr finishedAt)] # es))))"

text \<open>The model invocation loop: its events and the reservations it marks as uncertain.\<close>

fun model_restart_events ::
  "restart_facts \<Rightarrow> model_invocation list \<Rightarrow> kernel_event list \<times> string list" where
  "model_restart_events facts [] = ([], [])"
| "model_restart_events facts (invocation # rest) =
     (let (es, uncertain) = model_restart_events facts rest in
      if mi_status invocation = ''completed'' \<and> \<not> non_empty (mi_modelEvidenceUnavailable invocation)
      then (case truthy_option (obj_get (rs_completedModelEvidenceFailures facts) (mi_invocationId invocation)) of
          None \<Rightarrow> (es, uncertain)
        | Some failure \<Rightarrow>
            (event ''model.invocation_evidence_unavailable''
               [(''invocationId'', JStr (mi_invocationId invocation)), (''reasonCode'', JStr failure)] # es,
             uncertain))
      else if mi_status invocation \<noteq> ''prepared'' \<and> mi_status invocation \<noteq> ''dispatching''
      then (es, uncertain)
      else (event ''model.invocation_interrupted''
               [(''invocationId'', JStr (mi_invocationId invocation)),
                (''dispatchCertainty'', JStr (if mi_status invocation = ''prepared'' then ''none'' else ''unknown'')),
                (''reasonCode'', JStr ''runtime_restored'')] # es,
            if mi_status invocation = ''dispatching'' \<and>
               non_empty (obj_get (rs_pendingModelEvidenceFailures facts) (mi_invocationId invocation))
            then (case mi_budget invocation of BudgetReservation r x \<Rightarrow> r # uncertain | NoBudget \<Rightarrow> uncertain)
            else uncertain))"

definition reservation_restart_event :: "string list \<Rightarrow> jobj \<Rightarrow> kernel_event list" where
  "reservation_restart_event uncertain r =
     (if fld r ''state'' = JStr ''reserved''
      then [event (if fld r ''reservationId'' \<in> JStr ` set uncertain then ''resource_budget.unknown''
              else ''resource_budget.released'') [(''reservationId'', fld r ''reservationId'')]]
      else if fld r ''state'' = JStr ''dispatch_started''
      then [event ''resource_budget.unknown'' [(''reservationId'', fld r ''reservationId'')]]
      else [])"

definition waiter_restart_event :: "jobj \<Rightarrow> kernel_event list" where
  "waiter_restart_event w =
     (if fld w ''state'' \<noteq> JStr ''waiting'' then []
      else [event ''resource_budget.waiter_cancelled'' [(''invocationId'', fld w ''invocationId'')]])"

definition ledger_restart_events :: "agent_state \<Rightarrow> string list \<Rightarrow> kernel_event list" where
  "ledger_restart_events s uncertain =
     (case st_resourceBudget s of BudgetUnconfigured \<Rightarrow> []
      | BudgetActive b \<Rightarrow>
          concat (map (reservation_restart_event uncertain) (obj_values (ba_reservations b))) @
          (if tn_status (st_turn s) \<noteq> TurnActive
           then concat (map waiter_restart_event (obj_values (ba_waiters b))) else []))"

definition projectStateRestartRecoveryEvents ::
  "agent_state \<Rightarrow> restart_facts \<Rightarrow> kernel_event list res" where
  "projectStateRestartRecoveryEvents s facts =
     bind_res (capability_restart_events facts (stateRestartRecoveryCapabilityInvocationIds s)
       (obj_values (st_invocations s))) (\<lambda>capability.
         let (model, uncertain) = model_restart_events facts (obj_values (st_modelInvocations s)) in
         Inr (capability @ model @ ledger_restart_events s uncertain))"

section \<open>Replaying restart events on the ledger\<close>

text \<open>The lease reducer applied to a sequence of events, stopping at the first error.\<close>

fun lease_replay :: "js_host \<Rightarrow> agent_state \<Rightarrow> kernel_event list \<Rightarrow> agent_state res" where
  "lease_replay h s [] = Inr s"
| "lease_replay h s (e # es) = bind_res (reduceLeaseState h s e) (\<lambda>s'. lease_replay h s' es)"

lemma lease_replay_append:
  "lease_replay h s (xs @ ys) = bind_res (lease_replay h s xs) (\<lambda>s'. lease_replay h s' ys)"
proof (induction xs arbitrary: s)
  case Nil
  then show ?case by simp
next
  case (Cons e xs)
  then show ?case by (cases "reduceLeaseState h s e") simp_all
qed

definition outside_ledger :: "kernel_event \<Rightarrow> bool" where
  "outside_ledger e \<longleftrightarrow> \<not> isResourceBudgetEvent (ev_type e) \<and> \<not> isReadinessEvent (ev_type e)"

lemma lease_replay_outside: "list_all outside_ledger es \<Longrightarrow> lease_replay h s es = Inr s"
  by (induction es) (simp_all add: reduceLeaseState_def outside_ledger_def)

lemma capability_events_outside:
  "capability_restart_events facts ids invs = Inr es \<Longrightarrow> list_all outside_ledger es"
  by (induction invs arbitrary: es)
    (auto simp: res_simps outside_ledger_def event_def isResourceBudgetEvent_def isReadinessEvent_def
      split: if_splits option.splits)

lemma model_events_outside: "list_all outside_ledger (fst (model_restart_events facts invs))"
  by (induction invs)
    (auto simp: Let_def outside_ledger_def event_def isResourceBudgetEvent_def isReadinessEvent_def
      split: prod.splits option.splits model_budget.splits)

lemma lease_replay_inv: "lease_inv s \<Longrightarrow> lease_replay h s es = Inr s' \<Longrightarrow> lease_inv s'"
  by (induction es arbitrary: s) (auto simp: res_simps dest: reduceLeaseState_inv)

definition outstanding :: "jobj \<Rightarrow> bool" where
  "outstanding r \<longleftrightarrow> fld r ''state'' = JStr ''reserved'' \<or> fld r ''state'' = JStr ''dispatch_started''"

lemma settle_reservation:
  assumes inv: "ledger_inv b" and s: "st_resourceBudget s = BudgetActive b"
    and get: "obj_get (ba_reservations b) k = Some r"
  obtains r' where "\<not> outstanding r'"
    "lease_replay h s (reservation_restart_event u r) =
       Inr (with_budget s (b\<lparr>ba_reservations := obj_set k r' (ba_reservations b)\<rparr>))"
  | "\<not> outstanding r" "lease_replay h s (reservation_restart_event u r) = Inr s"
proof -
  have ok: "reservation_ok b k r" using inv get by (simp add: ledger_defs js_object.every_def)
  then have key: "fld r ''reservationId'' = JStr k" by (simp add: reservation_ok_def)
  with ok have "nonEmpty (JStr k) ''reservationId'' = ok"
    by (auto simp: reservation_ok_def assertReservation_def res_simps split: if_splits)
  then have step: "reduceLeaseState h s (event ty [(''reservationId'', JStr k)]) =
      reservation_event h s b ty [(''reservationId'', JStr k)] \<and>
      reservation_event h s b ty [(''reservationId'', JStr k)] =
        (if ty = ''resource_budget.released'' then budget_released s b r [(''reservationId'', JStr k)]
         else budget_unknown s b r)"
    if "ty \<in> {''resource_budget.released'', ''resource_budget.unknown''}" for ty
    using that s get
    by (auto simp: reduceLeaseState_def event_def isResourceBudgetEvent_def reduceResourceBudget_def
        activeState_def reservation_event_def)
  have put: "with_budget s (replaceReservation b (set_state st r)) =
      with_budget s (b\<lparr>ba_reservations := obj_set k (set_state st r) (ba_reservations b)\<rparr>)" for st
    using key by (simp add: replaceReservation_eq)
  consider "fld r ''state'' = JStr ''reserved''" | "fld r ''state'' = JStr ''dispatch_started''"
    | "\<not> outstanding r" by (auto simp: outstanding_def)
  then show thesis
  proof cases
    case 1
    then show thesis
      by (intro that(1) [of "set_state (if JStr k \<in> JStr ` set u then ''unknown'' else ''released'') r"])
        (auto simp: reservation_restart_event_def key step budget_released_def budget_unknown_def
          put outstanding_def)
  next
    case 2
    then show thesis
      by (intro that(1) [of "set_state ''unknown'' r"])
        (auto simp: reservation_restart_event_def key step budget_unknown_def put outstanding_def)
  next
    case 3
    then show thesis
      by (intro that(2)) (auto simp: reservation_restart_event_def outstanding_def)
  qed
qed

definition ledger_reservations :: "agent_state \<Rightarrow> jobj jsobj" where
  "ledger_reservations s =
     (case st_resourceBudget s of BudgetUnconfigured \<Rightarrow> [] | BudgetActive b \<Rightarrow> ba_reservations b)"

definition ledger_waiters :: "agent_state \<Rightarrow> jobj jsobj" where
  "ledger_waiters s =
     (case st_resourceBudget s of BudgetUnconfigured \<Rightarrow> [] | BudgetActive b \<Rightarrow> ba_waiters b)"

definition waiting :: "jobj \<Rightarrow> bool" where
  "waiting w \<longleftrightarrow> fld w ''state'' = JStr ''waiting''"

lemma ledger_parts_with_budget [simp]:
  "ledger_reservations (with_budget s b) = ba_reservations b"
  "ledger_waiters (with_budget s b) = ba_waiters b"
  by (simp_all add: ledger_reservations_def ledger_waiters_def with_budget_def)

text \<open>
  A sweep over one store of the ledger: the events emitted for a stored entry settle that entry
  and leave the others, and the rest of the ledger, alone. A sweep over the whole store then
  settles all of it.
\<close>

locale sweep =
  fixes host :: js_host
    and store :: "agent_state \<Rightarrow> jobj jsobj"
    and emit :: "jobj \<Rightarrow> kernel_event list"
    and settled :: "jobj \<Rightarrow> bool"
    and rest :: "agent_state \<Rightarrow> jobj jsobj"
  assumes emit_settles: "lease_inv s \<Longrightarrow> obj_get (store s) k = Some v \<Longrightarrow>
      \<exists>s'. lease_replay host s (emit v) = Inr s' \<and> rest s' = rest s \<and>
        (\<forall>k'. k' \<noteq> k \<longrightarrow> obj_get (store s') k' = obj_get (store s) k') \<and>
        (\<forall>v'. obj_get (store s') k = Some v' \<longrightarrow> settled v')"
    and store_distinct: "lease_inv s \<Longrightarrow> distinct_keys (store s)"
begin

lemma sweep_entries:
  assumes "lease_inv s" "distinct (map fst kvs)" "\<forall>(k, v) \<in> set kvs. obj_get (store s) k = Some v"
  shows "\<exists>s'. lease_replay host s (concat (map emit (map snd kvs))) = Inr s' \<and> lease_inv s' \<and>
    rest s' = rest s \<and>
    (\<forall>k. k \<notin> fst ` set kvs \<longrightarrow> obj_get (store s') k = obj_get (store s) k) \<and>
    (\<forall>k v. k \<in> fst ` set kvs \<and> obj_get (store s') k = Some v \<longrightarrow> settled v)"
  using assms
proof (induction kvs arbitrary: s)
  case Nil
  then show ?case by simp
next
  case (Cons kv kvs)
  obtain k v where kv: "kv = (k, v)" by (cases kv)
  have get: "obj_get (store s) k = Some v" using Cons.prems kv by simp
  obtain s1 where s1: "lease_replay host s (emit v) = Inr s1" "rest s1 = rest s"
    "\<forall>k'. k' \<noteq> k \<longrightarrow> obj_get (store s1) k' = obj_get (store s) k'"
    "\<forall>v'. obj_get (store s1) k = Some v' \<longrightarrow> settled v'"
    using emit_settles [OF Cons.prems(1) get] by blast
  have inv: "lease_inv s1" using lease_replay_inv [OF Cons.prems(1) s1(1)] .
  have new: "k \<notin> fst ` set kvs" using Cons.prems(2) kv by auto
  have "\<forall>(k', v') \<in> set kvs. obj_get (store s1) k' = Some v'"
  proof clarify
    fix k' v' assume kv': "(k', v') \<in> set kvs"
    then have "k' \<noteq> k" using new by force
    then show "obj_get (store s1) k' = Some v'" using s1(3) Cons.prems(3) kv' by auto
  qed
  with Cons.IH [OF inv] Cons.prems(2)
  obtain s' where "lease_replay host s1 (concat (map emit (map snd kvs))) = Inr s'"
    "lease_inv s'" "rest s' = rest s1"
    "\<forall>k. k \<notin> fst ` set kvs \<longrightarrow> obj_get (store s') k = obj_get (store s1) k"
    "\<forall>k v. k \<in> fst ` set kvs \<and> obj_get (store s') k = Some v \<longrightarrow> settled v"
    by auto
  then show ?case
    using s1 kv new by (intro exI [of _ s']) (auto simp: lease_replay_append)
qed

lemma sweep_store:
  assumes "lease_inv s"
  shows "\<exists>s'. lease_replay host s (concat (map emit (obj_values (store s)))) = Inr s' \<and>
    lease_inv s' \<and> rest s' = rest s \<and> (\<forall>k v. obj_get (store s') k = Some v \<longrightarrow> settled v)"
proof -
  have d: "distinct (map fst (store s))"
    using store_distinct [OF assms] by (simp add: distinct_keys_def obj_keys_def)
  have "\<forall>(k, v) \<in> set (store s). obj_get (store s) k = Some v" using d by auto
  from sweep_entries [OF assms d this] obtain s' where s':
    "lease_replay host s (concat (map emit (obj_values (store s)))) = Inr s'" "lease_inv s'"
    "rest s' = rest s" "\<forall>k. k \<notin> fst ` set (store s) \<longrightarrow> obj_get (store s') k = obj_get (store s) k"
    "\<forall>k v. k \<in> fst ` set (store s) \<and> obj_get (store s') k = Some v \<longrightarrow> settled v"
    by (auto simp: obj_values_def)
  have "settled v" if "obj_get (store s') k = Some v" for k v
  proof (cases "k \<in> fst ` set (store s)")
    case False
    then have "obj_get (store s) k = None" by (simp add: map_of_eq_None_iff)
    then show ?thesis using s'(4) that False by simp
  qed (use s'(5) that in blast)
  with s' show ?thesis by blast
qed

end

lemma lease_inv_active:
  "lease_inv s \<Longrightarrow> st_resourceBudget s = BudgetActive b \<Longrightarrow> ledger_inv b"
  by (simp add: lease_inv_def)

interpretation reservation_sweep:
  sweep h ledger_reservations "reservation_restart_event u" "\<lambda>r. \<not> outstanding r" ledger_waiters
  for h u
proof
  fix s k r
  assume inv: "lease_inv s" and get: "obj_get (ledger_reservations s) k = Some r"
  then obtain b where b: "st_resourceBudget s = BudgetActive b" "obj_get (ba_reservations b) k = Some r"
    by (cases "st_resourceBudget s") (auto simp: ledger_reservations_def)
  show "\<exists>s'. lease_replay h s (reservation_restart_event u r) = Inr s' \<and>
      ledger_waiters s' = ledger_waiters s \<and>
      (\<forall>k'. k' \<noteq> k \<longrightarrow> obj_get (ledger_reservations s') k' = obj_get (ledger_reservations s) k') \<and>
      (\<forall>v'. obj_get (ledger_reservations s') k = Some v' \<longrightarrow> \<not> outstanding v')"
    by (rule settle_reservation [OF lease_inv_active [OF inv b(1)] b, of h u])
      (auto simp: ledger_reservations_def ledger_waiters_def with_budget_def b)
next
  fix s assume "lease_inv s"
  then show "distinct_keys (ledger_reservations s)"
    by (auto simp: ledger_reservations_def lease_inv_def ledger_defs split: resource_budget_state.splits)
qed

lemma cancel_waiter:
  assumes inv: "ledger_inv b" and s: "st_resourceBudget s = BudgetActive b"
    and get: "obj_get (ba_waiters b) k = Some w" and "waiting w"
  shows "lease_replay h s (waiter_restart_event w) =
    Inr (with_budget s (b\<lparr>ba_waiters :=
      obj_set k (obj_set ''state'' (JStr ''cancelled'') w) (ba_waiters b)\<rparr>))"
proof -
  have "waiter_ok b k w" using inv get by (simp add: ledger_defs js_object.every_def)
  then show ?thesis
    using assms(2-4)
    by (simp add: waiter_restart_event_def waiting_def waiter_ok_def event_def reduceLeaseState_def
        isResourceBudgetEvent_def reduceResourceBudget_def activeState_def waiter_settled_def
        nonEmpty_def waiter_target_def)
qed

interpretation waiter_sweep:
  sweep h ledger_waiters waiter_restart_event "\<lambda>w. \<not> waiting w" ledger_reservations
  for h
proof
  fix s k w
  assume inv: "lease_inv s" and get: "obj_get (ledger_waiters s) k = Some w"
  then obtain b where b: "st_resourceBudget s = BudgetActive b" "obj_get (ba_waiters b) k = Some w"
    by (cases "st_resourceBudget s") (auto simp: ledger_waiters_def)
  show "\<exists>s'. lease_replay h s (waiter_restart_event w) = Inr s' \<and>
      ledger_reservations s' = ledger_reservations s \<and>
      (\<forall>k'. k' \<noteq> k \<longrightarrow> obj_get (ledger_waiters s') k' = obj_get (ledger_waiters s) k') \<and>
      (\<forall>v'. obj_get (ledger_waiters s') k = Some v' \<longrightarrow> \<not> waiting v')"
  proof (cases "waiting w")
    case True
    from cancel_waiter [OF lease_inv_active [OF inv b(1)] b True, of h] b show ?thesis
      by (simp add: ledger_reservations_def ledger_waiters_def with_budget_def)
        (simp add: waiting_def)
  next
    case False
    then show ?thesis using get by (simp add: waiter_restart_event_def waiting_def)
  qed
next
  fix s assume "lease_inv s"
  then show "distinct_keys (ledger_waiters s)"
    by (auto simp: ledger_waiters_def lease_inv_def ledger_defs split: resource_budget_state.splits)
qed

lemma ledger_restart_events_eq:
  "ledger_restart_events s u =
     concat (map (reservation_restart_event u) (obj_values (ledger_reservations s))) @
     (if tn_status (st_turn s) \<noteq> TurnActive
      then concat (map waiter_restart_event (obj_values (ledger_waiters s))) else [])"
  by (simp add: ledger_restart_events_def ledger_reservations_def ledger_waiters_def
      split: resource_budget_state.split)

text \<open>
  C33: a restart settles the ledger. The events projected for a restart can all be applied: the
  lease reducer rejects none of them, the ledger invariant still holds, no reservation is left
  reserved or dispatched (each is released when it was provably never dispatched and unknown
  otherwise), and once the turn has ended no waiter is left waiting.
\<close>

theorem restart_settles_ledger:
  assumes "lease_inv s" and "projectStateRestartRecoveryEvents s facts = Inr es"
  shows "\<exists>s'. lease_replay h s es = Inr s' \<and> lease_inv s' \<and>
    (\<forall>k r. obj_get (ledger_reservations s') k = Some r \<longrightarrow> \<not> outstanding r) \<and>
    (tn_status (st_turn s) \<noteq> TurnActive \<longrightarrow>
       (\<forall>k w. obj_get (ledger_waiters s') k = Some w \<longrightarrow> \<not> waiting w))"
proof -
  obtain model u where m: "model_restart_events facts (obj_values (st_modelInvocations s)) = (model, u)"
    by fastforce
  obtain capability where es: "es = capability @ model @ ledger_restart_events s u"
    and out: "list_all outside_ledger capability"
    using assms(2) m by (auto simp: projectStateRestartRecoveryEvents_def res_simps
        dest: capability_events_outside)
  have "list_all outside_ledger model"
    using model_events_outside [of facts "obj_values (st_modelInvocations s)"] m by simp
  have replay: "lease_replay h s es = lease_replay h s (ledger_restart_events s u)"
    using out \<open>list_all outside_ledger model\<close>
    by (simp add: es lease_replay_append lease_replay_outside)
  obtain s1 where s1: "lease_replay h s (concat (map (reservation_restart_event u)
      (obj_values (ledger_reservations s)))) = Inr s1" "lease_inv s1"
    "ledger_waiters s1 = ledger_waiters s"
    "\<forall>k r. obj_get (ledger_reservations s1) k = Some r \<longrightarrow> \<not> outstanding r"
    using reservation_sweep.sweep_store [OF assms(1)] by blast
  show ?thesis
  proof (cases "tn_status (st_turn s) = TurnActive")
    case True
    then show ?thesis using s1 replay by (simp add: ledger_restart_events_eq)
  next
    case False
    obtain s2 where "lease_replay h s1 (concat (map waiter_restart_event (obj_values (ledger_waiters s1)))) = Inr s2"
      "lease_inv s2" "ledger_reservations s2 = ledger_reservations s1"
      "\<forall>k w. obj_get (ledger_waiters s2) k = Some w \<longrightarrow> \<not> waiting w"
      using waiter_sweep.sweep_store [OF s1(2)] by blast
    then show ?thesis
      using s1 replay False by (simp add: ledger_restart_events_eq lease_replay_append)
  qed
qed

definition no_facts :: restart_facts where
  "no_facts = \<lparr>rs_capabilityFinishedAt = [], rs_pendingModelEvidenceFailures = [],
     rs_completedModelEvidenceFailures = []\<rparr>"

definition restart_events :: "kernel_event list" where
  "restart_events = [event ''resource_budget.unknown'' [(''reservationId'', JStr ''res'')]]"

theorem restart_settles_ledger_witness:
  "lease_inv waiting_state \<and> projectStateRestartRecoveryEvents waiting_state no_facts = Inr restart_events \<and>
   (\<exists>s'. lease_replay sample_host waiting_state restart_events = Inr s' \<and> lease_inv s' \<and>
      (\<forall>k r. obj_get (ledger_reservations s') k = Some r \<longrightarrow> \<not> outstanding r))"
proof -
  have inv: "lease_inv waiting_state" by (rule lease_reachable_inv [OF sample_reachable(4)])
  have "projectStateRestartRecoveryEvents waiting_state no_facts = Inr restart_events" by code_simp
  with restart_settles_ledger [OF inv this] inv show ?thesis by blast
qed

text \<open>
  only work that nobody can resume is written off. A restart declares a capability invocation
  unknown exactly when it had started (recorded or running), its subagent provider, if any, has
  been cleaned up, and no suspended subagent and no user interaction is holding its tool call.
\<close>

theorem restart_spares_suspended_work:
  assumes "distinct_keys (st_invocations s)"
    and "\<forall>(k, v) \<in> set (st_invocations s). ci_invocationId v = k"
    and "obj_get (st_invocations s) i = Some v"
  shows "i \<in> set (stateRestartRecoveryCapabilityInvocationIds s) \<longleftrightarrow>
    ci_status v \<in> {''recorded'', ''running''} \<and>
    ci_subagentLifecycleStatus v \<in> {None, Some ''cleanup_completed''} \<and>
    ci_toolCallId v \<notin> set (obj_keys (st_suspendedSubagents s)) \<and>
    \<not> (\<exists>call. obj_get (to_calls (st_tools s)) (ci_toolCallId v) = Some call \<and>
        tc_status call \<in> {TAwaitingReview, TAwaitingApproval, TAwaitingAutoReview, TAwaitingUserInput})"
proof -
  have owned: "interaction_owned_status st \<longleftrightarrow>
      st \<in> {TAwaitingReview, TAwaitingApproval, TAwaitingAutoReview, TAwaitingUserInput}" for st
    by (cases st) simp_all
  have unique: "v' = v" if "v' \<in> snd ` set (st_invocations s)" "ci_invocationId v' = i" for v'
  proof -
    from that(1) obtain x where x: "x \<in> set (st_invocations s)" "v' = snd x" by (rule imageE)
    then have k: "(fst x, v') \<in> set (st_invocations s)" by simp
    then have "fst x = i" using assms(2) that(2) by auto
    with k show ?thesis using assms(1,3) distinct_keys_map_of [of "st_invocations s" i v'] by simp
  qed
  have mem: "v \<in> snd ` set (st_invocations s)" "ci_invocationId v = i"
    using rev_image_eqI [OF map_of_SomeD [OF assms(3)], of v snd]
      bspec [OF assms(2) map_of_SomeD [OF assms(3)]] by simp_all
  have "i \<in> set (stateRestartRecoveryCapabilityInvocationIds s) \<longleftrightarrow>
      (\<exists>v' \<in> snd ` set (st_invocations s). needs_restart_recovery s v' \<and> ci_invocationId v' = i)"
    by (auto simp: stateRestartRecoveryCapabilityInvocationIds_def obj_values_def)
  also have "\<dots> \<longleftrightarrow> needs_restart_recovery s v" (is "?l \<longleftrightarrow> ?r")
  proof
    assume ?l
    then show ?r using unique by (elim bexE conjE) simp
  next
    assume ?r
    with mem show ?l by (intro bexI [of _ v]) simp_all
  qed
  finally show ?thesis
    unfolding needs_restart_recovery_def in_obj_keys_iff
    by (cases "obj_get (to_calls (st_tools s)) (ci_toolCallId v)";
        cases "ci_subagentLifecycleStatus v"; simp add: owned)
qed

definition sample_invocation :: capability_invocation where
  "sample_invocation = \<lparr>ci_invocationId = ''i'', ci_toolCallId = ''call'', ci_capabilityId = ''c'',
     ci_capabilityRevision = ''1'', ci_taskId = None, ci_status = ''running'',
     ci_subagentLifecycleStatus = None, ci_facts = []\<rparr>"

theorem restart_spares_suspended_work_witness:
  "\<exists>s. obj_get (st_invocations s) ''i'' = Some sample_invocation \<and>
     ''i'' \<in> set (stateRestartRecoveryCapabilityInvocationIds s)"
proof -
  define s where "s = fresh_state\<lparr>st_invocations := [(''i'', sample_invocation)],
    st_suspendedSubagents := [], st_tools := \<lparr>to_calls = [], to_queue = [], to_active = []\<rparr>\<rparr>"
  have "distinct_keys (st_invocations s)" "\<forall>(k, v) \<in> set (st_invocations s). ci_invocationId v = k"
    "obj_get (st_invocations s) ''i'' = Some sample_invocation"
    by (simp_all add: s_def sample_invocation_def distinct_keys_def)
  from restart_spares_suspended_work [OF this] this(3) show ?thesis
    by (intro exI [of _ s]) (simp add: s_def sample_invocation_def)
qed

end
