(* ===== verification/Kite_Recovery.thy ===== *)
theory Kite_Recovery
  imports Kite_Hash
begin

text \<open>
  src/packages/agent-kernel/src/recovery.ts: the tool recovery journal. Failures of tool calls
  are recorded under a digest of what failed; the journal decides whether a later call may count
  as a correction or retry of a recorded failure, closes failures when work moves on, and blocks
  when the same failure repeats without progress. The two while loops over the recovery lineage
  are total functions here, with termination proofs.
\<close>

section \<open>Identities\<close>

definition TOOL_RECOVERY_QUALITY_FAILURE_LIMIT :: nat where
  "TOOL_RECOVERY_QUALITY_FAILURE_LIMIT = 6"

definition TOOL_RECOVERY_OBSERVATION_CAP :: nat where
  "TOOL_RECOVERY_OBSERVATION_CAP = 250"

text \<open>\<open>stableStringify\<close>: \<open>None\<close> where the source throws on a value JSON cannot hold.\<close>

fun stable_json :: "js_host \<Rightarrow> jval \<Rightarrow> string option"
  and stable_json_elements :: "js_host \<Rightarrow> jval list \<Rightarrow> string list option"
  and stable_json_entries :: "js_host \<Rightarrow> (string \<times> jval) list \<Rightarrow> (string \<times> string) list option" where
  "stable_json h (JArr vs) =
     map_option (\<lambda>es. ''['' @ join_with '','' es @ '']'') (stable_json_elements h vs)"
| "stable_json h (JObj o') =
     map_option (\<lambda>es. ''{'' @ join_with '',''
         (map (\<lambda>(key, nested). json_string key @ '':'' @ nested)
           (sort_by (\<lambda>a b. locale_le h (fst a) (fst b)) es)) @ ''}'')
       (stable_json_entries h o')"
| "stable_json h v = json_stringify h v"
| "stable_json_elements h [] = Some []"
| "stable_json_elements h (v # vs) =
     (case stable_json h v of None \<Rightarrow> None
      | Some s \<Rightarrow> map_option (\<lambda>ss. s # ss) (stable_json_elements h vs))"
| "stable_json_entries h [] = Some []"
| "stable_json_entries h ((k, v) # o') =
     (case stable_json h v of None \<Rightarrow> None
      | Some s \<Rightarrow> map_option (\<lambda>ss. (k, s) # ss) (stable_json_entries h o'))"

fun outcome_status_string :: "outcome_status \<Rightarrow> string" where
  "outcome_status_string OutSuccess = ''success''"
| "outcome_status_string OutFailed = ''failed''"
| "outcome_status_string OutRejected = ''rejected''"
| "outcome_status_string OutCancelled = ''cancelled''"
| "outcome_status_string OutTimedOut = ''timed_out''"
| "outcome_status_string OutExhausted = ''exhausted''"
| "outcome_status_string OutUnknown = ''unknown''"

definition canonicalFailureDetail :: "tool_outcome \<Rightarrow> string" where
  "canonicalFailureDetail outcome = or_default (oc_detailCode outcome) ''success''"

text \<open>The four members are strings, so the serialisation never throws.\<close>

definition toolFailureInstanceId :: "js_host \<Rightarrow> string \<Rightarrow> string \<Rightarrow> tool_outcome \<Rightarrow> string" where
  "toolFailureInstanceId h toolCallId invocationFingerprint outcome =
     sha256Hex (or_default (stable_json h (JObj
       [(''toolCallId'', JStr toolCallId),
        (''invocationFingerprint'', JStr invocationFingerprint),
        (''status'', JStr (outcome_status_string (oc_status outcome))),
        (''detailCode'', JStr (canonicalFailureDetail outcome))])) [])"

record fingerprint_input =
  fi_toolName :: string
  fi_parsedArgs :: jval
  fi_parseCode :: "string option"
  fi_pathCategory :: "string option"
  fi_unparsedArgs :: jval
  fi_identityRevision :: "string option"

definition toolInvocationFingerprint :: "js_host \<Rightarrow> fingerprint_input \<Rightarrow> string res" where
  "toolInvocationFingerprint h input =
     (let revision = JStr (or_default (fi_identityRevision input) ''unknown'');
          material = (case truthy_option (fi_parseCode input) of
              Some code \<Rightarrow> stable_json h (JObj
                [(''toolName'', JStr (fi_toolName input)), (''parseCode'', JStr code),
                 (''pathCategory'', JStr (or_default (fi_pathCategory input) ''unknown'')),
                 (''opaqueArgs'', fi_unparsedArgs input), (''identityRevision'', revision)])
            | None \<Rightarrow> stable_json h (JObj
                [(''toolName'', JStr (fi_toolName input)), (''parsedArgs'', fi_parsedArgs input),
                 (''identityRevision'', revision)])) in
      case material of None \<Rightarrow> throw ''Recovery fact is not JSON serializable.''
      | Some m \<Rightarrow> Inr (sha256Hex m))"

section \<open>Lineage\<close>

definition recovery_parent :: "recovery_failure \<Rightarrow> string option" where
  "recovery_parent f = truthy_option (oc_recoveryOf (rf_outcome f))"

definition failureStillBlocks :: "recovery_failure \<Rightarrow> bool" where
  "failureStillBlocks failure \<longleftrightarrow>
     rf_status failure \<noteq> Recovered \<and>
     rf_resolution failure \<noteq> Some ResTaskClosed \<and> rf_resolution failure \<noteq> Some ResTurnClosed"

text \<open>\<open>journal.order.map((id) => journal.failures[id]).filter(present)\<close>\<close>

definition ordered_failures :: "recovery_failure jsobj \<Rightarrow> string list \<Rightarrow> recovery_failure list" where
  "ordered_failures failures order = List.map_filter (map_of failures) order"

definition blockedFailures :: "recovery_journal \<Rightarrow> recovery_failure list" where
  "blockedFailures journal = filter failureStillBlocks (ordered_failures (rj_failures journal) (rj_order journal))"

text \<open>The while loop of \<open>rootFailureId\<close>, with its \<open>visited\<close> set.\<close>

definition known_ids :: "recovery_failure jsobj \<Rightarrow> string set" where
  "known_ids failures = (rf_failureInstanceId \<circ> snd) ` set failures"

lemma finite_known_ids [simp]: "finite (known_ids failures)"
  by (simp add: known_ids_def)

lemma known_idsI: "map_of failures k = Some f \<Longrightarrow> rf_failureInstanceId f \<in> known_ids failures"
  by (force simp: known_ids_def dest: map_of_SomeD)

function root_loop ::
  "recovery_failure jsobj \<Rightarrow> string list \<Rightarrow> recovery_failure \<Rightarrow> recovery_failure" where
  "root_loop failures visited current =
     (if rf_failureInstanceId current \<in> set visited then current
      else case recovery_parent current of None \<Rightarrow> current
        | Some p \<Rightarrow>
            (case map_of failures p of None \<Rightarrow> current
             | Some parent \<Rightarrow> root_loop failures (rf_failureInstanceId current # visited) parent))"
  by pat_completeness auto
termination
proof (relation "measure (\<lambda>(failures, visited, current).
    card (insert (rf_failureInstanceId current) (known_ids failures) - set visited))")
  fix failures visited p and current parent :: recovery_failure
  assume new: "rf_failureInstanceId current \<notin> set visited"
    and "recovery_parent current = Some p" "map_of failures p = Some parent"
  then have "rf_failureInstanceId parent \<in> known_ids failures" by (simp add: known_idsI)
  then have "insert (rf_failureInstanceId parent) (known_ids failures) -
      set (rf_failureInstanceId current # visited)
    \<subset> insert (rf_failureInstanceId current) (known_ids failures) - set visited"
    using new by auto
  then show "((failures, rf_failureInstanceId current # visited, parent), failures, visited, current)
      \<in> measure (\<lambda>(failures, visited, current).
          card (insert (rf_failureInstanceId current) (known_ids failures) - set visited))"
    by (simp add: psubset_card_mono)
qed simp

declare root_loop.simps [simp del]

definition rootFailureId :: "recovery_failure jsobj \<Rightarrow> recovery_failure \<Rightarrow> string" where
  "rootFailureId failures failure = rf_failureInstanceId (root_loop failures [] failure)"

definition noProgressKey :: "recovery_failure jsobj \<Rightarrow> recovery_failure \<Rightarrow> string" where
  "noProgressKey failures failure =
     join_with [CHR 0x00]
       [or_default (rf_taskId failure) [], or_default (rf_turnId failure) [],
        rootFailureId failures failure, rf_toolName failure,
        int_string (rf_progressRevision failure)]"

section \<open>The quality guard\<close>

definition journalInvalid :: "recovery_journal \<Rightarrow> bool" where
  "journalInvalid journal \<longleftrightarrow>
     qg_blocked (rj_qualityGuard journal) \<and>
     qg_reasonCode (rj_qualityGuard journal) = Some JournalInvalid"

definition qualityAfterMutation :: "recovery_journal \<Rightarrow> quality_guard \<Rightarrow> quality_guard" where
  "qualityAfterMutation journal proposed =
     (if journalInvalid journal then rj_qualityGuard journal else proposed)"

text \<open>\<open>guard.x == null || guard.x === scope.x\<close>\<close>

definition scope_matches :: "string option \<Rightarrow> string option \<Rightarrow> bool" where
  "scope_matches g x \<longleftrightarrow> g = None \<or> g = x"

section \<open>Compaction\<close>

text \<open>A JavaScript \<open>Set\<close> as the list of its members in insertion order.\<close>

definition set_add :: "'a list \<Rightarrow> 'a \<Rightarrow> 'a list" where
  "set_add xs x = (if x \<in> set xs then xs else xs @ [x])"

definition es_set :: "'a list \<Rightarrow> 'a list" where
  "es_set xs = foldl set_add [] xs"

definition obj_from_entries :: "(string \<times> 'v) list \<Rightarrow> 'v jsobj" where
  "obj_from_entries kvs = foldl (\<lambda>o' (k, v). obj_set k v o') [] kvs"

text \<open>The inner while loop: the lineage of a candidate, with its \<open>seen\<close> set.\<close>

function closure_loop :: "recovery_failure jsobj \<Rightarrow> string list \<Rightarrow> string option \<Rightarrow> string list" where
  "closure_loop failures seen current =
     (case current of None \<Rightarrow> []
      | Some i \<Rightarrow>
          if i = [] \<or> i \<in> set seen then []
          else (case map_of failures i of None \<Rightarrow> []
                | Some f \<Rightarrow> i # closure_loop failures (i # seen) (oc_recoveryOf (rf_outcome f))))"
  by pat_completeness auto
termination
proof (relation "measure (\<lambda>(failures, seen, current). card (set (obj_keys failures) - set seen))")
  fix failures seen and current :: "string option" and i and f :: recovery_failure
  assume "current = Some i" and new: "\<not> (i = [] \<or> i \<in> set seen)" and "map_of failures i = Some f"
  then have "i \<in> set (obj_keys failures)" by (simp add: in_obj_keys_iff)
  with new have "set (obj_keys failures) - set (i # seen) \<subset> set (obj_keys failures) - set seen"
    by auto
  then show "((failures, i # seen, oc_recoveryOf (rf_outcome f)), failures, seen, current)
      \<in> measure (\<lambda>(failures, seen, current). card (set (obj_keys failures) - set seen))"
    by (simp add: psubset_card_mono)
qed simp

declare closure_loop.simps [simp del]

fun retain_loop :: "recovery_failure jsobj \<Rightarrow> string list \<Rightarrow> string list \<Rightarrow> string list" where
  "retain_loop failures retained [] = retained"
| "retain_loop failures retained (candidate # rest) =
     (if candidate \<in> set retained then retain_loop failures retained rest
      else let closure = closure_loop failures [] (Some candidate) in
        if length retained + length (filter (\<lambda>i. i \<notin> set retained) closure) > 128
        then retain_loop failures retained rest
        else let retained' = foldl set_add retained closure in
          if length retained' = 128 then retained' else retain_loop failures retained' rest)"

definition compactFailures ::
  "recovery_failure jsobj \<Rightarrow> string list \<Rightarrow> recovery_failure jsobj \<times> string list" where
  "compactFailures failures inputOrder =
     (let order = filter (\<lambda>i. map_of failures i \<noteq> None) (es_set inputOrder) in
      if length order \<le> 128 then (failures, order)
      else let blocks = (\<lambda>i. failureStillBlocks (the (map_of failures i)));
               prioritized = filter blocks (rev order) @ filter (\<lambda>i. \<not> blocks i) (rev order);
               retained = retain_loop failures [] prioritized;
               retainedOrder = filter (\<lambda>i. i \<in> set retained) order in
        (obj_from_entries (map (\<lambda>i. (i, the (map_of failures i))) retainedOrder), retainedOrder))"

section \<open>Recording failures\<close>

record failure_input =
  in_toolCallId :: string
  in_toolName :: string
  in_invocationFingerprint :: string
  in_modelMessageId :: string
  in_outcome :: tool_outcome
  in_taskId :: "string option"
  in_turn :: "string option"

definition new_failure ::
  "js_host \<Rightarrow> recovery_journal \<Rightarrow> failure_input \<Rightarrow> recovery_failure option \<Rightarrow> recovery_failure" where
  "new_failure h journal input parent =
     (let i = toolFailureInstanceId h (in_toolCallId input) (in_invocationFingerprint input) (in_outcome input);
          never = rc_disposition (oc_recovery (in_outcome input)) = Never in
      \<lparr>rf_failureInstanceId = i, rf_toolCallId = in_toolCallId input, rf_toolName = in_toolName input,
       rf_invocationFingerprint = in_invocationFingerprint input,
       rf_modelMessageId = in_modelMessageId input,
       rf_taskId = truthy_option (in_taskId input), rf_turnId = truthy_option (in_turn input),
       rf_eligibleAfterModelMessageId = Some (in_modelMessageId input),
       rf_eligibleModelMessageId = None, rf_eligibleToolCallId = None,
       rf_status = (if never then Exhausted else Unresolved),
       rf_resolution = (if never then Some ResTerminal else None),
       rf_outcome = (in_outcome input)\<lparr>oc_failureInstanceId := Some i\<rparr>,
       rf_modelCorrectionAttempts = or_default (map_option rf_modelCorrectionAttempts parent) 0,
       rf_automaticRetryAttempts = or_default (map_option rf_automaticRetryAttempts parent) 0,
       rf_progressRevision = rj_progressRevision journal\<rparr>)"

definition recordRecoveryFailure ::
  "js_host \<Rightarrow> recovery_journal \<Rightarrow> failure_input \<Rightarrow> recovery_journal" where
  "recordRecoveryFailure h journal input =
     (if oc_status (in_outcome input) = OutSuccess then journal
      else let i = toolFailureInstanceId h (in_toolCallId input) (in_invocationFingerprint input)
                 (in_outcome input) in
        if map_of (rj_failures journal) i \<noteq> None then journal
        else let parent = (case truthy_option (oc_recoveryOf (in_outcome input)) of None \<Rightarrow> None
                    | Some p \<Rightarrow> map_of (rj_failures journal) p);
                 failure = new_failure h journal input parent;
                 closed = (case parent of None \<Rightarrow> rj_failures journal
                    | Some p \<Rightarrow> obj_set (rf_failureInstanceId p)
                        (p\<lparr>rf_status := Exhausted, rf_resolution := Some ResTerminal\<rparr>)
                        (rj_failures journal));
                 failures = obj_set i failure closed;
                 compacted = compactFailures failures (rj_order journal @ [i]);
                 sameNoProgress = length (filter (\<lambda>entry. failureStillBlocks entry \<and>
                     noProgressKey (fst compacted) entry = noProgressKey (fst compacted) failure)
                   (ordered_failures (fst compacted) (snd compacted)));
                 guard = rj_qualityGuard journal;
                 scopeApplies = (scope_matches (qg_taskId guard) (in_taskId input) \<and>
                   scope_matches (qg_turnId guard) (in_turn input));
                 observedFailures = min TOOL_RECOVERY_OBSERVATION_CAP
                   ((if scopeApplies then qg_observedFailures guard else 0) + 1);
                 blocked = (scopeApplies \<and> qg_blocked guard \<or>
                   sameNoProgress \<ge> TOOL_RECOVERY_QUALITY_FAILURE_LIMIT) in
          journal\<lparr>rj_failures := fst compacted, rj_order := snd compacted,
            rj_qualityGuard := qualityAfterMutation journal
              \<lparr>qg_blocked = blocked,
               qg_reasonCode = (if blocked then Some NoProgress else None),
               qg_observedFailures = observedFailures,
               qg_taskId = (if blocked then truthy_option (in_taskId input) else None),
               qg_turnId = (if blocked then truthy_option (in_turn input) else None)\<rparr>\<rparr>)"

section \<open>Admitting attempts\<close>

definition alternativeMatches :: "jval \<Rightarrow> string \<Rightarrow> bool" where
  "alternativeMatches intent toolName =
     (if intent = JStr ''workspace.search'' then toolName = ''search_files''
      else if intent = JStr ''git_inspect'' then toolName = ''git_inspect''
      else False)"

record attempt_input =
  at_toolCallId :: string
  at_toolName :: string
  at_invocationFingerprint :: string
  at_modelMessageId :: string
  at_mode :: attempt_mode
  at_taskId :: "string option"
  at_turnId :: "string option"

definition correction_candidate :: "attempt_input \<Rightarrow> recovery_failure \<Rightarrow> bool" where
  "correction_candidate input failure \<longleftrightarrow>
     rf_taskId failure = at_taskId input \<and> rf_turnId failure = at_turnId input \<and>
     rf_modelMessageId failure \<noteq> at_modelMessageId input \<and>
     rf_eligibleToolCallId failure = Some (at_toolCallId input) \<and>
     (let recovery = oc_recovery (rf_outcome failure) in
      if rc_disposition recovery = Alternative
      then alternativeMatches (rc_capabilityIntent recovery) (at_toolName input) \<and>
        scope_matches (rf_eligibleModelMessageId failure) (Some (at_modelMessageId input))
      else rf_toolName failure = at_toolName input \<and>
        (rc_disposition recovery = CorrectArgs \<or>
         oc_status (rf_outcome failure) = OutExhausted \<and>
           or_default (oc_detailCode (rf_outcome failure)) []
             \<in> {''recovery_not_allowed'', ''recovery_exhausted'', ''no_progress''} \<or>
         rf_invocationFingerprint failure = at_invocationFingerprint input))"

definition candidateFailure :: "recovery_journal \<Rightarrow> attempt_input \<Rightarrow> recovery_failure option" where
  "candidateFailure journal input =
     (let candidates = rev (blockedFailures journal) in
      if at_mode input = AutomaticRetry
      then find (\<lambda>failure. rf_invocationFingerprint failure = at_invocationFingerprint input \<and>
          rf_taskId failure = at_taskId input \<and> rf_turnId failure = at_turnId input) candidates
      else find (correction_candidate input) candidates)"

datatype admission = Admitted "string option" | Denied "string option" string

definition ESCAPE_TOOLS :: "string list" where
  "ESCAPE_TOOLS = [''write_plan'', ''update_plan'', ''read_plan'', ''ask_user'', ''tool_search'']"

definition attempts_of :: "attempt_mode \<Rightarrow> recovery_failure \<Rightarrow> nat" where
  "attempts_of mode failure =
     (if mode = ModelCorrection then rf_modelCorrectionAttempts failure
      else rf_automaticRetryAttempts failure)"

definition recovery_allowed :: "attempt_mode \<Rightarrow> recovery_failure \<Rightarrow> bool" where
  "recovery_allowed mode failure =
     (let recovery = oc_recovery (rf_outcome failure) in
      if mode = ModelCorrection
      then rc_disposition recovery = CorrectArgs \<or> rc_disposition recovery = Alternative
      else rc_disposition recovery = RetryOnce \<and> rc_safeAutomaticRetry recovery)"

definition admitRecoveryAttempt :: "recovery_journal \<Rightarrow> attempt_input \<Rightarrow> admission" where
  "admitRecoveryAttempt journal input =
     (if journalInvalid journal then Denied None ''no_progress''
      else let guard = rj_qualityGuard journal;
               escapeTool = (at_toolName input \<in> set ESCAPE_TOOLS);
               qualityApplies = (qg_blocked guard \<and> scope_matches (qg_taskId guard) (at_taskId input) \<and>
                 scope_matches (qg_turnId guard) (at_turnId input)) in
        if qualityApplies \<and> \<not> escapeTool then Denied None ''no_progress''
        else case candidateFailure journal input of None \<Rightarrow> Admitted None
          | Some failure \<Rightarrow>
              let maximum = rc_maximumAdditionalCalls (oc_recovery (rf_outcome failure)) in
              if at_mode input = ModelCorrection \<and>
                 \<not> scope_matches (rf_eligibleModelMessageId failure) (Some (at_modelMessageId input))
              then Admitted None
              else if \<not> recovery_allowed (at_mode input) failure \<or> maximum = 0
              then Denied (Some (rf_failureInstanceId failure)) ''recovery_not_allowed''
              else if attempts_of (at_mode input) failure \<ge> maximum
              then Denied (Some (rf_failureInstanceId failure)) ''recovery_exhausted''
              else Admitted (Some (rf_failureInstanceId failure)))"

definition recordRecoveryInvocation ::
  "recovery_journal \<Rightarrow> string \<Rightarrow> attempt_mode \<Rightarrow> recovery_journal" where
  "recordRecoveryInvocation journal recoveryOf mode =
     (case map_of (rj_failures journal) recoveryOf of None \<Rightarrow> journal
      | Some failure \<Rightarrow>
          if rf_status failure \<noteq> Unresolved then journal
          else journal\<lparr>rj_failures := obj_set recoveryOf
            (if mode = ModelCorrection
             then failure\<lparr>rf_modelCorrectionAttempts := rf_modelCorrectionAttempts failure + 1\<rparr>
             else failure\<lparr>rf_automaticRetryAttempts := rf_automaticRetryAttempts failure + 1\<rparr>)
            (rj_failures journal)\<rparr>)"

section \<open>Progress and closing\<close>

datatype progress_kind =
    ContentRevision | PlanRevision | CapabilityRevision | ProviderRevision | Receipt
  | SkippedProgress | ReplannedProgress | UserActionProgress

fun progress_resolution :: "progress_kind \<Rightarrow> resolution" where
  "progress_resolution SkippedProgress = ResSkipped"
| "progress_resolution ReplannedProgress = ResReplanned"
| "progress_resolution PlanRevision = ResReplanned"
| "progress_resolution UserActionProgress = ResUserAction"
| "progress_resolution ProviderRevision = ResProviderRevision"
| "progress_resolution CapabilityRevision = ResProviderRevision"
| "progress_resolution _ = ResRecovered"

definition map_failures ::
  "(string \<Rightarrow> recovery_failure \<Rightarrow> recovery_failure) \<Rightarrow> recovery_failure jsobj \<Rightarrow> recovery_failure jsobj" where
  "map_failures f failures = map (\<lambda>(i, failure). (i, f i failure)) failures"

definition recordToolOwnedProgress ::
  "recovery_journal \<Rightarrow> progress_kind \<Rightarrow> string \<Rightarrow> string list option \<Rightarrow> recovery_journal" where
  "recordToolOwnedProgress journal kind referenceId resolvesFailureIds =
     (if referenceId = [] then journal
      else let resolved = filter (\<lambda>i. case map_of (rj_failures journal) i of None \<Rightarrow> False
                 | Some failure \<Rightarrow> failureStillBlocks failure) (or_default resolvesFailureIds []) in
        if resolved = [] then journal
        else journal\<lparr>
          rj_failures := map_failures (\<lambda>i failure.
            if rf_status failure \<noteq> Recovered \<and> i \<in> set resolved
            then failure\<lparr>rf_status := Recovered, rf_resolution := Some (progress_resolution kind)\<rparr>
            else failure) (rj_failures journal),
          rj_progressRevision := rj_progressRevision journal + 1,
          rj_qualityGuard := qualityAfterMutation journal empty_guard\<rparr>)"

definition hasUnresolvedToolFailures :: "recovery_journal \<Rightarrow> bool" where
  "hasUnresolvedToolFailures journal \<longleftrightarrow> blockedFailures journal \<noteq> []"

definition hasActiveUnresolvedToolFailures ::
  "recovery_journal \<Rightarrow> string option \<Rightarrow> string option \<Rightarrow> bool" where
  "hasActiveUnresolvedToolFailures journal taskId turnId =
     list_ex (\<lambda>failure. (taskId = None \<or> rf_taskId failure = taskId) \<and>
       (turnId = None \<or> rf_turnId failure = turnId)) (blockedFailures journal)"

definition isToolRecoveryQualityBlocked ::
  "recovery_journal \<Rightarrow> string option \<Rightarrow> string option \<Rightarrow> bool" where
  "isToolRecoveryQualityBlocked journal taskId turnId \<longleftrightarrow>
     journalInvalid journal \<or>
     qg_blocked (rj_qualityGuard journal) \<and>
     scope_matches (qg_taskId (rj_qualityGuard journal)) taskId \<and>
     scope_matches (qg_turnId (rj_qualityGuard journal)) turnId"

definition closes :: "(recovery_failure \<Rightarrow> bool) \<Rightarrow> recovery_failure \<Rightarrow> bool" where
  "closes predicate failure \<longleftrightarrow> rf_status failure \<noteq> Recovered \<and> predicate failure"

definition closeFailures ::
  "recovery_journal \<Rightarrow> (recovery_failure \<Rightarrow> bool) \<Rightarrow> resolution \<Rightarrow> recovery_journal" where
  "closeFailures journal predicate resolution =
     (let recover = (resolution \<in> {ResSkipped, ResReplanned, ResUserAction, ResProviderRevision});
          failures = map_failures (\<lambda>i failure.
            if \<not> closes predicate failure then failure
            else failure\<lparr>rf_status := (if recover then Recovered else Exhausted),
              rf_resolution := Some resolution\<rparr>) (rj_failures journal) in
      if list_ex (closes predicate) (obj_values (rj_failures journal))
      then journal\<lparr>rj_failures := failures, rj_qualityGuard := qualityAfterMutation journal empty_guard\<rparr>
      else journal)"

datatype recovery_scope =
  ScopeTask string | ScopeTurn string | ScopeFailures "string list" resolution

fun closeToolRecoveryScope :: "recovery_journal \<Rightarrow> recovery_scope \<Rightarrow> recovery_journal" where
  "closeToolRecoveryScope journal (ScopeTask taskId) =
     closeFailures journal (\<lambda>failure. rf_taskId failure = Some taskId) ResTaskClosed"
| "closeToolRecoveryScope journal (ScopeTurn turnId) =
     closeFailures journal (\<lambda>failure. rf_turnId failure = Some turnId) ResTurnClosed"
| "closeToolRecoveryScope journal (ScopeFailures failureIds resolution) =
     closeFailures journal (\<lambda>failure. rf_failureInstanceId failure \<in> set failureIds) resolution"

section \<open>The next model response\<close>

record response_input =
  ri_taskId :: "string option"
  ri_turnId :: "string option"
  ri_modelMessageId :: string
  ri_toolCalls :: "(string \<times> string) list"

record advance_state =
  ad_failures :: "recovery_failure jsobj"
  ad_claimed :: "string list"
  ad_changed :: bool

definition initial_claims :: "recovery_failure jsobj \<Rightarrow> string \<Rightarrow> string list" where
  "initial_claims failures messageId =
     es_set (List.map_filter (\<lambda>failure. truthy_option (rf_eligibleToolCallId failure))
       (filter (\<lambda>failure. rf_eligibleModelMessageId failure = Some messageId) (obj_values failures)))"

definition advance_skips :: "response_input \<Rightarrow> recovery_failure \<Rightarrow> bool" where
  "advance_skips input failure \<longleftrightarrow>
     \<not> failureStillBlocks failure \<or>
     rf_taskId failure \<noteq> ri_taskId input \<or> rf_turnId failure \<noteq> ri_turnId input \<or>
     rc_disposition (oc_recovery (rf_outcome failure)) = RetryOnce \<or>
     rf_modelMessageId failure = ri_modelMessageId input"

definition matching_call :: "response_input \<Rightarrow> string list \<Rightarrow> recovery_failure \<Rightarrow> (string \<times> string) option" where
  "matching_call input claimed failure =
     find (\<lambda>(i, name). i \<notin> set claimed \<and>
       (if rc_disposition (oc_recovery (rf_outcome failure)) = Alternative
        then alternativeMatches (rc_capabilityIntent (oc_recovery (rf_outcome failure))) name
        else rf_toolName failure = name)) (ri_toolCalls input)"

definition advance_one :: "response_input \<Rightarrow> advance_state \<Rightarrow> string \<Rightarrow> advance_state" where
  "advance_one input st i =
     (case map_of (ad_failures st) i of None \<Rightarrow> st
      | Some failure \<Rightarrow>
          if advance_skips input failure then st
          else if rf_eligibleModelMessageId failure = None \<or>
             rf_eligibleModelMessageId failure = Some (ri_modelMessageId input) \<and>
             rf_eligibleToolCallId failure = None
          then (case matching_call input (ad_claimed st) failure of
              Some call \<Rightarrow> st\<lparr>
                ad_failures := obj_set i (failure\<lparr>rf_eligibleModelMessageId := Some (ri_modelMessageId input),
                  rf_eligibleToolCallId := Some (fst call)\<rparr>) (ad_failures st),
                ad_claimed := set_add (ad_claimed st) (fst call), ad_changed := True\<rparr>
            | None \<Rightarrow> st\<lparr>
                ad_failures := obj_set i (failure\<lparr>rf_eligibleModelMessageId := Some (ri_modelMessageId input),
                  rf_status := Exhausted, rf_resolution := Some ResNextResponseElapsed\<rparr>) (ad_failures st),
                ad_changed := True\<rparr>)
          else if rf_eligibleModelMessageId failure \<noteq> Some (ri_modelMessageId input)
          then st\<lparr>ad_failures := obj_set i (failure\<lparr>rf_status := Exhausted,
              rf_resolution := Some ResNextResponseElapsed\<rparr>) (ad_failures st), ad_changed := True\<rparr>
          else st)"

definition advanceToolRecoveryResponse :: "recovery_journal \<Rightarrow> response_input \<Rightarrow> recovery_journal" where
  "advanceToolRecoveryResponse journal input =
     (let st = foldl (advance_one input)
          \<lparr>ad_failures = rj_failures journal,
           ad_claimed = initial_claims (rj_failures journal) (ri_modelMessageId input),
           ad_changed = False\<rparr> (rj_order journal) in
      if ad_changed st then journal\<lparr>rj_failures := ad_failures st\<rparr> else journal)"

definition recordRecoveryExhaustion ::
  "js_host \<Rightarrow> recovery_journal \<Rightarrow> failure_input \<Rightarrow> recovery_journal" where
  "recordRecoveryExhaustion h journal input =
     (let next = recordRecoveryFailure h journal input in
      if journalInvalid next then next
      else next\<lparr>rj_qualityGuard :=
        \<lparr>qg_blocked = True, qg_reasonCode = Some NoProgress,
         qg_observedFailures = max TOOL_RECOVERY_QUALITY_FAILURE_LIMIT
           (qg_observedFailures (rj_qualityGuard next)),
         qg_taskId = truthy_option (in_taskId input), qg_turnId = truthy_option (in_turn input)\<rparr>\<rparr>)"

definition createToolRecoveryJournal :: "string \<Rightarrow> recovery_journal res" where
  "createToolRecoveryJournal identityKey =
     (if \<not> is_sha256_hex identityKey
      then throw ''Tool recovery identityKey must be a canonical host-supplied key.''
      else Inr \<lparr>rj_identityKey = identityKey, rj_failures = [], rj_order = [],
        rj_progressRevision = 0, rj_qualityGuard = empty_guard\<rparr>)"

end
