(* ===== verification/Kite_Recovery_Inv.thy ===== *)
theory Kite_Recovery_Inv
  imports Kite_Recovery
begin

text \<open>
  The recovery journal of Kite_Recovery stays well-formed and bounded under every operation, a
  corrupt journal stays blocked, admissions respect their scope and attempt limit, and closing a
  scope or recording progress has its intended effect.
\<close>

section \<open>Sets and objects built by loops\<close>

lemma set_add_simps [simp]:
  "set (set_add xs x) = insert x (set xs)"
  "distinct xs \<Longrightarrow> distinct (set_add xs x)"
  by (auto simp: set_add_def)

lemma set_foldl_set_add [simp]: "set (foldl set_add xs ys) = set xs \<union> set ys"
  by (induction ys arbitrary: xs) auto

lemma distinct_foldl_set_add: "distinct xs \<Longrightarrow> distinct (foldl set_add xs ys)"
  by (induction ys arbitrary: xs) simp_all

lemma length_filter_weaken: "(\<And>x. P x \<Longrightarrow> Q x) \<Longrightarrow> length (filter P xs) \<le> length (filter Q xs)"
  by (induction xs) auto

lemma length_foldl_set_add:
  "length (foldl set_add xs ys) \<le> length xs + length (filter (\<lambda>y. y \<notin> set xs) ys)"
proof (induction ys arbitrary: xs)
  case Nil
  then show ?case by simp
next
  case (Cons y ys)
  have "length (filter (\<lambda>z. z \<notin> set (set_add xs y)) ys) \<le> length (filter (\<lambda>z. z \<notin> set xs) ys)"
    by (rule length_filter_weaken) simp
  then show ?case using Cons.IH [of "set_add xs y"] by (auto simp: set_add_def)
qed

lemma es_set_simps [simp]: "set (es_set xs) = set xs" "distinct (es_set xs)"
  by (simp_all add: es_set_def distinct_foldl_set_add)

lemma map_of_foldl_obj_set:
  "distinct (map fst kvs) \<Longrightarrow>
   map_of (foldl (\<lambda>o' (k, v). obj_set k v o') o' kvs) k =
     (case map_of kvs k of None \<Rightarrow> map_of o' k | Some v \<Rightarrow> Some v)"
proof (induction kvs arbitrary: o')
  case Nil
  then show ?case by simp
next
  case (Cons kv kvs)
  obtain k' v' where kv: "kv = (k', v')" by (cases kv)
  with Cons.prems have "map_of kvs k' = None" by (simp add: map_of_eq_None_iff)
  then show ?case using Cons.IH [of "obj_set k' v' o'"] Cons.prems kv
    by (auto split: option.splits)
qed

lemma distinct_keys_foldl_obj_set:
  "distinct_keys o' \<Longrightarrow> distinct_keys (foldl (\<lambda>o' (k, v). obj_set k v o') o' kvs)"
  by (induction kvs arbitrary: o') auto

lemma obj_from_entries_get:
  "distinct is \<Longrightarrow> map_of (obj_from_entries (map (\<lambda>i. (i, f i)) is)) k = (if k \<in> set is then Some (f k) else None)"
proof -
  assume d: "distinct is"
  then have "distinct (map fst (map (\<lambda>i. (i, f i)) is))" by (simp add: comp_def)
  moreover have "map_of (map (\<lambda>i. (i, f i)) is) k = (if k \<in> set is then Some (f k) else None)"
    by (induction "is") auto
  ultimately show ?thesis
    unfolding obj_from_entries_def by (simp add: map_of_foldl_obj_set)
qed

lemma distinct_keys_obj_from_entries [simp]: "distinct_keys (obj_from_entries kvs)"
  unfolding obj_from_entries_def by (rule distinct_keys_foldl_obj_set) simp

lemma map_failures_get [simp]: "map_of (map_failures f failures) k = map_option (f k) (map_of failures k)"
  by (induction failures) (auto simp: map_failures_def)

lemma map_failures_keys [simp]: "obj_keys (map_failures f failures) = obj_keys failures"
  by (induction failures) (auto simp: map_failures_def)

lemma distinct_keys_map_failures [simp]: "distinct_keys (map_failures f failures) = distinct_keys failures"
  by (simp add: distinct_keys_def)

section \<open>Compaction\<close>

lemma closure_loop_parents:
  "i \<in> set (closure_loop failures seen current) \<Longrightarrow> map_of failures i = Some f \<Longrightarrow>
   recovery_parent f = Some p \<Longrightarrow> map_of failures p \<noteq> None \<Longrightarrow>
   p \<in> set seen \<or> p \<in> set (closure_loop failures seen current)"
proof (induction failures seen current rule: closure_loop.induct)
  case (1 failures seen current)
  note eq = closure_loop.simps [of failures seen current]
  from "1.prems"(1) obtain c g where c: "current = Some c" "c \<noteq> []" "c \<notin> set seen"
    "map_of failures c = Some g"
    by (auto simp: eq split: option.splits if_splits)
  let ?rest = "closure_loop failures (c # seen) (oc_recoveryOf (rf_outcome g))"
  have unfold: "closure_loop failures seen current = c # ?rest" unfolding eq using c by simp
  show ?case
  proof (cases "i = c")
    case True
    then have "oc_recoveryOf (rf_outcome g) = Some p" "p \<noteq> []"
      using "1.prems"(2,3) c(4)
      by (auto simp: recovery_parent_def truthy_option_def split: option.splits if_splits)
    then have "p \<in> set (c # seen) \<or> p \<in> set ?rest"
      using "1.prems"(4) by (auto simp: closure_loop.simps [of failures "c # seen"])
    then show ?thesis unfolding unfold by auto
  next
    case False
    then have "i \<in> set ?rest" using "1.prems"(1) unfolding unfold by simp
    then have "p \<in> set (c # seen) \<or> p \<in> set ?rest"
      using "1.IH" [OF c(1) _ c(4)] c(2,3) "1.prems"(2-4) by blast
    then show ?thesis unfolding unfold by auto
  qed
qed

definition lineage_closed :: "recovery_failure jsobj \<Rightarrow> string set \<Rightarrow> bool" where
  "lineage_closed failures S \<longleftrightarrow>
     (\<forall>i f p. i \<in> S \<and> map_of failures i = Some f \<and> recovery_parent f = Some p \<and>
        map_of failures p \<noteq> None \<longrightarrow> p \<in> S)"

lemma lineage_closedD:
  "lineage_closed failures S \<Longrightarrow> i \<in> S \<Longrightarrow> map_of failures i = Some f \<Longrightarrow>
   recovery_parent f = Some p \<Longrightarrow> map_of failures p \<noteq> None \<Longrightarrow> p \<in> S"
  by (auto simp: lineage_closed_def)

lemma lineage_closed_closure: "lineage_closed failures (set (closure_loop failures [] (Some c)))"
  unfolding lineage_closed_def using closure_loop_parents [of _ failures "[]" "Some c"] by auto

lemma lineage_closed_Un:
  "lineage_closed failures S \<Longrightarrow> lineage_closed failures T \<Longrightarrow> lineage_closed failures (S \<union> T)"
  unfolding lineage_closed_def by blast

lemma lineage_closed_empty [simp]: "lineage_closed failures {}"
  by (simp add: lineage_closed_def)

lemma retain_loop_spec:
  "distinct ret \<Longrightarrow> length ret \<le> 128 \<Longrightarrow> lineage_closed failures (set ret) \<Longrightarrow>
   distinct (retain_loop failures ret cs) \<and> length (retain_loop failures ret cs) \<le> 128 \<and>
   lineage_closed failures (set (retain_loop failures ret cs)) \<and>
   set ret \<subseteq> set (retain_loop failures ret cs)"
proof (induction cs arbitrary: ret)
  case Nil
  then show ?case by simp
next
  case (Cons c cs)
  let ?C = "closure_loop failures [] (Some c)"
  let ?ret = "foldl set_add ret ?C"
  have new: "distinct ?ret" "lineage_closed failures (set ?ret)" "set ret \<subseteq> set ?ret"
    using Cons.prems by (simp_all add: distinct_foldl_set_add lineage_closed_Un lineage_closed_closure)
  have len: "length ?ret \<le> 128"
    if "length ret + length (filter (\<lambda>i. i \<notin> set ret) ?C) \<le> 128"
    using that length_foldl_set_add [of ret ?C] by linarith
  show ?case
  proof (cases "c \<in> set ret \<or> length ret + length (filter (\<lambda>i. i \<notin> set ret) ?C) > 128")
    case True
    then show ?thesis using Cons by (auto simp: Let_def)
  next
    case False
    then have eq: "retain_loop failures ret (c # cs) =
        (if length ?ret = 128 then ?ret else retain_loop failures ?ret cs)"
      by (simp add: Let_def)
    have "length ?ret \<le> 128" using len False by simp
    then show ?thesis unfolding eq using Cons.IH [OF new(1) _ new(2)] new
      by (cases "length ?ret = 128") auto
  qed
qed

lemma compactFailures_spec:
  assumes "distinct_keys failures" and "set (obj_keys failures) \<subseteq> set ord"
    and "compactFailures failures ord = (fs, o')"
  shows "distinct o'" "length o' \<le> 128" "set o' \<subseteq> set ord" "distinct_keys fs"
    "set (obj_keys fs) = set o'" "\<And>i f. map_of fs i = Some f \<Longrightarrow> map_of failures i = Some f"
    "lineage_closed failures (set o')"
proof -
  define order where "order = filter (\<lambda>i. map_of failures i \<noteq> None) (es_set ord)"
  have order: "distinct order" "set order = set (obj_keys failures)"
    using assms(2) by (auto simp: order_def in_obj_keys_iff)
  have "distinct o' \<and> length o' \<le> 128 \<and> set o' \<subseteq> set ord \<and> distinct_keys fs \<and>
    set (obj_keys fs) = set o' \<and> (\<forall>i f. map_of fs i = Some f \<longrightarrow> map_of failures i = Some f) \<and>
    lineage_closed failures (set o')"
  proof (cases "length order \<le> 128")
    case True
    then have "fs = failures" "o' = order"
      using assms(3) unfolding compactFailures_def Let_def order_def [symmetric] by simp_all
    then show ?thesis using True order assms(1,2) by (auto simp: lineage_closed_def in_obj_keys_iff)
  next
    case False
    define ret where "ret = retain_loop failures []
      (filter (\<lambda>i. failureStillBlocks (the (map_of failures i))) (rev order) @
       filter (\<lambda>i. \<not> failureStillBlocks (the (map_of failures i))) (rev order))"
    have ret: "distinct ret" "length ret \<le> 128" "lineage_closed failures (set ret)"
      using retain_loop_spec [of "[]" failures] by (simp_all add: ret_def)
    have o': "o' = filter (\<lambda>i. i \<in> set ret) order"
      and fs: "fs = obj_from_entries (map (\<lambda>i. (i, the (map_of failures i))) o')"
      using False assms(3) unfolding compactFailures_def Let_def order_def [symmetric] ret_def
      by auto
    have d: "distinct o'" using order(1) o' by simp
    have "length o' = card (set o')" using d by (simp add: distinct_card)
    also have "\<dots> \<le> card (set ret)" by (rule card_mono) (auto simp: o')
    also have "\<dots> \<le> 128" using ret(1,2) by (simp add: distinct_card)
    finally have len: "length o' \<le> 128" .
    have get: "map_of fs i = (if i \<in> set o' then Some (the (map_of failures i)) else None)" for i
      unfolding fs by (rule obj_from_entries_get [OF d])
    have present: "map_of failures i \<noteq> None" if "i \<in> set o'" for i
      using that order(2) by (simp add: o' in_obj_keys_iff)
    have "set o' = set ret \<inter> set (obj_keys failures)" using order(2) by (auto simp: o')
    then have "lineage_closed failures (set o')"
      using ret(3) unfolding lineage_closed_def by (auto simp: in_obj_keys_iff)
    moreover have "set (obj_keys fs) = set o'"
      by (rule set_eqI) (simp add: in_obj_keys_iff get)
    moreover have "distinct_keys fs" by (simp add: fs)
    moreover have "map_of failures i = Some f" if "map_of fs i = Some f" for i f
      using that present [of i] by (auto simp: get split: if_splits)
    moreover have "set o' \<subseteq> set ord" by (auto simp: o' order_def)
    ultimately show ?thesis using d len by simp
  qed
  then show "distinct o'" "length o' \<le> 128" "set o' \<subseteq> set ord" "distinct_keys fs"
    "set (obj_keys fs) = set o'" "\<And>i f. map_of fs i = Some f \<Longrightarrow> map_of failures i = Some f"
    "lineage_closed failures (set o')" by blast+
qed

section \<open>The journal invariant\<close>

definition failure_ok :: "string \<Rightarrow> recovery_failure \<Rightarrow> bool" where
  "failure_ok k f \<longleftrightarrow> k = rf_failureInstanceId f \<and> is_sha256_hex k \<and>
     (rf_eligibleToolCallId f \<noteq> None \<longrightarrow> rf_eligibleModelMessageId f \<noteq> None)"

text \<open>No tool call of a model response is claimed as the recovery of two failures.\<close>

definition claims :: "recovery_failure \<Rightarrow> string \<Rightarrow> string \<Rightarrow> bool" where
  "claims f m c \<longleftrightarrow> rf_eligibleModelMessageId f = Some m \<and> rf_eligibleToolCallId f = Some c \<and> c \<noteq> []"

definition claims_unique :: "recovery_failure jsobj \<Rightarrow> bool" where
  "claims_unique failures \<longleftrightarrow>
     (\<forall>k k' f f' m c. map_of failures k = Some f \<and> map_of failures k' = Some f' \<and>
        claims f m c \<and> claims f' m c \<longrightarrow> k = k')"

definition failures_ok :: "recovery_failure jsobj \<Rightarrow> bool" where
  "failures_ok failures \<longleftrightarrow>
     distinct_keys failures \<and> js_object.every failure_ok failures \<and> claims_unique failures"

definition guard_ok :: "quality_guard \<Rightarrow> bool" where
  "guard_ok g \<longleftrightarrow> qg_observedFailures g \<le> 250 \<and> (qg_blocked g \<longleftrightarrow> qg_reasonCode g \<noteq> None)"

definition journal_ok :: "recovery_journal \<Rightarrow> bool" where
  "journal_ok j \<longleftrightarrow>
     failures_ok (rj_failures j) \<and> guard_ok (rj_qualityGuard j) \<and>
     distinct (rj_order j) \<and> length (rj_order j) \<le> 128 \<and>
     set (rj_order j) = set (obj_keys (rj_failures j))"

text \<open>Replacing entries by ones with the same identity and claim keeps the failures in order.\<close>

definition same_claim :: "recovery_failure \<Rightarrow> recovery_failure \<Rightarrow> bool" where
  "same_claim f g \<longleftrightarrow> rf_failureInstanceId f = rf_failureInstanceId g \<and>
     rf_eligibleModelMessageId f = rf_eligibleModelMessageId g \<and>
     rf_eligibleToolCallId f = rf_eligibleToolCallId g"

lemma same_claim_refl [simp]: "same_claim f f"
  by (simp add: same_claim_def)

lemma same_claim_facts: "same_claim f g \<Longrightarrow> claims f m c = claims g m c \<and> failure_ok k f = failure_ok k g"
  by (simp add: same_claim_def claims_def failure_ok_def)

lemma failures_okD:
  "failures_ok failures \<Longrightarrow> distinct_keys failures"
  "failures_ok failures \<Longrightarrow> map_of failures k = Some f \<Longrightarrow> failure_ok k f"
  "failures_ok failures \<Longrightarrow> map_of failures k = Some f \<Longrightarrow> map_of failures k' = Some f' \<Longrightarrow>
     claims f m c \<Longrightarrow> claims f' m c \<Longrightarrow> k = k'"
  unfolding failures_ok_def js_object.every_def claims_unique_def by blast+

lemma failures_okI:
  assumes "distinct_keys failures" "\<And>k f. map_of failures k = Some f \<Longrightarrow> failure_ok k f"
    and "\<And>k k' f f' m c. map_of failures k = Some f \<Longrightarrow> map_of failures k' = Some f' \<Longrightarrow>
      claims f m c \<Longrightarrow> claims f' m c \<Longrightarrow> k = k'"
  shows "failures_ok failures"
  using assms unfolding failures_ok_def js_object.every_def claims_unique_def by blast

lemma failures_ok_shrink:
  assumes ok: "failures_ok failures" and "distinct_keys fs"
    and sub: "\<And>k f. map_of fs k = Some f \<Longrightarrow> \<exists>g. map_of failures k = Some g \<and> same_claim f g"
  shows "failures_ok fs"
proof (rule failures_okI [OF assms(2)])
  fix k f assume "map_of fs k = Some f"
  then obtain g where "map_of failures k = Some g" "same_claim f g" using sub by blast
  then show "failure_ok k f" using failures_okD(2) [OF ok] same_claim_facts by blast
next
  fix k k' f f' m c
  assume "map_of fs k = Some f" "map_of fs k' = Some f'" "claims f m c" "claims f' m c"
  moreover from this obtain g g' where "map_of failures k = Some g" "same_claim f g"
    "map_of failures k' = Some g'" "same_claim f' g'" using sub by meson
  ultimately show "k = k'" using failures_okD(3) [OF ok, of k g k' g' m c] same_claim_facts by blast
qed

lemma failures_ok_update:
  assumes "failures_ok fs" "map_of fs k = Some f" "same_claim f' f"
  shows "failures_ok (obj_set k f' fs)" "set (obj_keys (obj_set k f' fs)) = set (obj_keys fs)"
proof -
  show "failures_ok (obj_set k f' fs)"
    using assms by (intro failures_ok_shrink [OF assms(1)])
      (simp_all add: failures_okD(1) split: if_splits)
  show "set (obj_keys (obj_set k f' fs)) = set (obj_keys fs)"
    using assms(2) by (intro set_eqI) (simp add: in_obj_keys_iff)
qed

lemma failures_ok_map:
  assumes "failures_ok fs" "\<And>i f. same_claim (t i f) f"
  shows "failures_ok (map_failures t fs)"
proof (rule failures_ok_shrink [OF assms(1)])
  fix k f assume "map_of (map_failures t fs) k = Some f"
  then show "\<exists>g. map_of fs k = Some g \<and> same_claim f g"
    using assms(2) by (cases "map_of fs k") auto
qed (simp add: failures_okD(1) [OF assms(1)])

lemma failures_ok_new:
  assumes "failures_ok failures" and "map_of failures k = None" and "failure_ok k f"
    and "rf_eligibleToolCallId f = None"
  shows "failures_ok (obj_set k f failures)"
proof (rule failures_okI)
  show "distinct_keys (obj_set k f failures)" using assms(1) by (simp add: failures_okD(1))
next
  fix i g assume "map_of (obj_set k f failures) i = Some g"
  then show "failure_ok i g" using assms(3) failures_okD(2) [OF assms(1)] by (cases "i = k") simp_all
next
  fix i i' g g' m c
  assume "map_of (obj_set k f failures) i = Some g" "map_of (obj_set k f failures) i' = Some g'"
    and c: "claims g m c" "claims g' m c"
  moreover have "\<not> claims f m c" using assms(4) by (simp add: claims_def)
  ultimately have "map_of failures i = Some g" "map_of failures i' = Some g'"
    by (auto split: if_splits)
  then show "i = i'" using failures_okD(3) [OF assms(1)] c by blast
qed

lemma journal_okI:
  "failures_ok fs \<Longrightarrow> set (obj_keys fs) = set (obj_keys (rj_failures j)) \<Longrightarrow> guard_ok g \<Longrightarrow> journal_ok j \<Longrightarrow>
   journal_ok (j\<lparr>rj_failures := fs, rj_qualityGuard := g\<rparr>)"
  by (simp add: journal_ok_def)

lemma guard_ok_empty [simp]: "guard_ok empty_guard"
  by (simp add: guard_ok_def empty_guard_def)

lemma guard_ok_mutation: "journal_ok j \<Longrightarrow> guard_ok g \<Longrightarrow> guard_ok (qualityAfterMutation j g)"
  by (simp add: qualityAfterMutation_def journal_ok_def)

section \<open>Every operation keeps the invariant\<close>

lemma journal_failures_ok: "journal_ok j \<Longrightarrow> failures_ok (rj_failures j)"
  by (simp add: journal_ok_def)

lemma recordRecoveryInvocation_ok:
  assumes "journal_ok j"
  shows "journal_ok (recordRecoveryInvocation j r mode)"
proof -
  have "journal_ok (j\<lparr>rj_failures := obj_set r f' (rj_failures j)\<rparr>)"
    if "map_of (rj_failures j) r = Some f" "same_claim f' f" for f f'
    using assms failures_ok_update [OF journal_failures_ok [OF assms] that] by (simp add: journal_ok_def)
  then show ?thesis
    using assms by (auto simp: recordRecoveryInvocation_def same_claim_def split: option.split)
qed

lemma recordToolOwnedProgress_ok:
  assumes "journal_ok j"
  shows "journal_ok (recordToolOwnedProgress j kind r ids)"
proof -
  have "journal_ok (j\<lparr>rj_failures := map_failures t (rj_failures j),
      rj_progressRevision := n, rj_qualityGuard := qualityAfterMutation j empty_guard\<rparr>)"
    if "\<And>i f. same_claim (t i f) f" for t n
    using assms failures_ok_map [OF journal_failures_ok [OF assms] that]
      guard_ok_mutation [OF assms guard_ok_empty]
    by (simp add: journal_ok_def)
  then show ?thesis using assms by (simp add: recordToolOwnedProgress_def Let_def same_claim_def)
qed

lemma closeFailures_ok:
  assumes "journal_ok j"
  shows "journal_ok (closeFailures j P r)"
proof -
  have "journal_ok (j\<lparr>rj_failures := map_failures t (rj_failures j),
      rj_qualityGuard := qualityAfterMutation j empty_guard\<rparr>)"
    if "\<And>i f. same_claim (t i f) f" for t
    using assms failures_ok_map [OF journal_failures_ok [OF assms] that]
      guard_ok_mutation [OF assms guard_ok_empty]
    by (intro journal_okI) simp_all
  then show ?thesis using assms by (simp add: closeFailures_def Let_def same_claim_def)
qed

lemma closeToolRecoveryScope_ok: "journal_ok j \<Longrightarrow> journal_ok (closeToolRecoveryScope j scope)"
  by (cases scope) (simp_all add: closeFailures_ok)

lemma new_failure_ok:
  "failure_ok (toolFailureInstanceId h (in_toolCallId i) (in_invocationFingerprint i) (in_outcome i))
     (new_failure h j i p)"
  by (simp add: failure_ok_def new_failure_def Let_def toolFailureInstanceId_def sha256Hex_def
      sha256HexBytes_hex)

lemma recordRecoveryFailure_ok:
  assumes j: "journal_ok j"
  shows "journal_ok (recordRecoveryFailure h j input)"
proof -
  define i where "i = toolFailureInstanceId h (in_toolCallId input) (in_invocationFingerprint input) (in_outcome input)"
  define parent where "parent = (case truthy_option (oc_recoveryOf (in_outcome input)) of None \<Rightarrow> None
      | Some p \<Rightarrow> map_of (rj_failures j) p)"
  define f where "f = new_failure h j input parent"
  define closed where "closed = (case parent of None \<Rightarrow> rj_failures j
      | Some p \<Rightarrow> obj_set (rf_failureInstanceId p)
          (p\<lparr>rf_status := Exhausted, rf_resolution := Some ResTerminal\<rparr>) (rj_failures j))"
  define failures where "failures = obj_set i f closed"
  define c where "c = compactFailures failures (rj_order j @ [i])"
  have fj: "failures_ok (rj_failures j)" using j by (simp add: journal_ok_def)
  have "failures_ok closed \<and> set (obj_keys closed) = set (obj_keys (rj_failures j))"
  proof (cases parent)
    case None
    then show ?thesis using fj by (simp add: closed_def)
  next
    case (Some p)
    then obtain k where k: "map_of (rj_failures j) k = Some p"
      by (auto simp: parent_def split: option.splits)
    then have "rf_failureInstanceId p = k" using failures_okD(2) [OF fj] by (auto simp: failure_ok_def)
    then show ?thesis using Some failures_ok_update [OF fj k] by (simp add: closed_def same_claim_def)
  qed
  then have closed: "failures_ok closed" "set (obj_keys closed) = set (obj_keys (rj_failures j))"
    by blast+
  show ?thesis
  proof (cases "oc_status (in_outcome input) = OutSuccess \<or> map_of (rj_failures j) i \<noteq> None")
    case True
    then show ?thesis using j by (auto simp: recordRecoveryFailure_def Let_def i_def)
  next
    case False
    then have "i \<notin> set (obj_keys closed)" using closed(2) by (simp add: in_obj_keys_iff)
    then have ok: "failures_ok failures"
      unfolding failures_def f_def i_def
      by (intro failures_ok_new closed(1) new_failure_ok) (auto simp: in_obj_keys_iff new_failure_def Let_def)
    have keys: "set (obj_keys failures) \<subseteq> set (rj_order j @ [i])"
      using j closed(2) by (auto simp: failures_def journal_ok_def in_obj_keys_iff split: if_splits)
    obtain fs o' where fo: "c = (fs, o')" by (cases c)
    note spec = compactFailures_spec [OF _ keys, of fs o']
    have d: "distinct_keys failures" using ok by (simp add: failures_ok_def)
    have eq: "compactFailures failures (rj_order j @ [i]) = (fs, o')" using fo c_def by simp
    have fs: "failures_ok fs"
      using spec(6) [OF d eq] spec(4) [OF d eq] same_claim_refl
      by (intro failures_ok_shrink [OF ok]) blast+
    have guard: "guard_ok (qualityAfterMutation j \<lparr>qg_blocked = b,
        qg_reasonCode = (if b then Some NoProgress else None),
        qg_observedFailures = min TOOL_RECOVERY_OBSERVATION_CAP n, qg_taskId = t, qg_turnId = u\<rparr>)" for b n t u
      by (rule guard_ok_mutation [OF j]) (simp add: guard_ok_def TOOL_RECOVERY_OBSERVATION_CAP_def)
    have "recordRecoveryFailure h j input = j\<lparr>rj_failures := fs, rj_order := o',
        rj_qualityGuard := rj_qualityGuard (recordRecoveryFailure h j input)\<rparr>"
      and "guard_ok (rj_qualityGuard (recordRecoveryFailure h j input))"
      using False guard fo
      unfolding recordRecoveryFailure_def Let_def i_def [symmetric] parent_def [symmetric]
        f_def [symmetric] closed_def [symmetric] failures_def [symmetric] c_def [symmetric]
      by simp_all
    moreover have "journal_ok (j\<lparr>rj_failures := fs, rj_order := o', rj_qualityGuard := g\<rparr>)"
      if "guard_ok g" for g
      using that fs spec(1,2,5) [OF d eq] by (simp add: journal_ok_def)
    ultimately show ?thesis by metis
  qed
qed

lemma recordRecoveryExhaustion_ok: "journal_ok j \<Longrightarrow> journal_ok (recordRecoveryExhaustion h j input)"
  using recordRecoveryFailure_ok [of j h input]
  by (auto simp: recordRecoveryExhaustion_def Let_def journal_ok_def guard_ok_def
      TOOL_RECOVERY_QUALITY_FAILURE_LIMIT_def)

lemma failures_ok_claim:
  assumes ok: "failures_ok fs" and "failure_ok k f'"
    and fresh: "\<And>m c i g. claims f' m c \<Longrightarrow> map_of fs i = Some g \<Longrightarrow> i \<noteq> k \<Longrightarrow> \<not> claims g m c"
  shows "failures_ok (obj_set k f' fs)"
proof (rule failures_okI)
  show "distinct_keys (obj_set k f' fs)" using ok by (simp add: failures_okD(1))
next
  fix i g assume "map_of (obj_set k f' fs) i = Some g"
  then show "failure_ok i g" using assms(2) failures_okD(2) [OF ok] by (cases "i = k") simp_all
next
  fix i i' g g' m c
  assume "map_of (obj_set k f' fs) i = Some g" "map_of (obj_set k f' fs) i' = Some g'"
    and c: "claims g m c" "claims g' m c"
  then show "i = i'" using fresh failures_okD(3) [OF ok] by (cases "i = k"; cases "i' = k") auto
qed

text \<open>Every call claimed for the response is in the loop's set of claimed calls.\<close>

definition advance_inv :: "string \<Rightarrow> string set \<Rightarrow> advance_state \<Rightarrow> bool" where
  "advance_inv m ks st \<longleftrightarrow>
     failures_ok (ad_failures st) \<and> set (obj_keys (ad_failures st)) = ks \<and>
     (\<forall>k f c. map_of (ad_failures st) k = Some f \<and> claims f m c \<longrightarrow> c \<in> set (ad_claimed st))"

lemma advance_invI:
  "failures_ok (ad_failures st) \<Longrightarrow> set (obj_keys (ad_failures st)) = ks \<Longrightarrow>
   (\<And>k f c. map_of (ad_failures st) k = Some f \<Longrightarrow> claims f m c \<Longrightarrow> c \<in> set (ad_claimed st)) \<Longrightarrow>
   advance_inv m ks st"
  unfolding advance_inv_def by blast

lemma advance_inv_put:
  assumes inv: "advance_inv m ks st" and get: "map_of (ad_failures st) k = Some f"
    and "rf_failureInstanceId f' = rf_failureInstanceId f"
    and "rf_eligibleModelMessageId f' = Some m" "rf_eligibleToolCallId f' = c'"
    and "c' = None \<or> (\<exists>c. c' = Some c \<and> c \<notin> set (ad_claimed st) \<and> c \<in> set cl)"
    and "set (ad_claimed st) \<subseteq> set cl"
  shows "advance_inv m ks (st\<lparr>ad_failures := obj_set k f' (ad_failures st), ad_claimed := cl, ad_changed := b\<rparr>)"
proof -
  have ok: "failures_ok (ad_failures st)" using inv by (simp add: advance_inv_def)
  have "failure_ok k f'" using failures_okD(2) [OF ok get] assms(3,4) by (auto simp: failure_ok_def)
  moreover have "\<not> claims g n c" if "claims f' n c" "map_of (ad_failures st) i = Some g" for i g n c
    using that assms(4-6) inv by (auto simp: claims_def advance_inv_def)
  ultimately have ok': "failures_ok (obj_set k f' (ad_failures st))"
    by (intro failures_ok_claim [OF ok]) blast+
  have keys: "set (obj_keys (obj_set k f' (ad_failures st))) = ks"
    using inv get by (intro set_eqI) (auto simp: advance_inv_def in_obj_keys_iff)
  have cl: "c \<in> set cl" if "map_of (obj_set k f' (ad_failures st)) i = Some g" "claims g m c" for i g c
    using that assms(5-7) inv by (cases "i = k") (auto simp: claims_def advance_inv_def)
  show ?thesis
  proof (rule advance_invI)
    fix i g c
    assume "map_of (ad_failures (st\<lparr>ad_failures := obj_set k f' (ad_failures st), ad_claimed := cl,
      ad_changed := b\<rparr>)) i = Some g" "claims g m c"
    then show "c \<in> set (ad_claimed (st\<lparr>ad_failures := obj_set k f' (ad_failures st), ad_claimed := cl,
      ad_changed := b\<rparr>))" using cl [of i g c] by simp
  qed (simp_all add: ok' keys)
qed

lemma advance_inv_same:
  assumes inv: "advance_inv m ks st" and get: "map_of (ad_failures st) k = Some f" and "same_claim f' f"
  shows "advance_inv m ks (st\<lparr>ad_failures := obj_set k f' (ad_failures st), ad_changed := b\<rparr>)"
proof -
  have ok: "failures_ok (ad_failures st)" using inv by (simp add: advance_inv_def)
  have cl: "c \<in> set (ad_claimed st)" if "map_of (obj_set k f' (ad_failures st)) i = Some g" "claims g m c" for i g c
    using that inv get same_claim_facts [OF assms(3)] by (cases "i = k") (auto simp: advance_inv_def)
  have keys: "set (obj_keys (ad_failures st)) = ks" using inv by (simp add: advance_inv_def)
  show ?thesis
  proof (rule advance_invI)
    fix i g c
    assume "map_of (ad_failures (st\<lparr>ad_failures := obj_set k f' (ad_failures st), ad_changed := b\<rparr>)) i = Some g"
      "claims g m c"
    then show "c \<in> set (ad_claimed (st\<lparr>ad_failures := obj_set k f' (ad_failures st), ad_changed := b\<rparr>))"
      using cl [of i g c] by simp
  qed (simp_all add: failures_ok_update [OF ok get assms(3)] keys)
qed

lemma advance_one_inv:
  assumes inv: "advance_inv (ri_modelMessageId input) ks st"
  shows "advance_inv (ri_modelMessageId input) ks (advance_one input st i)"
proof (cases "map_of (ad_failures st) i")
  case None
  then show ?thesis using inv by (simp add: advance_one_def)
next
  case (Some f)
  let ?m = "ri_modelMessageId input"
  have fok: "failure_ok i f" using inv failures_okD(2) Some by (auto simp: advance_inv_def)
  consider (skip) "advance_skips input f" | (elapsed) "\<not> advance_skips input f"
      "rf_eligibleModelMessageId f \<noteq> None" "rf_eligibleModelMessageId f \<noteq> Some ?m"
    | (bound) "\<not> advance_skips input f" "rf_eligibleModelMessageId f = Some ?m" "rf_eligibleToolCallId f \<noteq> None"
    | (claim) "\<not> advance_skips input f" "rf_eligibleModelMessageId f = None \<or>
        rf_eligibleModelMessageId f = Some ?m \<and> rf_eligibleToolCallId f = None"
    by metis
  then show ?thesis
  proof cases
    case skip
    then show ?thesis using inv Some by (simp add: advance_one_def)
  next
    case elapsed
    then obtain y where "rf_eligibleModelMessageId f = Some y" by blast
    with elapsed show ?thesis
      using advance_inv_same [OF inv Some] by (simp add: advance_one_def Some same_claim_def)
  next
    case bound
    then show ?thesis using inv Some by (auto simp: advance_one_def)
  next
    case claim
    then have no_call: "rf_eligibleToolCallId f = None" using fok by (auto simp: failure_ok_def)
    show ?thesis
    proof (cases "matching_call input (ad_claimed st) f")
      case None
      then show ?thesis
        using claim Some no_call advance_inv_put [OF inv Some, of _ None "ad_claimed st"]
        by (simp add: advance_one_def)
    next
      case call: (Some call)
      then have "fst call \<notin> set (ad_claimed st)"
        by (auto simp: matching_call_def find_Some_iff)
      then show ?thesis
        using claim Some call
          advance_inv_put [OF inv Some, of _ "Some (fst call)" "set_add (ad_claimed st) (fst call)"]
        by (simp add: advance_one_def subset_insertI)
    qed
  qed
qed

lemma advance_fold_inv:
  "advance_inv (ri_modelMessageId input) ks st \<Longrightarrow>
   advance_inv (ri_modelMessageId input) ks (foldl (advance_one input) st is)"
  by (induction "is" arbitrary: st) (simp_all add: advance_one_inv)

lemma initial_claims_complete:
  "map_of failures k = Some f \<Longrightarrow> claims f m c \<Longrightarrow> c \<in> set (initial_claims failures m)"
  unfolding initial_claims_def es_set_simps claims_def
  by (auto simp: List.map_filter_def obj_values_def truthy_option_def image_iff
      intro!: bexI [of _ f] dest!: map_of_SomeD)

lemma advanceToolRecoveryResponse_ok:
  assumes "journal_ok j"
  shows "journal_ok (advanceToolRecoveryResponse j input)"
proof -
  let ?st = "\<lparr>ad_failures = rj_failures j,
    ad_claimed = initial_claims (rj_failures j) (ri_modelMessageId input), ad_changed = False\<rparr>"
  have "advance_inv (ri_modelMessageId input) (set (obj_keys (rj_failures j))) ?st"
    using assms initial_claims_complete by (auto simp: advance_inv_def journal_ok_def)
  from advance_fold_inv [OF this, of "rj_order j"] show ?thesis
    using assms by (simp add: advanceToolRecoveryResponse_def Let_def advance_inv_def journal_ok_def)
qed

section \<open>Reachable journals\<close>

inductive journal_step :: "js_host \<Rightarrow> recovery_journal \<Rightarrow> recovery_journal \<Rightarrow> bool" for h where
  step_failure: "journal_step h j (recordRecoveryFailure h j input)"
| step_exhaustion: "journal_step h j (recordRecoveryExhaustion h j input)"
| step_invocation: "journal_step h j (recordRecoveryInvocation j recoveryOf mode)"
| step_progress: "journal_step h j (recordToolOwnedProgress j kind referenceId ids)"
| step_close: "journal_step h j (closeToolRecoveryScope j scope)"
| step_response: "journal_step h j (advanceToolRecoveryResponse j response)"

inductive journal_reachable :: "js_host \<Rightarrow> recovery_journal \<Rightarrow> bool" for h where
  journal_created: "createToolRecoveryJournal key = Inr j \<Longrightarrow> journal_reachable h j"
| journal_stepped: "journal_reachable h j \<Longrightarrow> journal_step h j j' \<Longrightarrow> journal_reachable h j'"

lemmas journal_ops_ok = recordRecoveryFailure_ok recordRecoveryExhaustion_ok recordRecoveryInvocation_ok
  recordToolOwnedProgress_ok closeToolRecoveryScope_ok advanceToolRecoveryResponse_ok

lemma journal_step_ok: "journal_step h j j' \<Longrightarrow> journal_ok j \<Longrightarrow> journal_ok j'"
  by (induction rule: journal_step.induct) (simp_all add: journal_ops_ok)

lemma created_ok: "createToolRecoveryJournal key = Inr j \<Longrightarrow> journal_ok j"
  by (auto simp: createToolRecoveryJournal_def journal_ok_def failures_ok_def claims_unique_def
      js_object.every_def split: if_splits)

text \<open>
  The recovery journal is well-formed in every reachable state. Whatever failures, attempts,
  progress, closings and model responses are recorded, in any order: it holds at most 128
  failures, its order lists each of them exactly once, every failure is stored under its own
  64-digit identity, no tool call of a response is claimed as the recovery of two failures, the
  observed-failure counter stays within its cap, and the guard is blocked exactly when it gives a
  reason.
\<close>

theorem recovery_journal_invariant: "journal_reachable h j \<Longrightarrow> journal_ok j"
  by (induction rule: journal_reachable.induct) (auto intro: created_ok journal_step_ok)

lemma journalInvalid_step:
  assumes "journal_step h j j'" and "journalInvalid j"
  shows "rj_qualityGuard j' = rj_qualityGuard j"
proof -
  have failure: "rj_qualityGuard (recordRecoveryFailure h j input) = rj_qualityGuard j" for input
    using assms(2) by (simp add: recordRecoveryFailure_def Let_def qualityAfterMutation_def)
  then have "journalInvalid (recordRecoveryFailure h j input)" for input
    using assms(2) by (simp add: journalInvalid_def)
  moreover have "rj_qualityGuard (closeFailures j P r) = rj_qualityGuard j" for P r
    using assms(2) by (simp add: closeFailures_def Let_def qualityAfterMutation_def)
  then have "rj_qualityGuard (closeToolRecoveryScope j scope) = rj_qualityGuard j" for scope
    by (cases scope) simp_all
  moreover note failure
  ultimately show ?thesis
    using assms(2)
    by (induction rule: journal_step.cases [OF assms(1)])
      (auto simp: recordRecoveryExhaustion_def Let_def recordRecoveryInvocation_def
        recordToolOwnedProgress_def qualityAfterMutation_def advanceToolRecoveryResponse_def
        split: option.split)
qed

text \<open>
  A corrupt journal stays a session-wide block. Once the journal is marked invalid no sequence
  of recorded failures, attempts, progress, closings or responses clears or changes the mark, and
  no recovery attempt is admitted by any tool, not even the planning and user-question tools that
  an ordinary no-progress block lets through.
\<close>

theorem invalid_journal_absorbing:
  assumes "(journal_step h)\<^sup>*\<^sup>* j j'" and "journalInvalid j"
  shows "rj_qualityGuard j' = rj_qualityGuard j \<and>
    admitRecoveryAttempt j' input = Denied None ''no_progress''"
proof -
  have "rj_qualityGuard j' = rj_qualityGuard j \<and> journalInvalid j'"
    using assms
  proof (induction rule: rtranclp_induct)
    case base
    then show ?case by simp
  next
    case (step y z)
    then show ?case using journalInvalid_step [of h y z] by (simp add: journalInvalid_def)
  qed
  then show ?thesis by (simp add: admitRecoveryAttempt_def)
qed

lemma blockedFailures_stored:
  "journal_ok j \<Longrightarrow> f \<in> set (blockedFailures j) \<Longrightarrow>
   map_of (rj_failures j) (rf_failureInstanceId f) = Some f \<and> failureStillBlocks f"
  using failures_okD(2) [OF journal_failures_ok]
  by (fastforce simp: blockedFailures_def ordered_failures_def List.map_filter_def failure_ok_def
      split: option.splits)

lemma find_SomeD: "find P xs = Some x \<Longrightarrow> x \<in> set xs \<and> P x"
  by (auto simp: find_Some_iff)

lemma candidate_scope:
  assumes "journal_ok j" and "candidateFailure j a = Some f"
  shows "map_of (rj_failures j) (rf_failureInstanceId f) = Some f \<and> failureStillBlocks f \<and>
    rf_taskId f = at_taskId a \<and> rf_turnId f = at_turnId a"
proof -
  have "f \<in> set (blockedFailures j) \<and> rf_taskId f = at_taskId a \<and> rf_turnId f = at_turnId a"
    using assms(2) by (auto simp: candidateFailure_def Let_def correction_candidate_def
        dest!: find_SomeD split: if_splits)
  then show ?thesis using blockedFailures_stored [OF assms(1)] by blast
qed

text \<open>
  C37: attempts are counted against their limit. An attempt admitted as the recovery of a recorded
  failure belongs to that failure's task and turn, the failure still blocks and permits this kind
  of attempt, and fewer attempts than its maximum have been made; recording the attempt never
  takes the count over the maximum. Under an unresolved no-progress block of the same scope only
  the planning, user-question and tool-search tools are admitted at all.
\<close>

theorem admission_within_limits:
  assumes "journal_ok j" and "admitRecoveryAttempt j a = Admitted (Some i)"
  shows "\<exists>f. map_of (rj_failures j) i = Some f \<and> failureStillBlocks f \<and>
    rf_taskId f = at_taskId a \<and> rf_turnId f = at_turnId a \<and> recovery_allowed (at_mode a) f \<and>
    attempts_of (at_mode a) f < rc_maximumAdditionalCalls (oc_recovery (rf_outcome f)) \<and>
    (\<forall>f'. map_of (rj_failures (recordRecoveryInvocation j i (at_mode a))) i = Some f' \<longrightarrow>
       attempts_of (at_mode a) f' \<le> rc_maximumAdditionalCalls (oc_recovery (rf_outcome f'))) \<and>
    (isToolRecoveryQualityBlocked j (at_taskId a) (at_turnId a) \<longrightarrow> at_toolName a \<in> set ESCAPE_TOOLS)"
proof -
  from assms(2) obtain f where cand: "candidateFailure j a = Some f" and i: "i = rf_failureInstanceId f"
    and lim: "recovery_allowed (at_mode a) f"
      "attempts_of (at_mode a) f < rc_maximumAdditionalCalls (oc_recovery (rf_outcome f))"
    and valid: "\<not> journalInvalid j"
    and guard: "isToolRecoveryQualityBlocked j (at_taskId a) (at_turnId a) \<longrightarrow> at_toolName a \<in> set ESCAPE_TOOLS"
    by (auto simp: admitRecoveryAttempt_def Let_def isToolRecoveryQualityBlocked_def
        split: if_splits option.splits)
  have "attempts_of (at_mode a) f' \<le> rc_maximumAdditionalCalls (oc_recovery (rf_outcome f'))"
    if "map_of (rj_failures (recordRecoveryInvocation j i (at_mode a))) i = Some f'" for f'
    using that lim candidate_scope [OF assms(1) cand] i
    by (auto simp: recordRecoveryInvocation_def attempts_of_def split: if_splits)
  then show ?thesis using candidate_scope [OF assms(1) cand] i lim guard by blast
qed

lemma closeFailures_get:
  "map_of (rj_failures (closeFailures j P r)) k = map_option (\<lambda>f. if closes P f
     then f\<lparr>rf_status := (if r \<in> {ResSkipped, ResReplanned, ResUserAction, ResProviderRevision}
       then Recovered else Exhausted), rf_resolution := Some r\<rparr> else f) (map_of (rj_failures j) k)"
proof (cases "list_ex (closes P) (obj_values (rj_failures j))")
  case True
  then show ?thesis
    by (cases "map_of (rj_failures j) k") (simp_all add: closeFailures_def Let_def)
next
  case False
  then have "\<not> closes P f" if "map_of (rj_failures j) k = Some f" for f
    using map_of_SomeD [OF that] by (force simp: list_ex_iff obj_values_def)
  then show ?thesis using False
    by (cases "map_of (rj_failures j) k") (simp_all add: closeFailures_def Let_def)
qed

lemma closeFailures_settled:
  assumes "r = ResTaskClosed \<or> r = ResTurnClosed" and "f \<in> set (blockedFailures (closeFailures j P r))"
  shows "\<exists>k. map_of (rj_failures j) k = Some f \<and> \<not> P f"
proof -
  obtain k where k: "map_of (rj_failures (closeFailures j P r)) k = Some f" "failureStillBlocks f"
    using assms(2)
    by (auto simp: blockedFailures_def ordered_failures_def List.map_filter_def split: option.splits)
  then obtain g where g: "map_of (rj_failures j) k = Some g"
    and f: "f = (if closes P g then g\<lparr>rf_status := Exhausted, rf_resolution := Some r\<rparr> else g)"
    using assms(1) by (cases "map_of (rj_failures j) k") (auto simp: closeFailures_get)
  have no: "\<not> closes P g"
  proof
    assume "closes P g"
    with f have "rf_resolution f = Some r" by simp
    with k(2) assms(1) show False by (auto simp: failureStillBlocks_def)
  qed
  with f have "f = g" by simp
  with no g k(2) show ?thesis by (auto simp: closes_def failureStillBlocks_def)
qed

text \<open>
  Closing a scope settles it. After the failures of a task or a turn are closed none of them
  blocks the task or turn any more, failures that belong to other work are untouched, and a
  session-wide corruption mark survives.
\<close>

theorem close_scope_settles:
  "\<not> hasActiveUnresolvedToolFailures (closeToolRecoveryScope j (ScopeTask t)) (Some t) u \<and>
   \<not> hasActiveUnresolvedToolFailures (closeToolRecoveryScope j (ScopeTurn u')) t' (Some u') \<and>
   (\<forall>k f. map_of (rj_failures j) k = Some f \<and> rf_taskId f \<noteq> Some t \<longrightarrow>
      map_of (rj_failures (closeToolRecoveryScope j (ScopeTask t))) k = Some f) \<and>
   (journalInvalid j \<longrightarrow> journalInvalid (closeToolRecoveryScope j (ScopeTask t)))"
proof (intro conjI allI impI)
  show "\<not> hasActiveUnresolvedToolFailures (closeToolRecoveryScope j (ScopeTask t)) (Some t) u"
    using closeFailures_settled [of ResTaskClosed _ j "\<lambda>f. rf_taskId f = Some t"]
    by (auto simp: hasActiveUnresolvedToolFailures_def list_ex_iff)
  show "\<not> hasActiveUnresolvedToolFailures (closeToolRecoveryScope j (ScopeTurn u')) t' (Some u')"
    using closeFailures_settled [of ResTurnClosed _ j "\<lambda>f. rf_turnId f = Some u'"]
    by (auto simp: hasActiveUnresolvedToolFailures_def list_ex_iff)
  show "map_of (rj_failures (closeToolRecoveryScope j (ScopeTask t))) k = Some f"
    if "map_of (rj_failures j) k = Some f \<and> rf_taskId f \<noteq> Some t" for k f
    using that by (simp add: closeFailures_get closes_def)
  show "journalInvalid (closeToolRecoveryScope j (ScopeTask t))" if "journalInvalid j"
    using journalInvalid_step [OF step_close [of undefined j "ScopeTask t"] that] that
    by (simp add: journalInvalid_def)
qed

text \<open>
  Compaction never forgets part of a story. Whatever the journal grows to, the compacted one
  has at most 128 entries, drops entries but never alters one, and with every failure it keeps it
  keeps the failure that one recovered from, so no lineage is cut.
\<close>

theorem compaction_keeps_lineage:
  assumes "distinct_keys failures" and "set (obj_keys failures) \<subseteq> set ord"
    and "compactFailures failures ord = (fs, o')"
  shows "distinct o' \<and> length o' \<le> 128 \<and> set o' = set (obj_keys fs) \<and>
    (\<forall>i f. map_of fs i = Some f \<longrightarrow> map_of failures i = Some f) \<and>
    (\<forall>i f p. map_of fs i = Some f \<and> recovery_parent f = Some p \<and> map_of failures p \<noteq> None \<longrightarrow>
       map_of fs p = map_of failures p)"
proof -
  note spec = compactFailures_spec [OF assms]
  have "map_of fs p = map_of failures p"
    if f: "map_of fs i = Some f" and p: "recovery_parent f = Some p" "map_of failures p \<noteq> None" for i f p
  proof -
    have "i \<in> set (obj_keys fs)" using f by (simp add: in_obj_keys_iff)
    then have "i \<in> set o'" using spec(5) by simp
    then have "p \<in> set o'" using lineage_closedD [OF spec(7)] spec(6) [OF f] p by blast
    then have "p \<in> set (obj_keys fs)" using spec(5) by simp
    then obtain g where "map_of fs p = Some g" unfolding in_obj_keys_iff by blast
    then show ?thesis using spec(6) by simp
  qed
  then show ?thesis using spec by blast
qed

section \<open>Witnesses\<close>

definition sample_outcome :: tool_outcome where
  "sample_outcome = \<lparr>oc_status = OutFailed, oc_failureKind = Some ''tool'', oc_detailCode = Some ''invalid_arguments'',
     oc_dispatchState = ''not_started'', oc_externalEffects = EffNone, oc_replaySafety = None,
     oc_recovery = \<lparr>rc_disposition = CorrectArgs, rc_maximumAdditionalCalls = 1,
       rc_requiresNewModelResponse = True, rc_safeAutomaticRetry = False, rc_retryAfterMs = None,
       rc_capabilityIntent = JUndef\<rparr>,
     oc_failureInstanceId = None, oc_recoveryOf = None, oc_timing = [], oc_unknownFields = None,
     oc_diagnosticCodes = []\<rparr>"

definition sample_failure_input :: failure_input where
  "sample_failure_input = \<lparr>in_toolCallId = ''call-1'', in_toolName = ''read_file'',
     in_invocationFingerprint = replicate 64 CHR ''f'', in_modelMessageId = ''m-1'',
     in_outcome = sample_outcome, in_taskId = Some ''task'', in_turn = Some ''turn-1''\<rparr>"

definition failure_key :: string where
  "failure_key = replicate 64 CHR ''b''"

definition sample_failure :: recovery_failure where
  "sample_failure = \<lparr>rf_failureInstanceId = failure_key, rf_toolCallId = ''call-1'',
     rf_toolName = ''read_file'', rf_invocationFingerprint = replicate 64 CHR ''f'',
     rf_modelMessageId = ''m-1'', rf_taskId = Some ''task'', rf_turnId = Some ''turn-1'',
     rf_eligibleAfterModelMessageId = Some ''m-1'', rf_eligibleModelMessageId = Some ''m-2'',
     rf_eligibleToolCallId = Some ''call-2'', rf_status = Unresolved, rf_resolution = None,
     rf_outcome = sample_outcome, rf_modelCorrectionAttempts = 0, rf_automaticRetryAttempts = 0,
     rf_progressRevision = 0\<rparr>"

definition empty_journal :: recovery_journal where
  "empty_journal = \<lparr>rj_identityKey = failure_key, rj_failures = [], rj_order = [],
     rj_progressRevision = 0, rj_qualityGuard = empty_guard\<rparr>"

definition sample_journal :: recovery_journal where
  "sample_journal = empty_journal\<lparr>rj_failures := [(failure_key, sample_failure)], rj_order := [failure_key]\<rparr>"

definition sample_attempt :: attempt_input where
  "sample_attempt = \<lparr>at_toolCallId = ''call-2'', at_toolName = ''read_file'',
     at_invocationFingerprint = replicate 64 CHR ''e'', at_modelMessageId = ''m-2'',
     at_mode = ModelCorrection, at_taskId = Some ''task'', at_turnId = Some ''turn-1''\<rparr>"

lemma failure_key_hex: "is_sha256_hex failure_key"
  by (simp add: failure_key_def is_sha256_hex_def is_lower_hex_def list_all_iff)

theorem recovery_journal_invariant_witness:
  "journal_reachable sample_host (recordRecoveryFailure sample_host empty_journal sample_failure_input) \<and>
   journal_ok (recordRecoveryFailure sample_host empty_journal sample_failure_input)"
proof -
  have "createToolRecoveryJournal failure_key = Inr empty_journal"
    by (simp add: createToolRecoveryJournal_def failure_key_hex empty_journal_def)
  then have r: "journal_reachable sample_host (recordRecoveryFailure sample_host empty_journal sample_failure_input)"
    by (intro journal_stepped [OF journal_created step_failure])
  then show ?thesis using recovery_journal_invariant [OF r] by simp
qed

definition invalid_journal :: recovery_journal where
  "invalid_journal = sample_journal\<lparr>rj_qualityGuard := empty_guard\<lparr>qg_blocked := True,
     qg_reasonCode := Some JournalInvalid\<rparr>\<rparr>"

theorem invalid_journal_absorbing_witness:
  "journalInvalid invalid_journal \<and>
   admitRecoveryAttempt (closeToolRecoveryScope invalid_journal (ScopeTask ''task'')) sample_attempt =
     Denied None ''no_progress''"
proof -
  have inv: "journalInvalid invalid_journal" by (simp add: journalInvalid_def invalid_journal_def)
  have "(journal_step sample_host)\<^sup>*\<^sup>* invalid_journal (closeToolRecoveryScope invalid_journal (ScopeTask ''task''))"
    by (rule r_into_rtranclp) (rule step_close)
  from invalid_journal_absorbing [OF this inv] inv show ?thesis by blast
qed

lemma sample_journal_ok: "journal_ok sample_journal"
  using failure_key_hex
  by (simp add: journal_ok_def sample_journal_def empty_journal_def failures_ok_def distinct_keys_def
      js_object.every_def failure_ok_def sample_failure_def claims_unique_def guard_ok_def empty_guard_def)

theorem admission_within_limits_witness:
  "journal_ok sample_journal \<and>
   admitRecoveryAttempt sample_journal sample_attempt = Admitted (Some failure_key) \<and>
   (\<exists>f. map_of (rj_failures sample_journal) failure_key = Some f \<and>
      attempts_of ModelCorrection f < rc_maximumAdditionalCalls (oc_recovery (rf_outcome f)))"
proof -
  have a: "admitRecoveryAttempt sample_journal sample_attempt = Admitted (Some failure_key)"
    by code_simp
  have "at_mode sample_attempt = ModelCorrection" by (simp add: sample_attempt_def)
  with admission_within_limits [OF sample_journal_ok a] a sample_journal_ok show ?thesis by auto
qed

theorem close_scope_settles_witness:
  "map_of (rj_failures (closeToolRecoveryScope sample_journal (ScopeTask ''other''))) failure_key = Some sample_failure"
  using close_scope_settles [of sample_journal "''other''" None]
  by (simp add: sample_journal_def sample_failure_def)

theorem compaction_keeps_lineage_witness:
  "compactFailures (rj_failures sample_journal) [failure_key] = (rj_failures sample_journal, [failure_key]) \<and>
   distinct [failure_key] \<and> set [failure_key] = set (obj_keys (rj_failures sample_journal))"
proof -
  have c: "compactFailures (rj_failures sample_journal) [failure_key] = (rj_failures sample_journal, [failure_key])"
    by (simp add: compactFailures_def es_set_def set_add_def sample_journal_def)
  have "distinct_keys (rj_failures sample_journal)" "set (obj_keys (rj_failures sample_journal)) \<subseteq> set [failure_key]"
    by (simp_all add: sample_journal_def distinct_keys_def)
  from compaction_keeps_lineage [OF this c] c show ?thesis by blast
qed

end
