(* ===== verification/Kite_Traits.thy ===== *)
theory Kite_Traits
  imports Kite_Prelude
begin

text \<open>
  src/packages/agent-kernel/src/execution-traits.ts: when two effects may execute together, and
  the greedy batch the scheduler starts. The batch is proved against the contract "a prefix of
  the queue, pairwise compatible, within the ceiling, and as long as that allows".
\<close>

section \<open>Model\<close>

datatype scope_kind =
    ScopeRuntime | ScopeWorkspace | ScopeProcess | ScopeNetwork | ScopeExternalState
  | ScopeSubagent | ScopeSkill

fun scope_kind_string :: "scope_kind \<Rightarrow> string" where
  "scope_kind_string ScopeRuntime = ''runtime''"
| "scope_kind_string ScopeWorkspace = ''workspace''"
| "scope_kind_string ScopeProcess = ''process''"
| "scope_kind_string ScopeNetwork = ''network''"
| "scope_kind_string ScopeExternalState = ''external_state''"
| "scope_kind_string ScopeSubagent = ''subagent''"
| "scope_kind_string ScopeSkill = ''skill''"

record resource_scope =
  sc_kind :: scope_kind
  sc_key :: string

datatype access_kind = ReadAccess | WriteAccess | UnknownAccess

datatype isolation_kind = Shared | ExclusiveWorkspace | Worktree

record execution_traits =
  et_resourceScopes :: "resource_scope list"
  et_access :: access_kind
  et_conflictKeys :: "string list"
  et_isolation :: isolation_kind
  et_causalGroup :: string
  et_interactionBarrier :: bool
  et_concurrencyGroup :: "string option"
  et_leaseFenceRequired :: bool

record schedulable_effect =
  se_effectId :: string
  se_traits :: execution_traits

text \<open>The template literal \<open>${scope.kind}\0${scope.key}\<close>.\<close>

definition scope_token :: "resource_scope \<Rightarrow> string" where
  "scope_token sc = scope_kind_string (sc_kind sc) @ char_of (0 :: nat) # sc_key sc"

definition resourceScopesAreProvablyDisjoint ::
  "resource_scope list \<Rightarrow> resource_scope list \<Rightarrow> bool" where
  "resourceScopesAreProvablyDisjoint left right =
     (if left = [] \<or> right = [] then False
      else let occupied = set (map scope_token left)
           in \<not> list_ex (\<lambda>sc. scope_token sc \<in> occupied) right)"

definition executionTraitsMayOverlap :: "execution_traits \<Rightarrow> execution_traits \<Rightarrow> bool" where
  "executionTraitsMayOverlap left right =
     (if et_interactionBarrier left \<or> et_interactionBarrier right then False
      else if \<not> non_empty (et_concurrencyGroup left) \<or>
              et_concurrencyGroup left \<noteq> et_concurrencyGroup right then False
      else if et_access left = UnknownAccess \<or> et_access right = UnknownAccess then False
      else if et_access left = ReadAccess \<and> et_access right = ReadAccess then True
      else if et_isolation left \<noteq> Worktree \<or> et_isolation right \<noteq> Worktree \<or>
              et_causalGroup left \<noteq> et_causalGroup right \<or>
              \<not> resourceScopesAreProvablyDisjoint (et_resourceScopes left) (et_resourceScopes right)
      then False
      else let conflicts = set (et_conflictKeys left)
           in \<not> list_ex (\<lambda>key. key \<in> conflicts) (et_conflictKeys right))"

text \<open>The loop over \<open>candidates.slice(1)\<close>, with its two breaks.\<close>

fun extend_batch ::
  "nat \<Rightarrow> schedulable_effect list \<Rightarrow> schedulable_effect list \<Rightarrow> schedulable_effect list" where
  "extend_batch limit selected [] = selected"
| "extend_batch limit selected (candidate # rest) =
     (if length selected \<ge> limit then selected
      else if \<not> list_all (\<lambda>accepted. executionTraitsMayOverlap (se_traits accepted)
                 (se_traits candidate)) selected
      then selected
      else extend_batch limit (selected @ [candidate]) rest)"

definition selectSchedulableEffectBatch ::
  "schedulable_effect list \<Rightarrow> int \<Rightarrow> string list res" where
  "selectSchedulableEffectBatch candidates limit =
     (if \<not> is_safe_integer (jint limit) \<or> limit \<le> 0
      then throw ''scheduler concurrency ceiling must be a positive integer''
      else case candidates of
        [] \<Rightarrow> Inr []
      | first # rest \<Rightarrow> Inr (map se_effectId (extend_batch (nat limit) [first] rest)))"

section \<open>The overlap rule\<close>

lemma clash_iff: "(\<exists>x \<in> B. f x \<in> f ` A) \<longleftrightarrow> f ` A \<inter> f ` B \<noteq> {}"
  unfolding ex_in_conv [symmetric] Bex_def Int_iff image_iff by metis

lemma disjoint_scopes_iff:
  "resourceScopesAreProvablyDisjoint l r \<longleftrightarrow>
     l \<noteq> [] \<and> r \<noteq> [] \<and> scope_token ` set l \<inter> scope_token ` set r = {}"
  unfolding resourceScopesAreProvablyDisjoint_def list_ex_iff Let_def set_map clash_iff by simp

lemma conflict_free_iff: "\<not> list_ex (\<lambda>key. key \<in> set ks) ks' \<longleftrightarrow> set ks \<inter> set ks' = {}"
  by (auto simp: list_ex_iff)

lemma resourceScopesAreProvablyDisjoint_sym:
  "resourceScopesAreProvablyDisjoint l r = resourceScopesAreProvablyDisjoint r l"
  by (auto simp: disjoint_scopes_iff Int_commute)

lemma overlap_iff:
  "executionTraitsMayOverlap l r \<longleftrightarrow>
     \<not> et_interactionBarrier l \<and> \<not> et_interactionBarrier r \<and>
     (\<exists>g. g \<noteq> [] \<and> et_concurrencyGroup l = Some g \<and> et_concurrencyGroup r = Some g) \<and>
     et_access l \<noteq> UnknownAccess \<and> et_access r \<noteq> UnknownAccess \<and>
     (et_access l = ReadAccess \<and> et_access r = ReadAccess \<or>
      et_isolation l = Worktree \<and> et_isolation r = Worktree \<and>
      et_causalGroup l = et_causalGroup r \<and>
      et_resourceScopes l \<noteq> [] \<and> et_resourceScopes r \<noteq> [] \<and>
      scope_token ` set (et_resourceScopes l) \<inter> scope_token ` set (et_resourceScopes r) = {} \<and>
      set (et_conflictKeys l) \<inter> set (et_conflictKeys r) = {})"
  by (cases "et_concurrencyGroup l"; cases "et_concurrencyGroup r")
    (auto simp: executionTraitsMayOverlap_def disjoint_scopes_iff conflict_free_iff non_empty_def
      Let_def)

text \<open>
  The overlap rule. Two effects that may overlap are both outside every interaction barrier, in one named
  concurrency group, of known access, and either both read or isolated in worktrees that share
  no resource scope and no conflict key.
\<close>

theorem executionTraitsMayOverlap_iff:
  "executionTraitsMayOverlap l r \<longleftrightarrow>
     \<not> et_interactionBarrier l \<and> \<not> et_interactionBarrier r \<and>
     (\<exists>g. g \<noteq> [] \<and> et_concurrencyGroup l = Some g \<and> et_concurrencyGroup r = Some g) \<and>
     et_access l \<noteq> UnknownAccess \<and> et_access r \<noteq> UnknownAccess \<and>
     (et_access l = ReadAccess \<and> et_access r = ReadAccess \<or>
      et_isolation l = Worktree \<and> et_isolation r = Worktree \<and>
      et_causalGroup l = et_causalGroup r \<and>
      et_resourceScopes l \<noteq> [] \<and> et_resourceScopes r \<noteq> [] \<and>
      scope_token ` set (et_resourceScopes l) \<inter> scope_token ` set (et_resourceScopes r) = {} \<and>
      set (et_conflictKeys l) \<inter> set (et_conflictKeys r) = {})"
  by (rule overlap_iff)

lemma overlap_sym: "executionTraitsMayOverlap l r = executionTraitsMayOverlap r l"
  by (simp add: overlap_iff) (auto simp: Int_commute)

lemma scope_kind_string_inj: "scope_kind_string k = scope_kind_string k' \<Longrightarrow> k = k'"
  by (cases k; cases k') simp_all

lemma scope_kind_string_no_nul: "char_of (0 :: nat) \<notin> set (scope_kind_string k)"
  by (cases k) (simp_all add: char_of_def)

lemma append_Cons_eq_iff_left:
  "c \<notin> set xs \<Longrightarrow> c \<notin> set ys \<Longrightarrow> xs @ c # us = ys @ c # vs \<Longrightarrow> xs = ys \<and> us = vs"
proof (induction xs arbitrary: ys)
  case Nil
  then show ?case by (cases ys) auto
next
  case (Cons x xs)
  then show ?case by (cases ys) auto
qed

lemma scope_token_inj: "scope_token a = scope_token b \<Longrightarrow> a = b"
proof -
  assume "scope_token a = scope_token b"
  then have "scope_kind_string (sc_kind a) = scope_kind_string (sc_kind b) \<and> sc_key a = sc_key b"
    unfolding scope_token_def
    by (intro append_Cons_eq_iff_left [OF scope_kind_string_no_nul scope_kind_string_no_nul])
  then show "a = b" by (auto intro: resource_scope.equality dest: scope_kind_string_inj)
qed

section \<open>Greedy batches over a symmetric compatibility relation\<close>

text \<open>
  What the batch loops of execution-traits.ts and scheduler.ts rely on: a symmetric "may run
  together" relation. Inside the locale, a batch in which every element was compatible with all
  earlier ones is pairwise compatible in both directions.
\<close>

locale compatibility =
  fixes may :: "'a \<Rightarrow> 'a \<Rightarrow> bool"
  assumes may_sym: "may a b \<Longrightarrow> may b a"
begin

definition pairwise_may :: "'a list \<Rightarrow> bool" where
  "pairwise_may xs \<longleftrightarrow> (\<forall>i j. i < length xs \<longrightarrow> j < length xs \<longrightarrow> i \<noteq> j \<longrightarrow> may (xs ! i) (xs ! j))"

lemma pairwise_may_single: "pairwise_may [x]"
  by (simp add: pairwise_may_def)

lemma pairwise_may_Nil: "pairwise_may []"
  by (simp add: pairwise_may_def)

lemma pairwise_may_snoc:
  assumes "pairwise_may xs" and "list_all (\<lambda>a. may a x) xs"
  shows "pairwise_may (xs @ [x])"
  unfolding pairwise_may_def
proof (intro allI impI)
  fix i j
  assume ij: "i < length (xs @ [x])" "j < length (xs @ [x])" "i \<noteq> j"
  have all: "may (xs ! k) x" if "k < length xs" for k
    using assms(2) that by (simp add: list_all_length)
  show "may ((xs @ [x]) ! i) ((xs @ [x]) ! j)"
    using ij assms(1) all may_sym
    by (cases "i < length xs"; cases "j < length xs")
      (auto simp: nth_append pairwise_may_def less_Suc_eq)
qed

end

interpretation effect_overlap: compatibility
  "\<lambda>a b. executionTraitsMayOverlap (se_traits a) (se_traits b)"
  by unfold_locales (simp add: overlap_sym)

lemma extend_batch_prefix:
  "\<exists>n. extend_batch c sel xs = sel @ take n xs"
proof (induction c sel xs rule: extend_batch.induct)
  case (1 c sel)
  then show ?case by simp
next
  case (2 c sel x xs)
  show ?case
  proof (cases "length sel \<ge> c \<or> \<not> list_all (\<lambda>a. executionTraitsMayOverlap (se_traits a) (se_traits x)) sel")
    case True
    then have "extend_batch c sel (x # xs) = sel @ take 0 (x # xs)" by auto
    then show ?thesis by blast
  next
    case False
    with 2 obtain n where "extend_batch c (sel @ [x]) xs = (sel @ [x]) @ take n xs" by auto
    with False have "extend_batch c sel (x # xs) = sel @ take (Suc n) (x # xs)" by auto
    then show ?thesis by blast
  qed
qed

lemma extend_batch_pairwise:
  "effect_overlap.pairwise_may sel \<Longrightarrow> effect_overlap.pairwise_may (extend_batch c sel xs)"
  by (induction c sel xs rule: extend_batch.induct)
    (auto intro!: effect_overlap.pairwise_may_snoc)

lemma extend_batch_ceiling: "length sel \<le> c \<Longrightarrow> length (extend_batch c sel xs) \<le> c"
  by (induction c sel xs rule: extend_batch.induct) auto

lemma extend_batch_stops:
  "extend_batch c sel xs = sel @ take n xs \<Longrightarrow> n < length xs \<Longrightarrow>
   length (sel @ take n xs) \<ge> c \<or>
   (\<exists>a \<in> set (sel @ take n xs). \<not> executionTraitsMayOverlap (se_traits a) (se_traits (xs ! n)))"
proof (induction c sel xs arbitrary: n rule: extend_batch.induct)
  case (1 c sel)
  then show ?case by simp
next
  case (2 c sel x xs)
  show ?case
  proof (cases "length sel \<ge> c \<or> \<not> list_all (\<lambda>a. executionTraitsMayOverlap (se_traits a) (se_traits x)) sel")
    case True
    with 2(2,3) have "n = 0" by (cases n) (auto split: if_splits)
    with True show ?thesis by (auto simp: list_all_iff)
  next
    case False
    then have eq: "extend_batch c sel (x # xs) = extend_batch c (sel @ [x]) xs" by auto
    obtain m where m: "extend_batch c (sel @ [x]) xs = (sel @ [x]) @ take m xs"
      using extend_batch_prefix by blast
    from m eq 2(2) obtain k where k: "n = Suc k" by (cases n) auto
    with 2(2,3) eq have "extend_batch c (sel @ [x]) xs = (sel @ [x]) @ take k xs" "k < length xs"
      by auto
    with 2(1) [of k] False k show ?thesis by auto
  qed
qed

lemma selectSchedulableEffectBatch_Inr:
  assumes "selectSchedulableEffectBatch cs limit = Inr ids"
  obtains "cs = []" "ids = []" "0 < limit"
  | first rest where "cs = first # rest" "0 < limit"
      "ids = map se_effectId (extend_batch (nat limit) [first] rest)"
  using assms by (cases cs) (auto simp: selectSchedulableEffectBatch_def split: if_splits)

lemma selectSchedulableEffectBatch_bounds:
  assumes "selectSchedulableEffectBatch cs limit = Inr ids"
  shows "\<exists>n \<le> length cs. ids = map se_effectId (take n cs) \<and> int n \<le> limit \<and>
     (cs \<noteq> [] \<longrightarrow> 0 < n) \<and>
     (\<forall>i j. i < n \<and> j < n \<and> i \<noteq> j \<longrightarrow>
        executionTraitsMayOverlap (se_traits (cs ! i)) (se_traits (cs ! j))) \<and>
     (n < length cs \<longrightarrow> int n = limit \<or>
        (\<exists>a \<in> set (take n cs). \<not> executionTraitsMayOverlap (se_traits a) (se_traits (cs ! n))))"
  using assms
proof (cases rule: selectSchedulableEffectBatch_Inr)
  case 1
  then show ?thesis by auto
next
  case (2 first rest)
  let ?batch = "extend_batch (nat limit) [first] rest"
  obtain m where m: "?batch = [first] @ take m rest" using extend_batch_prefix by blast
  define k where "k = min m (length rest)"
  have k: "?batch = [first] @ take k rest" "k \<le> length rest" using m by (auto simp: k_def min_def)
  have pw: "effect_overlap.pairwise_may ?batch"
    by (rule extend_batch_pairwise) (rule effect_overlap.pairwise_may_single)
  have lim: "length ?batch \<le> nat limit" using 2 by (intro extend_batch_ceiling) auto
  have bt: "?batch = take (Suc k) cs" using k 2 by simp
  have len: "length (take (Suc k) cs) = Suc k" using k 2 by simp
  have "\<forall>i j. i < Suc k \<and> j < Suc k \<and> i \<noteq> j \<longrightarrow>
      executionTraitsMayOverlap (se_traits (cs ! i)) (se_traits (cs ! j))"
    using pw len unfolding effect_overlap.pairwise_may_def bt by (auto simp del: take_Suc_Cons)
  moreover have "int (Suc k) = limit \<or>
      (\<exists>a \<in> set (take (Suc k) cs). \<not> executionTraitsMayOverlap (se_traits a) (se_traits (cs ! Suc k)))"
    if "Suc k < length cs"
    using extend_batch_stops [OF k(1)] that lim k 2 by auto
  ultimately show ?thesis using 2 k lim bt by (intro exI [of _ "Suc k"]) auto
qed

text \<open>
  The batch the scheduler starts is a prefix of the queue, is non-empty when the queue is,
  stays within the ceiling, contains only effects that pairwise may overlap, and is as long as
  possible: it ends at the ceiling, at the end of the queue, or at an effect that conflicts with
  a selected one.
\<close>

theorem selectSchedulableEffectBatch_contract:
  assumes "selectSchedulableEffectBatch cs limit = Inr ids"
  shows "\<exists>n \<le> length cs. ids = map se_effectId (take n cs) \<and> int n \<le> limit \<and>
     (cs \<noteq> [] \<longrightarrow> 0 < n) \<and>
     (\<forall>i j. i < n \<and> j < n \<and> i \<noteq> j \<longrightarrow>
        executionTraitsMayOverlap (se_traits (cs ! i)) (se_traits (cs ! j))) \<and>
     (n < length cs \<longrightarrow> int n = limit \<or>
        (\<exists>a \<in> set (take n cs). \<not> executionTraitsMayOverlap (se_traits a) (se_traits (cs ! n))))"
  using selectSchedulableEffectBatch_bounds [OF assms] .

definition read_effect :: "string \<Rightarrow> schedulable_effect" where
  "read_effect i = \<lparr>se_effectId = i, se_traits = \<lparr>et_resourceScopes = [], et_access = ReadAccess,
     et_conflictKeys = [], et_isolation = Shared, et_causalGroup = ''g'',
     et_interactionBarrier = False, et_concurrencyGroup = Some ''parallel-read'',
     et_leaseFenceRequired = False\<rparr>\<rparr>"

definition read_queue :: "schedulable_effect list" where
  "read_queue = [read_effect ''a'', read_effect ''b'', read_effect ''c'']"

theorem selectSchedulableEffectBatch_contract_witness:
  "selectSchedulableEffectBatch read_queue 2 = Inr (map se_effectId (take 2 read_queue)) \<and>
   (\<exists>n \<le> length read_queue.
      map se_effectId (take 2 read_queue) = map se_effectId (take n read_queue) \<and> int n \<le> 2)"
proof -
  have h: "selectSchedulableEffectBatch read_queue 2 = Inr (map se_effectId (take 2 read_queue))"
    by (simp add: selectSchedulableEffectBatch_def read_queue_def read_effect_def
        executionTraitsMayOverlap_def non_empty_def max_safe_integer_def)
  then show ?thesis using selectSchedulableEffectBatch_contract [OF h] by blast
qed

end
