(* ===== verification/Kite_Completion.thy ===== *)
theory Kite_Completion
  imports Kite_Work Kite_Recovery
begin

text \<open>
  src/packages/agent-kernel/src/completion.ts and core/completion/reducer.ts: the guard that
  decides whether a run may complete (with or without a plan), the evidence a completed plan has
  to carry, and the reducer of the completion events. Plan documents are the JSON objects the
  state holds and are validated again on each decision, as in the source. A TypeError the code
  would raise on a malformed state is a thrown error here too.
\<close>

section \<open>Plan documents\<close>

definition in_ranges :: "(char \<times> char) list \<Rightarrow> char \<Rightarrow> bool" where
  "in_ranges rs c \<longleftrightarrow> list_ex (\<lambda>(a, b). (of_char a :: nat) \<le> of_char c \<and> (of_char c :: nat) \<le> of_char b) rs"

definition segment_char :: "char \<Rightarrow> bool" where
  "segment_char = in_ranges [(CHR ''A'', CHR ''Z''), (CHR ''a'', CHR ''z''), (CHR ''0'', CHR ''9''),
     (CHR ''_'', CHR ''_''), (CHR ''-'', CHR ''-'')]"

definition SAFE_SEGMENT :: "string \<Rightarrow> bool" where
  "SAFE_SEGMENT s \<longleftrightarrow> s \<noteq> [] \<and> list_all segment_char s"

definition SAFE_STEP_ID :: "string \<Rightarrow> bool" where
  "SAFE_STEP_ID s = (case s of [] \<Rightarrow> False
     | c # cs \<Rightarrow> in_ranges [(CHR ''a'', CHR ''z'')] c \<and> length cs \<le> 31 \<and>
         list_all (in_ranges [(CHR ''a'', CHR ''z''), (CHR ''0'', CHR ''9''), (CHR ''_'', CHR ''_''),
           (CHR ''-'', CHR ''-'')]) cs)"

definition SAFE_REFERENCE :: "string \<Rightarrow> bool" where
  "SAFE_REFERENCE s = (case s of [] \<Rightarrow> False
     | c # cs \<Rightarrow> in_ranges [(CHR ''A'', CHR ''Z''), (CHR ''a'', CHR ''z''), (CHR ''0'', CHR ''9'')] c \<and>
         length cs \<le> 199 \<and>
         list_all (\<lambda>d. segment_char d \<or> d = CHR ''.'' \<or> d = CHR '':'') cs)"

definition SAFE_REASON_CODE :: "string \<Rightarrow> bool" where
  "SAFE_REASON_CODE s = (case s of [] \<Rightarrow> False
     | c # cs \<Rightarrow> in_ranges [(CHR ''a'', CHR ''z'')] c \<and> length cs \<le> 63 \<and>
         list_all (in_ranges [(CHR ''a'', CHR ''z''), (CHR ''0'', CHR ''9''), (CHR ''_'', CHR ''_'')]) cs)"

definition hasOnlyKeys :: "jobj \<Rightarrow> string list \<Rightarrow> bool" where
  "hasOnlyKeys v allowed = list_all (\<lambda>key. key \<in> set allowed) (obj_keys v)"

definition hasExactKeys :: "jobj \<Rightarrow> string list \<Rightarrow> bool" where
  "hasExactKeys v keys \<longleftrightarrow> length (obj_keys v) = length keys \<and> hasOnlyKeys v keys"

text \<open>\<open>typeof v === 'string' && test(v)\<close>\<close>

definition string_where :: "(string \<Rightarrow> bool) \<Rightarrow> jval \<Rightarrow> bool" where
  "string_where test v = (case v of JStr s \<Rightarrow> test s | _ \<Rightarrow> False)"

fun collapse_crlf :: "string \<Rightarrow> string" where
  "collapse_crlf (c # d # s) =
     (if c = CHR 0x0D \<and> d = CHR 0x0A then CHR 0x0A # collapse_crlf s else c # collapse_crlf (d # s))"
| "collapse_crlf s = s"

definition normalizePlanText :: "string \<Rightarrow> string" where
  "normalizePlanText s = js_trim (collapse_crlf s)"

definition text_of :: "jval \<Rightarrow> string" where
  "text_of v = or_default (as_string v) []"

definition list_of :: "jval \<Rightarrow> jval list" where
  "list_of v = (case v of JArr vs \<Rightarrow> vs | _ \<Rightarrow> [])"

text \<open>The digest is only taken of documents whose title, body and steps are valid.\<close>

definition planStructuralDigest :: "js_host \<Rightarrow> jobj \<Rightarrow> string" where
  "planStructuralDigest h d =
     sha256Hex (or_default (json_stringify h (JObj
       [(''title'', JStr (normalizePlanText (text_of (fld d ''title'')))),
        (''bodyMarkdown'', JStr (normalizePlanText (text_of (fld d ''bodyMarkdown'')))),
        (''steps'', JArr (map (\<lambda>step. JObj [(''id'', vfld step ''id''),
            (''title'', JStr (normalizePlanText (text_of (vfld step ''title''))))])
          (list_of (fld d ''steps''))))])) [])"

definition no_line_break :: "string \<Rightarrow> bool" where
  "no_line_break s \<longleftrightarrow> CHR 0x0D \<notin> set s \<and> CHR 0x0A \<notin> set s"

definition isPlanStep :: "jval \<Rightarrow> bool" where
  "isPlanStep v =
     (case v of JObj o' \<Rightarrow>
        hasExactKeys o' (if ''note'' \<in> set (obj_keys o') then [''id'', ''title'', ''status'', ''note'']
          else [''id'', ''title'', ''status'']) \<and>
        string_where SAFE_STEP_ID (fld o' ''id'') \<and>
        string_where (\<lambda>t. t = js_trim t \<and> 1 \<le> length t \<and> length t \<le> 160 \<and> no_line_break t)
          (fld o' ''title'') \<and>
        fld o' ''status'' \<in> {JStr ''pending'', JStr ''in_progress'', JStr ''completed'', JStr ''skipped''} \<and>
        (fld o' ''note'' = JUndef \<or> string_where (\<lambda>t. True) (fld o' ''note''))
      | _ \<Rightarrow> False)"

definition every_entry :: "(jobj \<Rightarrow> bool) \<Rightarrow> jval \<Rightarrow> bool" where
  "every_entry P v =
     (case v of JArr es \<Rightarrow> list_all (\<lambda>e. case e of JObj o' \<Rightarrow> P o' | _ \<Rightarrow> False) es | _ \<Rightarrow> False)"

definition isPlanCompletionEvidence :: "jval \<Rightarrow> bool" where
  "isPlanCompletionEvidence v =
     (case v of JObj o' \<Rightarrow>
        hasExactKeys o' [''schemaVersion'', ''verification'', ''execution'', ''skipped'', ''unresolved''] \<and>
        fld o' ''schemaVersion'' = JNum 1 \<and>
        every_entry (\<lambda>e. hasExactKeys e [''verificationId'', ''outcome''] \<and>
            string_where SAFE_REFERENCE (fld e ''verificationId'') \<and>
            fld e ''outcome'' \<in> {JStr ''passed'', JStr ''waived''}) (fld o' ''verification'') \<and>
        every_entry (\<lambda>e. hasExactKeys e [''toolCallId'', ''outcome''] \<and>
            string_where SAFE_REFERENCE (fld e ''toolCallId'') \<and>
            fld e ''outcome'' = JStr ''succeeded'') (fld o' ''execution'') \<and>
        every_entry (\<lambda>e. hasExactKeys e [''stepId'', ''reasonCode''] \<and>
            string_where SAFE_REFERENCE (fld e ''stepId'') \<and>
            string_where SAFE_REASON_CODE (fld e ''reasonCode'')) (fld o' ''skipped'') \<and>
        every_entry (\<lambda>e. hasExactKeys e [''kind'', ''referenceId''] \<and>
            fld e ''kind'' \<in> {JStr ''failure'', JStr ''approval''} \<and>
            string_where SAFE_REFERENCE (fld e ''referenceId'')) (fld o' ''unresolved'')
      | _ \<Rightarrow> False)"

definition version_text :: "js_host \<Rightarrow> jobj \<Rightarrow> string" where
  "version_text h plan = js_String h (fld plan ''version'')"

definition isPlanArtifactRef :: "js_host \<Rightarrow> jval \<Rightarrow> jobj \<Rightarrow> bool" where
  "isPlanArtifactRef h v plan =
     (case v of JObj o' \<Rightarrow>
        hasExactKeys o' [''artifactId'', ''taskId'', ''planId'', ''version'', ''fileName'', ''relativePath'',
          ''displayPath'', ''structuralDigest'', ''byteLength''] \<and>
        fld o' ''artifactId'' = JStr (text_of (fld plan ''planId'') @ '':v'' @ version_text h plan) \<and>
        string_where SAFE_SEGMENT (fld o' ''taskId'') \<and>
        fld o' ''planId'' = fld plan ''planId'' \<and> fld o' ''version'' = fld plan ''version'' \<and>
        fld o' ''fileName'' = JStr (''v'' @ version_text h plan @ ''.md'') \<and>
        string_where (\<lambda>t. length t > 0) (fld o' ''relativePath'') \<and>
        string_where (\<lambda>t. length t > 0) (fld o' ''displayPath'') \<and>
        fld o' ''structuralDigest'' = fld plan ''structuralDigest'' \<and>
        is_integer (fld o' ''byteLength'') \<and> int_of (fld o' ''byteLength'') \<ge> 0
      | _ \<Rightarrow> False)"

definition PLAN_KEYS :: "string list" where
  "PLAN_KEYS = [''planSchemaVersion'', ''planId'', ''version'', ''title'', ''bodyMarkdown'', ''steps'',
     ''structuralDigest'', ''createdAtTurnId'', ''updatedAtTurnId'', ''supersedesPlanVersion'',
     ''replanReason'', ''completionEvidence'', ''artifact'']"

definition isPlanDocument :: "js_host \<Rightarrow> jobj \<Rightarrow> bool" where
  "isPlanDocument h v \<longleftrightarrow>
     hasOnlyKeys v PLAN_KEYS \<and>
     fld v ''planSchemaVersion'' = JNum 2 \<and>
     string_where SAFE_SEGMENT (fld v ''planId'') \<and>
     is_integer (fld v ''version'') \<and> int_of (fld v ''version'') \<ge> 1 \<and>
     string_where (\<lambda>t. t = js_trim t \<and> 1 \<le> length t \<and> length t \<le> 120 \<and> no_line_break t) (fld v ''title'') \<and>
     string_where (\<lambda>t. t = js_trim t \<and> 20 \<le> length t \<and> length t \<le> 30000) (fld v ''bodyMarkdown'') \<and>
     (case fld v ''steps'' of JArr steps \<Rightarrow>
        1 \<le> length steps \<and> length steps \<le> 12 \<and> list_all isPlanStep steps \<and>
        distinct (map (\<lambda>step. vfld step ''id'') steps)
      | _ \<Rightarrow> False) \<and>
     string_where is_sha256_hex (fld v ''structuralDigest'') \<and>
     string_where (\<lambda>t. length t \<ge> 1) (fld v ''createdAtTurnId'') \<and>
     string_where (\<lambda>t. length t \<ge> 1) (fld v ''updatedAtTurnId'') \<and>
     isPlanCompletionEvidence (fld v ''completionEvidence'') \<and>
     (fld v ''supersedesPlanVersion'' = JUndef \<or>
        is_integer (fld v ''supersedesPlanVersion'') \<and> int_of (fld v ''supersedesPlanVersion'') \<ge> 1) \<and>
     (fld v ''replanReason'' = JUndef \<or> string_where (\<lambda>t. length t \<le> 500) (fld v ''replanReason'')) \<and>
     JStr (planStructuralDigest h v) = fld v ''structuralDigest'' \<and>
     (fld v ''artifact'' = JUndef \<or> isPlanArtifactRef h (fld v ''artifact'') v)"

section \<open>The guard\<close>

definition COMPLETION_GUARD_UNPLANNED_VERSION :: string where
  "COMPLETION_GUARD_UNPLANNED_VERSION = ''completion_guard_v1''"

definition COMPLETION_GUARD_PLANNED_VERSION :: string where
  "COMPLETION_GUARD_PLANNED_VERSION = ''completion_guard_v2''"

record guard_blocked =
  gb_code :: string
  gb_nextAction :: string
  gb_planning :: string
  gb_correctionAttempt :: int
  gb_canCorrect :: bool

text \<open>The identity is present exactly in the planned (version 2) decisions.\<close>

datatype completion_decision =
    GuardAccepted string "plan_identity option"
  | GuardBlocked string "plan_identity option" guard_blocked

fun planning_kind :: "planning_state \<Rightarrow> string" where
  "planning_kind BuildingWithoutPlan = ''building_without_plan''"
| "planning_kind PlanningEmpty = ''planning_empty''"
| "planning_kind (PlanningDraft d f) = ''planning_draft''"
| "planning_kind (ReplanningDraft d v r f) = ''replanning_draft''"
| "planning_kind (AwaitingReview d a b) = ''awaiting_review''"
| "planning_kind (Executing d a b) = ''executing''"
| "planning_kind (PlanCompleted d a) = ''completed''"
| "planning_kind (PlanCancelled d a b) = ''cancelled''"

fun planning_document :: "planning_state \<Rightarrow> jobj option" where
  "planning_document (PlanningDraft d f) = Some d"
| "planning_document (ReplanningDraft d v r f) = Some d"
| "planning_document (AwaitingReview d a b) = Some d"
| "planning_document (Executing d a b) = Some d"
| "planning_document (PlanCompleted d a) = Some d"
| "planning_document (PlanCancelled d a b) = d"
| "planning_document _ = None"

definition activePlanning :: "agent_state \<Rightarrow> planning_state" where
  "activePlanning s =
     (case st_activeTaskId s of None \<Rightarrow> BuildingWithoutPlan
      | Some i \<Rightarrow> (case obj_get (st_tasks s) i of None \<Rightarrow> BuildingWithoutPlan | Some t \<Rightarrow> tk_planning t))"

definition belongsToActiveTask :: "agent_state \<Rightarrow> string option \<Rightarrow> bool" where
  "belongsToActiveTask s taskId \<longleftrightarrow> taskId = None \<or> st_activeTaskId s = None \<or> taskId = st_activeTaskId s"

definition hasCurrentNonTerminalTool :: "agent_state \<Rightarrow> bool" where
  "hasCurrentNonTerminalTool s =
     list_ex (\<lambda>call. toolCallBelongsToCurrentWork s call \<and> \<not> terminal_tool_status (tc_status call))
       (obj_values (to_calls (st_tools s)))"

definition hasUnknownInvocation :: "agent_state \<Rightarrow> bool" where
  "hasUnknownInvocation s = list_ex (\<lambda>i. ci_status i = ''unknown'') (obj_values (st_invocations s))"

definition unplannedCorrectionAttempt :: "agent_state \<Rightarrow> int" where
  "unplannedCorrectionAttempt s =
     (if cg_guardVersion (st_completionGuard s) = Some COMPLETION_GUARD_PLANNED_VERSION then 1
      else cg_correctionAttempts (st_completionGuard s) + 1)"

definition plannedCorrectionAttempt :: "agent_state \<Rightarrow> plan_identity \<Rightarrow> int" where
  "plannedCorrectionAttempt s planIdentity =
     (if cg_guardVersion (st_completionGuard s) = Some COMPLETION_GUARD_PLANNED_VERSION \<and>
         cg_planIdentity (st_completionGuard s) = Some planIdentity
      then cg_correctionAttempts (st_completionGuard s) + 1 else 1)"

definition reviewed_draft_can_pause :: "agent_state \<Rightarrow> string \<Rightarrow> bool" where
  "reviewed_draft_can_pause s code \<longleftrightarrow>
     code = ''plan_draft_pending'' \<and>
     (case activePlanning s of PlanningDraft d f \<Rightarrow> f \<noteq> None | _ \<Rightarrow> False)"

definition blockedUnplannedCompletion ::
  "agent_state \<Rightarrow> string \<Rightarrow> string \<Rightarrow> string \<Rightarrow> completion_decision" where
  "blockedUnplannedCompletion s planning code nextAction =
     (let attempt = unplannedCorrectionAttempt s in
      GuardBlocked COMPLETION_GUARD_UNPLANNED_VERSION None
        \<lparr>gb_code = code, gb_nextAction = nextAction, gb_planning = planning,
         gb_correctionAttempt = attempt,
         gb_canCorrect = (attempt = 1 \<and> \<not> reviewed_draft_can_pause s code)\<rparr>)"

definition blockedPlannedCompletion ::
  "agent_state \<Rightarrow> string \<Rightarrow> plan_identity \<Rightarrow> string \<Rightarrow> string \<Rightarrow> completion_decision" where
  "blockedPlannedCompletion s planning planIdentity code nextAction =
     (let attempt = plannedCorrectionAttempt s planIdentity in
      GuardBlocked COMPLETION_GUARD_PLANNED_VERSION (Some planIdentity)
        \<lparr>gb_code = code, gb_nextAction = nextAction, gb_planning = planning,
         gb_correctionAttempt = attempt,
         gb_canCorrect = (attempt = 1 \<and> \<not> reviewed_draft_can_pause s code)\<rparr>)"

text \<open>The blocker shared by both guards: its code and next action.\<close>

definition common_code :: "agent_state \<Rightarrow> (string \<times> string) option" where
  "common_code s =
     (if st_interactions s \<noteq> Idle then Some (''interaction_pending'', ''wait_for_interaction'')
      else if hasCurrentNonTerminalTool s then Some (''tool_pending'', ''wait_for_tool'')
      else if hasCurrentSuspendedSubagent s then Some (''subagent_suspended'', ''wait_for_subagent'')
      else if hasUnknownInvocation s
      then Some (''unknown_external_invocation'', ''reconcile_invocation'')
      else if activeSkillFramesForCurrentWork s \<noteq> [] then Some (''skill_active'', ''complete_skill'')
      else None)"

definition commonBlocker :: "agent_state \<Rightarrow> completion_decision option" where
  "commonBlocker s =
     map_option (\<lambda>(code, action). blockedUnplannedCompletion s (planning_kind (activePlanning s)) code action)
       (common_code s)"

definition decideUnplannedCompletion :: "agent_state \<Rightarrow> completion_decision" where
  "decideUnplannedCompletion s =
     (let planning = activePlanning s; kind = planning_kind planning in
      case commonBlocker s of Some b \<Rightarrow> b
      | None \<Rightarrow>
          (case planning of
             BuildingWithoutPlan \<Rightarrow> GuardAccepted COMPLETION_GUARD_UNPLANNED_VERSION None
           | PlanCompleted d a \<Rightarrow> GuardAccepted COMPLETION_GUARD_UNPLANNED_VERSION None
           | PlanningEmpty \<Rightarrow> blockedUnplannedCompletion s kind ''planning_empty'' ''save_plan''
           | PlanningDraft d f \<Rightarrow> blockedUnplannedCompletion s kind ''plan_draft_pending'' ''submit_plan''
           | ReplanningDraft d v r f \<Rightarrow>
               blockedUnplannedCompletion s kind ''plan_draft_pending'' ''submit_plan''
           | AwaitingReview d a b \<Rightarrow>
               blockedUnplannedCompletion s kind ''plan_review_pending'' ''wait_for_review''
           | Executing d a b \<Rightarrow>
               blockedUnplannedCompletion s kind ''plan_execution_incomplete'' ''complete_plan''
           | PlanCancelled d a b \<Rightarrow>
               blockedUnplannedCompletion s kind ''plan_cancelled'' ''start_new_task''))"

section \<open>Completion evidence\<close>

definition isResolvedRecoveryFailure :: "agent_state \<Rightarrow> tool_call \<Rightarrow> bool" where
  "isResolvedRecoveryFailure s call =
     (case tc_outcome call of None \<Rightarrow> False
      | Some o' \<Rightarrow> (case oc_failureInstanceId o' of None \<Rightarrow> False
          | Some i \<Rightarrow> (case obj_get (rj_failures (st_toolRecovery s)) i of None \<Rightarrow> False
              | Some f \<Rightarrow> rf_status f = Recovered)))"

definition relevantEffectCalls :: "agent_state \<Rightarrow> tool_call list" where
  "relevantEffectCalls s =
     filter (\<lambda>call. tc_sideEffect call = Some True \<and> belongsToActiveTask s (tc_taskId call) \<and>
         (tc_status call = TSucceeded \<or> \<not> isResolvedRecoveryFailure s call))
       (obj_values (to_calls (st_tools s)))"

definition relevantPendingCalls :: "agent_state \<Rightarrow> tool_call list" where
  "relevantPendingCalls s =
     filter (\<lambda>call. belongsToActiveTask s (tc_taskId call) \<and>
         tc_status call \<in> {TAwaitingUserInput, TAwaitingReview, TAwaitingApproval, TAwaitingAutoReview,
           TAuthorizedQueued}) (obj_values (to_calls (st_tools s)))"

definition result_ok :: "tool_call \<Rightarrow> bool" where
  "result_ok call = (case tc_result call of None \<Rightarrow> False | Some r \<Rightarrow> tr_ok r)"

fun verification_outcome :: "verification_status \<Rightarrow> string option" where
  "verification_outcome VPassed = Some ''passed''"
| "verification_outcome VWaived = Some ''waived''"
| "verification_outcome _ = None"

text \<open>The entries of one list of the evidence, ordered by \<open>localeCompare\<close> of a key.\<close>

definition sorted_entries :: "js_host \<Rightarrow> (string \<times> jobj) list \<Rightarrow> jval" where
  "sorted_entries h es =
     JArr (map (\<lambda>(key, e). JObj e) (sort_by (\<lambda>a b. locale_le h (fst a) (fst b)) es))"

definition verification_entries :: "agent_state \<Rightarrow> (string \<times> jobj) list" where
  "verification_entries s =
     List.map_filter (\<lambda>r. if belongsToActiveTask s (vr_taskId r)
         then map_option (\<lambda>out. (vr_verificationId r,
             [(''verificationId'', JStr (vr_verificationId r)), (''outcome'', JStr out)]))
           (verification_outcome (vr_status r)) else None)
       (obj_values (st_verification s))"

definition execution_entries :: "agent_state \<Rightarrow> (string \<times> jobj) list" where
  "execution_entries s =
     map (\<lambda>call. (tc_toolCallId call,
         [(''toolCallId'', JStr (tc_toolCallId call)), (''outcome'', JStr ''succeeded'')]))
       (filter (\<lambda>call. tc_status call = TSucceeded \<and> result_ok call) (relevantEffectCalls s))"

definition unresolved_entries :: "agent_state \<Rightarrow> (string \<times> jobj) list" where
  "unresolved_entries s =
     (let entry = (\<lambda>kind call. (kind @ '':'' @ tc_toolCallId call,
            [(''kind'', JStr kind), (''referenceId'', JStr (tc_toolCallId call))])) in
      concat (map (\<lambda>call.
          (if tc_status call = TAwaitingApproval then [entry ''approval'' call] else []) @
          (if tc_status call \<in> {TFailed, TRejected, TCancelled, TExhausted} \<and>
              tc_sideEffect call = Some True \<and> \<not> isResolvedRecoveryFailure s call
           then [entry ''failure'' call] else []))
        (filter (\<lambda>call. belongsToActiveTask s (tc_taskId call)) (obj_values (to_calls (st_tools s))))))"

text \<open>A map built from pairs, the last one winning.\<close>

definition last_value :: "(string \<times> jval) list \<Rightarrow> string \<Rightarrow> jval" where
  "last_value kvs k = fld (rev kvs) k"

definition skipped_pairs :: "jval \<Rightarrow> (string \<times> jval) list" where
  "skipped_pairs evidence =
     map (\<lambda>e. (text_of (vfld e ''stepId''), vfld e ''reasonCode'')) (list_of (vfld evidence ''skipped''))"

definition skipped_entries ::
  "agent_state \<Rightarrow> jval list \<Rightarrow> (string \<times> jval) list \<Rightarrow> (string \<times> jobj) list" where
  "skipped_entries s steps reasonCodes =
     (let prior = (case activePlanning s of
            Executing d a b \<Rightarrow> skipped_pairs (fld d ''completionEvidence'') | _ \<Rightarrow> []) in
      map (\<lambda>step. let i = text_of (vfld step ''id'') in
          (i, [(''stepId'', vfld step ''id''),
             (''reasonCode'', coalesce (last_value reasonCodes i) (coalesce (last_value prior i) (JStr [])))]))
        (filter (\<lambda>step. vfld step ''status'' = JStr ''skipped'') steps))"

definition projectPlanCompletionEvidence ::
  "js_host \<Rightarrow> agent_state \<Rightarrow> jval list \<Rightarrow> (string \<times> jval) list \<Rightarrow> jval" where
  "projectPlanCompletionEvidence h s steps reasonCodes =
     JObj [(''schemaVersion'', JNum 1),
       (''verification'', sorted_entries h (verification_entries s)),
       (''execution'', sorted_entries h (execution_entries s)),
       (''skipped'', sorted_entries h (skipped_entries s steps reasonCodes)),
       (''unresolved'', sorted_entries h (unresolved_entries s))]"

definition verified :: "verification_status \<Rightarrow> bool" where
  "verified st \<longleftrightarrow> st = VPassed \<or> st = VWaived"

definition planCompletionBlocker :: "agent_state \<Rightarrow> jval \<Rightarrow> string option" where
  "planCompletionBlocker s evidence =
     (if st_interactions s \<noteq> Idle \<or> length (relevantPendingCalls s) > 0
      then Some ''plan_unresolved_blocker''
      else if list_ex (\<lambda>r. belongsToActiveTask s (vr_taskId r) \<and> vr_mode r = Required \<and>
           \<not> verified (vr_status r)) (obj_values (st_verification s))
      then Some ''plan_verification_required''
      else if list_ex (\<lambda>e. \<not> string_where SAFE_REASON_CODE (vfld e ''reasonCode''))
           (list_of (vfld evidence ''skipped''))
      then Some ''plan_skipped_reason_required''
      else if length (list_of (vfld evidence ''unresolved'')) > 0 then Some ''plan_unresolved_blocker''
      else let execution = list_of (vfld evidence ''execution'');
               activeTask = (case st_activeTaskId s of None \<Rightarrow> None | Some i \<Rightarrow> obj_get (st_tasks s) i) in
        if (case activeTask of None \<Rightarrow> False | Some t \<Rightarrow> tk_sideEffectsStarted t) \<and> execution = [] \<or>
           list_ex (\<lambda>call. tc_status call \<noteq> TSucceeded \<or> \<not> result_ok call \<or>
             \<not> list_ex (\<lambda>e. vfld e ''toolCallId'' = JStr (tc_toolCallId call)) execution)
             (relevantEffectCalls s)
        then Some ''plan_effect_evidence_required''
        else None)"

definition planCompletionEvidenceMatchesRuntime ::
  "js_host \<Rightarrow> agent_state \<Rightarrow> jval list \<Rightarrow> jval \<Rightarrow> bool" where
  "planCompletionEvidenceMatchesRuntime h s steps evidence \<longleftrightarrow>
     isPlanCompletionEvidence evidence \<and>
     json_stringify h (projectPlanCompletionEvidence h s steps (skipped_pairs evidence)) =
       json_stringify h evidence"

definition plannedEvidenceBlocker :: "js_host \<Rightarrow> agent_state \<Rightarrow> jobj \<Rightarrow> (string \<times> string) option" where
  "plannedEvidenceBlocker h s document =
     (let evidence = fld document ''completionEvidence'';
          verification = list_of (vfld evidence ''verification'') in
      if list_ex (\<lambda>r.
           belongsToActiveTask s (vr_taskId r) \<and> vr_mode r = Required \<and>
           (\<not> verified (vr_status r) \<or>
            \<not> list_ex (\<lambda>e. vfld e ''verificationId'' = JStr (vr_verificationId r) \<and>
                vfld e ''outcome'' = JStr (or_default (verification_outcome (vr_status r)) []))
              verification))
         (obj_values (st_verification s))
      then Some (''verification_required'', ''complete_verification'')
      else let blocker = planCompletionBlocker s evidence in
        if blocker = Some ''plan_verification_required''
        then Some (''verification_required'', ''complete_verification'')
        else if blocker = Some ''plan_effect_evidence_required'' \<or>
                \<not> planCompletionEvidenceMatchesRuntime h s (list_of (fld document ''steps'')) evidence
        then Some (''effect_evidence_required'', ''record_effect_evidence'')
        else if blocker = Some ''plan_unresolved_blocker'' \<or> blocker = Some ''plan_skipped_reason_required''
        then Some (''plan_evidence_unresolved'', ''resolve_plan_evidence'')
        else None)"

definition document_identity :: "jobj \<Rightarrow> plan_identity" where
  "document_identity d = \<lparr>pi_planId = fld d ''planId'', pi_version = fld d ''version'',
     pi_structuralDigest = fld d ''structuralDigest''\<rparr>"

definition step_open :: "jval \<Rightarrow> bool" where
  "step_open step \<longleftrightarrow> vfld step ''status'' = JStr ''pending'' \<or> vfld step ''status'' = JStr ''in_progress''"

definition decidePlannedCompletion :: "js_host \<Rightarrow> agent_state \<Rightarrow> completion_decision res" where
  "decidePlannedCompletion h s =
     (let planning = activePlanning s in
      case planning_document planning of
        None \<Rightarrow> throw ''CompletionGuard V2 requires a PlanDocument V2.''
      | Some document \<Rightarrow>
          let planIdentity = document_identity document;
              block = (\<lambda>(code, action).
                blockedPlannedCompletion s (planning_kind planning) planIdentity code action) in
          Inr (case common_code s of Some b \<Rightarrow> block b
            | None \<Rightarrow>
              if isToolRecoveryQualityBlocked (st_toolRecovery s) (st_activeTaskId s) (Some (tn_turnId (st_turn s))) \<or>
                 hasActiveUnresolvedToolFailures (st_toolRecovery s) (st_activeTaskId s) (Some (tn_turnId (st_turn s)))
              then block (''plan_evidence_unresolved'', ''resolve_plan_evidence'')
              else if \<not> isPlanDocument h document
              then block (''plan_evidence_unresolved'', ''resolve_plan_evidence'')
              else (case planning of
                 PlanningDraft d f \<Rightarrow> block (''plan_draft_pending'', ''submit_plan'')
               | ReplanningDraft d v r f \<Rightarrow> block (''plan_draft_pending'', ''submit_plan'')
               | AwaitingReview d a b \<Rightarrow> block (''plan_review_pending'', ''wait_for_review'')
               | Executing d a b \<Rightarrow>
                   if list_ex step_open (list_of (fld document ''steps''))
                   then block (''plan_execution_incomplete'', ''complete_plan'')
                   else (case plannedEvidenceBlocker h s document of
                       Some eb \<Rightarrow> block eb
                     | None \<Rightarrow> block (''plan_execution_incomplete'', ''complete_plan''))
               | PlanCompleted d a \<Rightarrow>
                   (case plannedEvidenceBlocker h s document of
                       Some eb \<Rightarrow> block eb
                     | None \<Rightarrow> GuardAccepted COMPLETION_GUARD_PLANNED_VERSION (Some planIdentity))
               | _ \<Rightarrow> block (''plan_cancelled'', ''start_new_task''))))"

definition decideCompletion :: "js_host \<Rightarrow> agent_state \<Rightarrow> completion_decision res" where
  "decideCompletion h s =
     (if planning_document (activePlanning s) \<noteq> None then decidePlannedCompletion h s
      else Inr (decideUnplannedCompletion s))"

section \<open>The completion reducer\<close>

definition TERMINAL_REASON_CODES :: "string list" where
  "TERMINAL_REASON_CODES = [''completed'', ''artifact_invalid'', ''profile_invalid'', ''digest_invalid'',
     ''workspace_untrusted'', ''sandbox_unavailable'', ''network_unavailable'', ''worktree_unavailable'',
     ''model_retry_exhausted'', ''provider_unavailable'', ''mcp_unavailable'', ''persistence_unavailable'',
     ''budget_exhausted'', ''resource_saturated'', ''tool_concurrency_saturated'',
     ''shell_concurrency_saturated'', ''process_limit_exceeded'', ''cancel_incomplete'',
     ''compaction_unqualified'', ''compaction_failed'', ''verification_failed'',
     ''verification_inconclusive'', ''mandatory_policy_unavailable'', ''blocked'', ''unknown'']"

definition terminalStatus :: "jval \<Rightarrow> terminal_status option" where
  "terminalStatus v =
     (if v = JStr ''completed'' then Some TermCompleted
      else if v = JStr ''aborted'' then Some TermAborted
      else if v = JStr ''blocked'' then Some TermBlocked
      else if v = JStr ''unknown'' then Some TermUnknown
      else if v = JStr ''budget_exhausted'' then Some TermBudgetExhausted
      else if v = JStr ''resource_saturated'' then Some TermResourceSaturated
      else None)"

definition knownExternalEffects :: "jval \<Rightarrow> known_effects option" where
  "knownExternalEffects v =
     (if v = JStr ''none'' then Some EffNone
      else if v = JStr ''known'' then Some EffKnown
      else if v = JStr ''unknown'' then Some EffUnknown
      else None)"

definition recoveryEntry :: "jval \<Rightarrow> recovery_entry option" where
  "recoveryEntry v =
     (if v = JStr ''none'' then Some EntNone
      else if v = JStr ''retry'' then Some EntRetry
      else if v = JStr ''reconcile'' then Some EntReconcile
      else if v = JStr ''new_run'' then Some EntNewRun
      else if v = JStr ''operator_action'' then Some EntOperatorAction
      else None)"

definition completionOutcome :: "jobj \<Rightarrow> terminal_outcome option" where
  "completionOutcome payload =
     (case recordField payload ''outcome'' of None \<Rightarrow> None
      | Some out \<Rightarrow>
          if fld out ''version'' \<noteq> JNum 1 \<or> fld out ''reasonCode'' \<notin> JStr ` set TERMINAL_REASON_CODES
          then None
          else (case (terminalStatus (fld out ''status''), knownExternalEffects (fld out ''knownExternalEffects''),
                   recoveryEntry (fld out ''recoveryEntry''), booleanField out ''safeRetry'',
                   booleanField out ''pendingVerification'') of
              (Some status, Some effects, Some recovery, Some safeRetry, Some pending) \<Rightarrow>
                Some \<lparr>out_status = status, out_reasonCode = text_of (fld out ''reasonCode''),
                  out_knownExternalEffects = effects, out_safeRetry = safeRetry,
                  out_recoveryEntry = recovery, out_pendingVerification = pending\<rparr>
            | _ \<Rightarrow> None))"

definition planIdentity :: "jval \<Rightarrow> plan_identity option" where
  "planIdentity v =
     (let candidate = or_default (as_record v) [] in
      case (nonEmptyStringField candidate ''planId'', nonEmptyStringField candidate ''structuralDigest'') of
        (Some planId, Some digest) \<Rightarrow>
          (if is_safe_integer (fld candidate ''version'') \<and> int_of (fld candidate ''version'') \<ge> 1
           then Some \<lparr>pi_planId = JStr planId, pi_version = fld candidate ''version'',
             pi_structuralDigest = JStr digest\<rparr>
           else None)
      | _ \<Rightarrow> None)"

definition active_task :: "agent_state \<Rightarrow> task_state option" where
  "active_task s =
     (case truthy_option (st_activeTaskId s) of None \<Rightarrow> None | Some i \<Rightarrow> obj_get (st_tasks s) i)"

definition hasPlanDocument :: "agent_state \<Rightarrow> bool" where
  "hasPlanDocument s =
     (case active_task s of None \<Rightarrow> False | Some t \<Rightarrow> planning_document (tk_planning t) \<noteq> None)"

definition completionDecisionForVersion ::
  "js_host \<Rightarrow> agent_state \<Rightarrow> string \<Rightarrow> completion_decision option" where
  "completionDecisionForVersion h s version =
     (if version = COMPLETION_GUARD_UNPLANNED_VERSION then Some (decideUnplannedCompletion s)
      else if version = COMPLETION_GUARD_PLANNED_VERSION
      then (case decidePlannedCompletion h s of Inl e \<Rightarrow> None | Inr d \<Rightarrow> Some d)
      else None)"

definition blockedEventMatchesDecision ::
  "jobj \<Rightarrow> string \<Rightarrow> plan_identity option \<Rightarrow> guard_blocked \<Rightarrow> bool" where
  "blockedEventMatchesDecision payload version identity b \<longleftrightarrow>
     stringField payload ''guardVersion'' = Some version \<and>
     stringField payload ''code'' = Some (gb_code b) \<and>
     stringField payload ''nextAction'' = Some (gb_nextAction b) \<and>
     stringField payload ''planning'' = Some (gb_planning b) \<and>
     fld payload ''correctionAttempt'' = jint (gb_correctionAttempt b) \<and>
     (version = COMPLETION_GUARD_UNPLANNED_VERSION \<or>
      planIdentity (fld payload ''planIdentity'') = identity)"

record completion_fact =
  cf_taskId :: string
  cf_runId :: string
  cf_turnId :: string
  cf_output :: string
  cf_completionGuardVersion :: string
  cf_planIdentity :: "plan_identity option"
  cf_outcome :: terminal_outcome

definition normalizeCanonicalTaskCompletionFact ::
  "js_host \<Rightarrow> agent_state \<Rightarrow> jobj \<Rightarrow> completion_fact option" where
  "normalizeCanonicalTaskCompletionFact h s payload =
     (case nonEmptyStringField payload ''turnId'' of None \<Rightarrow> None
      | Some turnId \<Rightarrow>
          if turnId \<noteq> tn_turnId (st_turn s) then None
          else case active_task s of None \<Rightarrow> None
            | Some activeTask \<Rightarrow>
              let version = or_default (stringField payload ''completionGuardVersion'')
                     COMPLETION_GUARD_UNPLANNED_VERSION;
                  identity = planIdentity (fld payload ''planIdentity'') in
              if hasPlanDocument s \<and> version \<noteq> COMPLETION_GUARD_PLANNED_VERSION then None
              else (case completionDecisionForVersion h s version of
                  Some (GuardAccepted v accepted) \<Rightarrow>
                    if v = COMPLETION_GUARD_PLANNED_VERSION \<and> identity \<noteq> accepted then None
                    else (case (completionOutcome payload, stringField payload ''output'') of
                        (Some outcome, Some output) \<Rightarrow>
                          Some \<lparr>cf_taskId = tk_taskId activeTask, cf_runId = turnId, cf_turnId = turnId,
                            cf_output = output, cf_completionGuardVersion = version,
                            cf_planIdentity = identity, cf_outcome = outcome\<rparr>
                      | _ \<Rightarrow> None)
                | _ \<Rightarrow> None))"

definition run_completed :: "js_host \<Rightarrow> agent_state \<Rightarrow> jobj \<Rightarrow> agent_state res" where
  "run_completed h s payload =
     (case normalizeCanonicalTaskCompletionFact h s payload of None \<Rightarrow> Inr s
      | Some completion \<Rightarrow>
          (case obj_get (st_tasks s) (cf_taskId completion) of
             None \<Rightarrow> throw ''TypeError''
           | Some activeTask \<Rightarrow>
               Inr (s\<lparr>st_terminalOutcome := Some (cf_outcome completion), st_activeTaskId := None,
                 st_tasks := obj_set (tk_taskId activeTask)
                   (activeTask\<lparr>tk_status := TaskCompleted, tk_completedAtTurnId := Some (cf_turnId completion),
                     tk_executionMode := None\<rparr>) (st_tasks s)\<rparr>)))"

definition completion_blocked :: "js_host \<Rightarrow> agent_state \<Rightarrow> jobj \<Rightarrow> agent_state" where
  "completion_blocked h s payload =
     (case (nonEmptyStringField payload ''turnId'', nonEmptyStringField payload ''guardVersion'') of
        (Some turnId, Some version) \<Rightarrow>
          if turnId \<noteq> tn_turnId (st_turn s) then s
          else if hasPlanDocument s \<and> version \<noteq> COMPLETION_GUARD_PLANNED_VERSION then s
          else (case completionDecisionForVersion h s version of
              Some (GuardBlocked v identity b) \<Rightarrow>
                if \<not> blockedEventMatchesDecision payload v identity b then s
                else s\<lparr>st_completionGuard := \<lparr>cg_correctionAttempts = gb_correctionAttempt b,
                    cg_guardVersion = Some v, cg_planIdentity = identity\<rparr>,
                  st_transcript := (st_transcript s)\<lparr>ts_final := None\<rparr>\<rparr>
            | _ \<Rightarrow> s)
      | _ \<Rightarrow> s)"

definition turn_completed :: "agent_state \<Rightarrow> jobj \<Rightarrow> agent_state" where
  "turn_completed s payload =
     (if nonEmptyStringField payload ''turnId'' = Some (tn_turnId (st_turn s))
      then s\<lparr>st_turn := (st_turn s)\<lparr>tn_status := TurnCompleted\<rparr>\<rparr> else s)"

definition turn_aborted :: "agent_state \<Rightarrow> jobj \<Rightarrow> agent_state" where
  "turn_aborted s payload =
     (case (nonEmptyStringField payload ''turnId'', nonEmptyStringField payload ''reason'') of
        (Some turnId, Some reason) \<Rightarrow>
          if turnId \<noteq> tn_turnId (st_turn s) then s
          else let cause = stringField payload ''cause'';
                   turn = (st_turn s)\<lparr>tn_turnId := turnId, tn_status := TurnAborted,
                     tn_abortReason := Some reason\<rparr> in
            s\<lparr>st_turn := (if cause = Some ''error'' \<or> cause = Some ''user''
              then turn\<lparr>tn_abortCause := cause\<rparr> else turn)\<rparr>
      | _ \<Rightarrow> s)"

definition reduceCompletionState :: "js_host \<Rightarrow> agent_state \<Rightarrow> kernel_event \<Rightarrow> agent_state res" where
  "reduceCompletionState h s e =
     (if ev_type e = ''turn.completed'' then Inr (turn_completed s (ev_data e))
      else if ev_type e = ''turn.aborted'' then Inr (turn_aborted s (ev_data e))
      else if ev_type e = ''run.completed'' then run_completed h s (ev_data e)
      else if ev_type e = ''run.error''
      then Inr (case completionOutcome (ev_data e) of None \<Rightarrow> s
        | Some outcome \<Rightarrow> s\<lparr>st_terminalOutcome := Some outcome\<rparr>)
      else if ev_type e = ''completion.blocked'' then Inr (completion_blocked h s (ev_data e))
      else Inr s)"

section \<open>What acceptance means\<close>

definition quiescent :: "agent_state \<Rightarrow> bool" where
  "quiescent s \<longleftrightarrow>
     st_interactions s = Idle \<and>
     (\<forall>call \<in> set (obj_values (to_calls (st_tools s))). toolCallBelongsToCurrentWork s call \<longrightarrow>
        terminal_tool_status (tc_status call)) \<and>
     \<not> hasCurrentSuspendedSubagent s \<and>
     (\<forall>i \<in> set (obj_values (st_invocations s)). ci_status i \<noteq> ''unknown'') \<and>
     (\<forall>f \<in> set (obj_values (st_skillFrames s)).
        sf_status f = ''active'' \<longrightarrow> Some (sf_taskId f) \<noteq> st_activeTaskId s)"

lemma common_code_None: "common_code s = None \<longleftrightarrow> quiescent s"
  by (simp add: common_code_def quiescent_def hasCurrentNonTerminalTool_def hasUnknownInvocation_def
      activeSkillFramesForCurrentWork_def list_ex_iff filter_empty_conv)

text \<open>What a completed plan has to show.\<close>

definition plan_evidenced :: "js_host \<Rightarrow> agent_state \<Rightarrow> jobj \<Rightarrow> bool" where
  "plan_evidenced h s d \<longleftrightarrow>
     isPlanDocument h d \<and>
     \<not> isToolRecoveryQualityBlocked (st_toolRecovery s) (st_activeTaskId s) (Some (tn_turnId (st_turn s))) \<and>
     \<not> hasActiveUnresolvedToolFailures (st_toolRecovery s) (st_activeTaskId s) (Some (tn_turnId (st_turn s))) \<and>
     (\<forall>r \<in> set (obj_values (st_verification s)).
        belongsToActiveTask s (vr_taskId r) \<and> vr_mode r = Required \<longrightarrow> verified (vr_status r)) \<and>
     (\<forall>call \<in> set (relevantEffectCalls s). tc_status call = TSucceeded \<and> result_ok call) \<and>
     json_stringify h (projectPlanCompletionEvidence h s (list_of (fld d ''steps''))
         (skipped_pairs (fld d ''completionEvidence''))) = json_stringify h (fld d ''completionEvidence'')"

lemma planCompletionBlocker_None:
  assumes "planCompletionBlocker s evidence = None"
  shows "\<forall>call \<in> set (relevantEffectCalls s). tc_status call = TSucceeded \<and> result_ok call"
  using assms by (auto simp: planCompletionBlocker_def Let_def list_ex_iff split: if_splits)

lemma planCompletionBlocker_values:
  "planCompletionBlocker s evidence \<in> {None, Some ''plan_unresolved_blocker'',
     Some ''plan_verification_required'', Some ''plan_skipped_reason_required'',
     Some ''plan_effect_evidence_required''}"
  by (simp add: planCompletionBlocker_def Let_def)

lemma plannedEvidenceBlocker_None:
  assumes "plannedEvidenceBlocker h s d = None"
  shows "planCompletionBlocker s (fld d ''completionEvidence'') = None"
    "planCompletionEvidenceMatchesRuntime h s (list_of (fld d ''steps'')) (fld d ''completionEvidence'')"
    "\<forall>r \<in> set (obj_values (st_verification s)).
       belongsToActiveTask s (vr_taskId r) \<and> vr_mode r = Required \<longrightarrow> verified (vr_status r)"
proof -
  have "\<not> list_ex (\<lambda>r. belongsToActiveTask s (vr_taskId r) \<and> vr_mode r = Required \<and>
      \<not> verified (vr_status r)) (obj_values (st_verification s))"
    using assms by (auto simp: plannedEvidenceBlocker_def Let_def list_ex_iff split: if_splits)
  then show "\<forall>r \<in> set (obj_values (st_verification s)).
       belongsToActiveTask s (vr_taskId r) \<and> vr_mode r = Required \<longrightarrow> verified (vr_status r)"
    by (auto simp: list_ex_iff)
  show "planCompletionEvidenceMatchesRuntime h s (list_of (fld d ''steps'')) (fld d ''completionEvidence'')"
    using assms by (simp add: plannedEvidenceBlocker_def Let_def split: if_splits)
  show "planCompletionBlocker s (fld d ''completionEvidence'') = None"
    using assms planCompletionBlocker_values [of s "fld d ''completionEvidence''"]
    by (simp add: plannedEvidenceBlocker_def Let_def split: if_splits)
qed

lemma planned_accepted:
  assumes "decidePlannedCompletion h s = Inr (GuardAccepted v i)"
  shows "quiescent s \<and> (\<exists>d a. activePlanning s = PlanCompleted d a \<and> plan_evidenced h s d \<and>
    i = Some (document_identity d)) \<and> v = COMPLETION_GUARD_PLANNED_VERSION"
proof -
  have never: "blockedPlannedCompletion s k p c n \<noteq> GuardAccepted v i" for k p c n
    by (simp add: blockedPlannedCompletion_def Let_def)
  obtain d where d: "planning_document (activePlanning s) = Some d"
    using assms by (auto simp: decidePlannedCompletion_def Let_def split: option.splits)
  have q: "common_code s = None"
    using assms d never by (auto simp: decidePlannedCompletion_def Let_def split: option.splits)
  note planned = assms [unfolded decidePlannedCompletion_def Let_def d option.case q]
  have guards: "\<not> isToolRecoveryQualityBlocked (st_toolRecovery s) (st_activeTaskId s) (Some (tn_turnId (st_turn s)))"
    "\<not> hasActiveUnresolvedToolFailures (st_toolRecovery s) (st_activeTaskId s) (Some (tn_turnId (st_turn s)))"
    "isPlanDocument h d"
    using planned never by (auto split: if_splits)
  with planned never obtain a where a: "activePlanning s = PlanCompleted d a"
    and none: "plannedEvidenceBlocker h s d = None"
    and res: "v = COMPLETION_GUARD_PLANNED_VERSION" "i = Some (document_identity d)"
    using d by (cases "activePlanning s") (auto split: if_splits option.splits)
  have "plan_evidenced h s d"
    using guards plannedEvidenceBlocker_None [OF none]
      planCompletionBlocker_None [OF plannedEvidenceBlocker_None(1) [OF none]]
    by (simp add: plan_evidenced_def planCompletionEvidenceMatchesRuntime_def)
  then show ?thesis using q a res by (simp add: common_code_None)
qed

lemma unplanned_accepted:
  assumes "decideUnplannedCompletion s = GuardAccepted v i"
  shows "quiescent s \<and> (activePlanning s = BuildingWithoutPlan \<or> (\<exists>d a. activePlanning s = PlanCompleted d a)) \<and>
    v = COMPLETION_GUARD_UNPLANNED_VERSION \<and> i = None"
  using assms
  by (auto simp: decideUnplannedCompletion_def Let_def commonBlocker_def blockedUnplannedCompletion_def
      common_code_None [symmetric] split: option.splits planning_state.splits)

text \<open>
  C17: a run is never declared complete over unfinished work. When the guard accepts, no
  interaction is pending, every tool call of the current work is terminal, no subagent is
  suspended, no external invocation has an unknown outcome and no skill is active. If the task has
  a plan, the plan is completed, its document valid, every required verification passed or waived,
  every side-effecting call succeeded, no recovery failure is open, and the evidence in the
  document is exactly the evidence the runtime state yields.
\<close>

theorem completion_accepted_sound:
  assumes "decideCompletion h s = Inr (GuardAccepted v i)"
  shows "quiescent s \<and>
    (case planning_document (activePlanning s) of
       None \<Rightarrow> activePlanning s = BuildingWithoutPlan \<and> v = COMPLETION_GUARD_UNPLANNED_VERSION
     | Some d \<Rightarrow> (\<exists>a. activePlanning s = PlanCompleted d a) \<and> plan_evidenced h s d \<and>
         v = COMPLETION_GUARD_PLANNED_VERSION \<and> i = Some (document_identity d))"
proof (cases "planning_document (activePlanning s)")
  case None
  then have "decideUnplannedCompletion s = GuardAccepted v i"
    using assms by (simp add: decideCompletion_def)
  from unplanned_accepted [OF this] None show ?thesis by auto
next
  case (Some d)
  then have "decidePlannedCompletion h s = Inr (GuardAccepted v i)"
    using assms by (simp add: decideCompletion_def)
  from planned_accepted [OF this] Some show ?thesis by auto
qed

lemma active_task_planning: "active_task s = Some t \<Longrightarrow> activePlanning s = tk_planning t"
  by (auto simp: active_task_def activePlanning_def truthy_option_def split: option.splits if_splits)

lemma completion_fact_sound:
  assumes "normalizeCanonicalTaskCompletionFact h s payload = Some c"
  shows "quiescent s \<and> stringField payload ''turnId'' = Some (tn_turnId (st_turn s)) \<and>
    (\<exists>t. active_task s = Some t \<and> cf_taskId c = tk_taskId t) \<and> cf_turnId c = tn_turnId (st_turn s) \<and>
    completionOutcome payload = Some (cf_outcome c) \<and>
    (case planning_document (activePlanning s) of
       None \<Rightarrow> activePlanning s = BuildingWithoutPlan
     | Some d \<Rightarrow> (\<exists>a. activePlanning s = PlanCompleted d a) \<and> plan_evidenced h s d \<and>
         planIdentity (fld payload ''planIdentity'') = Some (document_identity d))"
proof -
  from assms obtain t where t: "active_task s = Some t" "cf_taskId c = tk_taskId t"
    and turn: "stringField payload ''turnId'' = Some (tn_turnId (st_turn s))" "cf_turnId c = tn_turnId (st_turn s)"
    by (auto simp: normalizeCanonicalTaskCompletionFact_def Let_def nonEmptyStringField_Some
        split: option.splits if_splits completion_decision.splits)
  define version where "version = or_default (stringField payload ''completionGuardVersion'')
    COMPLETION_GUARD_UNPLANNED_VERSION"
  from assms obtain v i where dec: "completionDecisionForVersion h s version = Some (GuardAccepted v i)"
    and ver: "hasPlanDocument s \<longrightarrow> version = COMPLETION_GUARD_PLANNED_VERSION"
    and ident: "v = COMPLETION_GUARD_PLANNED_VERSION \<longrightarrow> planIdentity (fld payload ''planIdentity'') = i"
    and out: "completionOutcome payload = Some (cf_outcome c)"
    unfolding normalizeCanonicalTaskCompletionFact_def Let_def version_def [symmetric]
    by (auto split: option.splits if_splits completion_decision.splits)
  have plan: "hasPlanDocument s \<longleftrightarrow> planning_document (activePlanning s) \<noteq> None"
    using t(1) active_task_planning [OF t(1)] by (simp add: hasPlanDocument_def)
  show ?thesis
  proof (cases "version = COMPLETION_GUARD_PLANNED_VERSION")
    case True
    then have "decidePlannedCompletion h s = Inr (GuardAccepted v i)"
      using dec by (auto simp: completionDecisionForVersion_def COMPLETION_GUARD_PLANNED_VERSION_def
          COMPLETION_GUARD_UNPLANNED_VERSION_def split: sum.splits)
    from planned_accepted [OF this] t turn ident out show ?thesis by auto
  next
    case False
    then have "decideUnplannedCompletion s = GuardAccepted v i"
      using dec by (auto simp: completionDecisionForVersion_def split: if_splits)
    moreover have "planning_document (activePlanning s) = None" using False ver plan by simp
    ultimately show ?thesis using unplanned_accepted [of s v i] t turn out by auto
  qed
qed

text \<open>
  C39: completion truth comes from the guard. A run.completed event changes the state only when it
  names the current turn, the task and guard conditions of an accepted completion hold (including
  the plan identity when there is a plan) and it carries a well-formed outcome; then exactly the
  active task is marked completed, no task is active any more, and the outcome is the one of the
  event. Every other run.completed event leaves the state as it was.
\<close>

theorem run_completed_needs_guard:
  assumes "reduceCompletionState h s e = Inr s'" and "ev_type e = ''run.completed''" and "s' \<noteq> s"
  shows "quiescent s \<and> stringField (ev_data e) ''turnId'' = Some (tn_turnId (st_turn s)) \<and>
    (case planning_document (activePlanning s) of
       None \<Rightarrow> activePlanning s = BuildingWithoutPlan
     | Some d \<Rightarrow> (\<exists>a. activePlanning s = PlanCompleted d a) \<and> plan_evidenced h s d \<and>
         planIdentity (fld (ev_data e) ''planIdentity'') = Some (document_identity d)) \<and>
    st_terminalOutcome s' = completionOutcome (ev_data e) \<and> st_activeTaskId s' = None \<and>
    (\<exists>t t'. active_task s = Some t \<and> obj_get (st_tasks s) (tk_taskId t) = Some t' \<and>
       st_tasks s' = obj_set (tk_taskId t') (t'\<lparr>tk_status := TaskCompleted,
         tk_completedAtTurnId := Some (tn_turnId (st_turn s)), tk_executionMode := None\<rparr>) (st_tasks s))"
proof -
  have red: "run_completed h s (ev_data e) = Inr s'"
    using assms(1,2) by (simp add: reduceCompletionState_def)
  obtain c where c: "normalizeCanonicalTaskCompletionFact h s (ev_data e) = Some c"
    using red assms(3) by (cases "normalizeCanonicalTaskCompletionFact h s (ev_data e)")
      (auto simp: run_completed_def)
  obtain t' where t': "obj_get (st_tasks s) (cf_taskId c) = Some t'"
    using red c by (cases "obj_get (st_tasks s) (cf_taskId c)") (auto simp: run_completed_def)
  have s': "s' = s\<lparr>st_terminalOutcome := Some (cf_outcome c), st_activeTaskId := None,
     st_tasks := obj_set (tk_taskId t') (t'\<lparr>tk_status := TaskCompleted,
       tk_completedAtTurnId := Some (cf_turnId c), tk_executionMode := None\<rparr>) (st_tasks s)\<rparr>"
    using red c t' by (simp add: run_completed_def)
  from completion_fact_sound [OF c] s' t' show ?thesis by auto
qed

text \<open>The only parts a completion event writes.\<close>

definition completion_parts :: "agent_state \<Rightarrow> agent_state \<Rightarrow> bool" where
  "completion_parts s s' \<longleftrightarrow>
     s' = s\<lparr>st_turn := st_turn s', st_terminalOutcome := st_terminalOutcome s',
       st_activeTaskId := st_activeTaskId s', st_tasks := st_tasks s',
       st_completionGuard := st_completionGuard s',
       st_transcript := (st_transcript s)\<lparr>ts_final := ts_final (st_transcript s')\<rparr>\<rparr> \<and>
     tn_turnId (st_turn s') = tn_turnId (st_turn s)"

lemma completion_partsI [intro!]:
  "completion_parts s s"
  "completion_parts s (s\<lparr>st_terminalOutcome := o'\<rparr>)"
  "completion_parts s (s\<lparr>st_terminalOutcome := o', st_activeTaskId := a, st_tasks := ts\<rparr>)"
  "completion_parts s (s\<lparr>st_completionGuard := g,
     st_transcript := (st_transcript s)\<lparr>ts_final := f\<rparr>\<rparr>)"
  "tn_turnId t = tn_turnId (st_turn s) \<Longrightarrow> completion_parts s (s\<lparr>st_turn := t\<rparr>)"
  by (simp_all add: completion_parts_def)

lemma completion_parts_if:
  "completion_parts s a \<Longrightarrow> completion_parts s b \<Longrightarrow> completion_parts s (if c then a else b)"
  by simp

lemma completion_parts_steps:
  "completion_parts s (turn_completed s p)"
  "completion_parts s (turn_aborted s p)"
  "completion_parts s (completion_blocked h s p)"
  unfolding turn_completed_def turn_aborted_def completion_blocked_def Let_def
  by (auto intro!: completion_parts_if split: option.split completion_decision.split)

lemma completion_parts_run: "run_completed h s p = Inr s' \<Longrightarrow> completion_parts s s'"
  unfolding run_completed_def by (auto split: option.splits)

text \<open>
  The completion reducer owns the turn's end, the terminal outcome, the active task and the
  correction record; nothing else of the state is touched by any event, and events of other
  components leave the state as it is.
\<close>

theorem reduceCompletionState_frame:
  assumes "reduceCompletionState h s e = Inr s'"
  shows "s' = s\<lparr>st_turn := st_turn s', st_terminalOutcome := st_terminalOutcome s',
      st_activeTaskId := st_activeTaskId s', st_tasks := st_tasks s',
      st_completionGuard := st_completionGuard s',
      st_transcript := (st_transcript s)\<lparr>ts_final := ts_final (st_transcript s')\<rparr>\<rparr> \<and>
    tn_turnId (st_turn s') = tn_turnId (st_turn s)"
proof -
  define good where "good = (\<lambda>r :: agent_state res. \<forall>s'. r = Inr s' \<longrightarrow> completion_parts s s')"
  have split: "good a \<Longrightarrow> good b \<Longrightarrow> good (if c then a else b)" for a b c by simp
  have pure: "good (Inr s')" if "completion_parts s s'" for s' using that by (simp add: good_def)
  have "good (reduceCompletionState h s e)"
    unfolding reduceCompletionState_def
    by (intro split pure completion_parts_steps completion_partsI)
      (auto simp: good_def completion_parts_run split: option.split)
  then have "completion_parts s s'" using assms by (simp add: good_def)
  then show ?thesis by (simp only: completion_parts_def)
qed

section \<open>One correction per guard\<close>

text \<open>The decision reads nothing of the guard record but the attempt count.\<close>

definition with_guard :: "agent_state \<Rightarrow> completion_guard \<Rightarrow> agent_state" where
  "with_guard s g = s\<lparr>st_completionGuard := g, st_transcript := (st_transcript s)\<lparr>ts_final := None\<rparr>\<rparr>"

lemma with_guard_reads [simp]:
  "activePlanning (with_guard s g) = activePlanning s"
  "common_code (with_guard s g) = common_code s"
  "plannedEvidenceBlocker h (with_guard s g) d = plannedEvidenceBlocker h s d"
  "reviewed_draft_can_pause (with_guard s g) c = reviewed_draft_can_pause s c"
  "st_toolRecovery (with_guard s g) = st_toolRecovery s" "st_turn (with_guard s g) = st_turn s"
  "st_activeTaskId (with_guard s g) = st_activeTaskId s" "st_completionGuard (with_guard s g) = g"
proof -
  have calls: "toolCallBelongsToCurrentWork (with_guard s g) = toolCallBelongsToCurrentWork s"
    "belongsToActiveTask (with_guard s g) = belongsToActiveTask s"
    "isResolvedRecoveryFailure (with_guard s g) = isResolvedRecoveryFailure s"
    by (simp_all add: fun_eq_iff with_guard_def toolCallBelongsToCurrentWork_def belongsToActiveTask_def
        isResolvedRecoveryFailure_def split: option.split)
  have state: "st_tools (with_guard s g) = st_tools s" "st_interactions (with_guard s g) = st_interactions s"
    "st_invocations (with_guard s g) = st_invocations s" "st_skillFrames (with_guard s g) = st_skillFrames s"
    "st_suspendedSubagents (with_guard s g) = st_suspendedSubagents s"
    "st_verification (with_guard s g) = st_verification s" "st_tasks (with_guard s g) = st_tasks s"
    by (simp_all add: with_guard_def)
  show turn: "st_toolRecovery (with_guard s g) = st_toolRecovery s" "st_turn (with_guard s g) = st_turn s"
    "st_activeTaskId (with_guard s g) = st_activeTaskId s" "st_completionGuard (with_guard s g) = g"
    by (simp_all add: with_guard_def)
  show plan: "activePlanning (with_guard s g) = activePlanning s"
    by (simp add: activePlanning_def state turn split: option.split)
  show "reviewed_draft_can_pause (with_guard s g) c = reviewed_draft_can_pause s c"
    by (simp add: reviewed_draft_can_pause_def plan)
  show "common_code (with_guard s g) = common_code s"
    unfolding common_code_def hasCurrentNonTerminalTool_def hasCurrentSuspendedSubagent_def
        hasUnknownInvocation_def activeSkillFramesForCurrentWork_def state calls turn by (rule refl)
  have effect: "relevantEffectCalls (with_guard s g) = relevantEffectCalls s"
    "relevantPendingCalls (with_guard s g) = relevantPendingCalls s"
    unfolding relevantEffectCalls_def relevantPendingCalls_def state calls by (rule refl)+
  have blocker: "planCompletionBlocker (with_guard s g) e = planCompletionBlocker s e" for e
    unfolding planCompletionBlocker_def effect state calls turn by (rule refl)
  have evidence: "projectPlanCompletionEvidence h (with_guard s g) ss rs = projectPlanCompletionEvidence h s ss rs"
    for ss rs
    unfolding projectPlanCompletionEvidence_def verification_entries_def execution_entries_def
        unresolved_entries_def skipped_entries_def effect state calls plan by (rule refl)
  show "plannedEvidenceBlocker h (with_guard s g) d = plannedEvidenceBlocker h s d"
    unfolding plannedEvidenceBlocker_def planCompletionEvidenceMatchesRuntime_def blocker evidence state calls
    by (rule refl)
qed

text \<open>The planned guard as one verdict, which does not read the correction record.\<close>

definition planned_verdict :: "js_host \<Rightarrow> agent_state \<Rightarrow> jobj \<Rightarrow> (string \<times> string) option" where
  "planned_verdict h s d =
     (case common_code s of Some b \<Rightarrow> Some b
      | None \<Rightarrow>
          if isToolRecoveryQualityBlocked (st_toolRecovery s) (st_activeTaskId s) (Some (tn_turnId (st_turn s))) \<or>
             hasActiveUnresolvedToolFailures (st_toolRecovery s) (st_activeTaskId s) (Some (tn_turnId (st_turn s))) \<or>
             \<not> isPlanDocument h d
          then Some (''plan_evidence_unresolved'', ''resolve_plan_evidence'')
          else (case activePlanning s of
             PlanningDraft d' f \<Rightarrow> Some (''plan_draft_pending'', ''submit_plan'')
           | ReplanningDraft d' v r f \<Rightarrow> Some (''plan_draft_pending'', ''submit_plan'')
           | AwaitingReview d' a b \<Rightarrow> Some (''plan_review_pending'', ''wait_for_review'')
           | Executing d' a b \<Rightarrow>
               if list_ex step_open (list_of (fld d ''steps'')) then Some (''plan_execution_incomplete'', ''complete_plan'')
               else Some (case plannedEvidenceBlocker h s d of
                   Some eb \<Rightarrow> eb | None \<Rightarrow> (''plan_execution_incomplete'', ''complete_plan''))
           | PlanCompleted d' a \<Rightarrow> plannedEvidenceBlocker h s d
           | _ \<Rightarrow> Some (''plan_cancelled'', ''start_new_task'')))"

lemma decidePlannedCompletion_verdict:
  assumes "planning_document (activePlanning s) = Some d"
  shows "decidePlannedCompletion h s = Inr (case planned_verdict h s d of
     None \<Rightarrow> GuardAccepted COMPLETION_GUARD_PLANNED_VERSION (Some (document_identity d))
   | Some (code, action) \<Rightarrow>
       blockedPlannedCompletion s (planning_kind (activePlanning s)) (document_identity d) code action)"
  using assms
  by (cases "common_code s"; cases "activePlanning s")
    (simp_all add: decidePlannedCompletion_def planned_verdict_def Let_def split_beta split: option.split)

lemma planned_verdict_with_guard [simp]: "planned_verdict h (with_guard s g) d = planned_verdict h s d"
  by (cases "common_code s"; cases "activePlanning s") (simp_all add: planned_verdict_def)

text \<open>
  The model gets one automatic correction per guard. When completion is blocked and the block
  is recorded, the next decision (nothing else having changed) is blocked again by the same
  guard with the attempt count one higher, and offers no further correction.
\<close>

theorem correction_offered_once:
  assumes "decideCompletion h s = Inr (GuardBlocked v i b)"
    and "0 \<le> cg_correctionAttempts (st_completionGuard s)"
    and "g = \<lparr>cg_correctionAttempts = gb_correctionAttempt b, cg_guardVersion = Some v, cg_planIdentity = i\<rparr>"
  shows "\<exists>b'. decideCompletion h (with_guard s g) = Inr (GuardBlocked v i b') \<and>
    gb_correctionAttempt b' = gb_correctionAttempt b + 1 \<and> \<not> gb_canCorrect b'"
proof (cases "planning_document (activePlanning s)")
  case None
  have "0 < unplannedCorrectionAttempt s" using assms(2) by (simp add: unplannedCorrectionAttempt_def)
  moreover have "decideUnplannedCompletion s = GuardBlocked v i b"
    using assms(1) None by (simp add: decideCompletion_def)
  ultimately show ?thesis
    using None assms(3)
    by (cases "common_code s")
      (auto simp: decideCompletion_def decideUnplannedCompletion_def Let_def commonBlocker_def
        blockedUnplannedCompletion_def unplannedCorrectionAttempt_def COMPLETION_GUARD_UNPLANNED_VERSION_def
        COMPLETION_GUARD_PLANNED_VERSION_def split: planning_state.splits)
next
  case (Some d)
  have "0 < plannedCorrectionAttempt s (document_identity d)"
    using assms(2) by (simp add: plannedCorrectionAttempt_def)
  moreover obtain code action where "planned_verdict h s d = Some (code, action)"
    "GuardBlocked v i b =
       blockedPlannedCompletion s (planning_kind (activePlanning s)) (document_identity d) code action"
    using assms(1) Some
    by (auto simp: decideCompletion_def decidePlannedCompletion_verdict split: option.splits)
  ultimately show ?thesis
    using Some assms(3)
    by (simp add: decideCompletion_def decidePlannedCompletion_verdict blockedPlannedCompletion_def Let_def
        plannedCorrectionAttempt_def)
qed

section \<open>A task without a plan, and one with a draft\<close>

definition sample_task :: task_state where
  "sample_task = \<lparr>tk_taskId = ''task-1'', tk_userGoal = ''goal'', tk_status = TaskActive,
     tk_startedAtTurnId = ''turn-1'', tk_completedAtTurnId = None, tk_sideEffectsStarted = False,
     tk_planning = BuildingWithoutPlan, tk_executionMode = None, tk_planHistory = []\<rparr>"

definition working_state :: agent_state where
  "working_state = fresh_state\<lparr>st_tasks := [(''task-1'', sample_task)], st_activeTaskId := Some ''task-1''\<rparr>"

definition planning_state_sample :: agent_state where
  "planning_state_sample = working_state\<lparr>st_tasks := [(''task-1'', sample_task\<lparr>tk_planning := PlanningEmpty\<rparr>)]\<rparr>"

definition completed_event :: kernel_event where
  "completed_event = \<lparr>ev_type = ''run.completed'',
     ev_data = [(''turnId'', JStr ''turn-1''), (''output'', JStr ''done''),
       (''outcome'', JObj [(''version'', JNum 1), (''status'', JStr ''completed''),
         (''reasonCode'', JStr ''completed''), (''knownExternalEffects'', JStr ''none''),
         (''safeRetry'', JBool False), (''recoveryEntry'', JStr ''none''),
         (''pendingVerification'', JBool False)])]\<rparr>"

definition finished_state :: agent_state where
  "finished_state = projr (reduceCompletionState sample_host working_state completed_event)"

definition sample_block :: guard_blocked where
  "sample_block = \<lparr>gb_code = ''planning_empty'', gb_nextAction = ''save_plan'', gb_planning = ''planning_empty'',
     gb_correctionAttempt = 1, gb_canCorrect = True\<rparr>"

lemma sample_decisions:
  "decideCompletion sample_host working_state = Inr (GuardAccepted COMPLETION_GUARD_UNPLANNED_VERSION None)"
  "decideCompletion sample_host planning_state_sample =
     Inr (GuardBlocked COMPLETION_GUARD_UNPLANNED_VERSION None sample_block)"
  "cg_correctionAttempts (st_completionGuard planning_state_sample) = 0"
  by code_simp+

lemma sample_finish: "reduceCompletionState sample_host working_state completed_event = Inr finished_state"
  by code_simp

lemma sample_finished: "st_activeTaskId finished_state = None" "st_activeTaskId working_state = Some ''task-1''"
  by code_simp+

theorem completion_accepted_sound_witness:
  "decideCompletion sample_host working_state = Inr (GuardAccepted COMPLETION_GUARD_UNPLANNED_VERSION None) \<and>
   quiescent working_state \<and> activePlanning working_state = BuildingWithoutPlan"
proof -
  have "planning_document (activePlanning working_state) = None" by code_simp
  with completion_accepted_sound [OF sample_decisions(1)] sample_decisions(1) show ?thesis by simp
qed

theorem run_completed_needs_guard_witness:
  "reduceCompletionState sample_host working_state completed_event = Inr finished_state \<and>
   finished_state \<noteq> working_state \<and> quiescent working_state \<and> st_activeTaskId finished_state = None"
proof -
  have "ev_type completed_event = ''run.completed''" by (simp add: completed_event_def)
  moreover have diff: "finished_state \<noteq> working_state" using sample_finished by auto
  ultimately show ?thesis using run_completed_needs_guard [OF sample_finish _ diff] sample_finish by simp
qed

theorem reduceCompletionState_frame_witness:
  "reduceCompletionState sample_host working_state completed_event = Inr finished_state \<and>
   tn_turnId (st_turn finished_state) = tn_turnId (st_turn working_state)"
  using reduceCompletionState_frame [OF sample_finish] sample_finish by simp

theorem correction_offered_once_witness:
  "\<exists>b'. decideCompletion sample_host (with_guard planning_state_sample \<lparr>cg_correctionAttempts = 1,
       cg_guardVersion = Some COMPLETION_GUARD_UNPLANNED_VERSION, cg_planIdentity = None\<rparr>) =
      Inr (GuardBlocked COMPLETION_GUARD_UNPLANNED_VERSION None b') \<and>
    gb_correctionAttempt b' = 2 \<and> \<not> gb_canCorrect b'"
  using correction_offered_once [OF sample_decisions(2) _ refl] sample_decisions(3)
  by (simp add: sample_block_def)

end
