(* ===== verification/Kite_Scheduler.thy ===== *)
theory Kite_Scheduler
  imports Kite_Traits Kite_Completion
begin

text \<open>
  src/packages/agent-kernel/src/scheduler.ts and effects.ts: the pure decision which effect the
  runtime performs next. The host's scheduling facts arrive as an unchecked JSON value, are
  validated by \<open>isValidSchedulerFacts\<close> and only then read. \<open>decideNextEffect\<close> is the
  source's cascade of early returns, cut into its consecutive groups: each grp yields an effect
  or passes on (\<open>None\<close>). Shown: what a tool dispatch implies (current, runnable, authorised
  work; pairwise compatible batches), what a model call and a final answer imply, and that the
  decision never throws.
\<close>

section \<open>The effect vocabulary\<close>

datatype blocked_kind = PersistenceUnavailable | LoopExhausted | CompactionFailed | BlockedUnknown

datatype runtime_effect =
    CallModel "(rat \<times> rat) option"
  | CompactContext string
  | RunTools "string list"
  | RequestUserInput string string
  | RequestPlanReview string string
  | RequestToolApproval string string
  | RequestVerificationDecision string string
  | RequestProviderAction string string string string
  | RequestProviderAdmission string string string bool
  | RunAutoReview string string
  | RunVerification string
  | RepairVerification string
  | RunVerificationCompensation string
  | EmitFinal
  | CompletionBlocked string "plan_identity option" guard_blocked
  | Stop
  | Busy string
  | RecoveryBlocked string blocked_kind "quality_reason option"

fun isTerminalEffect :: "runtime_effect \<Rightarrow> bool" where
  "isTerminalEffect EmitFinal = True"
| "isTerminalEffect Stop = True"
| "isTerminalEffect (Busy r) = True"
| "isTerminalEffect (RecoveryBlocked r k c) = True"
| "isTerminalEffect _ = False"

fun isInterruptEffect :: "runtime_effect \<Rightarrow> bool" where
  "isInterruptEffect (RequestUserInput i c) = True"
| "isInterruptEffect (RequestPlanReview i c) = True"
| "isInterruptEffect (RequestToolApproval i c) = True"
| "isInterruptEffect (RequestVerificationDecision i v) = True"
| "isInterruptEffect (RequestProviderAction i p a c) = True"
| "isInterruptEffect (RequestProviderAdmission i p st r) = True"
| "isInterruptEffect _ = False"

section \<open>Validation of the host's scheduling facts\<close>

definition MAX_PARALLEL_SUBAGENTS :: nat where
  "MAX_PARALLEL_SUBAGENTS = 4"

definition EXECUTION_SCOPE_KINDS :: "string list" where
  "EXECUTION_SCOPE_KINDS = [''runtime'', ''workspace'', ''process'', ''network'', ''external_state'',
     ''subagent'', ''skill'']"

definition EXECUTION_ACCESS :: "string list" where
  "EXECUTION_ACCESS = [''read'', ''write'', ''unknown'']"

definition EXECUTION_ISOLATION :: "string list" where
  "EXECUTION_ISOLATION = [''shared'', ''exclusive_workspace'', ''worktree'']"

definition exactKeys :: "jobj \<Rightarrow> string list \<Rightarrow> string list \<Rightarrow> bool" where
  "exactKeys value required optional \<longleftrightarrow>
     list_all (\<lambda>key. key \<in> set (obj_keys value)) required \<and>
     list_all (\<lambda>key. key \<in> set (required @ optional)) (obj_keys value)"

fun nonEmptyString :: "jval \<Rightarrow> bool" where
  "nonEmptyString (JStr s) = (length s > 0)"
| "nonEmptyString _ = False"

fun uniqueStrings :: "jval \<Rightarrow> bool" where
  "uniqueStrings (JArr vs) = (list_all nonEmptyString vs \<and> distinct vs)"
| "uniqueStrings _ = False"

fun is_boolean :: "jval \<Rightarrow> bool" where
  "is_boolean (JBool b) = True"
| "is_boolean _ = False"

definition validScope :: "jval \<Rightarrow> bool" where
  "validScope v =
     (case as_record v of None \<Rightarrow> False
      | Some sc \<Rightarrow> exactKeys sc [''kind'', ''key''] [] \<and>
          (case stringField sc ''kind'' of None \<Rightarrow> False | Some k \<Rightarrow> k \<in> set EXECUTION_SCOPE_KINDS) \<and>
          nonEmptyString (fld sc ''key''))"

definition validExecutionTraits :: "js_host \<Rightarrow> jval \<Rightarrow> bool res" where
  "validExecutionTraits h v =
     (case as_record v of None \<Rightarrow> Inr False
      | Some value \<Rightarrow> all_of
          [Inr (exactKeys value [''resourceScopes'', ''access'', ''conflictKeys'', ''isolation'', ''causalGroup'',
             ''interactionBarrier'', ''leaseFenceRequired''] [''concurrencyGroup'']),
           Inr (case arrayField value ''resourceScopes'' of None \<Rightarrow> False | Some scs \<Rightarrow> list_all validScope scs),
           spelled h EXECUTION_ACCESS (fld value ''access''),
           Inr (uniqueStrings (fld value ''conflictKeys'')),
           spelled h EXECUTION_ISOLATION (fld value ''isolation''),
           Inr (nonEmptyString (fld value ''causalGroup'') \<and>
             is_boolean (fld value ''interactionBarrier'') \<and>
             is_boolean (fld value ''leaseFenceRequired'') \<and>
             (fld value ''concurrencyGroup'' = JUndef \<or> nonEmptyString (fld value ''concurrencyGroup'')))])"

definition validApprovalFact :: "jval \<Rightarrow> bool" where
  "validApprovalFact v =
     (case as_record v of None \<Rightarrow> False
      | Some value \<Rightarrow> exactKeys value [''allowed'', ''requiresApproval''] [] \<and>
          is_boolean (fld value ''allowed'') \<and> is_boolean (fld value ''requiresApproval''))"

definition isValidSchedulerFacts :: "js_host \<Rightarrow> jval \<Rightarrow> bool res" where
  "isValidSchedulerFacts h v =
     (case as_record v of None \<Rightarrow> Inr False
      | Some value \<Rightarrow>
          if \<not> exactKeys value [''traits'', ''approval''] [] then Inr False
          else (case (recordField value ''traits'', recordField value ''approval'') of
             (Some traits, Some approval) \<Rightarrow> all_of
               (map (\<lambda>(effectId, projected). all_of [Inr (effectId \<noteq> []), validExecutionTraits h projected]) traits @
                [Inr (list_all (\<lambda>(effectId, projected). effectId \<noteq> [] \<and> validApprovalFact projected) approval)])
           | _ \<Rightarrow> Inr False))"

section \<open>Reading validated facts\<close>

text \<open>
  Only equality with \<open>'read'\<close>, \<open>'unknown'\<close>, \<open>'shared'\<close> and \<open>'worktree'\<close> is ever tested,
  so any other value that passed the validator reads as the remaining alternative.
\<close>

definition read_access :: "jval \<Rightarrow> access_kind" where
  "read_access v = (if v = JStr ''read'' then ReadAccess else if v = JStr ''unknown'' then UnknownAccess
     else WriteAccess)"

definition read_isolation :: "jval \<Rightarrow> isolation_kind" where
  "read_isolation v = (if v = JStr ''shared'' then Shared else if v = JStr ''worktree'' then Worktree
     else ExclusiveWorkspace)"

definition read_scope_kind :: "string \<Rightarrow> scope_kind" where
  "read_scope_kind k = (if k = ''runtime'' then ScopeRuntime else if k = ''workspace'' then ScopeWorkspace
     else if k = ''process'' then ScopeProcess else if k = ''network'' then ScopeNetwork
     else if k = ''external_state'' then ScopeExternalState else if k = ''subagent'' then ScopeSubagent
     else ScopeSkill)"

definition read_scope :: "jval \<Rightarrow> resource_scope" where
  "read_scope v = \<lparr>sc_kind = read_scope_kind (text_of (vfld v ''kind'')), sc_key = text_of (vfld v ''key'')\<rparr>"

definition read_traits :: "jobj \<Rightarrow> execution_traits" where
  "read_traits value = \<lparr>
     et_resourceScopes = map read_scope (list_of (fld value ''resourceScopes'')),
     et_access = read_access (fld value ''access''),
     et_conflictKeys = map text_of (list_of (fld value ''conflictKeys'')),
     et_isolation = read_isolation (fld value ''isolation''),
     et_causalGroup = text_of (fld value ''causalGroup''),
     et_interactionBarrier = (fld value ''interactionBarrier'' = JBool True),
     et_concurrencyGroup = stringField value ''concurrencyGroup'',
     et_leaseFenceRequired = (fld value ''leaseFenceRequired'' = JBool True)\<rparr>"

definition schedulerTraits :: "tool_call \<Rightarrow> jval option \<Rightarrow> execution_traits option" where
  "schedulerTraits call facts =
     (case facts of None \<Rightarrow> None
      | Some f \<Rightarrow> map_option read_traits (as_record (vfld (vfld f ''traits'') (tc_toolCallId call))))"

section \<open>Work the scheduler may pick\<close>

definition activeVerificationRecords :: "js_host \<Rightarrow> agent_state \<Rightarrow> verification_record list" where
  "activeVerificationRecords h s =
     sort_by (\<lambda>left right. locale_le h (vr_requestedAt left) (vr_requestedAt right))
       (filter (\<lambda>r. vr_taskId r = None \<or> vr_taskId r = st_activeTaskId s) (obj_values (st_verification s)))"

definition hasActiveSkillFrameForCurrentWork :: "agent_state \<Rightarrow> bool" where
  "hasActiveSkillFrameForCurrentWork s =
     list_ex (\<lambda>frame. sf_status frame = ''active'' \<and> Some (sf_taskId frame) = st_activeTaskId s)
       (obj_values (st_skillFrames s))"

definition completionDecision :: "js_host \<Rightarrow> agent_state \<Rightarrow> runtime_effect res" where
  "completionDecision h s =
     bind_res (decideCompletion h s) (\<lambda>decision.
       Inr (case decision of GuardAccepted v i \<Rightarrow> EmitFinal | GuardBlocked v i b \<Rightarrow> CompletionBlocked v i b))"

definition toolBelongsToCurrentWork :: "agent_state \<Rightarrow> tool_call \<Rightarrow> bool" where
  "toolBelongsToCurrentWork s call =
     (if tc_taskId call \<noteq> None then tc_taskId call = st_activeTaskId s
      else tc_createdAtTurnId call = tn_turnId (st_turn s))"

definition parentSchedulerOwnsToolCall :: "agent_state \<Rightarrow> tool_call \<Rightarrow> bool" where
  "parentSchedulerOwnsToolCall s call =
     (case truthy_option (tc_modelInvocationId call) of None \<Rightarrow> True
      | Some i \<Rightarrow> (case obj_get (st_modelInvocations s) i of None \<Rightarrow> True
          | Some invocation \<Rightarrow> mi_purpose invocation \<noteq> ''subagent''))"

text \<open>The elements of a list at the index of their first occurrence.\<close>

definition first_occurrences :: "'a list \<Rightarrow> 'a list" where
  "first_occurrences xs = rev (remdups (rev xs))"

definition runnable :: "agent_state \<Rightarrow> string \<Rightarrow> bool" where
  "runnable s toolCallId =
     (case obj_get (to_calls (st_tools s)) toolCallId of None \<Rightarrow> False
      | Some call \<Rightarrow>
          (tc_status call = TQueued \<or> tc_status call = TApproved \<or> tc_status call = TAuthorizedQueued) \<and>
          toolBelongsToCurrentWork s call \<and> parentSchedulerOwnsToolCall s call)"

definition runnableToolIds :: "agent_state \<Rightarrow> string list" where
  "runnableToolIds s = filter (runnable s) (first_occurrences (to_queue (st_tools s) @ to_active (st_tools s)))"

definition authorizedQueuedToolIds :: "agent_state \<Rightarrow> string list" where
  "authorizedQueuedToolIds s =
     filter (\<lambda>toolCallId. map_option tc_status (obj_get (to_calls (st_tools s)) toolCallId) = Some TAuthorizedQueued)
       (runnableToolIds s)"

definition approvalFree :: "tool_call \<Rightarrow> string \<Rightarrow> jval option \<Rightarrow> bool" where
  "approvalFree call grp facts =
     (case schedulerTraits call facts of None \<Rightarrow> False
      | Some traits \<Rightarrow>
          let approval = (case facts of None \<Rightarrow> JUndef | Some f \<Rightarrow> vfld (vfld f ''approval'') (tc_toolCallId call)) in
          et_concurrencyGroup traits = Some grp \<and> \<not> et_interactionBarrier traits \<and>
          tc_status call = TQueued \<and>
          vfld approval ''allowed'' = JBool True \<and> vfld approval ''requiresApproval'' \<noteq> JBool True)"

text \<open>
  The loop both batch functions share in shape: over the candidate identities, skipping the first
  one and everything past the ceiling, stopping at the first call that is not eligible or does
  not fit.
\<close>

fun gather ::
  "agent_state \<Rightarrow> jval option \<Rightarrow> (tool_call \<Rightarrow> execution_traits \<Rightarrow> bool) \<Rightarrow> string \<Rightarrow> nat \<Rightarrow>
   schedulable_effect list \<Rightarrow> string list \<Rightarrow> schedulable_effect list" where
  "gather s facts eligible first limit candidates [] = candidates"
| "gather s facts eligible first limit candidates (toolCallId # rest) =
     (if toolCallId = first \<or> length candidates \<ge> limit
      then gather s facts eligible first limit candidates rest
      else case obj_get (to_calls (st_tools s)) toolCallId of None \<Rightarrow> candidates
        | Some call \<Rightarrow>
            (case schedulerTraits call facts of None \<Rightarrow> candidates
             | Some traits \<Rightarrow>
                 if \<not> eligible call traits \<or>
                    \<not> list_all (\<lambda>c. executionTraitsMayOverlap (se_traits c) traits) candidates
                 then candidates
                 else gather s facts eligible first limit
                   (candidates @ [\<lparr>se_effectId = toolCallId, se_traits = traits\<rparr>]) rest))"

definition parallelBatch ::
  "agent_state \<Rightarrow> string \<Rightarrow> string \<Rightarrow> nat \<Rightarrow> jval option \<Rightarrow> string list res" where
  "parallelBatch s first grp limit facts =
     (case obj_get (to_calls (st_tools s)) first of None \<Rightarrow> Inr [first]
      | Some firstCall \<Rightarrow>
          (case schedulerTraits firstCall facts of None \<Rightarrow> Inr [first]
           | Some firstTraits \<Rightarrow>
               if \<not> approvalFree firstCall grp facts then Inr [first]
               else selectSchedulableEffectBatch
                 (gather s facts (\<lambda>call traits. approvalFree call grp facts) first limit
                   [\<lparr>se_effectId = first, se_traits = firstTraits\<rparr>] (runnableToolIds s)) (int limit)))"

definition authorizedBatch :: "agent_state \<Rightarrow> string \<Rightarrow> jval option \<Rightarrow> string list res" where
  "authorizedBatch s first facts =
     (case obj_get (to_calls (st_tools s)) first of None \<Rightarrow> Inr [first]
      | Some firstCall \<Rightarrow>
          (case schedulerTraits firstCall facts of None \<Rightarrow> Inr [first]
           | Some firstTraits \<Rightarrow>
               let limit = (if et_access firstTraits = ReadAccess \<and> et_isolation firstTraits = Shared
                     then max 1 (length (authorizedQueuedToolIds s)) else 1) in
               if limit = 1 then Inr [first]
               else selectSchedulableEffectBatch
                 (gather s facts (\<lambda>call traits. et_access traits = ReadAccess \<and> et_isolation traits = Shared)
                   first limit [\<lparr>se_effectId = first, se_traits = firstTraits\<rparr>] (authorizedQueuedToolIds s))
                 (int limit)))"


section \<open>The decision\<close>

fun tool_status_string :: "tool_status \<Rightarrow> string" where
  "tool_status_string TQueued = ''queued''"
| "tool_status_string TAwaitingUserInput = ''awaiting_user_input''"
| "tool_status_string TAwaitingReview = ''awaiting_review''"
| "tool_status_string TAwaitingApproval = ''awaiting_approval''"
| "tool_status_string TAwaitingAutoReview = ''awaiting_auto_review''"
| "tool_status_string TApproved = ''approved''"
| "tool_status_string TAuthorizedQueued = ''authorized_queued''"
| "tool_status_string TRunning = ''running''"
| "tool_status_string TSucceeded = ''succeeded''"
| "tool_status_string TFailed = ''failed''"
| "tool_status_string TRejected = ''rejected''"
| "tool_status_string TCancelled = ''cancelled''"
| "tool_status_string TExhausted = ''exhausted''"

text \<open>The gates before any work: recovery, context, journal, turn, facts, unknown invocations.\<close>

definition gate_step :: "js_host \<Rightarrow> agent_state \<Rightarrow> jval option \<Rightarrow> runtime_effect option res" where
  "gate_step h s facts =
     (if st_recoveryState s \<noteq> RecoveryNormal
      then Inr (Some (RecoveryBlocked ''Runtime state recovery is not normal.''
        (case st_recoveryState s of RecoveryCorrupted r \<Rightarrow> PersistenceUnavailable | _ \<Rightarrow> BlockedUnknown) None))
      else case recordField (st_context s) ''hardBlock'' of
        Some hardBlock \<Rightarrow> Inr (Some (RecoveryBlocked
          (''Runtime context is blocked: '' @ or_default (stringField hardBlock ''reason'') ''unknown'' @ ''.'')
          BlockedUnknown None))
      | None \<Rightarrow>
          if qg_blocked (rj_qualityGuard (st_toolRecovery s)) \<and>
             qg_reasonCode (rj_qualityGuard (st_toolRecovery s)) = Some JournalInvalid
          then Inr (Some (RecoveryBlocked ''Runtime tool recovery journal is invalid and cannot safely continue.''
            PersistenceUnavailable (Some JournalInvalid)))
          else if tn_status (st_turn s) \<noteq> TurnActive then Inr (Some Stop)
          else bind_res (case facts of None \<Rightarrow> Inr True | Some f \<Rightarrow> isValidSchedulerFacts h f) (\<lambda>valid. Inr (
            if \<not> valid
            then Some (RecoveryBlocked ''Host scheduling facts are malformed or contain executable data.''
              PersistenceUnavailable None)
            else if list_ex (\<lambda>i. ci_status i = ''unknown'') (obj_values (st_invocations s))
            then Some (RecoveryBlocked ''Capability invocation has an unknown external outcome.''
              BlockedUnknown None)
            else None)))"

text \<open>An interaction must be owned by a call of the current work.\<close>

definition interaction_owned :: "agent_state \<Rightarrow> bool" where
  "interaction_owned s =
     (case st_interactions s of
        Idle \<Rightarrow> True
      | AwaitingProviderAction i p a c st \<Rightarrow> True
      | AwaitingProviderAdmission entry \<Rightarrow> True
      | _ \<Rightarrow> (case truthy_option (interaction_tool_call_id (st_interactions s)) of None \<Rightarrow> False
          | Some c \<Rightarrow> (case obj_get (to_calls (st_tools s)) c of None \<Rightarrow> False
              | Some call \<Rightarrow> toolBelongsToCurrentWork s call)))"

fun approval_focus :: "interaction \<Rightarrow> bool" where
  "approval_focus Idle = True"
| "approval_focus (AwaitingToolApproval i c a) = True"
| "approval_focus (AwaitingAutoReview i c n r a) = True"
| "approval_focus _ = False"

definition interaction_effect :: "interaction \<Rightarrow> runtime_effect option" where
  "interaction_effect i =
     (case i of
        Idle \<Rightarrow> None
      | AwaitingUserInput i c q \<Rightarrow> Some (RequestUserInput i c)
      | AwaitingPlanReview i c t r d p g a \<Rightarrow> Some (RequestPlanReview i c)
      | AwaitingToolApproval i c a \<Rightarrow> Some (RequestToolApproval i c)
      | AwaitingAutoReview i c n r a \<Rightarrow> Some (RunAutoReview i c)
      | AwaitingProviderAction i p action c st \<Rightarrow>
          (let action' = or_default (as_string action) [] in
          Some (if action' \<notin> set [''login'', ''approve'', ''retry'']
            then RecoveryBlocked ''Provider action is not a recognized Runtime fact.'' PersistenceUnavailable None
            else RequestProviderAction i p action' c))
      | AwaitingProviderAdmission entry \<Rightarrow>
          (let status = or_default (stringField entry ''providerStatus'') [] in
          Some (if status \<notin> set [''pending_approval'', ''rejected'', ''disabled'', ''login_required'',
              ''connecting'', ''ready'', ''degraded'', ''failed'', ''quarantined'']
            then RecoveryBlocked ''Provider admission status is not a recognized Runtime fact.''
              PersistenceUnavailable None
            else RequestProviderAdmission (or_default (stringField entry ''interactionId'') [])
              (or_default (stringField entry ''providerId'') []) status (booleanField entry ''retryable'' = Some True))))"

definition interaction_step :: "agent_state \<Rightarrow> jval option \<Rightarrow> runtime_effect option res" where
  "interaction_step s facts =
     (if \<not> interaction_owned s
      then Inr (Some (RecoveryBlocked ''The active interaction is no longer owned by the current Task.''
        PersistenceUnavailable None))
      else if approval_focus (st_interactions s) \<and> authorizedQueuedToolIds s \<noteq> []
      then bind_res (authorizedBatch s (hd (authorizedQueuedToolIds s)) facts) (\<lambda>ids. Inr (Some (RunTools ids)))
      else Inr (interaction_effect (st_interactions s)))"

text \<open>Runnable tool calls, once no interaction is open.\<close>

definition stranded_step :: "agent_state \<Rightarrow> runtime_effect option" where
  "stranded_step s =
     (if st_interactions s \<noteq> Idle then None
      else case find (\<lambda>call. toolBelongsToCurrentWork s call \<and> tc_status call \<in>
              {TAwaitingUserInput, TAwaitingReview, TAwaitingApproval, TAwaitingAutoReview})
            (obj_values (to_calls (st_tools s))) of
          None \<Rightarrow> None
        | Some stranded \<Rightarrow> Some (RecoveryBlocked (''Tool '' @ tc_toolCallId stranded @ '' is '' @
            tool_status_string (tc_status stranded) @ '' without its owning interaction.'')
            PersistenceUnavailable None))"

definition approvedSuspended :: "agent_state \<Rightarrow> string option" where
  "approvedSuspended s =
     truthy_option (find (\<lambda>toolCallId. case obj_get (to_calls (st_tools s)) toolCallId of None \<Rightarrow> False
       | Some call \<Rightarrow> (tc_status call = TApproved \<or> tc_status call = TAuthorizedQueued) \<and>
           obj_get (st_suspendedSubagents s) toolCallId \<noteq> None \<and> toolBelongsToCurrentWork s call)
       (to_active (st_tools s)))"

definition tool_batch :: "agent_state \<Rightarrow> jval option \<Rightarrow> string list res" where
  "tool_batch s facts =
     (let ids = runnableToolIds s;
          first = or_default (find (\<lambda>i. i \<in> set ids) (to_queue (st_tools s))) (hd ids) in
      case obj_get (to_calls (st_tools s)) first of None \<Rightarrow> Inr [first]
      | Some firstCall \<Rightarrow>
          if approvalFree firstCall ''parallel-subagent'' facts
          then parallelBatch s first ''parallel-subagent'' MAX_PARALLEL_SUBAGENTS facts
          else if map_option et_access (schedulerTraits firstCall facts) = Some ReadAccess \<and>
             tc_effectClass firstCall = Some ReadOnly \<and> tc_sideEffect firstCall = Some False \<and>
             approvalFree firstCall ''parallel-read'' facts
          then parallelBatch s first ''parallel-read'' (length ids) facts
          else Inr [first])"

definition tool_step :: "agent_state \<Rightarrow> jval option \<Rightarrow> runtime_effect option res" where
  "tool_step s facts =
     (case stranded_step s of Some e \<Rightarrow> Inr (Some e)
      | None \<Rightarrow>
          (case approvedSuspended s of Some i \<Rightarrow> Inr (Some (RunTools [i]))
           | None \<Rightarrow>
               if runnableToolIds s \<noteq> [] then bind_res (tool_batch s facts) (\<lambda>ids. Inr (Some (RunTools ids)))
               else Inr None))"

text \<open>Verification work, in the order of the requests.\<close>

fun is_assistant :: "transcript_message \<Rightarrow> bool" where
  "is_assistant (AssistantMessage m c r calls) = True"
| "is_assistant _ = False"

fun is_user :: "transcript_message \<Rightarrow> bool" where
  "is_user (UserMessage m c) = True"
| "is_user _ = False"

definition repair_budget :: "verification_record \<Rightarrow> rat" where
  "repair_budget r = or_default (numberField (or_default (recordField (vr_spec r) ''repair'') []) ''maxAttempts'') 0"

definition verification_step :: "js_host \<Rightarrow> agent_state \<Rightarrow> runtime_effect option" where
  "verification_step h s =
     (let records = activeVerificationRecords h s;
          final = non_empty (ts_final (st_transcript s));
          assistantLast = (ts_messages (st_transcript s) \<noteq> [] \<and> is_assistant (last (ts_messages (st_transcript s)))) in
      case find (\<lambda>r. (vr_status r = VPending \<or> vr_status r = VRunning) \<and> (vr_mode r = Required \<or> \<not> final)) records of
        Some r \<Rightarrow> Some (RunVerification (vr_verificationId r))
      | None \<Rightarrow> (case find (\<lambda>r. vr_status r = VCompensating) records of
        Some r \<Rightarrow> Some (RunVerificationCompensation (vr_verificationId r))
      | None \<Rightarrow> (case find (\<lambda>r. vr_mode r = Required \<and> (vr_status r = VFailed \<or> vr_status r = VInconclusive) \<and>
          vr_repairAttempts r < repair_budget r) records of
        Some r \<Rightarrow> Some (RepairVerification (vr_verificationId r))
      | None \<Rightarrow> (case (find (\<lambda>r. vr_status r = VRepairPending) records, final \<and> assistantLast) of
        (Some r, True) \<Rightarrow> Some (RunVerification (vr_verificationId r))
      | _ \<Rightarrow> map_option (\<lambda>r. RequestVerificationDecision (vr_verificationId r) (vr_verificationId r))
          (find (\<lambda>r. vr_mode r = Required \<and>
             (vr_status r = VFailed \<or> vr_status r = VInconclusive \<or> vr_status r = VBudgetExhausted \<or>
              vr_status r = VCompensated)) records)))))"

text \<open>The end of the cascade: finish, compact, stop or ask the model.\<close>

fun message_tool_calls :: "transcript_message \<Rightarrow> jval list" where
  "message_tool_calls (AssistantMessage m c r calls) = calls"
| "message_tool_calls _ = []"

definition approval_was_rejected :: "agent_state \<Rightarrow> jval \<Rightarrow> bool" where
  "approval_was_rejected s toolCall =
     (case as_record toolCall of None \<Rightarrow> False
      | Some t \<Rightarrow> (case obj_get (to_calls (st_tools s)) (or_default (stringField t ''id'') []) of None \<Rightarrow> False
          | Some call \<Rightarrow> (case tc_failure call of None \<Rightarrow> False
              | Some failure \<Rightarrow> stringField failure ''kind'' = Some ''approval_rejected'')))"

definition rejected_without_reply :: "agent_state \<Rightarrow> bool" where
  "rejected_without_reply s =
     (let messages = rev (ts_messages (st_transcript s)) in
      case find is_assistant messages of None \<Rightarrow> False
      | Some assistant \<Rightarrow>
          list_ex (approval_was_rejected s) (message_tool_calls assistant) \<and>
          \<not> list_ex is_user (takeWhile (\<lambda>m. \<not> is_assistant m) messages))"

definition closing_step :: "js_host \<Rightarrow> agent_state \<Rightarrow> runtime_effect res" where
  "closing_step h s =
     (if non_empty (ts_final (st_transcript s)) \<and> \<not> hasActiveSkillFrameForCurrentWork s
      then completionDecision h s
      else case recordField (st_context s) ''pendingCompaction'' of
        Some pending \<Rightarrow> Inr (CompactContext (or_default (stringField pending ''compactionId'') []))
      | None \<Rightarrow>
          let lastFailure = or_default (recordField (st_context s) ''lastFailure'') [] in
          if stringField lastFailure ''reason'' = Some ''auto'' \<and>
             stringField lastFailure ''requestedAtTurnId'' = Some (tn_turnId (st_turn s))
          then Inr (RecoveryBlocked (''Automatic context compaction failed: '' @
            or_default (stringField lastFailure ''message'') ''unknown failure'') CompactionFailed None)
          else if isToolRecoveryQualityBlocked (st_toolRecovery s) (st_activeTaskId s)
               (Some (tn_turnId (st_turn s)))
          then Inr (RecoveryBlocked ''Runtime tool recovery reached the no progress quality ceiling.''
            LoopExhausted (Some NoProgress))
          else if rejected_without_reply s then Inr Stop
          else Inr (CallModel None))"

definition decideNextEffect :: "js_host \<Rightarrow> agent_state \<Rightarrow> jval option \<Rightarrow> runtime_effect res" where
  "decideNextEffect h s facts =
     bind_res (gate_step h s facts) (\<lambda>step. case step of Some e \<Rightarrow> Inr e
      | None \<Rightarrow> bind_res (interaction_step s facts) (\<lambda>step. case step of Some e \<Rightarrow> Inr e
      | None \<Rightarrow> bind_res (tool_step s facts) (\<lambda>step. case step of Some e \<Rightarrow> Inr e
      | None \<Rightarrow> (case verification_step h s of Some e \<Rightarrow> Inr e
      | None \<Rightarrow> closing_step h s))))"

definition selectPendingEffects :: "js_host \<Rightarrow> agent_state \<Rightarrow> jval option \<Rightarrow> runtime_effect list res" where
  "selectPendingEffects h s facts = bind_res (decideNextEffect h s facts) (\<lambda>e. Inr [e])"


section \<open>Inverting the cascade\<close>

lemma decideNextEffect_cases [consumes 1, case_names gate interaction tools verification closing]:
  assumes "decideNextEffect h s facts = Inr e"
  obtains "gate_step h s facts = Inr (Some e)"
  | "gate_step h s facts = Inr None" "interaction_step s facts = Inr (Some e)"
  | "gate_step h s facts = Inr None" "interaction_step s facts = Inr None" "tool_step s facts = Inr (Some e)"
  | "gate_step h s facts = Inr None" "interaction_step s facts = Inr None" "tool_step s facts = Inr None"
    "verification_step h s = Some e"
  | "gate_step h s facts = Inr None" "interaction_step s facts = Inr None" "tool_step s facts = Inr None"
    "verification_step h s = None" "closing_step h s = Inr e"
proof (cases "gate_step h s facts = Inr None")
  case False
  then show thesis using assms that(1) by (auto simp: decideNextEffect_def bind_res_Inr split: option.splits)
next
  case gate: True
  then obtain i where i: "interaction_step s facts = Inr i"
    using assms by (auto simp: decideNextEffect_def bind_res_Inr)
  show thesis
  proof (cases i)
    case (Some e')
    then show thesis using assms gate i that(2) by (simp add: decideNextEffect_def)
  next
    case inter: None
    then obtain w where w: "tool_step s facts = Inr w"
      using assms gate i by (auto simp: decideNextEffect_def bind_res_Inr)
    show thesis
    proof (cases w)
      case (Some e')
      then show thesis using assms gate i inter w that(3) by (simp add: decideNextEffect_def)
    next
      case None
      then show thesis
        using assms gate i inter w that(4,5)
        by (cases "verification_step h s") (simp_all add: decideNextEffect_def)
    qed
  qed
qed

lemma gate_step_None:
  assumes "gate_step h s facts = Inr None"
  shows "st_recoveryState s = RecoveryNormal" "tn_status (st_turn s) = TurnActive"
    "\<forall>f. facts = Some f \<longrightarrow> isValidSchedulerFacts h f = Inr True"
    "\<forall>i \<in> set (obj_values (st_invocations s)). ci_status i \<noteq> ''unknown''"
    "recordField (st_context s) ''hardBlock'' = None"
  using assms
  by (auto simp: gate_step_def bind_res_Inr list_ex_iff split: if_splits option.splits)

lemma gate_step_Some:
  assumes "gate_step h s facts = Inr (Some e)"
  shows "isTerminalEffect e" "e \<noteq> EmitFinal"
  using assms by (auto simp: gate_step_def bind_res_Inr split: if_splits option.splits)

lemma interaction_effect_None [simp]: "interaction_effect i = None \<longleftrightarrow> i = Idle"
  by (simp add: interaction_effect_def Let_def split: interaction.split)

lemma interaction_effect_not_work:
  "interaction_effect i \<noteq> Some (RunTools ids)" "interaction_effect i \<noteq> Some (CallModel r)"
  "interaction_effect i \<noteq> Some EmitFinal"
  by (simp_all add: interaction_effect_def Let_def split: interaction.split)

lemma interaction_step_None: "interaction_step s facts = Inr None \<Longrightarrow> st_interactions s = Idle \<and> authorizedQueuedToolIds s = []"
  by (auto simp: interaction_step_def res_simps split: if_splits)

lemma tool_step_None: "tool_step s facts = Inr None \<Longrightarrow> runnableToolIds s = []"
  by (auto simp: tool_step_def res_simps split: option.splits if_splits)

lemma verification_step_not_work:
  "verification_step h s \<noteq> Some (RunTools ids)" "verification_step h s \<noteq> Some (CallModel r)"
  "verification_step h s \<noteq> Some EmitFinal"
  by (auto simp: verification_step_def Let_def split: option.splits bool.splits)

lemma closing_step_not_tools: "closing_step h s \<noteq> Inr (RunTools ids)"
  by (auto simp: closing_step_def completionDecision_def Let_def res_simps
      split: option.splits completion_decision.splits if_splits)

section \<open>Batches\<close>

lemma set_first_occurrences [simp]: "set (first_occurrences xs) = set xs"
  by (simp add: first_occurrences_def)

lemma distinct_first_occurrences [simp]: "distinct (first_occurrences xs)"
  by (simp add: first_occurrences_def)

lemma toolBelongs_eq [simp]: "toolBelongsToCurrentWork s call = toolCallBelongsToCurrentWork s call"
  by (simp add: toolBelongsToCurrentWork_def toolCallBelongsToCurrentWork_def split: option.split)

lemma distinct_ids: "distinct (runnableToolIds s)" "distinct (authorizedQueuedToolIds s)"
  by (simp_all add: runnableToolIds_def authorizedQueuedToolIds_def)

lemma runnable_ids: "i \<in> set (runnableToolIds s) \<Longrightarrow> runnable s i"
  by (simp add: runnableToolIds_def)

text \<open>What a gathered candidate satisfies.\<close>

definition candidate_ok ::
  "agent_state \<Rightarrow> jval option \<Rightarrow> (tool_call \<Rightarrow> execution_traits \<Rightarrow> bool) \<Rightarrow> string set \<Rightarrow> schedulable_effect \<Rightarrow> bool"
where
  "candidate_ok s facts eligible ids c \<longleftrightarrow> se_effectId c \<in> ids \<and>
     (\<exists>call. obj_get (to_calls (st_tools s)) (se_effectId c) = Some call \<and>
        schedulerTraits call facts = Some (se_traits c) \<and> eligible call (se_traits c))"

lemma gather_sound:
  assumes "\<forall>c \<in> set cs. candidate_ok s facts eligible ids c" and "set rest \<subseteq> ids"
  shows "\<forall>c \<in> set (gather s facts eligible first limit cs rest). candidate_ok s facts eligible ids c"
  using assms
proof (induction s facts eligible first limit cs rest rule: gather.induct)
  case (1 s facts eligible first limit cs)
  then show ?case by simp
next
  case (2 s facts eligible first limit cs i rest)
  from 2(4) have rest: "set rest \<subseteq> ids" by simp
  show ?case
  proof (cases "i = first \<or> length cs \<ge> limit")
    case True
    with 2(1) [OF True 2(3) rest] show ?thesis by simp
  next
    case False
    note nskip = False
    show ?thesis
    proof (cases "obj_get (to_calls (st_tools s)) i")
      case None
      with 2(3) nskip show ?thesis by auto
    next
      case call: (Some call)
      show ?thesis
      proof (cases "schedulerTraits call facts")
        case None
        with 2(3) nskip call show ?thesis by auto
      next
        case tr: (Some traits)
        show ?thesis
        proof (cases "\<not> eligible call traits \<or> \<not> list_all (\<lambda>c. executionTraitsMayOverlap (se_traits c) traits) cs")
          case True
          with 2(3) nskip call tr show ?thesis by auto
        next
          case False
          have "candidate_ok s facts eligible ids \<lparr>se_effectId = i, se_traits = traits\<rparr>"
            using False call tr 2(4) by (simp add: candidate_ok_def)
          then have "\<forall>c \<in> set (cs @ [\<lparr>se_effectId = i, se_traits = traits\<rparr>]). candidate_ok s facts eligible ids c"
            using 2(3) by auto
          from 2(2) [OF nskip call tr False this rest] show ?thesis using nskip call tr False by simp
        qed
      qed
    qed
  qed
qed

lemma gather_distinct:
  "distinct (map se_effectId cs @ filter (\<lambda>i. i \<noteq> first) rest) \<Longrightarrow>
   distinct (map se_effectId (gather s facts eligible first limit cs rest))"
proof (induction s facts eligible first limit cs rest rule: gather.induct)
  case (1 s facts eligible first limit cs)
  then show ?case by simp
next
  case (2 s facts eligible first limit cs i rest)
  have drop: "distinct (map se_effectId cs @ filter (\<lambda>i. i \<noteq> first) rest)"
    using 2(3) by (auto split: if_splits)
  show ?case
  proof (cases "i = first \<or> length cs \<ge> limit")
    case True
    with 2(1) [OF True drop] show ?thesis by simp
  next
    case False
    have "distinct (map se_effectId (cs @ [\<lparr>se_effectId = i, se_traits = traits\<rparr>]) @ filter (\<lambda>i. i \<noteq> first) rest)"
      for traits using 2(3) False by auto
    with 2(2) [OF False] drop False show ?thesis by (auto split: option.split)
  qed
qed

lemma gather_Cons: "\<exists>cs'. gather s facts eligible first limit (c # cs) rest = c # cs'"
  by (induction s facts eligible first limit "c # cs" rest arbitrary: cs rule: gather.induct)
    (auto split: option.split)


text \<open>Two calls whose traits, as the host projected them, may overlap.\<close>

definition may_run_together :: "agent_state \<Rightarrow> jval option \<Rightarrow> string \<Rightarrow> string \<Rightarrow> bool" where
  "may_run_together s facts i j \<longleftrightarrow>
     (\<exists>a b ta tb. obj_get (to_calls (st_tools s)) i = Some a \<and> obj_get (to_calls (st_tools s)) j = Some b \<and>
        schedulerTraits a facts = Some ta \<and> schedulerTraits b facts = Some tb \<and>
        executionTraitsMayOverlap ta tb)"

text \<open>A call of the current work that is waiting to be started.\<close>

definition startable :: "agent_state \<Rightarrow> string \<Rightarrow> bool" where
  "startable s i \<longleftrightarrow> (\<exists>call. obj_get (to_calls (st_tools s)) i = Some call \<and>
     tc_status call \<in> {TQueued, TApproved, TAuthorizedQueued} \<and> toolCallBelongsToCurrentWork s call)"

text \<open>A call that may share a batch: authorised, or one the host says needs no approval.\<close>

definition past_approval :: "agent_state \<Rightarrow> jval option \<Rightarrow> string \<Rightarrow> bool" where
  "past_approval s facts i \<longleftrightarrow> (\<exists>call. obj_get (to_calls (st_tools s)) i = Some call \<and>
     (tc_status call = TAuthorizedQueued \<or>
      tc_status call = TQueued \<and> (\<exists>grp \<in> {''parallel-subagent'', ''parallel-read''}. approvalFree call grp facts)))"

definition dispatch_ok :: "agent_state \<Rightarrow> jval option \<Rightarrow> string list \<Rightarrow> bool" where
  "dispatch_ok s facts ids \<longleftrightarrow> ids \<noteq> [] \<and> distinct ids \<and> (\<forall>i \<in> set ids. startable s i) \<and>
     (\<forall>i \<in> set ids. \<forall>j \<in> set ids. i \<noteq> j \<longrightarrow>
        may_run_together s facts i j \<and> past_approval s facts i)"

lemma dispatch_ok_single: "startable s i \<Longrightarrow> dispatch_ok s facts [i]"
  by (simp add: dispatch_ok_def)

lemma runnable_startable: "runnable s i \<Longrightarrow> startable s i"
  by (auto simp: runnable_def startable_def split: option.splits)

lemma authorized_ids:
  "i \<in> set (authorizedQueuedToolIds s) \<longleftrightarrow> i \<in> set (runnableToolIds s) \<and>
     map_option tc_status (obj_get (to_calls (st_tools s)) i) = Some TAuthorizedQueued"
  by (simp add: authorizedQueuedToolIds_def)

lemma gathered_batch:
  assumes first: "obj_get (to_calls (st_tools s)) first = Some fc" "schedulerTraits fc facts = Some ft"
      "eligible fc ft" "first \<in> set rest"
    and rest: "distinct rest"
    and sel: "selectSchedulableEffectBatch
        (gather s facts eligible first limit [\<lparr>se_effectId = first, se_traits = ft\<rparr>] rest) (int limit) = Inr ids"
  shows "ids \<noteq> []" "distinct ids" "length ids \<le> limit"
    "\<forall>i \<in> set ids. i \<in> set rest \<and> (\<exists>call traits. obj_get (to_calls (st_tools s)) i = Some call \<and>
        schedulerTraits call facts = Some traits \<and> eligible call traits)"
    "\<forall>i \<in> set ids. \<forall>j \<in> set ids. i \<noteq> j \<longrightarrow> may_run_together s facts i j"
proof -
  let ?cs = "gather s facts eligible first limit [\<lparr>se_effectId = first, se_traits = ft\<rparr>] rest"
  obtain cs' where "?cs = \<lparr>se_effectId = first, se_traits = ft\<rparr> # cs'" using gather_Cons by blast
  then have ne: "?cs \<noteq> []" by simp
  have good: "\<forall>c \<in> set ?cs. candidate_ok s facts eligible (set rest) c"
    by (rule gather_sound) (use first in \<open>auto simp: candidate_ok_def\<close>)
  have dist: "distinct (map se_effectId ?cs)"
    by (rule gather_distinct) (use rest in auto)
  from selectSchedulableEffectBatch_bounds [OF sel] ne obtain n
    where n: "n \<le> length ?cs" "ids = map se_effectId (take n ?cs)" "int n \<le> int limit" "0 < n"
      "\<forall>i j. i < n \<and> j < n \<and> i \<noteq> j \<longrightarrow>
        executionTraitsMayOverlap (se_traits (?cs ! i)) (se_traits (?cs ! j))"
    by auto
  show "ids \<noteq> []" using n ne by auto
  show "distinct ids" using dist n(2) distinct_take [of "map se_effectId ?cs" n] by (simp add: take_map)
  show "length ids \<le> limit" using n by simp
  have member: "\<exists>c \<in> set ?cs. se_effectId c = i" if "i \<in> set ids" for i
    using that n(2) in_set_takeD by fastforce
  then show "\<forall>i \<in> set ids. i \<in> set rest \<and> (\<exists>call traits. obj_get (to_calls (st_tools s)) i = Some call \<and>
      schedulerTraits call facts = Some traits \<and> eligible call traits)"
    using good unfolding candidate_ok_def by blast
  show "\<forall>i \<in> set ids. \<forall>j \<in> set ids. i \<noteq> j \<longrightarrow> may_run_together s facts i j"
  proof (intro ballI impI)
    fix i j
    assume ij: "i \<in> set ids" "j \<in> set ids" "i \<noteq> j"
    have index: "\<exists>p < n. se_effectId (?cs ! p) = k" if k: "k \<in> set ids" for k
    proof -
      obtain p where "p < length ids" "ids ! p = k" using k by (auto simp: in_set_conv_nth)
      with n(1,2) have "p < n \<and> se_effectId (?cs ! p) = k" by simp
      then show ?thesis by blast
    qed
    from index [OF ij(1)] index [OF ij(2)] ij(3)
    obtain p q where pq: "p < n" "q < n" "se_effectId (?cs ! p) = i" "se_effectId (?cs ! q) = j" "p \<noteq> q"
      by metis
    then have "?cs ! p \<in> set ?cs" "?cs ! q \<in> set ?cs" using n(1) by simp_all
    then have "candidate_ok s facts eligible (set rest) (?cs ! p)" "candidate_ok s facts eligible (set rest) (?cs ! q)"
      using good by simp_all
    with pq n(5) show "may_run_together s facts i j"
      unfolding candidate_ok_def may_run_together_def by metis
  qed
qed

lemma approvalFree_queued: "approvalFree call grp facts \<Longrightarrow> tc_status call = TQueued \<and> (\<exists>t. schedulerTraits call facts = Some t)"
  by (auto simp: approvalFree_def Let_def split: option.splits)

lemma parallelBatch_ok:
  assumes "parallelBatch s first grp limit facts = Inr ids" and "first \<in> set (runnableToolIds s)"
    and "grp \<in> {''parallel-subagent'', ''parallel-read''}"
  shows "dispatch_ok s facts ids"
proof -
  have single: "dispatch_ok s facts [first]"
    using assms(2) by (intro dispatch_ok_single runnable_startable runnable_ids)
  obtain fc where fc: "obj_get (to_calls (st_tools s)) first = Some fc"
    using runnable_ids [OF assms(2)] by (auto simp: runnable_def split: option.splits)
  show ?thesis
  proof (cases "approvalFree fc grp facts")
    case False
    then have "ids = [first]"
      using assms(1) fc by (cases "schedulerTraits fc facts") (simp_all add: parallelBatch_def)
    with single show ?thesis by simp
  next
    case True
    then obtain ft where ft: "schedulerTraits fc facts = Some ft" using approvalFree_queued by blast
    then have sel: "selectSchedulableEffectBatch (gather s facts (\<lambda>call traits. approvalFree call grp facts) first limit
        [\<lparr>se_effectId = first, se_traits = ft\<rparr>] (runnableToolIds s)) (int limit) = Inr ids"
      using assms(1) fc True by (simp add: parallelBatch_def)
    note batch = gathered_batch [where eligible = "\<lambda>call traits. approvalFree call grp facts",
        OF fc ft True assms(2) distinct_ids(1) sel]
    have "past_approval s facts i" if "i \<in> set ids" for i
    proof -
      from batch(4) that obtain call where "obj_get (to_calls (st_tools s)) i = Some call" "approvalFree call grp facts"
        by blast
      then show ?thesis unfolding past_approval_def using assms(3) approvalFree_queued by blast
    qed
    moreover have "startable s i" if "i \<in> set ids" for i
      using batch(4) that runnable_startable runnable_ids by blast
    ultimately show ?thesis using batch(1,2,5) by (simp add: dispatch_ok_def)
  qed
qed

lemma authorizedBatch_ok:
  assumes "authorizedBatch s first facts = Inr ids" and "first \<in> set (authorizedQueuedToolIds s)"
  shows "dispatch_ok s facts ids \<and> set ids \<subseteq> set (authorizedQueuedToolIds s)"
proof -
  have run: "runnable s i" if "i \<in> set (authorizedQueuedToolIds s)" for i
    using that by (intro runnable_ids) (simp add: authorized_ids)
  have single: "dispatch_ok s facts [first]" by (intro dispatch_ok_single runnable_startable run assms(2))
  obtain fc where fc: "obj_get (to_calls (st_tools s)) first = Some fc"
    using run [OF assms(2)] by (auto simp: runnable_def split: option.splits)
  let ?limit = "max 1 (length (authorizedQueuedToolIds s))"
  show ?thesis
  proof (cases "ids = [first]")
    case True
    with single assms(2) show ?thesis by simp
  next
    case False
    then obtain ft where ft: "schedulerTraits fc facts = Some ft"
      using assms(1) fc by (cases "schedulerTraits fc facts") (auto simp: authorizedBatch_def)
    have rd: "et_access ft = ReadAccess \<and> et_isolation ft = Shared"
      using assms(1) fc ft False by (auto simp: authorizedBatch_def split: if_splits)
    have sel: "selectSchedulableEffectBatch (gather s facts
        (\<lambda>call traits. et_access traits = ReadAccess \<and> et_isolation traits = Shared) first ?limit
        [\<lparr>se_effectId = first, se_traits = ft\<rparr>] (authorizedQueuedToolIds s)) (int ?limit) = Inr ids"
      using assms(1) fc ft rd False unfolding authorizedBatch_def
      by (auto simp: Let_def simp del: of_nat_max split: if_splits)
    note batch = gathered_batch [where eligible = "\<lambda>call traits. et_access traits = ReadAccess \<and> et_isolation traits = Shared",
        OF fc ft rd assms(2) distinct_ids(2) sel]
    have sub: "set ids \<subseteq> set (authorizedQueuedToolIds s)" using batch(4) by blast
    have "past_approval s facts i" if "i \<in> set ids" for i
    proof -
      have "map_option tc_status (obj_get (to_calls (st_tools s)) i) = Some TAuthorizedQueued"
        using sub that authorized_ids by blast
      then show ?thesis by (auto simp: past_approval_def)
    qed
    moreover have "startable s i" if "i \<in> set ids" for i
      using sub that run runnable_startable by blast
    ultimately show ?thesis using batch(1,2,5) sub by (simp add: dispatch_ok_def)
  qed
qed


lemma tool_batch_ok:
  assumes "tool_batch s facts = Inr ids" and "runnableToolIds s \<noteq> []"
  shows "dispatch_ok s facts ids"
proof -
  define first where "first = or_default (find (\<lambda>i. i \<in> set (runnableToolIds s)) (to_queue (st_tools s)))
    (hd (runnableToolIds s))"
  have first: "first \<in> set (runnableToolIds s)"
    using assms(2) by (auto simp: first_def or_default_def find_Some_iff split: option.splits)
  then have single: "dispatch_ok s facts [first]"
    by (intro dispatch_ok_single runnable_startable runnable_ids)
  obtain fc where fc: "obj_get (to_calls (st_tools s)) first = Some fc"
    using runnable_ids [OF first] by (auto simp: runnable_def split: option.splits)
  have batch: "tool_batch s facts =
      (if approvalFree fc ''parallel-subagent'' facts
       then parallelBatch s first ''parallel-subagent'' MAX_PARALLEL_SUBAGENTS facts
       else if map_option et_access (schedulerTraits fc facts) = Some ReadAccess \<and>
          tc_effectClass fc = Some ReadOnly \<and> tc_sideEffect fc = Some False \<and>
          approvalFree fc ''parallel-read'' facts
       then parallelBatch s first ''parallel-read'' (length (runnableToolIds s)) facts
       else Inr [first])"
    unfolding tool_batch_def Let_def first_def [symmetric] by (simp add: fc)
  show ?thesis
  proof (rule ccontr)
    assume no: "\<not> dispatch_ok s facts ids"
    have "parallelBatch s first ''parallel-subagent'' m facts \<noteq> Inr ids"
      "parallelBatch s first ''parallel-read'' m facts \<noteq> Inr ids" for m
      using no parallelBatch_ok [OF _ first] by blast+
    moreover have "[first] \<noteq> ids" using no single by blast
    ultimately show False using assms(1) unfolding batch by (simp split: if_splits)
  qed
qed

lemma find_member: "find P xs = Some x \<Longrightarrow> x \<in> set xs \<and> P x"
  by (auto simp: find_Some_iff)

lemma approvedSuspended_startable: "approvedSuspended s = Some i \<Longrightarrow> startable s i"
  unfolding approvedSuspended_def truthy_option_def
  by (auto simp: startable_def dest!: find_member split: option.splits if_splits)

lemma authorized_ids_nonempty: "authorizedQueuedToolIds s \<noteq> [] \<Longrightarrow> hd (authorizedQueuedToolIds s) \<in> set (authorizedQueuedToolIds s)"
  by simp

lemma interaction_tools:
  assumes "interaction_step s facts = Inr (Some (RunTools ids))"
  shows "approval_focus (st_interactions s)" "dispatch_ok s facts ids"
    "set ids \<subseteq> set (authorizedQueuedToolIds s)"
proof -
  have b: "approval_focus (st_interactions s)" "authorizedQueuedToolIds s \<noteq> []"
    "authorizedBatch s (hd (authorizedQueuedToolIds s)) facts = Inr ids"
    using assms interaction_effect_not_work
    by (auto simp: interaction_step_def bind_res_Inr split: if_splits)
  show "approval_focus (st_interactions s)" by (rule b(1))
  from authorizedBatch_ok [OF b(3) authorized_ids_nonempty [OF b(2)]]
  show "dispatch_ok s facts ids" "set ids \<subseteq> set (authorizedQueuedToolIds s)" by simp_all
qed

lemma tool_step_tools:
  assumes "tool_step s facts = Inr (Some (RunTools ids))"
  shows "dispatch_ok s facts ids"
proof -
  have "stranded_step s \<noteq> Some (RunTools ids)" by (auto simp: stranded_step_def split: option.splits)
  then have "(\<exists>i. approvedSuspended s = Some i \<and> ids = [i]) \<or> runnableToolIds s \<noteq> [] \<and> tool_batch s facts = Inr ids"
    using assms by (auto simp: tool_step_def bind_res_Inr split: option.splits if_splits)
  then show ?thesis using approvedSuspended_startable dispatch_ok_single tool_batch_ok by blast
qed

section \<open>What a dispatch implies\<close>

text \<open>
  C1: tools are only started for work that may run. A dispatch names at least one call and none
  twice; every call exists, belongs to the current task (or turn), and is queued, approved or
  authorised; the state is not in recovery, its context not blocked, the turn is active, no
  external invocation has an unknown outcome, and the host's facts, if given, were well formed.
  Calls dispatched together may pairwise overlap, and each of them either was authorised or is
  one the host marked as allowed without approval.
\<close>

theorem run_tools_sound:
  assumes "decideNextEffect h s facts = Inr (RunTools ids)"
  shows "ids \<noteq> [] \<and> distinct ids \<and> (\<forall>i \<in> set ids. startable s i) \<and>
    (\<forall>i \<in> set ids. \<forall>j \<in> set ids. i \<noteq> j \<longrightarrow> may_run_together s facts i j \<and> past_approval s facts i) \<and>
    st_recoveryState s = RecoveryNormal \<and> tn_status (st_turn s) = TurnActive \<and>
    recordField (st_context s) ''hardBlock'' = None \<and>
    (\<forall>i \<in> set (obj_values (st_invocations s)). ci_status i \<noteq> ''unknown'') \<and>
    (\<forall>f. facts = Some f \<longrightarrow> isValidSchedulerFacts h f = Inr True)"
  using assms
proof (cases rule: decideNextEffect_cases)
  case gate
  then show ?thesis using gate_step_Some by fastforce
next
  case interaction
  then show ?thesis using gate_step_None [OF interaction(1)] interaction_tools(2) [OF interaction(2)]
    unfolding dispatch_ok_def by blast
next
  case tools
  then show ?thesis using gate_step_None [OF tools(1)] tool_step_tools [OF tools(3)]
    unfolding dispatch_ok_def by blast
next
  case verification
  then show ?thesis using verification_step_not_work by blast
next
  case closing
  then show ?thesis using closing_step_not_tools by blast
qed

text \<open>
  C32: the interaction barrier. While an interaction is open nothing runs past it: the only tools
  dispatched are calls already authorised, and only when the open interaction is an approval or an
  automatic review; the model is not called and no final answer is emitted.
\<close>

theorem interaction_barrier:
  assumes "decideNextEffect h s facts = Inr e" and "st_interactions s \<noteq> Idle"
  shows "(\<forall>r. e \<noteq> CallModel r) \<and> e \<noteq> EmitFinal \<and>
    (\<forall>ids. e = RunTools ids \<longrightarrow> approval_focus (st_interactions s) \<and>
       (\<forall>i \<in> set ids. map_option tc_status (obj_get (to_calls (st_tools s)) i) = Some TAuthorizedQueued))"
  using assms(1)
proof (cases rule: decideNextEffect_cases)
  case gate
  then show ?thesis using gate_step_Some [OF gate] by auto
next
  case interaction
  have none: "e \<noteq> CallModel r" "e \<noteq> EmitFinal" for r
    using interaction(2) interaction_effect_not_work
    by (auto simp: interaction_step_def bind_res_Inr split: if_splits)
  have "approval_focus (st_interactions s) \<and>
    (\<forall>i \<in> set ids. map_option tc_status (obj_get (to_calls (st_tools s)) i) = Some TAuthorizedQueued)"
    if "e = RunTools ids" for ids
    using interaction_tools [OF interaction(2) [unfolded that]] authorized_ids by blast
  with none show ?thesis by blast
qed (use assms(2) interaction_step_None in blast)+


section \<open>What a final answer and a model call imply\<close>

definition answer_after_final :: "agent_state \<Rightarrow> bool" where
  "answer_after_final s \<longleftrightarrow> non_empty (ts_final (st_transcript s)) \<and>
     ts_messages (st_transcript s) \<noteq> [] \<and> is_assistant (last (ts_messages (st_transcript s)))"

text \<open>No required verification of the current work is left to run, repair or decide.\<close>

definition verification_settled :: "agent_state \<Rightarrow> bool" where
  "verification_settled s \<longleftrightarrow>
     (\<forall>r \<in> set (obj_values (st_verification s)).
        (vr_taskId r = None \<or> vr_taskId r = st_activeTaskId s) \<and> vr_mode r = Required \<longrightarrow>
        vr_status r \<in> {VPassed, VWaived} \<or> vr_status r = VRepairPending \<and> \<not> answer_after_final s)"

lemma find_None_ball: "find P xs = None \<Longrightarrow> \<forall>x \<in> set xs. \<not> P x"
  by (simp add: find_None_iff)

lemma verification_step_None:
  assumes "verification_step h s = None"
  shows "verification_settled s"
proof -
  let ?rs = "activeVerificationRecords h s"
  let ?final = "non_empty (ts_final (st_transcript s))"
  note vs = assms [unfolded verification_step_def Let_def]
  have run: "find (\<lambda>r. (vr_status r = VPending \<or> vr_status r = VRunning) \<and> (vr_mode r = Required \<or> \<not> ?final)) ?rs = None"
    using vs by (simp split: option.splits)
  have comp: "find (\<lambda>r. vr_status r = VCompensating) ?rs = None"
    using vs run by (simp split: option.splits)
  have rep: "find (\<lambda>r. vr_mode r = Required \<and> (vr_status r = VFailed \<or> vr_status r = VInconclusive) \<and>
      vr_repairAttempts r < repair_budget r) ?rs = None"
    using vs run comp by (simp split: option.splits)
  have pend: "find (\<lambda>r. vr_status r = VRepairPending) ?rs = None \<or> \<not> answer_after_final s"
    and block: "find (\<lambda>r. vr_mode r = Required \<and> (vr_status r = VFailed \<or> vr_status r = VInconclusive \<or>
      vr_status r = VBudgetExhausted \<or> vr_status r = VCompensated)) ?rs = None"
    using vs run comp rep by (auto simp: answer_after_final_def split: option.splits bool.splits)
  have "vr_status r \<in> {VPassed, VWaived} \<or> vr_status r = VRepairPending \<and> \<not> answer_after_final s"
    if r: "r \<in> set ?rs" "vr_mode r = Required" for r
    using pend find_None_ball [OF run] find_None_ball [OF comp] find_None_ball [OF block] r
    by (cases "vr_status r") (auto simp: find_None_iff)
  then show ?thesis by (auto simp: verification_settled_def activeVerificationRecords_def)
qed

lemma completion_sound:
  assumes "decideCompletion h s = Inr (GuardAccepted v i)"
  shows "quiescent s \<and>
    (case planning_document (activePlanning s) of None \<Rightarrow> activePlanning s = BuildingWithoutPlan
     | Some d \<Rightarrow> (\<exists>a. activePlanning s = PlanCompleted d a) \<and> plan_evidenced h s d)"
proof (cases "planning_document (activePlanning s)")
  case None
  with assms have "decideUnplannedCompletion s = GuardAccepted v i" by (simp add: decideCompletion_def)
  from unplanned_accepted [OF this] None show ?thesis by auto
next
  case (Some d)
  with assms have "decidePlannedCompletion h s = Inr (GuardAccepted v i)" by (simp add: decideCompletion_def)
  from planned_accepted [OF this] Some show ?thesis by auto
qed

lemma interaction_step_work:
  "interaction_step s facts \<noteq> Inr (Some (CallModel r))" "interaction_step s facts \<noteq> Inr (Some EmitFinal)"
  using interaction_effect_not_work by (auto simp: interaction_step_def bind_res_Inr split: if_splits)

lemma tool_step_work:
  "tool_step s facts \<noteq> Inr (Some (CallModel r))" "tool_step s facts \<noteq> Inr (Some EmitFinal)"
  by (auto simp: tool_step_def stranded_step_def bind_res_Inr split: option.splits if_splits)

lemma reaches_closing:
  assumes "decideNextEffect h s facts = Inr e" and "e = EmitFinal \<or> e = CallModel r"
  shows "gate_step h s facts = Inr None \<and> st_interactions s = Idle \<and> runnableToolIds s = [] \<and>
    verification_settled s \<and> closing_step h s = Inr e"
  using assms(1)
proof (cases rule: decideNextEffect_cases)
  case gate
  with assms(2) gate_step_Some [OF gate] show ?thesis by auto
next
  case interaction
  with assms(2) interaction_step_work show ?thesis by blast
next
  case tools
  with assms(2) tool_step_work show ?thesis by blast
next
  case verification
  with assms(2) verification_step_not_work show ?thesis by blast
next
  case closing
  then show ?thesis using interaction_step_None tool_step_None verification_step_None by blast
qed

text \<open>
  C31: the run is only finished when the completion guard agrees. A final answer is emitted only if
  the model has produced one, no skill of the task is active, nothing is runnable and no
  interaction is open, the guard's conditions hold (quiescent work; a plan, if there is one,
  completed with its evidence), and no required verification is left to run, repair or decide.
\<close>

theorem emit_final_sound:
  assumes "decideNextEffect h s facts = Inr EmitFinal"
  shows "non_empty (ts_final (st_transcript s)) \<and> \<not> hasActiveSkillFrameForCurrentWork s \<and>
    st_interactions s = Idle \<and> runnableToolIds s = [] \<and> verification_settled s \<and> quiescent s \<and>
    (case planning_document (activePlanning s) of None \<Rightarrow> activePlanning s = BuildingWithoutPlan
     | Some d \<Rightarrow> (\<exists>a. activePlanning s = PlanCompleted d a) \<and> plan_evidenced h s d)"
proof -
  note c = reaches_closing [OF assms disjI1 [OF refl]]
  have final: "non_empty (ts_final (st_transcript s)) \<and> \<not> hasActiveSkillFrameForCurrentWork s"
    using c by (auto simp: closing_step_def Let_def split: if_splits option.splits)
  then have "completionDecision h s = Inr EmitFinal" using c by (simp add: closing_step_def)
  then obtain d where d: "decideCompletion h s = Inr d"
      "(case d of GuardAccepted v i \<Rightarrow> EmitFinal | GuardBlocked v i b \<Rightarrow> CompletionBlocked v i b) = EmitFinal"
    by (auto simp: completionDecision_def bind_res_Inr)
  then obtain v i where "decideCompletion h s = Inr (GuardAccepted v i)" by (cases d) auto
  from completion_sound [OF this] final c show ?thesis by simp
qed

text \<open>
  The model is asked only when nothing else is due. A model call means the state is healthy and
  the turn active, no interaction is open, no tool call is runnable, required verifications are
  settled, no context compaction is pending, recovery has not exhausted its quality budget, and
  the last proposal was not one the user rejected without saying more.
\<close>

theorem call_model_last:
  assumes "decideNextEffect h s facts = Inr (CallModel r)"
  shows "st_recoveryState s = RecoveryNormal \<and> tn_status (st_turn s) = TurnActive \<and>
    st_interactions s = Idle \<and> runnableToolIds s = [] \<and> verification_settled s \<and>
    (non_empty (ts_final (st_transcript s)) \<longrightarrow> hasActiveSkillFrameForCurrentWork s) \<and>
    recordField (st_context s) ''pendingCompaction'' = None \<and>
    \<not> isToolRecoveryQualityBlocked (st_toolRecovery s) (st_activeTaskId s) (Some (tn_turnId (st_turn s))) \<and>
    \<not> rejected_without_reply s"
proof -
  note c = reaches_closing [OF assms disjI2 [OF refl]]
  have not_final: "completionDecision h s \<noteq> Inr (CallModel r)"
    by (auto simp: completionDecision_def bind_res_Inr split: completion_decision.splits)
  have "(non_empty (ts_final (st_transcript s)) \<longrightarrow> hasActiveSkillFrameForCurrentWork s) \<and>
    recordField (st_context s) ''pendingCompaction'' = None \<and>
    \<not> isToolRecoveryQualityBlocked (st_toolRecovery s) (st_activeTaskId s) (Some (tn_turnId (st_turn s))) \<and>
    \<not> rejected_without_reply s"
    using c not_final by (auto simp: closing_step_def Let_def split: if_splits option.splits)
  with c gate_step_None [of h s facts] show ?thesis by simp
qed

section \<open>The decision is total\<close>

lemma selectSchedulableEffectBatch_total:
  "0 < n \<Longrightarrow> int n \<le> max_safe_integer \<Longrightarrow> \<exists>ids. selectSchedulableEffectBatch cs (int n) = Inr ids"
  by (cases cs) (auto simp: selectSchedulableEffectBatch_def)

lemma length_filter_first: "length (filter P (first_occurrences xs)) \<le> length xs"
proof -
  have "length (filter P (first_occurrences xs)) \<le> length (first_occurrences xs)" by simp
  also have "\<dots> \<le> length xs" by (simp add: first_occurrences_def) (metis length_remdups_leq length_rev)
  finally show ?thesis .
qed

lemma decideCompletion_total: "\<exists>d. decideCompletion h s = Inr d"
  by (auto simp: decideCompletion_def decidePlannedCompletion_def Let_def)

text \<open>A host fact about some call whose access or isolation has no text.\<close>

definition unreadable_facts :: "jval \<Rightarrow> bool" where
  "unreadable_facts f =
     list_ex (\<lambda>(effectId, projected). string_throws (vfld projected ''access'') \<or> string_throws (vfld projected ''isolation''))
       (or_default (as_record (vfld f ''traits'')) [])"

lemma validExecutionTraits_throws:
  assumes "validExecutionTraits h v = Inl e"
  shows "e = conversion_error \<and> (string_throws (vfld v ''access'') \<or> string_throws (vfld v ''isolation''))"
  using assms
  by (cases v) (auto simp: validExecutionTraits_def as_record_def spelled_throws dest!: all_of_throws)

lemma isValidSchedulerFacts_throws:
  assumes "isValidSchedulerFacts h v = Inl e"
  shows "e = conversion_error \<and> unreadable_facts v"
proof -
  from assms obtain o' where v: "v = JObj o'" by (cases v) (simp_all add: isValidSchedulerFacts_def as_record_def)
  with assms obtain traits approval where parts: "recordField o' ''traits'' = Some traits"
      "recordField o' ''approval'' = Some approval"
    and "all_of (map (\<lambda>(effectId, projected). all_of [Inr (effectId \<noteq> []), validExecutionTraits h projected]) traits @
      [Inr (list_all (\<lambda>(effectId, projected). effectId \<noteq> [] \<and> validApprovalFact projected) approval)]) = Inl e"
    by (auto simp: isValidSchedulerFacts_def as_record_def split: if_splits option.splits)
  from all_of_throws [OF this(3)] obtain effectId projected where entry: "(effectId, projected) \<in> set traits"
    "all_of [Inr (effectId \<noteq> []), validExecutionTraits h projected] = Inl e"
    by (auto simp: list_ex_iff)
  from all_of_throws [OF entry(2)] have "validExecutionTraits h projected = Inl e" by simp
  with validExecutionTraits_throws entry(1) parts(1) show ?thesis
    by (force simp: v unreadable_facts_def list_ex_iff recordField_def as_record_def)
qed

text \<open>
  C40: the scheduler always decides, except on facts it cannot read. Whatever the state, and
  whatever value the host passes as facts, either a decision is reached, or the \<open>TypeError\<close> of
  \<open>String(...)\<close> is thrown, and then the facts give some call an access or an isolation that is (or
  contains, in a list) an object with a property named \<open>toString\<close>; nothing else throws. The tool
  queues need only be as short as every JavaScript array is.
\<close>

theorem decideNextEffect_total:
  assumes "int (length (to_queue (st_tools s) @ to_active (st_tools s))) \<le> max_safe_integer"
  shows "(\<exists>e. decideNextEffect h s facts = Inr e) \<or>
    decideNextEffect h s facts = Inl conversion_error \<and> (\<exists>f. facts = Some f \<and> unreadable_facts f)"
proof -
  have run: "int (length (runnableToolIds s)) \<le> max_safe_integer"
    using assms length_filter_first [of "runnable s" "to_queue (st_tools s) @ to_active (st_tools s)"]
    by (simp add: runnableToolIds_def)
  then have aut: "int (length (authorizedQueuedToolIds s)) \<le> max_safe_integer"
    using length_filter_le [of _ "runnableToolIds s"] unfolding authorizedQueuedToolIds_def
    by (meson order_trans zle_int)
  have par: "\<exists>ids. parallelBatch s first grp n facts = Inr ids" if "0 < n" "int n \<le> max_safe_integer" for first grp n
    using selectSchedulableEffectBatch_total [OF that] by (auto simp: parallelBatch_def split: option.split)
  have aub: "\<exists>ids. authorizedBatch s first facts = Inr ids" for first
  proof -
    obtain n where n: "max 1 (length (authorizedQueuedToolIds s)) = n" by blast
    then have sel: "\<exists>ids. selectSchedulableEffectBatch cs (int n) = Inr ids" for cs
      using aut by (intro selectSchedulableEffectBatch_total) (auto simp: max_safe_integer_def)
    show ?thesis
    proof (cases "obj_get (to_calls (st_tools s)) first")
      case (Some fc)
      then show ?thesis using sel unfolding authorizedBatch_def Let_def n
        by (cases "schedulerTraits fc facts") simp_all
    qed (simp add: authorizedBatch_def)
  qed
  have "\<exists>e. interaction_step s facts = Inr e" using aub [of "hd (authorizedQueuedToolIds s)"]
    by (auto simp: interaction_step_def)
  moreover have "\<exists>e. tool_step s facts = Inr e"
  proof (cases "runnableToolIds s = []")
    case False
    have "\<exists>ids. tool_batch s facts = Inr ids"
      using par [of MAX_PARALLEL_SUBAGENTS] par [of "length (runnableToolIds s)"] False run
      by (auto simp: tool_batch_def Let_def MAX_PARALLEL_SUBAGENTS_def max_safe_integer_def split: option.split)
    then show ?thesis by (auto simp: tool_step_def split: option.split)
  qed (simp add: tool_step_def split: option.split)
  moreover have "\<exists>e. closing_step h s = Inr e"
    using decideCompletion_total [of h s] by (auto simp: closing_step_def completionDecision_def Let_def split: option.split)
  ultimately have rest: "\<exists>e. decideNextEffect h s facts = Inr e" if "gate_step h s facts = Inr g" for g
    using that by (auto simp: decideNextEffect_def split: option.split)
  show ?thesis
  proof (cases "gate_step h s facts")
    case (Inl e)
    then obtain f where "facts = Some f" "isValidSchedulerFacts h f = Inl e"
      by (cases facts; cases "isValidSchedulerFacts h (the facts)")
        (auto simp: gate_step_def split: if_splits option.splits)
    with isValidSchedulerFacts_throws Inl show ?thesis by (auto simp: decideNextEffect_def)
  qed (use rest in blast)
qed


section \<open>A validated value that is not the string it prints as\<close>

definition loose_traits :: jobj where
  "loose_traits = [(''resourceScopes'', JArr [JObj [(''kind'', JStr ''workspace''), (''key'', JStr ''a'')]]),
     (''access'', JArr [JStr ''unknown'']), (''conflictKeys'', JArr []), (''isolation'', JStr ''worktree''),
     (''causalGroup'', JStr ''g''), (''interactionBarrier'', JBool False), (''leaseFenceRequired'', JBool False),
     (''concurrencyGroup'', JStr ''parallel-read'')]"

lemma loose_access_passes:
  "validExecutionTraits h (JObj loose_traits) = Inr True \<and> et_access (read_traits loose_traits) \<noteq> UnknownAccess"
  by (simp add: loose_traits_def validExecutionTraits_def exactKeys_def arrayField_def validScope_def
      stringField_def read_traits_def read_access_def EXECUTION_ACCESS_def EXECUTION_ISOLATION_def
      EXECUTION_SCOPE_KINDS_def as_record_def fld_def spelled_true)


section \<open>Two reads and a finished answer\<close>

definition read_call :: "string \<Rightarrow> tool_status \<Rightarrow> tool_call" where
  "read_call i st = \<lparr>tc_toolCallId = i, tc_name = ''read_file'', tc_displayLabel = None, tc_modelMessageId = ''m-1'',
     tc_args = JObj [], tc_modelInvocationId = None, tc_ordinal = None, tc_createdAtTurnId = ''turn-1'',
     tc_taskId = Some ''task-1'', tc_queuedAt = None, tc_startedAt = None, tc_approvalRequestedAt = None,
     tc_approvalWaitMs = None, tc_invocationFingerprint = None, tc_recoveryOf = None, tc_recoveryMode = None,
     tc_recoveryAdmission = None, tc_result = None, tc_error = None, tc_failure = None, tc_outcome = None,
     tc_bindingId = None, tc_capabilityId = None, tc_capabilityRevision = None, tc_unknownFields = None,
     tc_approvalHash = None, tc_approvalGrant = None, tc_effectClass = Some ReadOnly, tc_sideEffect = Some False,
     tc_classificationReason = None, tc_presentation = None, tc_networkDecisions = None, tc_status = st\<rparr>"

definition reading_state :: agent_state where
  "reading_state = working_state\<lparr>st_tools := \<lparr>to_calls = [(''a'', read_call ''a'' TQueued), (''b'', read_call ''b'' TQueued)],
     to_queue = [''a'', ''b''], to_active = []\<rparr>\<rparr>"

definition approving_state :: agent_state where
  "approving_state = working_state\<lparr>st_tools := \<lparr>to_calls = [(''a'', read_call ''a'' TAuthorizedQueued),
       (''b'', read_call ''b'' TAwaitingApproval)], to_queue = [''a''], to_active = [''b'']\<rparr>,
     st_interactions := AwaitingToolApproval ''i-1'' ''b'' []\<rparr>"

definition answered_state :: agent_state where
  "answered_state = working_state\<lparr>st_transcript := \<lparr>ts_messages = [], ts_final = Some ''done''\<rparr>\<rparr>"

definition read_fact :: jval where
  "read_fact = JObj [(''resourceScopes'', JArr []), (''access'', JStr ''read''), (''conflictKeys'', JArr []),
     (''isolation'', JStr ''shared''), (''causalGroup'', JStr ''g''), (''interactionBarrier'', JBool False),
     (''leaseFenceRequired'', JBool False), (''concurrencyGroup'', JStr ''parallel-read'')]"

definition allow_fact :: jval where
  "allow_fact = JObj [(''allowed'', JBool True), (''requiresApproval'', JBool False)]"

definition read_facts :: jval where
  "read_facts = JObj [(''traits'', JObj [(''a'', read_fact), (''b'', read_fact)]),
     (''approval'', JObj [(''a'', allow_fact), (''b'', allow_fact)])]"

lemma sample_schedule:
  "decideNextEffect sample_host reading_state (Some read_facts) = Inr (RunTools [''a'', ''b''])"
  "decideNextEffect sample_host approving_state None = Inr (RunTools [''a''])"
  "decideNextEffect sample_host answered_state None = Inr EmitFinal"
  "decideNextEffect sample_host working_state None = Inr (CallModel None)"
  by code_simp+

theorem run_tools_sound_witness:
  "decideNextEffect sample_host reading_state (Some read_facts) = Inr (RunTools [''a'', ''b'']) \<and>
   startable reading_state ''a'' \<and> may_run_together reading_state (Some read_facts) ''a'' ''b'' \<and>
   isValidSchedulerFacts sample_host read_facts = Inr True"
  using run_tools_sound [OF sample_schedule(1)] sample_schedule(1) by simp

theorem interaction_barrier_witness:
  "decideNextEffect sample_host approving_state None = Inr (RunTools [''a'']) \<and>
   st_interactions approving_state \<noteq> Idle \<and> approval_focus (st_interactions approving_state) \<and>
   map_option tc_status (obj_get (to_calls (st_tools approving_state)) ''a'') = Some TAuthorizedQueued"
proof -
  have busy: "st_interactions approving_state \<noteq> Idle" by (simp add: approving_state_def)
  from busy interaction_barrier [OF sample_schedule(2) busy] sample_schedule(2) show ?thesis by simp
qed

theorem emit_final_sound_witness:
  "decideNextEffect sample_host answered_state None = Inr EmitFinal \<and> quiescent answered_state \<and>
   verification_settled answered_state"
  using emit_final_sound [OF sample_schedule(3)] sample_schedule(3) by simp

theorem call_model_last_witness:
  "decideNextEffect sample_host working_state None = Inr (CallModel None) \<and>
   runnableToolIds working_state = [] \<and> verification_settled working_state"
  using call_model_last [OF sample_schedule(4)] sample_schedule(4) by simp

theorem decideNextEffect_total_witness:
  "int (length (to_queue (st_tools reading_state) @ to_active (st_tools reading_state))) \<le> max_safe_integer \<and>
   (\<exists>e. decideNextEffect sample_host reading_state (Some (JNum 3)) = Inr e)"
proof -
  have "int (length (to_queue (st_tools reading_state) @ to_active (st_tools reading_state))) \<le> max_safe_integer"
    by (simp add: reading_state_def max_safe_integer_def)
  moreover have "\<not> unreadable_facts (JNum 3)" by (simp add: unreadable_facts_def as_record_def)
  ultimately show ?thesis using decideNextEffect_total [of reading_state sample_host "Some (JNum 3)"] by auto
qed

end
