(* ===== verification/Kite_Outcome.thy ===== *)
theory Kite_Outcome
  imports Kite_Work Kite_Recovery Kite_Approval
begin

text \<open>
  src/packages/agent-kernel/src/normalization.ts: how a tool that ended becomes a canonical
  \<open>ToolOutcome\<close>. The theory holds the vocabulary of failures, the classifier, the validator of
  persisted outcomes, the calendar arithmetic behind its durations, and the normalisation of
  terminal events. Their properties are in Kite_Outcome_Inv.
\<close>

section \<open>The vocabulary of failures\<close>

definition FAILURE_KINDS :: "string list" where
  "FAILURE_KINDS = [
     ''model_invalid_tool_args'', ''model_refused'', ''model_timeout'', ''model_rate_limited'',
     ''model_server_error'', ''policy_denied'', ''phase_deferred'', ''phase_denied'',
     ''approval_rejected'', ''auto_review_rejected'', ''plan_revision_requested'',
     ''tool_runtime_error'', ''tool_timeout'', ''tool_invalid_args'', ''tool_not_found'',
     ''provider_auth_required'', ''provider_approval_required'', ''provider_unavailable'',
     ''provider_capability_changed'', ''user_input_cancelled'', ''user_input_timeout'',
     ''sandbox_error'', ''checkpoint_restore_error'', ''transcript_invariant_error'',
     ''loop_exhausted'', ''budget_exceeded'', ''artifact_invalid'', ''profile_invalid'',
     ''digest_invalid'', ''workspace_untrusted'', ''network_unavailable'',
     ''worktree_unavailable'', ''model_retry_exhausted'', ''mcp_unavailable'',
     ''persistence_unavailable'', ''resource_saturated'', ''process_limit_exceeded'',
     ''cancel_incomplete'', ''compaction_unqualified'', ''compaction_failed'',
     ''verification_failed'', ''verification_inconclusive'', ''mandatory_policy_unavailable'',
     ''unknown'']"

definition DETAIL_CODES :: "string list" where
  "DETAIL_CODES = [
     ''success'', ''legacy_unclassified'', ''invalid_json'', ''invalid_arguments'',
     ''unknown_tool'', ''tool_unavailable'', ''policy_denied'', ''approval_rejected'',
     ''auto_review_rejected'', ''phase_deferred'', ''phase_denied'', ''cancelled_by_user'',
     ''timed_out'', ''provider_unavailable'', ''capability_changed'', ''sandbox_denied'',
     ''sandbox_capability_missing'', ''protected_path_denied'', ''git_operation_unsupported'',
     ''managed_network_setup_required'', ''repository_invalid'', ''repository_hostile'',
     ''binary_untrusted'', ''repository_dirty'', ''repository_no_change'',
     ''repository_conflict'', ''repository_lock'', ''receipt_invalid'',
     ''persistence_unavailable'', ''resource_exhausted'', ''process_cleanup_unknown'',
     ''tool_reported_failure'', ''runtime_exception'', ''classifier_missing'',
     ''classifier_threw'', ''classifier_conflict'', ''classifier_invalid'',
     ''recovery_not_allowed'', ''recovery_exhausted'', ''no_progress'', ''unknown'']"

record failure_strategy =
  fs_retryable :: bool
  fs_modelFixable :: bool
  fs_needsUserIntervention :: bool
  fs_terminatesTurn :: bool
  fs_journal :: bool

record classified_failure = failure_strategy +
  cf_kind :: string
  cf_message :: string
  cf_parseFailureCode :: "string option"

definition strategy :: "bool \<Rightarrow> bool \<Rightarrow> bool \<Rightarrow> bool \<Rightarrow> bool \<Rightarrow> failure_strategy" where
  "strategy retryable modelFixable needsUserIntervention terminatesTurn journal =
     \<lparr>fs_retryable = retryable, fs_modelFixable = modelFixable,
      fs_needsUserIntervention = needsUserIntervention, fs_terminatesTurn = terminatesTurn,
      fs_journal = journal\<rparr>"

definition STRATEGIES :: "failure_strategy jsobj" where
  "STRATEGIES = [
     (''model_invalid_tool_args'', strategy True True False False True),
     (''model_refused'', strategy False False True True True),
     (''model_timeout'', strategy True False False False False),
     (''model_rate_limited'', strategy True False False False False),
     (''model_server_error'', strategy True False False False False),
     (''policy_denied'', strategy False True False False True),
     (''phase_deferred'', strategy False True False False True),
     (''phase_denied'', strategy False True False False True),
     (''approval_rejected'', strategy False False False False True),
     (''auto_review_rejected'', strategy False False True False True),
     (''plan_revision_requested'', strategy False True True False True),
     (''tool_runtime_error'', strategy True True False False True),
     (''tool_timeout'', strategy True False False False True),
     (''tool_invalid_args'', strategy False True False False True),
     (''tool_not_found'', strategy False False True True True),
     (''provider_auth_required'', strategy False False True False True),
     (''provider_approval_required'', strategy False False True False True),
     (''provider_unavailable'', strategy True False False False True),
     (''provider_capability_changed'', strategy False True True False True),
     (''user_input_cancelled'', strategy False False False False False),
     (''user_input_timeout'', strategy False False False False False),
     (''sandbox_error'', strategy False False True True True),
     (''checkpoint_restore_error'', strategy False False True True True),
     (''transcript_invariant_error'', strategy False False True True True),
     (''loop_exhausted'', strategy False False True True True),
     (''budget_exceeded'', strategy False False True True True),
     (''artifact_invalid'', strategy False False True True True),
     (''profile_invalid'', strategy False False True True True),
     (''digest_invalid'', strategy False False True True True),
     (''workspace_untrusted'', strategy False False True True True),
     (''network_unavailable'', strategy False False True True True),
     (''worktree_unavailable'', strategy False False True True True),
     (''model_retry_exhausted'', strategy False False True True True),
     (''mcp_unavailable'', strategy True False True True True),
     (''persistence_unavailable'', strategy False False True True True),
     (''resource_saturated'', strategy False False True True True),
     (''process_limit_exceeded'', strategy False False True True True),
     (''cancel_incomplete'', strategy False False True True True),
     (''compaction_unqualified'', strategy False False True True True),
     (''compaction_failed'', strategy False False True True True),
     (''verification_failed'', strategy False False True True True),
     (''verification_inconclusive'', strategy False False True True True),
     (''mandatory_policy_unavailable'', strategy False False True True True),
     (''unknown'', strategy False False True True True)]"

definition DETAIL_BY_KIND :: "string list jsobj" where
  "DETAIL_BY_KIND = [
     (''model_invalid_tool_args'', [''invalid_json'', ''invalid_arguments'']),
     (''model_refused'', [''unknown'']), (''model_timeout'', [''timed_out'']),
     (''model_rate_limited'', [''unknown'']), (''model_server_error'', [''unknown'']),
     (''policy_denied'', [''policy_denied'']), (''phase_deferred'', [''phase_deferred'']),
     (''phase_denied'', [''phase_denied'']), (''approval_rejected'', [''approval_rejected'']),
     (''auto_review_rejected'', [''auto_review_rejected'']),
     (''plan_revision_requested'', [''unknown'']),
     (''tool_runtime_error'', [''runtime_exception'', ''tool_reported_failure'', ''legacy_unclassified'', ''sandbox_capability_missing'', ''protected_path_denied'', ''git_operation_unsupported'', ''managed_network_setup_required'', ''repository_invalid'', ''repository_hostile'', ''binary_untrusted'', ''repository_dirty'', ''repository_no_change'', ''repository_conflict'', ''repository_lock'', ''receipt_invalid'']),
     (''tool_timeout'', [''timed_out'']),
     (''tool_invalid_args'', [''invalid_json'', ''invalid_arguments'']),
     (''tool_not_found'', [''unknown_tool'', ''tool_unavailable'']),
     (''provider_auth_required'', [''unknown'']),
     (''provider_approval_required'', [''unknown'']),
     (''provider_unavailable'', [''provider_unavailable'']),
     (''provider_capability_changed'', [''capability_changed'']),
     (''user_input_cancelled'', [''cancelled_by_user'']),
     (''user_input_timeout'', [''timed_out'']), (''sandbox_error'', [''sandbox_denied'']),
     (''checkpoint_restore_error'', [''unknown'']),
     (''transcript_invariant_error'', [''unknown'']),
     (''loop_exhausted'', [''resource_exhausted'', ''recovery_not_allowed'', ''recovery_exhausted'', ''no_progress'']),
     (''budget_exceeded'', [''resource_exhausted'']), (''artifact_invalid'', [''unknown'']),
     (''profile_invalid'', [''unknown'']), (''digest_invalid'', [''unknown'']),
     (''workspace_untrusted'', [''unknown'']), (''network_unavailable'', [''unknown'']),
     (''worktree_unavailable'', [''unknown'']), (''model_retry_exhausted'', [''unknown'']),
     (''mcp_unavailable'', [''provider_unavailable'']),
     (''persistence_unavailable'', [''persistence_unavailable'']),
     (''resource_saturated'', [''resource_exhausted'']),
     (''process_limit_exceeded'', [''unknown'']),
     (''cancel_incomplete'', [''process_cleanup_unknown'']),
     (''compaction_unqualified'', [''unknown'']), (''compaction_failed'', [''unknown'']),
     (''verification_failed'', [''unknown'']), (''verification_inconclusive'', [''unknown'']),
     (''mandatory_policy_unavailable'', [''policy_denied'']), (''unknown'', [''unknown''])]"

text \<open>Both tables are indexed by a failure kind only, and have an entry for each.\<close>

definition strategy_of :: "string \<Rightarrow> failure_strategy" where
  "strategy_of kind = the (map_of STRATEGIES kind)"

definition details_of :: "string \<Rightarrow> string list" where
  "details_of kind = the (map_of DETAIL_BY_KIND kind)"

definition isToolFailureKind :: "jval \<Rightarrow> bool" where
  "isToolFailureKind v = (case v of JStr s \<Rightarrow> s \<in> set FAILURE_KINDS | _ \<Rightarrow> False)"

definition isToolOutcomeDetailCode :: "jval \<Rightarrow> bool" where
  "isToolOutcomeDetailCode v = (case v of JStr s \<Rightarrow> s \<in> set DETAIL_CODES | _ \<Rightarrow> False)"

definition PARSE_FAILURE_CODES :: "string list" where
  "PARSE_FAILURE_CODES = [''invalid_json'', ''invalid_arguments'', ''unknown_tool'', ''tool_unavailable'']"

definition isToolParseFailureCode :: "string option \<Rightarrow> bool" where
  "isToolParseFailureCode v = (case v of Some s \<Rightarrow> s \<in> set PARSE_FAILURE_CODES | None \<Rightarrow> False)"

definition failure_with :: "failure_strategy \<Rightarrow> string \<Rightarrow> string \<Rightarrow> string option \<Rightarrow> classified_failure" where
  "failure_with s kind message code =
     \<lparr>fs_retryable = fs_retryable s, fs_modelFixable = fs_modelFixable s,
      fs_needsUserIntervention = fs_needsUserIntervention s,
      fs_terminatesTurn = fs_terminatesTurn s, fs_journal = fs_journal s,
      cf_kind = kind, cf_message = message, cf_parseFailureCode = code\<rparr>"

definition classifyRuntimeFailure :: "string \<Rightarrow> string \<Rightarrow> string option \<Rightarrow> classified_failure" where
  "classifyRuntimeFailure kind message parseFailureCode =
     failure_with (strategy_of kind) kind message (truthy_option parseFailureCode)"

definition failureKindForToolParseFailure :: "string \<Rightarrow> string" where
  "failureKindForToolParseFailure code =
     (if code = ''unknown_tool'' \<or> code = ''tool_unavailable'' then ''tool_not_found''
      else ''tool_invalid_args'')"

definition TERMINAL_REASON_BY_FAILURE :: "string jsobj" where
  "TERMINAL_REASON_BY_FAILURE = [
     (''artifact_invalid'', ''artifact_invalid''), (''profile_invalid'', ''profile_invalid''),
     (''digest_invalid'', ''digest_invalid''),
     (''workspace_untrusted'', ''workspace_untrusted''),
     (''sandbox_error'', ''sandbox_unavailable''),
     (''network_unavailable'', ''network_unavailable''),
     (''worktree_unavailable'', ''worktree_unavailable''),
     (''model_retry_exhausted'', ''model_retry_exhausted''),
     (''provider_unavailable'', ''provider_unavailable''),
     (''mcp_unavailable'', ''mcp_unavailable''),
     (''persistence_unavailable'', ''persistence_unavailable''),
     (''budget_exceeded'', ''budget_exhausted''),
     (''resource_saturated'', ''resource_saturated''),
     (''process_limit_exceeded'', ''process_limit_exceeded''),
     (''cancel_incomplete'', ''cancel_incomplete''),
     (''compaction_unqualified'', ''compaction_unqualified''),
     (''compaction_failed'', ''compaction_failed''),
     (''verification_failed'', ''verification_failed''),
     (''verification_inconclusive'', ''verification_inconclusive''),
     (''mandatory_policy_unavailable'', ''mandatory_policy_unavailable''),
     (''unknown'', ''unknown'')]"

definition terminalReasonForRuntimeFailure :: "string \<Rightarrow> string" where
  "terminalReasonForRuntimeFailure kind =
     or_default (map_of TERMINAL_REASON_BY_FAILURE kind) ''blocked''"

definition detail_table :: "string jsobj" where
  "detail_table = [
     (''model_invalid_tool_args'', ''invalid_arguments''),
     (''tool_invalid_args'', ''invalid_arguments''), (''tool_not_found'', ''unknown_tool''),
     (''policy_denied'', ''policy_denied''),
     (''mandatory_policy_unavailable'', ''policy_denied''),
     (''approval_rejected'', ''approval_rejected''),
     (''auto_review_rejected'', ''auto_review_rejected''),
     (''phase_deferred'', ''phase_deferred''), (''phase_denied'', ''phase_denied''),
     (''user_input_cancelled'', ''cancelled_by_user''),
     (''user_input_timeout'', ''timed_out''), (''tool_timeout'', ''timed_out''),
     (''model_timeout'', ''timed_out''), (''provider_unavailable'', ''provider_unavailable''),
     (''mcp_unavailable'', ''provider_unavailable''),
     (''provider_capability_changed'', ''capability_changed''),
     (''sandbox_error'', ''sandbox_denied''),
     (''persistence_unavailable'', ''persistence_unavailable''),
     (''budget_exceeded'', ''resource_exhausted''),
     (''resource_saturated'', ''resource_exhausted''),
     (''loop_exhausted'', ''resource_exhausted''),
     (''cancel_incomplete'', ''process_cleanup_unknown''),
     (''tool_runtime_error'', ''runtime_exception''), (''unknown'', ''unknown'')]"

definition detailForFailure :: "classified_failure \<Rightarrow> string" where
  "detailForFailure failure =
     (case cf_parseFailureCode failure of
        Some code \<Rightarrow> (if code \<in> set PARSE_FAILURE_CODES then code
                     else or_default (map_of detail_table (cf_kind failure)) ''unknown'')
      | None \<Rightarrow> or_default (map_of detail_table (cf_kind failure)) ''unknown'')"

section \<open>Durations\<close>

text \<open>\<open>Math.round\<close> of a finite number that is not negative.\<close>

definition finiteDuration :: "jval \<Rightarrow> rat option" where
  "finiteDuration v =
     (case v of JNum r \<Rightarrow> if r \<ge> 0 then Some (of_int \<lfloor>r + 1 / 2\<rfloor>) else None | _ \<Rightarrow> None)"

text \<open>The groups of the timestamp pattern stand at fixed positions.\<close>

definition digits_at :: "nat \<Rightarrow> nat \<Rightarrow> string \<Rightarrow> int" where
  "digits_at i n s = int (decimal_value (take n (drop i s)))"

text \<open>Days from 1970-01-01 in the Gregorian calendar, counted from March of an adjusted year.\<close>

definition civil_days :: "int \<Rightarrow> int \<Rightarrow> int \<Rightarrow> int" where
  "civil_days year month day =
     (let adjustedYear = year - (if month \<le> 2 then 1 else 0);
          era = adjustedYear div 400;
          yearOfEra = adjustedYear - era * 400;
          monthOfYear = month + (if month > 2 then -3 else 9);
          dayOfYear = (153 * monthOfYear + 2) div 5 + day - 1;
          dayOfEra = yearOfEra * 365 + yearOfEra div 4 - yearOfEra div 100 + dayOfYear in
      era * 146097 + dayOfEra - 719468)"

definition epochMillis :: "string option \<Rightarrow> int option" where
  "epochMillis value =
     (case truthy_option value of None \<Rightarrow> None
      | Some s \<Rightarrow>
          if \<not> is_host_timestamp s then None
          else let days = civil_days (digits_at 0 4 s) (digits_at 5 2 s) (digits_at 8 2 s);
                   millis = (if length s = 24 then digits_at 20 3 s else 0) in
            Some ((((days * 24 + digits_at 11 2 s) * 60 + digits_at 14 2 s) * 60
              + digits_at 17 2 s) * 1000 + millis))"

definition durationBetween :: "string option \<Rightarrow> string \<Rightarrow> int option" where
  "durationBetween start finish =
     (case (epochMillis start, epochMillis (Some finish)) of
        (Some a, Some b) \<Rightarrow> if b < a then None else Some (b - a)
      | _ \<Rightarrow> None)"

record timing_input =
  tm_queueMs :: "rat option"
  tm_executionMs :: "rat option"
  tm_approvalWaitMs :: "rat option"
  tm_totalActiveMs :: "rat option"

definition duration_entry :: "string \<Rightarrow> rat option \<Rightarrow> jobj" where
  "duration_entry k v =
     (case v of None \<Rightarrow> []
      | Some r \<Rightarrow> (case finiteDuration (JNum r) of None \<Rightarrow> [] | Some d \<Rightarrow> [(k, JNum d)]))"

definition trustedToolTiming :: "timing_input option \<Rightarrow> jobj" where
  "trustedToolTiming input =
     (case input of None \<Rightarrow> [(''source'', JStr ''legacy_unknown'')]
      | Some t \<Rightarrow> [(''source'', JStr ''runtime_boundary'')]
          @ duration_entry ''queueMs'' (tm_queueMs t)
          @ duration_entry ''executionMs'' (tm_executionMs t)
          @ duration_entry ''approvalWaitMs'' (tm_approvalWaitMs t)
          @ duration_entry ''totalActiveMs'' (tm_totalActiveMs t))"

section \<open>The classifier\<close>

definition NEVER_RECOVERY :: tool_recovery_advice where
  "NEVER_RECOVERY = \<lparr>rc_disposition = Never, rc_maximumAdditionalCalls = 0,
     rc_requiresNewModelResponse = False, rc_safeAutomaticRetry = False, rc_retryAfterMs = None,
     rc_capabilityIntent = JUndef\<rparr>"

definition baseRecovery :: "classified_failure \<Rightarrow> tool_recovery_advice" where
  "baseRecovery failure =
     (if fs_modelFixable failure
      then NEVER_RECOVERY\<lparr>rc_disposition := CorrectArgs, rc_maximumAdditionalCalls := 1,
        rc_requiresNewModelResponse := True\<rparr>
      else if fs_retryable failure
      then NEVER_RECOVERY\<lparr>rc_disposition := RetryOnce, rc_maximumAdditionalCalls := 1\<rparr>
      else if fs_needsUserIntervention failure then NEVER_RECOVERY\<lparr>rc_disposition := UserAction\<rparr>
      else NEVER_RECOVERY)"

record tool_authority =
  au_dispatchState :: string
  au_externalEffects :: known_effects
  au_replaySafety :: "string option"
  au_policyDenied :: bool
  au_approvalDenied :: bool

definition automaticRetryAuthoritative :: "tool_authority \<Rightarrow> bool" where
  "automaticRetryAuthoritative authority =
     (if au_dispatchState authority = ''not_started'' \<and> au_externalEffects authority = EffNone then True
      else if au_dispatchState authority \<noteq> ''started'' \<or> au_externalEffects authority = EffUnknown
      then False
      else au_replaySafety authority = Some ''safe_read'' \<or>
        au_replaySafety authority = Some ''idempotency_receipt'')"

record classification_input =
  ki_status :: outcome_status
  ki_failure :: "classified_failure option"
  ki_authority :: tool_authority
  ki_toolAdvice :: "jobj option"
  ki_recoveryOf :: "string option"
  ki_timing :: "timing_input option"
  ki_unknownFields :: "jobj option"
  ki_classifierDiagnostic :: "string option"

fun disposition_string :: "disposition \<Rightarrow> string" where
  "disposition_string Never = ''never''"
| "disposition_string CorrectArgs = ''correct_args''"
| "disposition_string RetryOnce = ''retry_once''"
| "disposition_string Alternative = ''alternative''"
| "disposition_string UserAction = ''user_action''"

definition is_intent_char :: "char \<Rightarrow> bool" where
  "is_intent_char c \<longleftrightarrow> c \<in> set ''abcdefghijklmnopqrstuvwxyz0123456789_.:-''"

definition is_capability_intent :: "string \<Rightarrow> bool" where
  "is_capability_intent s \<longleftrightarrow>
     (case s of [] \<Rightarrow> False
      | c # cs \<Rightarrow> c \<in> set ''abcdefghijklmnopqrstuvwxyz'' \<and> length cs \<le> 63 \<and> list_all is_intent_char cs)"

text \<open>The fields that all results of the classifier share.\<close>

definition base_outcome :: "classification_input \<Rightarrow> tool_outcome" where
  "base_outcome input =
     \<lparr>oc_status = OutSuccess, oc_failureKind = None, oc_detailCode = None,
      oc_dispatchState = au_dispatchState (ki_authority input),
      oc_externalEffects = au_externalEffects (ki_authority input),
      oc_replaySafety = truthy_option (au_replaySafety (ki_authority input)),
      oc_recovery = NEVER_RECOVERY, oc_failureInstanceId = None,
      oc_recoveryOf = ki_recoveryOf input, oc_timing = trustedToolTiming (ki_timing input),
      oc_unknownFields = ki_unknownFields input, oc_diagnosticCodes = []\<rparr>"

definition diagnosed :: "classification_input \<Rightarrow> string \<Rightarrow> tool_outcome" where
  "diagnosed input code =
     (base_outcome input)\<lparr>oc_status := OutUnknown, oc_failureKind := Some ''unknown'',
       oc_detailCode := Some code, oc_replaySafety := None, oc_diagnosticCodes := [JStr code]\<rparr>"

definition invalid_advice :: "jobj \<Rightarrow> bool" where
  "invalid_advice advice \<longleftrightarrow>
     \<not> nullish (fld advice ''detailCode'') \<and> \<not> isToolOutcomeDetailCode (fld advice ''detailCode'') \<or>
     \<not> nullish (fld advice ''maximumAdditionalCalls'') \<and>
       fld advice ''maximumAdditionalCalls'' \<noteq> JNum 0 \<and> fld advice ''maximumAdditionalCalls'' \<noteq> JNum 1"

definition conflicting_detail :: "classified_failure option \<Rightarrow> jobj \<Rightarrow> bool" where
  "conflicting_detail failure advice =
     (case failure of None \<Rightarrow> False
      | Some f \<Rightarrow> \<not> nullish (fld advice ''detailCode'') \<and>
          isToolOutcomeDetailCode (fld advice ''detailCode'') \<and>
          fld advice ''detailCode'' \<notin> JStr ` set (details_of (cf_kind f)))"

definition recovery_ceiling :: "classification_input \<Rightarrow> classified_failure \<Rightarrow> tool_recovery_advice" where
  "recovery_ceiling input failure =
     (let authority = ki_authority input in
      if au_policyDenied authority \<or> au_approvalDenied authority \<or>
        ki_status input = OutCancelled \<or> ki_status input = OutTimedOut \<or>
        ki_status input = OutExhausted \<or> au_externalEffects authority = EffUnknown
      then NEVER_RECOVERY else baseRecovery failure)"

definition exceeds_ceiling :: "tool_authority \<Rightarrow> tool_recovery_advice \<Rightarrow> jobj \<Rightarrow> bool" where
  "exceeds_ceiling authority recovery advice \<longleftrightarrow>
     fld advice ''maximumAdditionalCalls'' = JNum 1 \<and> rc_maximumAdditionalCalls recovery = 0 \<or>
     fld advice ''safeAutomaticRetry'' = JBool True \<and>
       (\<not> automaticRetryAuthoritative authority \<or> rc_disposition recovery \<noteq> RetryOnce) \<or>
     fld advice ''requiresNewModelResponse'' = JBool False \<and> rc_requiresNewModelResponse recovery \<or>
     \<not> nullish (fld advice ''retryAfterMs'') \<and> rc_disposition recovery \<noteq> RetryOnce \<or>
     \<not> nullish (fld advice ''disposition'') \<and> fld advice ''disposition'' \<noteq> JStr ''never'' \<and>
       fld advice ''disposition'' \<noteq> JStr (disposition_string (rc_disposition recovery)) \<and>
       \<not> (rc_disposition recovery = CorrectArgs \<and> fld advice ''disposition'' = JStr ''alternative'')"

text \<open>The successive reassignments of \<open>recovery\<close> after the ceiling check.\<close>

definition after_disposition :: "jobj \<Rightarrow> tool_recovery_advice \<Rightarrow> tool_recovery_advice" where
  "after_disposition advice recovery =
     (let d = fld advice ''disposition'';
          r1 = (if d = JStr ''never'' then NEVER_RECOVERY else recovery);
          r2 = (if rc_disposition r1 = RetryOnce \<and> \<not> nullish d \<and> d \<noteq> JStr ''retry_once''
                then NEVER_RECOVERY else r1) in
      if rc_disposition r2 = CorrectArgs \<and> d = JStr ''alternative''
      then r2\<lparr>rc_disposition := Alternative, rc_maximumAdditionalCalls := 1\<rparr> else r2)"

definition after_retry :: "tool_authority \<Rightarrow> jobj \<Rightarrow> tool_recovery_advice \<Rightarrow> tool_recovery_advice" where
  "after_retry authority advice recovery =
     (if rc_disposition recovery = RetryOnce
      then if automaticRetryAuthoritative authority \<and>
          fld advice ''safeAutomaticRetry'' \<noteq> JBool False
        then recovery\<lparr>rc_safeAutomaticRetry := True,
          rc_retryAfterMs := finiteDuration (fld advice ''retryAfterMs'')\<rparr>
        else NEVER_RECOVERY
      else recovery)"

definition after_intent :: "js_host \<Rightarrow> jobj \<Rightarrow> tool_recovery_advice \<Rightarrow> tool_recovery_advice" where
  "after_intent h advice recovery =
     (let r = (if fld advice ''maximumAdditionalCalls'' = JNum 0 then NEVER_RECOVERY else recovery);
          intent = fld advice ''capabilityIntent'' in
      if truthy intent \<and> is_capability_intent (js_String h intent)
      then r\<lparr>rc_capabilityIntent := intent\<rparr> else r)"

definition classified :: "js_host \<Rightarrow> classification_input \<Rightarrow> jobj \<Rightarrow> classified_failure \<Rightarrow> tool_outcome" where
  "classified h input advice failure =
     (let authority = ki_authority input;
          ceil = recovery_ceiling input failure in
      if exceeds_ceiling authority ceil advice then diagnosed input ''classifier_conflict''
      else (base_outcome input)\<lparr>oc_status := ki_status input,
        oc_failureKind := Some (cf_kind failure),
        oc_detailCode := Some (case fld advice ''detailCode'' of
            JStr d \<Rightarrow> (if d \<noteq> [] \<and> d \<in> set DETAIL_CODES then d else detailForFailure failure)
          | _ \<Rightarrow> detailForFailure failure),
        oc_recovery := after_intent h advice (after_retry authority advice
          (after_disposition advice ceil))\<rparr>)"

definition diagnostic_of :: "classification_input \<Rightarrow> string option" where
  "diagnostic_of input =
     (let advice = or_default (ki_toolAdvice input) [] in
      if invalid_advice advice then Some ''classifier_invalid''
      else if conflicting_detail (ki_failure input) advice then Some ''classifier_conflict''
      else truthy_option (ki_classifierDiagnostic input))"

definition classifyToolOutcome :: "js_host \<Rightarrow> classification_input \<Rightarrow> tool_outcome" where
  "classifyToolOutcome h input =
     (if ki_status input = OutSuccess then base_outcome input
      else case diagnostic_of input of Some code \<Rightarrow> diagnosed input code
        | None \<Rightarrow>
            (case ki_failure input of None \<Rightarrow> diagnosed input ''classifier_missing''
             | Some failure \<Rightarrow> classified h input (or_default (ki_toolAdvice input) []) failure))"

section \<open>The persisted form\<close>

fun effects_string :: "known_effects \<Rightarrow> string" where
  "effects_string EffNone = ''none''"
| "effects_string EffKnown = ''known''"
| "effects_string EffUnknown = ''unknown''"

definition optional_string :: "string \<Rightarrow> string option \<Rightarrow> jobj" where
  "optional_string k v = (case v of None \<Rightarrow> [] | Some s \<Rightarrow> [(k, JStr s)])"

definition recovery_json :: "tool_recovery_advice \<Rightarrow> jobj" where
  "recovery_json r =
     [(''disposition'', JStr (disposition_string (rc_disposition r))),
      (''maximumAdditionalCalls'', JNum (of_nat (rc_maximumAdditionalCalls r))),
      (''requiresNewModelResponse'', JBool (rc_requiresNewModelResponse r)),
      (''safeAutomaticRetry'', JBool (rc_safeAutomaticRetry r))]
     @ (case rc_retryAfterMs r of None \<Rightarrow> [] | Some d \<Rightarrow> [(''retryAfterMs'', JNum d)])
     @ (if rc_capabilityIntent r = JUndef then [] else [(''capabilityIntent'', rc_capabilityIntent r)])"

definition outcome_json :: "tool_outcome \<Rightarrow> jobj" where
  "outcome_json o' =
     [(''schemaVersion'', JNum 1), (''status'', JStr (outcome_status_string (oc_status o')))]
     @ (case oc_failureKind o' of None \<Rightarrow> []
        | Some kind \<Rightarrow> [(''failure'', JObj ((''kind'', JStr kind) #
            optional_string ''detailCode'' (oc_detailCode o')))])
     @ [(''dispatchState'', JStr (oc_dispatchState o')),
        (''externalEffects'', JStr (effects_string (oc_externalEffects o')))]
     @ optional_string ''replaySafety'' (oc_replaySafety o')
     @ [(''recovery'', JObj (recovery_json (oc_recovery o')))]
     @ (if oc_failureInstanceId o' = None \<and> oc_recoveryOf o' = None then []
        else [(''lineage'', JObj (optional_string ''recoveryOf'' (oc_recoveryOf o') @
            optional_string ''failureInstanceId'' (oc_failureInstanceId o')))])
     @ [(''timing'', JObj (oc_timing o'))]
     @ (case oc_unknownFields o' of None \<Rightarrow> [] | Some u \<Rightarrow> [(''unknownFields'', JObj u)])
     @ (if oc_diagnosticCodes o' = [] then []
        else [(''diagnosticCodes'', JArr (oc_diagnosticCodes o'))])"

text \<open>The typed view of a persisted outcome, as the reducers compare its fields with literals.\<close>

definition read_status :: "jval \<Rightarrow> outcome_status" where
  "read_status v =
     (if v = JStr ''success'' then OutSuccess else if v = JStr ''failed'' then OutFailed
      else if v = JStr ''rejected'' then OutRejected else if v = JStr ''cancelled'' then OutCancelled
      else if v = JStr ''timed_out'' then OutTimedOut else if v = JStr ''exhausted'' then OutExhausted
      else OutUnknown)"

definition read_disposition :: "jval \<Rightarrow> disposition" where
  "read_disposition v =
     (if v = JStr ''correct_args'' then CorrectArgs else if v = JStr ''retry_once'' then RetryOnce
      else if v = JStr ''alternative'' then Alternative else if v = JStr ''user_action'' then UserAction
      else Never)"

definition read_effects :: "jval \<Rightarrow> known_effects" where
  "read_effects v =
     (if v = JStr ''none'' then EffNone else if v = JStr ''known'' then EffKnown else EffUnknown)"

definition read_recovery :: "jobj \<Rightarrow> tool_recovery_advice" where
  "read_recovery r =
     \<lparr>rc_disposition = read_disposition (fld r ''disposition''),
      rc_maximumAdditionalCalls = nat (int_of (fld r ''maximumAdditionalCalls'')),
      rc_requiresNewModelResponse = (fld r ''requiresNewModelResponse'' = JBool True),
      rc_safeAutomaticRetry = (fld r ''safeAutomaticRetry'' = JBool True),
      rc_retryAfterMs = numberField r ''retryAfterMs'',
      rc_capabilityIntent = fld r ''capabilityIntent''\<rparr>"

definition sub_record :: "jobj \<Rightarrow> string \<Rightarrow> jobj" where
  "sub_record o' k = or_default (recordField o' k) []"

definition read_outcome :: "jobj \<Rightarrow> tool_outcome" where
  "read_outcome o' =
     \<lparr>oc_status = read_status (fld o' ''status''),
      oc_failureKind = stringField (sub_record o' ''failure'') ''kind'',
      oc_detailCode = stringField (sub_record o' ''failure'') ''detailCode'',
      oc_dispatchState = or_default (stringField o' ''dispatchState'') [],
      oc_externalEffects = read_effects (fld o' ''externalEffects''),
      oc_replaySafety = stringField o' ''replaySafety'',
      oc_recovery = read_recovery (sub_record o' ''recovery''),
      oc_failureInstanceId = stringField (sub_record o' ''lineage'') ''failureInstanceId'',
      oc_recoveryOf = stringField (sub_record o' ''lineage'') ''recoveryOf'',
      oc_timing = sub_record o' ''timing'',
      oc_unknownFields = recordField o' ''unknownFields'',
      oc_diagnosticCodes = or_default (arrayField o' ''diagnosticCodes'') []\<rparr>"

section \<open>The validator\<close>

definition exactKeys :: "jobj \<Rightarrow> string list \<Rightarrow> bool" where
  "exactKeys value allowed = list_all (\<lambda>key. key \<in> set allowed) (obj_keys value)"

definition OUTCOME_KEYS :: "string list" where
  "OUTCOME_KEYS = [''schemaVersion'', ''status'', ''failure'', ''dispatchState'', ''externalEffects'',
     ''replaySafety'', ''recovery'', ''lineage'', ''timing'', ''unknownFields'', ''diagnosticCodes'']"

definition CLASSIFIER_DIAGNOSTICS :: "string list" where
  "CLASSIFIER_DIAGNOSTICS =
     [''classifier_missing'', ''classifier_threw'', ''classifier_conflict'', ''classifier_invalid'']"

definition TIMING_KEYS :: "string list" where
  "TIMING_KEYS = [''queueMs'', ''executionMs'', ''approvalWaitMs'', ''totalActiveMs'']"

definition OUTCOME_STATUSES :: "string list" where
  "OUTCOME_STATUSES = [''success'', ''failed'', ''rejected'', ''cancelled'', ''timed_out'', ''exhausted'', ''unknown'']"

definition envelope_ok :: "js_host \<Rightarrow> jobj \<Rightarrow> bool res" where
  "envelope_ok h value = all_of
    [Inr (exactKeys value OUTCOME_KEYS \<and> fld value ''schemaVersion'' = JNum 1),
     spelled h OUTCOME_STATUSES (fld value ''status''),
     spelled h [''not_started'', ''started'', ''unknown''] (fld value ''dispatchState''),
     spelled h [''none'', ''known'', ''unknown''] (fld value ''externalEffects'')]"

text \<open>\<open>value == null ? undefined : String(value)\<close>\<close>

definition optional_String :: "js_host \<Rightarrow> jval \<Rightarrow> string option res" where
  "optional_String h v = (if nullish v then Inr None else bind_res (to_string h v) (\<lambda>text. Inr (Some text)))"

definition replay_ok :: "string \<Rightarrow> string \<Rightarrow> string option \<Rightarrow> bool" where
  "replay_ok dispatchState externalEffects replaySafety \<longleftrightarrow>
     (case replaySafety of None \<Rightarrow> True
      | Some r \<Rightarrow> r \<in> set [''none'', ''pre_dispatch'', ''safe_read'', ''idempotency_receipt'']) \<and>
     \<not> (replaySafety = Some ''pre_dispatch'' \<and>
          (dispatchState \<noteq> ''not_started'' \<or> externalEffects \<noteq> ''none'')) \<and>
     \<not> (replaySafety = Some ''safe_read'' \<and>
          (dispatchState \<noteq> ''started'' \<or> externalEffects \<noteq> ''none'')) \<and>
     \<not> (replaySafety = Some ''idempotency_receipt'' \<and>
          (dispatchState \<noteq> ''started'' \<or> externalEffects = ''unknown'')) \<and>
     \<not> (externalEffects = ''unknown'' \<and> replaySafety \<noteq> None \<and> replaySafety \<noteq> Some ''none'') \<and>
     \<not> (dispatchState = ''not_started'' \<and> externalEffects \<noteq> ''none'')"

definition failure_ok :: "string \<Rightarrow> jval \<Rightarrow> bool" where
  "failure_ok status failure \<longleftrightarrow>
     (if status = ''success'' then nullish failure
      else case failure of
          JObj f \<Rightarrow> exactKeys f [''kind'', ''detailCode''] \<and> isToolFailureKind (fld f ''kind'') \<and>
            isToolOutcomeDetailCode (fld f ''detailCode'')
        | _ \<Rightarrow> False)"

definition is_bool :: "jval \<Rightarrow> bool" where
  "is_bool v = (case v of JBool b \<Rightarrow> True | _ \<Rightarrow> False)"

definition recovery_shape_ok :: "js_host \<Rightarrow> jobj \<Rightarrow> bool res" where
  "recovery_shape_ok h r = all_of
    [Inr (exactKeys r [''disposition'', ''maximumAdditionalCalls'', ''requiresNewModelResponse'',
       ''safeAutomaticRetry'', ''retryAfterMs'', ''capabilityIntent'']),
     spelled h [''never'', ''correct_args'', ''retry_once'', ''alternative'', ''user_action''] (fld r ''disposition''),
     Inr ((fld r ''maximumAdditionalCalls'' = JNum 0 \<or> fld r ''maximumAdditionalCalls'' = JNum 1) \<and>
       is_bool (fld r ''requiresNewModelResponse'') \<and> is_bool (fld r ''safeAutomaticRetry'') \<and>
       (nullish (fld r ''retryAfterMs'') \<or> finiteDuration (fld r ''retryAfterMs'') \<noteq> None) \<and>
       (nullish (fld r ''capabilityIntent'') \<or>
         (case fld r ''capabilityIntent'' of JStr s \<Rightarrow> is_capability_intent s | _ \<Rightarrow> False)))]"

text \<open>One row of the recovery matrix: calls, new response, automatic retry, no delay.\<close>

definition matrix_row :: "jobj \<Rightarrow> rat \<Rightarrow> bool \<Rightarrow> bool" where
  "matrix_row r calls response \<longleftrightarrow>
     fld r ''maximumAdditionalCalls'' = JNum calls \<and>
     fld r ''requiresNewModelResponse'' = JBool response \<and>
     fld r ''safeAutomaticRetry'' = JBool False \<and> nullish (fld r ''retryAfterMs'')"

definition recovery_matrix_ok :: "string \<Rightarrow> string \<Rightarrow> string option \<Rightarrow> jobj \<Rightarrow> bool" where
  "recovery_matrix_ok dispatchState externalEffects replaySafety r =
     (let d = fld r ''disposition'' in
      if d = JStr ''never'' then matrix_row r 0 False
      else if d = JStr ''correct_args'' then matrix_row r 1 True
      else if d = JStr ''retry_once'' then
        fld r ''maximumAdditionalCalls'' = JNum 1 \<and>
        fld r ''requiresNewModelResponse'' = JBool False \<and>
        fld r ''safeAutomaticRetry'' = JBool True \<and>
        (dispatchState = ''not_started'' \<and> externalEffects = ''none'' \<or>
         dispatchState = ''started'' \<and> externalEffects \<noteq> ''unknown'' \<and>
           (replaySafety = Some ''safe_read'' \<or> replaySafety = Some ''idempotency_receipt''))
      else if d = JStr ''alternative'' then matrix_row r 1 True
      else if d = JStr ''user_action'' then matrix_row r 0 False
      else False)"

definition status_recovery_ok :: "string \<Rightarrow> jobj \<Rightarrow> bool" where
  "status_recovery_ok status r \<longleftrightarrow>
     \<not> (status = ''success'' \<and> fld r ''disposition'' \<noteq> JStr ''never'') \<and>
     \<not> (status = ''rejected'' \<and> fld r ''disposition'' = JStr ''retry_once'') \<and>
     \<not> (status \<in> set [''cancelled'', ''timed_out'', ''exhausted'', ''unknown''] \<and>
          fld r ''disposition'' \<noteq> JStr ''never'')"

definition DENIAL_KINDS :: "string list" where
  "DENIAL_KINDS = [''policy_denied'', ''mandatory_policy_unavailable'', ''approval_rejected'',
     ''auto_review_rejected'']"

definition kind_recovery_ok :: "string \<Rightarrow> jval \<Rightarrow> jobj \<Rightarrow> bool" where
  "kind_recovery_ok status failure r =
     (if status \<noteq> ''success'' \<and> status \<noteq> ''unknown'' then
        (case failure of JObj f \<Rightarrow>
           (let kind = or_default (stringField f ''kind'') [];
                detailCode = or_default (stringField f ''detailCode'') [];
                recoveryDetail =
                  detailCode \<in> set [''recovery_not_allowed'', ''recovery_exhausted'', ''no_progress''];
                authoritative = rc_disposition (baseRecovery (classifyRuntimeFailure kind ''redacted'' None));
                d = fld r ''disposition'' in
            (detailCode \<in> set (details_of kind) \<or> status = ''exhausted'' \<and> recoveryDetail) \<and>
            \<not> (kind \<in> set DENIAL_KINDS \<and> d \<noteq> JStr ''never'') \<and>
            (d = JStr ''never'' \<or> d = JStr (disposition_string authoritative) \<or>
             authoritative = CorrectArgs \<and> d = JStr ''alternative''))
         | _ \<Rightarrow> True)
      else True)"

definition num_or_zero :: "jval \<Rightarrow> rat" where
  "num_or_zero v = (case v of JNum r \<Rightarrow> r | _ \<Rightarrow> 0)"

definition timing_ok :: "js_host \<Rightarrow> jobj \<Rightarrow> bool res" where
  "timing_ok h t = all_of
    [Inr (exactKeys t (''source'' # TIMING_KEYS)),
     spelled h [''runtime_boundary'', ''legacy_unknown''] (fld t ''source''),
     Inr (list_all (\<lambda>key. nullish (fld t key) \<or> finiteDuration (fld t key) \<noteq> None) TIMING_KEYS \<and>
       \<not> (fld t ''source'' = JStr ''legacy_unknown'' \<and>
            \<not> list_all (\<lambda>key. nullish (fld t key)) TIMING_KEYS) \<and>
       (nullish (fld t ''totalActiveMs'') \<or>
         list_all (\<lambda>key. num_or_zero (fld t key) \<le> num_or_zero (fld t ''totalActiveMs''))
           [''queueMs'', ''executionMs'', ''approvalWaitMs'']))]"

definition lineage_ok :: "jval \<Rightarrow> bool" where
  "lineage_ok v \<longleftrightarrow>
     nullish v \<or>
     (case v of JObj l \<Rightarrow> exactKeys l [''failureInstanceId'', ''recoveryOf''] \<and>
        list_all (\<lambda>identity. case identity of JStr s \<Rightarrow> is_sha256_hex s | _ \<Rightarrow> False) (obj_values l)
      | _ \<Rightarrow> False)"

definition is_revision_char :: "char \<Rightarrow> bool" where
  "is_revision_char c \<longleftrightarrow>
     c \<in> set ''ABCDEFGHIJKLMNOPQRSTUVWXYZ'' \<or> is_intent_char c"

definition TOOL_CLASSES :: "string list" where
  "TOOL_CLASSES = [''builtin_read'', ''builtin_write'', ''builtin_execute'', ''builtin_other'', ''mcp_tool'']"

definition unknown_fields_ok :: "js_host \<Rightarrow> jval \<Rightarrow> bool res" where
  "unknown_fields_ok h v =
     (if nullish v then Inr True
      else case v of
        JObj u \<Rightarrow> all_of
          [Inr (exactKeys u [''hasUnknown'', ''count'', ''toolClass'', ''schemaRevision''] \<and>
             is_bool (fld u ''hasUnknown'') \<and>
             is_integer (fld u ''count'') \<and> 0 \<le> int_of (fld u ''count'') \<and> int_of (fld u ''count'') \<le> 255),
           spelled h TOOL_CLASSES (fld u ''toolClass''),
           Inr ((case fld u ''schemaRevision'' of
               JStr s \<Rightarrow> s \<noteq> [] \<and> length s \<le> 64 \<and> list_all is_revision_char s | _ \<Rightarrow> False) \<and>
             fld u ''hasUnknown'' = JBool (int_of (fld u ''count'') > 0))]
      | _ \<Rightarrow> Inr False)"

definition diagnostics_ok :: "js_host \<Rightarrow> string \<Rightarrow> jval \<Rightarrow> jval \<Rightarrow> bool res" where
  "diagnostics_ok h status failure codes = all_of
    [(if nullish codes then Inr True
      else case codes of
        JArr cs \<Rightarrow> if length cs = 1 then all_of (map (spelled h CLASSIFIER_DIAGNOSTICS) cs) else Inr False
      | _ \<Rightarrow> Inr False),
     (if status = ''unknown'' then
        (case failure of JObj f \<Rightarrow> all_of
           [Inr (fld f ''kind'' = JStr ''unknown''), spelled h CLASSIFIER_DIAGNOSTICS (fld f ''detailCode''),
            Inr ((case codes of JArr (c # cs) \<Rightarrow> c | _ \<Rightarrow> JUndef) = fld f ''detailCode'')]
         | _ \<Rightarrow> Inr False)
      else Inr (nullish codes))]"

definition recovery_ok :: "js_host \<Rightarrow> string \<Rightarrow> string \<Rightarrow> string \<Rightarrow> string option \<Rightarrow> jval \<Rightarrow> jval \<Rightarrow> bool res" where
  "recovery_ok h status dispatchState externalEffects replaySafety failure recovery =
     (case recovery of
        JObj r \<Rightarrow> all_of
          [recovery_shape_ok h r,
           Inr (recovery_matrix_ok dispatchState externalEffects replaySafety r \<and>
             status_recovery_ok status r \<and> kind_recovery_ok status failure r)]
      | _ \<Rightarrow> Inr False)"

text \<open>What is checked once the envelope has been: the arguments are the texts of its fields.\<close>

definition contents_ok :: "js_host \<Rightarrow> string \<Rightarrow> string \<Rightarrow> string \<Rightarrow> string option \<Rightarrow> jobj \<Rightarrow> bool res" where
  "contents_ok h status dispatchState externalEffects replaySafety value = all_of
    [Inr (replay_ok dispatchState externalEffects replaySafety),
     Inr (failure_ok status (fld value ''failure'')),
     recovery_ok h status dispatchState externalEffects replaySafety (fld value ''failure'') (fld value ''recovery''),
     (case fld value ''timing'' of JObj timing \<Rightarrow> timing_ok h timing | _ \<Rightarrow> Inr False),
     Inr (lineage_ok (fld value ''lineage'')),
     unknown_fields_ok h (fld value ''unknownFields''),
     diagnostics_ok h status (fld value ''failure'') (fld value ''diagnosticCodes'')]"

definition isToolOutcome :: "js_host \<Rightarrow> jval \<Rightarrow> bool res" where
  "isToolOutcome h v =
     (case v of
        JObj value \<Rightarrow> all_of
          [envelope_ok h value,
           bind_res (optional_String h (fld value ''replaySafety'')) (\<lambda>replaySafety.
             contents_ok h (js_String h (fld value ''status'')) (js_String h (fld value ''dispatchState''))
               (js_String h (fld value ''externalEffects'')) replaySafety value)]
      | _ \<Rightarrow> Inr False)"

section \<open>Normalising terminal events\<close>

definition suppliedFailure :: "jobj option \<Rightarrow> classified_failure option" where
  "suppliedFailure value =
     (let v = or_default value [] in
      case stringField v ''kind'' of None \<Rightarrow> None
      | Some kind \<Rightarrow>
          if kind \<notin> set FAILURE_KINDS then None
          else let s = strategy_of kind;
                   code = stringField v ''parseFailureCode'' in
            Some (failure_with
              (strategy (or_default (booleanField v ''retryable'') (fs_retryable s))
                 (or_default (booleanField v ''modelFixable'') (fs_modelFixable s))
                 (or_default (booleanField v ''needsUserIntervention'') (fs_needsUserIntervention s))
                 (or_default (booleanField v ''terminatesTurn'') (fs_terminatesTurn s))
                 (or_default (booleanField v ''journal'') (fs_journal s)))
              kind (or_default (stringField v ''message'') ''Runtime failure.'')
              (if isToolParseFailureCode code then code else None)))"

definition finished_failure :: "jobj \<Rightarrow> classified_failure option" where
  "finished_failure payload =
     (let result = sub_record payload ''result'';
          reason = stringField result ''terminationReason'' in
      if reason = Some ''timed_out''
      then Some (classifyRuntimeFailure ''tool_timeout'' ''Tool execution exceeded its Runtime deadline.'' None)
      else if reason = Some ''cancelled''
      then Some (classifyRuntimeFailure ''user_input_cancelled'' ''Tool execution was cancelled.'' None)
      else if reason = Some ''sandbox_denied''
      then Some (classifyRuntimeFailure ''sandbox_error'' ''Sandbox denied tool execution.'' None)
      else if fld result ''ok'' = JBool False
      then Some (classifyRuntimeFailure ''tool_runtime_error'' ''Tool returned a failed result.'' None)
      else None)"

definition failureFor :: "kernel_event \<Rightarrow> classified_failure option" where
  "failureFor e =
     (let payload = ev_data e;
          reason = stringField payload ''reason'' in
      case suppliedFailure (recordField payload ''failure'') of Some f \<Rightarrow> Some f
      | None \<Rightarrow>
          if ev_type e = ''tool.finished'' then finished_failure payload
          else if ev_type e = ''tool.rejected''
          then Some (classifyRuntimeFailure ''policy_denied'' (or_default reason ''Tool was rejected.'') None)
          else if ev_type e = ''tool.cancelled''
          then Some (classifyRuntimeFailure ''user_input_cancelled''
            (or_default reason ''Tool execution was cancelled.'') None)
          else if ev_type e = ''approval.rejected''
          then Some (classifyRuntimeFailure ''approval_rejected''
            (or_default reason ''Approval was rejected.'') None)
          else if ev_type e = ''auto_review.completed''
          then Some (classifyRuntimeFailure ''auto_review_rejected'' ''Auto-review rejected the tool.'' None)
          else Some (classifyRuntimeFailure ''unknown'' ''Runtime failure.'' None))"

text \<open>\<open>stableStringify\<close> of normalization.ts; \<open>None\<close> is the value \<open>undefined\<close>, which a template
  prints and \<open>join\<close> leaves out.\<close>

fun outcome_stringify :: "js_host \<Rightarrow> jval \<Rightarrow> string option"
  and outcome_stringify_elements :: "js_host \<Rightarrow> jval list \<Rightarrow> string list"
  and outcome_stringify_entries :: "js_host \<Rightarrow> (string \<times> jval) list \<Rightarrow> (string \<times> string) list" where
  "outcome_stringify h (JArr vs) = Some (''['' @ join_with '','' (outcome_stringify_elements h vs) @ '']'')"
| "outcome_stringify h (JObj o') =
     Some (''{'' @ join_with '',''
       (map (\<lambda>(key, child). json_string key @ '':'' @ child)
         (sort_by (\<lambda>a b. locale_le h (fst a) (fst b)) (outcome_stringify_entries h o'))) @ ''}'')"
| "outcome_stringify h v = json_stringify h v"
| "outcome_stringify_elements h [] = []"
| "outcome_stringify_elements h (v # vs) =
     or_default (outcome_stringify h v) [] # outcome_stringify_elements h vs"
| "outcome_stringify_entries h [] = []"
| "outcome_stringify_entries h ((k, v) # o') =
     (k, or_default (outcome_stringify h v) ''undefined'') # outcome_stringify_entries h o'"

definition digestFailureIdentity :: "js_host \<Rightarrow> string \<Rightarrow> string \<Rightarrow> tool_outcome \<Rightarrow> string" where
  "digestFailureIdentity h toolCallId fingerprint outcome =
     sha256Hex (or_default (outcome_stringify h (JObj
       [(''toolCallId'', JStr toolCallId), (''invocationFingerprint'', JStr fingerprint),
        (''status'', JStr (outcome_status_string (oc_status outcome))),
        (''detailCode'', JStr (or_default (oc_detailCode outcome) ''success''))])) [])"

definition terminal_outcome_status :: "kernel_event \<Rightarrow> classified_failure option \<Rightarrow> outcome_status" where
  "terminal_outcome_status e failure =
     (let result = sub_record (ev_data e) ''result'';
          reason = stringField result ''terminationReason'';
          kind = map_option cf_kind failure in
      if ev_type e = ''tool.finished'' then
        (if reason = Some ''timed_out'' then OutTimedOut
         else if reason = Some ''cancelled'' then OutCancelled
         else if stringField result ''status'' = Some ''exhausted'' then OutExhausted
         else if fld result ''ok'' = JBool True then OutSuccess else OutFailed)
      else if ev_type e = ''tool.rejected'' then OutRejected
      else if ev_type e = ''tool.cancelled'' then OutCancelled
      else if kind = Some ''tool_timeout'' \<or> kind = Some ''user_input_timeout'' then OutTimedOut
      else if kind = Some ''loop_exhausted'' \<or> kind = Some ''budget_exceeded'' then OutExhausted
      else OutFailed)"

definition dispatch_state_of :: "tool_call option \<Rightarrow> bool \<Rightarrow> string" where
  "dispatch_state_of call previouslyStarted =
     (let status = map_option tc_status call in
      if status = Some TQueued \<or>
        (status = Some TApproved \<or> status = Some TAuthorizedQueued) \<and> \<not> previouslyStarted
      then ''not_started''
      else if status = Some TRunning \<or> previouslyStarted then ''started'' else ''unknown'')"

definition external_effects_of :: "kernel_event \<Rightarrow> tool_call option \<Rightarrow> string \<Rightarrow> known_effects" where
  "external_effects_of e call dispatchState =
     (let result = sub_record (ev_data e) ''result'' in
      if dispatchState = ''not_started'' then EffNone
      else if ev_type e \<in> {''tool.rejected'', ''tool.cancelled'', ''tool.failed''}
      then (if dispatchState = ''started'' then EffUnknown else EffNone)
      else if (case call of Some c \<Rightarrow> tc_sideEffect c = Some True | None \<Rightarrow> False)
      then (if fld (sub_record result ''resultMeta'') ''processCleanupConfirmed'' = JBool False then EffUnknown
            else if fld result ''ok'' = JBool True then EffKnown else EffUnknown)
      else EffNone)"

definition replay_safety_of :: "tool_call option \<Rightarrow> string \<Rightarrow> known_effects \<Rightarrow> string" where
  "replay_safety_of call dispatchState externalEffects =
     (if dispatchState = ''not_started'' \<and> externalEffects = EffNone then ''pre_dispatch''
      else if dispatchState = ''started'' \<and>
        (case call of Some c \<Rightarrow> tc_effectClass c = Some ReadOnly | None \<Rightarrow> False) \<and>
        externalEffects \<noteq> EffUnknown then ''safe_read''
      else ''none'')"

definition recovery_blocked :: "tool_call option \<Rightarrow> string option" where
  "recovery_blocked call =
     (case call of None \<Rightarrow> None
      | Some c \<Rightarrow> (case tc_recoveryAdmission c of None \<Rightarrow> None
          | Some a \<Rightarrow> if a = ''admitted'' then None else Some a))"

definition terminal_advice :: "kernel_event \<Rightarrow> tool_call option \<Rightarrow> jobj option" where
  "terminal_advice e call =
     (case recovery_blocked call of
        Some a \<Rightarrow> Some [(''detailCode'', JStr a), (''disposition'', JStr ''never''),
          (''maximumAdditionalCalls'', JNum 0), (''safeAutomaticRetry'', JBool False)]
      | None \<Rightarrow>
          if ev_type e = ''tool.finished'' \<and> fld (sub_record (ev_data e) ''result'') ''ok'' = JBool False
          then recordField (ev_data e) ''classifierAdvice'' else None)"

definition terminal_diagnostic ::
  "kernel_event \<Rightarrow> tool_call option \<Rightarrow> outcome_status \<Rightarrow> classified_failure option \<Rightarrow> string option" where
  "terminal_diagnostic e call status failure =
     (if ev_type e = ''tool.finished'' \<and> status = OutFailed \<and>
        map_option cf_kind failure = Some ''tool_runtime_error'' \<and> recovery_blocked call = None
      then else_string (stringField (ev_data e) ''classifierDiagnostic'')
        (if terminal_advice e call = None then Some ''classifier_missing'' else None)
      else None)"

definition call_field :: "tool_call option \<Rightarrow> (tool_call \<Rightarrow> 'a option) \<Rightarrow> 'a option" where
  "call_field call f = (case call of None \<Rightarrow> None | Some c \<Rightarrow> f c)"

definition duration_rat :: "string option \<Rightarrow> string \<Rightarrow> rat option" where
  "duration_rat start finish = map_option of_int (durationBetween start finish)"

definition terminal_timing :: "tool_call option \<Rightarrow> string \<Rightarrow> timing_input" where
  "terminal_timing call createdAt =
     \<lparr>tm_queueMs = duration_rat (call_field call tc_queuedAt)
        (or_default (call_field call tc_startedAt) createdAt),
      tm_executionMs = duration_rat (call_field call tc_startedAt) createdAt,
      tm_approvalWaitMs = call_field call tc_approvalWaitMs,
      tm_totalActiveMs = duration_rat (call_field call tc_queuedAt) createdAt\<rparr>"

definition terminal_input :: "kernel_event \<Rightarrow> agent_state \<Rightarrow> string \<Rightarrow> classification_input" where
  "terminal_input e s occurredAt =
     (let payload = ev_data e;
          toolCallId = or_default (stringField payload ''toolCallId'') [];
          call = map_of (to_calls (st_tools s)) toolCallId;
          failure = failureFor e;
          kind = map_option cf_kind failure;
          status = terminal_outcome_status e failure;
          createdAt = or_default (stringField payload ''createdAt'') occurredAt;
          previouslyStarted = (call_field call tc_startedAt \<noteq> None \<or> toolCallId \<in> set (to_active (st_tools s)));
          dispatchState = dispatch_state_of call previouslyStarted;
          externalEffects = external_effects_of e call dispatchState in
      \<lparr>ki_status = status, ki_failure = (if status = OutSuccess then None else failure),
       ki_authority = \<lparr>au_dispatchState = dispatchState, au_externalEffects = externalEffects,
         au_replaySafety = Some (replay_safety_of call dispatchState externalEffects),
         au_policyDenied = (kind = Some ''policy_denied'' \<or> kind = Some ''mandatory_policy_unavailable''),
         au_approvalDenied = (kind = Some ''approval_rejected'' \<or> kind = Some ''auto_review_rejected'')\<rparr>,
       ki_toolAdvice = terminal_advice e call,
       ki_recoveryOf = truthy_option (call_field call tc_recoveryOf),
       ki_timing = Some (terminal_timing call createdAt),
       ki_unknownFields = call_field call tc_unknownFields,
       ki_classifierDiagnostic = terminal_diagnostic e call status failure\<rparr>)"

definition with_lineage :: "js_host \<Rightarrow> string \<Rightarrow> string option \<Rightarrow> tool_outcome \<Rightarrow> jobj" where
  "with_lineage h toolCallId fingerprint outcome =
     (case truthy_option fingerprint of None \<Rightarrow> outcome_json outcome
      | Some fp \<Rightarrow>
          let json = outcome_json outcome in
          obj_set ''lineage'' (JObj (obj_set ''failureInstanceId''
            (JStr (digestFailureIdentity h toolCallId fp outcome)) (sub_record json ''lineage''))) json)"

text \<open>\<open>supplied ?? failureFor(event)\<close> is \<open>failureFor(event)\<close>, which starts with \<open>supplied\<close>.\<close>

definition normalizeToolTerminalEvent :: "js_host \<Rightarrow> kernel_event \<Rightarrow> agent_state \<Rightarrow> string \<Rightarrow> kernel_event" where
  "normalizeToolTerminalEvent h e s occurredAt =
     (let payload = ev_data e;
          toolCallId = or_default (stringField payload ''toolCallId'') [];
          call = map_of (to_calls (st_tools s)) toolCallId;
          input = terminal_input e s occurredAt;
          outcome = classifyToolOutcome h input;
          json = (if ki_status input \<noteq> OutSuccess
            then with_lineage h toolCallId (call_field call tc_invocationFingerprint) outcome
            else outcome_json outcome);
          createdAt = or_default (stringField payload ''createdAt'') occurredAt;
          d1 = obj_set ''createdAt'' (JStr createdAt) payload;
          d2 = (case call_field call tc_presentation of None \<Rightarrow> d1
                | Some p \<Rightarrow> obj_set ''presentation'' (JStr p) d1) in
      e\<lparr>ev_data := obj_set ''outcome'' (JObj json) d2\<rparr>)"

definition denied_authority :: tool_authority where
  "denied_authority = \<lparr>au_dispatchState = ''not_started'', au_externalEffects = EffNone,
     au_replaySafety = Some ''pre_dispatch'', au_policyDenied = False, au_approvalDenied = True\<rparr>"

definition event_call :: "kernel_event \<Rightarrow> agent_state \<Rightarrow> tool_call option" where
  "event_call e s =
     (case truthy_option (stringField (ev_data e) ''toolCallId'') of None \<Rightarrow> None
      | Some i \<Rightarrow> map_of (to_calls (st_tools s)) i)"

definition denied_input ::
  "classified_failure option \<Rightarrow> timing_input \<Rightarrow> tool_call option \<Rightarrow> classification_input" where
  "denied_input failure timing call =
     \<lparr>ki_status = OutRejected, ki_failure = failure, ki_authority = denied_authority,
      ki_toolAdvice = None, ki_recoveryOf = None, ki_timing = Some timing,
      ki_unknownFields = call_field call tc_unknownFields, ki_classifierDiagnostic = None\<rparr>"

definition rejected_input :: "kernel_event \<Rightarrow> agent_state \<Rightarrow> string \<Rightarrow> classification_input" where
  "rejected_input e s createdAt =
     (let payload = ev_data e; call = event_call e s;
          total = duration_rat (call_field call tc_queuedAt) createdAt in
      denied_input
        (Some (or_default (suppliedFailure (recordField payload ''failure''))
          (classifyRuntimeFailure ''approval_rejected''
            (or_default (stringField payload ''reason'') ''Approval was rejected.'') None)))
        \<lparr>tm_queueMs = total, tm_executionMs = None,
         tm_approvalWaitMs = duration_rat (call_field call tc_approvalRequestedAt) createdAt,
         tm_totalActiveMs = total\<rparr> call)"

definition with_outcome :: "kernel_event \<Rightarrow> string \<Rightarrow> tool_outcome \<Rightarrow> kernel_event" where
  "with_outcome e createdAt outcome =
     e\<lparr>ev_data := obj_set ''outcome'' (JObj (outcome_json outcome))
        (obj_set ''createdAt'' (JStr createdAt) (ev_data e))\<rparr>"

definition normalizeApprovalRejected :: "js_host \<Rightarrow> kernel_event \<Rightarrow> agent_state \<Rightarrow> string \<Rightarrow> kernel_event" where
  "normalizeApprovalRejected h e s occurredAt =
     (let createdAt = or_default (stringField (ev_data e) ''createdAt'') occurredAt in
      with_outcome e createdAt (classifyToolOutcome h (rejected_input e s createdAt)))"

definition reviewed_input :: "kernel_event \<Rightarrow> agent_state \<Rightarrow> string \<Rightarrow> classification_input" where
  "reviewed_input e s createdAt =
     (let call = event_call e s;
          queueMs = duration_rat (call_field call tc_queuedAt) createdAt;
          approvalWaitMs = finiteDuration (fld (sub_record (ev_data e) ''result'') ''durationMs'') in
      denied_input
        (Some (classifyRuntimeFailure ''auto_review_rejected'' ''Auto-review rejected the tool.'' None))
        \<lparr>tm_queueMs = queueMs, tm_executionMs = None, tm_approvalWaitMs = approvalWaitMs,
         tm_totalActiveMs = Some (max (or_default queueMs 0) (or_default approvalWaitMs 0))\<rparr> call)"

text \<open>An auto-review settles its tool when it succeeded and neither approved nor escalated.\<close>

definition review_rejects :: "jobj \<Rightarrow> bool" where
  "review_rejects payload \<longleftrightarrow>
     (case recordField payload ''result'' of None \<Rightarrow> False
      | Some r \<Rightarrow> fld r ''ok'' = JBool True \<and> fld r ''approved'' \<noteq> JBool True \<and>
          fld r ''escalatedToUser'' \<noteq> JBool True)"

definition normalizeAutoReviewCompleted :: "js_host \<Rightarrow> kernel_event \<Rightarrow> agent_state \<Rightarrow> string \<Rightarrow> kernel_event" where
  "normalizeAutoReviewCompleted h e s occurredAt =
     (if \<not> review_rejects (ev_data e) then e\<lparr>ev_data := obj_delete ''outcome'' (ev_data e)\<rparr>
      else let createdAt = or_default (stringField (ev_data e) ''createdAt'') occurredAt in
        with_outcome e createdAt (classifyToolOutcome h (reviewed_input e s createdAt)))"

definition TOOL_TERMINAL_EVENTS :: "string list" where
  "TOOL_TERMINAL_EVENTS = [''tool.finished'', ''tool.failed'', ''tool.rejected'', ''tool.cancelled'']"

definition normalizeAgentToolOutcomeEvent :: "js_host \<Rightarrow> kernel_event \<Rightarrow> agent_state \<Rightarrow> string \<Rightarrow> kernel_event" where
  "normalizeAgentToolOutcomeEvent h e s occurredAt =
     (if ev_type e \<in> set TOOL_TERMINAL_EVENTS then normalizeToolTerminalEvent h e s occurredAt
      else if ev_type e = ''approval.rejected'' then normalizeApprovalRejected h e s occurredAt
      else if ev_type e = ''auto_review.completed'' then normalizeAutoReviewCompleted h e s occurredAt
      else e)"

definition assertCanonicalOutcome :: "js_host \<Rightarrow> jval \<Rightarrow> string \<Rightarrow> unit res" where
  "assertCanonicalOutcome h v eventType =
     bind_res (isToolOutcome h v) (\<lambda>valid.
       if valid then ok else throw (eventType @ '' has invalid canonical ToolOutcome.''))"

definition assertCanonicalToolOutcomeEvent :: "js_host \<Rightarrow> kernel_event \<Rightarrow> unit res" where
  "assertCanonicalToolOutcomeEvent h e =
     (if ev_type e \<in> set (TOOL_TERMINAL_EVENTS @ [''tool.retry_recorded'', ''approval.rejected''])
      then assertCanonicalOutcome h (fld (ev_data e) ''outcome'') (ev_type e)
      else if ev_type e = ''auto_review.completed'' then
        (if review_rejects (ev_data e)
         then assertCanonicalOutcome h (fld (ev_data e) ''outcome'') (ev_type e)
         else if ''outcome'' \<in> set (obj_keys (ev_data e))
         then throw ''Non-terminal auto_review.completed cannot carry ToolOutcome.''
         else ok)
      else ok)"

section \<open>Normalising run events\<close>

definition failure_json :: "classified_failure \<Rightarrow> jobj" where
  "failure_json f =
     [(''kind'', JStr (cf_kind f)), (''message'', JStr (cf_message f)),
      (''retryable'', JBool (fs_retryable f)), (''modelFixable'', JBool (fs_modelFixable f)),
      (''needsUserIntervention'', JBool (fs_needsUserIntervention f)),
      (''terminatesTurn'', JBool (fs_terminatesTurn f)), (''journal'', JBool (fs_journal f))]
     @ optional_string ''parseFailureCode'' (cf_parseFailureCode f)"

definition run_outcome :: "string \<Rightarrow> string \<Rightarrow> string \<Rightarrow> bool \<Rightarrow> string \<Rightarrow> jobj" where
  "run_outcome status reasonCode effects safeRetry entry =
     [(''version'', JNum 1), (''status'', JStr status), (''reasonCode'', JStr reasonCode),
      (''knownExternalEffects'', JStr effects), (''safeRetry'', JBool safeRetry),
      (''recoveryEntry'', JStr entry), (''pendingVerification'', JBool False)]"

definition error_outcome :: "classified_failure \<Rightarrow> jobj" where
  "error_outcome failure =
     (let reasonCode = terminalReasonForRuntimeFailure (cf_kind failure);
          unknown = (cf_kind failure = ''unknown'') in
      run_outcome
        (if reasonCode = ''budget_exhausted'' \<or> reasonCode = ''resource_saturated'' then reasonCode
         else if unknown then ''unknown''
         else if fs_needsUserIntervention failure then ''blocked'' else ''aborted'')
        reasonCode (if unknown then ''unknown'' else ''known'')
        (fs_retryable failure \<and> \<not> unknown)
        (if unknown then ''reconcile'' else if fs_retryable failure then ''retry''
         else if fs_needsUserIntervention failure then ''operator_action'' else ''new_run''))"

definition normalizeTerminalAgentEvent :: "kernel_event \<Rightarrow> kernel_event" where
  "normalizeTerminalAgentEvent e =
     (let payload = ev_data e in
      if ''outcome'' \<in> set (obj_keys payload) then e
      else if ev_type e = ''run.completed''
      then e\<lparr>ev_data := obj_set ''outcome''
        (JObj (run_outcome ''completed'' ''completed'' ''known'' False ''none'')) payload\<rparr>
      else if ev_type e = ''run.error''
      then let failure = or_default (failureFor e) (classifyRuntimeFailure ''unknown'' ''Runtime failure.'' None);
               shown = (case recordField payload ''failure'' of Some f \<Rightarrow> f
                 | None \<Rightarrow> failure_json (failure\<lparr>cf_message :=
                     or_default (stringField payload ''message'') (cf_message failure)\<rparr>)) in
        e\<lparr>ev_data := obj_set ''outcome'' (JObj (error_outcome failure))
          (obj_set ''failure'' (JObj shown) payload)\<rparr>
      else e)"

definition normalizeAgentEvent :: "js_host \<Rightarrow> kernel_event \<Rightarrow> agent_state \<Rightarrow> string \<Rightarrow> kernel_event" where
  "normalizeAgentEvent h e s occurredAt =
     normalizeAgentToolOutcomeEvent h (normalizeTerminalAgentEvent e) s occurredAt"

section \<open>Outcomes the validator cannot read\<close>

text \<open>The values of an outcome whose text is asked for, and what the validator does when one has none.\<close>

definition outcome_texts :: "jval \<Rightarrow> jval list" where
  "outcome_texts v =
     [vfld v ''status'', vfld v ''dispatchState'', vfld v ''externalEffects'', vfld v ''replaySafety'',
      vfld (vfld v ''recovery'') ''disposition'', vfld (vfld v ''timing'') ''source'',
      vfld (vfld v ''unknownFields'') ''toolClass'', vfld (vfld v ''failure'') ''detailCode''] @
     (case vfld v ''diagnosticCodes'' of JArr cs \<Rightarrow> cs | _ \<Rightarrow> [])"

lemma outcome_part_throws:
  "envelope_ok h o' = Inl e \<Longrightarrow> e = conversion_error \<and>
     list_ex string_throws [fld o' ''status'', fld o' ''dispatchState'', fld o' ''externalEffects'']"
  "optional_String h v = Inl e \<Longrightarrow> e = conversion_error \<and> string_throws v"
  "recovery_ok h st d x r f v = Inl e \<Longrightarrow> e = conversion_error \<and> string_throws (vfld v ''disposition'')"
  "timing_ok h o' = Inl e \<Longrightarrow> e = conversion_error \<and> string_throws (fld o' ''source'')"
  "unknown_fields_ok h v = Inl e \<Longrightarrow> e = conversion_error \<and> string_throws (vfld v ''toolClass'')"
proof -
  show "envelope_ok h o' = Inl e \<Longrightarrow> e = conversion_error \<and>
     list_ex string_throws [fld o' ''status'', fld o' ''dispatchState'', fld o' ''externalEffects'']"
    by (auto simp: envelope_ok_def spelled_throws dest!: all_of_throws)
  show "optional_String h v = Inl e \<Longrightarrow> e = conversion_error \<and> string_throws v"
    by (auto simp: optional_String_def to_string_def split: if_splits)
  show "recovery_ok h st d x r f v = Inl e \<Longrightarrow> e = conversion_error \<and> string_throws (vfld v ''disposition'')"
    by (cases v) (auto simp: recovery_ok_def recovery_shape_ok_def spelled_throws dest!: all_of_throws)
  show "timing_ok h o' = Inl e \<Longrightarrow> e = conversion_error \<and> string_throws (fld o' ''source'')"
    by (auto simp: timing_ok_def spelled_throws dest!: all_of_throws)
  show "unknown_fields_ok h v = Inl e \<Longrightarrow> e = conversion_error \<and> string_throws (vfld v ''toolClass'')"
    by (cases v) (auto simp: unknown_fields_ok_def spelled_throws split: if_splits dest!: all_of_throws)
qed

lemma diagnostics_ok_throws:
  assumes "diagnostics_ok h st failure codes = Inl e"
  shows "e = conversion_error \<and>
    list_ex string_throws (vfld failure ''detailCode'' # (case codes of JArr cs \<Rightarrow> cs | _ \<Rightarrow> []))"
proof -
  have words: "e = conversion_error \<and> list_ex string_throws cs"
    if "all_of (map (spelled h CLASSIFIER_DIAGNOSTICS) cs) = Inl e" for cs
    using all_of_throws [OF that] by (simp add: list_ex_iff image_iff) (metis spelled_throws)
  have word: "e = conversion_error \<and> string_throws v"
    if "all_of [Inr a, spelled h CLASSIFIER_DIAGNOSTICS v, Inr b] = Inl e" for a b v
    using all_of_throws [OF that] by (simp add: spelled_throws)
  let ?codes = "if nullish codes then Inr True
      else case codes of
        JArr cs \<Rightarrow> if length cs = 1 then all_of (map (spelled h CLASSIFIER_DIAGNOSTICS) cs) else Inr False
      | _ \<Rightarrow> Inr False"
  show ?thesis
  proof (cases "?codes = Inl e")
    case True
    then show ?thesis by (cases codes) (auto split: if_splits dest!: words)
  next
    case False
    then show ?thesis
      using all_of_throws [OF assms [unfolded diagnostics_ok_def]]
      by (cases failure) (auto split: if_splits dest!: word)
  qed
qed

lemma isToolOutcome_throws:
  assumes "isToolOutcome h v = Inl e"
  shows "e = conversion_error \<and> list_ex string_throws (outcome_texts v)"
proof -
  from assms obtain o' where v: "v = JObj o'" by (cases v) (simp_all add: isToolOutcome_def)
  let ?st = "js_String h (fld o' ''status'')" and ?d = "js_String h (fld o' ''dispatchState'')"
    and ?x = "js_String h (fld o' ''externalEffects'')"
  have "envelope_ok h o' = Inl e \<or> optional_String h (fld o' ''replaySafety'') = Inl e \<or>
      (\<exists>r. contents_ok h ?st ?d ?x r o' = Inl e)"
    using assms
    by (cases "optional_String h (fld o' ''replaySafety'')") (auto simp: v isToolOutcome_def dest!: all_of_throws)
  then consider
      "envelope_ok h o' = Inl e" | "optional_String h (fld o' ''replaySafety'') = Inl e"
    | r where "recovery_ok h ?st ?d ?x r (fld o' ''failure'') (fld o' ''recovery'') = Inl e"
    | o'' where "fld o' ''timing'' = JObj o''" "timing_ok h o'' = Inl e"
    | "unknown_fields_ok h (fld o' ''unknownFields'') = Inl e"
    | "diagnostics_ok h ?st (fld o' ''failure'') (fld o' ''diagnosticCodes'') = Inl e"
    by (auto simp: contents_ok_def split: jval.splits dest!: all_of_throws)
  then show ?thesis
    by cases (auto simp: v outcome_texts_def dest!: outcome_part_throws diagnostics_ok_throws)
qed

end
