(* ===== verification/Kite_Outcome_Inv.thy ===== *)
theory Kite_Outcome_Inv
  imports Kite_Outcome
begin

text \<open>
  Properties of src/packages/agent-kernel/src/normalization.ts. A retry is only ever granted on the
  evidence that makes it safe; normalised events carry outcomes that the validator accepts, under
  the conditions that the code relies on and does not check (with the runs that show they are
  needed); the failure identity an event carries is the one the recovery journal computes;
  outcomes survive persistence; the calendar arithmetic counts the days of the Gregorian calendar.
\<close>

section \<open>Retries need evidence\<close>

lemma recovery_ceiling_cases:
  "recovery_ceiling input failure = NEVER_RECOVERY \<or>
   recovery_ceiling input failure = baseRecovery failure \<and>
     \<not> au_policyDenied (ki_authority input) \<and> \<not> au_approvalDenied (ki_authority input) \<and>
     ki_status input \<notin> {OutCancelled, OutTimedOut, OutExhausted} \<and>
     au_externalEffects (ki_authority input) \<noteq> EffUnknown"
  by (simp add: recovery_ceiling_def Let_def)

lemma NEVER_RECOVERY_simps [simp]:
  "rc_disposition NEVER_RECOVERY = Never" "rc_maximumAdditionalCalls NEVER_RECOVERY = 0"
  "rc_requiresNewModelResponse NEVER_RECOVERY = False" "rc_safeAutomaticRetry NEVER_RECOVERY = False"
  "rc_retryAfterMs NEVER_RECOVERY = None" "rc_capabilityIntent NEVER_RECOVERY = JUndef"
  by (simp_all add: NEVER_RECOVERY_def)

text \<open>The shape every recovery has that the classifier hands out, whatever the advice.\<close>

definition recovery_wf :: "tool_recovery_advice \<Rightarrow> bool" where
  "recovery_wf r \<longleftrightarrow>
     (case rc_disposition r of
        RetryOnce \<Rightarrow> rc_maximumAdditionalCalls r = 1 \<and> \<not> rc_requiresNewModelResponse r \<and> rc_safeAutomaticRetry r
      | Never \<Rightarrow> rc_maximumAdditionalCalls r = 0 \<and> \<not> rc_requiresNewModelResponse r \<and>
          \<not> rc_safeAutomaticRetry r \<and> rc_retryAfterMs r = None
      | UserAction \<Rightarrow> rc_maximumAdditionalCalls r = 0 \<and> \<not> rc_requiresNewModelResponse r \<and>
          \<not> rc_safeAutomaticRetry r \<and> rc_retryAfterMs r = None
      | _ \<Rightarrow> rc_maximumAdditionalCalls r = 1 \<and> rc_requiresNewModelResponse r \<and>
          \<not> rc_safeAutomaticRetry r \<and> rc_retryAfterMs r = None)"

lemma baseRecovery_cases:
  obtains (fix_args) "fs_modelFixable failure" "baseRecovery failure = NEVER_RECOVERY\<lparr>rc_disposition := CorrectArgs,
      rc_maximumAdditionalCalls := 1, rc_requiresNewModelResponse := True\<rparr>"
  | (retry) "\<not> fs_modelFixable failure" "fs_retryable failure"
      "baseRecovery failure = NEVER_RECOVERY\<lparr>rc_disposition := RetryOnce, rc_maximumAdditionalCalls := 1\<rparr>"
  | (user) "baseRecovery failure = NEVER_RECOVERY\<lparr>rc_disposition := UserAction\<rparr>"
  | (never) "baseRecovery failure = NEVER_RECOVERY"
  by (cases "fs_modelFixable failure"; cases "fs_retryable failure";
      cases "fs_needsUserIntervention failure") (simp_all add: baseRecovery_def)

text \<open>The recovery the classifier ends with, in terms of the ceiling it started from.\<close>

definition final_recovery ::
  "js_host \<Rightarrow> tool_authority \<Rightarrow> jobj \<Rightarrow> tool_recovery_advice \<Rightarrow> tool_recovery_advice" where
  "final_recovery h authority advice r =
     after_intent h advice (after_retry authority advice (after_disposition advice r))"

lemma final_recovery_never [simp]:
  "rc_disposition (final_recovery h authority advice NEVER_RECOVERY) = Never"
  by (simp add: final_recovery_def after_intent_def after_retry_def after_disposition_def Let_def)

lemma recovery_wf_intent: "recovery_wf (r\<lparr>rc_capabilityIntent := v\<rparr>) = recovery_wf r"
  by (cases "rc_disposition r") (simp_all add: recovery_wf_def)

lemma recovery_wf_never [simp]: "recovery_wf NEVER_RECOVERY"
  by (simp add: recovery_wf_def)

lemma after_intent_wf: "recovery_wf r \<Longrightarrow> recovery_wf (after_intent h advice r)"
  by (simp add: after_intent_def Let_def recovery_wf_intent)

lemma final_recovery_wf: "recovery_wf (final_recovery h authority advice (baseRecovery failure))"
  unfolding final_recovery_def
  by (rule after_intent_wf, cases failure rule: baseRecovery_cases)
    (simp_all add: after_retry_def after_disposition_def recovery_wf_def Let_def)

lemma final_recovery_wf_ceiling:
  "recovery_wf (final_recovery h authority advice (recovery_ceiling input failure))"
  using recovery_ceiling_cases [of input failure] final_recovery_wf [of h authority advice failure]
    after_intent_wf [of NEVER_RECOVERY]
  by (auto simp: final_recovery_def after_retry_def after_disposition_def Let_def)

lemma after_intent_disposition:
  "rc_disposition (after_intent h advice r) = RetryOnce \<Longrightarrow> rc_disposition r = RetryOnce"
  by (simp add: after_intent_def Let_def split: if_splits)

lemma final_recovery_retry:
  assumes "rc_disposition (final_recovery h authority advice r) = RetryOnce"
  shows "automaticRetryAuthoritative authority"
proof -
  have "rc_disposition (after_retry authority advice (after_disposition advice r)) = RetryOnce"
    using assms after_intent_disposition unfolding final_recovery_def by blast
  then show ?thesis by (simp add: after_retry_def split: if_splits)
qed

lemma classify_cases:
  obtains (success) "ki_status input = OutSuccess" "classifyToolOutcome h input = base_outcome input"
  | (diagnosed) code where "ki_status input \<noteq> OutSuccess" "classifyToolOutcome h input = diagnosed input code"
      "diagnostic_of input = Some code \<or> code = ''classifier_missing''"
  | (classified) failure where "ki_status input \<noteq> OutSuccess" "ki_failure input = Some failure"
      "diagnostic_of input = None"
      "classifyToolOutcome h input = classified h input (or_default (ki_toolAdvice input) []) failure"
proof (cases "ki_status input = OutSuccess")
  case True
  then show thesis by (intro success) (simp_all add: classifyToolOutcome_def)
next
  case False
  show thesis
  proof (cases "diagnostic_of input")
    case (Some code)
    with False have "classifyToolOutcome h input = Kite_Outcome.diagnosed input code"
      by (simp add: classifyToolOutcome_def)
    then show thesis using False Some by (intro diagnosed [of code]) simp_all
  next
    case None
    with False show thesis
      by (cases "ki_failure input")
        (rule diagnosed classified; simp add: classifyToolOutcome_def)+
  qed
qed

lemma diagnosed_recovery [simp]: "oc_recovery (diagnosed input code) = NEVER_RECOVERY"
  by (simp add: diagnosed_def base_outcome_def)

lemma classified_recovery:
  "oc_recovery (classified h input advice failure) = NEVER_RECOVERY \<or>
   oc_recovery (classified h input advice failure) =
     final_recovery h (ki_authority input) advice (recovery_ceiling input failure)"
  by (simp add: classified_def Let_def final_recovery_def)

text \<open>
  C35: the classifier hands out an automatic retry only on evidence. Whatever the tool's advice,
  the failure and the authority facts, every classified outcome has a well-formed recovery of at
  most one additional call; and a \<open>retry_once\<close> recovery means that the call was never
  dispatched, or was dispatched with known effects and a replay receipt, that neither policy nor
  an approver denied it, and that it was not cancelled, timed out or exhausted.
\<close>

theorem classify_retry_evidence:
  "recovery_wf (oc_recovery (classifyToolOutcome h input)) \<and>
   (rc_disposition (oc_recovery (classifyToolOutcome h input)) = RetryOnce \<longrightarrow>
      automaticRetryAuthoritative (ki_authority input) \<and>
      au_externalEffects (ki_authority input) \<noteq> EffUnknown \<and>
      \<not> au_policyDenied (ki_authority input) \<and> \<not> au_approvalDenied (ki_authority input) \<and>
      ki_status input \<notin> {OutSuccess, OutCancelled, OutTimedOut, OutExhausted})"
proof (cases h input rule: classify_cases)
  case success
  then show ?thesis by (simp add: base_outcome_def)
next
  case (diagnosed code)
  then show ?thesis by simp
next
  case (classified failure)
  let ?advice = "or_default (ki_toolAdvice input) []"
  show ?thesis
    using classified_recovery [of h input ?advice failure] recovery_ceiling_cases [of input failure]
      final_recovery_wf_ceiling [of h "ki_authority input" ?advice input failure]
      final_recovery_retry [of h "ki_authority input" ?advice "recovery_ceiling input failure"]
    by (auto simp: classified(1,4))
qed

definition failed_read :: classification_input where
  "failed_read = \<lparr>ki_status = OutFailed,
     ki_failure = Some (classifyRuntimeFailure ''provider_unavailable'' ''down'' None),
     ki_authority = \<lparr>au_dispatchState = ''started'', au_externalEffects = EffNone,
       au_replaySafety = Some ''safe_read'', au_policyDenied = False, au_approvalDenied = False\<rparr>,
     ki_toolAdvice = None, ki_recoveryOf = None, ki_timing = None, ki_unknownFields = None,
     ki_classifierDiagnostic = None\<rparr>"

theorem classify_retry_evidence_witness:
  "rc_disposition (oc_recovery (classifyToolOutcome sample_host failed_read)) = RetryOnce \<and>
   automaticRetryAuthoritative (ki_authority failed_read)"
proof -
  have "rc_disposition (oc_recovery (classifyToolOutcome sample_host failed_read)) = RetryOnce"
    by code_simp
  then show ?thesis using classify_retry_evidence [of sample_host failed_read] by blast
qed

section \<open>Canonical outcomes\<close>

lemma obj_keys_optional [simp]:
  "obj_keys (optional_string k v) = (if v = None then [] else [k])"
  by (simp add: optional_string_def split: option.splits)

lemma fld_optional_string [simp]:
  "fld (optional_string k v) f = (if f = k then (case v of None \<Rightarrow> JUndef | Some s \<Rightarrow> JStr s) else JUndef)"
  by (simp add: optional_string_def split: option.splits)

lemma obj_keys_if [simp]: "obj_keys (if b then x else y) = (if b then obj_keys x else obj_keys y)"
  by simp

lemma fld_if: "fld (if b then x else y) f = (if b then fld x f else fld y f)"
  by simp

lemma keys_obj_set [simp]: "set (obj_keys (obj_set k v o')) = insert k (set (obj_keys o'))"
  by (auto simp: obj_set_def)

definition failure_value :: "tool_outcome \<Rightarrow> jval" where
  "failure_value o' = (case oc_failureKind o' of None \<Rightarrow> JUndef
     | Some kind \<Rightarrow> JObj ((''kind'', JStr kind) # optional_string ''detailCode'' (oc_detailCode o')))"

definition lineage_value :: "tool_outcome \<Rightarrow> jval" where
  "lineage_value o' = (if oc_failureInstanceId o' = None \<and> oc_recoveryOf o' = None then JUndef
     else JObj (optional_string ''recoveryOf'' (oc_recoveryOf o') @
       optional_string ''failureInstanceId'' (oc_failureInstanceId o')))"

lemma outcome_json_fields:
  "fld (outcome_json o') ''schemaVersion'' = JNum 1"
  "fld (outcome_json o') ''status'' = JStr (outcome_status_string (oc_status o'))"
  "fld (outcome_json o') ''failure'' = failure_value o'"
  "fld (outcome_json o') ''dispatchState'' = JStr (oc_dispatchState o')"
  "fld (outcome_json o') ''externalEffects'' = JStr (effects_string (oc_externalEffects o'))"
  "fld (outcome_json o') ''replaySafety'' = (case oc_replaySafety o' of None \<Rightarrow> JUndef | Some r \<Rightarrow> JStr r)"
  "fld (outcome_json o') ''recovery'' = JObj (recovery_json (oc_recovery o'))"
  "fld (outcome_json o') ''lineage'' = lineage_value o'"
  "fld (outcome_json o') ''timing'' = JObj (oc_timing o')"
  "fld (outcome_json o') ''unknownFields'' = (case oc_unknownFields o' of None \<Rightarrow> JUndef | Some u \<Rightarrow> JObj u)"
  "fld (outcome_json o') ''diagnosticCodes'' =
     (if oc_diagnosticCodes o' = [] then JUndef else JArr (oc_diagnosticCodes o'))"
  unfolding outcome_json_def
  by (simp_all add: fld_append failure_value_def lineage_value_def split: option.split)

lemma outcome_json_keys: "exactKeys (outcome_json o') OUTCOME_KEYS"
  by (simp add: exactKeys_def outcome_json_def OUTCOME_KEYS_def list_all_iff split: option.split)

lemma recovery_json_fields:
  "fld (recovery_json r) ''disposition'' = JStr (disposition_string (rc_disposition r))"
  "fld (recovery_json r) ''maximumAdditionalCalls'' = JNum (of_nat (rc_maximumAdditionalCalls r))"
  "fld (recovery_json r) ''requiresNewModelResponse'' = JBool (rc_requiresNewModelResponse r)"
  "fld (recovery_json r) ''safeAutomaticRetry'' = JBool (rc_safeAutomaticRetry r)"
  "fld (recovery_json r) ''retryAfterMs'' = (case rc_retryAfterMs r of None \<Rightarrow> JUndef | Some d \<Rightarrow> JNum d)"
  "fld (recovery_json r) ''capabilityIntent'' = rc_capabilityIntent r"
  unfolding recovery_json_def
  by (simp_all add: fld_append split: option.split)

lemma recovery_json_keys:
  "exactKeys (recovery_json r) [''disposition'', ''maximumAdditionalCalls'', ''requiresNewModelResponse'',
     ''safeAutomaticRetry'', ''retryAfterMs'', ''capabilityIntent'']"
  by (simp add: exactKeys_def recovery_json_def list_all_iff split: option.split)

lemma disposition_string_eq [simp]:
  "disposition_string d = disposition_string d' \<longleftrightarrow> d = d'"
  by (cases d; cases d') simp_all

lemma outcome_status_string_eq [simp]:
  "outcome_status_string s = outcome_status_string s' \<longleftrightarrow> s = s'"
  by (cases s; cases s') simp_all

text \<open>What the validator demands, read over the typed outcome.\<close>

definition kind_allows :: "tool_outcome \<Rightarrow> string \<Rightarrow> string \<Rightarrow> bool" where
  "kind_allows o' kind detail \<longleftrightarrow>
     (let d = rc_disposition (oc_recovery o');
          authoritative = rc_disposition (baseRecovery (classifyRuntimeFailure kind ''redacted'' None)) in
      detail \<in> set (details_of kind) \<and> (kind \<in> set DENIAL_KINDS \<longrightarrow> d = Never) \<and>
      (d = Never \<or> d = authoritative \<or> authoritative = CorrectArgs \<and> d = Alternative))"

definition status_allows :: "tool_outcome \<Rightarrow> bool" where
  "status_allows o' \<longleftrightarrow>
     (oc_status o' \<in> {OutSuccess, OutCancelled, OutTimedOut, OutExhausted, OutUnknown} \<longrightarrow>
        rc_disposition (oc_recovery o') = Never) \<and>
     (oc_status o' = OutRejected \<longrightarrow> rc_disposition (oc_recovery o') \<noteq> RetryOnce)"

definition retry_evidence :: "tool_outcome \<Rightarrow> bool" where
  "retry_evidence o' \<longleftrightarrow>
     (rc_disposition (oc_recovery o') = RetryOnce \<longrightarrow>
        oc_dispatchState o' = ''not_started'' \<and> oc_externalEffects o' = EffNone \<or>
        oc_dispatchState o' = ''started'' \<and> oc_externalEffects o' \<noteq> EffUnknown \<and>
          (oc_replaySafety o' = Some ''safe_read'' \<or> oc_replaySafety o' = Some ''idempotency_receipt''))"

definition recovery_values_ok :: "tool_recovery_advice \<Rightarrow> bool" where
  "recovery_values_ok r \<longleftrightarrow>
     recovery_wf r \<and> (\<forall>d. rc_retryAfterMs r = Some d \<longrightarrow> 0 \<le> d) \<and>
     (rc_capabilityIntent r = JUndef \<or> (\<exists>s. rc_capabilityIntent r = JStr s \<and> is_capability_intent s))"

definition verdict_ok :: "tool_outcome \<Rightarrow> bool" where
  "verdict_ok o' \<longleftrightarrow>
     (if oc_status o' = OutSuccess then oc_failureKind o' = None \<and> oc_diagnosticCodes o' = []
      else \<exists>kind detail. oc_failureKind o' = Some kind \<and> oc_detailCode o' = Some detail \<and>
        kind \<in> set FAILURE_KINDS \<and> detail \<in> set DETAIL_CODES \<and>
        (if oc_status o' = OutUnknown
         then kind = ''unknown'' \<and> detail \<in> set CLASSIFIER_DIAGNOSTICS \<and>
           oc_diagnosticCodes o' = [JStr detail]
         else kind_allows o' kind detail \<and> oc_diagnosticCodes o' = []))"

definition identities_ok :: "tool_outcome \<Rightarrow> bool" where
  "identities_ok o' \<longleftrightarrow>
     (\<forall>i. oc_recoveryOf o' = Some i \<or> oc_failureInstanceId o' = Some i \<longrightarrow> is_sha256_hex i)"

definition canonical :: "js_host \<Rightarrow> tool_outcome \<Rightarrow> bool" where
  "canonical h o' \<longleftrightarrow>
     oc_dispatchState o' \<in> {''not_started'', ''started'', ''unknown''} \<and>
     replay_ok (oc_dispatchState o') (effects_string (oc_externalEffects o')) (oc_replaySafety o') \<and>
     recovery_values_ok (oc_recovery o') \<and> retry_evidence o' \<and> status_allows o' \<and> verdict_ok o' \<and>
     timing_ok h (oc_timing o') = Inr True \<and> identities_ok o' \<and>
     (\<forall>u. oc_unknownFields o' = Some u \<longrightarrow> unknown_fields_ok h (JObj u) = Inr True)"

lemma outcome_status_string_cases:
  "outcome_status_string s = ''success'' \<longleftrightarrow> s = OutSuccess"
  "outcome_status_string s = ''unknown'' \<longleftrightarrow> s = OutUnknown"
  "outcome_status_string s = ''rejected'' \<longleftrightarrow> s = OutRejected"
  "outcome_status_string s = ''exhausted'' \<longleftrightarrow> s = OutExhausted"
  "outcome_status_string s = ''cancelled'' \<longleftrightarrow> s = OutCancelled"
  "outcome_status_string s = ''timed_out'' \<longleftrightarrow> s = OutTimedOut"
  by (cases s; simp)+

lemma disposition_string_cases:
  "disposition_string d = ''never'' \<longleftrightarrow> d = Never"
  "disposition_string d = ''correct_args'' \<longleftrightarrow> d = CorrectArgs"
  "disposition_string d = ''retry_once'' \<longleftrightarrow> d = RetryOnce"
  "disposition_string d = ''alternative'' \<longleftrightarrow> d = Alternative"
  "disposition_string d = ''user_action'' \<longleftrightarrow> d = UserAction"
  by (cases d; simp)+

lemma effects_string_cases:
  "effects_string e = ''none'' \<longleftrightarrow> e = EffNone" "effects_string e = ''unknown'' \<longleftrightarrow> e = EffUnknown"
  by (cases e; simp)+

lemma envelope_ok_json:
  assumes "oc_dispatchState o' \<in> {''not_started'', ''started'', ''unknown''}"
  shows "envelope_ok h (outcome_json o') = Inr True"
proof -
  have "outcome_status_string (oc_status o') \<in> set [''success'', ''failed'', ''rejected'', ''cancelled'',
       ''timed_out'', ''exhausted'', ''unknown'']" by (cases "oc_status o'") simp_all
  moreover have "effects_string (oc_externalEffects o') \<in> set [''none'', ''known'', ''unknown'']"
    by (cases "oc_externalEffects o'") simp_all
  ultimately show ?thesis
    using assms outcome_json_keys by (simp add: envelope_ok_def outcome_json_fields OUTCOME_STATUSES_def)
qed

lemma recovery_shape_ok_json:
  assumes "recovery_values_ok r"
  shows "recovery_shape_ok h (recovery_json r) = Inr True"
proof -
  have "disposition_string (rc_disposition r)
      \<in> set [''never'', ''correct_args'', ''retry_once'', ''alternative'', ''user_action'']"
    by (cases "rc_disposition r") simp_all
  moreover have "rc_maximumAdditionalCalls r = 0 \<or> rc_maximumAdditionalCalls r = 1"
    using assms by (cases "rc_disposition r") (simp_all add: recovery_values_ok_def recovery_wf_def)
  ultimately show ?thesis
    using assms recovery_json_keys [of r]
    by (auto simp: recovery_shape_ok_def recovery_json_fields is_bool_def recovery_values_ok_def
        finiteDuration_def split: option.split)
qed

lemma recovery_matrix_ok_json:
  assumes "recovery_wf (oc_recovery o')" "retry_evidence o'"
  shows "recovery_matrix_ok (oc_dispatchState o') (effects_string (oc_externalEffects o'))
    (oc_replaySafety o') (recovery_json (oc_recovery o'))"
  using assms
  by (cases "rc_disposition (oc_recovery o')")
    (simp_all add: recovery_matrix_ok_def matrix_row_def recovery_json_fields recovery_wf_def
      retry_evidence_def effects_string_cases)

lemma status_recovery_ok_json:
  "status_allows o' \<Longrightarrow>
   status_recovery_ok (outcome_status_string (oc_status o')) (recovery_json (oc_recovery o'))"
  by (auto simp: status_allows_def status_recovery_ok_def recovery_json_fields
      outcome_status_string_cases disposition_string_cases)

lemma kind_recovery_ok_json:
  assumes "verdict_ok o'"
  shows "kind_recovery_ok (outcome_status_string (oc_status o')) (failure_value o')
    (recovery_json (oc_recovery o'))"
proof (cases "oc_status o' = OutSuccess \<or> oc_status o' = OutUnknown")
  case True
  then show ?thesis by (auto simp: kind_recovery_ok_def outcome_status_string_cases)
next
  case False
  with assms obtain kind detail where f: "oc_failureKind o' = Some kind" "oc_detailCode o' = Some detail"
    and allows: "kind_allows o' kind detail" by (auto simp: verdict_ok_def)
  have "kind_recovery_ok (outcome_status_string (oc_status o'))
      (JObj ((''kind'', JStr kind) # optional_string ''detailCode'' (Some detail))) (recovery_json (oc_recovery o'))"
    using False allows
    by (auto simp: kind_recovery_ok_def outcome_status_string_cases stringField_def
        kind_allows_def recovery_json_fields disposition_string_cases Let_def)
  then show ?thesis by (simp add: failure_value_def f)
qed

lemma failure_ok_json:
  assumes "verdict_ok o'"
  shows "failure_ok (outcome_status_string (oc_status o')) (failure_value o')"
proof (cases "oc_status o' = OutSuccess")
  case True
  with assms show ?thesis by (simp add: verdict_ok_def failure_ok_def failure_value_def)
next
  case False
  with assms obtain kind detail where "oc_failureKind o' = Some kind" "oc_detailCode o' = Some detail"
    "kind \<in> set FAILURE_KINDS" "detail \<in> set DETAIL_CODES" by (auto simp: verdict_ok_def)
  with False show ?thesis
    by (simp add: failure_ok_def failure_value_def exactKeys_def outcome_status_string_cases
        isToolFailureKind_def isToolOutcomeDetailCode_def)
qed

lemma diagnostics_ok_json:
  assumes "verdict_ok o'"
  shows "diagnostics_ok h (outcome_status_string (oc_status o')) (failure_value o')
    (if oc_diagnosticCodes o' = [] then JUndef else JArr (oc_diagnosticCodes o')) = Inr True"
proof (cases "oc_status o' = OutUnknown")
  case True
  with assms obtain detail where "oc_failureKind o' = Some ''unknown''" "oc_detailCode o' = Some detail"
    "detail \<in> set CLASSIFIER_DIAGNOSTICS" "oc_diagnosticCodes o' = [JStr detail]"
    by (auto simp: verdict_ok_def)
  with True show ?thesis
    by (simp add: diagnostics_ok_def failure_value_def)
next
  case False
  with assms have "oc_diagnosticCodes o' = []" by (auto simp: verdict_ok_def split: if_splits)
  with False show ?thesis by (simp add: diagnostics_ok_def outcome_status_string_cases)
qed

lemma lineage_ok_json: "identities_ok o' \<Longrightarrow> lineage_ok (lineage_value o')"
  by (auto simp: identities_ok_def lineage_ok_def lineage_value_def exactKeys_def optional_string_def
      split: option.splits)

lemma optional_String_json:
  "optional_String h (case v of None \<Rightarrow> JUndef | Some r \<Rightarrow> JStr r) = Inr v"
  by (cases v) (simp_all add: optional_String_def to_string_def)

lemma exactKeys_obj_set: "exactKeys (obj_set k v o') ks \<longleftrightarrow> k \<in> set ks \<and> exactKeys o' ks"
  by (auto simp: exactKeys_def list_all_iff)

lemma unknown_fields_json:
  "(\<forall>u. v = Some u \<longrightarrow> unknown_fields_ok h (JObj u) = Inr True) \<Longrightarrow>
   unknown_fields_ok h (case v of None \<Rightarrow> JUndef | Some u \<Rightarrow> JObj u) = Inr True"
  by (cases v) (simp_all add: unknown_fields_ok_def [of h JUndef])

lemma envelope_ok_lineage: "envelope_ok h o' = Inr True \<Longrightarrow> envelope_ok h (obj_set ''lineage'' v o') = Inr True"
  by (simp add: envelope_ok_def exactKeys_obj_set OUTCOME_KEYS_def)

text \<open>A canonical outcome passes the validator, also after its lineage has been replaced.\<close>

lemma canonical_lineage_valid:
  assumes "canonical h o'" "lineage_ok v"
  shows "isToolOutcome h (JObj (obj_set ''lineage'' v (outcome_json o'))) = Inr True"
proof -
  have parts: "recovery_values_ok (oc_recovery o')" "recovery_wf (oc_recovery o')" "verdict_ok o'"
    "status_allows o'" "retry_evidence o'" "timing_ok h (oc_timing o') = Inr True"
    "replay_ok (oc_dispatchState o') (effects_string (oc_externalEffects o')) (oc_replaySafety o')"
    "unknown_fields_ok h (case oc_unknownFields o' of None \<Rightarrow> JUndef | Some u \<Rightarrow> JObj u) = Inr True"
    "envelope_ok h (outcome_json o') = Inr True"
    using assms(1) by (simp_all add: canonical_def recovery_values_ok_def unknown_fields_json envelope_ok_json)
  show ?thesis
    unfolding isToolOutcome_def contents_ok_def recovery_ok_def
    using parts(6,7,8) assms(2)
    by (simp add: outcome_json_fields optional_String_json Let_def
        envelope_ok_lineage [OF parts(9)] failure_ok_json [OF parts(3)]
        recovery_shape_ok_json [OF parts(1)] recovery_matrix_ok_json [OF parts(2,5)]
        status_recovery_ok_json [OF parts(4)] kind_recovery_ok_json [OF parts(3)]
        diagnostics_ok_json [OF parts(3)])
qed

lemma isToolOutcome_drop_lineage:
  assumes "isToolOutcome h (JObj (obj_set ''lineage'' JUndef o')) = Inr True" "lineage_ok (fld o' ''lineage'')"
  shows "isToolOutcome h (JObj o') = Inr True"
  using assms
  by (auto simp: isToolOutcome_def contents_ok_def bind_res_Inr envelope_ok_def exactKeys_obj_set OUTCOME_KEYS_def
      cong: jval.case_cong)

lemma values_replace_entry: "set (obj_values (replace_entry k v o')) \<subseteq> insert v (set (obj_values o'))"
  by (induction o') (auto split: if_splits)

lemma values_insert_index: "set (obj_values (insert_index k v o')) \<subseteq> insert v (set (obj_values o'))"
  by (induction k v o' rule: insert_index.induct) (auto split: if_splits)

lemma values_obj_set: "set (obj_values (obj_set k v o')) \<subseteq> insert v (set (obj_values o'))"
  using values_replace_entry [of k v o'] values_insert_index [of k v o'] by (auto simp: obj_set_def)

definition is_identity_value :: "jval \<Rightarrow> bool" where
  "is_identity_value v = (case v of JStr s \<Rightarrow> is_sha256_hex s | _ \<Rightarrow> False)"

lemma lineage_ok_record:
  "lineage_ok (JObj l) \<longleftrightarrow> exactKeys l [''failureInstanceId'', ''recoveryOf''] \<and>
     (\<forall>v \<in> set (obj_values l). is_identity_value v)"
  by (simp add: lineage_ok_def list_all_iff is_identity_value_def)

lemma lineage_ok_set:
  assumes "lineage_ok v" "is_sha256_hex d"
  shows "lineage_ok (JObj (obj_set ''failureInstanceId'' (JStr d) (or_default (as_record v) [])))"
proof -
  have "lineage_ok (JObj (or_default (as_record v) []))"
    using assms(1) by (cases v) (simp_all add: lineage_ok_def exactKeys_def as_record_def)
  moreover have "is_identity_value (JStr d)" using assms(2) by (simp add: is_identity_value_def)
  ultimately show ?thesis
    using values_obj_set [of "''failureInstanceId''" "JStr d" "or_default (as_record v) []"]
    by (auto simp: lineage_ok_record exactKeys_obj_set)
qed

lemma canonical_valid: "canonical h o' \<Longrightarrow> isToolOutcome h (JObj (outcome_json o')) = Inr True"
  by (rule isToolOutcome_drop_lineage [OF canonical_lineage_valid])
    (simp_all add: lineage_ok_def [of JUndef] outcome_json_fields canonical_def lineage_ok_json)

lemma canonical_with_lineage:
  assumes "canonical h o'"
  shows "isToolOutcome h (JObj (with_lineage h i fp o')) = Inr True"
proof (cases "truthy_option fp")
  case None
  then show ?thesis by (simp add: with_lineage_def canonical_valid [OF assms])
next
  case (Some f)
  have "is_sha256_hex (digestFailureIdentity h i f o')"
    by (simp add: digestFailureIdentity_def sha256Hex_def sha256HexBytes_hex)
  moreover have "lineage_ok (lineage_value o')" using assms by (simp add: canonical_def lineage_ok_json)
  ultimately have "lineage_ok (JObj (obj_set ''failureInstanceId'' (JStr (digestFailureIdentity h i f o'))
      (sub_record (outcome_json o') ''lineage'')))"
    unfolding sub_record_def recordField_def outcome_json_fields by (intro lineage_ok_set)
  then show ?thesis
    using canonical_lineage_valid [OF assms] Some by (simp add: with_lineage_def Let_def)
qed

section \<open>The classifier is canonical\<close>

lemma kinds_have_details: "list_all (\<lambda>k. or_default (map_of detail_table k) ''unknown'' \<in> set (details_of k)) FAILURE_KINDS"
  by code_simp

lemma details_are_codes: "list_all (\<lambda>k. list_all (\<lambda>d. d \<in> set DETAIL_CODES) (details_of k)) FAILURE_KINDS"
  by code_simp

lemma parse_kinds_have_details:
  "list_all (\<lambda>c. c \<in> set (details_of (failureKindForToolParseFailure c))) PARSE_FAILURE_CODES"
  by code_simp

lemma diagnostics_are_codes: "list_all (\<lambda>c. c \<in> set DETAIL_CODES) CLASSIFIER_DIAGNOSTICS"
  by code_simp

text \<open>
  What the classifier relies on in a failure: the flags are those of its kind, and a parse code
  belongs to its kind. \<open>classifyRuntimeFailure\<close> makes only such failures; a failure an event
  supplies is taken as it is.
\<close>

definition consistent_failure :: "classified_failure \<Rightarrow> bool" where
  "consistent_failure f \<longleftrightarrow>
     cf_kind f \<in> set FAILURE_KINDS \<and>
     baseRecovery f = baseRecovery (classifyRuntimeFailure (cf_kind f) ''redacted'' None) \<and>
     (case cf_parseFailureCode f of None \<Rightarrow> True
      | Some c \<Rightarrow> c \<in> set PARSE_FAILURE_CODES \<and> cf_kind f = failureKindForToolParseFailure c)"

lemma detailForFailure_allowed:
  assumes "consistent_failure f"
  shows "detailForFailure f \<in> set (details_of (cf_kind f))"
  using assms kinds_have_details parse_kinds_have_details
  by (auto simp: consistent_failure_def detailForFailure_def list_all_iff split: option.splits)

definition consistent_input :: "js_host \<Rightarrow> classification_input \<Rightarrow> bool" where
  "consistent_input h input \<longleftrightarrow>
     (let authority = ki_authority input; advice = or_default (ki_toolAdvice input) [] in
      au_dispatchState authority \<in> {''not_started'', ''started'', ''unknown''} \<and>
      replay_ok (au_dispatchState authority) (effects_string (au_externalEffects authority))
        (truthy_option (au_replaySafety authority)) \<and>
      replay_ok (au_dispatchState authority) (effects_string (au_externalEffects authority)) None \<and>
      ki_status input \<noteq> OutUnknown \<and>
      (case ki_failure input of None \<Rightarrow> True
       | Some f \<Rightarrow> consistent_failure f \<and>
           (cf_kind f \<in> set DENIAL_KINDS \<longrightarrow> au_policyDenied authority \<or> au_approvalDenied authority) \<and>
           (ki_status input = OutRejected \<longrightarrow> rc_disposition (recovery_ceiling input f) \<noteq> RetryOnce)) \<and>
      (truthy (fld advice ''capabilityIntent'') \<longrightarrow> is_string (fld advice ''capabilityIntent'')) \<and>
      (case truthy_option (ki_classifierDiagnostic input) of None \<Rightarrow> True
       | Some c \<Rightarrow> c \<in> set CLASSIFIER_DIAGNOSTICS) \<and>
      timing_ok h (trustedToolTiming (ki_timing input)) = Inr True \<and>
      (case ki_recoveryOf input of None \<Rightarrow> True | Some i \<Rightarrow> is_sha256_hex i) \<and>
      (case ki_unknownFields input of None \<Rightarrow> True | Some u \<Rightarrow> unknown_fields_ok h (JObj u) = Inr True))"

text \<open>The parts of canonicity that do not depend on the verdict.\<close>

lemma base_canonical:
  assumes "consistent_input h input"
  shows "canonical h (base_outcome input) \<or> ki_status input \<noteq> OutSuccess"
    and "oc_dispatchState (base_outcome input) \<in> {''not_started'', ''started'', ''unknown''}"
    and "timing_ok h (oc_timing (base_outcome input)) = Inr True" "identities_ok (base_outcome input)"
    and "\<forall>u. oc_unknownFields (base_outcome input) = Some u \<longrightarrow> unknown_fields_ok h (JObj u) = Inr True"
  using assms
  by (auto simp: canonical_def base_outcome_def consistent_input_def Let_def recovery_values_ok_def
      retry_evidence_def status_allows_def verdict_ok_def identities_ok_def split: option.splits)

lemma after_intent_cases:
  "rc_disposition (after_intent h advice r) = Never \<and> rc_retryAfterMs (after_intent h advice r) = None \<or>
   rc_disposition (after_intent h advice r) = rc_disposition r \<and>
     rc_retryAfterMs (after_intent h advice r) = rc_retryAfterMs r"
  by (simp add: after_intent_def Let_def)

lemma after_intent_intent:
  assumes "rc_capabilityIntent r = JUndef"
    and "truthy (fld advice ''capabilityIntent'') \<longrightarrow> is_string (fld advice ''capabilityIntent'')"
  shows "rc_capabilityIntent (after_intent h advice r) = JUndef \<or>
    (\<exists>s. rc_capabilityIntent (after_intent h advice r) = JStr s \<and> is_capability_intent s)"
  using assms by (auto simp: after_intent_def Let_def is_string_def)

lemma after_retry_cases:
  "after_retry authority advice r = NEVER_RECOVERY \<or>
   rc_disposition (after_retry authority advice r) = rc_disposition r \<and>
     (rc_retryAfterMs (after_retry authority advice r) = rc_retryAfterMs r \<or>
      rc_retryAfterMs (after_retry authority advice r) = finiteDuration (fld advice ''retryAfterMs'')) \<and>
     rc_capabilityIntent (after_retry authority advice r) = rc_capabilityIntent r"
  by (simp add: after_retry_def)

lemma after_disposition_cases:
  "after_disposition advice r = NEVER_RECOVERY \<or> after_disposition advice r = r \<or>
   rc_disposition r = CorrectArgs \<and>
     after_disposition advice r = r\<lparr>rc_disposition := Alternative, rc_maximumAdditionalCalls := 1\<rparr>"
  by (simp add: after_disposition_def Let_def)

lemma final_recovery_disposition:
  "rc_disposition (final_recovery h authority advice r)
     \<in> {Never, rc_disposition r} \<union> (if rc_disposition r = CorrectArgs then {Alternative} else {})"
proof -
  define d where "d = after_disposition advice r"
  have "rc_disposition d \<in> {Never, rc_disposition r} \<union> (if rc_disposition r = CorrectArgs then {Alternative} else {})"
    using after_disposition_cases [of advice r] by (auto simp: d_def)
  moreover have "rc_disposition (final_recovery h authority advice r) \<in> {Never, rc_disposition d}"
    using after_intent_cases [of h advice "after_retry authority advice d"]
      after_retry_cases [of authority advice d]
    by (auto simp: final_recovery_def d_def)
  ultimately show ?thesis by auto
qed

lemma final_recovery_values:
  assumes "r = NEVER_RECOVERY \<or> r = baseRecovery failure"
    and intent: "truthy (fld advice ''capabilityIntent'') \<longrightarrow> is_string (fld advice ''capabilityIntent'')"
  shows "recovery_values_ok (final_recovery h authority advice r)"
proof -
  define d where "d = after_disposition advice r"
  define q where "q = after_retry authority advice d"
  have r: "rc_retryAfterMs r = None" "rc_capabilityIntent r = JUndef"
    using assms(1) by (auto simp: baseRecovery_def)
  then have d: "rc_retryAfterMs d = None" "rc_capabilityIntent d = JUndef"
    using after_disposition_cases [of advice r] by (auto simp: d_def)
  have dur: "finiteDuration v = Some x \<Longrightarrow> 0 \<le> x" for v x
    by (auto simp: finiteDuration_def split: jval.splits if_splits)
  have q: "rc_retryAfterMs q = Some x \<Longrightarrow> 0 \<le> x" "rc_capabilityIntent q = JUndef" for x
    using after_retry_cases [of authority advice d] d dur [of "fld advice ''retryAfterMs''" x]
    by (auto simp: q_def)
  have "recovery_wf (final_recovery h authority advice r)"
    using assms(1) final_recovery_wf [of h authority advice failure]
      after_intent_wf [of NEVER_RECOVERY h advice]
    by (auto simp: final_recovery_def after_retry_def after_disposition_def Let_def)
  moreover have "final_recovery h authority advice r = after_intent h advice q"
    by (simp add: final_recovery_def q_def d_def)
  ultimately show ?thesis
    using after_intent_cases [of h advice q] q after_intent_intent [OF q(2) intent, of h]
    unfolding recovery_values_ok_def by auto
qed

lemma diagnosed_canonical:
  assumes "consistent_input h input" "code \<in> set CLASSIFIER_DIAGNOSTICS"
  shows "canonical h (diagnosed input code)"
proof -
  have "code \<in> set DETAIL_CODES" using assms(2) diagnostics_are_codes by (simp add: list_all_iff)
  moreover have "''unknown'' \<in> set FAILURE_KINDS" by (simp add: FAILURE_KINDS_def)
  ultimately have "verdict_ok (diagnosed input code)"
    using assms(2) by (simp add: verdict_ok_def diagnosed_def)
  then show ?thesis
    using assms base_canonical(2-5) [OF assms(1)]
    by (simp add: canonical_def diagnosed_def consistent_input_def Let_def recovery_values_ok_def
        retry_evidence_def status_allows_def identities_ok_def base_outcome_def)
qed

lemma diagnostic_of_known:
  assumes "consistent_input h input" "diagnostic_of input = Some code"
  shows "code \<in> set CLASSIFIER_DIAGNOSTICS"
proof -
  have "code = ''classifier_invalid'' \<or> code = ''classifier_conflict'' \<or>
      truthy_option (ki_classifierDiagnostic input) = Some code"
    using assms(2) by (simp add: diagnostic_of_def Let_def split: if_splits)
  then show ?thesis
  proof (elim disjE)
    assume "truthy_option (ki_classifierDiagnostic input) = Some code"
    then show ?thesis using assms(1) by (simp add: consistent_input_def Let_def)
  qed (simp_all add: CLASSIFIER_DIAGNOSTICS_def)
qed

lemma classified_detail:
  assumes "consistent_failure f" "diagnostic_of input = None" "ki_failure input = Some f"
  defines "advice \<equiv> or_default (ki_toolAdvice input) []"
  shows "(case fld advice ''detailCode'' of
      JStr d \<Rightarrow> (if d \<noteq> [] \<and> d \<in> set DETAIL_CODES then d else detailForFailure f)
    | _ \<Rightarrow> detailForFailure f) \<in> set (details_of (cf_kind f))"
proof -
  have "\<not> conflicting_detail (Some f) advice"
    using assms(2,3) by (auto simp: diagnostic_of_def Let_def advice_def split: if_splits)
  then show ?thesis
    using detailForFailure_allowed [OF assms(1)]
    by (cases "fld advice ''detailCode''")
      (auto simp: conflicting_detail_def isToolOutcomeDetailCode_def image_iff)
qed

lemma ceiling_disposition:
  "rc_disposition (recovery_ceiling input f) \<in> {Never, rc_disposition (baseRecovery f)}"
  by (simp add: recovery_ceiling_def Let_def)

lemma classified_canonical:
  assumes ok: "consistent_input h input" and none: "diagnostic_of input = None"
    and f: "ki_failure input = Some f" and status: "ki_status input \<noteq> OutSuccess"
  defines "advice \<equiv> or_default (ki_toolAdvice input) []"
  shows "canonical h (classified h input advice f)"
proof (cases "exceeds_ceiling (ki_authority input) (recovery_ceiling input f) advice")
  case True
  then show ?thesis
    using diagnosed_canonical [OF ok, of "''classifier_conflict''"]
    by (simp add: classified_def CLASSIFIER_DIAGNOSTICS_def)
next
  case False
  define r where "r = final_recovery h (ki_authority input) advice (recovery_ceiling input f)"
  define detail where "detail = (case fld advice ''detailCode'' of
      JStr d \<Rightarrow> (if d \<noteq> [] \<and> d \<in> set DETAIL_CODES then d else detailForFailure f)
    | _ \<Rightarrow> detailForFailure f)"
  define o' where "o' = (base_outcome input)\<lparr>oc_status := ki_status input, oc_failureKind := Some (cf_kind f),
      oc_detailCode := Some detail, oc_recovery := r\<rparr>"
  have c: "classified h input advice f = o'"
    using False by (simp add: classified_def Let_def o'_def r_def final_recovery_def detail_def)
  have cons: "consistent_failure f" and st: "ki_status input \<noteq> OutUnknown"
    and denial: "cf_kind f \<in> set DENIAL_KINDS \<Longrightarrow>
      au_policyDenied (ki_authority input) \<or> au_approvalDenied (ki_authority input)"
    and rej: "ki_status input = OutRejected \<Longrightarrow> rc_disposition (recovery_ceiling input f) \<noteq> RetryOnce"
    and intent: "truthy (fld advice ''capabilityIntent'') \<longrightarrow> is_string (fld advice ''capabilityIntent'')"
    using ok f by (simp_all add: consistent_input_def Let_def advice_def)
  have detail: "detail \<in> set (details_of (cf_kind f))"
    unfolding detail_def advice_def by (rule classified_detail [OF cons none f])
  have kind: "cf_kind f \<in> set FAILURE_KINDS" using cons by (simp add: consistent_failure_def)
  have disp: "rc_disposition r \<in> {Never, rc_disposition (recovery_ceiling input f)} \<union>
      (if rc_disposition (recovery_ceiling input f) = CorrectArgs then {Alternative} else {})"
    unfolding r_def by (rule final_recovery_disposition)
  have never: "rc_disposition r = Never" if "recovery_ceiling input f = NEVER_RECOVERY"
    using that by (simp add: r_def)
  have base: "rc_disposition (baseRecovery (classifyRuntimeFailure (cf_kind f) ''redacted'' None)) =
      rc_disposition (baseRecovery f)"
    using cons by (simp add: consistent_failure_def)
  have "kind_allows o' (cf_kind f) detail"
    using detail disp ceiling_disposition [of input f] denial never
    unfolding kind_allows_def Let_def base
    by (auto simp: o'_def recovery_ceiling_def split: if_splits)
  then have "verdict_ok o'"
    using kind detail details_are_codes status st
    by (auto simp: verdict_ok_def o'_def base_outcome_def list_all_iff)
  moreover have "status_allows o'"
    using status st disp rej never
    by (auto simp: status_allows_def o'_def recovery_ceiling_def split: if_splits)
  moreover have "retry_evidence o'"
    using final_recovery_retry [of h "ki_authority input" advice "recovery_ceiling input f"]
    by (auto simp: retry_evidence_def o'_def r_def base_outcome_def automaticRetryAuthoritative_def
        truthy_option_def split: if_splits)
  moreover have "recovery_values_ok r"
    unfolding r_def
    by (rule final_recovery_values [where failure = f, OF _ intent])
      (use recovery_ceiling_cases [of input f] in auto)
  ultimately show ?thesis
    unfolding c using ok base_canonical(2-5) [OF ok]
    by (simp add: canonical_def o'_def consistent_input_def Let_def identities_ok_def base_outcome_def)
qed

lemma classify_canonical:
  assumes "consistent_input h input"
  shows "canonical h (classifyToolOutcome h input)"
proof (cases h input rule: classify_cases)
  case success
  then show ?thesis using base_canonical(1) [OF assms] by simp
next
  case (diagnosed code)
  then have "code \<in> set CLASSIFIER_DIAGNOSTICS"
    using diagnostic_of_known [OF assms] by (auto simp: CLASSIFIER_DIAGNOSTICS_def)
  then show ?thesis using diagnosed(2) diagnosed_canonical [OF assms] by simp
next
  case (classified failure)
  then show ?thesis using classified_canonical [OF assms classified(3,2,1)] by simp
qed

section \<open>Normalised events are canonical\<close>

definition rounded :: "rat option \<Rightarrow> jval" where
  "rounded v = (case v of None \<Rightarrow> JUndef
     | Some r \<Rightarrow> if r \<ge> 0 then JNum (of_int \<lfloor>r + 1 / 2\<rfloor>) else JUndef)"

lemma duration_entry_simps [simp]:
  "fld (duration_entry k v) f = (if f = k then rounded v else JUndef)"
  "obj_keys (duration_entry k v) = (if rounded v = JUndef then [] else [k])"
  by (auto simp: duration_entry_def rounded_def finiteDuration_def split: option.splits)

lemma timing_fields:
  "fld (trustedToolTiming (Some t)) ''source'' = JStr ''runtime_boundary''"
  "fld (trustedToolTiming (Some t)) ''queueMs'' = rounded (tm_queueMs t)"
  "fld (trustedToolTiming (Some t)) ''executionMs'' = rounded (tm_executionMs t)"
  "fld (trustedToolTiming (Some t)) ''approvalWaitMs'' = rounded (tm_approvalWaitMs t)"
  "fld (trustedToolTiming (Some t)) ''totalActiveMs'' = rounded (tm_totalActiveMs t)"
  by (simp_all add: trustedToolTiming_def fld_append)

lemma rounded_ok: "nullish (rounded v) \<or> finiteDuration (rounded v) \<noteq> None"
  by (auto simp: rounded_def finiteDuration_def split: option.splits)

text \<open>A part of a duration never exceeds the whole, before or after rounding.\<close>

definition fits :: "rat option \<Rightarrow> rat option \<Rightarrow> bool" where
  "fits part whole = (case (part, whole) of (Some p, Some t) \<Rightarrow> p \<le> t | _ \<Rightarrow> True)"

lemma rounded_fits:
  assumes "fits part whole"
  shows "nullish (rounded whole) \<or> num_or_zero (rounded part) \<le> num_or_zero (rounded whole)"
proof (cases whole)
  case None
  then show ?thesis by (simp add: rounded_def)
next
  case (Some t)
  show ?thesis
  proof (cases part)
    case None
    then show ?thesis using Some by (simp add: rounded_def num_or_zero_def)
  next
    case p: (Some p)
    then have "p \<le> t" using assms Some by (simp add: fits_def)
    then have "of_int \<lfloor>p + 1 / 2\<rfloor> \<le> (of_int \<lfloor>t + 1 / 2\<rfloor> :: rat)" by (simp add: floor_mono)
    then show ?thesis using Some p by (simp add: rounded_def num_or_zero_def)
  qed
qed

lemma timing_ok_trusted:
  assumes "fits (tm_queueMs t) (tm_totalActiveMs t)" "fits (tm_executionMs t) (tm_totalActiveMs t)"
    "fits (tm_approvalWaitMs t) (tm_totalActiveMs t)"
  shows "timing_ok h (trustedToolTiming (Some t)) = Inr True"
proof -
  have "exactKeys (trustedToolTiming (Some t)) (''source'' # TIMING_KEYS)"
    by (simp add: exactKeys_def trustedToolTiming_def TIMING_KEYS_def list_all_iff)
  then show ?thesis
    using rounded_ok rounded_fits [OF assms(1)] rounded_fits [OF assms(2)] rounded_fits [OF assms(3)]
    unfolding timing_ok_def timing_fields TIMING_KEYS_def by (auto simp: timing_fields)
qed

definition le_opt :: "int option \<Rightarrow> int option \<Rightarrow> bool" where
  "le_opt a b = (case (a, b) of (Some x, Some y) \<Rightarrow> x \<le> y | _ \<Rightarrow> True)"

text \<open>
  What the normaliser relies on in the recorded call and does not check: its timestamps are in
  order, the waits it accumulated fit into its lifetime, its observation of unknown fields and its
  recovery parent are well-formed, and a read-only call has no side effect.
\<close>

definition trusted_call :: "js_host \<Rightarrow> tool_call option \<Rightarrow> string \<Rightarrow> bool" where
  "trusted_call h call createdAt \<longleftrightarrow>
     (case call of None \<Rightarrow> True
      | Some c \<Rightarrow>
          le_opt (epochMillis (tc_queuedAt c)) (epochMillis (tc_startedAt c)) \<and>
          le_opt (epochMillis (tc_startedAt c)) (epochMillis (Some createdAt)) \<and>
          le_opt (epochMillis (tc_queuedAt c)) (epochMillis (tc_approvalRequestedAt c)) \<and>
          fits (tc_approvalWaitMs c) (duration_rat (tc_queuedAt c) createdAt) \<and>
          (case tc_unknownFields c of None \<Rightarrow> True | Some u \<Rightarrow> unknown_fields_ok h (JObj u) = Inr True) \<and>
          (case truthy_option (tc_recoveryOf c) of None \<Rightarrow> True | Some i \<Rightarrow> is_sha256_hex i) \<and>
          (tc_effectClass c = Some ReadOnly \<longrightarrow> tc_sideEffect c \<noteq> Some True))"

text \<open>... and in the event: a consistent failure, not a retryable one for a rejection, a known
  diagnostic, and a textual capability intent.\<close>

definition trusted_event :: "kernel_event \<Rightarrow> bool" where
  "trusted_event e \<longleftrightarrow>
     (case failureFor e of None \<Rightarrow> True
      | Some f \<Rightarrow> consistent_failure f \<and>
          (ev_type e = ''tool.rejected'' \<longrightarrow> rc_disposition (baseRecovery f) \<noteq> RetryOnce)) \<and>
     (case truthy_option (stringField (ev_data e) ''classifierDiagnostic'') of None \<Rightarrow> True
      | Some c \<Rightarrow> c \<in> set CLASSIFIER_DIAGNOSTICS) \<and>
     (let intent = fld (sub_record (ev_data e) ''classifierAdvice'') ''capabilityIntent'' in
      truthy intent \<longrightarrow> is_string intent)"

lemma durationBetween_Some:
  "durationBetween a b = Some d \<longleftrightarrow>
     (\<exists>x y. epochMillis a = Some x \<and> epochMillis (Some b) = Some y \<and> x \<le> y \<and> d = y - x)"
  by (auto simp: durationBetween_def split: option.splits)

lemma fits_durations:
  assumes "le_opt (epochMillis a) (epochMillis a')" "le_opt (epochMillis (Some b')) (epochMillis (Some b))"
  shows "fits (duration_rat a' b') (duration_rat a b)"
  using assms
  by (auto simp: fits_def duration_rat_def le_opt_def durationBetween_def split: option.splits)

lemma le_opt_refl [simp]: "le_opt a a"
  by (simp add: le_opt_def split: option.splits)

lemma epochMillis_None [simp]: "epochMillis None = None"
  by (simp add: epochMillis_def truthy_option_def)

lemma duration_rat_None [simp]: "duration_rat None b = None"
  by (simp add: duration_rat_def durationBetween_def)

lemma fits_simps [simp]: "fits None w" "fits p None" "fits p p"
  by (simp_all add: fits_def split: option.splits)

lemma terminal_timing_ok:
  assumes "trusted_call h call createdAt"
  shows "timing_ok h (trustedToolTiming (Some (terminal_timing call createdAt))) = Inr True"
proof (cases call)
  case None
  show ?thesis unfolding None
    by (rule timing_ok_trusted) (simp_all add: terminal_timing_def call_field_def)
next
  case (Some c)
  have t: "le_opt (epochMillis (tc_queuedAt c)) (epochMillis (tc_startedAt c))"
    "le_opt (epochMillis (tc_startedAt c)) (epochMillis (Some createdAt))"
    "fits (tc_approvalWaitMs c) (duration_rat (tc_queuedAt c) createdAt)"
    using assms by (simp_all add: trusted_call_def Some)
  have "fits (duration_rat (tc_queuedAt c) (or_default (tc_startedAt c) createdAt))
      (duration_rat (tc_queuedAt c) createdAt)"
    using t(2) fits_durations [of "tc_queuedAt c" "tc_queuedAt c"] by (cases "tc_startedAt c") simp_all
  moreover have "fits (duration_rat (tc_startedAt c) createdAt) (duration_rat (tc_queuedAt c) createdAt)"
    by (rule fits_durations [OF t(1)]) simp
  ultimately show ?thesis
    using t(3) unfolding Some
    by (intro timing_ok_trusted) (simp_all add: terminal_timing_def call_field_def)
qed

lemma dispatch_state_of_known: "dispatch_state_of call b \<in> {''not_started'', ''started'', ''unknown''}"
  by (simp add: dispatch_state_of_def Let_def)

lemma replay_ok_terminal:
  assumes "\<And>c. call = Some c \<Longrightarrow> tc_effectClass c = Some ReadOnly \<Longrightarrow> tc_sideEffect c \<noteq> Some True"
    and "d \<in> {''not_started'', ''started'', ''unknown''}"
    and eff_def: "eff = external_effects_of e call d"
  shows "replay_ok d (effects_string eff) (Some (replay_safety_of call d eff))"
    and "replay_ok d (effects_string eff) None"
proof -
  have none: "eff = EffNone" if "d = ''not_started''"
    using that by (simp add: eff_def external_effects_of_def Let_def)
  have read: "eff = EffNone" if "d = ''started''" "call = Some c" "tc_effectClass c = Some ReadOnly"
    "eff \<noteq> EffUnknown" for c
    using that assms(1) [of c] by (auto simp: eff_def external_effects_of_def Let_def split: if_splits)
  let ?read = "case call of Some c \<Rightarrow> tc_effectClass c = Some ReadOnly | None \<Rightarrow> False"
  show "replay_ok d (effects_string eff) (Some (replay_safety_of call d eff))"
  proof (cases "d = ''started'' \<and> ?read \<and> eff \<noteq> EffUnknown")
    case True
    then have "eff = EffNone" using read by (cases call) auto
    moreover have "replay_safety_of call d eff = ''safe_read''" using True by (simp add: replay_safety_of_def)
    ultimately show ?thesis using True by (simp add: replay_ok_def)
  next
    case False
    then show ?thesis
      using none by (cases "d = ''not_started''") (simp_all add: replay_safety_of_def replay_ok_def)
  qed
  show "replay_ok d (effects_string eff) None"
    using none by (cases "d = ''not_started''") (simp_all add: replay_ok_def)
qed

lemma terminal_input_consistent:
  assumes call: "trusted_call h (map_of (to_calls (st_tools s)) (or_default (stringField (ev_data e) ''toolCallId'') []))
      (or_default (stringField (ev_data e) ''createdAt'') occurredAt)"
    and e: "trusted_event e"
  shows "consistent_input h (terminal_input e s occurredAt)"
proof -
  define c where "c = map_of (to_calls (st_tools s)) (or_default (stringField (ev_data e) ''toolCallId'') [])"
  define d where "d = dispatch_state_of c (call_field c tc_startedAt \<noteq> None \<or>
      or_default (stringField (ev_data e) ''toolCallId'') [] \<in> set (to_active (st_tools s)))"
  define eff where "eff = external_effects_of e c d"
  define inp where "inp = terminal_input e s occurredAt"
  note c_call = call [folded c_def]
  have d: "d \<in> {''not_started'', ''started'', ''unknown''}"
    unfolding d_def by (rule dispatch_state_of_known)
  have ro: "tc_sideEffect k \<noteq> Some True" if "c = Some k" "tc_effectClass k = Some ReadOnly" for k
    using that c_call by (simp add: trusted_call_def)
  note replay = replay_ok_terminal [OF ro d eff_def]
  have authority: "ki_authority inp = \<lparr>au_dispatchState = d, au_externalEffects = eff,
      au_replaySafety = Some (replay_safety_of c d eff),
      au_policyDenied = (map_option cf_kind (failureFor e) \<in> {Some ''policy_denied'', Some ''mandatory_policy_unavailable''}),
      au_approvalDenied = (map_option cf_kind (failureFor e) \<in> {Some ''approval_rejected'', Some ''auto_review_rejected''})\<rparr>"
    by (simp add: inp_def terminal_input_def Let_def c_def d_def eff_def)
  have safety: "truthy_option (Some (replay_safety_of c d eff)) = Some (replay_safety_of c d eff)"
    by (simp add: truthy_option_def replay_safety_of_def)
  have status: "ki_status inp = terminal_outcome_status e (failureFor e)"
    by (simp add: inp_def terminal_input_def Let_def)
  have st: "ki_status inp \<noteq> OutUnknown"
    unfolding status by (simp add: terminal_outcome_status_def Let_def)
  have rejected: "ev_type e = ''tool.rejected''" if "ki_status inp = OutRejected"
    using that unfolding status by (simp add: terminal_outcome_status_def Let_def split: if_splits)
  have fail: "ki_failure inp = None \<or> ki_failure inp = failureFor e"
    by (simp add: inp_def terminal_input_def Let_def)
  have failure: "consistent_failure f \<and>
      (cf_kind f \<in> set DENIAL_KINDS \<longrightarrow> au_policyDenied (ki_authority inp) \<or> au_approvalDenied (ki_authority inp)) \<and>
      (ki_status inp = OutRejected \<longrightarrow> rc_disposition (recovery_ceiling inp f) \<noteq> RetryOnce)"
    if "ki_failure inp = Some f" for f
  proof -
    have f: "failureFor e = Some f" using that fail by auto
    have "consistent_failure f" "ev_type e = ''tool.rejected'' \<Longrightarrow> rc_disposition (baseRecovery f) \<noteq> RetryOnce"
      using e f by (simp_all add: trusted_event_def)
    moreover have "rc_disposition (recovery_ceiling inp f) = Never \<or>
        rc_disposition (recovery_ceiling inp f) = rc_disposition (baseRecovery f)"
      using ceiling_disposition [of inp f] by auto
    ultimately show ?thesis
      using f rejected by (auto simp: authority DENIAL_KINDS_def)
  qed
  have advice: "ki_toolAdvice inp = terminal_advice e c"
    and diag: "ki_classifierDiagnostic inp = terminal_diagnostic e c (ki_status inp) (failureFor e)"
    and timing: "ki_timing inp = Some (terminal_timing c (or_default (stringField (ev_data e) ''createdAt'') occurredAt))"
    and rec: "ki_recoveryOf inp = truthy_option (call_field c tc_recoveryOf)"
    and unk: "ki_unknownFields inp = call_field c tc_unknownFields"
    by (simp_all add: inp_def terminal_input_def Let_def c_def)
  have intent: "truthy (fld (or_default (ki_toolAdvice inp) []) ''capabilityIntent'') \<longrightarrow>
      is_string (fld (or_default (ki_toolAdvice inp) []) ''capabilityIntent'')"
    using e unfolding advice
    by (simp add: terminal_advice_def trusted_event_def Let_def sub_record_def split: option.split)
  have "truthy_option (ki_classifierDiagnostic inp) = None \<or>
      truthy_option (ki_classifierDiagnostic inp) = truthy_option (stringField (ev_data e) ''classifierDiagnostic'') \<or>
      ki_classifierDiagnostic inp = Some ''classifier_missing''"
    unfolding diag by (simp add: terminal_diagnostic_def else_string_def truthy_option_def split: option.split)
  then have code: "case truthy_option (ki_classifierDiagnostic inp) of None \<Rightarrow> True
      | Some k \<Rightarrow> k \<in> set CLASSIFIER_DIAGNOSTICS"
    using e by (auto simp: trusted_event_def CLASSIFIER_DIAGNOSTICS_def truthy_option_def split: option.splits)
  have ids: "case ki_recoveryOf inp of None \<Rightarrow> True | Some i \<Rightarrow> is_sha256_hex i"
    "case ki_unknownFields inp of None \<Rightarrow> True | Some u \<Rightarrow> unknown_fields_ok h (JObj u) = Inr True"
    using c_call unfolding rec unk
    by (cases c; simp add: call_field_def trusted_call_def truthy_option_def)+
  show ?thesis
    unfolding inp_def [symmetric] consistent_input_def Let_def
    using d replay safety st failure intent code ids terminal_timing_ok [OF c_call]
    by (simp add: authority timing split: option.split)
qed

text \<open>A denied call is never dispatched, so only its failure, its times and its observations matter.\<close>

lemma denied_input_consistent:
  assumes "consistent_failure f" "timing_ok h (trustedToolTiming (Some t)) = Inr True"
    and "case call_field call tc_unknownFields of None \<Rightarrow> True | Some u \<Rightarrow> unknown_fields_ok h (JObj u) = Inr True"
  shows "consistent_input h (denied_input (Some f) t call)"
  using assms
  by (simp add: consistent_input_def denied_input_def denied_authority_def replay_ok_def truthy_option_def
      recovery_ceiling_def split: option.splits)

lemma trusted_call_unknownFields:
  "trusted_call h call createdAt \<Longrightarrow>
   (case call_field call tc_unknownFields of None \<Rightarrow> True | Some u \<Rightarrow> unknown_fields_ok h (JObj u) = Inr True)"
  by (cases call) (simp_all add: trusted_call_def call_field_def)

lemma classifyRuntimeFailure_consistent:
  "kind \<in> set FAILURE_KINDS \<Longrightarrow> consistent_failure (classifyRuntimeFailure kind message None)"
  by (simp add: consistent_failure_def classifyRuntimeFailure_def failure_with_def baseRecovery_def
      truthy_option_def)

lemma rejected_input_consistent:
  assumes "trusted_call h (event_call e s) createdAt" "trusted_event e" "ev_type e = ''approval.rejected''"
  shows "consistent_input h (rejected_input e s createdAt)"
proof -
  let ?call = "event_call e s"
  let ?f = "or_default (suppliedFailure (recordField (ev_data e) ''failure''))
    (classifyRuntimeFailure ''approval_rejected''
      (or_default (stringField (ev_data e) ''reason'') ''Approval was rejected.'') None)"
  have "failureFor e = Some ?f"
    using assms(3) by (simp add: failureFor_def Let_def split: option.split)
  then have "consistent_failure ?f" using assms(2) by (simp add: trusted_event_def)
  moreover have "fits (duration_rat (call_field ?call tc_approvalRequestedAt) createdAt)
      (duration_rat (call_field ?call tc_queuedAt) createdAt)"
  proof (cases ?call)
    case (Some c)
    then have "le_opt (epochMillis (tc_queuedAt c)) (epochMillis (tc_approvalRequestedAt c))"
      using assms(1) by (simp add: trusted_call_def)
    then show ?thesis by (simp add: Some call_field_def fits_durations)
  qed (simp add: call_field_def)
  ultimately show ?thesis
    unfolding rejected_input_def Let_def
    by (intro denied_input_consistent timing_ok_trusted trusted_call_unknownFields [OF assms(1)]) simp_all
qed

lemma duration_rat_nonneg: "duration_rat a b = Some d \<Longrightarrow> 0 \<le> d"
  by (auto simp: duration_rat_def durationBetween_Some)

lemma reviewed_input_consistent:
  assumes "trusted_call h (event_call e s) createdAt"
  shows "consistent_input h (reviewed_input e s createdAt)"
proof -
  have "''auto_review_rejected'' \<in> set FAILURE_KINDS" by (simp add: FAILURE_KINDS_def)
  then show ?thesis
    unfolding reviewed_input_def Let_def
    by (intro denied_input_consistent timing_ok_trusted trusted_call_unknownFields [OF assms]
        classifyRuntimeFailure_consistent)
      (simp_all add: fits_def le_max_iff_disj split: option.split)
qed

text \<open>The call and the time that the normalisation of an event consults.\<close>

definition event_trusted :: "js_host \<Rightarrow> agent_state \<Rightarrow> string \<Rightarrow> kernel_event \<Rightarrow> bool" where
  "event_trusted h s occurredAt e \<longleftrightarrow>
     ev_type e \<noteq> ''tool.retry_recorded'' \<and> trusted_event e \<and>
     trusted_call h
       (if ev_type e \<in> set TOOL_TERMINAL_EVENTS
        then map_of (to_calls (st_tools s)) (or_default (stringField (ev_data e) ''toolCallId'') [])
        else event_call e s)
       (or_default (stringField (ev_data e) ''createdAt'') occurredAt)"

lemma normalizeTerminalAgentEvent_other:
  "ev_type e \<notin> {''run.completed'', ''run.error''} \<Longrightarrow> normalizeTerminalAgentEvent e = e"
  by (simp add: normalizeTerminalAgentEvent_def Let_def)

lemma normalizeTerminalAgentEvent_type [simp]: "ev_type (normalizeTerminalAgentEvent e) = ev_type e"
  by (simp add: normalizeTerminalAgentEvent_def Let_def)

lemma terminal_event_canonical:
  assumes "event_trusted h s occurredAt e" "ev_type e \<in> set TOOL_TERMINAL_EVENTS"
  shows "isToolOutcome h (fld (ev_data (normalizeToolTerminalEvent h e s occurredAt)) ''outcome'') = Inr True"
proof -
  have "canonical h (classifyToolOutcome h (terminal_input e s occurredAt))"
    using assms by (intro classify_canonical terminal_input_consistent) (simp_all add: event_trusted_def)
  then show ?thesis
    by (simp add: normalizeToolTerminalEvent_def Let_def canonical_valid canonical_with_lineage)
qed

lemma with_outcome_canonical:
  "consistent_input h input \<Longrightarrow>
   isToolOutcome h (fld (ev_data (with_outcome e t (classifyToolOutcome h input))) ''outcome'') = Inr True"
  by (simp add: with_outcome_def canonical_valid classify_canonical)

lemma review_rejects_with_outcome [simp]:
  "review_rejects (ev_data (with_outcome e t o')) = review_rejects (ev_data e)"
  by (simp add: review_rejects_def with_outcome_def recordField_def)

lemmas normalize_event_defs =
  normalizeAgentEvent_def normalizeAgentToolOutcomeEvent_def TOOL_TERMINAL_EVENTS_def
  assertCanonicalToolOutcomeEvent_def assertCanonicalOutcome_def

lemma terminal_event_passes:
  assumes "event_trusted h s occurredAt e" and tool: "ev_type e \<in> set TOOL_TERMINAL_EVENTS"
  shows "assertCanonicalToolOutcomeEvent h (normalizeAgentEvent h e s occurredAt) = ok"
proof -
  have "ev_type (normalizeToolTerminalEvent h e s occurredAt) = ev_type e"
    by (simp add: normalizeToolTerminalEvent_def Let_def)
  moreover have "normalizeTerminalAgentEvent e = e"
    using tool by (intro normalizeTerminalAgentEvent_other) (auto simp: TOOL_TERMINAL_EVENTS_def)
  ultimately show ?thesis
    using tool terminal_event_canonical [OF assms]
    by (simp add: normalizeAgentEvent_def normalizeAgentToolOutcomeEvent_def
        assertCanonicalToolOutcomeEvent_def assertCanonicalOutcome_def)
qed

lemma rejected_event_passes:
  assumes "event_trusted h s occurredAt e" and rejected: "ev_type e = ''approval.rejected''"
  shows "assertCanonicalToolOutcomeEvent h (normalizeAgentEvent h e s occurredAt) = ok"
proof -
  let ?at = "or_default (stringField (ev_data e) ''createdAt'') occurredAt"
  have "consistent_input h (rejected_input e s ?at)"
    using assms by (intro rejected_input_consistent) (simp_all add: event_trusted_def TOOL_TERMINAL_EVENTS_def)
  from with_outcome_canonical [OF this, of e ?at] rejected show ?thesis
    by (simp add: normalize_event_defs normalizeTerminalAgentEvent_other normalizeApprovalRejected_def
        Let_def with_outcome_def)
qed

lemma review_event_passes:
  assumes "event_trusted h s occurredAt e" and review: "ev_type e = ''auto_review.completed''"
  shows "assertCanonicalToolOutcomeEvent h (normalizeAgentEvent h e s occurredAt) = ok"
proof (cases "review_rejects (ev_data e)")
  case True
  let ?at = "or_default (stringField (ev_data e) ''createdAt'') occurredAt"
  have "consistent_input h (reviewed_input e s ?at)"
    using assms by (intro reviewed_input_consistent) (simp add: event_trusted_def TOOL_TERMINAL_EVENTS_def)
  note valid = with_outcome_canonical [OF this, of e ?at]
  have "ev_type (with_outcome e t o') = ev_type e" for t o' by (simp add: with_outcome_def)
  then show ?thesis
    using review valid True
    by (simp add: normalize_event_defs normalizeTerminalAgentEvent_other
        normalizeAutoReviewCompleted_def Let_def)
next
  case False
  then have "\<not> review_rejects (obj_delete ''outcome'' (ev_data e))"
    by (simp add: review_rejects_def recordField_def fld_def)
  then show ?thesis
    using review False
    by (simp add: normalize_event_defs normalizeTerminalAgentEvent_other
        normalizeAutoReviewCompleted_def in_obj_keys_iff)
qed

text \<open>
  C34: an event that went through the normaliser passes the check in front of the reducers, so
  the kernel does not throw on its own outcomes. The hypothesis \<open>event_trusted\<close> collects what
  the code relies on without checking it, and is the subject of the findings below.
\<close>

theorem normalized_event_canonical:
  assumes "event_trusted h s occurredAt e"
  shows "assertCanonicalToolOutcomeEvent h (normalizeAgentEvent h e s occurredAt) = ok"
proof -
  consider "ev_type e \<in> set TOOL_TERMINAL_EVENTS" | "ev_type e = ''approval.rejected''"
    | "ev_type e = ''auto_review.completed''"
    | "ev_type e \<notin> set TOOL_TERMINAL_EVENTS" "ev_type e \<noteq> ''approval.rejected''"
        "ev_type e \<noteq> ''auto_review.completed''" by blast
  then show ?thesis
  proof cases
    case 4
    then show ?thesis
      using assms
      by (simp add: normalizeAgentEvent_def normalizeAgentToolOutcomeEvent_def
          assertCanonicalToolOutcomeEvent_def event_trusted_def)
  qed (use assms terminal_event_passes rejected_event_passes review_event_passes in blast)+
qed

definition sample_call :: "string \<Rightarrow> tool_status \<Rightarrow> tool_call" where
  "sample_call i st = \<lparr>tc_toolCallId = i, tc_name = ''read_file'', tc_displayLabel = None,
     tc_modelMessageId = ''m1'', tc_args = JUndef, tc_modelInvocationId = None, tc_ordinal = None,
     tc_createdAtTurnId = ''turn-1'', tc_taskId = None, tc_queuedAt = Some ''2026-01-01T00:00:00.000Z'',
     tc_startedAt = None, tc_approvalRequestedAt = None, tc_approvalWaitMs = None,
     tc_invocationFingerprint = None, tc_recoveryOf = None, tc_recoveryMode = None,
     tc_recoveryAdmission = Some ''admitted'', tc_result = None, tc_error = None, tc_failure = None,
     tc_outcome = None, tc_bindingId = None, tc_capabilityId = None, tc_capabilityRevision = None,
     tc_unknownFields = None, tc_approvalHash = None, tc_approvalGrant = None,
     tc_effectClass = Some ReadOnly, tc_sideEffect = Some False, tc_classificationReason = None,
     tc_presentation = None, tc_networkDecisions = None, tc_status = st\<rparr>"

definition with_call :: "tool_call \<Rightarrow> agent_state" where
  "with_call c = fresh_state\<lparr>st_tools := \<lparr>to_calls = [(tc_toolCallId c, c)], to_queue = [], to_active = []\<rparr>\<rparr>"

definition finished_event :: "jval \<Rightarrow> kernel_event" where
  "finished_event r = event ''tool.finished'' [(''toolCallId'', JStr ''call''), (''result'', r),
     (''createdAt'', JStr ''2026-01-01T00:00:01.200Z'')]"

definition rejected_event :: "string \<Rightarrow> kernel_event" where
  "rejected_event kind = event ''tool.rejected'' [(''toolCallId'', JStr ''call''),
     (''failure'', JObj [(''kind'', JStr kind)])]"

theorem normalized_event_canonical_witness:
  "event_trusted sample_host (with_call ((sample_call ''call'' TRunning)\<lparr>tc_approvalWaitMs := Some 1200\<rparr>))
     ''2026-01-01T00:00:02.000Z'' (finished_event (JObj [(''ok'', JBool True)])) \<and>
   assertCanonicalToolOutcomeEvent sample_host (normalizeAgentEvent sample_host
     (finished_event (JObj [(''ok'', JBool True)]))
     (with_call ((sample_call ''call'' TRunning)\<lparr>tc_approvalWaitMs := Some 1200\<rparr>))
     ''2026-01-01T00:00:02.000Z'') = ok"
proof -
  have "event_trusted sample_host (with_call ((sample_call ''call'' TRunning)\<lparr>tc_approvalWaitMs := Some 1200\<rparr>))
     ''2026-01-01T00:00:02.000Z'' (finished_event (JObj [(''ok'', JBool True)]))"
    by code_simp
  then show ?thesis using normalized_event_canonical by blast
qed

text \<open>
  Where the hypothesis fails the kernel throws on an event it normalised itself. A rejection that
  names a retryable failure is classified as \<open>retry_once\<close>, which the validator refuses for a
  rejected call.
\<close>

lemma rejection_with_retryable_failure_throws:
  "assertCanonicalToolOutcomeEvent sample_host (normalizeAgentEvent sample_host
     (rejected_event ''provider_unavailable'') (with_call (sample_call ''call'' TQueued)) ''2026-01-01T00:00:02.000Z'')
   = throw ''tool.rejected has invalid canonical ToolOutcome.''"
  by code_simp

text \<open>
  An approval wait that a reviewer measured at 1200.6 ms is rounded up, past the 1200 ms between
  the timestamps of the same call. The auto-review path takes the larger of the two; this one does
  not.
\<close>

lemma rounded_wait_throws:
  "assertCanonicalToolOutcomeEvent sample_host (normalizeAgentEvent sample_host
     (finished_event (JObj [(''ok'', JBool True)]))
     (with_call ((sample_call ''call'' TRunning)\<lparr>tc_approvalWaitMs := Some (6003 / 5)\<rparr>))
     ''2026-01-01T00:00:02.000Z'')
   = throw ''tool.finished has invalid canonical ToolOutcome.''"
  by code_simp

text \<open>A call queued as read-only and with a side effect can fail but cannot succeed.\<close>

lemma read_only_side_effect_throws:
  "assertCanonicalToolOutcomeEvent sample_host (normalizeAgentEvent sample_host
     (finished_event (JObj [(''ok'', JBool True)]))
     (with_call ((sample_call ''call'' TRunning)\<lparr>tc_sideEffect := Some True\<rparr>))
     ''2026-01-01T00:00:02.000Z'')
   = throw ''tool.finished has invalid canonical ToolOutcome.''"
  by code_simp

section \<open>The calendar\<close>

text \<open>The Gregorian calendar as a successor function on dates.\<close>

definition leap_year :: "int \<Rightarrow> bool" where
  "leap_year y \<longleftrightarrow> 4 dvd y \<and> (\<not> 100 dvd y \<or> 400 dvd y)"

definition days_in_month :: "int \<Rightarrow> int \<Rightarrow> int" where
  "days_in_month y m =
     (if m = 2 then (if leap_year y then 29 else 28) else if m \<in> {4, 6, 9, 11} then 30 else 31)"

definition valid_date :: "int \<times> int \<times> int \<Rightarrow> bool" where
  "valid_date = (\<lambda>(y, m, d). 1 \<le> m \<and> m \<le> 12 \<and> 1 \<le> d \<and> d \<le> days_in_month y m)"

definition next_date :: "int \<times> int \<times> int \<Rightarrow> int \<times> int \<times> int" where
  "next_date = (\<lambda>(y, m, d).
     if d < days_in_month y m then (y, m, d + 1)
     else if m < 12 then (y, m + 1, 1) else (y + 1, 1, 1))"

definition days_before_year :: "int \<Rightarrow> int" where
  "days_before_year a = 365 * a + a div 4 - a div 100 + a div 400"

lemma div_shift:
  fixes q r k n :: int
  assumes "k \<noteq> 0"
  shows "(q * (k * n) + r) div k = n * q + r div k"
proof -
  have "q * (k * n) + r = r + k * (n * q)" by (simp add: algebra_simps)
  then show ?thesis using assms by (simp only: div_mult_self2) simp
qed

lemma era_split:
  fixes a :: int
  defines "r \<equiv> a - a div 400 * 400"
  shows "a div 4 = 100 * (a div 400) + r div 4" and "a div 100 = 4 * (a div 400) + r div 100"
proof -
  have "a = a div 400 * (4 * 100) + r" "a = a div 400 * (100 * 4) + r" by (simp_all add: r_def)
  then show "a div 4 = 100 * (a div 400) + r div 4" "a div 100 = 4 * (a div 400) + r div 100"
    using div_shift [of 4 "a div 400" 100 r] div_shift [of 100 "a div 400" 4 r] by simp_all
qed

lemma div_pred:
  fixes y k :: int
  assumes "0 < k"
  shows "(y - 1) div k = (if k dvd y then y div k - 1 else y div k)"
proof (cases "k dvd y")
  case True
  then obtain q where y: "y = k * q" by (auto elim: dvdE)
  have "(k * q - 1) div k = q - 1"
    using assms by (intro int_div_pos_eq [where r = "k - 1"]) (auto simp: algebra_simps)
  then show ?thesis using assms y by simp
next
  case False
  then have "y mod k \<noteq> 0" by (simp add: dvd_eq_mod_eq_0)
  moreover have "0 \<le> y mod k" "y mod k < k" using assms by simp_all
  moreover have "y = k * (y div k) + y mod k" by simp
  ultimately have "(y - 1) div k = y div k"
    using assms by (intro int_div_pos_eq [where r = "y mod k - 1"]) linarith+
  then show ?thesis using False by simp
qed

lemma days_before_year_step: "days_before_year y = days_before_year (y - 1) + (if leap_year y then 366 else 365)"
proof -
  have "4 dvd y" if "100 dvd y" using that dvd_trans [of 4 100 y] by simp
  moreover have "100 dvd y" if "400 dvd y" using that dvd_trans [of 100 400 y] by simp
  ultimately show ?thesis
    by (simp add: days_before_year_def leap_year_def div_pred [of 4] div_pred [of 100] div_pred [of 400])
qed
lemma civil_days_closed:
  "civil_days y m d =
     days_before_year (y - (if m \<le> 2 then 1 else 0)) +
     (153 * (m + (if m > 2 then -3 else 9)) + 2) div 5 + d - 719469"
proof -
  define a where "a = y - (if m \<le> 2 then 1 else 0)"
  define doy where "doy = (153 * (m + (if m > 2 then -3 else 9)) + 2) div 5"
  have "civil_days y m d = a div 400 * 146097 + ((a - a div 400 * 400) * 365 + (a - a div 400 * 400) div 4
      - (a - a div 400 * 400) div 100 + (doy + d - 1)) - 719468"
    by (simp add: civil_days_def Let_def a_def doy_def)
  also have "\<dots> = days_before_year a + doy + d - 719469"
    unfolding days_before_year_def era_split [of a] by (simp add: algebra_simps)
  finally show ?thesis by (simp add: a_def doy_def)
qed

lemma month_cases:
  fixes m :: int
  assumes "1 \<le> m" "m \<le> 12"
  shows "m \<in> {1, 2, 3, 4, 5, 6, 7, 8, 9, 10, 11, 12}"
  using assms by (simp, presburger)

lemma civil_days_month_end:
  assumes "1 \<le> m" "m \<le> 12"
  shows "civil_days y m (days_in_month y m) + 1 =
    (if m < 12 then civil_days y (m + 1) 1 else civil_days (y + 1) 1 1)"
  using month_cases [OF assms] days_before_year_step [of y]
  by (auto simp: civil_days_closed days_in_month_def)

definition day_number :: "int \<times> int \<times> int \<Rightarrow> int" where
  "day_number = (\<lambda>(y, m, d). civil_days y m d)"

lemma next_date_valid: "valid_date t \<Longrightarrow> valid_date (next_date t)"
  by (auto simp: valid_date_def next_date_def days_in_month_def split: prod.splits if_splits)

lemma day_number_next:
  assumes "valid_date t"
  shows "day_number (next_date t) = day_number t + 1"
proof -
  obtain y m d where t: "t = (y, m, d)" by (cases t)
  show ?thesis
  proof (cases "d < days_in_month y m")
    case True
    then show ?thesis by (simp add: t day_number_def next_date_def civil_days_closed)
  next
    case False
    then have "d = days_in_month y m" "1 \<le> m" "m \<le> 12" using assms by (simp_all add: t valid_date_def)
    then show ?thesis using civil_days_month_end [of m y] by (simp add: t day_number_def next_date_def)
  qed
qed

lemma valid_iterate: "valid_date ((next_date ^^ n) (1970, 1, 1))"
  by (induction n) (simp_all add: next_date_valid, simp add: valid_date_def days_in_month_def)

text \<open>
  The arithmetic behind every duration counts days. The day number that \<open>epochMillis\<close>
  computes for the n-th date after 1 January 1970, counted with the leap year rule of the
  Gregorian calendar, is n.
\<close>

theorem civil_days_gregorian:
  "(\<lambda>(y, m, d). civil_days y m d) ((next_date ^^ n) (1970, 1, 1)) = int n"
proof (induction n)
  case 0
  show ?case by (simp add: civil_days_def)
next
  case (Suc n)
  then show ?case using day_number_next [OF valid_iterate [of n]] by (simp add: day_number_def)
qed

section \<open>Reading outcomes back\<close>

lemma read_strings [simp]:
  "read_status (JStr (outcome_status_string s)) = s"
  "read_disposition (JStr (disposition_string d)) = d"
  "read_effects (JStr (effects_string e)) = e"
  by ((cases s, simp_all add: read_status_def)[1], (cases d, simp_all add: read_disposition_def)[1],
      (cases e, simp_all add: read_effects_def)[1])

lemma read_recovery_json: "read_recovery (recovery_json r) = r"
  by (cases r) (simp add: read_recovery_def recovery_json_fields numberField_def int_of_def split: option.split)

lemma sub_record_simps:
  "fld o' k = JObj r \<Longrightarrow> sub_record o' k = r" "fld o' k = JUndef \<Longrightarrow> sub_record o' k = []"
  by (simp_all add: sub_record_def recordField_def)

text \<open>
  The typed view of outcomes loses nothing: an outcome written as the JSON object an event carries and
  viewed again is the same outcome, in all seven statuses and with every optional part present or
  absent.
\<close>

lemma outcome_view_lossless:
  assumes "oc_failureKind o' \<noteq> None \<or> oc_detailCode o' = None"
  shows "read_outcome (outcome_json o') = o'"
proof -
  let ?f = "sub_record (outcome_json o') ''failure''"
  have kind: "stringField ?f ''kind'' = oc_failureKind o'" and detail: "stringField ?f ''detailCode'' = oc_detailCode o'"
    using assms
    by (cases "oc_failureKind o'"; cases "oc_detailCode o'";
        simp add: sub_record_def recordField_def outcome_json_fields failure_value_def stringField_def)+
  have lineage: "stringField (sub_record (outcome_json o') ''lineage'') ''failureInstanceId'' = oc_failureInstanceId o'"
      "stringField (sub_record (outcome_json o') ''lineage'') ''recoveryOf'' = oc_recoveryOf o'"
    by (cases "oc_failureInstanceId o'"; cases "oc_recoveryOf o'";
        simp add: sub_record_def recordField_def outcome_json_fields lineage_value_def stringField_def fld_append)+
  have rest: "sub_record (outcome_json o') ''recovery'' = recovery_json (oc_recovery o')"
      "sub_record (outcome_json o') ''timing'' = oc_timing o'"
      "recordField (outcome_json o') ''unknownFields'' = oc_unknownFields o'"
      "stringField (outcome_json o') ''replaySafety'' = oc_replaySafety o'"
      "stringField (outcome_json o') ''dispatchState'' = Some (oc_dispatchState o')"
      "or_default (arrayField (outcome_json o') ''diagnosticCodes'') [] = oc_diagnosticCodes o'"
    by (simp_all add: sub_record_def recordField_def stringField_def arrayField_def outcome_json_fields
        split: option.split)
  show ?thesis
    unfolding read_outcome_def kind detail lineage rest read_recovery_json
    by (cases o') (simp add: outcome_json_fields)
qed

section \<open>One identity for a failure\<close>

lemma read_lineage_status:
  "oc_status (read_outcome (with_lineage h i fp o')) = oc_status o'"
  "oc_failureKind o' \<noteq> None \<Longrightarrow> oc_detailCode (read_outcome (with_lineage h i fp o')) = oc_detailCode o'"
  by (cases "truthy_option fp"; cases "oc_detailCode o'";
      auto simp: read_outcome_def with_lineage_def Let_def outcome_json_fields sub_record_def recordField_def
        failure_value_def stringField_def)+

lemma digestFailureIdentity_eq: "digestFailureIdentity h i f o' = toolFailureInstanceId h i f o'"
  by (simp add: digestFailureIdentity_def toolFailureInstanceId_def canonicalFailureDetail_def)

lemma classified_kind:
  "ki_status input \<noteq> OutSuccess \<Longrightarrow> oc_failureKind (classifyToolOutcome h input) \<noteq> None"
  by (cases h input rule: classify_cases) (auto simp: diagnosed_def classified_def Let_def)

text \<open>
  The event and the journal name a failure alike. The failure identity that normalisation
  writes into the outcome of a failed call with a fingerprint is the identity under which the
  recovery journal records that outcome.
\<close>

theorem failure_identity_agrees:
  fixes h :: js_host
  assumes "ki_status (terminal_input e s occurredAt) \<noteq> OutSuccess"
    and "map_of (to_calls (st_tools s)) toolCallId = Some call"
    and "stringField (ev_data e) ''toolCallId'' = Some toolCallId"
    and "tc_invocationFingerprint call = Some fp" "fp \<noteq> []"
  defines "outcome \<equiv> read_outcome (sub_record (ev_data (normalizeToolTerminalEvent h e s occurredAt)) ''outcome'')"
  shows "oc_failureInstanceId outcome = Some (toolFailureInstanceId h toolCallId fp outcome)"
proof -
  define o' where "o' = classifyToolOutcome h (terminal_input e s occurredAt)"
  have fp: "truthy_option (Some fp) = Some fp" using assms(5) by (simp add: truthy_option_def)
  have "sub_record (ev_data (normalizeToolTerminalEvent h e s occurredAt)) ''outcome'' =
      with_lineage h toolCallId (Some fp) o'"
    using assms(1-4)
    by (simp add: normalizeToolTerminalEvent_def Let_def o'_def call_field_def sub_record_def recordField_def)
  then have out: "outcome = read_outcome (with_lineage h toolCallId (Some fp) o')"
    by (simp add: outcome_def)
  have "oc_failureInstanceId outcome = Some (digestFailureIdentity h toolCallId fp o')"
    unfolding out with_lineage_def fp
    by (simp add: read_outcome_def Let_def sub_record_def recordField_def stringField_def)
  moreover have "oc_status outcome = oc_status o'" "oc_detailCode outcome = oc_detailCode o'"
    using read_lineage_status(1) [of h toolCallId "Some fp" o']
      read_lineage_status(2) [of o' h toolCallId "Some fp"] classified_kind [OF assms(1), of h]
    by (simp_all add: out o'_def)
  ultimately show ?thesis
    by (simp add: digestFailureIdentity_eq toolFailureInstanceId_def canonicalFailureDetail_def)
qed

definition failing_state :: agent_state where
  "failing_state = with_call ((sample_call ''call'' TRunning)\<lparr>tc_invocationFingerprint := Some ''fp''\<rparr>)"

theorem failure_identity_agrees_witness:
  "oc_failureInstanceId (read_outcome (sub_record (ev_data (normalizeToolTerminalEvent sample_host
     (finished_event (JObj [(''ok'', JBool False)])) failing_state [])) ''outcome'')) =
   Some (toolFailureInstanceId sample_host ''call'' ''fp'' (read_outcome (sub_record (ev_data
     (normalizeToolTerminalEvent sample_host (finished_event (JObj [(''ok'', JBool False)])) failing_state []))
     ''outcome'')))"
proof (rule failure_identity_agrees)
  show "ki_status (terminal_input (finished_event (JObj [(''ok'', JBool False)])) failing_state []) \<noteq> OutSuccess"
    by code_simp
  show "map_of (to_calls (st_tools failing_state)) ''call'' =
      Some ((sample_call ''call'' TRunning)\<lparr>tc_invocationFingerprint := Some ''fp''\<rparr>)"
    by (simp add: failing_state_def with_call_def sample_call_def)
  show "stringField (ev_data (finished_event (JObj [(''ok'', JBool False)]))) ''toolCallId'' = Some ''call''"
    by (simp add: finished_event_def event_def stringField_def)
qed (simp_all add: sample_call_def)
end
