(* ===== verification/Kite_Authorization.thy ===== *)
theory Kite_Authorization
  imports Kite_Outcome Kite_Review
begin

text \<open>
  src/packages/agent-kernel/src/core/authorization/reducer.ts: the reducer that owns interaction
  modes and the approval queue. A request for approval becomes a pending entry, in the order of
  its queue sequence; a user's grant, a released batch of equal commands, an approving review or
  the full-access mode authorises entries; tool events move authorised entries through dispatch to
  an end; receipts record which authorisation was spent. The whole reducer is modelled; its
  properties are in Kite_Authorization_Inv.
\<close>

section \<open>Helpers\<close>

definition updateToolCall ::
  "agent_state \<Rightarrow> string \<Rightarrow> (tool_call option \<Rightarrow> tool_call option) \<Rightarrow> agent_state" where
  "updateToolCall s toolCallId update =
     (case update (map_of (to_calls (st_tools s)) toolCallId) of None \<Rightarrow> s
      | Some next \<Rightarrow> s\<lparr>st_tools := (st_tools s)\<lparr>to_calls :=
          obj_set toolCallId next (to_calls (st_tools s))\<rparr>\<rparr>)"

text \<open>A number field that is a safe integer.\<close>

definition safe_int_field :: "jobj \<Rightarrow> string \<Rightarrow> int option" where
  "safe_int_field o' f = (if is_safe_integer (fld o' f) then Some (int_of (fld o' f)) else None)"

definition opt_value :: "string option \<Rightarrow> jval" where
  "opt_value a = (case a of None \<Rightarrow> JUndef | Some s \<Rightarrow> JStr s)"

definition max_int :: "int \<Rightarrow> int \<Rightarrow> int" where
  "max_int a b = (if a < b then b else a)"

datatype circuit_input = CircuitApproval rat | CircuitRejection rat string string

definition circuit_time :: "circuit_input \<Rightarrow> rat" where
  "circuit_time i = (case i of CircuitApproval t \<Rightarrow> t | CircuitRejection t n r \<Rightarrow> t)"

definition evaluateAutoReviewCircuit :: "auto_review_state \<Rightarrow> circuit_input \<Rightarrow> auto_review_state" where
  "evaluateAutoReviewCircuit state input =
     (let windowStart = circuit_time input - 30000;
          rejectionHistory = filter (\<lambda>entry. re_timestamp entry \<ge> windowStart) (av_rejectionHistory state) in
      case input of
        CircuitApproval t \<Rightarrow> state\<lparr>av_consecutiveRejects := 0, av_rejectionHistory := rejectionHistory,
          av_circuitBreakerTripped := False\<rparr>
      | CircuitRejection t toolName reason \<Rightarrow>
          let consecutiveRejects = av_consecutiveRejects state + 1;
              nextHistory = rejectionHistory @
                [\<lparr>re_timestamp = t, re_toolName = toolName, re_reason = reason\<rparr>] in
          state\<lparr>av_consecutiveRejects := consecutiveRejects, av_rejectionHistory := nextHistory,
            av_circuitBreakerTripped := (av_circuitBreakerTripped state \<or>
              consecutiveRejects \<ge> 3 \<or> length nextHistory \<ge> 20)\<rparr>)"

definition interactionMode :: "string option \<Rightarrow> interaction_mode option" where
  "interactionMode v =
     (if v = Some ''accept_edits'' then Some AcceptEdits else if v = Some ''auto'' then Some AutoMode
      else if v = Some ''full'' then Some FullMode else None)"

definition approvalGrant :: "jval \<Rightarrow> string option" where
  "approvalGrant v = (if is_grant v then as_string v else None)"

definition EPOCH :: string where
  "EPOCH = ''1970-01-01T00:00:00.000Z''"

definition pendingCreatedAt :: "jobj \<Rightarrow> string" where
  "pendingCreatedAt payload = or_default (stringField payload ''createdAt'') EPOCH"

definition pendingRoute :: "jobj \<Rightarrow> approval_route" where
  "pendingRoute payload =
     (if stringField payload ''approvalRoute'' = Some ''auto'' \<or> stringField payload ''route'' = Some ''auto''
      then RouteAuto else RouteUser)"

definition IDENTITY_FIELDS :: "string list" where
  "IDENTITY_FIELDS = [''sessionId'', ''threadId'', ''workspace'', ''canonicalWorkspaceIdentity'', ''cwd'',
     ''executor'', ''environment'', ''scope'', ''effects'', ''parserRevision'', ''commandDigest'']"

definition isCompleteCommandIdentity :: "jobj option \<Rightarrow> bool" where
  "isCompleteCommandIdentity v =
     (case v of None \<Rightarrow> False
      | Some record' \<Rightarrow>
          list_all (\<lambda>field. stringOrUndefined (fld record' field) \<noteq> None) IDENTITY_FIELDS \<and>
          (fld record' ''executorRevision'' = JUndef \<or>
           stringOrUndefined (fld record' ''executorRevision'') \<noteq> None))"

text \<open>A complete identity record, read as the identity it is.\<close>

definition identity_of :: "jobj \<Rightarrow> command_identity" where
  "identity_of r =
     (let f = (\<lambda>k. or_default (stringField r k) []) in
      \<lparr>id_sessionId = f ''sessionId'', id_threadId = f ''threadId'', id_workspace = f ''workspace'',
       id_canonicalWorkspaceIdentity = f ''canonicalWorkspaceIdentity'', id_cwd = f ''cwd'',
       id_executor = f ''executor'', id_environment = f ''environment'', id_scope = f ''scope'',
       id_effects = f ''effects'', id_parserRevision = f ''parserRevision'',
       id_executorRevision = stringField r ''executorRevision'', id_commandDigest = f ''commandDigest''\<rparr>)"

definition invocation_json :: "tool_call option \<Rightarrow> jobj" where
  "invocation_json call =
     (case call of None \<Rightarrow> []
      | Some c \<Rightarrow>
          [(''toolCallId'', JStr (tc_toolCallId c)), (''name'', JStr (tc_name c)), (''args'', tc_args c),
           (''modelMessageId'', JStr (tc_modelMessageId c)),
           (''modelInvocationId'', opt_value (tc_modelInvocationId c)),
           (''ordinal'', case tc_ordinal c of None \<Rightarrow> JUndef | Some r \<Rightarrow> JNum r),
           (''createdAtTurnId'', JStr (tc_createdAtTurnId c)), (''taskId'', opt_value (tc_taskId c))])"

definition non_negative_or :: "jobj \<Rightarrow> string \<Rightarrow> int \<Rightarrow> int" where
  "non_negative_or payload f d =
     (case safe_int_field payload f of Some i \<Rightarrow> if i \<ge> 0 then i else d | None \<Rightarrow> d)"

definition pendingFromEvent ::
  "js_host \<Rightarrow> agent_state \<Rightarrow> jobj \<Rightarrow> string \<Rightarrow> string \<Rightarrow> approval_route \<Rightarrow> approval_status \<Rightarrow> pending_approval" where
  "pendingFromEvent h s payload interactionId toolCallId route status =
     (let approvalRecord = approvalPayloadFromEvent (JObj payload);
          call = map_of (to_calls (st_tools s)) toolCallId;
          supplied = recordField payload ''commandIdentity'';
          complete = isCompleteCommandIdentity supplied;
          commandIdentity = commandIdentityFromApproval h s
            (if complete then obj_set ''commandIdentity'' (JObj (or_default supplied [])) approvalRecord
             else approvalRecord);
          approvalHash = stringOrUndefined (fld approvalRecord ''approvalHash'');
          owner = sub_record payload ''owner'' in
      \<lparr>pa_interactionId = interactionId, pa_toolCallId = toolCallId,
       pa_parentToolCallId = stringOrUndefined (fld payload ''parentToolCallId''),
       pa_childSubagentId = stringOrUndefined (fld payload ''childSubagentId''),
       pa_childToolCallId = (if stringField owner ''kind'' = Some ''subagent_tool''
         then stringOrUndefined (fld owner ''toolCallId'') else None),
       pa_runtimeToolCallId = stringOrUndefined (fld payload ''runtimeToolCallId''),
       pa_route = route,
       pa_fullModeBypassEligible = truthy (fld payload ''fullModeBypassEligible''),
       pa_fullModePolicyBypassAllowed = truthy (fld payload ''fullModePolicyBypassAllowed''),
       pa_bindingDigest = or_default approvalHash (if complete then id_commandDigest commandIdentity else []),
       pa_approval = normalizeApprovalPayload approvalRecord,
       pa_invocation = invocation_json call,
       pa_commandIdentity = (if complete then Some commandIdentity else None),
       pa_commandKey = (if complete then Some (approvalCommandGrantKey h commandIdentity) else None),
       pa_approvalHash = approvalHash,
       pa_sequence = non_negative_or payload ''queueSequence'' (st_nextQueueSequence s),
       pa_generation = non_negative_or payload ''queueGeneration'' (st_approvalGeneration s),
       pa_createdAt = pendingCreatedAt payload,
       pa_status = status, pa_receiptId = None, pa_authorizationSource = None, pa_dispatchState = None\<rparr>)"

definition ownerMatchesPending :: "pending_approval \<Rightarrow> jval \<Rightarrow> bool" where
  "ownerMatchesPending pending owner =
     (case owner of
        JObj candidate \<Rightarrow>
          if fld candidate ''kind'' = JStr ''root_tool''
          then pa_childSubagentId pending = None \<and> pa_parentToolCallId pending = None \<and>
            fld candidate ''toolCallId'' = JStr (pa_toolCallId pending)
          else non_empty (pa_childToolCallId pending) \<and>
            fld candidate ''kind'' = JStr ''subagent_tool'' \<and>
            fld candidate ''toolCallId'' = opt_value (pa_childToolCallId pending) \<and>
            fld candidate ''subagentId'' = opt_value (pa_childSubagentId pending) \<and>
            fld candidate ''parentToolCallId'' = opt_value (pa_parentToolCallId pending)
      | _ \<Rightarrow> False)"

definition approvalQueueState ::
  "agent_state \<Rightarrow> (string \<times> pending_approval) list \<Rightarrow> string option \<Rightarrow> agent_state" where
  "approvalQueueState s pendings activeApprovalId =
     s\<lparr>st_pendingApprovals := pendings, st_activeApprovalId := activeApprovalId,
       st_interactions := focusedInteraction pendings activeApprovalId\<rparr>"

definition nextQueueSequence :: "agent_state \<Rightarrow> pending_approval \<Rightarrow> int" where
  "nextQueueSequence s pending = max_int (st_nextQueueSequence s) (pa_sequence pending + 1)"

definition wait_elapsed :: "js_host \<Rightarrow> tool_call \<Rightarrow> string option \<Rightarrow> rat option \<Rightarrow> rat option" where
  "wait_elapsed h call approvedAt measuredApprovalWaitMs =
     (let parse = (\<lambda>v. case truthy_option v of None \<Rightarrow> None | Some t \<Rightarrow> date_parse h t) in
      case (parse (tc_approvalRequestedAt call), parse approvedAt) of
        (Some started, Some finished) \<Rightarrow>
          if finished \<ge> started then Some (finished - started)
          else (case measuredApprovalWaitMs of Some m \<Rightarrow> if m \<ge> 0 then Some m else None | None \<Rightarrow> None)
      | _ \<Rightarrow> (case measuredApprovalWaitMs of Some m \<Rightarrow> if m \<ge> 0 then Some m else None | None \<Rightarrow> None))"

definition pendingToolStatus ::
  "js_host \<Rightarrow> agent_state \<Rightarrow> string \<Rightarrow> tool_status \<Rightarrow> string option \<Rightarrow> string option \<Rightarrow> rat option \<Rightarrow> agent_state" where
  "pendingToolStatus h s toolCallId status grant approvedAt measuredApprovalWaitMs =
     updateToolCall s toolCallId (map_option (\<lambda>call.
       let granted = (case truthy_option grant of None \<Rightarrow> call | Some g \<Rightarrow> call\<lparr>tc_approvalGrant := Some g\<rparr>);
           waited = (case wait_elapsed h call approvedAt measuredApprovalWaitMs of None \<Rightarrow> granted
             | Some elapsed \<Rightarrow> granted\<lparr>tc_approvalWaitMs :=
                 Some (or_default (tc_approvalWaitMs call) 0 + elapsed)\<rparr>) in
       waited\<lparr>tc_status := status\<rparr>))"

fun terminalApprovalStatus :: "approval_status \<Rightarrow> bool" where
  "terminalApprovalStatus ASucceeded = True"
| "terminalApprovalStatus AFailed = True"
| "terminalApprovalStatus ACancelled = True"
| "terminalApprovalStatus ARejected = True"
| "terminalApprovalStatus AExpired = True"
| "terminalApprovalStatus _ = False"

definition sameCommandIdentity :: "command_identity option \<Rightarrow> command_identity option \<Rightarrow> bool" where
  "sameCommandIdentity left right =
     (case (left, right) of
        (Some l, Some r) \<Rightarrow>
          id_sessionId l = id_sessionId r \<and> id_threadId l = id_threadId r \<and>
          id_workspace l = id_workspace r \<and>
          id_canonicalWorkspaceIdentity l = id_canonicalWorkspaceIdentity r \<and>
          id_cwd l = id_cwd r \<and> id_executor l = id_executor r \<and>
          id_environment l = id_environment r \<and> id_scope l = id_scope r \<and>
          id_effects l = id_effects r \<and> id_parserRevision l = id_parserRevision r \<and>
          or_default (id_executorRevision l) [] = or_default (id_executorRevision r) [] \<and>
          id_commandDigest l = id_commandDigest r
      | _ \<Rightarrow> False)"

definition restorePendingAfterClear :: "pending_approval \<Rightarrow> int \<Rightarrow> pending_approval" where
  "restorePendingAfterClear pending generation =
     pendingWithStatus pending (if pa_route pending = RouteAuto then AutoReviewing else AwaitingUser)
       (\<lambda>p. p\<lparr>pa_generation := generation, pa_fullModeBypassEligible := False,
          pa_authorizationSource := None, pa_receiptId := None\<rparr>)"

definition pendingNeedsGenerationRebase :: "pending_approval \<Rightarrow> bool" where
  "pendingNeedsGenerationRebase pending \<longleftrightarrow>
     \<not> terminalApprovalStatus (pa_status pending) \<and> pa_status pending \<noteq> AuthorizedQueued \<and>
     pa_status pending \<noteq> ARunning"

text \<open>
  The loops of the reducer run over the entries of a copied \<open>Map\<close> and set at most the entry they
  are at, so an entry is visited once, with the value it had before the loop.
\<close>

fun sweep_pending ::
  "(string \<Rightarrow> pending_approval \<Rightarrow> 's \<Rightarrow> pending_approval \<times> 's) \<Rightarrow>
   (string \<times> pending_approval) list \<Rightarrow> 's \<Rightarrow> (string \<times> pending_approval) list \<times> 's" where
  "sweep_pending f [] s = ([], s)"
| "sweep_pending f ((i, p) # rest) s =
     (let (p', s') = f i p s; (rest', s'') = sweep_pending f rest s' in ((i, p') # rest', s''))"

section \<open>Changing the interaction mode\<close>

definition waiting_tool_status :: "approval_route \<Rightarrow> tool_status" where
  "waiting_tool_status route = (if route = RouteAuto then TAwaitingAutoReview else TAwaitingApproval)"

definition release_for_full ::
  "js_host \<Rightarrow> string \<Rightarrow> pending_approval \<Rightarrow> agent_state \<Rightarrow> pending_approval \<times> agent_state" where
  "release_for_full h i pending s =
     (if \<not> pa_fullModePolicyBypassAllowed pending \<or> terminalApprovalStatus (pa_status pending) \<or>
        pa_status pending = AuthorizedQueued \<or> pa_status pending = ARunning
      then (pending, s)
      else (pendingWithStatus pending AuthorizedQueued
              (\<lambda>p. p\<lparr>pa_fullModeBypassEligible := True, pa_authorizationSource := Some ''mode_full'',
                pa_receiptId := None, pa_dispatchState := Some ''before_dispatch''\<rparr>),
            pendingToolStatus h s (pa_toolCallId pending) TAuthorizedQueued None None None))"

definition restore_from_full ::
  "js_host \<Rightarrow> string \<Rightarrow> pending_approval \<Rightarrow> agent_state \<Rightarrow> pending_approval \<times> agent_state" where
  "restore_from_full h i pending s =
     (if pa_authorizationSource pending \<noteq> Some ''mode_full'' \<or> pa_status pending \<noteq> AuthorizedQueued
      then (pending, s)
      else let restored = restorePendingAfterClear pending (pa_generation pending) in
        (restored, pendingToolStatus h s (pa_toolCallId pending) (waiting_tool_status (pa_route restored))
           None None None))"

definition swept ::
  "(string \<Rightarrow> pending_approval \<Rightarrow> agent_state \<Rightarrow> pending_approval \<times> agent_state) \<Rightarrow> agent_state \<Rightarrow> agent_state" where
  "swept f s =
     (let (pendings, next) = sweep_pending f (st_pendingApprovals s) s in
      approvalQueueState next pendings (chooseApprovalFocus pendings))"

definition clear_execution_mode :: "agent_state \<Rightarrow> agent_state" where
  "clear_execution_mode s =
     (case getActiveTask s of None \<Rightarrow> s
      | Some t \<Rightarrow> s\<lparr>st_tasks := obj_set (tk_taskId t) (t\<lparr>tk_executionMode := None\<rparr>) (st_tasks s)\<rparr>)"

definition with_mode :: "agent_state \<Rightarrow> interaction_mode \<Rightarrow> agent_state" where
  "with_mode s mode = clear_execution_mode s\<lparr>st_mode := mode,
     st_interactionModeRevision := st_interactionModeRevision s + (if st_mode s \<noteq> mode then 1 else 0)\<rparr>"

definition mode_changed :: "js_host \<Rightarrow> agent_state \<Rightarrow> jobj \<Rightarrow> agent_state" where
  "mode_changed h s payload =
     (case interactionMode (stringField payload ''mode'') of None \<Rightarrow> s
      | Some mode \<Rightarrow>
          if stringField payload ''source'' \<noteq> Some ''user'' \<or> \<not> non_empty (stringField payload ''changedAt'')
          then s
          else if st_mode s = mode then with_mode s mode
          else if mode = FullMode then swept (release_for_full h) (with_mode s mode)
          else swept (restore_from_full h) (with_mode s mode))"

section \<open>Requests\<close>

text \<open>What both kinds of request do with the entry they made.\<close>

definition enqueued :: "agent_state \<Rightarrow> agent_state \<Rightarrow> string \<Rightarrow> pending_approval \<Rightarrow> agent_state" where
  "enqueued s next interactionId pending =
     (let pendings = map_set interactionId pending (st_pendingApprovals s);
          activeApprovalId = (case st_activeApprovalId s of Some i \<Rightarrow> Some i
            | None \<Rightarrow> chooseApprovalFocus pendings) in
      (approvalQueueState next pendings activeApprovalId)\<lparr>
        st_nextQueueSequence := nextQueueSequence s pending,
        st_approvalGeneration := max_int (st_approvalGeneration s) (pa_generation pending)\<rparr>)"

definition approval_requested :: "js_host \<Rightarrow> agent_state \<Rightarrow> jobj \<Rightarrow> agent_state" where
  "approval_requested h s payload =
     (case (nonEmptyStringField payload ''interactionId'', nonEmptyStringField payload ''toolCallId'') of
        (Some interactionId, Some toolCallId) \<Rightarrow>
          if map_of (st_pendingApprovals s) interactionId \<noteq> None then s
          else let route = pendingRoute payload;
                   pending = pendingFromEvent h s payload interactionId toolCallId route
                     (if route = RouteAuto then QueuedAuto else AwaitingUser) in
            if \<not> ownerMatchesPending pending (fld payload ''owner'') then s
            else enqueued s
              (updateToolCall s toolCallId (map_option (\<lambda>call.
                 let hashed = (case pa_approvalHash pending of None \<Rightarrow> call
                       | Some a \<Rightarrow> call\<lparr>tc_approvalHash := Some a\<rparr>);
                     stamped = (case truthy_option (stringField payload ''createdAt'') of None \<Rightarrow> hashed
                       | Some t \<Rightarrow> hashed\<lparr>tc_approvalRequestedAt := Some t\<rparr>) in
                 stamped\<lparr>tc_status := waiting_tool_status route\<rparr>)))
              interactionId pending
      | _ \<Rightarrow> s)"

definition review_fingerprint :: "js_host \<Rightarrow> agent_state \<Rightarrow> jobj \<Rightarrow> string \<Rightarrow> string option" where
  "review_fingerprint h s payload toolCallId =
     (case nonEmptyStringField payload ''requestFingerprint'' of Some f \<Rightarrow> Some f
      | None \<Rightarrow> (case map_of (to_calls (st_tools s)) toolCallId of None \<Rightarrow> None
          | Some call \<Rightarrow> Some (kernelToolDoomLoopFingerprint h (tc_name call) (tc_args call))))"

definition observed_at :: "js_host \<Rightarrow> jobj \<Rightarrow> rat" where
  "observed_at h payload =
     (case truthy_option (stringField payload ''createdAt'') of None \<Rightarrow> 0
      | Some t \<Rightarrow> or_default (date_parse h t) 0)"

definition review_requested :: "js_host \<Rightarrow> agent_state \<Rightarrow> jobj \<Rightarrow> agent_state" where
  "review_requested h s payload =
     (case (nonEmptyStringField payload ''reviewId'', nonEmptyStringField payload ''toolCallId'') of
        (Some interactionId, Some toolCallId) \<Rightarrow>
          if \<not> non_empty (stringField payload ''toolName'') \<or> stringField payload ''reason'' = None \<or>
            map_of (st_pendingApprovals s) interactionId \<noteq> None then s
          else let pending = pendingFromEvent h s (obj_set ''approvalRoute'' (JStr ''auto'') payload)
                     interactionId toolCallId RouteAuto AutoReviewing in
            if \<not> ownerMatchesPending pending (fld payload ''owner'') then s
            else let next = enqueued s
                       (updateToolCall s toolCallId (map_option (\<lambda>call.
                          (case pa_approvalHash pending of None \<Rightarrow> call
                           | Some a \<Rightarrow> call\<lparr>tc_approvalHash := Some a\<rparr>)\<lparr>tc_status := TAwaitingAutoReview\<rparr>)))
                       interactionId pending in
              (case truthy_option (review_fingerprint h s payload toolCallId) of None \<Rightarrow> next
               | Some f \<Rightarrow> next\<lparr>st_doomLoop :=
                   kernelUpdateDoomLoopTracker (st_doomLoop s) f (observed_at h payload) 60000\<rparr>)
      | _ \<Rightarrow> s)"

section \<open>Decisions of the user\<close>

definition new_receipt :: "string \<Rightarrow> string \<Rightarrow> string \<Rightarrow> int \<Rightarrow> string \<Rightarrow> approval_receipt" where
  "new_receipt receiptId interactionId toolCallId generation grant =
     \<lparr>ar_receiptId = receiptId, ar_interactionId = interactionId, ar_toolCallId = toolCallId,
      ar_generation = generation, ar_grant = grant, ar_status = ''authorized_queued'',
      ar_dispatchState = Some ''before_dispatch''\<rparr>"

definition authorised :: "pending_approval \<Rightarrow> string \<Rightarrow> string \<Rightarrow> pending_approval" where
  "authorised pending receiptId source =
     pendingWithStatus pending AuthorizedQueued
       (\<lambda>p. p\<lparr>pa_receiptId := Some receiptId, pa_authorizationSource := Some source,
          pa_dispatchState := Some ''before_dispatch''\<rparr>)"

text \<open>The entry a decision of the user is about: it has the focus, the owner agrees, and no later
  generation has been opened.\<close>

definition decidable_entry ::
  "agent_state \<Rightarrow> jobj \<Rightarrow> (string \<times> string \<times> int \<times> pending_approval) option" where
  "decidable_entry s payload =
     (case (nonEmptyStringField payload ''interactionId'', nonEmptyStringField payload ''toolCallId'',
        safe_int_field payload ''generation'') of
        (Some interactionId, Some toolCallId, Some generation) \<Rightarrow>
          (case map_of (st_pendingApprovals s) interactionId of None \<Rightarrow> None
           | Some pending \<Rightarrow>
               if st_activeApprovalId s \<noteq> Some interactionId \<or> pa_toolCallId pending \<noteq> toolCallId \<or>
                 \<not> ownerMatchesPending pending (fld payload ''owner'') \<or>
                 pa_generation pending \<noteq> generation \<or> generation < st_approvalGeneration s \<or>
                 terminalApprovalStatus (pa_status pending)
               then None else Some (interactionId, toolCallId, generation, pending))
      | _ \<Rightarrow> None)"

definition approval_granted :: "js_host \<Rightarrow> agent_state \<Rightarrow> jobj \<Rightarrow> agent_state" where
  "approval_granted h s payload =
     (case (decidable_entry s payload, nonEmptyStringField payload ''receiptId'') of
        (Some (interactionId, toolCallId, generation, pending), Some receiptId) \<Rightarrow>
          if approvalGrant (fld payload ''grant'') \<noteq> Some ''approve_once'' \<or>
            pa_status pending = AuthorizedQueued \<or> map_of (st_approvalReceipts s) receiptId \<noteq> None then s
          else let pendings = map_set interactionId (authorised pending receiptId ''approve_once'')
                     (st_pendingApprovals s);
                   next = pendingToolStatus h s toolCallId TAuthorizedQueued (Some ''approve_once'')
                     (stringField payload ''createdAt'') None in
            (approvalQueueState next pendings (chooseApprovalFocus pendings))\<lparr>
              st_approvalReceipts := map_set receiptId
                (new_receipt receiptId interactionId toolCallId generation ''approve_once'')
                (st_approvalReceipts s),
              st_approvalGeneration := max_int (st_approvalGeneration s) generation\<rparr>
      | _ \<Rightarrow> s)"

definition rejection_failure :: "string \<Rightarrow> string \<Rightarrow> bool \<Rightarrow> jobj" where
  "rejection_failure kind message needsUser =
     [(''kind'', JStr kind), (''message'', JStr message), (''retryable'', JBool False),
      (''modelFixable'', JBool False), (''needsUserIntervention'', JBool needsUser),
      (''terminatesTurn'', JBool False), (''journal'', JBool True)]"

definition rejected_call :: "jobj \<Rightarrow> string \<Rightarrow> jobj \<Rightarrow> tool_call \<Rightarrow> tool_call" where
  "rejected_call payload reason failure call =
     (case recordField payload ''outcome'' of None \<Rightarrow> call
      | Some o' \<Rightarrow> call\<lparr>tc_outcome := Some (read_outcome o')\<rparr>)\<lparr>tc_status := TRejected,
        tc_error := Some reason, tc_failure := Some failure\<rparr>"

definition approval_rejected :: "agent_state \<Rightarrow> jobj \<Rightarrow> agent_state" where
  "approval_rejected s payload =
     (case decidable_entry s payload of None \<Rightarrow> s
      | Some (interactionId, toolCallId, generation, pending) \<Rightarrow>
          let reason = or_default (stringField payload ''reason'') [];
              failure = or_default (recordField payload ''failure'')
                (rejection_failure ''approval_rejected'' reason False);
              next = updateToolCall s toolCallId (map_option (rejected_call payload reason failure));
              pendings = map_set interactionId (pendingWithStatus pending ARejected id) (st_pendingApprovals s) in
          approvalQueueState next pendings (chooseApprovalFocus pendings))"

section \<open>Releasing a batch of equal commands\<close>

text \<open>The matches of the event by interaction id: a later duplicate replaces the value.\<close>

definition match_ids :: "jval list \<Rightarrow> (string \<times> jobj) list" where
  "match_ids matches =
     foldl (\<lambda>m v. case as_record v of None \<Rightarrow> m
       | Some r \<Rightarrow> (case stringOrUndefined (fld r ''interactionId'') of None \<Rightarrow> m
           | Some i \<Rightarrow> map_set i r m)) [] matches"

definition match_receipts :: "(string \<times> jobj) list \<Rightarrow> string option list" where
  "match_receipts m = map (\<lambda>r. stringOrUndefined (fld r ''receiptId'')) (obj_values m)"

record batch_facts =
  bf_matches :: "(string \<times> jobj) list"
  bf_generation :: int
  bf_identity :: command_identity
  bf_createdAt :: "string option"

record batch_state =
  bs_receipts :: "(string \<times> approval_receipt) list"
  bs_eligible :: "string list"
  bs_next :: agent_state

definition batch_eligible :: "batch_facts \<Rightarrow> string \<Rightarrow> pending_approval \<Rightarrow> jobj option" where
  "batch_eligible b pendingId pending =
     (case map_of (bf_matches b) pendingId of None \<Rightarrow> None
      | Some match' \<Rightarrow>
          if pa_generation pending = bf_generation b \<and>
            numberField match' ''generation'' = Some (of_int (bf_generation b)) \<and>
            \<not> terminalApprovalStatus (pa_status pending) \<and> pa_status pending \<noteq> ARunning \<and>
            pa_status pending \<noteq> AuthorizedQueued \<and>
            stringOrUndefined (fld match' ''toolCallId'') = Some (pa_toolCallId pending) \<and>
            ownerMatchesPending pending (fld match' ''owner'') \<and>
            sameCommandIdentity (pa_commandIdentity pending) (Some (bf_identity b)) \<and>
            (fld match' ''bindingDigest'' = JUndef \<or>
             fld match' ''bindingDigest'' = JStr (pa_bindingDigest pending))
          then Some match' else None)"

definition release_in_batch ::
  "js_host \<Rightarrow> batch_facts \<Rightarrow> string \<Rightarrow> pending_approval \<Rightarrow> batch_state \<Rightarrow> pending_approval \<times> batch_state" where
  "release_in_batch h b pendingId pending st =
     (case batch_eligible b pendingId pending of None \<Rightarrow> (pending, st)
      | Some match' \<Rightarrow>
          (case stringOrUndefined (fld match' ''receiptId'') of None \<Rightarrow> (pending, st)
           | Some receipt \<Rightarrow>
               if map_of (bs_receipts st) receipt \<noteq> None then (pending, st)
               else (authorised pending receipt ''same_command'',
                 \<lparr>bs_receipts = map_set receipt (new_receipt receipt (pa_interactionId pending)
                    (pa_toolCallId pending) (bf_generation b) ''same_command'') (bs_receipts st),
                  bs_eligible = set_add (bs_eligible st) pendingId,
                  bs_next = pendingToolStatus h (bs_next st) (pa_toolCallId pending) TAuthorizedQueued
                    (Some ''same_command'') (bf_createdAt b) None\<rparr>)))"

definition cancel_review ::
  "(string \<times> pending_approval) list \<Rightarrow> jval \<Rightarrow> (string \<times> pending_approval) list" where
  "cancel_review pendings reviewId =
     (case as_string reviewId of None \<Rightarrow> pendings
      | Some i \<Rightarrow> (case map_of pendings i of None \<Rightarrow> pendings
          | Some pending \<Rightarrow>
              if pa_status pending = AuthorizedQueued \<or> pa_status pending = ARunning \<or>
                terminalApprovalStatus (pa_status pending) \<or> pa_route pending \<noteq> RouteAuto then pendings
              else map_set i (pendingWithStatus pending ACancelled id) pendings))"

definition grant_record :: "jobj \<Rightarrow> string \<Rightarrow> command_identity \<Rightarrow> int \<Rightarrow> session_command_grant" where
  "grant_record payload grantKey identity generation =
     \<lparr>sg_identity = identity\<lparr>id_executorRevision := truthy_option (id_executorRevision identity)\<rparr>,
      sg_grantKey = grantKey, sg_createdAt = or_default (stringField payload ''createdAt'') EPOCH,
      sg_generation = generation, sg_expiresAt = None\<rparr>"

text \<open>The focused entry of a batch; unlike a single decision it does not compare the entry's own
  generation here, which the batch does for every entry.\<close>

definition batch_focus :: "agent_state \<Rightarrow> jobj \<Rightarrow> (string \<times> string \<times> int \<times> string \<times> pending_approval) option" where
  "batch_focus s payload =
     (case (nonEmptyStringField payload ''interactionId'', nonEmptyStringField payload ''toolCallId'',
        nonEmptyStringField payload ''grantKey'', safe_int_field payload ''generation'',
        safe_int_field payload ''sessionRevision'') of
        (Some interactionId, Some toolCallId, Some grantKey, Some generation, Some sessionRevision) \<Rightarrow>
          (case map_of (st_pendingApprovals s) interactionId of None \<Rightarrow> None
           | Some focused \<Rightarrow>
               if fld payload ''grant'' \<noteq> JStr ''same_command'' \<or> sessionRevision \<noteq> int (st_revision s) \<or>
                 st_activeApprovalId s \<noteq> Some interactionId \<or> pa_toolCallId focused \<noteq> toolCallId \<or>
                 \<not> ownerMatchesPending focused (fld payload ''owner'') \<or>
                 generation < st_approvalGeneration s \<or> terminalApprovalStatus (pa_status focused)
               then None else Some (interactionId, toolCallId, generation, grantKey, focused))
      | _ \<Rightarrow> None)"

definition focused_match_ok :: "jobj option \<Rightarrow> string \<Rightarrow> int \<Rightarrow> pending_approval \<Rightarrow> bool" where
  "focused_match_ok match' toolCallId generation focused =
     (case match' of None \<Rightarrow> False
      | Some m \<Rightarrow> stringOrUndefined (fld m ''toolCallId'') = Some toolCallId \<and>
          stringOrUndefined (fld m ''receiptId'') \<noteq> None \<and>
          numberField m ''generation'' = Some (of_int generation) \<and>
          ownerMatchesPending focused (fld m ''owner''))"

definition batch_released :: "js_host \<Rightarrow> agent_state \<Rightarrow> jobj \<Rightarrow> agent_state" where
  "batch_released h s payload =
     (case (batch_focus s payload, recordField payload ''commandIdentity'') of
        (Some (interactionId, toolCallId, generation, grantKey, focused), Some supplied) \<Rightarrow>
          let identity = identity_of supplied;
              matches = match_ids (or_default (arrayField payload ''matches'') []);
              receipts = match_receipts matches in
          if \<not> isCompleteCommandIdentity (Some supplied) \<or> grantKey \<noteq> approvalCommandGrantKey h identity \<or>
            None \<in> set receipts \<or> \<not> distinct receipts \<or>
            \<not> focused_match_ok (map_of matches interactionId) toolCallId generation focused then s
          else let b = \<lparr>bf_matches = matches, bf_generation = generation, bf_identity = identity,
                     bf_createdAt = stringField payload ''createdAt''\<rparr>;
                   (released, st) = sweep_pending (release_in_batch h b) (st_pendingApprovals s)
                     \<lparr>bs_receipts = st_approvalReceipts s, bs_eligible = [], bs_next = s\<rparr> in
            if interactionId \<notin> set (bs_eligible st) then s
            else let pendings = foldl cancel_review released
                       (or_default (arrayField payload ''cancelledReviewIds'') []) in
              (approvalQueueState (bs_next st) pendings (chooseApprovalFocus pendings))\<lparr>
                st_sessionCommandGrants := map_set grantKey (grant_record payload grantKey identity generation)
                  (st_sessionCommandGrants s),
                st_approvalReceipts := bs_receipts st,
                st_approvalGeneration := max_int (st_approvalGeneration s) generation\<rparr>
      | _ \<Rightarrow> s)"

section \<open>Clearing standing grants\<close>

definition revoke_same_command ::
  "js_host \<Rightarrow> int \<Rightarrow> string \<Rightarrow> pending_approval \<Rightarrow> agent_state \<Rightarrow> pending_approval \<times> agent_state" where
  "revoke_same_command h generation i pending s =
     (if pa_authorizationSource pending = Some ''same_command'' \<and> pa_status pending = AuthorizedQueued
      then let restored = restorePendingAfterClear pending generation in
        (restored, pendingToolStatus h s (pa_toolCallId pending) (waiting_tool_status (pa_route restored))
           None None None)
      else if pendingNeedsGenerationRebase pending
      then (pendingWithStatus pending (pa_status pending) (\<lambda>p. p\<lparr>pa_generation := generation\<rparr>), s)
      else (pending, s))"

definition grants_cleared :: "js_host \<Rightarrow> agent_state \<Rightarrow> jobj \<Rightarrow> agent_state" where
  "grants_cleared h s payload =
     (case (safe_int_field payload ''sessionRevision'', safe_int_field payload ''generation'') of
        (Some sessionRevision, Some generation) \<Rightarrow>
          if nonEmptyStringField payload ''sessionId'' \<noteq> Some (se_threadId (st_session s)) \<or>
            sessionRevision \<noteq> int (st_revision s) \<or> generation \<le> st_approvalGeneration s then s
          else (swept (revoke_same_command h generation) s)\<lparr>st_sessionCommandGrants := [],
            st_approvalGeneration := generation\<rparr>
      | _ \<Rightarrow> s)"

section \<open>Tool events and the end of a turn\<close>

fun terminal_call_status :: "tool_status \<Rightarrow> bool" where
  "terminal_call_status TSucceeded = True"
| "terminal_call_status TFailed = True"
| "terminal_call_status TRejected = True"
| "terminal_call_status TCancelled = True"
| "terminal_call_status TExhausted = True"
| "terminal_call_status _ = False"

type_synonym receipts = "(string \<times> approval_receipt) list"

definition update_receipt :: "string option \<Rightarrow> (approval_receipt \<Rightarrow> approval_receipt) \<Rightarrow> receipts \<Rightarrow> receipts" where
  "update_receipt i f receipts =
     (case truthy_option i of None \<Rightarrow> receipts
      | Some k \<Rightarrow> (case map_of receipts k of None \<Rightarrow> receipts | Some r \<Rightarrow> map_set k (f r) receipts))"

definition abort_pending :: "receipts \<times> tool_call jsobj \<Rightarrow> pending_approval \<Rightarrow> receipts \<times> tool_call jsobj" where
  "abort_pending st pending =
     (update_receipt (pa_receiptId pending)
        (\<lambda>r. if ar_status r \<noteq> ''terminal'' then r\<lparr>ar_status := ''terminal''\<rparr> else r) (fst st),
      case map_of (snd st) (pa_toolCallId pending) of None \<Rightarrow> snd st
      | Some call \<Rightarrow> (if terminal_call_status (tc_status call) then snd st
          else obj_set (pa_toolCallId pending) (call\<lparr>tc_status := TCancelled\<rparr>) (snd st)))"

definition turn_aborted :: "agent_state \<Rightarrow> jobj \<Rightarrow> agent_state" where
  "turn_aborted s payload =
     (case nonEmptyStringField payload ''turnId'' of None \<Rightarrow> s
      | Some turnId \<Rightarrow>
          if turnId \<noteq> tn_turnId (st_turn s) then s
          else let (receipts, calls) = foldl abort_pending (st_approvalReceipts s, to_calls (st_tools s))
                     (obj_values (st_pendingApprovals s)) in
            s\<lparr>st_pendingApprovals := [], st_sessionCommandGrants := [], st_approvalReceipts := receipts,
              st_activeApprovalId := None, st_approvalGeneration := st_approvalGeneration s + 1,
              st_interactions := Idle,
              st_tools := \<lparr>to_calls = calls, to_queue = [], to_active = []\<rparr>,
              st_suspendedSubagents := []\<rparr>)"

text \<open>The state of the two loops over tool events: the receipts and whether anything changed.\<close>

definition start_pending ::
  "string \<Rightarrow> string \<Rightarrow> pending_approval \<Rightarrow> receipts \<times> bool \<Rightarrow> pending_approval \<times> receipts \<times> bool" where
  "start_pending toolCallId i pending st =
     (if pa_toolCallId pending \<noteq> toolCallId \<or> pa_status pending \<noteq> AuthorizedQueued then (pending, st)
      else (pendingWithStatus pending ARunning (\<lambda>p. p\<lparr>pa_dispatchState := Some ''dispatch_acked''\<rparr>),
            update_receipt (pa_receiptId pending)
              (\<lambda>r. r\<lparr>ar_status := ''running'', ar_dispatchState := Some ''dispatch_acked''\<rparr>) (fst st), True))"

definition end_pending ::
  "string \<Rightarrow> approval_status \<Rightarrow> string \<Rightarrow> pending_approval \<Rightarrow> receipts \<times> bool \<Rightarrow> pending_approval \<times> receipts \<times> bool" where
  "end_pending toolCallId status i pending st =
     (if pa_toolCallId pending \<noteq> toolCallId \<or> terminalApprovalStatus (pa_status pending) then (pending, st)
      else (pendingWithStatus pending status id,
            update_receipt (pa_receiptId pending) (\<lambda>r. r\<lparr>ar_status := ''terminal''\<rparr>) (fst st), True))"

definition tool_progressed ::
  "(string \<Rightarrow> pending_approval \<Rightarrow> receipts \<times> bool \<Rightarrow> pending_approval \<times> receipts \<times> bool) \<Rightarrow>
   agent_state \<Rightarrow> agent_state" where
  "tool_progressed f s =
     (let (pendings, receipts, changed) =
        sweep_pending f (st_pendingApprovals s) (st_approvalReceipts s, False) in
      if changed
      then (approvalQueueState s pendings (chooseApprovalFocus pendings))\<lparr>st_approvalReceipts := receipts\<rparr>
      else s)"

definition terminal_approval_of :: "string \<Rightarrow> approval_status" where
  "terminal_approval_of ty =
     (if ty = ''tool.finished'' then ASucceeded else if ty = ''tool.cancelled'' then ACancelled
      else if ty = ''tool.rejected'' then ARejected else AFailed)"

section \<open>The verdict of a reviewer\<close>

definition reviewed_entry :: "agent_state \<Rightarrow> jobj \<Rightarrow> (string \<times> string \<times> pending_approval) option" where
  "reviewed_entry s payload =
     (case (nonEmptyStringField payload ''toolCallId'', nonEmptyStringField payload ''reviewId'') of
        (Some toolCallId, Some reviewId) \<Rightarrow>
          (case map_of (st_pendingApprovals s) reviewId of None \<Rightarrow> None
           | Some pending \<Rightarrow>
               if pa_toolCallId pending \<noteq> toolCallId \<or> \<not> ownerMatchesPending pending (fld payload ''owner'') \<or>
                 terminalApprovalStatus (pa_status pending) \<or> pa_status pending = AuthorizedQueued \<or>
                 pa_status pending = ARunning then None
               else Some (toolCallId, reviewId, pending))
      | _ \<Rightarrow> None)"

definition review_escalated :: "js_host \<Rightarrow> agent_state \<Rightarrow> string \<Rightarrow> string \<Rightarrow> pending_approval \<Rightarrow> rat option \<Rightarrow> agent_state" where
  "review_escalated h s toolCallId reviewId pending durationMs =
     (let pendings = map_set reviewId
            (pendingWithStatus pending AwaitingUser (\<lambda>p. p\<lparr>pa_route := RouteUser\<rparr>)) (st_pendingApprovals s);
          next = pendingToolStatus h s toolCallId TAwaitingApproval None None durationMs;
          activeApprovalId = (case st_activeApprovalId s of Some i \<Rightarrow> Some i
            | None \<Rightarrow> chooseApprovalFocus pendings) in
      approvalQueueState next pendings activeApprovalId)"

definition review_approved :: "js_host \<Rightarrow> agent_state \<Rightarrow> string \<Rightarrow> string \<Rightarrow> pending_approval \<Rightarrow> rat option \<Rightarrow> agent_state" where
  "review_approved h s toolCallId reviewId pending durationMs =
     (let receiptId = ''auto:'' @ reviewId @ '':'' @ int_string (pa_generation pending) in
      if map_of (st_approvalReceipts s) receiptId \<noteq> None then s
      else let pendings = map_set reviewId (authorised pending receiptId ''approve_once'') (st_pendingApprovals s);
               next = pendingToolStatus h s toolCallId TAuthorizedQueued (Some ''approve_once'') None durationMs in
        (approvalQueueState next pendings (chooseApprovalFocus pendings))\<lparr>st_approvalReceipts :=
          map_set receiptId (new_receipt receiptId reviewId toolCallId (pa_generation pending) ''approve_once'')
            (st_approvalReceipts s)\<rparr>)"

definition review_rejected :: "js_host \<Rightarrow> agent_state \<Rightarrow> jobj \<Rightarrow> string \<Rightarrow> string \<Rightarrow> pending_approval \<Rightarrow> agent_state" where
  "review_rejected h s payload toolCallId reviewId pending =
     (let result = sub_record payload ''result'';
          reason = or_default (stringField result ''reason'') ''auto-review rejected'';
          pendings = map_set reviewId
            (pendingWithStatus pending ARejected (\<lambda>p. p\<lparr>pa_authorizationSource := None\<rparr>)) (st_pendingApprovals s);
          next = updateToolCall s toolCallId (map_option (rejected_call payload reason
            (rejection_failure ''auto_review_rejected'' reason True))) in
      (approvalQueueState next pendings (chooseApprovalFocus pendings))\<lparr>st_autoReview :=
        evaluateAutoReviewCircuit (st_autoReview next) (CircuitRejection (observed_at h payload)
          (or_default (stringOrUndefined (fld (pa_approval pending) ''tool'')) ''shell_execute'') reason)\<rparr>)"

definition review_completed :: "js_host \<Rightarrow> agent_state \<Rightarrow> jobj \<Rightarrow> agent_state" where
  "review_completed h s payload =
     (case reviewed_entry s payload of None \<Rightarrow> s
      | Some (toolCallId, reviewId, pending) \<Rightarrow>
          let result = sub_record payload ''result'';
              durationMs = numberField result ''durationMs'' in
          if fld result ''approved'' \<noteq> JBool True \<and> fld result ''escalatedToUser'' = JBool True
          then review_escalated h s toolCallId reviewId pending durationMs
          else if fld result ''ok'' \<noteq> JBool False \<and> fld result ''approved'' = JBool True
          then review_approved h s toolCallId reviewId pending durationMs
          else review_rejected h s payload toolCallId reviewId pending)"

section \<open>The reducer\<close>

definition reduceAuthorizationState :: "js_host \<Rightarrow> agent_state \<Rightarrow> kernel_event \<Rightarrow> agent_state" where
  "reduceAuthorizationState h s e =
     (let payload = ev_data e; ty = ev_type e in
      if ty = ''interaction_mode.changed'' then mode_changed h s payload
      else if ty = ''approval.requested'' then approval_requested h s payload
      else if ty = ''approval.granted'' then approval_granted h s payload
      else if ty = ''approval.rejected'' then approval_rejected s payload
      else if ty = ''approval.batch_released'' then batch_released h s payload
      else if ty = ''approval.session_grants_cleared'' then grants_cleared h s payload
      else if ty = ''turn.aborted'' then turn_aborted s payload
      else if ty = ''tool.started'' then
        (case nonEmptyStringField payload ''toolCallId'' of None \<Rightarrow> s
         | Some toolCallId \<Rightarrow> tool_progressed (start_pending toolCallId) s)
      else if ty \<in> set TOOL_TERMINAL_EVENTS then
        (case nonEmptyStringField payload ''toolCallId'' of None \<Rightarrow> s
         | Some toolCallId \<Rightarrow> tool_progressed (end_pending toolCallId (terminal_approval_of ty)) s)
      else if ty = ''auto_review.requested'' then review_requested h s payload
      else if ty = ''auto_review.completed'' then review_completed h s payload
      else s)"
end
