(* ===== verification/Kite_Authorization_Inv.thy ===== *)
theory Kite_Authorization_Inv
  imports Kite_Authorization
begin

text \<open>
  Properties of the authorization reducer. The queue invariant: entries are keyed by their own
  id, carry sequence numbers and generations below the counters of the state, and every spent
  authorisation has its own receipt in the matching status; the focus is on a waiting entry, and
  is empty only when nothing waits. Entries move along a state machine whose final states are
  final. An entry becomes authorised only on one of four grounds. Revocation leaves no standing
  authorisation behind, and decisions of an older generation are ignored.
\<close>

section \<open>Entries and their receipts\<close>

fun receipt_status :: "approval_status \<Rightarrow> string" where
  "receipt_status AuthorizedQueued = ''authorized_queued''"
| "receipt_status ARunning = ''running''"
| "receipt_status _ = ''terminal''"

definition entry_tracked :: "receipts \<Rightarrow> string \<Rightarrow> pending_approval \<Rightarrow> bool" where
  "entry_tracked receipts i p \<longleftrightarrow>
     (case pa_receiptId p of None \<Rightarrow> True
      | Some r \<Rightarrow> r \<noteq> [] \<and> \<not> pendingNeedsFocus (pa_status p) \<and>
          (\<exists>rec. map_of receipts r = Some rec \<and> ar_interactionId rec = i \<and>
             ar_status rec = receipt_status (pa_status p)))"

definition entry_ok :: "int \<Rightarrow> int \<Rightarrow> receipts \<Rightarrow> string \<Rightarrow> pending_approval \<Rightarrow> bool" where
  "entry_ok sequence generation receipts i p \<longleftrightarrow>
     pa_interactionId p = i \<and> i \<noteq> [] \<and> pa_sequence p < sequence \<and> pa_generation p \<le> generation \<and>
     entry_tracked receipts i p"

definition focus_ok :: "(string \<times> pending_approval) list \<Rightarrow> string option \<Rightarrow> bool" where
  "focus_ok pendings active \<longleftrightarrow>
     (case active of None \<Rightarrow> \<forall>p \<in> set (obj_values pendings). \<not> pendingNeedsFocus (pa_status p)
      | Some i \<Rightarrow> \<exists>p. map_of pendings i = Some p \<and> pendingNeedsFocus (pa_status p))"

definition entries_ok :: "int \<Rightarrow> int \<Rightarrow> receipts \<Rightarrow> (string \<times> pending_approval) list \<Rightarrow> bool" where
  "entries_ok sequence generation receipts pendings \<longleftrightarrow>
     distinct_keys pendings \<and> (\<forall>(i, p) \<in> set pendings. entry_ok sequence generation receipts i p)"

definition approvals_ok :: "agent_state \<Rightarrow> bool" where
  "approvals_ok s \<longleftrightarrow>
     entries_ok (st_nextQueueSequence s) (st_approvalGeneration s) (st_approvalReceipts s)
       (st_pendingApprovals s) \<and>
     focus_ok (st_pendingApprovals s) (st_activeApprovalId s)"

lemma waiting_not_terminal: "pendingNeedsFocus st \<Longrightarrow> \<not> terminalApprovalStatus st"
  by (cases st) simp_all

lemma waiting_iff:
  "pendingNeedsFocus st \<longleftrightarrow> \<not> terminalApprovalStatus st \<and> st \<noteq> AuthorizedQueued \<and> st \<noteq> ARunning"
  by (cases st) simp_all

lemma entries_ok_lookup:
  "entries_ok n g rs pendings \<Longrightarrow> map_of pendings i = Some p \<Longrightarrow> entry_ok n g rs i p"
  by (auto simp: entries_ok_def dest: map_of_SomeD)

lemma entries_ok_mono:
  assumes "entries_ok n g rs pendings" "n \<le> n'" "g \<le> g'"
  shows "entries_ok n' g' rs pendings"
  using assms by (fastforce simp: entries_ok_def entry_ok_def)

text \<open>A fresh receipt does not disturb the entries.\<close>

lemma entry_tracked_fresh:
  "entry_tracked rs i p \<Longrightarrow> map_of rs r = None \<Longrightarrow> entry_tracked (map_set r rec rs) i p"
  by (auto simp: entry_tracked_def split: option.splits)

lemma entries_ok_fresh:
  "entries_ok n g rs pendings \<Longrightarrow> map_of rs r = None \<Longrightarrow> entries_ok n g (map_set r rec rs) pendings"
  by (auto simp: entries_ok_def entry_ok_def entry_tracked_fresh)

lemma entries_ok_set:
  assumes "entries_ok n g rs pendings" "entry_ok n g rs i p"
  shows "entries_ok n g rs (map_set i p pendings)"
proof -
  have "es_map.every (entry_ok n g rs) pendings"
    using assms(1) by (simp add: es_map.every_entries entries_ok_def)
  then have "es_map.every (entry_ok n g rs) (map_set i p pendings)"
    using assms(2) by (rule es_map.every_put)
  then show ?thesis using assms(1) by (simp add: entries_ok_def es_map.every_entries)
qed

lemma chooseApprovalFocus_focus_ok:
  assumes "entries_ok n g rs pendings"
  shows "focus_ok pendings (chooseApprovalFocus pendings)"
proof (cases "select_focus None (obj_values pendings)")
  case None
  then show ?thesis
    using select_focus_None [of None "obj_values pendings"]
    by (simp add: chooseApprovalFocus_def focus_ok_def)
next
  case (Some p)
  then have "p \<in> set (obj_values pendings)" and waiting: "pendingNeedsFocus (pa_status p)"
    using select_focus_spec [OF Some] by auto
  then obtain i where i: "(i, p) \<in> set pendings" by (auto simp: obj_values_def)
  then have "pa_interactionId p = i" "map_of pendings i = Some p"
    using assms by (auto simp: entries_ok_def entry_ok_def distinct_keys_map_of)
  then show ?thesis using Some waiting by (simp add: chooseApprovalFocus_def focus_ok_def)
qed

section \<open>Sweeps over the queue\<close>

lemma sweep_keys [simp]: "obj_keys (fst (sweep_pending f m s)) = obj_keys m"
  by (induction m arbitrary: s) (auto simp: split_beta Let_def)

lemma sweep_distinct [simp]: "distinct_keys (fst (sweep_pending f m s)) = distinct_keys m"
  by (simp add: distinct_keys_def)

lemma sweep_lookup:
  "map_of (fst (sweep_pending f m s)) i = Some p' \<Longrightarrow> \<exists>p st. map_of m i = Some p \<and> fst (f i p st) = p'"
  by (induction m arbitrary: s) (auto simp: split_beta Let_def split: if_splits)

lemma sweep_lookup_back:
  assumes "map_of m i = Some p"
  shows "\<exists>st. map_of (fst (sweep_pending f m s)) i = Some (fst (f i p st))"
  using assms by (induction m arbitrary: s) (auto simp: split_beta Let_def split: if_splits)

lemma sweep_state:
  assumes "\<And>i p st. P st \<Longrightarrow> P (snd (f i p st))" "P s"
  shows "P (snd (sweep_pending f m s))"
  using assms(2)
proof (induction m arbitrary: s)
  case (Cons e m)
  then show ?case using assms(1) by (cases e) (simp add: split_beta Let_def)
qed simp

text \<open>
  The contract of a loop body: it keeps its own entry well-formed and does not disturb the others.
  The state threaded through the loop is what the bodies share.
\<close>

locale tracked_sweep =
  fixes body :: "string \<Rightarrow> pending_approval \<Rightarrow> 's \<Rightarrow> pending_approval \<times> 's"
    and good :: "'s \<Rightarrow> string \<Rightarrow> pending_approval \<Rightarrow> bool"
  assumes own: "good st i p \<Longrightarrow> good (snd (body i p st)) i (fst (body i p st))"
    and others: "j \<noteq> i \<Longrightarrow> good st i p \<Longrightarrow> good st j q \<Longrightarrow> good (snd (body i p st)) j q"
begin

lemma rest_good:
  assumes "distinct (obj_keys ((i, p) # m))" "\<forall>(k, r) \<in> set ((i, p) # m). good st k r"
  shows "\<forall>(k, r) \<in> set m. good (snd (body i p st)) k r"
proof (clarify)
  fix k r
  assume kr: "(k, r) \<in> set m"
  then have "k \<noteq> i" using assms(1) by (force simp: obj_keys_def)
  then show "good (snd (body i p st)) k r" using assms(2) kr by (intro others) auto
qed

lemma frame:
  assumes "j \<notin> set (obj_keys m)" "\<forall>(i, p) \<in> set m. good st i p" "distinct (obj_keys m)" "good st j q"
  shows "good (snd (sweep_pending body m st)) j q"
  using assms
proof (induction m arbitrary: st)
  case (Cons e m)
  obtain i p where e: "e = (i, p)" by (cases e)
  let ?st = "snd (body i p st)"
  have "good ?st j q" using Cons.prems e by (intro others) auto
  moreover have "\<forall>(k, r) \<in> set m. good ?st k r"
    using Cons.prems by (intro rest_good) (simp_all add: e)
  ultimately show ?case using Cons.IH [of ?st] Cons.prems e by (simp add: split_beta Let_def)
qed simp

lemma all_good:
  assumes "distinct (obj_keys m)" "\<forall>(i, p) \<in> set m. good st i p"
  shows "\<forall>(i, p) \<in> set (fst (sweep_pending body m st)). good (snd (sweep_pending body m st)) i p"
  using assms
proof (induction m arbitrary: st)
  case (Cons e m)
  obtain i p where e: "e = (i, p)" by (cases e)
  let ?st = "snd (body i p st)"
  have rest: "\<forall>(k, r) \<in> set m. good ?st k r"
    using Cons.prems by (intro rest_good) (simp_all add: e)
  then have "\<forall>(k, r) \<in> set (fst (sweep_pending body m ?st)). good (snd (sweep_pending body m ?st)) k r"
    using Cons by (simp add: e)
  moreover have "good (snd (sweep_pending body m ?st)) i (fst (body i p st))"
    using Cons.prems rest e by (intro frame own) auto
  ultimately show ?case by (simp add: e split_beta Let_def)
qed simp

text \<open>What every visit of a well-formed entry advances, the whole loop advances.\<close>

lemma advances:
  assumes "\<And>st. R st st" "\<And>a b c. R a b \<Longrightarrow> R b c \<Longrightarrow> R a c" "\<And>st i p. good st i p \<Longrightarrow> R st (snd (body i p st))"
    and "distinct (obj_keys m)" "\<forall>(i, p) \<in> set m. good st i p"
  shows "R st (snd (sweep_pending body m st))"
  using assms(4,5)
proof (induction m arbitrary: st)
  case (Cons e m)
  obtain i p where e: "e = (i, p)" by (cases e)
  let ?st = "snd (body i p st)"
  have "\<forall>(k, r) \<in> set m. good ?st k r" using Cons.prems by (intro rest_good) (simp_all add: e)
  then have "R ?st (snd (sweep_pending body m ?st))" using Cons by (simp add: e)
  moreover have "R st ?st" using Cons.prems by (intro assms(3)) (simp add: e)
  ultimately show ?case by (simp add: e split_beta Let_def) (rule assms(2))
qed (simp add: assms(1))

end

section \<open>Every event keeps the queue well-formed\<close>

text \<open>The loops that only change entries: their state carries no receipts.\<close>

lemma restore_entry_ok:
  "entry_ok n g rs i p \<Longrightarrow> g' \<le> g'' \<Longrightarrow> g \<le> g'' \<Longrightarrow> entry_ok n g'' rs i (restorePendingAfterClear p g')"
  by (simp add: entry_ok_def entry_tracked_def restorePendingAfterClear_def pendingWithStatus_def)

lemma entry_tracked_cong:
  "pa_receiptId p' = pa_receiptId p \<Longrightarrow> pa_status p' = pa_status p \<Longrightarrow> entry_tracked rs i p \<Longrightarrow> entry_tracked rs i p'"
  by (cases "pa_receiptId p") (simp_all add: entry_tracked_def)

lemma release_entry_ok:
  "entry_ok n g rs i p \<Longrightarrow> entry_ok n g rs i (fst (release_for_full h i p st))"
  by (cases "\<not> pa_fullModePolicyBypassAllowed p \<or> terminalApprovalStatus (pa_status p) \<or>
      pa_status p = AuthorizedQueued \<or> pa_status p = ARunning")
    (simp_all add: release_for_full_def, simp add: entry_ok_def entry_tracked_def pendingWithStatus_def)

interpretation release_full: tracked_sweep "release_for_full h" "\<lambda>st. entry_ok n g rs"
  by unfold_locales (simp_all add: release_entry_ok)

interpretation restore_full: tracked_sweep "restore_from_full h" "\<lambda>st. entry_ok n g rs"
proof unfold_locales
  fix i p and st :: agent_state
  assume "entry_ok n g rs i p"
  moreover from this have "pa_generation p \<le> g" by (simp add: entry_ok_def)
  ultimately show "entry_ok n g rs i (fst (restore_from_full h i p st))"
    by (simp add: restore_from_full_def Let_def restore_entry_ok)
qed

lemma revoke_entry_ok:
  assumes "entry_ok n g rs i p"
  shows "entry_ok n g rs i (fst (revoke_same_command h g i p st))"
proof -
  have "entry_ok n g rs i (restorePendingAfterClear p g)" using assms by (simp add: restore_entry_ok)
  moreover have "entry_ok n g rs i (pendingWithStatus p (pa_status p) (\<lambda>p. p\<lparr>pa_generation := g\<rparr>))"
    using assms by (auto simp: entry_ok_def pendingWithStatus_def intro: entry_tracked_cong)
  ultimately show ?thesis using assms by (simp add: revoke_same_command_def Let_def)
qed

interpretation revocation: tracked_sweep "revoke_same_command h g" "\<lambda>st. entry_ok n g rs"
  by unfold_locales (simp_all add: revoke_entry_ok)

text \<open>The loops that spend receipts.\<close>

lemma update_receipt_own:
  assumes "entry_tracked rs i p" "\<not> pendingNeedsFocus (pa_status p')" "pa_receiptId p' = pa_receiptId p"
    and "\<And>r. ar_interactionId (f r) = ar_interactionId r" "\<And>r. ar_status (f r) = receipt_status (pa_status p')"
  shows "entry_tracked (update_receipt (pa_receiptId p) f rs) i p'"
  using assms by (auto simp: entry_tracked_def update_receipt_def truthy_option_def split: option.splits)

lemma update_receipt_others:
  assumes "entry_tracked rs i p" "entry_tracked rs j q" "j \<noteq> i"
  shows "entry_tracked (update_receipt (pa_receiptId p) f rs) j q"
  using assms by (auto simp: entry_tracked_def update_receipt_def truthy_option_def split: option.splits)

interpretation starting: tracked_sweep "start_pending c" "\<lambda>st. entry_ok n g (fst st)"
proof unfold_locales
  fix i p and st :: "receipts \<times> bool"
  assume "entry_ok n g (fst st) i p"
  then show "entry_ok n g (fst (snd (start_pending c i p st))) i (fst (start_pending c i p st))"
    by (auto simp: start_pending_def entry_ok_def pendingWithStatus_def intro!: update_receipt_own)
next
  fix i j p q and st :: "receipts \<times> bool"
  assume "j \<noteq> i" "entry_ok n g (fst st) i p" "entry_ok n g (fst st) j q"
  then show "entry_ok n g (fst (snd (start_pending c i p st))) j q"
    by (auto simp: start_pending_def entry_ok_def intro: update_receipt_others)
qed

lemma terminal_status_facts:
  assumes "terminalApprovalStatus st"
  shows "\<not> pendingNeedsFocus st" "receipt_status st = ''terminal''"
  using assms by (cases st; simp)+

lemma ending_sweep:
  assumes "terminalApprovalStatus t"
  shows "tracked_sweep (end_pending c t) (\<lambda>st. entry_ok n g (fst st))"
proof unfold_locales
  fix i p and st :: "receipts \<times> bool"
  assume "entry_ok n g (fst st) i p"
  then show "entry_ok n g (fst (snd (end_pending c t i p st))) i (fst (end_pending c t i p st))"
    using terminal_status_facts [OF assms]
    by (auto simp: end_pending_def entry_ok_def pendingWithStatus_def intro!: update_receipt_own)
next
  fix i j p q and st :: "receipts \<times> bool"
  assume "j \<noteq> i" "entry_ok n g (fst st) i p" "entry_ok n g (fst st) j q"
  then show "entry_ok n g (fst (snd (end_pending c t i p st))) j q"
    by (auto simp: end_pending_def entry_ok_def intro: update_receipt_others)
qed

lemma terminal_approval_of_terminal: "terminalApprovalStatus (terminal_approval_of ty)"
  by (simp add: terminal_approval_of_def)

interpretation ending: tracked_sweep "end_pending c (terminal_approval_of ty)" "\<lambda>st. entry_ok n g (fst st)"
  by (rule ending_sweep) (rule terminal_approval_of_terminal)

lemma authorised_tracked:
  assumes "r \<noteq> []" "map_of rs r = Some rec" "ar_interactionId rec = i" "ar_status rec = ''authorized_queued''"
  shows "entry_tracked rs i (authorised p r src)"
  using assms by (simp add: entry_tracked_def authorised_def pendingWithStatus_def)

lemma stringOrUndefined_Some: "stringOrUndefined v = Some r \<Longrightarrow> r \<noteq> []"
  by (auto simp: stringOrUndefined_def split: jval.splits if_splits)

lemma authorised_entry_ok:
  assumes "entry_ok n g rs i p" "r \<noteq> []" "map_of rs r = None"
  shows "entry_ok n g (map_set r (new_receipt r i c k src) rs) i (authorised p r src')"
proof -
  have "entry_tracked (map_set r (new_receipt r i c k src) rs) i (authorised p r src')"
    by (rule authorised_tracked [where rec = "new_receipt r i c k src"]) (use assms(2) in \<open>simp_all add: new_receipt_def\<close>)
  then show ?thesis
    using assms(1) by (simp add: entry_ok_def) (simp add: authorised_def pendingWithStatus_def)
qed

lemma release_in_batch_cases:
  obtains (same) "release_in_batch h b i p st = (p, st)"
  | (released) r m where "batch_eligible b i p = Some m" "stringOrUndefined (fld m ''receiptId'') = Some r"
      "r \<noteq> []" "map_of (bs_receipts st) r = None"
      "fst (release_in_batch h b i p st) = authorised p r ''same_command''"
      "bs_receipts (snd (release_in_batch h b i p st)) = map_set r (new_receipt r (pa_interactionId p)
         (pa_toolCallId p) (bf_generation b) ''same_command'') (bs_receipts st)"
      "bs_eligible (snd (release_in_batch h b i p st)) = set_add (bs_eligible st) i"
proof (cases "release_in_batch h b i p st = (p, st)")
  case True
  then show thesis by (rule same)
next
  case False
  then obtain m r where "batch_eligible b i p = Some m" "stringOrUndefined (fld m ''receiptId'') = Some r"
    "map_of (bs_receipts st) r = None"
    by (auto simp: release_in_batch_def split: option.splits if_splits)
  then show thesis
    by (intro released [of m r]) (auto simp: release_in_batch_def stringOrUndefined_Some)
qed

interpretation batch: tracked_sweep "release_in_batch h b" "\<lambda>st. entry_ok n g (bs_receipts st)"
proof unfold_locales
  fix i p and st :: batch_state
  assume ok: "entry_ok n g (bs_receipts st) i p"
  then have "pa_interactionId p = i" by (simp add: entry_ok_def)
  then show "entry_ok n g (bs_receipts (snd (release_in_batch h b i p st))) i (fst (release_in_batch h b i p st))"
    using ok by (cases h b i p st rule: release_in_batch_cases) (simp_all add: authorised_entry_ok)
next
  fix i j p q and st :: batch_state
  assume "entry_ok n g (bs_receipts st) i p" "entry_ok n g (bs_receipts st) j q"
  then show "entry_ok n g (bs_receipts (snd (release_in_batch h b i p st))) j q"
    by (cases h b i p st rule: release_in_batch_cases) (simp_all add: entry_ok_def entry_tracked_fresh)
qed

lemma sweep_entries_ok:
  assumes "tracked_sweep f (\<lambda>st. entry_ok n g (R st))" "entries_ok n g (R st) m"
  shows "entries_ok n g (R (snd (sweep_pending f m st))) (fst (sweep_pending f m st))"
  using tracked_sweep.all_good [OF assms(1), of m st] assms(2)
  by (simp add: entries_ok_def distinct_keys_def)

lemmas sweeps_entries_ok =
  sweep_entries_ok [OF release_full.tracked_sweep_axioms]
  sweep_entries_ok [OF restore_full.tracked_sweep_axioms]
  sweep_entries_ok [OF revocation.tracked_sweep_axioms]
  sweep_entries_ok [OF starting.tracked_sweep_axioms]
  sweep_entries_ok [OF ending.tracked_sweep_axioms]
  sweep_entries_ok [OF batch.tracked_sweep_axioms]

text \<open>The parts of the state that the approval queue consists of. No other reducer writes them.\<close>

definition same_approvals :: "agent_state \<Rightarrow> agent_state \<Rightarrow> bool" where
  "same_approvals s s' \<longleftrightarrow>
     st_pendingApprovals s' = st_pendingApprovals s \<and> st_activeApprovalId s' = st_activeApprovalId s \<and>
     st_nextQueueSequence s' = st_nextQueueSequence s \<and>
     st_approvalGeneration s' = st_approvalGeneration s \<and>
     st_approvalReceipts s' = st_approvalReceipts s \<and>
     st_sessionCommandGrants s' = st_sessionCommandGrants s"

lemma same_approvals_ok: "same_approvals s s' \<Longrightarrow> approvals_ok s' = approvals_ok s"
  by (simp add: same_approvals_def approvals_ok_def)

lemma same_approvals_trans: "same_approvals a b \<Longrightarrow> same_approvals b c \<Longrightarrow> same_approvals a c"
  by (simp add: same_approvals_def)

lemma same_approvals_refl [simp]: "same_approvals s s"
  by (simp add: same_approvals_def)

lemma updateToolCall_approvals [simp]: "same_approvals s (updateToolCall s i f)"
  by (simp add: same_approvals_def updateToolCall_def split: option.split)

lemma pendingToolStatus_approvals [simp]: "same_approvals s (pendingToolStatus h s i st g a m)"
  by (simp add: pendingToolStatus_def)

lemma clear_execution_mode_approvals [simp]: "same_approvals s (clear_execution_mode s)"
  by (simp add: same_approvals_def clear_execution_mode_def split: option.split)

lemma sweep_same_approvals:
  assumes "\<And>i p st. same_approvals st (snd (f i p st))"
  shows "same_approvals s (snd (sweep_pending f m s))"
  by (rule sweep_state) (use assms same_approvals_trans in blast, simp)

lemma bodies_same_approvals:
  "same_approvals st (snd (release_for_full h i p st))"
  "same_approvals st (snd (restore_from_full h i p st))"
  "same_approvals st (snd (revoke_same_command h g i p st))"
  by (simp_all add: release_for_full_def restore_from_full_def revoke_same_command_def Let_def)

text \<open>A queue that was rebuilt and refocused is well-formed when its entries are.\<close>

lemma refocused_ok:
  assumes "entries_ok (st_nextQueueSequence s') (st_approvalGeneration s') (st_approvalReceipts s') pendings"
    and "st_pendingApprovals s' = pendings" "st_activeApprovalId s' = chooseApprovalFocus pendings"
  shows "approvals_ok s'"
  using assms chooseApprovalFocus_focus_ok by (simp add: approvals_ok_def)

lemma approvals_ok_entries:
  "approvals_ok s \<Longrightarrow> entries_ok (st_nextQueueSequence s) (st_approvalGeneration s) (st_approvalReceipts s)
     (st_pendingApprovals s)"
  by (simp add: approvals_ok_def)

lemma swept_fields:
  assumes "\<And>i p st. same_approvals st (snd (f i p st))"
  shows "st_pendingApprovals (swept f s) = fst (sweep_pending f (st_pendingApprovals s) s)"
    "st_activeApprovalId (swept f s) = chooseApprovalFocus (fst (sweep_pending f (st_pendingApprovals s) s))"
    "st_nextQueueSequence (swept f s) = st_nextQueueSequence s"
    "st_approvalGeneration (swept f s) = st_approvalGeneration s"
    "st_approvalReceipts (swept f s) = st_approvalReceipts s"
  using sweep_same_approvals [OF assms, where s = s and m = "st_pendingApprovals s"]
  by (simp_all add: swept_def split_beta approvalQueueState_def same_approvals_def)

lemma with_mode_approvals [simp]: "same_approvals s (with_mode s mode)"
  using clear_execution_mode_approvals [of s] by (simp add: with_mode_def same_approvals_def)

lemma mode_changed_ok:
  assumes "approvals_ok s"
  shows "approvals_ok (mode_changed h s payload)"
proof -
  have ok: "approvals_ok (with_mode s mode)" for mode
    using assms same_approvals_ok with_mode_approvals by blast
  note e = approvals_ok_entries [OF ok]
  have "approvals_ok (swept (release_for_full h) (with_mode s mode))" for mode
    by (rule refocused_ok) (simp_all add: swept_fields bodies_same_approvals e sweeps_entries_ok(1))
  moreover have "approvals_ok (swept (restore_from_full h) (with_mode s mode))" for mode
    by (rule refocused_ok) (simp_all add: swept_fields bodies_same_approvals e sweeps_entries_ok(2))
  ultimately show ?thesis
    using assms ok by (simp add: mode_changed_def split: option.split)
qed

lemma enqueued_ok:
  assumes ok: "approvals_ok s" and next': "same_approvals s next'"
    and new: "map_of (st_pendingApprovals s) i = None"
    and p: "pa_interactionId p = i" "i \<noteq> []" "pa_receiptId p = None"
  shows "approvals_ok (enqueued s next' i p)"
proof -
  let ?n = "nextQueueSequence s p" and ?g = "max_int (st_approvalGeneration s) (pa_generation p)"
  let ?pendings = "map_set i p (st_pendingApprovals s)"
  have "entries_ok ?n ?g (st_approvalReceipts s) (st_pendingApprovals s)"
    by (rule entries_ok_mono [OF approvals_ok_entries [OF ok]]) (simp_all add: nextQueueSequence_def max_int_def)
  then have e: "entries_ok ?n ?g (st_approvalReceipts s) ?pendings"
    by (rule entries_ok_set) (use p in \<open>simp add: entry_ok_def entry_tracked_def nextQueueSequence_def max_int_def\<close>)
  have "focus_ok ?pendings (case st_activeApprovalId s of Some i \<Rightarrow> Some i | None \<Rightarrow> chooseApprovalFocus ?pendings)"
    using ok new chooseApprovalFocus_focus_ok [OF e]
    by (auto simp: approvals_ok_def focus_ok_def split: option.splits)
  then show ?thesis
    using e next' by (simp add: approvals_ok_def enqueued_def Let_def approvalQueueState_def same_approvals_def)
qed

lemma pendingFromEvent_fields [simp]:
  "pa_interactionId (pendingFromEvent h s payload i c r st) = i"
  "pa_toolCallId (pendingFromEvent h s payload i c r st) = c"
  "pa_receiptId (pendingFromEvent h s payload i c r st) = None"
  "pa_status (pendingFromEvent h s payload i c r st) = st"
  "pa_route (pendingFromEvent h s payload i c r st) = r"
  "pa_parentToolCallId (pendingFromEvent h s payload i c r st) = stringOrUndefined (fld payload ''parentToolCallId'')"
  "pa_childSubagentId (pendingFromEvent h s payload i c r st) = stringOrUndefined (fld payload ''childSubagentId'')"
  "pa_sequence (pendingFromEvent h s payload i c r st) = non_negative_or payload ''queueSequence'' (st_nextQueueSequence s)"
  "pa_generation (pendingFromEvent h s payload i c r st) = non_negative_or payload ''queueGeneration'' (st_approvalGeneration s)"
  by (simp_all add: pendingFromEvent_def Let_def)

lemma approval_requested_enqueues:
  assumes "nonEmptyStringField payload ''interactionId'' = Some i" "nonEmptyStringField payload ''toolCallId'' = Some c"
    and "map_of (st_pendingApprovals s) i = None"
    and "pending = pendingFromEvent h s payload i c (pendingRoute payload)
      (if pendingRoute payload = RouteAuto then QueuedAuto else AwaitingUser)"
    and "ownerMatchesPending pending (fld payload ''owner'')"
  shows "\<exists>f. approval_requested h s payload = enqueued s (updateToolCall s c f) i pending"
  using assms by (auto simp: approval_requested_def Let_def)

lemma approval_requested_ok: "approvals_ok s \<Longrightarrow> approvals_ok (approval_requested h s payload)"
  by (auto simp: approval_requested_def Let_def nonEmptyStringField_Some split: option.split
      intro!: enqueued_ok)

lemma approvals_ok_doomLoop [simp]: "approvals_ok (s\<lparr>st_doomLoop := d\<rparr>) = approvals_ok s"
  by (simp add: approvals_ok_def)

lemma review_requested_ok: "approvals_ok s \<Longrightarrow> approvals_ok (review_requested h s payload)"
  by (auto simp: review_requested_def Let_def nonEmptyStringField_Some split: option.split
      intro!: enqueued_ok)

text \<open>A decision replaces one entry and refocuses.\<close>

lemma replaced_ok:
  assumes "entries_ok n g rs (st_pendingApprovals s)" "entry_ok n g rs i p"
    and "st_pendingApprovals s' = map_set i p (st_pendingApprovals s)"
    and "st_activeApprovalId s' = chooseApprovalFocus (map_set i p (st_pendingApprovals s))"
    and "n = st_nextQueueSequence s'" "g = st_approvalGeneration s'" "rs = st_approvalReceipts s'"
  shows "approvals_ok s'"
  using assms entries_ok_set [OF assms(1,2)] by (intro refocused_ok) simp_all

lemma decidable_entry_Some:
  assumes "decidable_entry s payload = Some (i, c, g, p)"
  shows "map_of (st_pendingApprovals s) i = Some p" "i \<noteq> []" "st_activeApprovalId s = Some i"
    "pa_toolCallId p = c" "ownerMatchesPending p (fld payload ''owner'')" "pa_generation p = g"
    "st_approvalGeneration s \<le> g" "\<not> terminalApprovalStatus (pa_status p)"
    "safe_int_field payload ''generation'' = Some g" "nonEmptyStringField payload ''interactionId'' = Some i"
    "nonEmptyStringField payload ''toolCallId'' = Some c"
  using assms by (auto simp: decidable_entry_def nonEmptyStringField_Some split: option.splits if_splits)

text \<open>The entry a decision is about is waiting, since it has the focus.\<close>

lemma decidable_waiting:
  assumes "approvals_ok s" "decidable_entry s payload = Some (i, c, g, p)"
  shows "pendingNeedsFocus (pa_status p)"
  using assms(1) decidable_entry_Some(1,3) [OF assms(2)]
  by (auto simp: approvals_ok_def focus_ok_def)

lemma waiting_has_no_receipt:
  assumes "entry_ok n g rs i p" "pendingNeedsFocus (pa_status p)"
  shows "pa_receiptId p = None"
  using assms by (auto simp: entry_ok_def entry_tracked_def split: option.splits)

lemma settled_entry_ok:
  assumes "entry_ok n g rs i p" "pa_receiptId p = None"
  shows "entry_ok n g rs i (pendingWithStatus p st id)"
    "entry_ok n g rs i (pendingWithStatus p st (\<lambda>p. p\<lparr>pa_authorizationSource := v\<rparr>))"
    "entry_ok n g rs i (pendingWithStatus p st (\<lambda>p. p\<lparr>pa_route := r\<rparr>))"
  using assms by (simp_all add: entry_ok_def entry_tracked_def pendingWithStatus_def)

lemma approval_granted_ok:
  assumes ok: "approvals_ok s"
  shows "approvals_ok (approval_granted h s payload)"
proof (cases "approval_granted h s payload = s")
  case False
  then obtain i c g p r where d: "decidable_entry s payload = Some (i, c, g, p)"
    and r: "nonEmptyStringField payload ''receiptId'' = Some r"
    and fresh: "map_of (st_approvalReceipts s) r = None"
    and eq: "approval_granted h s payload =
      (let pendings = map_set i (authorised p r ''approve_once'') (st_pendingApprovals s);
           nxt = pendingToolStatus h s c TAuthorizedQueued (Some ''approve_once'')
             (stringField payload ''createdAt'') None in
       (approvalQueueState nxt pendings (chooseApprovalFocus pendings))\<lparr>
         st_approvalReceipts := map_set r (new_receipt r i c g ''approve_once'') (st_approvalReceipts s),
         st_approvalGeneration := max_int (st_approvalGeneration s) g\<rparr>)"
    by (auto simp: approval_granted_def split: option.splits prod.splits if_splits)
  note e = decidable_entry_Some [OF d]
  let ?g = "max_int (st_approvalGeneration s) g"
  have es: "entries_ok (st_nextQueueSequence s) ?g (st_approvalReceipts s) (st_pendingApprovals s)"
    by (rule entries_ok_mono [OF approvals_ok_entries [OF ok]]) (simp_all add: max_int_def)
  have "r \<noteq> []" using r by (simp add: nonEmptyStringField_Some)
  show ?thesis
    unfolding eq Let_def
    by (rule replaced_ok [OF entries_ok_fresh [OF es fresh] authorised_entry_ok [OF entries_ok_lookup [OF es e(1)] \<open>r \<noteq> []\<close> fresh]])
      (use pendingToolStatus_approvals in \<open>simp_all add: approvalQueueState_def same_approvals_def\<close>)
qed (simp add: ok)

lemma approval_rejected_ok:
  assumes ok: "approvals_ok s"
  shows "approvals_ok (approval_rejected s payload)"
proof (cases "decidable_entry s payload")
  case (Some t)
  then obtain i c g p where d: "decidable_entry s payload = Some (i, c, g, p)" by (cases t) auto
  note es = approvals_ok_entries [OF ok]
  note p = entries_ok_lookup [OF es decidable_entry_Some(1) [OF d]]
  have "pa_receiptId p = None" using p decidable_waiting [OF ok d] by (rule waiting_has_no_receipt)
  show ?thesis
    unfolding approval_rejected_def d option.case prod.case Let_def
    by (rule replaced_ok [OF es settled_entry_ok(1) [OF p \<open>pa_receiptId p = None\<close>]])
      (use updateToolCall_approvals in \<open>simp_all add: approvalQueueState_def same_approvals_def\<close>)
qed (simp add: approval_rejected_def ok)

lemma cancel_review_ok:
  assumes "entries_ok n g rs pendings"
  shows "entries_ok n g rs (cancel_review pendings v)"
proof (cases "cancel_review pendings v = pendings")
  case False
  then obtain i p where p: "map_of pendings i = Some p" "pendingNeedsFocus (pa_status p)"
    and eq: "cancel_review pendings v = map_set i (pendingWithStatus p ACancelled id) pendings"
    by (auto simp: cancel_review_def waiting_iff split: option.splits if_splits)
  note ok = entries_ok_lookup [OF assms p(1)]
  show ?thesis
    unfolding eq
    by (rule entries_ok_set [OF assms settled_entry_ok(1) [OF ok waiting_has_no_receipt [OF ok p(2)]]])
qed (simp add: assms)

lemma cancel_reviews_ok:
  "entries_ok n g rs pendings \<Longrightarrow> entries_ok n g rs (foldl cancel_review pendings vs)"
  by (induction vs arbitrary: pendings) (simp_all add: cancel_review_ok)

text \<open>The facts of a batch that took effect.\<close>

definition batch_input :: "jobj \<Rightarrow> jobj \<Rightarrow> int \<Rightarrow> batch_facts" where
  "batch_input payload supplied generation =
     \<lparr>bf_matches = match_ids (or_default (arrayField payload ''matches'') []), bf_generation = generation,
      bf_identity = identity_of supplied, bf_createdAt = stringField payload ''createdAt''\<rparr>"

definition batch_start :: "agent_state \<Rightarrow> batch_state" where
  "batch_start s = \<lparr>bs_receipts = st_approvalReceipts s, bs_eligible = [], bs_next = s\<rparr>"

definition batch_result :: "js_host \<Rightarrow> agent_state \<Rightarrow> batch_facts \<Rightarrow> (string \<times> pending_approval) list \<times> batch_state" where
  "batch_result h s b = sweep_pending (release_in_batch h b) (st_pendingApprovals s) (batch_start s)"

lemma batch_released_cases:
  obtains (ignored) "batch_released h s payload = s"
  | (released) i c g k focused supplied pendings where
      "batch_focus s payload = Some (i, c, g, k, focused)"
      "recordField payload ''commandIdentity'' = Some supplied" "isCompleteCommandIdentity (Some supplied)"
      "k = approvalCommandGrantKey h (identity_of supplied)"
      "i \<in> set (bs_eligible (snd (batch_result h s (batch_input payload supplied g))))"
      "pendings = foldl cancel_review (fst (batch_result h s (batch_input payload supplied g)))
         (or_default (arrayField payload ''cancelledReviewIds'') [])"
      "batch_released h s payload =
         (approvalQueueState (bs_next (snd (batch_result h s (batch_input payload supplied g)))) pendings
            (chooseApprovalFocus pendings))\<lparr>
           st_sessionCommandGrants := map_set k (grant_record payload k (identity_of supplied) g)
             (st_sessionCommandGrants s),
           st_approvalReceipts := bs_receipts (snd (batch_result h s (batch_input payload supplied g))),
           st_approvalGeneration := max_int (st_approvalGeneration s) g\<rparr>"
proof (cases "batch_released h s payload = s")
  case False
  then show thesis
    by (auto simp: batch_released_def Let_def split_beta batch_result_def [symmetric]
        batch_input_def [symmetric] batch_start_def [symmetric]
        split: option.splits prod.splits if_splits intro!: released)
qed (rule ignored)

lemma batch_next_approvals: "same_approvals s (bs_next (snd (batch_result h s b)))"
  unfolding batch_result_def
  by (rule sweep_state [where P = "\<lambda>st. same_approvals s (bs_next st)"])
    (auto simp: release_in_batch_def batch_start_def split: option.splits intro: same_approvals_trans)

lemma batch_released_ok:
  assumes ok: "approvals_ok s"
  shows "approvals_ok (batch_released h s payload)"
proof (cases rule: batch_released_cases [where h = h and s = s and payload = payload])
  case (released i c g k focused supplied pendings)
  let ?b = "batch_input payload supplied g" and ?g = "max_int (st_approvalGeneration s) g"
  have es: "entries_ok (st_nextQueueSequence s) ?g (bs_receipts (batch_start s)) (st_pendingApprovals s)"
    unfolding batch_start_def batch_state.simps
    by (rule entries_ok_mono [OF approvals_ok_entries [OF ok]]) (simp_all add: max_int_def)
  have "entries_ok (st_nextQueueSequence s) ?g (bs_receipts (snd (batch_result h s ?b))) pendings"
    unfolding released(6) batch_result_def by (rule cancel_reviews_ok) (rule sweeps_entries_ok(6) [OF es])
  then show ?thesis
    unfolding released(7) using batch_next_approvals [of s h ?b]
    by (intro refocused_ok) (simp_all add: approvalQueueState_def same_approvals_def)
qed (simp add: ok)

lemma grants_cleared_ok:
  assumes ok: "approvals_ok s"
  shows "approvals_ok (grants_cleared h s payload)"
proof (cases "grants_cleared h s payload = s")
  case False
  define g where "g = the (safe_int_field payload ''generation'')"
  have g: "st_approvalGeneration s < g" and eq: "grants_cleared h s payload =
      (swept (revoke_same_command h g) s)\<lparr>st_sessionCommandGrants := [], st_approvalGeneration := g\<rparr>"
    using False by (auto simp: grants_cleared_def g_def split: option.splits if_splits)
  have es: "entries_ok (st_nextQueueSequence s) g (st_approvalReceipts s) (st_pendingApprovals s)"
    by (rule entries_ok_mono [OF approvals_ok_entries [OF ok]]) (use g in simp_all)
  show ?thesis
    unfolding eq
    by (rule refocused_ok) (simp_all add: swept_fields bodies_same_approvals sweeps_entries_ok(3) [OF es])
qed (simp add: ok)

lemma approvals_ok_empty:
  "st_pendingApprovals s = [] \<Longrightarrow> st_activeApprovalId s = None \<Longrightarrow> approvals_ok s"
  by (simp add: approvals_ok_def entries_ok_def focus_ok_def)

lemma turn_aborted_ok: "approvals_ok s \<Longrightarrow> approvals_ok (turn_aborted s payload)"
  by (simp add: turn_aborted_def Let_def split_beta approvals_ok_empty split: option.split)

lemma tool_progressed_ok:
  assumes ok: "approvals_ok s" and sweep: "tracked_sweep f
    (\<lambda>st. entry_ok (st_nextQueueSequence s) (st_approvalGeneration s) (fst st))"
  shows "approvals_ok (tool_progressed f s)"
proof -
  let ?r = "sweep_pending f (st_pendingApprovals s) (st_approvalReceipts s, False)"
  have "entries_ok (st_nextQueueSequence s) (st_approvalGeneration s) (fst (snd ?r)) (fst ?r)"
    by (rule sweep_entries_ok [OF sweep]) (simp add: approvals_ok_entries [OF ok])
  then have "approvals_ok ((approvalQueueState s (fst ?r) (chooseApprovalFocus (fst ?r)))\<lparr>
      st_approvalReceipts := fst (snd ?r)\<rparr>)"
    by (intro refocused_ok) (simp_all add: approvalQueueState_def)
  then show ?thesis using ok by (simp add: tool_progressed_def split_beta)
qed

lemma reviewed_entry_Some:
  assumes "reviewed_entry s payload = Some (c, i, p)"
  shows "map_of (st_pendingApprovals s) i = Some p" "i \<noteq> []" "pa_toolCallId p = c"
    "ownerMatchesPending p (fld payload ''owner'')" "pendingNeedsFocus (pa_status p)"
    "nonEmptyStringField payload ''reviewId'' = Some i"
  using assms
  by (auto simp: reviewed_entry_def nonEmptyStringField_Some waiting_iff split: option.splits if_splits)

lemma review_approved_ok:
  assumes ok: "approvals_ok s" and p: "map_of (st_pendingApprovals s) i = Some p"
  shows "approvals_ok (review_approved h s c i p d)"
proof (cases "map_of (st_approvalReceipts s) (''auto:'' @ i @ '':'' @ int_string (pa_generation p)) = None")
  case True
  let ?rid = "''auto:'' @ i @ '':'' @ int_string (pa_generation p)"
  let ?pendings = "map_set i (authorised p ?rid ''approve_once'') (st_pendingApprovals s)"
  have eq: "review_approved h s c i p d =
      (approvalQueueState (pendingToolStatus h s c TAuthorizedQueued (Some ''approve_once'') None d)
        ?pendings (chooseApprovalFocus ?pendings))\<lparr>st_approvalReceipts :=
          map_set ?rid (new_receipt ?rid i c (pa_generation p) ''approve_once'') (st_approvalReceipts s)\<rparr>"
    using True by (simp add: review_approved_def Let_def)
  note es = approvals_ok_entries [OF ok]
  show ?thesis
    unfolding eq
    by (rule replaced_ok [OF entries_ok_fresh [OF es True]
          authorised_entry_ok [OF entries_ok_lookup [OF es p] _ True]])
      (use pendingToolStatus_approvals in \<open>simp_all add: approvalQueueState_def same_approvals_def\<close>)
qed (simp add: review_approved_def ok)

lemma review_escalated_ok:
  assumes ok: "approvals_ok s" and p: "map_of (st_pendingApprovals s) i = Some p" "pa_receiptId p = None"
  shows "approvals_ok (review_escalated h s c i p d)"
proof -
  let ?up = "pendingWithStatus p AwaitingUser (\<lambda>p. p\<lparr>pa_route := RouteUser\<rparr>)"
  note es = approvals_ok_entries [OF ok]
  have e': "entries_ok (st_nextQueueSequence s) (st_approvalGeneration s) (st_approvalReceipts s)
      (map_set i ?up (st_pendingApprovals s))"
    by (rule entries_ok_set [OF es settled_entry_ok(3) [OF entries_ok_lookup [OF es p(1)] p(2)]])
  have "focus_ok (map_set i ?up (st_pendingApprovals s)) (case st_activeApprovalId s of Some i \<Rightarrow> Some i
      | None \<Rightarrow> chooseApprovalFocus (map_set i ?up (st_pendingApprovals s)))"
    using ok chooseApprovalFocus_focus_ok [OF e']
    by (auto simp: approvals_ok_def focus_ok_def pendingWithStatus_def split: option.splits)
  then show ?thesis
    using e' pendingToolStatus_approvals [of s h c TAwaitingApproval None None d]
    by (simp add: approvals_ok_def review_escalated_def Let_def approvalQueueState_def same_approvals_def)
qed

lemma review_completed_ok:
  assumes ok: "approvals_ok s"
  shows "approvals_ok (review_completed h s payload)"
proof (cases "reviewed_entry s payload")
  case (Some t)
  then obtain c i p where r: "reviewed_entry s payload = Some (c, i, p)" by (cases t) auto
  note es = approvals_ok_entries [OF ok] and look = reviewed_entry_Some(1) [OF r]
  note p = entries_ok_lookup [OF es look]
  have none: "pa_receiptId p = None" using p reviewed_entry_Some(5) [OF r] by (rule waiting_has_no_receipt)
  have "approvals_ok (review_rejected h s payload c i p)"
    unfolding review_rejected_def Let_def
    by (rule replaced_ok [OF es settled_entry_ok(2) [OF p none]])
      (use updateToolCall_approvals in \<open>simp_all add: approvalQueueState_def same_approvals_def\<close>)
  then show ?thesis
    using review_approved_ok [OF ok look] review_escalated_ok [OF ok look none]
    by (simp add: review_completed_def r Let_def)
qed (simp add: review_completed_def ok)

lemma reduceAuthorizationState_ok:
  assumes "approvals_ok s"
  shows "approvals_ok (reduceAuthorizationState h s e)"
  using assms
  by (simp add: reduceAuthorizationState_def Let_def mode_changed_ok approval_requested_ok
      approval_granted_ok approval_rejected_ok batch_released_ok grants_cleared_ok turn_aborted_ok
      tool_progressed_ok starting.tracked_sweep_axioms ending.tracked_sweep_axioms
      review_requested_ok review_completed_ok split: option.split)

text \<open>
  Reachability with interference: the authorization reducer handles events, and between them the
  other reducers change anything but the approval queue.
\<close>

inductive authorization_reachable :: "js_host \<Rightarrow> agent_state \<Rightarrow> bool" for h where
  start: "createInitialAgentState i = Inr s \<Longrightarrow> authorization_reachable h s"
| handle: "authorization_reachable h s \<Longrightarrow> authorization_reachable h (reduceAuthorizationState h s e)"
| elsewhere: "authorization_reachable h s \<Longrightarrow> same_approvals s s' \<Longrightarrow> authorization_reachable h s'"

lemma created_approvals_ok: "createInitialAgentState i = Inr s \<Longrightarrow> approvals_ok s"
  by (rule approvals_ok_empty) (auto simp: createInitialAgentState_def split: if_splits)

lemma reachable_approvals_ok: "authorization_reachable h s \<Longrightarrow> approvals_ok s"
  by (induction rule: authorization_reachable.induct)
    (simp_all add: created_approvals_ok reduceAuthorizationState_ok same_approvals_ok)

lemma receipt_unique:
  assumes "approvals_ok s" "map_of (st_pendingApprovals s) i = Some p" "map_of (st_pendingApprovals s) j = Some q"
    and "pa_receiptId p = Some r" "pa_receiptId q = Some r"
  shows "i = j"
  using entries_ok_lookup [OF approvals_ok_entries [OF assms(1)] assms(2)]
    entries_ok_lookup [OF approvals_ok_entries [OF assms(1)] assms(3)] assms(4,5)
  by (auto simp: entry_ok_def entry_tracked_def)

text \<open>
  The approval queue is consistent in every reachable state, whatever events arrive in
  whatever order: entries are keyed by their own id, with sequence and generation below the
  counters of the state; an authorisation that was granted has its own receipt, in the status of
  the entry, shared with no other entry; the focus is on an entry that waits for a decision, and it
  is empty only when none does, so no request is stranded.
\<close>

theorem approval_queue_invariant:
  assumes "authorization_reachable h s"
  shows "approvals_ok s \<and>
    (\<forall>i j p q r. map_of (st_pendingApprovals s) i = Some p \<and> map_of (st_pendingApprovals s) j = Some q \<and>
       pa_receiptId p = Some r \<and> pa_receiptId q = Some r \<longrightarrow> i = j) \<and>
    (st_activeApprovalId s = None \<longleftrightarrow>
       (\<forall>p \<in> set (obj_values (st_pendingApprovals s)). \<not> pendingNeedsFocus (pa_status p)))"
proof -
  have ok: "approvals_ok s" using assms by (rule reachable_approvals_ok)
  moreover have "(\<forall>p \<in> set (obj_values (st_pendingApprovals s)). \<not> pendingNeedsFocus (pa_status p)) \<Longrightarrow>
      st_activeApprovalId s = None"
    using ok by (fastforce simp: approvals_ok_def focus_ok_def obj_values_def dest: map_of_SomeD split: option.splits)
  ultimately show ?thesis
    using receipt_unique [OF ok] by (auto simp: approvals_ok_def focus_ok_def)
qed

definition requested_event :: "string \<Rightarrow> kernel_event" where
  "requested_event i = event ''approval.requested'' [(''interactionId'', JStr i), (''toolCallId'', JStr ''call''),
     (''owner'', JObj [(''kind'', JStr ''root_tool''), (''toolCallId'', JStr ''call'')])]"

definition granted_event :: "string \<Rightarrow> string \<Rightarrow> kernel_event" where
  "granted_event i r = event ''approval.granted'' [(''interactionId'', JStr i), (''toolCallId'', JStr ''call''),
     (''grant'', JStr ''approve_once''), (''generation'', JNum 0), (''receiptId'', JStr r),
     (''owner'', JObj [(''kind'', JStr ''root_tool''), (''toolCallId'', JStr ''call'')])]"

definition pending_state :: agent_state where
  "pending_state = reduceAuthorizationState sample_host fresh_state (requested_event ''a'')"

definition pending_entry :: pending_approval where
  "pending_entry = pendingFromEvent sample_host fresh_state (ev_data (requested_event ''a'')) ''a'' ''call''
     RouteUser AwaitingUser"

lemma fresh_state_queue:
  "st_pendingApprovals fresh_state = []" "st_activeApprovalId fresh_state = None"
  "st_approvalReceipts fresh_state = []" "st_nextQueueSequence fresh_state = 0"
  "st_approvalGeneration fresh_state = 0" "st_mode fresh_state = AcceptEdits" "st_revision fresh_state = 0"
  by code_simp+

lemma pending_entry_owned:
  "ownerMatchesPending pending_entry (JObj [(''kind'', JStr ''root_tool''), (''toolCallId'', JStr ''call'')])"
  by (simp add: pending_entry_def ownerMatchesPending_def requested_event_def event_def stringOrUndefined_def)

lemma pending_state_fields:
  "st_pendingApprovals pending_state = [(''a'', pending_entry)]"
  "st_activeApprovalId pending_state = Some ''a''"
  "st_approvalReceipts pending_state = []"
  "st_approvalGeneration pending_state = 0"
proof -
  let ?d = "ev_data (requested_event ''a'')"
  have d: "nonEmptyStringField ?d ''interactionId'' = Some ''a''" "nonEmptyStringField ?d ''toolCallId'' = Some ''call''"
    "pendingRoute ?d = RouteUser" "fld ?d ''owner'' = JObj [(''kind'', JStr ''root_tool''), (''toolCallId'', JStr ''call'')]"
    by (simp_all add: requested_event_def event_def nonEmptyStringField_def stringField_def pendingRoute_def)
  have g: "pa_generation pending_entry = 0"
    by (simp add: pending_entry_def non_negative_or_def safe_int_field_def requested_event_def event_def
        is_safe_integer_def fresh_state_queue)
  have "\<exists>f. approval_requested sample_host fresh_state ?d =
      enqueued fresh_state (updateToolCall fresh_state ''call'' f) ''a'' pending_entry"
    using pending_entry_owned
    by (intro approval_requested_enqueues) (simp_all add: d fresh_state_queue pending_entry_def)
  moreover have "pending_state = approval_requested sample_host fresh_state ?d"
    by (simp add: pending_state_def reduceAuthorizationState_def Let_def)
      (simp add: requested_event_def event_def)
  ultimately obtain f where eq:
    "pending_state = enqueued fresh_state (updateToolCall fresh_state ''call'' f) ''a'' pending_entry" by metis
  have sel: "chooseApprovalFocus [(''a'', pending_entry)] = Some ''a''"
    by (simp add: chooseApprovalFocus_def pending_entry_def)
  have "same_approvals fresh_state (updateToolCall fresh_state ''call'' f)" by simp
  then show "st_pendingApprovals pending_state = [(''a'', pending_entry)]"
    "st_activeApprovalId pending_state = Some ''a''" "st_approvalReceipts pending_state = []"
    "st_approvalGeneration pending_state = 0"
    unfolding eq
    by (simp_all add: enqueued_def Let_def approvalQueueState_def map_set_def same_approvals_def fresh_state_queue
        sel max_int_def g)
qed

theorem approval_queue_invariant_witness:
  "authorization_reachable sample_host pending_state \<and> approvals_ok pending_state \<and>
   st_activeApprovalId pending_state = Some ''a''"
proof -
  have r: "authorization_reachable sample_host pending_state"
    unfolding pending_state_def
    by (rule authorization_reachable.handle) (rule authorization_reachable.start [OF fresh_state_created])
  then show ?thesis using approval_queue_invariant [OF r] pending_state_fields(2) by blast
qed

section \<open>Entries follow a state machine\<close>

datatype phase = Waiting | Authorised | Running | Ended

fun phase_of :: "approval_status \<Rightarrow> phase" where
  "phase_of AuthorizedQueued = Authorised"
| "phase_of ARunning = Running"
| "phase_of st = (if terminalApprovalStatus st then Ended else Waiting)"

text \<open>The abstract machine: an authorisation may be taken back until the tool starts.\<close>

fun phase_step :: "phase \<Rightarrow> phase \<Rightarrow> bool" where
  "phase_step Waiting q = (q \<noteq> Running)"
| "phase_step Authorised q = True"
| "phase_step Running q = (q = Running \<or> q = Ended)"
| "phase_step Ended q = (q = Ended)"

definition entry_step :: "pending_approval \<Rightarrow> pending_approval \<Rightarrow> bool" where
  "entry_step p p' \<longleftrightarrow>
     phase_step (phase_of (pa_status p)) (phase_of (pa_status p')) \<and>
     (phase_of (pa_status p) = Ended \<longrightarrow> p' = p) \<and>
     pa_interactionId p' = pa_interactionId p \<and> pa_toolCallId p' = pa_toolCallId p \<and>
     pa_commandIdentity p' = pa_commandIdentity p \<and> pa_bindingDigest p' = pa_bindingDigest p"

lemma phase_of_iff:
  "phase_of st = Waiting \<longleftrightarrow> pendingNeedsFocus st" "phase_of st = Ended \<longleftrightarrow> terminalApprovalStatus st"
  "phase_of st = Authorised \<longleftrightarrow> st = AuthorizedQueued" "phase_of st = Running \<longleftrightarrow> st = ARunning"
  by (cases st; simp)+

lemma entry_step_refl [simp]: "entry_step p p"
  by (cases "phase_of (pa_status p)") (simp_all add: entry_step_def)

lemma waiting_step:
  assumes "pendingNeedsFocus (pa_status p)" "pa_status p' \<noteq> ARunning" "pa_interactionId p' = pa_interactionId p"
    "pa_toolCallId p' = pa_toolCallId p" "pa_commandIdentity p' = pa_commandIdentity p"
    "pa_bindingDigest p' = pa_bindingDigest p"
  shows "entry_step p p'"
proof -
  have "phase_of (pa_status p) = Waiting" "phase_of (pa_status p') \<noteq> Running"
    using assms(1,2) by (simp_all add: phase_of_iff)
  then show ?thesis using assms(3-) by (simp add: entry_step_def)
qed

lemma authorised_step:
  assumes "pa_status p = AuthorizedQueued" "pa_interactionId p' = pa_interactionId p"
    "pa_toolCallId p' = pa_toolCallId p" "pa_commandIdentity p' = pa_commandIdentity p"
    "pa_bindingDigest p' = pa_bindingDigest p"
  shows "entry_step p p'"
  using assms by (simp add: entry_step_def)

lemma ending_step:
  assumes "\<not> terminalApprovalStatus (pa_status p)" "terminalApprovalStatus (pa_status p')"
    "pa_interactionId p' = pa_interactionId p" "pa_toolCallId p' = pa_toolCallId p"
    "pa_commandIdentity p' = pa_commandIdentity p" "pa_bindingDigest p' = pa_bindingDigest p"
  shows "entry_step p p'"
proof -
  have "phase_of (pa_status p) \<noteq> Ended" "phase_of (pa_status p') = Ended"
    using assms by (simp_all add: phase_of_iff)
  then show ?thesis using assms by (cases "phase_of (pa_status p)") (simp_all add: entry_step_def)
qed

lemma bodies_step:
  "entry_step p (fst (release_for_full h i p st))"
  "entry_step p (fst (restore_from_full h i p st))"
  "entry_step p (fst (revoke_same_command h g i p st))"
  "entry_step p (fst (release_in_batch h b i p bst))"
  "entry_step p (fst (start_pending c i p rst))"
  "entry_step p (fst (end_pending c (terminal_approval_of ty) i p rst))"
proof -
  show "entry_step p (fst (release_for_full h i p st))"
    by (cases "pendingNeedsFocus (pa_status p)")
      (auto simp: release_for_full_def pendingWithStatus_def waiting_iff intro!: waiting_step)
  show "entry_step p (fst (restore_from_full h i p st))"
    by (auto simp: restore_from_full_def Let_def restorePendingAfterClear_def pendingWithStatus_def
        intro!: authorised_step)
  show "entry_step p (fst (revoke_same_command h g i p st))"
  proof (cases "pa_authorizationSource p = Some ''same_command'' \<and> pa_status p = AuthorizedQueued")
    case True
    then show ?thesis
      by (auto simp: revoke_same_command_def Let_def restorePendingAfterClear_def pendingWithStatus_def
          intro!: authorised_step)
  next
    case other: False
    then show ?thesis
      by (cases "pendingNeedsGenerationRebase p")
        (auto simp: revoke_same_command_def pendingWithStatus_def pendingNeedsGenerationRebase_def waiting_iff
          intro!: waiting_step)
  qed
  show "entry_step p (fst (start_pending c i p rst))"
    by (auto simp: start_pending_def pendingWithStatus_def intro!: authorised_step)
  show "entry_step p (fst (end_pending c (terminal_approval_of ty) i p rst))"
    by (auto simp: end_pending_def pendingWithStatus_def terminal_approval_of_terminal intro!: ending_step)
  show "entry_step p (fst (release_in_batch h b i p bst))"
  proof (cases "fst (release_in_batch h b i p bst) = p")
    case False
    then obtain m r where "batch_eligible b i p = Some m"
        "fst (release_in_batch h b i p bst) = authorised p r ''same_command''"
      by (auto simp: release_in_batch_def split: option.splits if_splits)
    then show ?thesis
      by (auto simp: batch_eligible_def authorised_def pendingWithStatus_def waiting_iff
          split: option.splits if_splits intro!: waiting_step)
  qed simp
qed

text \<open>
  The four grounds on which an entry may become authorised: the user switched to full access and the
  entry allows it; the user granted this entry while it had the focus; the user released a batch of
  equal commands the entry belongs to; or a reviewer approved it. The last three leave a receipt
  that did not exist before.
\<close>

definition fresh_receipt :: "agent_state \<Rightarrow> pending_approval \<Rightarrow> bool" where
  "fresh_receipt s p' \<longleftrightarrow> (\<exists>r. pa_receiptId p' = Some r \<and> map_of (st_approvalReceipts s) r = None)"

definition by_mode :: "kernel_event \<Rightarrow> pending_approval \<Rightarrow> pending_approval \<Rightarrow> bool" where
  "by_mode e p p' \<longleftrightarrow>
     ev_type e = ''interaction_mode.changed'' \<and> stringField (ev_data e) ''mode'' = Some ''full'' \<and>
     stringField (ev_data e) ''source'' = Some ''user'' \<and> pa_fullModePolicyBypassAllowed p \<and>
     pa_authorizationSource p' = Some ''mode_full'' \<and> pa_receiptId p' = None"

definition by_user :: "agent_state \<Rightarrow> kernel_event \<Rightarrow> string \<Rightarrow> pending_approval \<Rightarrow> pending_approval \<Rightarrow> bool" where
  "by_user s e i p p' \<longleftrightarrow>
     ev_type e = ''approval.granted'' \<and> fld (ev_data e) ''grant'' = JStr ''approve_once'' \<and>
     st_activeApprovalId s = Some i \<and> ownerMatchesPending p (fld (ev_data e) ''owner'') \<and>
     st_approvalGeneration s \<le> pa_generation p \<and> pa_authorizationSource p' = Some ''approve_once'' \<and>
     fresh_receipt s p'"

definition by_batch :: "js_host \<Rightarrow> agent_state \<Rightarrow> kernel_event \<Rightarrow> pending_approval \<Rightarrow> pending_approval \<Rightarrow> bool" where
  "by_batch h s e p p' \<longleftrightarrow>
     ev_type e = ''approval.batch_released'' \<and> fld (ev_data e) ''grant'' = JStr ''same_command'' \<and>
     safe_int_field (ev_data e) ''sessionRevision'' = Some (int (st_revision s)) \<and>
     st_approvalGeneration s \<le> pa_generation p \<and>
     (\<exists>supplied. recordField (ev_data e) ''commandIdentity'' = Some supplied \<and>
        sameCommandIdentity (pa_commandIdentity p) (Some (identity_of supplied)) \<and>
        nonEmptyStringField (ev_data e) ''grantKey'' = Some (approvalCommandGrantKey h (identity_of supplied))) \<and>
     pa_authorizationSource p' = Some ''same_command'' \<and> fresh_receipt s p'"

definition by_review :: "agent_state \<Rightarrow> kernel_event \<Rightarrow> string \<Rightarrow> pending_approval \<Rightarrow> pending_approval \<Rightarrow> bool" where
  "by_review s e i p p' \<longleftrightarrow>
     ev_type e = ''auto_review.completed'' \<and> nonEmptyStringField (ev_data e) ''reviewId'' = Some i \<and>
     fld (sub_record (ev_data e) ''result'') ''approved'' = JBool True \<and>
     fld (sub_record (ev_data e) ''result'') ''ok'' \<noteq> JBool False \<and>
     ownerMatchesPending p (fld (ev_data e) ''owner'') \<and>
     pa_authorizationSource p' = Some ''approve_once'' \<and> fresh_receipt s p'"

definition entry_moves :: "js_host \<Rightarrow> agent_state \<Rightarrow> kernel_event \<Rightarrow> string \<Rightarrow> pending_approval \<Rightarrow> pending_approval \<Rightarrow> bool" where
  "entry_moves h s e i p p' \<longleftrightarrow>
     entry_step p p' \<and>
     (pa_status p' = AuthorizedQueued \<and> pa_status p \<noteq> AuthorizedQueued \<longrightarrow>
        by_mode e p p' \<or> by_user s e i p p' \<or> by_batch h s e p p' \<or> by_review s e i p p')"

definition queue_moves :: "js_host \<Rightarrow> agent_state \<Rightarrow> kernel_event \<Rightarrow> (string \<times> pending_approval) list \<Rightarrow> bool" where
  "queue_moves h s e m' \<longleftrightarrow>
     (\<forall>i. rel_option (entry_moves h s e i) (map_of (st_pendingApprovals s) i) (map_of m' i))"

lemma entry_moves_refl [simp]: "entry_moves h s e i p p"
  by (simp add: entry_moves_def)

lemma entry_moves_unauthorised: "entry_step p p' \<Longrightarrow> pa_status p' \<noteq> AuthorizedQueued \<Longrightarrow> entry_moves h s e i p p'"
  by (simp add: entry_moves_def)

lemma queue_moves_refl: "m = st_pendingApprovals s \<Longrightarrow> queue_moves h s e m"
  by (simp add: queue_moves_def option.rel_refl)

lemma queue_moves_set:
  assumes "map_of (st_pendingApprovals s) i = Some p" "entry_moves h s e i p p'"
  shows "queue_moves h s e (map_set i p' (st_pendingApprovals s))"
  using assms by (simp add: queue_moves_def option.rel_refl)

lemma sweep_rel:
  assumes "\<And>i p st. P st \<Longrightarrow> M i p (fst (f i p st))" "\<And>i p st. P st \<Longrightarrow> P (snd (f i p st))" "P st"
  shows "rel_option (M i) (map_of m i) (map_of (fst (sweep_pending f m st)) i)"
  using assms(3)
proof (induction m arbitrary: st)
  case (Cons e m)
  obtain j p where e: "e = (j, p)" by (cases e)
  have "P (snd (f j p st))" using Cons.prems by (rule assms(2))
  from Cons.IH [OF this] show ?case
    using assms(1) [OF Cons.prems, of j p] by (simp add: e split_beta Let_def)
qed simp

lemma queue_moves_sweep:
  assumes "m = st_pendingApprovals s" "\<And>i p st. entry_moves h s e i p (fst (f i p st))"
  shows "queue_moves h s e (fst (sweep_pending f m st))"
  unfolding queue_moves_def assms(1)
  by (intro allI sweep_rel [where P = "\<lambda>_. True"]) (simp_all add: assms(2))


lemma mode_changed_moves:
  assumes "ev_type e = ''interaction_mode.changed''"
  shows "queue_moves h s e (st_pendingApprovals (mode_changed h s (ev_data e)))"
proof -
  have pend: "st_pendingApprovals (with_mode s mode) = st_pendingApprovals s" for mode
    using with_mode_approvals [of s mode] by (simp add: same_approvals_def)
  have "entry_moves h s e i p (fst (restore_from_full h i p st))" for i p st
    using bodies_step(2) [of p h i st]
    by (rule entry_moves_def [THEN iffD2, OF conjI])
      (simp add: restore_from_full_def Let_def restorePendingAfterClear_def pendingWithStatus_def)
  then have restored: "queue_moves h s e (st_pendingApprovals (swept (restore_from_full h) (with_mode s mode)))" for mode
    by (simp add: swept_fields bodies_same_approvals pend queue_moves_sweep)
  have "entry_moves h s e i p (fst (release_for_full h i p st))"
    if "stringField (ev_data e) ''mode'' = Some ''full''" "stringField (ev_data e) ''source'' = Some ''user''" for i p st
    using bodies_step(1) [of p h i st]
    by (rule entry_moves_def [THEN iffD2, OF conjI])
      (use that assms in \<open>simp add: release_for_full_def pendingWithStatus_def by_mode_def\<close>)
  then have "queue_moves h s e (st_pendingApprovals (swept (release_for_full h) (with_mode s mode)))"
    if "stringField (ev_data e) ''mode'' = Some ''full''" "stringField (ev_data e) ''source'' = Some ''user''" for mode
    using that by (simp add: swept_fields bodies_same_approvals pend queue_moves_sweep)
  then show ?thesis
    using restored
    by (auto simp: mode_changed_def pend interactionMode_def queue_moves_refl split: option.split)
qed

lemma approval_granted_moves:
  assumes ok: "approvals_ok s" and ty: "ev_type e = ''approval.granted''"
  shows "queue_moves h s e (st_pendingApprovals (approval_granted h s (ev_data e)))"
proof (cases "st_pendingApprovals (approval_granted h s (ev_data e)) = st_pendingApprovals s")
  case False
  then obtain i c g p r where d: "decidable_entry s (ev_data e) = Some (i, c, g, p)"
    and r: "approvalGrant (fld (ev_data e) ''grant'') = Some ''approve_once''" "map_of (st_approvalReceipts s) r = None"
    and eq: "st_pendingApprovals (approval_granted h s (ev_data e)) =
      map_set i (authorised p r ''approve_once'') (st_pendingApprovals s)"
    by (auto simp: approval_granted_def Let_def approvalQueueState_def split: option.splits prod.splits if_splits)
  note e = decidable_entry_Some [OF d] and w = decidable_waiting [OF ok d]
  have "fld (ev_data e) ''grant'' = JStr ''approve_once''"
    using r(1) by (cases "fld (ev_data e) ''grant''") (auto simp: approvalGrant_def split: if_splits)
  then have "by_user s e i p (authorised p r ''approve_once'')"
    using e r(2) ty by (simp add: by_user_def authorised_def pendingWithStatus_def fresh_receipt_def)
  moreover have "entry_step p (authorised p r ''approve_once'')"
    by (rule waiting_step [OF w]) (simp_all add: authorised_def pendingWithStatus_def)
  ultimately show ?thesis unfolding eq by (intro queue_moves_set [OF e(1)]) (simp add: entry_moves_def)
qed (rule queue_moves_refl)

lemma approval_rejected_moves:
  assumes ok: "approvals_ok s"
  shows "queue_moves h s e (st_pendingApprovals (approval_rejected s (ev_data e)))"
proof (cases "decidable_entry s (ev_data e)")
  case (Some t)
  then obtain i c g p where d: "decidable_entry s (ev_data e) = Some (i, c, g, p)" by (cases t) auto
  have "entry_step p (pendingWithStatus p ARejected id)"
    by (rule waiting_step [OF decidable_waiting [OF ok d]]) (simp_all add: pendingWithStatus_def)
  then show ?thesis
    by (simp add: approval_rejected_def d Let_def approvalQueueState_def pendingWithStatus_def
        queue_moves_set [OF decidable_entry_Some(1) [OF d]] entry_moves_unauthorised)
qed (simp add: approval_rejected_def queue_moves_refl)

lemma review_completed_moves:
  assumes ty: "ev_type e = ''auto_review.completed''"
  shows "queue_moves h s e (st_pendingApprovals (review_completed h s (ev_data e)))"
proof (cases "reviewed_entry s (ev_data e)")
  case (Some t)
  then obtain c i p where r: "reviewed_entry s (ev_data e) = Some (c, i, p)" by (cases t) auto
  note look = reviewed_entry_Some [OF r]
  have unauth: "queue_moves h s e (map_set i (pendingWithStatus p st f) (st_pendingApprovals s))"
    if "st \<in> {AwaitingUser, ARejected}" "f \<in> {(\<lambda>p. p\<lparr>pa_route := RouteUser\<rparr>), (\<lambda>p. p\<lparr>pa_authorizationSource := None\<rparr>)}" for st f
    by (rule queue_moves_set [OF look(1)], rule entry_moves_unauthorised, rule waiting_step [OF look(5)])
      (use that in \<open>auto simp: pendingWithStatus_def\<close>)
  have auth: "queue_moves h s e (map_set i (authorised p rid ''approve_once'') (st_pendingApprovals s))"
    if "map_of (st_approvalReceipts s) rid = None" "fld (sub_record (ev_data e) ''result'') ''approved'' = JBool True"
      "fld (sub_record (ev_data e) ''result'') ''ok'' \<noteq> JBool False" for rid
  proof (rule queue_moves_set [OF look(1)], unfold entry_moves_def, intro conjI impI disjI2)
    show "entry_step p (authorised p rid ''approve_once'')"
      by (rule waiting_step [OF look(5)]) (simp_all add: authorised_def pendingWithStatus_def)
    show "by_review s e i p (authorised p rid ''approve_once'')"
      using that look ty by (simp add: by_review_def authorised_def pendingWithStatus_def fresh_receipt_def)
  qed
  show ?thesis
    using unauth auth
    by (simp add: review_completed_def r Let_def review_escalated_def review_approved_def review_rejected_def
        approvalQueueState_def queue_moves_refl)
qed (simp add: review_completed_def queue_moves_refl)

lemma grants_cleared_moves: "queue_moves h s e (st_pendingApprovals (grants_cleared h s (ev_data e)))"
proof -
  have "entry_moves h s e i p (fst (revoke_same_command h g i p st))" for g i p st
    using bodies_step(3) [of p h g i st]
    by (rule entry_moves_def [THEN iffD2, OF conjI])
      (simp add: revoke_same_command_def Let_def restorePendingAfterClear_def pendingWithStatus_def)
  then show ?thesis
    by (auto simp: grants_cleared_def swept_fields bodies_same_approvals queue_moves_sweep queue_moves_refl
        split: option.split)
qed

lemma tool_progressed_moves:
  assumes "\<And>i p st. entry_step p (fst (f i p st))"
    "\<And>i p st. pa_status p \<noteq> AuthorizedQueued \<Longrightarrow> pa_status (fst (f i p st)) \<noteq> AuthorizedQueued"
  shows "queue_moves h s e (st_pendingApprovals (tool_progressed f s))"
proof -
  have "queue_moves h s e (fst (sweep_pending f (st_pendingApprovals s) st))" for st
    by (rule queue_moves_sweep) (use assms in \<open>auto simp: entry_moves_def\<close>)
  then show ?thesis by (simp add: tool_progressed_def split_beta approvalQueueState_def queue_moves_refl)
qed


text \<open>A batch first releases, then cancels reviews of entries that still wait.\<close>

definition cancelled_to :: "pending_approval \<Rightarrow> pending_approval \<Rightarrow> bool" where
  "cancelled_to p p' \<longleftrightarrow> p' = p \<or> pendingNeedsFocus (pa_status p) \<and> p' = pendingWithStatus p ACancelled id"

lemma cancelled_to_trans: "cancelled_to a b \<Longrightarrow> cancelled_to b c \<Longrightarrow> cancelled_to a c"
  by (auto simp: cancelled_to_def pendingWithStatus_def)

lemma cancel_review_rel: "rel_option cancelled_to (map_of m i) (map_of (cancel_review m v) i)"
  by (auto simp: cancel_review_def cancelled_to_def waiting_iff option.rel_refl split: option.split)

lemma cancel_reviews_rel: "rel_option cancelled_to (map_of m i) (map_of (foldl cancel_review m vs) i)"
proof (induction vs arbitrary: m)
  case (Cons v vs)
  from Cons.IH [of "cancel_review m v"] cancel_review_rel [of m i v] show ?case
    by (auto simp: option_rel_Some1 option_rel_Some2 intro: cancelled_to_trans elim!: option.rel_cases)
qed (simp add: option.rel_refl cancelled_to_def)

definition knows_receipts :: "agent_state \<Rightarrow> batch_state \<Rightarrow> bool" where
  "knows_receipts s st \<longleftrightarrow>
     (\<forall>r. map_of (bs_receipts st) r = None \<longrightarrow> map_of (st_approvalReceipts s) r = None)"

lemma knows_receipts_step: "knows_receipts s st \<Longrightarrow> knows_receipts s (snd (release_in_batch h b i p st))"
  by (auto simp: knows_receipts_def release_in_batch_def split: option.splits if_splits)

lemma knows_receipts_start: "knows_receipts s (batch_start s)"
  by (simp add: knows_receipts_def batch_start_def)

definition released_to :: "agent_state \<Rightarrow> batch_facts \<Rightarrow> string \<Rightarrow> pending_approval \<Rightarrow> pending_approval \<Rightarrow> bool" where
  "released_to s b i p p' \<longleftrightarrow>
     p' = p \<or> (\<exists>m r. batch_eligible b i p = Some m \<and> p' = authorised p r ''same_command'' \<and>
       map_of (st_approvalReceipts s) r = None)"

lemma release_in_batch_released_to:
  "knows_receipts s st \<Longrightarrow> released_to s b i p (fst (release_in_batch h b i p st))"
  by (auto simp: released_to_def knows_receipts_def release_in_batch_def split: option.splits if_splits)

lemma batch_result_rel:
  "rel_option (released_to s b i) (map_of (st_pendingApprovals s) i) (map_of (fst (batch_result h s b)) i)"
  unfolding batch_result_def
  by (rule sweep_rel [where P = "knows_receipts s"])
    (simp_all add: release_in_batch_released_to knows_receipts_step knows_receipts_start)

lemma batch_eligible_Some:
  assumes "batch_eligible b i p = Some m"
  shows "pendingNeedsFocus (pa_status p)" "pa_generation p = bf_generation b"
    "sameCommandIdentity (pa_commandIdentity p) (Some (bf_identity b))"
  using assms by (auto simp: batch_eligible_def waiting_iff split: option.splits if_splits)

lemma batch_focus_Some:
  assumes "batch_focus s payload = Some (i, c, g, k, focused)"
  shows "fld payload ''grant'' = JStr ''same_command''"
    "safe_int_field payload ''sessionRevision'' = Some (int (st_revision s))" "st_approvalGeneration s \<le> g"
    "nonEmptyStringField payload ''grantKey'' = Some k" "st_activeApprovalId s = Some i"
    "map_of (st_pendingApprovals s) i = Some focused"
  using assms by (auto simp: batch_focus_def split: option.splits if_splits)

lemma batch_released_moves:
  assumes ty: "ev_type e = ''approval.batch_released''"
  shows "queue_moves h s e (st_pendingApprovals (batch_released h s (ev_data e)))"
proof (cases rule: batch_released_cases [where h = h and s = s and payload = "ev_data e"])
  case (released i c g k focused supplied pendings)
  let ?b = "batch_input (ev_data e) supplied g"
  note f = batch_focus_Some [OF released(1)]
  have release: "entry_moves h s e j p p'" if "released_to s ?b j p p'" for j p p'
  proof (cases "p' = p")
    case False
    with that obtain m r where m: "batch_eligible ?b j p = Some m" "p' = authorised p r ''same_command''"
        "map_of (st_approvalReceipts s) r = None" by (auto simp: released_to_def)
    have "entry_step p p'"
      by (rule waiting_step [OF batch_eligible_Some(1) [OF m(1)]])
        (simp_all add: m(2) authorised_def pendingWithStatus_def)
    moreover have "by_batch h s e p p'"
      using f released(2,4) batch_eligible_Some(2,3) [OF m(1)] m(3) ty
      by (simp add: by_batch_def batch_input_def m(2) authorised_def pendingWithStatus_def fresh_receipt_def)
    ultimately show ?thesis by (simp add: entry_moves_def)
  qed simp
  have "entry_moves h s e j p p''" if "released_to s ?b j p p'" "cancelled_to p' p''" for j p p' p''
  proof (cases "p'' = p'")
    case False
    then have w: "pendingNeedsFocus (pa_status p')" and eq: "p'' = pendingWithStatus p' ACancelled id"
      using that(2) by (auto simp: cancelled_to_def)
    then have "p' = p" using that(1) by (auto simp: released_to_def authorised_def pendingWithStatus_def)
    then show ?thesis
      using w by (intro entry_moves_unauthorised waiting_step) (simp_all add: eq pendingWithStatus_def)
  qed (use that release in simp)
  then have "rel_option (entry_moves h s e j) (map_of (st_pendingApprovals s) j) (map_of pendings j)" for j
    using batch_result_rel [of s ?b j h]
      cancel_reviews_rel [of "fst (batch_result h s ?b)" j "or_default (arrayField (ev_data e) ''cancelledReviewIds'') []"]
    unfolding released(6) by (auto simp: option_rel_Some1 option_rel_Some2 elim!: option.rel_cases)
  then show ?thesis by (simp add: released(7) approvalQueueState_def queue_moves_def)
qed (simp add: queue_moves_refl)

text \<open>Requests either are ignored or add one waiting entry under a new id.\<close>

definition queue_grows :: "agent_state \<Rightarrow> agent_state \<Rightarrow> bool" where
  "queue_grows s s' \<longleftrightarrow>
     (\<exists>i p. map_of (st_pendingApprovals s) i = None \<and> pendingNeedsFocus (pa_status p) \<and>
        st_pendingApprovals s' = map_set i p (st_pendingApprovals s))"

lemma enqueued_grows:
  assumes "map_of (st_pendingApprovals s) i = None" "pendingNeedsFocus (pa_status p)"
  shows "queue_grows s (enqueued s nxt i p)" "queue_grows s ((enqueued s nxt i p)\<lparr>st_doomLoop := d\<rparr>)"
  using assms by (auto simp: queue_grows_def enqueued_def Let_def approvalQueueState_def)

lemma approval_requested_grows:
  "approval_requested h s payload = s \<or> queue_grows s (approval_requested h s payload)"
  by (simp add: approval_requested_def Let_def enqueued_grows split: option.split)

lemma review_requested_grows:
  "review_requested h s payload = s \<or> queue_grows s (review_requested h s payload)"
  by (simp add: review_requested_def Let_def enqueued_grows split: option.split)

lemma reduceAuthorizationState_moves:
  assumes "approvals_ok s"
  shows "queue_moves h s e (st_pendingApprovals (reduceAuthorizationState h s e)) \<or>
    queue_grows s (reduceAuthorizationState h s e) \<or>
    ev_type e = ''turn.aborted'' \<and> st_pendingApprovals (reduceAuthorizationState h s e) = []"
proof -
  have started: "queue_moves h s e (st_pendingApprovals (tool_progressed (start_pending c) s))" for c
    by (rule tool_progressed_moves, rule bodies_step) (simp add: start_pending_def pendingWithStatus_def)
  have ended: "queue_moves h s e (st_pendingApprovals (tool_progressed (end_pending c (terminal_approval_of ty)) s))" for c ty
    by (rule tool_progressed_moves, rule bodies_step)
      (simp add: end_pending_def pendingWithStatus_def terminal_approval_of_def)
  have aborted: "st_pendingApprovals (turn_aborted s (ev_data e)) = [] \<or> turn_aborted s (ev_data e) = s"
    by (simp add: turn_aborted_def Let_def split_beta split: option.split)
  have grown: "queue_moves h s e (st_pendingApprovals s') \<or> queue_grows s s'" if "s' = s \<or> queue_grows s s'" for s'
    using that queue_moves_refl by blast
  show ?thesis
    using mode_changed_moves [of e h s] approval_granted_moves [OF assms, of e h] approval_rejected_moves [OF assms, of h e]
      batch_released_moves [of e h s] grants_cleared_moves [of h s e] started ended aborted
      grown [OF approval_requested_grows] grown [OF review_requested_grows] review_completed_moves [of e h s]
      queue_moves_refl [of "st_pendingApprovals s" s h e]
    by (auto simp: reduceAuthorizationState_def Let_def split: option.split)
qed


text \<open>
  C14: the approval queue refines the machine of the four phases. Whatever event arrives in a
  reachable state, an entry is either dropped with the whole queue when its turn is aborted, or it
  is still there under the same identity and has made a step of the machine: a waiting entry never
  starts running without an authorisation, a running one only ends, and an entry that has ended is
  not touched again. Entries appear only under new ids, and waiting.
\<close>

theorem approval_entries_follow_machine:
  assumes "authorization_reachable h s" "s' = reduceAuthorizationState h s e"
  shows "ev_type e = ''turn.aborted'' \<and> st_pendingApprovals s' = [] \<or>
    (\<forall>i p. map_of (st_pendingApprovals s) i = Some p \<longrightarrow>
       (\<exists>p'. map_of (st_pendingApprovals s') i = Some p' \<and> entry_step p p')) \<and>
    (\<forall>i p'. map_of (st_pendingApprovals s') i = Some p' \<and> map_of (st_pendingApprovals s) i = None \<longrightarrow>
       phase_of (pa_status p') = Waiting)"
proof -
  have "queue_moves h s e (st_pendingApprovals s') \<or> queue_grows s s' \<or>
      ev_type e = ''turn.aborted'' \<and> st_pendingApprovals s' = []"
    using reduceAuthorizationState_moves [OF reachable_approvals_ok [OF assms(1)]] by (simp add: assms(2))
  then show ?thesis
  proof (elim disjE)
    assume "queue_moves h s e (st_pendingApprovals s')"
    then have m: "rel_option (entry_moves h s e i) (map_of (st_pendingApprovals s) i)
        (map_of (st_pendingApprovals s') i)" for i
      by (simp add: queue_moves_def)
    show ?thesis
    proof (rule disjI2, intro conjI allI impI)
      fix i p
      assume "map_of (st_pendingApprovals s) i = Some p"
      then show "\<exists>p'. map_of (st_pendingApprovals s') i = Some p' \<and> entry_step p p'"
        using m [of i] by (auto simp: option_rel_Some1 entry_moves_def)
    next
      fix i p'
      assume "map_of (st_pendingApprovals s') i = Some p' \<and> map_of (st_pendingApprovals s) i = None"
      then show "phase_of (pa_status p') = Waiting" using m [of i] by simp
    qed
  next
    assume "queue_grows s s'"
    then obtain i p where "map_of (st_pendingApprovals s) i = None" "pendingNeedsFocus (pa_status p)"
        "st_pendingApprovals s' = map_set i p (st_pendingApprovals s)" by (auto simp: queue_grows_def)
    then show ?thesis by (auto simp: phase_of_iff)
  qed simp
qed

text \<open>
  C3: an authorisation is earned. If, after an event, an entry of a reachable state is authorised
  and it was not before, then it was waiting, and the event is one of the four grounds: the
  user's switch to full access where the policy of the entry allows it, the user's grant of the
  focused entry, a batch released by the user for a command identity the entry shares, or an
  approving review of this entry; the last three with a receipt that was not used before, and none
  of the user's decisions from before the current generation.
\<close>

theorem authorization_earned:
  assumes "authorization_reachable h s" "s' = reduceAuthorizationState h s e"
    and "map_of (st_pendingApprovals s') i = Some p'" "pa_status p' = AuthorizedQueued"
    and "\<And>p. map_of (st_pendingApprovals s) i = Some p \<Longrightarrow> pa_status p \<noteq> AuthorizedQueued"
  shows "\<exists>p. map_of (st_pendingApprovals s) i = Some p \<and> pendingNeedsFocus (pa_status p) \<and>
    (by_mode e p p' \<or> by_user s e i p p' \<or> by_batch h s e p p' \<or> by_review s e i p p')"
proof -
  have "\<not> queue_grows s s'"
  proof
    assume "queue_grows s s'"
    then obtain j q where "pendingNeedsFocus (pa_status q)"
        "st_pendingApprovals s' = map_set j q (st_pendingApprovals s)" by (auto simp: queue_grows_def)
    then show False using assms(3-5) by (auto split: if_splits)
  qed
  then have "queue_moves h s e (st_pendingApprovals s')"
    using reduceAuthorizationState_moves [OF reachable_approvals_ok [OF assms(1)], of h e] assms(2,3) by auto
  then have "rel_option (entry_moves h s e i) (map_of (st_pendingApprovals s) i) (Some p')"
    unfolding queue_moves_def assms(3) [symmetric] by (rule spec)
  then obtain p where p: "map_of (st_pendingApprovals s) i = Some p" "entry_moves h s e i p p'"
    by (auto simp: option_rel_Some2)
  then have n: "pa_status p \<noteq> AuthorizedQueued" using assms(5) by simp
  have "phase_step (phase_of (pa_status p)) Authorised" "phase_of (pa_status p) \<noteq> Authorised"
    using p(2) assms(4) n by (simp_all add: entry_moves_def entry_step_def phase_of_iff)
  then have "phase_of (pa_status p) = Waiting" by (cases "phase_of (pa_status p)") simp_all
  then show ?thesis using p n assms(4) by (simp add: phase_of_iff entry_moves_def)
qed

lemma pending_state_reachable: "authorization_reachable sample_host pending_state"
  unfolding pending_state_def
  by (rule authorization_reachable.handle) (rule authorization_reachable.start [OF fresh_state_created])

definition granted_state :: agent_state where
  "granted_state = reduceAuthorizationState sample_host pending_state (granted_event ''a'' ''r'')"

lemma granted_state_pending:
  "map_of (st_pendingApprovals granted_state) ''a'' = Some (authorised pending_entry ''r'' ''approve_once'')"
proof -
  let ?d = "ev_data (granted_event ''a'' ''r'')"
  have d: "nonEmptyStringField ?d ''interactionId'' = Some ''a''" "nonEmptyStringField ?d ''toolCallId'' = Some ''call''"
    "nonEmptyStringField ?d ''receiptId'' = Some ''r''" "safe_int_field ?d ''generation'' = Some 0"
    "fld ?d ''owner'' = JObj [(''kind'', JStr ''root_tool''), (''toolCallId'', JStr ''call'')]"
    "approvalGrant (fld ?d ''grant'') = Some ''approve_once''" "ev_type (granted_event ''a'' ''r'') = ''approval.granted''"
    by code_simp+
  have p: "pa_toolCallId pending_entry = ''call''" "pa_status pending_entry = AwaitingUser"
    "pa_generation pending_entry = 0"
    by (simp_all add: pending_entry_def non_negative_or_def safe_int_field_def requested_event_def event_def
        is_safe_integer_def fresh_state_queue)
  have "decidable_entry pending_state ?d = Some (''a'', ''call'', 0, pending_entry)"
    unfolding decidable_entry_def d using pending_entry_owned by (simp add: pending_state_fields p)
  then show ?thesis
    unfolding granted_state_def reduceAuthorizationState_def Let_def d(7)
    by (simp add: approval_granted_def d p pending_state_fields Let_def approvalQueueState_def)
qed

theorem approval_entries_follow_machine_witness:
  "\<exists>p'. map_of (st_pendingApprovals granted_state) ''a'' = Some p' \<and> entry_step pending_entry p'"
proof -
  have "ev_type (granted_event ''a'' ''r'') \<noteq> ''turn.aborted''" by code_simp
  then show ?thesis
    using approval_entries_follow_machine [OF pending_state_reachable granted_state_def] pending_state_fields(1) by auto
qed

theorem authorization_earned_witness:
  "pa_status pending_entry = AwaitingUser \<and>
   by_user pending_state (granted_event ''a'' ''r'') ''a'' pending_entry (authorised pending_entry ''r'' ''approve_once'')"
proof -
  let ?p' = "authorised pending_entry ''r'' ''approve_once''" and ?e = "granted_event ''a'' ''r''"
  have w: "pa_status pending_entry = AwaitingUser" by (simp add: pending_entry_def)
  have "\<exists>p. map_of (st_pendingApprovals pending_state) ''a'' = Some p \<and> pendingNeedsFocus (pa_status p) \<and>
      (by_mode ?e p ?p' \<or> by_user pending_state ?e ''a'' p ?p' \<or> by_batch sample_host pending_state ?e p ?p' \<or>
       by_review pending_state ?e ''a'' p ?p')"
    by (rule authorization_earned [OF pending_state_reachable granted_state_def granted_state_pending])
      (simp_all add: authorised_def pendingWithStatus_def pending_state_fields w)
  moreover have "ev_type ?e = ''approval.granted''" by code_simp
  ultimately show ?thesis
    using w by (simp add: pending_state_fields by_mode_def by_batch_def by_review_def)
qed


section \<open>Receipts and generations only move forward\<close>

definition receipt_rank :: "approval_receipt \<Rightarrow> nat" where
  "receipt_rank r = (if ar_status r = ''terminal'' then 2 else if ar_status r = ''running'' then 1 else 0)"

definition receipt_advances :: "approval_receipt \<Rightarrow> approval_receipt \<Rightarrow> bool" where
  "receipt_advances r r' \<longleftrightarrow>
     ar_receiptId r' = ar_receiptId r \<and> ar_interactionId r' = ar_interactionId r \<and>
     ar_toolCallId r' = ar_toolCallId r \<and> ar_generation r' = ar_generation r \<and>
     ar_grant r' = ar_grant r \<and> receipt_rank r \<le> receipt_rank r'"

definition receipts_advance :: "receipts \<Rightarrow> receipts \<Rightarrow> bool" where
  "receipts_advance rs rs' \<longleftrightarrow>
     (\<forall>k r. map_of rs k = Some r \<longrightarrow> (\<exists>r'. map_of rs' k = Some r' \<and> receipt_advances r r'))"

lemma receipts_advance_refl [simp]: "receipts_advance rs rs"
  by (simp add: receipts_advance_def receipt_advances_def)

lemma receipt_advances_trans: "receipt_advances a b \<Longrightarrow> receipt_advances b c \<Longrightarrow> receipt_advances a c"
  by (simp add: receipt_advances_def)

lemma receipts_advance_trans: "receipts_advance a b \<Longrightarrow> receipts_advance b c \<Longrightarrow> receipts_advance a c"
  unfolding receipts_advance_def using receipt_advances_trans by blast

lemma receipts_advance_fresh: "map_of rs k = None \<Longrightarrow> receipts_advance rs (map_set k r rs)"
  by (auto simp: receipts_advance_def receipt_advances_def)

lemma update_receipt_advances:
  assumes "\<And>k r. truthy_option i = Some k \<Longrightarrow> map_of rs k = Some r \<Longrightarrow> receipt_advances r (f r)"
  shows "receipts_advance rs (update_receipt i f rs)"
  using assms
  by (auto simp: update_receipt_def receipts_advance_def receipt_advances_def split: option.splits)

lemma start_pending_advances:
  assumes "entry_ok n g (fst st) i p"
  shows "receipts_advance (fst st) (fst (snd (start_pending c i p st)))"
proof (cases "pa_toolCallId p \<noteq> c \<or> pa_status p \<noteq> AuthorizedQueued")
  case False
  have "receipts_advance (fst st) (update_receipt (pa_receiptId p)
      (\<lambda>r. r\<lparr>ar_status := ''running'', ar_dispatchState := Some ''dispatch_acked''\<rparr>) (fst st))"
    by (rule update_receipt_advances)
      (use assms False in \<open>auto simp: entry_ok_def entry_tracked_def receipt_advances_def receipt_rank_def
        truthy_option_def split: option.splits if_splits\<close>)
  then show ?thesis using False by (simp add: start_pending_def)
qed (auto simp: start_pending_def)

lemma end_pending_advances: "receipts_advance (fst st) (fst (snd (end_pending c t i p st)))"
  by (simp add: end_pending_def update_receipt_advances receipt_advances_def receipt_rank_def)

lemma abort_pending_advances: "receipts_advance (fst st) (fst (foldl abort_pending st ps))"
proof (induction ps arbitrary: st)
  case (Cons p ps)
  have "receipts_advance (fst st) (fst (abort_pending st p))"
    by (simp add: abort_pending_def update_receipt_advances receipt_advances_def receipt_rank_def)
  then show ?case using Cons.IH by (simp, rule receipts_advance_trans)
qed simp

definition history_advances :: "agent_state \<Rightarrow> agent_state \<Rightarrow> bool" where
  "history_advances s s' \<longleftrightarrow>
     receipts_advance (st_approvalReceipts s) (st_approvalReceipts s') \<and>
     st_nextQueueSequence s \<le> st_nextQueueSequence s' \<and> st_approvalGeneration s \<le> st_approvalGeneration s'"

lemma history_advances_refl [simp]: "history_advances s s"
  by (simp add: history_advances_def)

lemma history_advances_trans: "history_advances a b \<Longrightarrow> history_advances b c \<Longrightarrow> history_advances a c"
  by (auto simp: history_advances_def intro: receipts_advance_trans)

lemma same_approvals_history: "same_approvals s s' \<Longrightarrow> history_advances s s'"
  by (simp add: same_approvals_def history_advances_def)

lemma tool_progressed_history:
  assumes ok: "approvals_ok s" and sweep: "tracked_sweep f
      (\<lambda>st. entry_ok (st_nextQueueSequence s) (st_approvalGeneration s) (fst st))"
    and step: "\<And>i p st. entry_ok (st_nextQueueSequence s) (st_approvalGeneration s) (fst st) i p \<Longrightarrow>
      receipts_advance (fst st) (fst (snd (f i p st)))"
  shows "history_advances s (tool_progressed f s)"
proof -
  have "receipts_advance (fst (st_approvalReceipts s, False))
      (fst (snd (sweep_pending f (st_pendingApprovals s) (st_approvalReceipts s, False))))"
    by (rule tracked_sweep.advances [OF sweep, where R = "\<lambda>a b. receipts_advance (fst a) (fst b)"])
      (use approvals_ok_entries [OF ok] step receipts_advance_trans in
        \<open>auto simp: entries_ok_def distinct_keys_def\<close>)
  then show ?thesis
    by (simp add: tool_progressed_def split_beta approvalQueueState_def history_advances_def)
qed

lemma batch_released_history: "history_advances s (batch_released h s payload)"
proof (cases rule: batch_released_cases [where h = h and s = s and payload = payload])
  case (released i c g k focused supplied pendings)
  let ?b = "batch_input payload supplied g"
  have "receipts_advance (st_approvalReceipts s) (bs_receipts (snd (release_in_batch h ?b j p st)))"
    if "receipts_advance (st_approvalReceipts s) (bs_receipts st)" for j p st
    using that
    by (cases h ?b j p st rule: release_in_batch_cases)
      (auto intro: receipts_advance_trans receipts_advance_fresh)
  then have "receipts_advance (st_approvalReceipts s) (bs_receipts (snd (batch_result h s ?b)))"
    unfolding batch_result_def
    by (rule sweep_state [where P = "\<lambda>st. receipts_advance (st_approvalReceipts s) (bs_receipts st)"])
      (simp_all add: batch_start_def)
  then show ?thesis
    using batch_next_approvals [of s h ?b]
    by (simp add: released(7) history_advances_def approvalQueueState_def same_approvals_def max_int_def)
qed simp

lemma requests_history:
  "history_advances s (approval_requested h s payload)" "history_advances s (review_requested h s payload)"
proof -
  have e: "history_advances s (enqueued s (updateToolCall s c f) i p)"
    "history_advances s ((enqueued s (updateToolCall s c f) i p)\<lparr>st_doomLoop := d\<rparr>)" for c f i p d
    using updateToolCall_approvals [of s c f]
    by (simp_all add: enqueued_def Let_def approvalQueueState_def history_advances_def same_approvals_def
        nextQueueSequence_def max_int_def)
  show "history_advances s (approval_requested h s payload)" "history_advances s (review_requested h s payload)"
    by (simp_all add: approval_requested_def review_requested_def Let_def e split: option.split)
qed

lemma decisions_history:
  "history_advances s (approval_granted h s payload)" "history_advances s (approval_rejected s payload)"
  "history_advances s (review_completed h s payload)"
proof -
  note upd = updateToolCall_approvals [unfolded same_approvals_def] pendingToolStatus_approvals [unfolded same_approvals_def]
  show "history_advances s (approval_granted h s payload)"
    by (simp add: approval_granted_def Let_def approvalQueueState_def history_advances_def upd max_int_def
        receipts_advance_fresh split: option.split prod.split)
  show "history_advances s (approval_rejected s payload)"
    by (simp add: approval_rejected_def Let_def approvalQueueState_def history_advances_def upd
        split: option.split prod.split)
  show "history_advances s (review_completed h s payload)"
    by (simp add: review_completed_def review_escalated_def review_approved_def review_rejected_def Let_def
        approvalQueueState_def history_advances_def upd receipts_advance_fresh split: option.split prod.split)
qed

lemma modes_history:
  "history_advances s (mode_changed h s payload)" "history_advances s (grants_cleared h s payload)"
proof -
  note m = with_mode_approvals [unfolded same_approvals_def]
  show "history_advances s (mode_changed h s payload)"
    by (simp add: mode_changed_def history_advances_def swept_fields bodies_same_approvals m split: option.split)
  show "history_advances s (grants_cleared h s payload)"
    by (simp add: grants_cleared_def history_advances_def swept_fields bodies_same_approvals split: option.split)
qed

lemma turn_aborted_history: "history_advances s (turn_aborted s payload)"
  using abort_pending_advances [of "(st_approvalReceipts s, to_calls (st_tools s))" "obj_values (st_pendingApprovals s)"]
  by (simp add: turn_aborted_def Let_def split_beta history_advances_def split: option.split)

lemma reduceAuthorizationState_history:
  assumes ok: "approvals_ok s"
  shows "history_advances s (reduceAuthorizationState h s e)"
proof -
  have "history_advances s (tool_progressed (start_pending c) s)" for c
    by (rule tool_progressed_history [OF ok starting.tracked_sweep_axioms]) (rule start_pending_advances)
  moreover have "history_advances s (tool_progressed (end_pending c (terminal_approval_of ty)) s)" for c ty
    by (rule tool_progressed_history [OF ok ending.tracked_sweep_axioms]) (rule end_pending_advances)
  ultimately show ?thesis
    by (simp add: reduceAuthorizationState_def Let_def batch_released_history requests_history decisions_history
        modes_history turn_aborted_history split: option.split)
qed


lemma reachable_run: "authorization_reachable h s \<Longrightarrow> authorization_reachable h (foldl (reduceAuthorizationState h) s es)"
  by (induction es arbitrary: s) (simp_all add: authorization_reachable.handle)

lemma run_history:
  "authorization_reachable h s \<Longrightarrow> history_advances s (foldl (reduceAuthorizationState h) s es)"
proof (induction es arbitrary: s)
  case (Cons e es)
  have "history_advances s (reduceAuthorizationState h s e)"
    using Cons.prems by (intro reduceAuthorizationState_history reachable_approvals_ok)
  then show ?case
    using Cons.IH [OF authorization_reachable.handle [OF Cons.prems]] by (simp, rule history_advances_trans)
qed simp

text \<open>
  C16: receipts are spent once. Over any sequence of events from a reachable state, a receipt that
  is recorded stays recorded with the same interaction, tool call, generation and grant, its status
  only moves from queued to running to terminal, and no later event authorises an entry with its
  id again; the queue sequence and the generation never decrease.
\<close>

theorem receipts_spent_once:
  assumes "authorization_reachable h s" "s' = foldl (reduceAuthorizationState h) s es"
    and "map_of (st_approvalReceipts s) k = Some r"
  shows "(\<exists>r'. map_of (st_approvalReceipts s') k = Some r' \<and> receipt_advances r r') \<and>
    st_nextQueueSequence s \<le> st_nextQueueSequence s' \<and> st_approvalGeneration s \<le> st_approvalGeneration s' \<and>
    (\<forall>e i p'. map_of (st_pendingApprovals (reduceAuthorizationState h s' e)) i = Some p' \<and>
       pa_status p' = AuthorizedQueued \<and> pa_receiptId p' = Some k \<longrightarrow>
       (\<exists>p. map_of (st_pendingApprovals s') i = Some p \<and> pa_status p = AuthorizedQueued))"
proof -
  have h: "history_advances s s'" unfolding assms(2) by (rule run_history [OF assms(1)])
  then obtain r' where r': "map_of (st_approvalReceipts s') k = Some r'" "receipt_advances r r'"
    using assms(3) by (auto simp: history_advances_def receipts_advance_def)
  have reach: "authorization_reachable h s'" unfolding assms(2) by (rule reachable_run [OF assms(1)])
  have "\<exists>p. map_of (st_pendingApprovals s') i = Some p \<and> pa_status p = AuthorizedQueued"
    if p': "map_of (st_pendingApprovals (reduceAuthorizationState h s' e)) i = Some p'"
      "pa_status p' = AuthorizedQueued" "pa_receiptId p' = Some k" for e i p'
  proof -
    have none: "\<not> fresh_receipt s' p'" "pa_receiptId p' \<noteq> None" using p'(3) r'(1) by (auto simp: fresh_receipt_def)
    consider "queue_moves h s' e (st_pendingApprovals (reduceAuthorizationState h s' e))"
      | j q where "pendingNeedsFocus (pa_status q)"
        "st_pendingApprovals (reduceAuthorizationState h s' e) = map_set j q (st_pendingApprovals s')"
      using reduceAuthorizationState_moves [OF reachable_approvals_ok [OF reach], of h e] p'(1)
      by (auto simp: queue_grows_def)
    then show ?thesis
    proof cases
      case 1
      then have "rel_option (entry_moves h s' e i) (map_of (st_pendingApprovals s') i) (Some p')"
        unfolding queue_moves_def p'(1) [symmetric] by (rule spec)
      then show ?thesis
        using none p'(2)
        by (auto simp: option_rel_Some2 entry_moves_def by_mode_def by_user_def by_batch_def by_review_def)
    next
      case 2
      then show ?thesis using p'(1,2) by (auto split: if_splits)
    qed
  qed
  then show ?thesis using h r' by (auto simp: history_advances_def)
qed

lemma granted_state_reachable: "authorization_reachable sample_host granted_state"
  unfolding granted_state_def by (rule authorization_reachable.handle [OF pending_state_reachable])

lemma granted_state_receipt: "\<exists>r. map_of (st_approvalReceipts granted_state) ''r'' = Some r"
proof -
  have "entry_ok (st_nextQueueSequence granted_state) (st_approvalGeneration granted_state)
      (st_approvalReceipts granted_state) ''a'' (authorised pending_entry ''r'' ''approve_once'')"
    by (rule entries_ok_lookup [OF approvals_ok_entries [OF reachable_approvals_ok [OF granted_state_reachable]]
          granted_state_pending])
  then show ?thesis by (auto simp: entry_ok_def entry_tracked_def authorised_def pendingWithStatus_def)
qed

theorem receipts_spent_once_witness:
  "\<exists>r'. map_of (st_approvalReceipts
     (foldl (reduceAuthorizationState sample_host) granted_state [granted_event ''a'' ''r''])) ''r'' = Some r'"
proof -
  obtain r where "map_of (st_approvalReceipts granted_state) ''r'' = Some r" using granted_state_receipt by blast
  from receipts_spent_once [OF granted_state_reachable refl this, of "[granted_event ''a'' ''r'']"]
  show ?thesis by blast
qed

section \<open>Revocation\<close>

lemma swept_entries:
  assumes "map_of (fst (sweep_pending f m st)) i = Some p'" "\<And>i p st. Q (fst (f i p st))"
  shows "Q p'"
  using sweep_lookup [OF assms(1)] assms(2) by blast

lemma stale_decisions_ignored:
  assumes "safe_int_field (ev_data e) ''generation'' = Some g" "g < st_approvalGeneration s"
    and "ev_type e \<in> {''approval.granted'', ''approval.rejected'', ''approval.batch_released'',
      ''approval.session_grants_cleared''}"
  shows "reduceAuthorizationState h s e = s"
proof -
  have "decidable_entry s (ev_data e) = None" "batch_focus s (ev_data e) = None"
    using assms(1,2) by (auto simp: decidable_entry_def batch_focus_def split: option.split)
  moreover have "grants_cleared h s (ev_data e) = s"
    using assms(1,2) by (simp add: grants_cleared_def split: option.split)
  ultimately show ?thesis
    using assms(3)
    by (auto simp: reduceAuthorizationState_def Let_def approval_granted_def approval_rejected_def batch_released_def)
qed

lemma revoked_entry:
  "\<not> (pa_status (fst (revoke_same_command h g i p st)) = AuthorizedQueued \<and>
      pa_authorizationSource (fst (revoke_same_command h g i p st)) = Some ''same_command'')"
  "pendingNeedsFocus (pa_status (fst (revoke_same_command h g i p st))) \<Longrightarrow>
     pa_generation (fst (revoke_same_command h g i p st)) = g"
  by (auto simp: revoke_same_command_def Let_def restorePendingAfterClear_def pendingWithStatus_def
      pendingNeedsGenerationRebase_def waiting_iff)

text \<open>
  C15: clearing the session's standing grants is complete. An accepted request (for this session,
  at its current revision, with a later generation) leaves no standing grant and no entry that is
  authorised only because of one, moves every waiting entry to the new generation, and from then on
  \<^emph>\<open>whatever events follow\<close> a decision or release made for an older generation changes nothing.
\<close>

theorem revocation_complete:
  assumes "authorization_reachable h s" "ev_type e = ''approval.session_grants_cleared''"
    and "nonEmptyStringField (ev_data e) ''sessionId'' = Some (se_threadId (st_session s))"
    and "safe_int_field (ev_data e) ''sessionRevision'' = Some (int (st_revision s))"
    and "safe_int_field (ev_data e) ''generation'' = Some g" "st_approvalGeneration s < g"
    and "s' = reduceAuthorizationState h s e"
  shows "st_sessionCommandGrants s' = [] \<and>
    (\<forall>i p. map_of (st_pendingApprovals s') i = Some p \<longrightarrow>
       \<not> (pa_status p = AuthorizedQueued \<and> pa_authorizationSource p = Some ''same_command'') \<and>
       (pendingNeedsFocus (pa_status p) \<longrightarrow> pa_generation p = g)) \<and>
    (\<forall>es e' g'. ev_type e' \<in> {''approval.granted'', ''approval.rejected'', ''approval.batch_released'',
         ''approval.session_grants_cleared''} \<and>
       safe_int_field (ev_data e') ''generation'' = Some g' \<and> g' < g \<longrightarrow>
       reduceAuthorizationState h (foldl (reduceAuthorizationState h) s' es) e' =
         foldl (reduceAuthorizationState h) s' es)"
proof -
  have eq: "s' = (swept (revoke_same_command h g) s)\<lparr>st_sessionCommandGrants := [], st_approvalGeneration := g\<rparr>"
    using assms(2-6) by (simp add: assms(7) reduceAuthorizationState_def Let_def grants_cleared_def)
  have reach: "authorization_reachable h s'" unfolding assms(7) by (rule authorization_reachable.handle [OF assms(1)])
  have "\<not> (pa_status p = AuthorizedQueued \<and> pa_authorizationSource p = Some ''same_command'') \<and>
      (pendingNeedsFocus (pa_status p) \<longrightarrow> pa_generation p = g)"
    if "map_of (st_pendingApprovals s') i = Some p" for i p
    using that unfolding eq
    by (simp add: swept_fields bodies_same_approvals) (erule swept_entries, use revoked_entry in blast)
  moreover have "reduceAuthorizationState h (foldl (reduceAuthorizationState h) s' es) e' =
      foldl (reduceAuthorizationState h) s' es"
    if "ev_type e' \<in> {''approval.granted'', ''approval.rejected'', ''approval.batch_released'',
         ''approval.session_grants_cleared''}" "safe_int_field (ev_data e') ''generation'' = Some g'" "g' < g" for es e' g'
    using run_history [OF reach, of es] that
    by (intro stale_decisions_ignored [of e' g']) (auto simp: history_advances_def eq)
  ultimately show ?thesis by (simp add: eq)
qed

definition clearing_event :: kernel_event where
  "clearing_event = event ''approval.session_grants_cleared'' [(''sessionId'', JStr (se_threadId (st_session fresh_state))),
     (''sessionRevision'', JNum 0), (''generation'', JNum 1)]"

theorem revocation_complete_witness:
  "st_sessionCommandGrants (reduceAuthorizationState sample_host fresh_state clearing_event) = [] \<and>
   reduceAuthorizationState sample_host
     (reduceAuthorizationState sample_host fresh_state clearing_event) (granted_event ''a'' ''r'') =
   reduceAuthorizationState sample_host fresh_state clearing_event"
proof -
  have reach: "authorization_reachable sample_host fresh_state"
    by (rule authorization_reachable.start [OF fresh_state_created])
  have e: "ev_type clearing_event = ''approval.session_grants_cleared''"
    "nonEmptyStringField (ev_data clearing_event) ''sessionId'' = Some (se_threadId (st_session fresh_state))"
    "safe_int_field (ev_data clearing_event) ''sessionRevision'' = Some (int (st_revision fresh_state))"
    "safe_int_field (ev_data clearing_event) ''generation'' = Some 1" "st_approvalGeneration fresh_state < 1"
    "ev_type (granted_event ''a'' ''r'') = ''approval.granted''"
    "safe_int_field (ev_data (granted_event ''a'' ''r'')) ''generation'' = Some 0"
    by code_simp+
  note r = revocation_complete [OF reach e(1-5) refl]
  show ?thesis
    using r [THEN conjunct1]
      r [THEN conjunct2, THEN conjunct2, THEN spec [of _ "[]"], THEN spec [of _ "granted_event ''a'' ''r''"],
        THEN spec [of _ 0]]
    by (simp add: e(6,7))
qed


section \<open>The circuit breaker of the reducer\<close>

text \<open>
  Only a rejection touches the review statistics: the branch of evaluateAutoReviewCircuit for an
  approval has no caller, so consecutiveRejects counts all rejections of a session and a tripped
  breaker stays tripped.
\<close>

lemma updateToolCall_autoReview [simp]: "st_autoReview (updateToolCall s i f) = st_autoReview s"
  by (simp add: updateToolCall_def split: option.split)

lemma pendingToolStatus_autoReview [simp]: "st_autoReview (pendingToolStatus h s i st g a m) = st_autoReview s"
  by (simp add: pendingToolStatus_def)

lemma swept_autoReview:
  assumes "\<And>i p st. st_autoReview (snd (f i p st)) = st_autoReview st"
  shows "st_autoReview (swept f s) = st_autoReview s"
  using sweep_state [where P = "\<lambda>st. st_autoReview st = st_autoReview s" and f = f and s = s] assms
  by (simp add: swept_def split_beta approvalQueueState_def)

lemma batch_autoReview [simp]: "st_autoReview (batch_released h s payload) = st_autoReview s"
proof (cases rule: batch_released_cases [where h = h and s = s and payload = payload])
  case (released i c g k focused supplied pendings)
  have "st_autoReview (bs_next (snd (batch_result h s b))) = st_autoReview s" for b
    unfolding batch_result_def
    by (rule sweep_state [where P = "\<lambda>st. st_autoReview (bs_next st) = st_autoReview s"])
      (auto simp: release_in_batch_def batch_start_def split: option.splits)
  then show ?thesis by (simp add: released(7) approvalQueueState_def)
qed simp

lemma enqueued_autoReview [simp]: "st_autoReview (enqueued s nxt i p) = st_autoReview nxt"
  by (simp add: enqueued_def Let_def approvalQueueState_def)

lemma with_mode_autoReview [simp]: "st_autoReview (with_mode s mode) = st_autoReview s"
  by (simp add: with_mode_def clear_execution_mode_def split: option.split)

lemma breaker_latched:
  assumes "av_circuitBreakerTripped (st_autoReview s)"
  shows "av_circuitBreakerTripped (st_autoReview (reduceAuthorizationState h s e))"
proof -
  have sw: "st_autoReview (swept (release_for_full h) s') = st_autoReview s'"
    "st_autoReview (swept (restore_from_full h) s') = st_autoReview s'"
    "st_autoReview (swept (revoke_same_command h g) s') = st_autoReview s'" for s' g
    by (rule swept_autoReview; simp add: release_for_full_def restore_from_full_def revoke_same_command_def Let_def)+
  have "st_autoReview (mode_changed h s p) = st_autoReview s" "st_autoReview (approval_requested h s p) = st_autoReview s"
    "st_autoReview (review_requested h s p) = st_autoReview s" "st_autoReview (approval_granted h s p) = st_autoReview s"
    "st_autoReview (approval_rejected s p) = st_autoReview s" "st_autoReview (grants_cleared h s p) = st_autoReview s"
    "st_autoReview (turn_aborted s p) = st_autoReview s" "st_autoReview (tool_progressed f s) = st_autoReview s" for p f
    by (simp_all add: mode_changed_def sw approval_requested_def review_requested_def approval_granted_def
        approval_rejected_def grants_cleared_def turn_aborted_def tool_progressed_def approvalQueueState_def Let_def
        split_beta split: option.split)
  moreover have "av_circuitBreakerTripped (st_autoReview (review_completed h s p))" for p
    using assms
    by (simp add: review_completed_def review_escalated_def review_approved_def review_rejected_def Let_def
        approvalQueueState_def evaluateAutoReviewCircuit_def split: option.split prod.split)
  ultimately show ?thesis using assms by (simp add: reduceAuthorizationState_def Let_def split: option.split)
qed

lemma approval_keeps_rejections:
  "st_autoReview (review_approved h s c i p d) = st_autoReview s"
  by (simp add: review_approved_def Let_def approvalQueueState_def)

end
