(* ===== verification/Kite_Intent.thy ===== *)
theory Kite_Intent
  imports Kite_Authorization
begin

text \<open>
  src/packages/agent-kernel/src/core/intent/reducer.ts: the reducer that owns tool calls. A queued
  call is recorded with its effect class and its admission as a recovery; it starts, and ends with
  the outcome of its terminal event, which also leaves the message the model reads. The whole
  reducer is modelled; its properties are in Kite_Intent_Inv.
\<close>

section \<open>Effects of a call\<close>

definition READ_ONLY_TOOLS :: "string list" where
  "READ_ONLY_TOOLS = [''read_file'', ''search_content'', ''search_files'', ''tool_search'',
     ''list_mcp_resources'', ''list_mcp_tools'', ''read_mcp_resource'', ''web_fetch'', ''ask_user'']"

definition PLAN_ONLY_TOOLS :: "string list" where
  "PLAN_ONLY_TOOLS = [''write_plan'', ''update_plan'']"

definition READ_ONLY_SUBAGENTS :: "string list" where
  "READ_ONLY_SUBAGENTS = [''explore'', ''plan'', ''review'']"

definition UNKNOWN_FIELD_CLASSES :: "string list" where
  "UNKNOWN_FIELD_CLASSES =
     [''builtin_read'', ''builtin_write'', ''builtin_execute'', ''builtin_other'', ''mcp_tool'']"

definition unknownToolFields :: "jval \<Rightarrow> jobj option" where
  "unknownToolFields value =
     (case as_record value of None \<Rightarrow> None
      | Some candidate \<Rightarrow>
          (case (safe_int_field candidate ''count'', truthy_option (stringField candidate ''schemaRevision'')) of
             (Some n, Some schemaRevision) \<Rightarrow>
               if \<not> is_bool (fld candidate ''hasUnknown'') \<or> n < 0 \<or> n > 255 \<or>
                 or_default (stringField candidate ''toolClass'') [] \<notin> set UNKNOWN_FIELD_CLASSES then None
               else Some [(''hasUnknown'', fld candidate ''hasUnknown''), (''count'', fld candidate ''count''),
                 (''toolClass'', fld candidate ''toolClass''), (''schemaRevision'', JStr schemaRevision)]
           | _ \<Rightarrow> None))"

fun isTerminal :: "tool_status \<Rightarrow> bool" where
  "isTerminal TSucceeded = True"
| "isTerminal TFailed = True"
| "isTerminal TRejected = True"
| "isTerminal TCancelled = True"
| "isTerminal TExhausted = True"
| "isTerminal _ = False"

definition withToolMembership :: "agent_state \<Rightarrow> string \<Rightarrow> bool \<Rightarrow> bool \<Rightarrow> agent_state" where
  "withToolMembership s toolCallId active queued =
     s\<lparr>st_tools := (st_tools s)\<lparr>to_queue := replaceStringInList (to_queue (st_tools s)) toolCallId queued,
       to_active := replaceStringInList (to_active (st_tools s)) toolCallId active\<rparr>\<rparr>"

record call_effect =
  ce_effectClass :: effect_class
  ce_sideEffect :: bool
  ce_classificationReason :: "string option"

definition effectProjection :: "string \<Rightarrow> jval \<Rightarrow> call_effect" where
  "effectProjection name args =
     (if name \<in> set READ_ONLY_TOOLS
      then \<lparr>ce_effectClass = ReadOnly, ce_sideEffect = False,
        ce_classificationReason = Some (name @ '' is a read-only capability.'')\<rparr>
      else if name \<in> set PLAN_ONLY_TOOLS
      then \<lparr>ce_effectClass = PlanOnly, ce_sideEffect = False,
        ce_classificationReason = Some (name @ '' changes runtime planning state only.'')\<rparr>
      else if name = ''task''
      then (case vfld args ''subagent_type'' of
          JStr subagentType \<Rightarrow>
            if subagentType \<in> set READ_ONLY_SUBAGENTS
            then \<lparr>ce_effectClass = ReadOnly, ce_sideEffect = False,
              ce_classificationReason = Some (subagentType @ '' sub-agent is read-only by role.'')\<rparr>
            else \<lparr>ce_effectClass = WorkspaceWrite, ce_sideEffect = True,
              ce_classificationReason = Some ''Implementation-capable or unknown sub-agent role.''\<rparr>
        | _ \<Rightarrow> \<lparr>ce_effectClass = WorkspaceWrite, ce_sideEffect = True,
              ce_classificationReason = Some ''Implementation-capable or unknown sub-agent role.''\<rparr>)
      else \<lparr>ce_effectClass = UnknownEffect, ce_sideEffect = True,
        ce_classificationReason = Some (''No safe capability classification exists for '' @ name @ ''.'')\<rparr>)"

definition read_effect_class :: "string option \<Rightarrow> effect_class option" where
  "read_effect_class v =
     (if v = Some ''read_only'' then Some ReadOnly else if v = Some ''plan_only'' then Some PlanOnly
      else if v = Some ''workspace_write'' then Some WorkspaceWrite
      else if v = Some ''external_side_effect'' then Some ExternalSideEffect
      else if v = Some ''unknown'' then Some UnknownEffect else None)"

definition suppliedEffect :: "jobj \<Rightarrow> string \<Rightarrow> jval \<Rightarrow> call_effect" where
  "suppliedEffect payload name args =
     (case read_effect_class (stringField payload ''effectClass'') of None \<Rightarrow> effectProjection name args
      | Some effectClass \<Rightarrow>
          \<lparr>ce_effectClass = effectClass,
           ce_sideEffect = (case fld payload ''sideEffect'' of JBool b \<Rightarrow> b
             | _ \<Rightarrow> effectClass \<noteq> ReadOnly \<and> effectClass \<noteq> PlanOnly),
           ce_classificationReason = truthy_option (stringField payload ''classificationReason'')\<rparr>)"

section \<open>Messages\<close>

definition transcriptMeta :: "agent_state \<Rightarrow> string \<Rightarrow> string option \<Rightarrow> message_meta" where
  "transcriptMeta s messageId createdAt =
     \<lparr>mm_messageId = messageId, mm_turnId = tn_turnId (st_turn s),
      mm_ordinal = length (ts_messages (st_transcript s)), mm_createdAt = or_default createdAt EPOCH\<rparr>"

definition stringArg :: "jval \<Rightarrow> string \<Rightarrow> string option" where
  "stringArg args key = truthy_option (as_string (vfld args key))"

definition toolExecutionModelContent :: "jobj \<Rightarrow> string" where
  "toolExecutionModelContent result =
     (let ok = fld result ''ok'' = JBool True \<and>
        (fld result ''status'' = JUndef \<or> fld result ''status'' = JStr ''success'') in
      or_default (if ok then or_string (stringField result ''stdout'') (stringField result ''stderr'')
        else or_string (stringField result ''stderr'') (stringField result ''stdout'')) [])"

definition set_optional :: "string \<Rightarrow> jval option \<Rightarrow> jobj \<Rightarrow> jobj" where
  "set_optional k v o' = (case v of None \<Rightarrow> o' | Some x \<Rightarrow> obj_set k x o')"

definition result_path :: "tool_call \<Rightarrow> jobj \<Rightarrow> string option" where
  "result_path call supplied =
     (case stringField supplied ''path'' of Some p \<Rightarrow> Some p
      | None \<Rightarrow> (case stringArg (tc_args call) ''path'' of Some p \<Rightarrow> Some p
          | None \<Rightarrow> stringArg (tc_args call) ''uri''))"

definition mutates_workspace :: "tool_call \<Rightarrow> jobj \<Rightarrow> bool" where
  "mutates_workspace call result \<longleftrightarrow>
     fld result ''ok'' = JBool True \<and>
     (tc_effectClass call = Some WorkspaceWrite \<or>
      tc_effectClass call = Some UnknownEffect \<and> tc_sideEffect call = Some True)"

definition resultMeta :: "tool_call \<Rightarrow> jobj \<Rightarrow> string \<Rightarrow> jobj" where
  "resultMeta call result content =
     (let supplied = sub_record result ''resultMeta'';
          path = truthy_option (result_path call supplied);
          suppliedContentDigest = stringField supplied ''contentDigest'';
          suppliedModelDigest = stringField supplied ''modelContentDigest'';
          truncated = (fld supplied ''truncated'' = JBool True);
          fallbackDigest = sha256Hex content;
          located = set_optional ''path'' (map_option JStr path) supplied;
          counted = set_optional ''totalLines'' (map_option JNum (numberField result ''totalLines'')) located;
          commanded = set_optional ''command''
            (map_option JStr (truthy_option (stringField result ''command''))) counted;
          scoped = set_optional ''workspaceMutationScope''
            (if mutates_workspace call result then map_option (\<lambda>p. JArr [JStr p]) path else None) commanded;
          digested = obj_set ''modelContentDigest''
            (JStr (or_default suppliedModelDigest (or_default suppliedContentDigest fallbackDigest)))
            (obj_set ''contentDigest''
              (JStr (or_default suppliedContentDigest (or_default suppliedModelDigest fallbackDigest))) scoped);
          raw = obj_set ''rawResultDigest''
            (if truncated then JUndef
             else JStr (or_default (stringField supplied ''rawResultDigest'')
               (or_default suppliedContentDigest fallbackDigest))) digested in
      obj_set ''digestScope''
        (JStr (or_default (stringField supplied ''digestScope'')
          (if truncated then ''projected''
           else if non_empty suppliedContentDigest then ''raw'' else ''legacy_unknown''))) raw)"

fun message_meta_of :: "transcript_message \<Rightarrow> message_meta" where
  "message_meta_of (UserMessage m c) = m"
| "message_meta_of (RuntimeMessage m c) = m"
| "message_meta_of (AssistantMessage m c r t) = m"
| "message_meta_of (ToolMessage m i n c k r) = m"

fun with_ordinal :: "nat \<Rightarrow> transcript_message \<Rightarrow> transcript_message" where
  "with_ordinal n (UserMessage m c) = UserMessage (m\<lparr>mm_ordinal := n\<rparr>) c"
| "with_ordinal n (RuntimeMessage m c) = RuntimeMessage (m\<lparr>mm_ordinal := n\<rparr>) c"
| "with_ordinal n (AssistantMessage m c r t) = AssistantMessage (m\<lparr>mm_ordinal := n\<rparr>) c r t"
| "with_ordinal n (ToolMessage m i name c k r) = ToolMessage (m\<lparr>mm_ordinal := n\<rparr>) i name c k r"

fun tool_message_call :: "transcript_message \<Rightarrow> string option" where
  "tool_message_call (ToolMessage m i n c k r) = Some i"
| "tool_message_call _ = None"

definition renumber :: "transcript_message list \<Rightarrow> transcript_message list" where
  "renumber messages = map (\<lambda>(ordinal, m). with_ordinal ordinal m) (enumerate 0 messages)"

text \<open>The model message a tool message answers, and the ordinal of its call in it.\<close>

definition answers :: "tool_call jsobj \<Rightarrow> transcript_message \<Rightarrow> string option" where
  "answers calls m =
     (case tool_message_call m of None \<Rightarrow> None
      | Some i \<Rightarrow> map_option tc_modelMessageId (map_of calls i))"

definition call_ordinal :: "tool_call jsobj \<Rightarrow> transcript_message \<Rightarrow> rat option" where
  "call_ordinal calls m =
     (case tool_message_call m of None \<Rightarrow> None
      | Some i \<Rightarrow> (case map_of calls i of None \<Rightarrow> None | Some c \<Rightarrow> tc_ordinal c))"

text \<open>The comparison passed to \<open>sort\<close>, as its result being at most zero.\<close>

definition transcript_le ::
  "tool_call jsobj \<Rightarrow> nat \<times> transcript_message \<Rightarrow> nat \<times> transcript_message \<Rightarrow> bool" where
  "transcript_le calls l r =
     (case (call_ordinal calls (snd l), call_ordinal calls (snd r)) of
        (None, None) \<Rightarrow> fst l \<le> fst r
      | (None, Some b) \<Rightarrow> False
      | (Some a, None) \<Rightarrow> True
      | (Some a, Some b) \<Rightarrow> if a = b then fst l \<le> fst r else a < b)"

definition place :: "transcript_message list \<Rightarrow> (nat \<times> transcript_message) list \<Rightarrow> transcript_message list" where
  "place messages entries = foldl (\<lambda>ms (position, m). ms[position := m]) messages entries"

definition positions_of ::
  "tool_call jsobj \<Rightarrow> string \<Rightarrow> transcript_message list \<Rightarrow> (nat \<times> transcript_message) list" where
  "positions_of calls modelMessageId messages =
     filter (\<lambda>(index, m). answers calls m = Some modelMessageId) (enumerate 0 messages)"

definition reordered :: "tool_call jsobj \<Rightarrow> string \<Rightarrow> transcript_message list \<Rightarrow> transcript_message list" where
  "reordered calls modelMessageId messages =
     (let positions = positions_of calls modelMessageId messages;
          ordered = map snd (sort_by (transcript_le calls) positions) in
      place messages (zip (map fst positions) ordered))"

definition appendToolTranscript :: "agent_state \<Rightarrow> transcript_message \<Rightarrow> transcript_state" where
  "appendToolTranscript s message =
     (let messages = ts_messages (st_transcript s) @ [message];
          calls = to_calls (st_tools s) in
      (st_transcript s)\<lparr>ts_messages := renumber
        (case answers calls message of None \<Rightarrow> messages
         | Some modelMessageId \<Rightarrow>
             if modelMessageId = [] then messages else reordered calls modelMessageId messages)\<rparr>)"

definition clearSuspendedSubagent :: "agent_state \<Rightarrow> string \<Rightarrow> bool \<Rightarrow> jobj jsobj" where
  "clearSuspendedSubagent s toolCallId isTaskCall =
     (if \<not> isTaskCall then st_suspendedSubagents s
      else obj_delete toolCallId (st_suspendedSubagents s))"

record recovery_projection =
  rp_retryable :: bool
  rp_modelFixable :: bool
  rp_disposition :: disposition
  rp_maximumAdditionalCalls :: nat
  rp_nextStep :: string

definition NO_RECOVERY_STEP :: string where
  "NO_RECOVERY_STEP =
     ''Explain the failure and continue without retrying or assuming the tool succeeded.''"

fun recovery_next_step :: "disposition \<Rightarrow> string" where
  "recovery_next_step CorrectArgs =
     ''Explain the failure, correct the arguments once in the next model response, and continue.''"
| "recovery_next_step Alternative =
     ''Explain the failure and choose a different available capability without replaying this invocation.''"
| "recovery_next_step UserAction =
     ''Explain the required user action and wait for an authoritative user or provider resolution.''"
| "recovery_next_step RetryOnce =
     ''Do not issue a model-owned replay; Runtime owns the single safe automatic retry.''"
| "recovery_next_step Never = NO_RECOVERY_STEP"

definition recoveryProjection :: "tool_outcome \<Rightarrow> recovery_projection" where
  "recoveryProjection outcome =
     (let recovery = oc_recovery outcome in
      \<lparr>rp_retryable = (rc_disposition recovery = RetryOnce),
       rp_modelFixable = (rc_requiresNewModelResponse recovery \<and>
         (rc_disposition recovery = CorrectArgs \<or> rc_disposition recovery = Alternative)),
       rp_disposition = rc_disposition recovery,
       rp_maximumAdditionalCalls = rc_maximumAdditionalCalls recovery,
       rp_nextStep = recovery_next_step (rc_disposition recovery)\<rparr>)"

definition terminalStatus :: "string \<Rightarrow> tool_outcome option \<Rightarrow> tool_status option" where
  "terminalStatus ty outcome =
     (if ty = ''tool.finished''
      then map_option (\<lambda>o'. if oc_status o' = OutExhausted then TExhausted
        else if oc_status o' = OutCancelled then TCancelled
        else if oc_status o' = OutSuccess then TSucceeded else TFailed) outcome
      else if ty = ''tool.failed'' then Some TFailed else if ty = ''tool.rejected'' then Some TRejected
      else if ty = ''tool.cancelled'' then Some TCancelled else None)"

text \<open>
  Both reducers that ask for the outcome of an event run its validator first and throw where it
  throws; \<open>canonicalOutcome\<close> is the result when it does not.
\<close>

definition canonicalOutcome :: "js_host \<Rightarrow> jobj \<Rightarrow> tool_outcome option" where
  "canonicalOutcome h payload =
     (case fld payload ''outcome'' of
        JObj o' \<Rightarrow> if isToolOutcome h (JObj o') = Inr True then Some (read_outcome o') else None
      | _ \<Rightarrow> None)"

definition failed_content :: "string \<Rightarrow> tool_call \<Rightarrow> jobj \<Rightarrow> string \<Rightarrow> recovery_projection option \<Rightarrow> jobj" where
  "failed_content ty call failure reason projected =
     (let failureKind = or_default (stringField failure ''kind'') ''unknown'' in
      if failureKind = ''phase_deferred''
      then [(''ok'', JBool False), (''deferred'', JBool True), (''reason'', JStr ''phase_constraint''),
        (''until_phase'', JStr ''building''), (''tool'', JStr (tc_name call)), (''arguments'', tc_args call),
        (''next_step'', JStr (''Do not retry or request approval while planning. Preserve this command in '' @
          ''the plan execution or verification section, then invoke it only after plan approval changes '' @
          ''the phase to building.''))]
      else if failureKind = ''phase_denied''
      then [(''ok'', JBool False), (''rejected'', JBool True), (''reason'', JStr ''phase_constraint''),
        (''phase'', JStr ''planning''), (''tool'', JStr (tc_name call)), (''arguments'', tc_args call),
        (''message'', JStr reason),
        (''next_step'', JStr (''Do not retry or request approval while planning. Use read-only inspection '' @
          ''capabilities and preserve the intended implementation in the plan for execution after plan approval.''))]
      else [(''ok'', JBool False)] @
        (if ty = ''tool.rejected'' then [(''rejected'', JBool True)] else []) @
        [(''error'', JObj
           [(''kind'', JStr failureKind),
            (''message'', JStr (if ty = ''tool.rejected'' then reason
              else or_default (stringField failure ''message'') reason)),
            (''retryable'', JBool (case projected of None \<Rightarrow> False | Some p \<Rightarrow> rp_retryable p)),
            (''model_fixable'', JBool (case projected of None \<Rightarrow> False | Some p \<Rightarrow> rp_modelFixable p)),
            (''recovery_disposition'', JStr (case projected of None \<Rightarrow> ''never''
               | Some p \<Rightarrow> disposition_string (rp_disposition p))),
            (''maximum_additional_calls'', JNum (case projected of None \<Rightarrow> 0
               | Some p \<Rightarrow> of_nat (rp_maximumAdditionalCalls p)))]),
         (''next_step'', JStr (case projected of None \<Rightarrow> NO_RECOVERY_STEP | Some p \<Rightarrow> rp_nextStep p))])"

definition json_text :: "js_host \<Rightarrow> jobj \<Rightarrow> string" where
  "json_text h o' = or_default (json_stringify h (JObj o')) []"

definition terminalTranscript ::
  "js_host \<Rightarrow> agent_state \<Rightarrow> kernel_event \<Rightarrow> tool_call \<Rightarrow> tool_outcome option \<Rightarrow> transcript_message" where
  "terminalTranscript h s e call outcome =
     (let payload = ev_data e; messageId = ''tool-'' @ tc_toolCallId call in
      if ev_type e = ''tool.finished''
      then let result = sub_record payload ''result'';
               content = toolExecutionModelContent result in
        ToolMessage (transcriptMeta s messageId (stringField payload ''createdAt'')) (tc_toolCallId call)
          (or_default (stringField payload ''name'') (tc_name call)) content
          (map_option oc_status outcome = Some OutSuccess) (Some (resultMeta call result content))
      else if ev_type e = ''tool.cancelled''
      then ToolMessage (transcriptMeta s messageId None) (tc_toolCallId call) (tc_name call)
        (or_default (stringField payload ''reason'') []) False None
      else let failure = sub_record payload ''failure'';
               reason = or_default (else_string (stringField payload ''reason'') (stringField failure ''message'')) [] in
        ToolMessage (transcriptMeta s messageId None) (tc_toolCallId call) (tc_name call)
          (json_text h (failed_content (ev_type e) call failure reason (map_option recoveryProjection outcome)))
          False None)"

section \<open>Queueing a call\<close>

definition call_fingerprint :: "js_host \<Rightarrow> string \<Rightarrow> jval \<Rightarrow> string res" where
  "call_fingerprint h name args =
     toolInvocationFingerprint h \<lparr>fi_toolName = name, fi_parsedArgs = args, fi_parseCode = None,
       fi_pathCategory = None, fi_unparsedArgs = JUndef, fi_identityRevision = None\<rparr>"

definition queued_mode :: "jobj \<Rightarrow> attempt_mode" where
  "queued_mode payload =
     (if stringField payload ''recoveryMode'' = Some ''automatic_retry'' then AutomaticRetry else ModelCorrection)"

definition queued_presentation :: "jobj \<Rightarrow> string option" where
  "queued_presentation payload =
     (case fld payload ''presentation'' of
        JStr p \<Rightarrow> if p \<in> {''exploration'', ''standalone'', ''hidden''} then Some p else None
      | _ \<Rightarrow> None)"

fun admission_recoveryOf :: "admission \<Rightarrow> string option" where
  "admission_recoveryOf (Admitted r) = r"
| "admission_recoveryOf (Denied r d) = r"

fun admission_code :: "admission \<Rightarrow> string" where
  "admission_code (Admitted r) = ''admitted''"
| "admission_code (Denied r d) = d"

definition queued_call ::
  "agent_state \<Rightarrow> jobj \<Rightarrow> string \<Rightarrow> string \<Rightarrow> string option \<Rightarrow> string \<Rightarrow> admission \<Rightarrow> tool_call" where
  "queued_call s payload toolCallId name taskId fingerprint admission =
     (let optional = (\<lambda>f. truthy_option (stringField payload f));
          effect = suppliedEffect payload name (fld payload ''args'');
          recoveryOf = truthy_option (admission_recoveryOf admission) in
      \<lparr>tc_toolCallId = toolCallId, tc_name = name, tc_displayLabel = optional ''displayLabel'',
       tc_modelMessageId = or_default (stringField payload ''modelMessageId'') [],
       tc_args = fld payload ''args'', tc_modelInvocationId = optional ''modelInvocationId'',
       tc_ordinal = numberField payload ''ordinal'', tc_createdAtTurnId = tn_turnId (st_turn s),
       tc_taskId = truthy_option taskId, tc_queuedAt = optional ''createdAt'', tc_startedAt = None,
       tc_approvalRequestedAt = None, tc_approvalWaitMs = None,
       tc_invocationFingerprint = Some fingerprint, tc_recoveryOf = recoveryOf,
       tc_recoveryMode = map_option (\<lambda>_. queued_mode payload) recoveryOf,
       tc_recoveryAdmission = Some (admission_code admission),
       tc_result = None, tc_error = None, tc_failure = None, tc_outcome = None,
       tc_bindingId = optional ''bindingId'', tc_capabilityId = optional ''capabilityId'',
       tc_capabilityRevision = optional ''capabilityRevision'',
       tc_unknownFields = unknownToolFields (fld payload ''unknownFields''),
       tc_approvalHash = None, tc_approvalGrant = None, tc_effectClass = Some (ce_effectClass effect),
       tc_sideEffect = Some (ce_sideEffect effect), tc_classificationReason = ce_classificationReason effect,
       tc_presentation = queued_presentation payload, tc_networkDecisions = None, tc_status = TQueued\<rparr>)"

definition put_call :: "agent_state \<Rightarrow> string \<Rightarrow> tool_call \<Rightarrow> agent_state" where
  "put_call s toolCallId call =
     s\<lparr>st_tools := (st_tools s)\<lparr>to_calls := obj_set toolCallId call (to_calls (st_tools s))\<rparr>\<rparr>"

definition queued_recovery :: "agent_state \<Rightarrow> jobj \<Rightarrow> admission \<Rightarrow> recovery_journal" where
  "queued_recovery s payload admission =
     (case admission of
        Admitted r \<Rightarrow> (case truthy_option r of None \<Rightarrow> st_toolRecovery s
          | Some recoveryOf \<Rightarrow> recordRecoveryInvocation (st_toolRecovery s) recoveryOf (queued_mode payload))
      | Denied r d \<Rightarrow> st_toolRecovery s)"

definition queued_admission :: "agent_state \<Rightarrow> jobj \<Rightarrow> string \<Rightarrow> string \<Rightarrow> string option \<Rightarrow> string \<Rightarrow> admission" where
  "queued_admission s payload toolCallId name taskId fingerprint =
     admitRecoveryAttempt (st_toolRecovery s)
       \<lparr>at_toolCallId = toolCallId, at_toolName = name, at_invocationFingerprint = fingerprint,
        at_modelMessageId = or_default (stringField payload ''modelMessageId'') [],
        at_mode = queued_mode payload, at_taskId = taskId, at_turnId = Some (tn_turnId (st_turn s))\<rparr>"

definition tool_queued :: "js_host \<Rightarrow> agent_state \<Rightarrow> jobj \<Rightarrow> agent_state res" where
  "tool_queued h s payload =
     (case (nonEmptyStringField payload ''toolCallId'', nonEmptyStringField payload ''name'') of
        (Some toolCallId, Some name) \<Rightarrow>
          if map_of (to_calls (st_tools s)) toolCallId \<noteq> None then Inr s
          else let taskId = else_string (nonEmptyStringField payload ''taskId'') (st_activeTaskId s) in
            bind_res (case stringField payload ''invocationFingerprint'' of Some f \<Rightarrow> Inr f
                | None \<Rightarrow> call_fingerprint h name (fld payload ''args''))
              (\<lambda>fingerprint.
                 let admission = queued_admission s payload toolCallId name taskId fingerprint;
                     call = queued_call s payload toolCallId name taskId fingerprint admission in
                 Inr (withToolMembership
                   ((put_call s toolCallId call)\<lparr>st_toolRecovery := queued_recovery s payload admission\<rparr>)
                   toolCallId False True))
      | _ \<Rightarrow> Inr s)"

section \<open>Starting and ending a call\<close>

definition tool_started :: "agent_state \<Rightarrow> jobj \<Rightarrow> agent_state" where
  "tool_started s payload =
     (case nonEmptyStringField payload ''toolCallId'' of None \<Rightarrow> s
      | Some toolCallId \<Rightarrow>
          (case map_of (to_calls (st_tools s)) toolCallId of None \<Rightarrow> s
           | Some current \<Rightarrow>
               if isTerminal (tc_status current) then s
               else withToolMembership (put_call s toolCallId
                 ((case truthy_option (stringField payload ''createdAt'') of None \<Rightarrow> current
                   | Some t \<Rightarrow> current\<lparr>tc_startedAt := Some t\<rparr>)\<lparr>tc_status := TRunning\<rparr>)) toolCallId True False))"

definition shown :: "string option \<Rightarrow> string" where
  "shown v = or_default v ''undefined''"

definition finished_call :: "js_host \<Rightarrow> tool_call \<Rightarrow> jobj \<Rightarrow> tool_outcome option \<Rightarrow> tool_status \<Rightarrow> tool_call" where
  "finished_call h current payload outcome status =
     (let result = sub_record payload ''result'';
          content = toolExecutionModelContent result;
          exitCode = numberField result ''exitCode'';
          closed = current\<lparr>tc_status := status, tc_result := Some
            \<lparr>tr_ok = (map_option oc_status outcome = Some OutSuccess),
             tr_summary = ''Command: '' @ shown (stringField result ''command'') @ '', exit code: '' @
               shown (map_option (num_string h) exitCode),
             tr_exitCode = exitCode, tr_resultMeta = Some (resultMeta current result content)\<rparr>\<rparr> in
      case outcome of None \<Rightarrow> closed | Some o' \<Rightarrow> closed\<lparr>tc_outcome := Some o'\<rparr>)"

definition failed_call :: "string \<Rightarrow> tool_call \<Rightarrow> jobj \<Rightarrow> tool_outcome option \<Rightarrow> tool_status \<Rightarrow> tool_call" where
  "failed_call ty current payload outcome status =
     (let failure = recordField payload ''failure'';
          reason = truthy_option (else_string (stringField payload ''reason'')
            (stringField (or_default failure []) ''message''));
          marked = current\<lparr>tc_status := status\<rparr>;
          explained = (case reason of None \<Rightarrow> marked
            | Some r \<Rightarrow> if ty = ''tool.cancelled'' then marked else marked\<lparr>tc_error := Some r\<rparr>);
          detailed = (case failure of None \<Rightarrow> explained
            | Some f \<Rightarrow> if ty = ''tool.cancelled'' then explained else explained\<lparr>tc_failure := Some f\<rparr>) in
      case outcome of None \<Rightarrow> detailed | Some o' \<Rightarrow> detailed\<lparr>tc_outcome := Some o'\<rparr>)"

definition terminal_call :: "js_host \<Rightarrow> kernel_event \<Rightarrow> tool_call \<Rightarrow> tool_outcome option \<Rightarrow> tool_status \<Rightarrow> tool_call" where
  "terminal_call h e current outcome status =
     (if ev_type e = ''tool.finished'' then finished_call h current (ev_data e) outcome status
      else failed_call (ev_type e) current (ev_data e) outcome status)"

text \<open>Whether the open interaction ends with the call.\<close>

definition clears_interaction :: "string \<Rightarrow> tool_call \<Rightarrow> interaction \<Rightarrow> string \<Rightarrow> bool" where
  "clears_interaction ty current interactions toolCallId =
     (case interactions of
        AwaitingToolApproval i c a \<Rightarrow>
          c = toolCallId \<and> (ty = ''tool.finished'' \<and> tc_name current = ''task'' \<or> ty = ''tool.cancelled'')
      | AwaitingUserInput i c q \<Rightarrow> c = toolCallId \<and> (ty = ''tool.finished'' \<or> ty = ''tool.cancelled'')
      | AwaitingPlanReview i c p v d a b x \<Rightarrow> ty = ''tool.cancelled'' \<and> c = toolCallId
      | AwaitingAutoReview i c n r a \<Rightarrow> ty = ''tool.cancelled'' \<and> c = toolCallId
      | _ \<Rightarrow> False)"

definition tool_ended :: "js_host \<Rightarrow> agent_state \<Rightarrow> kernel_event \<Rightarrow> agent_state" where
  "tool_ended h s e =
     (let outcome = canonicalOutcome h (ev_data e) in
      case (nonEmptyStringField (ev_data e) ''toolCallId'', terminalStatus (ev_type e) outcome) of
        (Some toolCallId, Some status) \<Rightarrow>
          (case map_of (to_calls (st_tools s)) toolCallId of
             None \<Rightarrow> if ev_type e \<noteq> ''tool.rejected'' then s
               else withToolMembership s toolCallId False False
           | Some current \<Rightarrow>
               if isTerminal (tc_status current) then s
               else withToolMembership
                 ((put_call s toolCallId (terminal_call h e current outcome status))\<lparr>
                   st_transcript := appendToolTranscript s (terminalTranscript h s e current outcome),
                   st_suspendedSubagents := clearSuspendedSubagent s toolCallId (tc_name current = ''task''),
                   st_interactions := (if clears_interaction (ev_type e) current (st_interactions s) toolCallId
                     then Idle else st_interactions s)\<rparr>)
                 toolCallId False False)
      | _ \<Rightarrow> s)"

section \<open>Retries and network decisions\<close>

definition retry_recorded :: "agent_state \<Rightarrow> jobj \<Rightarrow> agent_state" where
  "retry_recorded s payload =
     (case (nonEmptyStringField payload ''toolCallId'', nonEmptyStringField payload ''recoveryOf'') of
        (Some toolCallId, Some recoveryOf) \<Rightarrow>
          (case map_of (to_calls (st_tools s)) toolCallId of None \<Rightarrow> s
           | Some current \<Rightarrow>
               if isTerminal (tc_status current) then s
               else put_call s toolCallId (current\<lparr>tc_recoveryOf := Some recoveryOf,
                 tc_recoveryMode := Some AutomaticRetry\<rparr>))
      | _ \<Rightarrow> s)"

definition network_admission_decided :: "agent_state \<Rightarrow> jobj \<Rightarrow> agent_state" where
  "network_admission_decided s payload =
     (case (nonEmptyStringField payload ''toolCallId'', recordField payload ''decision'') of
        (Some toolCallId, Some decision) \<Rightarrow>
          (case map_of (to_calls (st_tools s)) toolCallId of None \<Rightarrow> s
           | Some current \<Rightarrow>
               let prior = or_default (tc_networkDecisions current) [];
                   digest = nonEmptyStringField decision ''receiptDigest'' in
               if nonEmptyStringField decision ''toolCallId'' \<noteq> Some toolCallId \<or>
                 digest \<noteq> None \<and> (\<exists>entry \<in> set prior. as_string (vfld entry ''receiptDigest'') = digest) then s
               else put_call s toolCallId (current\<lparr>tc_networkDecisions := Some (prior @ [JObj decision])\<rparr>))
      | _ \<Rightarrow> s)"

section \<open>The reducer\<close>

definition reduceIntentState :: "js_host \<Rightarrow> agent_state \<Rightarrow> kernel_event \<Rightarrow> agent_state res" where
  "reduceIntentState h s e =
     (if ev_type e = ''tool.queued'' then tool_queued h s (ev_data e)
      else if ev_type e = ''tool.started'' then Inr (tool_started s (ev_data e))
      else if ev_type e \<in> set TOOL_TERMINAL_EVENTS
      then bind_res (isToolOutcome h (fld (ev_data e) ''outcome'')) (\<lambda>canonical. Inr (tool_ended h s e))
      else if ev_type e = ''tool.retry_recorded'' then Inr (retry_recorded s (ev_data e))
      else if ev_type e = ''network.admission_decided'' then Inr (network_admission_decided s (ev_data e))
      else Inr s)"

end
