(* ===== verification/Kite_Intent_Inv.thy ===== *)
theory Kite_Intent_Inv
  imports Kite_Intent
begin

text \<open>
  Properties of the intent reducer: calls keep their identity and move along their lifecycle to an
  end that is final; the queue and the active list hold calls that are still open; the messages for
  the model are answered once per call, in the order the model made the calls, and numbered by
  position.
\<close>

section \<open>The lifecycle of a call\<close>

text \<open>What a call is, as opposed to where it stands.\<close>

definition same_call :: "tool_call \<Rightarrow> tool_call \<Rightarrow> bool" where
  "same_call c c' \<longleftrightarrow>
     tc_toolCallId c' = tc_toolCallId c \<and> tc_name c' = tc_name c \<and> tc_args c' = tc_args c \<and>
     tc_modelMessageId c' = tc_modelMessageId c \<and> tc_ordinal c' = tc_ordinal c \<and>
     tc_createdAtTurnId c' = tc_createdAtTurnId c \<and> tc_taskId c' = tc_taskId c \<and>
     tc_invocationFingerprint c' = tc_invocationFingerprint c \<and> tc_effectClass c' = tc_effectClass c \<and>
     tc_sideEffect c' = tc_sideEffect c \<and> tc_capabilityId c' = tc_capabilityId c \<and>
     tc_recoveryAdmission c' = tc_recoveryAdmission c"

definition call_step :: "tool_call \<Rightarrow> tool_call \<Rightarrow> bool" where
  "call_step c c' \<longleftrightarrow>
     same_call c c' \<and>
     (if isTerminal (tc_status c) then c' = c\<lparr>tc_networkDecisions := tc_networkDecisions c'\<rparr>
      else tc_status c' = tc_status c \<or> tc_status c' = TRunning \<or> isTerminal (tc_status c'))"

definition calls_step :: "tool_call jsobj \<Rightarrow> tool_call jsobj \<Rightarrow> bool" where
  "calls_step calls calls' \<longleftrightarrow>
     (\<forall>i c. map_of calls i = Some c \<longrightarrow> (\<exists>c'. map_of calls' i = Some c' \<and> call_step c c')) \<and>
     (\<forall>i c'. map_of calls' i = Some c' \<and> map_of calls i = None \<longrightarrow> tc_status c' = TQueued \<and> tc_toolCallId c' = i)"

lemma same_call_refl [simp]: "same_call c c"
  by (simp add: same_call_def)

lemma call_step_refl [simp]: "call_step c c"
  by (simp add: call_step_def)

lemma calls_step_refl [simp]: "calls_step calls calls"
  by (auto simp: calls_step_def)

lemma calls_step_set:
  "map_of calls i = Some c \<Longrightarrow> call_step c c' \<Longrightarrow> calls_step calls (obj_set i c' calls)"
  by (auto simp: calls_step_def)

lemma calls_step_new:
  "map_of calls i = None \<Longrightarrow> tc_status c = TQueued \<Longrightarrow> tc_toolCallId c = i \<Longrightarrow> calls_step calls (obj_set i c calls)"
  by (auto simp: calls_step_def)

lemma put_call_tools [simp]:
  "to_calls (st_tools (put_call s i c)) = obj_set i c (to_calls (st_tools s))"
  "to_queue (st_tools (put_call s i c)) = to_queue (st_tools s)"
  "to_active (st_tools (put_call s i c)) = to_active (st_tools s)"
  "st_transcript (put_call s i c) = st_transcript s"
  by (simp_all add: put_call_def)

lemma membership_tools [simp]:
  "to_calls (st_tools (withToolMembership s i a q)) = to_calls (st_tools s)"
  "to_queue (st_tools (withToolMembership s i a q)) = replaceStringInList (to_queue (st_tools s)) i q"
  "to_active (st_tools (withToolMembership s i a q)) = replaceStringInList (to_active (st_tools s)) i a"
  "st_transcript (withToolMembership s i a q) = st_transcript s"
  by (simp_all add: withToolMembership_def)

lemma terminalStatus_terminal: "terminalStatus ty outcome = Some st \<Longrightarrow> isTerminal st"
  by (auto simp: terminalStatus_def split: if_splits)

lemma terminal_call_fields [simp]:
  "tc_status (terminal_call h e c outcome st) = st" "same_call c (terminal_call h e c outcome st)"
  by (simp_all add: terminal_call_def finished_call_def failed_call_def Let_def same_call_def split: option.split)

text \<open>The two ways an event that names a call can go: it is ignored or it replaces the call.\<close>

lemma tool_queued_cases:
  assumes "tool_queued h s payload = Inr s'"
  obtains (ignored) "s' = s"
  | (queued) i call where "map_of (to_calls (st_tools s)) i = None" "tc_status call = TQueued" "tc_toolCallId call = i"
      "i \<noteq> []" "to_calls (st_tools s') = obj_set i call (to_calls (st_tools s))"
      "to_queue (st_tools s') = replaceStringInList (to_queue (st_tools s)) i True"
      "to_active (st_tools s') = replaceStringInList (to_active (st_tools s)) i False"
      "st_transcript s' = st_transcript s"
proof (cases "s' = s")
  case False
  then obtain i name f where i: "nonEmptyStringField payload ''toolCallId'' = Some i"
    and none: "map_of (to_calls (st_tools s)) i = None"
    and s': "s' = withToolMembership ((put_call s i (queued_call s payload i name
        (else_string (nonEmptyStringField payload ''taskId'') (st_activeTaskId s)) f
        (queued_admission s payload i name (else_string (nonEmptyStringField payload ''taskId'') (st_activeTaskId s)) f)))
      \<lparr>st_toolRecovery := queued_recovery s payload (queued_admission s payload i name
        (else_string (nonEmptyStringField payload ''taskId'') (st_activeTaskId s)) f)\<rparr>) i False True"
    using assms by (auto simp: tool_queued_def Let_def bind_res_Inr split: option.splits if_splits)
  have "i \<noteq> []" using i by (simp add: nonEmptyStringField_Some)
  then show thesis
    by (intro queued [OF none]) (simp_all add: s' queued_call_def Let_def)
qed (rule ignored)

lemma tool_started_cases:
  obtains (ignored) "tool_started s payload = s"
  | (started) i c c' where "map_of (to_calls (st_tools s)) i = Some c" "\<not> isTerminal (tc_status c)" "same_call c c'"
      "tc_status c' = TRunning" "tool_started s payload = withToolMembership (put_call s i c') i True False"
      "nonEmptyStringField payload ''toolCallId'' = Some i"
proof (cases "tool_started s payload = s")
  case False
  then obtain i c where i: "nonEmptyStringField payload ''toolCallId'' = Some i"
    and c: "map_of (to_calls (st_tools s)) i = Some c" "\<not> isTerminal (tc_status c)"
    by (auto simp: tool_started_def split: option.splits if_splits)
  show thesis
    by (rule started [OF c])
      (use i c in \<open>auto simp: tool_started_def same_call_def split: option.split\<close>)
qed (rule ignored)

lemma tool_ended_cases:
  obtains (ignored) "tool_ended h s e = s"
  | (dropped) i where "map_of (to_calls (st_tools s)) i = None" "tool_ended h s e = withToolMembership s i False False"
  | (ended) i c st where "map_of (to_calls (st_tools s)) i = Some c" "\<not> isTerminal (tc_status c)" "isTerminal st"
      "nonEmptyStringField (ev_data e) ''toolCallId'' = Some i"
      "terminalStatus (ev_type e) (canonicalOutcome h (ev_data e)) = Some st"
      "to_calls (st_tools (tool_ended h s e)) =
         obj_set i (terminal_call h e c (canonicalOutcome h (ev_data e)) st) (to_calls (st_tools s))"
      "to_queue (st_tools (tool_ended h s e)) = replaceStringInList (to_queue (st_tools s)) i False"
      "to_active (st_tools (tool_ended h s e)) = replaceStringInList (to_active (st_tools s)) i False"
      "st_transcript (tool_ended h s e) =
         appendToolTranscript s (terminalTranscript h s e c (canonicalOutcome h (ev_data e)))"
proof (cases "tool_ended h s e = s")
  case False
  then obtain i st where i: "nonEmptyStringField (ev_data e) ''toolCallId'' = Some i"
    and st: "terminalStatus (ev_type e) (canonicalOutcome h (ev_data e)) = Some st"
    by (auto simp: tool_ended_def Let_def split: option.splits)
  show thesis
  proof (cases "map_of (to_calls (st_tools s)) i")
    case None
    then show thesis using False i st by (intro dropped [of i]) (auto simp: tool_ended_def Let_def split: if_splits)
  next
    case (Some c)
    then have "\<not> isTerminal (tc_status c)" using False i st by (auto simp: tool_ended_def Let_def)
    then show thesis
      using Some i st
      by (intro ended [OF Some _ terminalStatus_terminal [OF st] i st]) (simp_all add: tool_ended_def Let_def)
  qed
qed (rule ignored)

lemma retry_recorded_cases:
  obtains (ignored) "retry_recorded s payload = s"
  | (recorded) i c r where "map_of (to_calls (st_tools s)) i = Some c" "\<not> isTerminal (tc_status c)"
      "retry_recorded s payload = put_call s i (c\<lparr>tc_recoveryOf := Some r, tc_recoveryMode := Some AutomaticRetry\<rparr>)"
  by (cases "retry_recorded s payload = s") (auto simp: retry_recorded_def split: option.splits if_splits)

lemma network_decided_cases:
  obtains (ignored) "network_admission_decided s payload = s"
  | (recorded) i c ds where "map_of (to_calls (st_tools s)) i = Some c"
      "network_admission_decided s payload = put_call s i (c\<lparr>tc_networkDecisions := Some ds\<rparr>)"
  by (cases "network_admission_decided s payload = s")
    (auto simp: network_admission_decided_def Let_def split: option.splits if_splits)

lemma reduceIntentState_events:
  assumes "reduceIntentState h s e = Inr s'"
  obtains (queue) "tool_queued h s (ev_data e) = Inr s'" "ev_type e = ''tool.queued''"
  | (start) "s' = tool_started s (ev_data e)" "ev_type e = ''tool.started''"
  | (finish) "s' = tool_ended h s e" "ev_type e \<in> set TOOL_TERMINAL_EVENTS"
  | (retry) "s' = retry_recorded s (ev_data e)" "ev_type e = ''tool.retry_recorded''"
  | (network) "s' = network_admission_decided s (ev_data e)" "ev_type e = ''network.admission_decided''"
  | (other) "s' = s"
  using assms by (auto simp: reduceIntentState_def bind_res_Inr split: if_splits)

lemma reduceIntentState_calls:
  assumes "reduceIntentState h s e = Inr s'"
  shows "calls_step (to_calls (st_tools s)) (to_calls (st_tools s'))"
  using assms
proof (cases rule: reduceIntentState_events)
  case queue
  then show ?thesis by (cases rule: tool_queued_cases) (auto intro: calls_step_new)
next
  case start
  then show ?thesis
    by (cases rule: tool_started_cases [where s = s and payload = "ev_data e"]) (auto simp: call_step_def intro: calls_step_set)
next
  case finish
  then show ?thesis
    by (cases rule: tool_ended_cases [where h = h and s = s and e = e]) (auto simp: call_step_def intro: calls_step_set)
next
  case retry
  then show ?thesis
    by (cases rule: retry_recorded_cases [where s = s and payload = "ev_data e"]) (auto simp: call_step_def same_call_def intro!: calls_step_set)
next
  case network
  then show ?thesis
    by (cases rule: network_decided_cases [where s = s and payload = "ev_data e"]) (auto simp: call_step_def same_call_def intro!: calls_step_set)
qed simp

section \<open>The order of the messages\<close>

text \<open>The order of two answers to one model message: by ordinal, those without one last.\<close>

definition answer_le :: "tool_call jsobj \<Rightarrow> transcript_message \<Rightarrow> transcript_message \<Rightarrow> bool" where
  "answer_le calls a b =
     (case (call_ordinal calls a, call_ordinal calls b) of
        (None, Some y) \<Rightarrow> False
      | (Some x, Some y) \<Rightarrow> x \<le> y
      | _ \<Rightarrow> True)"

lemma transcript_le_total: "transcript_le calls a b \<or> transcript_le calls b a"
  by (auto simp: transcript_le_def split: option.splits)

lemma transcript_le_trans: "transcript_le calls a b \<Longrightarrow> transcript_le calls b c \<Longrightarrow> transcript_le calls a c"
  by (auto simp: transcript_le_def split: option.splits if_splits)

lemma sorted_answers: "sorted_wrt (answer_le calls) (map snd (sort_by (transcript_le calls) ps))"
proof -
  have "sorted_wrt (transcript_le calls) (sort_by (transcript_le calls) ps)"
    using transcript_le_total transcript_le_trans by (rule sort_by_sorted)
  then show ?thesis
    unfolding sorted_wrt_map
    by (rule sorted_wrt_mono_rel [rotated]) (auto simp: transcript_le_def answer_le_def split: option.splits if_splits)
qed

text \<open>Writing values back at the positions of a predicate.\<close>

fun refill :: "('a \<Rightarrow> bool) \<Rightarrow> 'a list \<Rightarrow> 'a list \<Rightarrow> 'a list" where
  "refill P [] xs = []"
| "refill P (m # ms) xs =
     (if P m then (case xs of [] \<Rightarrow> m # ms | x # xs' \<Rightarrow> x # refill P ms xs') else m # refill P ms xs)"

lemma place_refill_prefix:
  assumes "length xs = length (filter P ms)"
  shows "place (pre @ ms) (zip (map fst (filter (\<lambda>(i, m). P m) (enumerate (length pre) ms))) xs) = pre @ refill P ms xs"
  using assms
proof (induction ms arbitrary: pre xs)
  case (Cons m ms)
  show ?case
  proof (cases "P m")
    case True
    then obtain x xs' where xs: "xs = x # xs'" "length xs' = length (filter P ms)"
      using Cons.prems by (cases xs) auto
    show ?thesis using Cons.IH [OF xs(2), of "pre @ [x]"] True by (simp add: xs(1) place_def)
  next
    case False
    then show ?thesis using Cons.IH [of xs "pre @ [m]"] Cons.prems by simp
  qed
qed (simp add: place_def)

lemma place_refill:
  "length xs = length (filter P ms) \<Longrightarrow>
   place ms (zip (map fst (filter (\<lambda>(i, m). P m) (enumerate 0 ms))) xs) = refill P ms xs"
  using place_refill_prefix [of xs P ms "[]"] by simp

lemma refill_filters:
  assumes "length xs = length (filter P ms)" "\<forall>x \<in> set xs. P x"
  shows "filter P (refill P ms xs) = xs" "filter (\<lambda>m. \<not> P m) (refill P ms xs) = filter (\<lambda>m. \<not> P m) ms"
    "map P (refill P ms xs) = map P ms"
  using assms by (induction ms arbitrary: xs) (auto split: list.split simp: Suc_length_conv)

lemma enumerate_filter_snd: "map snd (filter (\<lambda>(i, m). P m) (enumerate n ms)) = filter P ms"
  by (induction ms arbitrary: n) auto

lemma filter_complement:
  assumes "filter (\<lambda>m. \<not> P m) xs = filter (\<lambda>m. \<not> P m) ys" "\<And>m. Q m \<Longrightarrow> \<not> P m"
  shows "filter Q xs = filter Q ys"
proof -
  have "filter Q zs = filter Q (filter (\<lambda>m. \<not> P m) zs)" for zs using assms(2) by (induction zs) auto
  then show ?thesis using assms(1) by metis
qed

definition sorted_group :: "tool_call jsobj \<Rightarrow> string \<Rightarrow> transcript_message list \<Rightarrow> transcript_message list" where
  "sorted_group calls g ms = map snd (sort_by (transcript_le calls) (positions_of calls g ms))"

lemma sorted_group_mset: "mset (sorted_group calls g ms) = mset (filter (\<lambda>m. answers calls m = Some g) ms)"
proof -
  have "mset (sorted_group calls g ms) = mset (map snd (positions_of calls g ms))"
    by (simp add: sorted_group_def)
  then show ?thesis by (simp only: positions_of_def enumerate_filter_snd)
qed

lemma sorted_group_facts:
  "length (sorted_group calls g ms) = length (filter (\<lambda>m. answers calls m = Some g) ms)"
  "\<forall>m \<in> set (sorted_group calls g ms). answers calls m = Some g"
  "sorted_wrt (answer_le calls) (sorted_group calls g ms)"
proof -
  show "length (sorted_group calls g ms) = length (filter (\<lambda>m. answers calls m = Some g) ms)"
    by (rule mset_eq_length [OF sorted_group_mset])
  show "\<forall>m \<in> set (sorted_group calls g ms). answers calls m = Some g"
    unfolding mset_eq_setD [OF sorted_group_mset] by simp
  show "sorted_wrt (answer_le calls) (sorted_group calls g ms)"
    unfolding sorted_group_def by (rule sorted_answers)
qed

lemma reordered_eq: "reordered calls g ms = refill (\<lambda>m. answers calls m = Some g) ms (sorted_group calls g ms)"
  using place_refill [OF sorted_group_facts(1)]
  by (simp only: reordered_def positions_of_def Let_def sorted_group_def)

lemmas reordered_filters = refill_filters [OF sorted_group_facts(1,2), folded reordered_eq]

lemma reordered_spec:
  "sorted_wrt (answer_le calls) (filter (\<lambda>m. answers calls m = Some g) (reordered calls g ms))"
  "g' \<noteq> g \<Longrightarrow> filter (\<lambda>m. answers calls m = Some g') (reordered calls g ms) = filter (\<lambda>m. answers calls m = Some g') ms"
  "mset (reordered calls g ms) = mset ms"
proof -
  show "sorted_wrt (answer_le calls) (filter (\<lambda>m. answers calls m = Some g) (reordered calls g ms))"
    unfolding reordered_filters(1) by (rule sorted_group_facts)
  show "filter (\<lambda>m. answers calls m = Some g') (reordered calls g ms) = filter (\<lambda>m. answers calls m = Some g') ms" if "g' \<noteq> g"
    by (rule filter_complement [OF reordered_filters(2)]) (use that in auto)
  have part: "mset xs = mset (filter P xs) + mset (filter (\<lambda>m. \<not> P m) xs)" for xs :: "transcript_message list" and P
    by (induction xs) simp_all
  show "mset (reordered calls g ms) = mset ms"
    unfolding part [of "reordered calls g ms" "\<lambda>m. answers calls m = Some g"]
      part [of ms "\<lambda>m. answers calls m = Some g"] reordered_filters(1,2) sorted_group_mset ..
qed

text \<open>Renumbering leaves everything but the ordinals.\<close>

lemma with_ordinal_facts [simp]:
  "tool_message_call (with_ordinal n m) = tool_message_call m"
  "mm_ordinal (message_meta_of (with_ordinal n m)) = n"
  by (cases m; simp)+

lemma with_ordinal_answers [simp]:
  "answers calls (with_ordinal n m) = answers calls m" "call_ordinal calls (with_ordinal n m) = call_ordinal calls m"
  by (simp_all add: answers_def call_ordinal_def)

lemma renumber_nth: "i < length ms \<Longrightarrow> renumber ms ! i = with_ordinal i (ms ! i)"
  by (simp add: renumber_def nth_enumerate_eq)

lemma length_renumber [simp]: "length (renumber ms) = length ms"
  by (simp add: renumber_def)

lemma map_renumber:
  assumes "\<And>n m. f (with_ordinal n m) = f m"
  shows "map f (renumber ms) = map f ms"
  by (rule nth_equalityI) (simp_all add: renumber_nth assms)

lemma filter_sorted_renumber:
  assumes "\<And>n m. P (with_ordinal n m) = P m" "\<And>n n' m m'. R (with_ordinal n m) (with_ordinal n' m') = R m m'"
    "sorted_wrt R (filter P ms)"
  shows "sorted_wrt R (filter P (renumber ms))"
proof -
  have "map (with_ordinal 0) (filter P xs) = filter P (map (with_ordinal 0) xs)" for xs
    using assms(1) by (simp add: filter_map comp_def)
  moreover have "map (with_ordinal 0) (renumber ms) = map (with_ordinal 0) ms"
    by (rule map_renumber) (case_tac m; simp)
  ultimately have "map (with_ordinal 0) (filter P (renumber ms)) = map (with_ordinal 0) (filter P ms)" by simp
  moreover have s: "sorted_wrt R (map (with_ordinal 0) xs) = sorted_wrt R xs" for xs
    by (simp add: sorted_wrt_map assms(2))
  ultimately have "sorted_wrt R (map (with_ordinal 0) (filter P (renumber ms)))" using assms(3) by (simp add: s)
  then show ?thesis by (simp only: s)
qed

section \<open>The transcript of a run\<close>

definition answered_calls :: "transcript_message list \<Rightarrow> string list" where
  "answered_calls ms = List.map_filter tool_message_call ms"

definition calls_keyed :: "tool_call jsobj \<Rightarrow> bool" where
  "calls_keyed calls \<longleftrightarrow> (\<forall>i c. map_of calls i = Some c \<longrightarrow> tc_toolCallId c = i)"

definition transcript_ordered :: "tool_call jsobj \<Rightarrow> transcript_message list \<Rightarrow> bool" where
  "transcript_ordered calls ms \<longleftrightarrow>
     (\<forall>i < length ms. mm_ordinal (message_meta_of (ms ! i)) = i) \<and>
     (\<forall>g. g \<noteq> [] \<longrightarrow> sorted_wrt (answer_le calls) (filter (\<lambda>m. answers calls m = Some g) ms))"

definition transcript_answers :: "tool_call jsobj \<Rightarrow> transcript_message list \<Rightarrow> bool" where
  "transcript_answers calls ms \<longleftrightarrow>
     distinct (answered_calls ms) \<and>
     (\<forall>i \<in> set (answered_calls ms). \<exists>c. map_of calls i = Some c \<and> isTerminal (tc_status c))"

definition transcript_ok :: "agent_state \<Rightarrow> bool" where
  "transcript_ok s \<longleftrightarrow>
     calls_keyed (to_calls (st_tools s)) \<and>
     transcript_ordered (to_calls (st_tools s)) (ts_messages (st_transcript s)) \<and>
     transcript_answers (to_calls (st_tools s)) (ts_messages (st_transcript s))"

lemma answered_calls_append [simp]: "answered_calls (a @ b) = answered_calls a @ answered_calls b"
  by (simp add: answered_calls_def map_filter_def)

lemma answered_calls_renumber [simp]: "answered_calls (renumber ms) = answered_calls ms"
proof -
  have "answered_calls ms = concat (map (\<lambda>m. case tool_message_call m of None \<Rightarrow> [] | Some i \<Rightarrow> [i]) ms)" for ms
    by (induction ms) (simp_all add: answered_calls_def map_filter_simps split: option.split)
  then show ?thesis by (simp add: map_renumber)
qed

lemma answered_calls_mset: "mset ms = mset ms' \<Longrightarrow> mset (answered_calls ms) = mset (answered_calls ms')"
  by (simp add: answered_calls_def map_filter_def mset_filter)

text \<open>Calls that keep their identity keep the order of their answers.\<close>

definition calls_extend :: "tool_call jsobj \<Rightarrow> tool_call jsobj \<Rightarrow> bool" where
  "calls_extend calls calls' \<longleftrightarrow>
     (\<forall>i c. map_of calls i = Some c \<longrightarrow>
        (\<exists>c'. map_of calls' i = Some c' \<and> same_call c c' \<and> (isTerminal (tc_status c) \<longrightarrow> isTerminal (tc_status c'))))"

lemma calls_step_extend: "calls_step calls calls' \<Longrightarrow> calls_extend calls calls'"
  unfolding calls_step_def calls_extend_def call_step_def
  by (metis (no_types, lifting) tool_call.select_convs(33) tool_call.surjective tool_call.update_convs(32))

lemma answers_extend:
  assumes "calls_extend calls calls'" "tool_message_call m = None \<or> (\<exists>i c. tool_message_call m = Some i \<and> map_of calls i = Some c)"
  shows "answers calls' m = answers calls m \<and> call_ordinal calls' m = call_ordinal calls m"
proof (cases "tool_message_call m")
  case (Some i)
  then obtain c where c: "map_of calls i = Some c" using assms(2) by auto
  then obtain c' where "map_of calls' i = Some c'" "same_call c c'"
    using assms(1) unfolding calls_extend_def by blast
  then show ?thesis using Some c by (simp add: answers_def call_ordinal_def same_call_def)
qed (simp add: answers_def call_ordinal_def)

lemma transcript_ordered_extend:
  assumes ext: "calls_extend calls calls'" and ans: "\<And>i. i \<in> set (answered_calls ms) \<Longrightarrow> \<exists>c. map_of calls i = Some c"
  shows "transcript_ordered calls' ms = transcript_ordered calls ms"
proof -
  have eq: "answers calls' m = answers calls m \<and> call_ordinal calls' m = call_ordinal calls m" if "m \<in> set ms" for m
  proof (rule answers_extend [OF ext])
    have "i \<in> set (answered_calls ms)" if "tool_message_call m = Some i" for i
      using \<open>m \<in> set ms\<close> that by (force simp: answered_calls_def map_filter_def)
    then show "tool_message_call m = None \<or> (\<exists>i c. tool_message_call m = Some i \<and> map_of calls i = Some c)"
      using ans by (cases "tool_message_call m") auto
  qed
  have f: "filter (\<lambda>m. answers calls' m = Some g) ms = filter (\<lambda>m. answers calls m = Some g) ms" for g
    by (rule filter_cong) (simp_all add: eq)
  have "sorted_wrt (answer_le calls') (filter P ms) = sorted_wrt (answer_le calls) (filter P ms)" for P
    by (rule iffI; rule sorted_wrt_mono_rel [rotated], assumption) (auto simp: answer_le_def eq)
  then show ?thesis by (simp add: transcript_ordered_def f)
qed

lemma transcript_answers_extend:
  "calls_extend calls calls' \<Longrightarrow> transcript_answers calls ms \<Longrightarrow> transcript_answers calls' ms"
  unfolding transcript_answers_def calls_extend_def by blast

definition groups_sorted :: "tool_call jsobj \<Rightarrow> transcript_message list \<Rightarrow> bool" where
  "groups_sorted calls ms \<longleftrightarrow>
     (\<forall>g. g \<noteq> [] \<longrightarrow> sorted_wrt (answer_le calls) (filter (\<lambda>m. answers calls m = Some g) ms))"

lemma appended_messages:
  assumes "groups_sorted (to_calls (st_tools s)) (ts_messages (st_transcript s))"
  obtains ms' where "ts_messages (appendToolTranscript s m) = renumber ms'"
    "mset ms' = mset (ts_messages (st_transcript s) @ [m])" "groups_sorted (to_calls (st_tools s)) ms'"
proof -
  let ?calls = "to_calls (st_tools s)" and ?ms = "ts_messages (st_transcript s) @ [m]"
  show thesis
  proof (cases "answers ?calls m = None \<or> answers ?calls m = Some []")
    case True
    then show thesis
      by (intro that [of ?ms]) (use assms in \<open>auto simp: appendToolTranscript_def Let_def groups_sorted_def\<close>)
  next
    case False
    then obtain g where g: "answers ?calls m = Some g" "g \<noteq> []" by auto
    show thesis
    proof (rule that [of "reordered ?calls g ?ms"])
      show "ts_messages (appendToolTranscript s m) = renumber (reordered ?calls g ?ms)"
        using g by (simp add: appendToolTranscript_def Let_def)
      show "mset (reordered ?calls g ?ms) = mset ?ms" by (rule reordered_spec)
      have "sorted_wrt (answer_le ?calls) (filter (\<lambda>m. answers ?calls m = Some g') (reordered ?calls g ?ms))" if "g' \<noteq> []" for g'
        using reordered_spec(1) [of ?calls g ?ms] reordered_spec(2) [of g' g ?calls ?ms] g(1) assms that
        by (cases "g' = g") (simp_all add: groups_sorted_def)
      then show "groups_sorted ?calls (reordered ?calls g ?ms)" by (simp add: groups_sorted_def)
    qed
  qed
qed

lemma groups_sorted_renumber: "groups_sorted calls ms \<Longrightarrow> groups_sorted calls (renumber ms)"
  unfolding groups_sorted_def by (intro allI impI filter_sorted_renumber) (simp_all add: answer_le_def)

lemma appendToolTranscript_ordered:
  assumes "transcript_ordered (to_calls (st_tools s)) (ts_messages (st_transcript s))"
  shows "transcript_ordered (to_calls (st_tools s)) (ts_messages (appendToolTranscript s m))"
    "mset (answered_calls (ts_messages (appendToolTranscript s m))) =
     mset (answered_calls (ts_messages (st_transcript s)) @ answered_calls [m])"
proof -
  have "groups_sorted (to_calls (st_tools s)) (ts_messages (st_transcript s))"
    using assms by (simp add: transcript_ordered_def groups_sorted_def)
  then obtain ms' where ms': "ts_messages (appendToolTranscript s m) = renumber ms'"
    "mset ms' = mset (ts_messages (st_transcript s) @ [m])" "groups_sorted (to_calls (st_tools s)) ms'"
    by (rule appended_messages)
  show "transcript_ordered (to_calls (st_tools s)) (ts_messages (appendToolTranscript s m))"
    using groups_sorted_renumber [OF ms'(3)] by (simp add: transcript_ordered_def groups_sorted_def ms'(1) renumber_nth)
  show "mset (answered_calls (ts_messages (appendToolTranscript s m))) =
     mset (answered_calls (ts_messages (st_transcript s)) @ answered_calls [m])"
    using answered_calls_mset [OF ms'(2)] by (simp add: ms'(1))
qed

lemma terminalTranscript_answers: "answered_calls [terminalTranscript h s e c outcome] = [tc_toolCallId c]"
  by (simp add: terminalTranscript_def Let_def answered_calls_def map_filter_simps)

lemma tool_ended_transcript:
  assumes ok: "transcript_ok s"
  shows "transcript_ok (tool_ended h s e)"
proof (cases rule: tool_ended_cases [where h = h and s = s and e = e])
  case ignored
  then show ?thesis using ok by simp
next
  case (dropped i)
  then show ?thesis using ok by (simp add: transcript_ok_def)
next
  case (ended i c st)
  let ?s = "tool_ended h s e" and ?calls = "to_calls (st_tools s)"
  let ?m = "terminalTranscript h s e c (canonicalOutcome h (ev_data e))"
  have id: "tc_toolCallId c = i" using ok ended(1) by (simp add: transcript_ok_def calls_keyed_def)
  have old: "transcript_ordered ?calls (ts_messages (st_transcript s))"
    "transcript_answers ?calls (ts_messages (st_transcript s))" using ok by (simp_all add: transcript_ok_def)
  have ext: "calls_extend ?calls (to_calls (st_tools ?s))"
    using ended(1,3) by (auto simp: ended(6) calls_extend_def)
  have "i \<notin> set (answered_calls (ts_messages (st_transcript s)))"
    using old(2) ended(1,2) by (auto simp: transcript_answers_def)
  moreover have "mset (answered_calls (ts_messages (st_transcript ?s))) =
      mset (answered_calls (ts_messages (st_transcript s)) @ [i])"
    using appendToolTranscript_ordered(2) [OF old(1), of ?m] by (simp add: ended(9) terminalTranscript_answers id)
  ultimately have ids: "distinct (answered_calls (ts_messages (st_transcript ?s)))"
    "set (answered_calls (ts_messages (st_transcript ?s))) = insert i (set (answered_calls (ts_messages (st_transcript s))))"
    using old(2) mset_eq_imp_distinct_iff [of "answered_calls (ts_messages (st_transcript ?s))"
        "answered_calls (ts_messages (st_transcript s)) @ [i]"]
      mset_eq_setD [of "answered_calls (ts_messages (st_transcript ?s))" "answered_calls (ts_messages (st_transcript s)) @ [i]"]
    by (auto simp: transcript_answers_def)
  have ans: "transcript_answers (to_calls (st_tools ?s)) (ts_messages (st_transcript ?s))"
    using transcript_answers_extend [OF ext old(2)] ids ended(3) by (auto simp: transcript_answers_def ended(6))
  have "transcript_ordered ?calls (ts_messages (st_transcript ?s))"
    unfolding ended(9) by (rule appendToolTranscript_ordered(1) [OF old(1)])
  moreover have "\<exists>c. map_of ?calls j = Some c" if "j \<in> set (answered_calls (ts_messages (st_transcript ?s)))" for j
    using that ids(2) old(2) ended(1) by (auto simp: transcript_answers_def)
  ultimately have "transcript_ordered (to_calls (st_tools ?s)) (ts_messages (st_transcript ?s))"
    using transcript_ordered_extend [OF ext] by blast
  moreover have "calls_keyed (to_calls (st_tools ?s))"
    using ok ended(1) terminal_call_fields(2) [of c h e] by (simp add: transcript_ok_def calls_keyed_def ended(6) same_call_def)
  ultimately show ?thesis using ans by (simp add: transcript_ok_def)
qed

text \<open>A step that keeps the messages and the identity of the calls.\<close>

lemma transcript_ok_extend:
  assumes ok: "transcript_ok s" and "calls_extend (to_calls (st_tools s)) (to_calls (st_tools s'))"
    and "calls_keyed (to_calls (st_tools s'))" "st_transcript s' = st_transcript s"
  shows "transcript_ok s'"
proof -
  have ans: "transcript_answers (to_calls (st_tools s)) (ts_messages (st_transcript s))"
    using ok by (simp add: transcript_ok_def)
  have "transcript_ordered (to_calls (st_tools s')) (ts_messages (st_transcript s)) =
      transcript_ordered (to_calls (st_tools s)) (ts_messages (st_transcript s))"
    by (rule transcript_ordered_extend [OF assms(2)]) (use ans in \<open>auto simp: transcript_answers_def\<close>)
  then show ?thesis
    using ok assms(3,4) transcript_answers_extend [OF assms(2) ans] by (simp add: transcript_ok_def)
qed

lemma calls_step_keyed: "calls_step calls calls' \<Longrightarrow> calls_keyed calls \<Longrightarrow> calls_keyed calls'"
  unfolding calls_step_def calls_keyed_def call_step_def same_call_def by (metis option.exhaust option.inject)

lemma reduceIntentState_transcript:
  assumes ok: "transcript_ok s" and red: "reduceIntentState h s e = Inr s'"
  shows "transcript_ok s'"
proof -
  note step = reduceIntentState_calls [OF red]
  have same: "transcript_ok s'" if "st_transcript s' = st_transcript s"
    using transcript_ok_extend [OF ok calls_step_extend [OF step] _ that] calls_step_keyed [OF step] ok
    by (simp add: transcript_ok_def)
  show ?thesis
    using red
  proof (cases rule: reduceIntentState_events)
    case queue
    from queue(1) have "st_transcript s' = st_transcript s" by (cases rule: tool_queued_cases) simp_all
    then show ?thesis by (rule same)
  next
    case start
    then have "st_transcript s' = st_transcript s"
      by (cases rule: tool_started_cases [where s = s and payload = "ev_data e"]) simp_all
    then show ?thesis by (rule same)
  next
    case finish
    then show ?thesis using tool_ended_transcript [OF ok] by simp
  next
    case retry
    then have "st_transcript s' = st_transcript s"
      by (cases rule: retry_recorded_cases [where s = s and payload = "ev_data e"]) simp_all
    then show ?thesis by (rule same)
  next
    case network
    then have "st_transcript s' = st_transcript s"
      by (cases rule: network_decided_cases [where s = s and payload = "ev_data e"]) simp_all
    then show ?thesis by (rule same)
  qed (simp add: ok)
qed

text \<open>The intent reducer over a sequence of events.\<close>

fun intent_run :: "js_host \<Rightarrow> agent_state \<Rightarrow> kernel_event list \<Rightarrow> agent_state res" where
  "intent_run h s [] = Inr s"
| "intent_run h s (e # es) = bind_res (reduceIntentState h s e) (\<lambda>s'. intent_run h s' es)"

lemma intent_run_transcript: "transcript_ok s \<Longrightarrow> intent_run h s es = Inr s' \<Longrightarrow> transcript_ok s'"
  by (induction es arbitrary: s) (auto simp: bind_res_Inr intro: reduceIntentState_transcript)

lemma initial_transcript_ok: "createInitialAgentState i = Inr s \<Longrightarrow> transcript_ok s"
  by (auto simp: createInitialAgentState_def transcript_ok_def calls_keyed_def transcript_ordered_def
      transcript_answers_def answered_calls_def map_filter_def split: if_splits)

text \<open>
  C18: the intent reducer tells tool results in the order of the calls. From the initial state, or
  from any state that is in order, whatever sequence of events this reducer handles: each call is
  answered by at most one tool message, and only after it has ended; the answers to one model message
  stand in the order of the ordinals the model gave its calls, whatever order they finished in; and
  messages are numbered by their position. The claim is about this reducer; the interaction reducer
  can reopen a call that has ended (see Spec2Isabelle).
\<close>

theorem transcript_in_call_order:
  assumes "createInitialAgentState input = Inr s \<or> transcript_ok s" "intent_run h s es = Inr s'"
  shows "distinct (answered_calls (ts_messages (st_transcript s'))) \<and>
    (\<forall>i \<in> set (answered_calls (ts_messages (st_transcript s'))).
       \<exists>c. map_of (to_calls (st_tools s')) i = Some c \<and> isTerminal (tc_status c)) \<and>
    (\<forall>g. g \<noteq> [] \<longrightarrow> sorted_wrt (answer_le (to_calls (st_tools s')))
       (filter (\<lambda>m. answers (to_calls (st_tools s')) m = Some g) (ts_messages (st_transcript s')))) \<and>
    (\<forall>i < length (ts_messages (st_transcript s')).
       mm_ordinal (message_meta_of (ts_messages (st_transcript s') ! i)) = i)"
  using intent_run_transcript [OF _ assms(2)] assms(1) initial_transcript_ok
  by (auto simp: transcript_ok_def transcript_ordered_def transcript_answers_def)

text \<open>What moves a call: a start makes it running, its terminal event ends it.\<close>

definition moved_by :: "js_host \<Rightarrow> kernel_event \<Rightarrow> string \<Rightarrow> tool_call \<Rightarrow> bool" where
  "moved_by h e i c' \<longleftrightarrow>
     nonEmptyStringField (ev_data e) ''toolCallId'' = Some i \<and>
     (ev_type e = ''tool.started'' \<and> tc_status c' = TRunning \<or>
      ev_type e \<in> set TOOL_TERMINAL_EVENTS \<and>
        terminalStatus (ev_type e) (canonicalOutcome h (ev_data e)) = Some (tc_status c'))"

lemma intent_moves:
  assumes "reduceIntentState h s e = Inr s'"
    and "map_of (to_calls (st_tools s)) i = Some c" "map_of (to_calls (st_tools s')) i = Some c'"
    and "tc_status c' \<noteq> tc_status c"
  shows "moved_by h e i c'"
  using assms(1)
proof (cases rule: reduceIntentState_events)
  case queue
  from queue(1) show ?thesis by (cases rule: tool_queued_cases) (use assms in \<open>auto split: if_splits\<close>)
next
  case start
  then show ?thesis
    by (cases rule: tool_started_cases [where s = s and payload = "ev_data e"])
      (use assms in \<open>auto simp: moved_by_def split: if_splits\<close>)
next
  case finish
  then show ?thesis
    by (cases rule: tool_ended_cases [where h = h and s = s and e = e])
      (use assms in \<open>auto simp: moved_by_def split: if_splits\<close>)
next
  case retry
  then show ?thesis
    by (cases rule: retry_recorded_cases [where s = s and payload = "ev_data e"])
      (use assms in \<open>auto split: if_splits\<close>)
next
  case network
  then show ?thesis
    by (cases rule: network_decided_cases [where s = s and payload = "ev_data e"])
      (use assms in \<open>auto split: if_splits\<close>)
qed (use assms in simp)

lemma intent_adds:
  assumes "reduceIntentState h s e = Inr s'"
    and new: "map_of (to_calls (st_tools s')) i = Some c'" "map_of (to_calls (st_tools s)) i = None"
  shows "ev_type e = ''tool.queued'' \<and> i \<in> set (to_queue (st_tools s'))"
  using assms(1)
proof (cases rule: reduceIntentState_events)
  case queue
  from queue(1) have "i \<in> set (to_queue (st_tools s'))"
    by (cases rule: tool_queued_cases) (use new in \<open>auto simp: set_replaceStringInList split: if_splits\<close>)
  then show ?thesis using queue(2) by simp
next
  case start
  then show ?thesis
    by (cases rule: tool_started_cases [where s = s and payload = "ev_data e"])
      (use new in \<open>auto split: if_splits\<close>)
next
  case finish
  then show ?thesis
    by (cases rule: tool_ended_cases [where h = h and s = s and e = e])
      (use new in \<open>auto split: if_splits\<close>)
next
  case retry
  then show ?thesis
    by (cases rule: retry_recorded_cases [where s = s and payload = "ev_data e"])
      (use new in \<open>auto split: if_splits\<close>)
next
  case network
  then show ?thesis
    by (cases rule: network_decided_cases [where s = s and payload = "ev_data e"])
      (use new in \<open>auto split: if_splits\<close>)
qed (use new in simp)

text \<open>
  C19: the lifecycle of tool calls under the intent reducer. Whatever event it accepts, every call is
  still there with the same identity, arguments, owner and effect class; its status changes only by a
  start event that names it, to running, or by a terminal event that names it, to the status of that
  event; once it has ended it is changed no more, except that network decisions are still recorded. A
  call that is new came with a queue event and is queued under its own id. (A live call may be
  started more than once: the code does not refuse a second start.)
\<close>

theorem calls_follow_lifecycle:
  assumes "reduceIntentState h s e = Inr s'"
  shows "(\<forall>i c. map_of (to_calls (st_tools s)) i = Some c \<longrightarrow>
      (\<exists>c'. map_of (to_calls (st_tools s')) i = Some c' \<and> call_step c c' \<and>
         (tc_status c' = tc_status c \<or> moved_by h e i c'))) \<and>
    (\<forall>i c'. map_of (to_calls (st_tools s')) i = Some c' \<and> map_of (to_calls (st_tools s)) i = None \<longrightarrow>
      ev_type e = ''tool.queued'' \<and> tc_status c' = TQueued \<and> tc_toolCallId c' = i \<and> i \<in> set (to_queue (st_tools s')))"
proof -
  note step = reduceIntentState_calls [OF assms, unfolded calls_step_def]
  have "\<exists>c'. map_of (to_calls (st_tools s')) i = Some c' \<and> call_step c c' \<and> (tc_status c' = tc_status c \<or> moved_by h e i c')"
    if c: "map_of (to_calls (st_tools s)) i = Some c" for i c
  proof -
    from step c obtain c' where "map_of (to_calls (st_tools s')) i = Some c'" "call_step c c'" by blast
    then show ?thesis using intent_moves [OF assms c] by blast
  qed
  then show ?thesis using step intent_adds [OF assms] by blast
qed

text \<open>A second start of a running call is accepted and moves its start time.\<close>

lemma second_start_moves_time:
  assumes "map_of (to_calls (st_tools s)) i = Some c" "tc_status c = TRunning"
    and "nonEmptyStringField payload ''toolCallId'' = Some i" "stringField payload ''createdAt'' = Some (ch # time)"
  shows "map_option tc_startedAt (map_of (to_calls (st_tools (tool_started s payload))) i) = Some (Some (ch # time))"
  using assms by (simp add: tool_started_def truthy_option_def)

text \<open>
  C20: a terminal event ends an open call exactly once. The call gets the status of the event (for
  tool.finished, of the canonical outcome) and its outcome, leaves the queue and the active list,
  and the model is told once; delivering the same event again changes nothing, and neither does any
  other terminal or start event for the call, unless its outcome cannot be read and the reducer throws.
\<close>

theorem terminal_event_ends_call:
  assumes "ev_type e \<in> set TOOL_TERMINAL_EVENTS" "nonEmptyStringField (ev_data e) ''toolCallId'' = Some i"
    and "map_of (to_calls (st_tools s)) i = Some c" "\<not> isTerminal (tc_status c)"
    and "terminalStatus (ev_type e) (canonicalOutcome h (ev_data e)) = Some st"
    and "transcript_ok s" "reduceIntentState h s e = Inr s'"
  shows "(\<exists>c'. map_of (to_calls (st_tools s')) i = Some c' \<and> same_call c c' \<and> tc_status c' = st \<and> isTerminal st \<and>
        (canonicalOutcome h (ev_data e) \<noteq> None \<longrightarrow> tc_outcome c' = canonicalOutcome h (ev_data e))) \<and>
    i \<notin> set (to_queue (st_tools s')) \<union> set (to_active (st_tools s')) \<and>
    mset (answered_calls (ts_messages (st_transcript s'))) =
      add_mset i (mset (answered_calls (ts_messages (st_transcript s)))) \<and>
    reduceIntentState h s' e = Inr s' \<and>
    (\<forall>e'. nonEmptyStringField (ev_data e') ''toolCallId'' = Some i \<and>
       ev_type e' \<in> insert ''tool.started'' (set TOOL_TERMINAL_EVENTS) \<longrightarrow> reduceIntentState h s' e' = Inr s' \<or>
         reduceIntentState h s' e' = Inl conversion_error \<and>
         list_ex string_throws (outcome_texts (fld (ev_data e') ''outcome'')))"
proof -
  have s': "s' = tool_ended h s e"
    using assms(1,7) by (auto simp: reduceIntentState_def bind_res_Inr TOOL_TERMINAL_EVENTS_def)
  let ?c' = "terminal_call h e c (canonicalOutcome h (ev_data e)) st"
  have calls: "map_of (to_calls (st_tools s')) i = Some ?c'"
    using assms by (simp add: s' tool_ended_def Let_def)
  have lists: "i \<notin> set (to_queue (st_tools s')) \<union> set (to_active (st_tools s'))"
    using assms by (simp add: s' tool_ended_def Let_def set_replaceStringInList)
  have tr: "st_transcript s' = appendToolTranscript s (terminalTranscript h s e c (canonicalOutcome h (ev_data e)))"
    using assms by (simp add: s' tool_ended_def Let_def)
  have "tc_toolCallId c = i" using assms(3,6) by (simp add: transcript_ok_def calls_keyed_def)
  then have told: "mset (answered_calls (ts_messages (st_transcript s'))) =
      add_mset i (mset (answered_calls (ts_messages (st_transcript s))))"
    using appendToolTranscript_ordered(2) [of s] assms(6) by (simp add: tr terminalTranscript_answers transcript_ok_def)
  have st: "isTerminal st" using assms(5) by (rule terminalStatus_terminal)
  have out: "canonicalOutcome h (ev_data e) \<noteq> None \<longrightarrow> tc_outcome ?c' = canonicalOutcome h (ev_data e)"
    by (auto simp: terminal_call_def finished_call_def failed_call_def Let_def)
  have again: "reduceIntentState h s' e' =
      (if ev_type e' = ''tool.started'' then Inr s'
       else bind_res (isToolOutcome h (fld (ev_data e') ''outcome'')) (\<lambda>canonical. Inr s'))"
    if "nonEmptyStringField (ev_data e') ''toolCallId'' = Some i"
    "ev_type e' \<in> insert ''tool.started'' (set TOOL_TERMINAL_EVENTS)" for e'
    using that calls st
    by (auto simp: reduceIntentState_def TOOL_TERMINAL_EVENTS_def tool_started_def tool_ended_def Let_def split: option.split)
  have "\<exists>b. isToolOutcome h (fld (ev_data e) ''outcome'') = Inr b"
    using assms(1,7) by (auto simp: reduceIntentState_def bind_res_Inr TOOL_TERMINAL_EVENTS_def)
  then have same: "reduceIntentState h s' e = Inr s'" using again [of e] assms(1,2) by auto
  have "reduceIntentState h s' e' = Inr s' \<or> reduceIntentState h s' e' = Inl conversion_error \<and>
      list_ex string_throws (outcome_texts (fld (ev_data e') ''outcome''))"
    if "nonEmptyStringField (ev_data e') ''toolCallId'' = Some i"
    "ev_type e' \<in> insert ''tool.started'' (set TOOL_TERMINAL_EVENTS)" for e'
    using again [OF that] isToolOutcome_throws [of h "fld (ev_data e') ''outcome''"]
    by (cases "isToolOutcome h (fld (ev_data e') ''outcome'')") simp_all
  then show ?thesis using calls st lists told out same by simp
qed

section \<open>A run of two calls\<close>

definition queued_event :: "string \<Rightarrow> rat \<Rightarrow> kernel_event" where
  "queued_event i n = event ''tool.queued'' [(''toolCallId'', JStr i), (''name'', JStr ''read_file''),
     (''modelMessageId'', JStr ''m''), (''ordinal'', JNum n), (''args'', JObj []),
     (''invocationFingerprint'', JStr ''f'')]"

definition cancelled_event :: "string \<Rightarrow> kernel_event" where
  "cancelled_event i = event ''tool.cancelled'' [(''toolCallId'', JStr i), (''reason'', JStr ''stop'')]"

definition two_queued :: agent_state where
  "two_queued = projr (intent_run sample_host fresh_state [queued_event ''a'' 0, queued_event ''b'' 1])"

definition b_cancelled :: agent_state where
  "b_cancelled = projr (reduceIntentState sample_host two_queued (cancelled_event ''b''))"

definition both_cancelled :: agent_state where
  "both_cancelled = projr (reduceIntentState sample_host b_cancelled (cancelled_event ''a''))"

definition sample_run :: "kernel_event list" where
  "sample_run = [queued_event ''a'' 0, queued_event ''b'' 1, cancelled_event ''b'', cancelled_event ''a'']"

lemma sample_run_steps:
  "intent_run sample_host fresh_state (take 2 sample_run) = Inr two_queued"
  "reduceIntentState sample_host two_queued (cancelled_event ''b'') = Inr b_cancelled"
  "reduceIntentState sample_host b_cancelled (cancelled_event ''a'') = Inr both_cancelled"
proof -
  have "\<not> isl (intent_run sample_host fresh_state [queued_event ''a'' 0, queued_event ''b'' 1])"
    "\<not> isl (reduceIntentState sample_host two_queued (cancelled_event ''b''))"
    "\<not> isl (reduceIntentState sample_host b_cancelled (cancelled_event ''a''))"
    by code_simp+
  then show "intent_run sample_host fresh_state (take 2 sample_run) = Inr two_queued"
    "reduceIntentState sample_host two_queued (cancelled_event ''b'') = Inr b_cancelled"
    "reduceIntentState sample_host b_cancelled (cancelled_event ''a'') = Inr both_cancelled"
    by (simp_all add: sample_run_def two_queued_def b_cancelled_def both_cancelled_def not_isl_projr)
qed

lemma intent_run_append: "intent_run h s (es @ es') = bind_res (intent_run h s es) (\<lambda>s'. intent_run h s' es')"
  by (induction es arbitrary: s) (simp, case_tac "reduceIntentState h s a", simp_all)

lemma whole_run: "intent_run sample_host fresh_state sample_run = Inr both_cancelled"
proof -
  have "sample_run = take 2 sample_run @ [cancelled_event ''b'', cancelled_event ''a'']" by (simp add: sample_run_def)
  then show ?thesis using sample_run_steps by (metis intent_run_append bind_res.simps(2) intent_run.simps)
qed

lemma b_cancelled_transcript: "transcript_ok b_cancelled"
  using intent_run_transcript [OF initial_transcript_ok [OF fresh_state_created] sample_run_steps(1)] sample_run_steps(2)
  by (rule reduceIntentState_transcript)

text \<open>The second call ends first, and is still told second.\<close>

theorem transcript_in_call_order_witness:
  "answered_calls (ts_messages (st_transcript b_cancelled)) = [''b''] \<and>
   answered_calls (ts_messages (st_transcript both_cancelled)) = [''a'', ''b''] \<and>
   distinct (answered_calls (ts_messages (st_transcript both_cancelled)))"
proof -
  have "answered_calls (ts_messages (st_transcript b_cancelled)) = [''b'']"
    "answered_calls (ts_messages (st_transcript both_cancelled)) = [''a'', ''b'']"
    by code_simp+
  then show ?thesis using transcript_in_call_order [OF disjI1 [OF fresh_state_created] whole_run] by blast
qed

theorem calls_follow_lifecycle_witness:
  "\<exists>c c'. map_of (to_calls (st_tools two_queued)) ''b'' = Some c \<and>
     map_of (to_calls (st_tools b_cancelled)) ''b'' = Some c' \<and> call_step c c' \<and>
     tc_status c = TQueued \<and> tc_status c' = TCancelled"
proof -
  have "map_option tc_status (map_of (to_calls (st_tools two_queued)) ''b'') = Some TQueued"
    "map_option tc_status (map_of (to_calls (st_tools b_cancelled)) ''b'') = Some TCancelled"
    by code_simp+
  then obtain c c' where "map_of (to_calls (st_tools two_queued)) ''b'' = Some c" "tc_status c = TQueued"
      "map_of (to_calls (st_tools b_cancelled)) ''b'' = Some c'" "tc_status c' = TCancelled" by auto
  then show ?thesis
    using calls_follow_lifecycle [OF sample_run_steps(2)] by fastforce
qed

theorem terminal_event_ends_call_witness:
  "''a'' \<notin> set (to_queue (st_tools both_cancelled)) \<and>
   reduceIntentState sample_host both_cancelled (cancelled_event ''a'') = Inr both_cancelled"
proof -
  have "map_option tc_status (map_of (to_calls (st_tools b_cancelled)) ''a'') = Some TQueued" by code_simp
  then obtain c where c: "map_of (to_calls (st_tools b_cancelled)) ''a'' = Some c" "\<not> isTerminal (tc_status c)" by auto
  have e: "ev_type (cancelled_event ''a'') \<in> set TOOL_TERMINAL_EVENTS"
    "nonEmptyStringField (ev_data (cancelled_event ''a'')) ''toolCallId'' = Some ''a''"
    "terminalStatus (ev_type (cancelled_event ''a'')) (canonicalOutcome sample_host (ev_data (cancelled_event ''a''))) =
       Some TCancelled"
    by code_simp+
  from terminal_event_ends_call [OF e(1,2) c e(3) b_cancelled_transcript sample_run_steps(3)]
  show ?thesis by blast
qed

end
