(* ===== verification/Kite_Journal.thy ===== *)
theory Kite_Journal
  imports Kite_Outcome
begin

text \<open>
  The second half of src/packages/agent-kernel/src/recovery.ts: normalizeToolRecoveryJournal, which
  reads a journal of unknown origin (from storage or from a subagent), and
  mergeToolRecoveryJournals, which adds the journal of a subagent to the one of its parent.
  Whatever value arrives, the normaliser answers with a well-formed journal under the key of the
  host, an empty blocked one if anything in the value is wrong; a merge keeps the parent well-formed.
  The properties are in Kite_Journal_Inv. A NaN, which no JSON text denotes, is read as 0 where an invalid journal reports its count.
\<close>

section \<open>Reading failures\<close>

definition nat_field :: "jobj \<Rightarrow> string \<Rightarrow> nat option" where
  "nat_field o' f =
     (case fld o' f of JNum r \<Rightarrow> if of_int \<lfloor>r\<rfloor> = r \<and> r \<ge> 0 then Some (nat \<lfloor>r\<rfloor>) else None | _ \<Rightarrow> None)"

definition TOOL_RECOVERY_RESOLUTIONS :: "(string \<times> resolution) list" where
  "TOOL_RECOVERY_RESOLUTIONS =
     [(''recovered'', ResRecovered), (''terminal'', ResTerminal), (''next_response_elapsed'', ResNextResponseElapsed),
      (''task_closed'', ResTaskClosed), (''turn_closed'', ResTurnClosed), (''skipped'', ResSkipped),
      (''replanned'', ResReplanned), (''user_action'', ResUserAction), (''provider_revision'', ResProviderRevision)]"

definition isToolRecoveryResolution :: "string option \<Rightarrow> bool" where
  "isToolRecoveryResolution v = (case v of None \<Rightarrow> False | Some s \<Rightarrow> s \<in> set (map fst TOOL_RECOVERY_RESOLUTIONS))"

definition read_resolution :: "string option \<Rightarrow> resolution option" where
  "read_resolution v = (case v of None \<Rightarrow> None | Some s \<Rightarrow> map_of TOOL_RECOVERY_RESOLUTIONS s)"

definition read_failure_status :: "string option \<Rightarrow> failure_status option" where
  "read_failure_status v =
     (if v = Some ''unresolved'' then Some Unresolved else if v = Some ''recovered'' then Some Recovered
      else if v = Some ''exhausted'' then Some Exhausted else None)"

definition isToolRecoveryFailureStatus :: "string option \<Rightarrow> bool" where
  "isToolRecoveryFailureStatus v \<longleftrightarrow> read_failure_status v \<noteq> None"

definition FAILURE_KEYS :: "string list" where
  "FAILURE_KEYS = [''failureInstanceId'', ''toolCallId'', ''toolName'', ''invocationFingerprint'', ''modelMessageId'',
     ''taskId'', ''turnId'', ''eligibleAfterModelMessageId'', ''eligibleModelMessageId'', ''eligibleToolCallId'',
     ''status'', ''resolution'', ''outcome'', ''modelCorrectionAttempts'', ''automaticRetryAttempts'',
     ''progressRevision'']"

definition exactFailureKeys :: "jobj \<Rightarrow> bool" where
  "exactFailureKeys value = exactKeys value FAILURE_KEYS"

definition at_most_one :: "nat option \<Rightarrow> bool" where
  "at_most_one v = (case v of None \<Rightarrow> False | Some n \<Rightarrow> n \<le> 1)"

definition is_hex_field :: "jobj \<Rightarrow> string \<Rightarrow> bool" where
  "is_hex_field o' f = is_sha256_hex (or_default (stringField o' f) [])"

definition isToolRecoveryFailure :: "js_host \<Rightarrow> jobj \<Rightarrow> bool res" where
  "isToolRecoveryFailure h failure =
     (let string_or_absent = (\<lambda>f. fld failure f = JUndef \<or> stringField failure f \<noteq> None) in all_of
     [Inr (exactFailureKeys failure \<and>
      non_empty (stringField failure ''failureInstanceId'') \<and> non_empty (stringField failure ''toolCallId'') \<and>
      non_empty (stringField failure ''toolName'') \<and> is_hex_field failure ''invocationFingerprint'' \<and>
      stringField failure ''modelMessageId'' \<noteq> None \<and>
      string_or_absent ''taskId'' \<and> string_or_absent ''turnId'' \<and>
      string_or_absent ''eligibleAfterModelMessageId'' \<and> string_or_absent ''eligibleModelMessageId'' \<and>
      (fld failure ''eligibleToolCallId'' = JUndef \<or>
       non_empty (stringField failure ''eligibleToolCallId'') \<and>
       stringField failure ''eligibleModelMessageId'' \<noteq> None) \<and>
      isToolRecoveryFailureStatus (stringField failure ''status'') \<and>
      (fld failure ''resolution'' = JUndef \<or> isToolRecoveryResolution (stringField failure ''resolution''))),
     isToolOutcome h (fld failure ''outcome''),
     Inr (at_most_one (nat_field failure ''modelCorrectionAttempts'') \<and>
      at_most_one (nat_field failure ''automaticRetryAttempts'') \<and>
      nat_field failure ''progressRevision'' \<noteq> None)])"

text \<open>A checked failure, read as the record it is.\<close>

definition read_failure :: "jobj \<Rightarrow> recovery_failure" where
  "read_failure o' =
     (let f = (\<lambda>k. or_default (stringField o' k) []); n = (\<lambda>k. or_default (nat_field o' k) 0) in
      \<lparr>rf_failureInstanceId = f ''failureInstanceId'', rf_toolCallId = f ''toolCallId'', rf_toolName = f ''toolName'',
       rf_invocationFingerprint = f ''invocationFingerprint'', rf_modelMessageId = f ''modelMessageId'',
       rf_taskId = stringField o' ''taskId'', rf_turnId = stringField o' ''turnId'',
       rf_eligibleAfterModelMessageId = stringField o' ''eligibleAfterModelMessageId'',
       rf_eligibleModelMessageId = stringField o' ''eligibleModelMessageId'',
       rf_eligibleToolCallId = stringField o' ''eligibleToolCallId'',
       rf_status = or_default (read_failure_status (stringField o' ''status'')) Unresolved,
       rf_resolution = read_resolution (stringField o' ''resolution''),
       rf_outcome = read_outcome (sub_record o' ''outcome''),
       rf_modelCorrectionAttempts = n ''modelCorrectionAttempts'',
       rf_automaticRetryAttempts = n ''automaticRetryAttempts'',
       rf_progressRevision = int (n ''progressRevision'')\<rparr>)"

text \<open>Which resolutions go with which status.\<close>

definition status_resolution_ok :: "jobj \<Rightarrow> tool_outcome \<Rightarrow> bool" where
  "status_resolution_ok failure outcome =
     (let status = stringField failure ''status''; resolution = stringField failure ''resolution'' in
      \<not> (status = Some ''unresolved'' \<and> (resolution \<noteq> None \<or> rc_disposition (oc_recovery outcome) = Never)) \<and>
      \<not> (status = Some ''recovered'' \<and> or_default resolution ''undefined'' \<notin>
          {''recovered'', ''skipped'', ''replanned'', ''user_action'', ''provider_revision''}) \<and>
      \<not> (status = Some ''exhausted'' \<and> or_default resolution ''undefined'' \<notin>
          {''terminal'', ''next_response_elapsed'', ''task_closed'', ''turn_closed''}))"

definition failure_fields_ok :: "js_host \<Rightarrow> int \<Rightarrow> string \<Rightarrow> jobj \<Rightarrow> bool res" where
  "failure_fields_ok h revision i failure =
     (let string_or_nullish = (\<lambda>f. nullish (fld failure f) \<or> stringField failure f \<noteq> None) in all_of
     [Inr (stringField failure ''failureInstanceId'' = Some i \<and>
      non_empty (stringField failure ''toolCallId'') \<and> non_empty (stringField failure ''toolName'') \<and>
      is_hex_field failure ''invocationFingerprint'' \<and> stringField failure ''modelMessageId'' \<noteq> None \<and>
      string_or_nullish ''taskId'' \<and> string_or_nullish ''turnId'' \<and>
      string_or_nullish ''eligibleAfterModelMessageId'' \<and> string_or_nullish ''eligibleModelMessageId'' \<and>
      (nullish (fld failure ''eligibleToolCallId'') \<or>
       non_empty (stringField failure ''eligibleToolCallId'') \<and>
       stringField failure ''eligibleModelMessageId'' \<noteq> None) \<and>
      isToolRecoveryFailureStatus (stringField failure ''status'') \<and>
      (nullish (fld failure ''resolution'') \<or> isToolRecoveryResolution (stringField failure ''resolution''))),
     isToolOutcome h (fld failure ''outcome''),
     Inr (at_most_one (nat_field failure ''modelCorrectionAttempts'') \<and>
      at_most_one (nat_field failure ''automaticRetryAttempts'') \<and>
      (case nat_field failure ''progressRevision'' of None \<Rightarrow> False | Some n \<Rightarrow> int n \<le> revision) \<and>
      (let outcome = read_outcome (sub_record failure ''outcome'') in
       toolFailureInstanceId h (or_default (stringField failure ''toolCallId'') [])
         (or_default (stringField failure ''invocationFingerprint'') []) outcome = i \<and>
       status_resolution_ok failure outcome \<and> oc_failureInstanceId outcome = Some i))])"

definition normalized_failure_value :: "jobj \<Rightarrow> jobj" where
  "normalized_failure_value failure =
     (if stringField failure ''status'' = Some ''unresolved'' \<and>
        stringField failure ''eligibleModelMessageId'' \<noteq> None \<and> stringField failure ''eligibleToolCallId'' = None
      then obj_set ''resolution'' (JStr ''next_response_elapsed'') (obj_set ''status'' (JStr ''exhausted'') failure)
      else if stringField failure ''turnId'' = None
      then obj_set ''resolution'' (JStr ''terminal'') (obj_set ''status'' (JStr ''exhausted'') failure)
      else failure)"

type_synonym scope_ids = "string option \<times> string option"

definition claim_of :: "jobj \<Rightarrow> string option" where
  "claim_of failure =
     (case stringField failure ''eligibleToolCallId'' of None \<Rightarrow> None
      | Some c \<Rightarrow> Some (or_default (stringField failure ''eligibleModelMessageId'') ''undefined'' @ [CHR 0x00] @ c))"

text \<open>The loop over the order: it stops at the first entry that is wrong, with the scope to report.\<close>

fun read_failures ::
  "js_host \<Rightarrow> jobj \<Rightarrow> int \<Rightarrow> string list \<Rightarrow> string list \<Rightarrow> recovery_failure jsobj \<Rightarrow>
   (scope_ids + recovery_failure jsobj) res" where
  "read_failures h failuresRecord revision [] claims failures = Inr (Inr failures)"
| "read_failures h failuresRecord revision (i # rest) claims failures =
     (case as_record (fld failuresRecord i) of None \<Rightarrow> Inr (Inl (None, None))
      | Some failure \<Rightarrow>
          let scope = (stringField failure ''taskId'', stringField failure ''turnId'');
              value = normalized_failure_value failure in
          if \<not> exactFailureKeys failure then Inr (Inl (None, None))
          else bind_res (failure_fields_ok h revision i failure) (\<lambda>fields.
            if \<not> fields then Inr (Inl scope)
            else (case claim_of failure of
                Some c \<Rightarrow> if c \<in> set claims then Inr (Inl (None, None))
                  else bind_res (isToolRecoveryFailure h value) (\<lambda>whole.
                    if \<not> whole then Inr (Inl scope)
                    else read_failures h failuresRecord revision rest (set_add claims c)
                      (obj_set i (read_failure value) failures))
              | None \<Rightarrow> bind_res (isToolRecoveryFailure h value) (\<lambda>whole.
                  if \<not> whole then Inr (Inl scope)
                  else read_failures h failuresRecord revision rest claims
                    (obj_set i (read_failure value) failures)))))"

section \<open>Lineage and repeated failures\<close>

fun index_of :: "'a \<Rightarrow> 'a list \<Rightarrow> nat option" where
  "index_of x [] = None"
| "index_of x (y # ys) = (if y = x then Some 0 else map_option Suc (index_of x ys))"

definition lineage_entry_ok :: "recovery_failure jsobj \<Rightarrow> string list \<Rightarrow> nat \<times> string \<Rightarrow> bool" where
  "lineage_entry_ok failures order entry =
     (case map_of failures (snd entry) of None \<Rightarrow> True
      | Some failure \<Rightarrow>
          (case recovery_parent failure of None \<Rightarrow> True
           | Some parentId \<Rightarrow>
               (case (map_of failures parentId, index_of parentId order) of
                  (Some parent, Some parentIndex) \<Rightarrow>
                    parentId \<noteq> snd entry \<and> parentIndex < fst entry \<and>
                    rf_progressRevision parent \<le> rf_progressRevision failure \<and>
                    rf_modelCorrectionAttempts parent \<le> rf_modelCorrectionAttempts failure \<and>
                    rf_automaticRetryAttempts parent \<le> rf_automaticRetryAttempts failure \<and>
                    rf_modelCorrectionAttempts failure - rf_modelCorrectionAttempts parent \<le> 1 \<and>
                    rf_automaticRetryAttempts failure - rf_automaticRetryAttempts parent \<le> 1
                | _ \<Rightarrow> False)))"

record derived_group =
  dg_count :: nat
  dg_taskId :: "string option"
  dg_turnId :: "string option"

definition add_derived ::
  "recovery_failure jsobj \<Rightarrow> (string \<times> derived_group) list \<Rightarrow> recovery_failure \<Rightarrow> (string \<times> derived_group) list" where
  "add_derived failures derived failure =
     (if \<not> failureStillBlocks failure then derived
      else let key = noProgressKey failures failure in
        map_set key \<lparr>dg_count = (case map_of derived key of None \<Rightarrow> 0 | Some p \<Rightarrow> dg_count p) + 1,
          dg_taskId = truthy_option (rf_taskId failure), dg_turnId = truthy_option (rf_turnId failure)\<rparr> derived)"

definition derived_groups :: "recovery_failure jsobj \<Rightarrow> derived_group list" where
  "derived_groups failures =
     filter (\<lambda>g. dg_count g \<ge> TOOL_RECOVERY_QUALITY_FAILURE_LIMIT)
       (obj_values (foldl (add_derived failures) [] (obj_values failures)))"

definition group_scope :: "derived_group \<Rightarrow> string" where
  "group_scope g = or_default (dg_taskId g) [] @ [CHR 0x00] @ or_default (dg_turnId g) []"

section \<open>The normaliser\<close>

definition assertCanonicalRecoveryIdentityKey :: "string \<Rightarrow> unit res" where
  "assertCanonicalRecoveryIdentityKey key =
     (if is_sha256_hex key then Inr ()
      else throw ''Tool recovery identityKey must be a canonical host-supplied key.'')"

definition observed_number :: "jval \<Rightarrow> nat" where
  "observed_number v =
     (case v of JNum r \<Rightarrow> nat (max 0 (min 250 \<lfloor>r\<rfloor>)) | JInf positive \<Rightarrow> if positive then 250 else 0 | _ \<Rightarrow> 0)"

definition blocked_journal :: "string \<Rightarrow> jval \<Rightarrow> scope_ids \<Rightarrow> recovery_journal" where
  "blocked_journal identityKey observed scope =
     \<lparr>rj_identityKey = identityKey, rj_failures = [], rj_order = [], rj_progressRevision = 0,
      rj_qualityGuard = \<lparr>qg_blocked = True, qg_reasonCode = Some JournalInvalid,
        qg_observedFailures = observed_number observed,
        qg_taskId = truthy_option (fst scope), qg_turnId = truthy_option (snd scope)\<rparr>\<rparr>"

definition TOP_KEYS :: "string list" where
  "TOP_KEYS = [''schemaVersion'', ''identityKey'', ''failures'', ''order'', ''progressRevision'', ''qualityGuard'']"

definition QUALITY_KEYS :: "string list" where
  "QUALITY_KEYS = [''blocked'', ''reasonCode'', ''observedFailures'', ''taskId'', ''turnId'']"

definition envelope_valid :: "string \<Rightarrow> jobj \<Rightarrow> bool" where
  "envelope_valid identityKey candidate \<longleftrightarrow>
     exactKeys candidate TOP_KEYS \<and> fld candidate ''schemaVersion'' = JNum 1 \<and>
     fld candidate ''identityKey'' = JStr identityKey \<and> is_sha256_hex identityKey \<and>
     recordField candidate ''failures'' \<noteq> None \<and> arrayField candidate ''order'' \<noteq> None \<and>
     (case recordField candidate ''qualityGuard'' of None \<Rightarrow> False | Some q \<Rightarrow> exactKeys q QUALITY_KEYS) \<and>
     is_safe_integer (fld candidate ''progressRevision'') \<and> int_of (fld candidate ''progressRevision'') \<ge> 0"

definition quality_valid :: "js_host \<Rightarrow> jobj \<Rightarrow> bool res" where
  "quality_valid h quality = all_of
    [Inr (is_bool (fld quality ''blocked'') \<and> is_safe_integer (fld quality ''observedFailures'') \<and>
       0 \<le> int_of (fld quality ''observedFailures'') \<and> int_of (fld quality ''observedFailures'') \<le> 250),
     (if fld quality ''blocked'' = JBool True
      then spelled h [''no_progress'', ''journal_invalid''] (fld quality ''reasonCode'') else Inr True),
     Inr ((fld quality ''blocked'' = JBool False \<longrightarrow>
         nullish (fld quality ''reasonCode'') \<and> nullish (fld quality ''taskId'') \<and> nullish (fld quality ''turnId'')) \<and>
       (nullish (fld quality ''taskId'') \<or> stringField quality ''taskId'' \<noteq> None) \<and>
       (nullish (fld quality ''turnId'') \<or> stringField quality ''turnId'' \<noteq> None))]"

definition order_valid :: "jval list \<Rightarrow> jobj \<Rightarrow> bool" where
  "order_valid order failuresRecord \<longleftrightarrow>
     length order \<le> 128 \<and> distinct order \<and>
     list_all (\<lambda>v. case v of JStr i \<Rightarrow> is_sha256_hex i | _ \<Rightarrow> False) order \<and>
     list_all (\<lambda>i. JStr i \<in> set order) (obj_keys failuresRecord)"

definition normalized_guard :: "jobj \<Rightarrow> derived_group list \<Rightarrow> quality_guard" where
  "normalized_guard quality groups =
     (let blockedState = (fld quality ''blocked'' = JBool True \<or> groups \<noteq> []);
          reasonCode = (if blockedState then Some (if fld quality ''reasonCode'' = JStr ''journal_invalid''
            then JournalInvalid else NoProgress) else None);
          scoped = (\<lambda>f g. if reasonCode = Some NoProgress
            then truthy_option (else_string (stringField quality f) (case groups of [] \<Rightarrow> None | first # _ \<Rightarrow> g first))
            else None) in
      \<lparr>qg_blocked = blockedState, qg_reasonCode = reasonCode,
       qg_observedFailures = min 250 (nat (int_of (fld quality ''observedFailures''))),
       qg_taskId = scoped ''taskId'' dg_taskId, qg_turnId = scoped ''turnId'' dg_turnId\<rparr>)"

definition normalize_valid :: "js_host \<Rightarrow> string \<Rightarrow> jobj \<Rightarrow> jobj \<Rightarrow> recovery_journal res" where
  "normalize_valid h identityKey candidate quality =
     (let observed = fld quality ''observedFailures'';
          order = or_default (arrayField candidate ''order'') [];
          ids = List.map_filter as_string order;
          failuresRecord = sub_record candidate ''failures'';
          revision = int_of (fld candidate ''progressRevision'') in
      if \<not> order_valid order failuresRecord then Inr (blocked_journal identityKey observed (None, None))
      else bind_res (read_failures h failuresRecord revision ids [] []) (\<lambda>outcome. Inr (case outcome of
          Inl scope \<Rightarrow> blocked_journal identityKey observed scope
        | Inr failures \<Rightarrow>
            let groups = derived_groups failures in
            if \<not> list_all (lineage_entry_ok failures ids) (enumerate 0 ids) \<or>
              fld quality ''blocked'' \<noteq> JBool True \<and> length (es_set (map group_scope groups)) > 1
            then blocked_journal identityKey observed (None, None)
            else \<lparr>rj_identityKey = identityKey, rj_failures = failures, rj_order = ids,
              rj_progressRevision = revision, rj_qualityGuard = normalized_guard quality groups\<rparr>)))"

definition normalizeToolRecoveryJournal :: "js_host \<Rightarrow> jval \<Rightarrow> string \<Rightarrow> recovery_journal res" where
  "normalizeToolRecoveryJournal h value hostIdentityKey =
     and_then (assertCanonicalRecoveryIdentityKey hostIdentityKey)
       (case as_record value of None \<Rightarrow> Inr (blocked_journal hostIdentityKey JUndef (None, None))
        | Some candidate \<Rightarrow>
            let quality = sub_record candidate ''qualityGuard'';
                refused = blocked_journal hostIdentityKey (fld quality ''observedFailures'') (None, None) in
            if \<not> envelope_valid hostIdentityKey candidate then Inr refused
            else bind_res (quality_valid h quality) (\<lambda>valid.
              if \<not> valid then Inr refused else normalize_valid h hostIdentityKey candidate quality))"

section \<open>Merging\<close>

definition rescoped :: "scope_ids \<Rightarrow> recovery_failure \<Rightarrow> recovery_failure" where
  "rescoped scope failure =
     (let tasked = (case truthy_option (fst scope) of None \<Rightarrow> failure
        | Some t \<Rightarrow> failure\<lparr>rf_taskId := Some t\<rparr>) in
      case truthy_option (snd scope) of None \<Rightarrow> tasked | Some t \<Rightarrow> tasked\<lparr>rf_turnId := Some t\<rparr>)"

definition merge_failure ::
  "recovery_failure jsobj \<Rightarrow> recovery_failure jsobj \<Rightarrow> scope_ids \<Rightarrow> recovery_failure jsobj \<Rightarrow> string \<Rightarrow> recovery_failure jsobj" where
  "merge_failure parent child scope combined i =
     (case map_of parent i of Some f \<Rightarrow> obj_set i f combined
      | None \<Rightarrow> (case map_of child i of None \<Rightarrow> combined
          | Some f \<Rightarrow> obj_set i (rescoped scope f) combined))"

definition merged_guard :: "quality_guard \<Rightarrow> quality_guard \<Rightarrow> scope_ids \<Rightarrow> quality_guard" where
  "merged_guard parent child scope =
     (let qualityBlocked = (qg_blocked parent \<or> qg_blocked child);
          invalidReason = (qg_reasonCode parent = Some JournalInvalid \<or> qg_reasonCode child = Some JournalInvalid) in
      \<lparr>qg_blocked = qualityBlocked,
       qg_reasonCode = (if qualityBlocked then Some (if invalidReason then JournalInvalid else NoProgress) else None),
       qg_observedFailures = min TOOL_RECOVERY_OBSERVATION_CAP (qg_observedFailures parent + qg_observedFailures child),
       qg_taskId = (if qualityBlocked then truthy_option (else_string (qg_taskId parent) (fst scope)) else None),
       qg_turnId = (if qualityBlocked then truthy_option (else_string (qg_turnId parent) (snd scope)) else None)\<rparr>)"

definition merge_valid :: "recovery_journal \<Rightarrow> recovery_journal \<Rightarrow> scope_ids \<Rightarrow> recovery_journal" where
  "merge_valid parent normalized scope =
     (let combinedOrder = rj_order parent @
            filter (\<lambda>i. map_of (rj_failures parent) i = None) (rj_order normalized);
          combinedFailures = foldl (merge_failure (rj_failures parent) (rj_failures normalized) scope) [] combinedOrder;
          compacted = compactFailures combinedFailures combinedOrder in
      \<lparr>rj_identityKey = rj_identityKey parent, rj_failures = fst compacted, rj_order = snd compacted,
       rj_progressRevision = max (rj_progressRevision parent) (rj_progressRevision normalized),
       rj_qualityGuard = merged_guard (rj_qualityGuard parent) (rj_qualityGuard normalized) scope\<rparr>)"

definition mergeToolRecoveryJournals ::
  "js_host \<Rightarrow> recovery_journal \<Rightarrow> jobj \<Rightarrow> string \<Rightarrow> scope_ids \<Rightarrow> recovery_journal res" where
  "mergeToolRecoveryJournals h parent child hostIdentityKey scope =
     and_then (assertCanonicalRecoveryIdentityKey hostIdentityKey)
       (bind_res (normalizeToolRecoveryJournal h (JObj child) hostIdentityKey) (\<lambda>normalized.
          if journalInvalid normalized \<or> hostIdentityKey \<noteq> rj_identityKey parent \<or>
            rj_identityKey normalized \<noteq> rj_identityKey parent
          then Inr (parent\<lparr>rj_qualityGuard :=
            \<lparr>qg_blocked = True, qg_reasonCode = Some JournalInvalid,
             qg_observedFailures = max TOOL_RECOVERY_QUALITY_FAILURE_LIMIT
               (qg_observedFailures (rj_qualityGuard parent)),
             qg_taskId = truthy_option (fst scope), qg_turnId = truthy_option (snd scope)\<rparr>\<rparr>)
          else Inr (merge_valid parent normalized scope)))"

end
