(* ===== verification/Kite_Journal_Inv.thy ===== *)
theory Kite_Journal_Inv
  imports Kite_Journal Kite_Recovery_Inv
begin

text \<open>
  Properties of the normaliser and of merging: every value normalises to a well-formed journal, in
  which identities are recomputed, attempts bounded and lineages ordered; merging keeps the parent's
  entries and the invariant.
\<close>

section \<open>What a read failure satisfies\<close>

definition settled_ok :: "recovery_failure \<Rightarrow> bool" where
  "settled_ok f =
     (case rf_status f of
        Unresolved \<Rightarrow> rf_resolution f = None \<and> rc_disposition (oc_recovery (rf_outcome f)) \<noteq> Never \<and> rf_turnId f \<noteq> None
      | Recovered \<Rightarrow> rf_resolution f \<in> Some ` {ResRecovered, ResSkipped, ResReplanned, ResUserAction, ResProviderRevision}
      | Exhausted \<Rightarrow> rf_resolution f \<in> Some ` {ResTerminal, ResNextResponseElapsed, ResTaskClosed, ResTurnClosed})"

definition entry_good :: "js_host \<Rightarrow> int \<Rightarrow> string \<Rightarrow> recovery_failure \<Rightarrow> bool" where
  "entry_good h revision k f \<longleftrightarrow>
     failure_ok k f \<and> settled_ok f \<and>
     toolFailureInstanceId h (rf_toolCallId f) (rf_invocationFingerprint f) (rf_outcome f) = k \<and>
     oc_failureInstanceId (rf_outcome f) = Some k \<and>
     rf_modelCorrectionAttempts f \<le> 1 \<and> rf_automaticRetryAttempts f \<le> 1 \<and>
     0 \<le> rf_progressRevision f \<and> rf_progressRevision f \<le> revision"

lemma fld_obj_set [simp]: "fld (obj_set k v o') f = (if f = k then v else fld o' f)"
  by (simp add: fld_def)

lemma stringField_obj_set [simp]:
  "stringField (obj_set k v o') f = (if f = k then as_string v else stringField o' f)"
  "nat_field (obj_set k (JStr x) o') f = (if f = k then None else nat_field o' f)"
  by (simp_all add: stringField_def nat_field_def)

lemma sub_record_obj_set [simp]: "f \<noteq> k \<Longrightarrow> sub_record (obj_set k v o') f = sub_record o' f"
  by (simp add: sub_record_def recordField_def)

lemma read_failure_status_eq:
  "read_failure_status v = Some Unresolved \<longleftrightarrow> v = Some ''unresolved''"
  "read_failure_status v = Some Recovered \<longleftrightarrow> v = Some ''recovered''"
  "read_failure_status v = Some Exhausted \<longleftrightarrow> v = Some ''exhausted''"
  by (simp_all add: read_failure_status_def)

lemma read_resolution_simps [simp]:
  "read_resolution None = None" "read_resolution (Some ''recovered'') = Some ResRecovered"
  "read_resolution (Some ''terminal'') = Some ResTerminal"
  "read_resolution (Some ''next_response_elapsed'') = Some ResNextResponseElapsed"
  "read_resolution (Some ''task_closed'') = Some ResTaskClosed" "read_resolution (Some ''turn_closed'') = Some ResTurnClosed"
  "read_resolution (Some ''skipped'') = Some ResSkipped" "read_resolution (Some ''replanned'') = Some ResReplanned"
  "read_resolution (Some ''user_action'') = Some ResUserAction"
  "read_resolution (Some ''provider_revision'') = Some ResProviderRevision"
  by code_simp+

lemma read_failure_fields [simp]:
  "rf_status (read_failure o') = or_default (read_failure_status (stringField o' ''status'')) Unresolved"
  "rf_resolution (read_failure o') = read_resolution (stringField o' ''resolution'')"
  "rf_turnId (read_failure o') = stringField o' ''turnId''"
  "rf_outcome (read_failure o') = read_outcome (sub_record o' ''outcome'')"
  "rf_failureInstanceId (read_failure o') = or_default (stringField o' ''failureInstanceId'') []"
  "rf_toolCallId (read_failure o') = or_default (stringField o' ''toolCallId'') []"
  "rf_invocationFingerprint (read_failure o') = or_default (stringField o' ''invocationFingerprint'') []"
  "rf_eligibleModelMessageId (read_failure o') = stringField o' ''eligibleModelMessageId''"
  "rf_eligibleToolCallId (read_failure o') = stringField o' ''eligibleToolCallId''"
  "rf_modelCorrectionAttempts (read_failure o') = or_default (nat_field o' ''modelCorrectionAttempts'') 0"
  "rf_automaticRetryAttempts (read_failure o') = or_default (nat_field o' ''automaticRetryAttempts'') 0"
  "rf_progressRevision (read_failure o') = int (or_default (nat_field o' ''progressRevision'') 0)"
  by (simp_all add: read_failure_def Let_def)

lemma status_cases:
  assumes "isToolRecoveryFailureStatus v"
  obtains "v = Some ''unresolved''" | "v = Some ''recovered''" | "v = Some ''exhausted''"
  using assms by (auto simp: isToolRecoveryFailureStatus_def read_failure_status_def split: if_splits)

lemma status_resolution_settled:
  assumes "isToolRecoveryFailureStatus (stringField o' ''status'')"
    "status_resolution_ok o' (read_outcome (sub_record o' ''outcome''))" "stringField o' ''turnId'' \<noteq> None"
  shows "settled_ok (read_failure o')"
  using assms(1)
proof (cases rule: status_cases)
  case 1
  then show ?thesis
    using assms(2,3) by (simp add: settled_ok_def read_failure_status_def status_resolution_ok_def Let_def)
next
  case 2
  then have "or_default (stringField o' ''resolution'') ''undefined'' \<in>
      {''recovered'', ''skipped'', ''replanned'', ''user_action'', ''provider_revision''}"
    using assms(2) by (simp add: status_resolution_ok_def Let_def)
  then show ?thesis
    using 2 by (cases "stringField o' ''resolution''")
      (elim insertE; simp add: settled_ok_def read_failure_status_def)+
next
  case 3
  then have "or_default (stringField o' ''resolution'') ''undefined'' \<in>
      {''terminal'', ''next_response_elapsed'', ''task_closed'', ''turn_closed''}"
    using assms(2) by (simp add: status_resolution_ok_def Let_def)
  then show ?thesis
    using 3 by (cases "stringField o' ''resolution''")
      (elim insertE; simp add: settled_ok_def read_failure_status_def)+
qed

lemma normalized_value_fields:
  assumes "f \<notin> {''status'', ''resolution''}"
  shows "stringField (normalized_failure_value o') f = stringField o' f"
    "nat_field (normalized_failure_value o') f = nat_field o' f"
    "sub_record (normalized_failure_value o') f = sub_record o' f"
  using assms by (auto simp: normalized_failure_value_def)

lemma normalized_settled:
  assumes "failure_fields_ok h revision i o' = Inr True"
  shows "settled_ok (read_failure (normalized_failure_value o'))"
proof (cases "stringField o' ''status'' = Some ''unresolved'' \<and>
    stringField o' ''eligibleModelMessageId'' \<noteq> None \<and> stringField o' ''eligibleToolCallId'' = None")
  case True
  then show ?thesis by (simp add: normalized_failure_value_def settled_ok_def read_failure_status_def)
next
  case other: False
  show ?thesis
  proof (cases "stringField o' ''turnId'' = None")
    case True
    then show ?thesis
      unfolding normalized_failure_value_def if_not_P [OF other]
      by (simp add: settled_ok_def read_failure_status_def)
  next
    case False
    have "normalized_failure_value o' = o'"
      unfolding normalized_failure_value_def if_not_P [OF other] if_not_P [OF False] ..
    moreover have "settled_ok (read_failure o')"
      by (rule status_resolution_settled) (use assms False in \<open>simp_all add: failure_fields_ok_def Let_def\<close>)
    ultimately show ?thesis by simp
  qed
qed

lemma at_most_one_Some: "at_most_one v \<Longrightarrow> or_default v 0 \<le> Suc 0"
  by (auto simp: at_most_one_def split: option.splits)

lemma read_entry_good:
  assumes "failure_fields_ok h revision i o' = Inr True" "is_sha256_hex i"
  shows "entry_good h revision i (read_failure (normalized_failure_value o'))"
proof -
  let ?o = "normalized_failure_value o'"
  note same = normalized_value_fields [of _ o']
  have "stringField o' ''eligibleToolCallId'' \<noteq> None \<Longrightarrow> stringField o' ''eligibleModelMessageId'' \<noteq> None"
    using assms(1) by (cases "fld o' ''eligibleToolCallId''") (simp_all add: failure_fields_ok_def Let_def stringField_def)
  then have "failure_ok i (read_failure ?o)"
    using assms by (simp add: failure_ok_def same failure_fields_ok_def Let_def)
  moreover have "toolFailureInstanceId h (rf_toolCallId (read_failure ?o)) (rf_invocationFingerprint (read_failure ?o))
      (rf_outcome (read_failure ?o)) = i" "oc_failureInstanceId (rf_outcome (read_failure ?o)) = Some i"
    using assms(1) by (simp_all add: same failure_fields_ok_def Let_def)
  moreover have "rf_modelCorrectionAttempts (read_failure ?o) \<le> 1" "rf_automaticRetryAttempts (read_failure ?o) \<le> 1"
    using assms(1) by (simp_all add: same failure_fields_ok_def Let_def at_most_one_Some)
  moreover have "rf_progressRevision (read_failure ?o) \<le> revision"
    using assms(1) by (auto simp: same failure_fields_ok_def Let_def split: option.splits)
  ultimately show ?thesis
    using normalized_settled [OF assms(1)] by (simp add: entry_good_def del: read_failure_fields) simp
qed

section \<open>The loop over the order\<close>

definition claim_text :: "string \<Rightarrow> string \<Rightarrow> string" where
  "claim_text m c = m @ [CHR 0x00] @ c"

definition claims_recorded :: "string list \<Rightarrow> recovery_failure jsobj \<Rightarrow> bool" where
  "claims_recorded texts failures \<longleftrightarrow>
     (\<forall>k f m c. map_of failures k = Some f \<and> claims f m c \<longrightarrow> claim_text m c \<in> set texts)"

definition loop_ok :: "js_host \<Rightarrow> int \<Rightarrow> string list \<Rightarrow> recovery_failure jsobj \<Rightarrow> bool" where
  "loop_ok h revision texts failures \<longleftrightarrow>
     distinct_keys failures \<and> js_object.every (entry_good h revision) failures \<and>
     claims_unique failures \<and> claims_recorded texts failures"

lemma claims_read:
  "claims (read_failure (normalized_failure_value o')) m c \<longleftrightarrow>
   stringField o' ''eligibleModelMessageId'' = Some m \<and> stringField o' ''eligibleToolCallId'' = Some c \<and> c \<noteq> []"
  by (simp add: claims_def normalized_value_fields)

lemma claim_of_claims:
  "claims (read_failure (normalized_failure_value o')) m c \<Longrightarrow> claim_of o' = Some (claim_text m c)"
  by (simp add: claims_read claim_of_def claim_text_def)

lemma loop_ok_add:
  assumes ok: "loop_ok h revision texts failures" and good: "entry_good h revision i f"
    and new: "map_of failures i = None" and incl: "set texts \<subseteq> set texts'"
    and claim: "\<And>m c. claims f m c \<Longrightarrow> claim_text m c \<in> set texts' \<and> claim_text m c \<notin> set texts"
  shows "loop_ok h revision texts' (obj_set i f failures)"
proof -
  have old: "claim_text m c \<in> set texts" if "map_of failures k = Some g" "claims g m c" for k g m c
    using ok that unfolding loop_ok_def claims_recorded_def by blast
  have "k = k'" if "map_of (obj_set i f failures) k = Some g" "map_of (obj_set i f failures) k' = Some g'"
    "claims g m c" "claims g' m c" for k k' g g' m c
  proof (cases "k = i"; cases "k' = i")
    assume "k \<noteq> i" "k' \<noteq> i"
    then have "map_of failures k = Some g" "map_of failures k' = Some g'" using that(1,2) by simp_all
    then show ?thesis using that(3,4) ok unfolding loop_ok_def claims_unique_def by blast
  qed (use that old [of k g m c] old [of k' g' m c] claim [of m c] in \<open>auto split: if_splits\<close>)
  then have "claims_unique (obj_set i f failures)" unfolding claims_unique_def by blast
  moreover have "claims_recorded texts' (obj_set i f failures)"
    unfolding claims_recorded_def using old claim incl by (auto split: if_splits)
  ultimately show ?thesis
    using ok good by (simp add: loop_ok_def js_object.every_put)
qed

lemma read_failures_step:
  assumes "read_failures h fr revision (i # ids) texts failures = Inr (Inr failures')"
  obtains o' texts' where "failure_fields_ok h revision i o' = Inr True" "set texts \<subseteq> set texts'"
    "\<forall>t. claim_of o' = Some t \<longrightarrow> t \<in> set texts' \<and> t \<notin> set texts"
    "read_failures h fr revision ids texts' (obj_set i (read_failure (normalized_failure_value o')) failures) = Inr (Inr failures')"
proof (cases "as_record (fld fr i)")
  case (Some o')
  show thesis
  proof (cases "claim_of o'")
    case None
    then show thesis
      by (intro that [of o' texts])
        (use assms Some in \<open>auto simp: Let_def bind_res_Inr split: if_splits\<close>)
  next
    case claimed: (Some t)
    then show thesis
      by (intro that [of o' "set_add texts t"])
        (use assms Some in \<open>auto simp: Let_def bind_res_Inr set_add_simps split: if_splits\<close>)
  qed
qed (use assms in simp)

lemma read_failures_ok:
  assumes "read_failures h fr revision ids texts failures = Inr (Inr failures')" "loop_ok h revision texts failures"
    and "distinct ids" "\<forall>i \<in> set ids. is_sha256_hex i \<and> map_of failures i = None"
  shows "(\<exists>texts'. loop_ok h revision texts' failures') \<and> set (obj_keys failures') = set (obj_keys failures) \<union> set ids"
  using assms
proof (induction ids arbitrary: texts failures)
  case (Cons i ids)
  obtain o' texts' where o': "failure_fields_ok h revision i o' = Inr True"
    and t': "set texts \<subseteq> set texts'"
      "\<forall>t. claim_of o' = Some t \<longrightarrow> t \<in> set texts' \<and> t \<notin> set texts"
    and rest: "read_failures h fr revision ids texts' (obj_set i (read_failure (normalized_failure_value o')) failures) = Inr (Inr failures')"
    using Cons.prems(1) by (rule read_failures_step)
  let ?f = "read_failure (normalized_failure_value o')"
  have "loop_ok h revision texts' (obj_set i ?f failures)"
    by (rule loop_ok_add [OF Cons.prems(2) read_entry_good [OF o'] _ t'(1)])
      (use Cons.prems(4) t'(2) claim_of_claims in auto)
  moreover have "\<forall>j \<in> set ids. is_sha256_hex j \<and> map_of (obj_set i ?f failures) j = None"
    using Cons.prems(3,4) by auto
  ultimately have "(\<exists>texts'. loop_ok h revision texts' failures') \<and>
      set (obj_keys failures') = set (obj_keys (obj_set i ?f failures)) \<union> set ids"
    using Cons.IH [OF rest] Cons.prems(3) by simp
  moreover have "set (obj_keys (obj_set i ?f failures)) = insert i (set (obj_keys failures))"
    by (rule set_eqI) (simp add: in_obj_keys_iff)
  ultimately show ?case by auto
qed auto

section \<open>Every value normalises to a well-formed journal\<close>

definition lineage_ordered :: "recovery_failure jsobj \<Rightarrow> string list \<Rightarrow> bool" where
  "lineage_ordered failures order \<longleftrightarrow>
     (\<forall>n < length order. \<forall>f p. map_of failures (order ! n) = Some f \<and> recovery_parent f = Some p \<longrightarrow>
        (\<exists>m g. m < n \<and> order ! m = p \<and> map_of failures p = Some g \<and>
           rf_progressRevision g \<le> rf_progressRevision f \<and>
           rf_modelCorrectionAttempts g \<le> rf_modelCorrectionAttempts f \<and>
           rf_automaticRetryAttempts g \<le> rf_automaticRetryAttempts f))"

definition journal_good :: "js_host \<Rightarrow> recovery_journal \<Rightarrow> bool" where
  "journal_good h j \<longleftrightarrow>
     journal_ok j \<and> js_object.every (entry_good h (rj_progressRevision j)) (rj_failures j) \<and>
     lineage_ordered (rj_failures j) (rj_order j)"

lemma index_of_Some: "index_of x xs = Some n \<Longrightarrow> n < length xs \<and> xs ! n = x"
  by (induction xs arbitrary: n) (auto split: if_splits)

lemma lineage_check:
  assumes "list_all (lineage_entry_ok failures ids) (enumerate 0 ids)"
  shows "lineage_ordered failures ids"
  unfolding lineage_ordered_def
proof (intro allI impI)
  fix n f p
  assume n: "n < length ids" and f: "map_of failures (ids ! n) = Some f \<and> recovery_parent f = Some p"
  have "(n, ids ! n) \<in> set (enumerate 0 ids)" using n by (auto simp: in_set_enumerate_eq)
  then have "lineage_entry_ok failures ids (n, ids ! n)" using assms by (auto simp: list_all_iff)
  then have entry: "case (map_of failures p, index_of p ids) of
      (Some parent, Some parentIndex) \<Rightarrow> p \<noteq> ids ! n \<and> parentIndex < n \<and>
        rf_progressRevision parent \<le> rf_progressRevision f \<and>
        rf_modelCorrectionAttempts parent \<le> rf_modelCorrectionAttempts f \<and>
        rf_automaticRetryAttempts parent \<le> rf_automaticRetryAttempts f \<and>
        rf_modelCorrectionAttempts f - rf_modelCorrectionAttempts parent \<le> 1 \<and>
        rf_automaticRetryAttempts f - rf_automaticRetryAttempts parent \<le> 1
    | _ \<Rightarrow> False"
    using f by (simp add: lineage_entry_ok_def cong: option.case_cong)
  obtain g m where "map_of failures p = Some g" "index_of p ids = Some m"
    using entry by (cases "map_of failures p"; cases "index_of p ids") simp_all
  then show "\<exists>m g. m < n \<and> ids ! m = p \<and> map_of failures p = Some g \<and>
      rf_progressRevision g \<le> rf_progressRevision f \<and>
      rf_modelCorrectionAttempts g \<le> rf_modelCorrectionAttempts f \<and>
      rf_automaticRetryAttempts g \<le> rf_automaticRetryAttempts f"
    using entry index_of_Some [of p ids m] by (intro exI [of _ m] exI [of _ g]) simp
qed

lemma blocked_journal_good: "journal_good h (blocked_journal key v scope)"
proof -
  have "observed_number v \<le> 250"
  proof (cases v)
    case (JNum r)
    have "max 0 (min 250 \<lfloor>r\<rfloor>) \<le> 250" by simp
    then show ?thesis using JNum by (simp add: observed_number_def nat_le_iff)
  qed (simp_all add: observed_number_def)
  then show ?thesis
    by (simp add: journal_good_def journal_ok_def blocked_journal_def failures_ok_def claims_unique_def
        js_object.every_def guard_ok_def lineage_ordered_def)
qed

lemma normalized_guard_ok: "guard_ok (normalized_guard quality groups)"
  by (simp add: normalized_guard_def Let_def guard_ok_def)

lemma order_valid_ids:
  assumes "order_valid order fr"
  shows "distinct (List.map_filter as_string order)" "length (List.map_filter as_string order) \<le> 128"
    "\<forall>i \<in> set (List.map_filter as_string order). is_sha256_hex i"
proof -
  have "\<exists>ids. order = map JStr ids \<and> (\<forall>i \<in> set ids. is_sha256_hex i)"
    if "list_all (\<lambda>v. case v of JStr i \<Rightarrow> is_sha256_hex i | _ \<Rightarrow> False) order" for order
    using that
  proof (induction order)
    case (Cons v order)
    then obtain i ids where "v = JStr i" "is_sha256_hex i" "order = map JStr ids" "\<forall>i \<in> set ids. is_sha256_hex i"
      by (cases v) auto
    then show ?case by (intro exI [of _ "i # ids"]) simp
  qed simp
  then obtain ids where ids: "order = map JStr ids" "\<forall>i \<in> set ids. is_sha256_hex i"
    using assms by (auto simp: order_valid_def)
  have "List.map_filter as_string order = ids"
    unfolding ids(1) by (induction ids) (simp_all add: map_filter_simps)
  then show "distinct (List.map_filter as_string order)" "length (List.map_filter as_string order) \<le> 128"
    "\<forall>i \<in> set (List.map_filter as_string order). is_sha256_hex i"
    using assms ids by (simp_all add: order_valid_def distinct_map)
qed

lemma normalize_valid_good:
  assumes "normalize_valid h key candidate quality = Inr j"
  shows "journal_good h j"
proof -
  let ?order = "or_default (arrayField candidate ''order'') []"
  let ?ids = "List.map_filter as_string ?order" and ?rev = "int_of (fld candidate ''progressRevision'')"
  let ?fr = "sub_record candidate ''failures''"
  show ?thesis
  proof (cases "order_valid ?order ?fr \<and>
      (\<exists>fs. read_failures h ?fr ?rev ?ids [] [] = Inr (Inr fs) \<and> list_all (lineage_entry_ok fs ?ids) (enumerate 0 ?ids))")
    case True
    then obtain fs where ov: "order_valid ?order ?fr" and fs: "read_failures h ?fr ?rev ?ids [] [] = Inr (Inr fs)"
      and lin: "list_all (lineage_entry_ok fs ?ids) (enumerate 0 ?ids)" by blast
    note ids = order_valid_ids [OF ov]
    have "(\<exists>texts'. loop_ok h ?rev texts' fs) \<and> set (obj_keys fs) = set (obj_keys ([] :: recovery_failure jsobj)) \<union> set ?ids"
      by (rule read_failures_ok [OF fs])
        (use ids in \<open>simp_all add: loop_ok_def js_object.every_def claims_unique_def claims_recorded_def\<close>)
    then have "distinct_keys fs" "js_object.every (entry_good h ?rev) fs" "claims_unique fs"
        "set (obj_keys fs) = set ?ids" by (auto simp: loop_ok_def)
    moreover from this(2) have "js_object.every failure_ok fs"
      unfolding js_object.every_def entry_good_def by blast
    ultimately have "journal_good h \<lparr>rj_identityKey = key, rj_failures = fs, rj_order = ?ids,
        rj_progressRevision = ?rev, rj_qualityGuard = normalized_guard quality (derived_groups fs)\<rparr>"
      using ids lineage_check [OF lin]
      by (simp add: journal_good_def journal_ok_def failures_ok_def normalized_guard_ok)
    then show ?thesis using assms ov fs lin by (auto simp: normalize_valid_def Let_def blocked_journal_good)
  next
    case False
    then show ?thesis
      using assms
      by (auto simp: normalize_valid_def Let_def bind_res_Inr blocked_journal_good split: if_split_asm sum.split)
  qed
qed

lemma normalize_key: "normalize_valid h key candidate quality = Inr j \<Longrightarrow> rj_identityKey j = key"
  by (auto simp: normalize_valid_def Let_def bind_res_Inr blocked_journal_def split: if_split_asm sum.split)

lemma normalize_result:
  assumes "normalizeToolRecoveryJournal h v key = Inr j"
  shows "journal_good h j" "rj_identityKey j = key" "is_sha256_hex key"
proof -
  have key: "is_sha256_hex key"
    using assms by (cases "is_sha256_hex key")
      (simp_all add: normalizeToolRecoveryJournal_def assertCanonicalRecoveryIdentityKey_def)
  have j: "(\<exists>v. j = blocked_journal key v (None, None)) \<or> (\<exists>c q. normalize_valid h key c q = Inr j)"
    using assms key
    by (auto simp: normalizeToolRecoveryJournal_def assertCanonicalRecoveryIdentityKey_def Let_def bind_res_Inr
        split: option.splits if_splits)
  then show "journal_good h j" "rj_identityKey j = key" "is_sha256_hex key"
    using blocked_journal_good normalize_valid_good normalize_key key by (auto simp: blocked_journal_def)
qed

text \<open>A journal of which some text is asked that it does not have.\<close>

definition unreadable_journal :: "jval \<Rightarrow> bool" where
  "unreadable_journal v \<longleftrightarrow>
     string_throws (vfld (vfld v ''qualityGuard'') ''reasonCode'') \<or>
     (\<exists>i. list_ex string_throws (outcome_texts (vfld (vfld (vfld v ''failures'') i) ''outcome'')))"

lemma failure_check_throws:
  "failure_fields_ok h revision i o' = Inl e \<or> isToolRecoveryFailure h (normalized_failure_value o') = Inl e \<Longrightarrow>
   e = conversion_error \<and> list_ex string_throws (outcome_texts (fld o' ''outcome''))"
proof -
  have "fld (normalized_failure_value o') ''outcome'' = fld o' ''outcome''"
    by (simp add: normalized_failure_value_def)
  then show "failure_fields_ok h revision i o' = Inl e \<or> isToolRecoveryFailure h (normalized_failure_value o') = Inl e \<Longrightarrow>
      e = conversion_error \<and> list_ex string_throws (outcome_texts (fld o' ''outcome''))"
    using isToolOutcome_throws [of h "fld o' ''outcome''" e]
    by (auto simp: failure_fields_ok_def isToolRecoveryFailure_def Let_def dest!: all_of_throws)
qed

lemma read_failures_throws:
  assumes "read_failures h fr revision ids texts failures = Inl e"
  shows "e = conversion_error \<and> (\<exists>i. list_ex string_throws (outcome_texts (vfld (fld fr i) ''outcome'')))"
  using assms
proof (induction h fr revision ids texts failures rule: read_failures.induct)
  case (2 h fr revision i rest texts failures)
  show ?case
  proof (cases "as_record (fld fr i)")
    case (Some o')
    then have field: "vfld (fld fr i) ''outcome'' = fld o' ''outcome''" by (auto simp: as_record_def vfld_def split: jval.splits)
    show ?thesis
    proof (cases "failure_fields_ok h revision i o' = Inl e \<or> isToolRecoveryFailure h (normalized_failure_value o') = Inl e")
      case True
      then show ?thesis using failure_check_throws [OF True] field by metis
    next
      case False
      then show ?thesis
        using 2 Some by (auto simp: Let_def bind_res_Inl split: if_splits option.splits)
    qed
  qed (use 2(3) in simp)
qed simp

lemma normalize_throws:
  assumes "normalizeToolRecoveryJournal h v key = Inl e" "is_sha256_hex key"
  shows "e = conversion_error \<and> unreadable_journal v"
proof -
  from assms obtain c where v: "v = JObj c"
    by (cases v) (simp_all add: normalizeToolRecoveryJournal_def assertCanonicalRecoveryIdentityKey_def as_record_def)
  have parts: "sub_record c ''qualityGuard'' = or_default (as_record (fld c ''qualityGuard'')) []"
    "sub_record c ''failures'' = or_default (as_record (fld c ''failures'')) []"
    by (simp_all add: sub_record_def recordField_def)
  have field: "fld (or_default (as_record w) []) f = vfld w f" for w f by (cases w) (simp_all add: as_record_def vfld_def)
  from assms consider "quality_valid h (sub_record c ''qualityGuard'') = Inl e"
    | revision ids where "read_failures h (sub_record c ''failures'') revision ids [] [] = Inl e"
    by (auto simp: v normalizeToolRecoveryJournal_def assertCanonicalRecoveryIdentityKey_def as_record_def Let_def
        bind_res_Inl normalize_valid_def split: if_splits)
  then show ?thesis
  proof cases
    case 1
    then show ?thesis
      by (auto simp: v quality_valid_def unreadable_journal_def spelled_throws parts field split: if_splits dest!: all_of_throws)
  next
    case 2
    from read_failures_throws [OF this] show ?thesis by (auto simp: v unreadable_journal_def parts field)
  qed
qed

text \<open>
  C21: whatever value arrives, normalisation under the key of the host gives a well-formed journal
  under that key. At most 128 failures are kept, each under the identity recomputed from its call,
  fingerprint and outcome, with a resolution that fits its status, at most one correction and one
  retry, and a progress revision of the journal's past; its lineage points to an earlier entry with
  no more attempts; no call is claimed twice. A value that would break any of this is replaced by an
  empty journal that is blocked as invalid. The only other end is the \<open>TypeError\<close> of \<open>String(...)\<close>,
  and then the reason of the quality guard or a word of some recorded outcome is (or contains, in a
  list) an object with a property named \<open>toString\<close>.
\<close>

theorem normalized_journal_sound:
  assumes "is_sha256_hex key"
  shows "(\<exists>j. normalizeToolRecoveryJournal h v key = Inr j \<and> rj_identityKey j = key \<and> journal_ok j \<and>
      js_object.every (entry_good h (rj_progressRevision j)) (rj_failures j) \<and>
      lineage_ordered (rj_failures j) (rj_order j)) \<or>
    normalizeToolRecoveryJournal h v key = Inl conversion_error \<and> unreadable_journal v"
proof (cases "normalizeToolRecoveryJournal h v key")
  case (Inl e)
  then show ?thesis using normalize_throws [OF Inl assms] by simp
next
  case (Inr j)
  then show ?thesis using normalize_result [OF Inr] by (auto simp: journal_good_def)
qed

section \<open>Merging\<close>

lemma merged_get:
  "map_of (foldl (merge_failure p c scope) m ids) i =
     (if i \<in> set ids then (case map_of p i of Some f \<Rightarrow> Some f
        | None \<Rightarrow> (case map_of c i of Some f \<Rightarrow> Some (rescoped scope f) | None \<Rightarrow> map_of m i))
      else map_of m i)"
  by (induction ids arbitrary: m) (auto simp: merge_failure_def split: option.splits)

lemma merged_distinct: "distinct_keys m \<Longrightarrow> distinct_keys (foldl (merge_failure p c scope) m ids)"
  by (induction ids arbitrary: m) (auto simp: merge_failure_def split: option.split)

lemma rescoped_claim: "same_claim (rescoped scope f) f"
  by (simp add: rescoped_def Let_def same_claim_def split: option.split)

lemma merged_guard_ok: "guard_ok (merged_guard p c scope)"
  by (simp add: merged_guard_def Let_def guard_ok_def TOOL_RECOVERY_OBSERVATION_CAP_def)

text \<open>No call claimed by a failure of one journal is claimed by another failure of the other.\<close>

definition claims_apart :: "recovery_failure jsobj \<Rightarrow> recovery_failure jsobj \<Rightarrow> bool" where
  "claims_apart p c \<longleftrightarrow>
     (\<forall>k k' f g m i. map_of p k = Some f \<and> map_of c k' = Some g \<and> claims f m i \<and> claims g m i \<longrightarrow> k = k')"

definition combined_order :: "recovery_journal \<Rightarrow> recovery_journal \<Rightarrow> string list" where
  "combined_order p c = rj_order p @ filter (\<lambda>i. map_of (rj_failures p) i = None) (rj_order c)"

definition combined_failures :: "recovery_journal \<Rightarrow> recovery_journal \<Rightarrow> scope_ids \<Rightarrow> recovery_failure jsobj" where
  "combined_failures p c scope = foldl (merge_failure (rj_failures p) (rj_failures c) scope) [] (combined_order p c)"

lemma combined_get:
  assumes "journal_ok p" "journal_ok c"
  shows "map_of (combined_failures p c scope) i =
    (case map_of (rj_failures p) i of Some f \<Rightarrow> Some f | None \<Rightarrow> map_option (rescoped scope) (map_of (rj_failures c) i))"
proof -
  have "i \<in> set (rj_order p) \<longleftrightarrow> map_of (rj_failures p) i \<noteq> None" "i \<in> set (rj_order c) \<longleftrightarrow> map_of (rj_failures c) i \<noteq> None"
    using assms by (auto simp: journal_ok_def in_obj_keys_iff)
  then show ?thesis
    by (auto simp: combined_failures_def combined_order_def merged_get split: option.split)
qed

lemma combined_ok:
  assumes p: "journal_ok p" and c: "journal_ok c" and apart: "claims_apart (rj_failures p) (rj_failures c)"
  shows "failures_ok (combined_failures p c scope)"
proof (rule failures_okI)
  let ?m = "combined_failures p c scope"
  show "distinct_keys ?m" by (simp add: combined_failures_def merged_distinct)
  have orig: "(map_of (rj_failures p) k = Some f) \<or>
      (\<exists>g. map_of (rj_failures p) k = None \<and> map_of (rj_failures c) k = Some g \<and> same_claim f g)"
    if "map_of ?m k = Some f" for k f
    using that by (auto simp: combined_get [OF p c] rescoped_claim [of scope] split: option.splits)
  note fp = failures_okD [OF journal_failures_ok [OF p]] and fc = failures_okD [OF journal_failures_ok [OF c]]
  show "failure_ok k f" if "map_of ?m k = Some f" for k f
    using orig [OF that] fp(2) fc(2) same_claim_facts by blast
  show "k = k'" if kf: "map_of ?m k = Some f" "map_of ?m k' = Some f'" "claims f m i" "claims f' m i" for k k' f f' m i
  proof -
    have source: "\<exists>g. (map_of (rj_failures p) k = Some g \<or> map_of (rj_failures c) k = Some g) \<and> claims g m i"
      if "map_of ?m k = Some f" "claims f m i" for k f
      using orig [OF that(1)] that(2) same_claim_facts by blast
    obtain g g' where "map_of (rj_failures p) k = Some g \<or> map_of (rj_failures c) k = Some g" "claims g m i"
      "map_of (rj_failures p) k' = Some g' \<or> map_of (rj_failures c) k' = Some g'" "claims g' m i"
      using source [OF kf(1,3)] source [OF kf(2,4)] by blast
    then show ?thesis using fp(3) fc(3) apart unfolding claims_apart_def by blast
  qed
qed

lemma merge_valid_ok:
  assumes p: "journal_ok p" and c: "journal_ok c"
  shows "claims_apart (rj_failures p) (rj_failures c) \<Longrightarrow> journal_ok (merge_valid p c scope)"
    "map_of (rj_failures (merge_valid p c scope)) i = Some f \<Longrightarrow>
       map_of (rj_failures p) i = Some f \<or>
       (\<exists>g. map_of (rj_failures p) i = None \<and> map_of (rj_failures c) i = Some g \<and> f = rescoped scope g)"
proof -
  obtain fs ord where comp: "compactFailures (combined_failures p c scope) (combined_order p c) = (fs, ord)"
    by (cases "compactFailures (combined_failures p c scope) (combined_order p c)")
  have dist: "distinct_keys (combined_failures p c scope)" by (simp add: combined_failures_def merged_distinct)
  have keys: "set (obj_keys (combined_failures p c scope)) \<subseteq> set (combined_order p c)"
    by (auto simp: in_obj_keys_iff combined_failures_def merged_get split: if_splits)
  note spec = compactFailures_spec [OF dist keys comp]
  have eq: "merge_valid p c scope = \<lparr>rj_identityKey = rj_identityKey p, rj_failures = fs, rj_order = ord,
      rj_progressRevision = max (rj_progressRevision p) (rj_progressRevision c),
      rj_qualityGuard = merged_guard (rj_qualityGuard p) (rj_qualityGuard c) scope\<rparr>"
    using comp by (simp add: merge_valid_def Let_def combined_failures_def combined_order_def)
  show "journal_ok (merge_valid p c scope)" if "claims_apart (rj_failures p) (rj_failures c)"
  proof -
    have "failures_ok fs" using spec(4,6) by (intro failures_ok_shrink [OF combined_ok [OF p c that, of scope]]) auto
    then show ?thesis using spec(1,2,5) by (simp add: eq journal_ok_def merged_guard_ok)
  qed
  assume "map_of (rj_failures (merge_valid p c scope)) i = Some f"
  then have "map_of (combined_failures p c scope) i = Some f" using spec(6) by (simp add: eq)
  then show "map_of (rj_failures p) i = Some f \<or>
      (\<exists>g. map_of (rj_failures p) i = None \<and> map_of (rj_failures c) i = Some g \<and> f = rescoped scope g)"
    by (auto simp: combined_get [OF p c] split: option.splits)
qed

lemma merge_result:
  assumes "mergeToolRecoveryJournals h p v key scope = Inr j"
  obtains (refused) n where "normalizeToolRecoveryJournal h (JObj v) key = Inr n"
      "journalInvalid n \<or> key \<noteq> rj_identityKey p" "j = p\<lparr>rj_qualityGuard := rj_qualityGuard j\<rparr>"
      "journalInvalid j" "qg_observedFailures (rj_qualityGuard j) = max 6 (qg_observedFailures (rj_qualityGuard p))"
  | (merged) n where "normalizeToolRecoveryJournal h (JObj v) key = Inr n" "\<not> journalInvalid n"
      "j = merge_valid p n scope" "key = rj_identityKey p"
proof -
  obtain n where n: "normalizeToolRecoveryJournal h (JObj v) key = Inr n"
    using assms by (cases "normalizeToolRecoveryJournal h (JObj v) key")
      (auto simp: mergeToolRecoveryJournals_def assertCanonicalRecoveryIdentityKey_def split: if_splits)
  note key = normalize_result(2,3) [OF n]
  show thesis
  proof (cases "journalInvalid n \<or> key \<noteq> rj_identityKey p")
    case True
    then show thesis
      by (intro refused [OF n True])
        (use assms n key in \<open>auto simp: mergeToolRecoveryJournals_def assertCanonicalRecoveryIdentityKey_def
          journalInvalid_def TOOL_RECOVERY_QUALITY_FAILURE_LIMIT_def\<close>)
  next
    case False
    then show thesis
      by (intro merged [OF n])
        (use assms n key in \<open>auto simp: mergeToolRecoveryJournals_def assertCanonicalRecoveryIdentityKey_def\<close>)
  qed
qed

text \<open>
  C22: adding the journal of a subagent cannot overwrite the parent's. Where the merge returns, every
  failure of the result is one of the parent, unaltered, or one of the subagent that passed
  normalisation, under the scope of its task call; if the object is not a valid journal of this host,
  everything but the quality guard stays as it was and the journal is blocked as invalid; otherwise
  the key stays and the progress revision is the larger of the two; a block of the parent or of the
  subagent stays, invalidity included. The result is well formed when it was refused, and also when
  it was merged provided that the two journals do not claim the same call of the same response for
  different failures: this condition is not checked by the code.
\<close>

theorem merge_keeps_parent:
  assumes "journal_ok p" "mergeToolRecoveryJournals h p v key scope = Inr j"
    and "normalizeToolRecoveryJournal h (JObj v) key = Inr n"
  shows "(\<forall>i f. map_of (rj_failures j) i = Some f \<longrightarrow> map_of (rj_failures p) i = Some f \<or>
       (\<exists>g. map_of (rj_failures p) i = None \<and> map_of (rj_failures n) i = Some g \<and> f = rescoped scope g)) \<and>
    (if journalInvalid n \<or> key \<noteq> rj_identityKey p
     then j = p\<lparr>rj_qualityGuard := rj_qualityGuard j\<rparr> \<and> journalInvalid j \<and> journal_ok j
     else rj_identityKey j = rj_identityKey p \<and>
       rj_progressRevision j = max (rj_progressRevision p) (rj_progressRevision n) \<and>
       (claims_apart (rj_failures p) (rj_failures n) \<longrightarrow> journal_ok j)) \<and>
    (journalInvalid p \<longrightarrow> journalInvalid j) \<and>
    (qg_blocked (rj_qualityGuard p) \<or> qg_blocked (rj_qualityGuard n) \<longrightarrow> qg_blocked (rj_qualityGuard j))"
proof -
  have ok: "journal_ok n" using normalize_result(1) [OF assms(3)] by (simp add: journal_good_def)
  show ?thesis
    using assms(2)
  proof (cases rule: merge_result)
    case (refused n')
    have n: "n' = n" using refused(1) assms(3) by simp
    have same: "rj_failures j = rj_failures p" "rj_order j = rj_order p" by (subst refused(3), simp)+
    have "guard_ok (rj_qualityGuard j)"
      using refused(4,5) assms(1) by (simp add: guard_ok_def journalInvalid_def journal_ok_def)
    then have "journal_ok j" using assms(1) same by (simp add: journal_ok_def)
    then show ?thesis using refused(2,3,4) same(1) n by (simp add: journalInvalid_def)
  next
    case (merged n')
    then have n: "n' = n" using assms(3) by simp
    note m = merge_valid_ok [OF assms(1) ok, of scope]
    have fields: "rj_qualityGuard j = merged_guard (rj_qualityGuard p) (rj_qualityGuard n) scope"
      "rj_identityKey j = rj_identityKey p" "rj_progressRevision j = max (rj_progressRevision p) (rj_progressRevision n)"
      by (simp_all add: merged(3) n merge_valid_def Let_def)
    then have "journalInvalid p \<longrightarrow> journalInvalid j"
      "qg_blocked (rj_qualityGuard p) \<or> qg_blocked (rj_qualityGuard n) \<longrightarrow> qg_blocked (rj_qualityGuard j)"
      by (simp_all add: merged_guard_def Let_def journalInvalid_def)
    then show ?thesis using m fields(2,3) merged(2-4) n by auto
  qed
qed

section \<open>Witnesses\<close>

definition sample_key :: string where
  "sample_key = in_recoveryIdentityKey sample_input"

definition empty_journal_json :: jobj where
  "empty_journal_json = [(''schemaVersion'', JNum 1), (''identityKey'', JStr sample_key), (''failures'', JObj []),
     (''order'', JArr []), (''progressRevision'', JNum 3),
     (''qualityGuard'', JObj [(''blocked'', JBool False), (''observedFailures'', JNum 2)])]"

definition parent_journal :: recovery_journal where
  "parent_journal = \<lparr>rj_identityKey = sample_key, rj_failures = [], rj_order = [], rj_progressRevision = 0,
     rj_qualityGuard = empty_guard\<rparr>"

lemma sample_normalizes:
  "normalizeToolRecoveryJournal sample_host (JObj empty_journal_json) sample_key = Inr
     \<lparr>rj_identityKey = sample_key, rj_failures = [], rj_order = [], rj_progressRevision = 3,
      rj_qualityGuard = empty_guard\<lparr>qg_observedFailures := 2\<rparr>\<rparr>"
  by code_simp

lemma sample_key_hex: "is_sha256_hex sample_key"
  by code_simp

theorem normalized_journal_sound_witness:
  "\<exists>j. normalizeToolRecoveryJournal sample_host (JStr ''junk'') sample_key = Inr j \<and> journal_ok j"
  using normalized_journal_sound [OF sample_key_hex, of sample_host "JStr ''junk''"]
  by (auto simp: unreadable_journal_def outcome_texts_def)

theorem merge_keeps_parent_witness:
  "\<exists>j. mergeToolRecoveryJournals sample_host parent_journal empty_journal_json sample_key (Some ''t'', Some ''u'') = Inr j \<and>
     journal_ok j \<and> rj_progressRevision j = 3"
proof -
  have p: "journal_ok parent_journal"
    by (simp add: parent_journal_def journal_ok_def failures_ok_def claims_unique_def js_object.every_def)
  have "\<not> isl (mergeToolRecoveryJournals sample_host parent_journal empty_journal_json sample_key (Some ''t'', Some ''u''))"
    "rj_progressRevision (projr (mergeToolRecoveryJournals sample_host parent_journal empty_journal_json sample_key
       (Some ''t'', Some ''u''))) = 3"
    by code_simp+
  then obtain j where j: "mergeToolRecoveryJournals sample_host parent_journal empty_journal_json sample_key
      (Some ''t'', Some ''u'') = Inr j" "rj_progressRevision j = 3"
    by (cases "mergeToolRecoveryJournals sample_host parent_journal empty_journal_json sample_key (Some ''t'', Some ''u'')") auto
  have "claims_apart (rj_failures parent_journal) fs" for fs by (simp add: claims_apart_def parent_journal_def)
  with merge_keeps_parent [OF p j(1) sample_normalizes] have "journal_ok j" by (auto split: if_splits)
  with j show ?thesis by blast
qed

end
