(* ===== verification/Kite_Repair.thy ===== *)
theory Kite_Repair
  imports Kite_Intent Kite_Journal
begin

text \<open>
  src/packages/agent-kernel/src/domains/recovery/reducer.ts, the reducer that keeps the recovery
  journal of the state (terminal tool events, recorded retries, rejected approvals, journals of
  subagents) and the suspended subagents, and src/packages/agent-kernel/src/domains/work/reducer.ts,
  which marks a task whose side effects have begun and keeps the skill frames. The copies of
  recoveryProjection and clearSuspendedSubagent in the recovery reducer are the functions of the
  intent reducer, word for word, and are shared here.
\<close>

section \<open>Rejected calls in the transcript\<close>

definition EPOCH_CREATED_AT :: string where
  "EPOCH_CREATED_AT = ''1970-01-01T00:00:00.000Z''"

definition is_answer_to :: "string \<Rightarrow> transcript_message \<Rightarrow> bool" where
  "is_answer_to toolCallId m \<longleftrightarrow> tool_message_call m = Some toolCallId"

definition supplemental_content :: "bool \<Rightarrow> jobj \<Rightarrow> tool_outcome \<Rightarrow> jobj" where
  "supplemental_content isAutoReview payload outcome =
     (let failure = sub_record payload ''failure'';
          result = sub_record payload ''result'';
          reason = or_default (else_string (stringField payload ''reason'')
            (else_string (stringField result ''reason'') (stringField failure ''message''))) [];
          projected = recoveryProjection outcome in
      [(''ok'', JBool False), (''rejected'', JBool True),
       (''error'', JObj (
          [(''kind'', JStr (if isAutoReview then or_default (oc_failureKind outcome) ''auto_review_rejected''
             else or_default (stringField failure ''kind'') ''approval_rejected''))] @
          (if isAutoReview then [] else [(''message'', JStr reason)]) @
          [(''retryable'', JBool (rp_retryable projected)),
           (''model_fixable'', JBool (rp_modelFixable projected)),
           (''recovery_disposition'', JStr (disposition_string (rp_disposition projected))),
           (''maximum_additional_calls'', JNum (of_nat (rp_maximumAdditionalCalls projected)))])),
       (''next_step'', JStr (rp_nextStep projected))])"

definition supplemental_message ::
  "js_host \<Rightarrow> agent_state \<Rightarrow> tool_call \<Rightarrow> kernel_event \<Rightarrow> tool_outcome \<Rightarrow> transcript_message" where
  "supplemental_message h s call e outcome =
     (let isAutoReview = (ev_type e = ''auto_review.completed'') in
      ToolMessage
        \<lparr>mm_messageId = ''tool-'' @ tc_toolCallId call, mm_turnId = tn_turnId (st_turn s),
         mm_ordinal = length (ts_messages (st_transcript s)),
         mm_createdAt = (if isAutoReview then or_default (stringField (ev_data e) ''createdAt'') EPOCH_CREATED_AT
           else EPOCH_CREATED_AT)\<rparr>
        (tc_toolCallId call) (tc_name call) (json_text h (supplemental_content isAutoReview (ev_data e) outcome))
        False None)"

definition appendSupplementalToolTranscript ::
  "js_host \<Rightarrow> agent_state \<Rightarrow> tool_call \<Rightarrow> kernel_event \<Rightarrow> tool_outcome \<Rightarrow> transcript_state" where
  "appendSupplementalToolTranscript h s call e outcome =
     (let messages = ts_messages (st_transcript s) in
      if list_ex (is_answer_to (tc_toolCallId call)) messages then st_transcript s
      else (st_transcript s)\<lparr>ts_messages := renumber (messages @ [supplemental_message h s call e outcome])\<rparr>)"

section \<open>Subagents\<close>

definition named_task :: "agent_state \<Rightarrow> jobj \<Rightarrow> (string \<times> tool_call) option" where
  "named_task s payload =
     (case nonEmptyStringField payload ''toolCallId'' of None \<Rightarrow> None
      | Some toolCallId \<Rightarrow> (case map_of (to_calls (st_tools s)) toolCallId of None \<Rightarrow> None
          | Some call \<Rightarrow> if tc_name call = ''task'' then Some (toolCallId, call) else None))"

definition subagent_suspended :: "agent_state \<Rightarrow> jobj \<Rightarrow> agent_state" where
  "subagent_suspended s payload =
     (case (named_task s payload, recordField payload ''snapshot'') of
        (Some (toolCallId, call), Some snapshot) \<Rightarrow>
          s\<lparr>st_suspendedSubagents := obj_set toolCallId snapshot (st_suspendedSubagents s)\<rparr>
      | _ \<Rightarrow> s)"

definition subagent_deferred :: "agent_state \<Rightarrow> jobj \<Rightarrow> agent_state" where
  "subagent_deferred s payload =
     (case named_task s payload of None \<Rightarrow> s
      | Some (toolCallId, call) \<Rightarrow>
          if tc_status call \<noteq> TRunning \<or> map_of (st_suspendedSubagents s) toolCallId = None then s
          else s\<lparr>st_tools := (st_tools s)\<lparr>
            to_calls := obj_set toolCallId (call\<lparr>tc_status := TQueued\<rparr>) (to_calls (st_tools s)),
            to_queue := (if toolCallId \<in> set (to_queue (st_tools s)) then to_queue (st_tools s)
              else to_queue (st_tools s) @ [toolCallId]),
            to_active := filter (\<lambda>i. i \<noteq> toolCallId) (to_active (st_tools s))\<rparr>\<rparr>)"

definition subagent_merged :: "js_host \<Rightarrow> agent_state \<Rightarrow> jobj \<Rightarrow> agent_state res" where
  "subagent_merged h s payload =
     (case (named_task s payload, recordField payload ''journal'') of
        (Some (toolCallId, call), Some journal) \<Rightarrow>
          bind_res (mergeToolRecoveryJournals h (st_toolRecovery s) journal (rj_identityKey (st_toolRecovery s))
              (else_string (tc_taskId call) (st_activeTaskId s), Some (tc_createdAtTurnId call)))
            (\<lambda>merged. Inr (s\<lparr>st_toolRecovery := merged\<rparr>))
      | _ \<Rightarrow> Inr s)"

section \<open>The journal of the state\<close>

definition JOURNAL_EVENTS :: "string list" where
  "JOURNAL_EVENTS = TOOL_TERMINAL_EVENTS @ [''tool.retry_recorded'', ''approval.rejected'', ''auto_review.completed'']"

definition journal_call :: "agent_state \<Rightarrow> kernel_event \<Rightarrow> (string \<times> tool_call) option" where
  "journal_call s e =
     (case nonEmptyStringField (ev_data e) ''toolCallId'' of None \<Rightarrow> None
      | Some toolCallId \<Rightarrow> (case map_of (to_calls (st_tools s)) toolCallId of None \<Rightarrow> None
          | Some call \<Rightarrow>
              if ev_type e \<in> set (TOOL_TERMINAL_EVENTS @ [''tool.retry_recorded'']) \<and> isTerminal (tc_status call)
              then None else Some (toolCallId, call)))"

definition failure_entry :: "string \<Rightarrow> tool_call \<Rightarrow> string \<Rightarrow> tool_outcome \<Rightarrow> failure_input" where
  "failure_entry toolCallId call fingerprint outcome =
     \<lparr>in_toolCallId = toolCallId, in_toolName = tc_name call, in_invocationFingerprint = fingerprint,
      in_modelMessageId = tc_modelMessageId call, in_outcome = outcome, in_taskId = tc_taskId call,
      in_turn = Some (tc_createdAtTurnId call)\<rparr>"

text \<open>The updated journal; \<open>None\<close> where the reducer returns the state it got.\<close>

definition journal_after ::
  "js_host \<Rightarrow> agent_state \<Rightarrow> kernel_event \<Rightarrow> string \<Rightarrow> tool_call \<Rightarrow> string \<Rightarrow> tool_outcome \<Rightarrow> recovery_journal option" where
  "journal_after h s e toolCallId call fingerprint outcome =
     (if ev_type e = ''tool.finished'' \<and> oc_status outcome = OutSuccess
      then Some (recordToolOwnedProgress (st_toolRecovery s) Receipt toolCallId
        (map_option (\<lambda>i. [i]) (truthy_option (tc_recoveryOf call))))
      else let journal = recordRecoveryFailure h (st_toolRecovery s) (failure_entry toolCallId call fingerprint outcome) in
        if ev_type e = ''tool.retry_recorded''
        then map_option (\<lambda>recoveryOf. recordRecoveryInvocation journal recoveryOf AutomaticRetry)
          (nonEmptyStringField (ev_data e) ''recoveryOf'')
        else Some journal)"

definition supplemental_terminal :: "kernel_event \<Rightarrow> tool_call \<Rightarrow> bool" where
  "supplemental_terminal e call \<longleftrightarrow>
     (ev_type e = ''approval.rejected'' \<or> ev_type e = ''auto_review.completed'') \<and> tc_status call = TRejected"

definition supplemental_end ::
  "js_host \<Rightarrow> agent_state \<Rightarrow> kernel_event \<Rightarrow> string \<Rightarrow> tool_call \<Rightarrow> tool_outcome \<Rightarrow> agent_state" where
  "supplemental_end h s e toolCallId call outcome =
     s\<lparr>st_tools := (st_tools s)\<lparr>to_queue := filter (\<lambda>i. i \<noteq> toolCallId) (to_queue (st_tools s)),
         to_active := filter (\<lambda>i. i \<noteq> toolCallId) (to_active (st_tools s))\<rparr>,
       st_transcript := appendSupplementalToolTranscript h s call e outcome,
       st_suspendedSubagents := clearSuspendedSubagent s toolCallId (tc_name call = ''task'')\<rparr>"

definition journal_event :: "js_host \<Rightarrow> agent_state \<Rightarrow> kernel_event \<Rightarrow> agent_state res" where
  "journal_event h s e =
     (case journal_call s e of None \<Rightarrow> Inr s
      | Some (toolCallId, call) \<Rightarrow>
          bind_res (isToolOutcome h (fld (ev_data e) ''outcome'')) (\<lambda>canonical.
          case canonicalOutcome h (ev_data e) of None \<Rightarrow> Inr s
          | Some outcome \<Rightarrow>
              bind_res (case tc_invocationFingerprint call of Some f \<Rightarrow> Inr f
                  | None \<Rightarrow> call_fingerprint h (tc_name call) (tc_args call))
                (\<lambda>fingerprint.
                   Inr (case journal_after h s e toolCallId call fingerprint outcome of None \<Rightarrow> s
                     | Some journal \<Rightarrow>
                         (if supplemental_terminal e call then supplemental_end h s e toolCallId call outcome else s)
                           \<lparr>st_toolRecovery := journal\<rparr>))))"

definition reduceRecoveryState :: "js_host \<Rightarrow> agent_state \<Rightarrow> kernel_event \<Rightarrow> agent_state res" where
  "reduceRecoveryState h s e =
     (if ev_type e = ''subagent.suspended'' then Inr (subagent_suspended s (ev_data e))
      else if ev_type e = ''subagent.approval_deferred'' then Inr (subagent_deferred s (ev_data e))
      else if ev_type e = ''subagent.recovery_journal_merged'' then subagent_merged h s (ev_data e)
      else if ev_type e \<in> set JOURNAL_EVENTS then journal_event h s e
      else Inr s)"

section \<open>Work\<close>

text \<open>\<open>updateTasks\<close> with an update that leaves an absent task alone.\<close>

definition updateTasks :: "agent_state \<Rightarrow> string \<Rightarrow> (task_state \<Rightarrow> task_state) \<Rightarrow> agent_state" where
  "updateTasks s taskId update =
     (case map_of (st_tasks s) taskId of None \<Rightarrow> s
      | Some current \<Rightarrow> s\<lparr>st_tasks := obj_set taskId (update current) (st_tasks s)\<rparr>)"

definition side_effect_started :: "agent_state \<Rightarrow> jobj \<Rightarrow> agent_state" where
  "side_effect_started s payload =
     (case (nonEmptyStringField payload ''toolCallId'', truthy_option (st_activeTaskId s)) of
        (Some toolCallId, Some taskId) \<Rightarrow>
          (case map_of (to_calls (st_tools s)) toolCallId of None \<Rightarrow> s
           | Some call \<Rightarrow>
               if tc_status call \<noteq> TRunning \<or> tc_sideEffect call \<noteq> Some True then s
               else updateTasks s taskId (\<lambda>current. current\<lparr>tk_sideEffectsStarted := True\<rparr>))
      | _ \<Rightarrow> s)"

text \<open>A frame as its JSON object; only a string status counts.\<close>

definition frame_of :: "string \<Rightarrow> jobj \<Rightarrow> skill_frame" where
  "frame_of activationId o' = \<lparr>sf_activationId = activationId, sf_taskId = or_default (stringField o' ''taskId'') [],
     sf_status = or_default (stringField o' ''status'') [], sf_facts = o'\<rparr>"

definition activation_started :: "agent_state \<Rightarrow> jobj \<Rightarrow> agent_state" where
  "activation_started s payload =
     (case recordField payload ''activation'' of None \<Rightarrow> s
      | Some activation \<Rightarrow>
          (case (nonEmptyStringField activation ''activationId'', nonEmptyStringField activation ''taskId'') of
             (Some activationId, Some taskId) \<Rightarrow>
               if Some taskId \<noteq> st_activeTaskId s \<or> map_of (st_skillFrames s) activationId \<noteq> None then s
               else s\<lparr>st_skillFrames := obj_set activationId
                 (frame_of activationId (obj_set ''status'' (JStr ''active'') activation)) (st_skillFrames s)\<rparr>
           | _ \<Rightarrow> s))"

definition frame_closed :: "agent_state \<Rightarrow> jobj \<Rightarrow> agent_state" where
  "frame_closed s payload =
     (case nonEmptyStringField payload ''activationId'' of None \<Rightarrow> s
      | Some activationId \<Rightarrow>
          (case map_of (st_skillFrames s) activationId of None \<Rightarrow> s
           | Some frame \<Rightarrow>
               if sf_status frame \<noteq> ''active'' then s
               else let closed = obj_set ''closeReason'' (fld payload ''reason'')
                          (obj_set ''closedAt'' (fld payload ''closedAt'')
                            (obj_set ''status'' (fld payload ''status'') (sf_facts frame)));
                        facts = (if truthy (fld payload ''output'')
                          then obj_set ''output'' (fld payload ''output'') closed else closed) in
                 s\<lparr>st_skillFrames := obj_set activationId (frame_of activationId facts) (st_skillFrames s)\<rparr>))"

definition reduceWorkState :: "agent_state \<Rightarrow> kernel_event \<Rightarrow> agent_state" where
  "reduceWorkState s e =
     (if ev_type e = ''tool.started'' then side_effect_started s (ev_data e)
      else if ev_type e = ''skill.catalog_refreshed''
      then (case nonEmptyStringField (ev_data e) ''catalogRevision'' of None \<Rightarrow> s
        | Some catalogRevision \<Rightarrow> s\<lparr>st_skillCatalogRevision := catalogRevision\<rparr>)
      else if ev_type e = ''skill.activation_started'' then activation_started s (ev_data e)
      else if ev_type e = ''skill.frame_closed'' then frame_closed s (ev_data e)
      else s)"

end
