(* ===== verification/Kite_Lifecycle.thy ===== *)
theory Kite_Lifecycle
  imports Kite_Completion Kite_Repair
begin

text \<open>
  src/packages/agent-kernel/src/core/lifecycle/reducer.ts: tasks, turns and the life of a plan, from
  the first draft over review, approval, progress and replanning to its completion. The reducer has
  its own copies of the plan validation of completion.ts; they are translated here as they stand
  (qualified names tell the two apart), and Kite_Plan_Inv compares them. The functions
  hasOnlyKeys, belongsToActiveTask and isResolvedRecoveryFailure and the patterns of identifiers are
  the same text in both files and are shared.
\<close>

section \<open>Plan validation\<close>

definition hasExactKeys :: "jobj \<Rightarrow> string list \<Rightarrow> bool" where
  "hasExactKeys v keys \<longleftrightarrow> sort_by code_unit_le (obj_keys v) = sort_by code_unit_le keys"

definition planStatus :: "jval \<Rightarrow> string option" where
  "planStatus v =
     (case v of JStr s \<Rightarrow> if s \<in> {''pending'', ''in_progress'', ''completed'', ''skipped''} then Some s else None
      | _ \<Rightarrow> None)"

definition isPlanStep :: "jval \<Rightarrow> bool" where
  "isPlanStep v =
     (case v of JObj o' \<Rightarrow>
        hasExactKeys o' (if ''note'' \<in> set (obj_keys o') then [''id'', ''title'', ''status'', ''note'']
          else [''id'', ''title'', ''status'']) \<and>
        string_where SAFE_STEP_ID (fld o' ''id'') \<and>
        string_where (\<lambda>t. t = js_trim t \<and> 1 \<le> length t \<and> length t \<le> 160 \<and> no_line_break t)
          (fld o' ''title'') \<and>
        planStatus (fld o' ''status'') \<noteq> None \<and>
        (fld o' ''note'' = JUndef \<or> string_where (\<lambda>t. True) (fld o' ''note''))
      | _ \<Rightarrow> False)"

definition transport_step :: "jval \<Rightarrow> bool" where
  "transport_step v =
     (case v of JObj step \<Rightarrow>
        hasOnlyKeys step [''id'', ''step'', ''status'', ''note''] \<and>
        string_where (\<lambda>t. True) (fld step ''step'') \<and> planStatus (fld step ''status'') \<noteq> None \<and>
        (fld step ''id'' = JUndef \<or> string_where (\<lambda>t. True) (fld step ''id'')) \<and>
        (fld step ''note'' = JUndef \<or> string_where (\<lambda>t. True) (fld step ''note''))
      | _ \<Rightarrow> False)"

definition isAgentPlanTransport :: "jval \<Rightarrow> bool" where
  "isAgentPlanTransport v =
     (case v of JObj o' \<Rightarrow>
        hasExactKeys o' [''name'', ''description'', ''status'', ''steps''] \<and>
        string_where (\<lambda>t. True) (fld o' ''name'') \<and> string_where (\<lambda>t. True) (fld o' ''description'') \<and>
        planStatus (fld o' ''status'') \<noteq> None \<and>
        (case fld o' ''steps'' of JArr steps \<Rightarrow> list_all transport_step steps | _ \<Rightarrow> False)
      | _ \<Rightarrow> False)"

definition emptyPlanCompletionEvidence :: jval where
  "emptyPlanCompletionEvidence = JObj [(''schemaVersion'', JNum 1), (''verification'', JArr []),
     (''execution'', JArr []), (''skipped'', JArr []), (''unresolved'', JArr [])]"

definition isPlanCompletionEvidence :: "jval \<Rightarrow> bool" where
  "isPlanCompletionEvidence v =
     (case v of JObj o' \<Rightarrow>
        hasExactKeys o' [''schemaVersion'', ''verification'', ''execution'', ''skipped'', ''unresolved''] \<and>
        fld o' ''schemaVersion'' = JNum 1 \<and>
        every_entry (\<lambda>e. hasExactKeys e [''verificationId'', ''outcome''] \<and>
            string_where SAFE_REFERENCE (fld e ''verificationId'') \<and>
            fld e ''outcome'' \<in> {JStr ''passed'', JStr ''waived''}) (fld o' ''verification'') \<and>
        every_entry (\<lambda>e. hasExactKeys e [''toolCallId'', ''outcome''] \<and>
            string_where SAFE_REFERENCE (fld e ''toolCallId'') \<and>
            fld e ''outcome'' = JStr ''succeeded'') (fld o' ''execution'') \<and>
        every_entry (\<lambda>e. hasExactKeys e [''stepId'', ''reasonCode''] \<and>
            string_where SAFE_REFERENCE (fld e ''stepId'') \<and>
            string_where SAFE_REASON_CODE (fld e ''reasonCode'')) (fld o' ''skipped'') \<and>
        every_entry (\<lambda>e. hasExactKeys e [''kind'', ''referenceId''] \<and>
            fld e ''kind'' \<in> {JStr ''failure'', JStr ''approval''} \<and>
            string_where SAFE_REFERENCE (fld e ''referenceId'')) (fld o' ''unresolved'')
      | _ \<Rightarrow> False)"

definition computePlanStructuralDigest :: "js_host \<Rightarrow> jobj \<Rightarrow> string" where
  "computePlanStructuralDigest h d =
     sha256Hex (or_default (json_stringify h (JObj
       [(''title'', JStr (normalizePlanText (text_of (fld d ''title'')))),
        (''bodyMarkdown'', JStr (normalizePlanText (text_of (fld d ''bodyMarkdown'')))),
        (''steps'', JArr (map (\<lambda>step. JObj [(''id'', vfld step ''id''),
            (''title'', JStr (normalizePlanText (text_of (vfld step ''title''))))])
          (list_of (fld d ''steps''))))])) [])"

definition isPlanArtifactRef :: "js_host \<Rightarrow> jval \<Rightarrow> jobj \<Rightarrow> bool" where
  "isPlanArtifactRef h v plan =
     (case v of JObj o' \<Rightarrow>
        hasExactKeys o' [''artifactId'', ''taskId'', ''planId'', ''version'', ''fileName'', ''relativePath'',
          ''displayPath'', ''structuralDigest'', ''byteLength''] \<and>
        fld o' ''artifactId'' = JStr (text_of (fld plan ''planId'') @ '':v'' @ version_text h plan) \<and>
        string_where SAFE_SEGMENT (fld o' ''taskId'') \<and>
        fld o' ''planId'' = fld plan ''planId'' \<and> fld o' ''version'' = fld plan ''version'' \<and>
        fld o' ''fileName'' = JStr (''v'' @ version_text h plan @ ''.md'') \<and>
        string_where (\<lambda>t. length t > 0) (fld o' ''relativePath'') \<and>
        string_where (\<lambda>t. length t > 0) (fld o' ''displayPath'') \<and>
        fld o' ''structuralDigest'' = fld plan ''structuralDigest'' \<and>
        is_integer (fld o' ''byteLength'') \<and> int_of (fld o' ''byteLength'') \<ge> 0
      | _ \<Rightarrow> False)"

definition isPlanDocument :: "js_host \<Rightarrow> jobj \<Rightarrow> bool" where
  "isPlanDocument h v \<longleftrightarrow>
     hasOnlyKeys v PLAN_KEYS \<and>
     fld v ''planSchemaVersion'' = JNum 2 \<and>
     string_where SAFE_SEGMENT (fld v ''planId'') \<and>
     is_integer (fld v ''version'') \<and> int_of (fld v ''version'') \<ge> 1 \<and>
     string_where (\<lambda>t. t = js_trim t \<and> 1 \<le> length t \<and> length t \<le> 120 \<and> no_line_break t) (fld v ''title'') \<and>
     string_where (\<lambda>t. t = js_trim t \<and> 20 \<le> length t \<and> length t \<le> 30000) (fld v ''bodyMarkdown'') \<and>
     (case fld v ''steps'' of JArr steps \<Rightarrow>
        1 \<le> length steps \<and> length steps \<le> 12 \<and> list_all isPlanStep steps \<and>
        distinct (map (\<lambda>step. vfld step ''id'') steps)
      | _ \<Rightarrow> False) \<and>
     string_where is_sha256_hex (fld v ''structuralDigest'') \<and>
     string_where (\<lambda>t. length t \<ge> 1) (fld v ''createdAtTurnId'') \<and>
     string_where (\<lambda>t. length t \<ge> 1) (fld v ''updatedAtTurnId'') \<and>
     isPlanCompletionEvidence (fld v ''completionEvidence'') \<and>
     (fld v ''supersedesPlanVersion'' = JUndef \<or>
        is_integer (fld v ''supersedesPlanVersion'') \<and> int_of (fld v ''supersedesPlanVersion'') \<ge> 1) \<and>
     (fld v ''replanReason'' = JUndef \<or> string_where (\<lambda>t. length t \<le> 500) (fld v ''replanReason'')) \<and>
     JStr (computePlanStructuralDigest h v) = fld v ''structuralDigest'' \<and>
     (fld v ''artifact'' = JUndef \<or> isPlanArtifactRef h (fld v ''artifact'') v)"

section \<open>Plans as the model sends them\<close>

definition document_steps :: "jobj \<Rightarrow> jval list" where
  "document_steps d = list_of (fld d ''steps'')"

definition step_matches :: "jval \<Rightarrow> jval \<Rightarrow> bool" where
  "step_matches candidate step \<longleftrightarrow>
     vfld candidate ''id'' = vfld step ''id'' \<and> vfld candidate ''step'' = vfld step ''title'' \<and>
     vfld candidate ''status'' = vfld step ''status'' \<and> vfld candidate ''note'' = vfld step ''note'' \<and>
     (''note'' \<in> set (obj_keys (or_default (as_record candidate) [])) \<longleftrightarrow> vfld step ''note'' \<noteq> JUndef)"

definition agentPlanTransportMatchesDocument :: "jval \<Rightarrow> jobj \<Rightarrow> bool" where
  "agentPlanTransportMatchesDocument v document \<longleftrightarrow>
     isAgentPlanTransport v \<and> vfld v ''name'' = fld document ''title'' \<and>
     vfld v ''description'' = fld document ''bodyMarkdown'' \<and> vfld v ''status'' = JStr ''pending'' \<and>
     list_all2 step_matches (list_of (vfld v ''steps'')) (document_steps document)"

definition with_note :: "jval \<Rightarrow> jobj" where
  "with_note note = (if note = JUndef then [] else [(''note'', note)])"

definition step_from_transport :: "jval \<Rightarrow> jval" where
  "step_from_transport candidate =
     JObj ([(''id'', vfld candidate ''id''), (''title'', vfld candidate ''step''),
       (''status'', vfld candidate ''status'')] @ with_note (vfld candidate ''note''))"

definition planStepsFromAgentPlanUpdate :: "jval \<Rightarrow> jobj \<Rightarrow> jval list option" where
  "planStepsFromAgentPlanUpdate v document =
     (let candidates = list_of (vfld v ''steps'');
          steps = map step_from_transport candidates in
      if isAgentPlanTransport v \<and> vfld v ''name'' = fld document ''title'' \<and>
         vfld v ''description'' = fld document ''bodyMarkdown'' \<and>
         list_all (\<lambda>candidate. \<not> nullish (vfld candidate ''id'')) candidates \<and>
         list_all2 (\<lambda>step existing. isPlanStep step \<and> vfld step ''id'' = vfld existing ''id'' \<and>
             vfld step ''title'' = vfld existing ''title'') steps (document_steps document) \<and>
         distinct (map (\<lambda>step. vfld step ''id'') steps)
      then Some steps else None)"

definition planDocumentToAgentPlan :: "jobj \<Rightarrow> jobj" where
  "planDocumentToAgentPlan document =
     [(''name'', fld document ''title''), (''description'', fld document ''bodyMarkdown''),
      (''status'', JStr ''pending''),
      (''steps'', JArr (map (\<lambda>step. JObj ([(''id'', vfld step ''id''), (''step'', vfld step ''title''),
          (''status'', vfld step ''status'')] @ with_note (vfld step ''note''))) (document_steps document)))]"

definition samePlanArtifactRef :: "jval \<Rightarrow> jval \<Rightarrow> bool" where
  "samePlanArtifactRef left right \<longleftrightarrow>
     left \<noteq> JUndef \<and> right \<noteq> JUndef \<and>
     list_all (\<lambda>f. vfld left f = vfld right f)
       [''artifactId'', ''taskId'', ''planId'', ''version'', ''fileName'', ''relativePath'', ''displayPath'',
        ''structuralDigest'', ''byteLength'']"

definition step_named :: "jval list \<Rightarrow> jval \<Rightarrow> jval option" where
  "step_named steps i = find (\<lambda>step. vfld step ''id'' = i) steps"

definition mergePlanSteps :: "jval list \<Rightarrow> jval list \<Rightarrow> jval list" where
  "mergePlanSteps current incoming =
     map (\<lambda>step. case step_named (rev incoming) (vfld step ''id'') of None \<Rightarrow> step
       | Some update \<Rightarrow> JObj (obj_set ''note'' (coalesce (vfld update ''note'') (vfld step ''note''))
           (obj_set ''status'' (vfld update ''status'') (or_default (as_record step) [])))) current"

definition hasTerminalStepRollback :: "jval list \<Rightarrow> jval list \<Rightarrow> bool" where
  "hasTerminalStepRollback existing updated =
     list_ex (\<lambda>step. vfld step ''status'' \<in> {JStr ''completed'', JStr ''skipped''} \<and>
       map_option (\<lambda>u. vfld u ''status'') (step_named (rev updated) (vfld step ''id'')) \<noteq> Some (vfld step ''status''))
       existing"

definition planDocumentFromTransport ::
  "js_host \<Rightarrow> jval \<Rightarrow> jobj \<Rightarrow> string \<Rightarrow> jval \<Rightarrow> jval \<Rightarrow> jobj option" where
  "planDocumentFromTransport h plan payload turnId supersedesPlanVersion replanReason =
     (case (nonEmptyStringField payload ''planId'', numberField payload ''version'',
          nonEmptyStringField payload ''structuralHash'', nonEmptyStringField payload ''taskId'') of
        (Some planId, Some version, Some structuralDigest, Some taskId) \<Rightarrow>
          if \<not> isAgentPlanTransport plan then None
          else let optional = (\<lambda>f v. if v = JUndef then [] else [(f, v)]);
                   steps = map (\<lambda>step. JObj ([(''id'', JStr (text_of (vfld step ''id''))),
                       (''title'', vfld step ''step''), (''status'', vfld step ''status'')] @
                       with_note (vfld step ''note''))) (list_of (vfld plan ''steps''));
                   document = [(''planSchemaVersion'', JNum 2), (''planId'', JStr planId),
                     (''version'', JNum version), (''title'', vfld plan ''name''),
                     (''bodyMarkdown'', vfld plan ''description''), (''steps'', JArr steps),
                     (''createdAtTurnId'', JStr turnId), (''updatedAtTurnId'', JStr turnId),
                     (''completionEvidence'', emptyPlanCompletionEvidence),
                     (''structuralDigest'', JStr structuralDigest)] @
                     optional ''artifact'' (case recordField payload ''artifact'' of None \<Rightarrow> JUndef | Some a \<Rightarrow> JObj a) @
                     optional ''supersedesPlanVersion'' supersedesPlanVersion @
                     optional ''replanReason'' replanReason in
            if isPlanDocument h document then Some document else None
      | _ \<Rightarrow> None)"

section \<open>Completion evidence\<close>

definition activeRecoveryFailureIds :: "agent_state \<Rightarrow> bool \<Rightarrow> string list" where
  "activeRecoveryFailureIds s includeExhausted =
     filter (\<lambda>i. case map_of (rj_failures (st_toolRecovery s)) i of None \<Rightarrow> False
       | Some failure \<Rightarrow> (rf_status failure = Unresolved \<or> includeExhausted \<and> rf_status failure = Exhausted) \<and>
           rf_taskId failure = st_activeTaskId s \<and> rf_turnId failure = Some (tn_turnId (st_turn s)))
       (rj_order (st_toolRecovery s))"

definition samePlanIdentity :: "plan_identity option \<Rightarrow> plan_identity option \<Rightarrow> bool" where
  "samePlanIdentity left right \<longleftrightarrow> left \<noteq> None \<and> right \<noteq> None \<and> left = right"

definition planningIdentity :: "agent_state \<Rightarrow> plan_identity option" where
  "planningIdentity s =
     (case active_task s of None \<Rightarrow> None
      | Some task \<Rightarrow> map_option document_identity (planning_document (tk_planning task)))"

definition skipped_entries :: "agent_state \<Rightarrow> jval list \<Rightarrow> (string \<times> jval) list \<Rightarrow> (string \<times> jobj) list" where
  "skipped_entries s steps skippedReasonCodes =
     (let priorSkipped = (case active_task s of None \<Rightarrow> []
            | Some task \<Rightarrow> (case tk_planning task of
                Executing d a b \<Rightarrow> skipped_pairs (fld d ''completionEvidence'') | _ \<Rightarrow> [])) in
      map (\<lambda>step. let i = text_of (vfld step ''id'') in
          (i, [(''stepId'', vfld step ''id''),
             (''reasonCode'', coalesce (last_value skippedReasonCodes i)
                (coalesce (last_value priorSkipped i) (JStr [])))]))
        (filter (\<lambda>step. vfld step ''status'' = JStr ''skipped'') steps))"

text \<open>The verification, execution and unresolved entries are those of completion.ts.\<close>

definition projectPlanCompletionEvidence ::
  "js_host \<Rightarrow> agent_state \<Rightarrow> jval list \<Rightarrow> (string \<times> jval) list \<Rightarrow> jval" where
  "projectPlanCompletionEvidence h s steps skippedReasonCodes =
     JObj [(''schemaVersion'', JNum 1),
       (''verification'', sorted_entries h (verification_entries s)),
       (''execution'', sorted_entries h (execution_entries s)),
       (''skipped'', sorted_entries h (skipped_entries s steps skippedReasonCodes)),
       (''unresolved'', sorted_entries h (unresolved_entries s))]"

definition waiting_status :: "tool_status \<Rightarrow> bool" where
  "waiting_status st \<longleftrightarrow> st \<in> {TAwaitingUserInput, TAwaitingReview, TAwaitingApproval, TAwaitingAutoReview}"

definition planCompletionBlocker :: "agent_state \<Rightarrow> jval \<Rightarrow> string option" where
  "planCompletionBlocker s evidence =
     (if st_interactions s \<noteq> Idle \<or>
         list_ex (\<lambda>call. belongsToActiveTask s (tc_taskId call) \<and> waiting_status (tc_status call))
           (obj_values (to_calls (st_tools s)))
      then Some ''plan_unresolved_blocker''
      else if list_ex (\<lambda>r. belongsToActiveTask s (vr_taskId r) \<and> vr_mode r = Required \<and>
           \<not> verified (vr_status r)) (obj_values (st_verification s))
      then Some ''plan_verification_required''
      else if list_ex (\<lambda>e. \<not> string_where SAFE_REASON_CODE (vfld e ''reasonCode''))
           (list_of (vfld evidence ''skipped''))
      then Some ''plan_skipped_reason_required''
      else if length (list_of (vfld evidence ''unresolved'')) > 0 then Some ''plan_unresolved_blocker''
      else let execution = list_of (vfld evidence ''execution'') in
        if (case active_task s of None \<Rightarrow> False | Some t \<Rightarrow> tk_sideEffectsStarted t) \<and> execution = [] \<or>
           list_ex (\<lambda>call. tc_status call \<noteq> TSucceeded \<or> \<not> result_ok call \<or>
             \<not> list_ex (\<lambda>e. vfld e ''toolCallId'' = JStr (tc_toolCallId call)) execution)
             (relevantEffectCalls s)
        then Some ''plan_effect_evidence_required''
        else None)"

definition planCompletionEvidenceMatchesRuntime ::
  "js_host \<Rightarrow> agent_state \<Rightarrow> jval list \<Rightarrow> jval \<Rightarrow> bool" where
  "planCompletionEvidenceMatchesRuntime h s steps evidence \<longleftrightarrow>
     isPlanCompletionEvidence evidence \<and>
     json_stringify h (projectPlanCompletionEvidence h s steps (skipped_pairs evidence)) =
       json_stringify h evidence"

section \<open>Tasks and turns\<close>

definition task_started :: "agent_state \<Rightarrow> jobj \<Rightarrow> agent_state" where
  "task_started s payload =
     (case (nonEmptyStringField payload ''taskId'', nonEmptyStringField payload ''turnId'',
          stringField payload ''userGoal'') of
        (Some taskId, Some turnId, Some userGoal) \<Rightarrow>
          s\<lparr>st_activeTaskId := Some taskId,
            st_tasks := obj_set taskId \<lparr>tk_taskId = taskId, tk_userGoal = userGoal, tk_status = TaskActive,
              tk_startedAtTurnId = turnId, tk_completedAtTurnId = None, tk_sideEffectsStarted = False,
              tk_planning = BuildingWithoutPlan, tk_executionMode = None, tk_planHistory = []\<rparr> (st_tasks s),
            st_interactions := Idle\<rparr>
      | _ \<Rightarrow> s)"

definition close_task :: "agent_state \<Rightarrow> string \<Rightarrow> (task_state \<Rightarrow> task_state) \<Rightarrow> agent_state" where
  "close_task s taskId close =
     (case map_of (st_tasks s) taskId of None \<Rightarrow> s
      | Some current \<Rightarrow>
          if st_activeTaskId s \<noteq> Some taskId then s
          else s\<lparr>st_toolRecovery := closeToolRecoveryScope (st_toolRecovery s) (ScopeTask taskId),
            st_activeTaskId := None,
            st_tasks := obj_set taskId (close current) (st_tasks s)\<rparr>)"

definition task_completed :: "agent_state \<Rightarrow> jobj \<Rightarrow> agent_state" where
  "task_completed s payload =
     (case (nonEmptyStringField payload ''taskId'', nonEmptyStringField payload ''turnId'') of
        (Some taskId, Some turnId) \<Rightarrow>
          close_task s taskId (\<lambda>current. current\<lparr>tk_status := TaskCompleted,
            tk_completedAtTurnId := Some turnId, tk_executionMode := None\<rparr>)
      | _ \<Rightarrow> s)"

definition task_cancelled :: "agent_state \<Rightarrow> jobj \<Rightarrow> agent_state" where
  "task_cancelled s payload =
     (case nonEmptyStringField payload ''taskId'' of None \<Rightarrow> s
      | Some taskId \<Rightarrow>
          close_task s taskId (\<lambda>current. current\<lparr>tk_status := TaskCancelled, tk_executionMode := None\<rparr>))"

definition turn_started :: "agent_state \<Rightarrow> jobj \<Rightarrow> agent_state" where
  "turn_started s payload =
     (case nonEmptyStringField payload ''turnId'' of None \<Rightarrow> s
      | Some turnId \<Rightarrow>
          let preservePlannedCorrection =
                (cg_guardVersion (st_completionGuard s) = Some COMPLETION_GUARD_PLANNED_VERSION \<and>
                 samePlanIdentity (cg_planIdentity (st_completionGuard s)) (planningIdentity s)) in
          s\<lparr>st_toolRecovery := closeToolRecoveryScope (st_toolRecovery s) (ScopeTurn (tn_turnId (st_turn s))),
            st_completionGuard := (if preservePlannedCorrection then st_completionGuard s
              else \<lparr>cg_correctionAttempts = 0, cg_guardVersion = None, cg_planIdentity = None\<rparr>),
            st_terminalOutcome := None,
            st_turn := \<lparr>tn_turnId = turnId, tn_turnIndex = tn_turnIndex (st_turn s) + 1,
              tn_status = TurnActive, tn_abortReason = None, tn_abortCause = None\<rparr>\<rparr>)"

section \<open>The life of a plan\<close>

definition set_planning :: "agent_state \<Rightarrow> string \<Rightarrow> planning_state \<Rightarrow> agent_state" where
  "set_planning s taskId planning = updateTasks s taskId (\<lambda>current. current\<lparr>tk_planning := planning\<rparr>)"

definition planning_entered :: "agent_state \<Rightarrow> jobj \<Rightarrow> agent_state" where
  "planning_entered s payload =
     (case nonEmptyStringField payload ''taskId'' of None \<Rightarrow> s
      | Some taskId \<Rightarrow>
          (case map_of (st_tasks s) taskId of None \<Rightarrow> s
           | Some task \<Rightarrow>
               if Some taskId \<noteq> st_activeTaskId s \<or> tk_status task \<noteq> TaskActive \<or> tk_sideEffectsStarted task \<or>
                 tk_planning task \<noteq> BuildingWithoutPlan then s
               else set_planning s taskId PlanningEmpty))"

text \<open>The identity a plan event names: plan, version, digest.\<close>

definition names_plan :: "jobj \<Rightarrow> string \<Rightarrow> jobj \<Rightarrow> bool" where
  "names_plan payload digest_field document \<longleftrightarrow>
     (case (nonEmptyStringField payload ''planId'', numberField payload ''version'',
          nonEmptyStringField payload digest_field) of
        (Some planId, Some version, Some digest) \<Rightarrow>
          JStr planId = fld document ''planId'' \<and> JNum version = fld document ''version'' \<and>
          JStr digest = fld document ''structuralDigest''
      | _ \<Rightarrow> False)"

fun draft_document :: "planning_state \<Rightarrow> jobj option" where
  "draft_document (PlanningDraft d f) = Some d"
| "draft_document (ReplanningDraft d v r f) = Some d"
| "draft_document _ = None"

definition plan_summary :: "jobj \<Rightarrow> string" where
  "plan_summary document =
     text_of (fld document ''title'') @ [CHR 0x0A, CHR 0x0A] @
     join_with [CHR 0x0A] (map (\<lambda>(i, step). nat_digits (i + 1) @ ''. '' @ text_of (vfld step ''title''))
       (enumerate 0 (document_steps document)))"

definition review_interaction :: "string \<Rightarrow> string \<Rightarrow> jobj \<Rightarrow> interaction" where
  "review_interaction interactionId toolCallId document =
     AwaitingPlanReview interactionId toolCallId (text_of (fld document ''planId''))
       (int_of (fld document ''version'')) (text_of (fld document ''structuralDigest''))
       (planDocumentToAgentPlan document) (plan_summary document) (as_record (fld document ''artifact''))"

definition await_review :: "agent_state \<Rightarrow> string \<Rightarrow> agent_state" where
  "await_review s toolCallId =
     (case map_of (to_calls (st_tools s)) toolCallId of None \<Rightarrow> s
      | Some call \<Rightarrow> put_call s toolCallId (call\<lparr>tc_status := TAwaitingReview\<rparr>))"

definition review_requested :: "js_host \<Rightarrow> agent_state \<Rightarrow> jobj \<Rightarrow> agent_state" where
  "review_requested h s payload =
     (case active_task s of None \<Rightarrow> s
      | Some task \<Rightarrow>
          if nonEmptyStringField payload ''taskId'' \<noteq> Some (tk_taskId task) then s
          else (case (draft_document (tk_planning task), nonEmptyStringField payload ''interactionId'',
                 nonEmptyStringField payload ''toolCallId'') of
              (Some document, Some interactionId, Some toolCallId) \<Rightarrow>
                if \<not> isPlanDocument h document \<or> \<not> names_plan payload ''structuralDigest'' document \<or>
                  \<not> agentPlanTransportMatchesDocument (fld payload ''plan'') document then s
                else (await_review (set_planning s (tk_taskId task)
                    (AwaitingReview document interactionId toolCallId)) toolCallId)
                  \<lparr>st_interactions := review_interaction interactionId toolCallId document\<rparr>
            | _ \<Rightarrow> s))"

text \<open>A decision on a review names the open interaction and the plan under review.\<close>

definition decides_review :: "interaction \<Rightarrow> jobj \<Rightarrow> bool" where
  "decides_review i payload =
     (case i of AwaitingPlanReview interactionId toolCallId planId version digest p t a \<Rightarrow>
        nonEmptyStringField payload ''planId'' = Some planId \<and>
        numberField payload ''version'' = Some (of_int version) \<and>
        nonEmptyStringField payload ''structuralDigest'' = Some digest \<and>
        nonEmptyStringField payload ''interactionId'' = Some interactionId \<and>
        nonEmptyStringField payload ''toolCallId'' = Some toolCallId
      | _ \<Rightarrow> False)"

definition execution_mode :: "jobj \<Rightarrow> (string \<times> interaction_mode) option" where
  "execution_mode payload =
     (case stringField payload ''executionMode'' of None \<Rightarrow> None
      | Some m \<Rightarrow> if m = ''auto'' then Some (m, AutoMode)
          else if m = ''accept_edits'' then Some (m, AcceptEdits) else None)"

definition plan_approved :: "agent_state \<Rightarrow> jobj \<Rightarrow> agent_state" where
  "plan_approved s payload =
     (case (active_task s, execution_mode payload) of
        (Some task, Some (name, mode)) \<Rightarrow>
          (case tk_planning task of
             AwaitingReview document i c \<Rightarrow>
               if \<not> decides_review (st_interactions s) payload then s
               else s\<lparr>st_tasks := obj_set (tk_taskId task) (task\<lparr>tk_executionMode := Some mode,
                   tk_planning := Executing document name (tn_turnId (st_turn s))\<rparr>) (st_tasks s),
                 st_interactions := Idle\<rparr>
           | _ \<Rightarrow> s)
      | _ \<Rightarrow> s)"

definition review_feedback :: "kernel_event \<Rightarrow> string option" where
  "review_feedback e =
     stringField (ev_data e) (if ev_type e = ''plan.revision_requested'' then ''feedback'' else ''reason'')"

definition review_returned :: "agent_state \<Rightarrow> kernel_event \<Rightarrow> agent_state" where
  "review_returned s e =
     (case (active_task s, review_feedback e) of
        (Some task, Some feedback) \<Rightarrow>
          (case tk_planning task of
             AwaitingReview document i c \<Rightarrow>
               if \<not> decides_review (st_interactions s) (ev_data e) then s
               else (set_planning s (tk_taskId task) (PlanningDraft document (Some feedback)))\<lparr>st_interactions := Idle\<rparr>
           | _ \<Rightarrow> s)
      | _ \<Rightarrow> s)"

definition resolve_failures :: "agent_state \<Rightarrow> recovery_journal \<Rightarrow> progress_kind \<Rightarrow> string \<Rightarrow> string list \<Rightarrow> agent_state" where
  "resolve_failures s journal kind referenceId failureIds =
     (if failureIds = [] then s
      else s\<lparr>st_toolRecovery := recordToolOwnedProgress journal kind referenceId (Some failureIds)\<rparr>)"

definition next_plan_reference :: "js_host \<Rightarrow> jobj \<Rightarrow> string" where
  "next_plan_reference h document =
     text_of (fld document ''planId'') @ '':'' @ js_String h (js_plus_one (fld document ''version''))"

definition replan_requested :: "js_host \<Rightarrow> agent_state \<Rightarrow> jobj \<Rightarrow> agent_state" where
  "replan_requested h s payload =
     (case (active_task s, nonEmptyStringField payload ''reason'') of
        (Some task, Some reason) \<Rightarrow>
          (case tk_planning task of
             Executing document a b \<Rightarrow>
               if \<not> is_safe_integer (fld payload ''supersedesPlanVersion'') then s
               else resolve_failures
                 ((updateTasks s (tk_taskId task) (\<lambda>current. current\<lparr>
                     tk_planning := ReplanningDraft document (int_of (fld payload ''supersedesPlanVersion'')) reason None,
                     tk_planHistory := tk_planHistory current @ [document]\<rparr>))\<lparr>st_interactions := Idle\<rparr>)
                 (st_toolRecovery s) ReplannedProgress (next_plan_reference h document)
                 (activeRecoveryFailureIds s True)
           | _ \<Rightarrow> s)
      | _ \<Rightarrow> s)"

text \<open>\<open>numberField\<close> and \<open>stringField\<close> as values, absent fields as undefined.\<close>

definition number_value :: "jobj \<Rightarrow> string \<Rightarrow> jval" where
  "number_value payload f = (case numberField payload f of None \<Rightarrow> JUndef | Some r \<Rightarrow> JNum r)"

definition string_value :: "jobj \<Rightarrow> string \<Rightarrow> jval" where
  "string_value payload f = (case stringField payload f of None \<Rightarrow> JUndef | Some t \<Rightarrow> JStr t)"

definition next_version :: "jobj \<Rightarrow> jobj \<Rightarrow> bool" where
  "next_version payload document \<longleftrightarrow>
     fld payload ''planId'' = fld document ''planId'' \<and>
     number_value payload ''version'' = js_plus_one (fld document ''version'')"

definition matchesNewRevisionScope :: "planning_state \<Rightarrow> jobj \<Rightarrow> bool" where
  "matchesNewRevisionScope planning payload =
     (let supersedes = number_value payload ''supersedesPlanVersion'';
          reason = string_value payload ''replanReason'' in
      case planning of
        PlanningEmpty \<Rightarrow> number_value payload ''version'' = JNum 1 \<and> supersedes = JUndef \<and> reason = JUndef
      | PlanningDraft d f \<Rightarrow>
          next_version payload d \<and> supersedes = fld d ''supersedesPlanVersion'' \<and> reason = fld d ''replanReason''
      | ReplanningDraft d v r f \<Rightarrow>
          int_of (fld d ''version'') \<ge> v \<and>
          (fld d ''version'' = jint v \<or>
           fld d ''supersedesPlanVersion'' = jint v \<and> fld d ''replanReason'' = JStr r) \<and>
          next_version payload d \<and> supersedes = jint v \<and> reason = JStr r
      | _ \<Rightarrow> False)"

definition effective_supersedes :: "planning_state \<Rightarrow> jobj \<Rightarrow> jval" where
  "effective_supersedes planning payload =
     coalesce (number_value payload ''supersedesPlanVersion'')
       (case planning of ReplanningDraft d v r f \<Rightarrow> jint v
        | _ \<Rightarrow> (case draft_document planning of None \<Rightarrow> JUndef | Some d \<Rightarrow> fld d ''supersedesPlanVersion''))"

definition effective_reason :: "planning_state \<Rightarrow> jobj \<Rightarrow> jval" where
  "effective_reason planning payload =
     coalesce (string_value payload ''replanReason'')
       (case planning of ReplanningDraft d v r f \<Rightarrow> JStr r
        | _ \<Rightarrow> (case draft_document planning of None \<Rightarrow> JUndef | Some d \<Rightarrow> fld d ''replanReason''))"

definition drafted_planning :: "planning_state \<Rightarrow> jobj \<Rightarrow> jobj \<Rightarrow> planning_state" where
  "drafted_planning planning payload document =
     (case planning of
        ReplanningDraft d v r f \<Rightarrow> ReplanningDraft document (int_of (effective_supersedes planning payload))
          (text_of (effective_reason planning payload)) None
      | _ \<Rightarrow> PlanningDraft document None)"

fun drafting :: "planning_state \<Rightarrow> bool" where
  "drafting PlanningEmpty = True"
| "drafting (PlanningDraft d f) = True"
| "drafting (ReplanningDraft d v r f) = True"
| "drafting _ = False"

definition plan_drafted :: "js_host \<Rightarrow> agent_state \<Rightarrow> jobj \<Rightarrow> agent_state" where
  "plan_drafted h s payload =
     (case (active_task s, nonEmptyStringField payload ''taskId'') of
        (Some task, Some taskId) \<Rightarrow>
          if tk_taskId task \<noteq> taskId \<or> tk_status task \<noteq> TaskActive \<or> \<not> drafting (tk_planning task) then s
          else (case (nonEmptyStringField payload ''planId'', numberField payload ''version'',
                nonEmptyStringField payload ''structuralHash'', recordField payload ''artifact'') of
              (Some planId, Some version, Some structuralHash, Some artifact) \<Rightarrow>
                if (case draft_document (tk_planning task) of None \<Rightarrow> False
                    | Some d \<Rightarrow> names_plan payload ''structuralHash'' d) then s
                else if \<not> matchesNewRevisionScope (tk_planning task) payload \<or>
                  fld artifact ''taskId'' \<noteq> JStr taskId then s
                else (case planDocumentFromTransport h (fld payload ''plan'') payload (tn_turnId (st_turn s))
                      (effective_supersedes (tk_planning task) payload) (effective_reason (tk_planning task) payload) of
                    None \<Rightarrow> s
                  | Some document \<Rightarrow>
                      if \<not> isPlanArtifactRef h (JObj artifact) document then s
                      else set_planning s taskId (drafted_planning (tk_planning task) payload document))
            | _ \<Rightarrow> s)
      | _ \<Rightarrow> s)"

text \<open>The steps a progress or completion event asks for, if the event is admissible.\<close>

definition updated_steps :: "js_host \<Rightarrow> agent_state \<Rightarrow> jobj \<Rightarrow> jobj \<Rightarrow> jval list option" where
  "updated_steps h s payload document =
     (case planStepsFromAgentPlanUpdate (fld payload ''plan'') document of None \<Rightarrow> None
      | Some transportSteps \<Rightarrow>
          let steps = mergePlanSteps (document_steps document) transportSteps in
          if names_plan payload ''structuralDigest'' document \<and>
             \<not> hasTerminalStepRollback (document_steps document) steps \<and>
             planCompletionEvidenceMatchesRuntime h s steps (fld payload ''completionEvidence'')
          then Some steps else None)"

definition executing_task :: "agent_state \<Rightarrow> jobj \<Rightarrow> (task_state \<times> jobj) option" where
  "executing_task s payload =
     (case active_task s of None \<Rightarrow> None
      | Some task \<Rightarrow>
          if nonEmptyStringField payload ''taskId'' \<noteq> Some (tk_taskId task) then None
          else (case tk_planning task of Executing d a b \<Rightarrow> Some (task, d) | _ \<Rightarrow> None))"

definition progress_document :: "agent_state \<Rightarrow> jobj \<Rightarrow> jobj \<Rightarrow> jval list \<Rightarrow> jobj" where
  "progress_document s payload document steps =
     obj_set ''completionEvidence'' (fld payload ''completionEvidence'')
       (obj_set ''updatedAtTurnId'' (JStr (tn_turnId (st_turn s)))
         (obj_set ''steps'' (JArr steps) document))"

fun with_document :: "planning_state \<Rightarrow> jobj \<Rightarrow> planning_state" where
  "with_document (Executing d a b) d' = Executing d' a b"
| "with_document planning d' = planning"

definition newly_skipped :: "jobj \<Rightarrow> jval list \<Rightarrow> bool" where
  "newly_skipped document steps =
     list_ex (\<lambda>step. vfld step ''status'' = JStr ''skipped'' \<and>
       map_option (\<lambda>previous. vfld previous ''status'') (step_named (document_steps document) (vfld step ''id''))
         \<noteq> Some (JStr ''skipped'')) steps"

definition progress_updated :: "js_host \<Rightarrow> agent_state \<Rightarrow> jobj \<Rightarrow> agent_state" where
  "progress_updated h s payload =
     (case executing_task s payload of None \<Rightarrow> s
      | Some (task, document) \<Rightarrow>
          (case updated_steps h s payload document of None \<Rightarrow> s
           | Some steps \<Rightarrow>
               let updated = progress_document s payload document steps in
               if \<not> isPlanDocument h updated then s
               else resolve_failures
                 (updateTasks s (tk_taskId task) (\<lambda>current.
                    current\<lparr>tk_planning := with_document (tk_planning current) updated\<rparr>))
                 (st_toolRecovery s) SkippedProgress (or_default (nonEmptyStringField payload ''toolCallId'') [])
                 (if newly_skipped document steps then activeRecoveryFailureIds s False else [])))"

definition complete_task_plan :: "jobj \<Rightarrow> string \<Rightarrow> task_state \<Rightarrow> task_state" where
  "complete_task_plan document turnId current =
     (case tk_planning current of
        Executing d a b \<Rightarrow> current\<lparr>tk_executionMode := None,
          tk_planning := PlanCompleted document turnId\<rparr>
      | _ \<Rightarrow> current)"

definition completed_document :: "jobj \<Rightarrow> jobj \<Rightarrow> jval list \<Rightarrow> jobj" where
  "completed_document payload document steps =
     obj_set ''completionEvidence'' (fld payload ''completionEvidence'') (obj_set ''steps'' (JArr steps) document)"

definition plan_completed :: "js_host \<Rightarrow> agent_state \<Rightarrow> jobj \<Rightarrow> agent_state" where
  "plan_completed h s payload =
     (case executing_task s payload of None \<Rightarrow> s
      | Some (task, document) \<Rightarrow>
          if vfld (fld payload ''plan'') ''status'' \<noteq> JStr ''completed'' then s
          else (case updated_steps h s payload document of None \<Rightarrow> s
           | Some steps \<Rightarrow>
               if list_ex step_open steps \<or> list_all (\<lambda>step. vfld step ''status'' = JStr ''skipped'') steps \<or>
                 planCompletionBlocker s (fld payload ''completionEvidence'') \<noteq> None then s
               else let completed = completed_document payload document steps in
                 if \<not> isPlanDocument h completed then s
                 else updateTasks s (tk_taskId task) (complete_task_plan completed (tn_turnId (st_turn s)))))"

section \<open>The reducer\<close>

definition reduceLifecycleState :: "js_host \<Rightarrow> agent_state \<Rightarrow> kernel_event \<Rightarrow> agent_state" where
  "reduceLifecycleState h s e =
     (let payload = ev_data e; ty = ev_type e in
      if ty = ''task.started'' then task_started s payload
      else if ty = ''task.completed'' then task_completed s payload
      else if ty = ''task.cancelled'' then task_cancelled s payload
      else if ty = ''turn.started'' then turn_started s payload
      else if ty = ''planning.entered'' then planning_entered s payload
      else if ty = ''plan.review_requested'' then review_requested h s payload
      else if ty = ''plan.approved'' then plan_approved s payload
      else if ty = ''plan.revision_requested'' \<or> ty = ''plan.review_cancelled'' then review_returned s e
      else if ty = ''plan.replan_requested'' then replan_requested h s payload
      else if ty = ''plan.drafted'' then plan_drafted h s payload
      else if ty = ''plan.progress_updated'' then progress_updated h s payload
      else if ty = ''plan.completed'' then plan_completed h s payload
      else s)"

end
