(* ===== verification/Kite_Interaction.thy ===== *)
theory Kite_Interaction
  imports Kite_Lifecycle
begin

text \<open>
  src/packages/agent-kernel/src/domains/interaction/reducer.ts: questions to the user, plan reviews,
  provider actions and provider admissions. Plan reviews are also handled by the lifecycle reducer;
  this reducer runs later in the fixed order and has its own, slightly different checks.
\<close>

section \<open>Helpers\<close>

definition matches_shape :: "string \<Rightarrow> string \<Rightarrow> bool" where
  "matches_shape shape s =
     list_all2 (\<lambda>p c. if p = CHR ''d'' then is_digit_char c else c = p) shape s"

definition isTimestamp :: "string \<Rightarrow> bool" where
  "isTimestamp s \<longleftrightarrow> matches_shape ''dddd-dd-ddTdd:dd:ddZ'' s \<or> matches_shape ''dddd-dd-ddTdd:dd:dd.dddZ'' s"

definition review_transport_step :: "jval \<Rightarrow> bool" where
  "review_transport_step v =
     (case v of JObj step \<Rightarrow>
        hasOnlyKeys step [''id'', ''step'', ''status'', ''note''] \<and>
        string_where (\<lambda>t. True) (fld step ''step'') \<and>
        fld step ''status'' \<in> {JStr ''pending'', JStr ''in_progress'', JStr ''completed'', JStr ''skipped''} \<and>
        (fld step ''id'' = JUndef \<or> string_where (\<lambda>t. True) (fld step ''id'')) \<and>
        (fld step ''note'' = JUndef \<or> string_where (\<lambda>t. True) (fld step ''note''))
      | _ \<Rightarrow> False)"

definition isPlanTransport :: "jval \<Rightarrow> bool" where
  "isPlanTransport v =
     (case v of JObj plan \<Rightarrow>
        length (obj_keys plan) = 4 \<and> hasOnlyKeys plan [''name'', ''description'', ''status'', ''steps''] \<and>
        string_where (\<lambda>t. True) (fld plan ''name'') \<and> string_where (\<lambda>t. True) (fld plan ''description'') \<and>
        fld plan ''status'' = JStr ''pending'' \<and>
        (case fld plan ''steps'' of JArr steps \<Rightarrow> list_all review_transport_step steps | _ \<Rightarrow> False)
      | _ \<Rightarrow> False)"

definition planTransportMatchesDocument :: "jval \<Rightarrow> jobj \<Rightarrow> bool" where
  "planTransportMatchesDocument v document \<longleftrightarrow>
     isPlanTransport v \<and> vfld v ''name'' = fld document ''title'' \<and>
     vfld v ''description'' = fld document ''bodyMarkdown'' \<and>
     list_all2 step_matches (list_of (vfld v ''steps'')) (document_steps document)"

definition canonicalPlan :: "jobj \<Rightarrow> jobj" where
  "canonicalPlan document =
     [(''name'', fld document ''title''), (''description'', fld document ''bodyMarkdown''),
      (''status'', JStr ''pending''),
      (''steps'', JArr (map (\<lambda>step. JObj ([(''id'', vfld step ''id''), (''step'', vfld step ''title''),
          (''status'', vfld step ''status'')] @ with_note (vfld step ''note''))) (document_steps document)))]"

definition reviewIdentityMatches :: "agent_state \<Rightarrow> jobj \<Rightarrow> bool" where
  "reviewIdentityMatches s payload =
     (case st_interactions s of AwaitingPlanReview interactionId toolCallId planId version digest p t a \<Rightarrow>
        nonEmptyStringField payload ''interactionId'' = Some interactionId \<and>
        nonEmptyStringField payload ''toolCallId'' = Some toolCallId \<and>
        nonEmptyStringField payload ''planId'' = Some planId \<and>
        numberField payload ''version'' = Some (of_int version) \<and>
        nonEmptyStringField payload ''structuralDigest'' = Some digest
      | _ \<Rightarrow> False)"

definition runtime_message :: "agent_state \<Rightarrow> string \<Rightarrow> string \<Rightarrow> string \<Rightarrow> transcript_message" where
  "runtime_message s messageId createdAt content =
     RuntimeMessage \<lparr>mm_messageId = messageId, mm_turnId = tn_turnId (st_turn s),
       mm_ordinal = length (ts_messages (st_transcript s)), mm_createdAt = createdAt\<rparr> content"

definition add_message :: "agent_state \<Rightarrow> transcript_message \<Rightarrow> agent_state" where
  "add_message s m =
     s\<lparr>st_transcript := (st_transcript s)\<lparr>ts_messages := ts_messages (st_transcript s) @ [m]\<rparr>\<rparr>"

definition appendRuntimeTranscript :: "agent_state \<Rightarrow> string \<Rightarrow> string \<Rightarrow> agent_state" where
  "appendRuntimeTranscript s messageId content =
     add_message s (runtime_message s messageId EPOCH_CREATED_AT content)"

definition provider_message :: "agent_state \<Rightarrow> tool_call \<Rightarrow> transcript_message" where
  "provider_message s call =
     ToolMessage \<lparr>mm_messageId = ''tool-'' @ tc_toolCallId call, mm_turnId = tn_turnId (st_turn s),
         mm_ordinal = length (ts_messages (st_transcript s)), mm_createdAt = EPOCH_CREATED_AT\<rparr>
       (tc_toolCallId call) (tc_name call) (or_default (tc_error call) ''MCP provider action is required.'') False None"

definition appendToolTranscript :: "agent_state \<Rightarrow> tool_call \<Rightarrow> agent_state" where
  "appendToolTranscript s call =
     (let messages = ts_messages (st_transcript s) @ [provider_message s call] in
      s\<lparr>st_transcript := (st_transcript s)\<lparr>ts_messages := renumber
        (if tc_modelMessageId call = [] then messages
         else reordered (to_calls (st_tools s)) (tc_modelMessageId call) messages)\<rparr>\<rparr>)"

definition activeProviderFailureIds :: "agent_state \<Rightarrow> string \<Rightarrow> string list" where
  "activeProviderFailureIds s toolCallId =
     filter (\<lambda>i. case map_of (rj_failures (st_toolRecovery s)) i of None \<Rightarrow> False
       | Some failure \<Rightarrow> rf_status failure = Unresolved \<and> rf_taskId failure = st_activeTaskId s \<and>
           rf_turnId failure = Some (tn_turnId (st_turn s)) \<and> rf_toolCallId failure = toolCallId)
       (rj_order (st_toolRecovery s))"

definition pending_admissions :: "agent_state \<Rightarrow> jval list" where
  "pending_admissions s = or_default (arrayField (st_providerAdmission s) ''pending'') []"

definition admission_waivers :: "agent_state \<Rightarrow> jobj" where
  "admission_waivers s = sub_record (st_providerAdmission s) ''waivers''"

definition names_interaction :: "string \<Rightarrow> jval \<Rightarrow> bool" where
  "names_interaction interactionId entry \<longleftrightarrow> vfld entry ''interactionId'' = JStr interactionId"

text \<open>The next pending admission becomes the interaction; entries are records.\<close>

definition admission_focus :: "jval list \<Rightarrow> interaction" where
  "admission_focus pending =
     (case pending of [] \<Rightarrow> Idle | entry # rest \<Rightarrow> AwaitingProviderAdmission (or_default (as_record entry) []))"

definition waiver_record :: "string \<Rightarrow> jval \<Rightarrow> jval \<Rightarrow> string \<Rightarrow> jval" where
  "waiver_record providerId source reason waivedAt =
     JObj [(''providerId'', JStr providerId), (''source'', source), (''reason'', reason), (''waivedAt'', JStr waivedAt)]"

definition set_waiver :: "string \<Rightarrow> jval \<Rightarrow> jobj \<Rightarrow> jobj" where
  "set_waiver providerId waiver admission =
     obj_set ''waivers'' (JObj (obj_set providerId waiver (sub_record admission ''waivers''))) admission"

definition settleProviderAdmission :: "agent_state \<Rightarrow> string \<Rightarrow> (string \<times> jval) option \<Rightarrow> agent_state" where
  "settleProviderAdmission s interactionId waiver =
     (let pending = filter (\<lambda>entry. \<not> names_interaction interactionId entry) (pending_admissions s);
          settled = obj_set ''pending'' (JArr pending) (st_providerAdmission s) in
      s\<lparr>st_providerAdmission := (case waiver of None \<Rightarrow> settled
          | Some (providerId, w) \<Rightarrow> obj_set ''waivers'' (JObj (obj_set providerId w (admission_waivers s))) settled),
        st_interactions := admission_focus pending\<rparr>)"

section \<open>Questions to the user\<close>

definition mark_call :: "agent_state \<Rightarrow> string \<Rightarrow> tool_status \<Rightarrow> agent_state" where
  "mark_call s toolCallId st =
     (case map_of (to_calls (st_tools s)) toolCallId of None \<Rightarrow> s
      | Some call \<Rightarrow> put_call s toolCallId (call\<lparr>tc_status := st\<rparr>))"

definition input_requested :: "agent_state \<Rightarrow> jobj \<Rightarrow> agent_state" where
  "input_requested s payload =
     (case (nonEmptyStringField payload ''interactionId'', nonEmptyStringField payload ''toolCallId'',
          recordField payload ''request'') of
        (Some interactionId, Some toolCallId, Some request) \<Rightarrow>
          (mark_call s toolCallId TAwaitingUserInput)
            \<lparr>st_interactions := AwaitingUserInput interactionId toolCallId request\<rparr>
      | _ \<Rightarrow> s)"

definition input_settled :: "agent_state \<Rightarrow> jobj \<Rightarrow> agent_state" where
  "input_settled s payload =
     (case st_interactions s of
        AwaitingUserInput interactionId toolCallId request \<Rightarrow>
          if nonEmptyStringField payload ''interactionId'' = Some interactionId \<and>
             nonEmptyStringField payload ''toolCallId'' = Some toolCallId
          then s\<lparr>st_interactions := Idle\<rparr> else s
      | _ \<Rightarrow> s)"

section \<open>Plan reviews\<close>

definition review_opened :: "agent_state \<Rightarrow> jobj \<Rightarrow> agent_state" where
  "review_opened s payload =
     (case (nonEmptyStringField payload ''interactionId'', nonEmptyStringField payload ''toolCallId'',
          nonEmptyStringField payload ''taskId'') of
        (Some interactionId, Some toolCallId, Some taskId) \<Rightarrow>
          (case map_of (st_tasks s) taskId of None \<Rightarrow> s
           | Some task \<Rightarrow>
               (case draft_document (tk_planning task) of None \<Rightarrow> s
                | Some document \<Rightarrow>
                    if Some taskId \<noteq> st_activeTaskId s \<or> tk_status task \<noteq> TaskActive \<or>
                      \<not> is_safe_integer (fld payload ''version'') \<or> int_of (fld payload ''version'') < 1 \<or>
                      \<not> names_plan payload ''structuralDigest'' document \<or>
                      \<not> planTransportMatchesDocument (fld payload ''plan'') document \<or>
                      map_of (to_calls (st_tools s)) toolCallId = None then s
                    else (mark_call s toolCallId TAwaitingReview)\<lparr>
                      st_tasks := obj_set taskId (task\<lparr>tk_planning := AwaitingReview document interactionId toolCallId\<rparr>)
                        (st_tasks s),
                      st_interactions := AwaitingPlanReview interactionId toolCallId (text_of (fld document ''planId''))
                        (int_of (fld document ''version'')) (text_of (fld document ''structuralDigest''))
                        (canonicalPlan document) (plan_summary document) (as_record (fld document ''artifact''))\<rparr>))
      | _ \<Rightarrow> s)"

definition reviewed_task :: "agent_state \<Rightarrow> jobj \<Rightarrow> (task_state \<times> jobj) option" where
  "reviewed_task s payload =
     (if \<not> reviewIdentityMatches s payload then None
      else case active_task s of None \<Rightarrow> None
        | Some task \<Rightarrow> if tk_status task \<noteq> TaskActive then None
            else (case tk_planning task of AwaitingReview document i c \<Rightarrow> Some (task, document) | _ \<Rightarrow> None))"

definition review_approved :: "agent_state \<Rightarrow> jobj \<Rightarrow> agent_state" where
  "review_approved s payload =
     (case (reviewed_task s payload, execution_mode payload) of
        (Some (task, document), Some (name, mode)) \<Rightarrow>
          s\<lparr>st_tasks := obj_set (tk_taskId task) (task\<lparr>
              tk_planning := Executing document name (tn_turnId (st_turn s)), tk_executionMode := Some mode\<rparr>) (st_tasks s),
            st_interactions := Idle\<rparr>
      | _ \<Rightarrow> s)"

definition review_sent_back :: "agent_state \<Rightarrow> kernel_event \<Rightarrow> agent_state" where
  "review_sent_back s e =
     (case (reviewed_task s (ev_data e), review_feedback e) of
        (Some (task, document), Some feedback) \<Rightarrow>
          s\<lparr>st_tasks := obj_set (tk_taskId task) (task\<lparr>tk_planning := PlanningDraft document (Some feedback)\<rparr>) (st_tasks s),
            st_interactions := Idle\<rparr>
      | _ \<Rightarrow> s)"

section \<open>Provider actions\<close>

definition action_required :: "agent_state \<Rightarrow> jobj \<Rightarrow> agent_state" where
  "action_required s payload =
     (case (nonEmptyStringField payload ''interactionId'', nonEmptyStringField payload ''providerId'',
          nonEmptyStringField payload ''originatingToolCallId'') of
        (Some interactionId, Some providerId, Some toolCallId) \<Rightarrow>
          (case map_of (to_calls (st_tools s)) toolCallId of None \<Rightarrow> s
           | Some call \<Rightarrow>
               if st_interactions s \<noteq> Idle \<or> ''action'' \<notin> set (obj_keys payload) \<or> tc_status call \<noteq> TFailed then s
               else let waiting = s\<lparr>st_interactions :=
                      AwaitingProviderAction interactionId providerId (fld payload ''action'') toolCallId ''required''\<rparr> in
                 if list_ex (is_answer_to toolCallId) (ts_messages (st_transcript s)) then waiting
                 else appendToolTranscript waiting call)
      | _ \<Rightarrow> s)"

definition action_started :: "agent_state \<Rightarrow> jobj \<Rightarrow> agent_state" where
  "action_started s payload =
     (case st_interactions s of
        AwaitingProviderAction interactionId providerId action toolCallId status \<Rightarrow>
          if nonEmptyStringField payload ''interactionId'' \<noteq> Some interactionId then s
          else s\<lparr>st_interactions := AwaitingProviderAction interactionId providerId action toolCallId ''started''\<rparr>
      | _ \<Rightarrow> s)"

definition action_outcome :: "kernel_event \<Rightarrow> string" where
  "action_outcome e =
     (if ev_type e = ''provider.action_completed'' then ''completed''
      else if ev_type e = ''provider.action_deferred'' then ''deferred''
      else ''failed ('' @ or_default (stringField (ev_data e) ''failureCode'') [] @ '')'')"

definition action_settled :: "agent_state \<Rightarrow> kernel_event \<Rightarrow> agent_state" where
  "action_settled s e =
     (case st_interactions s of
        AwaitingProviderAction interactionId providerId action toolCallId status \<Rightarrow>
          if nonEmptyStringField (ev_data e) ''interactionId'' \<noteq> Some interactionId \<or>
             nonEmptyStringField (ev_data e) ''originatingToolCallId'' \<noteq> Some toolCallId then s
          else let failureIds = activeProviderFailureIds s toolCallId;
                   toolRecovery = (if ev_type e = ''provider.action_completed'' \<and> failureIds \<noteq> []
                     then recordToolOwnedProgress (st_toolRecovery s) ProviderRevision interactionId (Some failureIds)
                     else st_toolRecovery s) in
            appendRuntimeTranscript (s\<lparr>st_toolRecovery := toolRecovery, st_interactions := Idle\<rparr>)
              (''provider-action-'' @ interactionId)
              (''MCP provider '' @ [CHR 0x27] @ providerId @ [CHR 0x27] @ '' recovery '' @ action_outcome e @ ''.'')
      | _ \<Rightarrow> s)"

section \<open>Provider admissions\<close>

definition admission_record :: "string \<Rightarrow> string \<Rightarrow> jobj \<Rightarrow> jobj" where
  "admission_record interactionId providerId payload =
     [(''interactionId'', JStr interactionId), (''providerId'', JStr providerId),
      (''source'', fld payload ''source''), (''providerStatus'', fld payload ''providerStatus'')] @
     (if truthy (fld payload ''diagnosticCode'') then [(''diagnosticCode'', fld payload ''diagnosticCode'')] else []) @
     [(''retryable'', fld payload ''retryable'')]"

fun admission_open :: "interaction \<Rightarrow> bool" where
  "admission_open Idle = True"
| "admission_open (AwaitingProviderAdmission entry) = True"
| "admission_open _ = False"

definition admission_required :: "agent_state \<Rightarrow> jobj \<Rightarrow> agent_state" where
  "admission_required s payload =
     (case (nonEmptyStringField payload ''interactionId'', nonEmptyStringField payload ''providerId'') of
        (Some interactionId, Some providerId) \<Rightarrow>
          if \<not> admission_open (st_interactions s) \<or> fld (admission_waivers s) providerId \<noteq> JUndef \<or>
             list_ex (\<lambda>entry. vfld entry ''providerId'' = JStr providerId) (pending_admissions s) \<or>
             booleanField payload ''retryable'' = None then s
          else let entry = admission_record interactionId providerId payload in
            s\<lparr>st_providerAdmission := obj_set ''pending'' (JArr (pending_admissions s @ [JObj entry])) (st_providerAdmission s),
              st_interactions := (if st_interactions s = Idle then AwaitingProviderAdmission entry
                else st_interactions s)\<rparr>
      | _ \<Rightarrow> s)"

definition awaits_admission :: "agent_state \<Rightarrow> string \<Rightarrow> bool" where
  "awaits_admission s interactionId =
     (case st_interactions s of AwaitingProviderAdmission entry \<Rightarrow> fld entry ''interactionId'' = JStr interactionId
      | _ \<Rightarrow> False)"

definition retried_entry :: "jobj \<Rightarrow> string \<Rightarrow> jval \<Rightarrow> jval" where
  "retried_entry payload interactionId entry =
     (if \<not> names_interaction interactionId entry then entry
      else let updated = obj_set ''providerStatus'' (fld payload ''providerStatus'') (or_default (as_record entry) []) in
        JObj (if truthy (fld payload ''diagnosticCode'')
          then obj_set ''diagnosticCode'' (fld payload ''diagnosticCode'') updated else updated))"

definition admission_retry_failed :: "agent_state \<Rightarrow> jobj \<Rightarrow> agent_state" where
  "admission_retry_failed s payload =
     (case nonEmptyStringField payload ''interactionId'' of None \<Rightarrow> s
      | Some interactionId \<Rightarrow>
          if \<not> awaits_admission s interactionId then s
          else let pending = map (retried_entry payload interactionId) (pending_admissions s) in
            (case find (names_interaction interactionId) pending of None \<Rightarrow> s
             | Some current \<Rightarrow>
                 s\<lparr>st_providerAdmission := obj_set ''pending'' (JArr pending) (st_providerAdmission s),
                   st_interactions := AwaitingProviderAdmission (or_default (as_record current) [])\<rparr>))"

definition admission_satisfied :: "agent_state \<Rightarrow> jobj \<Rightarrow> agent_state" where
  "admission_satisfied s payload =
     (case nonEmptyStringField payload ''interactionId'' of None \<Rightarrow> s
      | Some interactionId \<Rightarrow>
          if awaits_admission s interactionId then settleProviderAdmission s interactionId None else s)"

text \<open>The interaction is of the provider the event names; both may name none.\<close>

definition same_provider :: "agent_state \<Rightarrow> string option \<Rightarrow> bool" where
  "same_provider s providerId =
     (case st_interactions s of
        AwaitingProviderAdmission entry \<Rightarrow>
          fld entry ''providerId'' = (case providerId of None \<Rightarrow> JUndef | Some p \<Rightarrow> JStr p)
      | _ \<Rightarrow> False)"

definition admission_cancelled :: "agent_state \<Rightarrow> jobj \<Rightarrow> agent_state" where
  "admission_cancelled s payload =
     (case nonEmptyStringField payload ''interactionId'' of None \<Rightarrow> s
      | Some interactionId \<Rightarrow>
          if awaits_admission s interactionId \<and> same_provider s (nonEmptyStringField payload ''providerId'')
          then settleProviderAdmission s interactionId None else s)"

definition waiver_text :: "string \<Rightarrow> string" where
  "waiver_text providerId =
     ''Required MCP provider '' @ [CHR 0x27] @ providerId @ [CHR 0x27] @ '' is unavailable. '' @
     ''The user waived it for this session; its capabilities remain unavailable.''"

definition admission_waived :: "agent_state \<Rightarrow> jobj \<Rightarrow> agent_state" where
  "admission_waived s payload =
     (case (nonEmptyStringField payload ''interactionId'', nonEmptyStringField payload ''providerId'',
          nonEmptyStringField payload ''waivedAt'') of
        (Some interactionId, Some providerId, Some waivedAt) \<Rightarrow>
          if \<not> awaits_admission s interactionId \<or> \<not> same_provider s (Some providerId) \<or>
             \<not> truthy (fld payload ''source'') \<or> \<not> truthy (fld payload ''reason'') \<or> \<not> isTimestamp waivedAt then s
          else let w = waiver_record providerId (fld payload ''source'') (fld payload ''reason'') waivedAt;
                   settled = settleProviderAdmission s interactionId (Some (providerId, w)) in
            add_message (settled\<lparr>st_providerAdmission := set_waiver providerId w (st_providerAdmission settled)\<rparr>)
              (runtime_message settled (''provider-admission-waiver-'' @ interactionId) waivedAt (waiver_text providerId))
      | _ \<Rightarrow> s)"

definition admissions_aborted :: "agent_state \<Rightarrow> jobj \<Rightarrow> agent_state" where
  "admissions_aborted s payload =
     (if nonEmptyStringField payload ''turnId'' \<noteq> Some (tn_turnId (st_turn s)) \<or> pending_admissions s = [] then s
      else s\<lparr>st_providerAdmission := obj_set ''pending'' (JArr []) (st_providerAdmission s),
        st_interactions := (case st_interactions s of AwaitingProviderAdmission entry \<Rightarrow> Idle | i \<Rightarrow> i)\<rparr>)"

section \<open>The reducer\<close>

definition reduceInteractionState :: "agent_state \<Rightarrow> kernel_event \<Rightarrow> agent_state" where
  "reduceInteractionState s e =
     (let payload = ev_data e; ty = ev_type e in
      if ty = ''user_input.requested'' then input_requested s payload
      else if ty = ''user_input.answered'' \<or> ty = ''user_input.cancelled'' then input_settled s payload
      else if ty = ''plan.review_requested'' then review_opened s payload
      else if ty = ''plan.approved'' then review_approved s payload
      else if ty = ''plan.revision_requested'' \<or> ty = ''plan.review_cancelled'' then review_sent_back s e
      else if ty = ''provider.action_required'' then action_required s payload
      else if ty = ''provider.action_started'' then action_started s payload
      else if ty = ''provider.action_completed'' \<or> ty = ''provider.action_deferred'' \<or> ty = ''provider.action_failed''
      then action_settled s e
      else if ty = ''provider.admission_required'' then admission_required s payload
      else if ty = ''provider.admission_retry_failed'' then admission_retry_failed s payload
      else if ty = ''provider.admission_satisfied'' then admission_satisfied s payload
      else if ty = ''provider.admission_cancelled'' then admission_cancelled s payload
      else if ty = ''provider.admission_waived'' then admission_waived s payload
      else if ty = ''turn.aborted'' then admissions_aborted s payload
      else s)"

end
