(* ===== verification/Kite_Verification.thy ===== *)
theory Kite_Verification
  imports Kite_Interaction
begin

text \<open>
  src/packages/agent-kernel/src/domains/verification/reducer.ts with verification-schema-facts.ts:
  requested verifications, their checks, repairs, waivers and compensation. A verification is stored
  as the JSON record the reducer builds (\<open>vr_facts\<close>); the other fields of the record are read off it.
  A mode the source does not know is neither required nor not required and reads as best effort. The
  TypeError the code raises on a specification without repair or checks is a thrown error.
\<close>

section \<open>Transient facts of one reducer pass\<close>

record reducer_facts =
  fa_allocatedTaskId :: "string option"
  fa_verificationSchemaAdmissions :: "jval list option"

definition no_reducer_facts :: reducer_facts where
  "no_reducer_facts = \<lparr>fa_allocatedTaskId = None, fa_verificationSchemaAdmissions = None\<rparr>"

definition verificationSchemaAdmissionDigest :: "js_host \<Rightarrow> jval \<Rightarrow> string res" where
  "verificationSchemaAdmissionDigest h v =
     (case json_stringify h v of None \<Rightarrow> throw ''Verification schema cannot be serialized.''
      | Some t \<Rightarrow> Inr (sha256Hex t))"

section \<open>Records\<close>

definition read_mode :: "jval \<Rightarrow> verification_mode" where
  "read_mode v = (if v = JStr ''required'' then Required else if v = JStr ''not_required'' then NotRequired
     else BestEffort)"

definition VERIFICATION_STATUSES :: "(string \<times> verification_status) list" where
  "VERIFICATION_STATUSES =
     [(''pending'', VPending), (''running'', VRunning), (''repair_pending'', VRepairPending), (''passed'', VPassed),
      (''failed'', VFailed), (''inconclusive'', VInconclusive), (''waived'', VWaived),
      (''compensating'', VCompensating), (''compensated'', VCompensated), (''budget_exhausted'', VBudgetExhausted)]"

definition read_status :: "jval \<Rightarrow> verification_status" where
  "read_status v =
     (case v of JStr t \<Rightarrow> or_default (map_of VERIFICATION_STATUSES t) VPending | _ \<Rightarrow> VPending)"

definition record_of :: "string \<Rightarrow> jobj \<Rightarrow> verification_record" where
  "record_of verificationId o' =
     \<lparr>vr_verificationId = verificationId, vr_taskId = stringField o' ''taskId'',
      vr_mode = read_mode (fld o' ''mode''), vr_status = read_status (fld o' ''status''),
      vr_spec = sub_record o' ''spec'', vr_requestedAt = or_default (stringField o' ''requestedAt'') [],
      vr_repairAttempts = or_default (numberField o' ''repairAttempts'') 0, vr_facts = o'\<rparr>"

definition withRecord :: "agent_state \<Rightarrow> string \<Rightarrow> jobj \<Rightarrow> agent_state" where
  "withRecord s verificationId o' =
     s\<lparr>st_verification := obj_set verificationId (record_of verificationId o') (st_verification s)\<rparr>"

definition appendInstruction :: "agent_state \<Rightarrow> string \<Rightarrow> string \<Rightarrow> agent_state" where
  "appendInstruction s verificationId instruction =
     add_message (s\<lparr>st_transcript := (st_transcript s)\<lparr>ts_final := None\<rparr>\<rparr>)
       (runtime_message s (''verification-'' @ verificationId @ ''-'' @ nat_digits (st_revision s))
         EPOCH_CREATED_AT instruction)"

section \<open>Specifications\<close>

definition has_key :: "jval \<Rightarrow> string \<Rightarrow> bool" where
  "has_key v key \<longleftrightarrow> (case v of JObj o' \<Rightarrow> key \<in> set (obj_keys o') | _ \<Rightarrow> False)"

definition schemaAdmissionDiagnostic ::
  "js_host \<Rightarrow> reducer_facts \<Rightarrow> nat \<Rightarrow> jval \<Rightarrow> string \<Rightarrow> string option res" where
  "schemaAdmissionDiagnostic h facts checkIndex schema target =
     (let admissions = or_default (fa_verificationSchemaAdmissions facts) [];
          admission = (if checkIndex < length admissions then admissions ! checkIndex else JUndef);
          digestKey = (if target = ''schema'' then ''schemaDigest'' else ''outputSchemaDigest'');
          diagnosticKey = (if target = ''schema'' then ''schemaDiagnostic'' else ''outputSchemaDiagnostic'') in
      if \<not> truthy admission \<or> \<not> has_key admission digestKey \<or> \<not> has_key admission diagnosticKey
      then Inr (Some (''Host admission fact is missing for VerificationSpec '' @ target @ ''.''))
      else bind_res (verificationSchemaAdmissionDigest h schema) (\<lambda>digest.
        if vfld admission digestKey \<noteq> JStr digest
        then Inr (Some (''Host admission fact identity mismatches VerificationSpec '' @ target @ ''.''))
        else Inr (as_string (vfld admission diagnosticKey))))"

definition CHECK_TYPES :: "string list" where
  "CHECK_TYPES = [''file_assertion'', ''command'', ''schema'', ''mcp_read_after_write'', ''external_reference'',
     ''receipt'', ''reviewer'']"

definition when_missing :: "jobj \<Rightarrow> string list \<Rightarrow> string \<Rightarrow> string list" where
  "when_missing check required message =
     (if list_ex (\<lambda>f. \<not> truthy (fld check f)) required then [message] else [])"

definition admission_lines :: "string \<Rightarrow> string option res \<Rightarrow> string list res" where
  "admission_lines checkId diagnostic =
     bind_res diagnostic (\<lambda>d. Inr (case truthy_option d of None \<Rightarrow> [] | Some t \<Rightarrow> [checkId @ '': '' @ t]))"

definition check_diagnostics ::
  "js_host \<Rightarrow> reducer_facts \<Rightarrow> string list \<Rightarrow> nat \<Rightarrow> jval \<Rightarrow> string list res" where
  "check_diagnostics h facts ids checkIndex candidate =
     (let check = or_default (as_record candidate) [];
          checkId = or_default (stringField check ''checkId'') [];
          ty = or_default (stringField check ''type'') [];
          common = (if checkId = [] then [''Every verification check requires checkId.''] else []) @
            (if checkId \<in> set ids then [''Duplicate verification check '' @ [CHR 0x27] @ checkId @ [CHR 0x27] @ ''.''] else []) @
            (if ty \<notin> set CHECK_TYPES then [''Unsupported check type '' @ [CHR 0x27] @ ty @ [CHR 0x27] @ ''.''] else []);
          own = (if ty = ''file_assertion''
            then Inr (when_missing check [''path''] (checkId @ '': path is required.'') @
              (if fld check ''assertion'' = JStr ''sha256_equals''
               then when_missing check [''expectedDigest''] (checkId @ '': expectedDigest is required.'') else []))
            else if ty = ''command'' then Inr (when_missing check [''command''] (checkId @ '': command is required.''))
            else if ty = ''schema''
            then admission_lines checkId (schemaAdmissionDiagnostic h facts checkIndex (fld check ''schema'') ''schema'')
            else if ty = ''mcp_read_after_write''
            then bind_res (if truthy (fld check ''outputSchema'')
                then admission_lines checkId
                  (schemaAdmissionDiagnostic h facts checkIndex (fld check ''outputSchema'') ''outputSchema'')
                else Inr [])
              (\<lambda>lines. Inr (when_missing check [''invocationId'', ''capabilityId'', ''capabilityRevision'']
                 (checkId @ '': invocation and capability identity are required.'') @ lines))
            else if ty = ''external_reference'' \<or> ty = ''receipt''
            then Inr (when_missing check [''invocationId''] (checkId @ '': invocationId is required.''))
            else if ty = ''reviewer''
            then Inr (when_missing check [''instructions''] (checkId @ '': legacy reviewer instructions are required.''))
            else Inr []) in
      bind_res own (\<lambda>lines. Inr (common @ lines)))"

fun checks_diagnostics ::
  "js_host \<Rightarrow> reducer_facts \<Rightarrow> string list \<Rightarrow> nat \<Rightarrow> jval list \<Rightarrow> string list res" where
  "checks_diagnostics h facts ids i [] = Inr []"
| "checks_diagnostics h facts ids i (candidate # rest) =
     bind_res (check_diagnostics h facts ids i candidate) (\<lambda>lines.
       bind_res (checks_diagnostics h facts (or_default (as_string (vfld candidate ''checkId'')) [] # ids) (Suc i) rest)
         (\<lambda>later. Inr (lines @ later)))"

definition validateVerificationSpec :: "js_host \<Rightarrow> jval \<Rightarrow> reducer_facts \<Rightarrow> string list res" where
  "validateVerificationSpec h specValue facts =
     (case specValue of
        JObj spec \<Rightarrow>
          let maxAttempts = vfld (fld spec ''repair'') ''maxAttempts'' in
          if nullish (fld spec ''repair'') then throw ''TypeError''
          else (case fld spec ''checks'' of
              JArr checks \<Rightarrow>
                bind_res (checks_diagnostics h facts [] 0 checks) (\<lambda>lines.
                  Inr ((if fld spec ''schemaVersion'' \<noteq> JNum 1 then [''Unsupported VerificationSpec schema version.''] else []) @
                    when_missing spec [''verificationId''] ''verificationId is required.'' @
                    when_missing spec [''subject''] ''subject is required.'' @
                    (if \<not> is_integer maxAttempts \<or> int_of maxAttempts < 0
                     then [''repair.maxAttempts must be a non-negative integer.''] else []) @
                    (if checks = [] then [''At least one verification check is required.''] else []) @ lines))
            | _ \<Rightarrow> throw ''TypeError'')
      | _ \<Rightarrow> throw ''TypeError'')"

section \<open>Events\<close>

definition requested_record ::
  "string \<Rightarrow> string option \<Rightarrow> jobj \<Rightarrow> string list \<Rightarrow> jobj" where
  "requested_record verificationId taskId payload diagnostics =
     [(''verificationId'', JStr verificationId)] @
     (case taskId of None \<Rightarrow> [] | Some t \<Rightarrow> [(''taskId'', JStr t)]) @
     [(''mode'', fld payload ''mode''),
      (''status'', JStr (if fld payload ''mode'' = JStr ''not_required'' then ''passed''
         else if diagnostics \<noteq> [] then ''budget_exhausted'' else ''pending'')),
      (''spec'', fld payload ''spec''), (''requestedAt'', string_value payload ''requestedAt''),
      (''attempts'', JNum 0), (''repairAttempts'', JNum 0), (''checkResults'', JObj [])] @
     (if diagnostics \<noteq> [] then [(''diagnostics'', JArr (map JStr diagnostics))] else [])"

definition verification_requested ::
  "js_host \<Rightarrow> reducer_facts \<Rightarrow> agent_state \<Rightarrow> string \<Rightarrow> jobj \<Rightarrow> agent_state res" where
  "verification_requested h facts s verificationId payload =
     (let taskId = nonEmptyStringField payload ''taskId'' in
      if map_of (st_verification s) verificationId \<noteq> None \<or> taskId \<noteq> None \<and> taskId \<noteq> st_activeTaskId s then Inr s
      else bind_res (validateVerificationSpec h (fld payload ''spec'') facts) (\<lambda>diagnostics.
        Inr (withRecord s verificationId (requested_record verificationId taskId payload diagnostics))))"

definition status_of :: "jobj \<Rightarrow> string" where
  "status_of o' = or_default (stringField o' ''status'') []"

definition non_negative_integer :: "jval \<Rightarrow> bool" where
  "non_negative_integer v \<longleftrightarrow> is_safe_integer v \<and> int_of v \<ge> 0"

definition number_or_zero :: "jobj \<Rightarrow> string \<Rightarrow> rat" where
  "number_or_zero o' f = or_default (numberField o' f) 0"

definition verification_started :: "jobj \<Rightarrow> jobj \<Rightarrow> jobj option" where
  "verification_started current payload =
     (if status_of current \<notin> {''pending'', ''running'', ''repair_pending''} \<or>
         \<not> non_negative_integer (fld payload ''attempt'') then None
      else Some (obj_set ''completedAt'' JUndef (obj_set ''checkResults'' (JObj [])
        (obj_set ''attempts'' (JNum (max (number_or_zero current ''attempts'') (number_or_zero payload ''attempt'')))
          (obj_set ''status'' (JStr ''running'') current)))))"

definition check_completed :: "jobj \<Rightarrow> jobj \<Rightarrow> jobj option" where
  "check_completed current payload =
     (if status_of current \<noteq> ''running'' then None
      else case recordField payload ''result'' of None \<Rightarrow> None
        | Some result \<Rightarrow> map_option (\<lambda>checkId. obj_set ''checkResults''
            (JObj (obj_set checkId (JObj result) (sub_record current ''checkResults''))) current)
            (nonEmptyStringField result ''checkId''))"

definition completed_status :: "jobj \<Rightarrow> string \<Rightarrow> string" where
  "completed_status current outcome =
     (if outcome = ''passed'' then ''passed''
      else if stringField current ''mode'' = Some ''required'' \<and>
        (case numberField (sub_record (sub_record current ''spec'') ''repair'') ''maxAttempts'' of None \<Rightarrow> False
         | Some maxAttempts \<Rightarrow> number_or_zero current ''repairAttempts'' \<ge> maxAttempts) then ''budget_exhausted''
      else if outcome = ''failed'' then ''failed'' else ''inconclusive'')"

definition verification_completed :: "jobj \<Rightarrow> jobj \<Rightarrow> jobj option" where
  "verification_completed current payload =
     (case stringField payload ''outcome'' of None \<Rightarrow> None
      | Some outcome \<Rightarrow>
          if status_of current \<noteq> ''running'' \<or> outcome \<notin> {''passed'', ''failed'', ''inconclusive''} then None
          else Some (obj_set ''completedAt'' (string_value payload ''completedAt'')
            (obj_set ''status'' (JStr (completed_status current outcome)) current)))"

definition repair_requested :: "jobj \<Rightarrow> jobj \<Rightarrow> (jobj \<times> string) option" where
  "repair_requested current payload =
     (case stringField payload ''instruction'' of None \<Rightarrow> None
      | Some instruction \<Rightarrow>
          if status_of current \<notin> {''failed'', ''inconclusive''} \<or>
            \<not> non_negative_integer (fld payload ''repairAttempt'') then None
          else Some (obj_set ''repairAttempts''
              (JNum (max (number_or_zero current ''repairAttempts'') (number_or_zero payload ''repairAttempt'')))
              (obj_set ''status'' (JStr ''repair_pending'') current), instruction))"

definition verification_replan :: "jobj \<Rightarrow> jobj \<Rightarrow> (jobj \<times> string) option" where
  "verification_replan current payload =
     (case stringField payload ''instruction'' of None \<Rightarrow> None
      | Some instruction \<Rightarrow>
          if status_of current \<in> {''passed'', ''waived''} then None
          else Some (obj_set ''repairAttempts'' (JNum 0) (obj_set ''status'' (JStr ''repair_pending'') current), instruction))"

definition verification_waived :: "jobj \<Rightarrow> jobj \<Rightarrow> jobj option" where
  "verification_waived current payload =
     (case (nonEmptyStringField payload ''reason'', nonEmptyStringField payload ''waivedAt'') of
        (Some reason, Some waivedAt) \<Rightarrow>
          if status_of current = ''passed'' \<or> stringField payload ''actor'' \<noteq> Some ''user'' then None
          else Some (obj_set ''waiver''
            (JObj [(''actor'', JStr ''user''), (''reason'', JStr reason), (''waivedAt'', JStr waivedAt)])
            (obj_set ''status'' (JStr ''waived'') current))
      | _ \<Rightarrow> None)"

definition compensation_requested :: "jobj \<Rightarrow> jobj option" where
  "compensation_requested current =
     (case recordField current ''spec'' of None \<Rightarrow> None
      | Some spec \<Rightarrow>
          if recordField spec ''compensation'' = None \<or>
            status_of current \<notin> {''failed'', ''inconclusive'', ''budget_exhausted''} then None
          else Some (obj_set ''status'' (JStr ''compensating'') current))"

definition compensation_completed :: "jobj \<Rightarrow> jobj \<Rightarrow> jobj option" where
  "compensation_completed current payload =
     (case (stringField payload ''outcome'', stringField payload ''summary'', stringField payload ''completedAt'') of
        (Some outcome, Some summary, Some completedAt) \<Rightarrow>
          if status_of current \<noteq> ''compensating'' \<or> outcome \<notin> {''passed'', ''failed'', ''inconclusive''} then None
          else Some (obj_set ''compensation''
            (JObj [(''outcome'', JStr outcome), (''summary'', JStr summary), (''completedAt'', JStr completedAt)])
            (obj_set ''status'' (JStr ''compensated'') current))
      | _ \<Rightarrow> None)"

section \<open>The reducer\<close>

definition change_record :: "agent_state \<Rightarrow> string \<Rightarrow> jobj option \<Rightarrow> agent_state" where
  "change_record s verificationId changed =
     (case changed of None \<Rightarrow> s | Some o' \<Rightarrow> withRecord s verificationId o')"

definition instruct :: "agent_state \<Rightarrow> string \<Rightarrow> (jobj \<times> string) option \<Rightarrow> agent_state" where
  "instruct s verificationId changed =
     (case changed of None \<Rightarrow> s
      | Some (o', instruction) \<Rightarrow> appendInstruction (withRecord s verificationId o') verificationId instruction)"

definition reduceVerificationState ::
  "js_host \<Rightarrow> reducer_facts \<Rightarrow> agent_state \<Rightarrow> kernel_event \<Rightarrow> agent_state res" where
  "reduceVerificationState h facts s e =
     (let payload = ev_data e; ty = ev_type e in
      case nonEmptyStringField payload ''verificationId'' of None \<Rightarrow> Inr s
      | Some verificationId \<Rightarrow>
          if ty = ''verification.requested'' then verification_requested h facts s verificationId payload
          else Inr (case map_of (st_verification s) verificationId of None \<Rightarrow> s
            | Some r \<Rightarrow>
                let current = vr_facts r in
                if ty = ''verification.started'' then change_record s verificationId (verification_started current payload)
                else if ty = ''verification.check_completed''
                then change_record s verificationId (check_completed current payload)
                else if ty = ''verification.completed''
                then change_record s verificationId (verification_completed current payload)
                else if ty = ''verification.repair_requested'' then instruct s verificationId (repair_requested current payload)
                else if ty = ''verification.replan_requested'' then instruct s verificationId (verification_replan current payload)
                else if ty = ''verification.waived'' then change_record s verificationId (verification_waived current payload)
                else if ty = ''verification.compensation_requested''
                then change_record s verificationId (compensation_requested current)
                else if ty = ''verification.compensation_completed''
                then change_record s verificationId (compensation_completed current payload)
                else s))"

end
