(* ===== verification/Kite_Capability.thy ===== *)
theory Kite_Capability
  imports Kite_Verification
begin

text \<open>
  src/packages/agent-kernel/src/domains/capability/reducer.ts: the capabilities offered to the model
  and the invocations of capabilities with the evidence they leave behind (file system intents,
  sandbox preparation, dispatch and disposal, subagent dispatch and cleanup, results). An invocation
  is the JSON record the reducer builds (\<open>ci_facts\<close>); the other fields are read off it. Where the
  source reads a property of an evidence record after an optional access has compared a digest, the
  event codec has made sure that the digest is present, so the record exists.
\<close>

section \<open>Keyed entries\<close>

definition entries_of :: "jval \<Rightarrow> jval list" where
  "entries_of v = (case v of JArr vs \<Rightarrow> vs | JObj o' \<Rightarrow> obj_values o' | _ \<Rightarrow> [])"

definition keyed_entry :: "string list \<Rightarrow> jval \<Rightarrow> jobj option" where
  "keyed_entry names entry =
     (let candidate = or_default (as_record entry) [] in
      if list_all (\<lambda>f. nonEmptyStringField candidate f \<noteq> None) names
      then Some (map (\<lambda>f. (f, fld candidate f)) names) else None)"

definition keyed :: "string \<Rightarrow> string list \<Rightarrow> jval \<Rightarrow> jobj" where
  "keyed key names v =
     foldl (\<lambda>result entry. case keyed_entry names entry of None \<Rightarrow> result
       | Some o' \<Rightarrow> obj_set (text_of (fld o' key)) (JObj o') result) [] (entries_of v)"

definition keyedBindings :: "jval \<Rightarrow> jobj" where
  "keyedBindings = keyed ''bindingId''
     [''bindingId'', ''capabilityId'', ''capabilityRevision'', ''exposedToolName'', ''schemaDigest'', ''issuedForTurnId'']"

definition keyedDisclosures :: "jval \<Rightarrow> jobj" where
  "keyedDisclosures = keyed ''capabilityId'' [''capabilityId'', ''capabilityRevision'', ''issuedForTurnId'']"

definition keyedLoadedCapabilities :: "jval \<Rightarrow> jobj" where
  "keyedLoadedCapabilities = keyed ''capabilityId'' [''capabilityId'', ''capabilityRevision'', ''firstLoadedAtTurnId'']"

definition isCapabilityEvent :: "string \<Rightarrow> bool" where
  "isCapabilityEvent ty \<longleftrightarrow> ty \<in> set
     [''capability.bindings_issued'', ''capability.search_completed'', ''capability.invocation_recorded'',
      ''capability.execution_started'', ''capability.filesystem_intent_recorded'',
      ''capability.filesystem_mutation_ready'', ''capability.sandbox_preparation_intent_recorded'',
      ''capability.sandbox_preparation_ready'', ''capability.sandbox_execution_dispatch_intent_recorded'',
      ''capability.sandbox_execution_supervisor_started'', ''capability.sandbox_disposal_started'',
      ''capability.sandbox_disposal_completed'', ''capability.sandbox_preparation_abandonment_started'',
      ''capability.sandbox_preparation_abandonment_completed'', ''capability.subagent_dispatch_intent_recorded'',
      ''capability.subagent_handle_recorded'', ''capability.subagent_observation_recorded'',
      ''capability.subagent_cleanup_started'', ''capability.subagent_cleanup_completed'',
      ''capability.execution_result_recorded'', ''capability.execution_succeeded'', ''capability.execution_failed'',
      ''capability.execution_unknown'', ''capability.reconciliation_resolved'']"

section \<open>Capabilities on offer\<close>

definition bindings_issued :: "agent_state \<Rightarrow> jobj \<Rightarrow> agent_state" where
  "bindings_issued s payload =
     (case nonEmptyStringField payload ''catalogRevision'' of None \<Rightarrow> s
      | Some catalogRevision \<Rightarrow>
          let pendingSearch = fld (st_capabilities s) ''pendingSearch'' in
          s\<lparr>st_capabilities :=
            [(''catalogRevision'', JStr catalogRevision),
             (''bindings'', JObj (keyedBindings (fld payload ''bindings''))),
             (''disclosures'', JObj (keyedDisclosures (fld payload ''disclosures''))),
             (''loadedCapabilities'', if nullish (fld payload ''loadedCapabilities'')
                then fld (st_capabilities s) ''loadedCapabilities''
                else JObj (keyedLoadedCapabilities (fld payload ''loadedCapabilities'')))] @
            (if string_value payload ''searchId'' = vfld pendingSearch ''searchId'' \<or> \<not> truthy pendingSearch then []
             else [(''pendingSearch'', pendingSearch)])\<rparr>)"

definition search_completed :: "agent_state \<Rightarrow> jobj \<Rightarrow> agent_state" where
  "search_completed s payload =
     s\<lparr>st_capabilities := obj_set ''pendingSearch'' (fld payload ''result'') (st_capabilities s)\<rparr>"

section \<open>Invocations\<close>

definition invocation_of :: "string \<Rightarrow> jobj \<Rightarrow> capability_invocation" where
  "invocation_of invocationId o' =
     \<lparr>ci_invocationId = invocationId, ci_toolCallId = text_of (fld o' ''toolCallId''),
      ci_capabilityId = text_of (fld o' ''capabilityId''), ci_capabilityRevision = text_of (fld o' ''capabilityRevision''),
      ci_taskId = stringField o' ''taskId'', ci_status = text_of (fld o' ''status''),
      ci_subagentLifecycleStatus = as_string (vfld (fld o' ''subagentProviderLifecycle'') ''status''), ci_facts = o'\<rparr>"

definition copied :: "string list \<Rightarrow> jobj \<Rightarrow> jobj" where
  "copied names payload = map (\<lambda>f. (f, fld payload f)) names"

definition copied_if_truthy :: "string list \<Rightarrow> jobj \<Rightarrow> jobj" where
  "copied_if_truthy names payload = copied (filter (\<lambda>f. truthy (fld payload f)) names) payload"

definition recorded_invocation :: "string \<Rightarrow> jobj \<Rightarrow> jobj" where
  "recorded_invocation invocationId payload =
     [(''invocationId'', JStr invocationId)] @
     copied [''toolCallId'', ''capabilityId'', ''capabilityRevision''] payload @
     copied_if_truthy [''taskId'', ''planId'', ''planStepId''] payload @
     copied [''argumentsDigest'', ''authorizationDigest''] payload @
     copied_if_truthy [''admissionDigest''] payload @
     copied [''effectiveEffectsDigest''] payload @
     copied_if_truthy [''receiptRequirement'', ''retryEligibility''] payload @
     [(''status'', JStr ''recorded''), (''recordedAt'', fld payload ''recordedAt'')] @
     copied_if_truthy [''idempotencyKey''] payload"

definition invocation_recorded :: "agent_state \<Rightarrow> jobj \<Rightarrow> agent_state" where
  "invocation_recorded s payload =
     (case nonEmptyStringField payload ''invocationId'' of None \<Rightarrow> s
      | Some invocationId \<Rightarrow>
          if map_of (st_invocations s) invocationId \<noteq> None then s
          else s\<lparr>st_invocations := obj_set invocationId
            (invocation_of invocationId (recorded_invocation invocationId payload)) (st_invocations s)\<rparr>)"

definition updateCapabilityInvocation :: "agent_state \<Rightarrow> string \<Rightarrow> (jobj \<Rightarrow> jobj) \<Rightarrow> agent_state" where
  "updateCapabilityInvocation s invocationId update =
     (case map_of (st_invocations s) invocationId of None \<Rightarrow> s
      | Some invocation \<Rightarrow> s\<lparr>st_invocations := obj_set invocationId
          (invocation_of invocationId (update (ci_facts invocation))) (st_invocations s)\<rparr>)"

text \<open>\<open>\{...o, ...changes\}\<close>\<close>

definition spread :: "jobj \<Rightarrow> jobj \<Rightarrow> jobj" where
  "spread o' changes = foldl (\<lambda>acc (f, v). obj_set f v acc) o' changes"

definition part :: "jobj \<Rightarrow> string \<Rightarrow> string \<Rightarrow> jval" where
  "part invocation evidence f = vfld (fld invocation evidence) f"

definition is_running :: "jobj \<Rightarrow> bool" where
  "is_running invocation \<longleftrightarrow> fld invocation ''status'' = JStr ''running''"

definition current_attempt :: "jobj \<Rightarrow> rat \<Rightarrow> bool" where
  "current_attempt invocation attempt \<longleftrightarrow>
     is_running invocation \<and> fld invocation ''attemptsStarted'' = JNum attempt"

definition cleanup_open :: "jobj \<Rightarrow> bool" where
  "cleanup_open invocation \<longleftrightarrow>
     truthy (fld invocation ''sandboxPreparationReady'') \<and>
       part invocation ''sandboxDisposal'' ''status'' \<noteq> JStr ''completed'' \<or>
     truthy (fld invocation ''sandboxPreparationIntent'') \<and> \<not> truthy (fld invocation ''sandboxPreparationReady'') \<and>
       part invocation ''sandboxPreparationAbandonment'' ''status'' \<noteq> JStr ''completed'' \<or>
     truthy (fld invocation ''subagentProviderLifecycle'') \<and>
       part invocation ''subagentProviderLifecycle'' ''status'' \<noteq> JStr ''cleanup_completed''"

definition ATTEMPT_EVIDENCE :: "string list" where
  "ATTEMPT_EVIDENCE = [''filesystemIntent'', ''filesystemMutationReady'', ''sandboxPreparationIntent'',
     ''sandboxPreparationReady'', ''sandboxExecutionDispatch'', ''sandboxDisposal'',
     ''sandboxPreparationAbandonment'', ''subagentProviderLifecycle'']"

definition execution_started :: "jobj \<Rightarrow> jobj \<Rightarrow> jobj" where
  "execution_started payload invocation =
     (if fld invocation ''status'' \<notin> {JStr ''recorded'', JStr ''running''} \<or> cleanup_open invocation then invocation
      else let priorAttempt = number_or_zero invocation ''attemptsStarted'';
               eventAttempt = numberField payload ''attempt'';
               attemptsStarted = (case eventAttempt of None \<Rightarrow> priorAttempt | Some a \<Rightarrow> max priorAttempt a) in
        spread invocation
          ([(''status'', JStr ''running''),
            (''startedAt'', coalesce (fld invocation ''startedAt'') (fld payload ''startedAt''))] @
           (if eventAttempt \<noteq> None then [(''attemptsStarted'', JNum attemptsStarted)] else []) @
           (if attemptsStarted > priorAttempt then map (\<lambda>f. (f, JUndef)) ATTEMPT_EVIDENCE else [])))"

section \<open>Evidence of file system and sandbox\<close>

definition filesystem_intent :: "jobj \<Rightarrow> rat \<Rightarrow> jobj \<Rightarrow> jobj" where
  "filesystem_intent payload attempt invocation =
     (if current_attempt invocation attempt
      then spread invocation
        [(''filesystemIntent'', JObj ((''attempt'', JNum attempt) # copied
            [''capabilityRevision'', ''argumentsDigest'', ''admissionDigest'', ''operationDigest'',
             ''searchBoundaryDigest'', ''lexicalTargetDigest'', ''canonicalWorkspaceDigest'', ''protectedPathRevision'',
             ''approvalSummaryDigest'', ''effectiveEffectsDigest'', ''intentDigest'', ''recordedAt''] payload)),
         (''filesystemMutationReady'', JUndef)]
      else invocation)"

definition filesystem_ready :: "jobj \<Rightarrow> rat \<Rightarrow> jobj \<Rightarrow> jobj" where
  "filesystem_ready payload attempt invocation =
     (if current_attempt invocation attempt \<and> part invocation ''filesystemIntent'' ''attempt'' = JNum attempt \<and>
        part invocation ''filesystemIntent'' ''intentDigest'' = fld payload ''intentDigest''
      then spread invocation
        [(''filesystemMutationReady'', JObj ((''attempt'', JNum attempt) # copied
            [''intentDigest'', ''operationDigest'', ''targetIdentityDigest'', ''preimageDigest'', ''preimageArtifact'',
             ''readyDigest'', ''readyAt''] payload))]
      else invocation)"

definition sandbox_intent :: "jobj \<Rightarrow> rat \<Rightarrow> jobj \<Rightarrow> jobj" where
  "sandbox_intent payload attempt invocation =
     (if current_attempt invocation attempt \<and> fld invocation ''capabilityId'' = JStr ''builtin:shell_execute'' \<and>
        list_all (\<lambda>f. fld invocation f = fld payload f)
          [''toolCallId'', ''capabilityId'', ''capabilityRevision'', ''effectiveEffectsDigest'', ''admissionDigest'']
      then spread invocation
        [(''sandboxPreparationIntent'', JObj ((''attempt'', JNum attempt) # copied
            [''toolCallId'', ''capabilityId'', ''capabilityRevision'', ''canonicalWorkspace'', ''effectiveEffectsDigest'',
             ''admissionDigest'', ''preparationDigest'', ''commandDigest'', ''executionBoundaryDigest'',
             ''resourceSemantics'', ''intentDigest'', ''recordedAt''] payload)),
         (''sandboxPreparationReady'', JUndef)]
      else invocation)"

definition sandbox_ready :: "jobj \<Rightarrow> rat \<Rightarrow> jobj \<Rightarrow> jobj" where
  "sandbox_ready payload attempt invocation =
     (if current_attempt invocation attempt \<and> fld invocation ''capabilityId'' = JStr ''builtin:shell_execute'' \<and>
        part invocation ''sandboxPreparationIntent'' ''intentDigest'' = fld payload ''intentDigest''
      then spread invocation
        [(''sandboxPreparationReady'', JObj ((''attempt'', JNum attempt) # copied
            [''intentDigest'', ''preparationDigest'', ''commandDigest'', ''planDigest'', ''backend'',
             ''backendCapabilitiesDigest'', ''enforcement'', ''resourceSemantics'', ''cleanupDigest'',
             ''preparationArtifact'', ''readyDigest'', ''readyAt''] payload))]
      else invocation)"

definition sandbox_dispatch :: "jobj \<Rightarrow> rat \<Rightarrow> jobj \<Rightarrow> jobj" where
  "sandbox_dispatch payload attempt invocation =
     (if current_attempt invocation attempt \<and>
        part invocation ''sandboxPreparationReady'' ''readyDigest'' = fld payload ''readyDigest'' \<and>
        part invocation ''sandboxPreparationReady'' ''planDigest'' = fld payload ''planDigest'' \<and>
        fld invocation ''sandboxExecutionDispatch'' = JUndef
      then spread invocation
        [(''sandboxExecutionDispatch'', JObj ((''attempt'', JNum attempt) #
            copied [''readyDigest'', ''planDigest'', ''dispatchId'', ''supervisorNonce'', ''dispatchIntentDigest''] payload @
            [(''status'', JStr ''intent_recorded''), (''recordedAt'', fld payload ''recordedAt'')]))]
      else invocation)"

definition evidence :: "jobj \<Rightarrow> string \<Rightarrow> jobj" where
  "evidence invocation name = sub_record invocation name"

definition supervisor_started :: "jobj \<Rightarrow> rat \<Rightarrow> jobj \<Rightarrow> jobj" where
  "supervisor_started payload attempt invocation =
     (let dispatch = evidence invocation ''sandboxExecutionDispatch'' in
      if fld dispatch ''status'' = JStr ''intent_recorded'' \<and> fld dispatch ''attempt'' = JNum attempt \<and>
        fld dispatch ''dispatchId'' = fld payload ''dispatchId'' \<and>
        fld dispatch ''dispatchIntentDigest'' = fld payload ''dispatchIntentDigest''
      then spread invocation
        [(''sandboxExecutionDispatch'', JObj (spread dispatch
            ((''status'', JStr ''supervisor_started'') #
             copied [''supervisorPid'', ''processGroupId'', ''processStartIdentity''] payload @
             [(''supervisorStartedAt'', fld payload ''startedAt'')])))]
      else invocation)"

text \<open>Disposal of a prepared sandbox and abandonment of a preparation share their shape.\<close>

definition cleanup_record :: "string \<Rightarrow> jobj \<Rightarrow> rat \<Rightarrow> jval" where
  "cleanup_record digest payload attempt =
     JObj ((''attempt'', JNum attempt) # copied [digest, ''lifecycleIntentDigest''] payload @
       [(''status'', JStr ''pending''), (''startedAt'', fld payload ''startedAt''), (''attempts'', JNum 0)])"

definition disposal_started :: "jobj \<Rightarrow> rat \<Rightarrow> jobj \<Rightarrow> jobj" where
  "disposal_started payload attempt invocation =
     (if part invocation ''sandboxPreparationReady'' ''readyDigest'' = fld payload ''readyDigest'' \<and>
        part invocation ''sandboxPreparationReady'' ''attempt'' = JNum attempt \<and>
        fld invocation ''sandboxDisposal'' = JUndef
      then spread invocation [(''sandboxDisposal'', cleanup_record ''readyDigest'' payload attempt)]
      else invocation)"

definition abandonment_started :: "jobj \<Rightarrow> rat \<Rightarrow> jobj \<Rightarrow> jobj" where
  "abandonment_started payload attempt invocation =
     (if part invocation ''sandboxPreparationIntent'' ''intentDigest'' = fld payload ''intentDigest'' \<and>
        part invocation ''sandboxPreparationIntent'' ''attempt'' = JNum attempt \<and>
        fld invocation ''sandboxPreparationReady'' = JUndef \<and>
        fld invocation ''sandboxPreparationAbandonment'' = JUndef
      then spread invocation [(''sandboxPreparationAbandonment'', cleanup_record ''intentDigest'' payload attempt)]
      else invocation)"

definition cleanup_completed ::
  "string \<Rightarrow> string \<Rightarrow> jobj \<Rightarrow> rat \<Rightarrow> rat \<Rightarrow> jobj \<Rightarrow> jobj" where
  "cleanup_completed name digest payload attempt cleanupAttempt invocation =
     (let cleanup = evidence invocation name; disposed = truthy (fld payload ''disposed'') in
      if fld cleanup ''status'' = JStr ''pending'' \<and> fld cleanup digest = fld payload digest \<and>
        fld cleanup ''attempt'' = JNum attempt \<and>
        fld cleanup ''lifecycleIntentDigest'' = fld payload ''lifecycleIntentDigest'' \<and>
        JNum cleanupAttempt = js_plus_one (fld cleanup ''attempts'')
      then spread invocation [(name, JObj (spread cleanup
        ([(''status'', JStr (if disposed then ''completed'' else ''pending'')),
          (''attempts'', js_plus_one (fld cleanup ''attempts''))] @
         (if disposed then [(''disposedAt'', fld payload ''disposedAt''), (''lastFailureAt'', JUndef)]
          else [(''disposedAt'', JUndef), (''lastFailureAt'', fld payload ''disposedAt'')]))))]
      else invocation)"

section \<open>Subagents\<close>

definition same_dispatch :: "jobj \<Rightarrow> jobj \<Rightarrow> rat \<Rightarrow> bool" where
  "same_dispatch lifecycle payload attempt \<longleftrightarrow>
     fld lifecycle ''attempt'' = JNum attempt \<and>
     fld lifecycle ''dispatchIntentDigest'' = fld payload ''dispatchIntentDigest''"

definition set_lifecycle :: "jobj \<Rightarrow> jobj \<Rightarrow> jobj" where
  "set_lifecycle invocation lifecycle = spread invocation [(''subagentProviderLifecycle'', JObj lifecycle)]"

definition subagent_dispatch :: "jobj \<Rightarrow> rat \<Rightarrow> jobj \<Rightarrow> jobj" where
  "subagent_dispatch payload attempt invocation =
     (if current_attempt invocation attempt \<and>
        fld invocation ''capabilityId'' \<in> {JStr ''builtin:task'', JStr ''builtin:activate_skill''} \<and>
        fld invocation ''subagentProviderLifecycle'' = JUndef
      then set_lifecycle invocation ((''attempt'', JNum attempt) #
        copied [''purpose'', ''childInvocationId'', ''taskArtifact'', ''dispatchIntentDigest''] payload @
        [(''status'', JStr ''intent_recorded''), (''recordedAt'', fld payload ''recordedAt'')])
      else invocation)"

definition subagent_handle :: "jobj \<Rightarrow> rat \<Rightarrow> jobj \<Rightarrow> jobj" where
  "subagent_handle payload attempt invocation =
     (let lifecycle = evidence invocation ''subagentProviderLifecycle'' in
      if fld lifecycle ''status'' = JStr ''intent_recorded'' \<and> same_dispatch lifecycle payload attempt
      then set_lifecycle invocation (spread lifecycle
        ((''status'', JStr ''handle_recorded'') # copied [''handleArtifact'', ''handleIntegrityIdentifier''] payload @
         [(''handleRecordedAt'', fld payload ''recordedAt'')]))
      else invocation)"

definition subagent_observed :: "jobj \<Rightarrow> rat \<Rightarrow> jobj \<Rightarrow> jobj" where
  "subagent_observed payload attempt invocation =
     (let lifecycle = evidence invocation ''subagentProviderLifecycle'' in
      if fld lifecycle ''status'' = JStr ''handle_recorded'' \<and> same_dispatch lifecycle payload attempt
      then set_lifecycle invocation (spread lifecycle
        [(''status'', JStr ''observed''), (''observationStatus'', fld payload ''status''),
         (''observedAt'', fld payload ''observedAt'')])
      else invocation)"

definition subagent_cleanup_started :: "jobj \<Rightarrow> rat \<Rightarrow> rat \<Rightarrow> jobj \<Rightarrow> jobj" where
  "subagent_cleanup_started payload attempt cleanupAttempt invocation =
     (let lifecycle = evidence invocation ''subagentProviderLifecycle'' in
      if truthy (fld invocation ''subagentProviderLifecycle'') \<and> same_dispatch lifecycle payload attempt \<and>
        JNum cleanupAttempt = js_plus_one (coalesce (fld lifecycle ''cleanupAttempt'') (JNum 0))
      then set_lifecycle invocation (spread lifecycle
        [(''status'', JStr ''cleanup_pending''), (''cleanupAttempt'', JNum cleanupAttempt),
         (''cleanupKind'', fld payload ''cleanupKind''), (''cleanupStartedAt'', fld payload ''startedAt''),
         (''cleanupConfirmed'', JUndef), (''cleanupCompletedAt'', JUndef)])
      else invocation)"

definition subagent_cleanup_completed :: "jobj \<Rightarrow> rat \<Rightarrow> rat \<Rightarrow> jobj \<Rightarrow> jobj" where
  "subagent_cleanup_completed payload attempt cleanupAttempt invocation =
     (let lifecycle = evidence invocation ''subagentProviderLifecycle'' in
      if fld lifecycle ''status'' = JStr ''cleanup_pending'' \<and> same_dispatch lifecycle payload attempt \<and>
        fld lifecycle ''cleanupAttempt'' = JNum cleanupAttempt \<and>
        fld lifecycle ''cleanupKind'' = fld payload ''cleanupKind''
      then set_lifecycle invocation (spread lifecycle
        [(''status'', JStr (if truthy (fld payload ''cleanupConfirmed'') then ''cleanup_completed'' else ''cleanup_pending'')),
         (''cleanupConfirmed'', fld payload ''cleanupConfirmed''),
         (''cleanupCompletedAt'', fld payload ''completedAt'')])
      else invocation)"

section \<open>Results\<close>

definition result_recorded :: "jobj \<Rightarrow> jobj \<Rightarrow> jobj" where
  "result_recorded payload invocation =
     (if is_running invocation
      then spread invocation (copied [''resultDigest'', ''evidenceDigest'', ''artifact''] payload @
        copied_if_truthy [''externalReferences''] payload)
      else invocation)"

definition execution_succeeded :: "jobj \<Rightarrow> jobj \<Rightarrow> jobj" where
  "execution_succeeded payload invocation =
     spread (obj_delete ''error'' invocation)
       ((''status'', JStr ''succeeded'') # copied [''finishedAt'', ''resultDigest'', ''evidenceDigest''] payload @
        copied_if_truthy [''artifact'', ''externalReferences'', ''filesystemObservation''] payload)"

definition execution_failed :: "jobj \<Rightarrow> jobj \<Rightarrow> jobj" where
  "execution_failed payload invocation =
     spread invocation ((''status'', JStr ''failed'') # copied [''finishedAt'', ''error''] payload @
       copied_if_truthy [''resultDigest'', ''evidenceDigest'', ''artifact''] payload)"

definition execution_unknown :: "jobj \<Rightarrow> jobj \<Rightarrow> jobj" where
  "execution_unknown payload invocation =
     spread invocation [(''status'', JStr ''unknown''), (''finishedAt'', fld payload ''finishedAt''),
       (''error'', fld payload ''reason'')]"

definition reconciliation_resolved :: "jobj \<Rightarrow> jobj \<Rightarrow> jobj" where
  "reconciliation_resolved payload invocation =
     (let confirmed = (fld payload ''decision'' = JStr ''confirmed_success'') in
      spread invocation
        [(''status'', JStr (if confirmed then ''succeeded'' else ''failed'')),
         (''finishedAt'', fld payload ''reconciledAt''), (''reconciliation'', fld payload ''decision''),
         (''reconciledAt'', fld payload ''reconciledAt''),
         (''error'', if confirmed then JUndef
            else coalesce (fld payload ''reason'') (JStr ''External invocation outcome was not confirmed.''))])"

section \<open>The reducer\<close>

text \<open>The change an event asks of the invocation it names; \<open>None\<close> if it lacks a number it needs.\<close>

definition evidence_change :: "string \<Rightarrow> jobj \<Rightarrow> rat \<Rightarrow> (jobj \<Rightarrow> jobj) option" where
  "evidence_change ty payload attempt =
     (if ty = ''capability.filesystem_intent_recorded'' then Some (filesystem_intent payload attempt)
      else if ty = ''capability.filesystem_mutation_ready'' then Some (filesystem_ready payload attempt)
      else if ty = ''capability.sandbox_preparation_intent_recorded'' then Some (sandbox_intent payload attempt)
      else if ty = ''capability.sandbox_preparation_ready'' then Some (sandbox_ready payload attempt)
      else if ty = ''capability.sandbox_execution_dispatch_intent_recorded'' then Some (sandbox_dispatch payload attempt)
      else if ty = ''capability.sandbox_execution_supervisor_started'' then Some (supervisor_started payload attempt)
      else if ty = ''capability.sandbox_disposal_started'' then Some (disposal_started payload attempt)
      else if ty = ''capability.sandbox_preparation_abandonment_started'' then Some (abandonment_started payload attempt)
      else if ty = ''capability.subagent_dispatch_intent_recorded'' then Some (subagent_dispatch payload attempt)
      else if ty = ''capability.subagent_handle_recorded'' then Some (subagent_handle payload attempt)
      else if ty = ''capability.subagent_observation_recorded'' then Some (subagent_observed payload attempt)
      else None)"

definition cleanup_change :: "string \<Rightarrow> jobj \<Rightarrow> rat \<Rightarrow> rat \<Rightarrow> (jobj \<Rightarrow> jobj) option" where
  "cleanup_change ty payload attempt cleanupAttempt =
     (if ty = ''capability.sandbox_disposal_completed''
      then Some (cleanup_completed ''sandboxDisposal'' ''readyDigest'' payload attempt cleanupAttempt)
      else if ty = ''capability.sandbox_preparation_abandonment_completed''
      then Some (cleanup_completed ''sandboxPreparationAbandonment'' ''intentDigest'' payload attempt cleanupAttempt)
      else if ty = ''capability.subagent_cleanup_started''
      then Some (subagent_cleanup_started payload attempt cleanupAttempt)
      else if ty = ''capability.subagent_cleanup_completed''
      then Some (subagent_cleanup_completed payload attempt cleanupAttempt)
      else None)"

definition result_change :: "string \<Rightarrow> jobj \<Rightarrow> (jobj \<Rightarrow> jobj) option" where
  "result_change ty payload =
     (if ty = ''capability.execution_started'' then Some (execution_started payload)
      else if ty = ''capability.execution_result_recorded'' then Some (result_recorded payload)
      else if ty = ''capability.execution_succeeded'' then Some (execution_succeeded payload)
      else if ty = ''capability.execution_failed'' then Some (execution_failed payload)
      else if ty = ''capability.execution_unknown'' then Some (execution_unknown payload)
      else if ty = ''capability.reconciliation_resolved'' then Some (reconciliation_resolved payload)
      else None)"

definition invocation_change :: "kernel_event \<Rightarrow> (jobj \<Rightarrow> jobj) option" where
  "invocation_change e =
     (case result_change (ev_type e) (ev_data e) of Some f \<Rightarrow> Some f
      | None \<Rightarrow> (case numberField (ev_data e) ''attempt'' of None \<Rightarrow> None
          | Some attempt \<Rightarrow> (case evidence_change (ev_type e) (ev_data e) attempt of Some f \<Rightarrow> Some f
              | None \<Rightarrow> (case numberField (ev_data e) ''cleanupAttempt'' of None \<Rightarrow> None
                  | Some cleanupAttempt \<Rightarrow> cleanup_change (ev_type e) (ev_data e) attempt cleanupAttempt))))"

definition reduceCapabilityState :: "agent_state \<Rightarrow> kernel_event \<Rightarrow> agent_state" where
  "reduceCapabilityState s e =
     (let payload = ev_data e; ty = ev_type e in
      if \<not> isCapabilityEvent ty then s
      else if ty = ''capability.bindings_issued'' then bindings_issued s payload
      else if ty = ''capability.search_completed'' then search_completed s payload
      else if ty = ''capability.invocation_recorded'' then invocation_recorded s payload
      else (case (nonEmptyStringField payload ''invocationId'', invocation_change e) of
          (Some invocationId, Some update) \<Rightarrow> updateCapabilityInvocation s invocationId update
        | _ \<Rightarrow> s))"

end
