(* ===== verification/Kite_Context.thy ===== *)
theory Kite_Context
  imports Kite_Capability
begin

text \<open>
  src/packages/agent-kernel/src/domains/context/reducer.ts: compaction of the context with its guard
  against fruitless automatic compactions, blocks of the context, the messages of the user and the
  model, and the invocations of the model. The context state is the JSON record of the source; a
  model invocation is the record the reducer builds (\<open>mi_facts\<close>), its other fields are read off it.
  The reduction ratio that a compaction records is the exact quotient; no decision depends on it.
\<close>

section \<open>Values\<close>

definition MAX_AUTO_COMPACTIONS_PER_WINDOW :: nat where
  "MAX_AUTO_COMPACTIONS_PER_WINDOW = 3"

definition AUTO_COMPACTION_WINDOW_TURNS :: rat where
  "AUTO_COMPACTION_WINDOW_TURNS = 10"

definition MAX_CONSECUTIVE_LOW_GAIN :: rat where
  "MAX_CONSECUTIVE_LOW_GAIN = 2"

definition COMPACTION_ERROR_KINDS :: "string list" where
  "COMPACTION_ERROR_KINDS = [''unsafe_boundary'', ''oversized_turn'', ''summary_model_failed'', ''summary_aborted'',
     ''empty_summary'', ''truncated_summary'', ''unexpected_tool_call'', ''stale_context'', ''invalid_candidate'',
     ''insufficient_reduction'']"

definition HARD_BLOCK_REASONS :: "string list" where
  "HARD_BLOCK_REASONS = [''unsafe_context_projection'', ''corrupted_runtime_state'', ''corrupted_event_tail'',
     ''unrecoverable_checkpoint'', ''runtime_invariant_violation'']"

definition isCompactionReason :: "jval \<Rightarrow> bool" where
  "isCompactionReason v \<longleftrightarrow> v = JStr ''manual'' \<or> v = JStr ''auto''"

definition isHardBlockReason :: "jval \<Rightarrow> bool" where
  "isHardBlockReason v \<longleftrightarrow> v \<in> JStr ` set HARD_BLOCK_REASONS"

definition isCompactionErrorKind :: "jval \<Rightarrow> bool" where
  "isCompactionErrorKind v \<longleftrightarrow> v \<in> JStr ` set COMPACTION_ERROR_KINDS"

definition isSafeNonNegativeInteger :: "jval \<Rightarrow> bool" where
  "isSafeNonNegativeInteger v \<longleftrightarrow> is_safe_integer v \<and> int_of v \<ge> 0"

definition ESTIMATE_FIELDS :: "string list" where
  "ESTIMATE_FIELDS = [''systemTokens'', ''toolSchemaTokens'', ''transcriptTokens'', ''summaryTokens'',
     ''dynamicRuntimeTokens'', ''framingTokens'', ''totalInputTokens'']"

definition contextEstimate :: "jval \<Rightarrow> jobj option" where
  "contextEstimate v =
     (case as_record v of None \<Rightarrow> None
      | Some candidate \<Rightarrow>
          if list_all (\<lambda>f. isSafeNonNegativeInteger (fld candidate f)) ESTIMATE_FIELDS
          then Some (copied ESTIMATE_FIELDS candidate) else None)"

definition parseCheckpoint :: "jval \<Rightarrow> jobj option" where
  "parseCheckpoint v =
     (case as_record v of None \<Rightarrow> None
      | Some candidate \<Rightarrow>
          let optional = (\<lambda>f. case nonEmptyStringField candidate f of None \<Rightarrow> [] | Some t \<Rightarrow> [(f, JStr t)]);
              before = int_of (fld candidate ''inputTokensBefore'');
              after = int_of (fld candidate ''inputTokensAfter'') in
          if list_all (\<lambda>f. nonEmptyStringField candidate f \<noteq> None)
               [''compactionId'', ''sourceDigest'', ''coveredThroughMessageId'', ''coveredThroughTurnId''] \<and>
             fld candidate ''version'' = JNum 1 \<and> isSafeNonNegativeInteger (fld candidate ''sourceRevision'') \<and>
             string_where (\<lambda>t. js_trim t \<noteq> []) (fld candidate ''summary'') \<and>
             isSafeNonNegativeInteger (fld candidate ''inputTokensBefore'') \<and>
             isSafeNonNegativeInteger (fld candidate ''inputTokensAfter'') \<and>
             after < before \<and> before - after \<ge> 1024 \<and> isCompactionReason (fld candidate ''reason'') \<and>
             string_where (\<lambda>t. t \<noteq> [] \<and> isTimestamp t) (fld candidate ''createdAt'')
          then Some (copied [''compactionId'', ''version'', ''sourceRevision'', ''sourceDigest'',
              ''coveredThroughMessageId'', ''coveredThroughTurnId'', ''summary'', ''inputTokensBefore'',
              ''inputTokensAfter'', ''reason'', ''createdAt''] candidate @
            optional ''modelInvocationId'' @ optional ''baseCheckpointId'')
          else None)"

section \<open>The guard of automatic compactions\<close>

datatype guard_event = Compacted rat rat rat | LowGain | ManualReset

definition entry_turn :: "jval \<Rightarrow> rat" where
  "entry_turn v = (case vfld v ''turnIndex'' of JNum r \<Rightarrow> r | _ \<Rightarrow> 0)"

definition recent_compactions :: "jobj \<Rightarrow> rat \<Rightarrow> rat \<Rightarrow> rat \<Rightarrow> jval list" where
  "recent_compactions guard turnIndex reductionRatio tokensAfter =
     filter (\<lambda>v. turnIndex - entry_turn v \<le> AUTO_COMPACTION_WINDOW_TURNS)
       (list_of (fld guard ''recentAutomaticCompactions'') @
        [JObj [(''turnIndex'', JNum turnIndex), (''reductionRatio'', JNum reductionRatio),
           (''tokensAfter'', JNum tokensAfter)]])"

definition guard_record :: "jval list \<Rightarrow> bool \<Rightarrow> jobj" where
  "guard_record recent disabled =
     [(''recentAutomaticCompactions'', JArr recent), (''consecutiveLowGain'', JNum 0),
      (''disabledUntilManualAction'', JBool disabled), (''recoveryAttempted'', JBool False)]"

fun updateAutoGuard :: "jobj \<Rightarrow> guard_event \<Rightarrow> jobj" where
  "updateAutoGuard guard ManualReset = guard_record [] False"
| "updateAutoGuard guard LowGain =
     (let consecutiveLowGain = number_or_zero guard ''consecutiveLowGain'' + 1 in
      spread guard [(''consecutiveLowGain'', JNum consecutiveLowGain),
        (''disabledUntilManualAction'', JBool (consecutiveLowGain \<ge> MAX_CONSECUTIVE_LOW_GAIN))])"
| "updateAutoGuard guard (Compacted turnIndex reductionRatio tokensAfter) =
     (let recent = recent_compactions guard turnIndex reductionRatio tokensAfter;
          tooFrequent = (length recent \<ge> MAX_AUTO_COMPACTIONS_PER_WINDOW);
          refilledFast = (length recent \<ge> 2 \<and> entry_turn (recent ! (length recent - 2)) \<ge> turnIndex - 1) in
      guard_record recent (tooFrequent \<or> refilledFast))"

section \<open>Compaction\<close>

definition auto_guard :: "agent_state \<Rightarrow> jobj" where
  "auto_guard s = sub_record (st_context s) ''autoGuard''"

definition pending_compaction :: "agent_state \<Rightarrow> jobj option" where
  "pending_compaction s = recordField (st_context s) ''pendingCompaction''"

definition set_context :: "agent_state \<Rightarrow> jobj \<Rightarrow> agent_state" where
  "set_context s changes = s\<lparr>st_context := spread (st_context s) changes\<rparr>"

definition take_last :: "nat \<Rightarrow> 'a list \<Rightarrow> 'a list" where
  "take_last n xs = drop (length xs - n) xs"

definition history_with :: "agent_state \<Rightarrow> jobj \<Rightarrow> jval" where
  "history_with s entry = JArr (take_last 128 (list_of (fld (st_context s) ''history'') @ [JObj entry]))"

definition consumes_recovery :: "agent_state \<Rightarrow> jobj \<Rightarrow> string \<Rightarrow> bool" where
  "consumes_recovery s payload requestedAtTurnId \<longleftrightarrow>
     (let lastFailure = fld (st_context s) ''lastFailure'' in
      fld payload ''reason'' = JStr ''auto'' \<and> vfld lastFailure ''reason'' = JStr ''auto'' \<and>
      truthy (vfld lastFailure ''retryable'') \<and> vfld lastFailure ''requestedAtTurnId'' \<noteq> JStr requestedAtTurnId)"

definition compaction_requested :: "agent_state \<Rightarrow> jobj \<Rightarrow> agent_state" where
  "compaction_requested s payload =
     (case (nonEmptyStringField payload ''compactionId'', nonEmptyStringField payload ''requestedAtTurnId'',
          contextEstimate (fld payload ''estimate'')) of
        (Some compactionId, Some requestedAtTurnId, Some estimate) \<Rightarrow>
          if (case pending_compaction s of None \<Rightarrow> False
              | Some pending \<Rightarrow> fld pending ''compactionId'' \<noteq> JStr compactionId) \<or>
             \<not> isCompactionReason (fld payload ''reason'') \<or>
             \<not> isSafeNonNegativeInteger (fld payload ''requestedAtRevision'') then s
          else set_context s
            [(''pendingCompaction'', JObj (
                [(''compactionId'', JStr compactionId), (''reason'', fld payload ''reason''),
                 (''requestedAtRevision'', fld payload ''requestedAtRevision''),
                 (''requestedAtTurnId'', JStr requestedAtTurnId), (''force'', JBool False), (''estimate'', JObj estimate)] @
                (case nonEmptyStringField payload ''customInstructions'' of None \<Rightarrow> []
                 | Some t \<Rightarrow> [(''customInstructions'', JStr t)]))),
             (''lastFailure'', JUndef),
             (''autoGuard'', if consumes_recovery s payload requestedAtTurnId
                then JObj (obj_set ''recoveryAttempted'' (JBool True) (auto_guard s))
                else fld (st_context s) ''autoGuard'')]
      | _ \<Rightarrow> s)"

definition is_pending :: "agent_state \<Rightarrow> string \<Rightarrow> bool" where
  "is_pending s compactionId =
     (case pending_compaction s of None \<Rightarrow> False
      | Some pending \<Rightarrow> fld pending ''compactionId'' = JStr compactionId)"

definition guard_after_checkpoint :: "agent_state \<Rightarrow> jobj \<Rightarrow> jobj" where
  "guard_after_checkpoint s checkpoint =
     (let before = number_or_zero checkpoint ''inputTokensBefore''; after = number_or_zero checkpoint ''inputTokensAfter'' in
      updateAutoGuard (auto_guard s)
        (if fld checkpoint ''reason'' = JStr ''auto''
         then Compacted (of_int (tn_turnIndex (st_turn s))) (if before > 0 then 1 - after / before else 0) after
         else ManualReset))"

definition compaction_completed :: "agent_state \<Rightarrow> jobj \<Rightarrow> agent_state" where
  "compaction_completed s payload =
     (case (nonEmptyStringField payload ''compactionId'', parseCheckpoint (fld payload ''checkpoint'')) of
        (Some compactionId, Some checkpoint) \<Rightarrow>
          if \<not> is_pending s compactionId \<or> \<not> isSafeNonNegativeInteger (fld payload ''sourceRevision'') \<or>
             fld checkpoint ''compactionId'' \<noteq> JStr compactionId \<or>
             fld checkpoint ''sourceRevision'' \<noteq> fld payload ''sourceRevision'' then s
          else set_context s
            [(''activeCheckpoint'', JObj checkpoint), (''pendingCompaction'', JUndef), (''lastFailure'', JUndef),
             (''history'', history_with s [(''kind'', JStr ''completed''), (''checkpoint'', JObj checkpoint)]),
             (''lastCompactionTurnIndex'', jint (tn_turnIndex (st_turn s))),
             (''autoGuard'', JObj (guard_after_checkpoint s checkpoint))]
      | _ \<Rightarrow> s)"

definition failure_record :: "string \<Rightarrow> jobj \<Rightarrow> jobj \<Rightarrow> jobj" where
  "failure_record compactionId payload pending =
     (''compactionId'', JStr compactionId) #
     copied [''sourceRevision'', ''errorKind'', ''message'', ''retryable''] payload @
     [(''reason'', fld pending ''reason''),
      (''requestedAtTurnId'', case nonEmptyStringField payload ''requestedAtTurnId'' of
         Some t \<Rightarrow> JStr t | None \<Rightarrow> fld pending ''requestedAtTurnId'')]"

definition compaction_failed :: "agent_state \<Rightarrow> jobj \<Rightarrow> agent_state" where
  "compaction_failed s payload =
     (case (nonEmptyStringField payload ''compactionId'', pending_compaction s) of
        (Some compactionId, Some pending) \<Rightarrow>
          if fld pending ''compactionId'' \<noteq> JStr compactionId \<or>
             \<not> isSafeNonNegativeInteger (fld payload ''sourceRevision'') \<or>
             \<not> isCompactionErrorKind (fld payload ''errorKind'') \<or>
             \<not> string_where (\<lambda>t. js_trim t \<noteq> []) (fld payload ''message'') \<or>
             booleanField payload ''retryable'' = None \<or>
             ''requestedAtTurnId'' \<in> set (obj_keys payload) \<and> nonEmptyStringField payload ''requestedAtTurnId'' = None
          then s
          else let failure = failure_record compactionId payload pending in
            set_context s
              [(''pendingCompaction'', JUndef), (''lastFailure'', JObj failure),
               (''autoGuard'', if fld pending ''reason'' = JStr ''auto'' \<and>
                    fld payload ''errorKind'' = JStr ''insufficient_reduction''
                  then JObj (updateAutoGuard (auto_guard s) LowGain) else fld (st_context s) ''autoGuard''),
               (''history'', history_with s [(''kind'', JStr ''failed''), (''failure'', JObj failure)])]
      | _ \<Rightarrow> s)"

definition compaction_reset :: "agent_state \<Rightarrow> jobj \<Rightarrow> agent_state" where
  "compaction_reset s payload =
     (case nonEmptyStringField payload ''checkpointId'' of None \<Rightarrow> s
      | Some checkpointId \<Rightarrow>
          if fld payload ''reason'' \<noteq> JStr ''manual'' \<or>
             vfld (fld (st_context s) ''activeCheckpoint'') ''compactionId'' \<noteq> JStr checkpointId then s
          else set_context s
            [(''activeCheckpoint'', JUndef), (''autoGuard'', JObj (updateAutoGuard (auto_guard s) ManualReset)),
             (''history'', history_with s [(''kind'', JStr ''reset''), (''compactionId'', JStr checkpointId),
                (''reason'', JStr ''manual'')])])"

definition hard_blocked :: "agent_state \<Rightarrow> jobj \<Rightarrow> agent_state" where
  "hard_blocked s payload =
     (case (nonEmptyStringField payload ''sourceDigest'', stringField payload ''message'',
          nonEmptyStringField payload ''createdAtTurnId'') of
        (Some sourceDigest, Some message, Some createdAtTurnId) \<Rightarrow>
          if \<not> isHardBlockReason (fld payload ''reason'') \<or> js_trim message = [] then s
          else set_context s [(''hardBlock'', JObj [(''reason'', fld payload ''reason''),
            (''sourceDigest'', JStr sourceDigest), (''message'', JStr (js_trim message)),
            (''createdAtTurnId'', JStr createdAtTurnId)])]
      | _ \<Rightarrow> s)"

definition hard_block_cleared :: "agent_state \<Rightarrow> jobj \<Rightarrow> agent_state" where
  "hard_block_cleared s payload =
     (case (nonEmptyStringField payload ''sourceDigest'', recordField (st_context s) ''hardBlock'') of
        (Some sourceDigest, Some block) \<Rightarrow>
          if \<not> isHardBlockReason (fld payload ''reason'') \<or> fld block ''reason'' \<noteq> fld payload ''reason'' \<or>
             fld block ''sourceDigest'' \<noteq> JStr sourceDigest then s
          else set_context s [(''hardBlock'', JUndef)]
      | _ \<Rightarrow> s)"

section \<open>Messages\<close>

definition optional_createdAt :: "jobj \<Rightarrow> string option" where
  "optional_createdAt payload =
     (if ''createdAt'' \<in> set (obj_keys payload) then stringField payload ''createdAt'' else Some EPOCH_CREATED_AT)"

definition message_time :: "jobj \<Rightarrow> string option" where
  "message_time payload =
     (case optional_createdAt payload of None \<Rightarrow> None | Some t \<Rightarrow> if t \<noteq> [] \<and> isTimestamp t then Some t else None)"

definition message_meta :: "agent_state \<Rightarrow> string \<Rightarrow> string \<Rightarrow> message_meta" where
  "message_meta s messageId createdAt =
     \<lparr>mm_messageId = messageId, mm_turnId = tn_turnId (st_turn s),
      mm_ordinal = length (ts_messages (st_transcript s)), mm_createdAt = createdAt\<rparr>"

definition allocate_task :: "agent_state \<Rightarrow> reducer_facts \<Rightarrow> string \<Rightarrow> agent_state" where
  "allocate_task s facts userGoal =
     (case (st_activeTaskId s, truthy_option (fa_allocatedTaskId facts)) of
        (None, Some taskId) \<Rightarrow>
          s\<lparr>st_activeTaskId := Some taskId,
            st_tasks := obj_set taskId \<lparr>tk_taskId = taskId, tk_userGoal = userGoal, tk_status = TaskActive,
              tk_startedAtTurnId = tn_turnId (st_turn s), tk_completedAtTurnId = None,
              tk_sideEffectsStarted = False, tk_planning = BuildingWithoutPlan, tk_executionMode = None,
              tk_planHistory = []\<rparr> (st_tasks s)\<rparr>
      | _ \<Rightarrow> s)"

definition set_goal :: "agent_state \<Rightarrow> string \<Rightarrow> agent_state" where
  "set_goal s userGoal =
     (case active_task s of None \<Rightarrow> s
      | Some task \<Rightarrow> if userGoal = [] then s
          else s\<lparr>st_tasks := obj_set (tk_taskId task) (task\<lparr>tk_userGoal := userGoal\<rparr>) (st_tasks s)\<rparr>)"

definition message_appended :: "reducer_facts \<Rightarrow> agent_state \<Rightarrow> jobj \<Rightarrow> agent_state" where
  "message_appended facts s payload =
     (case (nonEmptyStringField payload ''messageId'', stringField payload ''content'', message_time payload) of
        (Some messageId, Some content, Some createdAt) \<Rightarrow>
          let userGoal = or_default (stringField payload ''userGoal'') content;
              prepared = set_goal (allocate_task s facts userGoal) userGoal in
          add_message (prepared\<lparr>
              st_completionGuard := \<lparr>cg_correctionAttempts = 0, cg_guardVersion = None, cg_planIdentity = None\<rparr>,
              st_terminalOutcome := None,
              st_transcript := (st_transcript prepared)\<lparr>ts_final := None\<rparr>\<rparr>)
            (UserMessage (message_meta prepared messageId createdAt) content)
      | _ \<Rightarrow> s)"

definition model_tool_call :: "jval \<Rightarrow> jobj option" where
  "model_tool_call v =
     (case as_record v of None \<Rightarrow> None
      | Some candidate \<Rightarrow>
          (case (nonEmptyStringField candidate ''id'', nonEmptyStringField candidate ''name'') of
             (Some i, Some name) \<Rightarrow>
               if ''args'' \<notin> set (obj_keys candidate) then None
               else Some ([(''id'', JStr i), (''name'', JStr name), (''args'', fld candidate ''args'')] @
                 (case nonEmptyStringField candidate ''canonicalInvocationFingerprint'' of None \<Rightarrow> []
                  | Some f \<Rightarrow> [(''canonicalInvocationFingerprint'', JStr f)]))
           | _ \<Rightarrow> None))"

definition parseModelToolCalls :: "jobj \<Rightarrow> jobj list option" where
  "parseModelToolCalls payload =
     (if ''toolCalls'' \<notin> set (obj_keys payload) then Some []
      else case fld payload ''toolCalls'' of
          JArr raw \<Rightarrow> those (map model_tool_call raw)
        | _ \<Rightarrow> None)"

definition optional_text_ok :: "jobj \<Rightarrow> string \<Rightarrow> bool" where
  "optional_text_ok payload f \<longleftrightarrow> f \<in> set (obj_keys payload) \<longrightarrow> stringField payload f \<noteq> None"

definition model_responded :: "agent_state \<Rightarrow> jobj \<Rightarrow> agent_state" where
  "model_responded s payload =
     (case (nonEmptyStringField payload ''messageId'', parseModelToolCalls payload, message_time payload) of
        (Some messageId, Some toolCalls, Some createdAt) \<Rightarrow>
          if \<not> optional_text_ok payload ''text'' \<or> \<not> optional_text_ok payload ''reasoningText'' then s
          else let text = stringField payload ''text'';
                   toolRecovery = advanceToolRecoveryResponse (st_toolRecovery s)
                     \<lparr>ri_taskId = st_activeTaskId s, ri_turnId = Some (tn_turnId (st_turn s)),
                      ri_modelMessageId = messageId,
                      ri_toolCalls = map (\<lambda>c. (text_of (fld c ''id''), text_of (fld c ''name''))) toolCalls\<rparr> in
            add_message (s\<lparr>st_toolRecovery := toolRecovery,
                st_transcript := (st_transcript s)\<lparr>ts_final := (if toolCalls \<noteq> [] then None
                  else case text of Some t \<Rightarrow> Some t | None \<Rightarrow> ts_final (st_transcript s))\<rparr>\<rparr>)
              (AssistantMessage (message_meta s messageId createdAt) text (stringField payload ''reasoningText'')
                (map JObj toolCalls))
      | _ \<Rightarrow> s)"

section \<open>Model invocations\<close>

definition one_of :: "string list \<Rightarrow> jval \<Rightarrow> string option" where
  "one_of names v = (case v of JStr t \<Rightarrow> if t \<in> set names then Some t else None | _ \<Rightarrow> None)"

definition modelPurpose :: "jval \<Rightarrow> string option" where
  "modelPurpose = one_of [''primary_agent'', ''context_compaction'', ''auto_review'', ''subagent'']"

definition modelFinishReason :: "jval \<Rightarrow> string option" where
  "modelFinishReason = one_of [''stop'', ''length'', ''content_filter'', ''tool_calls'', ''error'', ''other'', ''unknown'']"

definition modelDispatchCertainty :: "jval \<Rightarrow> string option" where
  "modelDispatchCertainty = one_of [''none'', ''attempted'', ''unknown'']"

definition modelInterruptionReason :: "jval \<Rightarrow> string option" where
  "modelInterruptionReason = one_of [''runtime_restored'', ''attempts_exhausted'', ''cancelled'',
     ''cancelled_before_dispatch'', ''attempt_timeout'', ''provider_failure'', ''surface_identity_changed'',
     ''persistence_unavailable'']"

definition modelEvidenceReason :: "jval \<Rightarrow> string option" where
  "modelEvidenceReason = one_of [''artifact_missing'', ''artifact_corrupt'']"

definition privateArtifact :: "jval \<Rightarrow> string \<Rightarrow> jobj option" where
  "privateArtifact v kind =
     (case as_record v of None \<Rightarrow> None
      | Some candidate \<Rightarrow>
          (case (nonEmptyStringField candidate ''artifactId'', nonEmptyStringField candidate ''integrityIdentifier'') of
             (Some artifactId, Some integrityIdentifier) \<Rightarrow>
               if fld candidate ''kind'' \<noteq> JStr kind \<or> \<not> isSafeNonNegativeInteger (fld candidate ''byteLength'') then None
               else Some [(''kind'', JStr kind), (''artifactId'', JStr artifactId),
                 (''integrityIdentifier'', JStr integrityIdentifier), (''byteLength'', fld candidate ''byteLength'')]
           | _ \<Rightarrow> None))"

definition modelBudget :: "jval \<Rightarrow> jobj option" where
  "modelBudget v =
     (case as_record v of None \<Rightarrow> None
      | Some candidate \<Rightarrow>
          if fld candidate ''kind'' = JStr ''no_budget'' \<and> fld candidate ''reason'' = JStr ''resource_budget_disabled''
          then Some [(''kind'', JStr ''no_budget''), (''reason'', JStr ''resource_budget_disabled'')]
          else if fld candidate ''kind'' \<noteq> JStr ''reservation'' then None
          else (case nonEmptyStringField candidate ''reservationId'' of None \<Rightarrow> None
            | Some reservationId \<Rightarrow>
                let parent = fld candidate ''parentReservationId'' in
                if parent \<noteq> JNull \<and> as_string parent = None then None
                else Some [(''kind'', JStr ''reservation''), (''reservationId'', JStr reservationId),
                  (''parentReservationId'', parent)]))"

definition modelLimits :: "jval \<Rightarrow> jobj option" where
  "modelLimits v =
     (case as_record v of None \<Rightarrow> None
      | Some candidate \<Rightarrow>
          if is_safe_integer (fld candidate ''maxAttempts'') \<and> int_of (fld candidate ''maxAttempts'') \<ge> 1 \<and>
             isSafeNonNegativeInteger (fld candidate ''perAttemptTimeoutMs'') \<and>
             isSafeNonNegativeInteger (fld candidate ''totalTimeBudgetMs'')
          then Some (copied [''maxAttempts'', ''perAttemptTimeoutMs'', ''totalTimeBudgetMs''] candidate) else None)"

definition read_budget :: "jobj \<Rightarrow> model_budget" where
  "read_budget budget =
     (if fld budget ''kind'' = JStr ''reservation''
      then BudgetReservation (text_of (fld budget ''reservationId'')) (as_string (fld budget ''parentReservationId''))
      else NoBudget)"

definition model_of :: "string \<Rightarrow> jobj \<Rightarrow> model_invocation" where
  "model_of invocationId o' =
     \<lparr>mi_invocationId = invocationId, mi_purpose = text_of (fld o' ''purpose''), mi_status = text_of (fld o' ''status''),
      mi_budget = read_budget (sub_record o' ''budget''),
      mi_modelEvidenceUnavailable = stringField o' ''modelEvidenceUnavailable'', mi_facts = o'\<rparr>"

definition set_model :: "agent_state \<Rightarrow> string \<Rightarrow> jobj \<Rightarrow> agent_state" where
  "set_model s invocationId o' =
     s\<lparr>st_modelInvocations := obj_set invocationId (model_of invocationId o') (st_modelInvocations s)\<rparr>"

definition null_or_string :: "jval \<Rightarrow> bool" where
  "null_or_string v \<longleftrightarrow> v = JNull \<or> as_string v \<noteq> None"

definition model_prepared :: "agent_state \<Rightarrow> jobj \<Rightarrow> agent_state" where
  "model_prepared s payload =
     (case (nonEmptyStringField payload ''invocationId'', modelPurpose (fld payload ''purpose''),
          privateArtifact (fld payload ''surfaceArtifact'') ''model_surface'',
          nonEmptyStringField payload ''surfaceIntegrityIdentifier'', nonEmptyStringField payload ''routeFingerprint'',
          modelBudget (fld payload ''budget''), modelLimits (fld payload ''limits'')) of
        (Some invocationId, Some purpose, Some surface, Some integrity, Some route, Some budget, Some limits) \<Rightarrow>
          if map_of (st_modelInvocations s) invocationId \<noteq> None \<or>
             \<not> isSafeNonNegativeInteger (fld payload ''preparedStateRevision'') \<or>
             \<not> null_or_string (fld payload ''parentInvocationId'') \<or>
             \<not> null_or_string (fld payload ''parentToolCallId'') then s
          else set_model s invocationId
            ([(''invocationId'', JStr invocationId), (''purpose'', JStr purpose), (''status'', JStr ''prepared''),
              (''surfaceArtifact'', JObj surface), (''surfaceIntegrityIdentifier'', JStr integrity),
              (''routeFingerprint'', JStr route), (''budget'', JObj budget), (''limits'', JObj limits)] @
             copied [''preparedStateRevision'', ''parentInvocationId'', ''parentToolCallId''] payload @
             [(''attempts'', JNum 0)])
      | _ \<Rightarrow> s)"

definition named_model :: "agent_state \<Rightarrow> jobj \<Rightarrow> (string \<times> jobj) option" where
  "named_model s payload =
     (case nonEmptyStringField payload ''invocationId'' of None \<Rightarrow> None
      | Some invocationId \<Rightarrow>
          map_option (\<lambda>m. (invocationId, mi_facts m)) (map_of (st_modelInvocations s) invocationId))"

definition model_open :: "jobj \<Rightarrow> bool" where
  "model_open m \<longleftrightarrow> fld m ''status'' = JStr ''prepared'' \<or> fld m ''status'' = JStr ''dispatching''"

definition attempt_started :: "agent_state \<Rightarrow> jobj \<Rightarrow> agent_state" where
  "attempt_started s payload =
     (case named_model s payload of None \<Rightarrow> s
      | Some (invocationId, m) \<Rightarrow>
          let attempt = fld payload ''attempt''; maxAttempts = fld payload ''maxAttempts'' in
          if \<not> model_open m \<or> \<not> isSafeNonNegativeInteger attempt \<or> int_of attempt < 1 \<or>
             \<not> isSafeNonNegativeInteger maxAttempts \<or> maxAttempts \<noteq> vfld (fld m ''limits'') ''maxAttempts'' \<or>
             attempt \<noteq> js_plus_one (fld m ''attempts'') \<or> int_of attempt > int_of maxAttempts then s
          else set_model s invocationId (spread m [(''status'', JStr ''dispatching''), (''attempts'', attempt),
            (''dispatchCertainty'', JStr ''attempted'')]))"

definition model_completed :: "agent_state \<Rightarrow> jobj \<Rightarrow> agent_state" where
  "model_completed s payload =
     (case (named_model s payload, privateArtifact (fld payload ''responseArtifact'') ''model_response'',
          modelFinishReason (fld payload ''finishReason'')) of
        (Some (invocationId, m), Some response, Some finishReason) \<Rightarrow>
          if fld m ''status'' \<noteq> JStr ''dispatching'' \<or> number_or_zero m ''attempts'' < 1 then s
          else set_model s invocationId (spread m [(''status'', JStr ''completed''), (''responseArtifact'', JObj response),
            (''finishReason'', JStr finishReason)])
      | _ \<Rightarrow> s)"

definition model_interrupted :: "agent_state \<Rightarrow> jobj \<Rightarrow> agent_state" where
  "model_interrupted s payload =
     (case (named_model s payload, modelDispatchCertainty (fld payload ''dispatchCertainty''),
          modelInterruptionReason (fld payload ''reasonCode'')) of
        (Some (invocationId, m), Some certainty, Some reason) \<Rightarrow>
          if \<not> model_open m then s
          else set_model s invocationId (spread m [(''status'', JStr ''interrupted''),
            (''dispatchCertainty'', JStr certainty), (''interruptionReason'', JStr reason)])
      | _ \<Rightarrow> s)"

definition evidence_unavailable :: "agent_state \<Rightarrow> jobj \<Rightarrow> agent_state" where
  "evidence_unavailable s payload =
     (case (named_model s payload, modelEvidenceReason (fld payload ''reasonCode'')) of
        (Some (invocationId, m), Some reason) \<Rightarrow>
          if fld m ''status'' \<noteq> JStr ''completed'' then s
          else set_model s invocationId (spread m [(''modelEvidenceUnavailable'', JStr reason)])
      | _ \<Rightarrow> s)"

section \<open>The reducer\<close>

definition reduceContextState :: "reducer_facts \<Rightarrow> agent_state \<Rightarrow> kernel_event \<Rightarrow> agent_state" where
  "reduceContextState facts s e =
     (let payload = ev_data e; ty = ev_type e in
      if ty = ''context.compaction_requested'' then compaction_requested s payload
      else if ty = ''context.compaction_completed'' then compaction_completed s payload
      else if ty = ''context.compaction_failed'' then compaction_failed s payload
      else if ty = ''context.compaction_reset'' then compaction_reset s payload
      else if ty = ''context.hard_blocked'' then hard_blocked s payload
      else if ty = ''context.hard_block_cleared'' then hard_block_cleared s payload
      else if ty = ''user.message_appended'' then message_appended facts s payload
      else if ty = ''model.responded'' then model_responded s payload
      else if ty = ''model.invocation_prepared'' then model_prepared s payload
      else if ty = ''model.invocation_attempt_started'' then attempt_started s payload
      else if ty = ''model.invocation_completed'' then model_completed s payload
      else if ty = ''model.invocation_interrupted'' then model_interrupted s payload
      else if ty = ''model.invocation_evidence_unavailable'' then evidence_unavailable s payload
      else s)"

end
