(* ===== verification/Kite_Codec.thy ===== *)
theory Kite_Codec
  imports Kite_Context
begin

text \<open>
  src/packages/agent-kernel/src/codec.ts with the event table of events.ts and the evidence validators
  of invariants.ts it applies: which events the kernel admits, and which of those a producer may still
  write. Every check is a pair of a condition and the error it throws; the first condition that fails
  throws. An event is its discriminant and its other properties, so the checks that the event is an
  object with a string type are part of its type; its JSON text has the discriminant first, as every
  producer writes it. JSON.parse, which reads an event back, belongs to the platform.
\<close>

section \<open>The event table\<close>

definition APPROVAL_EVENT_FIELDS :: "(string \<times> string list) list" where
  "APPROVAL_EVENT_FIELDS =
     [(''approval.command_replaced'', [''interactionId'', ''command'']),
      (''approval.granted'', [''interactionId'', ''toolCallId'', ''grant'', ''receiptId'', ''generation'',
        ''owner'']),
      (''approval.batch_released'', [''interactionId'', ''toolCallId'', ''grant'', ''grantKey'',
        ''sessionRevision'', ''generation'', ''commandIdentity'', ''owner'', ''matches'', ''createdAt'']),
      (''approval.session_grants_cleared'', [''sessionId'', ''sessionRevision'', ''generation'', ''clearedAt'']),
      (''approval.rejected'', [''interactionId'', ''toolCallId'', ''generation'', ''reason'', ''owner'']),
      (''approval.requested'', [''interactionId'', ''toolCallId'', ''approval'', ''fullModeBypassEligible'',
        ''fullModePolicyBypassAllowed'', ''owner'']),
      (''auto_review.completed'', [''reviewId'', ''toolCallId'', ''result'', ''owner'']),
      (''auto_review.requested'', [''reviewId'', ''toolCallId'', ''toolName'', ''reason'', ''approval'',
        ''fullModeBypassEligible'', ''fullModePolicyBypassAllowed'', ''owner''])]"

definition CAPABILITY_EVENT_FIELDS :: "(string \<times> string list) list" where
  "CAPABILITY_EVENT_FIELDS =
     [(''capability.bindings_issued'', [''catalogRevision'', ''bindings'']),
      (''capability.execution_failed'', [''invocationId'', ''error'', ''finishedAt'']),
      (''capability.execution_started'', [''invocationId'', ''startedAt'']),
      (''capability.execution_result_recorded'', [''invocationId'', ''resultDigest'', ''evidenceDigest'',
        ''recordedAt'', ''artifact'']),
      (''capability.execution_succeeded'', [''invocationId'', ''resultDigest'', ''evidenceDigest'',
        ''finishedAt'']),
      (''capability.execution_unknown'', [''invocationId'', ''reason'', ''finishedAt'']),
      (''capability.filesystem_mutation_ready'', [''invocationId'', ''attempt'', ''intentDigest'',
        ''operationDigest'', ''targetIdentityDigest'', ''preimageDigest'', ''preimageArtifact'',
        ''readyDigest'', ''readyAt'']),
      (''capability.filesystem_intent_recorded'', [''invocationId'', ''attempt'', ''capabilityRevision'',
        ''argumentsDigest'', ''admissionDigest'', ''operationDigest'', ''searchBoundaryDigest'',
        ''lexicalTargetDigest'', ''canonicalWorkspaceDigest'', ''protectedPathRevision'',
        ''approvalSummaryDigest'', ''effectiveEffectsDigest'', ''intentDigest'', ''recordedAt'']),
      (''capability.sandbox_preparation_intent_recorded'', [''invocationId'', ''attempt'', ''toolCallId'',
        ''capabilityId'', ''capabilityRevision'', ''canonicalWorkspace'', ''effectiveEffectsDigest'',
        ''admissionDigest'', ''preparationDigest'', ''commandDigest'', ''executionBoundaryDigest'',
        ''resourceSemantics'', ''intentDigest'', ''recordedAt'']),
      (''capability.sandbox_preparation_ready'', [''invocationId'', ''attempt'', ''intentDigest'',
        ''preparationDigest'', ''commandDigest'', ''planDigest'', ''backend'', ''backendCapabilitiesDigest'',
        ''enforcement'', ''resourceSemantics'', ''cleanupDigest'', ''preparationArtifact'', ''readyDigest'',
        ''readyAt'']),
      (''capability.sandbox_execution_dispatch_intent_recorded'', [''invocationId'', ''attempt'',
        ''readyDigest'', ''planDigest'', ''dispatchId'', ''supervisorNonce'', ''dispatchIntentDigest'',
        ''recordedAt'']),
      (''capability.sandbox_execution_supervisor_started'', [''invocationId'', ''attempt'', ''dispatchId'',
        ''dispatchIntentDigest'', ''supervisorPid'', ''processGroupId'', ''processStartIdentity'',
        ''startedAt''])]"

definition SANDBOX_EVENT_FIELDS :: "(string \<times> string list) list" where
  "SANDBOX_EVENT_FIELDS =
     [(''capability.sandbox_disposal_started'', [''invocationId'', ''attempt'', ''readyDigest'',
        ''lifecycleIntentDigest'', ''startedAt'']),
      (''capability.sandbox_disposal_completed'', [''invocationId'', ''attempt'', ''readyDigest'',
        ''lifecycleIntentDigest'', ''cleanupAttempt'', ''disposed'', ''disposedAt'']),
      (''capability.sandbox_preparation_abandonment_started'', [''invocationId'', ''attempt'',
        ''intentDigest'', ''lifecycleIntentDigest'', ''startedAt'']),
      (''capability.sandbox_preparation_abandonment_completed'', [''invocationId'', ''attempt'',
        ''intentDigest'', ''lifecycleIntentDigest'', ''cleanupAttempt'', ''disposed'', ''disposedAt'']),
      (''capability.subagent_dispatch_intent_recorded'', [''invocationId'', ''attempt'', ''purpose'',
        ''childInvocationId'', ''taskArtifact'', ''dispatchIntentDigest'', ''recordedAt'']),
      (''capability.subagent_handle_recorded'', [''invocationId'', ''attempt'', ''dispatchIntentDigest'',
        ''handleArtifact'', ''handleIntegrityIdentifier'', ''recordedAt'']),
      (''capability.subagent_observation_recorded'', [''invocationId'', ''attempt'', ''dispatchIntentDigest'',
        ''status'', ''observedAt'']),
      (''capability.subagent_cleanup_started'', [''invocationId'', ''attempt'', ''dispatchIntentDigest'',
        ''cleanupAttempt'', ''cleanupKind'', ''startedAt'']),
      (''capability.subagent_cleanup_completed'', [''invocationId'', ''attempt'', ''dispatchIntentDigest'',
        ''cleanupAttempt'', ''cleanupKind'', ''cleanupConfirmed'', ''completedAt'']),
      (''capability.invocation_recorded'', [''invocationId'', ''toolCallId'', ''capabilityId'',
        ''capabilityRevision'', ''argumentsDigest'', ''authorizationDigest'', ''effectiveEffectsDigest'',
        ''effectiveEffects'', ''recordedAt'']),
      (''capability.reconciliation_resolved'', [''invocationId'', ''decision'', ''reconciledAt'']),
      (''capability.search_completed'', [''result''])]"

definition MODEL_EVENT_FIELDS :: "(string \<times> string list) list" where
  "MODEL_EVENT_FIELDS =
     [(''completion.blocked'', [''turnId'', ''guardVersion'', ''code'', ''nextAction'', ''planning'',
        ''correctionAttempt'']),
      (''context.compaction_completed'', [''compactionId'', ''sourceRevision'', ''checkpoint'']),
      (''context.compaction_failed'', [''compactionId'', ''sourceRevision'', ''errorKind'', ''message'',
        ''retryable'']),
      (''context.compaction_requested'', [''compactionId'', ''reason'', ''requestedAtRevision'',
        ''requestedAtTurnId'', ''force'', ''estimate'']),
      (''context.compaction_reset'', [''checkpointId'', ''reason'']),
      (''context.hard_block_cleared'', [''reason'', ''sourceDigest'']),
      (''context.hard_blocked'', [''reason'', ''sourceDigest'', ''message'', ''createdAtTurnId'']),
      (''interaction_mode.changed'', [''mode'', ''source'', ''changedAt'']),
      (''model.cache_metrics'', [''inputTokens'', ''cacheHitTokens'', ''cacheMissTokens'', ''hitRate'']),
      (''model.context_metrics'', [''modelName'', ''totalInputTokens'', ''status'', ''estimate'']),
      (''model.invocation_attempt_started'', [''invocationId'', ''attempt'', ''maxAttempts'']),
      (''model.invocation_completed'', [''invocationId'', ''responseArtifact'', ''finishReason'']),
      (''model.invocation_evidence_unavailable'', [''invocationId'', ''reasonCode'']),
      (''model.invocation_interrupted'', [''invocationId'', ''dispatchCertainty'', ''reasonCode'']),
      (''model.invocation_prepared'', [''invocationId'', ''purpose'', ''surfaceArtifact'',
        ''surfaceIntegrityIdentifier'', ''routeFingerprint'', ''budget'', ''limits'',
        ''preparedStateRevision'', ''parentInvocationId'', ''parentToolCallId'']),
      (''model.reasoning_completed'', [''requestId'', ''segmentId'', ''text'']),
      (''model.reasoning_delta'', [''requestId'', ''text'']),
      (''model.requested'', [''requestId'']),
      (''model.responded'', [''messageId'']),
      (''model.retry'', [''invocationId'', ''attempt'', ''maxAttempts'', ''error'', ''delayMs'']),
      (''model.text_delta'', [''requestId'', ''text'']),
      (''network.admission_decided'', [''toolCallId'', ''decision''])]"

definition PLAN_EVENT_FIELDS :: "(string \<times> string list) list" where
  "PLAN_EVENT_FIELDS =
     [(''plan.approved'', [''interactionId'', ''toolCallId'', ''planId'', ''version'', ''structuralDigest'',
        ''executionMode'']),
      (''plan.completed'', [''toolCallId'', ''taskId'', ''plan'', ''planId'', ''version'',
        ''structuralDigest'', ''completionEvidence'']),
      (''plan.drafted'', [''toolCallId'', ''taskId'', ''plan'', ''structuralHash'', ''planId'', ''version'',
        ''planSchemaVersion'', ''artifact'']),
      (''plan.progress_updated'', [''toolCallId'', ''taskId'', ''plan'', ''planId'', ''version'',
        ''structuralDigest'', ''completionEvidence'']),
      (''plan.replan_requested'', [''toolCallId'', ''reason'', ''supersedesPlanVersion'']),
      (''plan.review_cancelled'', [''interactionId'', ''toolCallId'', ''planId'', ''version'',
        ''structuralDigest'', ''reason'']),
      (''plan.review_requested'', [''interactionId'', ''toolCallId'', ''taskId'', ''plan'', ''planSummary'',
        ''planId'', ''version'', ''structuralDigest'', ''artifact'']),
      (''plan.revision_requested'', [''interactionId'', ''toolCallId'', ''planId'', ''version'',
        ''structuralDigest'', ''feedback'']),
      (''planning.entered'', [''taskId'', ''source'']),
      (''planning.exited'', [''taskId''])]"

definition PROVIDER_EVENT_FIELDS :: "(string \<times> string list) list" where
  "PROVIDER_EVENT_FIELDS =
     [(''provider.action_completed'', [''interactionId'', ''originatingToolCallId'']),
      (''provider.action_deferred'', [''interactionId'', ''originatingToolCallId'']),
      (''provider.action_failed'', [''interactionId'', ''originatingToolCallId'', ''failureCode'']),
      (''provider.action_required'', [''interactionId'', ''providerId'', ''action'', ''originatingToolCallId'']),
      (''provider.action_started'', [''interactionId'']),
      (''provider.admission_cancelled'', [''interactionId'', ''providerId'']),
      (''provider.admission_required'', [''interactionId'', ''providerId'', ''source'', ''providerStatus'',
        ''retryable'']),
      (''provider.admission_retry_failed'', [''interactionId'', ''providerStatus'']),
      (''provider.admission_retry_requested'', [''interactionId'']),
      (''provider.admission_satisfied'', [''interactionId'', ''providerDirectoryRevision'']),
      (''provider.admission_waived'', [''interactionId'', ''providerId'', ''source'', ''reason'', ''waivedAt'']),
      (''provider.admission_status'', [''status'', ''reason'']),
      (''provider.readiness_attempt_started'', [''readinessKey'', ''lifecycleId'', ''attempt'',
        ''maxAttempts'', ''startedAt'']),
      (''provider.readiness_failed'', [''readinessKey'', ''lifecycleId'', ''failure'', ''dispatchCertainty'',
        ''failedAt'']),
      (''provider.readiness_intent_recorded'', [''readinessKey'', ''lifecycleId'', ''providerId'',
        ''routeRevision'', ''executionBoundaryDigest'', ''requestedAt'', ''expiresAt'', ''maxAttempts'']),
      (''provider.readiness_succeeded'', [''readinessKey'', ''lifecycleId'', ''providerDirectoryRevision'',
        ''readyAt'', ''expiresAt'']),
      (''provider.readiness_waiter_registered'', [''readinessKey'', ''lifecycleId'', ''waiterId'',
        ''toolCallId'', ''registeredAt'']),
      (''resource_budget.configured'', [''runId'', ''startedAt'', ''deadlineAt'', ''budget'']),
      (''resource_budget.dispatch_started'', [''reservationId'']),
      (''resource_budget.reconciled'', [''reservationId'', ''actual'']),
      (''resource_budget.released'', [''reservationId'']),
      (''resource_budget.reserved'', [''reservation'']),
      (''resource_budget.unknown'', [''reservationId'']),
      (''resource_budget.waiter_cancelled'', [''invocationId'']),
      (''resource_budget.waiter_enqueued'', [''waiter'']),
      (''resource_budget.waiter_promoted'', [''invocationId'']),
      (''resource_budget.waiter_timed_out'', [''invocationId'']),
      (''run.completed'', [''turnId'', ''output'']),
      (''run.error'', [''message'', ''recoverable'']),
      (''runtime.action_ignored'', [''reason'']),
      (''runtime.cancellation_diagnostic'', [''toolCallId'', ''failure'', ''unconfirmedDescendantCount'']),
      (''skill.activation_started'', [''activation'']),
      (''skill.catalog_refreshed'', [''catalogRevision'']),
      (''skill.frame_closed'', [''activationId'', ''status'', ''reason'', ''closedAt''])]"

definition SESSION_EVENT_FIELDS :: "(string \<times> string list) list" where
  "SESSION_EVENT_FIELDS =
     [(''session.rewind_requested'', [''rewindId'', ''commandId'', ''sourceSessionId'', ''targetSessionId'',
        ''checkpointId'', ''scope'']),
      (''session.rewind_completed'', [''rewindId'', ''commandId'', ''sourceSessionId'', ''targetSessionId'',
        ''checkpointId'', ''scope'']),
      (''session.rewind_failed'', [''rewindId'', ''commandId'', ''sourceSessionId'', ''targetSessionId'',
        ''checkpointId'', ''scope'', ''failureCode'']),
      (''subagent.approval_deferred'', [''toolCallId'', ''subagentId'', ''parentToolCallId'']),
      (''subagent.cache_metrics'', [''subagent'']),
      (''subagent.completed'', [''subagent'']),
      (''subagent.failed'', [''subagent'']),
      (''subagent.recovery_journal_merged'', [''toolCallId'', ''journal'']),
      (''subagent.started'', [''subagent'']),
      (''subagent.step'', [''subagent'']),
      (''subagent.suspended'', [''toolCallId'', ''snapshot'']),
      (''subagent.tool_result'', [''subagent'']),
      (''task.cancelled'', [''taskId'', ''reason'']),
      (''task.completed'', [''taskId'', ''turnId'']),
      (''task.started'', [''taskId'', ''userGoal'', ''turnId'']),
      (''tool.cancelled'', [''toolCallId'', ''reason'']),
      (''tool.failed'', [''toolCallId'', ''failure'']),
      (''tool.file_change'', [''toolCallId'', ''path'', ''kind'']),
      (''tool.finished'', [''toolCallId'', ''name'', ''result'']),
      (''tool.progress'', [''toolCallId'', ''chunk'', ''stream'']),
      (''tool.queued'', [''toolCallId'', ''name'', ''args'']),
      (''tool.rejected'', [''toolCallId'', ''reason'']),
      (''tool.retry_recorded'', [''toolCallId'', ''failure'', ''outcome'', ''recoveryOf'', ''retryAttempt'']),
      (''tool.started'', [''toolCallId'']),
      (''turn.aborted'', [''turnId'', ''reason'']),
      (''turn.completed'', [''turnId'']),
      (''turn.started'', [''turnId'']),
      (''user.command_invoked'', [''commandId'', ''command'']),
      (''user.message_appended'', [''messageId'', ''content'']),
      (''user_input.answered'', [''interactionId'', ''toolCallId'', ''answer'']),
      (''user_input.cancelled'', [''interactionId'', ''toolCallId'', ''reason'']),
      (''user_input.requested'', [''interactionId'', ''toolCallId'', ''request''])]"

definition VERIFICATION_EVENT_FIELDS :: "(string \<times> string list) list" where
  "VERIFICATION_EVENT_FIELDS =
     [(''verification.check_completed'', [''verificationId'', ''result'']),
      (''verification.compensation_completed'', [''verificationId'', ''outcome'', ''summary'', ''completedAt'']),
      (''verification.compensation_requested'', [''verificationId'', ''requestedAt'']),
      (''verification.completed'', [''verificationId'', ''outcome'', ''completedAt'']),
      (''verification.repair_requested'', [''verificationId'', ''repairAttempt'', ''instruction'',
        ''requestedAt'']),
      (''verification.replan_requested'', [''verificationId'', ''instruction'', ''requestedAt'']),
      (''verification.requested'', [''verificationId'', ''mode'', ''spec'', ''requestedAt'']),
      (''verification.started'', [''verificationId'', ''attempt'', ''startedAt'']),
      (''verification.waived'', [''verificationId'', ''actor'', ''reason'', ''waivedAt''])]"

definition CURRENT_RUNTIME_EVENT_REQUIRED_FIELDS :: "(string \<times> string list) list" where
  "CURRENT_RUNTIME_EVENT_REQUIRED_FIELDS =
     APPROVAL_EVENT_FIELDS @ CAPABILITY_EVENT_FIELDS @ SANDBOX_EVENT_FIELDS @ MODEL_EVENT_FIELDS @ PLAN_EVENT_FIELDS @
     PROVIDER_EVENT_FIELDS @ SESSION_EVENT_FIELDS @ VERIFICATION_EVENT_FIELDS"

section \<open>Shapes\<close>

definition validTimestamp :: "js_host \<Rightarrow> jval \<Rightarrow> bool" where
  "validTimestamp h v = (case v of JStr t \<Rightarrow> date_parse h t \<noteq> None | _ \<Rightarrow> False)"

definition exact_keys :: "jobj \<Rightarrow> string list \<Rightarrow> bool" where
  "exact_keys o' names \<longleftrightarrow>
     length (obj_keys o') = length (remdups names) \<and> list_all (\<lambda>key. key \<in> set names) (obj_keys o')"

definition non_empty_text :: "jval \<Rightarrow> bool" where
  "non_empty_text v = string_where (\<lambda>t. t \<noteq> []) v"

definition at_least :: "int \<Rightarrow> jval \<Rightarrow> bool" where
  "at_least n v \<longleftrightarrow> is_safe_integer v \<and> int_of v \<ge> n"

definition is_prefixed_digest :: "string \<Rightarrow> bool" where
  "is_prefixed_digest t \<longleftrightarrow> take 7 t = ''sha256:'' \<and> is_sha256_hex (drop 7 t)"

definition is_artifact_id :: "string \<Rightarrow> bool" where
  "is_artifact_id t \<longleftrightarrow> take 3 t = ''pa_'' \<and> is_sha256_hex (drop 3 t)"

definition validPrivateRef :: "jval \<Rightarrow> string \<Rightarrow> bool" where
  "validPrivateRef v kind =
     (case v of JObj o' \<Rightarrow>
        sort_by code_unit_le (obj_keys o') = [''artifactId'', ''byteLength'', ''integrityIdentifier'', ''kind''] \<and>
        fld o' ''kind'' = JStr kind \<and> string_where is_artifact_id (fld o' ''artifactId'') \<and>
        string_where is_prefixed_digest (fld o' ''integrityIdentifier'') \<and> at_least 1 (fld o' ''byteLength'')
      | _ \<Rightarrow> False)"

definition COMMAND_IDENTITY_FIELDS :: "string list" where
  "COMMAND_IDENTITY_FIELDS = [''sessionId'', ''threadId'', ''workspace'', ''canonicalWorkspaceIdentity'', ''cwd'',
     ''executor'', ''environment'', ''scope'', ''effects'', ''parserRevision'', ''commandDigest'']"

definition validApprovalCommandIdentity :: "jval \<Rightarrow> bool" where
  "validApprovalCommandIdentity v =
     (case v of JObj o' \<Rightarrow>
        list_all (\<lambda>f. non_empty_text (fld o' f)) COMMAND_IDENTITY_FIELDS \<and>
        list_all (\<lambda>key. key \<in> set COMMAND_IDENTITY_FIELDS \<or> key = ''executorRevision'') (obj_keys o') \<and>
        (fld o' ''executorRevision'' = JUndef \<or> non_empty_text (fld o' ''executorRevision''))
      | _ \<Rightarrow> False)"

definition validInteractionOwner :: "jval \<Rightarrow> bool" where
  "validInteractionOwner v =
     (case v of JObj o' \<Rightarrow>
        if fld o' ''kind'' = JStr ''root_tool''
        then length (obj_keys o') = 2 \<and> hasOnlyKeys o' [''kind'', ''toolCallId''] \<and> non_empty_text (fld o' ''toolCallId'')
        else fld o' ''kind'' = JStr ''subagent_tool'' \<and> length (obj_keys o') = 4 \<and>
          hasOnlyKeys o' [''kind'', ''toolCallId'', ''subagentId'', ''parentToolCallId''] \<and>
          list_all (\<lambda>f. non_empty_text (fld o' f)) [''toolCallId'', ''subagentId'', ''parentToolCallId'']
      | _ \<Rightarrow> False)"

definition validToolPresentation :: "jval \<Rightarrow> bool" where
  "validToolPresentation v \<longleftrightarrow> v \<in> {JStr ''exploration'', JStr ''standalone'', JStr ''hidden''}"

definition control_char :: "char \<Rightarrow> bool" where
  "control_char c \<longleftrightarrow> (of_char c :: nat) \<le> 0x1F \<or> 0x7F \<le> (of_char c :: nat) \<and> (of_char c :: nat) \<le> 0x9F"

definition validToolDisplayLabel :: "jval \<Rightarrow> bool" where
  "validToolDisplayLabel v = string_where (\<lambda>t. t \<noteq> [] \<and> length t \<le> 512 \<and> \<not> list_ex control_char t) v"

definition stable_identity :: "jobj \<Rightarrow> bool" where
  "stable_identity o' \<longleftrightarrow> non_empty_text (fld o' ''stepId'') \<and> non_empty_text (fld o' ''toolCallId'')"

definition absent_or :: "(jval \<Rightarrow> bool) \<Rightarrow> jval \<Rightarrow> bool" where
  "absent_or test v \<longleftrightarrow> v = JUndef \<or> test v"

definition validSubagentStepPayload :: "jval \<Rightarrow> bool \<Rightarrow> bool" where
  "validSubagentStepPayload v allowLegacyIdentity =
     (case v of JObj o' \<Rightarrow>
        (allowLegacyIdentity \<or> stable_identity o') \<and>
        non_empty_text (fld o' ''id'') \<and> non_empty_text (fld o' ''toolName'') \<and> isRecord (fld o' ''toolArgs'') \<and>
        absent_or non_empty_text (fld o' ''modelInvocationId'') \<and> absent_or (at_least 0) (fld o' ''durationMs'')
      | _ \<Rightarrow> False)"

definition validSubagentToolResultPayload :: "jval \<Rightarrow> bool \<Rightarrow> bool" where
  "validSubagentToolResultPayload v allowLegacyIdentity =
     (case v of JObj o' \<Rightarrow>
        (allowLegacyIdentity \<or> stable_identity o') \<and>
        non_empty_text (fld o' ''id'') \<and> non_empty_text (fld o' ''toolName'') \<and>
        fld o' ''status'' \<in> {JStr ''completed'', JStr ''failed'', JStr ''cancelled''} \<and>
        ''ok'' \<notin> set (obj_keys o') \<and> absent_or (string_where (\<lambda>t. True)) (fld o' ''summary'') \<and>
        absent_or (at_least 0) (fld o' ''totalLines'') \<and> absent_or (at_least 0) (fld o' ''toolTokenCount'') \<and>
        absent_or (at_least 0) (fld o' ''durationMs'') \<and>
        absent_or (string_where (\<lambda>t. True)) (fld o' ''failureReason'')
      | _ \<Rightarrow> False)"

section \<open>Evidence records\<close>

text \<open>The validators of invariants.ts that the codec applies.\<close>

definition validString :: "jval \<Rightarrow> bool" where
  "validString v = string_where (\<lambda>t. t \<noteq> [] \<and> length t \<le> 4096 \<and> CHR 0x00 \<notin> set t) v"

definition validBareDigest :: "jval \<Rightarrow> bool" where
  "validBareDigest v = string_where is_sha256_hex v"

definition validPrefixedDigest :: "jval \<Rightarrow> bool" where
  "validPrefixedDigest v = string_where is_prefixed_digest v"

definition canonical_time :: "jval \<Rightarrow> bool" where
  "canonical_time v = string_where isTimestamp v"

definition validPrivateArtifact :: "jval \<Rightarrow> string \<Rightarrow> bool" where
  "validPrivateArtifact v kind =
     (case v of JObj artifact \<Rightarrow>
        exact_keys artifact [''artifactId'', ''kind'', ''integrityIdentifier'', ''byteLength''] \<and>
        fld artifact ''kind'' = JStr kind \<and> string_where is_artifact_id (fld artifact ''artifactId'') \<and>
        string_where is_prefixed_digest (fld artifact ''integrityIdentifier'') \<and> at_least 1 (fld artifact ''byteLength'')
      | _ \<Rightarrow> False)"

definition digestValue :: "js_host \<Rightarrow> jobj \<Rightarrow> string" where
  "digestValue h o' = sha256Hex (or_default (stable_json h (JObj o')) [])"

definition all_fields :: "(jval \<Rightarrow> bool) \<Rightarrow> string list \<Rightarrow> jobj \<Rightarrow> bool" where
  "all_fields test names o' = list_all (\<lambda>f. test (fld o' f)) names"

definition isValidFilesystemIntent :: "js_host \<Rightarrow> jobj \<Rightarrow> bool" where
  "isValidFilesystemIntent h intent \<longleftrightarrow>
     exact_keys intent [''attempt'', ''capabilityRevision'', ''argumentsDigest'', ''admissionDigest'', ''operationDigest'',
       ''searchBoundaryDigest'', ''lexicalTargetDigest'', ''canonicalWorkspaceDigest'', ''protectedPathRevision'',
       ''approvalSummaryDigest'', ''effectiveEffectsDigest'', ''intentDigest'', ''recordedAt''] \<and>
     at_least 1 (fld intent ''attempt'') \<and>
     all_fields validBareDigest [''capabilityRevision'', ''argumentsDigest'', ''admissionDigest'', ''effectiveEffectsDigest''] intent \<and>
     all_fields validPrefixedDigest [''operationDigest'', ''lexicalTargetDigest'', ''canonicalWorkspaceDigest'',
       ''approvalSummaryDigest'', ''intentDigest''] intent \<and>
     (fld intent ''searchBoundaryDigest'' = JNull \<or> validPrefixedDigest (fld intent ''searchBoundaryDigest'')) \<and>
     validString (fld intent ''protectedPathRevision'') \<and> canonical_time (fld intent ''recordedAt'') \<and>
     fld intent ''intentDigest'' = JStr (''sha256:'' @ digestValue h (obj_delete ''intentDigest'' intent))"

definition isValidFilesystemReady :: "js_host \<Rightarrow> jobj \<Rightarrow> bool" where
  "isValidFilesystemReady h ready \<longleftrightarrow>
     exact_keys ready [''attempt'', ''intentDigest'', ''operationDigest'', ''targetIdentityDigest'', ''preimageDigest'',
       ''preimageArtifact'', ''readyDigest'', ''readyAt''] \<and>
     at_least 1 (fld ready ''attempt'') \<and>
     all_fields validPrefixedDigest [''intentDigest'', ''operationDigest'', ''targetIdentityDigest'', ''readyDigest''] ready \<and>
     (fld ready ''preimageDigest'' = JNull \<or> validPrefixedDigest (fld ready ''preimageDigest'')) \<and>
     validPrivateArtifact (fld ready ''preimageArtifact'') ''filesystem_preimage'' \<and> canonical_time (fld ready ''readyAt'') \<and>
     fld ready ''readyDigest'' = JStr (''sha256:'' @ digestValue h (obj_delete ''readyDigest'' ready))"

definition isValidFilesystemObservation :: "jval \<Rightarrow> bool" where
  "isValidFilesystemObservation v =
     (case v of JObj observation \<Rightarrow>
        exact_keys observation [''actorIdentityDigest'', ''lexicalTargetDigest'', ''canonicalTargetDigest'',
          ''targetIdentityDigest'', ''contentDigest''] \<and>
        validBareDigest (fld observation ''actorIdentityDigest'') \<and>
        all_fields validPrefixedDigest [''lexicalTargetDigest'', ''canonicalTargetDigest'', ''targetIdentityDigest'',
          ''contentDigest''] observation
      | _ \<Rightarrow> False)"

definition isValidSandboxIntent :: "js_host \<Rightarrow> jobj \<Rightarrow> bool" where
  "isValidSandboxIntent h intent \<longleftrightarrow>
     exact_keys intent [''attempt'', ''toolCallId'', ''capabilityId'', ''capabilityRevision'', ''canonicalWorkspace'',
       ''effectiveEffectsDigest'', ''admissionDigest'', ''preparationDigest'', ''commandDigest'',
       ''executionBoundaryDigest'', ''resourceSemantics'', ''intentDigest'', ''recordedAt''] \<and>
     at_least 1 (fld intent ''attempt'') \<and>
     all_fields validString [''toolCallId'', ''capabilityId'', ''capabilityRevision'', ''canonicalWorkspace'',
       ''effectiveEffectsDigest'', ''admissionDigest'', ''preparationDigest'', ''commandDigest'',
       ''executionBoundaryDigest''] intent \<and>
     fld intent ''resourceSemantics'' = JStr ''allocating'' \<and> validBareDigest (fld intent ''intentDigest'') \<and>
     canonical_time (fld intent ''recordedAt'') \<and>
     fld intent ''intentDigest'' = JStr (digestValue h (obj_delete ''recordedAt'' (obj_delete ''intentDigest'' intent)))"

definition isValidSandboxReady :: "js_host \<Rightarrow> jobj \<Rightarrow> bool" where
  "isValidSandboxReady h ready \<longleftrightarrow>
     exact_keys ready [''attempt'', ''intentDigest'', ''preparationDigest'', ''commandDigest'', ''planDigest'', ''backend'',
       ''backendCapabilitiesDigest'', ''enforcement'', ''resourceSemantics'', ''cleanupDigest'', ''preparationArtifact'',
       ''readyDigest'', ''readyAt''] \<and>
     at_least 1 (fld ready ''attempt'') \<and>
     all_fields validString [''intentDigest'', ''preparationDigest'', ''commandDigest'', ''planDigest'',
       ''backendCapabilitiesDigest'', ''cleanupDigest''] ready \<and>
     fld ready ''backend'' \<in> JStr ` set [''seatbelt'', ''bubblewrap'', ''windows_restricted_token'', ''none''] \<and>
     fld ready ''enforcement'' \<in> {JStr ''full'', JStr ''partial''} \<and>
     fld ready ''resourceSemantics'' \<in> {JStr ''pure'', JStr ''allocating''} \<and>
     validPrivateArtifact (fld ready ''preparationArtifact'') ''sandbox_preparation'' \<and>
     validBareDigest (fld ready ''readyDigest'') \<and> canonical_time (fld ready ''readyAt'') \<and>
     fld ready ''readyDigest'' = JStr (digestValue h (obj_delete ''readyAt'' (obj_delete ''readyDigest'' ready)))"

section \<open>The event codec\<close>

text \<open>Conditions with the message of the error that is thrown when one does not hold, in order.\<close>

type_synonym demand = "bool \<times> string"

definition demands :: "demand list \<Rightarrow> unit res" where
  "demands ds = check_all (\<lambda>(b, message). if b then ok else throw message) ds"

definition required_fields :: "string \<Rightarrow> string list" where
  "required_fields ty = or_default (map_of CURRENT_RUNTIME_EVENT_REQUIRED_FIELDS ty) []"

definition about :: "kernel_event \<Rightarrow> string \<Rightarrow> string" where
  "about e message = ''Runtime event '' @ ev_type e @ message"

definition requireNonEmptyString :: "kernel_event \<Rightarrow> string \<Rightarrow> demand" where
  "requireNonEmptyString e f = (non_empty_text (fld (ev_data e) f), about e ('' requires '' @ f @ ''.''))"

definition exactEventKeys :: "kernel_event \<Rightarrow> string list \<Rightarrow> demand" where
  "exactEventKeys e optional =
     (exact_keys ((''type'', JStr (ev_type e)) # ev_data e)
        (''type'' # required_fields (ev_type e) @ filter (\<lambda>f. fld (ev_data e) f \<noteq> JUndef) optional),
      about e '' has an invalid shape.'')"

definition assertPositiveAttempt :: "kernel_event \<Rightarrow> demand" where
  "assertPositiveAttempt e = (at_least 1 (fld (ev_data e) ''attempt''), about e '' requires a positive attempt.'')"

definition digest_text :: "js_host \<Rightarrow> jval \<Rightarrow> bool" where
  "digest_text h v = is_prefixed_digest (js_String h v)"

definition rewind_demands :: "kernel_event \<Rightarrow> demand list" where
  "rewind_demands e =
     [exactEventKeys e []] @
     map (requireNonEmptyString e) [''rewindId'', ''commandId'', ''sourceSessionId'', ''targetSessionId'', ''checkpointId''] @
     [(fld (ev_data e) ''scope'' \<in> JStr ` set [''conversation_only'', ''conversation_and_workspace'', ''code_only''],
       ev_type e @ '' scope is invalid.''),
      (ev_type e = ''session.rewind_failed'' \<longrightarrow>
         fld (ev_data e) ''failureCode'' \<in> {JStr ''checkpoint_unavailable'', JStr ''execution_failed''},
       ''session.rewind_failed failureCode is invalid.'')]"

definition stream_demands :: "kernel_event \<Rightarrow> demand list" where
  "stream_demands e =
     (if ev_type e = ''model.text_delta''
      then exactEventKeys e [] # map (requireNonEmptyString e) [''requestId'', ''text'']
      else if ev_type e = ''model.reasoning_delta''
      then exactEventKeys e [''segmentId''] # map (requireNonEmptyString e) ([''requestId'', ''text''] @
        (if fld (ev_data e) ''segmentId'' = JUndef then [] else [''segmentId'']))
      else if ev_type e = ''model.reasoning_completed''
      then exactEventKeys e [] # map (requireNonEmptyString e) [''requestId'', ''segmentId'', ''text'']
      else exactEventKeys e [''admissionRevision''] # map (requireNonEmptyString e) ([''status'', ''reason''] @
        (if fld (ev_data e) ''admissionRevision'' = JUndef then [] else [''admissionRevision''])))"

definition approval_decision_demands :: "kernel_event \<Rightarrow> demand list" where
  "approval_decision_demands e =
     (let granted = (ev_type e = ''approval.granted''); payload = ev_data e in
      map (requireNonEmptyString e) [''interactionId'', ''toolCallId''] @
      [(validInteractionOwner (fld payload ''owner''), ev_type e @ '' owner binding is invalid.''),
       (granted \<longrightarrow> fld payload ''grant'' = JStr ''approve_once'', ''approval.granted may only issue approve_once.''),
       (at_least 0 (fld payload ''generation'') \<and> (granted \<longrightarrow> non_empty_text (fld payload ''receiptId'')),
        ev_type e @ '' receipt/generation is invalid.'')])"

definition batch_match_ok :: "jval \<Rightarrow> bool" where
  "batch_match_ok v =
     (case v of JObj m \<Rightarrow>
        exact_keys m ([''interactionId'', ''toolCallId'', ''receiptId'', ''generation'', ''owner''] @
          (if fld m ''bindingDigest'' = JUndef then [] else [''bindingDigest''])) \<and>
        all_fields non_empty_text [''interactionId'', ''toolCallId'', ''receiptId''] m \<and>
        at_least 0 (fld m ''generation'') \<and> validInteractionOwner (fld m ''owner'') \<and>
        absent_or non_empty_text (fld m ''bindingDigest'')
      | _ \<Rightarrow> False)"

definition batch_demands :: "js_host \<Rightarrow> kernel_event \<Rightarrow> demand list" where
  "batch_demands h e =
     (let payload = ev_data e; matches = list_of (fld payload ''matches''); cancelled = fld payload ''cancelledReviewIds'' in
      exactEventKeys e [''cancelledReviewIds''] #
      map (requireNonEmptyString e) [''interactionId'', ''toolCallId'', ''grantKey''] @
      [(validInteractionOwner (fld payload ''owner''), ''approval.batch_released owner binding is invalid.''),
       (fld payload ''grant'' = JStr ''same_command'', ''approval.batch_released requires same_command.''),
       (validApprovalCommandIdentity (fld payload ''commandIdentity''),
        ''approval.batch_released command identity is invalid.''),
       (at_least 0 (fld payload ''sessionRevision''), ''approval.batch_released sessionRevision is invalid.''),
       (at_least 0 (fld payload ''generation''), ''approval.batch_released generation is invalid.''),
       (matches \<noteq> [], ''approval.batch_released matches are required.''),
       (list_all batch_match_ok matches \<and> distinct (map (\<lambda>m. vfld m ''receiptId'') matches),
        ''approval.batch_released match is invalid.''),
       (cancelled = JUndef \<or> (case cancelled of JArr ids \<Rightarrow> list_all non_empty_text ids \<and> distinct ids | _ \<Rightarrow> False),
        ''approval.batch_released cancelled review identities are invalid.''),
       (validTimestamp h (fld payload ''createdAt''), ''approval.batch_released createdAt is invalid.'')])"

definition approval_request_demands :: "kernel_event \<Rightarrow> demand list" where
  "approval_request_demands e =
     (let payload = ev_data e in
      [(absent_or validApprovalCommandIdentity (fld payload ''commandIdentity''), ev_type e @ '' command identity is invalid.''),
       (booleanField payload ''fullModeBypassEligible'' \<noteq> None \<and> booleanField payload ''fullModePolicyBypassAllowed'' \<noteq> None,
        ev_type e @ '' Full-mode eligibility is invalid.''),
       (validInteractionOwner (fld payload ''owner''), ev_type e @ '' owner binding is invalid.'')])"

definition grants_cleared_demands :: "js_host \<Rightarrow> kernel_event \<Rightarrow> demand list" where
  "grants_cleared_demands h e =
     [exactEventKeys e [], requireNonEmptyString e ''sessionId'',
      (at_least 0 (fld (ev_data e) ''sessionRevision''), ''approval.session_grants_cleared sessionRevision is invalid.''),
      (at_least 0 (fld (ev_data e) ''generation''), ''approval.session_grants_cleared generation is invalid.''),
      (validTimestamp h (fld (ev_data e) ''clearedAt''), ''approval.session_grants_cleared clearedAt is invalid.'')]"

definition review_completed_demands :: "kernel_event \<Rightarrow> demand list" where
  "review_completed_demands e =
     [(validInteractionOwner (fld (ev_data e) ''owner''), ''auto_review.completed owner binding is invalid.''),
      (isRecord (fld (ev_data e) ''result''), ''auto_review.completed result is invalid.''),
      (absent_or (\<lambda>v. v = JBool True) (vfld (fld (ev_data e) ''result'') ''escalatedToUser''),
       ''auto_review.completed escalation disposition is invalid.'')]"

definition APPROVAL_STATES :: "string list" where
  "APPROVAL_STATES = [''queued_auto_review'', ''auto_reviewing'', ''queued_user_approval'', ''awaiting_user'',
     ''authorized_queued'']"

definition deferred_demands :: "js_host \<Rightarrow> kernel_event \<Rightarrow> demand list" where
  "deferred_demands h e =
     (let present = (\<lambda>f. fld (ev_data e) f \<noteq> JUndef) in
      exactEventKeys e [''interactionId'', ''approvalState''] #
      map (requireNonEmptyString e) ([''toolCallId'', ''subagentId'', ''parentToolCallId''] @
        filter present [''interactionId'']) @
      [(present ''approvalState'' \<longrightarrow> js_String h (fld (ev_data e) ''approvalState'') \<in> set APPROVAL_STATES,
        ''subagent.approval_deferred approval state is invalid.'')])"

definition legacy_admission_ok :: "js_host \<Rightarrow> jval \<Rightarrow> bool" where
  "legacy_admission_ok h v =
     (case v of JObj admission \<Rightarrow>
        join_with '','' (sort_by code_unit_le (obj_keys admission)) =
          ''admitted,payloadClassificationDigest,providerAdmissionRevision,routeIdentityDigest'' \<and>
        null_or_string (fld admission ''providerAdmissionRevision'') \<and>
        digest_text h (fld admission ''routeIdentityDigest'') \<and> digest_text h (fld admission ''payloadClassificationDigest'') \<and>
        booleanField admission ''admitted'' \<noteq> None
      | _ \<Rightarrow> False)"

definition model_prepared_demands :: "js_host \<Rightarrow> kernel_event \<Rightarrow> demand list" where
  "model_prepared_demands h e =
     exactEventKeys e [''admission''] # map (requireNonEmptyString e) [''invocationId'', ''routeFingerprint''] @
     [(absent_or (legacy_admission_ok h) (fld (ev_data e) ''admission''),
       ''Legacy model invocation admission evidence is invalid.'')]"

definition own_evidence :: "kernel_event \<Rightarrow> jobj" where
  "own_evidence e = obj_delete ''invocationId'' (ev_data e)"

definition evidence_demands :: "js_host \<Rightarrow> kernel_event \<Rightarrow> demand list" where
  "evidence_demands h e =
     [exactEventKeys e [], requireNonEmptyString e ''invocationId''] @
     (if ev_type e = ''capability.filesystem_intent_recorded''
      then [(isValidFilesystemIntent h (own_evidence e), ''Filesystem intent evidence digest mismatch or identity invalid.'')]
      else if ev_type e = ''capability.filesystem_mutation_ready''
      then [(isRecord (fld (ev_data e) ''preimageArtifact'') \<longrightarrow>
               at_least 0 (vfld (fld (ev_data e) ''preimageArtifact'') ''byteLength''), ''Invalid Artifact byteLength.''),
            (validTimestamp h (fld (ev_data e) ''readyAt''), ''Invalid readyAt.''),
            (isValidFilesystemReady h (own_evidence e), ''Invalid ready intentDigest.'')]
      else if ev_type e = ''capability.sandbox_preparation_intent_recorded''
      then [(isValidSandboxIntent h (own_evidence e), ''Sandbox preparation intent is invalid.'')]
      else [(isValidSandboxReady h (own_evidence e), ''Sandbox preparation ready record is invalid.'')])"

definition sandbox_dispatch_demands :: "js_host \<Rightarrow> kernel_event \<Rightarrow> demand list" where
  "sandbox_dispatch_demands h e =
     (let payload = ev_data e in
      exactEventKeys e [] # map (requireNonEmptyString e) [''invocationId'', ''dispatchId'', ''dispatchIntentDigest''] @
      assertPositiveAttempt e #
      (if ev_type e = ''capability.sandbox_execution_dispatch_intent_recorded''
       then map (requireNonEmptyString e) [''readyDigest'', ''planDigest'', ''supervisorNonce'', ''recordedAt''] @
         [(validTimestamp h (fld payload ''recordedAt''), ''Sandbox dispatch intent requires a valid timestamp.'')]
       else map (requireNonEmptyString e) [''processStartIdentity'', ''startedAt''] @
         [(at_least 1 (fld payload ''supervisorPid'') \<and> fld payload ''processGroupId'' = fld payload ''supervisorPid'' \<and>
           validTimestamp h (fld payload ''startedAt''), ''Sandbox supervisor start evidence is invalid.'')]))"

definition sandbox_cleanup_demands :: "js_host \<Rightarrow> kernel_event \<Rightarrow> string \<Rightarrow> bool \<Rightarrow> string \<Rightarrow> demand list" where
  "sandbox_cleanup_demands h e digest completed message =
     (let payload = ev_data e; timestampField = (if completed then ''disposedAt'' else ''startedAt'') in
      exactEventKeys e [] # map (requireNonEmptyString e) [''invocationId'', digest, ''lifecycleIntentDigest''] @
      [assertPositiveAttempt e, requireNonEmptyString e timestampField,
       (validTimestamp h (fld payload timestampField), about e '' requires a valid timestamp.''),
       (completed \<longrightarrow> booleanField payload ''disposed'' \<noteq> None \<and> at_least 1 (fld payload ''cleanupAttempt''), message)])"

definition subagent_dispatch_demands :: "js_host \<Rightarrow> kernel_event \<Rightarrow> demand list" where
  "subagent_dispatch_demands h e =
     (let payload = ev_data e in
      [exactEventKeys e [], requireNonEmptyString e ''invocationId'', assertPositiveAttempt e] @
      map (requireNonEmptyString e) [''childInvocationId'', ''dispatchIntentDigest'', ''recordedAt''] @
      [(js_String h (fld payload ''purpose'') \<in> {''start'', ''resume''} \<and> digest_text h (fld payload ''dispatchIntentDigest'') \<and>
        validPrivateRef (fld payload ''taskArtifact'') ''subagent_task'' \<and> validTimestamp h (fld payload ''recordedAt''),
        ''Subagent dispatch intent evidence is invalid.'')])"

definition subagent_handle_demands :: "js_host \<Rightarrow> kernel_event \<Rightarrow> demand list" where
  "subagent_handle_demands h e =
     (let payload = ev_data e in
      [exactEventKeys e [], requireNonEmptyString e ''invocationId'', assertPositiveAttempt e] @
      map (requireNonEmptyString e) [''dispatchIntentDigest'', ''handleIntegrityIdentifier'', ''recordedAt''] @
      [(digest_text h (fld payload ''dispatchIntentDigest'') \<and>
        validPrivateRef (fld payload ''handleArtifact'') ''subagent_handle'' \<and>
        digest_text h (fld payload ''handleIntegrityIdentifier'') \<and> validTimestamp h (fld payload ''recordedAt''),
        ''Subagent handle-ready evidence is invalid.'')])"

definition subagent_observation_demands :: "js_host \<Rightarrow> kernel_event \<Rightarrow> demand list" where
  "subagent_observation_demands h e =
     (let payload = ev_data e in
      [exactEventKeys e [], requireNonEmptyString e ''invocationId'', assertPositiveAttempt e] @
      map (requireNonEmptyString e) [''dispatchIntentDigest'', ''observedAt''] @
      [(digest_text h (fld payload ''dispatchIntentDigest'') \<and>
        js_String h (fld payload ''status'') \<in> set [''completed'', ''failed'', ''cancelled'', ''exhausted'', ''blocked''] \<and>
        validTimestamp h (fld payload ''observedAt''), ''Subagent observation evidence is invalid.'')])"

definition subagent_cleanup_demands :: "js_host \<Rightarrow> kernel_event \<Rightarrow> demand list" where
  "subagent_cleanup_demands h e =
     (let payload = ev_data e; completed = (ev_type e = ''capability.subagent_cleanup_completed'');
          timestampField = (if completed then ''completedAt'' else ''startedAt'') in
      [exactEventKeys e [], requireNonEmptyString e ''invocationId'', assertPositiveAttempt e] @
      map (requireNonEmptyString e) [''dispatchIntentDigest'', ''cleanupKind'', timestampField] @
      [(digest_text h (fld payload ''dispatchIntentDigest'') \<and> at_least 1 (fld payload ''cleanupAttempt'') \<and>
        js_String h (fld payload ''cleanupKind'') \<in> {''undispatched'', ''handle_reconcile''} \<and>
        validTimestamp h (fld payload timestampField) \<and> (completed \<longrightarrow> booleanField payload ''cleanupConfirmed'' \<noteq> None),
        ''Subagent cleanup evidence is invalid.'')])"

definition is_continuation_id :: "string \<Rightarrow> bool" where
  "is_continuation_id t \<longleftrightarrow> take 13 t = ''continuation-'' \<and> is_sha256_hex (drop 13 t)"

definition snapshot_ok :: "js_host \<Rightarrow> jobj \<Rightarrow> bool" where
  "snapshot_ok h snapshot \<longleftrightarrow>
     sort_by code_unit_le (obj_keys snapshot) =
       [''blockedTool'', ''continuationArtifact'', ''continuationId'', ''modelInvocationOrdinal'', ''parentAttempt'',
        ''parentInvocationId'', ''role'', ''storage'', ''subagentId''] \<and>
     fld snapshot ''storage'' = JStr ''private_artifact_v1'' \<and> non_empty_text (fld snapshot ''subagentId'') \<and>
     validPrivateRef (fld snapshot ''continuationArtifact'') ''subagent_continuation'' \<and>
     is_continuation_id (js_String h (fld snapshot ''continuationId'')) \<and>
     js_String h (fld snapshot ''role'') \<in> set [''explore'', ''plan'', ''code'', ''review''] \<and>
     at_least 0 (fld snapshot ''modelInvocationOrdinal'') \<and> non_empty_text (fld snapshot ''parentInvocationId'') \<and>
     at_least 1 (fld snapshot ''parentAttempt'') \<and> isRecord (fld snapshot ''blockedTool'')"

definition blocked_tool_ok :: "js_host \<Rightarrow> jobj \<Rightarrow> bool" where
  "blocked_tool_ok h blockedTool \<longleftrightarrow>
     join_with '','' (sort_by code_unit_le (obj_keys blockedTool)) =
       join_with '','' (sort_by code_unit_le ([''reasonCode''] @
         (if fld blockedTool ''runtimeToolCallId'' = JUndef then [] else [''runtimeToolCallId'']) @
         [''toolCallId'', ''toolName''])) \<and>
     js_String h (fld blockedTool ''reasonCode'') \<in>
       set [''SUBAGENT_TOOL_REQUIRES_APPROVAL'', ''SUBAGENT_TOOL_REQUIRES_AUTO_REVIEW''] \<and>
     non_empty_text (fld blockedTool ''toolCallId'') \<and> non_empty_text (fld blockedTool ''toolName'')"

definition suspended_demands :: "js_host \<Rightarrow> kernel_event \<Rightarrow> demand list" where
  "suspended_demands h e =
     (let snapshot = recordField (ev_data e) ''snapshot'' in
      [exactEventKeys e [], requireNonEmptyString e ''toolCallId'',
       (case snapshot of None \<Rightarrow> False | Some o' \<Rightarrow> snapshot_ok h o', ''Private Subagent suspension evidence is invalid.''),
       (blocked_tool_ok h (sub_record (or_default snapshot []) ''blockedTool''),
        ''Private Subagent blocked-tool evidence is invalid.'')])"

definition plan_decision_demands :: "kernel_event \<Rightarrow> demand list" where
  "plan_decision_demands e =
     map (requireNonEmptyString e) [''interactionId'', ''toolCallId'', ''planId'', ''structuralDigest''] @
     [(is_integer (fld (ev_data e) ''version'') \<and> int_of (fld (ev_data e) ''version'') \<ge> 1,
       about e '' requires a positive version.'')]"

definition tool_event_demands :: "kernel_event \<Rightarrow> demand list" where
  "tool_event_demands e =
     (if ev_type e \<in> set [''tool.queued'', ''tool.finished'', ''tool.failed'', ''tool.rejected'', ''tool.cancelled'']
      then [(absent_or validToolPresentation (fld (ev_data e) ''presentation''),
             ev_type e @ '' presentation classification is invalid.''),
            (absent_or validToolDisplayLabel (fld (ev_data e) ''displayLabel''), ev_type e @ '' display label is invalid.'')]
      else [])"

definition event_demands :: "js_host \<Rightarrow> kernel_event \<Rightarrow> demand list" where
  "event_demands h e =
     (let ty = ev_type e; payload = ev_data e in
      if ty \<in> set [''session.rewind_requested'', ''session.rewind_completed'', ''session.rewind_failed''] then rewind_demands e
      else if ty \<in> set [''model.text_delta'', ''model.reasoning_delta'', ''model.reasoning_completed'', ''provider.admission_status'']
      then stream_demands e
      else if ty = ''approval.granted'' \<or> ty = ''approval.rejected'' then approval_decision_demands e
      else if ty = ''approval.batch_released'' then batch_demands h e
      else if ty = ''approval.requested'' \<or> ty = ''auto_review.requested'' then approval_request_demands e
      else if ty = ''approval.session_grants_cleared'' then grants_cleared_demands h e
      else if ty = ''auto_review.completed'' then review_completed_demands e
      else if ty = ''subagent.step''
      then [(validSubagentStepPayload (fld payload ''subagent'') True, ''subagent.step payload is invalid.'')]
      else if ty = ''subagent.tool_result''
      then [(validSubagentToolResultPayload (fld payload ''subagent'') True, ''subagent.tool_result payload is invalid.'')]
      else if ty = ''subagent.approval_deferred'' then deferred_demands h e
      else if ty = ''capability.execution_succeeded''
      then [(absent_or isValidFilesystemObservation (fld payload ''filesystemObservation''),
             ''Filesystem observation evidence is invalid.'')]
      else if ty = ''model.invocation_prepared'' then model_prepared_demands h e
      else if ty \<in> set [''capability.filesystem_intent_recorded'', ''capability.filesystem_mutation_ready'',
        ''capability.sandbox_preparation_intent_recorded'', ''capability.sandbox_preparation_ready''] then evidence_demands h e
      else if ty \<in> set [''capability.sandbox_execution_dispatch_intent_recorded'',
        ''capability.sandbox_execution_supervisor_started''] then sandbox_dispatch_demands h e
      else if ty = ''capability.sandbox_disposal_started'' \<or> ty = ''capability.sandbox_disposal_completed''
      then sandbox_cleanup_demands h e ''readyDigest'' (ty = ''capability.sandbox_disposal_completed'')
        ''Sandbox disposal completion requires a boolean disposed receipt.''
      else if ty = ''capability.sandbox_preparation_abandonment_started'' \<or>
        ty = ''capability.sandbox_preparation_abandonment_completed''
      then sandbox_cleanup_demands h e ''intentDigest'' (ty = ''capability.sandbox_preparation_abandonment_completed'')
        ''Sandbox preparation abandonment requires a boolean disposed receipt.''
      else if ty = ''capability.subagent_dispatch_intent_recorded'' then subagent_dispatch_demands h e
      else if ty = ''capability.subagent_handle_recorded'' then subagent_handle_demands h e
      else if ty = ''capability.subagent_observation_recorded'' then subagent_observation_demands h e
      else if ty = ''capability.subagent_cleanup_started'' \<or> ty = ''capability.subagent_cleanup_completed''
      then subagent_cleanup_demands h e
      else if ty = ''subagent.suspended'' then suspended_demands h e
      else if ty \<in> set [''provider.action_completed'', ''provider.action_deferred'', ''provider.action_failed'']
      then map (requireNonEmptyString e) [''interactionId'', ''originatingToolCallId'']
      else if ty \<in> set [''plan.approved'', ''plan.revision_requested'', ''plan.review_cancelled''] then plan_decision_demands e
      else if ty \<in> set [''plan.drafted'', ''plan.progress_updated'', ''plan.completed'']
      then map (requireNonEmptyString e) [''toolCallId'', ''taskId'', ''planId'']
      else if ty = ''tool.failed''
      then [requireNonEmptyString e ''toolCallId'',
        (isRecord (fld payload ''failure''), ''Runtime event tool.failed requires structured failure.'')]
      else [])"

definition assertCurrentRuntimeEvent :: "js_host \<Rightarrow> kernel_event \<Rightarrow> unit res" where
  "assertCurrentRuntimeEvent h e =
     demands ([(ev_type e \<in> fst ` set CURRENT_RUNTIME_EVENT_REQUIRED_FIELDS,
         ''Runtime event type '' @ ev_type e @ '' is not part of the current format.'')] @
       map (\<lambda>f. (f \<in> set (obj_keys (ev_data e)), about e ('' requires '' @ f @ ''.''))) (required_fields (ev_type e)) @
       tool_event_demands e @ event_demands h e)"

section \<open>Events that may still be written\<close>

definition offers_full_access :: "kernel_event \<Rightarrow> bool" where
  "offers_full_access e \<longleftrightarrow>
     (let approval = sub_record (ev_data e) ''approval'' in
      fld approval ''recommendedGrant'' = JStr ''full_access'' \<or>
      JStr ''full_access'' \<in> set (list_of (fld approval ''grantOptions'')))"

definition write_demands :: "kernel_event \<Rightarrow> demand list" where
  "write_demands e =
     (let ty = ev_type e; payload = ev_data e; subagent = fld payload ''subagent'' in
      if ty = ''provider.admission_status''
      then [(False, ''Retired provider admission status is read-only compatibility data.'')]
      else if ty = ''model.invocation_prepared''
      then [(''admission'' \<notin> set (obj_keys payload) \<and> fld payload ''purpose'' \<noteq> JStr ''verification_review'',
        ''Retired model invocation evidence is read-only compatibility data.'')]
      else if ty = ''verification.requested''
      then [(\<not> list_ex (\<lambda>check. vfld check ''type'' = JStr ''reviewer'')
          (list_of (vfld (fld payload ''spec'') ''checks'')),
        ''Retired verification reviewer checks are read-only compatibility data.'')]
      else if ty = ''approval.requested''
      then [(\<not> offers_full_access e, ''Legacy full_access approval data is read-only compatibility data.'')]
      else if ty = ''approval.rejected''
      then [(''outcomeV1'' \<notin> set (obj_keys payload), ''Legacy approval rejection data is read-only compatibility data.'')]
      else if ty = ''auto_review.requested''
      then [(\<not> offers_full_access e, ''Legacy full_access review data is read-only compatibility data.'')]
      else if ty = ''auto_review.completed''
      then [(''outcomeV1'' \<notin> set (obj_keys payload) \<and>
          vfld (fld payload ''result'') ''grant'' \<in> {JUndef, JStr ''approve_once''},
        ''Legacy auto-review data is read-only compatibility data.'')]
      else if ty = ''subagent.started''
      then [(non_empty_text (vfld subagent ''name'') \<and> ''task'' \<notin> set (obj_keys (or_default (as_record subagent) [])),
        ''Retired subagent task titles are read-only compatibility data.'')]
      else if ty = ''subagent.step''
      then [(validSubagentStepPayload subagent False, ''Legacy Subagent step identity is read-only compatibility data.'')]
      else if ty = ''subagent.tool_result''
      then [(validSubagentToolResultPayload subagent False,
        ''Legacy Subagent tool-result identity is read-only compatibility data.'')]
      else [])"

definition assertCurrentRuntimeEventForWrite :: "js_host \<Rightarrow> kernel_event \<Rightarrow> unit res" where
  "assertCurrentRuntimeEventForWrite h e = and_then (assertCurrentRuntimeEvent h e) (demands (write_demands e))"

definition event_json :: "kernel_event \<Rightarrow> jobj" where
  "event_json e = (''type'', JStr (ev_type e)) # ev_data e"

definition encodeCurrentRuntimeEventJson :: "js_host \<Rightarrow> kernel_event \<Rightarrow> string res" where
  "encodeCurrentRuntimeEventJson h e =
     and_then (assertCurrentRuntimeEvent h e)
       (case json_stringify h (JObj (event_json e)) of None \<Rightarrow> throw ''Runtime event could not be encoded.''
        | Some t \<Rightarrow> Inr t)"

end
