(* ===== verification/Kite_Kernel.thy ===== *)
theory Kite_Kernel
  imports Kite_Codec Kite_Scheduler
begin

text \<open>
  src/packages/agent-kernel/src/reducer.ts and kernel.ts: the fixed composition of the eleven
  reducers, the identity of an event, and \<open>decide\<close>, which takes the events of one command from the
  host to the next state, their envelopes and the pending effect. The facts of the host arrive as a
  JSON value and are validated here, so they stay one; cycles, getters, symbols and negative zero do
  not exist in the model.
\<close>

section \<open>The fixed reducers\<close>

definition FIXED_AGENT_STATE_REDUCERS ::
  "(js_host \<Rightarrow> reducer_facts \<Rightarrow> agent_state \<Rightarrow> kernel_event \<Rightarrow> agent_state res) list" where
  "FIXED_AGENT_STATE_REDUCERS =
     [\<lambda>h facts s e. Inr (reduceLifecycleState h s e),
      \<lambda>h facts s e. Inr (reduceAuthorizationState h s e),
      \<lambda>h facts s e. reduceRecoveryState h s e,
      \<lambda>h facts s e. reduceIntentState h s e,
      \<lambda>h facts s e. reduceLeaseState h s e,
      \<lambda>h facts s e. reduceCompletionState h s e,
      \<lambda>h facts s e. Inr (reduceWorkState s e),
      \<lambda>h facts s e. Inr (reduceInteractionState s e),
      \<lambda>h facts s e. Inr (reduceCapabilityState s e),
      \<lambda>h facts s e. Inr (reduceContextState facts s e),
      \<lambda>h facts s e. reduceVerificationState h facts s e]"

fun run_reducers ::
  "(js_host \<Rightarrow> reducer_facts \<Rightarrow> agent_state \<Rightarrow> kernel_event \<Rightarrow> agent_state res) list \<Rightarrow>
   js_host \<Rightarrow> reducer_facts \<Rightarrow> kernel_event \<Rightarrow> agent_state \<Rightarrow> agent_state res" where
  "run_reducers [] h facts e s = Inr s"
| "run_reducers (r # rs) h facts e s = bind_res (r h facts s e) (run_reducers rs h facts e)"

definition FINALIZED_CREATED_AT_EVENTS :: "string list" where
  "FINALIZED_CREATED_AT_EVENTS = [''user.message_appended'', ''model.responded'', ''tool.finished'', ''tool.failed'',
     ''tool.rejected'', ''tool.cancelled'', ''tool.queued'', ''tool.started'', ''approval.requested'', ''approval.granted'',
     ''approval.rejected'', ''auto_review.requested'', ''auto_review.completed'']"

definition normalizeAgentEvent :: "js_host \<Rightarrow> kernel_event \<Rightarrow> agent_state \<Rightarrow> string \<Rightarrow> kernel_event res" where
  "normalizeAgentEvent h e s occurredAt =
     and_then (assertCurrentRuntimeEvent h e)
       (Inr (normalizeAgentToolOutcomeEvent h (normalizeTerminalAgentEvent e) s occurredAt))"

definition finalizeAgentEvent :: "kernel_event \<Rightarrow> string \<Rightarrow> kernel_event" where
  "finalizeAgentEvent e occurredAt =
     (if ev_type e \<in> set FINALIZED_CREATED_AT_EVENTS \<and> ''createdAt'' \<notin> set (obj_keys (ev_data e))
      then e\<lparr>ev_data := obj_set ''createdAt'' (JStr occurredAt) (ev_data e)\<rparr> else e)"

definition digestAgentEvent :: "js_host \<Rightarrow> kernel_event \<Rightarrow> string res" where
  "digestAgentEvent h e =
     (case json_stringify h (JObj (event_json e)) of None \<Rightarrow> throw ''Runtime event cannot be serialized.''
      | Some serialized \<Rightarrow> Inr (sha256Hex serialized))"

definition reduceAgentState :: "js_host \<Rightarrow> agent_state \<Rightarrow> kernel_event \<Rightarrow> reducer_facts \<Rightarrow> agent_state res" where
  "reduceAgentState h s e facts =
     and_then (assertCurrentRuntimeEvent h e)
       (let normalized = normalizeTerminalAgentEvent e in
        and_then (assertCanonicalToolOutcomeEvent h normalized)
          (run_reducers FIXED_AGENT_STATE_REDUCERS h facts normalized s))"

fun reduce :: "js_host \<Rightarrow> agent_state \<Rightarrow> kernel_event list \<Rightarrow> agent_state res" where
  "reduce h s [] = Inr s"
| "reduce h s (e # events) = bind_res (reduceAgentState h s e no_reducer_facts) (\<lambda>s1. reduce h s1 events)"

section \<open>Authorised effects\<close>

record authorized_effect =
  ae_sessionId :: string
  ae_operationId :: string
  ae_operation :: string
  ae_committedRevision :: jval

definition authorizeEffect :: "authorized_effect \<Rightarrow> authorized_effect res" where
  "authorizeEffect input =
     (if ae_sessionId input = [] \<or> ae_operationId input = [] \<or> \<not> at_least 0 (ae_committedRevision input)
      then throw ''AuthorizedEffect identity is invalid.'' else Inr input)"

section \<open>Facts of the host\<close>

fun isCanonicalJsonValue :: "jval \<Rightarrow> bool" where
  "isCanonicalJsonValue JUndef = False"
| "isCanonicalJsonValue JNaN = False"
| "isCanonicalJsonValue (JInf b) = False"
| "isCanonicalJsonValue (JArr vs) = list_all isCanonicalJsonValue vs"
| "isCanonicalJsonValue (JObj o') = list_all (\<lambda>(k, v). isCanonicalJsonValue v) o'"
| "isCanonicalJsonValue _ = True"

definition ADMISSION_KEYS :: "string list" where
  "ADMISSION_KEYS = [''schemaDigest'', ''schemaDiagnostic'', ''outputSchemaDigest'', ''outputSchemaDiagnostic'']"

definition admission_fact_ok :: "jval \<Rightarrow> bool" where
  "admission_fact_ok v =
     (case v of
        JNull \<Rightarrow> True
      | JObj entry \<Rightarrow>
          let own = (\<lambda>key. key \<in> set (obj_keys entry)) in
          obj_keys entry \<noteq> [] \<and> hasOnlyKeys entry ADMISSION_KEYS \<and>
          (own ''schemaDigest'' \<longleftrightarrow> own ''schemaDiagnostic'') \<and>
          (own ''outputSchemaDigest'' \<longleftrightarrow> own ''outputSchemaDiagnostic'') \<and>
          list_all (\<lambda>key. if key = ''schemaDigest'' \<or> key = ''outputSchemaDigest''
            then string_where is_sha256_hex (fld entry key)
            else fld entry key = JNull \<or> non_empty_text (fld entry key)) (obj_keys entry)
      | _ \<Rightarrow> False)"

definition validVerificationSchemaAdmissions :: "jval \<Rightarrow> bool" where
  "validVerificationSchemaAdmissions v =
     (case v of JUndef \<Rightarrow> True | JArr entries \<Rightarrow> list_all admission_fact_ok entries | _ \<Rightarrow> False)"

definition event_fact_ok :: "jval \<Rightarrow> bool" where
  "event_fact_ok efact =
     (case efact of JObj o' \<Rightarrow> string_where isTimestamp (fld o' ''occurredAt'') \<and>
        validVerificationSchemaAdmissions (fld o' ''verificationSchemaAdmissions'')
      | _ \<Rightarrow> False)"

definition allocations_ok :: "jval \<Rightarrow> bool" where
  "allocations_ok v =
     (case v of JObj allocated \<Rightarrow>
        list_all (\<lambda>(key, value). key \<noteq> [] \<and> non_empty_text value) allocated \<and> distinct (obj_values allocated)
      | _ \<Rightarrow> False)"

definition validDecisionFacts :: "jval \<Rightarrow> bool" where
  "validDecisionFacts facts =
     (case facts of JObj o' \<Rightarrow>
        fld o' ''schema'' = JStr ''kite.kernel-decision-facts.v1'' \<and>
        (case fld o' ''eventFacts'' of JArr fs \<Rightarrow> list_all event_fact_ok fs | _ \<Rightarrow> False) \<and>
        (case fld o' ''knownEventIds'' of JArr ids \<Rightarrow> list_all non_empty_text ids | _ \<Rightarrow> False) \<and>
        allocations_ok (fld o' ''allocatedIds'') \<and>
        list_all (\<lambda>f. isRecord (fld o' f) \<and> isCanonicalJsonValue (fld o' f))
          [''workspace'', ''policy'', ''provider'', ''protectedPath'', ''network'', ''executionBoundary'', ''attempt'']
      | _ \<Rightarrow> False)"

definition taskIdentityAllocationKey :: "nat \<Rightarrow> string \<Rightarrow> string res" where
  "taskIdentityAllocationKey eventIndex messageId =
     (if messageId = [] then throw ''Task identity allocation key input is invalid.''
      else Inr (''task:user-message:'' @ nat_digits eventIndex @ '':'' @ sha256Hex messageId))"

section \<open>Decisions\<close>

record kernel_input =
  ki_sessionId :: string
  ki_expectedRevision :: nat
  ki_events :: "kernel_event list"
  ki_causationId :: "string option"

record event_envelope =
  en_eventId :: string
  en_sessionId :: string
  en_revision :: nat
  en_occurredAt :: string
  en_causationId :: "string option"
  en_payload :: kernel_event

datatype kernel_decision =
    Applied "kernel_event list" "event_envelope list" agent_state "runtime_effect list"
  | Rejected string
  | Conflict string nat
  | IdempotentReplay nat

definition admissions_of :: "jval \<Rightarrow> jval list option" where
  "admissions_of efact =
     (case vfld efact ''verificationSchemaAdmissions'' of JArr entries \<Rightarrow> Some entries | _ \<Rightarrow> None)"

text \<open>The transient facts of one event, or the code with which the command is rejected.\<close>

definition reducer_facts_for ::
  "jval \<Rightarrow> jval \<Rightarrow> nat \<Rightarrow> agent_state \<Rightarrow> kernel_event \<Rightarrow> (string + reducer_facts) res" where
  "reducer_facts_for facts efact i s payload =
     (let admissions = admissions_of efact; requested = (ev_type payload = ''verification.requested'');
          base = \<lparr>fa_allocatedTaskId = None,
            fa_verificationSchemaAdmissions = (if requested then admissions else None)\<rparr> in
      if \<not> requested \<and> vfld efact ''verificationSchemaAdmissions'' \<noteq> JUndef
      then Inr (Inl ''unexpected_verification_schema_admission_facts'')
      else if ev_type payload = ''user.message_appended'' \<and> st_activeTaskId s = None
      then (case nonEmptyStringField (ev_data payload) ''messageId'' of
          None \<Rightarrow> Inr (Inl ''allocated_task_identity_invalid'')
        | Some messageId \<Rightarrow>
            bind_res (taskIdentityAllocationKey i messageId) (\<lambda>key.
              case truthy_option (as_string (vfld (vfld facts ''allocatedIds'') key)) of
                None \<Rightarrow> Inr (Inl ''allocated_task_identity_missing'')
              | Some taskId \<Rightarrow>
                  if map_of (st_tasks s) taskId \<noteq> None then Inr (Inl ''allocated_task_identity_conflict'')
                  else Inr (Inr (base\<lparr>fa_allocatedTaskId := Some taskId\<rparr>))))
      else Inr (Inr base))"

definition committed :: "agent_state \<Rightarrow> agent_state \<Rightarrow> string \<Rightarrow> agent_state" where
  "committed s reduced eventId =
     reduced\<lparr>st_revision := st_revision s + 1, st_lastAppliedEventId := Some eventId,
       st_appliedEventIds := take_last APPLIED_EVENT_ID_TAIL_LIMIT (st_appliedEventIds reduced @ [eventId])\<rparr>"

record decision_log =
  lg_state :: agent_state
  lg_seen :: "string list"
  lg_payloads :: "kernel_event list"
  lg_envelopes :: "event_envelope list"

definition envelope_for :: "kernel_input \<Rightarrow> agent_state \<Rightarrow> string \<Rightarrow> string \<Rightarrow> kernel_event \<Rightarrow> event_envelope" where
  "envelope_for input s eventId occurredAt payload =
     \<lparr>en_eventId = eventId, en_sessionId = ki_sessionId input, en_revision = st_revision s + 1,
      en_occurredAt = occurredAt, en_causationId = truthy_option (ki_causationId input), en_payload = payload\<rparr>"

definition apply_event ::
  "js_host \<Rightarrow> kernel_input \<Rightarrow> jval \<Rightarrow> nat \<Rightarrow> decision_log \<Rightarrow> kernel_event \<Rightarrow> jval \<Rightarrow> (string + decision_log) res" where
  "apply_event h input facts i dlog candidate efact =
     (let s = lg_state dlog; occurredAt = text_of (vfld efact ''occurredAt'') in
      and_then (assertCurrentRuntimeEventForWrite h candidate)
       (bind_res (normalizeAgentEvent h candidate s occurredAt) (\<lambda>normalized.
        bind_res (digestAgentEvent h normalized) (\<lambda>eventId.
        if eventId \<in> set (lg_seen dlog) then Inr (Inr dlog)
        else let payload = finalizeAgentEvent normalized occurredAt in
          bind_res (reducer_facts_for facts efact i s payload) (\<lambda>verdict.
          case verdict of
            Inl code \<Rightarrow> Inr (Inl code)
          | Inr rfacts \<Rightarrow>
              bind_res (reduceAgentState h s payload rfacts) (\<lambda>reduced.
              if fa_allocatedTaskId rfacts \<noteq> None \<and> st_activeTaskId reduced \<noteq> fa_allocatedTaskId rfacts
              then Inr (Inl ''allocated_task_identity_not_applied'')
              else Inr (Inr \<lparr>lg_state = committed s reduced eventId, lg_seen = eventId # lg_seen dlog,
                lg_payloads = lg_payloads dlog @ [payload],
                lg_envelopes = lg_envelopes dlog @ [envelope_for input s eventId occurredAt payload]\<rparr>)))))))"

fun apply_events ::
  "js_host \<Rightarrow> kernel_input \<Rightarrow> jval \<Rightarrow> nat \<Rightarrow> decision_log \<Rightarrow> (kernel_event \<times> jval) list \<Rightarrow> (string + decision_log) res" where
  "apply_events h input facts i dlog [] = Inr (Inr dlog)"
| "apply_events h input facts i dlog ((candidate, efact) # rest) =
     bind_res (apply_event h input facts i dlog candidate efact) (\<lambda>verdict.
       case verdict of Inl code \<Rightarrow> Inr (Inl code)
       | Inr dlog' \<Rightarrow> apply_events h input facts (Suc i) dlog' rest)"

definition scheduler_facts :: "jval \<Rightarrow> jval option" where
  "scheduler_facts facts = (case vfld facts ''scheduler'' of JUndef \<Rightarrow> None | v \<Rightarrow> Some v)"

definition initial_log :: "agent_state \<Rightarrow> jval \<Rightarrow> decision_log" where
  "initial_log s facts = \<lparr>lg_state = s,
     lg_seen = st_appliedEventIds s @ map text_of (list_of (vfld facts ''knownEventIds'')),
     lg_payloads = [], lg_envelopes = []\<rparr>"

definition decide :: "js_host \<Rightarrow> agent_state \<Rightarrow> kernel_input \<Rightarrow> jval \<Rightarrow> kernel_decision res" where
  "decide h s input facts =
     (let eventFacts = list_of (vfld facts ''eventFacts'') in
      if ki_sessionId input \<noteq> se_threadId (st_session s) then Inr (Rejected ''session_identity_mismatch'')
      else if ki_expectedRevision input \<noteq> st_revision s then Inr (Conflict ''revision_conflict'' (st_revision s))
      else if \<not> validDecisionFacts facts \<or> length eventFacts \<noteq> length (ki_events input)
      then Inr (Rejected ''invalid_decision_facts'')
      else bind_res (apply_events h input facts 0 (initial_log s facts) (zip (ki_events input) eventFacts)) (\<lambda>verdict.
        case verdict of Inl code \<Rightarrow> Inr (Rejected code)
        | Inr dlog \<Rightarrow>
            if lg_payloads dlog = [] then Inr (IdempotentReplay (st_revision s))
            else bind_res (selectPendingEffects h (lg_state dlog) (scheduler_facts facts)) (\<lambda>effects.
              Inr (Applied (lg_payloads dlog) (lg_envelopes dlog) (lg_state dlog) effects))))"

end
