(* ===== verification/Kite_Frame.thy ===== *)
theory Kite_Frame
  imports Kite_Kernel Kite_Authorization_Inv Kite_Lease_Inv
begin

text \<open>
  What the reducers leave alone. A \<open>quiet_view\<close> of the state ignores the working fields (turn,
  transcript, tools and so on); ignoring the fields of one more part as well (capabilities, model,
  verification, tasks, journal, ledger, approvals) gives the views that further reducers keep. The
  locales prove this once per reducer; their interpretations are the fields that have one owner, and
  the bookkeeping that only \<open>decide\<close> writes.
\<close>

section \<open>Views of the state\<close>

lemma either_branch: "(if c then x else y) = z \<Longrightarrow> (x = z \<Longrightarrow> P) \<Longrightarrow> (y = z \<Longrightarrow> P) \<Longrightarrow> P"
  by (cases c) simp_all

lemma sweep_keeps:
  assumes "\<And>i p s. kept (snd (f i p s)) = kept s"
  shows "kept (snd (sweep_pending f ps s)) = kept s"
proof (induction ps arbitrary: s)
  case (Cons q ps)
  obtain i p where q: "q = (i, p)" by (cases q)
  show ?case using Cons assms [of i p s] by (simp add: q Let_def case_prod_unfold)
qed simp

locale quiet_view =
  fixes view :: "agent_state \<Rightarrow> 'v"
  assumes view_activeTaskId [simp]: "view (s\<lparr>st_activeTaskId := a1\<rparr>) = view s"
    and view_turn [simp]: "view (s\<lparr>st_turn := a3\<rparr>) = view s"
    and view_transcript [simp]: "view (s\<lparr>st_transcript := a4\<rparr>) = view s"
    and view_terminalOutcome [simp]: "view (s\<lparr>st_terminalOutcome := a7\<rparr>) = view s"
    and view_completionGuard [simp]: "view (s\<lparr>st_completionGuard := a8\<rparr>) = view s"
    and view_interactions [simp]: "view (s\<lparr>st_interactions := a9\<rparr>) = view s"
    and view_tools [simp]: "view (s\<lparr>st_tools := a10\<rparr>) = view s"
    and view_skillFrames [simp]: "view (s\<lparr>st_skillFrames := a14\<rparr>) = view s"
    and view_skillCatalogRevision [simp]: "view (s\<lparr>st_skillCatalogRevision := a15\<rparr>) = view s"
    and view_providerAdmission [simp]: "view (s\<lparr>st_providerAdmission := a17\<rparr>) = view s"
    and view_suspendedSubagents [simp]: "view (s\<lparr>st_suspendedSubagents := a18\<rparr>) = view s"
begin

lemma view_put_call [simp]: "view (put_call s i c) = view s"
  by (simp add: put_call_def)

lemma view_withToolMembership [simp]: "view (withToolMembership s i a b) = view s"
  by (simp add: withToolMembership_def)

lemma view_add_message [simp]: "view (add_message s m) = view s"
  by (simp add: add_message_def)

lemma view_mark_call [simp]: "view (mark_call s i st) = view s"
  by (simp add: mark_call_def split: option.split)

lemma view_updateToolCall [simp]: "view (updateToolCall s i f) = view s"
  by (simp add: updateToolCall_def split: option.split)

lemma view_await_review [simp]: "view (await_review s i) = view s"
  by (simp add: await_review_def split: option.split)

lemma view_turn_completed [simp]: "view (turn_completed s p) = view s"
  by (simp add: turn_completed_def)

lemma view_completion_aborted [simp]: "view (Kite_Completion.turn_aborted s p) = view s"
  by (simp add: Kite_Completion.turn_aborted_def Let_def split: option.split)

lemma view_completion_blocked [simp]: "view (completion_blocked h s p) = view s"
  by (simp add: completion_blocked_def split: option.split completion_decision.split)

lemma view_settleProviderAdmission [simp]: "view (settleProviderAdmission s i w) = view s"
  by (simp add: settleProviderAdmission_def Let_def)

lemma view_provider_transcript [simp]: "view (Kite_Interaction.appendToolTranscript s c) = view s"
  by (simp add: Kite_Interaction.appendToolTranscript_def Let_def)

lemma view_input_requested [simp]: "view (input_requested s p) = view s"
  by (simp add: input_requested_def Let_def split: option.split interaction.split prod.split)

lemma view_input_settled [simp]: "view (input_settled s p) = view s"
  by (simp add: input_settled_def Let_def split: option.split interaction.split prod.split)

lemma view_action_required [simp]: "view (action_required s p) = view s"
  by (simp add: action_required_def Let_def split: option.split interaction.split prod.split)

lemma view_action_started [simp]: "view (action_started s p) = view s"
  by (simp add: action_started_def Let_def split: option.split interaction.split prod.split)

lemma view_admission_required [simp]: "view (admission_required s p) = view s"
  by (simp add: admission_required_def Let_def split: option.split interaction.split prod.split)

lemma view_admission_retry [simp]: "view (admission_retry_failed s p) = view s"
  by (simp add: admission_retry_failed_def Let_def split: option.split interaction.split prod.split)

lemma view_admission_satisfied [simp]: "view (admission_satisfied s p) = view s"
  by (simp add: admission_satisfied_def Let_def split: option.split interaction.split prod.split)

lemma view_admission_cancelled [simp]: "view (admission_cancelled s p) = view s"
  by (simp add: admission_cancelled_def Let_def split: option.split interaction.split prod.split)

lemma view_admission_waived [simp]: "view (admission_waived s p) = view s"
  by (simp add: admission_waived_def Let_def split: option.split interaction.split prod.split)

lemma view_admissions_aborted [simp]: "view (admissions_aborted s p) = view s"
  by (simp add: admissions_aborted_def Let_def split: option.split interaction.split prod.split)

end

locale capability_view = quiet_view +
  assumes view_capabilities [simp]: "view (s\<lparr>st_capabilities := a12\<rparr>) = view s"
    and view_invocations [simp]: "view (s\<lparr>st_invocations := a13\<rparr>) = view s"
begin

lemma view_capability: "view (reduceCapabilityState s e) = view s"
  by (auto simp: reduceCapabilityState_def bindings_issued_def search_completed_def invocation_recorded_def
      updateCapabilityInvocation_def Let_def split: option.split)

end

locale model_view = quiet_view +
  assumes view_context [simp]: "view (s\<lparr>st_context := a5\<rparr>) = view s"
    and view_modelInvocations [simp]: "view (s\<lparr>st_modelInvocations := a6\<rparr>) = view s"
begin

lemma view_set_model [simp]: "view (set_model s i o') = view s"
  by (simp add: set_model_def)

lemma view_set_context [simp]: "view (set_context s c) = view s"
  by (simp add: set_context_def)

lemma view_compaction_requested [simp]: "view (compaction_requested s p) = view s"
  by (simp add: compaction_requested_def Let_def split: option.split prod.split)

lemma view_compaction_completed [simp]: "view (compaction_completed s p) = view s"
  by (simp add: compaction_completed_def Let_def split: option.split prod.split)

lemma view_compaction_failed [simp]: "view (compaction_failed s p) = view s"
  by (simp add: compaction_failed_def Let_def split: option.split prod.split)

lemma view_compaction_reset [simp]: "view (compaction_reset s p) = view s"
  by (simp add: compaction_reset_def Let_def split: option.split prod.split)

lemma view_hard_blocked [simp]: "view (hard_blocked s p) = view s"
  by (simp add: hard_blocked_def Let_def split: option.split prod.split)

lemma view_hard_block_cleared [simp]: "view (hard_block_cleared s p) = view s"
  by (simp add: hard_block_cleared_def Let_def split: option.split prod.split)

lemma view_model_prepared [simp]: "view (model_prepared s p) = view s"
  by (simp add: model_prepared_def Let_def split: option.split prod.split)

lemma view_attempt_started [simp]: "view (attempt_started s p) = view s"
  by (simp add: attempt_started_def Let_def split: option.split prod.split)

lemma view_model_completed [simp]: "view (model_completed s p) = view s"
  by (simp add: model_completed_def Let_def split: option.split prod.split)

lemma view_model_interrupted [simp]: "view (model_interrupted s p) = view s"
  by (simp add: model_interrupted_def Let_def split: option.split prod.split)

lemma view_evidence_unavailable [simp]: "view (evidence_unavailable s p) = view s"
  by (simp add: evidence_unavailable_def Let_def split: option.split prod.split)

end

locale verdict_view = quiet_view +
  assumes view_verification [simp]: "view (s\<lparr>st_verification := a16\<rparr>) = view s"
begin

lemma view_verification_requested:
  "verification_requested h facts s i payload = Inr s' \<Longrightarrow> view s' = view s"
  by (auto simp: verification_requested_def withRecord_def res_simps Let_def split: if_splits sum.splits)

lemma view_withRecord [simp]: "view (withRecord s i o') = view s"
  by (simp add: withRecord_def)

lemma view_change_record [simp]: "view (change_record s i c) = view s"
  by (simp add: change_record_def split: option.split)

lemma view_instruct [simp]: "view (instruct s i c) = view s"
  by (simp add: instruct_def appendInstruction_def split: option.split)

lemma view_verification_state: "reduceVerificationState h facts s e = Inr s' \<Longrightarrow> view s' = view s"
  by (auto simp: reduceVerificationState_def Let_def intro: view_verification_requested split: if_splits option.splits)

end

locale steady_view = quiet_view +
  assumes view_tasks [simp]: "view (s\<lparr>st_tasks := a2\<rparr>) = view s"
begin

lemma view_updateTasks [simp]: "view (updateTasks s i f) = view s"
  by (simp add: updateTasks_def split: option.split)

lemma view_set_planning [simp]: "view (set_planning s i p) = view s"
  by (simp add: set_planning_def)

lemma view_run_completed: "run_completed h s payload = Inr s' \<Longrightarrow> view s' = view s"
  by (auto simp: run_completed_def res_simps split: option.splits)

lemma view_completion: "reduceCompletionState h s e = Inr s' \<Longrightarrow> view s' = view s"
  unfolding reduceCompletionState_def
  by (elim either_branch) (auto simp: view_run_completed split: option.splits)

lemma view_work: "view (reduceWorkState s e) = view s"
  by (auto simp: reduceWorkState_def side_effect_started_def activation_started_def frame_closed_def Let_def
      split: option.split)

lemma view_review_opened [simp]: "view (review_opened s p) = view s"
  by (simp add: review_opened_def Let_def split: option.split interaction.split prod.split)

lemma view_review_approved [simp]: "view (Kite_Interaction.review_approved s p) = view s"
  by (simp add: Kite_Interaction.review_approved_def Let_def split: option.split interaction.split prod.split)

lemma view_review_sent_back [simp]: "view (review_sent_back s e) = view s"
  by (simp add: review_sent_back_def Let_def split: option.split interaction.split prod.split)

lemma view_allocate_task [simp]: "view (allocate_task s facts g) = view s"
  by (simp add: allocate_task_def split: option.split)

lemma view_set_goal [simp]: "view (set_goal s g) = view s"
  by (simp add: set_goal_def split: option.split)

lemma view_message_appended [simp]: "view (message_appended facts s p) = view s"
  by (simp add: message_appended_def Let_def split: option.split prod.split)

end

locale journal_view = quiet_view +
  assumes view_toolRecovery [simp]: "view (s\<lparr>st_toolRecovery := a11\<rparr>) = view s"
begin

lemma view_resolve_failures [simp]: "view (resolve_failures s j k r ids) = view s"
  by (simp add: resolve_failures_def)

lemma view_turn_started [simp]: "view (turn_started s p) = view s"
  by (simp add: turn_started_def Let_def split: option.split planning_state.split prod.split)

lemma view_supplemental_end [simp]: "view (supplemental_end h s e i c o') = view s"
  by (simp add: supplemental_end_def)

lemma view_journal_event: "journal_event h s e = Inr s' \<Longrightarrow> view s' = view s"
  by (auto simp: journal_event_def res_simps split: option.splits prod.splits sum.splits)

lemma view_subagent_merged: "subagent_merged h s payload = Inr s' \<Longrightarrow> view s' = view s"
  by (auto simp: subagent_merged_def res_simps split: option.splits prod.splits sum.splits)

lemma view_recovery: "reduceRecoveryState h s e = Inr s' \<Longrightarrow> view s' = view s"
  by (auto simp: reduceRecoveryState_def subagent_suspended_def subagent_deferred_def
      intro: view_journal_event view_subagent_merged split: if_splits option.splits prod.splits)

lemma view_tool_queued: "tool_queued h s payload = Inr s' \<Longrightarrow> view s' = view s"
  by (auto simp: tool_queued_def res_simps Let_def split: option.splits sum.splits if_splits)

lemma view_tool_ended [simp]: "view (tool_ended h s e) = view s"
  by (simp add: tool_ended_def Let_def split: option.split)

lemma view_intent: "reduceIntentState h s e = Inr s' \<Longrightarrow> view s' = view s"
  by (auto simp: reduceIntentState_def bind_res_Inr tool_started_def retry_recorded_def
      network_admission_decided_def Let_def intro: view_tool_queued split: if_splits option.splits)

lemma view_action_settled [simp]: "view (action_settled s e) = view s"
  by (simp add: action_settled_def appendRuntimeTranscript_def Let_def split: option.split interaction.split prod.split)

lemma view_model_responded [simp]: "view (model_responded s p) = view s"
  by (simp add: model_responded_def Let_def split: option.split prod.split)

end

locale working_view = steady_view view + journal_view view for view :: "agent_state \<Rightarrow> 'v"
begin

lemma view_close_task [simp]: "view (close_task s i f) = view s"
  by (simp add: close_task_def split: option.split)

lemma view_task_started [simp]: "view (task_started s p) = view s"
  by (simp add: task_started_def Let_def split: option.split planning_state.split prod.split)

lemma view_task_completed [simp]: "view (task_completed s p) = view s"
  by (simp add: task_completed_def Let_def split: option.split planning_state.split prod.split)

lemma view_task_cancelled [simp]: "view (task_cancelled s p) = view s"
  by (simp add: task_cancelled_def Let_def split: option.split planning_state.split prod.split)

lemma view_planning_entered [simp]: "view (planning_entered s p) = view s"
  by (simp add: planning_entered_def Let_def split: option.split planning_state.split prod.split)

lemma view_plan_review [simp]: "view (Kite_Lifecycle.review_requested h s p) = view s"
  by (simp add: Kite_Lifecycle.review_requested_def Let_def split: option.split planning_state.split prod.split)

lemma view_plan_approved [simp]: "view (plan_approved s p) = view s"
  by (simp add: plan_approved_def Let_def split: option.split planning_state.split prod.split)

lemma view_review_returned [simp]: "view (review_returned s e) = view s"
  by (simp add: review_returned_def Let_def split: option.split planning_state.split prod.split)

lemma view_replan [simp]: "view (replan_requested h s p) = view s"
  by (simp add: replan_requested_def Let_def split: option.split planning_state.split prod.split)

lemma view_plan_drafted [simp]: "view (plan_drafted h s p) = view s"
  by (simp add: plan_drafted_def Let_def split: option.split planning_state.split prod.split)

lemma view_progress [simp]: "view (progress_updated h s p) = view s"
  by (simp add: progress_updated_def Let_def split: option.split planning_state.split prod.split)

lemma view_plan_completed [simp]: "view (plan_completed h s p) = view s"
  by (simp add: plan_completed_def Let_def split: option.split planning_state.split prod.split)

lemma view_lifecycle: "view (reduceLifecycleState h s e) = view s"
  by (simp add: reduceLifecycleState_def Let_def)

lemma view_interaction: "view (reduceInteractionState s e) = view s"
  by (simp add: reduceInteractionState_def Let_def)

end

locale dialogue_view = working_view view + model_view view for view :: "agent_state \<Rightarrow> 'v"
begin

lemma view_context_state: "view (reduceContextState facts s e) = view s"
  by (simp add: reduceContextState_def Let_def)

end

section \<open>The lease and authorization reducers\<close>

locale approval_view = quiet_view +
  assumes view_resourceBudget [simp]: "view (s\<lparr>st_resourceBudget := b1\<rparr>) = view s"
    and view_providerReadiness [simp]: "view (s\<lparr>st_providerReadiness := b2\<rparr>) = view s"
begin

lemma view_with_budget [simp]: "view (with_budget s b) = view s"
  by (simp add: with_budget_def)

lemma view_budget_configured: "budget_configured h s p = Inr s' \<Longrightarrow> view s' = view s"
  by (auto simp: budget_configured_def res_simps Let_def split: if_splits option.splits resource_budget_state.splits)

lemma view_waiter_enqueued: "waiter_enqueued h s b p = Inr s' \<Longrightarrow> view s' = view s"
  by (auto simp: waiter_enqueued_def res_simps Let_def split: if_splits option.splits)

lemma view_waiter_settled: "waiter_settled h s b ty p = Inr s' \<Longrightarrow> view s' = view s"
  by (auto simp: waiter_settled_def res_simps Let_def split: if_splits option.splits)

lemma view_budget_reserved: "budget_reserved h s b p = Inr s' \<Longrightarrow> view s' = view s"
  by (auto simp: budget_reserved_def res_simps Let_def split: if_splits option.splits)

lemma view_reservation_event: "reservation_event h s b ty p = Inr s' \<Longrightarrow> view s' = view s"
  by (auto simp: reservation_event_def budget_dispatch_started_def budget_reconciled_def budget_released_def
      budget_unknown_def res_simps Let_def split: if_splits option.splits)

lemmas view_budget_ops = view_budget_configured view_waiter_enqueued view_waiter_settled view_budget_reserved
  view_reservation_event

lemma view_resource_budget: "reduceResourceBudget h s ty p = Inr s' \<Longrightarrow> view s' = view s"
  unfolding reduceResourceBudget_def
  by (elim either_branch bind_res_Inr [THEN iffD1, elim_format] exE conjE) (erule view_budget_ops)+

lemma view_with_readiness [simp]: "view (with_readiness s k r) = view s"
  by (simp add: with_readiness_def)

lemma view_readiness_intent [simp]: "view (readiness_intent_recorded h s k c p) = view s"
  by (simp add: readiness_intent_recorded_def Let_def)

lemma view_readiness_waiter [simp]: "view (readiness_waiter_registered s k c p) = view s"
  by (simp add: readiness_waiter_registered_def Let_def split: option.split)

lemma view_readiness_attempt [simp]: "view (readiness_attempt_started h s k c p) = view s"
  by (cases c) (simp_all add: readiness_attempt_started_def Let_def if_distrib [of view] cong: if_weak_cong)

lemma view_readiness_succeeded [simp]: "view (readiness_succeeded s k c p) = view s"
  by (simp add: readiness_succeeded_def Let_def split: option.split)

lemma view_readiness_failed [simp]: "view (readiness_failed s k c p) = view s"
  by (simp add: readiness_failed_def Let_def split: option.split)

lemma view_provider_readiness: "view (reduceProviderReadiness h s ty p) = view s"
  by (simp add: reduceProviderReadiness_def Let_def split: option.split)

lemma view_lease: "reduceLeaseState h s e = Inr s' \<Longrightarrow> view s' = view s"
  by (auto simp: reduceLeaseState_def view_provider_readiness intro: view_resource_budget split: if_splits)

end

locale standing_view = quiet_view +
  assumes view_mode [simp]: "view (s\<lparr>st_mode := c1\<rparr>) = view s"
    and view_interactionModeRevision [simp]: "view (s\<lparr>st_interactionModeRevision := c2\<rparr>) = view s"
    and view_autoReview [simp]: "view (s\<lparr>st_autoReview := c3\<rparr>) = view s"
    and view_doomLoop [simp]: "view (s\<lparr>st_doomLoop := c4\<rparr>) = view s"
    and view_pendingApprovals [simp]: "view (s\<lparr>st_pendingApprovals := c5\<rparr>) = view s"
    and view_activeApprovalId [simp]: "view (s\<lparr>st_activeApprovalId := c6\<rparr>) = view s"
    and view_nextQueueSequence [simp]: "view (s\<lparr>st_nextQueueSequence := c7\<rparr>) = view s"
    and view_approvalGeneration [simp]: "view (s\<lparr>st_approvalGeneration := c8\<rparr>) = view s"
    and view_sessionCommandGrants [simp]: "view (s\<lparr>st_sessionCommandGrants := c9\<rparr>) = view s"
    and view_approvalReceipts [simp]: "view (s\<lparr>st_approvalReceipts := c10\<rparr>) = view s"
begin

lemma view_approvalQueueState [simp]: "view (approvalQueueState s p a) = view s"
  by (simp add: approvalQueueState_def)

lemma view_pendingToolStatus [simp]: "view (pendingToolStatus h s i st g a m) = view s"
  by (simp add: pendingToolStatus_def)

lemma view_swept:
  assumes "\<And>i p s. view (snd (f i p s)) = view s"
  shows "view (swept f s) = view s"
  using sweep_keeps [of view f, OF assms, of "st_pendingApprovals s" s]
  by (simp add: swept_def Let_def case_prod_unfold)

lemma view_with_mode: "view (with_mode s m) = view (clear_execution_mode s)"
  by (simp add: with_mode_def)

lemma view_mode_changed: "view (mode_changed h s p) = view s \<or> view (mode_changed h s p) = view (clear_execution_mode s)"
  by (auto simp: mode_changed_def release_for_full_def restore_from_full_def Let_def view_swept view_with_mode
      split: option.split)

lemma view_enqueued [simp]: "view s1 = view s \<Longrightarrow> view (enqueued s s1 i p) = view s"
  by (simp add: enqueued_def Let_def)

lemma view_approval_requested [simp]: "view (approval_requested h s p) = view s"
  by (simp add: approval_requested_def Let_def split: option.split)

lemma view_review_requested [simp]: "view (Kite_Authorization.review_requested h s p) = view s"
  by (simp add: Kite_Authorization.review_requested_def Let_def split: option.split)

lemma view_approval_granted [simp]: "view (approval_granted h s p) = view s"
  by (simp add: approval_granted_def Let_def split: option.split prod.split)

lemma view_approval_rejected [simp]: "view (approval_rejected s p) = view s"
  by (simp add: approval_rejected_def Let_def split: option.split prod.split)

lemma view_batch_released [simp]: "view (batch_released h s p) = view s"
proof -
  have "view (bs_next (snd (release_in_batch h b i q st))) = view (bs_next st)" for b i q st
    by (simp add: release_in_batch_def split: option.split)
  then have "view (bs_next (snd (sweep_pending (release_in_batch h b) ps st))) = view (bs_next st)" for b ps st
    using sweep_keeps [of "\<lambda>st. view (bs_next st)" "release_in_batch h b" ps st] by simp
  then show ?thesis
    by (simp add: batch_released_def Let_def split: option.split prod.split) (metis snd_conv batch_state.select_convs(3))
qed

lemma view_grants_cleared [simp]: "view (grants_cleared h s p) = view s"
  by (simp add: grants_cleared_def view_swept revoke_same_command_def Let_def split: option.split)

lemma view_turn_aborted [simp]: "view (Kite_Authorization.turn_aborted s p) = view s"
  by (simp add: Kite_Authorization.turn_aborted_def Let_def split: option.split prod.split)

lemma view_tool_progressed [simp]: "view (tool_progressed f s) = view s"
  by (simp add: tool_progressed_def Let_def split: prod.split)

lemma view_review_completed [simp]: "view (review_completed h s p) = view s"
  by (simp add: review_completed_def review_escalated_def Kite_Authorization.review_approved_def review_rejected_def
      Let_def split: option.split prod.split)

lemma view_authorization_mode:
  "view (reduceAuthorizationState h s e) = view s \<or> view (reduceAuthorizationState h s e) = view (clear_execution_mode s)"
  using view_mode_changed [of h s "ev_data e"] by (simp add: reduceAuthorizationState_def Let_def split: option.split)

end

locale ledger_view = steady_view view + standing_view view for view :: "agent_state \<Rightarrow> 'v"
begin

lemma view_clear_execution_mode [simp]: "view (clear_execution_mode s) = view s"
  by (simp add: clear_execution_mode_def split: option.split)

lemma view_authorization: "view (reduceAuthorizationState h s e) = view s"
  using view_authorization_mode [of h s e] by simp

end

section \<open>The views of interest\<close>

definition approval_fields where
  "approval_fields s = (st_pendingApprovals s, st_activeApprovalId s, st_nextQueueSequence s,
     st_approvalGeneration s, st_approvalReceipts s, st_sessionCommandGrants s)"

definition bookkeeping :: "agent_state \<Rightarrow> nat \<times> string option \<times> string list \<times> session_state" where
  "bookkeeping s = (st_revision s, st_lastAppliedEventId s, st_appliedEventIds s, st_session s)"

text \<open>The fields the context reducer owns.\<close>

definition model_fields :: "agent_state \<Rightarrow> jobj \<times> (string \<times> model_invocation) list" where
  "model_fields s = (st_context s, st_modelInvocations s)"

interpretation approvals_work: working_view approval_fields
  by unfold_locales (simp_all add: approval_fields_def)

interpretation approvals_dialogue: dialogue_view approval_fields
  by unfold_locales (simp_all add: approval_fields_def)

interpretation approvals_capability: capability_view approval_fields
  by unfold_locales (simp_all add: approval_fields_def)

interpretation approvals_verdict: verdict_view approval_fields
  by unfold_locales (simp_all add: approval_fields_def)

interpretation approvals: approval_view approval_fields
  by unfold_locales (simp_all add: approval_fields_def)

interpretation budget_work: working_view st_resourceBudget
  by unfold_locales simp_all

interpretation budget_dialogue: dialogue_view st_resourceBudget
  by unfold_locales simp_all

interpretation budget_capability: capability_view st_resourceBudget
  by unfold_locales simp_all

interpretation budget_verdict: verdict_view st_resourceBudget
  by unfold_locales simp_all

interpretation budget: ledger_view st_resourceBudget
  by unfold_locales simp_all

interpretation marks_work: working_view bookkeeping
  by unfold_locales (simp_all add: bookkeeping_def)

interpretation marks_dialogue: dialogue_view bookkeeping
  by unfold_locales (simp_all add: bookkeeping_def)

interpretation marks_capability: capability_view bookkeeping
  by unfold_locales (simp_all add: bookkeeping_def)

interpretation marks_verdict: verdict_view bookkeeping
  by unfold_locales (simp_all add: bookkeeping_def)

interpretation marks_lease: approval_view bookkeeping
  by unfold_locales (simp_all add: bookkeeping_def)

interpretation marks: ledger_view bookkeeping
  by unfold_locales (simp_all add: bookkeeping_def)

interpretation journal_lease: approval_view st_toolRecovery
  by unfold_locales simp_all

interpretation journal_model: model_view st_toolRecovery
  by unfold_locales simp_all

interpretation journal_capability: capability_view st_toolRecovery
  by unfold_locales simp_all

interpretation journal_verdict: verdict_view st_toolRecovery
  by unfold_locales simp_all

interpretation journal: ledger_view st_toolRecovery
  by unfold_locales simp_all

interpretation tasks_lease: approval_view st_tasks
  by unfold_locales simp_all

interpretation tasks_model: model_view st_tasks
  by unfold_locales simp_all

interpretation tasks_capability: capability_view st_tasks
  by unfold_locales simp_all

interpretation tasks_verdict: verdict_view st_tasks
  by unfold_locales simp_all

interpretation tasks: journal_view st_tasks
  by unfold_locales simp_all

interpretation tasks_standing: standing_view st_tasks
  by unfold_locales simp_all

interpretation verdicts_work: working_view st_verification
  by unfold_locales simp_all

interpretation verdicts_dialogue: dialogue_view st_verification
  by unfold_locales simp_all

interpretation verdicts_capability: capability_view st_verification
  by unfold_locales simp_all

interpretation verdicts_lease: approval_view st_verification
  by unfold_locales simp_all

interpretation verdicts: ledger_view st_verification
  by unfold_locales simp_all

interpretation invocations_work: working_view st_invocations
  by unfold_locales simp_all

interpretation invocations_dialogue: dialogue_view st_invocations
  by unfold_locales simp_all

interpretation invocations_verdict: verdict_view st_invocations
  by unfold_locales simp_all

interpretation invocations_lease: approval_view st_invocations
  by unfold_locales simp_all

interpretation invocations: ledger_view st_invocations
  by unfold_locales simp_all

interpretation models_work: working_view model_fields
  by unfold_locales (simp_all add: model_fields_def)

interpretation models_capability: capability_view model_fields
  by unfold_locales (simp_all add: model_fields_def)

interpretation models_verdict: verdict_view model_fields
  by unfold_locales (simp_all add: model_fields_def)

interpretation models_lease: approval_view model_fields
  by unfold_locales (simp_all add: model_fields_def)

interpretation models: ledger_view model_fields
  by unfold_locales (simp_all add: model_fields_def)

lemma same_approvals_fields: "same_approvals s s' \<longleftrightarrow> approval_fields s' = approval_fields s"
  by (auto simp: same_approvals_def approval_fields_def)

end
