(* ===== verification/Kite_Coverage.thy ===== *)
theory Kite_Coverage
  imports Kite_Kernel
begin

text \<open>
  src/packages/agent-kernel/src/event-coverage.ts and the lists of events.ts that classify events: the
  events without effect on the state, and the reducer that owns each of the others. The theorems
  compare the classification with what the reducers do.
\<close>

section \<open>The classification\<close>

definition STATE_DIAGNOSTIC_EVENT_TYPES :: "string list" where
  "STATE_DIAGNOSTIC_EVENT_TYPES = [''approval.command_replaced'', ''model.cache_metrics'', ''model.context_metrics'',
     ''model.reasoning_completed'', ''model.reasoning_delta'', ''model.requested'', ''model.retry'',
     ''model.text_delta'', ''planning.exited'', ''provider.admission_retry_requested'',
     ''provider.admission_status'', ''runtime.action_ignored'', ''runtime.cancellation_diagnostic'',
     ''subagent.cache_metrics'', ''subagent.completed'', ''subagent.failed'', ''subagent.started'',
     ''subagent.step'', ''subagent.tool_result'', ''tool.file_change'', ''tool.progress'',
     ''user.command_invoked'']"

definition STATE_DEFAULT_EVENT_TYPES :: "string list" where
  "STATE_DEFAULT_EVENT_TYPES = [''runtime.cancellation_diagnostic'', ''session.rewind_requested'', ''session.rewind_completed'',
     ''session.rewind_failed'', ''subagent.cache_metrics'', ''subagent.completed'', ''subagent.failed'',
     ''subagent.started'', ''subagent.step'', ''subagent.tool_result'']"

definition STATE_EVENT_REDUCER_COVERAGE :: "(string \<times> string list) list" where
  "STATE_EVENT_REDUCER_COVERAGE = [
     (''core/authorization'', [''approval.command_replaced'', ''approval.batch_released'', ''approval.granted'', ''approval.rejected'',
       ''approval.requested'', ''approval.session_grants_cleared'', ''auto_review.completed'',
       ''auto_review.requested'', ''interaction_mode.changed'']),
     (''core/completion'', [''completion.blocked'', ''provider.admission_status'', ''run.completed'', ''run.error'',
       ''runtime.action_ignored'', ''turn.aborted'', ''turn.completed'']),
     (''core/intent'', [''network.admission_decided'', ''tool.cancelled'', ''tool.failed'', ''tool.file_change'',
       ''tool.finished'', ''tool.progress'', ''tool.queued'', ''tool.rejected'', ''tool.retry_recorded'',
       ''tool.started'']),
     (''core/lease'', [''provider.readiness_attempt_started'', ''provider.readiness_failed'',
       ''provider.readiness_intent_recorded'', ''provider.readiness_succeeded'',
       ''provider.readiness_waiter_registered'', ''resource_budget.configured'',
       ''resource_budget.dispatch_started'', ''resource_budget.reconciled'', ''resource_budget.released'',
       ''resource_budget.reserved'', ''resource_budget.unknown'', ''resource_budget.waiter_cancelled'',
       ''resource_budget.waiter_enqueued'', ''resource_budget.waiter_promoted'',
       ''resource_budget.waiter_timed_out'']),
     (''core/lifecycle'', [''plan.completed'', ''plan.drafted'', ''plan.progress_updated'', ''planning.entered'',
       ''planning.exited'', ''task.cancelled'', ''task.completed'', ''task.started'', ''turn.started'',
       ''user.command_invoked'']),
     (''domains/capability'', [''capability.bindings_issued'', ''capability.execution_failed'',
       ''capability.execution_result_recorded'', ''capability.execution_started'',
       ''capability.execution_succeeded'', ''capability.execution_unknown'',
       ''capability.filesystem_intent_recorded'', ''capability.filesystem_mutation_ready'',
       ''capability.invocation_recorded'', ''capability.reconciliation_resolved'',
       ''capability.sandbox_disposal_completed'', ''capability.sandbox_disposal_started'',
       ''capability.sandbox_execution_dispatch_intent_recorded'',
       ''capability.sandbox_execution_supervisor_started'',
       ''capability.sandbox_preparation_abandonment_completed'',
       ''capability.sandbox_preparation_abandonment_started'',
       ''capability.sandbox_preparation_intent_recorded'', ''capability.sandbox_preparation_ready'',
       ''capability.search_completed'', ''capability.subagent_cleanup_completed'',
       ''capability.subagent_cleanup_started'', ''capability.subagent_dispatch_intent_recorded'',
       ''capability.subagent_handle_recorded'', ''capability.subagent_observation_recorded'']),
     (''domains/context'', [''context.compaction_completed'', ''context.compaction_failed'', ''context.compaction_requested'',
       ''context.compaction_reset'', ''context.hard_block_cleared'', ''context.hard_blocked'',
       ''model.cache_metrics'', ''model.context_metrics'', ''model.invocation_attempt_started'',
       ''model.invocation_completed'', ''model.invocation_evidence_unavailable'',
       ''model.invocation_interrupted'', ''model.invocation_prepared'', ''model.reasoning_completed'',
       ''model.reasoning_delta'', ''model.requested'', ''model.responded'', ''model.retry'',
       ''model.text_delta'', ''user.message_appended'']),
     (''domains/interaction'', [''plan.approved'', ''plan.review_cancelled'', ''plan.review_requested'', ''plan.revision_requested'',
       ''provider.action_completed'', ''provider.action_deferred'', ''provider.action_failed'',
       ''provider.action_required'', ''provider.action_started'', ''provider.admission_cancelled'',
       ''provider.admission_required'', ''provider.admission_retry_failed'',
       ''provider.admission_retry_requested'', ''provider.admission_satisfied'', ''provider.admission_waived'',
       ''user_input.answered'', ''user_input.cancelled'', ''user_input.requested'']),
     (''domains/recovery'', [''runtime.cancellation_diagnostic'', ''session.rewind_requested'', ''session.rewind_completed'',
       ''session.rewind_failed'', ''subagent.approval_deferred'', ''subagent.cache_metrics'',
       ''subagent.completed'', ''subagent.failed'', ''subagent.recovery_journal_merged'', ''subagent.started'',
       ''subagent.step'', ''subagent.suspended'', ''subagent.tool_result'']),
     (''domains/verification'', [''verification.check_completed'', ''verification.compensation_completed'',
       ''verification.compensation_requested'', ''verification.completed'', ''verification.repair_requested'',
       ''verification.replan_requested'', ''verification.requested'', ''verification.started'',
       ''verification.waived'']),
     (''domains/work'', [''skill.activation_started'', ''skill.catalog_refreshed'', ''skill.frame_closed'',
       ''plan.replan_requested''])]"

definition COVERED_EVENT_TYPES :: "string list" where
  "COVERED_EVENT_TYPES = concat (map snd STATE_EVENT_REDUCER_COVERAGE)"

section \<open>What each reducer handles\<close>

text \<open>The event types a reducer distinguishes; on every other type it returns the state it got.\<close>

definition handled_types :: "(string \<times> string list) list" where
  "handled_types = [
     (''core/lifecycle'', [''task.started'', ''task.completed'', ''task.cancelled'', ''turn.started'', ''planning.entered'',
       ''plan.review_requested'', ''plan.approved'', ''plan.revision_requested'', ''plan.review_cancelled'',
       ''plan.replan_requested'', ''plan.drafted'', ''plan.progress_updated'', ''plan.completed'']),
     (''core/authorization'', [''interaction_mode.changed'', ''approval.requested'', ''approval.granted'',
       ''approval.rejected'', ''approval.batch_released'', ''approval.session_grants_cleared'', ''turn.aborted'',
       ''tool.started'', ''auto_review.requested'', ''auto_review.completed''] @ TOOL_TERMINAL_EVENTS),
     (''domains/recovery'', [''subagent.suspended'', ''subagent.approval_deferred'',
       ''subagent.recovery_journal_merged''] @ JOURNAL_EVENTS),
     (''core/intent'', [''tool.queued'', ''tool.started'', ''tool.retry_recorded'', ''network.admission_decided''] @
       TOOL_TERMINAL_EVENTS),
     (''core/completion'', [''turn.completed'', ''turn.aborted'', ''run.completed'', ''run.error'', ''completion.blocked'']),
     (''domains/work'', [''tool.started'', ''skill.catalog_refreshed'', ''skill.activation_started'', ''skill.frame_closed'']),
     (''domains/interaction'', [''user_input.requested'', ''user_input.answered'', ''user_input.cancelled'',
       ''plan.review_requested'', ''plan.approved'', ''plan.revision_requested'', ''plan.review_cancelled'',
       ''provider.action_required'', ''provider.action_started'', ''provider.action_completed'',
       ''provider.action_deferred'', ''provider.action_failed'', ''provider.admission_required'',
       ''provider.admission_retry_failed'', ''provider.admission_satisfied'', ''provider.admission_cancelled'',
       ''provider.admission_waived'', ''turn.aborted'']),
     (''domains/context'', [''context.compaction_requested'', ''context.compaction_completed'',
       ''context.compaction_failed'', ''context.compaction_reset'', ''context.hard_blocked'',
       ''context.hard_block_cleared'', ''user.message_appended'', ''model.responded'', ''model.invocation_prepared'',
       ''model.invocation_attempt_started'', ''model.invocation_completed'', ''model.invocation_interrupted'',
       ''model.invocation_evidence_unavailable'']),
     (''domains/verification'', [''verification.requested'', ''verification.started'', ''verification.check_completed'',
       ''verification.completed'', ''verification.repair_requested'', ''verification.replan_requested'',
       ''verification.waived'', ''verification.compensation_requested'', ''verification.compensation_completed''])]"

definition handles :: "string \<Rightarrow> string \<Rightarrow> bool" where
  "handles owner ty =
     (if owner = ''core/lease'' then isResourceBudgetEvent ty \<or> isReadinessEvent ty
      else if owner = ''domains/capability'' then isCapabilityEvent ty
      else ty \<in> set (or_default (map_of handled_types owner) []))"

definition REDUCER_OWNERS :: "string list" where
  "REDUCER_OWNERS = [''core/lifecycle'', ''core/authorization'', ''domains/recovery'', ''core/intent'', ''core/lease'',
     ''core/completion'', ''domains/work'', ''domains/interaction'', ''domains/capability'', ''domains/context'',
     ''domains/verification'']"

lemma reducers_inert:
  "\<not> handles ''core/lifecycle'' (ev_type e) \<Longrightarrow> reduceLifecycleState h s e = s"
  "\<not> handles ''core/authorization'' (ev_type e) \<Longrightarrow> reduceAuthorizationState h s e = s"
  "\<not> handles ''domains/recovery'' (ev_type e) \<Longrightarrow> reduceRecoveryState h s e = Inr s"
  "\<not> handles ''core/intent'' (ev_type e) \<Longrightarrow> reduceIntentState h s e = Inr s"
  "\<not> handles ''core/lease'' (ev_type e) \<Longrightarrow> reduceLeaseState h s e = Inr s"
  "\<not> handles ''core/completion'' (ev_type e) \<Longrightarrow> reduceCompletionState h s e = Inr s"
  "\<not> handles ''domains/work'' (ev_type e) \<Longrightarrow> reduceWorkState s e = s"
  "\<not> handles ''domains/interaction'' (ev_type e) \<Longrightarrow> reduceInteractionState s e = s"
  "\<not> handles ''domains/capability'' (ev_type e) \<Longrightarrow> reduceCapabilityState s e = s"
  "\<not> handles ''domains/context'' (ev_type e) \<Longrightarrow> reduceContextState facts s e = s"
  "\<not> handles ''domains/verification'' (ev_type e) \<Longrightarrow> reduceVerificationState h facts s e = Inr s"
  by (simp_all add: handles_def handled_types_def reduceLifecycleState_def reduceAuthorizationState_def
      reduceRecoveryState_def reduceIntentState_def reduceLeaseState_def reduceCompletionState_def reduceWorkState_def
      reduceInteractionState_def reduceCapabilityState_def reduceContextState_def reduceVerificationState_def Let_def
      split: option.split)

definition named_reducers where
  "named_reducers = zip REDUCER_OWNERS FIXED_AGENT_STATE_REDUCERS"

lemma named_reducers_eq:
  "named_reducers = [(''core/lifecycle'', \<lambda>h facts s e. Inr (reduceLifecycleState h s e)),
     (''core/authorization'', \<lambda>h facts s e. Inr (reduceAuthorizationState h s e)),
     (''domains/recovery'', \<lambda>h facts s e. reduceRecoveryState h s e),
     (''core/intent'', \<lambda>h facts s e. reduceIntentState h s e),
     (''core/lease'', \<lambda>h facts s e. reduceLeaseState h s e),
     (''core/completion'', \<lambda>h facts s e. reduceCompletionState h s e),
     (''domains/work'', \<lambda>h facts s e. Inr (reduceWorkState s e)),
     (''domains/interaction'', \<lambda>h facts s e. Inr (reduceInteractionState s e)),
     (''domains/capability'', \<lambda>h facts s e. Inr (reduceCapabilityState s e)),
     (''domains/context'', \<lambda>h facts s e. Inr (reduceContextState facts s e)),
     (''domains/verification'', \<lambda>h facts s e. reduceVerificationState h facts s e)]"
  by (simp add: named_reducers_def REDUCER_OWNERS_def FIXED_AGENT_STATE_REDUCERS_def)

lemma named_reducer_inert:
  "(owner, r) \<in> set named_reducers \<Longrightarrow> \<not> handles owner (ev_type e) \<Longrightarrow> r h facts s e = Inr s"
  unfolding named_reducers_eq by (auto simp: reducers_inert)

lemma run_reducers_append:
  "run_reducers (rs @ rs') h facts e s = bind_res (run_reducers rs h facts e s) (run_reducers rs' h facts e)"
proof (induction rs arbitrary: s)
  case (Cons r rs)
  show ?case by (cases "r h facts s e") (simp_all add: Cons)
qed simp

lemma run_inert: "\<forall>r \<in> set rs. \<forall>s. r h facts s e = Inr s \<Longrightarrow> run_reducers rs h facts e s = Inr s"
  by (induction rs arbitrary: s) simp_all

lemma bind_res_right [simp]: "bind_res a Inr = a"
  by (cases a) simp_all

lemma fixed_is_named: "FIXED_AGENT_STATE_REDUCERS = map snd named_reducers"
  by (simp add: named_reducers_def REDUCER_OWNERS_def FIXED_AGENT_STATE_REDUCERS_def)

lemma nobody_handles:
  assumes "\<And>owner. owner \<in> set REDUCER_OWNERS \<Longrightarrow> \<not> handles owner (ev_type e)"
  shows "run_reducers FIXED_AGENT_STATE_REDUCERS h facts e s = Inr s"
proof -
  have "r h facts s e = Inr s" if "r \<in> set FIXED_AGENT_STATE_REDUCERS" for r s
  proof -
    from that obtain owner where o: "(owner, r) \<in> set named_reducers" by (auto simp: fixed_is_named)
    then have "owner \<in> set REDUCER_OWNERS" by (auto simp: named_reducers_def dest: set_zip_leftD)
    then show ?thesis using named_reducer_inert [OF o] assms by blast
  qed
  then show ?thesis by (intro run_inert) blast
qed

lemma one_handles:
  assumes "(owner, r) \<in> set named_reducers"
    and "\<And>other. other \<in> set REDUCER_OWNERS \<Longrightarrow> other \<noteq> owner \<Longrightarrow> \<not> handles other (ev_type e)"
  shows "run_reducers FIXED_AGENT_STATE_REDUCERS h facts e s = r h facts s e"
proof -
  obtain before after where split: "named_reducers = before @ (owner, r) # after"
    using split_list [OF assms(1)] by blast
  have d: "distinct (map fst named_reducers)" by (simp add: named_reducers_eq)
  have names: "fst ` set named_reducers = set REDUCER_OWNERS" by (simp add: named_reducers_eq REDUCER_OWNERS_def)
  have other: "snd p h facts s e = Inr s" if "p \<in> set before \<union> set after" for p s
  proof -
    have p: "(fst p, snd p) \<in> set named_reducers" using that by (auto simp: split)
    have "fst p \<noteq> owner" using d that by (auto simp: split)
    moreover have "fst p \<in> set REDUCER_OWNERS" using p by (simp flip: names)
    ultimately show ?thesis using named_reducer_inert [OF p] assms(2) by blast
  qed
  have "run_reducers (map snd before) h facts e s = Inr s" for s by (rule run_inert) (simp add: other)
  moreover have "run_reducers (map snd after) h facts e s = Inr s" for s by (rule run_inert) (simp add: other)
  then have "run_reducers (map snd after) h facts e = Inr" by (rule ext)
  ultimately show ?thesis by (simp add: fixed_is_named split run_reducers_append)
qed

section \<open>Quiet events and owners\<close>

lemma quiet_unhandled:
  "list_all (\<lambda>ty. list_all (\<lambda>owner. \<not> handles owner ty) REDUCER_OWNERS)
     (STATE_DIAGNOSTIC_EVENT_TYPES @ STATE_DEFAULT_EVENT_TYPES)"
  by code_simp

lemma terminal_normalization_type [simp]: "ev_type (normalizeTerminalAgentEvent e) = ev_type e"
  by (simp add: normalizeTerminalAgentEvent_def Let_def)

lemma quiet_events:
  assumes "ev_type e \<in> set STATE_DIAGNOSTIC_EVENT_TYPES \<union> set STATE_DEFAULT_EVENT_TYPES"
  shows "run_reducers FIXED_AGENT_STATE_REDUCERS h facts e s = Inr s"
proof (rule nobody_handles)
  fix owner assume "owner \<in> set REDUCER_OWNERS"
  then show "\<not> handles owner (ev_type e)"
    using quiet_unhandled assms by (auto simp: list_all_iff simp del: append_assoc)
qed

lemma quiet_canonical:
  "list_all (\<lambda>ty. ty \<notin> set (TOOL_TERMINAL_EVENTS @ [''tool.retry_recorded'', ''approval.rejected'',
     ''auto_review.completed''])) (STATE_DIAGNOSTIC_EVENT_TYPES @ STATE_DEFAULT_EVENT_TYPES)"
  by code_simp

lemma quiet_reduces:
  assumes "ev_type e \<in> set STATE_DIAGNOSTIC_EVENT_TYPES \<union> set STATE_DEFAULT_EVENT_TYPES"
    and "assertCurrentRuntimeEvent h e = ok"
  shows "reduceAgentState h s e facts = Inr s"
proof -
  have "ev_type e \<notin> set (TOOL_TERMINAL_EVENTS @ [''tool.retry_recorded'', ''approval.rejected'', ''auto_review.completed''])"
    using quiet_canonical assms(1) by (auto simp: list_all_iff)
  then have "assertCanonicalToolOutcomeEvent h (normalizeTerminalAgentEvent e) = ok"
    by (simp add: assertCanonicalToolOutcomeEvent_def)
  then show ?thesis using assms by (simp add: reduceAgentState_def Let_def quiet_events)
qed

text \<open>
  The events listed as diagnostic, and those listed as handled by no reducer, change nothing. The
  composed kernel accepts each of them in its current form and returns exactly the state it was given,
  so streaming deltas, metrics and subagent progress cannot influence a decision.
\<close>

theorem quiet_events_change_nothing:
  assumes "ev_type e \<in> set STATE_DIAGNOSTIC_EVENT_TYPES \<union> set STATE_DEFAULT_EVENT_TYPES"
    and "assertCurrentRuntimeEvent h e = ok"
  shows "reduceAgentState h s e facts = Inr s"
  using assms by (rule quiet_reduces)

text \<open>The types that more than one reducer observes; all others are left to their owner.\<close>

definition shared_types :: "string list" where
  "shared_types = TOOL_TERMINAL_EVENTS @ [''tool.started'', ''tool.retry_recorded'', ''approval.rejected'',
     ''auto_review.completed'', ''turn.aborted'', ''plan.review_requested'', ''plan.approved'',
     ''plan.revision_requested'', ''plan.review_cancelled'', ''plan.replan_requested'']"

definition owner_pairs :: "(string \<times> string) list" where
  "owner_pairs = concat (map (\<lambda>(owner, types). map (\<lambda>ty. (ty, owner)) types) STATE_EVENT_REDUCER_COVERAGE)"

lemma covered_pairs: "map fst owner_pairs = COVERED_EVENT_TYPES"
  by (simp add: owner_pairs_def COVERED_EVENT_TYPES_def map_concat comp_def case_prod_unfold)

lemma covered_distinct: "distinct COVERED_EVENT_TYPES"
  by (simp add: COVERED_EVENT_TYPES_def STATE_EVENT_REDUCER_COVERAGE_def)

lemma handled_owned:
  "list_all (\<lambda>(owner, types). list_all (\<lambda>ty. ty \<in> set shared_types \<or>
     ty \<in> set (or_default (map_of STATE_EVENT_REDUCER_COVERAGE owner) [])) types) handled_types"
  by code_simp

lemma lease_owned:
  "list_all (\<lambda>(ty, owner). handles ''core/lease'' ty \<longrightarrow> owner = ''core/lease'') owner_pairs"
  "list_all (\<lambda>(ty, owner). handles ''domains/capability'' ty \<longrightarrow> owner = ''domains/capability'') owner_pairs"
  by code_simp+

lemma handler_is_owner:
  assumes "(ty, owner) \<in> set owner_pairs" "ty \<notin> set shared_types" "handles other ty"
  shows "other = owner"
proof (cases "other = ''core/lease'' \<or> other = ''domains/capability''")
  case True
  then show ?thesis using lease_owned assms(1,3) by (auto simp: list_all_iff)
next
  case False
  then have ty: "ty \<in> set (or_default (map_of handled_types other) [])"
    using assms(3) by (simp add: handles_def)
  then obtain types where types: "map_of handled_types other = Some types" "ty \<in> set types"
    by (cases "map_of handled_types other") auto
  have "ty \<in> set (or_default (map_of STATE_EVENT_REDUCER_COVERAGE other) [])"
    using handled_owned map_of_SomeD [OF types(1)] types(2) assms(2) by (fastforce simp: list_all_iff)
  then obtain own where "map_of STATE_EVENT_REDUCER_COVERAGE other = Some own" "ty \<in> set own"
    by (cases "map_of STATE_EVENT_REDUCER_COVERAGE other") auto
  then have "(ty, other) \<in> set owner_pairs" by (force simp: owner_pairs_def dest: map_of_SomeD)
  then show ?thesis
    using assms(1) covered_distinct eq_key_imp_eq_value [of owner_pairs ty] by (simp add: covered_pairs)
qed

text \<open>
  The coverage table is a classification, and it is right. It names no event type twice, and for
  every type outside the fourteen that several reducers observe, the effect of the whole composition
  is the effect of the reducer the table names, alone.
\<close>

theorem coverage_owner_acts_alone:
  assumes "(owner, types) \<in> set STATE_EVENT_REDUCER_COVERAGE" "ev_type e \<in> set types"
    and "ev_type e \<notin> set shared_types" "(owner, r) \<in> set named_reducers"
  shows "run_reducers FIXED_AGENT_STATE_REDUCERS h facts e s = r h facts s e \<and>
    distinct COVERED_EVENT_TYPES"
proof -
  have "(ev_type e, owner) \<in> set owner_pairs" using assms(1,2) by (force simp: owner_pairs_def)
  then have "run_reducers FIXED_AGENT_STATE_REDUCERS h facts e s = r h facts s e"
    using handler_is_owner assms(3) by (intro one_handles [OF assms(4)]) blast
  then show ?thesis using covered_distinct by blast
qed

section \<open>Witnesses\<close>

lemma sole_owner_reduces:
  assumes "assertCurrentRuntimeEvent h e = ok"
    "ev_type e \<notin> set (TOOL_TERMINAL_EVENTS @ [''tool.retry_recorded'', ''approval.rejected'', ''auto_review.completed'',
       ''run.completed'', ''run.error''])"
    "(owner, r) \<in> set named_reducers"
    "list_all (\<lambda>other. other = owner \<or> \<not> handles other (ev_type e)) REDUCER_OWNERS"
  shows "reduceAgentState h s e facts = r h facts s e"
proof -
  have "normalizeTerminalAgentEvent e = e" "assertCanonicalToolOutcomeEvent h e = ok"
    using assms(2) by (simp_all add: normalizeTerminalAgentEvent_def Let_def assertCanonicalToolOutcomeEvent_def)
  moreover have "run_reducers FIXED_AGENT_STATE_REDUCERS h facts e s = r h facts s e"
    using assms(4) by (intro one_handles [OF assms(3)]) (auto simp: list_all_iff)
  ultimately show ?thesis using assms(1) by (simp add: reduceAgentState_def)
qed

definition exit_event :: kernel_event where
  "exit_event = \<lparr>ev_type = ''planning.exited'', ev_data = [(''taskId'', JStr ''t'')]\<rparr>"

lemma exit_event_current: "assertCurrentRuntimeEventForWrite sample_host exit_event = ok"
  "assertCurrentRuntimeEvent sample_host exit_event = ok"
  by code_simp+

lemma exit_event_quiet: "ev_type exit_event \<in> set STATE_DIAGNOSTIC_EVENT_TYPES \<union> set STATE_DEFAULT_EVENT_TYPES"
  by (simp add: exit_event_def STATE_DIAGNOSTIC_EVENT_TYPES_def)

theorem quiet_events_change_nothing_witness:
  "reduceAgentState sample_host fresh_state exit_event no_reducer_facts = Inr fresh_state"
  by (rule quiet_events_change_nothing [OF exit_event_quiet exit_event_current(2)])

definition waiver_event :: kernel_event where
  "waiver_event = \<lparr>ev_type = ''verification.waived'', ev_data = [(''verificationId'', JStr ''v'')]\<rparr>"

theorem coverage_owner_acts_alone_witness:
  "run_reducers FIXED_AGENT_STATE_REDUCERS sample_host no_reducer_facts waiver_event fresh_state =
     reduceVerificationState sample_host no_reducer_facts fresh_state waiver_event"
proof -
  obtain types where types: "(''domains/verification'', types) \<in> set STATE_EVENT_REDUCER_COVERAGE"
    "ev_type waiver_event \<in> set types"
    by (simp add: STATE_EVENT_REDUCER_COVERAGE_def waiver_event_def)
  have "ev_type waiver_event \<notin> set shared_types"
    by (simp add: waiver_event_def shared_types_def TOOL_TERMINAL_EVENTS_def)
  moreover have "(''domains/verification'', \<lambda>h facts s e. reduceVerificationState h facts s e) \<in> set named_reducers"
    by (simp add: named_reducers_eq)
  ultimately show ?thesis using coverage_owner_acts_alone [OF types] by blast
qed

end
