(* ===== verification/Kite_Kernel_Inv.thy ===== *)
theory Kite_Kernel_Inv
  imports Kite_Frame Kite_Coverage Kite_Journal_Inv
begin

text \<open>
  Properties of the composed kernel: what holds in every state that \<open>decide\<close> can produce, how events
  are applied, and which events change nothing.
\<close>

section \<open>One event through the eleven reducers\<close>

lemma reducers_chain:
  assumes "run_reducers FIXED_AGENT_STATE_REDUCERS h facts e s = Inr s'"
  obtains s1 s2 s3 s4 s5 s6 s7 s8 s9 s10 where
    "s1 = reduceLifecycleState h s e" "s2 = reduceAuthorizationState h s1 e"
    "reduceRecoveryState h s2 e = Inr s3" "reduceIntentState h s3 e = Inr s4" "reduceLeaseState h s4 e = Inr s5"
    "reduceCompletionState h s5 e = Inr s6" "s7 = reduceWorkState s6 e" "s8 = reduceInteractionState s7 e"
    "s9 = reduceCapabilityState s8 e" "s10 = reduceContextState facts s9 e"
    "reduceVerificationState h facts s10 e = Inr s'"
  using assms by (auto simp: FIXED_AGENT_STATE_REDUCERS_def res_simps)

lemma reduceAgentState_run:
  "reduceAgentState h s e facts = Inr s' \<Longrightarrow>
   run_reducers FIXED_AGENT_STATE_REDUCERS h facts (normalizeTerminalAgentEvent e) s = Inr s'"
  by (auto simp: reduceAgentState_def Let_def res_simps)

lemma kernel_keeps_bookkeeping:
  assumes "reduceAgentState h s e facts = Inr s'"
  shows "bookkeeping s' = bookkeeping s"
  using reduceAgentState_run [OF assms]
proof (cases rule: reducers_chain)
  case (1 s1 s2 s3 s4 s5 s6 s7 s8 s9 s10)
  show ?thesis
    using marks_work.view_recovery [OF 1(3)] marks_work.view_intent [OF 1(4)] marks_lease.view_lease [OF 1(5)]
      marks_work.view_completion [OF 1(6)] marks_verdict.view_verification_state [OF 1(11)]
    by (simp add: 1(1,2,7-10) marks_work.view_lifecycle marks.view_authorization marks_work.view_work
        marks_work.view_interaction marks_capability.view_capability marks_dialogue.view_context_state)
qed

lemma kernel_approvals:
  assumes "authorization_reachable h s" "reduceAgentState h s e facts = Inr s'"
  shows "authorization_reachable h s'"
  using reduceAgentState_run [OF assms(2)]
proof (cases rule: reducers_chain)
  case (1 s1 s2 s3 s4 s5 s6 s7 s8 s9 s10)
  have "same_approvals s s1" by (simp add: same_approvals_fields 1(1) approvals_work.view_lifecycle)
  then have "authorization_reachable h s2"
    unfolding 1(2) by (intro authorization_reachable.handle authorization_reachable.elsewhere [OF assms(1)])
  moreover have "same_approvals s2 s'"
    using approvals_work.view_recovery [OF 1(3)] approvals_work.view_intent [OF 1(4)] approvals.view_lease [OF 1(5)]
      approvals_work.view_completion [OF 1(6)] approvals_verdict.view_verification_state [OF 1(11)]
    by (simp add: same_approvals_fields 1(7-10) approvals_work.view_work approvals_work.view_interaction
        approvals_capability.view_capability approvals_dialogue.view_context_state)
  ultimately show ?thesis by (rule authorization_reachable.elsewhere)
qed

lemma lease_inv_budget: "st_resourceBudget s' = st_resourceBudget s \<Longrightarrow> lease_inv s' = lease_inv s"
  by (simp add: lease_inv_def)

lemma kernel_ledger:
  assumes "lease_inv s" "reduceAgentState h s e facts = Inr s'"
  shows "lease_inv s'"
  using reduceAgentState_run [OF assms(2)]
proof (cases rule: reducers_chain)
  case (1 s1 s2 s3 s4 s5 s6 s7 s8 s9 s10)
  have before: "st_resourceBudget s4 = st_resourceBudget s"
    using budget_work.view_recovery [OF 1(3)] budget_work.view_intent [OF 1(4)]
    by (simp add: 1(1,2) budget_work.view_lifecycle budget.view_authorization)
  have "lease_inv s4" using assms(1) by (simp only: lease_inv_budget [OF before])
  then have "lease_inv s5" by (rule reduceLeaseState_inv [OF _ 1(5)])
  moreover have after: "st_resourceBudget s' = st_resourceBudget s5"
    using budget_work.view_completion [OF 1(6)] budget_verdict.view_verification_state [OF 1(11)]
    by (simp add: 1(7-10) budget_work.view_work budget_work.view_interaction budget_capability.view_capability
        budget_dialogue.view_context_state)
  ultimately show ?thesis by (simp only: lease_inv_budget [OF after])
qed

section \<open>The recovery journal\<close>

abbreviation journal_good_state :: "agent_state \<Rightarrow> bool" where
  "journal_good_state s \<equiv> journal_ok (st_toolRecovery s)"

text \<open>The claims of a journal handed over by a subagent are apart from those of the state.\<close>

definition merges_apart :: "js_host \<Rightarrow> agent_state \<Rightarrow> kernel_event \<Rightarrow> bool" where
  "merges_apart h s e \<longleftrightarrow>
     (\<forall>v n. ev_type e = ''subagent.recovery_journal_merged'' \<and> recordField (ev_data e) ''journal'' = Some v \<and>
        normalizeToolRecoveryJournal h (JObj v) (rj_identityKey (st_toolRecovery s)) = Inr n \<longrightarrow>
        claims_apart (rj_failures (st_toolRecovery s)) (rj_failures n))"

lemma close_task_journal: "journal_good_state s \<Longrightarrow> journal_good_state (close_task s i f)"
  by (simp add: close_task_def closeFailures_ok split: option.split)

lemma resolve_failures_journal:
  "journal_good_state s \<Longrightarrow> journal_ok j \<Longrightarrow> journal_good_state (resolve_failures s j k r ids)"
  by (simp add: resolve_failures_def journal_ops_ok)

lemma lifecycle_journal: "journal_good_state s \<Longrightarrow> journal_good_state (reduceLifecycleState h s e)"
proof -
  assume s: "journal_good_state s"
  have "journal_good_state (task_started s p)" for p using s by (simp add: task_started_def split: option.split)
  moreover have "journal_good_state (task_completed s p)" for p
    using s by (simp add: task_completed_def close_task_journal split: option.split)
  moreover have "journal_good_state (task_cancelled s p)" for p
    using s by (simp add: task_cancelled_def close_task_journal split: option.split)
  moreover have "journal_good_state (turn_started s p)" for p
    using s by (simp add: turn_started_def Let_def closeFailures_ok split: option.split)
  moreover have "journal_good_state (planning_entered s p)" for p
    using s by (simp add: planning_entered_def split: option.split)
  moreover have "journal_good_state (Kite_Lifecycle.review_requested h s p)" for p
    using s by (simp add: Kite_Lifecycle.review_requested_def split: option.split)
  moreover have "journal_good_state (plan_approved s p)" for p
    using s by (simp add: plan_approved_def split: option.split planning_state.split prod.split)
  moreover have "journal_good_state (review_returned s e)" for e
    using s by (simp add: review_returned_def split: option.split planning_state.split)
  moreover have "journal_good_state (replan_requested h s p)" for p
    using s by (simp add: replan_requested_def resolve_failures_journal split: option.split planning_state.split)
  moreover have "journal_good_state (plan_drafted h s p)" for p
    using s by (simp add: plan_drafted_def split: option.split)
  moreover have "journal_good_state (progress_updated h s p)" for p
    using s by (simp add: progress_updated_def Let_def resolve_failures_journal split: option.split prod.split)
  moreover have "journal_good_state (plan_completed h s p)" for p
    using s by (simp add: plan_completed_def Let_def split: option.split prod.split)
  ultimately show ?thesis using s by (simp add: reduceLifecycleState_def Let_def)
qed

lemma journal_event_journal: "journal_good_state s \<Longrightarrow> journal_event h s e = Inr s' \<Longrightarrow> journal_good_state s'"
  by (auto simp: journal_event_def journal_after_def Let_def res_simps journal_ops_ok
      split: option.splits prod.splits if_splits)

lemma subagent_merged_cases:
  assumes "subagent_merged h s p = Inr s'"
  obtains (kept) "s' = s"
  | (merged) v scope j where "recordField p ''journal'' = Some v" "s' = s\<lparr>st_toolRecovery := j\<rparr>"
      "mergeToolRecoveryJournals h (st_toolRecovery s) v (rj_identityKey (st_toolRecovery s)) scope = Inr j"
proof -
  consider (nothing) "named_task s p = None \<or> recordField p ''journal'' = None"
    | (both) i c v where "named_task s p = Some (i, c)" "recordField p ''journal'' = Some v"
    by (cases "named_task s p"; cases "recordField p ''journal''") auto
  then show thesis
  proof cases
    case nothing
    then have "subagent_merged h s p = Inr s" by (auto simp: subagent_merged_def split: option.split)
    then show thesis using assms by (intro kept) simp
  next
    case both
    let ?scope = "(else_string (tc_taskId c) (st_activeTaskId s), Some (tc_createdAtTurnId c))"
    let ?merge = "mergeToolRecoveryJournals h (st_toolRecovery s) v (rj_identityKey (st_toolRecovery s)) ?scope"
    have "bind_res ?merge (\<lambda>merged. Inr (s\<lparr>st_toolRecovery := merged\<rparr>)) = Inr s'"
      using assms by (simp add: subagent_merged_def both)
    then obtain j where "?merge = Inr j" "s' = s\<lparr>st_toolRecovery := j\<rparr>"
      by (cases ?merge) auto
    then show thesis by (intro merged [OF both(2)])
  qed
qed

lemma subagent_merged_journal:
  assumes "journal_good_state s" "subagent_merged h s (ev_data e) = Inr s'"
    "merges_apart h s e" "ev_type e = ''subagent.recovery_journal_merged''"
  shows "journal_good_state s'"
  using assms(2)
proof (cases rule: subagent_merged_cases)
  case (merged v scope j)
  note outer = merged
  show ?thesis
    using outer(3)
  proof (cases rule: merge_result)
    case (refused n)
    have same: "rj_failures j = rj_failures (st_toolRecovery s)" "rj_order j = rj_order (st_toolRecovery s)"
      by (subst refused(3), simp)+
    have "guard_ok (rj_qualityGuard j)"
      using refused(4,5) assms(1) by (simp add: guard_ok_def journalInvalid_def journal_ok_def)
    then show ?thesis using assms(1) same by (simp add: outer(2) journal_ok_def)
  next
    case (merged n)
    have "claims_apart (rj_failures (st_toolRecovery s)) (rj_failures n)"
      using assms(3,4) outer(1) merged(1) by (simp add: merges_apart_def)
    moreover have "journal_ok n" using normalize_result(1) [OF merged(1)] by (simp add: journal_good_def)
    ultimately show ?thesis using merge_valid_ok(1) [OF assms(1)] by (simp add: outer(2) merged(3))
  qed
qed (use assms(1) in simp)

lemma recovery_journal:
  assumes "journal_good_state s" "reduceRecoveryState h s e = Inr s'" "merges_apart h s e"
  shows "journal_good_state s'"
proof (cases "ev_type e = ''subagent.recovery_journal_merged''")
  case True
  then show ?thesis using assms subagent_merged_journal by (simp add: reduceRecoveryState_def)
next
  case False
  then show ?thesis using assms(1,2)
    by (auto simp: reduceRecoveryState_def subagent_suspended_def subagent_deferred_def
        intro: journal_event_journal split: if_splits option.splits prod.splits)
qed

lemma queued_recovery_journal: "journal_good_state s \<Longrightarrow> journal_ok (queued_recovery s p a)"
  by (simp add: queued_recovery_def journal_ops_ok split: admission.split option.split)

lemma intent_journal:
  assumes "journal_good_state s" "reduceIntentState h s e = Inr s'"
  shows "journal_good_state s'"
proof -
  have "tool_queued h s (ev_data e) = Inr s' \<Longrightarrow> journal_good_state s'"
    using assms(1) by (auto simp: tool_queued_def res_simps Let_def queued_recovery_journal split: option.splits if_splits)
  moreover have "journal_good_state (tool_started s p)" "journal_good_state (tool_ended h s e)"
    "journal_good_state (retry_recorded s p)" "journal_good_state (network_admission_decided s p)" for p
    using assms(1) by (simp_all add: tool_started_def tool_ended_def retry_recorded_def
        network_admission_decided_def Let_def split: option.split)
  ultimately show ?thesis using assms by (auto simp: reduceIntentState_def bind_res_Inr split: if_splits)
qed

lemma interaction_journal: "journal_good_state s \<Longrightarrow> journal_good_state (reduceInteractionState s e)"
proof -
  assume s: "journal_good_state s"
  have "journal_good_state (action_settled s e)"
    using s by (simp add: action_settled_def appendRuntimeTranscript_def Let_def journal_ops_ok split: interaction.split)
  then show ?thesis using s by (simp add: reduceInteractionState_def Let_def)
qed

lemma context_journal: "journal_good_state s \<Longrightarrow> journal_good_state (reduceContextState facts s e)"
proof -
  assume s: "journal_good_state s"
  have "journal_good_state (model_responded s p)" for p
    using s by (simp add: model_responded_def Let_def journal_ops_ok split: option.split)
  then show ?thesis using s by (simp add: reduceContextState_def Let_def)
qed

lemma merge_event_elsewhere:
  assumes "ev_type e = ''subagent.recovery_journal_merged''"
  shows "reduceLifecycleState h s e = s" "reduceAuthorizationState h s e = s"
  using assms by (simp_all add: reduceLifecycleState_def reduceAuthorizationState_def TOOL_TERMINAL_EVENTS_def)

lemma kernel_keeps_journal:
  assumes "journal_good_state s" "reduceAgentState h s e facts = Inr s'"
    and "merges_apart h s (normalizeTerminalAgentEvent e)"
  shows "journal_good_state s'"
  using reduceAgentState_run [OF assms(2)]
proof (cases rule: reducers_chain)
  case (1 s1 s2 s3 s4 s5 s6 s7 s8 s9 s10)
  let ?n = "normalizeTerminalAgentEvent e"
  have "merges_apart h s2 ?n"
  proof (cases "ev_type ?n = ''subagent.recovery_journal_merged''")
    case True
    then show ?thesis using assms(3) by (simp add: 1(1,2) merge_event_elsewhere)
  qed (simp add: merges_apart_def)
  moreover have "journal_good_state s2"
    using lifecycle_journal [OF assms(1)] by (simp add: 1(1,2) journal.view_authorization)
  ultimately have "journal_good_state s3" using recovery_journal [OF _ 1(3)] by blast
  then have "journal_good_state s6"
    using intent_journal [OF _ 1(4)] journal_lease.view_lease [OF 1(5)] journal.view_completion [OF 1(6)] by simp
  then have "journal_good_state s10"
    by (simp add: 1(7-10) journal.view_work journal_capability.view_capability interaction_journal context_journal)
  then show ?thesis using journal_verdict.view_verification_state [OF 1(11)] by simp
qed

section \<open>Reachable states\<close>

text \<open>The states a session can be in: a fresh one, and each state that an applied event leads to.\<close>

inductive kernel_reachable :: "js_host \<Rightarrow> agent_state \<Rightarrow> bool" for h where
  created: "createInitialAgentState i = Inr s \<Longrightarrow> kernel_reachable h s"
| applied: "kernel_reachable h s \<Longrightarrow> reduceAgentState h s e facts = Inr r \<Longrightarrow>
    kernel_reachable h (committed s r eventId)"

lemma committed_fields [simp]:
  "approval_fields (committed s r i) = approval_fields r" "st_resourceBudget (committed s r i) = st_resourceBudget r"
  "st_toolRecovery (committed s r i) = st_toolRecovery r" "st_revision (committed s r i) = st_revision s + 1"
  "st_lastAppliedEventId (committed s r i) = Some i" "st_session (committed s r i) = st_session r"
  "st_appliedEventIds (committed s r i) = take_last APPLIED_EVENT_ID_TAIL_LIMIT (st_appliedEventIds r @ [i])"
  by (simp_all add: committed_def approval_fields_def)

lemma take_last_length [simp]: "length (take_last n xs) = min n (length xs)"
  by (simp add: take_last_def)

lemma take_last_all: "length xs \<le> n \<Longrightarrow> take_last n xs = xs"
  by (simp add: take_last_def)

lemma take_last_append: "take_last n (take_last n xs @ ys) = take_last n (xs @ ys)"
proof (cases "length xs \<le> n")
  case False
  then have "length xs + length ys - (length xs - n + n) + (length xs - n) = length xs + length ys - n" by simp
  with False show ?thesis by (simp add: take_last_def)
qed (simp add: take_last_all)

lemma take_last_subset: "set (take_last n xs) \<subseteq> set xs"
  by (simp add: take_last_def set_drop_subset)

lemma kernel_reachable_components:
  "kernel_reachable h s \<Longrightarrow> authorization_reachable h s \<and> lease_inv s \<and>
     length (st_appliedEventIds s) \<le> APPLIED_EVENT_ID_TAIL_LIMIT"
proof (induction rule: kernel_reachable.induct)
  case (created i s)
  moreover have "st_appliedEventIds s = []"
    using created by (auto simp: createInitialAgentState_def split: if_splits)
  ultimately show ?case by (simp add: authorization_reachable.start lease_inv_initial)
next
  case (applied s e facts r eventId)
  then have "authorization_reachable h r" "lease_inv r" using kernel_approvals kernel_ledger by blast+
  moreover have "same_approvals r (committed s r eventId)" by (simp add: same_approvals_fields)
  ultimately show ?case by (auto simp: lease_inv_def intro: authorization_reachable.elsewhere)
qed

section \<open>Deciding a command\<close>

definition log_ids :: "decision_log \<Rightarrow> string list" where
  "log_ids l = map en_eventId (lg_envelopes l)"

definition log_ok :: "js_host \<Rightarrow> kernel_input \<Rightarrow> agent_state \<Rightarrow> string list \<Rightarrow> decision_log \<Rightarrow> bool" where
  "log_ok h input s known l \<longleftrightarrow>
     map en_payload (lg_envelopes l) = lg_payloads l \<and>
     map en_revision (lg_envelopes l) = [st_revision s + 1 ..< st_revision s + 1 + length (lg_envelopes l)] \<and>
     st_revision (lg_state l) = st_revision s + length (lg_envelopes l) \<and>
     (\<forall>e \<in> set (lg_envelopes l). en_sessionId e = ki_sessionId input) \<and>
     set (lg_seen l) = set known \<union> set (log_ids l) \<and> distinct (log_ids l) \<and> set known \<inter> set (log_ids l) = {} \<and>
     st_session (lg_state l) = st_session s \<and>
     (kernel_reachable h s \<longrightarrow> kernel_reachable h (lg_state l)) \<and>
     (if lg_envelopes l = [] then lg_state l = s
      else st_lastAppliedEventId (lg_state l) = Some (last (log_ids l)) \<and>
        st_appliedEventIds (lg_state l) = take_last APPLIED_EVENT_ID_TAIL_LIMIT (st_appliedEventIds s @ log_ids l))"

text \<open>
  One event of a command: it is normalised against the state it meets and its identity is the digest
  of the result. Either that identity is known, or the event is completed with its time, reduced with
  the transient facts of its position, and the reduced state is stamped with the identity.
\<close>

definition event_identity :: "js_host \<Rightarrow> agent_state \<Rightarrow> kernel_event \<Rightarrow> jval \<Rightarrow> kernel_event \<Rightarrow> string \<Rightarrow> bool" where
  "event_identity h s candidate efact normalized eventId \<longleftrightarrow>
     Kite_Kernel.normalizeAgentEvent h candidate s (text_of (vfld efact ''occurredAt'')) = Inr normalized \<and>
     digestAgentEvent h normalized = Inr eventId"

definition event_known :: "js_host \<Rightarrow> agent_state \<Rightarrow> string set \<Rightarrow> kernel_event \<Rightarrow> jval \<Rightarrow> bool" where
  "event_known h s known candidate efact \<longleftrightarrow>
     (\<exists>normalized eventId. event_identity h s candidate efact normalized eventId \<and> eventId \<in> known)"

definition event_applied ::
  "js_host \<Rightarrow> jval \<Rightarrow> nat \<Rightarrow> agent_state \<Rightarrow> kernel_event \<Rightarrow> jval \<Rightarrow> event_envelope \<Rightarrow> agent_state \<Rightarrow> bool" where
  "event_applied h facts i s candidate efact envelope s' \<longleftrightarrow>
     (\<exists>normalized rfacts reduced.
        event_identity h s candidate efact normalized (en_eventId envelope) \<and>
        en_occurredAt envelope = text_of (vfld efact ''occurredAt'') \<and>
        en_payload envelope = finalizeAgentEvent normalized (en_occurredAt envelope) \<and>
        reducer_facts_for facts efact i s (en_payload envelope) = Inr (Inr rfacts) \<and>
        reduceAgentState h s (en_payload envelope) rfacts = Inr reduced \<and>
        s' = committed s reduced (en_eventId envelope))"

lemma apply_event_result:
  assumes "apply_event h input facts i l candidate efact = Inr (Inr l')"
  obtains (seen) "l' = l" "event_known h (lg_state l) (set (lg_seen l)) candidate efact"
  | (new) eventId payload rfacts r where "eventId \<notin> set (lg_seen l)"
      "reduceAgentState h (lg_state l) payload rfacts = Inr r"
      "l' = \<lparr>lg_state = committed (lg_state l) r eventId, lg_seen = eventId # lg_seen l,
        lg_payloads = lg_payloads l @ [payload],
        lg_envelopes = lg_envelopes l @
          [envelope_for input (lg_state l) eventId (text_of (vfld efact ''occurredAt'')) payload]\<rparr>"
      "event_applied h facts i (lg_state l) candidate efact
         (envelope_for input (lg_state l) eventId (text_of (vfld efact ''occurredAt'')) payload) (lg_state l')"
proof -
  let ?s = "lg_state l" and ?t = "text_of (vfld efact ''occurredAt'')"
  obtain normalized eventId where d: "event_identity h ?s candidate efact normalized eventId"
    and rest: "(if eventId \<in> set (lg_seen l) then Inr (Inr l)
      else let payload = finalizeAgentEvent normalized ?t in
        bind_res (reducer_facts_for facts efact i ?s payload) (\<lambda>verdict.
        case verdict of Inl code \<Rightarrow> Inr (Inl code)
        | Inr rfacts \<Rightarrow> bind_res (reduceAgentState h ?s payload rfacts) (\<lambda>reduced.
            if fa_allocatedTaskId rfacts \<noteq> None \<and> st_activeTaskId reduced \<noteq> fa_allocatedTaskId rfacts
            then Inr (Inl ''allocated_task_identity_not_applied'')
            else Inr (Inr \<lparr>lg_state = committed ?s reduced eventId, lg_seen = eventId # lg_seen l,
              lg_payloads = lg_payloads l @ [payload],
              lg_envelopes = lg_envelopes l @ [envelope_for input ?s eventId ?t payload]\<rparr>)))) = Inr (Inr l')"
    using assms unfolding apply_event_def event_identity_def Let_def and_then_Inr bind_res_Inr by blast
  show thesis
  proof (cases "eventId \<in> set (lg_seen l)")
    case True
    then show thesis using rest d by (intro seen) (auto simp: event_known_def)
  next
    case False
    then obtain verdict where vd: "reducer_facts_for facts efact i ?s (finalizeAgentEvent normalized ?t) = Inr verdict"
      and v: "(case verdict of Inl code \<Rightarrow> Inr (Inl code)
        | Inr rfacts \<Rightarrow> bind_res (reduceAgentState h ?s (finalizeAgentEvent normalized ?t) rfacts) (\<lambda>reduced.
            if fa_allocatedTaskId rfacts \<noteq> None \<and> st_activeTaskId reduced \<noteq> fa_allocatedTaskId rfacts
            then Inr (Inl ''allocated_task_identity_not_applied'')
            else Inr (Inr \<lparr>lg_state = committed ?s reduced eventId, lg_seen = eventId # lg_seen l,
              lg_payloads = lg_payloads l @ [finalizeAgentEvent normalized ?t],
              lg_envelopes = lg_envelopes l @
                [envelope_for input ?s eventId ?t (finalizeAgentEvent normalized ?t)]\<rparr>))) = Inr (Inr l')"
      using rest unfolding Let_def by (auto simp only: if_False bind_res_Inr)
    obtain rfacts where rf: "verdict = Inr rfacts" using v by (cases verdict) auto
    obtain r where r: "reduceAgentState h ?s (finalizeAgentEvent normalized ?t) rfacts = Inr r"
      using v by (cases "reduceAgentState h ?s (finalizeAgentEvent normalized ?t) rfacts") (auto simp: rf)
    have l': "l' = \<lparr>lg_state = committed ?s r eventId, lg_seen = eventId # lg_seen l,
        lg_payloads = lg_payloads l @ [finalizeAgentEvent normalized ?t],
        lg_envelopes = lg_envelopes l @ [envelope_for input ?s eventId ?t (finalizeAgentEvent normalized ?t)]\<rparr>"
      using v by (simp add: rf r split: if_splits)
    show thesis
    proof (rule new [OF False r l'])
      show "event_applied h facts i ?s candidate efact
          (envelope_for input ?s eventId ?t (finalizeAgentEvent normalized ?t)) (lg_state l')"
        unfolding event_applied_def using d vd rf r
        by (intro exI [of _ normalized] exI [of _ rfacts] exI [of _ r]) (simp add: l' envelope_for_def)
    qed
  qed
qed

lemma bookkeeping_fields:
  assumes "reduceAgentState h s e facts = Inr r"
  shows "st_appliedEventIds r = st_appliedEventIds s" "st_session r = st_session s"
  using kernel_keeps_bookkeeping [OF assms] by (simp_all add: bookkeeping_def)

lemma apply_event_log:
  assumes "log_ok h input s known l" "apply_event h input facts i l candidate efact = Inr (Inr l')"
  shows "log_ok h input s known l'"
  using assms(2)
proof (cases rule: apply_event_result)
  case (new eventId payload rfacts r)
  note same = bookkeeping_fields [OF new(2)]
  have tail: "st_appliedEventIds (lg_state l') =
      take_last APPLIED_EVENT_ID_TAIL_LIMIT (st_appliedEventIds s @ log_ids l')"
    using assms(1) take_last_append [of APPLIED_EVENT_ID_TAIL_LIMIT "st_appliedEventIds s @ log_ids l" "[eventId]"]
    by (auto simp: new(3) same log_ok_def log_ids_def envelope_for_def split: if_splits)
  have fresh: "eventId \<notin> set known" "eventId \<notin> set (log_ids l)" using assms(1) new(1) by (auto simp: log_ok_def)
  have reach: "kernel_reachable h s \<longrightarrow> kernel_reachable h (lg_state l')"
    using assms(1) kernel_reachable.applied [OF _ new(2)] by (simp add: new(3) log_ok_def)
  show ?thesis
    using assms(1) tail fresh reach unfolding log_ok_def
    by (auto simp: new(3) same log_ids_def envelope_for_def)
qed (use assms(1) in simp)

lemma apply_events_log:
  "apply_events h input facts i l es = Inr (Inr l') \<Longrightarrow> log_ok h input s known l \<Longrightarrow> log_ok h input s known l'"
proof (induction h input facts i l es rule: apply_events.induct)
  case (2 h input facts i l candidate efact rest)
  then obtain l1 where l1: "apply_event h input facts i l candidate efact = Inr (Inr l1)"
    "apply_events h input facts (Suc i) l1 rest = Inr (Inr l')"
    by (cases "apply_event h input facts i l candidate efact"; cases "projr (apply_event h input facts i l candidate efact)")
      auto
  show ?case by (rule 2(1) [OF l1(2) apply_event_log [OF 2(3) l1(1)]])
qed simp

text \<open>
  The course of a command over its events from position \<open>i\<close> on: the positions that were applied, the
  states between them and the envelopes. Every other event was known when its turn came.
\<close>

definition course ::
  "js_host \<Rightarrow> jval \<Rightarrow> string set \<Rightarrow> nat \<Rightarrow> (kernel_event \<times> jval) list \<Rightarrow>
   nat list \<Rightarrow> agent_state list \<Rightarrow> event_envelope list \<Rightarrow> bool" where
  "course h facts known i es applied states envelopes \<longleftrightarrow>
     sorted_wrt (<) applied \<and> set applied \<subseteq> {i ..< i + length es} \<and>
     length applied = length envelopes \<and> length states = Suc (length envelopes) \<and>
     (\<forall>k < length envelopes.
        event_applied h facts (applied ! k) (states ! k) (fst (es ! (applied ! k - i))) (snd (es ! (applied ! k - i)))
          (envelopes ! k) (states ! Suc k)) \<and>
     (\<forall>j \<in> {i ..< i + length es} - set applied.
        let k = length (filter (\<lambda>m. m < j) applied) in
        event_known h (states ! k) (known \<union> set (take k (map en_eventId envelopes))) (fst (es ! (j - i))) (snd (es ! (j - i))))"

lemma later_event: "Suc i \<le> j \<Longrightarrow> (x # es) ! (j - i) = es ! (j - Suc i)"
  by (simp add: nth_Cons')

lemma course_skip:
  assumes "course h facts known (Suc i) es applied states envelopes" "event_known h (states ! 0) known candidate efact"
  shows "course h facts known i ((candidate, efact) # es) applied states envelopes"
proof -
  note rest = assms(1) [unfolded course_def]
  have inside: "Suc i \<le> m" if "m \<in> set applied" for m using rest that by auto
  then have none: "filter (\<lambda>m. m < i) applied = []" by (force simp: filter_empty_conv)
  have "event_applied h facts (applied ! k) (states ! k) (fst (((candidate, efact) # es) ! (applied ! k - i)))
      (snd (((candidate, efact) # es) ! (applied ! k - i))) (envelopes ! k) (states ! Suc k)" if "k < length envelopes" for k
  proof -
    have "((candidate, efact) # es) ! (applied ! k - i) = es ! (applied ! k - Suc i)"
      using rest that by (intro later_event inside) simp
    then show ?thesis unfolding \<open>((candidate, efact) # es) ! (applied ! k - i) = es ! (applied ! k - Suc i)\<close>
      using rest that by blast
  qed
  moreover have "let k = length (filter (\<lambda>m. m < j) applied) in
      event_known h (states ! k) (known \<union> set (take k (map en_eventId envelopes)))
        (fst (((candidate, efact) # es) ! (j - i))) (snd (((candidate, efact) # es) ! (j - i)))"
    if "j \<in> {i ..< i + length ((candidate, efact) # es)} - set applied" for j
  proof (cases "j = i")
    case True
    then show ?thesis using assms(2) none by simp
  next
    case False
    then have "j \<in> {Suc i ..< Suc i + length es} - set applied" using that by auto
    then show ?thesis using rest later_event [of i j] by auto
  qed
  ultimately show ?thesis using rest unfolding course_def by auto
qed

lemma course_apply:
  assumes "course h facts (insert (en_eventId envelope) known) (Suc i) es applied states envelopes"
    and "event_applied h facts i s candidate efact envelope (states ! 0)"
  shows "course h facts known i ((candidate, efact) # es) (i # applied) (s # states) (envelope # envelopes)"
proof -
  note rest = assms(1) [unfolded course_def]
  have inside: "Suc i \<le> m" if "m \<in> set applied" for m using rest that by auto
  have "event_applied h facts ((i # applied) ! k) ((s # states) ! k) (fst (((candidate, efact) # es) ! ((i # applied) ! k - i)))
      (snd (((candidate, efact) # es) ! ((i # applied) ! k - i))) ((envelope # envelopes) ! k) ((s # states) ! Suc k)"
    if "k < length (envelope # envelopes)" for k
  proof (cases k)
    case 0
    then show ?thesis using assms(2) by simp
  next
    case (Suc n)
    have "((candidate, efact) # es) ! (applied ! n - i) = es ! (applied ! n - Suc i)"
      using rest that Suc by (intro later_event inside) simp
    moreover have "n < length envelopes" using that Suc by simp
    ultimately show ?thesis using rest unfolding Suc nth_Cons_Suc by metis
  qed
  moreover have "let k = length (filter (\<lambda>m. m < j) (i # applied)) in
      event_known h ((s # states) ! k) (known \<union> set (take k (map en_eventId (envelope # envelopes))))
        (fst (((candidate, efact) # es) ! (j - i))) (snd (((candidate, efact) # es) ! (j - i)))"
    if "j \<in> {i ..< i + length ((candidate, efact) # es)} - set (i # applied)" for j
  proof -
    from that have "j \<in> {Suc i ..< Suc i + length es} - set applied" by auto
    then show ?thesis using rest later_event [of i j] by (auto simp: Let_def)
  qed
  moreover have "sorted_wrt (<) (i # applied)" using rest inside by (auto simp: Suc_le_eq)
  moreover have "set (i # applied) \<subseteq> {i ..< i + length ((candidate, efact) # es)}"
    using rest by (auto simp: subset_iff)
  ultimately show ?thesis using rest unfolding course_def by simp
qed

lemma apply_events_course:
  "apply_events h input facts i l es = Inr (Inr l') \<Longrightarrow>
   \<exists>applied states envelopes. lg_envelopes l' = lg_envelopes l @ envelopes \<and>
     states ! 0 = lg_state l \<and> last states = lg_state l' \<and>
     course h facts (set (lg_seen l)) i es applied states envelopes"
proof (induction h input facts i l es rule: apply_events.induct)
  case (1 h input facts i l)
  then show ?case
    by (intro exI [of _ "[]"] exI [of _ "[lg_state l]"]) (simp add: course_def)
next
  case (2 h input facts i l candidate efact rest)
  then obtain l1 where l1: "apply_event h input facts i l candidate efact = Inr (Inr l1)"
    "apply_events h input facts (Suc i) l1 rest = Inr (Inr l')"
    by (cases "apply_event h input facts i l candidate efact"; cases "projr (apply_event h input facts i l candidate efact)")
      auto
  from 2(1) [OF l1(2)] obtain applied states envelopes where
    ih: "lg_envelopes l' = lg_envelopes l1 @ envelopes" "states ! 0 = lg_state l1" "last states = lg_state l'"
      "course h facts (set (lg_seen l1)) (Suc i) rest applied states envelopes" by blast
  have "states \<noteq> []" using ih(4) by (auto simp: course_def)
  show ?case
    using l1(1)
  proof (cases rule: apply_event_result)
    case seen
    then show ?thesis
      using ih course_skip [of h facts "set (lg_seen l)" i rest applied states envelopes candidate efact] by auto
  next
    case (new eventId payload rfacts r)
    let ?envelope = "envelope_for input (lg_state l) eventId (text_of (vfld efact ''occurredAt'')) payload"
    have "course h facts (set (lg_seen l)) i ((candidate, efact) # rest) (i # applied) (lg_state l # states) (?envelope # envelopes)"
      by (rule course_apply) (use ih new in \<open>simp_all add: envelope_for_def\<close>)
    then show ?thesis
      using ih \<open>states \<noteq> []\<close> by (intro exI [of _ "i # applied"] exI [of _ "lg_state l # states"] exI [of _ "?envelope # envelopes"])
        (simp add: new(3))
  qed
qed

abbreviation known_ids_of :: "agent_state \<Rightarrow> jval \<Rightarrow> string list" where
  "known_ids_of s facts \<equiv> st_appliedEventIds s @ map text_of (list_of (vfld facts ''knownEventIds''))"

lemma initial_log_ok: "log_ok h input s (known_ids_of s facts) (initial_log s facts)"
  by (simp add: log_ok_def initial_log_def log_ids_def)

lemma decide_applied:
  assumes "decide h s input facts = Inr (Applied events envelopes s' effects)"
  obtains l where "log_ok h input s (known_ids_of s facts) l" "events = lg_payloads l" "envelopes = lg_envelopes l"
    "s' = lg_state l" "lg_payloads l \<noteq> []" "selectPendingEffects h s' (scheduler_facts facts) = Inr effects"
    "ki_sessionId input = se_threadId (st_session s)" "ki_expectedRevision input = st_revision s"
    "length (list_of (vfld facts ''eventFacts'')) = length (ki_events input)"
    "apply_events h input facts 0 (initial_log s facts)
       (zip (ki_events input) (list_of (vfld facts ''eventFacts''))) = Inr (Inr l)"
proof -
  let ?run = "apply_events h input facts 0 (initial_log s facts)
    (zip (ki_events input) (list_of (vfld facts ''eventFacts'')))"
  have admitted: "ki_sessionId input = se_threadId (st_session s)" "ki_expectedRevision input = st_revision s"
    "length (list_of (vfld facts ''eventFacts'')) = length (ki_events input)"
    using assms by (auto simp: decide_def Let_def split: if_splits)
  have "bind_res ?run (\<lambda>verdict. case verdict of Inl code \<Rightarrow> Inr (Rejected code)
      | Inr l \<Rightarrow> if lg_payloads l = [] then Inr (IdempotentReplay (st_revision s))
          else bind_res (selectPendingEffects h (lg_state l) (scheduler_facts facts)) (\<lambda>effects.
            Inr (Applied (lg_payloads l) (lg_envelopes l) (lg_state l) effects))) =
      Inr (Applied events envelopes s' effects)"
    using assms admitted by (simp add: decide_def Let_def split: if_splits)
  then obtain l where l: "?run = Inr (Inr l)"
    and out: "(if lg_payloads l = [] then Inr (IdempotentReplay (st_revision s))
      else bind_res (selectPendingEffects h (lg_state l) (scheduler_facts facts)) (\<lambda>effects.
        Inr (Applied (lg_payloads l) (lg_envelopes l) (lg_state l) effects))) =
      Inr (Applied events envelopes s' effects)"
    by (cases ?run; cases "projr ?run") auto
  show thesis
    by (rule that [OF apply_events_log [OF l initial_log_ok]])
      (use out admitted l in \<open>auto simp: res_simps split: if_splits\<close>)
qed

lemma decide_course:
  assumes "decide h s input facts = Inr (Applied events envelopes s' effects)"
  obtains applied states where "length (list_of (vfld facts ''eventFacts'')) = length (ki_events input)"
    "states ! 0 = s" "last states = s'"
    "course h facts (set (known_ids_of s facts)) 0 (zip (ki_events input) (list_of (vfld facts ''eventFacts'')))
       applied states envelopes"
  using assms
proof (cases rule: decide_applied)
  case (1 l)
  from apply_events_course [OF 1(10)] that [OF 1(9)] show thesis
    by (auto simp: initial_log_def 1(3,4))
qed

lemma decide_bookkeeping:
  assumes "decide h s input facts = Inr (Applied events envelopes s' effects)"
  shows "ki_sessionId input = se_threadId (st_session s) \<and> ki_expectedRevision input = st_revision s \<and>
    envelopes \<noteq> [] \<and> map en_payload envelopes = events \<and>
    map en_revision envelopes = [st_revision s + 1 ..< st_revision s + 1 + length envelopes] \<and>
    (\<forall>e \<in> set envelopes. en_sessionId e = ki_sessionId input) \<and>
    distinct (map en_eventId envelopes) \<and>
    set (map en_eventId envelopes) \<inter>
      (set (st_appliedEventIds s) \<union> text_of ` set (list_of (vfld facts ''knownEventIds''))) = {} \<and>
    st_revision s' = st_revision s + length envelopes \<and>
    st_lastAppliedEventId s' = Some (last (map en_eventId envelopes)) \<and>
    st_appliedEventIds s' = take_last 4096 (st_appliedEventIds s @ map en_eventId envelopes) \<and>
    st_session s' = st_session s \<and>
    selectPendingEffects h s' (scheduler_facts facts) = Inr effects"
  using assms
proof (cases rule: decide_applied)
  case (1 l)
  have "envelopes \<noteq> []" using 1(1,3,5) by (auto simp: log_ok_def)
  then show ?thesis
    using 1 by (auto simp: log_ok_def log_ids_def APPLIED_EVENT_ID_TAIL_LIMIT_def)
qed

text \<open>
  C6: an accepted command is applied exactly once and in order. When \<open>decide\<close> applies a command, the
  command named the session and the current revision. There is an increasing list of positions of its
  events, one for each envelope: the event at such a position was normalised against the state it met,
  its identity is the digest of the result, its payload is that result completed with its time, and
  the state after it is what the reducers make of this payload, stamped with the identity; the states
  chain from the old state to the new one. Every event at another position had, when its turn came, an
  identity that was known already or that an earlier envelope of the command carries. Envelopes have
  consecutive revisions, distinct identities that are new to the state and the host, and hold the
  events; the new state has the revision and the identity of the last of them and remembers the last
  4096 identities; and the pending effect is the scheduler's choice for exactly that state.
\<close>

theorem decide_applies_once:
  assumes "decide h s input facts = Inr (Applied events envelopes s' effects)"
  shows "(\<exists>applied states. sorted_wrt (<) applied \<and> length applied = length envelopes \<and>
      length states = Suc (length envelopes) \<and> states ! 0 = s \<and> last states = s' \<and>
      (\<forall>k < length envelopes. applied ! k < length (ki_events input) \<and>
         event_applied h facts (applied ! k) (states ! k) (ki_events input ! (applied ! k))
           (list_of (vfld facts ''eventFacts'') ! (applied ! k)) (envelopes ! k) (states ! Suc k)) \<and>
      (\<forall>j < length (ki_events input). j \<notin> set applied \<longrightarrow>
         (let k = length (filter (\<lambda>m. m < j) applied) in
          event_known h (states ! k)
            (set (st_appliedEventIds s) \<union> text_of ` set (list_of (vfld facts ''knownEventIds'')) \<union>
             set (take k (map en_eventId envelopes)))
            (ki_events input ! j) (list_of (vfld facts ''eventFacts'') ! j)))) \<and>
    ki_sessionId input = se_threadId (st_session s) \<and> ki_expectedRevision input = st_revision s \<and>
    envelopes \<noteq> [] \<and> map en_payload envelopes = events \<and>
    map en_revision envelopes = [st_revision s + 1 ..< st_revision s + 1 + length envelopes] \<and>
    (\<forall>e \<in> set envelopes. en_sessionId e = ki_sessionId input) \<and>
    distinct (map en_eventId envelopes) \<and>
    set (map en_eventId envelopes) \<inter>
      (set (st_appliedEventIds s) \<union> text_of ` set (list_of (vfld facts ''knownEventIds''))) = {} \<and>
    st_revision s' = st_revision s + length envelopes \<and>
    st_lastAppliedEventId s' = Some (last (map en_eventId envelopes)) \<and>
    st_appliedEventIds s' = take_last 4096 (st_appliedEventIds s @ map en_eventId envelopes) \<and>
    st_session s' = st_session s \<and>
    selectPendingEffects h s' (scheduler_facts facts) = Inr effects"
proof (rule conjI)
  let ?facts = "list_of (vfld facts ''eventFacts'')"
  obtain applied states where len: "length ?facts = length (ki_events input)"
    and ends: "states ! 0 = s" "last states = s'"
    and "course h facts (set (known_ids_of s facts)) 0 (zip (ki_events input) ?facts) applied states envelopes"
    using assms by (rule decide_course)
  note course = this(4) [unfolded course_def]
  have inside: "applied ! k < length (ki_events input)" if "k < length envelopes" for k
  proof -
    from course that have "applied ! k \<in> set applied" by simp
    with course have "applied ! k \<in> {0 ..< 0 + length (zip (ki_events input) ?facts)}" by blast
    then show ?thesis by (simp add: len)
  qed
  show "\<exists>applied states. sorted_wrt (<) applied \<and> length applied = length envelopes \<and>
      length states = Suc (length envelopes) \<and> states ! 0 = s \<and> last states = s' \<and>
      (\<forall>k < length envelopes. applied ! k < length (ki_events input) \<and>
         event_applied h facts (applied ! k) (states ! k) (ki_events input ! (applied ! k)) (?facts ! (applied ! k))
           (envelopes ! k) (states ! Suc k)) \<and>
      (\<forall>j < length (ki_events input). j \<notin> set applied \<longrightarrow>
         (let k = length (filter (\<lambda>m. m < j) applied) in
          event_known h (states ! k)
            (set (st_appliedEventIds s) \<union> text_of ` set (list_of (vfld facts ''knownEventIds'')) \<union>
             set (take k (map en_eventId envelopes)))
            (ki_events input ! j) (?facts ! j)))"
    using course ends len inside by (intro exI [of _ applied] exI [of _ states]) (auto simp: Let_def)
qed (rule decide_bookkeeping [OF assms])

lemma decide_reachable:
  assumes "kernel_reachable h s" "decide h s input facts = Inr (Applied events envelopes s' effects)"
  shows "kernel_reachable h s'"
  using assms(2)
proof (cases rule: decide_applied)
  case (1 l)
  then show ?thesis using assms(1) by (simp add: log_ok_def)
qed

text \<open>
  C5: the invariants of the components hold of the composed kernel. Whatever commands a session
  receives, in every state that \<open>decide\<close> produces from a reachable one the approval queue is
  consistent, the resource ledger is sound and the committed usage is within the configured budget,
  and the tail of applied identities is bounded. No reducer can break what another one owns.
\<close>

theorem kernel_invariants:
  assumes "kernel_reachable h s" "decide h s input facts = Inr (Applied events envelopes s' effects)"
  shows "kernel_reachable h s' \<and> approvals_ok s' \<and> lease_inv s' \<and>
    (\<forall>b. st_resourceBudget s' = BudgetActive b \<longrightarrow> withinBudget (committedUsage b) (ba_budget b)) \<and>
    length (st_appliedEventIds s') \<le> 4096"
proof -
  have r: "kernel_reachable h s'" by (rule decide_reachable [OF assms])
  note c = kernel_reachable_components [OF r]
  show ?thesis
    using r c reachable_approvals_ok [of h s']
    by (auto simp: lease_inv_def ledger_inv_def APPLIED_EVENT_ID_TAIL_LIMIT_def)
qed

text \<open>
  C28: the recovery journal of the state stays well formed. Whatever event the composed reducers
  accept, the journal has at most 128 distinct entries, each under its own identity, with no call
  claimed twice; only a journal merged from a subagent has to respect the claims of the state,
  which the code does not check.
\<close>

theorem kernel_journal_invariant:
  assumes "journal_ok (st_toolRecovery s)" "reduceAgentState h s e facts = Inr s'"
    and "merges_apart h s (normalizeTerminalAgentEvent e)"
  shows "journal_ok (st_toolRecovery s')"
  using assms by (rule kernel_keeps_journal)

section \<open>Witnesses\<close>

definition exit_input :: kernel_input where
  "exit_input = \<lparr>ki_sessionId = ''thread'', ki_expectedRevision = 0, ki_events = [exit_event], ki_causationId = None\<rparr>"

definition exit_facts :: jval where
  "exit_facts = JObj [(''schema'', JStr ''kite.kernel-decision-facts.v1''),
     (''eventFacts'', JArr [JObj [(''occurredAt'', JStr ''2026-01-01T00:00:00Z'')]]), (''knownEventIds'', JArr []),
     (''allocatedIds'', JObj []), (''workspace'', JObj []), (''policy'', JObj []), (''provider'', JObj []),
     (''protectedPath'', JObj []), (''network'', JObj []), (''executionBoundary'', JObj []), (''attempt'', JObj [])]"

lemma exit_facts_valid: "validDecisionFacts exit_facts"
  by code_simp

lemma exit_normalized:
  "Kite_Kernel.normalizeAgentEvent sample_host exit_event s t = Inr exit_event" "finalizeAgentEvent exit_event t = exit_event"
  using exit_event_current(2)
  by (simp_all add: Kite_Kernel.normalizeAgentEvent_def normalizeTerminalAgentEvent_def
      normalizeAgentToolOutcomeEvent_def exit_event_def TOOL_TERMINAL_EVENTS_def finalizeAgentEvent_def
      FINALIZED_CREATED_AT_EVENTS_def obj_keys_def)

lemma exit_effect: "\<not> isl (selectPendingEffects sample_host (committed fresh_state fresh_state i) None)"
  by code_simp

lemma exit_decided:
  "\<exists>envelopes s' effects. decide sample_host fresh_state exit_input exit_facts = Inr (Applied [exit_event] envelopes s' effects)"
proof -
  obtain json where "json_stringify sample_host (JObj (event_json exit_event)) = Some json" by simp
  then obtain i where i: "digestAgentEvent sample_host exit_event = Inr i" by (simp add: digestAgentEvent_def)
  obtain effects where effects: "selectPendingEffects sample_host (committed fresh_state fresh_state i) None = Inr effects"
    using exit_effect [of i] by (cases "selectPendingEffects sample_host (committed fresh_state fresh_state i) None") auto
  have fresh: "st_revision fresh_state = 0" "se_threadId (st_session fresh_state) = ''thread''"
    "st_appliedEventIds fresh_state = []"
    by code_simp+
  let ?fact = "JObj [(''occurredAt'', JStr ''2026-01-01T00:00:00Z'')]"
  have facts: "reducer_facts_for exit_facts ?fact 0 fresh_state exit_event = Inr (Inr no_reducer_facts)"
    by (simp add: reducer_facts_for_def exit_event_def no_reducer_facts_def)
  have "apply_event sample_host exit_input exit_facts 0 (initial_log fresh_state exit_facts) exit_event ?fact =
    Inr (Inr \<lparr>lg_state = committed fresh_state fresh_state i, lg_seen = [i], lg_payloads = [exit_event],
      lg_envelopes = [envelope_for exit_input fresh_state i ''2026-01-01T00:00:00Z'' exit_event]\<rparr>)"
    using i facts quiet_reduces [OF exit_event_quiet exit_event_current(2)]
    by (simp add: apply_event_def exit_event_current exit_normalized initial_log_def fresh exit_facts_def Let_def text_of_def list_of_def
        no_reducer_facts_def)
  then have "decide sample_host fresh_state exit_input exit_facts =
    Inr (Applied [exit_event] [envelope_for exit_input fresh_state i ''2026-01-01T00:00:00Z'' exit_event]
      (committed fresh_state fresh_state i) effects)"
    using exit_facts_valid effects
    by (simp add: decide_def exit_input_def fresh exit_facts_def scheduler_facts_def Let_def list_of_def)
  then show ?thesis by blast
qed

theorem decide_applies_once_witness:
  "\<exists>envelopes s' effects. decide sample_host fresh_state exit_input exit_facts = Inr (Applied [exit_event] envelopes s' effects) \<and>
     map en_payload envelopes = [exit_event] \<and> st_revision s' = st_revision fresh_state + 1"
proof -
  obtain envelopes s' effects where d: "decide sample_host fresh_state exit_input exit_facts =
      Inr (Applied [exit_event] envelopes s' effects)"
    using exit_decided by blast
  from decide_applies_once [OF d] have "map en_payload envelopes = [exit_event]"
    "st_revision s' = st_revision fresh_state + length envelopes" by argo+
  moreover from this(1) have "length envelopes = 1" by auto
  ultimately show ?thesis using d by auto
qed

theorem kernel_invariants_witness:
  "\<exists>envelopes s' effects. decide sample_host fresh_state exit_input exit_facts = Inr (Applied [exit_event] envelopes s' effects) \<and>
     kernel_reachable sample_host s' \<and> approvals_ok s'"
proof -
  obtain envelopes s' effects where d: "decide sample_host fresh_state exit_input exit_facts =
      Inr (Applied [exit_event] envelopes s' effects)"
    using exit_decided by blast
  from kernel_invariants [OF kernel_reachable.created [OF fresh_state_created] d] show ?thesis using d by blast
qed

theorem kernel_journal_invariant_witness:
  "journal_ok (st_toolRecovery fresh_state) \<and>
   (\<exists>s'. reduceAgentState sample_host fresh_state exit_event no_reducer_facts = Inr s' \<and> journal_ok (st_toolRecovery s'))"
proof -
  have j: "journal_ok (st_toolRecovery fresh_state)"
    by (simp add: fresh_state_def createInitialAgentState_def sample_input_def is_sha256_hex_def is_lower_hex_def
        list_all_iff journal_ok_def failures_ok_def claims_unique_def js_object.every_def)
  have r: "reduceAgentState sample_host fresh_state exit_event no_reducer_facts = Inr fresh_state"
    by (rule quiet_reduces [OF exit_event_quiet exit_event_current(2)])
  have "merges_apart sample_host fresh_state (normalizeTerminalAgentEvent exit_event)"
    by (simp add: merges_apart_def) (simp add: exit_event_def)
  from kernel_journal_invariant [OF j r this] show ?thesis using r j by blast
qed

end
