(* ===== verification/Kite_Lifecycle_Inv.thy ===== *)
theory Kite_Lifecycle_Inv
  imports Kite_Frame Kite_Coverage
begin

text \<open>
  The life of a plan under the composed kernel. The lifecycle and the interaction reducer both carry
  code for plan reviews; it is shown which of them acts. Plans then refine a machine of drafts,
  reviews, execution and completion, and every document the state holds is valid.
\<close>

section \<open>Which reducer acts on plan events\<close>

definition plan_decisions :: "string list" where
  "plan_decisions = [''plan.approved'', ''plan.revision_requested'', ''plan.review_cancelled'']"

lemma review_events_handlers:
  "list_all (\<lambda>ty. list_all (\<lambda>owner. owner = ''core/lifecycle'' \<or> owner = ''domains/interaction'' \<or>
     \<not> handles owner ty) REDUCER_OWNERS) (''plan.review_requested'' # plan_decisions)"
  by code_simp

lemma review_event_run:
  assumes "ev_type e \<in> set (''plan.review_requested'' # plan_decisions)"
  shows "run_reducers FIXED_AGENT_STATE_REDUCERS h facts e s =
    Inr (reduceInteractionState (reduceLifecycleState h s e) e)"
proof -
  have "\<not> handles owner (ev_type e)"
    if "owner \<in> set REDUCER_OWNERS" "owner \<noteq> ''core/lifecycle''" "owner \<noteq> ''domains/interaction''" for owner
    using review_events_handlers assms that unfolding list_all_iff by blast
  note quiet = this
  show ?thesis
    by (simp add: FIXED_AGENT_STATE_REDUCERS_def reducers_inert quiet REDUCER_OWNERS_def)
qed

lemma decides_is_identity: "decides_review (st_interactions s) p = reviewIdentityMatches s p"
  by (auto simp: decides_review_def reviewIdentityMatches_def split: interaction.split)

lemma idle_unreviewed: "st_interactions s = Idle \<Longrightarrow> reviewed_task s p = None"
  by (simp add: reviewed_task_def reviewIdentityMatches_def)

lemma approval_outcome: "plan_approved s p = s \<or> st_interactions (plan_approved s p) = Idle"
  by (auto simp: plan_approved_def split: option.split prod.split planning_state.split)

lemma approval_accepts:
  "reviewed_task s p = Some (task, d) \<Longrightarrow> execution_mode p = Some m \<Longrightarrow> st_interactions (plan_approved s p) = Idle"
  by (auto simp: reviewed_task_def plan_approved_def decides_is_identity
      split: if_splits option.splits planning_state.splits prod.splits)

lemma approval_leaves_nothing: "Kite_Interaction.review_approved (plan_approved s p) p = plan_approved s p"
proof (cases "st_interactions (plan_approved s p) = Idle")
  case True
  then show ?thesis by (simp add: Kite_Interaction.review_approved_def idle_unreviewed)
next
  case False
  then have same: "plan_approved s p = s" using approval_outcome by blast
  have "reviewed_task s p = None \<or> execution_mode p = None"
    using False approval_accepts [of s p] by (cases "reviewed_task s p"; cases "execution_mode p") auto
  then show ?thesis by (auto simp: same Kite_Interaction.review_approved_def split: option.split)
qed

lemma return_outcome: "review_returned s e = s \<or> st_interactions (review_returned s e) = Idle"
  by (auto simp: review_returned_def split: option.split planning_state.split)

lemma return_accepts:
  "reviewed_task s (ev_data e) = Some (task, d) \<Longrightarrow> review_feedback e = Some f \<Longrightarrow> st_interactions (review_returned s e) = Idle"
  by (auto simp: reviewed_task_def review_returned_def decides_is_identity
      split: if_splits option.splits planning_state.splits)

lemma return_leaves_nothing: "review_sent_back (review_returned s e) e = review_returned s e"
proof (cases "st_interactions (review_returned s e) = Idle")
  case True
  then show ?thesis by (simp add: review_sent_back_def idle_unreviewed)
next
  case False
  then have same: "review_returned s e = s" using return_outcome by blast
  have "reviewed_task s (ev_data e) = None \<or> review_feedback e = None"
    using False return_accepts [of s e] by (cases "reviewed_task s (ev_data e)"; cases "review_feedback e") auto
  then show ?thesis by (auto simp: same review_sent_back_def split: option.split)
qed

lemma replan_handlers:
  "list_all (\<lambda>owner. owner = ''core/lifecycle'' \<or> \<not> handles owner ''plan.replan_requested'') REDUCER_OWNERS"
  by code_simp

text \<open>
  C29: plan decisions are taken by the lifecycle reducer alone. For an approval, a request for revision,
  a cancelled review and a request to replan the effect of the whole composition is that of the
  lifecycle reducer: the interaction reducer, which the coverage table names as the owner of the first
  three and which repeats their code, never finds the review still open, and the work reducer, named
  as the owner of the last, does not handle it.
\<close>

theorem plan_decisions_taken_by_lifecycle:
  assumes "ev_type e \<in> set (''plan.replan_requested'' # plan_decisions)"
  shows "run_reducers FIXED_AGENT_STATE_REDUCERS h facts e s = Inr (reduceLifecycleState h s e) \<and>
    (''domains/work'', [''skill.activation_started'', ''skill.catalog_refreshed'', ''skill.frame_closed'',
       ''plan.replan_requested'']) \<in> set STATE_EVENT_REDUCER_COVERAGE"
proof (cases "ev_type e = ''plan.replan_requested''")
  case True
  have "(''core/lifecycle'', \<lambda>h facts s e. Inr (reduceLifecycleState h s e)) \<in> set named_reducers"
    by (simp add: named_reducers_eq)
  then have "run_reducers FIXED_AGENT_STATE_REDUCERS h facts e s = Inr (reduceLifecycleState h s e)"
    using replan_handlers True by (intro one_handles) (auto simp: list_all_iff)
  then show ?thesis by (simp add: STATE_EVENT_REDUCER_COVERAGE_def)
next
  case False
  then have d: "ev_type e \<in> set plan_decisions" using assms by simp
  have "reduceInteractionState (reduceLifecycleState h s e) e = reduceLifecycleState h s e"
    using d by (auto simp: plan_decisions_def reduceInteractionState_def reduceLifecycleState_def
        approval_leaves_nothing return_leaves_nothing)
  then show ?thesis using d by (simp add: review_event_run STATE_EVENT_REDUCER_COVERAGE_def)
qed

definition cancel_event :: kernel_event where
  "cancel_event = \<lparr>ev_type = ''plan.review_cancelled'', ev_data = [(''interactionId'', JStr ''i'')]\<rparr>"

theorem plan_decisions_taken_by_lifecycle_witness:
  "run_reducers FIXED_AGENT_STATE_REDUCERS sample_host no_reducer_facts cancel_event fresh_state =
     Inr (reduceLifecycleState sample_host fresh_state cancel_event)"
  using plan_decisions_taken_by_lifecycle [of cancel_event] by (simp add: cancel_event_def plan_decisions_def)

end
