(* ===== verification/Kite_Plan_Inv.thy ===== *)
theory Kite_Plan_Inv
  imports Kite_Kernel_Inv Kite_Lifecycle_Inv
begin

text \<open>
  Plans under the composed kernel. Whatever events a session receives, the plan of a task moves along
  a machine of drafts, reviews, execution, replanning and completion; every document in the state is
  valid, keeps its identity, grows in version and never loses a finished step.
\<close>

section \<open>The machine\<close>

definition step_kept :: "jval \<Rightarrow> jval \<Rightarrow> bool" where
  "step_kept a b \<longleftrightarrow> vfld b ''id'' = vfld a ''id'' \<and> vfld b ''title'' = vfld a ''title'' \<and>
     (vfld a ''status'' \<in> {JStr ''completed'', JStr ''skipped''} \<longrightarrow> vfld b ''status'' = vfld a ''status'')"

text \<open>Progress touches the steps, the evidence and the turn of a document only, and finished steps stay.\<close>

definition progressed :: "jobj \<Rightarrow> jobj \<Rightarrow> bool" where
  "progressed d d' \<longleftrightarrow>
     (\<forall>f. f \<notin> {''steps'', ''completionEvidence'', ''updatedAtTurnId''} \<longrightarrow> fld d' f = fld d f) \<and>
     list_all2 step_kept (document_steps d) (document_steps d')"

definition plan_version :: "jobj \<Rightarrow> int" where
  "plan_version d = int_of (fld d ''version'')"

definition next_revision :: "jobj \<Rightarrow> jobj \<Rightarrow> bool" where
  "next_revision d d' \<longleftrightarrow> fld d' ''planId'' = fld d ''planId'' \<and> plan_version d' = plan_version d + 1"

definition steps_closed :: "jobj \<Rightarrow> bool" where
  "steps_closed d \<longleftrightarrow> (\<forall>step \<in> set (document_steps d). vfld step ''status'' \<in> {JStr ''completed'', JStr ''skipped''}) \<and>
     (\<exists>step \<in> set (document_steps d). vfld step ''status'' = JStr ''completed'')"

inductive plan_step :: "js_host \<Rightarrow> planning_state \<Rightarrow> planning_state \<Rightarrow> bool" for h where
  enter: "plan_step h BuildingWithoutPlan PlanningEmpty"
| draft: "isPlanDocument h d \<Longrightarrow> plan_version d = 1 \<Longrightarrow> plan_step h PlanningEmpty (PlanningDraft d None)"
| redraft: "isPlanDocument h d' \<Longrightarrow> next_revision d d' \<Longrightarrow> plan_step h (PlanningDraft d f) (PlanningDraft d' None)"
| replan_draft: "isPlanDocument h d' \<Longrightarrow> next_revision d d' \<Longrightarrow> fld d' ''supersedesPlanVersion'' = jint v \<Longrightarrow>
    fld d' ''replanReason'' = JStr r \<Longrightarrow> plan_step h (ReplanningDraft d v r f) (ReplanningDraft d' v r None)"
| review: "draft_document p = Some d \<Longrightarrow> plan_step h p (AwaitingReview d i c)"
| approve: "m \<in> {''auto'', ''accept_edits''} \<Longrightarrow> plan_step h (AwaitingReview d i c) (Executing d m t)"
| send_back: "plan_step h (AwaitingReview d i c) (PlanningDraft d (Some f))"
| progress: "isPlanDocument h d' \<Longrightarrow> progressed d d' \<Longrightarrow> plan_step h (Executing d m t) (Executing d' m t)"
| replan: "plan_step h (Executing d m t) (ReplanningDraft d v r None)"
| complete: "isPlanDocument h d' \<Longrightarrow> progressed d d' \<Longrightarrow> steps_closed d' \<Longrightarrow>
    plan_step h (Executing d m t) (PlanCompleted d' u)"

inductive_cases to_executing: "plan_step h p (Executing d m t)"
inductive_cases from_completed: "plan_step h (PlanCompleted d t) p"

abbreviation plan_moves :: "js_host \<Rightarrow> planning_state \<Rightarrow> planning_state \<Rightarrow> bool" where
  "plan_moves h \<equiv> (plan_step h)\<^sup>*\<^sup>*"

section \<open>What holds along the machine\<close>

definition plan_valid :: "js_host \<Rightarrow> planning_state \<Rightarrow> bool" where
  "plan_valid h p \<longleftrightarrow> (\<forall>d. planning_document p = Some d \<longrightarrow> isPlanDocument h d)"

lemma draft_is_document: "draft_document p = Some d \<Longrightarrow> planning_document p = Some d"
  by (cases p) auto

lemma plan_step_valid: "plan_step h p p' \<Longrightarrow> plan_valid h p \<Longrightarrow> plan_valid h p'"
  by (induction rule: plan_step.induct) (auto simp: plan_valid_def dest: draft_is_document)

lemma plan_moves_valid: "plan_moves h p p' \<Longrightarrow> plan_valid h p \<Longrightarrow> plan_valid h p'"
  by (induction rule: rtranclp_induct) (auto intro: plan_step_valid)

text \<open>A document is never lost; it keeps its plan, and a changed structure has a higher version.\<close>

definition plan_grows :: "planning_state \<Rightarrow> planning_state \<Rightarrow> bool" where
  "plan_grows p p' \<longleftrightarrow>
     (\<forall>d. planning_document p = Some d \<longrightarrow> (\<exists>d'. planning_document p' = Some d' \<and>
        fld d' ''planId'' = fld d ''planId'' \<and> plan_version d \<le> plan_version d' \<and>
        (plan_version d' = plan_version d \<longrightarrow> fld d' ''structuralDigest'' = fld d ''structuralDigest'')))"

lemma plan_grows_refl: "plan_grows p p"
  by (simp add: plan_grows_def)

lemma plan_grows_trans:
  assumes "plan_grows p q" "plan_grows q r" shows "plan_grows p r"
  unfolding plan_grows_def
proof (intro allI impI)
  fix d assume "planning_document p = Some d"
  then obtain d1 where 1: "planning_document q = Some d1" "fld d1 ''planId'' = fld d ''planId''"
    "plan_version d \<le> plan_version d1"
    "plan_version d1 = plan_version d \<longrightarrow> fld d1 ''structuralDigest'' = fld d ''structuralDigest''"
    using assms(1) unfolding plan_grows_def by blast
  then obtain d2 where "planning_document r = Some d2" "fld d2 ''planId'' = fld d1 ''planId''"
    "plan_version d1 \<le> plan_version d2"
    "plan_version d2 = plan_version d1 \<longrightarrow> fld d2 ''structuralDigest'' = fld d1 ''structuralDigest''"
    using assms(2) unfolding plan_grows_def by blast
  with 1 show "\<exists>d'. planning_document r = Some d' \<and> fld d' ''planId'' = fld d ''planId'' \<and>
      plan_version d \<le> plan_version d' \<and>
      (plan_version d' = plan_version d \<longrightarrow> fld d' ''structuralDigest'' = fld d ''structuralDigest'')"
    by (intro exI [of _ d2]) auto
qed

lemma progressed_same:
  "progressed d d' \<Longrightarrow> fld d' ''planId'' = fld d ''planId'' \<and> plan_version d' = plan_version d \<and>
     fld d' ''structuralDigest'' = fld d ''structuralDigest''"
  by (simp add: progressed_def plan_version_def)

lemma plan_step_grows: "plan_step h p p' \<Longrightarrow> plan_grows p p'"
  by (induction rule: plan_step.induct)
    (auto simp: plan_grows_def next_revision_def dest: draft_is_document progressed_same)

lemma plan_moves_grow: "plan_moves h p p' \<Longrightarrow> plan_grows p p'"
  by (induction rule: rtranclp_induct) (blast intro: plan_grows_refl plan_grows_trans plan_step_grows)+

text \<open>A completed plan is final.\<close>

lemma completed_final: "plan_moves h (PlanCompleted d t) p \<Longrightarrow> p = PlanCompleted d t"
  by (induction rule: rtranclp_induct) (auto elim: from_completed simp: plan_step.simps)

section \<open>The two validations of a plan\<close>

text \<open>
  completion.ts and the lifecycle reducer each validate documents; they compare keys differently. A
  document the lifecycle reducer stores is always one the completion guard can read.
\<close>

lemma exact_keys_accepted: "Kite_Lifecycle.hasExactKeys v keys \<Longrightarrow> Kite_Completion.hasExactKeys v keys"
proof -
  assume "Kite_Lifecycle.hasExactKeys v keys"
  then have "mset (sort_by code_unit_le (obj_keys v)) = mset (sort_by code_unit_le keys)"
    by (simp add: Kite_Lifecycle.hasExactKeys_def)
  then have "mset (obj_keys v) = mset keys" by simp
  then have "length (obj_keys v) = length keys" "set (obj_keys v) = set keys"
    by (metis size_mset, metis set_mset_mset)
  then show ?thesis by (simp add: Kite_Completion.hasExactKeys_def hasOnlyKeys_def list_all_iff)
qed

lemma step_accepted: "Kite_Lifecycle.isPlanStep v \<Longrightarrow> Kite_Completion.isPlanStep v"
  by (cases v) (auto simp: Kite_Lifecycle.isPlanStep_def Kite_Completion.isPlanStep_def planStatus_def
      split: if_splits jval.splits intro: exact_keys_accepted)

lemma every_entry_mono: "(\<And>e. P e \<Longrightarrow> Q e) \<Longrightarrow> every_entry P v \<Longrightarrow> every_entry Q v"
  by (cases v) (auto simp: every_entry_def list_all_iff split: jval.splits)

lemma evidence_accepted: "Kite_Lifecycle.isPlanCompletionEvidence v \<Longrightarrow> Kite_Completion.isPlanCompletionEvidence v"
  unfolding Kite_Lifecycle.isPlanCompletionEvidence_def Kite_Completion.isPlanCompletionEvidence_def
  by (cases v) (auto intro!: exact_keys_accepted elim!: every_entry_mono [rotated])

lemma artifact_accepted: "Kite_Lifecycle.isPlanArtifactRef h v d \<Longrightarrow> Kite_Completion.isPlanArtifactRef h v d"
  unfolding Kite_Lifecycle.isPlanArtifactRef_def Kite_Completion.isPlanArtifactRef_def
  by (cases v) (auto intro: exact_keys_accepted)

lemma document_accepted: "Kite_Lifecycle.isPlanDocument h d \<Longrightarrow> Kite_Completion.isPlanDocument h d"
proof -
  assume d: "Kite_Lifecycle.isPlanDocument h d"
  then obtain steps where s: "fld d ''steps'' = JArr steps" "list_all Kite_Lifecycle.isPlanStep steps"
    "1 \<le> length steps" "length steps \<le> 12" "distinct (map (\<lambda>step. vfld step ''id'') steps)"
    unfolding Kite_Lifecycle.isPlanDocument_def by (cases "fld d ''steps''") simp_all
  have "list_all Kite_Completion.isPlanStep steps" using s(2) step_accepted by (auto simp: list_all_iff)
  moreover have "planStructuralDigest h d = computePlanStructuralDigest h d"
    by (simp add: planStructuralDigest_def computePlanStructuralDigest_def)
  ultimately show ?thesis
    using d s unfolding Kite_Lifecycle.isPlanDocument_def Kite_Completion.isPlanDocument_def
    by (simp add: evidence_accepted) (blast intro: artifact_accepted)
qed

section \<open>Moving the plans of a state\<close>

definition tasks_keyed :: "agent_state \<Rightarrow> bool" where
  "tasks_keyed s \<longleftrightarrow> (\<forall>k t. map_of (st_tasks s) k = Some t \<longrightarrow> tk_taskId t = k)"

text \<open>
  A plan of a state comes from the plan the same task had before; only the tasks of \<open>fresh\<close> may
  instead have no plan, because they were just started.
\<close>

definition plan_from :: "string set \<Rightarrow> js_host \<Rightarrow> agent_state \<Rightarrow> string \<Rightarrow> planning_state \<Rightarrow> bool" where
  "plan_from fresh h s k p' \<longleftrightarrow>
     k \<in> fresh \<and> p' = BuildingWithoutPlan \<or> (\<exists>t. map_of (st_tasks s) k = Some t \<and> plan_moves h (tk_planning t) p')"

definition plans_move :: "string set \<Rightarrow> js_host \<Rightarrow> agent_state \<Rightarrow> agent_state \<Rightarrow> bool" where
  "plans_move fresh h s s' \<longleftrightarrow> (tasks_keyed s \<longrightarrow>
     (\<forall>k t'. map_of (st_tasks s') k = Some t' \<longrightarrow> tk_taskId t' = k \<and> plan_from fresh h s k (tk_planning t')))"

lemma plans_move_keyed: "plans_move fresh h s s' \<Longrightarrow> tasks_keyed s \<Longrightarrow> tasks_keyed s'"
  unfolding plans_move_def tasks_keyed_def [of s'] by blast

lemma plan_from_trans:
  assumes "plans_move {} h s s'" "tasks_keyed s" "plan_from fresh h s' k p" shows "plan_from fresh h s k p"
proof (cases "k \<in> fresh \<and> p = BuildingWithoutPlan")
  case False
  then obtain t where t: "map_of (st_tasks s') k = Some t" "plan_moves h (tk_planning t) p"
    using assms(3) unfolding plan_from_def by blast
  then have "plan_from {} h s k (tk_planning t)" using assms(1,2) unfolding plans_move_def by blast
  then obtain u where u: "map_of (st_tasks s) k = Some u" "plan_moves h (tk_planning u) (tk_planning t)"
    unfolding plan_from_def by blast
  show ?thesis unfolding plan_from_def using u(1) rtranclp_trans [OF u(2) t(2)] by blast
qed (simp add: plan_from_def)

lemma plans_move_trans: "plans_move {} h s s' \<Longrightarrow> plans_move fresh h s' s'' \<Longrightarrow> plans_move fresh h s s''"
  by (metis plan_from_trans plans_move_def plans_move_keyed)

lemma plans_move_same: "st_tasks s' = st_tasks s \<Longrightarrow> plans_move fresh h s s'"
  unfolding plans_move_def tasks_keyed_def plan_from_def by auto

lemma plans_move_refl [simp]: "plans_move fresh h s s"
  by (simp add: plans_move_same)

lemma plans_move_put:
  assumes "st_tasks s' = obj_set k t' (st_tasks s)"
    and "tasks_keyed s \<Longrightarrow> tk_taskId t' = k \<and> (k \<in> fresh \<and> tk_planning t' = BuildingWithoutPlan \<or>
      (\<exists>t. map_of (st_tasks s) k = Some t \<and> (tk_planning t' = tk_planning t \<or> plan_step h (tk_planning t) (tk_planning t'))))"
  shows "plans_move fresh h s s'"
  unfolding plans_move_def
proof (intro impI allI)
  fix j u assume keyed: "tasks_keyed s" and u: "map_of (st_tasks s') j = Some u"
  show "tk_taskId u = j \<and> plan_from fresh h s j (tk_planning u)"
  proof (cases "j = k")
    case True
    then have "u = t'" using u assms(1) by simp
    then show ?thesis using True assms(2) [OF keyed] unfolding plan_from_def by auto
  next
    case False
    then have "map_of (st_tasks s) j = Some u" using u assms(1) by simp
    then show ?thesis using keyed unfolding plan_from_def tasks_keyed_def by blast
  qed
qed

lemma active_task_found:
  "active_task s = Some t \<Longrightarrow> tasks_keyed s \<Longrightarrow> map_of (st_tasks s) (tk_taskId t) = Some t"
  by (auto simp: active_task_def tasks_keyed_def split: option.splits)

lemma plans_move_active:
  assumes "active_task s = Some t" "st_tasks s' = obj_set (tk_taskId t) t' (st_tasks s)"
    "tk_taskId t' = tk_taskId t" "tk_planning t' = tk_planning t \<or> plan_step h (tk_planning t) (tk_planning t')"
  shows "plans_move fresh h s s'"
  using assms(2) by (rule plans_move_put) (use assms(1,3,4) active_task_found in auto)

lemma plans_move_found:
  assumes "map_of (st_tasks s) k = Some t" "st_tasks s' = obj_set k t' (st_tasks s)"
    "tk_taskId t' = tk_taskId t" "tk_planning t' = tk_planning t \<or> plan_step h (tk_planning t) (tk_planning t')"
  shows "plans_move fresh h s s'"
  using assms(2) by (rule plans_move_put) (use assms(1,3,4) in \<open>auto simp: tasks_keyed_def\<close>)

lemma plans_move_update:
  assumes "\<And>t. map_of (st_tasks s) k = Some t \<Longrightarrow> tk_taskId (f t) = tk_taskId t \<and>
    (tk_planning (f t) = tk_planning t \<or> plan_step h (tk_planning t) (tk_planning (f t)))"
  shows "plans_move fresh h s (updateTasks s k f)"
proof (cases "map_of (st_tasks s) k")
  case (Some t)
  then have "st_tasks (updateTasks s k f) = obj_set k (f t) (st_tasks s)" by (simp add: updateTasks_def)
  with Some show ?thesis by (rule plans_move_found) (use assms [OF Some] in auto)
qed (simp add: updateTasks_def)

lemma plans_move_if_keyed: "(tasks_keyed s \<Longrightarrow> plans_move fresh h s s') \<Longrightarrow> plans_move fresh h s s'"
  unfolding plans_move_def by blast

lemma plans_move_update_active:
  assumes "active_task s = Some t" "tk_taskId (f t) = tk_taskId t"
    "tk_planning (f t) = tk_planning t \<or> plan_step h (tk_planning t) (tk_planning (f t))"
  shows "plans_move fresh h s (updateTasks s (tk_taskId t) f)"
proof (rule plans_move_if_keyed)
  assume "tasks_keyed s"
  then have "map_of (st_tasks s) (tk_taskId t) = Some t" by (rule active_task_found [OF assms(1)])
  then show "plans_move fresh h s (updateTasks s (tk_taskId t) f)" using assms(2,3) by (intro plans_move_update) auto
qed

lemma plans_move_tasks: "st_tasks s'' = st_tasks s' \<Longrightarrow> plans_move fresh h s s'' = plans_move fresh h s s'"
  by (simp add: plans_move_def)

lemma plans_move_wrapped [simp]:
  "plans_move fresh h s (s'\<lparr>st_interactions := i\<rparr>) = plans_move fresh h s s'"
  "plans_move fresh h s (await_review s' c) = plans_move fresh h s s'"
  "plans_move fresh h s (resolve_failures s' j k r ids) = plans_move fresh h s s'"
  "plans_move fresh h s (mark_call s' c st) = plans_move fresh h s s'"
  by (rule plans_move_tasks, simp add: await_review_def resolve_failures_def mark_call_def put_call_def split: option.split)+

section \<open>Drafts\<close>

lemma nonEmpty_field: "nonEmptyStringField p f = Some x \<Longrightarrow> fld p f = JStr x"
  by (cases "fld p f") (auto simp: nonEmptyStringField_def stringField_def as_string_def split: if_splits)

lemma transport_document:
  assumes "planDocumentFromTransport h plan payload turnId supersedes reason = Some d"
  shows "isPlanDocument h d" "fld d ''planId'' = fld payload ''planId''"
    "fld d ''version'' = number_value payload ''version''" "fld d ''supersedesPlanVersion'' = supersedes"
    "fld d ''replanReason'' = reason"
proof -
  from assms obtain i v sd k where f: "nonEmptyStringField payload ''planId'' = Some i"
    "numberField payload ''version'' = Some v" "nonEmptyStringField payload ''structuralHash'' = Some sd"
    "nonEmptyStringField payload ''taskId'' = Some k"
    by (auto simp: planDocumentFromTransport_def split: option.splits)
  note d = assms [unfolded planDocumentFromTransport_def f Let_def, simplified]
  show "isPlanDocument h d" using d by (auto split: if_splits)
  show "fld d ''planId'' = fld payload ''planId''" using d nonEmpty_field [OF f(1)] by (auto split: if_splits)
  show "fld d ''version'' = number_value payload ''version''" using d f(2) by (auto simp: number_value_def split: if_splits)
  show "fld d ''supersedesPlanVersion'' = supersedes" using d by (auto split: if_splits option.splits)
  show "fld d ''replanReason'' = reason" using d by (auto split: if_splits option.splits)
qed

lemma plan_version_next:
  "is_integer (fld d ''version'') \<Longrightarrow> fld d' ''version'' = js_plus_one (fld d ''version'') \<Longrightarrow>
   plan_version d' = plan_version d + 1"
  by (auto simp: plan_version_def is_integer_def js_plus_one_def int_of_def split: jval.splits) 

lemma document_version: "isPlanDocument h d \<Longrightarrow> is_integer (fld d ''version'')"
  by (simp add: isPlanDocument_def)

lemma drafted_planning_step:
  assumes "matchesNewRevisionScope p payload" "plan_valid h p"
    and d: "planDocumentFromTransport h plan payload turnId (effective_supersedes p payload)
      (effective_reason p payload) = Some d"
  shows "plan_step h p (drafted_planning p payload d)"
proof -
  note doc = transport_document [OF d]
  have next_doc: "next_revision d0 d" if "isPlanDocument h d0" "next_version payload d0" for d0
    using that doc(2,3) plan_version_next [OF document_version [OF that(1)], of d] by (simp add: next_version_def next_revision_def)
  show ?thesis
  proof (cases p)
    case PlanningEmpty
    then have "plan_version d = 1" using assms(1) doc(3)
      by (simp add: matchesNewRevisionScope_def plan_version_def int_of_def Let_def)
    then show ?thesis using PlanningEmpty doc(1) by (simp add: drafted_planning_def plan_step.draft)
  next
    case (PlanningDraft d0 f)
    then show ?thesis using assms(1,2) doc(1) next_doc
      by (simp add: matchesNewRevisionScope_def Let_def plan_valid_def drafted_planning_def plan_step.redraft)
  next
    case (ReplanningDraft d0 v r f)
    then have scope: "next_version payload d0" "number_value payload ''supersedesPlanVersion'' = jint v"
      "string_value payload ''replanReason'' = JStr r"
      using assms(1) by (simp_all add: matchesNewRevisionScope_def Let_def)
    then have e: "effective_supersedes p payload = jint v" "effective_reason p payload = JStr r"
      by (simp_all add: effective_supersedes_def effective_reason_def coalesce_def jint_def)
    have "drafted_planning p payload d = ReplanningDraft d v r None"
      using e ReplanningDraft by (simp add: drafted_planning_def jint_def int_of_def text_of_def)
    then show ?thesis
      using doc(1,4,5) e next_doc [of d0] scope(1) assms(2) ReplanningDraft
      by (simp add: plan_valid_def plan_step.replan_draft)
  qed (use assms(1) in \<open>simp_all add: matchesNewRevisionScope_def Let_def\<close>)
qed

section \<open>Progress\<close>

lemma find_distinct: "distinct (map f xs) \<Longrightarrow> x \<in> set xs \<Longrightarrow> find (\<lambda>y. f y = f x) xs = Some x"
  by (induction xs) (auto simp: image_iff)

lemma step_named_distinct:
  "distinct (map (\<lambda>step. vfld step ''id'') steps) \<Longrightarrow> x \<in> set steps \<Longrightarrow>
   step_named (rev steps) (vfld x ''id'') = Some x"
  unfolding step_named_def by (rule find_distinct) (simp_all add: rev_map [symmetric])

lemma fld_record [simp]: "fld (or_default (as_record v) []) f = vfld v f"
  by (cases v) (simp_all add: vfld_def as_record_def or_default_def)

lemma merged_same_identity:
  "list_all2 (\<lambda>a b. vfld b ''id'' = vfld a ''id'' \<and> vfld b ''title'' = vfld a ''title'') steps (mergePlanSteps steps upd)"
  unfolding mergePlanSteps_def list.rel_map
  by (rule list.rel_refl_strong) (simp add: vfld_def [of "JObj o'" for o'] split: option.split)

lemma merged_steps_kept:
  assumes "distinct (map (\<lambda>step. vfld step ''id'') (mergePlanSteps steps upd))"
    and "\<not> hasTerminalStepRollback steps (mergePlanSteps steps upd)"
  shows "list_all2 step_kept steps (mergePlanSteps steps upd)"
proof (rule list_all2_all_nthI)
  let ?m = "mergePlanSteps steps upd"
  show len: "length steps = length ?m" by (simp add: mergePlanSteps_def)
  fix i assume i: "i < length steps"
  have same: "vfld (?m ! i) ''id'' = vfld (steps ! i) ''id''" "vfld (?m ! i) ''title'' = vfld (steps ! i) ''title''"
    using list_all2_nthD [OF merged_same_identity i, of upd] by simp_all
  have "step_named (rev ?m) (vfld (steps ! i) ''id'') = Some (?m ! i)"
    using step_named_distinct [OF assms(1), of "?m ! i"] i len same(1) by simp
  then show "step_kept (steps ! i) (?m ! i)"
    using assms(2) i same unfolding step_kept_def hasTerminalStepRollback_def list_ex_iff by force
qed

lemma document_step_ids: "isPlanDocument h d \<Longrightarrow> distinct (map (\<lambda>step. vfld step ''id'') (document_steps d))"
  by (auto simp: isPlanDocument_def document_steps_def list_of_def split: jval.splits)

lemma updated_steps_progress:
  assumes "updated_steps h s payload d = Some steps" "isPlanDocument h d'" "document_steps d' = steps"
    "\<And>f. f \<notin> {''steps'', ''completionEvidence'', ''updatedAtTurnId''} \<Longrightarrow> fld d' f = fld d f"
  shows "progressed d d'"
proof -
  from assms(1) obtain upd where u: "steps = mergePlanSteps (document_steps d) upd"
    "\<not> hasTerminalStepRollback (document_steps d) steps"
    by (auto simp: updated_steps_def Let_def split: option.splits if_splits)
  have "distinct (map (\<lambda>step. vfld step ''id'') steps)" using document_step_ids [OF assms(2)] assms(3) by simp
  then show ?thesis using merged_steps_kept u assms(3,4) by (simp add: progressed_def)
qed

section \<open>Every reducer moves plans along the machine\<close>

definition plans_valid :: "js_host \<Rightarrow> agent_state \<Rightarrow> bool" where
  "plans_valid h s \<longleftrightarrow> (\<forall>k t. map_of (st_tasks s) k = Some t \<longrightarrow> plan_valid h (tk_planning t))"

lemma active_valid: "plans_valid h s \<Longrightarrow> active_task s = Some t \<Longrightarrow> plan_valid h (tk_planning t)"
  by (auto simp: active_task_def plans_valid_def split: option.splits)

lemma plans_move_valid:
  assumes "plans_move fresh h s s'" "tasks_keyed s" "plans_valid h s"
  shows "plans_valid h s'"
  unfolding plans_valid_def
proof (intro allI impI)
  fix k t assume "map_of (st_tasks s') k = Some t"
  then have "tk_planning t = BuildingWithoutPlan \<or>
      (\<exists>u. map_of (st_tasks s) k = Some u \<and> plan_moves h (tk_planning u) (tk_planning t))"
    using assms(1,2) unfolding plans_move_def plan_from_def by blast
  then show "plan_valid h (tk_planning t)"
  proof
    assume "\<exists>u. map_of (st_tasks s) k = Some u \<and> plan_moves h (tk_planning u) (tk_planning t)"
    then show ?thesis using assms(3) plan_moves_valid unfolding plans_valid_def by blast
  qed (simp add: plan_valid_def)
qed

text \<open>The tasks an event starts: the one \<open>task.started\<close> names, the one a user message allocates.\<close>

definition started_tasks :: "kernel_event \<Rightarrow> reducer_facts \<Rightarrow> string set" where
  "started_tasks e facts =
     (if ev_type e = ''task.started'' then set_option (nonEmptyStringField (ev_data e) ''taskId'')
      else if ev_type e = ''user.message_appended'' then set_option (truthy_option (fa_allocatedTaskId facts))
      else {})"

lemma started_moves: "plans_move (set_option (nonEmptyStringField p ''taskId'')) h s (task_started s p)"
  by (auto simp: task_started_def intro!: plans_move_put split: option.split)

lemma close_task_moves:
  assumes "\<And>t. tk_taskId (f t) = tk_taskId t" "\<And>t. tk_planning (f t) = tk_planning t"
  shows "plans_move fresh h s (close_task s i f)"
  by (auto simp: close_task_def assms intro!: plans_move_found split: option.split)

lemma entered_moves: "plans_move fresh h s (planning_entered s p)"
  by (auto simp: planning_entered_def set_planning_def intro!: plans_move_update plan_step.enter split: option.split)

lemma requested_moves: "plans_move fresh h s (Kite_Lifecycle.review_requested h s p)"
  by (auto simp: Kite_Lifecycle.review_requested_def set_planning_def split: option.split
      intro!: plans_move_update_active plan_step.review)

lemma mode_names: "execution_mode p = Some (m, x) \<Longrightarrow> m \<in> {''auto'', ''accept_edits''}"
  by (auto simp: execution_mode_def split: option.splits if_splits)

lemma approved_moves: "plans_move fresh h s (plan_approved s p)"
  by (auto simp: plan_approved_def split: option.split prod.split planning_state.split
      intro!: plans_move_active plan_step.approve dest!: mode_names)

lemma returned_moves: "plans_move fresh h s (review_returned s e)"
  by (auto simp: review_returned_def set_planning_def split: option.split planning_state.split
      intro!: plans_move_update_active plan_step.send_back)

lemma replan_moves: "plans_move fresh h s (replan_requested h s p)"
  by (auto simp: replan_requested_def split: option.split planning_state.split
      intro!: plans_move_update_active plan_step.replan)

lemma drafted_moves:
  assumes "plans_valid h s" shows "plans_move fresh h s (plan_drafted h s p)"
  using assms
  by (auto simp: plan_drafted_def set_planning_def split: option.split dest: active_valid
      intro!: plans_move_update_active drafted_planning_step)

lemma executing_task_found:
  "executing_task s p = Some (t, d) \<Longrightarrow> active_task s = Some t \<and> (\<exists>m u. tk_planning t = Executing d m u)"
  by (auto simp: executing_task_def split: option.splits if_splits planning_state.splits)

lemma progress_moves: "plans_move fresh h s (progress_updated h s p)"
proof (cases "executing_task s p")
  case (Some td)
  obtain t d where td: "td = (t, d)" by (cases td)
  with Some obtain m u where t: "active_task s = Some t" "tk_planning t = Executing d m u"
    using executing_task_found by blast
  show ?thesis
  proof (cases "updated_steps h s p d")
    case steps: (Some steps)
    have "progressed d (progress_document s p d steps)" if "isPlanDocument h (progress_document s p d steps)"
      using steps that by (rule updated_steps_progress) (simp_all add: progress_document_def document_steps_def list_of_def)
    then show ?thesis
      by (auto simp: progress_updated_def Some td steps Let_def t(2)
          intro!: plans_move_update_active [OF t(1)] plan_step.progress)
  qed (simp add: progress_updated_def Some td)
qed (simp add: progress_updated_def)

lemma step_closed: "isPlanStep step \<Longrightarrow> \<not> step_open step \<Longrightarrow> vfld step ''status'' \<in> {JStr ''completed'', JStr ''skipped''}"
  by (auto simp: isPlanStep_def step_open_def planStatus_def vfld_def split: jval.splits if_splits)

lemma document_steps_valid: "isPlanDocument h d \<Longrightarrow> step \<in> set (document_steps d) \<Longrightarrow> isPlanStep step"
  by (auto simp: isPlanDocument_def document_steps_def list_of_def list_all_iff split: jval.splits)

lemma completed_moves: "plans_move fresh h s (plan_completed h s p)"
proof (cases "executing_task s p")
  case (Some td)
  obtain t d where td: "td = (t, d)" by (cases td)
  with Some obtain m u where t: "active_task s = Some t" "tk_planning t = Executing d m u"
    using executing_task_found by blast
  show ?thesis
  proof (cases "updated_steps h s p d")
    case steps: (Some steps)
    let ?d = "completed_document p d steps"
    have ds: "document_steps ?d = steps" by (simp add: completed_document_def document_steps_def list_of_def)
    have "plan_step h (Executing d m u) (PlanCompleted ?d (tn_turnId (st_turn s)))"
      if d': "isPlanDocument h ?d" "\<not> list_ex step_open steps"
        "\<not> list_all (\<lambda>step. vfld step ''status'' = JStr ''skipped'') steps"
    proof (rule plan_step.complete [OF d'(1)])
      show "progressed d ?d"
        using steps d'(1) ds by (rule updated_steps_progress) (simp add: completed_document_def)
      have closed: "vfld step ''status'' \<in> {JStr ''completed'', JStr ''skipped''}" if "step \<in> set steps" for step
        using that d' step_closed document_steps_valid ds unfolding list_ex_iff by metis
      moreover obtain step where "step \<in> set steps" "vfld step ''status'' \<noteq> JStr ''skipped''"
        using d'(3) unfolding list_all_iff by blast
      ultimately show "steps_closed ?d" unfolding steps_closed_def ds by blast
    qed
    then show ?thesis
      by (auto simp: plan_completed_def Some td steps Let_def t(2) complete_task_plan_def
          intro!: plans_move_update_active [OF t(1)])
  qed (simp add: plan_completed_def Some td)
qed (simp add: plan_completed_def)

lemma lifecycle_moves:
  "plans_valid h s \<Longrightarrow> ev_type e \<noteq> ''task.started'' \<Longrightarrow> plans_move fresh h s (reduceLifecycleState h s e)"
  by (simp add: reduceLifecycleState_def Let_def task_completed_def task_cancelled_def close_task_moves
      turn_started_def entered_moves requested_moves approved_moves returned_moves replan_moves drafted_moves
      progress_moves completed_moves plans_move_same split: option.split)

lemma getActiveTask_active: "getActiveTask s = active_task s"
  by (simp add: getActiveTask_def active_task_def truthy_option_def split: option.split)

lemma clear_mode_moves:
  assumes "st_tasks s' = st_tasks (clear_execution_mode s)" shows "plans_move fresh h s s'"
proof (cases "active_task s")
  case (Some t)
  then have "st_tasks s' = obj_set (tk_taskId t) (t\<lparr>tk_executionMode := None\<rparr>) (st_tasks s)"
    using assms by (simp add: clear_execution_mode_def getActiveTask_active)
  with Some show ?thesis by (rule plans_move_active) simp_all
qed (use assms in \<open>simp add: clear_execution_mode_def getActiveTask_active plans_move_same\<close>)

lemma authorization_moves: "plans_move fresh h s (reduceAuthorizationState h s e)"
  using tasks_standing.view_authorization_mode [of h s e] plans_move_same clear_mode_moves by blast

lemma active_lookup: "tasks_keyed s \<Longrightarrow> map_of (st_tasks s) k = Some t \<Longrightarrow> tk_taskId t = k"
  by (simp add: tasks_keyed_def)

lemma run_completed_moves:
  assumes "run_completed h s p = Inr s'" shows "plans_move fresh h s s'"
proof (rule plans_move_if_keyed)
  assume keyed: "tasks_keyed s"
  show "plans_move fresh h s s'"
    using assms active_lookup [OF keyed]
    by (auto simp: run_completed_def res_simps split: option.splits intro!: plans_move_put)
qed

lemma completion_moves: "reduceCompletionState h s e = Inr s' \<Longrightarrow> plans_move fresh h s s'"
  unfolding reduceCompletionState_def
  by (elim either_branch) (auto intro: run_completed_moves plans_move_same split: option.splits)

lemma work_moves: "plans_move fresh h s (reduceWorkState s e)"
proof -
  have "plans_move fresh h s (side_effect_started s p)" for p
    by (auto simp: side_effect_started_def intro!: plans_move_update split: option.split)
  moreover have "st_tasks (activation_started s p) = st_tasks s" "st_tasks (frame_closed s p) = st_tasks s" for p
    by (auto simp: activation_started_def frame_closed_def Let_def split: option.split)
  ultimately show ?thesis by (simp add: reduceWorkState_def plans_move_same split: option.split)
qed

lemma opened_moves: "plans_move fresh h s (review_opened s p)"
  by (auto simp: review_opened_def split: option.split intro!: plans_move_found plan_step.review)

lemma reviewed_task_found:
  "reviewed_task s p = Some (t, d) \<Longrightarrow> active_task s = Some t \<and> (\<exists>i c. tk_planning t = AwaitingReview d i c)"
  by (auto simp: reviewed_task_def split: option.splits if_splits planning_state.splits)

lemma late_approval_moves: "plans_move fresh h s (Kite_Interaction.review_approved s p)"
  by (auto simp: Kite_Interaction.review_approved_def split: option.split prod.split
      intro!: plans_move_active plan_step.approve dest!: reviewed_task_found mode_names)

lemma late_return_moves: "plans_move fresh h s (review_sent_back s e)"
  by (auto simp: review_sent_back_def split: option.split prod.split
      intro!: plans_move_active plan_step.send_back dest!: reviewed_task_found)

lemma interaction_moves: "plans_move fresh h s (reduceInteractionState s e)"
  by (simp add: reduceInteractionState_def Let_def opened_moves late_approval_moves late_return_moves plans_move_same)

lemma allocate_moves: "plans_move (set_option (truthy_option (fa_allocatedTaskId facts))) h s (allocate_task s facts g)"
  by (auto simp: allocate_task_def intro!: plans_move_put split: option.split)

lemma plans_move_keeps:
  assumes "plans_move fresh h s s'"
    and "\<And>k t''. tasks_keyed s' \<Longrightarrow> map_of (st_tasks s'') k = Some t'' \<Longrightarrow>
      \<exists>t'. map_of (st_tasks s') k = Some t' \<and> tk_taskId t'' = tk_taskId t' \<and> tk_planning t'' = tk_planning t'"
  shows "plans_move fresh h s s''"
  unfolding plans_move_def
proof (intro impI allI)
  fix k t'' assume "tasks_keyed s" "map_of (st_tasks s'') k = Some t''"
  then obtain t' where "map_of (st_tasks s') k = Some t'" "tk_taskId t'' = tk_taskId t'" "tk_planning t'' = tk_planning t'"
    using assms plans_move_keyed by blast
  then show "tk_taskId t'' = k \<and> plan_from fresh h s k (tk_planning t'')"
    using assms(1) \<open>tasks_keyed s\<close> unfolding plans_move_def by metis
qed

lemma set_goal_keeps:
  assumes "tasks_keyed s" "map_of (st_tasks (set_goal s g)) k = Some t'"
  shows "\<exists>t. map_of (st_tasks s) k = Some t \<and> tk_taskId t' = tk_taskId t \<and> tk_planning t' = tk_planning t"
proof (cases "active_task s")
  case (Some t)
  then show ?thesis using assms active_task_found [OF Some assms(1)] by (auto simp: set_goal_def split: if_splits)
qed (use assms in \<open>simp add: set_goal_def\<close>)

lemma appended_moves:
  "plans_move (set_option (truthy_option (fa_allocatedTaskId facts))) h s (message_appended facts s p)"
proof -
  have "plans_move (set_option (truthy_option (fa_allocatedTaskId facts))) h s (set_goal (allocate_task s facts g) g)" for g
    by (rule plans_move_keeps [OF allocate_moves]) (rule set_goal_keeps)
  moreover have "st_tasks (message_appended facts s p) = st_tasks s \<or>
      (\<exists>g. st_tasks (message_appended facts s p) = st_tasks (set_goal (allocate_task s facts g) g))"
    by (auto simp: message_appended_def Let_def add_message_def split: option.split)
  ultimately show ?thesis using plans_move_tasks plans_move_same by metis
qed

lemma context_moves:
  "ev_type e \<noteq> ''task.started'' \<Longrightarrow> plans_move (started_tasks e facts) h s (reduceContextState facts s e)"
  by (simp add: reduceContextState_def started_tasks_def Let_def appended_moves plans_move_same)

lemma start_handlers:
  "list_all (\<lambda>owner. owner = ''core/lifecycle'' \<or> \<not> handles owner ''task.started'') REDUCER_OWNERS"
  by code_simp

lemma start_moves:
  assumes "run_reducers FIXED_AGENT_STATE_REDUCERS h facts e s = Inr s'" "ev_type e = ''task.started''"
  shows "plans_move (started_tasks e facts) h s s'"
proof -
  have "(''core/lifecycle'', \<lambda>h facts s e. Inr (reduceLifecycleState h s e)) \<in> set named_reducers"
    by (simp add: named_reducers_eq)
  then have "run_reducers FIXED_AGENT_STATE_REDUCERS h facts e s = Inr (reduceLifecycleState h s e)"
    using start_handlers assms(2) by (intro one_handles) (auto simp: list_all_iff)
  then show ?thesis using assms started_moves [of "ev_data e" h s] by (simp add: reduceLifecycleState_def started_tasks_def)
qed

lemma started_tasks_normalized: "started_tasks (normalizeTerminalAgentEvent e) facts = started_tasks e facts"
proof (cases "ev_type e \<in> {''run.completed'', ''run.error''}")
  case False
  then have "normalizeTerminalAgentEvent e = e" by (simp add: normalizeTerminalAgentEvent_def Let_def)
  then show ?thesis by simp
qed (auto simp: started_tasks_def)

lemma kernel_moves:
  assumes "tasks_keyed s" "plans_valid h s" "reduceAgentState h s e facts = Inr s'"
  shows "plans_move (started_tasks e facts) h s s'"
proof (cases "ev_type (normalizeTerminalAgentEvent e) = ''task.started''")
  case True
  then show ?thesis
    using start_moves [OF reduceAgentState_run [OF assms(3)]] by (simp only: started_tasks_normalized)
next
  case False
  from reduceAgentState_run [OF assms(3)] show ?thesis
  proof (cases rule: reducers_chain)
    case (1 s1 s2 s3 s4 s5 s6 s7 s8 s9 s10)
    have "plans_move {} h s s1" using 1(1) lifecycle_moves [OF assms(2) False] by simp
    moreover have "plans_move {} h s1 s2" using 1(2) authorization_moves by simp
    moreover have "plans_move {} h s2 s5"
      using tasks.view_recovery [OF 1(3)] tasks.view_intent [OF 1(4)] tasks_lease.view_lease [OF 1(5)]
      by (intro plans_move_same) simp
    moreover have "plans_move {} h s5 s6" by (rule completion_moves [OF 1(6)])
    moreover have "plans_move {} h s6 s7" "plans_move {} h s7 s8"
      using 1(7,8) work_moves interaction_moves by simp_all
    moreover have "plans_move {} h s8 s9" unfolding 1(9) by (intro plans_move_same tasks_capability.view_capability)
    moreover have "plans_move (started_tasks e facts) h s9 s'"
      using context_moves [OF False, of facts h s9, unfolded started_tasks_normalized] plans_move_tasks [OF tasks_verdict.view_verification_state [OF 1(11)]]
      by (simp add: 1(10))
    ultimately show ?thesis by (meson plans_move_trans)
  qed
qed

section \<open>Reachable states\<close>

lemma committed_tasks [simp]: "st_tasks (committed s r i) = st_tasks r"
  by (simp add: committed_def)

lemma reachable_plans:
  "kernel_reachable h s \<Longrightarrow> tasks_keyed s \<and> plans_valid h s"
proof (induction rule: kernel_reachable.induct)
  case (created i s)
  then have "st_tasks s = []" by (auto simp: createInitialAgentState_def split: if_splits)
  then show ?case by (simp add: tasks_keyed_def plans_valid_def)
next
  case (applied s e facts r eventId)
  then have "plans_move (started_tasks e facts) h s r" using kernel_moves by blast
  then have "tasks_keyed r" "plans_valid h r" using applied plans_move_keyed plans_move_valid by blast+
  then show ?case by (simp add: tasks_keyed_def plans_valid_def)
qed

definition start_event :: kernel_event where
  "start_event = \<lparr>ev_type = ''task.started'', ev_data = [(''taskId'', JStr ''t''), (''turnId'', JStr ''u''),
     (''userGoal'', JStr ''goal'')]\<rparr>"

definition enter_event :: kernel_event where
  "enter_event = \<lparr>ev_type = ''planning.entered'', ev_data = [(''taskId'', JStr ''t''), (''turnId'', JStr ''u''),
     (''source'', JStr ''user'')]\<rparr>"

lemma enter_handlers:
  "list_all (\<lambda>owner. owner = ''core/lifecycle'' \<or> \<not> handles owner ''planning.entered'') REDUCER_OWNERS"
  by code_simp

lemma lifecycle_event_reduces:
  assumes "assertCurrentRuntimeEvent h e = ok" "ev_type e \<in> {''task.started'', ''planning.entered''}"
  shows "reduceAgentState h s e facts = Inr (reduceLifecycleState h s e)"
proof -
  have "(''core/lifecycle'', \<lambda>h facts s e. Inr (reduceLifecycleState h s e)) \<in> set named_reducers"
    by (simp add: named_reducers_eq)
  then show ?thesis
    using assms start_handlers enter_handlers by (intro sole_owner_reduces) (auto simp: TOOL_TERMINAL_EVENTS_def)
qed

lemma sample_events_current:
  "assertCurrentRuntimeEvent sample_host start_event = ok" "assertCurrentRuntimeEvent sample_host enter_event = ok"
  by code_simp+

definition started_state :: agent_state where
  "started_state = committed fresh_state (reduceLifecycleState sample_host fresh_state start_event) ''e''"

lemma started_state_reachable: "kernel_reachable sample_host started_state"
  unfolding started_state_def
  by (rule kernel_reachable.applied [OF kernel_reachable.created [OF fresh_state_created] lifecycle_event_reduces
        [OF sample_events_current(1)]]) (simp add: start_event_def)

text \<open>
  A task identifier that is used again loses its plan: \<open>task.started\<close> does not ask whether the
  task exists, so it replaces even an executing or completed plan by none.
\<close>

lemma restart_drops_plan:
  assumes "map_of (st_tasks s) ''t'' = Some t" "tk_planning t = PlanCompleted d u"
  shows "\<exists>t'. map_of (st_tasks (reduceLifecycleState h s start_event)) ''t'' = Some t' \<and>
    tk_planning t' = BuildingWithoutPlan"
  by (simp add: reduceLifecycleState_def start_event_def task_started_def nonEmptyStringField_def stringField_def fld_def)



end
