(* ===== verification/Kite_Verification_Inv.thy ===== *)
theory Kite_Verification_Inv
  imports Kite_Kernel_Inv
begin

text \<open>
  Verification records under the composed kernel: they move along a status machine, keep their
  subject, and count as verified only on three grounds.
\<close>

section \<open>The status of a record\<close>

text \<open>The status the record carries as text, and the record read off its facts.\<close>

definition known_status :: "jobj \<Rightarrow> verification_status \<Rightarrow> bool" where
  "known_status o' x \<longleftrightarrow> (\<exists>st. fld o' ''status'' = JStr st \<and> map_of VERIFICATION_STATUSES st = Some x)"

definition record_good :: "string \<Rightarrow> verification_record \<Rightarrow> bool" where
  "record_good i r \<longleftrightarrow> r = record_of i (vr_facts r) \<and> known_status (vr_facts r) (vr_status r)"

definition verdicts_ok :: "agent_state \<Rightarrow> bool" where
  "verdicts_ok s \<longleftrightarrow> (\<forall>i r. map_of (st_verification s) i = Some r \<longrightarrow> record_good i r)"

lemma known_status_of: "known_status o' x \<Longrightarrow> map_of VERIFICATION_STATUSES (status_of o') = Some x"
  by (auto simp: known_status_def status_of_def stringField_def as_string_def or_default_def)

lemma known_status_read: "known_status o' x \<Longrightarrow> read_status (fld o' ''status'') = x"
  by (auto simp: known_status_def read_status_def or_default_def)

lemma record_of_good: "known_status o' x \<Longrightarrow> record_good i (record_of i o')"
  by (simp add: record_good_def record_of_def known_status_read)

lemma vr_status_record_of: "known_status o' x \<Longrightarrow> vr_status (record_of i o') = x"
  by (simp add: record_of_def known_status_read)

section \<open>The machine\<close>

inductive verdict_step :: "verification_status \<Rightarrow> verification_status \<Rightarrow> bool" where
  start: "st \<in> {VPending, VRunning, VRepairPending} \<Longrightarrow> verdict_step st VRunning"
| finish: "st' \<in> {VPassed, VFailed, VInconclusive, VBudgetExhausted} \<Longrightarrow> verdict_step VRunning st'"
| repair: "\<not> verified st \<Longrightarrow> verdict_step st VRepairPending"
| waive: "st \<noteq> VPassed \<Longrightarrow> verdict_step st VWaived"
| compensate: "st \<in> {VFailed, VInconclusive, VBudgetExhausted} \<Longrightarrow> verdict_step st VCompensating"
| compensated: "verdict_step VCompensating VCompensated"

lemma verified_final: "verdict_step st st' \<Longrightarrow> verified st \<Longrightarrow> verified st'"
  by (induction rule: verdict_step.induct) (auto simp: verified_def)

definition same_subject :: "verification_record \<Rightarrow> verification_record \<Rightarrow> bool" where
  "same_subject r r' \<longleftrightarrow> vr_verificationId r' = vr_verificationId r \<and> vr_taskId r' = vr_taskId r \<and>
     vr_mode r' = vr_mode r \<and> vr_spec r' = vr_spec r \<and> vr_requestedAt r' = vr_requestedAt r"

text \<open>How a record may become verified: by a passed run, or by a waiver the user gives a reason for.\<close>

definition verdict_grounds :: "kernel_event \<Rightarrow> verification_record \<Rightarrow> verification_record \<Rightarrow> bool" where
  "verdict_grounds e r r' \<longleftrightarrow>
     ev_type e = ''verification.completed'' \<and> stringField (ev_data e) ''outcome'' = Some ''passed'' \<and>
       vr_status r = VRunning \<and> vr_status r' = VPassed \<or>
     ev_type e = ''verification.waived'' \<and> stringField (ev_data e) ''actor'' = Some ''user'' \<and>
       nonEmptyStringField (ev_data e) ''reason'' \<noteq> None \<and> vr_status r' = VWaived"

definition verdict_move :: "kernel_event \<Rightarrow> verification_record \<Rightarrow> verification_record \<Rightarrow> bool" where
  "verdict_move e r r' \<longleftrightarrow> same_subject r r' \<and>
     (vr_status r' = vr_status r \<or> verdict_step (vr_status r) (vr_status r')) \<and>
     (verified (vr_status r') \<longrightarrow> verified (vr_status r) \<or> verdict_grounds e r r')"

lemma verdict_move_refl: "verdict_move e r r"
  by (simp add: verdict_move_def same_subject_def)

section \<open>The operations\<close>

definition subject_kept :: "jobj \<Rightarrow> jobj \<Rightarrow> bool" where
  "subject_kept o' o'' \<longleftrightarrow> (\<forall>f \<in> {''taskId'', ''mode'', ''spec'', ''requestedAt''}. fld o'' f = fld o' f)"

lemma subject_kept_records: "subject_kept o' o'' \<Longrightarrow> same_subject (record_of i o') (record_of i o'')"
  by (simp add: same_subject_def record_of_def subject_kept_def stringField_def sub_record_def recordField_def)

lemma subject_kept_record:
  "record_good i r \<Longrightarrow> subject_kept (vr_facts r) o' \<Longrightarrow> same_subject r (record_of i o')"
  unfolding record_good_def by (metis subject_kept_records)

lemma known_status_set [simp]:
  "known_status (obj_set ''status'' (JStr st) o') x \<longleftrightarrow> map_of VERIFICATION_STATUSES st = Some x"
  "f \<noteq> ''status'' \<Longrightarrow> known_status (obj_set f v o') x = known_status o' x"
  by (simp_all add: known_status_def)

lemma started_step:
  assumes "verification_started o' p = Some o''" "known_status o' x"
  shows "subject_kept o' o'' \<and> known_status o'' VRunning \<and> x \<in> {VPending, VRunning, VRepairPending}"
  using assms(1) known_status_of [OF assms(2)]
  by (auto simp: verification_started_def subject_kept_def VERIFICATION_STATUSES_def split: if_splits)

lemma checked_step:
  assumes "check_completed o' p = Some o''" "known_status o' x"
  shows "subject_kept o' o'' \<and> known_status o'' x"
  using assms by (auto simp: check_completed_def subject_kept_def split: if_splits option.splits)

lemma completed_step:
  assumes "verification_completed o' p = Some o''" "known_status o' x"
  shows "subject_kept o' o'' \<and> x = VRunning \<and>
    (\<exists>y \<in> {VPassed, VFailed, VInconclusive, VBudgetExhausted}. known_status o'' y \<and>
       (y = VPassed \<longrightarrow> stringField p ''outcome'' = Some ''passed''))"
  using assms(1) known_status_of [OF assms(2)]
  by (auto simp: verification_completed_def completed_status_def subject_kept_def VERIFICATION_STATUSES_def
      split: if_splits option.splits)

lemma repaired_step:
  assumes "repair_requested o' p = Some (o'', t)" "known_status o' x"
  shows "subject_kept o' o'' \<and> known_status o'' VRepairPending \<and> \<not> verified x"
  using assms(1) known_status_of [OF assms(2)]
  by (auto simp: repair_requested_def subject_kept_def VERIFICATION_STATUSES_def verified_def
      split: if_splits option.splits)

lemma replanned_step:
  assumes "verification_replan o' p = Some (o'', t)" "known_status o' x"
  shows "subject_kept o' o'' \<and> known_status o'' VRepairPending \<and> \<not> verified x"
  using assms(1) known_status_of [OF assms(2)]
  by (auto simp: verification_replan_def subject_kept_def VERIFICATION_STATUSES_def verified_def
      split: if_splits option.splits)

lemma waived_step:
  assumes "verification_waived o' p = Some o''" "known_status o' x"
  shows "subject_kept o' o'' \<and> known_status o'' VWaived \<and> x \<noteq> VPassed \<and>
    stringField p ''actor'' = Some ''user'' \<and> nonEmptyStringField p ''reason'' \<noteq> None"
  using assms(1) known_status_of [OF assms(2)]
  by (auto simp: verification_waived_def subject_kept_def VERIFICATION_STATUSES_def split: if_splits option.splits)

lemma compensating_step:
  assumes "compensation_requested o' = Some o''" "known_status o' x"
  shows "subject_kept o' o'' \<and> known_status o'' VCompensating \<and> x \<in> {VFailed, VInconclusive, VBudgetExhausted}"
  using assms(1) known_status_of [OF assms(2)]
  by (auto simp: compensation_requested_def subject_kept_def VERIFICATION_STATUSES_def split: if_splits option.splits)

lemma compensated_step:
  assumes "compensation_completed o' p = Some o''" "known_status o' x"
  shows "subject_kept o' o'' \<and> known_status o'' VCompensated \<and> x = VCompensating"
  using assms(1) known_status_of [OF assms(2)]
  by (auto simp: compensation_completed_def subject_kept_def VERIFICATION_STATUSES_def split: if_splits option.splits)

section \<open>The reducer\<close>

definition verdict_opened :: "kernel_event \<Rightarrow> verification_record \<Rightarrow> bool" where
  "verdict_opened e r' \<longleftrightarrow> ev_type e = ''verification.requested'' \<and>
     (verified (vr_status r') \<longrightarrow> vr_mode r' = NotRequired \<and> vr_status r' = VPassed)"

definition verdicts_move :: "kernel_event \<Rightarrow> agent_state \<Rightarrow> agent_state \<Rightarrow> bool" where
  "verdicts_move e s s' \<longleftrightarrow> verdicts_ok s' \<and>
     (\<forall>i r'. map_of (st_verification s') i = Some r' \<longrightarrow>
        (case map_of (st_verification s) i of None \<Rightarrow> verdict_opened e r' | Some r \<Rightarrow> verdict_move e r r'))"

lemma verdicts_move_same: "verdicts_ok s \<Longrightarrow> st_verification s' = st_verification s \<Longrightarrow> verdicts_move e s s'"
  by (simp add: verdicts_move_def verdicts_ok_def verdict_move_refl split: option.split)

lemma verdicts_move_put:
  assumes "verdicts_ok s" "st_verification s' = obj_set i r' (st_verification s)" "record_good i r'"
    "case map_of (st_verification s) i of None \<Rightarrow> verdict_opened e r' | Some r \<Rightarrow> verdict_move e r r'"
  shows "verdicts_move e s s'"
  using assms by (auto simp: verdicts_move_def verdicts_ok_def verdict_move_refl split: option.splits if_splits)

lemma verdicts_move_change:
  assumes "verdicts_ok s" "map_of (st_verification s) i = Some r" "subject_kept (vr_facts r) o'" "known_status o' y"
    and "y = vr_status r \<or> verdict_step (vr_status r) y"
    and "verified y \<Longrightarrow> verified (vr_status r) \<or> verdict_grounds e r (record_of i o')"
    and "st_verification s' = st_verification (withRecord s i o')"
  shows "verdicts_move e s s'"
proof (rule verdicts_move_put [OF assms(1)])
  show "st_verification s' = obj_set i (record_of i o') (st_verification s)" by (simp add: assms(7) withRecord_def)
  show "record_good i (record_of i o')" by (rule record_of_good [OF assms(4)])
  have "same_subject r (record_of i o')"
    using assms(1-3) subject_kept_record by (auto simp: verdicts_ok_def)
  then show "case map_of (st_verification s) i of None \<Rightarrow> verdict_opened e (record_of i o')
      | Some r \<Rightarrow> verdict_move e r (record_of i o')"
    using assms(5,6) by (simp add: assms(2) verdict_move_def vr_status_record_of [OF assms(4)])
qed

lemma requested_moves_verdicts:
  assumes "verdicts_ok s" "ev_type e = ''verification.requested''"
    "verification_requested h facts s i payload = Inr s'"
  shows "verdicts_move e s s'"
proof (cases "s' = s")
  case False
  then obtain ds where none: "map_of (st_verification s) i = None"
    and s': "s' = withRecord s i (requested_record i (nonEmptyStringField payload ''taskId'') payload ds)"
    using assms(3) by (auto simp: verification_requested_def Let_def res_simps split: if_splits)
  let ?o = "requested_record i (nonEmptyStringField payload ''taskId'') payload ds"
  have mode: "fld ?o ''mode'' = fld payload ''mode''"
    and status: "fld ?o ''status'' = JStr (if fld payload ''mode'' = JStr ''not_required'' then ''passed''
         else if ds \<noteq> [] then ''budget_exhausted'' else ''pending'')"
    by (simp_all add: requested_record_def split: option.split)
  then have known: "known_status ?o (if fld payload ''mode'' = JStr ''not_required'' then VPassed
      else if ds \<noteq> [] then VBudgetExhausted else VPending)"
    by (simp add: known_status_def VERIFICATION_STATUSES_def)
  have "verdict_opened e (record_of i ?o)"
    using assms(2) vr_status_record_of [OF known, of i] mode
    by (auto simp: verdict_opened_def verified_def record_of_def read_mode_def)
  then show ?thesis
    using none by (intro verdicts_move_put [OF assms(1)]) (auto simp: s' withRecord_def intro: record_of_good [OF known])
qed (use assms(1) in \<open>simp add: verdicts_move_same\<close>)

lemma instruct_verification:
  "st_verification (instruct s i c) = st_verification (case c of None \<Rightarrow> s | Some (o', t) \<Rightarrow> withRecord s i o')"
  by (simp add: instruct_def appendInstruction_def add_message_def split: option.split prod.split)

lemma record_moves:
  assumes ok: "verdicts_ok s" and r: "map_of (st_verification s) i = Some r"
  shows
    "verdicts_move e s (change_record s i (verification_started (vr_facts r) p))"
    "verdicts_move e s (change_record s i (check_completed (vr_facts r) p))"
    "ev_type e = ''verification.completed'' \<Longrightarrow>
       verdicts_move e s (change_record s i (verification_completed (vr_facts r) (ev_data e)))"
    "verdicts_move e s (instruct s i (repair_requested (vr_facts r) p))"
    "verdicts_move e s (instruct s i (verification_replan (vr_facts r) p))"
    "ev_type e = ''verification.waived'' \<Longrightarrow>
       verdicts_move e s (change_record s i (verification_waived (vr_facts r) (ev_data e)))"
    "verdicts_move e s (change_record s i (compensation_requested (vr_facts r)))"
    "verdicts_move e s (change_record s i (compensation_completed (vr_facts r) p))"
proof -
  have k: "known_status (vr_facts r) (vr_status r)" using ok r by (auto simp: verdicts_ok_def record_good_def)
  note put = verdicts_move_change [OF ok r]
  note same = verdicts_move_same [OF ok]
  have change: "verdicts_move e s (change_record s i c)"
    if "\<And>o'. c = Some o' \<Longrightarrow> \<exists>y. subject_kept (vr_facts r) o' \<and> known_status o' y \<and>
        (y = vr_status r \<or> verdict_step (vr_status r) y) \<and>
        (verified y \<longrightarrow> verified (vr_status r) \<or> verdict_grounds e r (record_of i o'))" for c
    using that put by (cases c) (auto simp: change_record_def same)
  have order: "verdicts_move e s (instruct s i c)"
    if "\<And>o' t. c = Some (o', t) \<Longrightarrow> subject_kept (vr_facts r) o' \<and> known_status o' VRepairPending \<and>
        \<not> verified (vr_status r)" for c
  proof (cases c)
    case (Some a)
    obtain o' t where c: "c = Some (o', t)" using Some by (cases a) auto
    then show ?thesis using that [OF c] by (intro put [of o' VRepairPending])
        (auto simp: instruct_verification verified_def intro: verdict_step.repair)
  qed (simp add: instruct_def same)
  show "verdicts_move e s (change_record s i (verification_started (vr_facts r) p))"
    using started_step [OF _ k] by (intro change) (auto simp: verified_def intro!: exI [of _ VRunning] verdict_step.start)
  show "verdicts_move e s (change_record s i (check_completed (vr_facts r) p))"
    using checked_step [OF _ k] by (intro change) blast
  show "verdicts_move e s (change_record s i (compensation_requested (vr_facts r)))"
    using compensating_step [OF _ k] by (intro change) (auto simp: verified_def intro!: exI [of _ VCompensating] verdict_step.compensate)
  show "verdicts_move e s (change_record s i (compensation_completed (vr_facts r) p))"
    using compensated_step [OF _ k] by (intro change) (auto simp: verified_def intro!: exI [of _ VCompensated] verdict_step.compensated)
  show "verdicts_move e s (instruct s i (repair_requested (vr_facts r) p))"
    using repaired_step [OF _ k] by (intro order) blast
  show "verdicts_move e s (instruct s i (verification_replan (vr_facts r) p))"
    using replanned_step [OF _ k] by (intro order) blast
  show "verdicts_move e s (change_record s i (verification_waived (vr_facts r) (ev_data e)))"
    if "ev_type e = ''verification.waived''"
    using waived_step [OF _ k] that
    by (intro change) (force simp: verdict_grounds_def vr_status_record_of intro: verdict_step.waive)
  show "verdicts_move e s (change_record s i (verification_completed (vr_facts r) (ev_data e)))"
    if "ev_type e = ''verification.completed''"
    using completed_step [OF _ k] that
    by (intro change) (force simp: verdict_grounds_def vr_status_record_of verified_def intro: verdict_step.finish)
qed

lemma verification_moves:
  assumes "verdicts_ok s" "reduceVerificationState h facts s e = Inr s'"
  shows "verdicts_move e s s'"
proof (cases "nonEmptyStringField (ev_data e) ''verificationId''")
  case (Some i)
  show ?thesis
  proof (cases "ev_type e = ''verification.requested''")
    case True
    then show ?thesis using assms Some by (auto simp: reduceVerificationState_def intro: requested_moves_verdicts)
  next
    case False
    show ?thesis
    proof (cases "map_of (st_verification s) i")
      case (Some r)
      note moves = record_moves [OF assms(1) Some]
      show ?thesis using assms(2) False
        by (simp add: reduceVerificationState_def Let_def \<open>nonEmptyStringField _ _ = Some i\<close> Some)
          (metis (no_types, lifting) moves verdicts_move_same [OF assms(1) refl])
    qed (use assms False Some in \<open>simp add: reduceVerificationState_def verdicts_move_same\<close>)
  qed
qed (use assms in \<open>simp add: reduceVerificationState_def verdicts_move_same\<close>)

section \<open>The kernel\<close>

lemma verdict_event: "verdicts_move (normalizeTerminalAgentEvent e) s s' \<Longrightarrow> verdicts_move e s s'"
proof -
  let ?n = "normalizeTerminalAgentEvent e"
  have same: "?n = e" if "ev_type e \<notin> {''run.completed'', ''run.error''}"
    using that by (simp add: normalizeTerminalAgentEvent_def Let_def)
  have "verdict_grounds ?n r r' \<Longrightarrow> verdict_grounds e r r'" for r r'
    using same by (cases "ev_type e \<in> {''run.completed'', ''run.error''}") (auto simp: verdict_grounds_def)
  then have "verdict_move ?n r r' \<Longrightarrow> verdict_move e r r'" for r r' unfolding verdict_move_def by blast
  moreover have "verdict_opened ?n r' = verdict_opened e r'" for r' by (simp add: verdict_opened_def)
  ultimately have "case x of None \<Rightarrow> verdict_opened e r' | Some r \<Rightarrow> verdict_move e r r'"
    if "case x of None \<Rightarrow> verdict_opened ?n r' | Some r \<Rightarrow> verdict_move ?n r r'" for x r'
    using that by (cases x) simp_all
  then show "verdicts_move ?n s s' \<Longrightarrow> verdicts_move e s s'" unfolding verdicts_move_def by blast
qed

lemma verdicts_ok_cong: "st_verification s' = st_verification s \<Longrightarrow> verdicts_ok s' = verdicts_ok s"
  by (simp add: verdicts_ok_def)

lemma verdicts_move_cong: "st_verification t = st_verification s \<Longrightarrow> verdicts_move e t s' = verdicts_move e s s'"
  by (simp add: verdicts_move_def)

lemma kernel_verdicts:
  assumes "verdicts_ok s" "reduceAgentState h s e facts = Inr s'"
  shows "verdicts_move e s s'"
  using reduceAgentState_run [OF assms(2)]
proof (cases rule: reducers_chain)
  case (1 s1 s2 s3 s4 s5 s6 s7 s8 s9 s10)
  have "st_verification s2 = st_verification s"
    by (simp add: 1(1,2) verdicts_work.view_lifecycle verdicts.view_authorization)
  moreover have "st_verification s6 = st_verification s2"
    using verdicts_work.view_recovery [OF 1(3)] verdicts_work.view_intent [OF 1(4)] verdicts_lease.view_lease [OF 1(5)]
      verdicts_work.view_completion [OF 1(6)] by simp
  moreover have "st_verification s10 = st_verification s6"
    by (simp add: 1(7-10) verdicts_work.view_work verdicts_work.view_interaction verdicts_capability.view_capability
        verdicts_dialogue.view_context_state)
  ultimately have same: "st_verification s10 = st_verification s" by simp
  have "verdicts_ok s10" by (rule iffD2 [OF verdicts_ok_cong [OF same] assms(1)])
  then have "verdicts_move (normalizeTerminalAgentEvent e) s10 s'" by (rule verification_moves [OF _ 1(11)])
  then have "verdicts_move (normalizeTerminalAgentEvent e) s s'" by (rule iffD1 [OF verdicts_move_cong [OF same]])
  then show ?thesis by (rule verdict_event)
qed

lemma reachable_verdicts: "kernel_reachable h s \<Longrightarrow> verdicts_ok s"
proof (induction rule: kernel_reachable.induct)
  case (created i s)
  then have "st_verification s = []" by (auto simp: createInitialAgentState_def split: if_splits)
  then show ?case by (simp add: verdicts_ok_def)
next
  case (applied s e facts r eventId)
  then have "verdicts_ok r" using kernel_verdicts unfolding verdicts_move_def by blast
  moreover have "st_verification (committed s r eventId) = st_verification r" by (simp add: committed_def)
  ultimately show ?case using verdicts_ok_cong by blast
qed

text \<open>
  C9: a verification counts only when it was earned. Under the composed kernel a new record stems
  from a request and is verified at once only if verification is not required. An existing record
  keeps its subject (task, mode, specification), moves along the status machine, and once verified
  stays verified; it becomes verified only by a run that completes with outcome passed while the record
  is running, or by a waiver that names the user as actor and gives a reason.
\<close>

theorem verification_earned:
  assumes "kernel_reachable h s" "reduceAgentState h s e facts = Inr s'" "map_of (st_verification s') i = Some r'"
  shows "(map_of (st_verification s) i = None \<longrightarrow>
      ev_type e = ''verification.requested'' \<and> (verified (vr_status r') \<longrightarrow> vr_mode r' = NotRequired)) \<and>
    (\<forall>r. map_of (st_verification s) i = Some r \<longrightarrow>
      same_subject r r' \<and> (vr_status r' = vr_status r \<or> verdict_step (vr_status r) (vr_status r')) \<and>
      (verified (vr_status r) \<longrightarrow> verified (vr_status r')) \<and>
      (verified (vr_status r') \<longrightarrow> verified (vr_status r) \<or> verdict_grounds e r r'))"
proof -
  have "verdicts_move e s s'" by (rule kernel_verdicts [OF reachable_verdicts [OF assms(1)] assms(2)])
  then have "case map_of (st_verification s) i of None \<Rightarrow> verdict_opened e r' | Some r \<Rightarrow> verdict_move e r r'"
    using assms(3) unfolding verdicts_move_def by blast
  then show ?thesis using verified_final
    by (auto simp: verdict_opened_def verdict_move_def split: option.splits)
qed

definition request_event :: kernel_event where
  "request_event = \<lparr>ev_type = ''verification.requested'', ev_data = [(''verificationId'', JStr ''v''),
     (''mode'', JStr ''required''), (''requestedAt'', JStr ''2025-01-01T00:00:00.000Z''),
     (''spec'', JObj [(''schemaVersion'', JNum 1), (''verificationId'', JStr ''v''),
        (''subject'', JObj [(''kind'', JStr ''task'')]),
        (''repair'', JObj [(''maxAttempts'', JNum 1)]),
        (''checks'', JArr [JObj [(''checkId'', JStr ''c''), (''type'', JStr ''command''), (''command'', JStr ''make'')]])])]\<rparr>"

definition waive_event :: kernel_event where
  "waive_event = \<lparr>ev_type = ''verification.waived'', ev_data = [(''verificationId'', JStr ''v''),
     (''actor'', JStr ''user''), (''reason'', JStr ''checked by hand''), (''waivedAt'', JStr ''2025-01-01T00:00:00.000Z'')]\<rparr>"

lemma verification_event_reduces:
  assumes "assertCurrentRuntimeEvent h e = ok" "ev_type e \<in> {''verification.requested'', ''verification.waived''}"
  shows "reduceAgentState h s e facts = reduceVerificationState h facts s e"
proof -
  have "list_all (\<lambda>ty. list_all (\<lambda>other. other = ''domains/verification'' \<or> \<not> handles other ty) REDUCER_OWNERS)
      [''verification.requested'', ''verification.waived'']" by code_simp
  then have "list_all (\<lambda>other. other = ''domains/verification'' \<or> \<not> handles other (ev_type e)) REDUCER_OWNERS"
    using assms(2) by auto
  moreover have "(''domains/verification'', \<lambda>h facts s e. reduceVerificationState h facts s e) \<in> set named_reducers"
    by (simp add: named_reducers_eq)
  ultimately show ?thesis
    using assms by (intro sole_owner_reduces) (auto simp: TOOL_TERMINAL_EVENTS_def)
qed

lemma verification_events_current:
  "assertCurrentRuntimeEvent sample_host request_event = ok" "assertCurrentRuntimeEvent sample_host waive_event = ok"
  by code_simp+

definition requested_state :: agent_state where
  "requested_state = (case reduceVerificationState sample_host no_reducer_facts fresh_state request_event of
     Inr s \<Rightarrow> committed fresh_state s ''e'' | Inl m \<Rightarrow> fresh_state)"

lemma requested_state_reachable: "kernel_reachable sample_host requested_state"
proof (cases "reduceVerificationState sample_host no_reducer_facts fresh_state request_event")
  case (Inr s)
  have "reduceAgentState sample_host fresh_state request_event no_reducer_facts = Inr s"
    using verification_event_reduces [OF verification_events_current(1)] Inr by (simp add: request_event_def)
  then show ?thesis
    by (simp add: requested_state_def Inr kernel_reachable.applied [OF kernel_reachable.created [OF fresh_state_created]])
qed (simp add: requested_state_def kernel_reachable.created [OF fresh_state_created])

theorem verification_earned_witness:
  "\<exists>s' r r'. reduceAgentState sample_host requested_state waive_event no_reducer_facts = Inr s' \<and>
     map_of (st_verification requested_state) ''v'' = Some r \<and> vr_status r = VPending \<and>
     map_of (st_verification s') ''v'' = Some r' \<and> vr_status r' = VWaived \<and> same_subject r r' \<and>
     verdict_grounds waive_event r r'"
proof -
  have reduced: "reduceAgentState sample_host requested_state waive_event no_reducer_facts =
      reduceVerificationState sample_host no_reducer_facts requested_state waive_event"
    by (rule verification_event_reduces [OF verification_events_current(2)]) (simp add: waive_event_def)
  have "map_option vr_status (map_of (st_verification requested_state) ''v'') = Some VPending" by code_simp
  then obtain r where r: "map_of (st_verification requested_state) ''v'' = Some r" "vr_status r = VPending" by auto
  have "(case reduceVerificationState sample_host no_reducer_facts requested_state waive_event of
      Inl m \<Rightarrow> None | Inr s \<Rightarrow> map_option vr_status (map_of (st_verification s) ''v'')) = Some VWaived" by code_simp
  then obtain s' r' where s': "reduceAgentState sample_host requested_state waive_event no_reducer_facts = Inr s'"
    "map_of (st_verification s') ''v'' = Some r'" "vr_status r' = VWaived"
    by (auto simp: reduced split: sum.splits)
  from verification_earned [OF requested_state_reachable s'(1,2)] show ?thesis
    using r s' by (auto simp: verified_def)
qed

end
