(* ===== verification/Kite_Model_Inv.thy ===== *)
theory Kite_Model_Inv
  imports Kite_Kernel_Inv
begin

text \<open>
  Model invocations and the compacted context under the composed kernel: invocations move along a
  machine of bounded attempts and keep what they were prepared with, and the context changes its
  checkpoint only by completing the compaction that is pending.
\<close>

lemma spread_simps [simp]:
  "spread o' [] = o'"
  "spread o' ((f, v) # changes) = spread (obj_set f v o') changes"
  by (simp_all add: spread_def)

lemma spread_append [simp]: "spread o' (xs @ ys) = spread (spread o' xs) ys"
  by (simp add: spread_def)

section \<open>Model invocations\<close>

definition model_attempts :: "model_invocation \<Rightarrow> int" where
  "model_attempts m = int_of (fld (mi_facts m) ''attempts'')"

definition model_limit :: "model_invocation \<Rightarrow> int" where
  "model_limit m = int_of (vfld (fld (mi_facts m) ''limits'') ''maxAttempts'')"

text \<open>Attempts are counted up to the limit; an invocation that was dispatched has used one.\<close>

definition facts_good :: "jobj \<Rightarrow> string \<Rightarrow> int \<Rightarrow> int \<Rightarrow> bool" where
  "facts_good o' st a limit \<longleftrightarrow>
     fld o' ''status'' = JStr st \<and> fld o' ''attempts'' = jint a \<and> vfld (fld o' ''limits'') ''maxAttempts'' = jint limit \<and>
     st \<in> {''prepared'', ''dispatching'', ''completed'', ''interrupted''} \<and> 0 \<le> a \<and> a \<le> limit \<and>
     (st = ''prepared'' \<longrightarrow> a = 0) \<and> (st \<in> {''dispatching'', ''completed''} \<longrightarrow> 1 \<le> a)"

definition model_good :: "string \<Rightarrow> model_invocation \<Rightarrow> bool" where
  "model_good i m \<longleftrightarrow> m = model_of i (mi_facts m) \<and>
     facts_good (mi_facts m) (mi_status m) (model_attempts m) (model_limit m)"

definition models_ok :: "agent_state \<Rightarrow> bool" where
  "models_ok s \<longleftrightarrow> (\<forall>i m. map_of (st_modelInvocations s) i = Some m \<longrightarrow> model_good i m)"

inductive model_step :: "string \<times> int \<Rightarrow> string \<times> int \<Rightarrow> bool" where
  dispatch: "st \<in> {''prepared'', ''dispatching''} \<Longrightarrow> model_step (st, a) (''dispatching'', a + 1)"
| complete: "model_step (''dispatching'', a) (''completed'', a)"
| interrupt: "st \<in> {''prepared'', ''dispatching''} \<Longrightarrow> model_step (st, a) (''interrupted'', a)"

inductive_cases from_completed_model: "model_step (''completed'', a) x"
inductive_cases from_interrupted_model: "model_step (''interrupted'', a) x"

definition PREPARED_FIELDS :: "string list" where
  "PREPARED_FIELDS = [''invocationId'', ''purpose'', ''surfaceArtifact'', ''surfaceIntegrityIdentifier'',
     ''routeFingerprint'', ''budget'', ''limits'', ''preparedStateRevision'', ''parentInvocationId'', ''parentToolCallId'']"

definition model_move :: "model_invocation \<Rightarrow> model_invocation \<Rightarrow> bool" where
  "model_move m m' \<longleftrightarrow> list_all (\<lambda>f. fld (mi_facts m') f = fld (mi_facts m) f) PREPARED_FIELDS \<and>
     ((mi_status m', model_attempts m') = (mi_status m, model_attempts m) \<or>
      model_step (mi_status m, model_attempts m) (mi_status m', model_attempts m'))"

lemma model_move_refl: "model_move m m"
  by (simp add: model_move_def list_all_iff)

definition models_move :: "agent_state \<Rightarrow> agent_state \<Rightarrow> bool" where
  "models_move s s' \<longleftrightarrow> models_ok s' \<and>
     (\<forall>i m'. map_of (st_modelInvocations s') i = Some m' \<longrightarrow>
        (case map_of (st_modelInvocations s) i of None \<Rightarrow> mi_status m' = ''prepared'' | Some m \<Rightarrow> model_move m m'))"

lemma models_move_same: "models_ok s \<Longrightarrow> st_modelInvocations s' = st_modelInvocations s \<Longrightarrow> models_move s s'"
  by (simp add: models_move_def models_ok_def model_move_refl split: option.split)

lemma models_move_put:
  assumes "models_ok s" "st_modelInvocations s' = obj_set i m' (st_modelInvocations s)" "model_good i m'"
    "case map_of (st_modelInvocations s) i of None \<Rightarrow> mi_status m' = ''prepared'' | Some m \<Rightarrow> model_move m m'"
  shows "models_move s s'"
  using assms by (auto simp: models_move_def models_ok_def model_move_refl split: option.splits if_splits)

lemma facts_good_model: "facts_good o' st a limit \<Longrightarrow> model_good i (model_of i o')"
  by (auto simp: model_good_def model_of_def facts_good_def model_attempts_def model_limit_def text_of_def
      as_string_def or_default_def)

lemma model_of_fields:
  "facts_good o' st a limit \<Longrightarrow> mi_status (model_of i o') = st \<and> model_attempts (model_of i o') = a \<and>
     mi_facts (model_of i o') = o'"
  by (simp add: model_of_def facts_good_def model_attempts_def text_of_def as_string_def or_default_def)

lemma models_move_change:
  assumes "models_ok s" "map_of (st_modelInvocations s) i = Some m" "facts_good o' st a limit"
    "list_all (\<lambda>f. fld o' f = fld (mi_facts m) f) PREPARED_FIELDS"
    "(st, a) = (mi_status m, model_attempts m) \<or> model_step (mi_status m, model_attempts m) (st, a)"
  shows "models_move s (set_model s i o')"
proof (rule models_move_put [OF assms(1)])
  show "st_modelInvocations (set_model s i o') = obj_set i (model_of i o') (st_modelInvocations s)"
    by (simp add: set_model_def)
  show "model_good i (model_of i o')" by (rule facts_good_model [OF assms(3)])
  show "case map_of (st_modelInvocations s) i of None \<Rightarrow> mi_status (model_of i o') = ''prepared''
      | Some m \<Rightarrow> model_move m (model_of i o')"
    using assms(4,5) model_of_fields [OF assms(3), of i] by (simp add: assms(2) model_move_def)
qed

text \<open>The invocation an event names, with what the invariant says of it.\<close>

lemma named_model_good:
  assumes "models_ok s" "named_model s p = Some (i, o')"
  obtains m where "map_of (st_modelInvocations s) i = Some m" "mi_facts m = o'"
    "facts_good o' (mi_status m) (model_attempts m) (model_limit m)"
  using assms by (auto simp: named_model_def models_ok_def model_good_def split: option.splits)

lemma facts_good_open: "facts_good o' st a limit \<Longrightarrow> model_open o' \<longleftrightarrow> st \<in> {''prepared'', ''dispatching''}"
  by (simp add: facts_good_def model_open_def)

lemma prepared_moves: "models_ok s \<Longrightarrow> models_move s (model_prepared s p)"
proof (cases "model_prepared s p = s")
  case False
  assume ok: "models_ok s"
  obtain i purpose surface integrity route budget limits where
    f: "nonEmptyStringField p ''invocationId'' = Some i" "modelPurpose (fld p ''purpose'') = Some purpose"
      "privateArtifact (fld p ''surfaceArtifact'') ''model_surface'' = Some surface"
      "nonEmptyStringField p ''surfaceIntegrityIdentifier'' = Some integrity"
      "nonEmptyStringField p ''routeFingerprint'' = Some route"
      "modelBudget (fld p ''budget'') = Some budget" "modelLimits (fld p ''limits'') = Some limits"
    and new: "map_of (st_modelInvocations s) i = None"
    using False by (auto simp: model_prepared_def split: option.splits if_splits)
  define o' where "o' = [(''invocationId'', JStr i), (''purpose'', JStr purpose), (''status'', JStr ''prepared''),
      (''surfaceArtifact'', JObj surface), (''surfaceIntegrityIdentifier'', JStr integrity),
      (''routeFingerprint'', JStr route), (''budget'', JObj budget), (''limits'', JObj limits)] @
     copied [''preparedStateRevision'', ''parentInvocationId'', ''parentToolCallId''] p @ [(''attempts'', JNum 0)]"
  have s': "model_prepared s p = set_model s i o'"
    using False by (auto simp: model_prepared_def f o'_def split: if_splits)
  obtain limit where "fld limits ''maxAttempts'' = jint limit" "1 \<le> limit"
    using f(7) by (auto simp: modelLimits_def copied_def is_safe_integer_def int_of_def jint_def
        split: option.splits if_splits jval.splits)
  then have good: "facts_good o' ''prepared'' 0 limit"
    by (simp add: o'_def facts_good_def copied_def jint_def vfld_def)
  show "models_move s (model_prepared s p)"
    unfolding s'
    by (rule models_move_put [OF ok, where i = i and m' = "model_of i o'"])
      (use new model_of_fields [OF good] in \<open>simp_all add: set_model_def facts_good_model [OF good]\<close>)
qed (simp add: models_move_same)

lemma attempt_moves: "models_ok s \<Longrightarrow> models_move s (attempt_started s p)"
proof (cases "attempt_started s p = s")
  case False
  assume ok: "models_ok s"
  obtain i o' where n: "named_model s p = Some (i, o')"
    using False by (auto simp: attempt_started_def split: option.splits)
  obtain m where m: "map_of (st_modelInvocations s) i = Some m" "mi_facts m = o'"
    "facts_good o' (mi_status m) (model_attempts m) (model_limit m)"
    by (rule named_model_good [OF ok n])
  let ?o = "spread o' [(''status'', JStr ''dispatching''), (''attempts'', fld p ''attempt''),
      (''dispatchCertainty'', JStr ''attempted'')]"
  have guard: "model_open o'" "fld p ''maxAttempts'' = vfld (fld o' ''limits'') ''maxAttempts''"
      "fld p ''attempt'' = js_plus_one (fld o' ''attempts'')" "int_of (fld p ''attempt'') \<le> int_of (fld p ''maxAttempts'')"
    and s': "attempt_started s p = set_model s i ?o"
    using False by (auto simp: attempt_started_def n Let_def split: if_splits)
  have attempt: "fld p ''attempt'' = jint (model_attempts m + 1)"
    using guard(3) m(3) by (simp add: facts_good_def js_plus_one_def jint_def)
  have good: "facts_good ?o ''dispatching'' (model_attempts m + 1) (model_limit m)"
    using m(3) guard(2,4) by (auto simp: facts_good_def attempt)
  show "models_move s (attempt_started s p)"
    unfolding s' using facts_good_open [OF m(3)] guard(1)
    by (intro models_move_change [OF ok m(1) good]) (auto simp: m(2) PREPARED_FIELDS_def intro: model_step.dispatch)
qed (simp add: models_move_same)

lemma completed_moves_model: "models_ok s \<Longrightarrow> models_move s (model_completed s p)"
proof (cases "model_completed s p = s")
  case False
  assume ok: "models_ok s"
  obtain i o' response reason where
    f: "named_model s p = Some (i, o')" "privateArtifact (fld p ''responseArtifact'') ''model_response'' = Some response"
      "modelFinishReason (fld p ''finishReason'') = Some reason"
    using False by (auto simp: model_completed_def split: option.splits)
  obtain m where m: "map_of (st_modelInvocations s) i = Some m" "mi_facts m = o'"
    "facts_good o' (mi_status m) (model_attempts m) (model_limit m)"
    by (rule named_model_good [OF ok f(1)])
  let ?o = "spread o' [(''status'', JStr ''completed''), (''responseArtifact'', JObj response),
      (''finishReason'', JStr reason)]"
  have st: "fld o' ''status'' = JStr ''dispatching''" and s': "model_completed s p = set_model s i ?o"
    using False by (auto simp: model_completed_def f split: if_splits)
  have d: "mi_status m = ''dispatching''" using m(3) st by (simp add: facts_good_def)
  have good: "facts_good ?o ''completed'' (model_attempts m) (model_limit m)"
    using m(3) by (auto simp: facts_good_def d)
  show "models_move s (model_completed s p)"
    unfolding s' by (intro models_move_change [OF ok m(1) good]) (auto simp: d m(2) PREPARED_FIELDS_def intro: model_step.complete)
qed (simp add: models_move_same)

lemma interrupted_moves: "models_ok s \<Longrightarrow> models_move s (model_interrupted s p)"
proof (cases "model_interrupted s p = s")
  case False
  assume ok: "models_ok s"
  obtain i o' certainty reason where
    f: "named_model s p = Some (i, o')" "modelDispatchCertainty (fld p ''dispatchCertainty'') = Some certainty"
      "modelInterruptionReason (fld p ''reasonCode'') = Some reason"
    using False by (auto simp: model_interrupted_def split: option.splits)
  obtain m where m: "map_of (st_modelInvocations s) i = Some m" "mi_facts m = o'"
    "facts_good o' (mi_status m) (model_attempts m) (model_limit m)"
    by (rule named_model_good [OF ok f(1)])
  let ?o = "spread o' [(''status'', JStr ''interrupted''), (''dispatchCertainty'', JStr certainty),
      (''interruptionReason'', JStr reason)]"
  have st: "model_open o'" and s': "model_interrupted s p = set_model s i ?o"
    using False by (auto simp: model_interrupted_def f split: if_splits)
  have good: "facts_good ?o ''interrupted'' (model_attempts m) (model_limit m)"
    using m(3) by (auto simp: facts_good_def)
  show "models_move s (model_interrupted s p)"
    unfolding s' using facts_good_open [OF m(3)] st
    by (intro models_move_change [OF ok m(1) good]) (auto simp: m(2) PREPARED_FIELDS_def intro: model_step.interrupt)
qed (simp add: models_move_same)

lemma unavailable_moves: "models_ok s \<Longrightarrow> models_move s (evidence_unavailable s p)"
proof (cases "evidence_unavailable s p = s")
  case False
  assume ok: "models_ok s"
  obtain i o' reason where
    f: "named_model s p = Some (i, o')" "modelEvidenceReason (fld p ''reasonCode'') = Some reason"
    using False by (auto simp: evidence_unavailable_def split: option.splits)
  obtain m where m: "map_of (st_modelInvocations s) i = Some m" "mi_facts m = o'"
    "facts_good o' (mi_status m) (model_attempts m) (model_limit m)"
    by (rule named_model_good [OF ok f(1)])
  have s': "evidence_unavailable s p = set_model s i (spread o' [(''modelEvidenceUnavailable'', JStr reason)])"
    using False by (auto simp: evidence_unavailable_def f split: if_splits)
  have good: "facts_good (spread o' [(''modelEvidenceUnavailable'', JStr reason)]) (mi_status m) (model_attempts m) (model_limit m)"
    using m(3) by (simp add: facts_good_def)
  show "models_move s (evidence_unavailable s p)"
    unfolding s' by (intro models_move_change [OF ok m(1) good]) (auto simp: m(2) PREPARED_FIELDS_def)
qed (simp add: models_move_same)

section \<open>The compacted context\<close>

definition checkpoint_saving :: "jobj \<Rightarrow> int" where
  "checkpoint_saving c = int_of (fld c ''inputTokensBefore'') - int_of (fld c ''inputTokensAfter'')"

text \<open>At most 128 entries of history; the active checkpoint saved at least 1024 tokens.\<close>

definition context_ok :: "agent_state \<Rightarrow> bool" where
  "context_ok s \<longleftrightarrow> length (list_of (fld (st_context s) ''history'')) \<le> 128 \<and>
     (\<forall>c. fld (st_context s) ''activeCheckpoint'' = JObj c \<longrightarrow> 1024 \<le> checkpoint_saving c)"

definition checkpoint_grounds :: "agent_state \<Rightarrow> agent_state \<Rightarrow> bool" where
  "checkpoint_grounds s s' \<longleftrightarrow>
     (\<exists>c i. fld (st_context s') ''activeCheckpoint'' = JObj c \<and> fld c ''compactionId'' = JStr i \<and> is_pending s i \<and>
        pending_compaction s' = None) \<or>
     fld (st_context s') ''activeCheckpoint'' = JUndef"

definition context_move :: "agent_state \<Rightarrow> agent_state \<Rightarrow> bool" where
  "context_move s s' \<longleftrightarrow> context_ok s' \<and>
     (fld (st_context s') ''activeCheckpoint'' = fld (st_context s) ''activeCheckpoint'' \<or> checkpoint_grounds s s') \<and>
     (\<forall>p p'. pending_compaction s = Some p \<longrightarrow> pending_compaction s' = Some p' \<longrightarrow>
        fld p' ''compactionId'' = fld p ''compactionId'')"

lemma context_move_same: "context_ok s \<Longrightarrow> st_context s' = st_context s \<Longrightarrow> context_move s s'"
  by (simp add: context_move_def context_ok_def pending_compaction_def)

lemma history_bounded: "length (list_of (history_with s entry)) \<le> 128"
  by (simp add: history_with_def list_of_def)

lemma parsed_checkpoint: "parseCheckpoint v = Some c \<Longrightarrow> 1024 \<le> checkpoint_saving c"
  by (auto simp: parseCheckpoint_def checkpoint_saving_def copied_def Let_def split: option.splits if_splits)

lemma set_context_fields [simp]: "st_context (set_context s cs) = spread (st_context s) cs"
  by (simp add: set_context_def)

lemma compaction_requested_moves: "context_ok s \<Longrightarrow> context_move s (compaction_requested s p)"
  by (auto simp: compaction_requested_def context_move_def context_ok_def pending_compaction_def recordField_def
      as_record_def split: option.split)

lemma compaction_completed_moves: "context_ok s \<Longrightarrow> context_move s (compaction_completed s p)"
  by (auto simp: compaction_completed_def context_move_def context_ok_def pending_compaction_def recordField_def
      as_record_def history_bounded checkpoint_grounds_def dest: parsed_checkpoint split: option.split)

lemma compaction_failed_moves: "context_ok s \<Longrightarrow> context_move s (compaction_failed s p)"
  by (auto simp: compaction_failed_def context_move_def context_ok_def pending_compaction_def recordField_def
      as_record_def history_bounded Let_def split: option.split)

lemma compaction_reset_moves: "context_ok s \<Longrightarrow> context_move s (compaction_reset s p)"
  by (auto simp: compaction_reset_def context_move_def context_ok_def pending_compaction_def recordField_def
      as_record_def history_bounded checkpoint_grounds_def split: option.split)

lemma hard_blocks_move: "context_ok s \<Longrightarrow> context_move s (hard_blocked s p) \<and> context_move s (hard_block_cleared s p)"
  by (auto simp: hard_blocked_def hard_block_cleared_def context_move_def context_ok_def pending_compaction_def
      recordField_def split: option.split)

section \<open>The kernel\<close>

lemma context_leaves_models:
  "st_modelInvocations (compaction_requested s p) = st_modelInvocations s"
  "st_modelInvocations (compaction_completed s p) = st_modelInvocations s"
  "st_modelInvocations (compaction_failed s p) = st_modelInvocations s"
  "st_modelInvocations (compaction_reset s p) = st_modelInvocations s"
  "st_modelInvocations (hard_blocked s p) = st_modelInvocations s"
  "st_modelInvocations (hard_block_cleared s p) = st_modelInvocations s"
  by (simp_all add: compaction_requested_def compaction_completed_def compaction_failed_def compaction_reset_def
      hard_blocked_def hard_block_cleared_def set_context_def Let_def split: option.split)

lemma models_leave_context:
  "st_context (model_prepared s p) = st_context s" "st_context (attempt_started s p) = st_context s"
  "st_context (model_completed s p) = st_context s" "st_context (model_interrupted s p) = st_context s"
  "st_context (evidence_unavailable s p) = st_context s"
  by (simp_all add: model_prepared_def attempt_started_def model_completed_def model_interrupted_def
      evidence_unavailable_def set_model_def Let_def split: option.split prod.split)

lemma messages_leave_fields:
  "model_fields (message_appended facts s p) = model_fields s" "model_fields (model_responded s p) = model_fields s"
  by (simp_all add: models_work.view_message_appended models_work.view_model_responded)

lemma model_fields_eq: "model_fields s' = model_fields s \<longleftrightarrow> st_context s' = st_context s \<and> st_modelInvocations s' = st_modelInvocations s"
  by (auto simp: model_fields_def)

lemma context_reducer_moves:
  "models_ok s \<Longrightarrow> models_move s (reduceContextState facts s e)"
  "context_ok s \<Longrightarrow> context_move s (reduceContextState facts s e)"
  using messages_leave_fields [unfolded model_fields_eq]
  by (simp_all add: reduceContextState_def Let_def prepared_moves attempt_moves completed_moves_model interrupted_moves
      unavailable_moves models_move_same context_leaves_models context_move_same models_leave_context
      compaction_requested_moves compaction_completed_moves compaction_failed_moves compaction_reset_moves hard_blocks_move)

lemma models_cong:
  assumes "model_fields s' = model_fields s"
  shows "models_ok s' = models_ok s" "context_ok s' = context_ok s" "models_move r s' = models_move r s"
    "context_move r s' = context_move r s" "models_move s' r = models_move s r" "context_move s' r = context_move s r"
  using assms
  by (simp_all add: model_fields_eq models_ok_def context_ok_def models_move_def context_move_def checkpoint_grounds_def
      pending_compaction_def is_pending_def)

lemma kernel_models:
  assumes "reduceAgentState h s e facts = Inr s'"
  shows "models_ok s \<Longrightarrow> models_move s s'" "context_ok s \<Longrightarrow> context_move s s'"
proof -
  have "(models_ok s \<longrightarrow> models_move s s') \<and> (context_ok s \<longrightarrow> context_move s s')"
    using reduceAgentState_run [OF assms]
  proof (cases rule: reducers_chain)
    case (1 s1 s2 s3 s4 s5 s6 s7 s8 s9 s10)
    have "model_fields s2 = model_fields s" by (simp add: 1(1,2) models_work.view_lifecycle models.view_authorization)
    moreover have "model_fields s6 = model_fields s2"
      using models_work.view_recovery [OF 1(3)] models_work.view_intent [OF 1(4)] models_lease.view_lease [OF 1(5)]
        models_work.view_completion [OF 1(6)] by simp
    moreover have "model_fields s9 = model_fields s6"
      by (simp add: 1(7-9) models_work.view_work models_work.view_interaction models_capability.view_capability)
    ultimately have before: "model_fields s9 = model_fields s" by simp
    have after: "model_fields s' = model_fields s10" by (rule models_verdict.view_verification_state [OF 1(11)])
    show ?thesis
      using context_reducer_moves [of s9 facts "normalizeTerminalAgentEvent e"]
      unfolding models_cong [OF after] models_cong [OF before] 1(10) [symmetric] by blast
  qed
  then show "models_ok s \<Longrightarrow> models_move s s'" "context_ok s \<Longrightarrow> context_move s s'" by blast+
qed

lemma reachable_models: "kernel_reachable h s \<Longrightarrow> models_ok s \<and> context_ok s"
proof (induction rule: kernel_reachable.induct)
  case (created i s)
  then have "st_modelInvocations s = []" "fld (st_context s) ''history'' = JArr []"
    "fld (st_context s) ''activeCheckpoint'' = JUndef"
    by (auto simp: createInitialAgentState_def split: if_splits)
  then show ?case by (simp add: models_ok_def context_ok_def list_of_def)
next
  case (applied s e facts r eventId)
  then have "models_ok r" "context_ok r" using kernel_models unfolding models_move_def context_move_def by blast+
  moreover have "model_fields (committed s r eventId) = model_fields r" by (simp add: committed_def model_fields_def)
  ultimately show ?case using models_cong by blast
qed

text \<open>
  C12: model invocations are bounded and final. Whatever event the composed kernel accepts, an
  invocation afterwards is newly prepared, or keeps all that it was prepared with (surface, route,
  budget, limits, parents) and takes at most one step of the machine: a further attempt, completion
  after a dispatch, interruption. Attempts never exceed the limit it was prepared with, a completed
  invocation was dispatched, and a completed or interrupted one takes no further attempt.
\<close>

theorem model_invocations_follow_machine:
  assumes "kernel_reachable h s" "reduceAgentState h s e facts = Inr s'" "map_of (st_modelInvocations s') i = Some m'"
  shows "0 \<le> model_attempts m' \<and> model_attempts m' \<le> model_limit m' \<and>
    (mi_status m' = ''completed'' \<longrightarrow> 1 \<le> model_attempts m') \<and>
    (map_of (st_modelInvocations s) i = None \<longrightarrow> mi_status m' = ''prepared'') \<and>
    (\<forall>m. map_of (st_modelInvocations s) i = Some m \<longrightarrow> model_move m m' \<and>
       (mi_status m \<in> {''completed'', ''interrupted''} \<longrightarrow>
          mi_status m' = mi_status m \<and> model_attempts m' = model_attempts m))"
proof -
  have move: "models_move s s'" using kernel_models(1) [OF assms(2)] reachable_models [OF assms(1)] by blast
  then have good: "model_good i m'" using assms(3) unfolding models_move_def models_ok_def by blast
  have "case map_of (st_modelInvocations s) i of None \<Rightarrow> mi_status m' = ''prepared'' | Some m \<Rightarrow> model_move m m'"
    using move assms(3) unfolding models_move_def by blast
  moreover have "mi_status m' = mi_status m \<and> model_attempts m' = model_attempts m"
    if "model_move m m'" "mi_status m \<in> {''completed'', ''interrupted''}" for m
    using that by (auto simp: model_move_def elim: from_completed_model from_interrupted_model)
  ultimately show ?thesis using good by (auto simp: model_good_def facts_good_def split: option.splits)
qed

text \<open>
  C27: the context is compacted only through a pending compaction. In every reachable state the history
  of compactions is bounded and the active checkpoint saved at least 1024 tokens. An event leaves the
  active checkpoint alone, removes it, or replaces it by the checkpoint of the compaction that was
  pending, which is then no longer pending; a pending compaction is never displaced by another one.
\<close>

theorem compaction_replaces_only_pending:
  assumes "kernel_reachable h s" "reduceAgentState h s e facts = Inr s'"
  shows "length (list_of (fld (st_context s') ''history'')) \<le> 128 \<and>
    (\<forall>c. fld (st_context s') ''activeCheckpoint'' = JObj c \<longrightarrow> 1024 \<le> checkpoint_saving c) \<and>
    (fld (st_context s') ''activeCheckpoint'' = fld (st_context s) ''activeCheckpoint'' \<or> checkpoint_grounds s s') \<and>
    (\<forall>p p'. pending_compaction s = Some p \<longrightarrow> pending_compaction s' = Some p' \<longrightarrow>
       fld p' ''compactionId'' = fld p ''compactionId'')"
proof -
  have "context_move s s'" using kernel_models(2) [OF assms(2)] reachable_models [OF assms(1)] by blast
  then show ?thesis by (simp add: context_move_def context_ok_def)
qed

section \<open>Samples\<close>

definition prepare_event :: kernel_event where
  "prepare_event = \<lparr>ev_type = ''model.invocation_prepared'', ev_data = [(''invocationId'', JStr ''m''),
     (''purpose'', JStr ''primary_agent''),
     (''surfaceArtifact'', JObj [(''kind'', JStr ''model_surface''), (''artifactId'', JStr ''a''),
        (''integrityIdentifier'', JStr ''i''), (''byteLength'', JNum 1)]),
     (''surfaceIntegrityIdentifier'', JStr ''i''), (''routeFingerprint'', JStr ''r''),
     (''budget'', JObj [(''kind'', JStr ''no_budget''), (''reason'', JStr ''resource_budget_disabled'')]),
     (''limits'', JObj [(''maxAttempts'', JNum 2), (''perAttemptTimeoutMs'', JNum 1000), (''totalTimeBudgetMs'', JNum 2000)]),
     (''preparedStateRevision'', JNum 0), (''parentInvocationId'', JNull), (''parentToolCallId'', JNull)]\<rparr>"

definition attempt_event :: kernel_event where
  "attempt_event = \<lparr>ev_type = ''model.invocation_attempt_started'', ev_data = [(''invocationId'', JStr ''m''),
     (''attempt'', JNum 1), (''maxAttempts'', JNum 2)]\<rparr>"

definition compact_event :: kernel_event where
  "compact_event = \<lparr>ev_type = ''context.compaction_requested'', ev_data = [(''compactionId'', JStr ''c''),
     (''reason'', JStr ''auto''), (''requestedAtRevision'', JNum 0), (''requestedAtTurnId'', JStr ''t''),
     (''force'', JBool False), (''estimate'', JObj (map (\<lambda>f. (f, JNum 0)) ESTIMATE_FIELDS))]\<rparr>"

definition compacted_event :: kernel_event where
  "compacted_event = \<lparr>ev_type = ''context.compaction_completed'', ev_data = [(''compactionId'', JStr ''c''),
     (''sourceRevision'', JNum 0), (''checkpoint'', JObj [(''compactionId'', JStr ''c''), (''version'', JNum 1),
       (''sourceRevision'', JNum 0), (''sourceDigest'', JStr ''d''), (''coveredThroughMessageId'', JStr ''m''),
       (''coveredThroughTurnId'', JStr ''t''), (''summary'', JStr ''all''), (''inputTokensBefore'', JNum 4096),
       (''inputTokensAfter'', JNum 1024), (''reason'', JStr ''auto''), (''createdAt'', JStr ''2025-01-01T00:00:00.000Z'')])]\<rparr>"

lemma context_events_current:
  "assertCurrentRuntimeEvent sample_host prepare_event = ok" "assertCurrentRuntimeEvent sample_host attempt_event = ok"
  "assertCurrentRuntimeEvent sample_host compact_event = ok" "assertCurrentRuntimeEvent sample_host compacted_event = ok"
  by code_simp+

lemma context_event_reduces:
  assumes "assertCurrentRuntimeEvent h e = ok"
    "ev_type e \<in> {''model.invocation_prepared'', ''model.invocation_attempt_started'', ''context.compaction_requested'',
       ''context.compaction_completed''}"
  shows "reduceAgentState h s e facts = Inr (reduceContextState facts s e)"
proof -
  have "list_all (\<lambda>ty. list_all (\<lambda>other. other = ''domains/context'' \<or> \<not> handles other ty) REDUCER_OWNERS)
      [''model.invocation_prepared'', ''model.invocation_attempt_started'', ''context.compaction_requested'',
       ''context.compaction_completed'']" by code_simp
  then have "list_all (\<lambda>other. other = ''domains/context'' \<or> \<not> handles other (ev_type e)) REDUCER_OWNERS"
    using assms(2) by auto
  moreover have "(''domains/context'', \<lambda>h facts s e. Inr (reduceContextState facts s e)) \<in> set named_reducers"
    by (simp add: named_reducers_eq)
  ultimately show ?thesis using assms by (intro sole_owner_reduces) (auto simp: TOOL_TERMINAL_EVENTS_def)
qed

lemma context_sample_reachable:
  assumes "assertCurrentRuntimeEvent sample_host e = ok" "ev_type e \<in> {''model.invocation_prepared'', ''context.compaction_requested''}"
  shows "kernel_reachable sample_host (committed fresh_state (reduceContextState no_reducer_facts fresh_state e) ''e'')"
  using assms by (intro kernel_reachable.applied [OF kernel_reachable.created [OF fresh_state_created] context_event_reduces]) auto

definition prepared_state :: agent_state where
  "prepared_state = committed fresh_state (reduceContextState no_reducer_facts fresh_state prepare_event) ''e''"

definition compacting_state :: agent_state where
  "compacting_state = committed fresh_state (reduceContextState no_reducer_facts fresh_state compact_event) ''e''"

theorem model_invocations_follow_machine_witness:
  "\<exists>s' m'. reduceAgentState sample_host prepared_state attempt_event no_reducer_facts = Inr s' \<and>
     map_of (st_modelInvocations s') ''m'' = Some m' \<and> mi_status m' = ''dispatching'' \<and>
     model_attempts m' \<le> model_limit m'"
proof -
  let ?s = "reduceContextState no_reducer_facts prepared_state attempt_event"
  have r: "reduceAgentState sample_host prepared_state attempt_event no_reducer_facts = Inr ?s"
    by (rule context_event_reduces [OF context_events_current(2)]) (simp add: attempt_event_def)
  have reach: "kernel_reachable sample_host prepared_state"
    unfolding prepared_state_def by (rule context_sample_reachable [OF context_events_current(1)]) (simp add: prepare_event_def)
  have "map_option mi_status (map_of (st_modelInvocations ?s) ''m'') = Some ''dispatching''" by code_simp
  then obtain m' where m': "map_of (st_modelInvocations ?s) ''m'' = Some m'" "mi_status m' = ''dispatching''" by auto
  from model_invocations_follow_machine [OF reach r m'(1)] show ?thesis using r m' by blast
qed

theorem compaction_replaces_only_pending_witness:
  "\<exists>s' c. reduceAgentState sample_host compacting_state compacted_event no_reducer_facts = Inr s' \<and>
     fld (st_context s') ''activeCheckpoint'' = JObj c \<and> 1024 \<le> checkpoint_saving c \<and>
     checkpoint_grounds compacting_state s'"
proof -
  let ?s = "reduceContextState no_reducer_facts compacting_state compacted_event"
  have r: "reduceAgentState sample_host compacting_state compacted_event no_reducer_facts = Inr ?s"
    by (rule context_event_reduces [OF context_events_current(4)]) (simp add: compacted_event_def)
  have reach: "kernel_reachable sample_host compacting_state"
    unfolding compacting_state_def by (rule context_sample_reachable [OF context_events_current(3)]) (simp add: compact_event_def)
  have "as_record (fld (st_context ?s) ''activeCheckpoint'') \<noteq> None" by code_simp
  then obtain c where c: "fld (st_context ?s) ''activeCheckpoint'' = JObj c"
    by (auto simp: as_record_def split: jval.splits)
  moreover have "as_record (fld (st_context compacting_state) ''activeCheckpoint'') = None" by code_simp
  then have "fld (st_context compacting_state) ''activeCheckpoint'' \<noteq> JObj c" by (auto simp: as_record_def)
  ultimately show ?thesis using compaction_replaces_only_pending [OF reach r] r by auto
qed

end
