(* ===== verification/Kite_Capability_Inv.thy ===== *)
theory Kite_Capability_Inv
  imports Kite_Model_Inv
begin

text \<open>
  Capability invocations under the composed kernel: their identity is fixed when they are recorded,
  the evidence they carry belongs to the current attempt, and a further attempt waits for the cleanup
  of the one before.
\<close>

section \<open>Evidence of the current attempt\<close>

definition belongs_to_attempt :: "jobj \<Rightarrow> jval \<Rightarrow> bool" where
  "belongs_to_attempt o' v \<longleftrightarrow> (\<exists>a. fld o' ''attemptsStarted'' = JNum a \<and> vfld v ''attempt'' = JNum a)"

definition evidence_current :: "jobj \<Rightarrow> bool" where
  "evidence_current o' \<longleftrightarrow> (\<forall>f \<in> set ATTEMPT_EVIDENCE. fld o' f = JUndef \<or> belongs_to_attempt o' (fld o' f))"

definition RECORDED_FIELDS :: "string list" where
  "RECORDED_FIELDS = [''invocationId'', ''toolCallId'', ''capabilityId'', ''capabilityRevision'', ''taskId'', ''planId'',
     ''planStepId'', ''argumentsDigest'', ''authorizationDigest'', ''admissionDigest'', ''effectiveEffectsDigest'',
     ''receiptRequirement'', ''retryEligibility'', ''recordedAt'', ''idempotencyKey'']"

text \<open>A change that adds evidence to the current attempt, or none at all.\<close>

definition same_attempt :: "jobj \<Rightarrow> jobj \<Rightarrow> bool" where
  "same_attempt o' o'' \<longleftrightarrow> (\<forall>f \<in> set (''attemptsStarted'' # RECORDED_FIELDS). fld o'' f = fld o' f) \<and>
     (evidence_current o' \<longrightarrow> evidence_current o'')"

lemma same_attempt_refl: "same_attempt o' o'"
  by (simp add: same_attempt_def)

lemma same_attempt_trans: "same_attempt a b \<Longrightarrow> same_attempt b c \<Longrightarrow> same_attempt a c"
  by (simp add: same_attempt_def)

lemma evidence_names: "set ATTEMPT_EVIDENCE \<inter> set (''attemptsStarted'' # RECORDED_FIELDS) = {}"
  by (simp add: ATTEMPT_EVIDENCE_def RECORDED_FIELDS_def)

lemma fld_spread_other: "f \<notin> fst ` set cs \<Longrightarrow> fld (spread o' cs) f = fld o' f"
  by (induction cs arbitrary: o') auto

lemma fld_spread_in: "fld (spread o' cs) f = fld o' f \<or> (f, fld (spread o' cs) f) \<in> set cs"
proof (induction cs arbitrary: o')
  case (Cons c cs)
  obtain g w where c: "c = (g, w)" by (cases c)
  show ?case using Cons [of "obj_set g w o'"] by (auto simp: c split: if_splits)
qed simp

lemma same_attempt_spread:
  assumes "\<And>f v. (f, v) \<in> set cs \<Longrightarrow> f \<notin> set (''attemptsStarted'' # RECORDED_FIELDS) \<and>
      (f \<in> set ATTEMPT_EVIDENCE \<longrightarrow> evidence_current o' \<longrightarrow> v = JUndef \<or> belongs_to_attempt o' v)"
  shows "same_attempt o' (spread o' cs)"
proof -
  have kept: "fld (spread o' cs) g = fld o' g" if "g \<in> set (''attemptsStarted'' # RECORDED_FIELDS)" for g
    using that assms by (intro fld_spread_other) force
  have started: "belongs_to_attempt (spread o' cs) w = belongs_to_attempt o' w" for w
    using kept [of "''attemptsStarted''"] by (simp add: belongs_to_attempt_def)
  have "evidence_current (spread o' cs)" if current: "evidence_current o'"
    unfolding evidence_current_def started
  proof
    fix g assume g: "g \<in> set ATTEMPT_EVIDENCE"
    from fld_spread_in [of o' cs g] show "fld (spread o' cs) g = JUndef \<or> belongs_to_attempt o' (fld (spread o' cs) g)"
    proof
      assume "fld (spread o' cs) g = fld o' g"
      then show ?thesis using current g by (simp add: evidence_current_def)
    next
      assume "(g, fld (spread o' cs) g) \<in> set cs"
      then show ?thesis using assms current g by blast
    qed
  qed
  then show ?thesis using kept unfolding same_attempt_def by blast
qed

lemma copied_set: "(f, v) \<in> set (copied names p) \<longleftrightarrow> f \<in> set names \<and> v = fld p f"
  by (auto simp: copied_def)

lemma copied_if_truthy_set: "(f, v) \<in> set (copied_if_truthy names p) \<Longrightarrow> f \<in> set names"
  by (auto simp: copied_if_truthy_def copied_set)

lemmas field_names = RECORDED_FIELDS_def ATTEMPT_EVIDENCE_def

section \<open>The operations\<close>

lemma intents_same_attempt:
  "same_attempt o' (filesystem_intent p a o')" "same_attempt o' (filesystem_ready p a o')"
  "same_attempt o' (sandbox_intent p a o')" "same_attempt o' (sandbox_ready p a o')"
  "same_attempt o' (sandbox_dispatch p a o')" "same_attempt o' (subagent_dispatch p a o')"
  by (auto simp: filesystem_intent_def filesystem_ready_def sandbox_intent_def sandbox_ready_def sandbox_dispatch_def
      subagent_dispatch_def set_lifecycle_def current_attempt_def belongs_to_attempt_def same_attempt_refl field_names vfld_def
      simp del: spread_simps intro!: same_attempt_spread)

text \<open>A record that names its attempt is evidence of that attempt.\<close>

lemma evidence_attempt:
  assumes "evidence_current o'" "name \<in> set ATTEMPT_EVIDENCE" "vfld (fld o' name) ''attempt'' = JNum a"
  shows "fld o' ''attemptsStarted'' = JNum a"
proof -
  have "fld o' name \<noteq> JUndef" using assms(3) by (auto simp: vfld_def)
  then show ?thesis using assms unfolding evidence_current_def belongs_to_attempt_def by force
qed

lemma evidence_record: "fld (evidence o' name) f = vfld (fld o' name) f"
  by (cases "fld o' name") (simp_all add: evidence_def sub_record_def recordField_def as_record_def or_default_def vfld_def)

lemma starts_same_attempt:
  "same_attempt o' (disposal_started p a o')" "same_attempt o' (abandonment_started p a o')"
  by (auto simp: disposal_started_def abandonment_started_def cleanup_record_def part_def belongs_to_attempt_def
      same_attempt_refl field_names vfld_def [of "JObj _"] simp del: spread_simps
      intro!: same_attempt_spread evidence_attempt)

lemma continued_same_attempt:
  assumes "name \<in> set ATTEMPT_EVIDENCE" "fld (evidence o' name) ''attempt'' = JNum a"
    "\<And>f v. (f, v) \<in> set cs \<Longrightarrow> f \<noteq> ''attempt''"
  shows "same_attempt o' (spread o' [(name, JObj (spread (evidence o' name) cs))])"
proof -
  have "fld (spread r cs) ''attempt'' = fld r ''attempt''" for r
    using assms(3) by (induction cs arbitrary: r) fastforce+
  then have "vfld (JObj (spread (evidence o' name) cs)) ''attempt'' = JNum a" by (simp add: vfld_def assms(2))
  moreover have "fld o' ''attemptsStarted'' = JNum a" if "evidence_current o'"
    using evidence_attempt [OF that assms(1)] assms(2) by (simp add: evidence_record)
  ultimately show ?thesis
    using assms(1) evidence_names by (intro same_attempt_spread) (auto simp: belongs_to_attempt_def)
qed

lemma continuations_same_attempt:
  "same_attempt o' (supervisor_started p a o')"
  "name \<in> set ATTEMPT_EVIDENCE \<Longrightarrow> same_attempt o' (cleanup_completed name digest p a b o')"
  "same_attempt o' (subagent_handle p a o')" "same_attempt o' (subagent_observed p a o')"
  "same_attempt o' (subagent_cleanup_started p a b o')" "same_attempt o' (subagent_cleanup_completed p a b o')"
  unfolding supervisor_started_def cleanup_completed_def subagent_handle_def subagent_observed_def
    subagent_cleanup_started_def subagent_cleanup_completed_def set_lifecycle_def same_dispatch_def Let_def
  by (auto simp: same_attempt_refl copied_set ATTEMPT_EVIDENCE_def simp del: spread_simps spread_append
      intro!: continued_same_attempt split: if_splits)

lemma fld_delete: "fld (obj_delete k o') f = (if f = k then JUndef else fld o' f)"
  by (induction o') (auto simp: obj_delete_def)

lemma delete_same_attempt: "same_attempt o' (obj_delete ''error'' o')"
  by (auto simp: same_attempt_def evidence_current_def belongs_to_attempt_def fld_delete field_names)

lemma results_same_attempt:
  "same_attempt o' (result_recorded p o')" "same_attempt o' (execution_failed p o')"
  "same_attempt o' (execution_unknown p o')" "same_attempt o' (reconciliation_resolved p o')"
  unfolding result_recorded_def execution_failed_def execution_unknown_def reconciliation_resolved_def Let_def
  by (auto simp: same_attempt_refl copied_set field_names simp del: spread_simps spread_append
      dest!: copied_if_truthy_set intro!: same_attempt_spread)

lemma success_same_attempt: "same_attempt o' (execution_succeeded p o')"
  unfolding execution_succeeded_def
  by (rule same_attempt_trans [OF delete_same_attempt])
    (auto simp: copied_set field_names simp del: spread_simps spread_append dest!: copied_if_truthy_set intro!: same_attempt_spread)

text \<open>A further attempt: only without open cleanup, and with the evidence cleared.\<close>

definition attempt_raised :: "jobj \<Rightarrow> jobj \<Rightarrow> bool" where
  "attempt_raised o' o'' \<longleftrightarrow> \<not> cleanup_open o' \<and> fld o' ''status'' \<in> {JStr ''recorded'', JStr ''running''} \<and>
     number_or_zero o' ''attemptsStarted'' \<le> number_or_zero o'' ''attemptsStarted'' \<and>
     (number_or_zero o' ''attemptsStarted'' < number_or_zero o'' ''attemptsStarted'' \<longrightarrow>
        (\<forall>f \<in> set ATTEMPT_EVIDENCE. fld o'' f = JUndef))"

definition facts_move :: "kernel_event \<Rightarrow> jobj \<Rightarrow> jobj \<Rightarrow> bool" where
  "facts_move e o' o'' \<longleftrightarrow> list_all (\<lambda>f. fld o'' f = fld o' f) RECORDED_FIELDS \<and>
     (evidence_current o' \<longrightarrow> evidence_current o'') \<and>
     (fld o'' ''attemptsStarted'' = fld o' ''attemptsStarted'' \<or>
      ev_type e = ''capability.execution_started'' \<and> attempt_raised o' o'')"

lemma same_attempt_moves: "same_attempt o' o'' \<Longrightarrow> facts_move e o' o''"
  by (simp add: facts_move_def same_attempt_def list_all_iff)

lemma map_keys_undef: "fld (spread o' (map (\<lambda>f. (f, JUndef)) names)) g = (if g \<in> set names then JUndef else fld o' g)"
  by (induction names arbitrary: o') auto

lemma cleared_evidence: "\<forall>f \<in> set ATTEMPT_EVIDENCE. fld o' f = JUndef \<Longrightarrow> evidence_current o'"
  by (simp add: evidence_current_def)

lemma attempt_started_moves:
  assumes "ev_type e = ''capability.execution_started''"
  shows "facts_move e o' (execution_started p o')"
proof (cases "fld o' ''status'' \<notin> {JStr ''recorded'', JStr ''running''} \<or> cleanup_open o'")
  case True
  then have "execution_started p o' = o'" unfolding execution_started_def by (simp only: if_True)
  then show ?thesis by (simp add: facts_move_def list_all_iff)
next
  case False
  let ?prior = "number_or_zero o' ''attemptsStarted''"
  let ?starting = "[(''status'', JStr ''running''), (''startedAt'', coalesce (fld o' ''startedAt'') (fld p ''startedAt''))]"
  show ?thesis
  proof (cases "numberField p ''attempt''")
    case None
    then have "execution_started p o' = spread o' ?starting"
      using False unfolding execution_started_def by (simp add: Let_def)
    moreover have "same_attempt o' (spread o' ?starting)" by (rule same_attempt_spread) (auto simp: field_names)
    ultimately show ?thesis by (simp only: same_attempt_moves)
  next
    case (Some a)
    let ?n = "max ?prior a"
    let ?o = "spread o' (?starting @ [(''attemptsStarted'', JNum ?n)])"
    have o: "fld ?o f = fld o' f" if "f \<in> set (RECORDED_FIELDS @ ATTEMPT_EVIDENCE)" for f
      using that by (intro fld_spread_other) (auto simp: field_names)
    have n: "fld ?o ''attemptsStarted'' = JNum ?n" by simp
    have result: "execution_started p o' = spread ?o (if ?n > ?prior then map (\<lambda>f. (f, JUndef)) ATTEMPT_EVIDENCE else [])"
      using False Some unfolding execution_started_def by (simp add: Let_def)
    have apart: "''attemptsStarted'' \<notin> set ATTEMPT_EVIDENCE" "f \<in> set RECORDED_FIELDS \<Longrightarrow> f \<notin> set ATTEMPT_EVIDENCE" for f
      using evidence_names by auto
    show ?thesis
    proof (cases "?n > ?prior")
      case True
      let ?r = "spread ?o (map (\<lambda>f. (f, JUndef)) ATTEMPT_EVIDENCE)"
      have r: "execution_started p o' = ?r" unfolding result by (simp only: True if_True)
      have "fld ?r f = fld o' f" if "f \<in> set RECORDED_FIELDS" for f
        using that o [of f] apart(2) by (simp only: map_keys_undef if_False set_append UnI1 simp_thms)
      moreover have cleared: "\<forall>f \<in> set ATTEMPT_EVIDENCE. fld ?r f = JUndef" by (simp only: map_keys_undef if_True simp_thms) simp
      moreover have "number_or_zero ?r ''attemptsStarted'' = ?n"
        using n apart(1) by (simp only: number_or_zero_def numberField_def map_keys_undef if_False) (simp add: or_default_def)
      ultimately show ?thesis
        using False assms unfolding r facts_move_def attempt_raised_def list_all_iff
        by (auto simp: cleared_evidence)
    next
      case False': False
      then have same: "?n = ?prior" by simp
      have r: "execution_started p o' = ?o" unfolding result by (simp only: False' if_False spread_simps(1))
      have "evidence_current ?o" if current: "evidence_current o'"
        unfolding evidence_current_def
      proof
        fix f assume f: "f \<in> set ATTEMPT_EVIDENCE"
        show "fld ?o f = JUndef \<or> belongs_to_attempt ?o (fld ?o f)"
        proof (cases "fld o' f = JUndef")
          case False
          then obtain b where b: "fld o' ''attemptsStarted'' = JNum b" "vfld (fld o' f) ''attempt'' = JNum b"
            using current f unfolding evidence_current_def belongs_to_attempt_def by blast
          then have "?prior = b" by (simp add: number_or_zero_def numberField_def or_default_def)
          then show ?thesis using b n same o [of f] f unfolding belongs_to_attempt_def by simp
        qed (use o f in simp)
      qed
      moreover have "number_or_zero ?o ''attemptsStarted'' = ?prior"
        using n same by (simp add: number_or_zero_def numberField_def or_default_def)
      ultimately show ?thesis
        using False assms o unfolding r facts_move_def attempt_raised_def list_all_iff by auto
    qed
  qed
qed

lemma change_moves:
  assumes "invocation_change e = Some f"
  shows "facts_move e o' (f o')"
proof -
  have results: "facts_move e o' (f o')" if "result_change (ev_type e) (ev_data e) = Some f" for f
    using that results_same_attempt success_same_attempt attempt_started_moves
    by (auto simp: result_change_def intro: same_attempt_moves split: if_splits)
  moreover have evidences: "facts_move e o' (f o')" if "evidence_change (ev_type e) (ev_data e) a = Some f" for a f
    using that intents_same_attempt starts_same_attempt continuations_same_attempt
    by (auto simp: evidence_change_def intro: same_attempt_moves split: if_splits)
  moreover have cleanups: "facts_move e o' (f o')" if "cleanup_change (ev_type e) (ev_data e) a b = Some f" for a b f
    using that continuations_same_attempt
    by (auto simp: cleanup_change_def ATTEMPT_EVIDENCE_def intro!: same_attempt_moves split: if_splits)
  ultimately show ?thesis using assms by (auto simp: invocation_change_def split: option.splits)
qed

section \<open>The kernel\<close>

definition invocations_ok :: "agent_state \<Rightarrow> bool" where
  "invocations_ok s \<longleftrightarrow> distinct_keys (st_invocations s) \<and> (\<forall>i c. map_of (st_invocations s) i = Some c \<longrightarrow>
     c = invocation_of i (ci_facts c) \<and> evidence_current (ci_facts c))"

definition invocations_move :: "kernel_event \<Rightarrow> agent_state \<Rightarrow> agent_state \<Rightarrow> bool" where
  "invocations_move e s s' \<longleftrightarrow> invocations_ok s' \<and>
     (\<forall>i c'. map_of (st_invocations s') i = Some c' \<longrightarrow>
        (case map_of (st_invocations s) i of None \<Rightarrow> ci_status c' = ''recorded'' | Some c \<Rightarrow> facts_move e (ci_facts c) (ci_facts c')))"

lemma facts_move_refl: "facts_move e o' o'"
  by (simp add: facts_move_def list_all_iff)

lemma invocations_move_same: "invocations_ok s \<Longrightarrow> st_invocations s' = st_invocations s \<Longrightarrow> invocations_move e s s'"
  by (simp add: invocations_move_def invocations_ok_def facts_move_refl split: option.split)

lemma invocation_facts [simp]: "ci_facts (invocation_of i o') = o'"
  by (simp add: invocation_of_def)

lemma invocations_move_put:
  assumes "invocations_ok s" "st_invocations s' = obj_set i (invocation_of i o') (st_invocations s)" "evidence_current o'"
    "case map_of (st_invocations s) i of None \<Rightarrow> ci_status (invocation_of i o') = ''recorded''
      | Some c \<Rightarrow> facts_move e (ci_facts c) o'"
  shows "invocations_move e s s'"
  using assms by (auto simp: invocations_move_def invocations_ok_def facts_move_refl split: option.splits if_splits)

lemma recorded_evidence: "evidence_current (recorded_invocation i p)"
  by (rule cleared_evidence)
    (auto simp: recorded_invocation_def ATTEMPT_EVIDENCE_def copied_def copied_if_truthy_def)

lemma recorded_status: "fld (recorded_invocation i p) ''status'' = JStr ''recorded''"
  by (simp add: recorded_invocation_def copied_def copied_if_truthy_def)

lemma capability_moves:
  assumes "invocations_ok s" shows "invocations_move e s (reduceCapabilityState s e)"
proof -
  note same = invocations_move_same [OF assms]
  have "invocations_move e s (invocation_recorded s p)" for p
  proof (cases "invocation_recorded s p = s")
    case False
    then obtain i where "map_of (st_invocations s) i = None"
      "invocation_recorded s p = s\<lparr>st_invocations := obj_set i (invocation_of i (recorded_invocation i p)) (st_invocations s)\<rparr>"
      by (auto simp: invocation_recorded_def split: option.splits if_splits)
    then show ?thesis
      using recorded_evidence recorded_status
      by (intro invocations_move_put [OF assms]) (auto simp: invocation_of_def text_of_def as_string_def or_default_def)
  qed (simp add: same)
  moreover have "invocations_move e s (updateCapabilityInvocation s i f)" if "invocation_change e = Some f" for i f
  proof (cases "map_of (st_invocations s) i")
    case (Some c)
    have move: "facts_move e (ci_facts c) (f (ci_facts c))" by (rule change_moves [OF that])
    moreover have "evidence_current (ci_facts c)" using assms Some unfolding invocations_ok_def by blast
    ultimately have "evidence_current (f (ci_facts c))" by (simp add: facts_move_def)
    then show ?thesis using move Some
      by (intro invocations_move_put [OF assms]) (auto simp: updateCapabilityInvocation_def)
  qed (simp add: updateCapabilityInvocation_def same)
  moreover have "st_invocations (bindings_issued s p) = st_invocations s" "st_invocations (search_completed s p) = st_invocations s" for p
    by (simp_all add: bindings_issued_def search_completed_def Let_def split: option.split)
  ultimately show ?thesis
    by (auto simp: reduceCapabilityState_def Let_def same split: option.split)
qed

lemma invocations_cong:
  assumes "st_invocations s' = st_invocations s"
  shows "invocations_ok s' = invocations_ok s" "invocations_move e r s' = invocations_move e r s"
    "invocations_move e s' r = invocations_move e s r"
  using assms by (simp_all add: invocations_ok_def invocations_move_def)

lemma facts_move_event: "facts_move (normalizeTerminalAgentEvent e) o' o'' = facts_move e o' o''"
  by (simp add: facts_move_def)

lemma kernel_invocations:
  assumes "invocations_ok s" "reduceAgentState h s e facts = Inr s'"
  shows "invocations_move e s s'"
  using reduceAgentState_run [OF assms(2)]
proof (cases rule: reducers_chain)
  case (1 s1 s2 s3 s4 s5 s6 s7 s8 s9 s10)
  have "st_invocations s2 = st_invocations s"
    by (simp add: 1(1,2) invocations_work.view_lifecycle invocations.view_authorization)
  moreover have "st_invocations s6 = st_invocations s2"
    using invocations_work.view_recovery [OF 1(3)] invocations_work.view_intent [OF 1(4)]
      invocations_lease.view_lease [OF 1(5)] invocations_work.view_completion [OF 1(6)] by simp
  moreover have "st_invocations s8 = st_invocations s6"
    by (simp add: 1(7,8) invocations_work.view_work invocations_work.view_interaction)
  ultimately have before: "st_invocations s8 = st_invocations s" by simp
  have after: "st_invocations s' = st_invocations s9"
    using invocations_verdict.view_verification_state [OF 1(11)] invocations_dialogue.view_context_state 1(10) by simp
  have "invocations_ok s8" by (rule iffD2 [OF invocations_cong(1) [OF before] assms(1)])
  then have "invocations_move (normalizeTerminalAgentEvent e) s8 s9" unfolding 1(9) by (rule capability_moves)
  then have "invocations_move (normalizeTerminalAgentEvent e) s s'"
    unfolding invocations_cong [OF after] invocations_cong [OF before] .
  then show ?thesis unfolding invocations_move_def facts_move_event .
qed

lemma reachable_invocations: "kernel_reachable h s \<Longrightarrow> invocations_ok s"
proof (induction rule: kernel_reachable.induct)
  case (created i s)
  then have "st_invocations s = []" by (auto simp: createInitialAgentState_def split: if_splits)
  then show ?case by (simp add: invocations_ok_def)
next
  case (applied s e facts r eventId)
  then have "invocations_ok r" using kernel_invocations unfolding invocations_move_def by blast
  moreover have "st_invocations (committed s r eventId) = st_invocations r" by (simp add: committed_def)
  ultimately show ?case using invocations_cong by blast
qed

text \<open>
  C10: an invocation starts again only after it has cleaned up. Under the composed kernel the evidence an
  invocation carries (file system intent, sandbox, subagent) always names the current attempt, and
  what was recorded when the invocation was admitted never changes. The number of attempts changes only
  by a start event while the invocation is recorded or running and no sandbox or subagent of it still
  has to be cleaned up; it never falls, and when it rises the evidence of the attempt before is gone.
\<close>

theorem attempts_wait_for_cleanup:
  assumes "kernel_reachable h s" "reduceAgentState h s e facts = Inr s'" "map_of (st_invocations s') i = Some c'"
  shows "evidence_current (ci_facts c') \<and>
    (map_of (st_invocations s) i = None \<longrightarrow> ci_status c' = ''recorded'') \<and>
    (\<forall>c. map_of (st_invocations s) i = Some c \<longrightarrow>
       list_all (\<lambda>f. fld (ci_facts c') f = fld (ci_facts c) f) RECORDED_FIELDS \<and>
       (fld (ci_facts c') ''attemptsStarted'' = fld (ci_facts c) ''attemptsStarted'' \<or>
        ev_type e = ''capability.execution_started'' \<and> attempt_raised (ci_facts c) (ci_facts c')))"
proof -
  have move: "invocations_move e s s'" by (rule kernel_invocations [OF reachable_invocations [OF assms(1)] assms(2)])
  then have "evidence_current (ci_facts c')" using assms(3) unfolding invocations_move_def invocations_ok_def by blast
  moreover have "case map_of (st_invocations s) i of None \<Rightarrow> ci_status c' = ''recorded''
      | Some c \<Rightarrow> facts_move e (ci_facts c) (ci_facts c')"
    using move assms(3) unfolding invocations_move_def by blast
  ultimately show ?thesis by (auto simp: facts_move_def split: option.splits)
qed

section \<open>Samples\<close>

definition record_event :: kernel_event where
  "record_event = \<lparr>ev_type = ''capability.invocation_recorded'', ev_data = [(''invocationId'', JStr ''i''),
     (''toolCallId'', JStr ''c''), (''capabilityId'', JStr ''builtin:shell_execute''), (''capabilityRevision'', JStr ''1''),
     (''argumentsDigest'', JStr ''a''), (''authorizationDigest'', JStr ''b''), (''effectiveEffectsDigest'', JStr ''d''),
     (''effectiveEffects'', JObj []), (''recordedAt'', JStr ''2025-01-01T00:00:00.000Z'')]\<rparr>"

definition begin_event :: kernel_event where
  "begin_event = \<lparr>ev_type = ''capability.execution_started'', ev_data = [(''invocationId'', JStr ''i''),
     (''attempt'', JNum 1), (''startedAt'', JStr ''2025-01-01T00:00:00.000Z'')]\<rparr>"

lemma capability_events_current:
  "assertCurrentRuntimeEvent sample_host record_event = ok" "assertCurrentRuntimeEvent sample_host begin_event = ok"
  by code_simp+

lemma capability_event_reduces:
  assumes "assertCurrentRuntimeEvent h e = ok"
    "ev_type e \<in> {''capability.invocation_recorded'', ''capability.execution_started''}"
  shows "reduceAgentState h s e facts = Inr (reduceCapabilityState s e)"
proof -
  have "list_all (\<lambda>ty. list_all (\<lambda>other. other = ''domains/capability'' \<or> \<not> handles other ty) REDUCER_OWNERS)
      [''capability.invocation_recorded'', ''capability.execution_started'']" by code_simp
  then have "list_all (\<lambda>other. other = ''domains/capability'' \<or> \<not> handles other (ev_type e)) REDUCER_OWNERS"
    using assms(2) by auto
  moreover have "(''domains/capability'', \<lambda>h facts s e. Inr (reduceCapabilityState s e)) \<in> set named_reducers"
    by (simp add: named_reducers_eq)
  ultimately show ?thesis using assms by (intro sole_owner_reduces) (auto simp: TOOL_TERMINAL_EVENTS_def)
qed

definition recorded_state :: agent_state where
  "recorded_state = committed fresh_state (reduceCapabilityState fresh_state record_event) ''e''"

lemma recorded_state_reachable: "kernel_reachable sample_host recorded_state"
  unfolding recorded_state_def
  by (rule kernel_reachable.applied [OF kernel_reachable.created [OF fresh_state_created]
        capability_event_reduces [OF capability_events_current(1)]]) (simp add: record_event_def)

theorem attempts_wait_for_cleanup_witness:
  "\<exists>s' c c'. reduceAgentState sample_host recorded_state begin_event no_reducer_facts = Inr s' \<and>
     map_of (st_invocations recorded_state) ''i'' = Some c \<and> map_of (st_invocations s') ''i'' = Some c' \<and>
     fld (ci_facts c') ''attemptsStarted'' = JNum 1 \<and> attempt_raised (ci_facts c) (ci_facts c')"
proof -
  let ?s = "reduceCapabilityState recorded_state begin_event"
  have r: "reduceAgentState sample_host recorded_state begin_event no_reducer_facts = Inr ?s"
    by (rule capability_event_reduces [OF capability_events_current(2)]) (simp add: begin_event_def)
  have "map_option (\<lambda>c. fld (ci_facts c) ''attemptsStarted'') (map_of (st_invocations ?s) ''i'') = Some (JNum 1)" by code_simp
  then obtain c' where c': "map_of (st_invocations ?s) ''i'' = Some c'" "fld (ci_facts c') ''attemptsStarted'' = JNum 1" by auto
  have "map_option (\<lambda>c. fld (ci_facts c) ''attemptsStarted'') (map_of (st_invocations recorded_state) ''i'') = Some JUndef"
    by code_simp
  then obtain c where c: "map_of (st_invocations recorded_state) ''i'' = Some c" "fld (ci_facts c) ''attemptsStarted'' = JUndef"
    by auto
  from attempts_wait_for_cleanup [OF recorded_state_reachable r c'(1)] show ?thesis using r c c' by auto
qed

end
