(* ===== verification/Kite_Admission.thy ===== *)
theory Kite_Admission
  imports Kite_Kernel
begin

text \<open>
  src/packages/agent-kernel/src/effect-admission.ts: what the host may commit for an effect it ran.
  Live capability invocations of a tool call that ends are taken in the same batch, receipts and tool
  terminals are committed together, and late evidence of shell calls and model invocations is admitted
  only for the very call or invocation that is still live. An event is its discriminant and payload; a
  property read of a missing payload object raises the \<open>TypeError\<close> of the source.
\<close>

section \<open>Terminal events\<close>

record effect_lease =
  le_turnId :: string
  le_effect :: runtime_effect

definition isCapabilityTerminalEvent :: "kernel_event \<Rightarrow> bool" where
  "isCapabilityTerminalEvent e \<longleftrightarrow>
     ev_type e = ''capability.execution_succeeded'' \<or> ev_type e = ''capability.execution_failed'' \<or>
     ev_type e = ''capability.execution_unknown'' \<or> ev_type e = ''capability.reconciliation_resolved''"

definition isToolTerminalEvent :: "kernel_event \<Rightarrow> bool" where
  "isToolTerminalEvent e \<longleftrightarrow>
     ev_type e = ''tool.finished'' \<or> ev_type e = ''tool.failed'' \<or> ev_type e = ''tool.rejected'' \<or>
     ev_type e = ''tool.cancelled''"

definition event_invocation :: "kernel_event \<Rightarrow> jval" where
  "event_invocation e = fld (ev_data e) ''invocationId''"

definition named_call_of :: "kernel_event \<Rightarrow> jval" where
  "named_call_of e = fld (ev_data e) ''toolCallId''"

definition live_invocation :: "kernel_event \<Rightarrow> jval list \<Rightarrow> capability_invocation \<Rightarrow> bool" where
  "live_invocation e taken invocation \<longleftrightarrow>
     JStr (ci_toolCallId invocation) = named_call_of e \<and>
     (ci_status invocation = ''recorded'' \<or> ci_status invocation = ''running'') \<and>
     JStr (ci_invocationId invocation) \<notin> set taken"

section \<open>Capabilities left open by a tool call that ends\<close>

fun require_invocations ::
  "kernel_event \<Rightarrow> capability_invocation list \<Rightarrow> jval list \<times> (string \<times> string) list \<Rightarrow>
   jval list \<times> (string \<times> string) list" where
  "require_invocations e [] acc = acc"
| "require_invocations e (invocation # rest) (taken, requirements) =
     require_invocations e rest
       (if live_invocation e taken invocation
        then (JStr (ci_invocationId invocation) # taken,
              requirements @ [(ci_invocationId invocation, ci_toolCallId invocation)])
        else (taken, requirements))"

fun require_events ::
  "capability_invocation list \<Rightarrow> kernel_event list \<Rightarrow> jval list \<times> (string \<times> string) list \<Rightarrow>
   jval list \<times> (string \<times> string) list" where
  "require_events invocations [] acc = acc"
| "require_events invocations (e # events) acc =
     require_events invocations events
       (if isToolTerminalEvent e then require_invocations e invocations acc else acc)"

definition suspendedCapabilityTerminalRequirements ::
  "agent_state \<Rightarrow> kernel_event list \<Rightarrow> (string \<times> string) list" where
  "suspendedCapabilityTerminalRequirements s events =
     snd (require_events (obj_values (st_invocations s)) events
       (map event_invocation (filter isCapabilityTerminalEvent events), []))"

text \<open>The terminal that is made up for an invocation nobody supplied one for.\<close>

definition suspended_error :: "kernel_event \<Rightarrow> jval res" where
  "suspended_error e =
     (if ev_type e = ''tool.finished''
      then (if nullish (fld (ev_data e) ''result'') then throw ''TypeError''
        else Inr (if truthy (vfld (fld (ev_data e) ''result'') ''stderr'')
          then vfld (fld (ev_data e) ''result'') ''stderr''
          else JStr ''Suspended Tool interaction did not succeed.''))
      else if ev_type e = ''tool.failed''
      then (if nullish (fld (ev_data e) ''failure'') then throw ''TypeError''
        else Inr (vfld (fld (ev_data e) ''failure'') ''message''))
      else Inr (fld (ev_data e) ''reason''))"

definition tool_succeeded :: "kernel_event \<Rightarrow> bool res" where
  "tool_succeeded e =
     (if ev_type e \<noteq> ''tool.finished'' then Inr False
      else if nullish (fld (ev_data e) ''result'') then throw ''TypeError''
      else Inr (truthy (vfld (fld (ev_data e) ''result'') ''ok'')))"

definition suspended_terminal :: "kernel_event \<Rightarrow> capability_invocation \<Rightarrow> string \<Rightarrow> kernel_event res" where
  "suspended_terminal e invocation finishedAt =
     (let o' = ci_facts invocation; i = (''invocationId'', JStr (ci_invocationId invocation)) in
      if \<not> truthy (fld o' ''artifact'') \<or> \<not> truthy (fld o' ''resultDigest'') \<or> \<not> truthy (fld o' ''evidenceDigest'')
      then Inr \<lparr>ev_type = ''capability.execution_unknown'', ev_data = [i,
          (''reason'', JStr ''Suspended Tool terminal has no committed capability result evidence.''),
          (''finishedAt'', JStr finishedAt)]\<rparr>
      else bind_res (tool_succeeded e) (\<lambda>succeeded.
        if succeeded
        then Inr \<lparr>ev_type = ''capability.execution_succeeded'', ev_data = [i,
            (''resultDigest'', fld o' ''resultDigest''), (''evidenceDigest'', fld o' ''evidenceDigest''),
            (''finishedAt'', JStr finishedAt), (''artifact'', fld o' ''artifact'')] @
            copied_if_truthy [''externalReferences''] o'\<rparr>
        else bind_res (suspended_error e) (\<lambda>message.
          Inr \<lparr>ev_type = ''capability.execution_failed'', ev_data = [i, (''error'', message),
            (''resultDigest'', fld o' ''resultDigest''), (''evidenceDigest'', fld o' ''evidenceDigest''),
            (''finishedAt'', JStr finishedAt), (''artifact'', fld o' ''artifact'')]\<rparr>)))"

definition host_timestamp :: "js_host \<Rightarrow> (string \<times> string) list \<Rightarrow> string \<Rightarrow> string option" where
  "host_timestamp h finishedAts i =
     (case map_of finishedAts i of None \<Rightarrow> None
      | Some t \<Rightarrow> if t = [] \<or> date_parse h t = None then None else Some t)"

record admission_batch =
  ab_output :: "kernel_event list"
  ab_emitted :: "jval list"

definition emit :: "kernel_event \<Rightarrow> jval \<Rightarrow> admission_batch \<Rightarrow> admission_batch" where
  "emit e i b = \<lparr>ab_output = ab_output b @ [e], ab_emitted = i # ab_emitted b\<rparr>"

definition last_supplied :: "kernel_event list \<Rightarrow> jval \<Rightarrow> kernel_event option" where
  "last_supplied events i = find (\<lambda>e. event_invocation e = i) (rev (filter isCapabilityTerminalEvent events))"

fun close_invocations ::
  "js_host \<Rightarrow> (string \<times> string) list \<Rightarrow> kernel_event list \<Rightarrow> kernel_event \<Rightarrow> capability_invocation list \<Rightarrow>
   admission_batch \<Rightarrow> admission_batch res" where
  "close_invocations h finishedAts events e [] b = Inr b"
| "close_invocations h finishedAts events e (invocation # rest) b =
     (let i = JStr (ci_invocationId invocation) in
      if \<not> live_invocation e (ab_emitted b) invocation then close_invocations h finishedAts events e rest b
      else case last_supplied events i of
          Some supplied \<Rightarrow> close_invocations h finishedAts events e rest (emit supplied i b)
        | None \<Rightarrow>
            (case host_timestamp h finishedAts (ci_invocationId invocation) of
               None \<Rightarrow> throw (''Suspended capability terminal '' @ ci_invocationId invocation @
                 '' requires a valid Host timestamp.'')
             | Some finishedAt \<Rightarrow>
                 bind_res (suspended_terminal e invocation finishedAt) (\<lambda>terminal.
                   close_invocations h finishedAts events e rest (emit terminal i b))))"

fun attach_events ::
  "js_host \<Rightarrow> (string \<times> string) list \<Rightarrow> kernel_event list \<Rightarrow> capability_invocation list \<Rightarrow> kernel_event list \<Rightarrow>
   admission_batch \<Rightarrow> admission_batch res" where
  "attach_events h finishedAts events invocations [] b = Inr b"
| "attach_events h finishedAts events invocations (e # rest) b =
     (if isCapabilityTerminalEvent e
      then attach_events h finishedAts events invocations rest
        (if event_invocation e \<in> set (ab_emitted b) then b else emit e (event_invocation e) b)
      else if \<not> isToolTerminalEvent e
      then attach_events h finishedAts events invocations rest (b\<lparr>ab_output := ab_output b @ [e]\<rparr>)
      else bind_res (close_invocations h finishedAts events e invocations b) (\<lambda>b'.
        attach_events h finishedAts events invocations rest (b'\<lparr>ab_output := ab_output b' @ [e]\<rparr>)))"

definition attachSuspendedCapabilityTerminals ::
  "js_host \<Rightarrow> agent_state \<Rightarrow> kernel_event list \<Rightarrow> (string \<times> string) list \<Rightarrow> kernel_event list res" where
  "attachSuspendedCapabilityTerminals h s events finishedAts =
     bind_res (attach_events h finishedAts events (obj_values (st_invocations s)) events
         \<lparr>ab_output = [], ab_emitted = []\<rparr>)
       (\<lambda>b. Inr (ab_output b))"

section \<open>Receipts and tool terminals commit together\<close>

definition named_invocation :: "agent_state \<Rightarrow> jval \<Rightarrow> capability_invocation option" where
  "named_invocation s i = (case i of JStr k \<Rightarrow> map_of (st_invocations s) k | _ \<Rightarrow> None)"

definition governed :: "capability_invocation \<Rightarrow> bool" where
  "governed invocation \<longleftrightarrow> truthy (fld (ci_facts invocation) ''receiptRequirement'')"

definition receipt_check :: "agent_state \<Rightarrow> kernel_event list \<Rightarrow> kernel_event \<Rightarrow> unit res" where
  "receipt_check s events terminal =
     (case named_invocation s (event_invocation terminal) of None \<Rightarrow> ok
      | Some invocation \<Rightarrow>
          if \<not> governed invocation then ok
          else if (ev_type terminal = ''capability.execution_succeeded'' \<or> ev_type terminal = ''capability.execution_failed'') \<and>
            vfld (fld (ev_data terminal) ''artifact'') ''kind'' \<noteq> JStr ''capability_result''
          then throw ''Governed capability terminal requires a private result Artifact.''
          else if \<not> list_ex (\<lambda>e. isToolTerminalEvent e \<and> named_call_of e = JStr (ci_toolCallId invocation)) events
          then throw ''Capability receipt and Tool terminal must commit in one atomic batch.''
          else ok)"

definition check_source :: "jval \<Rightarrow> jval list res" where
  "check_source check =
     (if nullish check then throw ''TypeError''
      else if vfld check ''type'' = JStr ''schema''
      then (if nullish (vfld check ''subject'') then throw ''TypeError''
        else if vfld (vfld check ''subject'') ''kind'' = JStr ''capability_artifact''
        then Inr [vfld (vfld check ''subject'') ''invocationId''] else Inr [])
      else if vfld check ''type'' \<in> {JStr ''mcp_read_after_write'', JStr ''external_reference'', JStr ''receipt''}
      then Inr [vfld check ''invocationId'']
      else Inr [])"

fun check_sources :: "jval list \<Rightarrow> jval list res" where
  "check_sources [] = Inr []"
| "check_sources (check # checks) =
     bind_res (check_source check) (\<lambda>ids. bind_res (check_sources checks) (\<lambda>more. Inr (ids @ more)))"

definition source_check :: "agent_state \<Rightarrow> kernel_event list \<Rightarrow> jval \<Rightarrow> unit res" where
  "source_check s terminals i =
     (case named_invocation s i of None \<Rightarrow> ok
      | Some invocation \<Rightarrow>
          if governed invocation \<and>
            \<not> list_ex (\<lambda>t. ev_type t = ''capability.execution_succeeded'' \<and> event_invocation t = i) terminals
          then throw ''Verification cannot reference an uncommitted capability receipt.''
          else ok)"

definition verification_check :: "agent_state \<Rightarrow> kernel_event list \<Rightarrow> kernel_event \<Rightarrow> unit res" where
  "verification_check s terminals e =
     (if ev_type e \<noteq> ''verification.requested'' then ok
      else case vfld (fld (ev_data e) ''spec'') ''checks'' of
          JArr checks \<Rightarrow> bind_res (check_sources checks) (check_all (source_check s terminals))
        | _ \<Rightarrow> throw ''TypeError'')"

definition assertCapabilityToolTerminalBatch ::
  "agent_state \<Rightarrow> effect_lease \<Rightarrow> kernel_event list \<Rightarrow> unit res" where
  "assertCapabilityToolTerminalBatch s lease events =
     (case le_effect lease of
        RunTools ids \<Rightarrow>
          let terminals = filter isCapabilityTerminalEvent events in
          and_then (check_all (receipt_check s events) terminals)
            (check_all (verification_check s terminals) events)
      | _ \<Rightarrow> ok)"

definition named_call :: "agent_state \<Rightarrow> jval \<Rightarrow> tool_call option" where
  "named_call s i = (case i of JStr k \<Rightarrow> map_of (to_calls (st_tools s)) k | _ \<Rightarrow> None)"

definition hasLateTerminalEventForCancelledTool :: "agent_state \<Rightarrow> effect_lease \<Rightarrow> kernel_event list \<Rightarrow> bool" where
  "hasLateTerminalEventForCancelledTool s lease events =
     (case le_effect lease of
        RunTools ids \<Rightarrow> list_ex (\<lambda>e. ev_type e \<in> {''tool.finished'', ''tool.failed'', ''tool.rejected''} \<and>
          map_option tc_status (named_call s (named_call_of e)) = Some TCancelled) events
      | _ \<Rightarrow> False)"

section \<open>Late evidence of shell calls\<close>

definition before_or_running :: "tool_status \<Rightarrow> bool" where
  "before_or_running st \<longleftrightarrow> st = TQueued \<or> st = TApproved \<or> st = TAuthorizedQueued \<or> st = TRunning"

definition SHELL_CAPABILITY_EVENTS :: "string list" where
  "SHELL_CAPABILITY_EVENTS =
     [''capability.execution_started'', ''capability.execution_succeeded'', ''capability.execution_failed'',
      ''capability.execution_unknown'', ''capability.sandbox_preparation_intent_recorded'',
      ''capability.sandbox_preparation_ready'', ''capability.sandbox_execution_dispatch_intent_recorded'',
      ''capability.sandbox_execution_supervisor_started'', ''capability.sandbox_disposal_started'',
      ''capability.sandbox_disposal_completed'', ''capability.sandbox_preparation_abandonment_started'',
      ''capability.sandbox_preparation_abandonment_completed'']"

definition shell_event_status :: "string \<Rightarrow> tool_status \<Rightarrow> bool" where
  "shell_event_status ty st =
     (if ty = ''approval.requested'' \<or> ty = ''auto_review.requested'' then st = TQueued
      else if ty = ''tool.started'' then st = TQueued \<or> st = TApproved \<or> st = TAuthorizedQueued
      else if ty = ''capability.invocation_recorded'' then before_or_running st
      else if ty = ''tool.progress'' \<or> ty = ''tool.finished'' then st = TRunning
      else if ty = ''tool.failed'' \<or> ty = ''tool.rejected'' then before_or_running st
      else if ty = ''runtime.cancellation_diagnostic'' then st = TCancelled \<or> st = TRunning
      else False)"

definition isConcurrentShellEffectEventCurrent :: "agent_state \<Rightarrow> effect_lease \<Rightarrow> kernel_event \<Rightarrow> bool" where
  "isConcurrentShellEffectEventCurrent s lease e =
     (case le_effect lease of
        RunTools ids \<Rightarrow>
          le_turnId lease = tn_turnId (st_turn s) \<and>
          (if ev_type e \<in> set SHELL_CAPABILITY_EVENTS
           then (case named_invocation s (event_invocation e) of None \<Rightarrow> False
             | Some invocation \<Rightarrow> ci_toolCallId invocation \<in> set ids \<and>
                 (case map_of (to_calls (st_tools s)) (ci_toolCallId invocation) of None \<Rightarrow> False
                  | Some call \<Rightarrow> tc_name call = ''shell_execute'' \<and> before_or_running (tc_status call)))
           else (case named_call_of e of
               JStr i \<Rightarrow> i \<in> set ids \<and>
                 (case map_of (to_calls (st_tools s)) i of None \<Rightarrow> False
                  | Some call \<Rightarrow> tc_name call = ''shell_execute'' \<and> shell_event_status (ev_type e) (tc_status call))
             | _ \<Rightarrow> False))
      | _ \<Rightarrow> False)"

text \<open>
  Both batch checks replay the events on a projected state: each event is judged on the state its
  predecessors lead to, normalised at its time and reduced.
\<close>

definition host_time :: "js_host \<Rightarrow> string \<Rightarrow> bool" where
  "host_time h t \<longleftrightarrow> t \<noteq> [] \<and> date_parse h t \<noteq> None"

fun replay ::
  "js_host \<Rightarrow> (nat \<Rightarrow> string) \<Rightarrow> (agent_state \<Rightarrow> nat \<Rightarrow> kernel_event \<Rightarrow> bool) \<Rightarrow> nat \<Rightarrow> agent_state \<Rightarrow> kernel_event list \<Rightarrow>
   agent_state option res" where
  "replay h occurs current i s [] = Inr (Some s)"
| "replay h occurs current i s (e # events) =
     (if \<not> current s i e \<or> \<not> host_time h (occurs i) then Inr None
      else bind_res (reduce h s [Kite_Outcome.normalizeAgentEvent h e s (occurs i)]) (\<lambda>s1.
        replay h occurs current (Suc i) s1 events))"

definition isConcurrentShellEffectBatchCurrent ::
  "js_host \<Rightarrow> agent_state \<Rightarrow> effect_lease \<Rightarrow> kernel_event list \<Rightarrow> (nat \<Rightarrow> string) \<Rightarrow> bool res" where
  "isConcurrentShellEffectBatchCurrent h s lease events occurs =
     bind_res (replay h occurs (\<lambda>s i e. isConcurrentShellEffectEventCurrent s lease e) 0 s events)
       (\<lambda>projected. Inr (projected \<noteq> None))"

section \<open>Late evidence of model invocations\<close>

definition MODEL_DELTAS :: "string list" where
  "MODEL_DELTAS = [''model.reasoning_delta'', ''model.reasoning_completed'', ''model.text_delta'']"

definition model_status :: "agent_state \<Rightarrow> jval \<Rightarrow> string option" where
  "model_status s i =
     (case i of JStr k \<Rightarrow> map_option mi_status (map_of (st_modelInvocations s) k) | _ \<Rightarrow> None)"

definition modelInvocationIdForConcurrentBatch ::
  "agent_state \<Rightarrow> effect_lease \<Rightarrow> kernel_event list \<Rightarrow> string option" where
  "modelInvocationIdForConcurrentBatch s lease events =
     (case (le_effect lease, events) of
        (CallModel window, first # rest) \<Rightarrow>
          if le_turnId lease \<noteq> tn_turnId (st_turn s) \<or> tn_status (st_turn s) \<noteq> TurnActive then None
          else let ty = ev_type first; requestId = fld (ev_data first) ''requestId''; i = event_invocation first in
            if ty \<in> set MODEL_DELTAS
            then (if rest = [] \<and> model_status s requestId = Some ''dispatching'' then as_string requestId else None)
            else if ty = ''model.retry''
            then (if rest = [] \<and> model_status s i = Some ''dispatching'' then as_string i else None)
            else if ty = ''model.invocation_completed''
            then (if model_status s i = Some ''dispatching'' then as_string i else None)
            else if ty = ''model.invocation_interrupted''
            then (if model_status s i = Some ''prepared'' \<or> model_status s i = Some ''dispatching''
              then as_string i else None)
            else None
      | _ \<Rightarrow> None)"

definition model_reservation :: "agent_state \<Rightarrow> string \<Rightarrow> string option" where
  "model_reservation s invocationId =
     (case map_of (st_modelInvocations s) invocationId of None \<Rightarrow> None
      | Some m \<Rightarrow> (case mi_budget m of BudgetReservation reservationId p \<Rightarrow> Some reservationId | NoBudget \<Rightarrow> None))"

definition settles_reservation :: "agent_state \<Rightarrow> string \<Rightarrow> kernel_event \<Rightarrow> bool" where
  "settles_reservation s invocationId e =
     (case model_reservation s invocationId of None \<Rightarrow> False
      | Some reservationId \<Rightarrow> fld (ev_data e) ''reservationId'' = JStr reservationId)"

definition isConcurrentModelEffectEvent ::
  "agent_state \<Rightarrow> kernel_event \<Rightarrow> string \<Rightarrow> string \<Rightarrow> nat \<Rightarrow> bool" where
  "isConcurrentModelEffectEvent s e invocationId terminalType index =
     (if index = 0
      then (if terminalType \<in> set MODEL_DELTAS
         then ev_type e = terminalType \<and> fld (ev_data e) ''requestId'' = JStr invocationId
         else terminalType \<in> {''model.retry'', ''model.invocation_completed'', ''model.invocation_interrupted''} \<and>
           ev_type e = terminalType \<and> event_invocation e = JStr invocationId)
      else if terminalType = ''model.invocation_interrupted''
      then (ev_type e = ''resource_budget.released'' \<or> ev_type e = ''resource_budget.unknown'') \<and>
        settles_reservation s invocationId e
      else if terminalType \<noteq> ''model.invocation_completed'' then False
      else if ev_type e = ''model.responded'' then event_invocation e = JStr invocationId
      else if ev_type e = ''tool.queued'' then fld (ev_data e) ''modelInvocationId'' = JStr invocationId
      else if ev_type e = ''model.context_metrics'' \<or> ev_type e = ''model.cache_metrics'' then True
      else if ev_type e = ''resource_budget.reconciled'' then settles_reservation s invocationId e
      else False)"

definition isConcurrentModelEffectBatchCurrent ::
  "js_host \<Rightarrow> agent_state \<Rightarrow> effect_lease \<Rightarrow> kernel_event list \<Rightarrow> (nat \<Rightarrow> string) \<Rightarrow> bool res" where
  "isConcurrentModelEffectBatchCurrent h s lease events occurs =
     (case (truthy_option (modelInvocationIdForConcurrentBatch s lease events), events) of
        (Some invocationId, first # rest) \<Rightarrow>
          let terminalType = ev_type first in
          bind_res (replay h occurs (\<lambda>s i e. isConcurrentModelEffectEvent s e invocationId terminalType i) 0 s events)
            (\<lambda>projected. case projected of None \<Rightarrow> Inr False
              | Some s' \<Rightarrow> Inr (
                  if terminalType = ''model.invocation_completed''
                  then model_status s' (JStr invocationId) = Some ''completed''
                  else if terminalType = ''model.invocation_interrupted''
                  then model_status s' (JStr invocationId) = Some ''interrupted''
                  else terminalType = ''model.retry'' \<or> terminalType \<in> set MODEL_DELTAS))
      | _ \<Rightarrow> Inr False)"

end
