(* ===== verification/Kite_Admission_Inv.thy ===== *)
theory Kite_Admission_Inv
  imports Kite_Admission Kite_Coverage
begin

text \<open>
  What the host may commit: closing the capabilities of ended tool calls is complete, exact in the
  timestamps it needs and changes nothing else, and late evidence of a model invocation stays with
  that invocation.
\<close>

section \<open>Closing invocations\<close>

text \<open>The emitted identities are those of the terminals in the output, each once.\<close>

definition batch_ok :: "admission_batch \<Rightarrow> bool" where
  "batch_ok b \<longleftrightarrow> map event_invocation (filter isCapabilityTerminalEvent (ab_output b)) = rev (ab_emitted b) \<and>
     distinct (ab_emitted b)"

lemma terminal_kinds_apart: "isToolTerminalEvent e \<Longrightarrow> \<not> isCapabilityTerminalEvent e"
  by (auto simp: isToolTerminalEvent_def isCapabilityTerminalEvent_def)

lemma emit_ok:
  "batch_ok b \<Longrightarrow> isCapabilityTerminalEvent e \<Longrightarrow> event_invocation e = i \<Longrightarrow> i \<notin> set (ab_emitted b) \<Longrightarrow> batch_ok (emit e i b)"
  by (simp add: batch_ok_def emit_def)

lemma emit_fields [simp]:
  "ab_output (emit e i b) = ab_output b @ [e]" "ab_emitted (emit e i b) = i # ab_emitted b"
  by (simp_all add: emit_def)

lemma last_supplied_found:
  assumes "last_supplied events i = Some e"
  shows "e \<in> set events" "isCapabilityTerminalEvent e" "event_invocation e = i"
proof -
  let ?xs = "rev (filter isCapabilityTerminalEvent events)"
  obtain n where n: "n < length ?xs" "event_invocation (?xs ! n) = i" "e = ?xs ! n"
    using assms unfolding last_supplied_def find_Some_iff by blast
  then have "e \<in> set ?xs" by (metis nth_mem)
  then show "e \<in> set events" "isCapabilityTerminalEvent e" by simp_all
  show "event_invocation e = i" using n by simp
qed

lemma last_supplied_None:
  "last_supplied events i = None \<longleftrightarrow> i \<notin> event_invocation ` set (filter isCapabilityTerminalEvent events)"
  by (auto simp: last_supplied_def find_None_iff)

lemma suspended_terminal_closes:
  assumes "suspended_terminal e invocation t = Inr terminal"
  shows "isCapabilityTerminalEvent terminal" "event_invocation terminal = JStr (ci_invocationId invocation)"
  using assms
  by (auto simp: suspended_terminal_def Let_def res_simps isCapabilityTerminalEvent_def event_invocation_def split: if_splits)

text \<open>A terminal of the result was supplied, or closes an invocation nothing was supplied for.\<close>

definition terminal_grounds :: "kernel_event list \<Rightarrow> capability_invocation list \<Rightarrow> kernel_event \<Rightarrow> bool" where
  "terminal_grounds events invocations t \<longleftrightarrow> t \<in> set events \<or>
     (\<exists>invocation \<in> set invocations. event_invocation t = JStr (ci_invocationId invocation) \<and>
        (ci_status invocation = ''recorded'' \<or> ci_status invocation = ''running'') \<and>
        last_supplied events (event_invocation t) = None)"

lemma live_weaken: "live_invocation e taken invocation \<Longrightarrow> live_invocation e [] invocation"
  by (simp add: live_invocation_def)

lemma close_result:
  assumes "close_invocations h finishedAts events e invocations b = Inr b'" "batch_ok b"
  shows "batch_ok b' \<and> (\<exists>new. ab_output b' = ab_output b @ new \<and>
      (\<forall>t \<in> set new. isCapabilityTerminalEvent t \<and> terminal_grounds events invocations t)) \<and>
    set (ab_emitted b) \<subseteq> set (ab_emitted b') \<and>
    (\<forall>invocation \<in> set invocations. live_invocation e [] invocation \<longrightarrow> JStr (ci_invocationId invocation) \<in> set (ab_emitted b'))"
  using assms
proof (induction invocations arbitrary: b)
  case (Cons invocation rest)
  let ?i = "JStr (ci_invocationId invocation)"
  show ?case
  proof (cases "live_invocation e (ab_emitted b) invocation")
    case False
    then have "live_invocation e [] invocation \<longrightarrow> ?i \<in> set (ab_emitted b)" by (auto simp: live_invocation_def)
    moreover have "close_invocations h finishedAts events e rest b = Inr b'" using Cons.prems(1) False by simp
    ultimately show ?thesis using Cons.IH [OF _ Cons.prems(2)] by (force simp: terminal_grounds_def)
  next
    case True
    obtain t where t: "isCapabilityTerminalEvent t" "event_invocation t = ?i"
        "terminal_grounds events (invocation # rest) t"
      and next_step: "close_invocations h finishedAts events e rest (emit t ?i b) = Inr b'"
    proof (cases "last_supplied events ?i")
      case None
      with True Cons.prems(1) obtain ft t where
        "suspended_terminal e invocation ft = Inr t" "close_invocations h finishedAts events e rest (emit t ?i b) = Inr b'"
        by (auto simp: res_simps split: option.splits)
      then show thesis
        using that suspended_terminal_closes [of e invocation ft t] True None
        by (auto simp: terminal_grounds_def live_invocation_def)
    next
      case (Some t)
      then show thesis
        using that last_supplied_found [OF Some] True Cons.prems(1) by (auto simp: terminal_grounds_def)
    qed
    have "?i \<notin> set (ab_emitted b)" using True by (simp add: live_invocation_def)
    then have "batch_ok (emit t ?i b)" using Cons.prems(2) t by (intro emit_ok)
    from Cons.IH [OF next_step this] obtain new where new: "batch_ok b'" "ab_output b' = ab_output b @ t # new"
        "\<forall>u \<in> set new. isCapabilityTerminalEvent u \<and> terminal_grounds events rest u"
        "insert ?i (set (ab_emitted b)) \<subseteq> set (ab_emitted b')"
        "\<forall>invocation \<in> set rest. live_invocation e [] invocation \<longrightarrow> JStr (ci_invocationId invocation) \<in> set (ab_emitted b')"
      by auto
    then have "ab_output b' = ab_output b @ (t # new) \<and>
        (\<forall>u \<in> set (t # new). isCapabilityTerminalEvent u \<and> terminal_grounds events (invocation # rest) u)"
      using t by (auto simp: terminal_grounds_def)
    then show ?thesis using new by (intro conjI exI [of _ "t # new"]) auto
  qed
qed simp

section \<open>Attaching terminals to a batch\<close>

definition outcome_closed :: "capability_invocation list \<Rightarrow> kernel_event list \<Rightarrow> bool" where
  "outcome_closed invocations out \<longleftrightarrow>
     (\<forall>pre e post invocation. out = pre @ e # post \<longrightarrow> isToolTerminalEvent e \<longrightarrow> invocation \<in> set invocations \<longrightarrow>
        live_invocation e [] invocation \<longrightarrow>
        JStr (ci_invocationId invocation) \<in> event_invocation ` set (filter isCapabilityTerminalEvent pre))"

lemma outcome_closed_snoc:
  "outcome_closed invocations (out @ [x]) \<longleftrightarrow> outcome_closed invocations out \<and>
     (isToolTerminalEvent x \<longrightarrow> (\<forall>invocation \<in> set invocations. live_invocation x [] invocation \<longrightarrow>
        JStr (ci_invocationId invocation) \<in> event_invocation ` set (filter isCapabilityTerminalEvent out)))"
  (is "?L \<longleftrightarrow> ?R")
proof
  assume L: ?L
  show ?R
  proof (intro conjI impI ballI)
    show "outcome_closed invocations out" unfolding outcome_closed_def
    proof (intro allI impI)
      fix pre e post invocation assume "out = pre @ e # post" "isToolTerminalEvent e" "invocation \<in> set invocations"
        "live_invocation e [] invocation"
      moreover from this have "out @ [x] = pre @ e # (post @ [x])" by simp
      ultimately show "JStr (ci_invocationId invocation) \<in> event_invocation ` set (filter isCapabilityTerminalEvent pre)"
        using L unfolding outcome_closed_def by blast
    qed
  qed (use L in \<open>simp add: outcome_closed_def\<close>)
next
  assume R: ?R
  then show ?L unfolding outcome_closed_def [of _ "out @ [x]"]
  proof (intro allI impI)
    fix pre e post invocation assume a: "out @ [x] = pre @ e # post" "isToolTerminalEvent e" "invocation \<in> set invocations"
        "live_invocation e [] invocation"
    show "JStr (ci_invocationId invocation) \<in> event_invocation ` set (filter isCapabilityTerminalEvent pre)"
    proof (cases post rule: rev_cases)
      case Nil
      then show ?thesis using a R by simp
    next
      case (snoc ys y)
      then have "out = pre @ e # ys" using a(1) by simp
      then show ?thesis using a(2-4) R unfolding outcome_closed_def by blast
    qed
  qed
qed

lemma outcome_closed_append:
  "\<forall>t \<in> set new. isCapabilityTerminalEvent t \<Longrightarrow> outcome_closed invocations out \<Longrightarrow> outcome_closed invocations (out @ new)"
proof (induction new rule: rev_induct)
  case (snoc x xs)
  then have "outcome_closed invocations (out @ xs)" by simp
  then show ?case using snoc.prems(1) terminal_kinds_apart
    unfolding append_assoc [symmetric] outcome_closed_snoc by auto
qed simp

abbreviation other_events :: "kernel_event list \<Rightarrow> kernel_event list" where
  "other_events \<equiv> filter (\<lambda>e. \<not> isCapabilityTerminalEvent e)"

lemma attach_result:
  assumes "attach_events h finishedAts events invocations rest b = Inr b'" "batch_ok b"
    "outcome_closed invocations (ab_output b)" "set rest \<subseteq> set events"
    "\<forall>t \<in> set (ab_output b). isCapabilityTerminalEvent t \<longrightarrow> terminal_grounds events invocations t"
  shows "batch_ok b' \<and> outcome_closed invocations (ab_output b') \<and>
    other_events (ab_output b') = other_events (ab_output b) @ other_events rest \<and>
    (\<forall>t \<in> set (ab_output b'). isCapabilityTerminalEvent t \<longrightarrow> terminal_grounds events invocations t) \<and>
    set (ab_emitted b) \<union> event_invocation ` set (filter isCapabilityTerminalEvent rest) \<subseteq> set (ab_emitted b')"
  using assms
proof (induction rest arbitrary: b)
  case (Cons e rest)
  consider (capability) "isCapabilityTerminalEvent e"
    | (plain) "\<not> isCapabilityTerminalEvent e" "\<not> isToolTerminalEvent e"
    | (tool) "isToolTerminalEvent e" "\<not> isCapabilityTerminalEvent e"
    using terminal_kinds_apart by blast
  then show ?case
  proof cases
    case capability
    let ?b = "if event_invocation e \<in> set (ab_emitted b) then b else emit e (event_invocation e) b"
    have "batch_ok ?b" using Cons.prems(2) capability by (simp add: emit_ok)
    moreover have "outcome_closed invocations (ab_output ?b)"
      using Cons.prems(3) outcome_closed_append [of "[e]"] capability by simp
    moreover have "\<forall>t \<in> set (ab_output ?b). isCapabilityTerminalEvent t \<longrightarrow> terminal_grounds events invocations t"
      using Cons.prems(4,5) by (auto simp: terminal_grounds_def)
    moreover have "attach_events h finishedAts events invocations rest ?b = Inr b'" using Cons.prems(1) capability by simp
    ultimately show ?thesis using Cons.IH [of ?b] Cons.prems(4) capability by (auto split: if_splits)
  next
    case plain
    let ?b = "b\<lparr>ab_output := ab_output b @ [e]\<rparr>"
    have "batch_ok ?b" using Cons.prems(2) plain by (simp add: batch_ok_def)
    moreover have "outcome_closed invocations (ab_output ?b)" using Cons.prems(3) plain by (simp add: outcome_closed_snoc)
    moreover have "attach_events h finishedAts events invocations rest ?b = Inr b'" using Cons.prems(1) plain by simp
    ultimately show ?thesis using Cons.IH [of ?b] Cons.prems(4,5) plain by simp
  next
    case tool
    obtain b1 where b1: "close_invocations h finishedAts events e invocations b = Inr b1"
      "attach_events h finishedAts events invocations rest (b1\<lparr>ab_output := ab_output b1 @ [e]\<rparr>) = Inr b'"
      using Cons.prems(1) tool by (auto simp: res_simps)
    let ?b = "b1\<lparr>ab_output := ab_output b1 @ [e]\<rparr>"
    note closed = close_result [OF b1(1) Cons.prems(2)]
    then obtain new where new: "ab_output b1 = ab_output b @ new"
      "\<forall>t \<in> set new. isCapabilityTerminalEvent t \<and> terminal_grounds events invocations t" by blast
    have ids: "event_invocation ` set (filter isCapabilityTerminalEvent (ab_output b1)) = set (ab_emitted b1)"
      using closed unfolding batch_ok_def by (metis set_map set_rev)
    have ok: "batch_ok ?b" using closed tool by (simp add: batch_ok_def)
    have "outcome_closed invocations (ab_output b1)"
      unfolding new(1) using new(2) by (intro outcome_closed_append [OF _ Cons.prems(3)]) blast
    then have out: "outcome_closed invocations (ab_output ?b)"
      using closed by (simp add: outcome_closed_snoc ids [simplified])
    have rest: "set rest \<subseteq> set events" using Cons.prems(4) by simp
    have grounds: "\<forall>t \<in> set (ab_output ?b). isCapabilityTerminalEvent t \<longrightarrow> terminal_grounds events invocations t"
      using Cons.prems(5) new(2) tool(2) by (simp add: new(1) ball_Un)
    have others: "other_events (ab_output ?b) = other_events (ab_output b) @ [e]"
      using new(2) tool(2) by (simp add: new(1) filter_empty_conv)
    have emitted: "set (ab_emitted b) \<subseteq> set (ab_emitted ?b)" using closed by simp
    from Cons.IH [OF b1(2) ok out rest grounds] show ?thesis
      using emitted tool(2) unfolding others by (simp add: subset_trans)
  qed
qed simp

text \<open>
  C13: no capability outlives the tool call it ran for. When terminals are attached to a batch, the
  other events stay as they were and in order; every invocation has at most one terminal, and every
  supplied one keeps one; before the end of a tool call there is a terminal for every invocation of
  that call that was recorded or running; and a terminal in the result was supplied or closes an
  invocation that was recorded or running and for which none was supplied.
\<close>

theorem attached_batch_closes_invocations:
  assumes "attachSuspendedCapabilityTerminals h s events finishedAts = Inr out"
  shows "filter (\<lambda>e. \<not> isCapabilityTerminalEvent e) out = filter (\<lambda>e. \<not> isCapabilityTerminalEvent e) events \<and>
    distinct (map event_invocation (filter isCapabilityTerminalEvent out)) \<and>
    (\<forall>t \<in> set events. isCapabilityTerminalEvent t \<longrightarrow>
       event_invocation t \<in> event_invocation ` set (filter isCapabilityTerminalEvent out)) \<and>
    (\<forall>pre e post invocation. out = pre @ e # post \<longrightarrow> isToolTerminalEvent e \<longrightarrow>
       invocation \<in> set (obj_values (st_invocations s)) \<longrightarrow> live_invocation e [] invocation \<longrightarrow>
       JStr (ci_invocationId invocation) \<in> event_invocation ` set (filter isCapabilityTerminalEvent pre)) \<and>
    (\<forall>t \<in> set out. isCapabilityTerminalEvent t \<longrightarrow> terminal_grounds events (obj_values (st_invocations s)) t)"
proof -
  let ?b0 = "\<lparr>ab_output = [], ab_emitted = []\<rparr>" and ?invocations = "obj_values (st_invocations s)"
  obtain b where b: "attach_events h finishedAts events ?invocations events ?b0 = Inr b" "out = ab_output b"
    using assms by (auto simp: attachSuspendedCapabilityTerminals_def res_simps)
  have "batch_ok ?b0" "outcome_closed ?invocations (ab_output ?b0)" by (simp_all add: batch_ok_def outcome_closed_def)
  note result = attach_result [OF b(1) this subset_refl]
  then have ids: "map event_invocation (filter isCapabilityTerminalEvent out) = rev (ab_emitted b)" "distinct (ab_emitted b)"
    using b(2) by (simp_all add: batch_ok_def)
  then have "event_invocation ` set (filter isCapabilityTerminalEvent out) = set (ab_emitted b)"
    by (metis set_map set_rev)
  then show ?thesis using result b(2) ids unfolding outcome_closed_def by auto
qed

section \<open>The timestamps the host owes\<close>

text \<open>A finished call carries its result and a failed one its failure.\<close>

definition payload_present :: "kernel_event \<Rightarrow> bool" where
  "payload_present e \<longleftrightarrow> (ev_type e = ''tool.finished'' \<longrightarrow> \<not> nullish (fld (ev_data e) ''result'')) \<and>
     (ev_type e = ''tool.failed'' \<longrightarrow> \<not> nullish (fld (ev_data e) ''failure''))"

definition timestamp_error :: "string \<Rightarrow> js_error" where
  "timestamp_error i = JsError (''Suspended capability terminal '' @ i @ '' requires a valid Host timestamp.'')"

lemma suspended_terminal_total: "payload_present e \<Longrightarrow> \<exists>t. suspended_terminal e invocation ft = Inr t"
  by (auto simp: suspended_terminal_def payload_present_def tool_succeeded_def suspended_error_def Let_def)

text \<open>The requirements a step adds are met, or the step fails on one that is not.\<close>

definition owes :: "js_host \<Rightarrow> (string \<times> string) list \<Rightarrow> jval set \<Rightarrow> jval list \<Rightarrow> (string \<times> string) list \<Rightarrow>
    admission_batch res \<Rightarrow> bool" where
  "owes h finishedAts supplied taken new result \<longleftrightarrow>
     (case result of
        Inr b \<Rightarrow> (\<forall>r \<in> set new. host_timestamp h finishedAts (fst r) \<noteq> None) \<and> set taken = supplied \<union> set (ab_emitted b)
      | Inl err \<Rightarrow> (\<exists>r \<in> set new. host_timestamp h finishedAts (fst r) = None \<and> err = timestamp_error (fst r)))"

abbreviation supplied_ids :: "kernel_event list \<Rightarrow> jval set" where
  "supplied_ids events \<equiv> event_invocation ` set (filter isCapabilityTerminalEvent events)"

lemma close_owes:
  assumes "payload_present e" "set taken = supplied_ids events \<union> set (ab_emitted b)"
  shows "\<exists>taken' new. require_invocations e invocations (taken, reqs) = (taken', reqs @ new) \<and>
    owes h finishedAts (supplied_ids events) taken' new (close_invocations h finishedAts events e invocations b)"
  using assms(2)
proof (induction invocations arbitrary: taken reqs b)
  case Nil
  then show ?case by (simp add: owes_def)
next
  case (Cons invocation rest)
  let ?i = "JStr (ci_invocationId invocation)" and ?r = "(ci_invocationId invocation, ci_toolCallId invocation)"
  consider (skipped) "\<not> live_invocation e (ab_emitted b) invocation" "\<not> live_invocation e taken invocation"
    | (supplied) t where "live_invocation e (ab_emitted b) invocation" "\<not> live_invocation e taken invocation"
        "last_supplied events ?i = Some t"
    | (owed) "live_invocation e (ab_emitted b) invocation" "live_invocation e taken invocation"
        "last_supplied events ?i = None"
    using Cons.prems last_supplied_None [of events ?i] by (cases "last_supplied events ?i") (auto simp: live_invocation_def)
  then show ?case
  proof cases
    case skipped
    then show ?thesis using Cons.IH [OF Cons.prems, of reqs] by simp
  next
    case supplied
    have "?i \<in> supplied_ids events" using last_supplied_found [OF supplied(3)] by force
    then have "set taken = supplied_ids events \<union> set (ab_emitted (emit t ?i b))" using Cons.prems by auto
    from Cons.IH [OF this, of reqs] show ?thesis using supplied by simp
  next
    case owed
    show ?thesis
    proof (cases "host_timestamp h finishedAts (ci_invocationId invocation)")
      case None
      have "\<exists>taken' new. require_invocations e rest (?i # taken, reqs @ [?r]) = (taken', (reqs @ [?r]) @ new)"
        using Cons.IH [of "?i # taken" "\<lparr>ab_output = [], ab_emitted = ?i # ab_emitted b\<rparr>" "reqs @ [?r]"] Cons.prems by auto
      then show ?thesis using owed None by (force simp: owes_def timestamp_error_def)
    next
      case (Some ft)
      obtain t where t: "suspended_terminal e invocation ft = Inr t" using suspended_terminal_total [OF assms(1)] by blast
      have "set (?i # taken) = supplied_ids events \<union> set (ab_emitted (emit t ?i b))" using Cons.prems by auto
      from Cons.IH [OF this, of "reqs @ [?r]"] obtain taken' new where
        "require_invocations e rest (?i # taken, reqs @ [?r]) = (taken', (reqs @ [?r]) @ new)"
        "owes h finishedAts (supplied_ids events) taken' new (close_invocations h finishedAts events e rest (emit t ?i b))"
        by blast
      then show ?thesis using owed Some t
        by (intro exI [of _ taken'] exI [of _ "?r # new"]) (auto simp: owes_def split: sum.splits)
    qed
  qed
qed

lemma require_invocations_extends:
  "\<exists>taken' new. require_invocations e invocations (taken, reqs) = (taken', reqs @ new)"
proof (induction invocations arbitrary: taken reqs)
  case (Cons invocation rest)
  show ?case
    using Cons [of taken reqs] Cons [of "JStr (ci_invocationId invocation) # taken"
        "reqs @ [(ci_invocationId invocation, ci_toolCallId invocation)]"] by auto
qed simp

lemma require_events_extends: "\<exists>taken' new. require_events invocations events (taken, reqs) = (taken', reqs @ new)"
proof (induction events arbitrary: taken reqs)
  case (Cons e rest)
  obtain taken1 new1 where "require_invocations e invocations (taken, reqs) = (taken1, reqs @ new1)"
    using require_invocations_extends by blast
  then show ?case using Cons [of taken reqs] Cons [of taken1 "reqs @ new1"] by auto
qed simp

lemma attach_owes:
  assumes "\<forall>e \<in> set rest. payload_present e" "set taken = supplied_ids events \<union> set (ab_emitted b)"
    "supplied_ids rest \<subseteq> supplied_ids events"
  shows "\<exists>taken' new. require_events invocations rest (taken, reqs) = (taken', reqs @ new) \<and>
    owes h finishedAts (supplied_ids events) taken' new (attach_events h finishedAts events invocations rest b)"
  using assms
proof (induction rest arbitrary: taken reqs b)
  case Nil
  then show ?case by (simp add: owes_def)
next
  case (Cons e rest)
  have rest: "supplied_ids rest \<subseteq> supplied_ids events" "\<forall>e \<in> set rest. payload_present e" using Cons.prems by auto
  consider (capability) "isCapabilityTerminalEvent e" "\<not> isToolTerminalEvent e"
    | (plain) "\<not> isCapabilityTerminalEvent e" "\<not> isToolTerminalEvent e"
    | (tool) "isToolTerminalEvent e" "\<not> isCapabilityTerminalEvent e"
    using terminal_kinds_apart by blast
  then show ?case
  proof cases
    case capability
    let ?b = "if event_invocation e \<in> set (ab_emitted b) then b else emit e (event_invocation e) b"
    have "event_invocation e \<in> supplied_ids events" using Cons.prems(3) capability by auto
    then have "set taken = supplied_ids events \<union> set (ab_emitted ?b)" using Cons.prems(2) by auto
    from Cons.IH [OF rest(2) this rest(1), of reqs] show ?thesis using capability by simp
  next
    case plain
    have "set taken = supplied_ids events \<union> set (ab_emitted (b\<lparr>ab_output := ab_output b @ [e]\<rparr>))" using Cons.prems(2) by simp
    from Cons.IH [OF rest(2) this rest(1), of reqs] show ?thesis using plain by simp
  next
    case tool
    obtain taken1 new1 where step: "require_invocations e invocations (taken, reqs) = (taken1, reqs @ new1)"
      "owes h finishedAts (supplied_ids events) taken1 new1 (close_invocations h finishedAts events e invocations b)"
      using close_owes [OF _ Cons.prems(2)] Cons.prems(1) by (metis list.set_intros(1))
    show ?thesis
    proof (cases "close_invocations h finishedAts events e invocations b")
      case (Inl err)
      have "\<exists>taken' new. require_events invocations rest (taken1, reqs @ new1) = (taken', (reqs @ new1) @ new)"
        for taken1 :: "jval list" and reqs new1
        by (rule require_events_extends)
      then show ?thesis using step tool Inl by (force simp: owes_def)
    next
      case (Inr b1)
      then have "set taken1 = supplied_ids events \<union> set (ab_emitted (b1\<lparr>ab_output := ab_output b1 @ [e]\<rparr>))"
        using step(2) by (simp add: owes_def)
      from Cons.IH [OF rest(2) this rest(1), of "reqs @ new1"] obtain taken' new where
        "require_events invocations rest (taken1, reqs @ new1) = (taken', (reqs @ new1) @ new)"
        "owes h finishedAts (supplied_ids events) taken' new
          (attach_events h finishedAts events invocations rest (b1\<lparr>ab_output := ab_output b1 @ [e]\<rparr>))" by blast
      then show ?thesis using step tool Inr
        by (intro exI [of _ taken'] exI [of _ "new1 @ new"]) (auto simp: owes_def split: sum.splits)
    qed
  qed
qed

text \<open>
  C23: the host learns beforehand exactly which timestamps it owes. For a batch whose tool terminals
  carry their payload, attaching terminals succeeds if and only if the host has a valid timestamp for
  each invocation that \<open>suspendedCapabilityTerminalRequirements\<close> names; if it fails, the error names one
  that has none.
\<close>

theorem requirements_are_exact:
  assumes "\<forall>e \<in> set events. payload_present e"
  shows "((\<exists>out. attachSuspendedCapabilityTerminals h s events finishedAts = Inr out) \<longleftrightarrow>
      (\<forall>r \<in> set (suspendedCapabilityTerminalRequirements s events). host_timestamp h finishedAts (fst r) \<noteq> None)) \<and>
    (\<forall>err. attachSuspendedCapabilityTerminals h s events finishedAts = Inl err \<longrightarrow>
      (\<exists>r \<in> set (suspendedCapabilityTerminalRequirements s events). host_timestamp h finishedAts (fst r) = None \<and>
         err = timestamp_error (fst r)))"
proof -
  let ?b0 = "\<lparr>ab_output = [], ab_emitted = []\<rparr>" and ?invocations = "obj_values (st_invocations s)"
  have "set (map event_invocation (filter isCapabilityTerminalEvent events)) = supplied_ids events \<union> set (ab_emitted ?b0)"
    by simp
  from attach_owes [OF assms this order_refl, of ?invocations "[]" h finishedAts] obtain taken new where
    "require_events ?invocations events (map event_invocation (filter isCapabilityTerminalEvent events), []) = (taken, new)"
    and result: "owes h finishedAts (supplied_ids events) taken new (attach_events h finishedAts events ?invocations events ?b0)"
    by auto
  then have "suspendedCapabilityTerminalRequirements s events = new"
    by (simp add: suspendedCapabilityTerminalRequirements_def)
  then show ?thesis
    using result
    by (cases "attach_events h finishedAts events ?invocations events ?b0")
      (auto simp: attachSuspendedCapabilityTerminals_def owes_def)
qed

section \<open>Late evidence of a model invocation\<close>

lemma replay_checks:
  assumes "replay h occurs current i s events = Inr (Some s')" "j < length events"
  shows "\<exists>sj. current sj (i + j) (events ! j) \<and> host_time h (occurs (i + j))"
  using assms
proof (induction events arbitrary: i s j)
  case (Cons e events)
  then have now: "current s i e" "host_time h (occurs i)"
    and later: "\<exists>s1. replay h occurs current (Suc i) s1 events = Inr (Some s')"
    by (auto simp: res_simps split: if_splits)
  show ?case
  proof (cases j)
    case 0
    then show ?thesis using now by auto
  next
    case (Suc k)
    then show ?thesis using Cons.IH [of "Suc i" _ k] later Cons.prems(2) by auto
  qed
qed simp

text \<open>The events that may follow a late completion or interruption.\<close>

definition evidence_of :: "string \<Rightarrow> kernel_event \<Rightarrow> bool" where
  "evidence_of i e \<longleftrightarrow>
     ev_type e \<in> {''model.responded'', ''model.retry'', ''model.invocation_completed'', ''model.invocation_interrupted''} \<and>
       event_invocation e = JStr i \<or>
     ev_type e \<in> set MODEL_DELTAS \<and> fld (ev_data e) ''requestId'' = JStr i \<or>
     ev_type e = ''tool.queued'' \<and> fld (ev_data e) ''modelInvocationId'' = JStr i \<or>
     ev_type e \<in> {''model.context_metrics'', ''model.cache_metrics''} \<or>
     ev_type e \<in> {''resource_budget.released'', ''resource_budget.unknown'', ''resource_budget.reconciled''} \<and>
       (\<exists>s. settles_reservation s i e)"

lemma model_event_evidence: "isConcurrentModelEffectEvent s e i ty n \<Longrightarrow> evidence_of i e"
  by (auto simp: isConcurrentModelEffectEvent_def evidence_of_def split: if_splits)

lemma concurrent_model_cases:
  assumes "modelInvocationIdForConcurrentBatch s lease events = Some i"
  shows "le_turnId lease = tn_turnId (st_turn s)" "tn_status (st_turn s) = TurnActive" "\<exists>w. le_effect lease = CallModel w"
    "model_status s (JStr i) = Some ''dispatching'' \<or>
     model_status s (JStr i) = Some ''prepared'' \<and> ev_type (hd events) = ''model.invocation_interrupted''"
  using assms
  by (auto simp: modelInvocationIdForConcurrentBatch_def Let_def as_string_def
      split: runtime_effect.splits list.splits if_splits jval.splits)

text \<open>
  C26: late evidence of a model call stays with that call. A batch admitted after the state has moved on
  belongs to the active turn and to a model call; the invocation is dispatching, or prepared and now
  interrupted; every event is evidence of that invocation, at a valid time, so that nothing in it
  prepares an invocation or starts an attempt; and replaying it leaves a completed invocation completed
  and an interrupted one interrupted.
\<close>

theorem late_model_evidence_fenced:
  assumes "isConcurrentModelEffectBatchCurrent h s lease events occurs = Inr True"
  shows "\<exists>i. le_turnId lease = tn_turnId (st_turn s) \<and> tn_status (st_turn s) = TurnActive \<and>
    (\<exists>w. le_effect lease = CallModel w) \<and>
    (model_status s (JStr i) = Some ''dispatching'' \<or>
     model_status s (JStr i) = Some ''prepared'' \<and> ev_type (hd events) = ''model.invocation_interrupted'') \<and>
    (\<forall>j < length events. evidence_of i (events ! j) \<and> host_time h (occurs j) \<and>
       ev_type (events ! j) \<notin> {''model.invocation_prepared'', ''model.invocation_attempt_started''}) \<and>
    (\<exists>s'. (ev_type (hd events) = ''model.invocation_completed'' \<longrightarrow> model_status s' (JStr i) = Some ''completed'') \<and>
       (ev_type (hd events) = ''model.invocation_interrupted'' \<longrightarrow> model_status s' (JStr i) = Some ''interrupted'') \<and>
       replay h occurs (\<lambda>s n e. isConcurrentModelEffectEvent s e i (ev_type (hd events)) n) 0 s events = Inr (Some s'))"
proof -
  obtain i where i: "truthy_option (modelInvocationIdForConcurrentBatch s lease events) = Some i"
    using assms by (cases "truthy_option (modelInvocationIdForConcurrentBatch s lease events)")
      (auto simp: isConcurrentModelEffectBatchCurrent_def)
  obtain first rest where events: "events = first # rest"
    using assms by (cases events) (auto simp: isConcurrentModelEffectBatchCurrent_def split: option.splits)
  let ?current = "\<lambda>s n e. isConcurrentModelEffectEvent s e i (ev_type (hd events)) n"
  have named: "modelInvocationIdForConcurrentBatch s lease events = Some i"
    using i by (auto simp: truthy_option_def split: option.splits if_splits)
  obtain s' where s': "replay h occurs ?current 0 s events = Inr (Some s')"
    and final: "ev_type (hd events) = ''model.invocation_completed'' \<longrightarrow> model_status s' (JStr i) = Some ''completed''"
      "ev_type (hd events) = ''model.invocation_interrupted'' \<longrightarrow> model_status s' (JStr i) = Some ''interrupted''"
    using assms i by (auto simp: isConcurrentModelEffectBatchCurrent_def events Let_def res_simps split: option.splits if_splits)
  have "evidence_of i (events ! j) \<and> host_time h (occurs j)" if "j < length events" for j
    using replay_checks [OF s' that] model_event_evidence by auto
  moreover have "ev_type e \<notin> {''model.invocation_prepared'', ''model.invocation_attempt_started''}" if "evidence_of i e" for e
    using that by (auto simp: evidence_of_def MODEL_DELTAS_def)
  ultimately show ?thesis using concurrent_model_cases [OF named] s' final by blast
qed

section \<open>Samples\<close>

definition open_state :: agent_state where
  "open_state = fresh_state\<lparr>st_invocations := [(''i'', invocation_of ''i'' [(''invocationId'', JStr ''i''),
     (''toolCallId'', JStr ''c''), (''status'', JStr ''running'')])]\<rparr>"

definition cancel_batch :: "kernel_event list" where
  "cancel_batch = [\<lparr>ev_type = ''tool.cancelled'', ev_data = [(''toolCallId'', JStr ''c''), (''reason'', JStr ''stopped'')]\<rparr>]"

definition unknown_terminal :: kernel_event where
  "unknown_terminal = \<lparr>ev_type = ''capability.execution_unknown'', ev_data = [(''invocationId'', JStr ''i''),
     (''reason'', JStr ''Suspended Tool terminal has no committed capability result evidence.''),
     (''finishedAt'', JStr ''2025-01-01T00:00:00.000Z'')]\<rparr>"

lemma open_invocations: "obj_values (st_invocations open_state) =
  [invocation_of ''i'' [(''invocationId'', JStr ''i''), (''toolCallId'', JStr ''c''), (''status'', JStr ''running'')]]"
  by (simp add: open_state_def obj_values_def)

lemma cancel_attached:
  assumes "date_parse h ''2025-01-01T00:00:00.000Z'' \<noteq> None"
  shows "attachSuspendedCapabilityTerminals h open_state cancel_batch [(''i'', ''2025-01-01T00:00:00.000Z'')] =
    Inr (unknown_terminal # cancel_batch)"
  using assms
  by (auto simp: attachSuspendedCapabilityTerminals_def open_invocations cancel_batch_def isCapabilityTerminalEvent_def
      isToolTerminalEvent_def live_invocation_def named_call_of_def invocation_of_def text_of_def as_string_def or_default_def
      last_supplied_def host_timestamp_def suspended_terminal_def unknown_terminal_def Let_def emit_def)

theorem attached_batch_closes_invocations_witness:
  "attachSuspendedCapabilityTerminals sample_host open_state cancel_batch [(''i'', ''2025-01-01T00:00:00.000Z'')] =
     Inr (unknown_terminal # cancel_batch) \<and>
   distinct (map event_invocation (filter isCapabilityTerminalEvent (unknown_terminal # cancel_batch)))"
proof -
  have out: "attachSuspendedCapabilityTerminals sample_host open_state cancel_batch [(''i'', ''2025-01-01T00:00:00.000Z'')] =
      Inr (unknown_terminal # cancel_batch)"
    by (rule cancel_attached) (simp add: sample_host_def)
  then show ?thesis using attached_batch_closes_invocations [OF out] by blast
qed

theorem requirements_are_exact_witness:
  "list_all (\<lambda>r. host_timestamp sample_host [(''i'', ''2025-01-01T00:00:00.000Z'')] (fst r) \<noteq> None)
      (suspendedCapabilityTerminalRequirements open_state cancel_batch) \<and>
   list_ex (\<lambda>r. host_timestamp sample_host [] (fst r) = None)
      (suspendedCapabilityTerminalRequirements open_state cancel_batch)"
proof -
  have present: "\<forall>e \<in> set cancel_batch. payload_present e" by (simp add: cancel_batch_def payload_present_def)
  have "attachSuspendedCapabilityTerminals sample_host open_state cancel_batch [(''i'', ''2025-01-01T00:00:00.000Z'')] =
      Inr (unknown_terminal # cancel_batch)"
    by (rule cancel_attached) (simp add: sample_host_def)
  moreover have "\<not> (\<exists>out. attachSuspendedCapabilityTerminals sample_host open_state cancel_batch [] = Inr out)"
    by (simp add: attachSuspendedCapabilityTerminals_def open_invocations cancel_batch_def isCapabilityTerminalEvent_def
        isToolTerminalEvent_def live_invocation_def named_call_of_def invocation_of_def text_of_def as_string_def or_default_def
        last_supplied_def host_timestamp_def Let_def)
  moreover note exact = conjunct1 [OF requirements_are_exact [OF present, of sample_host open_state]]
  ultimately show ?thesis
    using exact [of "[(''i'', ''2025-01-01T00:00:00.000Z'')]"] exact [of "[]"]
    by (simp add: list_all_iff list_ex_iff)
qed

definition dispatching_state :: agent_state where
  "dispatching_state = fresh_state\<lparr>st_modelInvocations := [(''m'', model_of ''m'' [(''status'', JStr ''dispatching'')])]\<rparr>"

definition retry_event :: kernel_event where
  "retry_event = \<lparr>ev_type = ''model.retry'', ev_data = [(''invocationId'', JStr ''m''), (''attempt'', JNum 1),
     (''maxAttempts'', JNum 2), (''error'', JStr ''busy''), (''delayMs'', JNum 10)]\<rparr>"

definition call_lease :: effect_lease where
  "call_lease = \<lparr>le_turnId = ''turn-1'', le_effect = CallModel None\<rparr>"

lemma retry_reduces:
  "reduce sample_host s [Kite_Outcome.normalizeAgentEvent sample_host retry_event s t] = Inr s"
proof -
  have "Kite_Outcome.normalizeAgentEvent sample_host retry_event s t = retry_event"
    by (simp add: Kite_Outcome.normalizeAgentEvent_def normalizeTerminalAgentEvent_def normalizeAgentToolOutcomeEvent_def
        retry_event_def TOOL_TERMINAL_EVENTS_def obj_keys_def)
  moreover have "assertCurrentRuntimeEvent sample_host retry_event = ok" by code_simp
  moreover have "ev_type retry_event \<in> set STATE_DIAGNOSTIC_EVENT_TYPES \<union> set STATE_DEFAULT_EVENT_TYPES"
    by (simp add: retry_event_def STATE_DIAGNOSTIC_EVENT_TYPES_def)
  ultimately show ?thesis by (simp add: quiet_reduces)
qed

theorem late_model_evidence_fenced_witness:
  "\<exists>i. model_status dispatching_state (JStr i) = Some ''dispatching'' \<and> evidence_of i retry_event"
proof -
  have "modelInvocationIdForConcurrentBatch dispatching_state call_lease [retry_event] = Some ''m''" by code_simp
  moreover have "host_time sample_host ''1''" by (simp add: host_time_def sample_host_def)
  moreover have "isConcurrentModelEffectEvent s retry_event ''m'' (ev_type retry_event) 0" for s
    by (simp add: isConcurrentModelEffectEvent_def retry_event_def event_invocation_def MODEL_DELTAS_def)
  moreover have "ev_type retry_event = ''model.retry''" by (simp add: retry_event_def)
  ultimately have "isConcurrentModelEffectBatchCurrent sample_host dispatching_state call_lease [retry_event] (\<lambda>n. ''1'') = Inr True"
    using retry_reduces by (simp add: isConcurrentModelEffectBatchCurrent_def truthy_option_def)
  from late_model_evidence_fenced [OF this] show ?thesis by (auto simp: retry_event_def)
qed

end
