(* ===== verification/Kite_Governance.thy ===== *)
theory Kite_Governance
  imports Kite_Approval
begin

text \<open>
  src/packages/agent-kernel/src/tool-governance.ts: whether a tool call may run. The host sends facts
  about the call (its identity, the compiled policy, the session's context, a recorded approval, a
  standing grant); the kernel validates the whole envelope, authorises the call, and admits it
  against its reservations. The facts arrive as unknown JSON and are read field by field as the
  source reads them. Freezing the decision (\<open>deepFreeze\<close>) does not change its value and is left
  out; JSON data has neither accessors, symbols nor foreign prototypes.
\<close>

section \<open>Decisions\<close>

datatype governance_outcome =
    GovReject string jval "string option"
  | GovRequestApproval jobj
  | GovRequestAutoReview jobj
  | GovRequestUserInput

datatype governance_authorization =
    Authorized string jval
  | Unauthorized governance_outcome

datatype governance_decision =
    Admit string jval "string list"
  | Withhold governance_outcome

definition governance_reject :: "string \<Rightarrow> string \<Rightarrow> string option \<Rightarrow> governance_outcome" where
  "governance_reject failureKind reason code = GovReject failureKind (JStr reason) code"

section \<open>SHA-256\<close>

text \<open>
  The module has a second copy of the digest. Its message schedule and compression loop are the
  text of hash.ts; the padding writes into an array of the final length, and the encoder has no
  replacement of unpaired surrogates.
\<close>

unbundle bit_operations_syntax

fun governance_utf8Bytes :: "nat list \<Rightarrow> nat list" where
  "governance_utf8Bytes [] = []"
| "governance_utf8Bytes (unit # rest) =
     (let pair = 0xd800 \<le> unit \<and> unit \<le> 0xdbff \<and> rest \<noteq> [] \<and> 0xdc00 \<le> hd rest \<and> hd rest \<le> 0xdfff;
          codePoint = (if pair then 0x10000 + push_bit 10 (unit - 0xd800) + (hd rest - 0xdc00) else unit);
          remaining = governance_utf8Bytes (if pair then tl rest else rest) in
      if codePoint \<le> 0x7f then codePoint # remaining
      else if codePoint \<le> 0x7ff then
        [0xc0 OR drop_bit 6 codePoint, 0x80 OR (codePoint AND 0x3f)] @ remaining
      else if codePoint \<le> 0xffff then
        [0xe0 OR drop_bit 12 codePoint, 0x80 OR (drop_bit 6 codePoint AND 0x3f),
         0x80 OR (codePoint AND 0x3f)] @ remaining
      else
        [0xf0 OR drop_bit 18 codePoint, 0x80 OR (drop_bit 12 codePoint AND 0x3f),
         0x80 OR (drop_bit 6 codePoint AND 0x3f), 0x80 OR (codePoint AND 0x3f)] @ remaining)"

definition governance_padded :: "nat list \<Rightarrow> nat list" where
  "governance_padded bytes =
     (let bitLength = length bytes * 8;
          paddedLength = (length bytes + 9 + 63) div 64 * 64;
          padded = bytes @ replicate (paddedLength - length bytes) 0 in
      foldl (\<lambda>p index. p[length p - 1 - index := (bitLength div 2 ^ (index * 8)) AND 0xff])
        (padded[length bytes := 0x80]) [0..<8])"

definition governance_sha256 :: "nat list \<Rightarrow> string" where
  "governance_sha256 units =
     (let padded = governance_padded (governance_utf8Bytes units) in
      concat (map hex_word
        (fst (foldl (process_block padded) (INITIAL, replicate 64 0) (block_offsets padded)))))"

definition governance_sha256Hex :: "string \<Rightarrow> string" where
  "governance_sha256Hex s = governance_sha256 (code_units s)"

section \<open>The serialised identity\<close>

fun all_texts :: "string res list \<Rightarrow> string list res" where
  "all_texts [] = Inr []"
| "all_texts (r # rs) = bind_res r (\<lambda>t. bind_res (all_texts rs) (\<lambda>ts. Inr (t # ts)))"

definition key_le :: "string \<times> 'a \<Rightarrow> string \<times> 'a \<Rightarrow> bool" where
  "key_le a b = code_unit_le (fst a) (fst b)"

definition member_text :: "string \<times> string res \<Rightarrow> string res" where
  "member_text m = bind_res (snd m) (\<lambda>t. Inr (json_string (fst m) @ '':'' @ t))"

fun stableSerialize :: "js_host \<Rightarrow> jval \<Rightarrow> string res"
  and serialize_elements :: "js_host \<Rightarrow> jval list \<Rightarrow> string res list"
  and serialize_members :: "js_host \<Rightarrow> (string \<times> jval) list \<Rightarrow> (string \<times> string res) list" where
  "stableSerialize h JNull = Inr ''null''"
| "stableSerialize h (JStr s) = Inr (json_string s)"
| "stableSerialize h (JBool b) = Inr (if b then ''true'' else ''false'')"
| "stableSerialize h (JNum r) = Inr (num_string h r)"
| "stableSerialize h JNaN = throw ''Cannot serialize non-finite number.''"
| "stableSerialize h (JInf b) = throw ''Cannot serialize non-finite number.''"
| "stableSerialize h (JArr vs) =
     bind_res (all_texts (serialize_elements h vs)) (\<lambda>ts. Inr (''['' @ join_with '','' ts @ '']''))"
| "stableSerialize h (JObj o') =
     bind_res (all_texts (map member_text (sort_by key_le (serialize_members h o'))))
       (\<lambda>ts. Inr (''{'' @ join_with '','' ts @ ''}''))"
| "stableSerialize h JUndef = throw ''Cannot serialize unsupported approval binding value.''"
| "serialize_elements h [] = []"
| "serialize_elements h (v # vs) = stableSerialize h v # serialize_elements h vs"
| "serialize_members h [] = []"
| "serialize_members h ((k, v) # o') =
     (if v = JUndef then serialize_members h o' else (k, stableSerialize h v) # serialize_members h o')"

definition createToolGovernanceCommandDigest :: "js_host \<Rightarrow> string \<Rightarrow> string option res" where
  "createToolGovernanceCommandDigest h command =
     (let canonicalCommand = js_trim command in
      if length canonicalCommand = 0 then Inr None
      else bind_res (stableSerialize h (JStr canonicalCommand)) (\<lambda>t. Inr (Some (governance_sha256Hex t))))"

definition binding_subject :: "jval \<Rightarrow> jval \<Rightarrow> jval" where
  "binding_subject invocation policy =
     JObj [(''schema'', JStr ''kite.tool-approval-binding.v1''), (''invocation'', invocation),
       (''policy'', policy)]"

definition createToolApprovalBindingDigest :: "js_host \<Rightarrow> jval \<Rightarrow> jval \<Rightarrow> string res" where
  "createToolApprovalBindingDigest h invocation policy =
     bind_res (stableSerialize h (binding_subject invocation policy)) (\<lambda>t. Inr (governance_sha256Hex t))"

section \<open>Validation of the facts\<close>

definition plainRecord :: "jval \<Rightarrow> bool" where
  "plainRecord v = isRecord v"

definition exactKeys :: "jval \<Rightarrow> string list \<Rightarrow> string list \<Rightarrow> bool" where
  "exactKeys v req opt =
     (let keys = obj_keys (or_default (as_record v) []) in
      list_all (\<lambda>key. key \<in> set keys) req \<and> list_all (\<lambda>key. key \<in> set (req @ opt)) keys)"

definition boundedIdentity :: "jval \<Rightarrow> bool" where
  "boundedIdentity v = (case v of JStr s \<Rightarrow> length s > 0 \<and> length s \<le> 256 | _ \<Rightarrow> False)"

definition digest64 :: "jval \<Rightarrow> bool" where
  "digest64 v = (case v of JStr s \<Rightarrow> is_sha256_hex s | _ \<Rightarrow> False)"

definition nullableDigest :: "jval \<Rightarrow> bool" where
  "nullableDigest v \<longleftrightarrow> v = JNull \<or> digest64 v"

text \<open>\<open>typeof value === 'boolean'\<close>\<close>

definition is_boolean :: "jval \<Rightarrow> bool" where
  "is_boolean v = (case v of JBool b \<Rightarrow> True | _ \<Rightarrow> False)"

definition validTimestamp :: "jval \<Rightarrow> bool" where
  "validTimestamp v \<longleftrightarrow> is_safe_integer v \<and> int_of v \<ge> 0"

definition optional_fact :: "(jval \<Rightarrow> bool) \<Rightarrow> jval \<Rightarrow> bool" where
  "optional_fact P v \<longleftrightarrow> v = JUndef \<or> P v"

definition validEffects :: "jval \<Rightarrow> bool" where
  "validEffects v \<longleftrightarrow>
     plainRecord v \<and>
     exactKeys v []
       [''network'', ''externalRead'', ''externalWrite'', ''uncertainEffects'', ''sensitiveExternalAccess''] \<and>
     list_all (\<lambda>entry. entry = JBool True) (obj_values (or_default (as_record v) []))"

definition INVOCATION_REQUIRED :: "string list" where
  "INVOCATION_REQUIRED = [''workspace'', ''threadId'', ''turnId'', ''modelMessageId'', ''toolCallId'',
     ''exposedToolName'', ''operationId'', ''capabilityId'', ''capabilityRevision'', ''executorRevision'',
     ''descriptorRevision'', ''parserRevision'', ''schemaDigest'', ''argumentsDigest'',
     ''effectiveEffectsDigest'', ''bindingId'', ''builtinCatalogRevision'', ''dynamicCatalogRevision'',
     ''nestedCapabilityId'', ''nestedCapabilityRevision'', ''nestedCatalogRevision'', ''commandDigest'']"

definition INVOCATION_OPTIONAL :: "string list" where
  "INVOCATION_OPTIONAL = [''canonicalWorkspaceIdentity'', ''cwd'', ''executor'', ''environmentDigest'',
     ''scopeDigest'', ''policyParserExecutorRevision'']"

definition validInvocation :: "jval \<Rightarrow> bool" where
  "validInvocation v \<longleftrightarrow>
     plainRecord v \<and> exactKeys v INVOCATION_REQUIRED INVOCATION_OPTIONAL \<and>
     boundedIdentity (vfld v ''workspace'') \<and>
     boundedIdentity (vfld v ''threadId'') \<and>
     boundedIdentity (vfld v ''turnId'') \<and>
     boundedIdentity (vfld v ''modelMessageId'') \<and>
     boundedIdentity (vfld v ''toolCallId'') \<and>
     boundedIdentity (vfld v ''exposedToolName'') \<and>
     boundedIdentity (vfld v ''operationId'') \<and>
     boundedIdentity (vfld v ''capabilityId'') \<and>
     (vfld v ''operationId'' = JStr ''mcp:dynamic_tool'' \<and>
        starts_with ''mcp:'' (or_default (as_string (vfld v ''capabilityId'')) []) \<and>
        vfld v ''capabilityId'' \<noteq> JStr ''mcp:dynamic_tool'' \<or>
      vfld v ''operationId'' \<noteq> JStr ''mcp:dynamic_tool'' \<and> vfld v ''operationId'' = vfld v ''capabilityId'') \<and>
     digest64 (vfld v ''capabilityRevision'') \<and>
     (vfld v ''executorRevision'' = JNull \<or> digest64 (vfld v ''executorRevision'')) \<and>
     digest64 (vfld v ''descriptorRevision'') \<and>
     digest64 (vfld v ''parserRevision'') \<and>
     digest64 (vfld v ''schemaDigest'') \<and>
     digest64 (vfld v ''argumentsDigest'') \<and>
     digest64 (vfld v ''effectiveEffectsDigest'') \<and>
     nullableDigest (vfld v ''bindingId'') \<and>
     nullableDigest (vfld v ''builtinCatalogRevision'') \<and>
     nullableDigest (vfld v ''dynamicCatalogRevision'') \<and>
     (vfld v ''nestedCapabilityId'' = JNull \<or> boundedIdentity (vfld v ''nestedCapabilityId'')) \<and>
     nullableDigest (vfld v ''nestedCapabilityRevision'') \<and>
     nullableDigest (vfld v ''nestedCatalogRevision'') \<and>
     nullableDigest (vfld v ''commandDigest'') \<and>
     optional_fact boundedIdentity (vfld v ''cwd'') \<and>
     optional_fact boundedIdentity (vfld v ''canonicalWorkspaceIdentity'') \<and>
     optional_fact boundedIdentity (vfld v ''executor'') \<and>
     optional_fact boundedIdentity (vfld v ''environmentDigest'') \<and>
     optional_fact boundedIdentity (vfld v ''scopeDigest'') \<and>
     optional_fact digest64 (vfld v ''policyParserExecutorRevision'')"

definition APPROVAL_LEVELS :: "string list" where
  "APPROVAL_LEVELS = [''none'', ''auto_review'', ''user'']"

definition VERDICTS :: "string list" where
  "VERDICTS = [''allow'', ''ask'', ''deny'']"

definition RISKS :: "string list" where
  "RISKS = [''read'', ''plan'', ''write_file'', ''execute_code'', ''destructive'', ''network'',
     ''vcs_mutation'', ''mcp'', ''unknown'']"

definition POLICY_REQUIRED :: "string list" where
  "POLICY_REQUIRED = [''operationId'', ''capabilityRevision'', ''parserRevision'', ''effectiveEffectsDigest'',
     ''minimumApproval'', ''fullAccessMayBypassApproval'', ''sameCommandMayBypassApproval'', ''decision'',
     ''allowed'', ''requiresApproval'', ''risk'', ''reason'', ''expectedEffects'']"

definition POLICY_OPTIONAL :: "string list" where
  "POLICY_OPTIONAL = [''effects'', ''requiresSandbox'', ''phaseConstraint'']"

definition validPolicy :: "js_host \<Rightarrow> jval \<Rightarrow> bool res" where
  "validPolicy h v = all_of
    [Inr (plainRecord v \<and> exactKeys v POLICY_REQUIRED POLICY_OPTIONAL \<and>
       boundedIdentity (vfld v ''operationId'') \<and>
       digest64 (vfld v ''capabilityRevision'') \<and>
       digest64 (vfld v ''parserRevision'') \<and>
       digest64 (vfld v ''effectiveEffectsDigest'')),
     spelled h APPROVAL_LEVELS (vfld v ''minimumApproval''),
     Inr (is_boolean (vfld v ''fullAccessMayBypassApproval'') \<and>
       is_boolean (vfld v ''sameCommandMayBypassApproval'')),
     spelled h VERDICTS (vfld v ''decision''),
     Inr (is_boolean (vfld v ''allowed'') \<and> is_boolean (vfld v ''requiresApproval'')),
     spelled h RISKS (vfld v ''risk''),
     Inr (boundedIdentity (vfld v ''reason'') \<and>
     (case vfld v ''expectedEffects'' of JArr vs \<Rightarrow> length vs \<noteq> 0 \<and> list_all boundedIdentity vs | _ \<Rightarrow> False) \<and>
     \<not> (vfld v ''decision'' = JStr ''allow'' \<and>
        (\<not> truthy (vfld v ''allowed'') \<or> truthy (vfld v ''requiresApproval''))) \<and>
     \<not> (vfld v ''decision'' = JStr ''ask'' \<and>
        (\<not> truthy (vfld v ''allowed'') \<or> \<not> truthy (vfld v ''requiresApproval''))) \<and>
     \<not> (vfld v ''decision'' = JStr ''deny'' \<and>
        (truthy (vfld v ''allowed'') \<or> truthy (vfld v ''requiresApproval''))) \<and>
     optional_fact validEffects (vfld v ''effects'') \<and>
     optional_fact is_boolean (vfld v ''requiresSandbox'') \<and>
     (vfld v ''phaseConstraint'' = JUndef \<or> vfld v ''phaseConstraint'' = JStr ''planning''))]"

definition validApproval :: "js_host \<Rightarrow> jval \<Rightarrow> bool res" where
  "validApproval h v = all_of
    [Inr (plainRecord v \<and> exactKeys v [''status'', ''grant'', ''approvedToolCallId'', ''approvalBindingDigest''] []),
     spelled h [''queued'', ''approved''] (vfld v ''status''),
     spelled h [''none'', ''approve_once'', ''same_command''] (vfld v ''grant''),
     Inr ((vfld v ''approvedToolCallId'' = JNull \<or> boundedIdentity (vfld v ''approvedToolCallId'')) \<and>
     nullableDigest (vfld v ''approvalBindingDigest'') \<and>
     (if vfld v ''status'' = JStr ''queued''
      then vfld v ''grant'' = JStr ''none'' \<and> vfld v ''approvedToolCallId'' = JNull \<and>
        vfld v ''approvalBindingDigest'' = JNull
      else vfld v ''grant'' \<noteq> JStr ''none'' \<and> vfld v ''approvedToolCallId'' \<noteq> JNull \<and>
        vfld v ''approvalBindingDigest'' \<noteq> JNull))]"

definition validSameCommandGrant :: "jval \<Rightarrow> bool" where
  "validSameCommandGrant v \<longleftrightarrow>
     plainRecord v \<and>
     exactKeys v [''workspace'', ''threadId'', ''canonicalWorkspaceIdentity'', ''cwd'', ''executor'',
       ''environmentDigest'', ''scopeDigest'', ''effectsDigest'', ''parserRevision'', ''executorRevision'',
       ''commandDigest'', ''grantedAt''] [''expiresAt''] \<and>
     boundedIdentity (vfld v ''workspace'') \<and>
     boundedIdentity (vfld v ''threadId'') \<and>
     boundedIdentity (vfld v ''canonicalWorkspaceIdentity'') \<and>
     boundedIdentity (vfld v ''cwd'') \<and>
     boundedIdentity (vfld v ''executor'') \<and>
     boundedIdentity (vfld v ''environmentDigest'') \<and>
     boundedIdentity (vfld v ''scopeDigest'') \<and>
     digest64 (vfld v ''effectsDigest'') \<and>
     digest64 (vfld v ''parserRevision'') \<and>
     (vfld v ''executorRevision'' = JNull \<or> digest64 (vfld v ''executorRevision'')) \<and>
     digest64 (vfld v ''commandDigest'') \<and>
     validTimestamp (vfld v ''grantedAt'') \<and>
     optional_fact (\<lambda>t. validTimestamp t \<and> int_of t > int_of (vfld v ''grantedAt'')) (vfld v ''expiresAt'')"

definition validDynamicMcp :: "js_host \<Rightarrow> jval \<Rightarrow> bool res" where
  "validDynamicMcp h v = all_of
    [Inr (plainRecord v \<and> exactKeys v [''minimumApproval'', ''readOnly''] []),
     spelled h APPROVAL_LEVELS (vfld v ''minimumApproval''), Inr (is_boolean (vfld v ''readOnly''))]"

definition validNestedSkill :: "js_host \<Rightarrow> jval \<Rightarrow> bool res" where
  "validNestedSkill h v = all_of
    [Inr (plainRecord v \<and> exactKeys v [''decision'', ''minimumApproval''] []),
     spelled h VERDICTS (vfld v ''decision''), spelled h APPROVAL_LEVELS (vfld v ''minimumApproval'')]"

definition validGates :: "jval \<Rightarrow> bool" where
  "validGates v \<longleftrightarrow>
     plainRecord v \<and>
     exactKeys v [''recoveryAdmission'', ''boundedCancellation'', ''executionBoundary'', ''skillCapabilityCeiling''] [] \<and>
     list_all (\<lambda>entry. entry = JStr ''admitted'' \<or> entry = JStr ''blocked'')
       (obj_values (or_default (as_record v) []))"

definition validContext :: "js_host \<Rightarrow> jval \<Rightarrow> bool res" where
  "validContext h v = all_of
    [Inr (plainRecord v \<and>
     exactKeys v [''phase'', ''interactionMode'', ''sandboxAvailable'', ''circuitBreakerTripped'',
       ''executionMechanism'', ''gates''] [''observedAt''] \<and>
     (vfld v ''phase'' = JStr ''planning'' \<or> vfld v ''phase'' = JStr ''building'')),
     spelled h [''auto'', ''accept_edits'', ''full''] (vfld v ''interactionMode''),
     Inr (is_boolean (vfld v ''sandboxAvailable'') \<and> is_boolean (vfld v ''circuitBreakerTripped'')),
     spelled h [''user_input'', ''shell'', ''other''] (vfld v ''executionMechanism''),
     Inr (validGates (vfld v ''gates'') \<and> optional_fact validTimestamp (vfld v ''observedAt''))]"

definition validAdmission :: "js_host \<Rightarrow> jval \<Rightarrow> bool res" where
  "validAdmission h v = all_of
    [Inr (plainRecord v \<and> exactKeys v [''freshness'', ''reservationRequired'', ''reservationIds''] []),
     spelled h [''current'', ''stale''] (vfld v ''freshness''),
     Inr (is_boolean (vfld v ''reservationRequired'') \<and>
       (case vfld v ''reservationIds'' of JArr ids \<Rightarrow> list_all boundedIdentity ids | _ \<Rightarrow> False))]"

definition isDynamicInvocation :: "jval \<Rightarrow> bool" where
  "isDynamicInvocation invocation \<longleftrightarrow> vfld invocation ''operationId'' = JStr ''mcp:dynamic_tool''"

definition same_policy_identity :: "jval \<Rightarrow> jval \<Rightarrow> bool" where
  "same_policy_identity policy invocation \<longleftrightarrow>
     vfld policy ''operationId'' = vfld invocation ''operationId'' \<and>
     vfld policy ''capabilityRevision'' = vfld invocation ''capabilityRevision'' \<and>
     vfld policy ''parserRevision'' = vfld invocation ''parserRevision'' \<and>
     vfld policy ''effectiveEffectsDigest'' = vfld invocation ''effectiveEffectsDigest''"

definition identity_problem :: "jval \<Rightarrow> bool" where
  "identity_problem value =
     (let invocation = vfld value ''invocation'';
          hasNestedIdentity = vfld invocation ''nestedCapabilityId'' \<noteq> JNull \<and>
            vfld invocation ''nestedCapabilityRevision'' \<noteq> JNull \<and>
            vfld invocation ''nestedCatalogRevision'' \<noteq> JNull;
          dynamicInvocation = isDynamicInvocation invocation;
          dynamicName = starts_with ''mcp__'' (or_default (as_string (vfld invocation ''exposedToolName'')) []);
          validCatalogIdentity =
            (if dynamicInvocation
             then vfld invocation ''builtinCatalogRevision'' = JNull \<and>
               vfld invocation ''dynamicCatalogRevision'' \<noteq> JNull
             else vfld invocation ''builtinCatalogRevision'' \<noteq> JNull \<and>
               vfld invocation ''dynamicCatalogRevision'' = JNull) in
      (vfld value ''nestedSkill'' \<noteq> JUndef) \<noteq> hasNestedIdentity \<or>
      \<not> same_policy_identity (vfld value ''policy'') invocation \<or>
      dynamicInvocation \<noteq> dynamicName \<or>
      dynamicInvocation \<noteq> (vfld value ''dynamicMcp'' \<noteq> JUndef) \<or>
      \<not> validCatalogIdentity)"

text \<open>The first condition that fails, with the reason it stands for.\<close>

fun first_reason :: "(bool res \<times> string) list \<Rightarrow> string option res" where
  "first_reason [] = Inr None"
| "first_reason ((c, reason) # rest) = bind_res c (\<lambda>b. if b then first_reason rest else Inr (Some reason))"

definition toolGovernanceFactsInvalidReason :: "js_host \<Rightarrow> jval \<Rightarrow> string option res" where
  "toolGovernanceFactsInvalidReason h value = first_reason
    [(Inr (plainRecord value), ''envelope''),
     (Inr (exactKeys value [''schema'', ''invocation'', ''policy'', ''context'', ''admission'', ''approval'']
        [''sameCommandGrant'', ''dynamicMcp'', ''nestedSkill'']), ''envelope''),
     (Inr (vfld value ''schema'' = JStr ''kite.tool-governance-facts.v1''), ''envelope''),
     (Inr (validInvocation (vfld value ''invocation'')), ''invocation''),
     (validPolicy h (vfld value ''policy''), ''policy''),
     (validContext h (vfld value ''context''), ''context''),
     (validAdmission h (vfld value ''admission''), ''admission''),
     (validApproval h (vfld value ''approval''), ''approval''),
     (Inr (vfld value ''sameCommandGrant'' = JUndef \<or> validSameCommandGrant (vfld value ''sameCommandGrant'')),
        ''same_command_grant''),
     (if_present (validDynamicMcp h) (vfld value ''dynamicMcp''), ''dynamic_mcp''),
     (if_present (validNestedSkill h) (vfld value ''nestedSkill''), ''nested_skill''),
     (Inr (vfld value ''nestedSkill'' = JUndef \<or>
        vfld (vfld value ''invocation'') ''operationId'' = JStr ''builtin:activate_skill''), ''nested_skill''),
     (Inr (\<not> identity_problem value), ''identity'')]"

definition isValidToolGovernanceFacts :: "js_host \<Rightarrow> jval \<Rightarrow> bool res" where
  "isValidToolGovernanceFacts h value =
     bind_res (toolGovernanceFactsInvalidReason h value) (\<lambda>reason. Inr (reason = None))"

definition isValidToolApprovalBindingFacts :: "js_host \<Rightarrow> jval \<Rightarrow> bool res" where
  "isValidToolApprovalBindingFacts h value = all_of
    [Inr (plainRecord value \<and> exactKeys value [''invocation'', ''policy''] [] \<and>
       validInvocation (vfld value ''invocation'')),
     validPolicy h (vfld value ''policy''),
     Inr (same_policy_identity (vfld value ''policy'') (vfld value ''invocation''))]"

section \<open>Authorisation\<close>

definition hasAuthorizationReviewEffect :: "jval \<Rightarrow> bool" where
  "hasAuthorizationReviewEffect effects \<longleftrightarrow>
     truthy (vfld effects ''network'') \<or> truthy (vfld effects ''externalWrite'') \<or>
     truthy (vfld effects ''uncertainEffects'')"

definition hasModeReviewEffect :: "jval \<Rightarrow> bool" where
  "hasModeReviewEffect effects \<longleftrightarrow>
     truthy (vfld effects ''network'') \<or> truthy (vfld effects ''externalRead'') \<or>
     truthy (vfld effects ''externalWrite'') \<or> truthy (vfld effects ''uncertainEffects'')"

datatype mode_decision = ModeAllow | ModeDeny | ModeApproval | ModeAutoReview

definition decideAcceptEdits :: "jval \<Rightarrow> mode_decision" where
  "decideAcceptEdits policy =
     (if vfld policy ''risk'' = JStr ''destructive'' then ModeDeny
      else if hasModeReviewEffect (vfld policy ''effects'') then ModeApproval
      else if vfld policy ''risk'' \<in> {JStr ''write_file'', JStr ''read'', JStr ''plan''} then ModeAllow
      else ModeApproval)"

definition decideMode :: "jval \<Rightarrow> jval \<Rightarrow> mode_decision" where
  "decideMode context policy =
     (if vfld context ''interactionMode'' = JStr ''full'' then
        if vfld policy ''risk'' = JStr ''destructive'' then ModeDeny
        else if vfld policy ''risk'' = JStr ''read'' \<or> vfld policy ''risk'' = JStr ''plan'' then ModeAllow
        else ModeApproval
      else let acceptEdits = decideAcceptEdits policy in
        if vfld context ''interactionMode'' = JStr ''accept_edits'' then acceptEdits
        else if acceptEdits = ModeDeny \<or> acceptEdits = ModeAllow then acceptEdits
        else if truthy (vfld context ''circuitBreakerTripped'') then ModeApproval
        else ModeAutoReview)"

definition approvalIdentityMatches :: "js_host \<Rightarrow> jval \<Rightarrow> jval \<Rightarrow> jval \<Rightarrow> bool res" where
  "approvalIdentityMatches h approval invocation policy =
     (if vfld approval ''status'' = JStr ''approved'' \<and> vfld approval ''grant'' \<noteq> JStr ''none'' \<and>
         vfld approval ''approvedToolCallId'' = vfld invocation ''toolCallId''
      then bind_res (createToolApprovalBindingDigest h invocation policy)
        (\<lambda>digest. Inr (vfld approval ''approvalBindingDigest'' = JStr digest))
      else Inr False)"

definition sameCommandGrantMatches :: "jval \<Rightarrow> bool" where
  "sameCommandGrantMatches facts =
     (let grant = vfld facts ''sameCommandGrant''; invocation = vfld facts ''invocation'';
          observedAt = vfld (vfld facts ''context'') ''observedAt'' in
      if \<not> truthy grant \<or> \<not> truthy (vfld (vfld facts ''policy'') ''sameCommandMayBypassApproval'') \<or>
         \<not> truthy (vfld invocation ''commandDigest'') then False
      else if vfld grant ''workspace'' \<noteq> vfld invocation ''workspace'' \<or>
         vfld grant ''threadId'' \<noteq> vfld invocation ''threadId'' \<or>
         vfld grant ''canonicalWorkspaceIdentity'' \<noteq> vfld invocation ''canonicalWorkspaceIdentity'' \<or>
         vfld grant ''cwd'' \<noteq> vfld invocation ''cwd'' \<or>
         vfld grant ''executor'' \<noteq> vfld invocation ''executor'' \<or>
         vfld grant ''environmentDigest'' \<noteq> vfld invocation ''environmentDigest'' \<or>
         vfld grant ''scopeDigest'' \<noteq> vfld invocation ''scopeDigest'' \<or>
         vfld grant ''effectsDigest'' \<noteq> vfld invocation ''effectiveEffectsDigest'' \<or>
         vfld grant ''parserRevision'' \<noteq>
           coalesce (vfld invocation ''policyParserExecutorRevision'') (vfld invocation ''parserRevision'') \<or>
         vfld grant ''executorRevision'' \<noteq> vfld invocation ''executorRevision'' \<or>
         vfld grant ''commandDigest'' \<noteq> vfld invocation ''commandDigest'' then False
      else if observedAt = JUndef \<or> int_of observedAt < int_of (vfld grant ''grantedAt'') then False
      else if vfld grant ''expiresAt'' \<noteq> JUndef \<and> int_of observedAt \<ge> int_of (vfld grant ''expiresAt'') then False
      else True)"

text \<open>\<open>\{...policy, effects: \{...effects\}, expectedEffects: [...expectedEffects]\}\<close>\<close>

definition clonePolicy :: "jval \<Rightarrow> jobj" where
  "clonePolicy policy =
     (let p = or_default (as_record policy) [];
          copied = (if truthy (fld p ''effects'') then obj_set ''effects'' (fld p ''effects'') p else p) in
      obj_set ''expectedEffects'' (fld p ''expectedEffects'') copied)"

definition activates_skill :: "jval \<Rightarrow> bool" where
  "activates_skill facts \<longleftrightarrow>
     vfld (vfld facts ''invocation'') ''operationId'' = JStr ''builtin:activate_skill''"

definition activationRequiresManual :: "jval \<Rightarrow> bool" where
  "activationRequiresManual facts \<longleftrightarrow>
     activates_skill facts \<and> vfld (vfld facts ''policy'') ''minimumApproval'' = JStr ''user''"

definition nestedSkillRequiresManual :: "jval \<Rightarrow> bool" where
  "nestedSkillRequiresManual facts \<longleftrightarrow>
     activates_skill facts \<and> (vfld (vfld facts ''nestedSkill'') ''decision'' = JStr ''ask'' \<or>
       vfld (vfld facts ''nestedSkill'') ''minimumApproval'' = JStr ''user'')"

definition nestedSkillRequiresAutoReview :: "jval \<Rightarrow> bool" where
  "nestedSkillRequiresAutoReview facts \<longleftrightarrow>
     activates_skill facts \<and> vfld (vfld facts ''nestedSkill'') ''minimumApproval'' = JStr ''auto_review''"

definition dynamicMcpRequiresManual :: "jval \<Rightarrow> bool" where
  "dynamicMcpRequiresManual facts \<longleftrightarrow> vfld (vfld facts ''dynamicMcp'') ''minimumApproval'' = JStr ''user''"

definition dynamicMcpRequiresAutoReview :: "jval \<Rightarrow> bool" where
  "dynamicMcpRequiresAutoReview facts \<longleftrightarrow>
     vfld (vfld facts ''dynamicMcp'') ''minimumApproval'' = JStr ''auto_review''"

definition uncertainShellRequiresManual :: "jval \<Rightarrow> bool" where
  "uncertainShellRequiresManual facts \<longleftrightarrow>
     vfld (vfld facts ''context'') ''executionMechanism'' = JStr ''shell'' \<and>
     vfld (vfld (vfld facts ''policy'') ''effects'') ''uncertainEffects'' = JBool True"

definition forceManualApproval :: "jval \<Rightarrow> bool" where
  "forceManualApproval facts \<longleftrightarrow>
     activationRequiresManual facts \<or> nestedSkillRequiresManual facts \<or>
     dynamicMcpRequiresManual facts \<or> uncertainShellRequiresManual facts"

definition forceAutoReview :: "jval \<Rightarrow> bool" where
  "forceAutoReview facts \<longleftrightarrow> dynamicMcpRequiresAutoReview facts \<or> nestedSkillRequiresAutoReview facts"

definition requiresEffectReview :: "jval \<Rightarrow> bool" where
  "requiresEffectReview facts \<longleftrightarrow>
     vfld (vfld facts ''context'') ''interactionMode'' \<noteq> JStr ''full'' \<and>
     \<not> truthy (vfld (vfld facts ''dynamicMcp'') ''readOnly'') \<and>
     hasAuthorizationReviewEffect (vfld (vfld facts ''policy'') ''effects'')"

definition requiresApproval :: "jval \<Rightarrow> bool" where
  "requiresApproval facts \<longleftrightarrow>
     truthy (vfld (vfld facts ''policy'') ''requiresApproval'') \<or> requiresEffectReview facts \<or>
     activationRequiresManual facts \<or> dynamicMcpRequiresManual facts \<or>
     dynamicMcpRequiresAutoReview facts \<or> nestedSkillRequiresManual facts \<or>
     nestedSkillRequiresAutoReview facts"

text \<open>The part of the decision after the recorded approval: grants, forced reviews and the mode.\<close>

definition unapproved_decision :: "jval \<Rightarrow> governance_authorization" where
  "unapproved_decision facts =
     (let context = vfld facts ''context''; policy = vfld facts ''policy'' in
      if vfld context ''interactionMode'' = JStr ''full'' \<and> truthy (vfld policy ''fullAccessMayBypassApproval'') \<and>
         \<not> forceManualApproval facts \<and> \<not> forceAutoReview facts
      then Authorized ''policy_allow'' (JStr ''none'')
      else if \<not> forceManualApproval facts \<and> \<not> forceAutoReview facts \<and> sameCommandGrantMatches facts
      then Authorized ''approved_call'' (JStr ''same_command'')
      else if \<not> requiresApproval facts then Authorized ''policy_allow'' (JStr ''none'')
      else if forceManualApproval facts then Unauthorized (GovRequestApproval (clonePolicy policy))
      else if forceAutoReview facts then Unauthorized (GovRequestAutoReview (clonePolicy policy))
      else case decideMode context policy of
          ModeDeny \<Rightarrow> Unauthorized (GovReject ''policy_denied'' (vfld policy ''reason'') None)
        | ModeAllow \<Rightarrow> Authorized ''policy_allow'' (JStr ''none'')
        | ModeAutoReview \<Rightarrow> Unauthorized (GovRequestAutoReview (clonePolicy policy))
        | ModeApproval \<Rightarrow> Unauthorized (GovRequestApproval (clonePolicy policy)))"

definition gate :: "jval \<Rightarrow> string \<Rightarrow> bool" where
  "gate facts name \<longleftrightarrow> vfld (vfld (vfld facts ''context'') ''gates'') name = JStr ''admitted''"

definition policy_denial :: "jval \<Rightarrow> governance_outcome" where
  "policy_denial facts =
     (let policy = vfld facts ''policy'';
          planning = vfld policy ''phaseConstraint'' = JStr ''planning'';
          deferred = vfld (vfld facts ''context'') ''executionMechanism'' = JStr ''shell'' \<and> planning in
      GovReject (if deferred then ''phase_deferred'' else if planning then ''phase_denied'' else ''policy_denied'')
        (if deferred then JStr ''Deferred shell_execute until building phase.'' else vfld policy ''reason'') None)"

definition authorizeValidToolGovernanceFacts :: "js_host \<Rightarrow> jval \<Rightarrow> governance_authorization res" where
  "authorizeValidToolGovernanceFacts h facts =
     (let context = vfld facts ''context''; invocation = vfld facts ''invocation'';
          policy = vfld facts ''policy''; approval = vfld facts ''approval'' in
      if \<not> gate facts ''recoveryAdmission''
      then Inr (Unauthorized (governance_reject ''loop_exhausted''
        ''Runtime recovery guard blocked this invocation.'' None))
      else if \<not> gate facts ''boundedCancellation''
      then Inr (Unauthorized (governance_reject ''mandatory_policy_unavailable''
        ''Bounded cancellation is required before production writer/child dispatch.'' None))
      else if \<not> gate facts ''executionBoundary''
      then Inr (Unauthorized (governance_reject ''mandatory_policy_unavailable''
        ''Provider access is unavailable under the sealed execution boundary.'' None))
      else if \<not> gate facts ''skillCapabilityCeiling''
      then Inr (Unauthorized (governance_reject ''policy_denied''
        ''Active Skill capability ceiling blocked this tool.'' None))
      else if \<not> truthy (vfld policy ''allowed'') then Inr (Unauthorized (policy_denial facts))
      else if truthy (vfld policy ''requiresSandbox'') \<and> \<not> truthy (vfld context ''sandboxAvailable'')
      then Inr (Unauthorized (governance_reject ''mandatory_policy_unavailable''
        ''This capability requires an available workspace sandbox.'' (Some ''authorization_elevation_denied'')))
      else if vfld context ''executionMechanism'' = JStr ''user_input''
      then Inr (Unauthorized GovRequestUserInput)
      else if vfld (vfld facts ''nestedSkill'') ''decision'' = JStr ''deny'' \<and> activates_skill facts
      then Inr (Unauthorized (governance_reject ''policy_denied'' ''Nested Skill policy denied activation.'' None))
      else if vfld approval ''status'' = JStr ''approved'' then
        bind_res (approvalIdentityMatches h approval invocation policy)
          (\<lambda>same. Inr (if same then Authorized ''approved_call'' (vfld approval ''grant'')
             else Unauthorized (governance_reject ''policy_denied''
               ''Approved call identity does not match the exact invocation and policy.''
               (Some ''approval_identity_mismatch''))))
      else Inr (unapproved_decision facts))"

section \<open>Admission\<close>

text \<open>\<open>[...new Set(ids)].sort()\<close>; the order in which the set keeps its members is sorted away.\<close>

definition reservation_ids :: "jval \<Rightarrow> string list" where
  "reservation_ids v =
     sort_by code_unit_le (remdups (map (\<lambda>i. or_default (as_string i) [])
       (case v of JArr ids \<Rightarrow> ids | _ \<Rightarrow> [])))"

definition malformed :: "string \<Rightarrow> governance_outcome" where
  "malformed reason = governance_reject ''mandatory_policy_unavailable'' reason (Some ''invalid_facts'')"

definition admitToolGovernance :: "js_host \<Rightarrow> governance_authorization \<Rightarrow> jval \<Rightarrow> governance_decision res" where
  "admitToolGovernance h authorization admission =
     (case authorization of
        Unauthorized outcome \<Rightarrow> Inr (Withhold outcome)
      | Authorized authorizationKind grantUsed \<Rightarrow>
          bind_res (validAdmission h admission) (\<lambda>valid. Inr (
          if \<not> valid then Withhold (malformed ''Tool governance admission facts are malformed.'')
          else if vfld admission ''freshness'' \<noteq> JStr ''current''
          then Withhold (governance_reject ''mandatory_policy_unavailable'' ''Admission facts became stale.''
            (Some ''admission_stale''))
          else let reservationIds = reservation_ids (vfld admission ''reservationIds'') in
            if list_ex (\<lambda>i. \<not> boundedIdentity (JStr i)) reservationIds \<or>
               truthy (vfld admission ''reservationRequired'') \<and> length reservationIds = 0
            then Withhold (governance_reject ''mandatory_policy_unavailable''
              ''A current Runtime reservation is required before admission.'' (Some ''reservation_invalid''))
            else Admit authorizationKind grantUsed reservationIds)))"

definition authorizeToolGovernance :: "js_host \<Rightarrow> jval \<Rightarrow> governance_authorization res" where
  "authorizeToolGovernance h value =
     bind_res (isValidToolGovernanceFacts h value) (\<lambda>valid.
       if \<not> valid then Inr (Unauthorized (malformed ''Tool governance facts are malformed.''))
       else authorizeValidToolGovernanceFacts h value)"

definition decideToolGovernance :: "js_host \<Rightarrow> jval \<Rightarrow> governance_decision res" where
  "decideToolGovernance h value =
     bind_res (isValidToolGovernanceFacts h value) (\<lambda>valid.
       if \<not> valid then Inr (Withhold (malformed ''Tool governance facts are malformed.''))
       else bind_res (authorizeValidToolGovernanceFacts h value)
         (\<lambda>authorization. admitToolGovernance h authorization (vfld value ''admission'')))"

definition in_full_mode :: "jval \<Rightarrow> jval" where
  "in_full_mode value =
     JObj (obj_set ''context'' (JObj (obj_set ''interactionMode'' (JStr ''full'')
         (or_default (as_record (vfld value ''context'')) [])))
       (or_default (as_record value) []))"

definition canAuthorizeToolGovernanceInFullMode :: "js_host \<Rightarrow> jval \<Rightarrow> bool res" where
  "canAuthorizeToolGovernanceInFullMode h value =
     bind_res (isValidToolGovernanceFacts h value) (\<lambda>valid.
       if \<not> valid then Inr False
       else bind_res (decideToolGovernance h (in_full_mode value))
         (\<lambda>decision. Inr (case decision of
              Admit authorizationKind grantUsed ids \<Rightarrow>
                authorizationKind = ''policy_allow'' \<and> grantUsed = JStr ''none''
            | Withhold outcome \<Rightarrow> False)))"

end
