(* ===== verification/Kite_Governance_Inv.thy ===== *)
theory Kite_Governance_Inv
  imports Kite_Governance
begin

text \<open>
  What the governance of tool calls guarantees: the second SHA-256 agrees with the first, an approval
  is for exactly one invocation and policy, the decision never throws, every admitted call has a
  justification, and automatic review only replaces the question to the user.
\<close>

section \<open>The digest\<close>

lemma foldl_update_tail:
  assumes "n \<le> length p"
  shows "foldl (\<lambda>p i. p[length p - 1 - i := f i]) p [0..<n] = take (length p - n) p @ map f (rev [0..<n])"
  using assms
proof (induction n)
  case (Suc n)
  have "take (length p - n) p = take (length p - Suc n) p @ [p ! (length p - Suc n)]"
    using Suc.prems by (metis Suc_diff_Suc Suc_le_lessD diff_less length_greater_0_conv list.size(3)
        not_less_zero take_Suc_conv_app_nth zero_less_Suc)
  with Suc show ?case
    by (simp add: list_update_append)
qed simp

lemma padded_array:
  assumes "length bytes + 9 \<le> n"
  shows "foldl (\<lambda>p i. p[length p - 1 - i := f i]) ((bytes @ replicate (n - length bytes) 0)[length bytes := 0x80]) [0..<8] =
    bytes @ [0x80] @ replicate (n - length bytes - 9) 0 @ map f [7, 6, 5, 4, 3, 2, 1, 0 :: nat]"
proof -
  define m where "m = n - length bytes - 9"
  have m: "n - length bytes = Suc (m + 8)" "n - length bytes - 9 = m" using assms by (simp_all add: m_def)
  have start: "(bytes @ replicate (Suc (m + 8)) 0)[length bytes := 0x80] = bytes @ 0x80 # replicate (m + 8) 0"
    by (simp only: replicate_Suc list_update_length)
  have order: "rev [0..<8] = [7, 6, 5, 4, 3, 2, 1, 0 :: nat]" by (simp add: upt_rec)
  have "take (length (bytes @ 0x80 # replicate (m + 8) 0) - 8) (bytes @ 0x80 # replicate (m + 8) 0) =
      bytes @ [0x80] @ replicate m 0"
    by simp
  with foldl_update_tail [of 8 "bytes @ 0x80 # replicate (m + 8) 0" f] show ?thesis
    unfolding m(2) unfolding m(1) start order by simp
qed

lemma governance_padded_eq: "governance_padded bytes = padded bytes"
proof -
  define b where "b = (length bytes + 9 + 63) div 64"
  have b: "length bytes + 9 \<le> b * 64" "b * 64 < length bytes + 9 + 64" unfolding b_def by linarith+
  obtain k where k: "pad_zeros (bytes @ [0x80]) = (bytes @ [0x80]) @ replicate k 0"
    "(length (bytes @ [0x80]) + k) mod 64 = 56" "k < 64"
    using pad_zeros_eq by blast
  define q where "q = (length bytes + 1 + k) div 64"
  have q: "length bytes + 1 + k = 64 * q + 56"
    using k(2) mult_div_mod_eq [of 64 "length bytes + 1 + k"] by (simp add: q_def)
  then have "b = q + 1" using b k(3) by linarith
  then have "k = b * 64 - length bytes - 9" using q by linarith
  then show ?thesis
    using k(1) unfolding governance_padded_def padded_def Let_def b_def [symmetric] padded_array [OF b(1)]
    by simp
qed

text \<open>Code units in which every surrogate is half of a pair.\<close>

fun well_paired :: "nat list \<Rightarrow> bool" where
  "well_paired [] = True"
| "well_paired (c # cs) =
     (if 0xd800 \<le> c \<and> c \<le> 0xdbff
      then cs \<noteq> [] \<and> 0xdc00 \<le> hd cs \<and> hd cs \<le> 0xdfff \<and> well_paired (tl cs)
      else c < 0x10000 \<and> \<not> (0xdc00 \<le> c \<and> c \<le> 0xdfff) \<and> well_paired cs)"

lemma governance_utf8Bytes_eq: "well_paired cs \<Longrightarrow> governance_utf8Bytes cs = utf8Bytes cs"
proof (induction cs rule: well_paired.induct)
  case (2 c cs)
  show ?case
  proof (cases "0xd800 \<le> c \<and> c \<le> 0xdbff")
    case True
    with 2(3) obtain d rest where cs: "cs = d # rest" "0xdc00 \<le> d" "d \<le> 0xdfff" "well_paired rest"
      by (cases cs) auto
    with True 2(1) show ?thesis by (simp add: Let_def)
  next
    case False
    with 2 show ?thesis by (auto simp: Let_def)
  qed
qed simp

lemma governance_sha256_units:
  "well_paired units \<Longrightarrow> governance_sha256 units = sha256HexBytes (utf8Bytes units)"
  by (simp add: governance_sha256_def governance_utf8Bytes_eq governance_padded_eq sha256HexBytes_def
      sha256_words_def Let_def)

lemma well_paired_bytes: "\<forall>c \<in> set cs. c < 256 \<Longrightarrow> well_paired cs"
  by (induction cs) auto

text \<open>Both digests of a string agree.\<close>

lemma governance_sha256Hex_eq: "governance_sha256Hex s = sha256Hex s"
proof -
  have "\<forall>c \<in> set (code_units s). c < 256" by (auto simp: code_units_def)
  then show ?thesis
    by (simp add: governance_sha256Hex_def sha256Hex_def governance_sha256_units well_paired_bytes)
qed

section \<open>The serialised identity\<close>

text \<open>
  The canonical form of a value (undefined properties dropped, properties in the order of their
  names, at every level) and the text of a value without numbers, written with the separators in
  front of the later members.
\<close>

fun canonical :: "jval \<Rightarrow> jval"
  and canonical_elements :: "jval list \<Rightarrow> jval list"
  and canonical_members :: "(string \<times> jval) list \<Rightarrow> (string \<times> jval) list" where
  "canonical (JArr vs) = JArr (canonical_elements vs)"
| "canonical (JObj o') = JObj (sort_by key_le (canonical_members o'))"
| "canonical v = v"
| "canonical_elements [] = []"
| "canonical_elements (v # vs) = canonical v # canonical_elements vs"
| "canonical_members [] = []"
| "canonical_members ((k, v) # o') =
     (if v = JUndef then canonical_members o' else (k, canonical v) # canonical_members o')"

fun number_free :: "jval \<Rightarrow> bool"
  and number_free_elements :: "jval list \<Rightarrow> bool"
  and number_free_members :: "(string \<times> jval) list \<Rightarrow> bool" where
  "number_free (JNum r) = False"
| "number_free (JArr vs) = number_free_elements vs"
| "number_free (JObj o') = number_free_members o'"
| "number_free v = True"
| "number_free_elements [] = True"
| "number_free_elements (v # vs) = (number_free v \<and> number_free_elements vs)"
| "number_free_members [] = True"
| "number_free_members ((k, v) # o') = (number_free v \<and> number_free_members o')"

fun written :: "jval \<Rightarrow> string"
  and written_elements :: "jval list \<Rightarrow> string"
  and written_members :: "(string \<times> jval) list \<Rightarrow> string" where
  "written JNull = ''null''"
| "written (JStr s) = json_string s"
| "written (JBool b) = (if b then ''true'' else ''false'')"
| "written (JArr []) = ''[]''"
| "written (JArr (v # vs)) = ''['' @ written v @ written_elements vs"
| "written (JObj []) = ''{}''"
| "written (JObj ((k, v) # o')) = ''{'' @ json_string k @ '':'' @ written v @ written_members o'"
| "written v = []"
| "written_elements [] = '']''"
| "written_elements (v # vs) = '','' @ written v @ written_elements vs"
| "written_members [] = ''}''"
| "written_members ((k, v) # o') = '','' @ json_string k @ '':'' @ written v @ written_members o'"

fun writable :: "jval \<Rightarrow> bool"
  and writable_elements :: "jval list \<Rightarrow> bool"
  and writable_members :: "(string \<times> jval) list \<Rightarrow> bool" where
  "writable JNull = True"
| "writable (JStr s) = True"
| "writable (JBool b) = True"
| "writable (JArr vs) = writable_elements vs"
| "writable (JObj o') = writable_members o'"
| "writable v = False"
| "writable_elements [] = True"
| "writable_elements (v # vs) = (writable v \<and> writable_elements vs)"
| "writable_members [] = True"
| "writable_members ((k, v) # o') = (writable v \<and> writable_members o')"

lemma writable_lists:
  "writable_elements vs \<longleftrightarrow> (\<forall>v \<in> set vs. writable v)"
  "writable_members o' \<longleftrightarrow> (\<forall>m \<in> set o'. writable (snd m))"
  by (induction vs; simp) (induction o'; auto)

lemma json_string_first: "json_string s = quote_char # concat (map json_char s) @ [quote_char]"
  by (simp add: json_string_def char_codes)

lemma written_first:
  "writable v \<Longrightarrow> written v @ x \<noteq> CHR '']'' # y"
  "writable v \<Longrightarrow> CHR '']'' # y \<noteq> written v @ x"
  by (cases v rule: written.cases; auto simp: json_string_first quote_char_def)+

text \<open>No text of a value is a proper prefix of another: the text determines the value.\<close>

lemma written_prefix:
  "writable v \<Longrightarrow> writable w \<Longrightarrow> written v @ x = written w @ y \<Longrightarrow> v = w \<and> x = y"
  "writable_elements vs \<Longrightarrow> writable_elements ws \<Longrightarrow>
    written_elements vs @ x = written_elements ws @ y \<Longrightarrow> vs = ws \<and> x = y"
  "writable_members o1 \<Longrightarrow> writable_members o2 \<Longrightarrow>
    written_members o1 @ x = written_members o2 @ y \<Longrightarrow> o1 = o2 \<and> x = y"
proof (induction v and vs and o1 arbitrary: w x y and ws x y and o2 x y rule: written_written_elements_written_members.induct)
  case (5 v vs)
  from 5(4,5) obtain w' ws' where w: "w = JArr (w' # ws')"
    using 5(3) by (cases w rule: written.cases) (auto simp: json_string_first quote_char_def written_first split: if_splits)
  with 5(3-5) have "writable v" "writable w'" "writable_elements vs" "writable_elements ws'"
    "written v @ (written_elements vs @ x) = written w' @ (written_elements ws' @ y)" by simp_all
  with 5(1) [of w'] 5(2) [of ws'] show ?case unfolding w by blast
next
  case (7 k v o')
  from 7(4,5) obtain k' w' o2 where w: "w = JObj ((k', w') # o2)"
    by (cases w rule: written.cases) (auto simp: json_string_first quote_char_def split: if_splits)
  with 7(3-5) have "writable v" "writable w'" "writable_members o'" "writable_members o2" "k = k'"
    "written v @ (written_members o' @ x) = written w' @ (written_members o2 @ y)"
    by (simp_all add: json_string_prefix)
  with 7(1) [of w'] 7(2) [of o2] show ?case unfolding w by blast
next
  case (10 v vs)
  from 10(5) obtain w' ws' where ws: "ws = w' # ws'" by (cases ws) auto
  with 10(3-5) have "writable v" "writable w'" "writable_elements vs" "writable_elements ws'"
    "written v @ (written_elements vs @ x) = written w' @ (written_elements ws' @ y)" by simp_all
  with 10(1) [of w'] 10(2) [of ws'] show ?case unfolding ws by blast
next
  case (12 k v o')
  from 12(5) obtain k' w' o3 where o2: "o2 = (k', w') # o3" by (cases o2) auto
  with 12(3-5) have "writable v" "writable w'" "writable_members o'" "writable_members o3" "k = k'"
    "written v @ (written_members o' @ x) = written w' @ (written_members o3 @ y)"
    by (simp_all add: json_string_prefix)
  with 12(1) [of w'] 12(2) [of o3] show ?case unfolding o2 by blast
next
  case 1
  then show ?case by (cases w rule: written.cases) (auto simp: json_string_first quote_char_def split: if_splits)
next
  case (2 s)
  then show ?case
    by (cases w rule: written.cases) (auto simp: json_string_prefix, simp_all add: json_string_first quote_char_def split: if_splits)
next
  case (3 b)
  then show ?case by (cases w rule: written.cases) (auto simp: json_string_first quote_char_def split: if_splits)
next
  case 4
  then show ?case
    by (cases w rule: written.cases) (auto simp: json_string_first quote_char_def written_first split: if_splits)
next
  case 6
  then show ?case by (cases w rule: written.cases) (auto simp: json_string_first quote_char_def split: if_splits)
next
  case 9
  then show ?case by (cases ws) auto
next
  case 11
  then show ?case by (cases o2) auto
qed simp_all

lemma written_joined:
  "written (JArr vs) = ''['' @ join_with '','' (map written vs) @ '']''"
  "written (JObj o') = ''{'' @ join_with '','' (map (\<lambda>m. json_string (fst m) @ '':'' @ written (snd m)) o') @ ''}''"
proof -
  have "written v @ written_elements vs = join_with '','' (map written (v # vs)) @ '']''" for v vs
    by (induction vs arbitrary: v) simp_all
  then show "written (JArr vs) = ''['' @ join_with '','' (map written vs) @ '']''"
    by (cases vs) simp_all
  have "(json_string (fst m) @ '':'' @ written (snd m)) @ written_members o' =
      join_with '','' (map (\<lambda>m. json_string (fst m) @ '':'' @ written (snd m)) (m # o')) @ ''}''" for m o'
  proof (induction o' arbitrary: m)
    case (Cons n o')
    from Cons.IH [of n] show ?case by (cases n) simp
  qed simp
  from this [of "hd o'" "tl o'"]
  show "written (JObj o') = ''{'' @ join_with '','' (map (\<lambda>m. json_string (fst m) @ '':'' @ written (snd m)) o') @ ''}''"
    by (cases o') auto
qed

text \<open>A serialisation and the canonical value it writes; sorting by key keeps the members related.\<close>

definition writes :: "string res \<Rightarrow> jval \<Rightarrow> bool" where
  "writes r v \<longleftrightarrow> (\<forall>t. r = Inr t \<longrightarrow> t = written v \<and> writable v)"

definition member_writes :: "string \<times> string res \<Rightarrow> string \<times> jval \<Rightarrow> bool" where
  "member_writes a b \<longleftrightarrow> fst a = fst b \<and> writes (snd a) (snd b)"

lemma insert_by_related:
  assumes "list_all2 R xs ys" "R x y" "\<And>a b c d. R a b \<Longrightarrow> R c d \<Longrightarrow> le a c = le' b d"
  shows "list_all2 R (insert_by le x xs) (insert_by le' y ys)"
  using assms(1,2) by (induction rule: list_all2_induct) (simp_all add: assms(3))

lemma sort_by_related:
  assumes "list_all2 R xs ys" "\<And>a b c d. R a b \<Longrightarrow> R c d \<Longrightarrow> le a c = le' b d"
  shows "list_all2 R (sort_by le xs) (sort_by le' ys)"
  using assms(1) by (induction rule: list_all2_induct) (simp_all add: insert_by_related assms(2))

lemma all_texts_related:
  assumes "list_all2 R xs ys" "all_texts (map f xs) = Inr ts"
    "\<And>a b t. R a b \<Longrightarrow> f a = Inr t \<Longrightarrow> t = g b \<and> P b"
  shows "ts = map g ys \<and> list_all P ys"
  using assms(1,2)
proof (induction arbitrary: ts rule: list_all2_induct)
  case (Cons x xs y ys)
  then obtain t rest where "f x = Inr t" "all_texts (map f xs) = Inr rest" "ts = t # rest"
    by (auto simp: bind_res_Inr)
  with Cons assms(3) [of x y t] show ?case by simp
qed simp

lemma stableSerialize_writes:
  "number_free v \<Longrightarrow> writes (stableSerialize h v) (canonical v)"
  "number_free_elements vs \<Longrightarrow> list_all2 writes (serialize_elements h vs) (canonical_elements vs)"
  "number_free_members o' \<Longrightarrow> list_all2 member_writes (serialize_members h o') (canonical_members o')"
proof (induction v and vs and o' rule: stableSerialize_serialize_elements_serialize_members.induct)
  case (7 h vs)
  show ?case unfolding writes_def
  proof (intro allI impI)
    fix t
    assume "stableSerialize h (JArr vs) = Inr t"
    then obtain ts where ts: "all_texts (map id (serialize_elements h vs)) = Inr ts"
      "t = ''['' @ join_with '','' ts @ '']''" by (auto simp: bind_res_Inr)
    moreover from 7 have "list_all2 writes (serialize_elements h vs) (canonical_elements vs)" by simp
    ultimately have "ts = map written (canonical_elements vs) \<and> list_all writable (canonical_elements vs)"
      by (intro all_texts_related [where R = writes and f = id]) (auto simp: writes_def)
    with ts(2) show "t = written (canonical (JArr vs)) \<and> writable (canonical (JArr vs))"
      by (simp add: written_joined writable_lists list_all_iff)
  qed
next
  case (8 h o')
  show ?case unfolding writes_def
  proof (intro allI impI)
    fix t
    let ?os = "sort_by key_le (canonical_members o')"
    assume "stableSerialize h (JObj o') = Inr t"
    then obtain ts where ts: "all_texts (map member_text (sort_by key_le (serialize_members h o'))) = Inr ts"
      "t = ''{'' @ join_with '','' ts @ ''}''" by (auto simp: bind_res_Inr)
    from 8 have "list_all2 member_writes (serialize_members h o') (canonical_members o')" by simp
    then have "list_all2 member_writes (sort_by key_le (serialize_members h o')) ?os"
      by (rule sort_by_related) (simp add: member_writes_def key_le_def)
    from this ts(1) have "ts = map (\<lambda>m. json_string (fst m) @ '':'' @ written (snd m)) ?os \<and>
        list_all (\<lambda>m. writable (snd m)) ?os"
      by (rule all_texts_related) (auto simp: member_writes_def writes_def member_text_def bind_res_Inr)
    with ts(2) show "t = written (canonical (JObj o')) \<and> writable (canonical (JObj o'))"
      by (simp add: written_joined writable_lists list_all_iff)
  qed
qed (auto simp: writes_def member_writes_def)

lemma stableSerialize_injective:
  assumes "number_free v" "number_free w" "stableSerialize h v = Inr t" "stableSerialize h w = Inr t"
  shows "canonical v = canonical w"
  using stableSerialize_writes(1) [OF assms(1), of h] stableSerialize_writes(1) [OF assms(2), of h] assms(3,4)
    written_prefix(1) [of "canonical v" "canonical w" "[]" "[]"]
  by (auto simp: writes_def)

lemma canonical_undef [simp]: "canonical v = JUndef \<longleftrightarrow> v = JUndef"
  by (cases v) simp_all

lemma canonical_subject:
  assumes "invocation \<noteq> JUndef" "policy \<noteq> JUndef"
  shows "canonical (binding_subject invocation policy) =
    JObj [(''invocation'', canonical invocation), (''policy'', canonical policy),
      (''schema'', JStr ''kite.tool-approval-binding.v1'')]"
  using assms by (simp add: binding_subject_def key_le_def)

text \<open>The text behind a binding digest.\<close>

definition binding_text :: "js_host \<Rightarrow> jval \<Rightarrow> jval \<Rightarrow> string res" where
  "binding_text h invocation policy = stableSerialize h (binding_subject invocation policy)"

lemma binding_text_exact:
  assumes "binding_text h i p = Inr t" "binding_text h i' p' = Inr t"
    "number_free i" "number_free p" "number_free i'" "number_free p'"
    "i \<noteq> JUndef" "p \<noteq> JUndef" "i' \<noteq> JUndef" "p' \<noteq> JUndef"
  shows "canonical i = canonical i' \<and> canonical p = canonical p'"
  using stableSerialize_injective [of "binding_subject i p" "binding_subject i' p'" h t] assms
  by (simp add: binding_text_def canonical_subject) (simp add: binding_subject_def)

lemma canonical_members_set:
  "set (canonical_members o') = {(k, canonical v) |k v. (k, v) \<in> set o' \<and> v \<noteq> JUndef}"
proof -
  have "canonical_members o' = map (\<lambda>m. (fst m, canonical (snd m))) (filter (\<lambda>m. snd m \<noteq> JUndef) o')"
    by (induction o') auto
  then show ?thesis by (simp only: set_map set_filter) (auto simp: image_iff intro: bexI [rotated])
qed

lemma keys_canonical_members: "distinct_keys o' \<Longrightarrow> distinct_keys (canonical_members o')"
proof (induction o')
  case (Cons m o')
  moreover have "k \<in> set (obj_keys (canonical_members o')) \<Longrightarrow> k \<in> set (obj_keys o')" for k
    by (force simp: obj_keys_def canonical_members_set)
  ultimately show ?case by (cases m) (auto simp: distinct_keys_def)
qed simp

lemma distinct_keys_sort: "distinct_keys (sort_by le o') = distinct_keys o'"
proof -
  have "mset (map fst (sort_by le o')) = mset (map fst o')" by (simp add: mset_map)
  then show ?thesis unfolding distinct_keys_def obj_keys_def by (metis mset_eq_imp_distinct_iff)
qed

lemma canonical_field:
  assumes "distinct_keys o'"
  shows "fld (sort_by key_le (canonical_members o')) f = canonical (fld o' f)"
proof -
  let ?c = "sort_by key_le (canonical_members o')"
  have "distinct_keys ?c" using assms by (simp add: distinct_keys_sort keys_canonical_members)
  then have c: "map_of ?c f = Some w \<longleftrightarrow> (\<exists>v. map_of o' f = Some v \<and> v \<noteq> JUndef \<and> w = canonical v)" for w
    using assms by (auto simp: distinct_keys_map_of canonical_members_set)
  show ?thesis
  proof (cases "map_of ?c f")
    case None
    then have "\<nexists>v. map_of o' f = Some v \<and> v \<noteq> JUndef" using c by fastforce
    then have "fld o' f = JUndef" by (cases "map_of o' f") (auto simp: fld_def)
    then show ?thesis using None by (simp add: fld_def)
  next
    case (Some w)
    then show ?thesis using c [of w] by (auto simp: fld_def)
  qed
qed

lemma canonical_fields:
  assumes "canonical (JObj a) = canonical (JObj b)" "distinct_keys a" "distinct_keys b"
  shows "canonical (fld a f) = canonical (fld b f)"
  using canonical_field [OF assms(2), of f] canonical_field [OF assms(3), of f] assms(1) by simp

section \<open>The decision never throws\<close>

definition serializable :: "js_host \<Rightarrow> jval \<Rightarrow> bool" where
  "serializable h v \<longleftrightarrow> (\<exists>t. stableSerialize h v = Inr t)"

lemma all_texts_total: "\<forall>r \<in> set rs. \<exists>t. r = Inr t \<Longrightarrow> \<exists>ts. all_texts rs = Inr ts"
proof (induction rs)
  case (Cons r rs)
  then obtain t ts where "r = Inr t" "all_texts rs = Inr ts" by auto
  then show ?case by simp
qed simp

lemma serialize_members_set:
  "(k, r) \<in> set (serialize_members h o') \<Longrightarrow> \<exists>v. (k, v) \<in> set o' \<and> v \<noteq> JUndef \<and> r = stableSerialize h v"
proof -
  have "serialize_members h o' = map (\<lambda>m. (fst m, stableSerialize h (snd m))) (filter (\<lambda>m. snd m \<noteq> JUndef) o')"
    by (induction o') auto
  then show "(k, r) \<in> set (serialize_members h o') \<Longrightarrow> ?thesis" by auto
qed

lemma serializable_object:
  assumes "\<And>k v. (k, v) \<in> set o' \<Longrightarrow> v \<noteq> JUndef \<Longrightarrow> serializable h v"
  shows "serializable h (JObj o')"
proof -
  have "\<exists>t. r = Inr t" if "r \<in> set (map member_text (sort_by key_le (serialize_members h o')))" for r
  proof -
    from that obtain k r' where m: "(k, r') \<in> set (serialize_members h o')" "r = member_text (k, r')" by auto
    then obtain v where "(k, v) \<in> set o'" "v \<noteq> JUndef" "r' = stableSerialize h v"
      using serialize_members_set by blast
    with assms obtain t where "r' = Inr t" by (auto simp: serializable_def)
    with m(2) show ?thesis by (simp add: member_text_def)
  qed
  then obtain ts where "all_texts (map member_text (sort_by key_le (serialize_members h o'))) = Inr ts"
    using all_texts_total by metis
  then show ?thesis by (simp add: serializable_def)
qed

lemma serializable_list: "\<forall>v \<in> set vs. serializable h v \<Longrightarrow> serializable h (JArr vs)"
proof -
  assume "\<forall>v \<in> set vs. serializable h v"
  then have "\<exists>ts. all_texts (serialize_elements h vs) = Inr ts"
    by (induction vs) (auto simp: serializable_def)
  then show ?thesis by (auto simp: serializable_def)
qed

lemma serializable_simps [simp]:
  "serializable h (JStr s)" "serializable h (JBool b)" "serializable h JNull"
  by (simp_all add: serializable_def)

lemma serializable_values:
  "boundedIdentity v \<Longrightarrow> serializable h v" "digest64 v \<Longrightarrow> serializable h v"
  "nullableDigest v \<Longrightarrow> serializable h v" "is_boolean v \<Longrightarrow> serializable h v"
  by (auto simp: boundedIdentity_def digest64_def nullableDigest_def is_boolean_def split: jval.splits)

text \<open>A value whose text is one of the allowed words is a word or a nest of one-element lists around it.\<close>

lemma join_single:
  assumes "CHR '','' \<notin> set (join_with '','' (js_element_strings h vs))" "join_with '','' (js_element_strings h vs) \<noteq> []"
  obtains w where "vs = [w]" "\<not> nullish w" "join_with '','' (js_element_strings h vs) = js_String h w"
proof (cases vs)
  case (Cons v rest)
  with assms(1) have "rest = []" by (cases rest) simp_all
  with that [of v] assms(2) Cons show thesis by (simp split: if_splits)
qed (use assms(2) in simp)

definition odd_texts :: "string set" where
  "odd_texts = {[], ''NaN'', ''Infinity'', ''-Infinity'', ''undefined'', ''[object Object]''}"

lemma serializable_spelled:
  assumes "js_String h v \<notin> odd_texts" "CHR '','' \<notin> set (js_String h v)"
  shows "serializable h v"
  using assms
proof (induction v)
  case (JArr vs)
  then have "CHR '','' \<notin> set (join_with '','' (js_element_strings h vs))"
    "join_with '','' (js_element_strings h vs) \<noteq> []" by (auto simp: odd_texts_def)
  then obtain w where "vs = [w]" "join_with '','' (js_element_strings h vs) = js_String h w"
    by (rule join_single)
  then have w: "vs = [w]" "js_String h (JArr vs) = js_String h w" by simp_all
  with JArr have "serializable h w" by simp
  with w show ?case by (simp add: serializable_list)
next
  case (JNum r)
  then show ?case by (simp add: serializable_def)
qed (simp_all add: odd_texts_def split: if_splits)

text \<open>A field that is absent or can be serialised.\<close>

definition transportable :: "js_host \<Rightarrow> jval \<Rightarrow> bool" where
  "transportable h v \<longleftrightarrow> v = JUndef \<or> serializable h v"

lemma validEffects_serializable: "validEffects v \<Longrightarrow> serializable h v"
proof -
  assume "validEffects v"
  then obtain o' where "v = JObj o'" "\<forall>m \<in> set o'. snd m = JBool True"
    by (cases v) (auto simp: validEffects_def Kite_Governance.plainRecord_def isRecord_def list_all_iff obj_values_def)
  then show ?thesis by (metis serializable_object serializable_simps(2) snd_conv)
qed

lemma transportable_rules:
  "boundedIdentity v \<Longrightarrow> transportable h v" "digest64 v \<Longrightarrow> transportable h v"
  "nullableDigest v \<Longrightarrow> transportable h v" "is_boolean v \<Longrightarrow> transportable h v"
  "v = JNull \<or> boundedIdentity v \<Longrightarrow> transportable h v" "v = JNull \<or> digest64 v \<Longrightarrow> transportable h v"
  "optional_fact boundedIdentity v \<Longrightarrow> transportable h v" "optional_fact digest64 v \<Longrightarrow> transportable h v"
  "optional_fact is_boolean v \<Longrightarrow> transportable h v" "optional_fact validEffects v \<Longrightarrow> transportable h v"
  "js_String h v \<in> set APPROVAL_LEVELS \<Longrightarrow> transportable h v" "js_String h v \<in> set VERDICTS \<Longrightarrow> transportable h v"
  "js_String h v \<in> set RISKS \<Longrightarrow> transportable h v"
  "v = JUndef \<or> v = JStr ''planning'' \<Longrightarrow> transportable h v"
  using serializable_values serializable_spelled [of h v] validEffects_serializable
  by (auto simp: transportable_def optional_fact_def APPROVAL_LEVELS_def VERDICTS_def RISKS_def
      odd_texts_def)

lemma serializable_fields:
  assumes "distinct_keys o'" "Kite_Governance.exactKeys (JObj o') req opt" "list_all (\<lambda>k. transportable h (fld o' k)) (req @ opt)"
  shows "serializable h (JObj o')"
proof (rule serializable_object)
  fix k v
  assume "(k, v) \<in> set o'" "v \<noteq> JUndef"
  then have "fld o' k = v" using assms(1) by (simp add: fld_def distinct_keys_map_of [symmetric])
  moreover have "k \<in> set (req @ opt)"
    using \<open>(k, v) \<in> set o'\<close> assms(2)
    by (force simp: Kite_Governance.exactKeys_def Let_def list_all_iff obj_keys_def)
  ultimately show "serializable h v"
    using assms(3) \<open>v \<noteq> JUndef\<close> by (auto simp: list_all_iff transportable_def)
qed

lemma record_value: "Kite_Governance.plainRecord v \<Longrightarrow> \<exists>o'. v = JObj o'"
  by (cases v) (simp_all add: Kite_Governance.plainRecord_def isRecord_def)

text \<open>A JavaScript object never has two properties of one name.\<close>

definition own_keys :: "jval \<Rightarrow> bool" where
  "own_keys v \<longleftrightarrow> distinct_keys (or_default (as_record v) [])"

lemma invocation_serializable:
  assumes "validInvocation v" "own_keys v"
  shows "serializable h v"
proof -
  from assms(1) obtain o' where o': "v = JObj o'" using record_value by (auto simp: validInvocation_def)
  show ?thesis unfolding o'
    by (rule serializable_fields [of _ INVOCATION_REQUIRED INVOCATION_OPTIONAL])
      (use assms in \<open>simp_all add: o' own_keys_def validInvocation_def INVOCATION_REQUIRED_def
         INVOCATION_OPTIONAL_def transportable_rules\<close>)
qed

lemma policy_serializable:
  assumes "validPolicy h v = Inr True" "own_keys v"
  shows "serializable h v"
proof -
  note policy = validPolicy_def spelled_true
  from assms(1) obtain o' where o': "v = JObj o'" using record_value by (auto simp: policy)
  from assms(1) obtain vs where vs: "fld o' ''expectedEffects'' = JArr vs" "list_all boundedIdentity vs"
    unfolding o' by (cases "fld o' ''expectedEffects''") (simp_all add: policy)
  then have "serializable h (fld o' ''expectedEffects'')"
    by (simp add: list_all_iff serializable_list serializable_values(1))
  then have "transportable h (fld o' ''expectedEffects'')" by (simp add: transportable_def)
  then show ?thesis unfolding o'
    by (intro serializable_fields [of _ POLICY_REQUIRED POLICY_OPTIONAL])
      (use assms in \<open>simp_all add: o' own_keys_def policy POLICY_REQUIRED_def
         POLICY_OPTIONAL_def transportable_rules\<close>)
qed

lemma binding_digest_total:
  assumes "validInvocation i" "validPolicy h p = Inr True" "own_keys i" "own_keys p"
  obtains t where "binding_text h i p = Inr t" "createToolApprovalBindingDigest h i p = Inr (governance_sha256Hex t)"
proof -
  have "serializable h (binding_subject i p)"
    unfolding binding_subject_def
    by (rule serializable_object) (use invocation_serializable policy_serializable assms in auto)
  with that show thesis by (auto simp: serializable_def createToolApprovalBindingDigest_def binding_text_def)
qed

lemma first_reason_none [simp]:
  "first_reason ((c, reason) # rest) = Inr None \<longleftrightarrow> c = Inr True \<and> first_reason rest = Inr None"
  by (auto simp: bind_res_Inr split: if_splits)

declare first_reason.simps(2) [simp del]

lemma first_reason_throws: "first_reason cs = Inl e \<Longrightarrow> list_ex (\<lambda>c. fst c = Inl e) cs"
proof (induction cs)
  case (Cons c cs)
  then show ?case by (cases c; cases "fst c") (auto simp: first_reason.simps(2) split: if_splits)
qed simp

lemma valid_facts_iff: "isValidToolGovernanceFacts h v = Inr True \<longleftrightarrow> toolGovernanceFactsInvalidReason h v = Inr None"
  by (auto simp: isValidToolGovernanceFacts_def bind_res_Inr)

lemma valid_facts_parts:
  assumes "isValidToolGovernanceFacts h v = Inr True"
  shows "validInvocation (vfld v ''invocation'')" "validPolicy h (vfld v ''policy'') = Inr True"
    "validContext h (vfld v ''context'') = Inr True" "validAdmission h (vfld v ''admission'') = Inr True"
    "validApproval h (vfld v ''approval'') = Inr True" "\<not> identity_problem v"
    "vfld v ''sameCommandGrant'' = JUndef \<or> validSameCommandGrant (vfld v ''sameCommandGrant'')"
  using assms by (simp_all add: valid_facts_iff toolGovernanceFactsInvalidReason_def)

lemma approvalIdentityMatches_total:
  assumes "isValidToolGovernanceFacts h v = Inr True" "own_keys (vfld v ''invocation'')" "own_keys (vfld v ''policy'')"
  shows "\<exists>b. approvalIdentityMatches h (vfld v ''approval'') (vfld v ''invocation'') (vfld v ''policy'') = Inr b"
  using valid_facts_parts(1,2) [OF assms(1)] assms(2,3)
  by (auto simp: approvalIdentityMatches_def elim: binding_digest_total)

lemma authorize_total:
  assumes "isValidToolGovernanceFacts h v = Inr True" "own_keys (vfld v ''invocation'')" "own_keys (vfld v ''policy'')"
  shows "\<exists>a. authorizeValidToolGovernanceFacts h v = Inr a"
  using approvalIdentityMatches_total [OF assms]
  by (auto simp: authorizeValidToolGovernanceFacts_def Let_def)

text \<open>The facts that are read by their spelling, where the text of an object may be asked for.\<close>

definition spelled_facts :: "jval \<Rightarrow> jval list" where
  "spelled_facts v =
     (let policy = vfld v ''policy''; context = vfld v ''context''; approval = vfld v ''approval'';
          skill = vfld v ''nestedSkill'' in
      [vfld policy ''minimumApproval'', vfld policy ''decision'', vfld policy ''risk'',
       vfld context ''interactionMode'', vfld context ''executionMechanism'',
       vfld (vfld v ''admission'') ''freshness'', vfld approval ''status'', vfld approval ''grant'',
       vfld (vfld v ''dynamicMcp'') ''minimumApproval'', vfld skill ''decision'', vfld skill ''minimumApproval''])"

lemma part_throws:
  "validPolicy h v = Inl e \<Longrightarrow> e = conversion_error \<and>
     list_ex string_throws [vfld v ''minimumApproval'', vfld v ''decision'', vfld v ''risk'']"
  "validContext h v = Inl e \<Longrightarrow> e = conversion_error \<and>
     list_ex string_throws [vfld v ''interactionMode'', vfld v ''executionMechanism'']"
  "validAdmission h v = Inl e \<Longrightarrow> e = conversion_error \<and> string_throws (vfld v ''freshness'')"
  "validApproval h v = Inl e \<Longrightarrow> e = conversion_error \<and>
     list_ex string_throws [vfld v ''status'', vfld v ''grant'']"
  "validDynamicMcp h v = Inl e \<Longrightarrow> e = conversion_error \<and> string_throws (vfld v ''minimumApproval'')"
  "validNestedSkill h v = Inl e \<Longrightarrow> e = conversion_error \<and>
     list_ex string_throws [vfld v ''decision'', vfld v ''minimumApproval'']"
  by (auto simp: validPolicy_def validContext_def validAdmission_def validApproval_def validDynamicMcp_def
      validNestedSkill_def spelled_throws dest!: all_of_throws)

lemma invalid_reason_throws:
  assumes "toolGovernanceFactsInvalidReason h v = Inl e"
  shows "e = conversion_error \<and> list_ex string_throws (spelled_facts v)"
proof -
  from first_reason_throws [OF assms [unfolded toolGovernanceFactsInvalidReason_def]] consider
      "validPolicy h (vfld v ''policy'') = Inl e" | "validContext h (vfld v ''context'') = Inl e"
    | "validAdmission h (vfld v ''admission'') = Inl e" | "validApproval h (vfld v ''approval'') = Inl e"
    | "validDynamicMcp h (vfld v ''dynamicMcp'') = Inl e" | "validNestedSkill h (vfld v ''nestedSkill'') = Inl e"
    by (auto dest: if_present_throws)
  then show ?thesis by cases (auto simp: spelled_facts_def Let_def dest!: part_throws)
qed

lemma admit_total:
  assumes "validAdmission h admission = Inr True"
  shows "\<exists>d. admitToolGovernance h a admission = Inr d \<and>
    (\<forall>outcome. d = Withhold outcome \<longrightarrow> a = Unauthorized outcome \<or>
       outcome \<noteq> malformed ''Tool governance facts are malformed.'')"
  using assms
  by (cases a) (auto simp: admitToolGovernance_def malformed_def governance_reject_def Let_def)

text \<open>
  C24: what a decision about a tool call can come to. Whatever value arrives, either
  \<open>decideToolGovernance\<close> returns a decision, or it throws the \<open>TypeError\<close> of \<open>String(...)\<close>, and
  then one of the eleven facts that are read by their spelling is (or contains, in a list) an object
  with a property named \<open>toString\<close>; nothing else throws. Where it returns, a malformed envelope and
  only a malformed envelope is withheld as malformed; a well-formed one can always be serialised for
  the comparison with a recorded approval, since the validation lets no undefined or non-finite value
  into the invocation or the policy. (A JavaScript object has one property of each name.)
\<close>

theorem governance_decides:
  assumes "own_keys (vfld v ''invocation'')" "own_keys (vfld v ''policy'')"
  shows "(\<exists>d reason. decideToolGovernance h v = Inr d \<and> toolGovernanceFactsInvalidReason h v = Inr reason \<and>
      (reason \<noteq> None \<longleftrightarrow>
         d = Withhold (GovReject ''mandatory_policy_unavailable'' (JStr ''Tool governance facts are malformed.'')
           (Some ''invalid_facts'')))) \<or>
    decideToolGovernance h v = Inl conversion_error \<and> list_ex string_throws (spelled_facts v)"
proof (cases "toolGovernanceFactsInvalidReason h v")
  case (Inl e)
  with invalid_reason_throws [OF Inl] show ?thesis
    by (simp add: decideToolGovernance_def isValidToolGovernanceFacts_def)
next
  case (Inr reason)
  show ?thesis
  proof (cases reason)
    case (Some r)
    with Inr show ?thesis
      by (simp add: decideToolGovernance_def malformed_def governance_reject_def isValidToolGovernanceFacts_def)
  next
    case None
    with Inr have valid: "isValidToolGovernanceFacts h v = Inr True" by (simp add: valid_facts_iff)
    from authorize_total [OF valid assms] obtain a where a: "authorizeValidToolGovernanceFacts h v = Inr a" by blast
    have "a \<noteq> Unauthorized (malformed ''Tool governance facts are malformed.'')"
      using a approvalIdentityMatches_total [OF valid assms]
      by (auto simp: authorizeValidToolGovernanceFacts_def unapproved_decision_def governance_reject_def malformed_def
          policy_denial_def Let_def split: if_splits mode_decision.splits)
    with admit_total [OF valid_facts_parts(4) [OF valid], of a] valid a None Inr show ?thesis
      by (auto simp: decideToolGovernance_def malformed_def governance_reject_def)
  qed
qed

section \<open>Every admitted call is justified\<close>

text \<open>The recorded approval is for this call: its identifier and the digest of its facts.\<close>

definition exactly_approved :: "js_host \<Rightarrow> jval \<Rightarrow> bool" where
  "exactly_approved h v \<longleftrightarrow>
     vfld (vfld v ''approval'') ''status'' = JStr ''approved'' \<and>
     vfld (vfld v ''approval'') ''approvedToolCallId'' = vfld (vfld v ''invocation'') ''toolCallId'' \<and>
     (\<exists>digest. createToolApprovalBindingDigest h (vfld v ''invocation'') (vfld v ''policy'') = Inr digest \<and>
        vfld (vfld v ''approval'') ''approvalBindingDigest'' = JStr digest)"

text \<open>A standing grant for the same command, in force when it is used.\<close>

definition covered_by_grant :: "jval \<Rightarrow> bool" where
  "covered_by_grant v =
     (let grant = vfld v ''sameCommandGrant''; call = vfld v ''invocation'';
          now = vfld (vfld v ''context'') ''observedAt'' in
      validSameCommandGrant grant \<and>
      truthy (vfld (vfld v ''policy'') ''sameCommandMayBypassApproval'') \<and>
      (\<forall>f \<in> {''workspace'', ''threadId'', ''canonicalWorkspaceIdentity'', ''cwd'', ''executor'',
          ''environmentDigest'', ''scopeDigest'', ''executorRevision'', ''commandDigest''}.
         vfld grant f = vfld call f) \<and>
      vfld grant ''effectsDigest'' = vfld call ''effectiveEffectsDigest'' \<and>
      vfld grant ''parserRevision'' =
        (if nullish (vfld call ''policyParserExecutorRevision'') then vfld call ''parserRevision''
         else vfld call ''policyParserExecutorRevision'') \<and>
      validTimestamp now \<and> int_of (vfld grant ''grantedAt'') \<le> int_of now \<and>
      (vfld grant ''expiresAt'' = JUndef \<or> int_of now < int_of (vfld grant ''expiresAt'')))"

text \<open>The policy alone lets the call run.\<close>

definition policy_suffices :: "jval \<Rightarrow> bool" where
  "policy_suffices v =
     (let policy = vfld v ''policy''; full = vfld (vfld v ''context'') ''interactionMode'' = JStr ''full'' in
      full \<and> truthy (vfld policy ''fullAccessMayBypassApproval'') \<or>
      \<not> truthy (vfld policy ''requiresApproval'') \<and>
        (full \<or> truthy (vfld (vfld v ''dynamicMcp'') ''readOnly'') \<or>
         \<not> hasAuthorizationReviewEffect (vfld policy ''effects'')) \<or>
      full \<and> vfld policy ''risk'' \<in> {JStr ''read'', JStr ''plan''} \<or>
      vfld policy ''risk'' \<in> {JStr ''read'', JStr ''plan'', JStr ''write_file''} \<and>
        \<not> hasModeReviewEffect (vfld policy ''effects''))"

text \<open>
  A review of the call cannot be skipped: an MCP server or a skill sets a minimum, or the call is a
  shell command with uncertain effects.
\<close>

definition uncertain_shell :: "jval \<Rightarrow> bool" where
  "uncertain_shell v \<longleftrightarrow>
     vfld (vfld v ''context'') ''executionMechanism'' = JStr ''shell'' \<and>
     vfld (vfld (vfld v ''policy'') ''effects'') ''uncertainEffects'' = JBool True"

definition minimum_forces_review :: "jval \<Rightarrow> bool" where
  "minimum_forces_review v \<longleftrightarrow>
     vfld (vfld v ''dynamicMcp'') ''minimumApproval'' \<in> {JStr ''user'', JStr ''auto_review''} \<or>
     activates_skill v \<and> (vfld (vfld v ''policy'') ''minimumApproval'' = JStr ''user'' \<or>
       vfld (vfld v ''nestedSkill'') ''decision'' = JStr ''ask'' \<or>
       vfld (vfld v ''nestedSkill'') ''minimumApproval'' \<in> {JStr ''user'', JStr ''auto_review''})"

definition review_forced :: "jval \<Rightarrow> bool" where
  "review_forced v \<longleftrightarrow> minimum_forces_review v \<or> uncertain_shell v"

text \<open>
  The one way past a forced review: a policy that asks for no approval, in full mode or for a tool
  that an MCP server calls read-only.
\<close>

definition uncertain_shell_gap :: "jval \<Rightarrow> bool" where
  "uncertain_shell_gap v \<longleftrightarrow>
     uncertain_shell v \<and> \<not> minimum_forces_review v \<and>
     (vfld (vfld v ''context'') ''interactionMode'' = JStr ''full'' \<or>
      truthy (vfld (vfld v ''dynamicMcp'') ''readOnly'')) \<and>
     vfld (vfld v ''policy'') ''requiresApproval'' = JBool False"

lemma review_forced_iff: "review_forced v \<longleftrightarrow> forceManualApproval v \<or> forceAutoReview v"
  by (auto simp: review_forced_def minimum_forces_review_def uncertain_shell_def forceManualApproval_def
      forceAutoReview_def activationRequiresManual_def nestedSkillRequiresManual_def nestedSkillRequiresAutoReview_def
      dynamicMcpRequiresManual_def dynamicMcpRequiresAutoReview_def uncertainShellRequiresManual_def)

lemma grant_covers:
  assumes "isValidToolGovernanceFacts h v = Inr True" "sameCommandGrantMatches v"
  shows "covered_by_grant v"
proof -
  from valid_facts_parts(7) [OF assms(1)] assms(2) have "validSameCommandGrant (vfld v ''sameCommandGrant'')"
    by (auto simp: sameCommandGrantMatches_def Let_def)
  moreover from valid_facts_parts(3) [OF assms(1)]
  have "optional_fact validTimestamp (vfld (vfld v ''context'') ''observedAt'')" by (simp add: validContext_def)
  ultimately show ?thesis
    using assms(2) by (simp add: sameCommandGrantMatches_def covered_by_grant_def optional_fact_def coalesce_def Let_def
        not_less not_le split: if_splits)
qed

lemma unapproved_justified:
  assumes "isValidToolGovernanceFacts h v = Inr True" "unapproved_decision v = Authorized kind grant"
  shows "kind = ''approved_call'' \<and> grant = JStr ''same_command'' \<and> covered_by_grant v \<and> \<not> review_forced v \<or>
    kind = ''policy_allow'' \<and> grant = JStr ''none'' \<and> policy_suffices v \<and> \<not> review_forced v \<or>
    kind = ''policy_allow'' \<and> grant = JStr ''none'' \<and> uncertain_shell_gap v"
proof -
  let ?ctx = "vfld v ''context''" and ?policy = "vfld v ''policy''"
  have asks: "is_boolean (vfld ?policy ''requiresApproval'')"
    using valid_facts_parts(2) [OF assms(1)] by (simp add: validPolicy_def)
  from assms(2) consider
      (full) "vfld ?ctx ''interactionMode'' = JStr ''full''" "truthy (vfld ?policy ''fullAccessMayBypassApproval'')"
        "\<not> review_forced v" "kind = ''policy_allow''" "grant = JStr ''none''"
    | (grant) "\<not> review_forced v" "sameCommandGrantMatches v" "kind = ''approved_call''" "grant = JStr ''same_command''"
    | (free) "\<not> requiresApproval v" "kind = ''policy_allow''" "grant = JStr ''none''"
    | (mode) "\<not> review_forced v" "decideMode ?ctx ?policy = ModeAllow" "kind = ''policy_allow''" "grant = JStr ''none''"
    unfolding unapproved_decision_def Let_def review_forced_iff by (auto split: if_splits mode_decision.splits)
  then show ?thesis
  proof cases
    case full
    then show ?thesis by (simp add: policy_suffices_def)
  next
    case grant
    then show ?thesis using grant_covers [OF assms(1)] by simp
  next
    case free
    from free(1) have calm: "\<not> minimum_forces_review v" "\<not> truthy (vfld ?policy ''requiresApproval'')"
      "\<not> requiresEffectReview v"
      by (auto simp: requiresApproval_def minimum_forces_review_def activationRequiresManual_def
          nestedSkillRequiresManual_def nestedSkillRequiresAutoReview_def dynamicMcpRequiresManual_def
          dynamicMcpRequiresAutoReview_def)
    then have "policy_suffices v" by (auto simp: requiresEffectReview_def policy_suffices_def Let_def)
    moreover have "uncertain_shell v \<longrightarrow> uncertain_shell_gap v"
      using calm asks
      by (auto simp: uncertain_shell_gap_def uncertain_shell_def requiresEffectReview_def
          hasAuthorizationReviewEffect_def is_boolean_def split: jval.splits)
    ultimately show ?thesis using free calm(1) by (auto simp: review_forced_def)
  next
    case mode
    then show ?thesis
      by (auto simp: decideMode_def decideAcceptEdits_def policy_suffices_def Let_def split: if_splits)
  qed
qed

lemma authorized_justified:
  assumes "isValidToolGovernanceFacts h v = Inr True" "authorizeValidToolGovernanceFacts h v = Inr (Authorized kind grant)"
  shows "list_all (gate v) [''recoveryAdmission'', ''boundedCancellation'', ''executionBoundary'', ''skillCapabilityCeiling'']"
    and "truthy (vfld (vfld v ''policy'') ''allowed'')"
    and "truthy (vfld (vfld v ''policy'') ''requiresSandbox'') \<longrightarrow> truthy (vfld (vfld v ''context'') ''sandboxAvailable'')"
    and "kind = ''approved_call'' \<and> exactly_approved h v \<and> grant = vfld (vfld v ''approval'') ''grant'' \<or>
      vfld (vfld v ''approval'') ''status'' \<noteq> JStr ''approved'' \<and> unapproved_decision v = Authorized kind grant"
  using assms(2)
  by (auto simp: authorizeValidToolGovernanceFacts_def Let_def bind_res_Inr approvalIdentityMatches_def
      exactly_approved_def split: if_splits)

lemma code_unit_le_total: "code_unit_le s t \<or> code_unit_le t s"
  by (induction s t rule: code_unit_le.induct) (auto simp: not_less le_less)

lemma code_unit_le_trans: "code_unit_le s t \<Longrightarrow> code_unit_le t u \<Longrightarrow> code_unit_le s u"
proof (induction s t arbitrary: u rule: code_unit_le.induct)
  case (3 c s d t)
  then show ?case by (cases u) auto
qed auto

lemma reservation_ids_sound:
  "sorted_wrt code_unit_le (reservation_ids v)" "distinct (reservation_ids v)"
proof -
  show "sorted_wrt code_unit_le (reservation_ids v)"
    unfolding reservation_ids_def using code_unit_le_total code_unit_le_trans by (rule sort_by_sorted)
  have "mset (reservation_ids v) = mset (remdups (map (\<lambda>i. or_default (as_string i) [])
      (case v of JArr ids \<Rightarrow> ids | _ \<Rightarrow> [])))"
    unfolding reservation_ids_def by simp
  then show "distinct (reservation_ids v)" using mset_eq_imp_distinct_iff distinct_remdups by blast
qed

lemma admitted_cases:
  assumes "decideToolGovernance h v = Inr (Admit kind grant ids)"
  shows "isValidToolGovernanceFacts h v = Inr True" "authorizeValidToolGovernanceFacts h v = Inr (Authorized kind grant)"
    "ids = reservation_ids (vfld (vfld v ''admission'') ''reservationIds'')"
    "vfld (vfld v ''admission'') ''freshness'' = JStr ''current''"
    "truthy (vfld (vfld v ''admission'') ''reservationRequired'') \<longrightarrow> ids \<noteq> []"
proof -
  from assms show valid: "isValidToolGovernanceFacts h v = Inr True"
    by (auto simp: decideToolGovernance_def bind_res_Inr split: if_splits)
  with assms obtain a where a: "authorizeValidToolGovernanceFacts h v = Inr a"
    "admitToolGovernance h a (vfld v ''admission'') = Inr (Admit kind grant ids)"
    by (auto simp: decideToolGovernance_def bind_res_Inr)
  from a(2) have "a = Authorized kind grant"
    and "ids = reservation_ids (vfld (vfld v ''admission'') ''reservationIds'')"
      "vfld (vfld v ''admission'') ''freshness'' = JStr ''current''"
      "truthy (vfld (vfld v ''admission'') ''reservationRequired'') \<longrightarrow> ids \<noteq> []"
    by (auto simp: admitToolGovernance_def bind_res_Inr Let_def split: governance_authorization.splits if_splits)
  with a(1) show "authorizeValidToolGovernanceFacts h v = Inr (Authorized kind grant)"
    "ids = reservation_ids (vfld (vfld v ''admission'') ''reservationIds'')"
    "vfld (vfld v ''admission'') ''freshness'' = JStr ''current''"
    "truthy (vfld (vfld v ''admission'') ''reservationRequired'') \<longrightarrow> ids \<noteq> []" by simp_all
qed

text \<open>
  C2: a tool call is admitted only with a justification. When the governance admits a call, its
  facts are well-formed, the four execution gates are open, the compiled policy allows the call, a
  required sandbox is there, the admission facts are current, and the reservations are returned in
  order, without repetition and not empty when one is required. The authority is one of four: a
  recorded approval of exactly this call (identifier and digest of invocation and policy); or, where
  no review is forced (by the minimum of an MCP server or a skill, or because the call is a shell
  command with uncertain effects), a standing grant for the same command, place, parser and executor
  that has not expired, or a policy that by itself lets the call run in the session's mode; or the
  gap of the code: a shell command with uncertain effects under a policy that asks for no approval,
  in full mode or with a claim that it is a read-only MCP tool, and with no minimum that forces a
  review.
\<close>

theorem admitted_calls_justified:
  assumes "decideToolGovernance h v = Inr (Admit kind grant ids)"
  shows "isValidToolGovernanceFacts h v = Inr True \<and>
    list_all (gate v) [''recoveryAdmission'', ''boundedCancellation'', ''executionBoundary'', ''skillCapabilityCeiling''] \<and>
    truthy (vfld (vfld v ''policy'') ''allowed'') \<and>
    (truthy (vfld (vfld v ''policy'') ''requiresSandbox'') \<longrightarrow> truthy (vfld (vfld v ''context'') ''sandboxAvailable'')) \<and>
    vfld (vfld v ''admission'') ''freshness'' = JStr ''current'' \<and>
    sorted_wrt code_unit_le ids \<and> distinct ids \<and>
    (truthy (vfld (vfld v ''admission'') ''reservationRequired'') \<longrightarrow> ids \<noteq> []) \<and>
    (kind = ''approved_call'' \<and> grant = vfld (vfld v ''approval'') ''grant'' \<and> exactly_approved h v \<or>
     kind = ''approved_call'' \<and> grant = JStr ''same_command'' \<and> covered_by_grant v \<and> \<not> review_forced v \<or>
     kind = ''policy_allow'' \<and> grant = JStr ''none'' \<and> policy_suffices v \<and> \<not> review_forced v \<or>
     kind = ''policy_allow'' \<and> grant = JStr ''none'' \<and> uncertain_shell_gap v)"
proof -
  note admitted = admitted_cases [OF assms]
  have "kind = ''approved_call'' \<and> grant = vfld (vfld v ''approval'') ''grant'' \<and> exactly_approved h v \<or>
     kind = ''approved_call'' \<and> grant = JStr ''same_command'' \<and> covered_by_grant v \<and> \<not> review_forced v \<or>
     kind = ''policy_allow'' \<and> grant = JStr ''none'' \<and> policy_suffices v \<and> \<not> review_forced v \<or>
     kind = ''policy_allow'' \<and> grant = JStr ''none'' \<and> uncertain_shell_gap v"
    using authorized_justified(4) [OF admitted(1,2)] unapproved_justified [OF admitted(1), of kind grant] by argo
  then show ?thesis
    using admitted reservation_ids_sound authorized_justified(1,2,3) [OF admitted(1,2)] by (intro conjI) simp_all
qed

section \<open>An approval is for one call\<close>

text \<open>
  C4: a recorded approval covers one call only. When a call is admitted on a recorded approval
  whose digest was made for some invocation and policy, then every field of this call's invocation
  and policy agrees with them (up to the order of properties and to undefined ones), whatever
  quotes, braces or separators the fields contain; the only other possibility is that two different
  binding texts, which are named, have the same SHA-256 digest.
\<close>

theorem approval_is_for_this_call:
  assumes "decideToolGovernance h v = Inr (Admit kind grant ids)"
    and "vfld (vfld v ''approval'') ''status'' = JStr ''approved''"
    and "createToolApprovalBindingDigest h (JObj subject) (JObj rules) = Inr digest"
    and "vfld (vfld v ''approval'') ''approvalBindingDigest'' = JStr digest"
    and "own_keys (vfld v ''invocation'')" "own_keys (vfld v ''policy'')" "distinct_keys subject" "distinct_keys rules"
    and "number_free (vfld v ''invocation'')" "number_free (vfld v ''policy'')" "number_free (JObj subject)" "number_free (JObj rules)"
  shows "(\<forall>f. canonical (vfld (vfld v ''invocation'') f) = canonical (fld subject f) \<and>
        canonical (vfld (vfld v ''policy'') f) = canonical (fld rules f)) \<or>
    (\<exists>t t'. binding_text h (vfld v ''invocation'') (vfld v ''policy'') = Inr t \<and>
       binding_text h (JObj subject) (JObj rules) = Inr t' \<and> t \<noteq> t' \<and>
       governance_sha256Hex t = governance_sha256Hex t')"
proof -
  let ?i = "vfld v ''invocation''" and ?p = "vfld v ''policy''"
  note valid = admitted_cases(1) [OF assms(1)]
  from authorized_justified(4) [OF valid admitted_cases(2) [OF assms(1)]] assms(2)
  have "exactly_approved h v" by simp
  with assms(4) have this_call: "createToolApprovalBindingDigest h ?i ?p = Inr digest"
    by (auto simp: exactly_approved_def)
  then obtain t where t: "binding_text h ?i ?p = Inr t" "digest = governance_sha256Hex t"
    by (auto simp: createToolApprovalBindingDigest_def binding_text_def bind_res_Inr)
  from assms(3) obtain t' where t': "binding_text h (JObj subject) (JObj rules) = Inr t'" "digest = governance_sha256Hex t'"
    by (auto simp: createToolApprovalBindingDigest_def binding_text_def bind_res_Inr)
  from record_value [of ?i] record_value [of ?p] valid_facts_parts(1,2) [OF valid]
  obtain i p where objects: "?i = JObj i" "?p = JObj p" by (auto simp: validInvocation_def validPolicy_def)
  show ?thesis
  proof (cases "t = t'")
    case True
    then have "canonical ?i = canonical (JObj subject) \<and> canonical ?p = canonical (JObj rules)"
      by (intro binding_text_exact [of h _ _ t]) (use t t' assms objects in auto)
    then have "canonical (fld i f) = canonical (fld subject f)" "canonical (fld p f) = canonical (fld rules f)" for f
      using assms(5-8) unfolding objects by (auto intro!: canonical_fields simp: own_keys_def)
    then show ?thesis unfolding objects by simp
  next
    case False
    then show ?thesis using t t' by auto
  qed
qed

section \<open>Automatic review\<close>

definition in_mode :: "string \<Rightarrow> jval \<Rightarrow> jval" where
  "in_mode mode v =
     JObj (obj_set ''context'' (JObj (obj_set ''interactionMode'' (JStr mode)
         (or_default (as_record (vfld v ''context'')) [])))
       (or_default (as_record v) []))"

lemma in_full_mode_eq: "in_full_mode v = in_mode ''full'' v"
  by (simp add: in_full_mode_def in_mode_def)

lemma vfld_record: "fld (or_default (as_record v) []) f = vfld v f"
  by (cases v) (simp_all add: as_record_def vfld_def)

lemma in_mode_fields:
  "f \<noteq> ''context'' \<Longrightarrow> vfld (in_mode m v) f = vfld v f"
  "vfld (vfld (in_mode m v) ''context'') f =
     (if f = ''interactionMode'' then JStr m else vfld (vfld v ''context'') f)"
  by (simp_all add: in_mode_def vfld_record)

lemma governance_keys_obj_set: "obj_keys (obj_set k x o') = obj_keys (obj_set k y o')"
proof -
  have "obj_keys (insert_index k x o') = obj_keys (insert_index k y o')" by (induction o') auto
  then show ?thesis by (simp add: obj_set_def)
qed

lemma in_mode_shape:
  "Kite_Governance.exactKeys (vfld (in_mode m v) ''context'') = Kite_Governance.exactKeys (vfld (in_mode m' v) ''context'')"
  "Kite_Governance.exactKeys (in_mode m v) = Kite_Governance.exactKeys (in_mode m' v)"
  "Kite_Governance.plainRecord (in_mode m v)" "Kite_Governance.plainRecord (vfld (in_mode m v) ''context'')"
proof -
  have keys: "Kite_Governance.exactKeys (JObj (obj_set k x o')) = Kite_Governance.exactKeys (JObj (obj_set k y o'))" for k x y o'
    using governance_keys_obj_set [of k x o' y] by (simp add: fun_eq_iff Kite_Governance.exactKeys_def)
  show "Kite_Governance.exactKeys (in_mode m v) = Kite_Governance.exactKeys (in_mode m' v)"
    unfolding in_mode_def by (rule keys)
  show "Kite_Governance.exactKeys (vfld (in_mode m v) ''context'') = Kite_Governance.exactKeys (vfld (in_mode m' v) ''context'')"
    by (simp add: in_mode_def) (rule keys)
qed (simp_all add: in_mode_def Kite_Governance.plainRecord_def isRecord_def)

lemma in_mode_valid:
  "isValidToolGovernanceFacts h (in_mode ''accept_edits'' v) = isValidToolGovernanceFacts h (in_mode ''auto'' v)"
proof -
  have "validContext h (vfld (in_mode ''accept_edits'' v) ''context'') = validContext h (vfld (in_mode ''auto'' v) ''context'')"
    by (simp add: validContext_def in_mode_fields(2) in_mode_shape(1) [of "''accept_edits''" v "''auto''"] in_mode_shape(4))
  then show ?thesis
    by (simp add: isValidToolGovernanceFacts_def toolGovernanceFactsInvalidReason_def identity_problem_def
        in_mode_fields(1) in_mode_shape(3) in_mode_shape(2) [of "''accept_edits''" v "''auto''"])
qed

lemma in_mode_facts:
  "gate (in_mode m v) name = gate v name" "policy_denial (in_mode m v) = policy_denial v"
  "activates_skill (in_mode m v) = activates_skill v"
  "forceManualApproval (in_mode m v) = forceManualApproval v" "forceAutoReview (in_mode m v) = forceAutoReview v"
  "sameCommandGrantMatches (in_mode m v) = sameCommandGrantMatches v"
  "m \<noteq> ''full'' \<Longrightarrow> m' \<noteq> ''full'' \<Longrightarrow> requiresApproval (in_mode m v) = requiresApproval (in_mode m' v)"
  by (simp_all add: gate_def policy_denial_def activates_skill_def forceManualApproval_def forceAutoReview_def
      activationRequiresManual_def nestedSkillRequiresManual_def nestedSkillRequiresAutoReview_def
      dynamicMcpRequiresManual_def dynamicMcpRequiresAutoReview_def uncertainShellRequiresManual_def
      sameCommandGrantMatches_def requiresApproval_def requiresEffectReview_def in_mode_fields)

text \<open>The decision of automatic review against the one of a session that asks the user.\<close>

definition review_for_question :: "jval \<Rightarrow> governance_authorization \<Rightarrow> governance_authorization \<Rightarrow> bool" where
  "review_for_question v asked reviewed \<longleftrightarrow>
     reviewed = asked \<or>
     (\<exists>p. asked = Unauthorized (GovRequestApproval p) \<and> reviewed = Unauthorized (GovRequestAutoReview p) \<and>
        \<not> truthy (vfld (vfld v ''context'') ''circuitBreakerTripped'') \<and> \<not> forceManualApproval v)"

lemma review_for_question_refl [simp]: "review_for_question v a a"
  by (simp add: review_for_question_def)

lemma modes_related:
  "review_for_question v (unapproved_decision (in_mode ''accept_edits'' v)) (unapproved_decision (in_mode ''auto'' v))"
proof -
  have "decideAcceptEdits p \<noteq> ModeAutoReview" for p by (simp add: decideAcceptEdits_def)
  then show ?thesis
    by (cases "decideAcceptEdits (vfld v ''policy'')")
      (simp_all add: review_for_question_def unapproved_decision_def decideMode_def in_mode_fields
        in_mode_facts(3-6) in_mode_facts(7) [of "''accept_edits''" "''auto''"] Let_def)
qed

lemma authorize_modes_related:
  assumes "authorizeValidToolGovernanceFacts h (in_mode ''accept_edits'' v) = Inr a"
    "authorizeValidToolGovernanceFacts h (in_mode ''auto'' v) = Inr b"
  shows "review_for_question v a b"
  using assms modes_related [of v]
  by (auto simp: authorizeValidToolGovernanceFacts_def in_mode_fields in_mode_facts(1-3) Let_def
      split: if_splits)

text \<open>
  C25: automatic review replaces the question, not the answer. For the same call, a session in
  automatic mode decides as a session in accept-edits mode does; the one difference is that where
  the user would be asked, a reviewer is asked instead with the same policy, and this only while
  the review breaker is closed and no rule reserves the question for the user. So automatic mode
  admits and rejects exactly the calls the other mode does.
\<close>

theorem auto_mode_asks_a_reviewer:
  assumes "decideToolGovernance h (in_mode ''accept_edits'' v) = Inr asked"
    and "decideToolGovernance h (in_mode ''auto'' v) = Inr reviewed"
  shows "reviewed = asked \<or>
    (\<exists>p. asked = Withhold (GovRequestApproval p) \<and> reviewed = Withhold (GovRequestAutoReview p) \<and>
       \<not> truthy (vfld (vfld v ''context'') ''circuitBreakerTripped'') \<and> \<not> forceManualApproval v)"
proof -
  from assms(1) obtain valid where valid: "isValidToolGovernanceFacts h (in_mode ''auto'' v) = Inr valid"
    by (auto simp: decideToolGovernance_def in_mode_valid bind_res_Inr)
  show ?thesis
  proof (cases valid)
    case True
    with valid assms obtain a b where
      "authorizeValidToolGovernanceFacts h (in_mode ''accept_edits'' v) = Inr a"
      "authorizeValidToolGovernanceFacts h (in_mode ''auto'' v) = Inr b"
      and "admitToolGovernance h a (vfld v ''admission'') = Inr asked" "admitToolGovernance h b (vfld v ''admission'') = Inr reviewed"
      by (auto simp: decideToolGovernance_def in_mode_valid bind_res_Inr in_mode_fields)
    with authorize_modes_related [of h v a b] show ?thesis
      by (auto simp: review_for_question_def admitToolGovernance_def)
  next
    case False
    with valid assms show ?thesis by (auto simp: decideToolGovernance_def in_mode_valid)
  qed
qed

section \<open>Where the rules have a gap\<close>

text \<open>
  A shell command with uncertain effects is meant to be approved by the user in every mode, but the
  rule is not among those that require an approval: in full mode (or for a tool that an MCP server
  calls read-only) a policy that asks for none lets it run.
\<close>

lemma uncertain_shell_in_full_mode:
  assumes "uncertain_shell_gap v"
  shows "review_forced v \<and> unapproved_decision v = Authorized ''policy_allow'' (JStr ''none'')"
  using assms
  by (auto simp: uncertain_shell_gap_def uncertain_shell_def review_forced_def minimum_forces_review_def
      forceManualApproval_def unapproved_decision_def requiresApproval_def requiresEffectReview_def
      activationRequiresManual_def nestedSkillRequiresManual_def nestedSkillRequiresAutoReview_def
      dynamicMcpRequiresManual_def dynamicMcpRequiresAutoReview_def uncertainShellRequiresManual_def Let_def)

text \<open>
  The minimum of an MCP server is validated by its spelling and compared by identity: a list around
  the word passes the validation and forces nothing.
\<close>

lemma listed_minimum_forces_nothing:
  assumes "vfld v ''dynamicMcp'' = JObj [(''minimumApproval'', JArr [JStr ''user'']), (''readOnly'', JBool b)]"
  shows "validDynamicMcp h (vfld v ''dynamicMcp'') = Inr True \<and> \<not> dynamicMcpRequiresManual v \<and> \<not> dynamicMcpRequiresAutoReview v"
  by (simp add: assms validDynamicMcp_def Kite_Governance.plainRecord_def isRecord_def Kite_Governance.exactKeys_def
      spelled_true APPROVAL_LEVELS_def is_boolean_def dynamicMcpRequiresManual_def dynamicMcpRequiresAutoReview_def)

text \<open>The two encoders differ on an unpaired surrogate, wherever it stands.\<close>

lemma encoders_differ: "governance_utf8Bytes [0xdc00] \<noteq> utf8Bytes [0xdc00]"
  by (simp add: Let_def)

section \<open>A call\<close>

definition sample_revision :: string where
  "sample_revision = replicate 64 (CHR ''a'')"

definition call_fields :: jobj where
  "call_fields = [(''workspace'', JStr ''w''), (''threadId'', JStr ''t''), (''turnId'', JStr ''u''),
     (''modelMessageId'', JStr ''m''), (''toolCallId'', JStr ''c''), (''exposedToolName'', JStr ''fetch''),
     (''operationId'', JStr ''builtin:fetch''), (''capabilityId'', JStr ''builtin:fetch'')] @
     map (\<lambda>f. (f, JStr sample_revision)) [''capabilityRevision'', ''executorRevision'', ''descriptorRevision'',
       ''parserRevision'', ''schemaDigest'', ''argumentsDigest'', ''effectiveEffectsDigest'', ''builtinCatalogRevision''] @
     map (\<lambda>f. (f, JNull)) [''bindingId'', ''dynamicCatalogRevision'', ''nestedCapabilityId'',
       ''nestedCapabilityRevision'', ''nestedCatalogRevision'', ''commandDigest'']"

definition sample_call :: jval where
  "sample_call = JObj call_fields"

text \<open>A call that reads, or one that reaches the network and asks for an approval.\<close>

definition policy_fields :: "bool \<Rightarrow> jobj" where
  "policy_fields asks = [(''operationId'', JStr ''builtin:fetch''), (''capabilityRevision'', JStr sample_revision),
     (''parserRevision'', JStr sample_revision), (''effectiveEffectsDigest'', JStr sample_revision),
     (''minimumApproval'', JStr ''none''), (''fullAccessMayBypassApproval'', JBool False),
     (''sameCommandMayBypassApproval'', JBool False), (''decision'', JStr (if asks then ''ask'' else ''allow'')),
     (''allowed'', JBool True), (''requiresApproval'', JBool asks), (''risk'', JStr (if asks then ''network'' else ''read'')),
     (''reason'', JStr ''policy''), (''expectedEffects'', JArr [JStr ''none''])] @
     (if asks then [(''effects'', JObj [(''network'', JBool True)])] else [])"

definition sample_policy :: "bool \<Rightarrow> jval" where
  "sample_policy asks = JObj (policy_fields asks)"

definition sample_facts :: "bool \<Rightarrow> jval \<Rightarrow> jval" where
  "sample_facts asks approval = JObj [(''schema'', JStr ''kite.tool-governance-facts.v1''), (''invocation'', sample_call),
     (''policy'', sample_policy asks),
     (''context'', JObj [(''phase'', JStr ''building''), (''interactionMode'', JStr ''auto''), (''sandboxAvailable'', JBool True),
        (''circuitBreakerTripped'', JBool False), (''executionMechanism'', JStr ''other''),
        (''gates'', JObj (map (\<lambda>f. (f, JStr ''admitted'')) [''recoveryAdmission'', ''boundedCancellation'',
           ''executionBoundary'', ''skillCapabilityCeiling'']))]),
     (''admission'', JObj [(''freshness'', JStr ''current''), (''reservationRequired'', JBool True),
        (''reservationIds'', JArr [JStr ''r2'', JStr ''r1'', JStr ''r2''])]),
     (''approval'', approval)]"

definition no_approval :: jval where
  "no_approval = JObj [(''status'', JStr ''queued''), (''grant'', JStr ''none''), (''approvedToolCallId'', JNull),
     (''approvalBindingDigest'', JNull)]"

lemma sample_keys:
  "distinct_keys call_fields" "distinct_keys (policy_fields asks)" "own_keys sample_call" "own_keys (sample_policy asks)"
  by (simp_all add: distinct_keys_def call_fields_def policy_fields_def own_keys_def sample_call_def sample_policy_def)

lemma sample_valid:
  "validInvocation sample_call" "validPolicy sample_host (sample_policy True) = Inr True" "number_free sample_call"
  "number_free (sample_policy True)"
  by code_simp+

lemma sample_admitted:
  "decideToolGovernance sample_host (sample_facts False no_approval) = Inr (Admit ''policy_allow'' (JStr ''none'') [''r1'', ''r2''])"
  by code_simp

theorem governance_decides_witness:
  "own_keys sample_call \<and> own_keys (sample_policy True) \<and>
   (\<exists>d. decideToolGovernance sample_host (sample_facts True no_approval) = Inr d)"
proof -
  have "list_ex string_throws (spelled_facts (sample_facts True no_approval)) = False"
    by (simp add: spelled_facts_def sample_facts_def sample_policy_def policy_fields_def no_approval_def)
  with governance_decides [of "sample_facts True no_approval" sample_host] sample_keys show ?thesis
    by (auto simp: sample_facts_def)
qed

text \<open>An envelope whose approval has an object for its status: the validation throws instead of refusing it.\<close>

definition unreadable_approval :: jval where
  "unreadable_approval = JObj [(''status'', JObj [(''toString'', JNull)]), (''grant'', JStr ''none''),
     (''approvedToolCallId'', JNull), (''approvalBindingDigest'', JNull)]"

lemma unreadable_facts_throw:
  "decideToolGovernance sample_host (sample_facts True unreadable_approval) = Inl conversion_error"
  by code_simp

theorem admitted_calls_justified_witness:
  "policy_suffices (sample_facts False no_approval) \<and> \<not> review_forced (sample_facts False no_approval)"
proof -
  have "\<not> exactly_approved sample_host (sample_facts False no_approval)"
    "\<not> uncertain_shell_gap (sample_facts False no_approval)"
    by (simp_all add: exactly_approved_def uncertain_shell_gap_def uncertain_shell_def sample_facts_def no_approval_def)
  with admitted_calls_justified [OF sample_admitted] show ?thesis by simp
qed

text \<open>The same call, asking for an approval, with the approval recorded for it.\<close>

definition sample_binding :: string where
  "sample_binding = (case createToolApprovalBindingDigest sample_host sample_call (sample_policy True) of Inl e \<Rightarrow> [] | Inr d \<Rightarrow> d)"

definition given_approval :: jval where
  "given_approval = JObj [(''status'', JStr ''approved''), (''grant'', JStr ''approve_once''), (''approvedToolCallId'', JStr ''c''),
     (''approvalBindingDigest'', JStr sample_binding)]"

lemma sample_binding_made:
  "createToolApprovalBindingDigest sample_host sample_call (sample_policy True) = Inr sample_binding"
  "is_sha256_hex sample_binding"
proof -
  obtain t where "createToolApprovalBindingDigest sample_host sample_call (sample_policy True) = Inr (governance_sha256Hex t)"
    by (rule binding_digest_total [OF sample_valid(1,2) sample_keys(3,4)])
  then show "createToolApprovalBindingDigest sample_host sample_call (sample_policy True) = Inr sample_binding"
    "is_sha256_hex sample_binding"
    by (simp_all add: sample_binding_def governance_sha256Hex_eq sha256Hex_def sha256HexBytes_hex)
qed

lemma valid_facts_approval:
  assumes "isValidToolGovernanceFacts h v = Inr True" "\<And>f. f \<noteq> ''approval'' \<Longrightarrow> vfld w f = vfld v f"
    "Kite_Governance.exactKeys w = Kite_Governance.exactKeys v" "Kite_Governance.plainRecord w"
    "validApproval h (vfld w ''approval'') = Inr True"
  shows "isValidToolGovernanceFacts h w = Inr True"
proof -
  have "identity_problem w = identity_problem v" by (simp add: identity_problem_def assms(2))
  then show ?thesis
    using assms(1,4,5) by (simp add: valid_facts_iff toolGovernanceFactsInvalidReason_def assms(2,3))
qed

lemma given_approval_valid: "isValidToolGovernanceFacts sample_host (sample_facts True given_approval) = Inr True"
proof -
  have facts: "isValidToolGovernanceFacts sample_host (sample_facts True no_approval) = Inr True" by code_simp
  have "vfld (sample_facts True given_approval) f =
      (if f = ''approval'' then given_approval else vfld (sample_facts True no_approval) f)" for f
    by (simp add: sample_facts_def)
  moreover have "Kite_Governance.exactKeys (sample_facts True given_approval) = Kite_Governance.exactKeys (sample_facts True no_approval)"
    "Kite_Governance.plainRecord (sample_facts True given_approval)"
    by (simp_all add: fun_eq_iff Kite_Governance.exactKeys_def sample_facts_def Kite_Governance.plainRecord_def isRecord_def)
  moreover have "validApproval sample_host given_approval = Inr True"
    using sample_binding_made(2)
    by (simp add: validApproval_def given_approval_def Kite_Governance.plainRecord_def isRecord_def
        Kite_Governance.exactKeys_def boundedIdentity_def nullableDigest_def digest64_def)
  ultimately show ?thesis by (intro valid_facts_approval [OF facts]) simp_all
qed

lemma approved_call_admitted:
  "decideToolGovernance sample_host (sample_facts True given_approval) =
    Inr (Admit ''approved_call'' (JStr ''approve_once'') [''r1'', ''r2''])"
proof -
  have "validAdmission sample_host (vfld (sample_facts True no_approval) ''admission'') = Inr True"
    "reservation_ids (JArr [JStr ''r2'', JStr ''r1'', JStr ''r2'']) = [''r1'', ''r2'']" by code_simp+
  then have "admitToolGovernance sample_host (Authorized k g) (vfld (sample_facts True given_approval) ''admission'') =
      Inr (Admit k g [''r1'', ''r2''])" for k g
    by (simp add: admitToolGovernance_def sample_facts_def boundedIdentity_def)
  moreover have "authorizeValidToolGovernanceFacts sample_host (sample_facts True given_approval) =
      Inr (Authorized ''approved_call'' (JStr ''approve_once''))"
  proof -
    have "approvalIdentityMatches sample_host given_approval sample_call (sample_policy True) = Inr True"
      using sample_binding_made(1) by (simp add: approvalIdentityMatches_def given_approval_def sample_call_def call_fields_def)
    then show ?thesis
      by (simp add: authorizeValidToolGovernanceFacts_def gate_def sample_facts_def given_approval_def sample_policy_def policy_fields_def)
  qed
  ultimately show ?thesis by (simp add: decideToolGovernance_def given_approval_valid)
qed

theorem approval_is_for_this_call_witness:
  "vfld (vfld (sample_facts True given_approval) ''approval'') ''approvalBindingDigest'' = JStr sample_binding \<and>
   ((\<forall>f. canonical (vfld sample_call f) = canonical (fld call_fields f) \<and>
        canonical (vfld (sample_policy True) f) = canonical (fld (policy_fields True) f)) \<or>
    (\<exists>t t'. binding_text sample_host sample_call (sample_policy True) = Inr t \<and>
       binding_text sample_host (JObj call_fields) (JObj (policy_fields True)) = Inr t' \<and> t \<noteq> t' \<and>
       governance_sha256Hex t = governance_sha256Hex t'))"
proof -
  let ?v = "sample_facts True given_approval"
  have fields: "vfld ?v ''invocation'' = sample_call" "vfld ?v ''policy'' = sample_policy True"
    "vfld (vfld ?v ''approval'') ''status'' = JStr ''approved''"
    "vfld (vfld ?v ''approval'') ''approvalBindingDigest'' = JStr sample_binding"
    by (simp_all add: sample_facts_def given_approval_def)
  have made: "createToolApprovalBindingDigest sample_host (JObj call_fields) (JObj (policy_fields True)) = Inr sample_binding"
    using sample_binding_made(1) unfolding sample_call_def sample_policy_def .
  show ?thesis
    using approval_is_for_this_call [OF approved_call_admitted fields(3) made fields(4)] sample_keys sample_valid(3,4) fields
    by (simp only: sample_call_def sample_policy_def simp_thms)
qed

theorem auto_mode_asks_a_reviewer_witness:
  "\<not> truthy (vfld (vfld (sample_facts True no_approval) ''context'') ''circuitBreakerTripped'')"
proof -
  let ?v = "sample_facts True no_approval" and ?p = "clonePolicy (sample_policy True)"
  have "decideToolGovernance sample_host (in_mode ''accept_edits'' ?v) = Inr (Withhold (GovRequestApproval ?p))"
    "decideToolGovernance sample_host (in_mode ''auto'' ?v) = Inr (Withhold (GovRequestAutoReview ?p))" by code_simp+
  from auto_mode_asks_a_reviewer [OF this] show ?thesis by simp
qed

end
