(* ===== verification/Kite_Plan_Command.thy ===== *)
theory Kite_Plan_Command
  imports Kite_Plan_Inv
begin

text \<open>
  src/packages/agent-kernel/src/plan-command.ts: the admission of the model's plan commands
  (read_plan, write_plan, update_plan) against the planning state of the active task. Shown: an
  admitted update is one the lifecycle reducer can apply (every step kept, no finished step
  reopened, a completion only of closed steps), and an admitted write or submission addresses the
  saved draft by its exact identity and never drafts a plan once side effects have started.
\<close>

section \<open>Commands\<close>

datatype plan_phase = PlanningPhase | BuildingPhase

datatype plan_action = SavePlan | SubmitPlan

record plan_identity_input =
  pi_plan_id :: "string option"
  pi_version :: "rat option"
  pi_structural_digest :: "string option"

record plan_command_facts =
  pf_taskId :: "string option"
  pf_planning :: planning_state
  pf_phase :: "plan_phase option"
  pf_sideEffectsStarted :: bool

record write_plan_command = plan_identity_input +
  wp_title :: "string option"
  wp_body_markdown :: "string option"
  wp_steps :: "(string \<times> string) list option"
  wp_expected_version :: "rat option"
  wp_replan_reason :: "string option"
  wp_action :: "plan_action option"

record step_update =
  su_step_id :: string
  su_status :: string
  su_note :: "string option"
  su_reason_code :: "string option"

record update_plan_command = plan_identity_input +
  up_updates :: "step_update list"
  up_complete_plan :: bool

datatype plan_decision = PlanRefused string string | PlanAdmitted string

datatype update_decision = UpdateRefused string string | UpdateAdmitted string "jval list"

section \<open>The planning state\<close>

fun documentForPlanning :: "planning_state \<Rightarrow> jobj option" where
  "documentForPlanning (PlanningDraft d f) = Some d"
| "documentForPlanning (ReplanningDraft d v r f) = Some d"
| "documentForPlanning (AwaitingReview d i c) = Some d"
| "documentForPlanning (Executing d a b) = Some d"
| "documentForPlanning (PlanCompleted d t) = Some d"
| "documentForPlanning _ = None"

fun activeWriteDocument :: "planning_state \<Rightarrow> jobj option" where
  "activeWriteDocument (PlanningDraft d f) = Some d"
| "activeWriteDocument (ReplanningDraft d v r f) = Some d"
| "activeWriteDocument (Executing d a b) = Some d"
| "activeWriteDocument _ = None"

fun phaseForPlanning :: "planning_state \<Rightarrow> plan_phase" where
  "phaseForPlanning PlanningEmpty = PlanningPhase"
| "phaseForPlanning (PlanningDraft d f) = PlanningPhase"
| "phaseForPlanning (ReplanningDraft d v r f) = PlanningPhase"
| "phaseForPlanning (AwaitingReview d i c) = PlanningPhase"
| "phaseForPlanning _ = BuildingPhase"

definition planCommandPhase :: "planning_state \<Rightarrow> plan_phase" where
  "planCommandPhase planning = phaseForPlanning planning"

text \<open>\<open>input.f\<close> as a value, an absent field as undefined.\<close>

definition text_input :: "string option \<Rightarrow> jval" where
  "text_input t = (case t of None \<Rightarrow> JUndef | Some s \<Rightarrow> JStr s)"

definition number_input :: "rat option \<Rightarrow> jval" where
  "number_input n = (case n of None \<Rightarrow> JUndef | Some r \<Rightarrow> JNum r)"

definition names_document :: "'a plan_identity_input_scheme \<Rightarrow> jobj \<Rightarrow> bool" where
  "names_document input document \<longleftrightarrow>
     text_input (pi_plan_id input) = fld document ''planId'' \<and>
     number_input (pi_version input) = fld document ''version'' \<and>
     text_input (pi_structural_digest input) = fld document ''structuralDigest''"

definition identityError :: "'a plan_identity_input_scheme \<Rightarrow> jobj \<Rightarrow> string option" where
  "identityError input document =
     (if pi_plan_id input = None \<or> pi_version input = None \<or> pi_structural_digest input = None
      then Some ''plan_identity_required''
      else if \<not> names_document input document then Some ''plan_identity_mismatch''
      else None)"

section \<open>Reading\<close>

definition decideReadPlanCommand :: "plan_command_facts \<Rightarrow> plan_identity_input \<Rightarrow> plan_decision" where
  "decideReadPlanCommand facts command =
     (if pf_taskId facts = None then PlanRefused ''task_required'' ''No active Task owns this Plan.''
      else
        let mismatch = PlanRefused ''read_plan_identity_mismatch''
              ''read_plan must reference the active Task plan and its current version.'' in
        case documentForPlanning (pf_planning facts) of
          None \<Rightarrow> mismatch
        | Some document \<Rightarrow>
            if text_input (pi_plan_id command) \<noteq> fld document ''planId'' \<or>
               coalesce (number_input (pi_version command)) (fld document ''version'') \<noteq> fld document ''version''
            then mismatch
            else if pi_structural_digest command \<noteq> None \<and>
               text_input (pi_structural_digest command) \<noteq> fld document ''structuralDigest''
            then PlanRefused ''read_plan_structural_digest_mismatch''
              ''read_plan structural_digest does not match the active Artifact.''
            else PlanAdmitted ''read_artifact'')"

section \<open>Writing\<close>

definition has_document :: "'a write_plan_command_scheme \<Rightarrow> bool" where
  "has_document command \<longleftrightarrow> wp_title command \<noteq> None \<and> wp_body_markdown command \<noteq> None \<and> wp_steps command \<noteq> None"

definition has_artifact :: "'a write_plan_command_scheme \<Rightarrow> bool" where
  "has_artifact command \<longleftrightarrow>
     pi_plan_id command \<noteq> None \<and> pi_version command \<noteq> None \<and> pi_structural_digest command \<noteq> None"

definition plan_action_of :: "'a write_plan_command_scheme \<Rightarrow> plan_action" where
  "plan_action_of command = or_default (wp_action command) SavePlan"

definition submit_existing :: "'a write_plan_command_scheme \<Rightarrow> bool" where
  "submit_existing command \<longleftrightarrow>
     plan_action_of command = SubmitPlan \<and> has_artifact command \<and> \<not> has_document command"

definition saved_revision :: "planning_state \<Rightarrow> bool" where
  "saved_revision planning =
     (case planning of
        ReplanningDraft d v r f \<Rightarrow>
          (case fld d ''version'' of JNum n \<Rightarrow> n > of_int v | _ \<Rightarrow> False) \<and>
          fld d ''supersedesPlanVersion'' = jint v \<and> fld d ''replanReason'' = JStr r
      | _ \<Rightarrow> False)"

definition auto_enter :: "plan_command_facts \<Rightarrow> plan_phase \<Rightarrow> write_plan_command \<Rightarrow> bool" where
  "auto_enter facts phase command \<longleftrightarrow>
     phase = BuildingPhase \<and> pf_planning facts = BuildingWithoutPlan \<and> plan_action_of command = SavePlan \<and>
     \<not> pf_sideEffectsStarted facts"

definition draft_write :: "plan_command_facts \<Rightarrow> write_plan_command \<Rightarrow> bool" where
  "draft_write facts command \<longleftrightarrow>
     (case pf_planning facts of PlanningEmpty \<Rightarrow> True | PlanningDraft d f \<Rightarrow> True | _ \<Rightarrow> False) \<and>
     has_document command \<and> plan_action_of command = SavePlan \<and> \<not> pf_sideEffectsStarted facts"

definition replan_draft_action :: "plan_command_facts \<Rightarrow> write_plan_command \<Rightarrow> bool" where
  "replan_draft_action facts command \<longleftrightarrow>
     (case pf_planning facts of ReplanningDraft d v r f \<Rightarrow> True | _ \<Rightarrow> False) \<and>
     (submit_existing command \<and> saved_revision (pf_planning facts) \<or>
      has_document command \<and> plan_action_of command = SavePlan)"

definition replan :: "plan_command_facts \<Rightarrow> plan_phase \<Rightarrow> write_plan_command \<Rightarrow> bool" where
  "replan facts phase command \<longleftrightarrow>
     phase = BuildingPhase \<and> (case pf_planning facts of Executing d a b \<Rightarrow> True | _ \<Rightarrow> False) \<and>
     has_document command \<and> plan_action_of command = SavePlan"

definition submit_allowed :: "plan_command_facts \<Rightarrow> write_plan_command \<Rightarrow> bool" where
  "submit_allowed facts command \<longleftrightarrow>
     submit_existing command \<and>
     (case pf_planning facts of
        PlanningDraft d f \<Rightarrow> names_document command d
      | ReplanningDraft d v r f \<Rightarrow> saved_revision (pf_planning facts) \<and> names_document command d
      | _ \<Rightarrow> False)"

definition version_conflict :: "plan_command_facts \<Rightarrow> write_plan_command \<Rightarrow> jobj option" where
  "version_conflict facts command =
     (case (wp_expected_version command, draft_document (pf_planning facts)) of
        (Some expected, Some d) \<Rightarrow> if JNum expected \<noteq> fld d ''version'' then Some d else None
      | _ \<Rightarrow> None)"

definition decideWritePlanCommand :: "js_host \<Rightarrow> plan_command_facts \<Rightarrow> write_plan_command \<Rightarrow> plan_decision" where
  "decideWritePlanCommand h facts command =
     (if pf_taskId facts = None then PlanRefused ''task_required'' ''write_plan requires an active Task.''
      else
        let planning = pf_planning facts; phase = or_default (pf_phase facts) (phaseForPlanning planning);
            side_effects_block = \<not> replan facts phase command \<and> has_document command \<and>
              plan_action_of command = SavePlan \<and> pf_sideEffectsStarted facts;
            addressed = (case activeWriteDocument planning of None \<Rightarrow> None
              | Some d \<Rightarrow> if has_document command \<or> submit_existing command then identityError command d else None) in
        case addressed of Some code \<Rightarrow> PlanRefused code code
        | None \<Rightarrow>
            if \<not> draft_write facts command \<and> \<not> replan_draft_action facts command \<and> \<not> auto_enter facts phase command \<and>
               \<not> replan facts phase command \<and> \<not> submit_allowed facts command
            then
              if submit_existing command
              then PlanRefused ''write_plan_submit_identity_mismatch''
                ''submit must reference the current saved plan_id, version, and structural_digest.''
              else if side_effects_block
              then PlanRefused ''write_plan_side_effects_started''
                ''write_plan cannot save a new plan after side effects have started.''
              else PlanRefused ''write_plan_document_required''
                ''write_plan requires a complete plan document when saving.''
            else
              case (if submit_allowed facts command then None else version_conflict facts command) of
                Some d \<Rightarrow> PlanRefused ''write_plan_version_conflict''
                  (''Version conflict: expected v'' @ js_String h (number_input (wp_expected_version command)) @
                   '', current is v'' @ js_String h (fld d ''version'') @ ''.'')
              | None \<Rightarrow> PlanAdmitted
                  (if auto_enter facts phase command then ''auto_enter''
                   else if draft_write facts command then ''draft_save''
                   else if replan_draft_action facts command then ''replanning_save''
                   else if replan facts phase command then ''replan_save''
                   else ''submit_existing''))"

section \<open>Progress\<close>

definition update_for :: "step_update list \<Rightarrow> jval \<Rightarrow> step_update option" where
  "update_for updates step = find (\<lambda>u. JStr (su_step_id u) = vfld step ''id'') updates"

definition reopens :: "jval list \<Rightarrow> step_update \<Rightarrow> bool" where
  "reopens steps u =
     (case find (\<lambda>step. vfld step ''id'' = JStr (su_step_id u)) steps of None \<Rightarrow> False
      | Some current \<Rightarrow> vfld current ''status'' \<in> {JStr ''completed'', JStr ''skipped''} \<and>
          JStr (su_status u) \<noteq> vfld current ''status'')"

definition next_step :: "step_update list \<Rightarrow> jval \<Rightarrow> jval" where
  "next_step updates step =
     (let o' = or_default (as_record step) [] in
      case update_for updates step of
        None \<Rightarrow> JObj (obj_set ''status'' (vfld step ''status'') o')
      | Some u \<Rightarrow>
          (let marked = obj_set ''status'' (JStr (su_status u)) o' in
           JObj (case su_note u of None \<Rightarrow> marked | Some note \<Rightarrow> obj_set ''note'' (JStr note) marked)))"

definition decideUpdatePlanCommand ::
  "plan_command_facts \<Rightarrow> string option \<Rightarrow> update_plan_command \<Rightarrow> update_decision" where
  "decideUpdatePlanCommand facts completionBlocker command =
     (if pf_taskId facts = None then UpdateRefused ''task_required'' ''No active Task owns this Plan.''
      else if pf_phase facts \<noteq> Some BuildingPhase
      then UpdateRefused ''update_plan_phase'' ''update_plan is only available in building phase after plan approval.''
      else case pf_planning facts of
        Executing document a b \<Rightarrow>
          (case identityError command document of
             Some code \<Rightarrow> UpdateRefused code code
           | None \<Rightarrow>
               let updates = up_updates command; steps = document_steps document;
                   nextSteps = map (next_step updates) steps in
               if \<not> distinct (map su_step_id updates)
               then UpdateRefused ''plan_duplicate_step_update'' ''plan_duplicate_step_update''
               else case find (\<lambda>u. \<not> list_ex (\<lambda>step. vfld step ''id'' = JStr (su_step_id u)) steps) updates of
                 Some u \<Rightarrow> UpdateRefused ''plan_unknown_step'' (''Unknown plan step ID: '' @ su_step_id u @ ''.'')
               | None \<Rightarrow>
                   if list_ex (reopens steps) updates
                   then UpdateRefused ''plan_terminal_step_rollback'' ''plan_terminal_step_rollback''
                   else if up_complete_plan command \<and>
                     list_ex (\<lambda>step. vfld step ''status'' \<in> {JStr ''pending'', JStr ''in_progress''}) nextSteps
                   then UpdateRefused ''plan_pending_steps'' ''Cannot complete plan while steps are pending or in progress.''
                   else if up_complete_plan command \<and> list_all (\<lambda>step. vfld step ''status'' = JStr ''skipped'') nextSteps
                   then UpdateRefused ''plan_all_steps_skipped'' ''plan_all_steps_skipped''
                   else if up_complete_plan command \<and> non_empty completionBlocker
                   then UpdateRefused (or_default completionBlocker []) (or_default completionBlocker [])
                   else UpdateAdmitted (if up_complete_plan command then ''complete'' else ''progress_update'') nextSteps)
      | _ \<Rightarrow> UpdateRefused ''update_plan_requires_executing'' ''No executing plan. Wait for plan approval first.'')"

section \<open>Admitted progress can be applied\<close>

text \<open>The plan of a progress event, as planDocumentToAgentPlan writes it, with the event's status.\<close>

definition progress_step :: "jval \<Rightarrow> jval" where
  "progress_step step = JObj ([(''id'', vfld step ''id''), (''step'', vfld step ''title''),
     (''status'', vfld step ''status'')] @ with_note (vfld step ''note''))"

definition progress_plan :: "jobj \<Rightarrow> string \<Rightarrow> jval list \<Rightarrow> jval" where
  "progress_plan document status steps =
     JObj [(''name'', fld document ''title''), (''description'', fld document ''bodyMarkdown''),
       (''status'', JStr status), (''steps'', JArr (map progress_step steps))]"

lemma progress_plan_is_agent_plan:
  "progress_plan document ''pending'' steps = JObj (planDocumentToAgentPlan (obj_set ''steps'' (JArr steps) document))"
  by (simp add: progress_plan_def planDocumentToAgentPlan_def document_steps_def list_of_def progress_step_def)

definition step_view :: "jval \<Rightarrow> jval \<times> jval \<times> jval \<times> jval" where
  "step_view step = (vfld step ''id'', vfld step ''title'', vfld step ''status'', vfld step ''note'')"

definition PLAN_STATUSES :: "string set" where
  "PLAN_STATUSES = {''pending'', ''in_progress'', ''completed'', ''skipped''}"

lemma next_step_fields:
  "vfld (next_step updates step) ''id'' = vfld step ''id''"
  "vfld (next_step updates step) ''title'' = vfld step ''title''"
  "vfld (next_step updates step) ''status'' =
     (case update_for updates step of None \<Rightarrow> vfld step ''status'' | Some u \<Rightarrow> JStr (su_status u))"
  "vfld (next_step updates step) ''note'' =
     (case update_for updates step of None \<Rightarrow> vfld step ''note''
      | Some u \<Rightarrow> (case su_note u of None \<Rightarrow> vfld step ''note'' | Some n \<Rightarrow> JStr n))"
  by (simp_all add: next_step_def Let_def split: option.splits)

text \<open>What the reducer reads back from the event, step by step.\<close>

definition read_back :: "step_update list \<Rightarrow> jval \<Rightarrow> jval" where
  "read_back updates step = step_from_transport (progress_step (next_step updates step))"

lemma fld_with_note: "fld (with_note n) f = (if f = ''note'' then n else JUndef)"
  by (simp add: with_note_def)

lemma read_back_fields: "step_view (read_back updates step) = step_view (next_step updates step)"
  by (simp add: read_back_def step_from_transport_def progress_step_def step_view_def fld_with_note)

lemma step_facts:
  assumes "isPlanStep step"
  shows "string_where SAFE_STEP_ID (vfld step ''id'')"
    "string_where (\<lambda>t. t = js_trim t \<and> 1 \<le> length t \<and> length t \<le> 160 \<and> no_line_break t) (vfld step ''title'')"
    "planStatus (vfld step ''status'') \<noteq> None"
    "vfld step ''note'' = JUndef \<or> (\<exists>n. vfld step ''note'' = JStr n)"
  using assms by (cases step; auto simp: isPlanStep_def string_where_def split: jval.splits)+

lemma next_step_facts:
  assumes "isPlanStep step" "\<forall>u \<in> set updates. su_status u \<in> PLAN_STATUSES"
  shows "planStatus (vfld (next_step updates step) ''status'') \<noteq> None"
    "vfld (next_step updates step) ''note'' = JUndef \<and> vfld step ''note'' = JUndef \<or>
      (\<exists>n. vfld (next_step updates step) ''note'' = JStr n)"
proof -
  have "u \<in> set updates" if "update_for updates step = Some u" for u
    using that by (auto simp: update_for_def find_Some_iff)
  with assms step_facts [OF assms(1)] show "planStatus (vfld (next_step updates step) ''status'') \<noteq> None"
    by (auto simp: next_step_fields planStatus_def PLAN_STATUSES_def split: option.splits)
  show "vfld (next_step updates step) ''note'' = JUndef \<and> vfld step ''note'' = JUndef \<or>
      (\<exists>n. vfld (next_step updates step) ''note'' = JStr n)"
    using step_facts(4) [OF assms(1)] by (auto simp: next_step_fields split: option.splits)
qed

lemma read_back_step:
  assumes "isPlanStep step" "\<forall>u \<in> set updates. su_status u \<in> PLAN_STATUSES"
  shows "isPlanStep (read_back updates step)" "transport_step (progress_step (next_step updates step))"
proof -
  let ?n = "next_step updates step"
  note facts = next_step_facts [OF assms] step_facts(1,2) [OF assms(1)]
  have note_cases: "with_note (vfld ?n ''note'') = [] \<and> vfld ?n ''note'' = JUndef \<or>
      (\<exists>n. vfld ?n ''note'' = JStr n \<and> with_note (vfld ?n ''note'') = [(''note'', JStr n)])"
    using facts(2) by (auto simp: with_note_def)
  show "transport_step (progress_step ?n)"
    using note_cases facts
    by (auto simp: transport_step_def progress_step_def hasOnlyKeys_def next_step_fields(1,2) string_where_def
        split: jval.splits)
  show "isPlanStep (read_back updates step)"
    using note_cases facts
    by (auto simp: isPlanStep_def read_back_def step_from_transport_def progress_step_def
        Kite_Lifecycle.hasExactKeys_def next_step_fields(1,2) fld_with_note string_where_def)
qed

lemma document_facts:
  assumes "Kite_Lifecycle.isPlanDocument h d"
  shows "fld d ''steps'' = JArr (document_steps d)" "\<forall>step \<in> set (document_steps d). Kite_Lifecycle.isPlanStep step"
    "string_where (\<lambda>t. True) (fld d ''title'')" "string_where (\<lambda>t. True) (fld d ''bodyMarkdown'')"
  using assms
  by (auto simp: Kite_Lifecycle.isPlanDocument_def document_steps_def list_of_def list_all_iff string_where_def
      split: jval.splits)

lemma read_back_id: "vfld (read_back updates step) ''id'' = vfld step ''id''"
  "vfld (read_back updates step) ''title'' = vfld step ''title''"
  "vfld (read_back updates step) ''status'' = vfld (next_step updates step) ''status''"
  "vfld (read_back updates step) ''note'' = vfld (next_step updates step) ''note''"
  using read_back_fields [of updates step] by (simp_all add: step_view_def next_step_fields(1,2))

lemma step_id_text: "Kite_Lifecycle.isPlanStep step \<Longrightarrow> \<not> nullish (vfld step ''id'')"
  using step_facts(1) [of step] by (auto simp: string_where_def split: jval.splits)

lemma progress_plan_read:
  assumes "Kite_Lifecycle.isPlanDocument h d" "\<forall>u \<in> set updates. su_status u \<in> PLAN_STATUSES" "status \<in> PLAN_STATUSES"
  shows "planStepsFromAgentPlanUpdate (progress_plan d status (map (next_step updates) (document_steps d))) d =
    Some (map (read_back updates) (document_steps d))"
proof -
  let ?steps = "document_steps d" and ?plan = "progress_plan d status (map (next_step updates) (document_steps d))"
  note d = document_facts [OF assms(1)]
  have "list_all transport_step (map progress_step (map (next_step updates) ?steps))"
    using d(2) read_back_step(2) [OF _ assms(2)] by (simp add: list_all_iff)
  then have "isAgentPlanTransport ?plan"
    using d(3,4) assms(3)
    by (auto simp: isAgentPlanTransport_def progress_plan_def Kite_Lifecycle.hasExactKeys_def planStatus_def
        PLAN_STATUSES_def string_where_def split: jval.splits)
  moreover have "list_all (\<lambda>c. \<not> nullish (vfld c ''id'')) (map progress_step (map (next_step updates) ?steps))"
    using d(2) step_id_text by (simp add: list_all_iff progress_step_def next_step_fields(1))
  moreover have "list_all2 (\<lambda>step existing. Kite_Lifecycle.isPlanStep step \<and> vfld step ''id'' = vfld existing ''id'' \<and>
      vfld step ''title'' = vfld existing ''title'') (map (read_back updates) ?steps) ?steps"
    using d(2) read_back_step(1) [OF _ assms(2)]
    by (auto simp: list.rel_map read_back_id intro!: list.rel_refl_strong)
  moreover have "distinct (map (\<lambda>step. vfld step ''id'') (map (read_back updates) ?steps))"
    using document_step_ids [OF assms(1)] by (simp add: comp_def read_back_id)
  moreover have "list_of (vfld ?plan ''steps'') = map progress_step (map (next_step updates) ?steps)"
    "vfld ?plan ''name'' = fld d ''title''" "vfld ?plan ''description'' = fld d ''bodyMarkdown''"
    by (simp_all add: progress_plan_def list_of_def)
  moreover have "map step_from_transport (map progress_step (map (next_step updates) ?steps)) = map (read_back updates) ?steps"
    by (simp add: read_back_def)
  ultimately show ?thesis unfolding planStepsFromAgentPlanUpdate_def Let_def by argo
qed

lemma merged_next:
  assumes "Kite_Lifecycle.isPlanDocument h d" "\<forall>u \<in> set updates. su_status u \<in> PLAN_STATUSES"
  shows "map step_view (mergePlanSteps (document_steps d) (map (read_back updates) (document_steps d))) =
    map step_view (map (next_step updates) (document_steps d))"
proof -
  let ?steps = "document_steps d"
  have "distinct (map (\<lambda>step. vfld step ''id'') (map (read_back updates) ?steps))"
    using document_step_ids [OF assms(1)] by (simp add: comp_def read_back_id)
  then have named: "step_named (rev (map (read_back updates) ?steps)) (vfld step ''id'') = Some (read_back updates step)"
    if "step \<in> set ?steps" for step
    using step_named_distinct [of "map (read_back updates) ?steps" "read_back updates step"] that
    by (simp add: read_back_id)
  have "coalesce (vfld (next_step updates step) ''note'') (vfld step ''note'') = vfld (next_step updates step) ''note''"
    if "step \<in> set ?steps" for step
    using next_step_facts(2) [OF _ assms(2), of step] document_facts(2) [OF assms(1)] that by (auto simp: coalesce_def)
  with named show ?thesis
    by (simp add: mergePlanSteps_def step_view_def next_step_fields(1,2) read_back_id)
qed

lemma closed_steps_stay:
  assumes "Kite_Lifecycle.isPlanDocument h d" "\<not> list_ex (reopens (document_steps d)) updates" "step \<in> set (document_steps d)"
    "vfld step ''status'' \<in> {JStr ''completed'', JStr ''skipped''}"
  shows "vfld (next_step updates step) ''status'' = vfld step ''status''"
proof (cases "update_for updates step")
  case (Some u)
  then have u: "u \<in> set updates" "JStr (su_step_id u) = vfld step ''id''"
    by (auto simp: update_for_def find_Some_iff)
  have "find (\<lambda>y. vfld y ''id'' = vfld step ''id'') (document_steps d) = Some step"
    by (rule find_distinct [OF document_step_ids [OF assms(1)] assms(3)])
  then show ?thesis
    using assms(2,4) u Some by (auto simp: list_ex_iff reopens_def next_step_fields)
qed (simp add: next_step_fields)

lemma step_view_columns:
  assumes "map step_view xs = map step_view ys"
  shows "map (\<lambda>step. vfld step ''id'') xs = map (\<lambda>step. vfld step ''id'') ys"
    "map (\<lambda>step. vfld step ''status'') xs = map (\<lambda>step. vfld step ''status'') ys"
proof -
  have "map fst (map step_view xs) = map fst (map step_view ys)"
    "map (\<lambda>v. fst (snd (snd v))) (map step_view xs) = map (\<lambda>v. fst (snd (snd v))) (map step_view ys)"
    unfolding assms by (rule refl)+
  then show "map (\<lambda>step. vfld step ''id'') xs = map (\<lambda>step. vfld step ''id'') ys"
    "map (\<lambda>step. vfld step ''status'') xs = map (\<lambda>step. vfld step ''status'') ys"
    by (simp_all add: comp_def step_view_def)
qed

lemma update_admitted:
  assumes "decideUpdatePlanCommand facts blocker command = UpdateAdmitted mode new"
  obtains d a b where "pf_planning facts = Executing d a b" "new = map (next_step (up_updates command)) (document_steps d)"
    "\<not> list_ex (reopens (document_steps d)) (up_updates command)" "identityError command d = None"
    "mode = (if up_complete_plan command then ''complete'' else ''progress_update'')"
    "up_complete_plan command \<Longrightarrow> \<not> list_ex step_open new \<and> \<not> list_all (\<lambda>step. vfld step ''status'' = JStr ''skipped'') new \<and>
       \<not> non_empty blocker"
  using assms
  by (auto simp: decideUpdatePlanCommand_def Let_def step_open_def list_ex_iff
      split: if_splits planning_state.splits option.splits)

text \<open>
  C8: progress the admission lets through is progress the reducer can apply. When an update_plan
  command is admitted for an executing plan whose document is valid, the plan built from the
  admitted steps is accepted by the lifecycle reducer's reading of the event: it gives back one
  step for every step of the document, merging them reopens no finished step and yields exactly the
  admitted identifiers, titles, states and notes, and for an admitted completion no step is left
  open and not all are skipped. The command names the plan, version and digest of the document.
\<close>

theorem admitted_progress_applies:
  assumes "decideUpdatePlanCommand facts blocker command = UpdateAdmitted mode new"
    and "pf_planning facts = Executing d a b" and "Kite_Lifecycle.isPlanDocument h d"
    and "\<forall>u \<in> set (up_updates command). su_status u \<in> PLAN_STATUSES" and "status \<in> PLAN_STATUSES"
  shows "names_document command d \<and>
    (\<exists>steps. planStepsFromAgentPlanUpdate (progress_plan d status new) d = Some steps \<and>
      \<not> hasTerminalStepRollback (document_steps d) (mergePlanSteps (document_steps d) steps) \<and>
      map step_view (mergePlanSteps (document_steps d) steps) = map step_view new \<and>
      (mode = ''complete'' \<longrightarrow> \<not> list_ex step_open (mergePlanSteps (document_steps d) steps) \<and>
         \<not> list_all (\<lambda>step. vfld step ''status'' = JStr ''skipped'') (mergePlanSteps (document_steps d) steps)))"
proof -
  let ?updates = "up_updates command" and ?steps = "document_steps d"
  let ?merged = "mergePlanSteps ?steps (map (read_back ?updates) ?steps)"
  from assms(1,2) have new: "new = map (next_step ?updates) ?steps" and
    open_ok: "\<not> list_ex (reopens ?steps) ?updates" and
    complete: "mode = ''complete'' \<Longrightarrow> \<not> list_ex step_open new \<and> \<not> list_all (\<lambda>step. vfld step ''status'' = JStr ''skipped'') new"
    and named: "names_document command d"
    by (auto elim!: update_admitted simp: identityError_def split: if_splits)
  have views: "map step_view ?merged = map step_view new"
    unfolding new by (rule merged_next [OF assms(3,4)])
  note statuses = step_view_columns(2) [OF views]
  have ids: "map (\<lambda>step. vfld step ''id'') ?merged = map (\<lambda>step. vfld step ''id'') ?steps"
    using step_view_columns(1) [OF views] by (simp add: new comp_def next_step_fields(1))
  have kept: "\<not> hasTerminalStepRollback ?steps ?merged"
  proof
    assume "hasTerminalStepRollback ?steps ?merged"
    then obtain i where i: "i < length ?steps" "vfld (?steps ! i) ''status'' \<in> {JStr ''completed'', JStr ''skipped''}"
      "map_option (\<lambda>u. vfld u ''status'') (step_named (rev ?merged) (vfld (?steps ! i) ''id'')) \<noteq> Some (vfld (?steps ! i) ''status'')"
      by (auto simp: hasTerminalStepRollback_def list_ex_iff in_set_conv_nth)
    have len: "length ?merged = length ?steps" by (simp add: mergePlanSteps_def)
    have "distinct (map (\<lambda>step. vfld step ''id'') ?merged)" unfolding ids by (rule document_step_ids [OF assms(3)])
    from step_named_distinct [OF this, of "?merged ! i"] i(1) len
    have "step_named (rev ?merged) (vfld (?merged ! i) ''id'') = Some (?merged ! i)" by simp
    moreover have "vfld (?merged ! i) ''id'' = vfld (?steps ! i) ''id''"
      using nth_map [of i ?merged "\<lambda>step. vfld step ''id''"] nth_map [of i ?steps "\<lambda>step. vfld step ''id''"] ids i(1) len by simp
    moreover have "vfld (?merged ! i) ''status'' = vfld (new ! i) ''status''"
      using nth_map [of i ?merged "\<lambda>step. vfld step ''status''"] nth_map [of i new "\<lambda>step. vfld step ''status''"]
        statuses i(1) len by (simp add: new)
    moreover have "vfld (new ! i) ''status'' = vfld (?steps ! i) ''status''"
      using closed_steps_stay [OF assms(3) open_ok nth_mem [OF i(1)] i(2)] i(1) by (simp add: new)
    ultimately show False using i(3) by simp
  qed
  show ?thesis
  proof (intro conjI exI)
    show "names_document command d" by (rule named)
    show "planStepsFromAgentPlanUpdate (progress_plan d status new) d = Some (map (read_back ?updates) ?steps)"
      unfolding new by (rule progress_plan_read [OF assms(3,4,5)])
    have "list_ex step_open ?merged = list_ex step_open new"
      "list_all (\<lambda>step. vfld step ''status'' = JStr ''skipped'') ?merged = list_all (\<lambda>step. vfld step ''status'' = JStr ''skipped'') new"
      using arg_cong [OF statuses, of "list_ex (\<lambda>v. v = JStr ''pending'' \<or> v = JStr ''in_progress'')"]
        arg_cong [OF statuses, of "list_all (\<lambda>v. v = JStr ''skipped'')"]
      by (simp_all add: list_ex_iff list_all_iff step_open_def)
    with complete show "mode = ''complete'' \<longrightarrow> \<not> list_ex step_open ?merged \<and>
         \<not> list_all (\<lambda>step. vfld step ''status'' = JStr ''skipped'') ?merged" by simp
  qed (use kept views in simp_all)
qed

section \<open>Admitted writes\<close>

lemma identity_names: "identityError command d = None \<longleftrightarrow> has_artifact command \<and> names_document command d"
  by (auto simp: identityError_def has_artifact_def)

lemma write_admitted:
  assumes "decideWritePlanCommand h facts command = PlanAdmitted mode"
  shows "pf_taskId facts \<noteq> None"
    and "\<forall>d. activeWriteDocument (pf_planning facts) = Some d \<longrightarrow> has_document command \<or> submit_existing command \<longrightarrow>
      names_document command d"
    and "submit_allowed facts command \<or> version_conflict facts command = None"
    and "mode = ''auto_enter'' \<and> auto_enter facts (or_default (pf_phase facts) (phaseForPlanning (pf_planning facts))) command \<or>
      mode = ''draft_save'' \<and> draft_write facts command \<or>
      mode = ''replanning_save'' \<and> replan_draft_action facts command \<or>
      mode = ''replan_save'' \<and> replan facts (or_default (pf_phase facts) (phaseForPlanning (pf_planning facts))) command \<or>
      mode = ''submit_existing'' \<and> submit_allowed facts command \<and> \<not> replan_draft_action facts command"
proof -
  let ?phase = "or_default (pf_phase facts) (phaseForPlanning (pf_planning facts))"
  show task: "pf_taskId facts \<noteq> None" using assms by (cases "pf_taskId facts") (simp_all add: decideWritePlanCommand_def)
  let ?addressed = "case activeWriteDocument (pf_planning facts) of None \<Rightarrow> None
      | Some d \<Rightarrow> if has_document command \<or> submit_existing command then identityError command d else None"
  have addressed: "?addressed = None"
    using assms task by (cases ?addressed) (simp_all add: decideWritePlanCommand_def Let_def)
  then show "\<forall>d. activeWriteDocument (pf_planning facts) = Some d \<longrightarrow> has_document command \<or> submit_existing command \<longrightarrow>
      names_document command d"
    by (auto simp: identity_names split: if_splits)
  note decided = assms [unfolded decideWritePlanCommand_def Let_def if_not_P [OF task] addressed option.case]
  have way: "draft_write facts command \<or> replan_draft_action facts command \<or> auto_enter facts ?phase command \<or>
      replan facts ?phase command \<or> submit_allowed facts command"
    using decided by (simp split: if_splits) 
  have free: "(if submit_allowed facts command then None else version_conflict facts command) = None"
    using decided way by (cases "if submit_allowed facts command then None else version_conflict facts command") (auto split: if_splits)
  then show "submit_allowed facts command \<or> version_conflict facts command = None" by (simp split: if_splits)
  from decided way free show "mode = ''auto_enter'' \<and> auto_enter facts ?phase command \<or>
      mode = ''draft_save'' \<and> draft_write facts command \<or>
      mode = ''replanning_save'' \<and> replan_draft_action facts command \<or>
      mode = ''replan_save'' \<and> replan facts ?phase command \<or>
      mode = ''submit_existing'' \<and> submit_allowed facts command \<and> \<not> replan_draft_action facts command"
    by (auto split: if_splits)
qed

text \<open>
  A plan is written only where the code means it to be. An admitted write_plan command belongs
  to a task; a first plan or a new version of a draft is saved only before side effects have
  started; a new version of a running plan, of a draft or of a replanning draft names the saved
  document by plan, version and digest; a submission is of the saved draft itself, or of a
  replanning draft that has been saved as the successor of the plan it replaces; and a save that
  states the version it expects finds it.
\<close>

theorem admitted_writes_are_addressed:
  assumes "decideWritePlanCommand h facts command = PlanAdmitted mode"
  shows "pf_taskId facts \<noteq> None \<and>
    (mode = ''auto_enter'' \<and> pf_planning facts = BuildingWithoutPlan \<and> \<not> pf_sideEffectsStarted facts \<or>
     mode = ''draft_save'' \<and> has_document command \<and> \<not> pf_sideEffectsStarted facts \<and>
       (pf_planning facts = PlanningEmpty \<or> (\<exists>d f. pf_planning facts = PlanningDraft d f \<and> names_document command d)) \<or>
     mode = ''replan_save'' \<and> has_document command \<and>
       (\<exists>d a b. pf_planning facts = Executing d a b \<and> names_document command d) \<or>
     mode = ''submit_existing'' \<and> \<not> has_document command \<and>
       (\<exists>d f. pf_planning facts = PlanningDraft d f \<and> names_document command d) \<or>
     mode = ''replanning_save'' \<and> (has_document command \<or> saved_revision (pf_planning facts)) \<and>
       (\<exists>d v r f. pf_planning facts = ReplanningDraft d v r f \<and> names_document command d)) \<and>
    (\<forall>d expected. draft_document (pf_planning facts) = Some d \<and> wp_expected_version command = Some expected \<and>
       has_document command \<longrightarrow> fld d ''version'' = JNum expected)"
proof -
  note admitted = write_admitted [OF assms]
  have "fld d ''version'' = JNum expected" if "draft_document (pf_planning facts) = Some d"
    "wp_expected_version command = Some expected" "has_document command" for d expected
    using admitted(3) that
    by (auto simp: version_conflict_def submit_allowed_def submit_existing_def split: if_splits)
  moreover have "mode = ''auto_enter'' \<and> pf_planning facts = BuildingWithoutPlan \<and> \<not> pf_sideEffectsStarted facts \<or>
     mode = ''draft_save'' \<and> has_document command \<and> \<not> pf_sideEffectsStarted facts \<and>
       (pf_planning facts = PlanningEmpty \<or> (\<exists>d f. pf_planning facts = PlanningDraft d f \<and> names_document command d)) \<or>
     mode = ''replan_save'' \<and> has_document command \<and>
       (\<exists>d a b. pf_planning facts = Executing d a b \<and> names_document command d) \<or>
     mode = ''submit_existing'' \<and> \<not> has_document command \<and>
       (\<exists>d f. pf_planning facts = PlanningDraft d f \<and> names_document command d) \<or>
     mode = ''replanning_save'' \<and> (has_document command \<or> saved_revision (pf_planning facts)) \<and>
       (\<exists>d v r f. pf_planning facts = ReplanningDraft d v r f \<and> names_document command d)"
    using admitted(4)
  proof (elim disjE conjE)
    assume "mode = ''auto_enter''" "auto_enter facts (or_default (pf_phase facts) (phaseForPlanning (pf_planning facts))) command"
    then show ?thesis by (simp add: auto_enter_def)
  next
    assume "mode = ''draft_save''" "draft_write facts command"
    then show ?thesis using admitted(2) by (cases "pf_planning facts") (simp_all add: draft_write_def)
  next
    assume "mode = ''replanning_save''" "replan_draft_action facts command"
    then show ?thesis using admitted(2) by (cases "pf_planning facts") (auto simp: replan_draft_action_def)
  next
    assume "mode = ''replan_save''" "replan facts (or_default (pf_phase facts) (phaseForPlanning (pf_planning facts))) command"
    then show ?thesis using admitted(2) by (cases "pf_planning facts") (simp_all add: replan_def)
  next
    assume "mode = ''submit_existing''" "submit_allowed facts command" "\<not> replan_draft_action facts command"
    then show ?thesis
      by (cases "pf_planning facts") (auto simp: submit_allowed_def replan_draft_action_def submit_existing_def)
  qed
  ultimately show ?thesis using admitted(1) by blast
qed

section \<open>A plan in execution\<close>

definition plan_text :: jobj where
  "plan_text = [(''title'', JStr ''Plan''), (''bodyMarkdown'', JStr ''Describe the change, then make it.''),
     (''steps'', JArr [JObj [(''id'', JStr ''s1''), (''title'', JStr ''describe''), (''status'', JStr ''completed'')],
       JObj [(''id'', JStr ''s2''), (''title'', JStr ''make''), (''status'', JStr ''pending'')]])]"

definition plan_digest :: string where
  "plan_digest = Kite_Lifecycle.computePlanStructuralDigest sample_host plan_text"

definition running_plan :: jobj where
  "running_plan = [(''planSchemaVersion'', JNum 2), (''planId'', JStr ''p''), (''version'', JNum 2)] @ plan_text @
     [(''structuralDigest'', JStr plan_digest), (''createdAtTurnId'', JStr ''u''), (''updatedAtTurnId'', JStr ''u''),
      (''completionEvidence'', emptyPlanCompletionEvidence)]"

definition replan_command :: write_plan_command where
  "replan_command = \<lparr>pi_plan_id = Some ''p'', pi_version = Some 2, pi_structural_digest = Some plan_digest,
     wp_title = Some ''t'', wp_body_markdown = Some ''b'', wp_steps = Some [(''s'', ''do it'')],
     wp_expected_version = None, wp_replan_reason = Some ''blocked'', wp_action = None\<rparr>"

definition running_facts :: "jobj \<Rightarrow> plan_command_facts" where
  "running_facts d = \<lparr>pf_taskId = Some ''task'', pf_planning = Executing d ''auto'' ''turn'', pf_phase = Some BuildingPhase,
     pf_sideEffectsStarted = True\<rparr>"

lemma running_plan_valid: "Kite_Lifecycle.isPlanDocument sample_host running_plan"
proof -
  have steps: "list_all Kite_Lifecycle.isPlanStep (list_of (fld plan_text ''steps''))" by code_simp
  have evidence: "Kite_Lifecycle.isPlanCompletionEvidence emptyPlanCompletionEvidence" by code_simp
  have texts: "js_trim ''Plan'' = ''Plan''" "js_trim ''Describe the change, then make it.'' = ''Describe the change, then make it.''"
    "SAFE_SEGMENT ''p''" "no_line_break ''Plan''" by code_simp+
  have "computePlanStructuralDigest sample_host running_plan = plan_digest"
    by (simp add: plan_digest_def Kite_Lifecycle.computePlanStructuralDigest_def running_plan_def plan_text_def)
  moreover have "is_sha256_hex plan_digest"
    by (simp add: plan_digest_def Kite_Lifecycle.computePlanStructuralDigest_def sha256Hex_def sha256HexBytes_hex)
  ultimately show ?thesis
    using steps evidence texts
    by (simp add: Kite_Lifecycle.isPlanDocument_def running_plan_def plan_text_def hasOnlyKeys_def PLAN_KEYS_def
        string_where_def is_integer_def int_of_def list_of_def)
qed

theorem admitted_writes_are_addressed_witness:
  "\<exists>d a b. pf_planning (running_facts running_plan) = Executing d a b \<and> names_document replan_command d"
proof -
  have "decideWritePlanCommand sample_host (running_facts running_plan) replan_command = PlanAdmitted ''replan_save''"
    by (simp add: decideWritePlanCommand_def running_facts_def replan_command_def identityError_def names_document_def
        running_plan_def plan_text_def text_input_def number_input_def has_document_def plan_action_of_def replan_def
        auto_enter_def draft_write_def replan_draft_action_def submit_allowed_def submit_existing_def version_conflict_def)
  from admitted_writes_are_addressed [OF this] show ?thesis by simp
qed

definition finish_command :: update_plan_command where
  "finish_command = \<lparr>pi_plan_id = Some ''p'', pi_version = Some 2, pi_structural_digest = Some plan_digest,
     up_updates = [\<lparr>su_step_id = ''s2'', su_status = ''completed'', su_note = Some ''done'', su_reason_code = None\<rparr>],
     up_complete_plan = True\<rparr>"

theorem admitted_progress_applies_witness:
  "\<exists>new steps. decideUpdatePlanCommand (running_facts running_plan) None finish_command = UpdateAdmitted ''complete'' new \<and>
     planStepsFromAgentPlanUpdate (progress_plan running_plan ''completed'' new) running_plan = Some steps \<and>
     \<not> list_ex step_open (mergePlanSteps (document_steps running_plan) steps)"
proof -
  have steps: "document_steps running_plan = list_of (fld plan_text ''steps'')"
    by (simp add: document_steps_def running_plan_def plan_text_def)
  define new where "new = map (next_step (up_updates finish_command)) (list_of (fld plan_text ''steps''))"
  have "identityError finish_command running_plan = None"
    by (simp add: identityError_def finish_command_def names_document_def text_input_def number_input_def
        running_plan_def plan_text_def)
  then have admitted: "decideUpdatePlanCommand (running_facts running_plan) None finish_command = UpdateAdmitted ''complete'' new"
    unfolding decideUpdatePlanCommand_def new_def
    by (simp add: running_facts_def steps finish_command_def plan_text_def list_of_def reopens_def next_step_def
        update_for_def non_empty_def Let_def)
  then show ?thesis
    using admitted_progress_applies [OF admitted, of running_plan "''auto''" "''turn''" sample_host "''completed''"] running_plan_valid
    by (auto simp: running_facts_def finish_command_def PLAN_STATUSES_def)
qed

end
