(* ===== verification/Kite_Terminal.thy ===== *)
theory Kite_Terminal
  imports Kite_Outcome
begin

text \<open>
  src/packages/agent-kernel/src/terminal-outcome.ts: the outcome of a run that the host attaches to
  a terminal event before it reaches the kernel. normalization.ts has a second version, described
  there as its pure equivalent; the two are compared here.
\<close>

section \<open>Outcomes\<close>

definition completedTerminalOutcome :: jobj where
  "completedTerminalOutcome =
     [(''version'', JNum 1), (''status'', JStr ''completed''), (''reasonCode'', JStr ''completed''),
      (''knownExternalEffects'', JStr ''known''), (''safeRetry'', JBool False),
      (''recoveryEntry'', JStr ''none''), (''pendingVerification'', JBool False)]"

definition failed_status :: "string \<Rightarrow> string option \<Rightarrow> bool \<Rightarrow> string" where
  "failed_status reasonCode knownExternalEffects needsUserIntervention =
     (if reasonCode = ''budget_exhausted'' \<or> reasonCode = ''process_limit_exceeded'' then ''budget_exhausted''
      else if reasonCode = ''resource_saturated'' \<or> reasonCode = ''tool_concurrency_saturated'' \<or>
        reasonCode = ''shell_concurrency_saturated'' then ''resource_saturated''
      else if reasonCode = ''unknown'' \<or> knownExternalEffects = Some ''unknown'' then ''unknown''
      else if needsUserIntervention then ''blocked'' else ''aborted'')"

definition failedTerminalOutcome ::
  "classified_failure \<Rightarrow> string option \<Rightarrow> bool option \<Rightarrow> string option \<Rightarrow> jobj" where
  "failedTerminalOutcome failure effects pendingVerification suppliedReason =
     (let reasonCode = or_default suppliedReason (terminalReasonForRuntimeFailure (cf_kind failure));
          knownExternalEffects = or_default effects ''known'' in
      [(''version'', JNum 1),
       (''status'', JStr (failed_status reasonCode effects (fs_needsUserIntervention failure))),
       (''reasonCode'', JStr reasonCode), (''knownExternalEffects'', JStr knownExternalEffects),
       (''safeRetry'', JBool (fs_retryable failure \<and> knownExternalEffects \<noteq> ''unknown'')),
       (''recoveryEntry'', JStr (if knownExternalEffects = ''unknown'' then ''reconcile''
          else if fs_retryable failure then ''retry''
          else if fs_needsUserIntervention failure then ''operator_action'' else ''new_run'')),
       (''pendingVerification'', JBool (or_default pendingVerification False))])"

text \<open>A failure the event carries, read as the classified failure its type says it is.\<close>

definition carried_failure :: "jobj \<Rightarrow> classified_failure" where
  "carried_failure f =
     failure_with (strategy (truthy (fld f ''retryable'')) (truthy (fld f ''modelFixable''))
         (truthy (fld f ''needsUserIntervention'')) (truthy (fld f ''terminatesTurn'')) (truthy (fld f ''journal'')))
       (or_default (stringField f ''kind'') []) (or_default (stringField f ''message'') [])
       (stringField f ''parseFailureCode'')"

definition normalizeTerminalRuntimeEvent :: "kernel_event \<Rightarrow> kernel_event" where
  "normalizeTerminalRuntimeEvent e =
     (let payload = ev_data e; undecided = \<not> truthy (fld payload ''outcome'') in
      if ev_type e = ''run.completed'' \<and> undecided
      then e\<lparr>ev_data := obj_set ''outcome'' (JObj completedTerminalOutcome) payload\<rparr>
      else if ev_type e = ''run.error'' \<and> undecided then
        let failure = (case recordField payload ''failure'' of Some f \<Rightarrow> f
              | None \<Rightarrow> failure_json (classifyRuntimeFailure ''unknown'' (or_default (stringField payload ''message'') []) None));
            effects = (if fld failure ''kind'' = JStr ''unknown'' then ''unknown'' else ''known'') in
        e\<lparr>ev_data := obj_set ''outcome'' (JObj (failedTerminalOutcome (carried_failure failure) (Some effects) None None))
          (obj_set ''failure'' (JObj failure) payload)\<rparr>
      else normalizeTerminalAgentEvent e)"

section \<open>The two normalisers\<close>

lemma completed_outcomes_agree:
  "completedTerminalOutcome = run_outcome ''completed'' ''completed'' ''known'' False ''none''"
  by (simp add: completedTerminalOutcome_def run_outcome_def)

lemma reasons_of_failures:
  "terminalReasonForRuntimeFailure kind \<notin> {''tool_concurrency_saturated'', ''shell_concurrency_saturated''}"
  "terminalReasonForRuntimeFailure kind = ''unknown'' \<longleftrightarrow> kind = ''unknown''"
  "terminalReasonForRuntimeFailure kind = ''process_limit_exceeded'' \<longleftrightarrow> kind = ''process_limit_exceeded''"
  by (simp_all add: terminalReasonForRuntimeFailure_def TERMINAL_REASON_BY_FAILURE_def)

lemma failed_outcomes_agree:
  "failedTerminalOutcome f (Some (if cf_kind f = ''unknown'' then ''unknown'' else ''known'')) None None = error_outcome f \<longleftrightarrow>
    cf_kind f \<noteq> ''process_limit_exceeded''"
  using reasons_of_failures [of "cf_kind f"]
  by (auto simp: failedTerminalOutcome_def error_outcome_def run_outcome_def failed_status_def Let_def)

lemma failure_json_fields:
  "fld (failure_json f) ''kind'' = JStr (cf_kind f)" "fld (failure_json f) ''retryable'' = JBool (fs_retryable f)"
  "fld (failure_json f) ''needsUserIntervention'' = JBool (fs_needsUserIntervention f)"
  by (simp_all add: failure_json_def)

text \<open>Only the kind, the retry flag and the intervention flag of a failure shape its outcome.\<close>

lemma outcome_cong:
  assumes "cf_kind f = cf_kind g" "fs_retryable f = fs_retryable g" "fs_needsUserIntervention f = fs_needsUserIntervention g"
  shows "error_outcome f = error_outcome g" "failedTerminalOutcome f a b c = failedTerminalOutcome g a b c"
  using assms by (simp_all add: error_outcome_def failedTerminalOutcome_def)

text \<open>
  A failure as its type declares it: a kind of the list and two flags that are booleans. The flags
  the host reads for their truth and the kernel for their type are then the same.
\<close>

definition declared_failure :: "jobj \<Rightarrow> bool" where
  "declared_failure f \<longleftrightarrow> (case stringField f ''kind'' of Some kind \<Rightarrow> kind \<in> set FAILURE_KINDS | None \<Rightarrow> False) \<and>
     booleanField f ''retryable'' \<noteq> None \<and> booleanField f ''needsUserIntervention'' \<noteq> None"

text \<open>A failed run as its type declares it: with a message, and a failure or none.\<close>

definition declared_error :: "jobj \<Rightarrow> bool" where
  "declared_error payload \<longleftrightarrow> stringField payload ''message'' \<noteq> None \<and>
     (case recordField payload ''failure'' of Some f \<Rightarrow> declared_failure f
      | None \<Rightarrow> fld payload ''failure'' \<in> {JUndef, JNull})"

lemma failure_json_declared: "cf_kind f \<in> set FAILURE_KINDS \<Longrightarrow> declared_failure (failure_json f)"
  by (simp add: declared_failure_def stringField_def booleanField_def failure_json_fields)

lemma supplied_agrees:
  assumes "declared_failure f"
  shows "\<exists>g. suppliedFailure (Some f) = Some g \<and> error_outcome g = error_outcome (carried_failure f)"
proof -
  from assms obtain kind a b where f: "fld f ''kind'' = JStr kind" "kind \<in> set FAILURE_KINDS"
    "fld f ''retryable'' = JBool a" "fld f ''needsUserIntervention'' = JBool b"
    by (auto simp: declared_failure_def stringField_def booleanField_def as_string_def split: option.splits jval.splits)
  then obtain g where g: "suppliedFailure (Some f) = Some g"
    by (simp add: suppliedFailure_def stringField_def Let_def)
  then have "cf_kind g = cf_kind (carried_failure f)" "fs_retryable g = fs_retryable (carried_failure f)"
    "fs_needsUserIntervention g = fs_needsUserIntervention (carried_failure f)"
    using f
    by (auto simp: suppliedFailure_def stringField_def booleanField_def carried_failure_def failure_with_def
        strategy_def Let_def split: if_splits)
  then show ?thesis using g outcome_cong(1) by blast
qed

text \<open>The failure both normalisers show, and the kernel's event for it.\<close>

definition shown_failure :: "jobj \<Rightarrow> jobj" where
  "shown_failure payload = (case recordField payload ''failure'' of Some f \<Rightarrow> f
     | None \<Rightarrow> failure_json (classifyRuntimeFailure ''unknown'' (or_default (stringField payload ''message'') []) None))"

lemma unknown_is_declared: "declared_failure (failure_json (classifyRuntimeFailure ''unknown'' m None))"
  by (rule failure_json_declared) (simp add: classifyRuntimeFailure_def failure_with_def FAILURE_KINDS_def)

lemma shown_is_declared: "declared_error payload \<Longrightarrow> declared_failure (shown_failure payload)"
  by (auto simp: declared_error_def shown_failure_def unknown_is_declared split: option.splits)

lemma kernel_error_event:
  assumes "ev_type e = ''run.error''" "''outcome'' \<notin> set (obj_keys (ev_data e))" "declared_error (ev_data e)"
  shows "normalizeTerminalAgentEvent e = e\<lparr>ev_data :=
    obj_set ''outcome'' (JObj (error_outcome (carried_failure (shown_failure (ev_data e)))))
      (obj_set ''failure'' (JObj (shown_failure (ev_data e))) (ev_data e))\<rparr>"
proof (cases "recordField (ev_data e) ''failure''")
  case (Some f)
  then have "declared_failure f" using assms(3) by (simp add: declared_error_def)
  from supplied_agrees [OF this] Some obtain g where
    "failureFor e = Some g" "error_outcome g = error_outcome (carried_failure f)"
    by (auto simp: failureFor_def Let_def)
  then show ?thesis using assms(1,2) Some by (simp add: normalizeTerminalAgentEvent_def shown_failure_def Let_def)
next
  case None
  from assms(3) obtain m where m: "stringField (ev_data e) ''message'' = Some m" by (auto simp: declared_error_def)
  let ?f = "classifyRuntimeFailure ''unknown'' ''Runtime failure.'' None"
  have "failureFor e = Some ?f"
    using assms(1) None by (simp add: failureFor_def suppliedFailure_def stringField_def Let_def)
  moreover have "?f\<lparr>cf_message := m\<rparr> = classifyRuntimeFailure ''unknown'' m None"
    by (simp add: classifyRuntimeFailure_def failure_with_def)
  moreover have "error_outcome ?f = error_outcome (carried_failure (failure_json (classifyRuntimeFailure ''unknown'' m None)))"
    by (rule outcome_cong) (simp_all add: carried_failure_def failure_json_fields stringField_def
        classifyRuntimeFailure_def failure_with_def strategy_def strategy_of_def)
  ultimately show ?thesis
    using assms(1,2) None m by (simp add: normalizeTerminalAgentEvent_def shown_failure_def Let_def)
qed

lemma host_error_event:
  assumes "ev_type e = ''run.error''" "\<not> truthy (fld (ev_data e) ''outcome'')" "declared_error (ev_data e)"
  defines "f \<equiv> carried_failure (shown_failure (ev_data e))"
  shows "normalizeTerminalRuntimeEvent e = e\<lparr>ev_data :=
    obj_set ''outcome'' (JObj (failedTerminalOutcome f (Some (if cf_kind f = ''unknown'' then ''unknown'' else ''known'')) None None))
      (obj_set ''failure'' (JObj (shown_failure (ev_data e))) (ev_data e))\<rparr>"
proof -
  from shown_is_declared [OF assms(3)] obtain kind where "fld (shown_failure (ev_data e)) ''kind'' = JStr kind"
    by (auto simp: declared_failure_def stringField_def as_string_def split: option.splits jval.splits)
  then have "(fld (shown_failure (ev_data e)) ''kind'' = JStr ''unknown'') = (cf_kind f = ''unknown'')"
    by (simp add: f_def carried_failure_def failure_with_def stringField_def)
  then show ?thesis
    using assms(1,2) unfolding normalizeTerminalRuntimeEvent_def shown_failure_def [symmetric] Let_def f_def by simp
qed

lemma outcome_set_inject:
  "e\<lparr>ev_data := obj_set ''outcome'' a p\<rparr> = e\<lparr>ev_data := obj_set ''outcome'' b p\<rparr> \<longleftrightarrow> a = b"
proof
  assume "e\<lparr>ev_data := obj_set ''outcome'' a p\<rparr> = e\<lparr>ev_data := obj_set ''outcome'' b p\<rparr>"
  from arg_cong [OF this, of ev_data] have "obj_set ''outcome'' a p = obj_set ''outcome'' b p" by simp
  from arg_cong [OF this, of "\<lambda>p. fld p ''outcome''"] show "a = b" by simp
qed simp

text \<open>
  C30: where the host's and the kernel's terminal outcomes agree, and where they do not. For a run
  event whose message and failure have their declared types (the failure may be missing), the host's
  normaliser gives the event the kernel's pure version gives, except in two cases: the run failed
  because it exceeded the process limit, which the host calls an exhausted budget and the kernel a
  blocked or aborted run; or the event has an outcome key that holds nothing (undefined, null), which
  the host fills and the kernel leaves.
\<close>

theorem terminal_normalisers_agree:
  assumes "ev_type e = ''run.error'' \<longrightarrow> declared_error (ev_data e)"
  shows "normalizeTerminalRuntimeEvent e = normalizeTerminalAgentEvent e \<longleftrightarrow>
    \<not> (ev_type e \<in> {''run.completed'', ''run.error''} \<and>
       ''outcome'' \<in> set (obj_keys (ev_data e)) \<and> \<not> truthy (fld (ev_data e) ''outcome'')) \<and>
    \<not> (ev_type e = ''run.error'' \<and> ''outcome'' \<notin> set (obj_keys (ev_data e)) \<and>
       fld (shown_failure (ev_data e)) ''kind'' = JStr ''process_limit_exceeded'')"
proof -
  have absent: "fld (ev_data e) ''outcome'' = JUndef" if "''outcome'' \<notin> set (obj_keys (ev_data e))"
    using that by (simp add: fld_def in_obj_keys_iff)
  consider (other) "ev_type e \<notin> {''run.completed'', ''run.error''} \<or> truthy (fld (ev_data e) ''outcome'')"
    | (empty) "ev_type e \<in> {''run.completed'', ''run.error''}" "\<not> truthy (fld (ev_data e) ''outcome'')"
        "''outcome'' \<in> set (obj_keys (ev_data e))"
    | (completed) "ev_type e = ''run.completed''" "''outcome'' \<notin> set (obj_keys (ev_data e))"
    | (failed) "ev_type e = ''run.error''" "''outcome'' \<notin> set (obj_keys (ev_data e))"
    by blast
  then show ?thesis
  proof cases
    case other
    then have "normalizeTerminalRuntimeEvent e = normalizeTerminalAgentEvent e"
      by (auto simp: normalizeTerminalRuntimeEvent_def Let_def)
    then show ?thesis using other absent by auto
  next
    case empty
    then have "truthy (fld (ev_data (normalizeTerminalRuntimeEvent e)) ''outcome'')"
      by (auto simp: normalizeTerminalRuntimeEvent_def Let_def)
    moreover have "normalizeTerminalAgentEvent e = e" using empty(3) by (simp add: normalizeTerminalAgentEvent_def)
    ultimately show ?thesis using empty by auto
  next
    case completed
    then show ?thesis using absent
      by (simp add: normalizeTerminalRuntimeEvent_def normalizeTerminalAgentEvent_def completed_outcomes_agree Let_def)
  next
    case failed
    let ?f = "carried_failure (shown_failure (ev_data e))"
    have declared: "declared_error (ev_data e)" using assms failed(1) by simp
    then have "(fld (shown_failure (ev_data e)) ''kind'' = JStr ''process_limit_exceeded'') =
        (cf_kind ?f = ''process_limit_exceeded'')"
      using shown_is_declared [OF declared]
      by (auto simp: declared_failure_def carried_failure_def failure_with_def stringField_def as_string_def
          split: option.splits jval.splits)
    then show ?thesis
      using failed absent failed_outcomes_agree [of ?f]
      by (simp add: kernel_error_event [OF failed declared] host_error_event [OF failed(1) _ declared] outcome_set_inject)
  qed
qed

definition limit_failure :: classified_failure where
  "limit_failure = classifyRuntimeFailure ''process_limit_exceeded'' ''too many processes'' None"

definition limit_error :: kernel_event where
  "limit_error = \<lparr>ev_type = ''run.error'', ev_data = [(''message'', JStr ''too many processes''),
     (''failure'', JObj (failure_json limit_failure))]\<rparr>"

definition bare_error :: kernel_event where
  "bare_error = \<lparr>ev_type = ''run.error'', ev_data = [(''message'', JStr ''no model'')]\<rparr>"

theorem terminal_normalisers_agree_witness:
  "normalizeTerminalRuntimeEvent limit_error \<noteq> normalizeTerminalAgentEvent limit_error \<and>
   normalizeTerminalRuntimeEvent bare_error = normalizeTerminalAgentEvent bare_error"
proof -
  have "declared_error (ev_data limit_error)" "declared_error (ev_data bare_error)"
    "''outcome'' \<notin> set (obj_keys (ev_data limit_error))" "''outcome'' \<notin> set (obj_keys (ev_data bare_error))"
    "fld (shown_failure (ev_data limit_error)) ''kind'' = JStr ''process_limit_exceeded''"
    "fld (shown_failure (ev_data bare_error)) ''kind'' = JStr ''unknown''"
    by code_simp+
  then show ?thesis
    using terminal_normalisers_agree [of limit_error] terminal_normalisers_agree [of bare_error]
    by (simp add: limit_error_def bare_error_def)
qed

end
