(* ===== verification/Kite_Fork.thy ===== *)
theory Kite_Fork
  imports Kite_Capability_Inv
begin

text \<open>
  The guards of src/packages/agent-kernel/src/state-codec.ts under which a session may be forked:
  no sandbox and no subagent of the source session still has to be cleaned up, and the request of
  the one open interaction is left out of the copied history. Shown: for every reachable state the
  guard refuses a fork exactly when some invocation is in the state in which the capability reducer
  refuses to start it again.
\<close>

section \<open>The guards\<close>

definition sandbox_cleanup_pending :: "jobj \<Rightarrow> bool" where
  "sandbox_cleanup_pending invocation =
     (if recordField invocation ''sandboxPreparationReady'' \<noteq> None
      then stringField (or_default (recordField invocation ''sandboxDisposal'') []) ''status'' \<noteq> Some ''completed''
      else recordField invocation ''sandboxPreparationIntent'' \<noteq> None \<and>
        stringField (or_default (recordField invocation ''sandboxPreparationAbandonment'') []) ''status''
          \<noteq> Some ''completed'')"

definition hasPendingSandboxCleanupAuthority :: "agent_state \<Rightarrow> bool" where
  "hasPendingSandboxCleanupAuthority s =
     list_ex (\<lambda>c. sandbox_cleanup_pending (ci_facts c)) (obj_values (st_invocations s))"

definition subagent_cleanup_pending :: "jobj \<Rightarrow> bool" where
  "subagent_cleanup_pending invocation \<longleftrightarrow>
     recordField invocation ''subagentProviderLifecycle'' \<noteq> None \<and>
     stringField (or_default (recordField invocation ''subagentProviderLifecycle'') []) ''status''
       \<noteq> Some ''cleanup_completed''"

definition hasPendingSubagentCleanupAuthority :: "agent_state \<Rightarrow> bool" where
  "hasPendingSubagentCleanupAuthority s =
     list_ex (\<lambda>c. subagent_cleanup_pending (ci_facts c)) (obj_values (st_invocations s))"

definition canForkAgentState :: "agent_state \<Rightarrow> bool" where
  "canForkAgentState s \<longleftrightarrow> \<not> hasPendingSandboxCleanupAuthority s \<and> \<not> hasPendingSubagentCleanupAuthority s"

text \<open>The request event of each kind of interaction, and the field that names the interaction.\<close>

definition requested_by :: "interaction \<Rightarrow> (string \<times> string \<times> string option) option" where
  "requested_by i =
     (case i of
        Idle \<Rightarrow> None
      | AwaitingUserInput interactionId c p \<Rightarrow> Some (''user_input.requested'', ''interactionId'', Some interactionId)
      | AwaitingToolApproval interactionId c p \<Rightarrow> Some (''approval.requested'', ''interactionId'', Some interactionId)
      | AwaitingPlanReview interactionId c p v d a t x \<Rightarrow>
          Some (''plan.review_requested'', ''interactionId'', Some interactionId)
      | AwaitingProviderAction interactionId p a c st \<Rightarrow>
          Some (''provider.action_required'', ''interactionId'', Some interactionId)
      | AwaitingProviderAdmission entry \<Rightarrow>
          Some (''provider.admission_required'', ''interactionId'', stringField entry ''interactionId'')
      | AwaitingAutoReview interactionId c n r a \<Rightarrow> Some (''auto_review.requested'', ''reviewId'', Some interactionId))"

definition isCurrentPendingInteractionRequest :: "agent_state \<Rightarrow> kernel_event \<Rightarrow> bool" where
  "isCurrentPendingInteractionRequest s e =
     (case requested_by (st_interactions s) of
        None \<Rightarrow> False
      | Some (ty, f, interactionId) \<Rightarrow>
          non_empty interactionId \<and> ev_type e = ty \<and> stringField (ev_data e) f = interactionId)"

section \<open>Forking waits for the cleanup\<close>

lemma attempt_evidence_record:
  assumes "evidence_current o'" "f \<in> set ATTEMPT_EVIDENCE"
  shows "fld o' f = JUndef \<or> (\<exists>r. fld o' f = JObj r)"
proof -
  from assms consider "fld o' f = JUndef" | a where "vfld (fld o' f) ''attempt'' = JNum a"
    by (auto simp: evidence_current_def belongs_to_attempt_def)
  then show ?thesis
  proof cases
    case 2
    then show ?thesis by (cases "fld o' f") simp_all
  qed simp
qed

lemma evidence_fields:
  assumes "evidence_current o'" "f \<in> set ATTEMPT_EVIDENCE"
  shows "recordField o' f = None \<longleftrightarrow> \<not> truthy (fld o' f)"
    "stringField (or_default (recordField o' f) []) g = Some t \<longleftrightarrow> part o' f g = JStr t"
  using attempt_evidence_record [OF assms] by (auto simp: recordField_def stringField_def part_def)

lemma cleanup_open_pending:
  "evidence_current o' \<Longrightarrow> cleanup_open o' \<longleftrightarrow> sandbox_cleanup_pending o' \<or> subagent_cleanup_pending o'"
  unfolding cleanup_open_def sandbox_cleanup_pending_def subagent_cleanup_pending_def
  by (simp add: evidence_fields ATTEMPT_EVIDENCE_def)

text \<open>
  C11: a session can be forked exactly when nothing is left to clean up. In every state the composed
  kernel can reach, the fork guard holds if and only if no invocation has a sandbox or a subagent
  that still has to be disposed of, which is the condition under which the capability reducer lets
  an invocation start another attempt.
\<close>

theorem fork_waits_for_cleanup:
  assumes "kernel_reachable h s"
  shows "canForkAgentState s \<longleftrightarrow> (\<forall>i c. map_of (st_invocations s) i = Some c \<longrightarrow> \<not> cleanup_open (ci_facts c))"
proof -
  have ok: "invocations_ok s" by (rule reachable_invocations [OF assms])
  then have stored: "c \<in> set (obj_values (st_invocations s)) \<longleftrightarrow> (\<exists>i. map_of (st_invocations s) i = Some c)" for c
    unfolding invocations_ok_def obj_values_def by (force simp: distinct_keys_map_of)
  have "cleanup_open (ci_facts c) \<longleftrightarrow> sandbox_cleanup_pending (ci_facts c) \<or> subagent_cleanup_pending (ci_facts c)"
    if "map_of (st_invocations s) i = Some c" for i c
    using ok that by (intro cleanup_open_pending) (simp add: invocations_ok_def)
  then show ?thesis
    unfolding canForkAgentState_def hasPendingSandboxCleanupAuthority_def hasPendingSubagentCleanupAuthority_def
      list_ex_iff Bex_def stored by blast
qed

theorem fork_waits_for_cleanup_witness:
  "canForkAgentState recorded_state \<and> map_of (st_invocations recorded_state) ''i'' \<noteq> None"
proof -
  have keys: "obj_keys (st_invocations recorded_state) = [''i'']" by code_simp
  have "map_option (\<lambda>c. cleanup_open (ci_facts c)) (map_of (st_invocations recorded_state) ''i'') = Some False" by code_simp
  moreover have "i = ''i''" if "map_of (st_invocations recorded_state) i = Some c" for i c
    using that keys in_obj_keys_iff [of i "st_invocations recorded_state"] by simp
  ultimately show ?thesis
    using fork_waits_for_cleanup [OF recorded_state_reachable] by fastforce
qed

end
