(* ===== verification/Spec2Isabelle.thy ===== *)
theory Spec2Isabelle
  imports Kite_Lease_Inv Kite_Approval Kite_Review Kite_Work Kite_Recovery_Inv Kite_Scheduler
    Kite_Outcome_Inv Kite_Authorization_Inv Kite_Intent_Inv Kite_Journal_Inv Kite_Kernel_Inv
    Kite_Lifecycle_Inv Kite_Plan_Inv Kite_Verification_Inv Kite_Model_Inv Kite_Capability_Inv Kite_Admission_Inv
    Kite_Governance_Inv Kite_Plan_Command Kite_Terminal Kite_Fork
begin

text \<open>
  A verification of the agent kernel of kite-code.

  kite-code is a coding agent: a service hosts sessions, a model proposes tool calls, a user
  approves them, tools run. All decisions are taken by the agent kernel,
  src/packages/agent-kernel/src: a pure TypeScript library over JSON-safe data, in which a state
  (state.ts) is folded over events by a fixed list of reducers and a scheduler reads the state to
  name the next effect. Everything else in the repository stores events, runs effects or shows
  them. The kernel is what is modelled here; file names below are relative to its src directory.

  \<^bold>\<open>The parts and how they interact.\<close> The host offers a command; \<open>decide\<close> (kernel.ts) checks its
  events with the event codec (codec.ts), completes them with canonical tool outcomes
  (normalization.ts), folds them through the fixed list of eleven reducers (reducer.ts), stamps each
  applied event with a revision and an identity, and lets scheduler.ts name the effect to run.
  The reducers share the state and nothing else: lifecycle (tasks, turns, plans), authorization (the
  approval queue, with grant keys from approval-queue.ts), recovery and intent (tool calls, and the
  journal of failed ones kept by recovery.ts), lease (the resource ledger), completion (the end of
  turns and tasks, asking the guard of completion.ts), work, interaction, capability, context and
  verification. The scheduler asks the same completion guard before it emits a final answer, and
  execution-traits.ts which calls may overlap. effect-admission.ts decides what the host may commit
  for an effect it ran; restart-recovery.ts projects the events that settle what a crash left behind.
  In front of the commands stand three decisions the host asks the kernel for: tool-governance.ts
  whether a tool call may run, plan-command.ts whether a plan command of the model is admitted, and
  terminal-outcome.ts how a run ended; the guards of state-codec.ts say when a session may be forked.

  \<^bold>\<open>Theories and sources.\<close>
  \<^item> Kite_Prelude: JavaScript values and objects, field accessors (reducer-utils.ts), JSON text, the
    result type of code that throws, stable sorting; the locale \<open>key_store\<close> with its
    interpretations \<open>js_object\<close> (objects: index keys first) and \<open>es_map\<close> (ES maps: insertion order).
  \<^item> Kite_State: the state of state.ts as records and datatypes, its selectors, createInitialAgentState.
  \<^item> Kite_Traits: execution-traits.ts. The locale \<open>compatibility\<close> is the contract of an overlap rule;
    batch selection is proved against it.
  \<^item> Kite_Lease, Kite_Lease_Inv: core/lease/reducer.ts. Reachable ledgers, the budget bound, the
    reservation state machine; the locale \<open>sweep\<close> carries the restart argument of Kite_Work.
  \<^item> Kite_Hash: hash.ts, against FIPS 180-4 and the Unicode definition of UTF-8.
  \<^item> Kite_Approval: approval-queue.ts. Kite_Review: auto-review.ts, doom-loop.ts,
    verification-policy.ts. Kite_Work: work-scope.ts, interaction-governance.ts, restart-recovery.ts.
  \<^item> Kite_Recovery, Kite_Recovery_Inv: the journal of recovery.ts; Kite_Journal, Kite_Journal_Inv: reading
    a foreign journal and merging the journal of a subagent.
  \<^item> Kite_Completion: completion.ts and core/completion/reducer.ts.
  \<^item> Kite_Scheduler: scheduler.ts and effects.ts.
  \<^item> Kite_Outcome, Kite_Outcome_Inv: normalization.ts.
  \<^item> Kite_Authorization, Kite_Authorization_Inv: core/authorization/reducer.ts. The locale
    \<open>tracked_sweep\<close> is the contract of a loop body over the approval queue; its six interpretations
    are the six loops of the reducer.
  \<^item> Kite_Intent, Kite_Intent_Inv: core/intent/reducer.ts, tool calls and their transcript.
  \<^item> Kite_Repair: domains/recovery/reducer.ts and domains/work/reducer.ts. Kite_Lifecycle:
    core/lifecycle/reducer.ts. Kite_Interaction, Kite_Capability, Kite_Context, Kite_Verification: the
    reducers of the same name under domains/.
  \<^item> Kite_Codec: the assertions of codec.ts and encoding. Kite_Kernel: reducer.ts and kernel.ts.
    Kite_Coverage: event-coverage.ts, the table of which reducer owns which event.
  \<^item> Kite_Frame: what each reducer leaves alone. The locales \<open>quiet_view\<close>, \<open>capability_view\<close>,
    \<open>model_view\<close>, \<open>verdict_view\<close>, \<open>steady_view\<close>, \<open>journal_view\<close>, \<open>working_view\<close>, \<open>dialogue_view\<close>,
    \<open>approval_view\<close>, \<open>standing_view\<close> and \<open>ledger_view\<close> are the contracts of a view of the state that
    some group of fields does not influence; their interpretations are the parts of the state that have
    one owner, so that a component's invariant carries over to the composed kernel.
  \<^item> Kite_Kernel_Inv, Kite_Lifecycle_Inv, Kite_Plan_Inv, Kite_Verification_Inv, Kite_Model_Inv,
    Kite_Capability_Inv: properties of the composed kernel, part by part.
  \<^item> Kite_Admission, Kite_Admission_Inv: effect-admission.ts.
  \<^item> Kite_Governance, Kite_Governance_Inv: tool-governance.ts, with its own serialisation and its own
    copy of SHA-256. Kite_Plan_Command: plan-command.ts, against the lifecycle reducer. Kite_Terminal:
    terminal-outcome.ts, against normalization.ts. Kite_Fork: the fork guards of state-codec.ts, against
    the capability reducer.

  \<^bold>\<open>How the code is read.\<close> A definition has the name of the function it translates; parts of a long
  function have names of their own, and the manifest gives their lines. Events are a discriminant and
  a JSON object, as the reducers receive them, so every validation of a payload is part of the model.
  The state is typed: optional fields are options, enumerations datatypes; payloads that the code
  itself revalidates at each use stay JSON objects. A thrown error is \<open>Inl\<close> of its message. Numbers
  that the code requires to be safe integers are \<open>int\<close> or \<open>nat\<close>, other finite numbers \<open>rat\<close>; sums
  of ledger entries are exact, which they are in the code below 2^53. Words in hash.ts are 32-bit
  words and wrap. Strings are lists of code units below 256, except in Kite_Hash, where utf8Bytes is
  modelled on 16-bit code units. Date.parse, localeCompare and the printing and reading of numbers
  belong to the platform and are fields of the parameter \<open>js_host\<close>; nothing is assumed about them
  except where a theorem says so. \<open>String(value)\<close> throws a TypeError on a JSON object with a property
  named toString. Where the code decides by the spelling of a value that may be any JSON value (the
  facts of scheduler.ts and tool-governance.ts, the stored journal of recovery.ts, the canonical
  outcome check of normalization.ts) this error is modelled (\<open>to_string\<close>, \<open>spelled\<close>) and the claims
  say when it occurs; elsewhere \<open>js_String\<close> is applied to strings and numbers that were checked or are
  so typed, or only shapes the text of an error. Keys inherited from Object.prototype are not
  modelled. The conversions between outcomes or failures as records and as JSON objects (\<open>outcome_json\<close>,
  \<open>read_outcome\<close>, \<open>recovery_json\<close>, \<open>read_recovery\<close>, \<open>read_failure\<close>, and the words of the enumerations)
  are views of the model: the code has one object for both and no such functions. A status that a loose comparison lets through although it is no string reads as unknown, a plan document
  without identity reads as a mismatch, and the two full-mode flags of an approval entry are stored as
  truth values, which is how they are used.

  \<^bold>\<open>What the theorems show.\<close>
  \<^item> The composed kernel: a command applies a subsequence of its events in order, each through the
    reducers and under a new identity, and leaves out only events already known; the invariants of the approval queue,
    the ledger and the journal hold in every reachable state, and an event changes only what the
    reducer that owns it changes.
  \<^item> Plans, verifications, model invocations and capability invocations refine state machines of
    their own in every reachable state: plans keep their identity and never lose a finished step,
    unless their task is started again under the same identifier; verifications are earned, attempts are bounded and wait for cleanup.
  \<^item> Admission: no capability outlives its tool call, the timestamps the host owes are named exactly,
    late evidence of a model call stays with that call.
  \<^item> Governance: a tool call is admitted only with a justification, an approval covers exactly one
    call, a decision is reached unless a fact cannot be spelled, and automatic review replaces the
    question to the user only. One justification is a gap of the code, named as such: a shell command
    with uncertain effects whose policy asks for no approval.
  \<^item> Agreement of parts that repeat each other's rules: admitted plan progress is progress the
    lifecycle reducer can apply; a session can be forked exactly when no invocation waits for a
    cleanup; the two normalisers of terminal events agree except in two named cases; the two
    copies of SHA-256 agree on well-formed text.
  \<^item> Safety of dispatch: a scheduled tool call exists, belongs to the current work, is startable and
    may overlap with what it is dispatched with; an open interaction blocks everything but authorised
    calls; the model is called and a final answer emitted only when nothing else is due.
  \<^item> Authorisation: the approval queue is consistent in every reachable state, entries refine a
    four-phase machine, become authorised only on four grounds, receipts are spent once, and
    revocation leaves no standing authorisation and disables older decisions for good.
  \<^item> Resources: the ledger invariant and the budget bound in every reachable state, the reservation
    machine, and that a restart settles the ledger.
  \<^item> Recovery: the journal invariant, the bound on further attempts, closing and compaction; a foreign
    journal is refused or well formed, and merging one keeps the parent's failures and blocks; the
    result is well formed unless both claim the same call, which the code does not check.
  \<^item> Tool calls, under the intent reducer: they refine a lifecycle machine, a terminal event ends its
    call, and the answers to a model message stand in the order of its calls. The interaction reducer
    does not respect this: it can reopen a call that has ended (\<open>reopened_call_answered_twice\<close> below).
  \<^item> Completion: the guard accepts only quiescent work with exact evidence, and only an accepted
    guard ends a task.
  \<^item> Outcomes: the normaliser produces canonical outcomes, retries need evidence of safety,
    dates are counted in the Gregorian calendar.
  \<^item> Functions with a reference definition: SHA-256 (whose reference shares the constant tables and
    the loading and printing of words with the code), UTF-8, the overlap rule, focus selection,
    identities of commands and failures.

  \<^bold>\<open>Bounds and termination.\<close> Every function is total. The loops of the source that are not
  structural (the closure and retention loops of the journal, the lineage walks) carry termination
  proofs by the number of entries not yet visited; no fuel is used, and no theorem is restricted to
  inputs of bounded size.

  \<^bold>\<open>Not modelled.\<close> Of the kernel: JSON.parse and what only serves it (decoding in codec.ts; encoding,
  decoding and rebinding of whole states in state-codec.ts; state-migration.ts for older stored states;
  the runtime checker of invariants.ts apart from the evidence validators the codec calls;
  context-normalization.ts, which repairs restored context facts), and the reporting files
  (observability.ts, failure-mode-conformance.ts, runtime-scheduling-policy.ts). Outside the kernel: storage, transport, process execution and user
  interfaces, which are effects on the outside world rather than decisions. A JSON object written by
  the codec has its discriminant first; a verification mode that is no known string reads as best effort;
  the reduction ratio of a compaction is an exact fraction.
\<close>

section \<open>Two reducers and one tool call\<close>

text \<open>
  The intent reducer never touches a call that has ended, but the interaction reducer sets any call
  to waiting when input is requested for it. Two calls are queued and cancelled; a request for user
  input then reopens the first, and a second cancellation answers it again in the transcript.
\<close>

definition input_request :: kernel_event where
  "input_request = \<lparr>ev_type = ''user_input.requested'', ev_data = [(''interactionId'', JStr ''q''),
     (''toolCallId'', JStr ''a''), (''request'', JObj [])]\<rparr>"

lemma reopened_call_answered_twice:
  "answered_calls (ts_messages (st_transcript both_cancelled)) = [''a'', ''b''] \<and>
   (\<exists>s'. reduceIntentState sample_host (reduceInteractionState both_cancelled input_request) (cancelled_event ''a'') = Inr s' \<and>
      answered_calls (ts_messages (st_transcript s')) = [''a'', ''a'', ''b''])"
proof -
  have "answered_calls (ts_messages (st_transcript both_cancelled)) = [''a'', ''b'']"
    "map_option (\<lambda>s'. answered_calls (ts_messages (st_transcript s'))) (case reduceIntentState sample_host
       (reduceInteractionState both_cancelled input_request) (cancelled_event ''a'') of Inl _ \<Rightarrow> None | Inr s' \<Rightarrow> Some s') =
     Some [''a'', ''a'', ''b'']"
    by code_simp+
  then show ?thesis by (auto split: sum.splits)
qed

end
